(* ===== verification/Prelude.thy ===== *)
theory Prelude
  imports Main
begin

text \<open>
  The prelude holds what every component of the development shares: the result type of a
  Python computation that may raise (\<open>'e + 'a\<close>, \<open>Inl\<close> the exception), its sequencing
  and its loops, and the rewriting collections the component proofs use.
\<close>

section \<open>Results of computations that may raise\<close>

text \<open>\<open>bindE m f\<close> is "run \<open>m\<close>; if it raised, so do we; otherwise go on with its value".\<close>

definition bindE :: "'e + 'a \<Rightarrow> ('a \<Rightarrow> 'e + 'b) \<Rightarrow> 'e + 'b" where
  "bindE m f = (case m of Inl e \<Rightarrow> Inl e | Inr x \<Rightarrow> f x)"

text \<open>\<open>guardE b e\<close> is Python's \<open>if not b: raise e\<close>.\<close>

definition guardE :: "bool \<Rightarrow> 'e \<Rightarrow> 'e + unit" where
  "guardE b e = (if b then Inr () else Inl e)"

text \<open>A \<open>for\<close> loop that collects one value per element and stops at the first exception.\<close>

fun mapE :: "('a \<Rightarrow> 'e + 'b) \<Rightarrow> 'a list \<Rightarrow> 'e + 'b list" where
  "mapE f [] = Inr []"
| "mapE f (x # xs) = bindE (f x) (\<lambda>y. bindE (mapE f xs) (\<lambda>ys. Inr (y # ys)))"

text \<open>A \<open>for\<close> loop that only checks its elements.\<close>

fun allE :: "('a \<Rightarrow> 'e + unit) \<Rightarrow> 'a list \<Rightarrow> 'e + unit" where
  "allE f [] = Inr ()"
| "allE f (x # xs) = bindE (f x) (\<lambda>_. allE f xs)"

text \<open>\<open>try: m  except E: raise e\<close>: every exception of \<open>m\<close> becomes \<open>e\<close>.\<close>

definition mapError :: "('e \<Rightarrow> 'f) \<Rightarrow> 'e + 'a \<Rightarrow> 'f + 'a" where
  "mapError h m = (case m of Inl e \<Rightarrow> Inl (h e) | Inr x \<Rightarrow> Inr x)"

named_theorems result_simps \<open>equations that take a successful result apart\<close>

lemma bindE_simps [simp]:
  "bindE (Inl e) f = Inl e"
  "bindE (Inr x) f = f x"
  by (simp_all add: bindE_def)

lemma bindE_cong [fundef_cong]:
  "m = m' \<Longrightarrow> (\<And>x. m' = Inr x \<Longrightarrow> f x = f' x) \<Longrightarrow> bindE m f = bindE m' f'"
  by (cases m') simp_all

lemma bindE_eq_Inr [result_simps]: "bindE m f = Inr y \<longleftrightarrow> (\<exists>x. m = Inr x \<and> f x = Inr y)"
  by (cases m) auto

lemma bindE_eq_Inl: "bindE m f = Inl e \<longleftrightarrow> m = Inl e \<or> (\<exists>x. m = Inr x \<and> f x = Inl e)"
  by (cases m) auto

lemma bindE_assoc: "bindE (bindE m f) g = bindE m (\<lambda>x. bindE (f x) g)"
  by (cases m) auto

lemma guardE_simps [simp]:
  "guardE True e = Inr ()"
  "guardE False e = Inl e"
  by (simp_all add: guardE_def)

lemma guardE_eq_Inr [result_simps]: "guardE b e = Inr x \<longleftrightarrow> b"
  by (simp add: guardE_def)

lemma guardE_eq_Inl: "guardE b e = Inl e' \<longleftrightarrow> \<not> b \<and> e' = e"
  by (auto simp: guardE_def)

lemma mapError_simps [simp]:
  "mapError h (Inl e) = Inl (h e)"
  "mapError h (Inr x) = Inr x"
  by (simp_all add: mapError_def)

lemma mapError_eq_Inr [result_simps]: "mapError h m = Inr x \<longleftrightarrow> m = Inr x"
  by (cases m) auto

lemma mapError_eq_Inl: "mapError h m = Inl e \<longleftrightarrow> (\<exists>e'. m = Inl e' \<and> e = h e')"
  by (cases m) auto

lemma mapE_cong [fundef_cong]:
  "xs = ys \<Longrightarrow> (\<And>x. x \<in> set ys \<Longrightarrow> f x = g x) \<Longrightarrow> mapE f xs = mapE g ys"
  by (induction xs arbitrary: ys) auto

lemma mapE_eq_Inr: "mapE f xs = Inr ys \<longleftrightarrow> list_all2 (\<lambda>x y. f x = Inr y) xs ys"
  by (induction xs arbitrary: ys) (auto simp: result_simps list_all2_Cons1)

lemma mapE_length: "mapE f xs = Inr ys \<Longrightarrow> length ys = length xs"
  by (auto simp: mapE_eq_Inr dest: list_all2_lengthD)

lemma mapE_Inr: "(\<And>x. x \<in> set xs \<Longrightarrow> f x = Inr (g x)) \<Longrightarrow> mapE f xs = Inr (map g xs)"
  by (induction xs) auto

lemma mapE_eq_map: "mapE f xs = Inr ys \<Longrightarrow> (\<And>x y. f x = Inr y \<Longrightarrow> g y = h x) \<Longrightarrow> map g ys = map h xs"
  by (induction xs arbitrary: ys) (auto simp: result_simps)

lemma mapE_same:
  "mapE f xs = Inr d \<Longrightarrow> (\<And>x y. x \<in> set xs \<Longrightarrow> f x = Inr y \<Longrightarrow> y = x) \<Longrightarrow> d = xs \<and> (\<forall>x \<in> set xs. f x = Inr x)"
proof (induction xs arbitrary: d)
  case (Cons x xs)
  from Cons.prems(1) obtain y ys where y: "f x = Inr y" "mapE f xs = Inr ys" "d = y # ys" by (auto simp: result_simps)
  have "y = x" by (rule Cons.prems(2) [OF _ y(1)]) simp
  moreover have "ys = xs \<and> (\<forall>x \<in> set xs. f x = Inr x)"
    by (rule Cons.IH [OF y(2)]) (rule Cons.prems(2), simp_all)
  ultimately show ?case using y by simp
qed simp

lemma allE_eq_Inr [result_simps]: "allE f xs = Inr u \<longleftrightarrow> (\<forall>x \<in> set xs. f x = Inr ())"
  by (induction xs) (auto simp: result_simps)

section \<open>Association lists in the order of a Python dict\<close>

text \<open>
  \<open>dict_set k v d\<close> is \<open>d[k] = v\<close>: an existing key keeps its position, a new one goes last.
\<close>

fun dict_set :: "'k \<Rightarrow> 'v \<Rightarrow> ('k \<times> 'v) list \<Rightarrow> ('k \<times> 'v) list" where
  "dict_set k v [] = [(k, v)]"
| "dict_set k v ((k', v') # d) = (if k = k' then (k, v) # d else (k', v') # dict_set k v d)"

lemma map_of_dict_set [simp]: "map_of (dict_set k v d) = (map_of d)(k \<mapsto> v)"
  by (induction d) auto

lemma keys_dict_set: "set (map fst (dict_set k v d)) = insert k (set (map fst d))"
proof -
  have "fst ` set d = dom (map_of d)" for d :: "('a \<times> 'b) list"
    by (simp add: dom_map_of_conv_image_fst)
  then show ?thesis by simp
qed

lemma distinct_dict_set: "distinct (map fst d) \<Longrightarrow> distinct (map fst (dict_set k v d))"
proof (induction d)
  case Nil
  then show ?case by simp
next
  case (Cons p d)
  obtain k' v' where p: "p = (k', v')" by (cases p)
  from Cons p have "distinct (map fst (dict_set k v d))" and "k' \<notin> set (map fst d)"
    by auto
  then show ?case
    using Cons.prems p keys_dict_set [of k v d] by auto
qed

text \<open>\<open>{key: value for key, value in d.items() if key != k}\<close>.\<close>

definition dict_drop :: "'k \<Rightarrow> ('k \<times> 'v) list \<Rightarrow> ('k \<times> 'v) list" where
  "dict_drop k d = filter (\<lambda>p. fst p \<noteq> k) d"

lemma map_of_dict_drop: "map_of (dict_drop k d) k' = (if k' = k then None else map_of d k')"
  by (induction d) (auto simp: dict_drop_def)

lemma keys_dict_drop: "set (map fst (dict_drop k d)) = set (map fst d) - {k}"
  by (auto simp: dict_drop_def)

lemma distinct_dict_drop: "distinct (map fst d) \<Longrightarrow> distinct (map fst (dict_drop k d))"
  unfolding dict_drop_def by (induction d) auto

text \<open>\<open>list(dict.fromkeys(xs))\<close>: the first occurrence of every element, in order.\<close>

fun dedupe_from :: "'a set \<Rightarrow> 'a list \<Rightarrow> 'a list" where
  "dedupe_from seen [] = []"
| "dedupe_from seen (x # xs) =
     (if x \<in> seen then dedupe_from seen xs else x # dedupe_from (insert x seen) xs)"

definition from_keys :: "'a list \<Rightarrow> 'a list" where
  "from_keys xs = dedupe_from {} xs"

lemma set_dedupe_from: "set (dedupe_from seen xs) = set xs - seen"
  by (induction xs arbitrary: seen) auto

lemma distinct_dedupe_from: "distinct (dedupe_from seen xs)"
  by (induction xs arbitrary: seen) (auto simp: set_dedupe_from)

lemma set_from_keys [simp]: "set (from_keys xs) = set xs"
  by (simp add: from_keys_def set_dedupe_from)

lemma distinct_from_keys: "distinct (from_keys xs)"
  by (simp add: from_keys_def distinct_dedupe_from)

lemma dedupe_from_id: "distinct xs \<Longrightarrow> set xs \<inter> seen = {} \<Longrightarrow> dedupe_from seen xs = xs"
  by (induction xs arbitrary: seen) auto

lemma from_keys_idem: "from_keys (from_keys xs) = from_keys xs"
  by (simp add: from_keys_def dedupe_from_id distinct_dedupe_from)

lemma from_keys_Nil_iff [simp]: "from_keys xs = [] \<longleftrightarrow> xs = []"
  by (metis set_from_keys set_empty)

end
