(* ===== verification/Py_Text.thy ===== *)
theory Py_Text
  imports Prelude "HOL-Library.List_Lexorder" "HOL-Library.Char_ord"
begin

text \<open>
  Python's text and bytes. A \<open>str\<close> is the list of its code points, a \<open>bytes\<close> value is a
  list of HOL's 8-bit characters. The literal \<open>"abc"\<close> is written \<open>u ''abc''\<close> and the
  literal \<open>b"abc"\<close> is written \<open>''abc''\<close>. The theory defines the parts of the two types the
  code uses: order, UTF-8 with the strict error handler, white space, \<open>strip\<close>, prefix and
  substring tests, decimal and hexadecimal digits.
\<close>

type_synonym pystr = "nat list"
type_synonym bytes = "char list"

definition u :: "string \<Rightarrow> pystr" where
  "u s = map of_char s"

lemma u_inject [simp]: "u a = u b \<longleftrightarrow> a = b"
  unfolding u_def by (rule inj_map_eq_map) (simp add: inj_def)

lemma u_Nil [simp]: "u [] = []"
  by (simp add: u_def)

lemma u_Nil_iff [simp]: "u s = [] \<longleftrightarrow> s = []" "[] = u s \<longleftrightarrow> s = []"
  by (simp_all add: u_def)

lemma u_append: "u (a @ b) = u a @ u b"
  by (simp add: u_def)

lemma length_u [simp]: "length (u s) = length s"
  by (simp add: u_def)

lemma u_less: "u a < u b \<longleftrightarrow> a < b"
proof (induction a arbitrary: b)
  case Nil
  then show ?case by (cases b) (simp_all add: u_def)
next
  case (Cons x a)
  then show ?case
    by (cases b) (auto simp: u_def less_char_def)
qed

lemma u_less_eq: "u a \<le> u b \<longleftrightarrow> a \<le> b"
  using u_less [of b a] by (simp add: not_less [symmetric])

lemma u_mem: "u k \<in> u ` A \<longleftrightarrow> k \<in> A"
  by auto

section \<open>UTF-8\<close>

definition surrogate :: "nat \<Rightarrow> bool" where
  "surrogate c \<longleftrightarrow> 0xD800 \<le> c \<and> c \<le> 0xDFFF"

definition scalar :: "nat \<Rightarrow> bool" where
  "scalar c \<longleftrightarrow> c < 0x110000 \<and> \<not> surrogate c"

definition utf8_char :: "nat \<Rightarrow> nat list" where
  "utf8_char c =
     (if c < 0x80 then [c]
      else if c < 0x800 then [0xC0 + c div 0x40, 0x80 + c mod 0x40]
      else if c < 0x10000 then
        [0xE0 + c div 0x1000, 0x80 + (c div 0x40) mod 0x40, 0x80 + c mod 0x40]
      else [0xF0 + c div 0x40000, 0x80 + (c div 0x1000) mod 0x40,
            0x80 + (c div 0x40) mod 0x40, 0x80 + c mod 0x40])"

text \<open>\<open>s.encode("utf-8")\<close>: \<open>None\<close> is the \<open>UnicodeEncodeError\<close> a lone surrogate raises.\<close>

definition utf8_encode :: "pystr \<Rightarrow> bytes option" where
  "utf8_encode s = (if list_all scalar s then Some (map char_of (concat (map utf8_char s))) else None)"

definition utf8_cont :: "nat \<Rightarrow> bool" where
  "utf8_cont b \<longleftrightarrow> 0x80 \<le> b \<and> b < 0xC0"

text \<open>
  \<open>b.decode("utf-8", errors="strict")\<close>: \<open>None\<close> is the \<open>UnicodeDecodeError\<close>, which overlong
  forms, surrogates and values above \<open>U+10FFFF\<close> raise too.
\<close>

fun utf8_decode_nats :: "nat list \<Rightarrow> pystr option" where
  "utf8_decode_nats [] = Some []"
| "utf8_decode_nats (a # r) =
     (if a < 0x80 then map_option (Cons a) (utf8_decode_nats r)
      else if 0xC2 \<le> a \<and> a < 0xE0 then
        (case r of
           b # r1 \<Rightarrow>
             (if utf8_cont b
              then map_option (Cons ((a - 0xC0) * 0x40 + (b - 0x80))) (utf8_decode_nats r1)
              else None)
         | _ \<Rightarrow> None)
      else if 0xE0 \<le> a \<and> a < 0xF0 then
        (case r of
           b # c # r1 \<Rightarrow>
             (let v = ((a - 0xE0) * 0x40 + (b - 0x80)) * 0x40 + (c - 0x80) in
              if utf8_cont b \<and> utf8_cont c \<and> 0x800 \<le> v \<and> \<not> surrogate v
              then map_option (Cons v) (utf8_decode_nats r1)
              else None)
         | _ \<Rightarrow> None)
      else if 0xF0 \<le> a \<and> a < 0xF5 then
        (case r of
           b # c # d # r1 \<Rightarrow>
             (let v = (((a - 0xF0) * 0x40 + (b - 0x80)) * 0x40 + (c - 0x80)) * 0x40 + (d - 0x80) in
              if utf8_cont b \<and> utf8_cont c \<and> utf8_cont d \<and> 0x10000 \<le> v \<and> v < 0x110000
              then map_option (Cons v) (utf8_decode_nats r1)
              else None)
         | _ \<Rightarrow> None)
      else None)"

declare utf8_decode_nats.simps(2) [simp del]

definition utf8_decode :: "bytes \<Rightarrow> pystr option" where
  "utf8_decode b = utf8_decode_nats (map of_char b)"

lemma utf8_char_bound: "scalar c \<Longrightarrow> b \<in> set (utf8_char c) \<Longrightarrow> b < 256"
  by (auto simp: utf8_char_def scalar_def split: if_splits)

lemma decode_utf8_char:
  assumes "scalar c"
  shows "utf8_decode_nats (utf8_char c @ r) = map_option (Cons c) (utf8_decode_nats r)"
proof -
  consider (one) "c < 0x80" | (two) "0x80 \<le> c" "c < 0x800" | (three) "0x800 \<le> c" "c < 0x10000"
    | (four) "0x10000 \<le> c" "c < 0x110000"
    using assms by (auto simp: scalar_def) linarith
  then show ?thesis
  proof cases
    case one
    then show ?thesis by (simp add: utf8_char_def utf8_decode_nats.simps(2))
  next
    case two
    define q where "q = c div 0x40"
    have "2 \<le> q" "q < 0x20" and "q * 0x40 + c mod 0x40 = c"
      using two by (auto simp: q_def)
    then show ?thesis
      using two by (simp add: utf8_char_def utf8_decode_nats.simps(2) utf8_cont_def flip: q_def)
  next
    case three
    define q r s where "q = c div 0x1000" and "r = (c div 0x40) mod 0x40" and "s = c mod 0x40"
    have "c div 0x1000 = c div 0x40 div 0x40" by (simp flip: div_mult2_eq)
    then have "q * 0x40 + r = c div 0x40" by (simp add: q_def r_def)
    then have sum: "(q * 0x40 + r) * 0x40 + s = c" by (simp add: s_def)
    have "q < 0x10" "r < 0x40" "s < 0x40" using three by (auto simp: q_def r_def s_def)
    then show ?thesis
      using three assms sum
      by (simp add: utf8_char_def utf8_decode_nats.simps(2) utf8_cont_def scalar_def Let_def
          flip: q_def r_def s_def)
  next
    case four
    define q r s t where "q = c div 0x40000" and "r = (c div 0x1000) mod 0x40"
      and "s = (c div 0x40) mod 0x40" and "t = c mod 0x40"
    have "c div 0x40000 = c div 0x1000 div 0x40" "c div 0x1000 = c div 0x40 div 0x40"
      by (simp_all flip: div_mult2_eq)
    then have "q * 0x40 + r = c div 0x1000" and "c div 0x1000 * 0x40 + s = c div 0x40"
      by (simp_all add: q_def r_def s_def)
    then have sum: "((q * 0x40 + r) * 0x40 + s) * 0x40 + t = c" by (simp add: t_def)
    have "q < 5" "r < 0x40" "s < 0x40" "t < 0x40"
      using four by (auto simp: q_def r_def s_def t_def)
    then show ?thesis
      using four sum
      by (simp add: utf8_char_def utf8_decode_nats.simps(2) utf8_cont_def Let_def
          flip: q_def r_def s_def t_def)
  qed
qed

lemma decode_utf8_concat:
  "list_all scalar s \<Longrightarrow> utf8_decode_nats (concat (map utf8_char s)) = Some s"
  by (induction s) (simp_all add: decode_utf8_char)

lemma of_char_char_of_map: "(\<forall>b \<in> set bs. b < 256) \<Longrightarrow> map of_char (map char_of bs :: char list) = (bs :: nat list)"
  by (induction bs) simp_all

theorem utf8_decode_encode: "utf8_encode s = Some b \<Longrightarrow> utf8_decode b = Some s"
proof -
  assume "utf8_encode s = Some b"
  then have ok: "list_all scalar s" and b: "b = map char_of (concat (map utf8_char s))"
    by (auto simp: utf8_encode_def split: if_splits)
  have "\<forall>x \<in> set (concat (map utf8_char s)). x < 256"
    using ok utf8_char_bound by (auto simp: list_all_iff)
  then have "map of_char b = concat (map utf8_char s)"
    unfolding b by (rule of_char_char_of_map)
  then show ?thesis
    using ok by (simp add: utf8_decode_def decode_utf8_concat)
qed

lemma utf8_encode_inject: "utf8_encode s = Some b \<Longrightarrow> utf8_encode t = Some b \<Longrightarrow> s = t"
  by (metis utf8_decode_encode option.inject)

lemma utf8_encode_append:
  "utf8_encode (a @ b) = (case (utf8_encode a, utf8_encode b) of (Some x, Some y) \<Rightarrow> Some (x @ y) | _ \<Rightarrow> None)"
  by (auto simp: utf8_encode_def)

definition ascii :: "pystr \<Rightarrow> bool" where
  "ascii s \<longleftrightarrow> list_all (\<lambda>c. c < 0x80) s"

lemma utf8_encode_ascii: "ascii s \<Longrightarrow> utf8_encode s = Some (map char_of s)"
proof -
  assume "ascii s"
  then have "list_all scalar s" and "concat (map utf8_char s) = s"
    by (induction s) (auto simp: ascii_def scalar_def surrogate_def utf8_char_def)
  then show ?thesis by (simp add: utf8_encode_def)
qed

text \<open>\<open>b.decode("ascii", errors="strict")\<close>.\<close>

definition ascii_decode :: "bytes \<Rightarrow> pystr option" where
  "ascii_decode b = (if list_all (\<lambda>c. (of_char c :: nat) < 0x80) b then Some (map of_char b) else None)"

lemma ascii_decode_Some: "ascii_decode b = Some s \<Longrightarrow> ascii s \<and> b = map char_of s"
  by (auto simp: ascii_decode_def ascii_def list_all_iff comp_def split: if_splits)

lemma ascii_decode_encode: "ascii s \<Longrightarrow> ascii_decode (map char_of s) = Some s"
proof -
  assume a: "ascii s"
  then have m: "map of_char (map char_of s :: char list) = s"
    by (intro of_char_char_of_map) (auto simp: ascii_def list_all_iff)
  from a have "list_all (\<lambda>c. (of_char c :: nat) < 0x80) (map char_of s)"
    by (auto simp: ascii_def list_all_iff)
  with m show ?thesis by (simp add: ascii_decode_def)
qed

end
