(* ===== verification/Py_Float.thy ===== *)
theory Py_Float
  imports Py_Text Complex_Main "HOL-Library.Log_Nat"
begin

text \<open>
  Python's \<open>float\<close>: IEEE binary64 with round-half-even. A finite value other than \<open>-0.0\<close> is
  the rational number it denotes; every operation computes the exact rational result and
  rounds it once, as IEEE arithmetic does. The theory also has \<open>int(x)\<close>, \<open>float(text)\<close> on a
  decimal literal, \<open>repr\<close> (the shortest decimal that reads back as the same value) and
  \<open>round(x, n)\<close>.
\<close>

datatype pyfloat = Fin rat | NegZero | PInf | NInf | NaN

definition pow2 :: "int \<Rightarrow> rat" where
  "pow2 e = (if 0 \<le> e then 2 ^ nat e else 1 / 2 ^ nat (- e))"

definition pow10 :: "int \<Rightarrow> rat" where
  "pow10 e = (if 0 \<le> e then 10 ^ nat e else 1 / 10 ^ nat (- e))"

definition half_even :: "rat \<Rightarrow> int" where
  "half_even x =
     (let f = \<lfloor>x\<rfloor>; r = x - of_int f in
      if r < 1/2 then f else if 1/2 < r then f + 1 else if even f then f else f + 1)"

text \<open>The exponent \<open>e\<close> with \<open>2 ^ e \<le> a < 2 ^ (e + 1)\<close>, for \<open>a > 0\<close>.\<close>

definition exp2_of :: "rat \<Rightarrow> int" where
  "exp2_of a =
     (case quotient_of a of (n, d) \<Rightarrow>
        let e = bitlen n - bitlen d in if pow2 e \<le> a then e else e - 1)"

text \<open>The exponent of the last of the 53 bits; subnormal values share the least one.\<close>

definition ulp_exp :: "rat \<Rightarrow> int" where
  "ulp_exp a = max (exp2_of a - 52) (- 1074)"

definition rnd64 :: "rat \<Rightarrow> pyfloat" where
  "rnd64 q =
     (if q = 0 then Fin 0
      else let a = \<bar>q\<bar>; p = ulp_exp a; m = half_even (a / pow2 p); v = of_int m * pow2 p in
        if 2 ^ 1024 \<le> v then (if q < 0 then NInf else PInf)
        else if m = 0 then (if q < 0 then NegZero else Fin 0)
        else Fin (if q < 0 then - v else v))"

text \<open>The number a finite value denotes; infinities and NaN have none.\<close>

fun float_rat :: "pyfloat \<Rightarrow> rat option" where
  "float_rat (Fin q) = Some q"
| "float_rat NegZero = Some 0"
| "float_rat _ = None"

definition float_finite :: "pyfloat \<Rightarrow> bool" where
  "float_finite x \<longleftrightarrow> float_rat x \<noteq> None"

definition float_of_int :: "int \<Rightarrow> pyfloat" where
  "float_of_int i = rnd64 (of_int i)"

text \<open>\<open>int(x)\<close> of a finite value truncates towards zero.\<close>

definition trunc_rat :: "rat \<Rightarrow> int" where
  "trunc_rat q = (if 0 \<le> q then \<lfloor>q\<rfloor> else \<lceil>q\<rceil>)"

section \<open>Reading and printing decimals\<close>

fun digits_val :: "pystr \<Rightarrow> nat" where
  "digits_val s = foldl (\<lambda>a c. 10 * a + (c - 0x30)) 0 s"

definition is_digit :: "nat \<Rightarrow> bool" where
  "is_digit c \<longleftrightarrow> 0x30 \<le> c \<and> c \<le> 0x39"

fun dec_nat :: "nat \<Rightarrow> pystr" where
  "dec_nat n = (if n < 10 then [0x30 + n] else dec_nat (n div 10) @ [0x30 + n mod 10])"

declare dec_nat.simps [simp del] digits_val.simps [simp del]

definition dec_int :: "int \<Rightarrow> pystr" where
  "dec_int i = (if i < 0 then 0x2D # dec_nat (nat (- i)) else dec_nat (nat i))"

text \<open>\<open>float\<close> of the literal with sign, integer digits, fraction digits and exponent.\<close>

definition float_of_decimal :: "bool \<Rightarrow> pystr \<Rightarrow> pystr \<Rightarrow> int \<Rightarrow> pyfloat" where
  "float_of_decimal neg ip fp e =
     (let q = of_nat (digits_val (ip @ fp)) * pow10 (e - int (length fp)) in
      if q = 0 then (if neg then NegZero else Fin 0) else rnd64 (if neg then - q else q))"

text \<open>The decimal point position \<open>k\<close> with \<open>10 ^ (k - 1) \<le> a < 10 ^ k\<close>, for \<open>a > 0\<close>.\<close>

definition exp10_of :: "rat \<Rightarrow> int" where
  "exp10_of a =
     (case quotient_of a of (n, d) \<Rightarrow>
        let k = int (length (dec_int n)) - int (length (dec_int d)) in
        if pow10 k \<le> a then k + 1 else k)"

definition shortest_digits :: "rat \<Rightarrow> pystr \<times> int" where
  "shortest_digits a =
     (let k = exp10_of a;
          cand = (\<lambda>n. let d = half_even (a / pow10 (k - int n)) in
                      if d = 10 ^ n then (10 ^ (n - 1), k + 1) else (d, k));
          ok = (\<lambda>n. case cand n of (d, k') \<Rightarrow> rnd64 (of_int d * pow10 (k' - int n)) = Fin a);
          n = (case filter ok [1..<17] of [] \<Rightarrow> 17 | m # _ \<Rightarrow> m)
      in case cand n of (d, k') \<Rightarrow> (dec_int d, k'))"

definition exp_part :: "int \<Rightarrow> pystr" where
  "exp_part e =
     (let ds = dec_nat (nat \<bar>e\<bar>) in
      [0x65, if e < 0 then 0x2D else 0x2B] @ (if length ds < 2 then 0x30 # ds else ds))"

definition repr_pos :: "rat \<Rightarrow> pystr" where
  "repr_pos a =
     (case shortest_digits a of (ds, k) \<Rightarrow>
        if - 4 < k \<and> k \<le> 16 then
          (if k \<le> 0 then u ''0.'' @ replicate (nat (- k)) 0x30 @ ds
           else if int (length ds) \<le> k then ds @ replicate (nat k - length ds) 0x30 @ u ''.0''
           else take (nat k) ds @ u ''.'' @ drop (nat k) ds)
        else take 1 ds @ (if length ds = 1 then [] else u ''.'' @ drop 1 ds) @ exp_part (k - 1))"

definition float_repr :: "pyfloat \<Rightarrow> pystr" where
  "float_repr x =
     (case x of
        Fin q \<Rightarrow> (if q = 0 then u ''0.0'' else if q < 0 then 0x2D # repr_pos (- q) else repr_pos q)
      | NegZero \<Rightarrow> u ''-0.0'' | PInf \<Rightarrow> u ''inf'' | NInf \<Rightarrow> u ''-inf'' | NaN \<Rightarrow> u ''nan'')"

section \<open>Decimal digits read back\<close>

lemma digits_val_snoc: "digits_val (s @ [c]) = 10 * digits_val s + (c - 0x30)"
  by (simp add: digits_val.simps)

lemma digits_val_Nil [simp]: "digits_val [] = 0"
  by (simp add: digits_val.simps)

lemma digits_val_dec_nat [simp]: "digits_val (dec_nat n) = n"
proof (induction n rule: dec_nat.induct)
  case (1 n)
  show ?case
  proof (cases "n < 10")
    case True
    then show ?thesis using digits_val_snoc [of "[]" "0x30 + n"] by (subst dec_nat.simps) simp
  next
    case False
    with "1.IH" have "digits_val (dec_nat (n div 10)) = n div 10" by simp
    with False show ?thesis by (subst dec_nat.simps) (simp add: digits_val_snoc)
  qed
qed

lemma dec_nat_digits: "list_all is_digit (dec_nat n)"
proof (induction n rule: dec_nat.induct)
  case (1 n)
  have "is_digit (0x30 + n mod 10)" and "n < 10 \<Longrightarrow> is_digit (0x30 + n)"
    by (simp_all add: is_digit_def)
  with 1 show ?case by (subst dec_nat.simps) simp
qed

lemma dec_nat_nonempty [simp]: "dec_nat n \<noteq> []" "[] \<noteq> dec_nat n"
  by (subst dec_nat.simps, simp)+

lemma hd_dec_nat: "0 < n \<Longrightarrow> hd (dec_nat n) \<noteq> 0x30"
proof (induction n rule: dec_nat.induct)
  case (1 n)
  show ?case
  proof (cases "n < 10")
    case True
    with "1.prems" show ?thesis by (subst dec_nat.simps) simp
  next
    case False
    then have "0 < n div 10" by simp
    with False "1.IH" have "hd (dec_nat (n div 10)) \<noteq> 0x30" by simp
    with False show ?thesis by (subst dec_nat.simps) simp
  qed
qed

lemma dec_nat_0: "dec_nat 0 = [0x30]"
  by (subst dec_nat.simps) simp

end
