(* ===== verification/Py_Json.thy ===== *)
theory Py_Json
  imports Py_Float "HOL-Library.Multiset"
begin

text \<open>
  The part of Python's \<open>json\<close> module the code uses: \<open>json.dumps\<close> with
  \<open>ensure_ascii=False, sort_keys=True, separators=(",", ":"), allow_nan=False\<close>, and
  \<open>json.loads\<close> with its \<open>object_pairs_hook\<close> and \<open>parse_constant\<close> hooks. The two are
  related by a round trip: what \<open>dumps\<close> prints of a float-free value reads back as that
  value with its keys sorted. Python's \<open>==\<close> on the decoded values is \<open>py_eq\<close>.
\<close>

datatype json =
    JNull
  | JBool bool
  | JInt int
  | JFloat pyfloat
  | JStr pystr
  | JArr "json list"
  | JObj "(pystr \<times> json) list"

type_synonym pydict = "(pystr \<times> json) list"

section \<open>Printing\<close>

definition hex_digit :: "nat \<Rightarrow> nat" where
  "hex_digit d = (if d < 10 then 0x30 + d else 0x57 + d)"

definition json_escape :: "nat \<Rightarrow> pystr" where
  "json_escape c =
     (if c = 0x22 then [0x5C, 0x22]
      else if c = 0x5C then [0x5C, 0x5C]
      else if c = 0x0A then [0x5C, 0x6E]
      else if c = 0x0D then [0x5C, 0x72]
      else if c = 0x09 then [0x5C, 0x74]
      else if c = 0x0C then [0x5C, 0x66]
      else if c = 0x08 then [0x5C, 0x62]
      else if c < 0x20 then [0x5C, 0x75, 0x30, 0x30, hex_digit (c div 16), hex_digit (c mod 16)]
      else [c])"

definition json_string :: "pystr \<Rightarrow> pystr" where
  "json_string s = [0x22] @ concat (map json_escape s) @ [0x22]"

fun join_with :: "nat \<Rightarrow> pystr list \<Rightarrow> pystr" where
  "join_with sep [] = []"
| "join_with sep [x] = x"
| "join_with sep (x # y # zs) = x @ sep # join_with sep (y # zs)"

fun jprint :: "json \<Rightarrow> pystr" where
  "jprint JNull = u ''null''"
| "jprint (JBool b) = (if b then u ''true'' else u ''false'')"
| "jprint (JInt i) = dec_int i"
| "jprint (JFloat x) = float_repr x"
| "jprint (JStr s) = json_string s"
| "jprint (JArr xs) = [0x5B] @ join_with 0x2C (map jprint xs) @ [0x5D]"
| "jprint (JObj kvs) =
     [0x7B] @ join_with 0x2C (map (\<lambda>(k, v). json_string k @ 0x3A # jprint v) kvs) @ [0x7D]"

fun jsort :: "json \<Rightarrow> json" where
  "jsort (JArr xs) = JArr (map jsort xs)"
| "jsort (JObj kvs) = JObj (sort_key fst (map (\<lambda>(k, v). (k, jsort v)) kvs))"
| "jsort v = v"

text \<open>
  The values \<open>dumps\<close> prints: \<open>allow_nan=False\<close> refuses infinities and NaN, and the decimal
  conversion of an \<open>int\<close> stops at 4300 digits. Both raise \<open>ValueError\<close>.
\<close>

fun jfinite :: "json \<Rightarrow> bool" where
  "jfinite (JFloat x) = float_finite x"
| "jfinite (JInt i) = (length (dec_nat (nat \<bar>i\<bar>)) \<le> 4300)"
| "jfinite (JArr xs) = list_all jfinite xs"
| "jfinite (JObj kvs) = list_all (\<lambda>(k, v). jfinite v) kvs"
| "jfinite _ = True"

definition dumps :: "json \<Rightarrow> pystr option" where
  "dumps v = (if jfinite v then Some (jprint (jsort v)) else None)"

section \<open>Reading\<close>

text \<open>
  The ways \<open>json.loads\<close> ends without a value: a syntax error (\<open>JSONDecodeError\<close>), the
  plain \<open>ValueError\<close> of an integer literal of more than 4300 digits, and whatever a hook
  raises. \<open>JFuel\<close> never occurs with the fuel \<open>json_loads\<close> gives (\<open>json_loads_not_fuel\<close>).
\<close>

datatype 'e json_error = JDecode | JIntDigits | JHook 'e | JFuel

definition json_ws :: "nat \<Rightarrow> bool" where
  "json_ws c \<longleftrightarrow> c = 0x20 \<or> c = 0x09 \<or> c = 0x0A \<or> c = 0x0D"

definition skip_ws :: "pystr \<Rightarrow> pystr" where
  "skip_ws s = dropWhile json_ws s"

definition hex_val :: "nat \<Rightarrow> nat option" where
  "hex_val c =
     (if 0x30 \<le> c \<and> c \<le> 0x39 then Some (c - 0x30)
      else if 0x61 \<le> c \<and> c \<le> 0x66 then Some (c - 0x57)
      else if 0x41 \<le> c \<and> c \<le> 0x46 then Some (c - 0x37)
      else None)"

fun hex4 :: "pystr \<Rightarrow> (nat \<times> pystr) option" where
  "hex4 (a # b # c # d # r) =
     (case (hex_val a, hex_val b, hex_val c, hex_val d) of
        (Some w, Some x, Some y, Some z) \<Rightarrow> Some (((w * 16 + x) * 16 + y) * 16 + z, r)
      | _ \<Rightarrow> None)"
| "hex4 _ = None"

definition simple_escape :: "nat \<Rightarrow> nat option" where
  "simple_escape c =
     (if c = 0x22 \<or> c = 0x5C \<or> c = 0x2F then Some c
      else if c = 0x62 then Some 0x08 else if c = 0x66 then Some 0x0C
      else if c = 0x6E then Some 0x0A else if c = 0x72 then Some 0x0D
      else if c = 0x74 then Some 0x09 else None)"

text \<open>A \<open>\u\<close> escape; a high surrogate followed by an escaped low one is one code point.\<close>

definition unicode_escape :: "pystr \<Rightarrow> (nat \<times> pystr) option" where
  "unicode_escape s =
     (case hex4 s of
        None \<Rightarrow> None
      | Some (c, r) \<Rightarrow>
          (if 0xD800 \<le> c \<and> c \<le> 0xDBFF \<and> take 2 r = [0x5C, 0x75] then
             (case hex4 (drop 2 r) of
                None \<Rightarrow> None
              | Some (c2, r2) \<Rightarrow>
                  if 0xDC00 \<le> c2 \<and> c2 \<le> 0xDFFF
                  then Some (0x10000 + (c - 0xD800) * 0x400 + (c2 - 0xDC00), r2)
                  else Some (c, r))
           else Some (c, r)))"

lemma hex4_shorter: "hex4 s = Some (c, r) \<Longrightarrow> length r < length s"
  by (induction s rule: hex4.induct) (auto split: option.splits)

lemma unicode_escape_shorter: "unicode_escape s = Some (c, r) \<Longrightarrow> length r < length s"
  by (auto simp: unicode_escape_def split: option.splits if_splits dest!: hex4_shorter)

text \<open>The characters after an opening quote, up to and including the closing one.\<close>

function scan_string :: "pystr \<Rightarrow> (pystr \<times> pystr) option" where
  "scan_string [] = None"
| "scan_string (c # r) =
     (if c = 0x22 then Some ([], r)
      else if c < 0x20 then None
      else if c = 0x5C then
        (case r of
           [] \<Rightarrow> None
         | d # r1 \<Rightarrow>
             (if d = 0x75 then
                (case unicode_escape r1 of
                   None \<Rightarrow> None
                 | Some (x, r2) \<Rightarrow> map_option (\<lambda>(t, r3). (x # t, r3)) (scan_string r2))
              else
                (case simple_escape d of
                   None \<Rightarrow> None
                 | Some x \<Rightarrow> map_option (\<lambda>(t, r3). (x # t, r3)) (scan_string r1))))
      else map_option (\<lambda>(t, r3). (c # t, r3)) (scan_string r))"
  by pat_completeness auto
termination
  by (relation "measure length") (auto dest!: unicode_escape_shorter)

declare scan_string.simps(2) [simp del]

text \<open>The number grammar of the scanner; the text after the longest match is left over.\<close>

definition scan_frac :: "pystr \<Rightarrow> pystr \<times> pystr" where
  "scan_frac s =
     (case s of
        c # r \<Rightarrow> (if c = 0x2E \<and> takeWhile is_digit r \<noteq> []
                 then (takeWhile is_digit r, dropWhile is_digit r) else ([], s))
      | [] \<Rightarrow> ([], s))"

definition scan_exp :: "pystr \<Rightarrow> int option \<times> pystr" where
  "scan_exp s =
     (case s of
        c # r \<Rightarrow>
          (if c = 0x65 \<or> c = 0x45 then
             (let (neg, r1) = (case r of d # t \<Rightarrow> if d = 0x2D then (True, t)
                                          else if d = 0x2B then (False, t) else (False, r)
                               | [] \<Rightarrow> (False, r));
                  ds = takeWhile is_digit r1
              in if ds = [] then (None, s)
                 else (Some (if neg then - int (digits_val ds) else int (digits_val ds)),
                       dropWhile is_digit r1))
           else (None, s))
      | [] \<Rightarrow> (None, s))"

definition scan_number :: "pystr \<Rightarrow> 'e json_error + (json \<times> pystr)" where
  "scan_number s =
     (let neg = (take 1 s = [0x2D]);
          s1 = (if neg then drop 1 s else s);
          ds = (if take 1 s1 = [0x30] then [0x30] else takeWhile is_digit s1);
          r = drop (length ds) s1
      in if ds = [] then Inl JDecode
         else
           (let (fp, r1) = scan_frac r; (e, r2) = scan_exp r1 in
            if fp = [] \<and> e = None then
              (if 4300 < length ds then Inl JIntDigits
               else Inr (JInt (if neg then - int (digits_val ds) else int (digits_val ds)), r2))
            else Inr (JFloat (float_of_decimal neg ds fp (case e of None \<Rightarrow> 0 | Some x \<Rightarrow> x)), r2)))"

definition expect :: "nat \<Rightarrow> pystr \<Rightarrow> 'e json_error + pystr" where
  "expect c s = (case s of d # r \<Rightarrow> if d = c then Inr r else Inl JDecode | [] \<Rightarrow> Inl JDecode)"

definition opt_decode :: "'a option \<Rightarrow> 'e json_error + 'a" where
  "opt_decode x = (case x of None \<Rightarrow> Inl JDecode | Some y \<Rightarrow> Inr y)"

definition literal_at :: "string \<Rightarrow> pystr \<Rightarrow> bool" where
  "literal_at w s \<longleftrightarrow> take (length w) s = u w"

text \<open>
  The recursive descent of the scanner. \<open>hook\<close> is \<open>object_pairs_hook\<close>, called on the pairs of
  every object as it closes; \<open>const\<close> is \<open>parse_constant\<close>.
\<close>

fun p_value :: "(pydict \<Rightarrow> 'e + json) \<Rightarrow> (string \<Rightarrow> 'e + json) \<Rightarrow> nat \<Rightarrow> pystr
      \<Rightarrow> 'e json_error + (json \<times> pystr)"
  and p_elems :: "(pydict \<Rightarrow> 'e + json) \<Rightarrow> (string \<Rightarrow> 'e + json) \<Rightarrow> nat \<Rightarrow> pystr
      \<Rightarrow> 'e json_error + (json list \<times> pystr)"
  and p_members :: "(pydict \<Rightarrow> 'e + json) \<Rightarrow> (string \<Rightarrow> 'e + json) \<Rightarrow> nat \<Rightarrow> pystr
      \<Rightarrow> 'e json_error + (pydict \<times> pystr)"
where
  "p_value hook const 0 s = Inl JFuel"
| "p_value hook const (Suc n) s =
     (case s of
        [] \<Rightarrow> Inl JDecode
      | c # r \<Rightarrow>
          if c = 0x22 then
            bindE (opt_decode (scan_string r)) (\<lambda>(t, r1). Inr (JStr t, r1))
          else if c = 0x7B then
            (let r0 = skip_ws r in
             bindE (if take 1 r0 = [0x7D] then Inr ([], drop 1 r0) else p_members hook const n r0)
               (\<lambda>(kvs, r1). mapError JHook (bindE (hook kvs) (\<lambda>v. Inr (v, r1)))))
          else if c = 0x5B then
            (let r0 = skip_ws r in
             bindE (if take 1 r0 = [0x5D] then Inr ([], drop 1 r0) else p_elems hook const n r0)
               (\<lambda>(vs, r1). Inr (JArr vs, r1)))
          else if literal_at ''null'' s then Inr (JNull, drop 4 s)
          else if literal_at ''true'' s then Inr (JBool True, drop 4 s)
          else if literal_at ''false'' s then Inr (JBool False, drop 5 s)
          else if literal_at ''NaN'' s then
            mapError JHook (bindE (const ''NaN'') (\<lambda>v. Inr (v, drop 3 s)))
          else if literal_at ''Infinity'' s then
            mapError JHook (bindE (const ''Infinity'') (\<lambda>v. Inr (v, drop 8 s)))
          else if literal_at ''-Infinity'' s then
            mapError JHook (bindE (const ''-Infinity'') (\<lambda>v. Inr (v, drop 9 s)))
          else scan_number s)"
| "p_elems hook const 0 s = Inl JFuel"
| "p_elems hook const (Suc n) s =
     bindE (p_value hook const n s) (\<lambda>(v, r).
       let r1 = skip_ws r in
       if take 1 r1 = [0x5D] then Inr ([v], drop 1 r1)
       else bindE (expect 0x2C r1) (\<lambda>r2.
         bindE (p_elems hook const n (skip_ws r2)) (\<lambda>(vs, r3). Inr (v # vs, r3))))"
| "p_members hook const 0 s = Inl JFuel"
| "p_members hook const (Suc n) s =
     bindE (expect 0x22 s) (\<lambda>s1.
     bindE (opt_decode (scan_string s1)) (\<lambda>(k, s2).
     bindE (expect 0x3A (skip_ws s2)) (\<lambda>s3.
     bindE (p_value hook const n (skip_ws s3)) (\<lambda>(v, r).
       let r1 = skip_ws r in
       if take 1 r1 = [0x7D] then Inr ([(k, v)], drop 1 r1)
       else bindE (expect 0x2C r1) (\<lambda>r2.
         bindE (p_members hook const n (skip_ws r2)) (\<lambda>(kvs, r3). Inr ((k, v) # kvs, r3)))))))"

declare p_value.simps(2) [simp del] p_elems.simps(2) [simp del] p_members.simps(2) [simp del]

definition json_loads :: "(pydict \<Rightarrow> 'e + json) \<Rightarrow> (string \<Rightarrow> 'e + json) \<Rightarrow> pystr
    \<Rightarrow> 'e json_error + json" where
  "json_loads hook const s =
     (if take 1 s = [0xFEFF] then Inl JDecode
      else bindE (p_value hook const (2 * length s + 1) (skip_ws s)) (\<lambda>(v, r).
        if skip_ws r = [] then Inr v else Inl JDecode))"

text \<open>Without hooks, a repeated key keeps its first position and its last value.\<close>

definition plain_pairs :: "pydict \<Rightarrow> 'e + json" where
  "plain_pairs kvs = Inr (JObj (foldl (\<lambda>d (k, v). dict_set k v d) [] kvs))"

definition plain_const :: "string \<Rightarrow> 'e + json" where
  "plain_const c = Inr (JFloat (if c = ''NaN'' then NaN else if c = ''Infinity'' then PInf else NInf))"

section \<open>Equality\<close>

text \<open>
  Python's \<open>==\<close> on decoded values: numbers and booleans compare by value across their types,
  dicts compare without regard to order.
\<close>

fun num_val :: "json \<Rightarrow> rat option" where
  "num_val (JBool b) = Some (if b then 1 else 0)"
| "num_val (JInt i) = Some (of_int i)"
| "num_val (JFloat x) = float_rat x"
| "num_val _ = None"

fun py_eq :: "json \<Rightarrow> json \<Rightarrow> bool"
  and py_eq_list :: "json list \<Rightarrow> json list \<Rightarrow> bool"
  and py_eq_members :: "pydict \<Rightarrow> pydict \<Rightarrow> bool"
where
  "py_eq JNull w = (w = JNull)"
| "py_eq (JStr s) w = (w = JStr s)"
| "py_eq (JBool b) w = (num_val w = Some (if b then 1 else 0))"
| "py_eq (JInt i) w = (num_val w = Some (of_int i))"
| "py_eq (JFloat x) w =
     (case x of NaN \<Rightarrow> False | PInf \<Rightarrow> w = JFloat PInf | NInf \<Rightarrow> w = JFloat NInf
      | _ \<Rightarrow> num_val w = float_rat x)"
| "py_eq (JArr xs) w = (case w of JArr ys \<Rightarrow> py_eq_list xs ys | _ \<Rightarrow> False)"
| "py_eq (JObj kvs) w =
     (case w of JObj kws \<Rightarrow> length kvs = length kws \<and> py_eq_members kvs kws | _ \<Rightarrow> False)"
| "py_eq_list [] ys = (ys = [])"
| "py_eq_list (x # xs) ys = (case ys of [] \<Rightarrow> False | y # ys' \<Rightarrow> py_eq x y \<and> py_eq_list xs ys')"
| "py_eq_members [] kws = True"
| "py_eq_members ((k, v) # kvs) kws =
     ((case map_of kws k of None \<Rightarrow> False | Some w \<Rightarrow> py_eq v w) \<and> py_eq_members kvs kws)"

section \<open>Every parser consumes input, and the fuel is enough\<close>

lemma skip_ws_length: "length (skip_ws s) \<le> length s"
  by (simp add: skip_ws_def length_dropWhile_le)

lemma scan_string_shorter: "scan_string s = Some (t, r) \<Longrightarrow> length r < length s"
proof (induction s arbitrary: t r rule: length_induct)
  case (1 s)
  show ?case
  proof (cases s)
    case Nil
    with "1.prems" show ?thesis by simp
  next
    case (Cons c s')
    have "length x2 < length x1" if "unicode_escape x1 = Some (y, x2)" for x1 y x2
      using that by (rule unicode_escape_shorter)
    with "1.prems" Cons
    have "r = s' \<or> (\<exists>x y. scan_string x = Some (y, r) \<and> length x < length s)"
      by (fastforce simp: scan_string.simps(2) split: if_splits list.splits option.splits)
    then show ?thesis using "1.IH" Cons by (fastforce intro: less_trans)
  qed
qed

lemma scan_frac_length: "scan_frac s = (fp, r) \<Longrightarrow> length r \<le> length s"
  by (auto simp: scan_frac_def length_dropWhile_le le_SucI split: list.splits if_splits)

lemma scan_exp_length: "scan_exp s = (e, r) \<Longrightarrow> length r \<le> length s"
  using length_dropWhile_le [of is_digit]
  by (auto simp: scan_exp_def Let_def intro: le_SucI split: list.splits if_splits)

lemma scan_number_shorter: "scan_number s = Inr (v, r) \<Longrightarrow> length r < length s"
proof -
  assume num: "scan_number s = Inr (v, r)"
  define s1 where "s1 = (if take 1 s = [0x2D] then drop 1 s else s)"
  define ds where "ds = (if take 1 s1 = [0x30] then [0x30] else takeWhile is_digit s1)"
  obtain fp r1 where fp: "scan_frac (drop (length ds) s1) = (fp, r1)" by fastforce
  obtain e r2 where e: "scan_exp r1 = (e, r2)" by fastforce
  from num fp e have ne: "ds \<noteq> []" and r: "r = r2"
    by (auto simp: scan_number_def Let_def s1_def ds_def split: if_splits)
  have "s1 \<noteq> []" using ne by (auto simp: ds_def split: if_splits)
  then have "length (drop (length ds) s1) < length s1" using ne by auto
  moreover have "length s1 \<le> length s" by (simp add: s1_def)
  ultimately show ?thesis
    using scan_frac_length [OF fp] scan_exp_length [OF e] unfolding r by linarith
qed

lemma expect_Inr: "expect c s = Inr r \<longleftrightarrow> s = c # r"
  by (auto simp: expect_def split: list.splits if_splits)

lemma opt_decode_Inr: "opt_decode x = Inr y \<longleftrightarrow> x = Some y"
  by (auto simp: opt_decode_def split: option.splits)

lemma not_JFuel [simp]:
  "expect c s \<noteq> Inl JFuel" "opt_decode x \<noteq> Inl JFuel" "scan_number s \<noteq> Inl JFuel"
  "mapError JHook m \<noteq> Inl JFuel"
  by (auto simp: expect_def opt_decode_def scan_number_def Let_def mapError_def
      split: list.splits option.splits prod.splits sum.splits)

lemma drop_literal: "literal_at w s \<Longrightarrow> w \<noteq> [] \<Longrightarrow> length (drop (length w) s) < length s"
  by (cases s) (auto simp: literal_at_def)

lemma parsers_shorter:
  "p_value hook const n s = Inr (v, r) \<Longrightarrow> length r < length s"
  "p_elems hook const n s = Inr (vs, r) \<Longrightarrow> length r < length s"
  "p_members hook const n s = Inr (kvs, r) \<Longrightarrow> length r < length s"
proof (induction n arbitrary: s v vs kvs r)
  case 0
  { case 1 then show ?case by simp }
  { case 2 then show ?case by simp }
  { case 3 then show ?case by simp }
next
  case (Suc n)
  note ws = skip_ws_length
  { case 1
    note prem = 1
    then obtain c s' where s: "s = c # s'" by (cases s) (auto simp: p_value.simps(2))
    have lit: "literal_at w s \<Longrightarrow> w \<noteq> [] \<Longrightarrow> length s - length w < length s" for w
      using drop_literal [of w s] by simp
    have sub: "length (skip_ws s') < length s" using ws [of s'] s by simp
    consider "c = 0x22" | "c = 0x7B" | "c = 0x5B" | "c \<noteq> 0x22" "c \<noteq> 0x7B" "c \<noteq> 0x5B" by blast
    then show ?case
    proof cases
      case 1
      with prem s show ?thesis
        by (auto simp: p_value.simps(2) result_simps opt_decode_Inr dest: scan_string_shorter)
    next
      case 2
      with prem s sub Suc.IH(3) [of "skip_ws s'"] show ?thesis
        by (fastforce simp: p_value.simps(2) result_simps Let_def split: if_splits)
    next
      case 3
      with prem s sub Suc.IH(2) [of "skip_ws s'"] show ?thesis
        by (fastforce simp: p_value.simps(2) result_simps Let_def split: if_splits)
    next
      case 4
      with prem s show ?thesis
        using lit [of "''null''"] lit [of "''true''"] lit [of "''false''"] lit [of "''NaN''"]
          lit [of "''Infinity''"] lit [of "''-Infinity''"] scan_number_shorter [of s v r]
        by (auto simp: p_value.simps(2) result_simps split: if_splits)
    qed
  }
  { case 2
    then obtain v1 r1 where v: "p_value hook const n s = Inr (v1, r1)"
      by (auto simp: p_elems.simps(2) result_simps)
    have r1: "length (skip_ws r1) < length s" using Suc.IH(1) [OF v] ws [of r1] by linarith
    from 2 v consider "r = drop 1 (skip_ws r1)"
      | r2 vs2 where "skip_ws r1 = 0x2C # r2" "p_elems hook const n (skip_ws r2) = Inr (vs2, r)"
      by (auto simp: p_elems.simps(2) result_simps Let_def expect_Inr split: if_splits)
    then show ?case
    proof cases
      case 1
      with r1 show ?thesis by simp
    next
      case 2
      with Suc.IH(2) [OF 2(2)] ws [of r2] r1 show ?thesis by simp
    qed
  }
  { case 3
    then obtain s1 k s2 s3 v1 r1 where
      p: "s = 0x22 # s1" "scan_string s1 = Some (k, s2)" "skip_ws s2 = 0x3A # s3"
         "p_value hook const n (skip_ws s3) = Inr (v1, r1)"
      by (auto simp: p_members.simps(2) result_simps expect_Inr opt_decode_Inr)
    have lt: "length (skip_ws r1) < length s"
      using Suc.IH(1) [OF p(4)] scan_string_shorter [OF p(2)] ws [of r1] ws [of s3] ws [of s2] p(1,3)
      by simp
    from 3 p consider "r = drop 1 (skip_ws r1)"
      | r2 kvs2 where "skip_ws r1 = 0x2C # r2" "p_members hook const n (skip_ws r2) = Inr (kvs2, r)"
      by (auto simp: p_members.simps(2) result_simps Let_def expect_Inr opt_decode_Inr split: if_splits)
    then show ?case
    proof cases
      case 1
      with lt show ?thesis by simp
    next
      case 2
      with Suc.IH(3) [OF 2(2)] ws [of r2] lt show ?thesis by simp
    qed
  }
qed

lemma parsers_fuel:
  "2 * length s + 1 \<le> n \<Longrightarrow> p_value hook const n s \<noteq> Inl JFuel"
  "2 * length s + 2 \<le> n \<Longrightarrow> p_elems hook const n s \<noteq> Inl JFuel"
  "2 * length s + 2 \<le> n \<Longrightarrow> p_members hook const n s \<noteq> Inl JFuel"
proof (induction n arbitrary: s)
  case 0
  { case 1 then show ?case by simp }
  { case 2 then show ?case by simp }
  { case 3 then show ?case by simp }
next
  case (Suc n)
  note ws = skip_ws_length
  { case 1
    show ?case
    proof (cases s)
      case Nil
      then show ?thesis by (simp add: p_value.simps(2))
    next
      case (Cons c r)
      then have "2 * length (skip_ws r) + 2 \<le> n" using 1 ws [of r] by simp
      with Suc.IH(2,3) have "p_elems hook const n (skip_ws r) \<noteq> Inl JFuel"
        and "p_members hook const n (skip_ws r) \<noteq> Inl JFuel" by blast+
      with Cons show ?thesis
        by (auto simp: p_value.simps(2) bindE_eq_Inl Let_def)
    qed
  }
  { case 2
    then have "p_value hook const n s \<noteq> Inl JFuel" using Suc.IH(1) [of s] by simp
    moreover have "p_elems hook const n (skip_ws r2) \<noteq> Inl JFuel"
      if "p_value hook const n s = Inr (v, r)" "skip_ws r = c # r2" for v r c r2
      using parsers_shorter(1) [OF that(1)] ws [of r] ws [of r2] that(2) 2 Suc.IH(2) [of "skip_ws r2"]
      by simp
    ultimately show ?case
      by (auto simp: p_elems.simps(2) bindE_eq_Inl Let_def expect_Inr split: if_splits)
  }
  { case 3
    have "p_value hook const n (skip_ws s3) \<noteq> Inl JFuel"
      if "s = 0x22 # s1" "scan_string s1 = Some (k, s2)" "skip_ws s2 = 0x3A # s3" for s1 k s2 s3
      using that scan_string_shorter [OF that(2)] ws [of s2] ws [of s3] 3 Suc.IH(1) [of "skip_ws s3"]
      by simp
    moreover have "p_members hook const n (skip_ws r2) \<noteq> Inl JFuel"
      if "s = 0x22 # s1" "scan_string s1 = Some (k, s2)" "skip_ws s2 = 0x3A # s3"
        "p_value hook const n (skip_ws s3) = Inr (v, r)" "skip_ws r = c # r2" for s1 k s2 s3 v r c r2
      using that scan_string_shorter [OF that(2)] parsers_shorter(1) [OF that(4)] ws [of s2]
        ws [of s3] ws [of r] ws [of r2] 3 Suc.IH(3) [of "skip_ws r2"]
      by simp
    ultimately show ?case
      by (auto simp: p_members.simps(2) bindE_eq_Inl Let_def expect_Inr opt_decode_Inr split: if_splits)
  }
qed

theorem json_loads_not_fuel: "json_loads hook const s \<noteq> Inl JFuel"
proof -
  have "2 * length (skip_ws s) + 1 \<le> 2 * length s + 1" using skip_ws_length [of s] by simp
  then have "p_value hook const (2 * length s + 1) (skip_ws s) \<noteq> Inl JFuel"
    using parsers_fuel(1) by blast
  then show ?thesis by (auto simp: json_loads_def bindE_eq_Inl split: if_splits)
qed

section \<open>What is printed reads back\<close>

text \<open>A hook that accepts every object without a repeated key, as it is.\<close>

locale dict_hook =
  fixes hook :: "pydict \<Rightarrow> 'e + json"
  assumes hook_distinct: "distinct (map fst kvs) \<Longrightarrow> hook kvs = Inr (JObj kvs)"

text \<open>
  Values as \<open>json.loads\<close> returns them for a canonical text: keys strictly sorted, no float, no
  integer beyond the digit limit.
\<close>

fun canon :: "json \<Rightarrow> bool" where
  "canon (JInt i) = (length (dec_nat (nat \<bar>i\<bar>)) \<le> 4300)"
| "canon (JFloat x) = False"
| "canon (JArr xs) = list_all canon xs"
| "canon (JObj kvs) = (sorted_wrt (<) (map fst kvs) \<and> list_all (\<lambda>(k, v). canon v) kvs)"
| "canon _ = True"

definition num_stop :: "pystr \<Rightarrow> bool" where
  "num_stop r = (case r of [] \<Rightarrow> True | c # _ \<Rightarrow> \<not> is_digit c \<and> c \<noteq> 0x2E \<and> c \<noteq> 0x65 \<and> c \<noteq> 0x45)"

lemma num_stop_simps [simp]:
  "num_stop []" "num_stop (0x2C # r)" "num_stop (0x5D # r)" "num_stop (0x7D # r)" "num_stop (0x0A # r)"
  by (simp_all add: num_stop_def is_digit_def)

lemma hex_val_digit: "d < 16 \<Longrightarrow> hex_val (hex_digit d) = Some d"
  by (auto simp: hex_val_def hex_digit_def)

lemma scan_string_escape: "scan_string (json_escape c @ r) = map_option (\<lambda>(t, r'). (c # t, r')) (scan_string r)"
proof -
  consider "c = 0x22" | "c = 0x5C" | "c = 0x0A" | "c = 0x0D" | "c = 0x09" | "c = 0x0C" | "c = 0x08"
    | (plain) "0x20 \<le> c" "c \<noteq> 0x22" "c \<noteq> 0x5C"
    | (ctrl) "c < 0x20" "c \<noteq> 0x0A" "c \<noteq> 0x0D" "c \<noteq> 0x09" "c \<noteq> 0x0C" "c \<noteq> 0x08"
    by linarith
  then show ?thesis
  proof cases
    case plain
    then show ?thesis by (simp add: json_escape_def scan_string.simps(2))
  next
    case ctrl
    have "c div 16 * 16 + c mod 16 = c" by simp
    with ctrl have "unicode_escape (0x30 # 0x30 # hex_digit (c div 16) # hex_digit (c mod 16) # r) = Some (c, r)"
      by (simp add: unicode_escape_def hex_val_digit) (simp add: hex_val_def)
    with ctrl show ?thesis
      by (simp add: json_escape_def scan_string.simps(2))
  qed (simp_all add: json_escape_def scan_string.simps(2) simple_escape_def)
qed

lemma scan_string_print: "scan_string (concat (map json_escape s) @ 0x22 # r) = Some (s, r)"
  by (induction s) (simp_all add: scan_string_escape, simp add: scan_string.simps(2))

lemma takeWhile_digits:
  assumes "list_all is_digit ds" and "num_stop r"
  shows "takeWhile is_digit (ds @ r) = ds"
proof -
  have "takeWhile is_digit r = []" using assms(2) by (cases r) (auto simp: num_stop_def)
  with assms(1) show ?thesis by (simp add: takeWhile_append2 list_all_iff)
qed

lemma dec_nat_head:
  obtains d ds where "dec_nat n = d # ds" "is_digit d" "d = 0x30 \<Longrightarrow> ds = []"
proof -
  obtain d ds where d: "dec_nat n = d # ds" by (cases "dec_nat n") simp_all
  then have "is_digit d" using dec_nat_digits [of n] by simp
  moreover have "ds = []" if "d = 0x30"
  proof -
    from that d have "n = 0" using hd_dec_nat [of n] by (cases "0 < n") auto
    with d show ?thesis by (simp add: dec_nat_0)
  qed
  ultimately show thesis using d that by blast
qed

lemma scan_number_print:
  assumes "num_stop r" and "length (dec_nat (nat \<bar>i\<bar>)) \<le> 4300"
  shows "scan_number (dec_int i @ r) = Inr (JInt i, r)"
proof -
  obtain d ds where d: "dec_nat (nat \<bar>i\<bar>) = d # ds" "is_digit d" "d = 0x30 \<Longrightarrow> ds = []"
    by (rule dec_nat_head [of "nat \<bar>i\<bar>"]) blast
  have tw: "takeWhile is_digit (dec_nat (nat \<bar>i\<bar>) @ r) = dec_nat (nat \<bar>i\<bar>)"
    using assms(1) dec_nat_digits by (rule takeWhile_digits [rotated])
  have stop: "scan_frac r = ([], r)" "scan_exp r = (None, r)"
    using assms(1) by (auto simp: scan_frac_def scan_exp_def num_stop_def split: list.splits)
  have val: "digits_val (d # ds) = nat \<bar>i\<bar>" using d(1) digits_val_dec_nat [of "nat \<bar>i\<bar>"] by simp
  have d2D: "d \<noteq> 0x2D" using d(2) by (auto simp: is_digit_def)
  show ?thesis
  proof (cases "i < 0")
    case True
    then have "dec_int i @ r = 0x2D # d # ds @ r" using d(1) by (simp add: dec_int_def)
    with True tw stop val d assms(2) show ?thesis
      by (cases "d = 0x30") (auto simp: scan_number_def Let_def)
  next
    case False
    then have "dec_int i @ r = d # ds @ r" using d(1) by (simp add: dec_int_def)
    with False tw stop val d d2D assms(2) show ?thesis
      by (cases "d = 0x30") (auto simp: scan_number_def Let_def)
  qed
qed

lemma join_with_Cons: "xs \<noteq> [] \<Longrightarrow> join_with sep (x # xs) = x @ sep # join_with sep xs"
  by (cases xs) simp_all

lemma dec_int_head:
  obtains c t where "dec_int i = c # t" "c = 0x2D \<and> i < 0 \<and> (\<exists>d t'. t = d # t' \<and> is_digit d) \<or> is_digit c"
proof -
  obtain d ds where "dec_nat (nat \<bar>i\<bar>) = d # ds" "is_digit d"
    by (rule dec_nat_head [of "nat \<bar>i\<bar>"]) blast
  then show thesis by (cases "i < 0") (auto simp: dec_int_def intro: that)
qed

lemma jprint_head:
  assumes "canon v"
  obtains c s where "jprint v = c # s" "\<not> json_ws c" "c \<noteq> 0x5D" "c \<noteq> 0x7D" "c \<noteq> 0xFEFF"
proof (cases v)
  case (JInt i)
  obtain c t where "dec_int i = c # t" "c = 0x2D \<or> is_digit c"
    using dec_int_head [of i] by metis
  with JInt show thesis
    by (intro that [of c t]) (auto simp: is_digit_def json_ws_def)
next
  case (JBool b)
  then show thesis using that by (cases b) (auto simp: u_def json_ws_def)
qed (use assms that in \<open>auto simp: u_def json_ws_def json_string_def\<close>)

lemma skip_ws_print: "canon v \<Longrightarrow> skip_ws (jprint v @ r) = jprint v @ r"
  by (rule jprint_head) (auto simp: skip_ws_def)

lemma skip_ws_char: "\<not> json_ws c \<Longrightarrow> skip_ws (c # r) = c # r"
  by (simp add: skip_ws_def)

lemma skip_ws_punct [simp]:
  "skip_ws (0x22 # r) = 0x22 # r" "skip_ws (0x2C # r) = 0x2C # r" "skip_ws (0x3A # r) = 0x3A # r"
  "skip_ws (0x5D # r) = 0x5D # r" "skip_ws (0x7D # r) = 0x7D # r"
  by (simp_all add: skip_ws_def json_ws_def)

lemma literal_at_Cons [simp]:
  "literal_at [] s" "\<not> literal_at (x # w) []"
  "literal_at (x # w) (c # s) \<longleftrightarrow> c = of_char x \<and> literal_at w s"
  by (auto simp: literal_at_def u_def)

lemma expect_simp [simp]: "expect c (c # r) = Inr r"
  by (simp add: expect_def)

lemma opt_decode_Some [simp]: "opt_decode (Some x) = Inr x"
  by (simp add: opt_decode_def)

text \<open>\<open>prints hook const v\<close>: the scanner reads \<open>v\<close> back in front of any text that may follow it.\<close>

definition prints :: "(pydict \<Rightarrow> 'e + json) \<Rightarrow> (string \<Rightarrow> 'e + json) \<Rightarrow> json \<Rightarrow> bool" where
  "prints hook const v \<longleftrightarrow> (\<forall>n r. num_stop r \<longrightarrow> 2 * length (jprint v @ r) + 1 \<le> n
     \<longrightarrow> p_value hook const n (jprint v @ r) = Inr (v, r))"

lemma printsD:
  "prints hook const v \<Longrightarrow> num_stop r \<Longrightarrow> 2 * length (jprint v @ r) + 1 \<le> n
     \<Longrightarrow> p_value hook const n (jprint v @ r) = Inr (v, r)"
  by (simp add: prints_def)

lemma p_elems_print:
  assumes "xs \<noteq> []" and "\<forall>x \<in> set xs. canon x \<and> prints hook const x"
    and "2 * length (join_with 0x2C (map jprint xs) @ 0x5D # r) + 2 \<le> n"
  shows "p_elems hook const n (join_with 0x2C (map jprint xs) @ 0x5D # r) = Inr (xs, r)"
  using assms
proof (induction xs arbitrary: n)
  case Nil
  then show ?case by simp
next
  case (Cons x xs)
  obtain m where n: "n = Suc m" using Cons.prems(3) by (cases n) simp_all
  have x: "prints hook const x" using Cons.prems(2) by simp
  show ?case
  proof (cases xs)
    case Nil
    have "p_value hook const m (jprint x @ 0x5D # r) = Inr (x, 0x5D # r)"
      using Cons.prems(3) Nil n by (intro printsD [OF x]) simp_all
    with Nil n show ?thesis by (simp add: p_elems.simps(2) Let_def)
  next
    case (Cons y ys)
    let ?t = "join_with 0x2C (map jprint xs) @ 0x5D # r"
    have split: "join_with 0x2C (map jprint (x # xs)) @ 0x5D # r = jprint x @ 0x2C # ?t"
      using Cons by simp
    have "p_value hook const m (jprint x @ 0x2C # ?t) = Inr (x, 0x2C # ?t)"
      using Cons.prems(3) n unfolding split by (intro printsD [OF x]) simp_all
    moreover have "p_elems hook const m ?t = Inr (xs, r)"
      using Cons.prems n unfolding split by (intro Cons.IH) (simp_all add: Cons)
    moreover have "skip_ws ?t = ?t"
      using Cons Cons.prems(2) skip_ws_print [of y] by (cases ys) simp_all
    ultimately show ?thesis
      unfolding split n by (simp add: p_elems.simps(2) Let_def)
  qed
qed

abbreviation print_member :: "pystr \<times> json \<Rightarrow> pystr" where
  "print_member \<equiv> \<lambda>(k, v). json_string k @ 0x3A # jprint v"

lemma p_members_print:
  assumes "kvs \<noteq> []" and "\<forall>(k, v) \<in> set kvs. canon v \<and> prints hook const v"
    and "2 * length (join_with 0x2C (map print_member kvs) @ 0x7D # r) + 2 \<le> n"
  shows "p_members hook const n (join_with 0x2C (map print_member kvs) @ 0x7D # r) = Inr (kvs, r)"
  using assms
proof (induction kvs arbitrary: n)
  case Nil
  then show ?case by simp
next
  case (Cons p kvs)
  obtain k v where p: "p = (k, v)" by (cases p)
  obtain m where n: "n = Suc m" using Cons.prems(3) by (cases n) simp_all
  have v: "prints hook const v" "canon v" using Cons.prems(2) p by simp_all
  note str = scan_string_print [of k]
  show ?case
  proof (cases kvs)
    case Nil
    have "p_value hook const m (jprint v @ 0x7D # r) = Inr (v, 0x7D # r)"
      using Cons.prems(3) Nil n p by (intro printsD [OF v(1)]) simp_all
    with Nil n p str skip_ws_print [OF v(2)] show ?thesis
      by (simp add: p_members.simps(2) Let_def json_string_def)
  next
    case (Cons q qs)
    let ?t = "join_with 0x2C (map print_member kvs) @ 0x7D # r"
    have split: "join_with 0x2C (map print_member (p # kvs)) @ 0x7D # r
        = 0x22 # concat (map json_escape k) @ 0x22 # 0x3A # jprint v @ 0x2C # ?t"
      using Cons p by (simp add: json_string_def)
    have "p_value hook const m (jprint v @ 0x2C # ?t) = Inr (v, 0x2C # ?t)"
      using Cons.prems(3) n unfolding split by (intro printsD [OF v(1)]) simp_all
    moreover have "p_members hook const m ?t = Inr (kvs, r)"
      using Cons.prems n unfolding split by (intro Cons.IH) (simp_all add: Cons)
    moreover have "skip_ws ?t = ?t"
      using Cons by (cases q; cases qs) (auto simp: json_string_def)
    ultimately show ?thesis
      using str skip_ws_print [OF v(2)] p
      unfolding split n by (simp add: p_members.simps(2) Let_def)
  qed
qed

context dict_hook
begin

lemma canon_prints: "canon v \<Longrightarrow> prints hook const v"
proof (induction v)
  case (JInt i)
  obtain c t where c: "dec_int i = c # t"
    "c = 0x2D \<and> i < 0 \<and> (\<exists>d t'. t = d # t' \<and> is_digit d) \<or> is_digit c" by (rule dec_int_head)
  show ?case unfolding prints_def
  proof (intro allI impI)
    fix n r assume r: "num_stop r" and n: "2 * length (jprint (JInt i) @ r) + 1 \<le> n"
    then obtain m where n: "n = Suc m" by (cases n) simp_all
    from c(2) have "p_value hook const (Suc m) (c # t @ r) = scan_number (c # t @ r)"
    proof
      assume "c = 0x2D \<and> i < 0 \<and> (\<exists>d t'. t = d # t' \<and> is_digit d)"
      then show ?thesis by (auto simp: p_value.simps(2) is_digit_def)
    next
      assume "is_digit c"
      then show ?thesis by (auto simp: p_value.simps(2) is_digit_def)
    qed
    with c(1) n scan_number_print [OF r, of i] JInt
    show "p_value hook const n (jprint (JInt i) @ r) = Inr (JInt i, r)" by simp
  qed
next
  case (JArr xs)
  show ?case unfolding prints_def
  proof (intro allI impI)
    fix n r assume n: "2 * length (jprint (JArr xs) @ r) + 1 \<le> n"
    then obtain m where m: "n = Suc m" by (cases n) simp_all
    have all: "\<forall>x \<in> set xs. canon x \<and> prints hook const x" using JArr by (auto simp: list_all_iff)
    show "p_value hook const n (jprint (JArr xs) @ r) = Inr (JArr xs, r)"
    proof (cases xs)
      case Nil
      then show ?thesis using m by (simp add: p_value.simps(2) Let_def)
    next
      case (Cons x ys)
      then have cx: "canon x" using all by simp
      let ?t = "join_with 0x2C (map jprint xs) @ 0x5D # r"
      obtain t' where t': "?t = jprint x @ t'" using Cons by (cases ys) auto
      obtain c s where "jprint x = c # s" "c \<noteq> 0x5D" using cx by (rule jprint_head)
      with t' skip_ws_print [OF cx] have "skip_ws ?t = ?t" "take 1 ?t \<noteq> [0x5D]" by simp_all
      moreover have "p_elems hook const m ?t = Inr (xs, r)"
        using n m all Cons by (intro p_elems_print) simp_all
      ultimately show ?thesis using m by (simp add: p_value.simps(2) Let_def)
    qed
  qed
next
  case (JObj kvs)
  show ?case unfolding prints_def
  proof (intro allI impI)
    fix n r assume n: "2 * length (jprint (JObj kvs) @ r) + 1 \<le> n"
    then obtain m where m: "n = Suc m" by (cases n) simp_all
    have all: "\<forall>(k, v) \<in> set kvs. canon v \<and> prints hook const v"
      using JObj by (fastforce simp: list_all_iff)
    have hk: "hook kvs = Inr (JObj kvs)"
      using JObj.prems by (intro hook_distinct) (simp add: strict_sorted_iff)
    show "p_value hook const n (jprint (JObj kvs) @ r) = Inr (JObj kvs, r)"
    proof (cases kvs)
      case Nil
      then show ?thesis using m hk by (simp add: p_value.simps(2) Let_def)
    next
      case (Cons p ps)
      let ?t = "join_with 0x2C (map print_member kvs) @ 0x7D # r"
      obtain t' where "?t = 0x22 # t'" using Cons by (cases p; cases ps) (auto simp: json_string_def)
      then have "skip_ws ?t = ?t" "take 1 ?t \<noteq> [0x7D]" by simp_all
      moreover have "p_members hook const m ?t = Inr (kvs, r)"
        using n m all Cons by (intro p_members_print) simp_all
      ultimately show ?thesis using m hk by (simp add: p_value.simps(2) Let_def)
    qed
  qed
next
  case (JStr s)
  show ?case unfolding prints_def
  proof (intro allI impI)
    fix n r assume n: "2 * length (jprint (JStr s) @ r) + 1 \<le> n"
    then obtain m where "n = Suc m" by (cases n) simp_all
    then show "p_value hook const n (jprint (JStr s) @ r) = Inr (JStr s, r)"
      using scan_string_print [of s r] by (simp add: p_value.simps(2) json_string_def)
  qed
next
  case (JBool b)
  show ?case unfolding prints_def
  proof (intro allI impI)
    fix n r assume n: "2 * length (jprint (JBool b) @ r) + 1 \<le> n"
    then obtain m where "n = Suc m" by (cases n) simp_all
    then show "p_value hook const n (jprint (JBool b) @ r) = Inr (JBool b, r)"
      by (cases b) (simp_all add: p_value.simps(2) u_def)
  qed
qed (auto simp: prints_def p_value.simps(2) u_def dest!: Suc_le_D)

theorem json_loads_print:
  assumes "canon v" and "list_all json_ws r"
  shows "json_loads hook const (jprint v @ r) = Inr v"
proof -
  obtain c s where c: "jprint v = c # s" "c \<noteq> 0xFEFF" using assms(1) by (rule jprint_head)
  have r: "skip_ws r = []" using assms(2) by (simp add: skip_ws_def list_all_iff)
  have "num_stop r" using assms(2) by (cases r) (auto simp: num_stop_def json_ws_def is_digit_def)
  then have "p_value hook const (2 * length (jprint v @ r) + 1) (jprint v @ r) = Inr (v, r)"
    using canon_prints [OF assms(1)] by (simp add: prints_def)
  with c r skip_ws_print [OF assms(1)] show ?thesis by (simp add: json_loads_def)
qed

end

text \<open>Values \<open>dumps\<close> prints without loss: no float, no repeated key, no oversized integer.\<close>

fun plain :: "json \<Rightarrow> bool" where
  "plain (JInt i) = (length (dec_nat (nat \<bar>i\<bar>)) \<le> 4300)"
| "plain (JFloat x) = False"
| "plain (JArr xs) = list_all plain xs"
| "plain (JObj kvs) = (distinct (map fst kvs) \<and> list_all (\<lambda>(k, v). plain v) kvs)"
| "plain _ = True"

lemma canon_plain: "canon v \<Longrightarrow> plain v"
  by (induction v) (fastforce simp: list_all_iff strict_sorted_iff)+

lemma canon_jsort_id: "canon v \<Longrightarrow> jsort v = v"
proof (induction v)
  case (JArr xs)
  then show ?case by (simp add: list_all_iff map_idI)
next
  case (JObj kvs)
  then have "map (\<lambda>(k, v). (k, jsort v)) kvs = kvs"
    by (intro map_idI) (fastforce simp: list_all_iff)
  moreover have "sort_key fst kvs = kvs"
    using JObj.prems by (simp add: sorted_sort_id sort_key_id_if_sorted strict_sorted_iff)
  ultimately show ?case by simp
qed simp_all

lemma plain_canon_jsort: "plain v \<Longrightarrow> canon (jsort v)"
proof (induction v)
  case (JArr xs)
  then show ?case by (simp add: list_all_iff)
next
  case (JObj kvs)
  let ?m = "map (\<lambda>(k, v). (k, jsort v)) kvs"
  have fst_m: "map fst ?m = map fst kvs" by (simp add: comp_def split_def)
  have "sorted (map fst (sort_key fst ?m))" by (rule sorted_sort_key)
  moreover have "distinct (map fst (sort_key fst ?m))"
  proof -
    have "mset (map fst (sort_key fst ?m)) = mset (map fst ?m)"
      by (simp only: mset_map mset_sort)
    then have "distinct (map fst (sort_key fst ?m)) \<longleftrightarrow> distinct (map fst ?m)"
      by (rule mset_eq_imp_distinct_iff)
    then show ?thesis using JObj.prems unfolding fst_m by simp
  qed
  moreover have "list_all (\<lambda>(k, v). canon v) (sort_key fst ?m)"
    using JObj by (fastforce simp: list_all_iff)
  ultimately show ?case by (simp add: strict_sorted_iff)
qed simp_all

lemma plain_jfinite: "plain v \<Longrightarrow> jfinite v"
  by (induction v) (fastforce simp: list_all_iff)+

lemma dumps_plain: "plain v \<Longrightarrow> dumps v = Some (jprint (jsort v))"
  by (simp add: dumps_def plain_jfinite)

lemma dumps_canon: "canon v \<Longrightarrow> dumps v = Some (jprint v)"
  by (simp add: dumps_plain canon_plain canon_jsort_id)

context dict_hook
begin

theorem json_loads_dumps:
  assumes "plain v" and "dumps v = Some s" and "list_all json_ws r"
  shows "json_loads hook const (s @ r) = Inr (jsort v)"
proof -
  have "s = jprint (jsort v)" using assms(1,2) by (simp add: dumps_plain)
  then show ?thesis using json_loads_print [OF plain_canon_jsort [OF assms(1)] assms(3)] by simp
qed

end

lemma foldl_dict_set:
  "distinct (map fst (d @ kvs)) \<Longrightarrow> foldl (\<lambda>d (k, v). dict_set k v d) d kvs = d @ kvs"
proof (induction kvs arbitrary: d)
  case Nil
  then show ?case by simp
next
  case (Cons p kvs)
  obtain k v where p: "p = (k, v)" by (cases p)
  have new: "k \<notin> set (map fst d) \<Longrightarrow> dict_set k v d = d @ [(k, v)]"
    by (induction d) auto
  have "dict_set k v d = d @ [(k, v)]" using Cons.prems p by (intro new) auto
  with Cons.IH [of "d @ [(k, v)]"] Cons.prems p show ?case by simp
qed

interpretation plain_hook: dict_hook plain_pairs
proof
  fix kvs :: pydict
  assume "distinct (map fst kvs)"
  with foldl_dict_set [of "[]" kvs] show "plain_pairs kvs = Inr (JObj kvs)"
    by (simp add: plain_pairs_def)
qed

text \<open>The printed form determines the value up to the order of its keys.\<close>

lemma dumps_inject:
  assumes "plain v" and "plain w" and "dumps v = dumps w"
  shows "jsort v = jsort w"
proof -
  obtain s where s: "dumps v = Some s" "dumps w = Some s" using assms dumps_plain by metis
  have "json_loads plain_pairs (plain_const :: string \<Rightarrow> unit + json) (s @ []) = Inr (jsort v)"
    by (rule plain_hook.json_loads_dumps [OF assms(1) s(1)]) simp
  moreover have "json_loads plain_pairs (plain_const :: string \<Rightarrow> unit + json) (s @ []) = Inr (jsort w)"
    by (rule plain_hook.json_loads_dumps [OF assms(2) s(2)]) simp
  ultimately show ?thesis by simp
qed

end
