(* ===== verification/Py_Base64.thy ===== *)
theory Py_Base64
  imports Py_Text
begin

text \<open>
  \<open>base64.b64encode\<close> and \<open>base64.b64decode(..., validate=True)\<close>, with the round trip. Like the
  library, the decoder does not look at the unused low bits before the padding; the callers
  re-encode and compare to refuse such text.
\<close>

definition b64_char :: "nat \<Rightarrow> nat" where
  "b64_char v =
     (if v < 26 then 0x41 + v else if v < 52 then 0x61 + (v - 26) else if v < 62 then 0x30 + (v - 52)
      else if v = 62 then 0x2B else 0x2F)"

definition b64_val :: "nat \<Rightarrow> nat option" where
  "b64_val c =
     (if 0x41 \<le> c \<and> c \<le> 0x5A then Some (c - 0x41)
      else if 0x61 \<le> c \<and> c \<le> 0x7A then Some (c - 0x61 + 26)
      else if 0x30 \<le> c \<and> c \<le> 0x39 then Some (c - 0x30 + 52)
      else if c = 0x2B then Some 62 else if c = 0x2F then Some 63 else None)"

fun b64_enc :: "nat list \<Rightarrow> pystr" where
  "b64_enc [] = []"
| "b64_enc [a] = [b64_char (a div 4), b64_char (a mod 4 * 16), 0x3D, 0x3D]"
| "b64_enc [a, b] =
     [b64_char (a div 4), b64_char (a mod 4 * 16 + b div 16), b64_char (b mod 16 * 4), 0x3D]"
| "b64_enc (a # b # c # r) =
     [b64_char (a div 4), b64_char (a mod 4 * 16 + b div 16), b64_char (b mod 16 * 4 + c div 64),
      b64_char (c mod 64)] @ b64_enc r"

fun b64_dec :: "pystr \<Rightarrow> nat list option" where
  "b64_dec [] = Some []"
| "b64_dec (w # x # y # z # r) =
     (if z = 0x3D \<and> r = [] then
        (if y = 0x3D then
           (case (b64_val w, b64_val x) of
              (Some p, Some q) \<Rightarrow> Some [p * 4 + q div 16]
            | _ \<Rightarrow> None)
         else
           (case (b64_val w, b64_val x, b64_val y) of
              (Some p, Some q, Some s) \<Rightarrow> Some [p * 4 + q div 16, q mod 16 * 16 + s div 4]
            | _ \<Rightarrow> None))
      else
        (case (b64_val w, b64_val x, b64_val y, b64_val z) of
           (Some p, Some q, Some s, Some t) \<Rightarrow>
             map_option (\<lambda>bs. (p * 4 + q div 16) # (q mod 16 * 16 + s div 4) # (s mod 4 * 64 + t) # bs)
               (b64_dec r)
         | _ \<Rightarrow> None))"
| "b64_dec _ = None"

definition b64encode :: "bytes \<Rightarrow> pystr" where
  "b64encode b = b64_enc (map of_char b)"

definition b64decode :: "pystr \<Rightarrow> bytes option" where
  "b64decode s = map_option (map char_of) (b64_dec s)"

lemma b64_val_char [simp]: "v < 64 \<Longrightarrow> b64_val (b64_char v) = Some v"
  by (auto simp: b64_val_def b64_char_def)

lemma b64_char_pad [simp]: "v < 64 \<Longrightarrow> b64_char v \<noteq> 0x3D"
  by (auto simp: b64_char_def)

lemma six_bits [simp]:
  "a < 256 \<Longrightarrow> a div 4 < (64 :: nat)"
  "b < 256 \<Longrightarrow> a mod 4 * 16 + b div 16 < (64 :: nat)"
  "c < 256 \<Longrightarrow> b mod 16 * 4 + c div 64 < (64 :: nat)"
  "a mod 4 * 16 < (64 :: nat)" "b mod 16 * 4 < (64 :: nat)"
proof -
  have m: "a mod 4 \<le> 3" "b mod 16 \<le> 15" by (simp_all add: less_Suc_eq_le [symmetric])
  show "a < 256 \<Longrightarrow> a div 4 < (64 :: nat)" by simp
  have "b div 16 < 16" if "b < 256" using that by simp
  with m show "b < 256 \<Longrightarrow> a mod 4 * 16 + b div 16 < (64 :: nat)" by fastforce
  have "c div 64 < 4" if "c < 256" using that by simp
  with m show "c < 256 \<Longrightarrow> b mod 16 * 4 + c div 64 < (64 :: nat)" by fastforce
  from m show "a mod 4 * 16 < (64 :: nat)" "b mod 16 * 4 < (64 :: nat)" by auto
qed

lemma b64_dec_enc: "(\<forall>x \<in> set bs. x < 256) \<Longrightarrow> b64_dec (b64_enc bs) = Some bs"
proof (induction bs rule: b64_enc.induct)
  case (4 a b c r)
  have "b64_char (c mod 64) \<noteq> 0x3D" by simp
  with 4 show ?case by (auto simp: div_mult_mod_eq)
qed (auto simp: div_mult_mod_eq)

theorem b64decode_encode: "b64decode (b64encode b) = Some b"
  by (simp add: b64decode_def b64encode_def b64_dec_enc comp_def)

lemma b64encode_inject: "b64encode a = b64encode b \<longleftrightarrow> a = b"
  by (metis b64decode_encode option.inject)

lemma b64_enc_ascii: "(\<forall>x \<in> set bs. x < 256) \<Longrightarrow> ascii (b64_enc bs)"
proof -
  have c: "v < 64 \<Longrightarrow> b64_char v < 0x80" for v by (auto simp: b64_char_def)
  show "(\<forall>x \<in> set bs. x < 256) \<Longrightarrow> ascii (b64_enc bs)"
    by (induction bs rule: b64_enc.induct) (auto simp: ascii_def c)
qed

lemma ascii_b64encode: "ascii (b64encode b)"
  by (simp add: b64encode_def b64_enc_ascii)

lemma length_b64_enc: "3 * length (b64_enc bs) \<le> 4 * length bs + 8"
  by (induction bs rule: b64_enc.induct) auto

lemma length_b64encode: "3 * length (b64encode b) \<le> 4 * length b + 8"
  using length_b64_enc [of "map of_char b"] by (simp add: b64encode_def)

lemma b64encode_Nil_iff [simp]: "b64encode b = [] \<longleftrightarrow> b = []"
proof -
  have "b64_enc bs = [] \<longleftrightarrow> bs = []" for bs by (cases bs rule: b64_enc.cases) simp_all
  then show ?thesis by (simp add: b64encode_def)
qed

end
