(* ===== verification/Py_Digest.thy ===== *)
theory Py_Digest
  imports Py_Json Py_Base64 "HOL-Library.Word"
begin

text \<open>
  \<open>hashlib.sha256(...).hexdigest()\<close>. The components take the digest function as an argument,
  so that what is proved of them holds for every function with hexadecimal digests of 64
  characters (the locale \<open>sha256_fn\<close>); \<open>sha256_hexdigest\<close> is the FIPS 180-4 function itself,
  executable, and an instance of the locale.
\<close>

unbundle bit_operations_syntax

type_synonym hash_fn = "bytes \<Rightarrow> pystr"

section \<open>The shape of a digest\<close>

definition lower_hex :: "nat \<Rightarrow> bool" where
  "lower_hex c \<longleftrightarrow> is_digit c \<or> 0x61 \<le> c \<and> c \<le> 0x66"

text \<open>The pattern \<open>^[0-9a-f]{64}$\<close>, matched against the whole text.\<close>

definition is_sha256 :: "pystr \<Rightarrow> bool" where
  "is_sha256 s \<longleftrightarrow> length s = 64 \<and> list_all lower_hex s"

text \<open>The same for \<open>^[0-9a-f]{40}$\<close>, a Git object name.\<close>

definition is_git_sha :: "pystr \<Rightarrow> bool" where
  "is_git_sha s \<longleftrightarrow> length s = 40 \<and> list_all lower_hex s"

locale sha256_fn =
  fixes sha :: hash_fn
  assumes sha_shape: "is_sha256 (sha b)"

lemma is_sha256_ascii: "is_sha256 s \<Longrightarrow> ascii s"
  by (auto simp: is_sha256_def ascii_def lower_hex_def is_digit_def list_all_iff)

section \<open>SHA-256\<close>

type_synonym w32 = "32 word"

text \<open>The constants of the standard, in decimal.\<close>

definition sha_k :: "w32 list" where
  "sha_k = [
    1116352408, 1899447441, 3049323471, 3921009573, 961987163, 1508970993, 2453635748, 2870763221,
    3624381080, 310598401, 607225278, 1426881987, 1925078388, 2162078206, 2614888103, 3248222580,
    3835390401, 4022224774, 264347078, 604807628, 770255983, 1249150122, 1555081692, 1996064986,
    2554220882, 2821834349, 2952996808, 3210313671, 3336571891, 3584528711, 113926993, 338241895,
    666307205, 773529912, 1294757372, 1396182291, 1695183700, 1986661051, 2177026350, 2456956037,
    2730485921, 2820302411, 3259730800, 3345764771, 3516065817, 3600352804, 4094571909, 275423344,
    430227734, 506948616, 659060556, 883997877, 958139571, 1322822218, 1537002063, 1747873779,
    1955562222, 2024104815, 2227730452, 2361852424, 2428436474, 2756734187, 3204031479, 3329325298]"

definition sha_h0 :: "w32 list" where
  "sha_h0 = [1779033703, 3144134277, 1013904242, 2773480762, 1359893119, 2600822924, 528734635, 1541459225]"

definition rotr :: "nat \<Rightarrow> w32 \<Rightarrow> w32" where
  "rotr n x = drop_bit n x OR push_bit (32 - n) x"

definition ch :: "w32 \<Rightarrow> w32 \<Rightarrow> w32 \<Rightarrow> w32" where
  "ch e f g = (e AND f) XOR (NOT e AND g)"

definition maj :: "w32 \<Rightarrow> w32 \<Rightarrow> w32 \<Rightarrow> w32" where
  "maj a b c = (a AND b) XOR (a AND c) XOR (b AND c)"

text \<open>The message schedule: sixteen words of the block, extended to sixty-four.\<close>

definition next_w :: "w32 list \<Rightarrow> w32" where
  "next_w ws =
     (let n = length ws; a = ws ! (n - 2); b = ws ! (n - 15) in
      (rotr 17 a XOR rotr 19 a XOR drop_bit 10 a) + ws ! (n - 7)
        + (rotr 7 b XOR rotr 18 b XOR drop_bit 3 b) + ws ! (n - 16))"

definition schedule :: "w32 list \<Rightarrow> w32 list" where
  "schedule ws = ((\<lambda>xs. xs @ [next_w xs]) ^^ 48) ws"

fun sha_round :: "w32 \<times> w32 \<Rightarrow> w32 list \<Rightarrow> w32 list" where
  "sha_round (k, w) [a, b, c, d, e, f, g, h] =
     (let t1 = h + (rotr 6 e XOR rotr 11 e XOR rotr 25 e) + ch e f g + k + w;
          t2 = (rotr 2 a XOR rotr 13 a XOR rotr 22 a) + maj a b c
      in [t1 + t2, a, b, c, d + t1, e, f, g])"
| "sha_round _ hs = hs"

definition compress :: "w32 list \<Rightarrow> w32 list \<Rightarrow> w32 list" where
  "compress hs block = map2 (+) hs (fold sha_round (zip sha_k (schedule block)) hs)"

definition be_bytes :: "nat \<Rightarrow> nat \<Rightarrow> nat list" where
  "be_bytes width n = map (\<lambda>i. n div 256 ^ (width - 1 - i) mod 256) [0..<width]"

definition be_word :: "nat list \<Rightarrow> w32" where
  "be_word bs = of_nat (foldl (\<lambda>a b. 256 * a + b) 0 bs)"

definition sha_pad :: "nat list \<Rightarrow> nat list" where
  "sha_pad bs = bs @ [0x80] @ replicate ((119 - length bs mod 64) mod 64) 0 @ be_bytes 8 (8 * length bs)"

fun chunks :: "nat \<Rightarrow> 'a list \<Rightarrow> 'a list list" where
  "chunks n [] = []"
| "chunks n (x # xs) = (if n = 0 then [] else take n (x # xs) # chunks n (drop n (x # xs)))"

definition sha256_words :: "nat list \<Rightarrow> w32 list" where
  "sha256_words bs =
     fold (\<lambda>block hs. compress hs (map be_word (chunks 4 block))) (chunks 64 (sha_pad bs)) sha_h0"

definition hex_byte :: "nat \<Rightarrow> pystr" where
  "hex_byte b = [hex_digit (b div 16 mod 16), hex_digit (b mod 16)]"

definition sha256_hexdigest :: hash_fn where
  "sha256_hexdigest b =
     concat (map hex_byte (concat (map (\<lambda>w. be_bytes 4 (unat w)) (sha256_words (map of_char b)))))"

lemma lower_hex_digit: "d < 16 \<Longrightarrow> lower_hex (hex_digit d)"
  by (auto simp: lower_hex_def hex_digit_def is_digit_def)

lemma length_schedule: "length (schedule ws) = length ws + 48"
proof -
  have "length (((\<lambda>xs. xs @ [next_w xs]) ^^ n) ws) = length ws + n" for n
    by (induction n) simp_all
  then show ?thesis by (simp add: schedule_def)
qed

lemma length_sha_round: "length (sha_round kw hs) = length hs"
  by (induction kw hs rule: sha_round.induct) (simp_all add: Let_def)

lemma length_fold_sha_round: "length (fold sha_round kws hs) = length hs"
  by (induction kws arbitrary: hs) (simp_all add: length_sha_round)

lemma length_sha256_words: "length (sha256_words bs) = 8"
proof -
  have "length (fold (\<lambda>block hs. compress hs (g block)) bl hs) = length hs"
    for g and bl :: "nat list list" and hs
    by (induction bl arbitrary: hs) (simp_all add: compress_def length_fold_sha_round)
  from this [of "\<lambda>block. map be_word (chunks 4 block)" "chunks 64 (sha_pad bs)" sha_h0]
  show ?thesis by (simp add: sha256_words_def sha_h0_def)
qed

lemma hex_bytes_shape:
  "list_all lower_hex (concat (map hex_byte bs)) \<and> length (concat (map hex_byte bs)) = 2 * length bs"
  by (induction bs) (simp_all add: hex_byte_def lower_hex_digit)

lemma is_sha256_hex_bytes: "length bs = 32 \<Longrightarrow> is_sha256 (concat (map hex_byte bs))"
  using hex_bytes_shape [of bs] unfolding is_sha256_def by linarith

lemma sha256_hexdigest_shape: "is_sha256 (sha256_hexdigest b)"
proof -
  have four: "length (concat (map (\<lambda>w. be_bytes 4 (f w)) ws)) = 4 * length ws" for f and ws :: "w32 list"
    by (induction ws) (simp_all add: be_bytes_def)
  have "length (concat (map (\<lambda>w. be_bytes 4 (unat w)) (sha256_words (map of_char b)))) = 32"
    unfolding four length_sha256_words by simp
  then show ?thesis unfolding sha256_hexdigest_def by (rule is_sha256_hex_bytes)
qed

interpretation real_sha: sha256_fn sha256_hexdigest
  by unfold_locales (rule sha256_hexdigest_shape)

section \<open>A cheap stand-in\<close>

text \<open>
  A weighted byte sum in 64 hexadecimal digits: also an instance of the locale, and cheap enough
  for the kernel to evaluate where an example needs digests that differ.
\<close>

definition sum_digest :: hash_fn where
  "sum_digest b = concat (map hex_byte (be_bytes 32 (foldl (\<lambda>a c. (31 * a + of_char c) mod 4294967291) 7 b)))"

lemma sum_digest_shape: "is_sha256 (sum_digest b)"
  unfolding sum_digest_def by (rule is_sha256_hex_bytes) (simp add: be_bytes_def)

interpretation sum_sha: sha256_fn sum_digest
  by unfold_locales (rule sum_digest_shape)

end
