(* ===== verification/Outer_State.thy ===== *)
theory Outer_State
  imports Py_Digest
begin

text \<open>
  \<open>tools/ai_review/outer_workflow_state.py\<close>: the seven-phase state machine of the external
  launcher, which treats every byte the coordinator hands it as untrusted. A dictionary read
  from canonical JSON is a \<open>pydict\<close>; \<open>fld d k\<close> is \<open>d["k"]\<close>, used only where the exact
  field set of \<open>d\<close> was checked before. The digest function \<open>sha\<close> is an argument.
\<close>

section \<open>Errors, constants and field checks\<close>

text \<open>
  The module's own exception with its message; the \<open>ValueError\<close> of an oversized integer
  literal, which no handler of the module catches; the \<open>StopIteration\<close> of \<open>next\<close>; and an
  exception raised by a caller's callback.
\<close>

datatype ows_error =
    OuterWorkflowStateError string
  | OwsValueError
  | OwsStopIteration
  | OwsCallback string

definition PHASE_ORDER :: "pystr list" where
  "PHASE_ORDER = [u ''snapshot'', u ''red-snapshot'', u ''offline'', u ''review-packet'',
     u ''broker'', u ''sign'', u ''attested-judge'']"

definition ows_external :: "pystr \<Rightarrow> pystr" where
  "ows_external phase =
     (if phase = u ''offline'' then u ''offline''
      else if phase = u ''broker'' then u ''broker'' else u ''none'')"

definition nul :: bytes where
  "nul = [CHR 0x00]"

definition REQUEST_DOMAIN :: bytes where
  "REQUEST_DOMAIN = ''amazon-explorer-phase-request-v1'' @ nul"

definition ACTION_DOMAIN :: bytes where
  "ACTION_DOMAIN = ''amazon-explorer-phase-action-v1'' @ nul"

definition OUTPUT_DOMAIN :: bytes where
  "OUTPUT_DOMAIN = ''amazon-explorer-coordinator-phase-output-v1'' @ nul"

definition RESULT_DOMAIN :: bytes where
  "RESULT_DOMAIN = ''amazon-explorer-phase-result-v1'' @ nul"

definition PREPARED_DOMAIN :: bytes where
  "PREPARED_DOMAIN = ''amazon-explorer-outer-prepared-transition-v1'' @ nul"

definition FINALIZED_DOMAIN :: bytes where
  "FINALIZED_DOMAIN = ''amazon-explorer-outer-finalized-transition-v1'' @ nul"

definition MAX_PREPARED_BYTES :: nat where
  "MAX_PREPARED_BYTES = 3000000"

definition MAX_EXTERNAL_BYTES :: nat where
  "MAX_EXTERNAL_BYTES = 6000000"

definition MAX_FINALIZED_BYTES :: nat where
  "MAX_FINALIZED_BYTES = 10000000"

definition canonical :: "json \<Rightarrow> ows_error + bytes" where
  "canonical v =
     (case dumps v of
        None \<Rightarrow> Inl (OuterWorkflowStateError ''workflow value is not canonical JSON'')
      | Some s \<Rightarrow>
          (case utf8_encode (s @ [0x0A]) of
             None \<Rightarrow> Inl (OuterWorkflowStateError ''workflow value is not canonical JSON'')
           | Some b \<Rightarrow> Inr b))"

definition domain :: "hash_fn \<Rightarrow> bytes \<Rightarrow> json \<Rightarrow> ows_error + pystr" where
  "domain sha tag v = bindE (canonical v) (\<lambda>b. Inr (sha (tag @ b)))"

definition unique_pairs :: "string \<Rightarrow> pydict \<Rightarrow> ows_error + json" where
  "unique_pairs label kvs =
     (if distinct (map fst kvs) then Inr (JObj kvs)
      else Inl (OuterWorkflowStateError (label @ '' contains a duplicate field'')))"

definition no_constant :: "string \<Rightarrow> string \<Rightarrow> ows_error + json" where
  "no_constant label c = Inl (OuterWorkflowStateError (label @ '' contains a non-finite number''))"

definition strict_json :: "string \<Rightarrow> nat \<Rightarrow> bytes \<Rightarrow> ows_error + pydict" where
  "strict_json label maximum raw =
     (if raw = [] \<or> maximum < length raw then
        Inl (OuterWorkflowStateError (label @ '' is empty or exceeds its byte limit''))
      else
        (case utf8_decode raw of
           None \<Rightarrow> Inl (OuterWorkflowStateError (label @ '' is invalid JSON''))
         | Some text \<Rightarrow>
             (case json_loads (unique_pairs label) (no_constant label) text of
                Inl (JHook e) \<Rightarrow> Inl e
              | Inl JIntDigits \<Rightarrow> Inl OwsValueError
              | Inl _ \<Rightarrow> Inl (OuterWorkflowStateError (label @ '' is invalid JSON''))
              | Inr (JObj d) \<Rightarrow>
                  bindE (canonical (JObj d)) (\<lambda>b.
                    if b = raw then Inr d
                    else Inl (OuterWorkflowStateError (label @ '' is not canonical JSON'')))
              | Inr _ \<Rightarrow> Inl (OuterWorkflowStateError (label @ '' is not canonical JSON'')))))"

definition fld :: "pydict \<Rightarrow> string \<Rightarrow> json" where
  "fld d k = (case map_of d (u k) of Some v \<Rightarrow> v | None \<Rightarrow> JNull)"

definition exact :: "string \<Rightarrow> string list \<Rightarrow> json \<Rightarrow> ows_error + pydict" where
  "exact label fields v =
     (case v of
        JObj d \<Rightarrow>
          (if set (map fst d) = set (map u fields) then Inr d
           else Inl (OuterWorkflowStateError (label @ '' has missing or unknown fields'')))
      | _ \<Rightarrow> Inl (OuterWorkflowStateError (label @ '' has missing or unknown fields'')))"

definition sha_field :: "string \<Rightarrow> json \<Rightarrow> ows_error + pystr" where
  "sha_field label v =
     (case v of
        JStr s \<Rightarrow> (if is_sha256 s then Inr s
                 else Inl (OuterWorkflowStateError (label @ '' is not a lowercase SHA-256'')))
      | _ \<Rightarrow> Inl (OuterWorkflowStateError (label @ '' is not a lowercase SHA-256'')))"

definition integer :: "string \<Rightarrow> int \<Rightarrow> int \<Rightarrow> json \<Rightarrow> ows_error + int" where
  "integer label minimum maximum v =
     (case v of
        JInt i \<Rightarrow> (if minimum \<le> i \<and> i \<le> maximum then Inr i
                 else Inl (OuterWorkflowStateError (label @ '' is not a strict bounded integer'')))
      | _ \<Rightarrow> Inl (OuterWorkflowStateError (label @ '' is not a strict bounded integer'')))"

definition decode_base64 :: "string \<Rightarrow> nat \<Rightarrow> json \<Rightarrow> ows_error + bytes" where
  "decode_base64 label maximum v =
     (case v of
        JStr s \<Rightarrow>
          (if maximum * 2 < length s then Inl (OuterWorkflowStateError (label @ '' encoding is invalid''))
           else
             (case b64decode s of
                None \<Rightarrow> Inl (OuterWorkflowStateError (label @ '' encoding is invalid''))
              | Some raw \<Rightarrow>
                  (if raw = [] \<or> maximum < length raw \<or> b64encode raw \<noteq> s then
                     Inl (OuterWorkflowStateError (label @ '' is empty, oversized, or non-canonical''))
                   else Inr raw)))
      | _ \<Rightarrow> Inl (OuterWorkflowStateError (label @ '' encoding is invalid'')))"

text \<open>\<open>{key: value for key, value in d.items() if key != k}\<close>, as the value that is digested.\<close>

definition unsigned_body :: "string \<Rightarrow> pydict \<Rightarrow> json" where
  "unsigned_body k d = JObj (dict_drop (u k) d)"

section \<open>Phase requests\<close>

definition REQUEST_FIELDS :: "string list" where
  "REQUEST_FIELDS = [''schema_version'', ''workflow_id'', ''phase'', ''sequence'',
     ''previous_phase_sha256'', ''task_sha256'', ''runtime_manifest_sha256'', ''coordinator_key_id'',
     ''coordinator_public_key_sha256'', ''candidate_sha256'', ''candidate_snapshot_sha256'',
     ''review_packet_sha256'', ''input_artifacts_sha256'', ''request_sha256'']"

definition REQUIRED_SHAS :: "string list" where
  "REQUIRED_SHAS = [''workflow_id'', ''task_sha256'', ''runtime_manifest_sha256'', ''coordinator_key_id'',
     ''coordinator_public_key_sha256'', ''candidate_sha256'', ''input_artifacts_sha256'', ''request_sha256'']"

definition OPTIONAL_SHAS :: "string list" where
  "OPTIONAL_SHAS = [''previous_phase_sha256'', ''candidate_snapshot_sha256'', ''review_packet_sha256'']"

text \<open>\<open>PHASE_ORDER.index(phase) + 1\<close>, where the phase is one of the seven.\<close>

fun index_from :: "nat \<Rightarrow> 'a \<Rightarrow> 'a list \<Rightarrow> nat option" where
  "index_from n x [] = None"
| "index_from n x (y # ys) = (if x = y then Some n else index_from (Suc n) x ys)"

definition phase_number :: "json \<Rightarrow> int option" where
  "phase_number v = (case v of JStr s \<Rightarrow> map_option int (index_from 1 s PHASE_ORDER) | _ \<Rightarrow> None)"

definition check_sequence :: "json \<Rightarrow> json \<Rightarrow> json \<Rightarrow> ows_error + int" where
  "check_sequence version phase sequence =
     (case phase_number phase of
        None \<Rightarrow> Inl (OuterWorkflowStateError ''phase request order is invalid'')
      | Some n \<Rightarrow>
          (if version \<noteq> JStr (u ''1.0'') then
             Inl (OuterWorkflowStateError ''phase request order is invalid'')
           else
             bindE (integer ''phase sequence'' 1 7 sequence) (\<lambda>i.
               if i \<noteq> n then Inl (OuterWorkflowStateError ''phase request order is invalid'')
               else Inr i)))"

definition check_optional_sha :: "pydict \<Rightarrow> string \<Rightarrow> ows_error + unit" where
  "check_optional_sha d k =
     (if fld d k = JNull then Inr () else bindE (sha_field k (fld d k)) (\<lambda>_. Inr ()))"

definition validate_phase_request_bytes :: "hash_fn \<Rightarrow> bytes \<Rightarrow> ows_error + pydict" where
  "validate_phase_request_bytes sha raw =
     bindE (strict_json ''phase request'' 128000 raw) (\<lambda>value.
     bindE (exact ''phase request'' REQUEST_FIELDS (JObj value)) (\<lambda>request.
     bindE (check_sequence (fld request ''schema_version'') (fld request ''phase'')
              (fld request ''sequence'')) (\<lambda>sequence.
     bindE (allE (\<lambda>k. bindE (sha_field k (fld request k)) (\<lambda>_. Inr ())) REQUIRED_SHAS) (\<lambda>_.
     bindE (allE (check_optional_sha request) OPTIONAL_SHAS) (\<lambda>_.
     bindE (guardE ((fld request ''previous_phase_sha256'' = JNull) = (sequence = 1))
              (OuterWorkflowStateError ''phase request prior binding is invalid'')) (\<lambda>_.
     bindE (guardE ((fld request ''candidate_snapshot_sha256'' = JNull) = (sequence = 1))
              (OuterWorkflowStateError ''phase request snapshot binding is invalid'')) (\<lambda>_.
     bindE (guardE ((fld request ''review_packet_sha256'' \<noteq> JNull) = (5 \<le> sequence))
              (OuterWorkflowStateError ''phase request packet binding is invalid'')) (\<lambda>_.
     bindE (domain sha REQUEST_DOMAIN (unsigned_body ''request_sha256'' request)) (\<lambda>measured.
     bindE (guardE (fld request ''request_sha256'' = JStr measured)
              (OuterWorkflowStateError ''phase request digest is invalid'')) (\<lambda>_.
     Inr request))))))))))"

section \<open>Prepared transitions\<close>

definition ACTION_FIELDS :: "string list" where
  "ACTION_FIELDS = [''schema_version'', ''workflow_id'', ''phase'', ''sequence'', ''request_sha256'',
     ''external_kind'', ''payload_sha256'', ''action_sha256'']"

definition phase_of :: "pydict \<Rightarrow> pystr" where
  "phase_of request = (case fld request ''phase'' of JStr s \<Rightarrow> s | _ \<Rightarrow> [])"

definition validate_action :: "hash_fn \<Rightarrow> pydict \<Rightarrow> bytes \<Rightarrow> json \<Rightarrow> ows_error + pydict" where
  "validate_action sha request payload v =
     bindE (exact ''phase action'' ACTION_FIELDS v) (\<lambda>action.
     let bad = OuterWorkflowStateError ''phase action does not match its request and payload'' in
     bindE (guardE (fld action ''schema_version'' = JStr (u ''1.0'')
              \<and> fld action ''workflow_id'' = fld request ''workflow_id''
              \<and> fld action ''phase'' = fld request ''phase'') bad) (\<lambda>_.
     bindE (integer ''action sequence'' 1 7 (fld action ''sequence'')) (\<lambda>sequence.
     bindE (guardE (JInt sequence = fld request ''sequence''
              \<and> fld action ''request_sha256'' = fld request ''request_sha256''
              \<and> fld action ''external_kind'' = JStr (ows_external (phase_of request))
              \<and> fld action ''payload_sha256'' = JStr (sha payload)) bad) (\<lambda>_.
     bindE (sha_field ''action SHA-256'' (fld action ''action_sha256'')) (\<lambda>digest.
     bindE (domain sha ACTION_DOMAIN (unsigned_body ''action_sha256'' action)) (\<lambda>measured.
     bindE (guardE (digest = measured)
              (OuterWorkflowStateError ''phase action digest is invalid'')) (\<lambda>_.
     Inr action)))))))"

record prepared_transition =
  pt_action :: pydict
  pt_payload :: bytes
  pt_sha256 :: pystr

definition prepared_body :: "json \<Rightarrow> json \<Rightarrow> json" where
  "prepared_body action encoded =
     JObj [(u ''action'', action), (u ''payload_base64'', encoded),
           (u ''schema_version'', JStr (u ''1.0''))]"

definition encode_prepared_transition :: "hash_fn \<Rightarrow> pydict \<Rightarrow> bytes \<Rightarrow> ows_error + bytes" where
  "encode_prepared_transition sha action payload =
     bindE (domain sha PREPARED_DOMAIN (prepared_body (JObj action) (JStr (b64encode payload)))) (\<lambda>digest.
     canonical (JObj [(u ''action'', JObj action), (u ''payload_base64'', JStr (b64encode payload)),
       (u ''schema_version'', JStr (u ''1.0'')), (u ''prepared_sha256'', JStr digest)]))"

definition parse_prepared_transition :: "hash_fn \<Rightarrow> pydict \<Rightarrow> bytes \<Rightarrow> ows_error + prepared_transition" where
  "parse_prepared_transition sha request raw =
     bindE (strict_json ''prepared transition'' MAX_PREPARED_BYTES raw) (\<lambda>d.
     bindE (exact ''prepared transition''
              [''action'', ''payload_base64'', ''prepared_sha256'', ''schema_version''] (JObj d)) (\<lambda>value.
     bindE (guardE (fld value ''schema_version'' = JStr (u ''1.0''))
              (OuterWorkflowStateError ''prepared transition version is invalid'')) (\<lambda>_.
     bindE (decode_base64 ''prepared payload'' 2000000 (fld value ''payload_base64'')) (\<lambda>payload.
     bindE (validate_action sha request payload (fld value ''action'')) (\<lambda>action.
     bindE (sha_field ''prepared transition SHA-256'' (fld value ''prepared_sha256'')) (\<lambda>digest.
     bindE (domain sha PREPARED_DOMAIN
              (prepared_body (fld value ''action'') (fld value ''payload_base64''))) (\<lambda>measured.
     bindE (guardE (digest = measured)
              (OuterWorkflowStateError ''prepared transition digest is invalid'')) (\<lambda>_.
     Inr \<lparr>pt_action = action, pt_payload = payload, pt_sha256 = digest\<rparr>))))))))"

section \<open>Artifacts of a coordinator output\<close>

definition starts_with :: "pystr \<Rightarrow> pystr \<Rightarrow> bool" where
  "starts_with p s \<longleftrightarrow> take (length p) s = p"

definition lower :: "nat \<Rightarrow> bool" where
  "lower c \<longleftrightarrow> 0x61 \<le> c \<and> c \<le> 0x7A"

definition upper :: "nat \<Rightarrow> bool" where
  "upper c \<longleftrightarrow> 0x41 \<le> c \<and> c \<le> 0x5A"

text \<open>\<open>[A-Z][A-Z0-9_-]{0,63}\<close>, the identifiers of tasks and acceptance tests.\<close>

definition is_upper_id :: "pystr \<Rightarrow> bool" where
  "is_upper_id s =
     (case s of
        [] \<Rightarrow> False
      | c # t \<Rightarrow> upper c \<and> length t \<le> 63
          \<and> list_all (\<lambda>x. upper x \<or> is_digit x \<or> x = 0x5F \<or> x = 0x2D) t)"

text \<open>\<open>^[a-z][a-z0-9-]*(?::[A-Z][A-Z0-9_-]{0,63})?$\<close>\<close>

definition is_artifact_name :: "pystr \<Rightarrow> bool" where
  "is_artifact_name s =
     (let inner = (\<lambda>x. lower x \<or> is_digit x \<or> x = 0x2D);
          h = takeWhile inner s; r = dropWhile inner s
      in (case h of [] \<Rightarrow> False | c # _ \<Rightarrow> lower c)
         \<and> (case r of [] \<Rightarrow> True | c # t \<Rightarrow> c = 0x3A \<and> is_upper_id t))"

definition packet_semantic :: "hash_fn \<Rightarrow> bytes \<Rightarrow> ows_error + pystr" where
  "packet_semantic sha raw =
     bindE (strict_json ''review packet'' 6000000 raw) (\<lambda>packet.
     bindE (sha_field ''review packet SHA-256'' (fld packet ''packet_sha256'')) (\<lambda>digest.
     (case dumps (unsigned_body ''packet_sha256'' packet) of
        None \<Rightarrow> Inl OwsValueError
      | Some text \<Rightarrow>
          (case utf8_encode text of
             None \<Rightarrow> Inl OwsValueError
           | Some body_raw \<Rightarrow>
               bindE (guardE (digest = sha body_raw)
                 (OuterWorkflowStateError ''review packet semantic digest is invalid'')) (\<lambda>_.
               Inr digest)))))"

definition artifact_semantic :: "hash_fn \<Rightarrow> pystr \<Rightarrow> bytes \<Rightarrow> ows_error + pystr" where
  "artifact_semantic sha name raw =
     (if name = u ''base-snapshot'' \<or> name = u ''candidate-snapshot'' \<or> starts_with (u ''red-snapshot:'') name then
        (case ascii_decode raw of
           None \<Rightarrow> Inl (OuterWorkflowStateError ''snapshot artifact is not an exact digest'')
         | Some value \<Rightarrow> sha_field ''snapshot artifact'' (JStr value))
      else if name = u ''review-packet'' then packet_semantic sha raw
      else Inr (sha raw))"

text \<open>\<open>{name.removeprefix(p + ":") for name in names if name.startswith(p + ":")}\<close>\<close>

definition suffixes :: "string \<Rightarrow> pystr list \<Rightarrow> pystr list" where
  "suffixes p names = map (drop (length p + 1)) (filter (starts_with (u (p @ '':''))) names)"

definition tagged :: "string \<Rightarrow> pystr list \<Rightarrow> pystr list" where
  "tagged p items = map (\<lambda>i. u (p @ '':'') @ i) items"

definition paired_runs :: "pystr list \<Rightarrow> pystr list \<Rightarrow> bool" where
  "paired_runs fixed names =
     (let gates = suffixes ''gate'' names; red = suffixes ''tdd-red'' names;
          green = suffixes ''tdd-green'' names
      in gates \<noteq> [] \<and> red \<noteq> [] \<and> set red = set green \<and> set red \<subseteq> set gates
         \<and> set names = set (fixed @ tagged ''gate'' gates @ tagged ''tdd-red'' red @ tagged ''tdd-green'' green))"

text \<open>The artifact names a phase must produce: what \<open>_validate_completeness\<close> lets pass.\<close>

definition complete :: "pystr \<Rightarrow> pystr list \<Rightarrow> bool" where
  "complete phase names =
     ((phase = u ''snapshot'' \<longrightarrow>
         set names = set [u ''base-snapshot'', u ''candidate-snapshot'', u ''policy''])
      \<and> (phase = u ''red-snapshot'' \<longrightarrow>
         names \<noteq> [] \<and> list_all (starts_with (u ''red-snapshot:'')) names)
      \<and> (phase = u ''offline'' \<longrightarrow> paired_runs [] names)
      \<and> (phase = u ''review-packet'' \<longrightarrow> set names = set [u ''review-packet''])
      \<and> (phase = u ''broker'' \<longrightarrow> set names = set [u ''reviewer'', u ''adversary''])
      \<and> (phase = u ''sign'' \<longrightarrow>
         paired_runs [u ''task'', u ''policy'', u ''reviewer'', u ''adversary''] names)
      \<and> (phase = u ''attested-judge'' \<longrightarrow> set names = set [u ''verdict'']))"

definition completeness_message :: "pystr \<Rightarrow> string" where
  "completeness_message phase =
     (if phase = u ''snapshot'' then ''snapshot artifact set is incomplete''
      else if phase = u ''red-snapshot'' then ''RED artifact set is incomplete''
      else if phase = u ''offline'' then ''offline artifact set is incomplete''
      else if phase = u ''review-packet'' then ''review packet artifact set is incomplete''
      else if phase = u ''broker'' then ''broker artifact set is incomplete''
      else if phase = u ''sign'' then ''sign artifact set is incomplete''
      else ''judge artifact set is incomplete'')"

definition validate_completeness :: "pystr \<Rightarrow> pystr list \<Rightarrow> ows_error + unit" where
  "validate_completeness phase names =
     guardE (complete phase names) (OuterWorkflowStateError (completeness_message phase))"

type_synonym semantic = "(pystr \<times> pystr) list"

definition semantic_json :: "semantic \<Rightarrow> json" where
  "semantic_json semantic =
     JArr (map (\<lambda>(name, digest). JObj [(u ''name'', JStr name), (u ''sha256'', JStr digest)]) semantic)"

definition read_artifact :: "hash_fn \<Rightarrow> json \<Rightarrow> ows_error + (pystr \<times> pystr)" where
  "read_artifact sha v =
     bindE (exact ''coordinator output artifact'' [''content_base64'', ''name''] v) (\<lambda>artifact.
     (case fld artifact ''name'' of
        JStr name \<Rightarrow>
          bindE (guardE (is_artifact_name name)
            (OuterWorkflowStateError ''coordinator artifact name is invalid'')) (\<lambda>_.
          bindE (decode_base64 ''coordinator artifact'' 6000000 (fld artifact ''content_base64'')) (\<lambda>content.
          bindE (artifact_semantic sha name content) (\<lambda>digest. Inr (name, digest))))
      | _ \<Rightarrow> Inl (OuterWorkflowStateError ''coordinator artifact name is invalid'')))"

text \<open>\<open>next(item["sha256"] for item in semantic if item["name"] == k)\<close>\<close>

definition next_named :: "string \<Rightarrow> semantic \<Rightarrow> ows_error + json" where
  "next_named k semantic =
     (case map_of semantic (u k) of None \<Rightarrow> Inl OwsStopIteration | Some digest \<Rightarrow> Inr (JStr digest))"

definition OUTPUT_FIELDS :: "string list" where
  "OUTPUT_FIELDS = [''schema_version'', ''workflow_id'', ''phase'', ''sequence'', ''request_sha256'',
     ''artifacts'', ''candidate_snapshot_sha256'', ''review_packet_sha256'',
     ''output_artifacts_sha256'', ''output_sha256'']"

definition validate_coordinator_output ::
    "hash_fn \<Rightarrow> pydict \<Rightarrow> bytes \<Rightarrow> ows_error + (pydict \<times> semantic)" where
  "validate_coordinator_output sha request raw =
     bindE (strict_json ''coordinator output'' 8000000 raw) (\<lambda>d.
     bindE (exact ''coordinator output'' OUTPUT_FIELDS (JObj d)) (\<lambda>output.
     let bad = OuterWorkflowStateError ''coordinator output does not match the phase request'' in
     bindE (guardE (fld output ''schema_version'' = JStr (u ''1.0'')
              \<and> fld output ''workflow_id'' = fld request ''workflow_id''
              \<and> fld output ''phase'' = fld request ''phase'') bad) (\<lambda>_.
     bindE (integer ''coordinator output sequence'' 1 7 (fld output ''sequence'')) (\<lambda>sequence.
     bindE (guardE (JInt sequence = fld request ''sequence''
              \<and> fld output ''request_sha256'' = fld request ''request_sha256'') bad) (\<lambda>_.
     (case fld output ''artifacts'' of
        JArr artifacts \<Rightarrow>
          bindE (guardE (1 \<le> length artifacts \<and> length artifacts \<le> 512) bad) (\<lambda>_.
          bindE (mapE (read_artifact sha) artifacts) (\<lambda>semantic.
          let names = map fst semantic in
          bindE (guardE (sorted names \<and> distinct names)
            (OuterWorkflowStateError ''coordinator artifacts are duplicated or unsorted'')) (\<lambda>_.
          bindE (validate_completeness (phase_of request) names) (\<lambda>_.
          bindE (canonical (semantic_json semantic)) (\<lambda>manifest.
          bindE (guardE (fld output ''output_artifacts_sha256'' = JStr (sha manifest))
            (OuterWorkflowStateError ''coordinator artifact manifest digest is invalid'')) (\<lambda>_.
          bindE (if phase_of request = u ''snapshot'' then next_named ''candidate-snapshot'' semantic
                 else Inr (fld request ''candidate_snapshot_sha256'')) (\<lambda>candidate_anchor.
          bindE (if phase_of request = u ''review-packet'' then next_named ''review-packet'' semantic
                 else Inr (fld request ''review_packet_sha256'')) (\<lambda>packet_anchor.
          bindE (guardE (fld output ''candidate_snapshot_sha256'' = candidate_anchor
                   \<and> fld output ''review_packet_sha256'' = packet_anchor)
            (OuterWorkflowStateError ''coordinator output changed a workflow anchor'')) (\<lambda>_.
          bindE (sha_field ''coordinator output SHA-256'' (fld output ''output_sha256'')) (\<lambda>digest.
          bindE (domain sha OUTPUT_DOMAIN (unsigned_body ''output_sha256'' output)) (\<lambda>measured.
          bindE (guardE (digest = measured)
            (OuterWorkflowStateError ''coordinator output digest is invalid'')) (\<lambda>_.
          Inr (output, semantic)))))))))))))
      | _ \<Rightarrow> Inl bad))))))"

section \<open>Finalized transitions\<close>

definition RESULT_FIELDS :: "string list" where
  "RESULT_FIELDS = [''schema_version'', ''request'', ''output_artifacts_sha256'', ''artifacts'',
     ''candidate_snapshot_sha256'', ''review_packet_sha256'', ''external_execution_sha256'',
     ''coordinator_output_sha256'', ''phase_sha256'']"

definition external_digest :: "hash_fn \<Rightarrow> bytes option \<Rightarrow> json" where
  "external_digest sha external_raw = (case external_raw of None \<Rightarrow> JNull | Some raw \<Rightarrow> JStr (sha raw))"

definition validate_phase_result ::
    "hash_fn \<Rightarrow> pydict \<Rightarrow> pydict \<Rightarrow> semantic \<Rightarrow> bytes \<Rightarrow> bytes option \<Rightarrow> json \<Rightarrow> ows_error + pydict" where
  "validate_phase_result sha request output semantic output_raw external_raw v =
     bindE (exact ''phase result'' RESULT_FIELDS v) (\<lambda>result.
     bindE (guardE (fld result ''schema_version'' = JStr (u ''1.0'')
              \<and> py_eq (fld result ''request'') (JObj request)
              \<and> py_eq (fld result ''artifacts'') (semantic_json semantic)
              \<and> fld result ''output_artifacts_sha256'' = fld output ''output_artifacts_sha256''
              \<and> fld result ''candidate_snapshot_sha256'' = fld output ''candidate_snapshot_sha256''
              \<and> fld result ''review_packet_sha256'' = fld output ''review_packet_sha256''
              \<and> fld result ''external_execution_sha256'' = external_digest sha external_raw
              \<and> fld result ''coordinator_output_sha256'' = JStr (sha output_raw))
       (OuterWorkflowStateError ''phase result differs from measured coordinator evidence'')) (\<lambda>_.
     bindE (sha_field ''phase result SHA-256'' (fld result ''phase_sha256'')) (\<lambda>digest.
     bindE (domain sha RESULT_DOMAIN (unsigned_body ''phase_sha256'' result)) (\<lambda>measured.
     bindE (guardE (digest = measured)
       (OuterWorkflowStateError ''phase result digest is invalid'')) (\<lambda>_.
     Inr result)))))"

record finalized_transition =
  ft_result :: pydict
  ft_output :: bytes
  ft_next_request :: "bytes option"
  ft_sha256 :: pystr

definition finalized_body :: "json \<Rightarrow> json \<Rightarrow> json \<Rightarrow> json" where
  "finalized_body output_encoded next_encoded result =
     JObj [(u ''coordinator_output_base64'', output_encoded), (u ''next_request_base64'', next_encoded),
           (u ''phase_result'', result), (u ''schema_version'', JStr (u ''1.0''))]"

definition encode_finalized_transition ::
    "hash_fn \<Rightarrow> pydict \<Rightarrow> bytes \<Rightarrow> bytes option \<Rightarrow> ows_error + bytes" where
  "encode_finalized_transition sha result coordinator_output next_request =
     (let out = JStr (b64encode coordinator_output);
          nxt = (case next_request of None \<Rightarrow> JNull | Some r \<Rightarrow> JStr (b64encode r)) in
      bindE (domain sha FINALIZED_DOMAIN (finalized_body out nxt (JObj result))) (\<lambda>digest.
      canonical (JObj [(u ''coordinator_output_base64'', out), (u ''next_request_base64'', nxt),
        (u ''phase_result'', JObj result), (u ''schema_version'', JStr (u ''1.0'')),
        (u ''finalized_sha256'', JStr digest)])))"

text \<open>The pairs of fields the next request must carry over.\<close>

definition CARRIED :: "string list" where
  "CARRIED = [''workflow_id'', ''task_sha256'', ''runtime_manifest_sha256'', ''coordinator_key_id'',
     ''coordinator_public_key_sha256'', ''candidate_sha256'']"

definition chained :: "pydict \<Rightarrow> pydict \<Rightarrow> pydict \<Rightarrow> pydict \<Rightarrow> bool" where
  "chained request output result next_request \<longleftrightarrow>
     list_all (\<lambda>k. fld next_request k = fld request k) CARRIED
     \<and> fld next_request ''candidate_snapshot_sha256'' = fld output ''candidate_snapshot_sha256''
     \<and> fld next_request ''review_packet_sha256'' = fld output ''review_packet_sha256''
     \<and> fld next_request ''previous_phase_sha256'' = fld result ''phase_sha256''
     \<and> fld next_request ''input_artifacts_sha256'' = fld result ''output_artifacts_sha256''"

definition seq_of :: "pydict \<Rightarrow> int" where
  "seq_of request = (case fld request ''sequence'' of JInt i \<Rightarrow> i | _ \<Rightarrow> 0)"

definition check_next_request ::
    "hash_fn \<Rightarrow> pydict \<Rightarrow> pydict \<Rightarrow> pydict \<Rightarrow> bytes option \<Rightarrow> ows_error + unit" where
  "check_next_request sha request output result next_raw =
     (if seq_of request = int (length PHASE_ORDER) then
        guardE (next_raw = None)
          (OuterWorkflowStateError ''final phase must not produce another request'')
      else
        (case next_raw of
           None \<Rightarrow> Inl (OuterWorkflowStateError ''non-final phase omitted its next request'')
         | Some raw \<Rightarrow>
             bindE (validate_phase_request_bytes sha raw) (\<lambda>next_request.
             guardE (seq_of next_request = seq_of request + 1
                 \<and> fld next_request ''phase'' = JStr (PHASE_ORDER ! nat (seq_of request))
                 \<and> chained request output result next_request)
               (OuterWorkflowStateError ''next request is not chained to the finalized result''))))"

definition parse_finalized_transition ::
    "hash_fn \<Rightarrow> pydict \<Rightarrow> bytes option \<Rightarrow> bytes \<Rightarrow> ows_error + finalized_transition" where
  "parse_finalized_transition sha request external_raw raw =
     bindE (strict_json ''finalized transition'' MAX_FINALIZED_BYTES raw) (\<lambda>d.
     bindE (exact ''finalized transition''
              [''coordinator_output_base64'', ''finalized_sha256'', ''next_request_base64'',
               ''phase_result'', ''schema_version''] (JObj d)) (\<lambda>value.
     bindE (guardE (fld value ''schema_version'' = JStr (u ''1.0''))
              (OuterWorkflowStateError ''finalized transition version is invalid'')) (\<lambda>_.
     bindE (decode_base64 ''coordinator output'' 8000000 (fld value ''coordinator_output_base64'')) (\<lambda>output_raw.
     bindE (validate_coordinator_output sha request output_raw) (\<lambda>(output, semantic).
     bindE (validate_phase_result sha request output semantic output_raw external_raw
              (fld value ''phase_result'')) (\<lambda>result.
     bindE (if fld value ''next_request_base64'' = JNull then Inr None
            else bindE (decode_base64 ''next phase request'' 128000 (fld value ''next_request_base64''))
                   (\<lambda>r. Inr (Some r))) (\<lambda>next_raw.
     bindE (check_next_request sha request output result next_raw) (\<lambda>_.
     bindE (sha_field ''finalized transition SHA-256'' (fld value ''finalized_sha256'')) (\<lambda>digest.
     bindE (domain sha FINALIZED_DOMAIN
              (finalized_body (fld value ''coordinator_output_base64'')
                 (fld value ''next_request_base64'') (fld value ''phase_result''))) (\<lambda>measured.
     bindE (guardE (digest = measured)
              (OuterWorkflowStateError ''finalized transition digest is invalid'')) (\<lambda>_.
     Inr \<lparr>ft_result = result, ft_output = output_raw, ft_next_request = next_raw,
           ft_sha256 = digest\<rparr>)))))))))))"

section \<open>The fixed workflow\<close>

text \<open>
  The callbacks of \<open>run_fixed_workflow\<close>. The coordinator callbacks are called once per phase,
  with the phase name, and the executors at most once in a run, so a function of the arguments
  describes any callback of a run, stateful or not.
\<close>

record outer_env =
  coordinator_prepare :: "pystr \<Rightarrow> bytes \<Rightarrow> ows_error + bytes"
  coordinator_finalize :: "pystr \<Rightarrow> bytes \<Rightarrow> bytes \<Rightarrow> ows_error + bytes"
  offline_execute :: "bytes \<Rightarrow> ows_error + bytes"
  broker_execute :: "bytes \<Rightarrow> ows_error + bytes"

text \<open>The arguments of one \<open>transition_committed\<close> call.\<close>

record commit =
  cm_phase :: pystr
  cm_request :: bytes
  cm_prepared :: bytes
  cm_external :: bytes
  cm_finalized_raw :: bytes
  cm_finalized :: finalized_transition

record ows_run =
  request_raw :: bytes
  seen_requests :: "json list"
  seen_actions :: "json list"
  seen_finalized :: "pystr list"
  commits :: "commit list"

definition run_external :: "outer_env \<Rightarrow> prepared_transition \<Rightarrow> ows_error + bytes" where
  "run_external env prepared =
     (let kind = fld (pt_action prepared) ''external_kind'' in
      if kind = JStr (u ''offline'') then offline_execute env (pt_payload prepared)
      else if kind = JStr (u ''broker'') then broker_execute env (pt_payload prepared)
      else Inr (pt_payload prepared))"

definition run_phase :: "hash_fn \<Rightarrow> outer_env \<Rightarrow> pystr \<Rightarrow> ows_run \<Rightarrow> ows_error + ows_run" where
  "run_phase sha env expected st =
     bindE (validate_phase_request_bytes sha (request_raw st)) (\<lambda>request.
     bindE (guardE (fld request ''phase'' = JStr expected
              \<and> fld request ''request_sha256'' \<notin> set (seen_requests st))
       (OuterWorkflowStateError ''workflow request is reordered or replayed'')) (\<lambda>_.
     bindE (coordinator_prepare env expected (request_raw st)) (\<lambda>prepared_raw.
     bindE (parse_prepared_transition sha request prepared_raw) (\<lambda>prepared.
     let action_sha = fld (pt_action prepared) ''action_sha256'';
         external_phase = (fld (pt_action prepared) ''external_kind'' \<noteq> JStr (u ''none'')) in
     bindE (guardE (action_sha \<notin> set (seen_actions st))
       (OuterWorkflowStateError ''workflow action was replayed'')) (\<lambda>_.
     bindE (run_external env prepared) (\<lambda>external.
     bindE (guardE (external \<noteq> [] \<and>
              length external \<le> (if external_phase then MAX_EXTERNAL_BYTES else MAX_PREPARED_BYTES))
       (OuterWorkflowStateError ''outer execution evidence is empty or oversized'')) (\<lambda>_.
     bindE (coordinator_finalize env expected prepared_raw external) (\<lambda>finalized_raw.
     bindE (parse_finalized_transition sha request (if external_phase then Some external else None)
              finalized_raw) (\<lambda>finalized.
     bindE (guardE (ft_sha256 finalized \<notin> set (seen_finalized st))
       (OuterWorkflowStateError ''finalized transition was replayed'')) (\<lambda>_.
     Inr \<lparr>request_raw = (case ft_next_request finalized of None \<Rightarrow> request_raw st | Some r \<Rightarrow> r),
           seen_requests = fld request ''request_sha256'' # seen_requests st,
           seen_actions = action_sha # seen_actions st,
           seen_finalized = ft_sha256 finalized # seen_finalized st,
           commits = commits st @ [\<lparr>cm_phase = expected, cm_request = request_raw st,
             cm_prepared = prepared_raw, cm_external = external, cm_finalized_raw = finalized_raw,
             cm_finalized = finalized\<rparr>]\<rparr>))))))))))"

text \<open>The loop: the state it stopped in, and the exception that stopped it, if any.\<close>

fun run_phases :: "hash_fn \<Rightarrow> outer_env \<Rightarrow> pystr list \<Rightarrow> ows_run \<Rightarrow> ows_run \<times> ows_error option" where
  "run_phases sha env [] st = (st, None)"
| "run_phases sha env (p # ps) st =
     (case run_phase sha env p st of
        Inl e \<Rightarrow> (st, Some e)
      | Inr st' \<Rightarrow> run_phases sha env ps st')"

definition initial_run :: "bytes \<Rightarrow> ows_run" where
  "initial_run raw = \<lparr>request_raw = raw, seen_requests = [], seen_actions = [], seen_finalized = [], commits = []\<rparr>"

definition workflow_run :: "hash_fn \<Rightarrow> outer_env \<Rightarrow> bytes \<Rightarrow> ows_run \<times> ows_error option" where
  "workflow_run sha env initial_request = run_phases sha env PHASE_ORDER (initial_run initial_request)"

definition run_fixed_workflow ::
    "hash_fn \<Rightarrow> outer_env \<Rightarrow> bytes \<Rightarrow> ows_error + finalized_transition list" where
  "run_fixed_workflow sha env initial_request =
     (case workflow_run sha env initial_request of
        (st, None) \<Rightarrow> Inr (map cm_finalized (commits st))
      | (st, Some e) \<Rightarrow> Inl e)"

end
