(* ===== verification/Outer_State_Facts.thy ===== *)
theory Outer_State_Facts
  imports Outer_State
begin

text \<open>
  What the outer state machine guarantees: canonical JSON is read back exactly and is the only
  accepted encoding; an encoded transition parses to what was encoded; every run, finished or
  stopped, commits a prefix of the fixed phase order whose members are chained by digest, carry
  the same anchors, are never replayed, and hold evidence that only the approved executor
  produced.
\<close>

section \<open>Canonical JSON\<close>

lemma canonical_Inr:
  "canonical v = Inr b \<longleftrightarrow> (\<exists>s. dumps v = Some s \<and> utf8_encode (s @ [0x0A]) = Some b)"
  by (auto simp: canonical_def split: option.splits)

lemma unique_pairs_hook: "dict_hook (unique_pairs label)"
  by unfold_locales (simp add: unique_pairs_def)

interpretation strict: dict_hook "unique_pairs label" for label
  by (rule unique_pairs_hook)

lemma strict_json_canonical: "strict_json label m raw = Inr d \<Longrightarrow> canonical (JObj d) = Inr raw"
  by (auto simp: strict_json_def result_simps split: if_splits option.splits sum.splits
      json_error.splits json.splits)

lemma strict_json_bound: "strict_json label m raw = Inr d \<Longrightarrow> raw \<noteq> [] \<and> length raw \<le> m"
  by (auto simp: strict_json_def split: if_splits)

text \<open>Reading is the inverse of writing, on every dictionary in canonical form.\<close>

lemma strict_json_read:
  assumes "canon (JObj d)" and "canonical (JObj d) = Inr raw" and "length raw \<le> m"
  shows "strict_json label m raw = Inr d"
proof -
  from assms(2) obtain s where s: "dumps (JObj d) = Some s" "utf8_encode (s @ [0x0A]) = Some raw"
    by (auto simp: canonical_Inr)
  have "utf8_decode raw = Some (s @ [0x0A])" using s(2) by (rule utf8_decode_encode)
  moreover from this have "raw \<noteq> []" by (auto simp: utf8_decode_def)
  moreover have "json_loads (unique_pairs label) (no_constant label) (s @ [0x0A]) = Inr (JObj d)"
    using strict.json_loads_dumps [OF canon_plain [OF assms(1)] s(1), of "[0x0A]"] canon_jsort_id [OF assms(1)]
    by (simp add: json_ws_def)
  ultimately show ?thesis using assms(2,3) by (simp add: strict_json_def)
qed

lemma strict_json_jsort:
  assumes "plain (JObj d)" and "canonical (JObj d) = Inr raw" and "length raw \<le> m"
    and "jsort (JObj d) = JObj d'"
  shows "strict_json label m raw = Inr d'"
proof (rule strict_json_read [OF _ _ assms(3)])
  show c: "canon (JObj d')" using plain_canon_jsort [OF assms(1)] assms(4) by simp
  have "dumps (JObj d') = Some (jprint (JObj d'))" using c by (rule dumps_canon)
  also have "\<dots> = dumps (JObj d)" using dumps_plain [OF assms(1)] assms(4) by simp
  finally show "canonical (JObj d') = Inr raw" using assms(2) by (simp add: canonical_def)
qed

text \<open>Distinct canonical values have distinct bytes.\<close>

lemma canonical_inject:
  assumes "plain v" and "plain w" and "canonical v = Inr b" and "canonical w = Inr b"
  shows "jsort v = jsort w"
proof (rule dumps_inject [OF assms(1,2)])
  from assms(3,4) obtain s t where "dumps v = Some s" "dumps w = Some t"
    "utf8_encode (s @ [0x0A]) = Some b" "utf8_encode (t @ [0x0A]) = Some b"
    by (auto simp: canonical_Inr)
  then show "dumps v = dumps w" using utf8_encode_inject [of "s @ [0x0A]" b "t @ [0x0A]"] by simp
qed

section \<open>Checked fields\<close>

lemma exact_Inr: "exact label ks v = Inr d \<longleftrightarrow> v = JObj d \<and> set (map fst d) = set (map u ks)"
  by (auto simp: exact_def split: json.splits if_splits)

lemma fld_in: "k \<in> set ks \<Longrightarrow> exact label ks v = Inr d \<Longrightarrow> map_of d (u k) = Some (fld d k)"
proof -
  assume k: "k \<in> set ks" and "exact label ks v = Inr d"
  then have "u k \<in> fst ` set d" by (auto simp: exact_Inr)
  then have "map_of d (u k) \<noteq> None" by (simp add: map_of_eq_None_iff)
  then show ?thesis by (auto simp: fld_def)
qed

lemma sha_field_Inr: "sha_field label v = Inr s \<longleftrightarrow> v = JStr s \<and> is_sha256 s"
  by (auto simp: sha_field_def split: json.splits if_splits)

lemma integer_Inr: "integer label lo hi v = Inr i \<longleftrightarrow> v = JInt i \<and> lo \<le> i \<and> i \<le> hi"
  by (auto simp: integer_def split: json.splits if_splits)

lemma decode_base64_Inr:
  "decode_base64 label m v = Inr raw \<longleftrightarrow>
     v = JStr (b64encode raw) \<and> raw \<noteq> [] \<and> length raw \<le> m \<and> length (b64encode raw) \<le> m * 2"
  (is "?l \<longleftrightarrow> ?r")
proof
  show "?l \<Longrightarrow> ?r"
    by (auto simp: decode_base64_def split: json.splits if_splits option.splits)
  show "?r \<Longrightarrow> ?l"
    by (simp add: decode_base64_def b64decode_encode)
qed

lemma case_JArr_Inr:
  "(case v of JArr a \<Rightarrow> f a | _ \<Rightarrow> Inl e) = Inr y \<longleftrightarrow> (\<exists>a. v = JArr a \<and> f a = Inr y)"
  by (cases v) simp_all

lemmas field_checks = exact_Inr sha_field_Inr integer_Inr decode_base64_Inr

section \<open>The phase order\<close>

lemma length_PHASE_ORDER [simp]: "length PHASE_ORDER = 7"
  by (simp add: PHASE_ORDER_def)

lemma distinct_PHASE_ORDER: "distinct PHASE_ORDER"
  by (simp add: PHASE_ORDER_def)

lemma index_from_Some: "index_from n x ys = Some m \<Longrightarrow> n \<le> m \<and> m - n < length ys \<and> ys ! (m - n) = x"
  by (induction ys arbitrary: n) (fastforce split: if_splits simp: nth_Cons')+

lemma phase_number_Some:
  assumes "phase_number v = Some i"
  shows "1 \<le> i \<and> i \<le> 7 \<and> v = JStr (PHASE_ORDER ! nat (i - 1))"
proof -
  from assms obtain s m where v: "v = JStr s" and m: "index_from 1 s PHASE_ORDER = Some m" and i: "i = int m"
    by (auto simp: phase_number_def split: json.splits)
  from index_from_Some [OF m] have b: "1 \<le> m" "m - 1 < 7" "PHASE_ORDER ! (m - 1) = s" by simp_all
  have "nat (i - 1) = m - 1" using i b(1) by simp
  with v i b show ?thesis by auto
qed

lemma phase_number_nth: "i < 7 \<Longrightarrow> phase_number (JStr (PHASE_ORDER ! i)) = Some (int i + 1)"
proof -
  assume "i < 7"
  then consider "i = 0" | "i = 1" | "i = 2" | "i = 3" | "i = 4" | "i = 5" | "i = 6" by linarith
  then show ?thesis by cases (simp_all add: PHASE_ORDER_def phase_number_def)
qed

section \<open>Phase requests\<close>

text \<open>Everything a validated request satisfies.\<close>

definition valid_request :: "hash_fn \<Rightarrow> pydict \<Rightarrow> bool" where
  "valid_request sha r \<longleftrightarrow>
     set (map fst r) = set (map u REQUEST_FIELDS)
     \<and> fld r ''schema_version'' = JStr (u ''1.0'')
     \<and> fld r ''sequence'' = JInt (seq_of r) \<and> 1 \<le> seq_of r \<and> seq_of r \<le> 7
     \<and> fld r ''phase'' = JStr (PHASE_ORDER ! nat (seq_of r - 1))
     \<and> (\<forall>k \<in> set REQUIRED_SHAS. \<exists>s. fld r k = JStr s \<and> is_sha256 s)
     \<and> (\<forall>k \<in> set OPTIONAL_SHAS. fld r k = JNull \<or> (\<exists>s. fld r k = JStr s \<and> is_sha256 s))
     \<and> (fld r ''previous_phase_sha256'' = JNull \<longleftrightarrow> seq_of r = 1)
     \<and> (fld r ''candidate_snapshot_sha256'' = JNull \<longleftrightarrow> seq_of r = 1)
     \<and> (fld r ''review_packet_sha256'' \<noteq> JNull \<longleftrightarrow> 5 \<le> seq_of r)
     \<and> (\<exists>h. domain sha REQUEST_DOMAIN (unsigned_body ''request_sha256'' r) = Inr h
            \<and> fld r ''request_sha256'' = JStr h)"

lemma check_sequence_Inr:
  "check_sequence version phase sequence = Inr i \<longleftrightarrow>
     version = JStr (u ''1.0'') \<and> phase_number phase = Some i \<and> sequence = JInt i"
proof -
  have "1 \<le> i \<and> i \<le> 7" if "phase_number phase = Some i" for i
    using phase_number_Some [OF that] by simp
  then show ?thesis
    by (auto simp: check_sequence_def result_simps integer_Inr split: option.splits if_splits)
qed

lemma check_optional_sha_Inr:
  "check_optional_sha d k = Inr x \<longleftrightarrow> fld d k = JNull \<or> (\<exists>s. fld d k = JStr s \<and> is_sha256 s)"
  by (auto simp: check_optional_sha_def result_simps sha_field_Inr)

lemma check_request_sequence:
  "check_sequence (fld r ''schema_version'') (fld r ''phase'') (fld r ''sequence'') = Inr i \<longleftrightarrow>
     i = seq_of r \<and> fld r ''schema_version'' = JStr (u ''1.0'')
     \<and> fld r ''sequence'' = JInt (seq_of r) \<and> 1 \<le> seq_of r \<and> seq_of r \<le> 7
     \<and> fld r ''phase'' = JStr (PHASE_ORDER ! nat (seq_of r - 1))" (is "?l \<longleftrightarrow> ?r")
proof
  assume ?l
  then show ?r using phase_number_Some [of "fld r ''phase''" i] by (simp add: check_sequence_Inr seq_of_def)
next
  assume rhs: ?r
  then have "nat (seq_of r - 1) < 7" and "int (nat (seq_of r - 1)) + 1 = seq_of r" by auto
  with rhs phase_number_nth [of "nat (seq_of r - 1)"] show ?l by (simp add: check_sequence_Inr)
qed

lemma validate_request_iff:
  "validate_phase_request_bytes sha raw = Inr r \<longleftrightarrow>
     strict_json ''phase request'' 128000 raw = Inr r \<and> valid_request sha r"
proof -
  have sha: "bindE (sha_field k v) (\<lambda>_. Inr ()) = Inr () \<longleftrightarrow> (\<exists>s. v = JStr s \<and> is_sha256 s)" for k v
    by (auto simp: result_simps sha_field_Inr)
  show ?thesis
    unfolding validate_phase_request_bytes_def valid_request_def
    by (simp only: result_simps exact_Inr check_request_sequence sha check_optional_sha_Inr
        json.inject sum.inject conj_assoc ex_simps simp_thms sha_field_Inr) blast
qed

lemma validate_request_bytes_unique:
  "validate_phase_request_bytes sha raw = Inr r \<Longrightarrow> validate_phase_request_bytes sha raw' = Inr r \<Longrightarrow> raw = raw'"
  by (metis strict_json_canonical validate_request_iff sum.inject(2))

section \<open>Prepared transitions\<close>

definition valid_action :: "hash_fn \<Rightarrow> pydict \<Rightarrow> bytes \<Rightarrow> pydict \<Rightarrow> bool" where
  "valid_action sha request payload a \<longleftrightarrow>
     set (map fst a) = set (map u ACTION_FIELDS)
     \<and> fld a ''schema_version'' = JStr (u ''1.0'')
     \<and> fld a ''workflow_id'' = fld request ''workflow_id''
     \<and> fld a ''phase'' = fld request ''phase''
     \<and> fld a ''sequence'' = fld request ''sequence''
     \<and> (\<exists>i. fld a ''sequence'' = JInt i \<and> 1 \<le> i \<and> i \<le> 7)
     \<and> fld a ''request_sha256'' = fld request ''request_sha256''
     \<and> fld a ''external_kind'' = JStr (ows_external (phase_of request))
     \<and> fld a ''payload_sha256'' = JStr (sha payload)
     \<and> (\<exists>h. fld a ''action_sha256'' = JStr h \<and> is_sha256 h
            \<and> domain sha ACTION_DOMAIN (unsigned_body ''action_sha256'' a) = Inr h)"

lemma validate_action_iff:
  "validate_action sha request payload v = Inr a \<longleftrightarrow> v = JObj a \<and> valid_action sha request payload a"
  unfolding validate_action_def valid_action_def Let_def
  by (simp only: result_simps exact_Inr integer_Inr sha_field_Inr json.inject sum.inject conj_assoc
      ex_simps simp_thms) (auto, metis)

definition PREPARED_FIELDS :: "string list" where
  "PREPARED_FIELDS = [''action'', ''payload_base64'', ''prepared_sha256'', ''schema_version'']"

lemma parse_prepared_iff:
  "parse_prepared_transition sha request raw = Inr p \<longleftrightarrow>
     (\<exists>d. strict_json ''prepared transition'' MAX_PREPARED_BYTES raw = Inr d
        \<and> set (map fst d) = set (map u PREPARED_FIELDS)
        \<and> fld d ''schema_version'' = JStr (u ''1.0'')
        \<and> decode_base64 ''prepared payload'' 2000000 (fld d ''payload_base64'') = Inr (pt_payload p)
        \<and> fld d ''action'' = JObj (pt_action p)
        \<and> valid_action sha request (pt_payload p) (pt_action p)
        \<and> fld d ''prepared_sha256'' = JStr (pt_sha256 p) \<and> is_sha256 (pt_sha256 p)
        \<and> domain sha PREPARED_DOMAIN (prepared_body (fld d ''action'') (fld d ''payload_base64''))
            = Inr (pt_sha256 p))"
proof -
  have eta: "\<lparr>pt_action = a, pt_payload = b, pt_sha256 = h\<rparr> = p
      \<longleftrightarrow> a = pt_action p \<and> b = pt_payload p \<and> h = pt_sha256 p" for a b h
    by (cases p) auto
  show ?thesis
    unfolding parse_prepared_transition_def PREPARED_FIELDS_def
    by (simp only: result_simps exact_Inr sha_field_Inr validate_action_iff json.inject sum.inject
        conj_assoc ex_simps simp_thms eta) blast
qed

section \<open>Finalized transitions\<close>

definition valid_output :: "hash_fn \<Rightarrow> pydict \<Rightarrow> pydict \<Rightarrow> semantic \<Rightarrow> bool" where
  "valid_output sha request out semantic \<longleftrightarrow>
     set (map fst out) = set (map u OUTPUT_FIELDS)
     \<and> fld out ''workflow_id'' = fld request ''workflow_id''
     \<and> fld out ''phase'' = fld request ''phase''
     \<and> fld out ''sequence'' = fld request ''sequence''
     \<and> fld out ''request_sha256'' = fld request ''request_sha256''
     \<and> (\<exists>arts. fld out ''artifacts'' = JArr arts \<and> mapE (read_artifact sha) arts = Inr semantic)
     \<and> sorted (map fst semantic) \<and> distinct (map fst semantic)
     \<and> complete (phase_of request) (map fst semantic)
     \<and> (\<exists>m. canonical (semantic_json semantic) = Inr m
            \<and> fld out ''output_artifacts_sha256'' = JStr (sha m))
     \<and> (if phase_of request = u ''snapshot''
        then \<exists>s. map_of semantic (u ''candidate-snapshot'') = Some s
               \<and> fld out ''candidate_snapshot_sha256'' = JStr s
        else fld out ''candidate_snapshot_sha256'' = fld request ''candidate_snapshot_sha256'')
     \<and> (if phase_of request = u ''review-packet''
        then \<exists>s. map_of semantic (u ''review-packet'') = Some s
               \<and> fld out ''review_packet_sha256'' = JStr s
        else fld out ''review_packet_sha256'' = fld request ''review_packet_sha256'')"

lemma next_named_Inr: "next_named k sem = Inr v \<longleftrightarrow> (\<exists>s. map_of sem (u k) = Some s \<and> v = JStr s)"
  by (auto simp: next_named_def split: option.splits)

lemma validate_output_valid:
  assumes "validate_coordinator_output sha request raw = Inr (out, semantic)"
  shows "valid_output sha request out semantic"
proof -
  note unfolded = assms [unfolded validate_coordinator_output_def Let_def, simplified result_simps
      exact_Inr integer_Inr sha_field_Inr case_JArr_Inr case_prod_conv validate_completeness_def
      json.inject sum.inject prod.inject conj_assoc ex_simps simp_thms]
  then show ?thesis
    unfolding valid_output_def
    by (cases "phase_of request = u ''snapshot''"; cases "phase_of request = u ''review-packet''")
      (auto simp: result_simps next_named_Inr)
qed

lemma validate_result_iff:
  "validate_phase_result sha request out semantic out_raw ext v = Inr r \<longleftrightarrow>
     v = JObj r \<and> set (map fst r) = set (map u RESULT_FIELDS)
     \<and> fld r ''schema_version'' = JStr (u ''1.0'')
     \<and> py_eq (fld r ''request'') (JObj request)
     \<and> py_eq (fld r ''artifacts'') (semantic_json semantic)
     \<and> fld r ''output_artifacts_sha256'' = fld out ''output_artifacts_sha256''
     \<and> fld r ''candidate_snapshot_sha256'' = fld out ''candidate_snapshot_sha256''
     \<and> fld r ''review_packet_sha256'' = fld out ''review_packet_sha256''
     \<and> fld r ''external_execution_sha256'' = external_digest sha ext
     \<and> fld r ''coordinator_output_sha256'' = JStr (sha out_raw)
     \<and> (\<exists>h. fld r ''phase_sha256'' = JStr h \<and> is_sha256 h
          \<and> domain sha RESULT_DOMAIN (unsigned_body ''phase_sha256'' r) = Inr h)"
  unfolding validate_phase_result_def
  by (simp only: result_simps exact_Inr sha_field_Inr json.inject sum.inject conj_assoc ex_simps
      simp_thms) blast

lemma check_next_Inr:
  "check_next_request sha request out result nxt = Inr x \<longleftrightarrow>
     (if seq_of request = 7 then nxt = None
      else (\<exists>raw r'. nxt = Some raw \<and> validate_phase_request_bytes sha raw = Inr r'
              \<and> seq_of r' = seq_of request + 1
              \<and> fld r' ''phase'' = JStr (PHASE_ORDER ! nat (seq_of request))
              \<and> chained request out result r'))"
  by (auto simp: check_next_request_def result_simps split: option.splits)

lemma parse_finalized_D:
  assumes "parse_finalized_transition sha request ext raw = Inr f"
  shows "\<exists>out semantic.
     validate_coordinator_output sha request (ft_output f) = Inr (out, semantic)
     \<and> validate_phase_result sha request out semantic (ft_output f) ext (JObj (ft_result f)) = Inr (ft_result f)
     \<and> check_next_request sha request out (ft_result f) (ft_next_request f) = Inr ()"
proof -
  from assms obtain d out_raw out semantic result nxt h
    where o: "validate_coordinator_output sha request out_raw = Inr (out, semantic)"
      and r: "validate_phase_result sha request out semantic out_raw ext (fld d ''phase_result'') = Inr result"
      and n: "check_next_request sha request out result nxt = Inr ()"
      and f: "f = \<lparr>ft_result = result, ft_output = out_raw, ft_next_request = nxt, ft_sha256 = h\<rparr>"
    unfolding parse_finalized_transition_def by (auto simp: result_simps exact_Inr sha_field_Inr split: prod.splits)
  from r have "fld d ''phase_result'' = JObj result" by (simp add: validate_result_iff)
  with o r n f show ?thesis by auto
qed

end
