(* ===== verification/Outer_Run.thy ===== *)
theory Outer_Run
  imports Outer_State_Facts
begin

text \<open>
  The fixed seven-phase run: one invariant, \<open>run_inv\<close>, over the state of
  \<open>run_fixed_workflow\<close>, kept by every phase, and what it says of the transitions handed to
  \<open>transition_committed\<close>, whether the run finished or was stopped by an exception.
\<close>

section \<open>What a committed transition holds\<close>

definition is_external :: "pystr \<Rightarrow> bool" where
  "is_external phase \<longleftrightarrow> ows_external phase \<noteq> u ''none''"

definition committed :: "hash_fn \<Rightarrow> outer_env \<Rightarrow> commit \<Rightarrow> bool" where
  "committed sha env c \<longleftrightarrow>
     (\<exists>request prepared.
        validate_phase_request_bytes sha (cm_request c) = Inr request
        \<and> fld request ''phase'' = JStr (cm_phase c)
        \<and> coordinator_prepare env (cm_phase c) (cm_request c) = Inr (cm_prepared c)
        \<and> parse_prepared_transition sha request (cm_prepared c) = Inr prepared
        \<and> run_external env prepared = Inr (cm_external c)
        \<and> cm_external c \<noteq> []
        \<and> length (cm_external c) \<le> (if is_external (cm_phase c) then MAX_EXTERNAL_BYTES else MAX_PREPARED_BYTES)
        \<and> coordinator_finalize env (cm_phase c) (cm_prepared c) (cm_external c) = Inr (cm_finalized_raw c)
        \<and> parse_finalized_transition sha request
            (if is_external (cm_phase c) then Some (cm_external c) else None) (cm_finalized_raw c)
            = Inr (cm_finalized c))"

text \<open>The request, prepared transition and digests of a commit, as the loop computed them.\<close>

definition request_of :: "hash_fn \<Rightarrow> commit \<Rightarrow> pydict" where
  "request_of sha c = (case validate_phase_request_bytes sha (cm_request c) of Inr r \<Rightarrow> r | Inl _ \<Rightarrow> [])"

definition prepared_of :: "hash_fn \<Rightarrow> commit \<Rightarrow> prepared_transition" where
  "prepared_of sha c =
     (case parse_prepared_transition sha (request_of sha c) (cm_prepared c) of
        Inr p \<Rightarrow> p | Inl _ \<Rightarrow> \<lparr>pt_action = [], pt_payload = [], pt_sha256 = []\<rparr>)"

definition request_digest :: "hash_fn \<Rightarrow> commit \<Rightarrow> json" where
  "request_digest sha c = fld (request_of sha c) ''request_sha256''"

definition action_digest :: "hash_fn \<Rightarrow> commit \<Rightarrow> json" where
  "action_digest sha c = fld (pt_action (prepared_of sha c)) ''action_sha256''"

lemma committed_request:
  "committed sha env c \<Longrightarrow> validate_phase_request_bytes sha (cm_request c) = Inr (request_of sha c)"
  by (auto simp: committed_def request_of_def)

lemma committed_prepared:
  "committed sha env c \<Longrightarrow>
     parse_prepared_transition sha (request_of sha c) (cm_prepared c) = Inr (prepared_of sha c)"
  by (auto simp: committed_def request_of_def prepared_of_def)

section \<open>One phase\<close>

lemma ows_external_cases:
  "ows_external p = u ''none'' \<or> ows_external p = u ''offline'' \<or> ows_external p = u ''broker''"
  by (simp add: ows_external_def)

lemma prepared_external_kind:
  assumes "parse_prepared_transition sha request raw = Inr p" and "fld request ''phase'' = JStr s"
  shows "fld (pt_action p) ''external_kind'' = JStr (ows_external s)"
  using assms by (auto simp: parse_prepared_iff valid_action_def phase_of_def)

text \<open>The commit a successful iteration appends.\<close>

lemma run_phase_commit:
  assumes "run_phase sha env p st = Inr st'"
  obtains c where "commits st' = commits st @ [c]" and "committed sha env c" and "cm_phase c = p"
    and "cm_request c = request_raw st"
    and "request_raw st' = (case ft_next_request (cm_finalized c) of None \<Rightarrow> request_raw st | Some r \<Rightarrow> r)"
    and "seen_requests st' = request_digest sha c # seen_requests st" and "request_digest sha c \<notin> set (seen_requests st)"
    and "seen_actions st' = action_digest sha c # seen_actions st" and "action_digest sha c \<notin> set (seen_actions st)"
    and "seen_finalized st' = ft_sha256 (cm_finalized c) # seen_finalized st"
    and "ft_sha256 (cm_finalized c) \<notin> set (seen_finalized st)"
proof -
  obtain request praw prepared ext fraw fin
    where req: "validate_phase_request_bytes sha (request_raw st) = Inr request"
      and ph: "fld request ''phase'' = JStr p"
      and nr: "fld request ''request_sha256'' \<notin> set (seen_requests st)"
      and cp: "coordinator_prepare env p (request_raw st) = Inr praw"
      and pp: "parse_prepared_transition sha request praw = Inr prepared"
      and na: "fld (pt_action prepared) ''action_sha256'' \<notin> set (seen_actions st)"
      and ex: "run_external env prepared = Inr ext" "ext \<noteq> []"
      and len: "length ext \<le> (if fld (pt_action prepared) ''external_kind'' \<noteq> JStr (u ''none'')
                  then MAX_EXTERNAL_BYTES else MAX_PREPARED_BYTES)"
      and cf: "coordinator_finalize env p praw ext = Inr fraw"
      and pf: "parse_finalized_transition sha request
                 (if fld (pt_action prepared) ''external_kind'' \<noteq> JStr (u ''none'') then Some ext else None)
                 fraw = Inr fin"
      and nf: "ft_sha256 fin \<notin> set (seen_finalized st)"
      and st': "st' = \<lparr>request_raw = (case ft_next_request fin of None \<Rightarrow> request_raw st | Some r \<Rightarrow> r),
           seen_requests = fld request ''request_sha256'' # seen_requests st,
           seen_actions = fld (pt_action prepared) ''action_sha256'' # seen_actions st,
           seen_finalized = ft_sha256 fin # seen_finalized st,
           commits = commits st @ [\<lparr>cm_phase = p, cm_request = request_raw st,
             cm_prepared = praw, cm_external = ext, cm_finalized_raw = fraw, cm_finalized = fin\<rparr>]\<rparr>"
    using assms unfolding run_phase_def Let_def
    by (simp only: result_simps sum.inject) (elim exE conjE, rule that, (assumption | erule sym)+)
  let ?c = "\<lparr>cm_phase = p, cm_request = request_raw st, cm_prepared = praw, cm_external = ext,
             cm_finalized_raw = fraw, cm_finalized = fin\<rparr>"
  have kind: "fld (pt_action prepared) ''external_kind'' \<noteq> JStr (u ''none'') \<longleftrightarrow> is_external p"
    using prepared_external_kind [OF pp ph] by (simp add: is_external_def)
  have com: "committed sha env ?c"
    unfolding committed_def using req ph cp pp ex len cf pf kind by auto
  have r: "request_digest sha ?c = fld request ''request_sha256''"
    and a: "action_digest sha ?c = fld (pt_action prepared) ''action_sha256''"
    using req pp by (simp_all add: request_digest_def action_digest_def prepared_of_def request_of_def)
  show thesis
    by (rule that [of ?c]) (use com r a nr na nf st' in simp_all)
qed

section \<open>The run\<close>

fun links :: "('a \<Rightarrow> 'a \<Rightarrow> bool) \<Rightarrow> 'a list \<Rightarrow> bool" where
  "links R [] = True"
| "links R [x] = True"
| "links R (x # y # zs) \<longleftrightarrow> R x y \<and> links R (y # zs)"

lemma links_snoc: "links R (xs @ [y]) \<longleftrightarrow> links R xs \<and> (xs = [] \<or> R (last xs) y)"
  by (induction R xs rule: links.induct) auto

lemma links_mono: "links R xs \<Longrightarrow> (\<And>x y. x \<in> set xs \<Longrightarrow> y \<in> set xs \<Longrightarrow> R x y \<Longrightarrow> S x y) \<Longrightarrow> links S xs"
  by (induction R xs rule: links.induct) auto

lemma links_constant: "links (\<lambda>x y. f y = f x) xs \<Longrightarrow> x \<in> set xs \<Longrightarrow> f x = f (hd xs)"
  by (induction "\<lambda>x y. f y = f x" xs rule: links.induct) auto

definition follows :: "commit \<Rightarrow> commit \<Rightarrow> bool" where
  "follows c c' \<longleftrightarrow> ft_next_request (cm_finalized c) = Some (cm_request c')"

definition run_inv :: "hash_fn \<Rightarrow> outer_env \<Rightarrow> bytes \<Rightarrow> pystr list \<Rightarrow> ows_run \<Rightarrow> bool" where
  "run_inv sha env raw done st \<longleftrightarrow>
     map cm_phase (commits st) = done
     \<and> (case commits st of [] \<Rightarrow> request_raw st = raw | c # _ \<Rightarrow> cm_request c = raw)
     \<and> list_all (committed sha env) (commits st)
     \<and> links follows (commits st)
     \<and> (commits st \<noteq> [] \<longrightarrow>
         (case ft_next_request (cm_finalized (last (commits st))) of
            None \<Rightarrow> True | Some r \<Rightarrow> request_raw st = r))
     \<and> seen_requests st = rev (map (request_digest sha) (commits st))
     \<and> seen_actions st = rev (map (action_digest sha) (commits st))
     \<and> seen_finalized st = rev (map (\<lambda>c. ft_sha256 (cm_finalized c)) (commits st))
     \<and> distinct (seen_requests st) \<and> distinct (seen_actions st) \<and> distinct (seen_finalized st)"

lemma run_inv_initial: "run_inv sha env raw [] (initial_run raw)"
  by (simp add: run_inv_def initial_run_def)

lemma committed_seq:
  assumes "committed sha env c" and "cm_phase c = PHASE_ORDER ! i" and "i < 7"
  shows "seq_of (request_of sha c) = int i + 1"
proof -
  have v: "valid_request sha (request_of sha c)"
    using committed_request [OF assms(1)] by (simp add: validate_request_iff)
  have "fld (request_of sha c) ''phase'' = JStr (PHASE_ORDER ! i)"
    using assms by (auto simp: committed_def request_of_def)
  with v have "PHASE_ORDER ! nat (seq_of (request_of sha c) - 1) = PHASE_ORDER ! i"
    and b: "1 \<le> seq_of (request_of sha c)" "seq_of (request_of sha c) \<le> 7"
    by (auto simp: valid_request_def)
  then have "nat (seq_of (request_of sha c) - 1) = i"
    using distinct_PHASE_ORDER assms(3) by (subst (asm) nth_eq_iff_index_eq) auto
  with b show ?thesis by linarith
qed

lemma committed_finalized:
  assumes "committed sha env c"
  obtains out semantic where
    "valid_output sha (request_of sha c) out semantic"
    "validate_phase_result sha (request_of sha c) out semantic (ft_output (cm_finalized c))
       (if is_external (cm_phase c) then Some (cm_external c) else None)
       (JObj (ft_result (cm_finalized c))) = Inr (ft_result (cm_finalized c))"
    "check_next_request sha (request_of sha c) out (ft_result (cm_finalized c))
       (ft_next_request (cm_finalized c)) = Inr ()"
proof -
  from assms have "parse_finalized_transition sha (request_of sha c)
      (if is_external (cm_phase c) then Some (cm_external c) else None) (cm_finalized_raw c)
      = Inr (cm_finalized c)"
    by (auto simp: committed_def request_of_def)
  from parse_finalized_D [OF this] that show thesis by (blast dest: validate_output_valid)
qed

text \<open>A phase before the last has a next request, and only that.\<close>

lemma committed_next:
  assumes "committed sha env c" and "cm_phase c = PHASE_ORDER ! i" and "i < 7"
  shows "ft_next_request (cm_finalized c) = None \<longleftrightarrow> i = 6"
proof -
  obtain out where "check_next_request sha (request_of sha c) out (ft_result (cm_finalized c))
       (ft_next_request (cm_finalized c)) = Inr ()"
    using committed_finalized [OF assms(1)] by metis
  then show ?thesis
    using committed_seq [OF assms] assms(3) by (auto simp: check_next_Inr split: if_splits)
qed

lemma run_inv_step:
  assumes inv: "run_inv sha env raw (take i PHASE_ORDER) st" and i: "i < 7"
    and step: "run_phase sha env (PHASE_ORDER ! i) st = Inr st'"
  shows "run_inv sha env raw (take (Suc i) PHASE_ORDER) st'"
proof -
  from step obtain c where c: "commits st' = commits st @ [c]" "committed sha env c"
      "cm_phase c = PHASE_ORDER ! i" "cm_request c = request_raw st"
      "request_raw st' = (case ft_next_request (cm_finalized c) of None \<Rightarrow> request_raw st | Some r \<Rightarrow> r)"
    and seen: "seen_requests st' = request_digest sha c # seen_requests st" "request_digest sha c \<notin> set (seen_requests st)"
      "seen_actions st' = action_digest sha c # seen_actions st" "action_digest sha c \<notin> set (seen_actions st)"
      "seen_finalized st' = ft_sha256 (cm_finalized c) # seen_finalized st"
      "ft_sha256 (cm_finalized c) \<notin> set (seen_finalized st)"
    by (rule run_phase_commit)
  have link: "follows (last (commits st)) c" if ne: "commits st \<noteq> []"
  proof -
    let ?l = "last (commits st)"
    have len: "length (commits st) = i" using inv i
      by (metis (no_types, lifting) run_inv_def length_map length_take length_PHASE_ORDER min.absorb4)
    with ne have i0: "0 < i" by auto
    have "map cm_phase (commits st) ! (i - 1) = take i PHASE_ORDER ! (i - 1)"
      using inv by (simp add: run_inv_def)
    with len i0 i have "cm_phase ?l = PHASE_ORDER ! (i - 1)" by (simp add: last_conv_nth ne)
    moreover have "committed sha env ?l" using inv ne by (auto simp: run_inv_def list_all_iff)
    ultimately have "ft_next_request (cm_finalized ?l) \<noteq> None"
      using committed_next [of sha env ?l "i - 1"] i i0 by auto
    with inv ne c(4) show ?thesis by (auto simp: run_inv_def follows_def split: option.splits)
  qed
  have "take (Suc i) PHASE_ORDER = take i PHASE_ORDER @ [PHASE_ORDER ! i]"
    using i by (simp add: take_Suc_conv_app_nth)
  with inv c seen link show ?thesis
    by (auto simp: run_inv_def links_snoc split: option.splits list.splits)
qed

lemma run_phases_inv:
  "run_inv sha env raw (take i PHASE_ORDER) st \<Longrightarrow> i \<le> 7 \<Longrightarrow>
   run_phases sha env (drop i PHASE_ORDER) st = (st', e) \<Longrightarrow>
   \<exists>k \<le> 7. run_inv sha env raw (take k PHASE_ORDER) st' \<and> (e = None \<longleftrightarrow> k = 7)"
proof (induction "7 - i" arbitrary: i st)
  case 0
  then have "i = 7" by simp
  with 0 show ?case by auto
next
  case (Suc n)
  then have i: "i < 7" by simp
  then have d: "drop i PHASE_ORDER = PHASE_ORDER ! i # drop (Suc i) PHASE_ORDER"
    by (simp add: Cons_nth_drop_Suc)
  show ?case
  proof (cases "run_phase sha env (PHASE_ORDER ! i) st")
    case (Inl err)
    with Suc.prems d i show ?thesis by (intro exI [of _ i]) auto
  next
    case (Inr st1)
    with Suc.prems d i show ?thesis
      using Suc.hyps(1) [of "Suc i" st1] Suc.hyps(2) run_inv_step [OF Suc.prems(1) i Inr] by auto
  qed
qed

lemma workflow_run_inv:
  "\<exists>k \<le> 7. run_inv sha env raw (take k PHASE_ORDER) (fst (workflow_run sha env raw))
     \<and> (snd (workflow_run sha env raw) = None \<longleftrightarrow> k = 7)"
  using run_phases_inv [of sha env raw 0 "initial_run raw" "fst (workflow_run sha env raw)"
      "snd (workflow_run sha env raw)"] run_inv_initial
  by (simp add: workflow_run_def)

lemma workflow_run_committed:
  "list_all (committed sha env) (commits (fst (workflow_run sha env raw)))"
  using workflow_run_inv [of sha env raw] by (auto simp: run_inv_def)

lemma workflow_run_links: "links follows (commits (fst (workflow_run sha env raw)))"
  using workflow_run_inv [of sha env raw] by (auto simp: run_inv_def)

section \<open>The chain of phases\<close>

text \<open>
  What binds a transition \<open>c'\<close> to the one before it: the next sequence number, the digest of
  the previous result and of its artifacts, the six carried fields and the two anchors, each of
  which only its own phase may set.
\<close>

definition bound_to :: "hash_fn \<Rightarrow> commit \<Rightarrow> commit \<Rightarrow> bool" where
  "bound_to sha c c' \<longleftrightarrow>
     (let r = request_of sha c; r' = request_of sha c'; result = ft_result (cm_finalized c) in
      seq_of r' = seq_of r + 1
      \<and> fld r' ''previous_phase_sha256'' = fld result ''phase_sha256''
      \<and> fld r' ''input_artifacts_sha256'' = fld result ''output_artifacts_sha256''
      \<and> list_all (\<lambda>k. fld r' k = fld r k) CARRIED
      \<and> fld r' ''candidate_snapshot_sha256'' = fld result ''candidate_snapshot_sha256''
      \<and> fld r' ''review_packet_sha256'' = fld result ''review_packet_sha256''
      \<and> (cm_phase c \<noteq> u ''snapshot'' \<longrightarrow>
           fld r' ''candidate_snapshot_sha256'' = fld r ''candidate_snapshot_sha256'')
      \<and> (cm_phase c \<noteq> u ''review-packet'' \<longrightarrow>
           fld r' ''review_packet_sha256'' = fld r ''review_packet_sha256''))"

lemma committed_phase: "committed sha env c \<Longrightarrow> phase_of (request_of sha c) = cm_phase c"
  by (auto simp: committed_def request_of_def phase_of_def)

lemma follows_bound:
  assumes c: "committed sha env c" and c': "committed sha env c'" and f: "follows c c'"
  shows "bound_to sha c c'"
proof -
  let ?r = "request_of sha c" and ?r' = "request_of sha c'" and ?res = "ft_result (cm_finalized c)"
  from f have nxt: "ft_next_request (cm_finalized c) = Some (cm_request c')" by (simp add: follows_def)
  from c obtain out semantic
    where o: "valid_output sha ?r out semantic"
      and r: "validate_phase_result sha ?r out semantic (ft_output (cm_finalized c))
         (if is_external (cm_phase c) then Some (cm_external c) else None) (JObj ?res) = Inr ?res"
      and n: "check_next_request sha ?r out ?res (ft_next_request (cm_finalized c)) = Inr ()"
    by (rule committed_finalized)
  from n nxt have n': "seq_of ?r' = seq_of ?r + 1" "chained ?r out ?res ?r'"
    using committed_request [OF c'] by (auto simp: check_next_Inr split: if_splits)
  from r have eqs: "fld ?res ''candidate_snapshot_sha256'' = fld out ''candidate_snapshot_sha256''"
      "fld ?res ''review_packet_sha256'' = fld out ''review_packet_sha256''"
    by (simp_all add: validate_result_iff)
  from o have anchors:
      "cm_phase c \<noteq> u ''snapshot'' \<Longrightarrow>
         fld out ''candidate_snapshot_sha256'' = fld ?r ''candidate_snapshot_sha256''"
      "cm_phase c \<noteq> u ''review-packet'' \<Longrightarrow>
         fld out ''review_packet_sha256'' = fld ?r ''review_packet_sha256''"
    using committed_phase [OF c] by (simp_all add: valid_output_def)
  from n' eqs anchors show ?thesis by (simp add: bound_to_def chained_def Let_def)
qed

lemma workflow_run_bound: "links (bound_to sha) (commits (fst (workflow_run sha env raw)))"
  by (rule links_mono [OF workflow_run_links])
    (use workflow_run_committed [of sha env raw] in \<open>auto simp: list_all_iff intro: follows_bound\<close>)

text \<open>The initial request, as read by the first phase.\<close>

definition initial_request_of :: "hash_fn \<Rightarrow> bytes \<Rightarrow> pydict" where
  "initial_request_of sha raw = (case validate_phase_request_bytes sha raw of Inr r \<Rightarrow> r | Inl _ \<Rightarrow> [])"

lemma workflow_run_first:
  "commits (fst (workflow_run sha env raw)) \<noteq> [] \<Longrightarrow>
     request_of sha (hd (commits (fst (workflow_run sha env raw)))) = initial_request_of sha raw"
  using workflow_run_inv [of sha env raw]
  by (auto simp: run_inv_def request_of_def initial_request_of_def split: list.splits)

section \<open>Properties of the run\<close>


text \<open>
  C2. Hash chain. Every committed transition but the first is bound to the one before it: its
  request has the next sequence number, names the digest of the previous result and of its
  artifacts, carries the six workflow fields, and keeps the candidate snapshot and the review
  packet except after the one phase that sets them.
\<close>

theorem commits_form_a_chain:
  "links (bound_to sha) (commits (fst (workflow_run sha env raw)))"
  by (rule workflow_run_bound)

text \<open>
  Anchors. The workflow id, the task, the runtime manifest, the coordinator key and the
  candidate of every committed request are those of the initial request.
\<close>

theorem commits_keep_the_anchors:
  "list_all (\<lambda>c. list_all (\<lambda>k. fld (request_of sha c) k = fld (initial_request_of sha raw) k) CARRIED)
     (commits (fst (workflow_run sha env raw)))"
proof -
  let ?cs = "commits (fst (workflow_run sha env raw))"
  have "fld (request_of sha c) k = fld (initial_request_of sha raw) k" if c: "c \<in> set ?cs" and k: "k \<in> set CARRIED" for c k
  proof -
    have "links (\<lambda>x y. fld (request_of sha y) k = fld (request_of sha x) k) ?cs"
      by (rule links_mono [OF workflow_run_bound]) (use k in \<open>auto simp: bound_to_def Let_def list_all_iff\<close>)
    from links_constant [OF this c] c show ?thesis
      using workflow_run_first [of sha env raw] by (metis list.distinct(1) list.set_cases)
  qed
  then show ?thesis by (simp add: list_all_iff)
qed

text \<open>
  C3. No replay. In any run no request, no action and no finalized transition is committed twice.
\<close>

theorem commits_are_never_replayed:
  "distinct (map (request_digest sha) (commits (fst (workflow_run sha env raw))))
   \<and> distinct (map (action_digest sha) (commits (fst (workflow_run sha env raw))))
   \<and> distinct (map (\<lambda>c. ft_sha256 (cm_finalized c)) (commits (fst (workflow_run sha env raw))))"
  using workflow_run_inv [of sha env raw] by (auto simp: run_inv_def)

text \<open>What a phase may use as its external evidence.\<close>

definition evidence_ok :: "hash_fn \<Rightarrow> outer_env \<Rightarrow> commit \<Rightarrow> bool" where
  "evidence_ok sha env c \<longleftrightarrow>
     (let prepared = prepared_of sha c; result = ft_result (cm_finalized c) in
      fld (pt_action prepared) ''payload_sha256'' = JStr (sha (pt_payload prepared))
      \<and> (if cm_phase c = u ''offline'' then
           offline_execute env (pt_payload prepared) = Inr (cm_external c)
           \<and> fld result ''external_execution_sha256'' = JStr (sha (cm_external c))
         else if cm_phase c = u ''broker'' then
           broker_execute env (pt_payload prepared) = Inr (cm_external c)
           \<and> fld result ''external_execution_sha256'' = JStr (sha (cm_external c))
         else cm_external c = pt_payload prepared
           \<and> fld result ''external_execution_sha256'' = JNull)
      \<and> fld result ''coordinator_output_sha256'' = JStr (sha (ft_output (cm_finalized c))))"

lemma committed_evidence:
  assumes c: "committed sha env c"
  shows "evidence_ok sha env c"
proof -
  let ?p = "prepared_of sha c" and ?res = "ft_result (cm_finalized c)"
  have ph: "fld (request_of sha c) ''phase'' = JStr (cm_phase c)"
    and ext: "run_external env ?p = Inr (cm_external c)"
    using c by (auto simp: committed_def request_of_def prepared_of_def)
  note pp = committed_prepared [OF c]
  have kind: "fld (pt_action ?p) ''external_kind'' = JStr (ows_external (cm_phase c))"
    by (rule prepared_external_kind [OF pp ph])
  have pay: "fld (pt_action ?p) ''payload_sha256'' = JStr (sha (pt_payload ?p))"
    using pp by (auto simp: parse_prepared_iff valid_action_def)
  from c obtain out semantic
    where "validate_phase_result sha (request_of sha c) out semantic (ft_output (cm_finalized c))
         (if is_external (cm_phase c) then Some (cm_external c) else None) (JObj ?res) = Inr ?res"
    by (rule committed_finalized)
  then have res: "fld ?res ''external_execution_sha256'' =
        external_digest sha (if is_external (cm_phase c) then Some (cm_external c) else None)"
      "fld ?res ''coordinator_output_sha256'' = JStr (sha (ft_output (cm_finalized c)))"
    by (simp_all add: validate_result_iff)
  from kind pay ext res show ?thesis
    by (simp add: evidence_ok_def Let_def run_external_def is_external_def ows_external_def
        external_digest_def split: if_splits)
qed

text \<open>
  C4. Evidence. Only the offline phase runs the offline executor and only the broker phase the
  broker, each on exactly the payload whose digest the action names; the committed result names
  the digest of what that executor returned. Every other phase commits the payload itself and
  no execution digest, so the coordinator cannot supply execution evidence of its own.
\<close>

theorem evidence_comes_from_the_executor:
  "list_all (evidence_ok sha env) (commits (fst (workflow_run sha env raw)))"
  using workflow_run_committed [of sha env raw] by (auto simp: list_all_iff intro: committed_evidence)

end
