(* ===== verification/Json_Size.thy ===== *)
theory Json_Size
  imports Py_Json Py_Base64
begin

text \<open>
  The length of canonical JSON. A \<open>clean\<close> string needs no escape and is ASCII, so a value built
  from clean strings prints, in any key order, to exactly \<open>jlen\<close> bytes; every other value prints
  to at least the bytes of each string it contains. The byte limits of the envelopes rest on this.
\<close>

definition clean :: "pystr \<Rightarrow> bool" where
  "clean s \<longleftrightarrow> list_all (\<lambda>c. 0x20 \<le> c \<and> c < 0x7F \<and> c \<noteq> 0x22 \<and> c \<noteq> 0x5C) s"

lemma sum_list_cong: "(\<And>x. x \<in> set xs \<Longrightarrow> f x = g x) \<Longrightarrow> sum_list (map f xs) = (sum_list (map g xs) :: nat)"
  by (induction xs) auto

fun jclean :: "json \<Rightarrow> bool" where
  "jclean (JInt i) = (\<bar>i\<bar> < 10)"
| "jclean (JFloat x) = False"
| "jclean (JStr s) = clean s"
| "jclean (JArr xs) = list_all jclean xs"
| "jclean (JObj kvs) = (distinct (map fst kvs) \<and> list_all (\<lambda>(k, v). clean k \<and> jclean v) kvs)"
| "jclean _ = True"

fun jlen :: "json \<Rightarrow> nat" where
  "jlen JNull = 4"
| "jlen (JBool b) = (if b then 4 else 5)"
| "jlen (JInt i) = (if i < 0 then 2 else 1)"
| "jlen (JFloat x) = 0"
| "jlen (JStr s) = length s + 2"
| "jlen (JArr xs) = 2 + sum_list (map jlen xs) + (length xs - 1)"
| "jlen (JObj kvs) = 2 + sum_list (map (\<lambda>(k, v). length k + 3 + jlen v) kvs) + (length kvs - 1)"

lemma clean_Nil [simp]: "clean []"
  by (simp add: clean_def)

lemma clean_append [simp]: "clean (s @ t) \<longleftrightarrow> clean s \<and> clean t"
  by (simp add: clean_def)

lemma clean_escape: "clean s \<Longrightarrow> concat (map json_escape s) = s"
  by (induction s) (auto simp: clean_def json_escape_def)

lemma json_string_clean: "clean s \<Longrightarrow> json_string s = [0x22] @ s @ [0x22]"
  by (simp add: json_string_def clean_escape)

lemma clean_ascii: "clean s \<Longrightarrow> ascii s"
  by (auto simp: clean_def ascii_def list_all_iff)

lemma length_join_with: "length (join_with sep xs) = sum_list (map length xs) + (length xs - 1)"
  by (induction sep xs rule: join_with.induct) auto

lemma ascii_join_with: "sep < 128 \<Longrightarrow> list_all ascii xs \<Longrightarrow> ascii (join_with sep xs)"
  by (induction sep xs rule: join_with.induct) (auto simp: ascii_def)

lemma dec_small: "\<bar>i\<bar> < 10 \<Longrightarrow> dec_nat (nat \<bar>i\<bar>) = [0x30 + nat \<bar>i\<bar>]"
  by (subst dec_nat.simps) simp

lemma dec_int_small: "\<bar>i\<bar> < 10 \<Longrightarrow> length (dec_int i) = (if i < 0 then 2 else 1) \<and> ascii (dec_int i)"
  using dec_small [of i] by (auto simp: dec_int_def ascii_def)

lemma jprint_clean: "jclean v \<Longrightarrow> length (jprint v) = jlen v \<and> ascii (jprint v)"
proof (induction v)
  case (JInt i)
  then show ?case using dec_int_small by simp
next
  case (JArr xs)
  then have "sum_list (map (length \<circ> jprint) xs) = sum_list (map jlen xs)"
      "list_all ascii (map jprint xs)"
    by (auto simp: list_all_iff intro!: sum_list_cong)
  then show ?case using ascii_join_with [where sep = "0x2C" and xs = "map jprint xs"]
    by (simp add: length_join_with ascii_def)
next
  case (JObj kvs)
  let ?p = "\<lambda>(k, v). json_string k @ 0x3A # jprint v"
  have each: "length (?p x) = (case x of (k, v) \<Rightarrow> length k + 3 + jlen v) \<and> ascii (?p x)"
    if x: "x \<in> set kvs" for x
  proof -
    obtain k v where kv: "x = (k, v)" by (cases x)
    with JObj.prems x have c: "clean k" "jclean v" by (auto simp: list_all_iff)
    moreover have "length (jprint v) = jlen v \<and> ascii (jprint v)"
      using JObj.IH [of x v] x kv c(2) by simp
    ultimately show ?thesis
      using clean_ascii [of k] by (simp add: kv json_string_clean ascii_def)
  qed
  then have "sum_list (map (\<lambda>x. length (?p x)) kvs)
      = sum_list (map (\<lambda>x. case x of (k, v) \<Rightarrow> length k + 3 + jlen v) kvs)"
    by (intro sum_list_cong) simp
  moreover have "list_all ascii (map ?p kvs)" using each by (simp add: list_all_iff)
  ultimately show ?case
    using ascii_join_with [where sep = "0x2C" and xs = "map ?p kvs"]
    by (simp add: length_join_with comp_def ascii_def)
qed (auto simp: json_string_clean u_def ascii_def dest!: clean_ascii)

lemma jclean_jfinite: "jclean v \<Longrightarrow> jfinite v"
proof (induction v)
  case (JInt i)
  then show ?case using dec_small [of i] by simp
qed (fastforce simp: list_all_iff)+

lemma jlen_mset: "mset kvs = mset kws \<Longrightarrow> jlen (JObj kvs) = jlen (JObj kws)"
proof -
  assume m: "mset kvs = mset kws"
  then have "sum_list (map f kvs) = sum_list (map f kws)" for f :: "pystr \<times> json \<Rightarrow> nat"
    by (metis mset_map sum_mset_sum_list)
  moreover have "length kvs = length kws" using m by (rule mset_eq_length)
  ultimately show ?thesis by simp
qed

lemma jsort_clean: "jclean v \<Longrightarrow> jclean (jsort v) \<and> jlen (jsort v) = jlen v"
proof (induction v)
  case (JArr xs)
  then have "sum_list (map (jlen \<circ> jsort) xs) = sum_list (map jlen xs)" "list_all jclean (map jsort xs)"
    by (auto simp: list_all_iff intro!: sum_list_cong)
  then show ?case by simp
next
  case (JObj kvs)
  let ?m = "map (\<lambda>(k, v). (k, jsort v)) kvs"
  have all: "\<forall>(k, v) \<in> set kvs. clean k \<and> jclean (jsort v) \<and> jlen (jsort v) = jlen v"
    using JObj by (fastforce simp: list_all_iff)
  have "jlen (JObj (sort_key fst ?m)) = jlen (JObj ?m)" by (rule jlen_mset) simp
  also have "\<dots> = jlen (JObj kvs)"
    using all by (auto simp: comp_def split_def intro!: sum_list_cong)
  finally have len: "jlen (jsort (JObj kvs)) = jlen (JObj kvs)" by simp
  have "distinct (map fst (sort_key fst ?m))"
  proof -
    have "mset (map fst (sort_key fst ?m)) = mset (map fst ?m)" by (simp only: mset_map mset_sort)
    moreover have "map fst ?m = map fst kvs" by (simp add: comp_def split_def)
    ultimately show ?thesis using JObj.prems by (metis jclean.simps(5) mset_eq_imp_distinct_iff)
  qed
  moreover have "\<forall>(k, v) \<in> set (sort_key fst ?m). clean k \<and> jclean v"
    using all by auto
  ultimately have "jclean (jsort (JObj kvs))" by (simp add: list_all_iff split_def)
  with len show ?case by blast
qed simp_all

lemma dumps_clean:
  assumes "jclean v"
  obtains s where "dumps v = Some s" and "ascii s" and "length s = jlen v"
  using assms jprint_clean [of "jsort v"] jsort_clean [OF assms] jclean_jfinite [OF assms] that
  by (simp add: dumps_def)

section \<open>A lower bound for any value\<close>

lemma json_escape_nonempty: "json_escape c \<noteq> []"
  by (simp add: json_escape_def)

lemma length_json_string: "length s + 2 \<le> length (json_string s)"
proof -
  have "length s \<le> length (concat (map json_escape s))"
  proof (induction s)
    case (Cons c s)
    have "1 \<le> length (json_escape c)" using json_escape_nonempty [of c] by (cases "json_escape c") auto
    with Cons show ?case by simp
  qed simp
  then show ?thesis by (simp add: json_string_def)
qed

lemma length_jprint_member: "(k, v) \<in> set kvs \<Longrightarrow> length (jprint v) \<le> length (jprint (JObj kvs))"
proof -
  let ?f = "\<lambda>(k, v). json_string k @ 0x3A # jprint v"
  assume "(k, v) \<in> set kvs"
  then have "length (?f (k, v)) \<in> set (map length (map ?f kvs))" by force
  then have "length (?f (k, v)) \<le> sum_list (map length (map ?f kvs))" by (rule member_le_sum_list) simp
  then show ?thesis by (simp add: length_join_with del: map_map)
qed

lemma length_dumps_member:
  assumes "(k, JStr t) \<in> set d" and "dumps (JObj d) = Some s"
  shows "length t + 2 \<le> length s"
proof -
  have "s = jprint (jsort (JObj d))" using assms(2) by (simp add: dumps_def split: if_splits)
  moreover have "(k, JStr t) \<in> set (sort_key fst (map (\<lambda>(k, v). (k, jsort v)) d))"
    using assms(1) by force
  ultimately show ?thesis
    using length_jprint_member [of k "JStr t"] length_json_string [of t] by fastforce
qed

lemma utf8_encode_longer: "utf8_encode s = Some b \<Longrightarrow> length s \<le> length b"
proof -
  have "length s \<le> length (concat (map utf8_char s))"
  proof (induction s)
    case (Cons c s)
    have "1 \<le> length (utf8_char c)" by (simp add: utf8_char_def)
    with Cons show ?case by simp
  qed simp
  then show "utf8_encode s = Some b \<Longrightarrow> length s \<le> length b"
    by (auto simp: utf8_encode_def split: if_splits)
qed

lemma length_b64encode_ge: "4 * length b \<le> 3 * length (b64encode b)"
proof -
  have "4 * length bs \<le> 3 * length (b64_enc bs)" for bs
    by (induction bs rule: b64_enc.induct) simp_all
  from this [of "map of_char b"] show ?thesis by (simp add: b64encode_def)
qed

lemma clean_b64encode: "clean (b64encode b)"
proof -
  have ch: "clean [b64_char v]" if "v < 64" for v
    using that by (auto simp: clean_def b64_char_def)
  have "\<forall>x \<in> set bs. x < 256 \<Longrightarrow> clean (b64_enc bs)" for bs
  proof (induction bs rule: b64_enc.induct)
  qed (use ch in \<open>auto simp: clean_def\<close>)
  then show ?thesis by (simp add: b64encode_def)
qed

end
