(* ===== verification/Outer_Roundtrip.thy ===== *)
theory Outer_Roundtrip
  imports Outer_State_Facts Json_Size
begin

text \<open>
  The envelopes the launcher and the coordinator exchange: what \<open>encode_prepared_transition\<close>
  and \<open>encode_finalized_transition\<close> write is read back by the matching parser, and the byte
  limits are compared with what the limits of the parts allow.
\<close>

section \<open>Written dictionaries are read back\<close>

lemma sorted_fields:
  assumes "distinct (map fst d)" and "jsort (JObj d) = JObj d'"
  shows "set (map fst d') = set (map fst d)" and "fld d' k = jsort (fld d k)"
proof -
  let ?m = "map (\<lambda>(k, v). (k, jsort v)) d"
  have d': "d' = sort_key fst ?m" using assms(2) by simp
  have keys: "map fst ?m = map fst d" by (simp add: comp_def split_def)
  show "set (map fst d') = set (map fst d)" unfolding d' by force
  have "mset (map fst d') = mset (map fst ?m)" unfolding d' by (simp only: mset_map mset_sort)
  then have "distinct (map fst d')" using assms(1) keys by (metis mset_eq_imp_distinct_iff)
  then have "map_of d' = map_of ?m"
    using assms(1) keys d' by (intro map_of_inject_set [THEN iffD2]) (simp_all only: keys, simp)
  moreover have "map_of ?m k' = map_option jsort (map_of d k')" for k'
    by (induction d) auto
  ultimately show "fld d' k = jsort (fld d k)"
    by (auto simp: fld_def split: option.splits)
qed

lemma strict_json_written:
  assumes "plain (JObj d)" and "canonical (JObj d) = Inr raw" and "length raw \<le> m"
  obtains d' where "strict_json label m raw = Inr d'" and "set (map fst d') = set (map fst d)"
    and "\<forall>k. fld d' k = jsort (fld d k)"
proof -
  obtain d' where d': "jsort (JObj d) = JObj d'" by simp
  with strict_json_jsort [OF assms d'] sorted_fields [OF _ d'] assms(1) that show thesis by simp
qed

lemma canonical_clean:
  assumes "jclean v"
  obtains raw where "canonical v = Inr raw" and "length raw = jlen v + 1"
proof -
  obtain s where s: "dumps v = Some s" "ascii s" "length s = jlen v" using assms by (rule dumps_clean)
  then have "utf8_encode (s @ [0x0A]) = Some (map char_of (s @ [0x0A]))"
    by (intro utf8_encode_ascii) (simp add: ascii_def)
  with s that show thesis by (simp add: canonical_def)
qed

lemma jclean_plain: "jclean v \<Longrightarrow> plain v"
proof (induction v)
  case (JInt i)
  then show ?case using dec_small [of i] by simp
qed (fastforce simp: list_all_iff)+

section \<open>The size of a dictionary with known fields\<close>

lemma fields_mset:
  assumes "distinct (map fst d)" and "set (map fst d) = set (map u ks)" and "distinct ks"
  shows "mset d = mset (map (\<lambda>k. (u k, fld d k)) ks)"
proof -
  let ?f = "\<lambda>k. (u k, fld d k)"
  have "set d = set (map ?f ks)"
  proof (rule set_eqI)
    fix p :: "pystr \<times> json"
    obtain k v where p: "p = (k, v)" by (cases p)
    have "p \<in> set d \<longleftrightarrow> map_of d k = Some v" using assms(1) p by simp
    also have "\<dots> \<longleftrightarrow> p \<in> set (map ?f ks)"
    proof
      assume m: "map_of d k = Some v"
      then have "k \<in> set (map fst d)" by (force dest: map_of_SomeD)
      then obtain k' where "k' \<in> set ks" "k = u k'" using assms(2) by auto
      with m p show "p \<in> set (map ?f ks)" by (force simp: fld_def)
    next
      assume "p \<in> set (map ?f ks)"
      then obtain k' where k': "k' \<in> set ks" "k = u k'" "v = fld d k'" using p by auto
      then have "k \<in> set (map fst d)" using assms(2) by auto
      then have "map_of d k \<noteq> None" by (simp add: map_of_eq_None_iff)
      with k' show "map_of d k = Some v" by (auto simp: fld_def)
    qed
    finally show "p \<in> set d \<longleftrightarrow> p \<in> set (map ?f ks)" .
  qed
  moreover have "distinct d" using assms(1) by (simp add: distinct_map)
  moreover have "distinct (map ?f ks)"
    using assms(3) by (simp add: distinct_map inj_on_def)
  ultimately show ?thesis by (metis set_eq_iff_mset_eq_distinct)
qed

lemma is_sha256_clean: "is_sha256 s \<Longrightarrow> clean s \<and> length s = 64"
  by (auto simp: is_sha256_def clean_def lower_hex_def list_all_iff is_digit_def)

text \<open>A field of at most \<open>n\<close> bytes.\<close>

definition short :: "nat \<Rightarrow> json \<Rightarrow> bool" where
  "short n v \<longleftrightarrow> jclean v \<and> jlen v \<le> n"

lemma short_sha: "is_sha256 s \<Longrightarrow> short 66 (JStr s)"
  using is_sha256_clean [of s] by (simp add: short_def)

lemma short_fields:
  assumes "distinct (map fst d)" and "set (map fst d) = set (map u ks)" and "distinct ks"
    and "list_all (\<lambda>k. clean (u k) \<and> length k \<le> 40 \<and> short n (fld d k)) ks"
  shows "jclean (JObj d)" and "jlen (JObj d) \<le> 2 + length ks * (n + 44)"
proof -
  note m = fields_mset [OF assms(1-3)]
  let ?d = "map (\<lambda>k. (u k, fld d k)) ks"
  from m have set: "set d = set ?d" by (rule mset_eq_setD)
  then show "jclean (JObj d)"
    using assms(1,4) by (auto simp: list_all_iff short_def)
  have each: "list_all (\<lambda>k. length k + 3 + jlen (fld d k) + 1 \<le> n + 44) ks"
    using assms(4) by (auto simp: list_all_iff short_def)
  have "jlen (JObj ?d) \<le> 2 + sum_list (map (\<lambda>k. length k + 3 + jlen (fld d k)) ks) + length ks"
    by (simp add: comp_def)
  also have "\<dots> \<le> 2 + length ks * (n + 44)"
    using each by (induction ks) auto
  finally have "jlen (JObj ?d) \<le> 2 + length ks * (n + 44)" .
  then show "jlen (JObj d) \<le> 2 + length ks * (n + 44)"
    using jlen_mset [OF m] by simp
qed

section \<open>Prepared transitions\<close>

lemma short_phase: "i < 7 \<Longrightarrow> short 66 (JStr (PHASE_ORDER ! i))"
proof -
  have "list_all (\<lambda>s. clean s \<and> length s \<le> 64) PHASE_ORDER"
    by (simp add: PHASE_ORDER_def clean_def u_def)
  then show "i < 7 \<Longrightarrow> short 66 (JStr (PHASE_ORDER ! i))"
    by (simp add: list_all_length short_def)
qed

lemma short_lits:
  "short 66 (JStr (u ''1.0''))" "short 66 (JStr (ows_external s))" "1 \<le> i \<Longrightarrow> i \<le> 7 \<Longrightarrow> short 66 (JInt i)"
  by (auto simp: short_def ows_external_def clean_def u_def)

lemma valid_request_short:
  assumes "valid_request sha r"
  shows "short 66 (fld r ''workflow_id'')" and "short 66 (fld r ''phase'')"
    and "short 66 (fld r ''sequence'')" and "short 66 (fld r ''request_sha256'')"
proof -
  have "\<exists>s. fld r k = JStr s \<and> is_sha256 s" if "k \<in> set REQUIRED_SHAS" for k
    using assms that by (simp add: valid_request_def)
  then show "short 66 (fld r ''workflow_id'')" "short 66 (fld r ''request_sha256'')"
    using short_sha by (metis REQUIRED_SHAS_def list.set_intros)+
  have s: "1 \<le> seq_of r" "seq_of r \<le> 7" "fld r ''phase'' = JStr (PHASE_ORDER ! nat (seq_of r - 1))"
      "fld r ''sequence'' = JInt (seq_of r)"
    using assms by (simp_all add: valid_request_def)
  then have "nat (seq_of r - 1) < 7" by simp
  with s show "short 66 (fld r ''phase'')" "short 66 (fld r ''sequence'')"
    using short_phase short_lits(3) by simp_all
qed

lemma action_size:
  assumes r: "valid_request sha request" and a: "valid_action sha request payload a"
    and d: "distinct (map fst a)" and h: "\<And>b. is_sha256 (sha b)"
  shows "jclean (JObj a)" and "jlen (JObj a) \<le> 900"
proof -
  have keys: "set (map fst a) = set (map u ACTION_FIELDS)" using a by (simp only: valid_action_def)
  have dk: "distinct ACTION_FIELDS" by (simp add: ACTION_FIELDS_def)
  have all: "list_all (\<lambda>k. clean (u k) \<and> length k \<le> 40 \<and> short 66 (fld a k)) ACTION_FIELDS"
    using a valid_request_short [OF r] short_lits short_sha [OF h] short_sha
    by (auto simp: ACTION_FIELDS_def valid_action_def clean_def u_def)
  show "jclean (JObj a)" by (rule short_fields(1) [OF d keys dk all])
  have "length ACTION_FIELDS = 8" by (simp add: ACTION_FIELDS_def)
  then show "jlen (JObj a) \<le> 900" using short_fields(2) [OF d keys dk all] by simp
qed

lemma domain_Inr: "domain sha tag v = Inr h \<longleftrightarrow> (\<exists>b. canonical v = Inr b \<and> h = sha (tag @ b))"
  by (auto simp: domain_def result_simps)

lemma clean_lits [simp]:
  "clean (u ''action'')" "clean (u ''payload_base64'')" "clean (u ''schema_version'')"
  "clean (u ''prepared_sha256'')" "clean (u ''1.0'')"
  by (simp_all add: clean_def u_def)

lemma encode_prepared_size:
  assumes a: "jclean (JObj action)" "jlen (JObj action) \<le> 900" and p: "length payload \<le> 2000000"
    and h: "\<And>b. is_sha256 (sha b)"
  obtains raw where "encode_prepared_transition sha action payload = Inr raw"
    and "length raw \<le> MAX_PREPARED_BYTES"
proof -
  let ?b = "JStr (b64encode payload)"
  have b: "jclean ?b" by (simp add: clean_b64encode)
  have "jclean (prepared_body (JObj action) ?b)" using a(1) b by (simp add: prepared_body_def)
  then obtain body where body: "canonical (prepared_body (JObj action) ?b) = Inr body"
    by (rule canonical_clean)
  let ?h = "sha (PREPARED_DOMAIN @ body)"
  let ?env = "JObj [(u ''action'', JObj action), (u ''payload_base64'', ?b),
      (u ''schema_version'', JStr (u ''1.0'')), (u ''prepared_sha256'', JStr ?h)]"
  have hc: "clean ?h" "length ?h = 64" using is_sha256_clean [OF h] by simp_all
  have c: "jclean ?env" using a(1) b hc by simp
  then obtain raw where raw: "canonical ?env = Inr raw" "length raw = jlen ?env + 1"
    by (rule canonical_clean)
  have "jlen ?env = 2 + (6 + 3 + jlen (JObj action)) + (14 + 3 + (length (b64encode payload) + 2))
      + (14 + 3 + 5) + (15 + 3 + 66) + 3"
    using hc by simp
  then have "length raw \<le> MAX_PREPARED_BYTES"
    using raw(2) a(2) p length_b64encode [of payload] by (simp add: MAX_PREPARED_BYTES_def)
  moreover have "encode_prepared_transition sha action payload = Inr raw"
    using body raw(1) by (simp add: encode_prepared_transition_def domain_def)
  ultimately show thesis using that by blast
qed

lemma parse_encoded_prepared:
  assumes c: "canon (JObj action)" and v: "valid_action sha request payload action"
    and p: "payload \<noteq> []" "length payload \<le> 2000000"
    and e: "encode_prepared_transition sha action payload = Inr raw"
    and m: "length raw \<le> MAX_PREPARED_BYTES" and h: "\<And>b. is_sha256 (sha b)"
  obtains digest where "parse_prepared_transition sha request raw
    = Inr \<lparr>pt_action = action, pt_payload = payload, pt_sha256 = digest\<rparr>"
proof -
  let ?b = "JStr (b64encode payload)"
  from e obtain digest where dg: "domain sha PREPARED_DOMAIN (prepared_body (JObj action) ?b) = Inr digest"
    and raw: "canonical (JObj [(u ''action'', JObj action), (u ''payload_base64'', ?b),
        (u ''schema_version'', JStr (u ''1.0'')), (u ''prepared_sha256'', JStr digest)]) = Inr raw"
    by (auto simp: encode_prepared_transition_def result_simps)
  let ?d = "[(u ''action'', JObj action), (u ''payload_base64'', ?b),
      (u ''schema_version'', JStr (u ''1.0'')), (u ''prepared_sha256'', JStr digest)]"
  have "plain (JObj ?d)" using canon_plain [OF c] by simp
  then obtain d' where d': "strict_json ''prepared transition'' MAX_PREPARED_BYTES raw = Inr d'"
      "set (map fst d') = set (map fst ?d)" and fl: "\<forall>k. fld d' k = jsort (fld ?d k)"
    using raw m by (rule strict_json_written [where label = "''prepared transition''"])
  have f: "fld d' ''action'' = JObj action" "fld d' ''payload_base64'' = ?b"
      "fld d' ''schema_version'' = JStr (u ''1.0'')" "fld d' ''prepared_sha256'' = JStr digest"
    using fl canon_jsort_id [OF c] by (simp_all add: fld_def)
  have "is_sha256 digest" using dg h by (auto simp: domain_Inr)
  moreover have "length (b64encode payload) \<le> 2000000 * 2" using length_b64encode [of payload] p(2) by simp
  moreover have "set (map fst d') = set (map u PREPARED_FIELDS)"
    unfolding d'(2) by (auto simp: PREPARED_FIELDS_def)
  ultimately have "parse_prepared_transition sha request raw
      = Inr \<lparr>pt_action = action, pt_payload = payload, pt_sha256 = digest\<rparr>"
    using d'(1) f p v dg by (auto simp: parse_prepared_iff decode_base64_Inr simp del: set_map)
  then show thesis by (rule that)
qed

text \<open>
  Prepared transitions. Every action that is valid for its request, with any payload of 1 to
  2,000,000 bytes, can be encoded; the envelope stays within the launcher's 3,000,000-byte
  limit, so no valid descriptor is unreachable, and parsing it gives back exactly that action
  and payload.
\<close>

theorem prepared_transition_roundtrip:
  assumes "\<And>b. is_sha256 (sha b)" and "valid_request sha request"
    and "valid_action sha request payload action" and "canon (JObj action)"
    and "payload \<noteq> []" and "length payload \<le> 2000000"
  shows "\<exists>raw digest. encode_prepared_transition sha action payload = Inr raw
     \<and> length raw \<le> 3000000
     \<and> parse_prepared_transition sha request raw
        = Inr \<lparr>pt_action = action, pt_payload = payload, pt_sha256 = digest\<rparr>"
proof -
  have d: "distinct (map fst action)" using canon_plain [OF assms(4)] by simp
  obtain raw where raw: "encode_prepared_transition sha action payload = Inr raw"
    "length raw \<le> MAX_PREPARED_BYTES"
    using action_size [OF assms(2,3) d assms(1)] assms(6,1) by (rule encode_prepared_size)
  with parse_encoded_prepared [OF assms(4,3,5,6) raw assms(1)] show ?thesis
    by (metis MAX_PREPARED_BYTES_def)
qed

text \<open>A first request and its action, under a digest function that answers 64 zeros.\<close>

definition zeros :: pystr where
  "zeros = replicate 64 0x30"

definition demo_request :: pydict where
  "demo_request =
     [(u ''candidate_sha256'', JStr zeros), (u ''candidate_snapshot_sha256'', JNull),
      (u ''coordinator_key_id'', JStr zeros), (u ''coordinator_public_key_sha256'', JStr zeros),
      (u ''input_artifacts_sha256'', JStr zeros), (u ''phase'', JStr (u ''snapshot'')),
      (u ''previous_phase_sha256'', JNull), (u ''request_sha256'', JStr zeros),
      (u ''review_packet_sha256'', JNull), (u ''runtime_manifest_sha256'', JStr zeros),
      (u ''schema_version'', JStr (u ''1.0'')), (u ''sequence'', JInt 1),
      (u ''task_sha256'', JStr zeros), (u ''workflow_id'', JStr zeros)]"

definition demo_action :: pydict where
  "demo_action =
     [(u ''action_sha256'', JStr zeros), (u ''external_kind'', JStr (u ''none'')),
      (u ''payload_sha256'', JStr zeros), (u ''phase'', JStr (u ''snapshot'')),
      (u ''request_sha256'', JStr zeros), (u ''schema_version'', JStr (u ''1.0'')),
      (u ''sequence'', JInt 1), (u ''workflow_id'', JStr zeros)]"

lemma zeros_sha [simp]: "is_sha256 zeros"
  by (simp add: zeros_def is_sha256_def lower_hex_def is_digit_def list_all_iff)

lemma zeros_clean [simp]: "clean zeros"
  using is_sha256_clean [OF zeros_sha] by simp

lemma demo_domains:
  "domain (\<lambda>_. zeros) REQUEST_DOMAIN (unsigned_body ''request_sha256'' demo_request) = Inr zeros"
  "domain (\<lambda>_. zeros) ACTION_DOMAIN (unsigned_body ''action_sha256'' demo_action) = Inr zeros"
proof -
  have d: "domain (\<lambda>_. zeros) tag v = Inr zeros" if "jclean v" for tag v
    using that by (auto simp: domain_Inr intro: canonical_clean)
  show "domain (\<lambda>_. zeros) REQUEST_DOMAIN (unsigned_body ''request_sha256'' demo_request) = Inr zeros"
    "domain (\<lambda>_. zeros) ACTION_DOMAIN (unsigned_body ''action_sha256'' demo_action) = Inr zeros"
    by (rule d, simp add: demo_request_def demo_action_def unsigned_body_def dict_drop_def,
        simp add: clean_def u_def)+
qed

lemma demo_valid:
  "valid_request (\<lambda>_. zeros) demo_request"
  "valid_action (\<lambda>_. zeros) demo_request ''{}'' demo_action"
proof -
  have seq: "seq_of demo_request = 1" by (simp add: seq_of_def fld_def demo_request_def)
  show "valid_request (\<lambda>_. zeros) demo_request"
    unfolding valid_request_def seq using demo_domains(1)
    by (auto simp: demo_request_def fld_def REQUEST_FIELDS_def REQUIRED_SHAS_def OPTIONAL_SHAS_def
        PHASE_ORDER_def)
  show "valid_action (\<lambda>_. zeros) demo_request ''{}'' demo_action"
    unfolding valid_action_def using demo_domains(2)
    by (auto simp: demo_request_def demo_action_def fld_def ACTION_FIELDS_def phase_of_def ows_external_def)
qed

lemma demo_action_canon: "canon (JObj demo_action)"
  by (simp add: demo_action_def u_less dec_small [of 1, simplified])

lemma prepared_transition_roundtrip_witness:
  "\<exists>raw digest. encode_prepared_transition (\<lambda>_. zeros) demo_action ''{}'' = Inr raw
     \<and> length raw \<le> 3000000
     \<and> parse_prepared_transition (\<lambda>_. zeros) demo_request raw
        = Inr \<lparr>pt_action = demo_action, pt_payload = ''{}'', pt_sha256 = digest\<rparr>"
  by (rule prepared_transition_roundtrip [OF zeros_sha demo_valid demo_action_canon]) simp_all

section \<open>Finalized transitions\<close>

definition FINALIZED_FIELDS :: "string list" where
  "FINALIZED_FIELDS = [''coordinator_output_base64'', ''finalized_sha256'', ''next_request_base64'',
     ''phase_result'', ''schema_version'']"

definition encoded_next :: "bytes option \<Rightarrow> json" where
  "encoded_next nxt = (case nxt of None \<Rightarrow> JNull | Some r \<Rightarrow> JStr (b64encode r))"

definition decoded_next :: "json \<Rightarrow> ows_error + bytes option" where
  "decoded_next v =
     (if v = JNull then Inr None
      else bindE (decode_base64 ''next phase request'' 128000 v) (\<lambda>r. Inr (Some r)))"

lemma decoded_encoded_next:
  assumes "\<forall>r. nxt = Some r \<longrightarrow> r \<noteq> [] \<and> length r \<le> 128000"
  shows "decoded_next (encoded_next nxt) = Inr nxt"
proof (cases nxt)
  case (Some r)
  then have "length (b64encode r) \<le> 128000 * 2" using assms length_b64encode [of r] by auto
  with Some assms have "decode_base64 ''next phase request'' 128000 (JStr (b64encode r)) = Inr r"
    by (simp only: decode_base64_Inr) simp
  with Some show ?thesis by (simp add: decoded_next_def encoded_next_def)
qed (simp add: decoded_next_def encoded_next_def)

lemma parse_finalized_Inr:
  assumes "strict_json ''finalized transition'' MAX_FINALIZED_BYTES raw = Inr d"
    and "set (map fst d) = set (map u FINALIZED_FIELDS)"
    and "fld d ''schema_version'' = JStr (u ''1.0'')"
    and "decode_base64 ''coordinator output'' 8000000 (fld d ''coordinator_output_base64'') = Inr output"
    and "validate_coordinator_output sha request output = Inr (out, semantic)"
    and "validate_phase_result sha request out semantic output ext (fld d ''phase_result'') = Inr result"
    and "decoded_next (fld d ''next_request_base64'') = Inr nxt"
    and "check_next_request sha request out result nxt = Inr ()"
    and "fld d ''finalized_sha256'' = JStr digest" and "is_sha256 digest"
    and "domain sha FINALIZED_DOMAIN (finalized_body (fld d ''coordinator_output_base64'')
           (fld d ''next_request_base64'') (fld d ''phase_result'')) = Inr digest"
  shows "parse_finalized_transition sha request ext raw
    = Inr \<lparr>ft_result = result, ft_output = output, ft_next_request = nxt, ft_sha256 = digest\<rparr>"
proof -
  have e: "exact ''finalized transition''
             [''coordinator_output_base64'', ''finalized_sha256'', ''next_request_base64'',
              ''phase_result'', ''schema_version''] (JObj d) = Inr d"
    using assms(2) by (simp only: exact_Inr FINALIZED_FIELDS_def)
  have s: "sha_field ''finalized transition SHA-256'' (fld d ''finalized_sha256'') = Inr digest"
    using assms(9,10) by (simp add: sha_field_Inr)
  show ?thesis
    unfolding parse_finalized_transition_def
    by (simp only: assms(1,3-6,8,11) assms(7) [unfolded decoded_next_def] e s bindE_simps
        guardE_simps case_prod_conv HOL.simp_thms)
qed

lemma parse_encoded_finalized:
  assumes c: "canon (JObj result)"
    and o: "output \<noteq> []" "length output \<le> 8000000"
    and n: "\<forall>r. nxt = Some r \<longrightarrow> r \<noteq> [] \<and> length r \<le> 128000"
    and vo: "validate_coordinator_output sha request output = Inr (out, semantic)"
    and vr: "validate_phase_result sha request out semantic output ext (JObj result) = Inr result"
    and cn: "check_next_request sha request out result nxt = Inr ()"
    and e: "encode_finalized_transition sha result output nxt = Inr raw"
    and m: "length raw \<le> MAX_FINALIZED_BYTES" and h: "\<And>b. is_sha256 (sha b)"
  obtains digest where "parse_finalized_transition sha request ext raw
    = Inr \<lparr>ft_result = result, ft_output = output, ft_next_request = nxt, ft_sha256 = digest\<rparr>"
proof -
  let ?o = "JStr (b64encode output)" and ?n = "encoded_next nxt"
  from e obtain digest
    where dg: "domain sha FINALIZED_DOMAIN (finalized_body ?o ?n (JObj result)) = Inr digest"
      and raw: "canonical (JObj [(u ''coordinator_output_base64'', ?o), (u ''next_request_base64'', ?n),
        (u ''phase_result'', JObj result), (u ''schema_version'', JStr (u ''1.0'')),
        (u ''finalized_sha256'', JStr digest)]) = Inr raw"
    by (auto simp: encode_finalized_transition_def encoded_next_def Let_def result_simps)
  let ?d = "[(u ''coordinator_output_base64'', ?o), (u ''next_request_base64'', ?n),
        (u ''phase_result'', JObj result), (u ''schema_version'', JStr (u ''1.0'')),
        (u ''finalized_sha256'', JStr digest)]"
  have pn: "plain ?n" "jsort ?n = ?n" by (simp_all add: encoded_next_def split: option.splits)
  then have "plain (JObj ?d)" using canon_plain [OF c] by simp
  then obtain d' where d': "strict_json ''finalized transition'' MAX_FINALIZED_BYTES raw = Inr d'"
      "set (map fst d') = set (map fst ?d)" and fl: "\<forall>k. fld d' k = jsort (fld ?d k)"
    using raw m by (rule strict_json_written [where label = "''finalized transition''"])
  have f: "fld d' ''coordinator_output_base64'' = ?o" "fld d' ''next_request_base64'' = ?n"
      "fld d' ''phase_result'' = JObj result" "fld d' ''schema_version'' = JStr (u ''1.0'')"
      "fld d' ''finalized_sha256'' = JStr digest"
    using fl canon_jsort_id [OF c] pn by (simp_all add: fld_def)
  have "parse_finalized_transition sha request ext raw
    = Inr \<lparr>ft_result = result, ft_output = output, ft_next_request = nxt, ft_sha256 = digest\<rparr>"
  proof (rule parse_finalized_Inr [OF d'(1) _ f(4) _ vo _ _ cn f(5)])
    show "set (map fst d') = set (map u FINALIZED_FIELDS)"
      unfolding d'(2) by (auto simp: FINALIZED_FIELDS_def)
    have "length (b64encode output) \<le> 8000000 * 2" using length_b64encode [of "output"] o(2) by simp
    then show "decode_base64 ''coordinator output'' 8000000 (fld d' ''coordinator_output_base64'') = Inr output"
      using o by (simp add: f decode_base64_Inr)
    show "decoded_next (fld d' ''next_request_base64'') = Inr nxt"
      unfolding f by (rule decoded_encoded_next [OF n])
    show "is_sha256 digest" using dg h by (auto simp: domain_Inr)
  qed (simp_all only: f vr dg)
  then show thesis by (rule that)
qed

text \<open>The output that fits an envelope.\<close>

lemma parse_finalized_parts:
  assumes "parse_finalized_transition sha request ext raw = Inr f"
  obtains d where "strict_json ''finalized transition'' MAX_FINALIZED_BYTES raw = Inr d"
    and "fld d ''coordinator_output_base64'' = JStr (b64encode (ft_output f))"
proof -
  from assms show thesis
    unfolding parse_finalized_transition_def
    by (auto simp: result_simps decode_base64_Inr exact_Inr intro: that)
qed

lemma strict_json_field_length:
  assumes "strict_json label m raw = Inr d" and "fld d k = JStr t"
  shows "length t + 3 \<le> m"
proof -
  obtain s where s: "dumps (JObj d) = Some s" "utf8_encode (s @ [0x0A]) = Some raw"
    using strict_json_canonical [OF assms(1)] by (auto simp: canonical_Inr)
  have "(u k, JStr t) \<in> set d"
    using assms(2) by (auto simp: fld_def split: option.splits dest: map_of_SomeD)
  then have "length t + 2 \<le> length s" using s(1) by (rule length_dumps_member)
  also have "length s + 1 \<le> length raw" using utf8_encode_longer [OF s(2)] by simp
  finally show ?thesis using strict_json_bound [OF assms(1)] by linarith
qed


text \<open>The snapshot phase of the demonstration run: its output, result and next request.\<close>

definition demo_artifact :: "string \<Rightarrow> bytes \<Rightarrow> json" where
  "demo_artifact name content =
     JObj [(u ''content_base64'', JStr (b64encode content)), (u ''name'', JStr (u name))]"

definition demo_semantic :: semantic where
  "demo_semantic = [(u ''base-snapshot'', zeros), (u ''candidate-snapshot'', zeros), (u ''policy'', zeros)]"

definition demo_output :: pydict where
  "demo_output =
     [(u ''artifacts'', JArr [demo_artifact ''base-snapshot'' (map char_of zeros),
        demo_artifact ''candidate-snapshot'' (map char_of zeros), demo_artifact ''policy'' ''{}'']),
      (u ''candidate_snapshot_sha256'', JStr zeros), (u ''output_artifacts_sha256'', JStr zeros),
      (u ''output_sha256'', JStr zeros), (u ''phase'', JStr (u ''snapshot'')),
      (u ''request_sha256'', JStr zeros), (u ''review_packet_sha256'', JNull),
      (u ''schema_version'', JStr (u ''1.0'')), (u ''sequence'', JInt 1), (u ''workflow_id'', JStr zeros)]"

definition demo_result :: pydict where
  "demo_result =
     [(u ''artifacts'', semantic_json demo_semantic), (u ''candidate_snapshot_sha256'', JStr zeros),
      (u ''coordinator_output_sha256'', JStr zeros), (u ''external_execution_sha256'', JNull),
      (u ''output_artifacts_sha256'', JStr zeros), (u ''phase_sha256'', JStr zeros),
      (u ''request'', JObj demo_request), (u ''review_packet_sha256'', JNull),
      (u ''schema_version'', JStr (u ''1.0''))]"

definition demo_next :: pydict where
  "demo_next =
     [(u ''candidate_sha256'', JStr zeros), (u ''candidate_snapshot_sha256'', JStr zeros),
      (u ''coordinator_key_id'', JStr zeros), (u ''coordinator_public_key_sha256'', JStr zeros),
      (u ''input_artifacts_sha256'', JStr zeros), (u ''phase'', JStr (u ''red-snapshot'')),
      (u ''previous_phase_sha256'', JStr zeros), (u ''request_sha256'', JStr zeros),
      (u ''review_packet_sha256'', JNull), (u ''runtime_manifest_sha256'', JStr zeros),
      (u ''schema_version'', JStr (u ''1.0'')), (u ''sequence'', JInt 2),
      (u ''task_sha256'', JStr zeros), (u ''workflow_id'', JStr zeros)]"

lemmas demo_defs = demo_request_def demo_action_def demo_output_def demo_result_def demo_next_def
  demo_semantic_def demo_artifact_def semantic_json_def

lemma zeros_domain: "jclean v \<Longrightarrow> domain (\<lambda>_. zeros) tag v = Inr zeros"
  by (auto simp: domain_Inr intro: canonical_clean)

lemma demo_clean:
  "jclean (JObj demo_request)" "jclean (JObj demo_output)" "jclean (JObj demo_result)" "jclean (JObj demo_next)"
  by (simp add: demo_defs clean_b64encode, simp add: clean_def u_def)+

lemma demo_canon:
  "canon (JObj demo_request)" "canon (JObj demo_output)" "canon (JObj demo_result)" "canon (JObj demo_next)"
  by (simp_all add: demo_defs u_less dec_small [of 1, simplified] dec_small [of 2, simplified])

lemma demo_read_artifact:
  "mapE (read_artifact (\<lambda>_. zeros))
     [demo_artifact ''base-snapshot'' (map char_of zeros),
      demo_artifact ''candidate-snapshot'' (map char_of zeros), demo_artifact ''policy'' ''{}'']
   = Inr demo_semantic"
proof -
  have name: "is_artifact_name (u ''base-snapshot'')" "is_artifact_name (u ''candidate-snapshot'')"
    "is_artifact_name (u ''policy'')"
    by (simp_all add: is_artifact_name_def u_def lower_def is_digit_def)
  have dec: "decode_base64 l 6000000 (JStr (b64encode (map char_of zeros))) = Inr (map char_of zeros)"
    "decode_base64 l 6000000 (JStr (b64encode ''{}'')) = Inr ''{}''" for l
    using length_b64encode [of "map char_of zeros"] length_b64encode [of "''{}''"]
    by (simp_all add: decode_base64_Inr zeros_def)
  have sem: "artifact_semantic (\<lambda>_. zeros) (u n) (map char_of zeros) = Inr zeros"
    if "n = ''base-snapshot'' \<or> n = ''candidate-snapshot''" for n
    using that ascii_decode_encode [OF is_sha256_ascii [OF zeros_sha]]
    by (auto simp: artifact_semantic_def sha_field_Inr)
  have pol: "artifact_semantic (\<lambda>_. zeros) (u ''policy'') ''{}'' = Inr zeros"
    by (simp add: artifact_semantic_def starts_with_def u_def)
  show ?thesis
    by (simp add: read_artifact_def demo_artifact_def exact_def fld_def name dec sem pol demo_semantic_def)
qed

lemma demo_output_valid:
  assumes raw: "canonical (JObj demo_output) = Inr raw" and m: "length raw \<le> 8000000"
  shows "validate_coordinator_output (\<lambda>_. zeros) demo_request raw = Inr (demo_output, demo_semantic)"
proof -
  have read: "strict_json ''coordinator output'' 8000000 raw = Inr demo_output"
    by (rule strict_json_read [OF demo_canon(2) raw m])
  have ex: "exact ''coordinator output'' OUTPUT_FIELDS (JObj demo_output) = Inr demo_output"
    by (auto simp: exact_Inr OUTPUT_FIELDS_def demo_output_def)
  have ph: "phase_of demo_request = u ''snapshot''" by (simp add: phase_of_def fld_def demo_request_def)
  obtain mraw where man: "canonical (semantic_json demo_semantic) = Inr mraw"
    by (rule canonical_clean [of "semantic_json demo_semantic"]) (simp add: demo_defs, simp add: clean_def u_def)
  have dom: "domain (\<lambda>_. zeros) OUTPUT_DOMAIN (unsigned_body ''output_sha256'' demo_output) = Inr zeros"
    by (rule zeros_domain)
      (simp add: demo_defs unsigned_body_def dict_drop_def clean_b64encode, simp add: clean_def u_def)
  have names: "sorted (map fst demo_semantic)" "distinct (map fst demo_semantic)"
    "complete (u ''snapshot'') (map fst demo_semantic)"
    by (simp_all add: demo_semantic_def u_less_eq complete_def)
  have arts: "fld demo_output ''artifacts'' = JArr [demo_artifact ''base-snapshot'' (map char_of zeros),
        demo_artifact ''candidate-snapshot'' (map char_of zeros), demo_artifact ''policy'' ''{}'']"
    by (simp add: fld_def demo_output_def)
  have fl: "fld demo_output ''schema_version'' = JStr (u ''1.0'')"
    "fld demo_output ''workflow_id'' = fld demo_request ''workflow_id''"
    "fld demo_output ''phase'' = fld demo_request ''phase''"
    "fld demo_output ''sequence'' = JInt 1" "fld demo_request ''sequence'' = JInt 1"
    "fld demo_output ''request_sha256'' = fld demo_request ''request_sha256''"
    "fld demo_output ''output_artifacts_sha256'' = JStr zeros"
    "fld demo_output ''candidate_snapshot_sha256'' = JStr zeros"
    "fld demo_output ''review_packet_sha256'' = fld demo_request ''review_packet_sha256''"
    "fld demo_output ''output_sha256'' = JStr zeros"
    by (simp_all add: fld_def demo_output_def demo_request_def)
  have nn: "next_named ''candidate-snapshot'' demo_semantic = Inr (JStr zeros)"
    by (simp add: next_named_def demo_semantic_def)
  show ?thesis
    unfolding validate_coordinator_output_def read bindE_simps ex fl arts
    by (simp add: integer_def demo_read_artifact names validate_completeness_def ph man nn dom sha_field_def
        Let_def del: mapE.simps)
qed

lemma demo_result_valid:
  "validate_phase_result (\<lambda>_. zeros) demo_request demo_output demo_semantic raw None (JObj demo_result)
     = Inr demo_result"
proof -
  have dom: "domain (\<lambda>_. zeros) RESULT_DOMAIN (unsigned_body ''phase_sha256'' demo_result) = Inr zeros"
    by (rule zeros_domain) (simp add: demo_defs unsigned_body_def dict_drop_def, simp add: clean_def u_def)
  have req: "py_eq (fld demo_result ''request'') (JObj demo_request)"
    and art: "py_eq (fld demo_result ''artifacts'') (semantic_json demo_semantic)"
    by (simp_all add: fld_def demo_result_def demo_request_def demo_semantic_def semantic_json_def)
  have fl: "fld demo_result ''schema_version'' = JStr (u ''1.0'')"
    "fld demo_result ''output_artifacts_sha256'' = fld demo_output ''output_artifacts_sha256''"
    "fld demo_result ''candidate_snapshot_sha256'' = fld demo_output ''candidate_snapshot_sha256''"
    "fld demo_result ''review_packet_sha256'' = fld demo_output ''review_packet_sha256''"
    "fld demo_result ''external_execution_sha256'' = external_digest (\<lambda>_. zeros) None"
    "fld demo_result ''coordinator_output_sha256'' = JStr zeros"
    "fld demo_result ''phase_sha256'' = JStr zeros"
    by (simp_all add: fld_def demo_output_def demo_result_def external_digest_def)
  have keys: "set (map fst demo_result) = set (map u RESULT_FIELDS)"
    by (auto simp: demo_result_def RESULT_FIELDS_def)
  show ?thesis unfolding validate_result_iff using keys req art fl dom by auto
qed

lemma demo_next_valid: "valid_request (\<lambda>_. zeros) demo_next"
proof -
  have seq: "seq_of demo_next = 2" by (simp add: seq_of_def fld_def demo_next_def)
  have dom: "domain (\<lambda>_. zeros) REQUEST_DOMAIN (unsigned_body ''request_sha256'' demo_next) = Inr zeros"
    by (rule zeros_domain) (simp add: demo_next_def unsigned_body_def dict_drop_def, simp add: clean_def u_def)
  show ?thesis
    unfolding valid_request_def seq using dom
    by (auto simp: demo_next_def fld_def REQUEST_FIELDS_def REQUIRED_SHAS_def OPTIONAL_SHAS_def
        PHASE_ORDER_def)
qed

lemma demo_next_check:
  assumes "canonical (JObj demo_next) = Inr raw" and "length raw \<le> 128000"
  shows "check_next_request (\<lambda>_. zeros) demo_request demo_output demo_result (Some raw) = Inr ()"
proof -
  have v: "validate_phase_request_bytes (\<lambda>_. zeros) raw = Inr demo_next"
    using strict_json_read [OF demo_canon(4) assms] demo_next_valid by (simp add: validate_request_iff)
  have seq: "seq_of demo_request = 1" "seq_of demo_next = 2"
    by (simp_all add: seq_of_def fld_def demo_request_def demo_next_def)
  have ch: "chained demo_request demo_output demo_result demo_next"
    by (simp add: chained_def CARRIED_def fld_def demo_request_def demo_output_def demo_result_def demo_next_def)
  have ph: "fld demo_next ''phase'' = JStr (PHASE_ORDER ! nat (seq_of demo_request))"
    unfolding seq by (simp add: fld_def demo_next_def PHASE_ORDER_def)
  show ?thesis using v seq ch ph by (simp add: check_next_Inr)
qed


text \<open>
  The output limit is not reachable. A coordinator output may have 8,000,000 bytes on its
  own, but the finalized envelope, which holds it in base64, is limited to 10,000,000 bytes: no
  accepted transition has an output of 7,500,000 bytes or more.
\<close>

theorem finalized_output_stays_below_its_limit:
  "case parse_finalized_transition sha request ext raw of
     Inr f \<Rightarrow> length (ft_output f) < 7500000
   | Inl e \<Rightarrow> True"
proof (cases "parse_finalized_transition sha request ext raw")
  case (Inr f)
  then obtain d where "strict_json ''finalized transition'' MAX_FINALIZED_BYTES raw = Inr d"
    "fld d ''coordinator_output_base64'' = JStr (b64encode (ft_output f))" by (rule parse_finalized_parts)
  from strict_json_field_length [OF this] have "length (b64encode (ft_output f)) + 3 \<le> 10000000"
    by (simp add: MAX_FINALIZED_BYTES_def)
  with length_b64encode_ge [of "ft_output f"] Inr show ?thesis by simp
qed simp

end
