(* ===== verification/Phase_Models.thy ===== *)
theory Phase_Models
  imports Outer_State
begin

text \<open>
  The coordinator's side of the protocol, \<open>tools/ai_review/phase_protocol.py\<close>: its strict
  frozen models as records, their digests and their \<open>validate_contract\<close> checks, written from
  that file and not from the launcher's second implementation in \<open>Outer_State\<close>. A pydantic
  model is valid when its field constraints hold (\<open>..._fields_ok\<close>, the \<open>Field(...)\<close>
  declarations) and its \<open>validate_contract\<close> passes. What \<open>model_dump\<close> returns is \<open>..._dump\<close>.
\<close>

section \<open>Errors and the phases\<close>

datatype pp_error =
    PhaseProtocolError string
  | PpValueError string
  | PpOther string

datatype phase_name = Snapshot | RedSnapshot | Offline | ReviewPacket | Broker | Sign | AttestedJudge

datatype external_kind = KNone | KOffline | KBroker

definition PHASES :: "phase_name list" where
  "PHASES = [Snapshot, RedSnapshot, Offline, ReviewPacket, Broker, Sign, AttestedJudge]"

fun phase_string :: "phase_name \<Rightarrow> string" where
  "phase_string Snapshot = ''snapshot''"
| "phase_string RedSnapshot = ''red-snapshot''"
| "phase_string Offline = ''offline''"
| "phase_string ReviewPacket = ''review-packet''"
| "phase_string Broker = ''broker''"
| "phase_string Sign = ''sign''"
| "phase_string AttestedJudge = ''attested-judge''"

fun kind_string :: "external_kind \<Rightarrow> string" where
  "kind_string KNone = ''none''"
| "kind_string KOffline = ''offline''"
| "kind_string KBroker = ''broker''"

definition EXTERNAL_PHASES :: "phase_name list" where
  "EXTERNAL_PHASES = [Offline, Broker]"

fun EXPECTED_EXTERNAL_KIND :: "phase_name \<Rightarrow> external_kind" where
  "EXPECTED_EXTERNAL_KIND Offline = KOffline"
| "EXPECTED_EXTERNAL_KIND Broker = KBroker"
| "EXPECTED_EXTERNAL_KIND _ = KNone"

text \<open>\<open>PHASE_ORDER.index(phase) + 1\<close>\<close>

fun phase_position :: "phase_name \<Rightarrow> int" where
  "phase_position Snapshot = 1"
| "phase_position RedSnapshot = 2"
| "phase_position Offline = 3"
| "phase_position ReviewPacket = 4"
| "phase_position Broker = 5"
| "phase_position Sign = 6"
| "phase_position AttestedJudge = 7"

definition PHASE_REQUEST_DOMAIN :: bytes where
  "PHASE_REQUEST_DOMAIN = ''amazon-explorer-phase-request-v1'' @ nul"

definition PHASE_ACTION_DOMAIN :: bytes where
  "PHASE_ACTION_DOMAIN = ''amazon-explorer-phase-action-v1'' @ nul"

definition PHASE_RESULT_DOMAIN :: bytes where
  "PHASE_RESULT_DOMAIN = ''amazon-explorer-phase-result-v1'' @ nul"

definition PHASE_OUTPUT_DOMAIN :: bytes where
  "PHASE_OUTPUT_DOMAIN = ''amazon-explorer-coordinator-phase-output-v1'' @ nul"

definition MAX_COORDINATOR_BYTES :: nat where
  "MAX_COORDINATOR_BYTES = 2000000"

definition MAX_EVIDENCE_BYTES :: nat where
  "MAX_EVIDENCE_BYTES = 6000000"

section \<open>Canonical bytes and digests\<close>

text \<open>\<open>_jsonable\<close> is the identity on the \<open>json\<close> values of the model: the dumps build them.\<close>

definition canonical_json_bytes :: "json \<Rightarrow> pp_error + bytes" where
  "canonical_json_bytes v =
     (case dumps v of
        None \<Rightarrow> Inl (PpValueError ''Out of range float values are not JSON compliant'')
      | Some s \<Rightarrow>
          (case utf8_encode (s @ [0x0A]) of
             None \<Rightarrow> Inl (PpValueError ''surrogates not allowed'')
           | Some b \<Rightarrow> Inr b))"

definition EMPTY_INITIAL_ARTIFACTS_SHA256 :: "hash_fn \<Rightarrow> pystr" where
  "EMPTY_INITIAL_ARTIFACTS_SHA256 sha = sha (''[]'' @ [CHR 0x0A])"

definition domain_sha256 :: "hash_fn \<Rightarrow> bytes \<Rightarrow> json \<Rightarrow> pp_error + pystr" where
  "domain_sha256 sha tag v = bindE (canonical_json_bytes v) (\<lambda>b. Inr (sha (tag @ b)))"

definition optional_str :: "pystr option \<Rightarrow> json" where
  "optional_str x = (case x of None \<Rightarrow> JNull | Some s \<Rightarrow> JStr s)"

definition optional_sha :: "pystr option \<Rightarrow> bool" where
  "optional_sha x = (case x of None \<Rightarrow> True | Some s \<Rightarrow> is_sha256 s)"

section \<open>Phase requests\<close>

record request_body =
  rq_workflow_id :: pystr
  rq_phase :: phase_name
  rq_sequence :: int
  rq_previous_phase_sha256 :: "pystr option"
  rq_task_sha256 :: pystr
  rq_runtime_manifest_sha256 :: pystr
  rq_coordinator_key_id :: pystr
  rq_coordinator_public_key_sha256 :: pystr
  rq_candidate_sha256 :: pystr
  rq_candidate_snapshot_sha256 :: "pystr option"
  rq_review_packet_sha256 :: "pystr option"
  rq_input_artifacts_sha256 :: pystr

record phase_request = request_body +
  rq_request_sha256 :: pystr

text \<open>\<open>model_dump(exclude={"request_sha256"}, mode="json")\<close>, in declaration order.\<close>

definition request_payload :: "'a request_body_scheme \<Rightarrow> pydict" where
  "request_payload r =
     [(u ''schema_version'', JStr (u ''1.0'')),
      (u ''workflow_id'', JStr (rq_workflow_id r)),
      (u ''phase'', JStr (u (phase_string (rq_phase r)))),
      (u ''sequence'', JInt (rq_sequence r)),
      (u ''previous_phase_sha256'', optional_str (rq_previous_phase_sha256 r)),
      (u ''task_sha256'', JStr (rq_task_sha256 r)),
      (u ''runtime_manifest_sha256'', JStr (rq_runtime_manifest_sha256 r)),
      (u ''coordinator_key_id'', JStr (rq_coordinator_key_id r)),
      (u ''coordinator_public_key_sha256'', JStr (rq_coordinator_public_key_sha256 r)),
      (u ''candidate_sha256'', JStr (rq_candidate_sha256 r)),
      (u ''candidate_snapshot_sha256'', optional_str (rq_candidate_snapshot_sha256 r)),
      (u ''review_packet_sha256'', optional_str (rq_review_packet_sha256 r)),
      (u ''input_artifacts_sha256'', JStr (rq_input_artifacts_sha256 r))]"

definition request_dump :: "phase_request \<Rightarrow> pydict" where
  "request_dump r = request_payload r @ [(u ''request_sha256'', JStr (rq_request_sha256 r))]"

definition request_fields_ok :: "phase_request \<Rightarrow> bool" where
  "request_fields_ok r \<longleftrightarrow>
     is_sha256 (rq_workflow_id r) \<and> 1 \<le> rq_sequence r \<and> rq_sequence r \<le> 7
     \<and> optional_sha (rq_previous_phase_sha256 r) \<and> is_sha256 (rq_task_sha256 r)
     \<and> is_sha256 (rq_runtime_manifest_sha256 r) \<and> is_sha256 (rq_coordinator_key_id r)
     \<and> is_sha256 (rq_coordinator_public_key_sha256 r) \<and> is_sha256 (rq_candidate_sha256 r)
     \<and> optional_sha (rq_candidate_snapshot_sha256 r) \<and> optional_sha (rq_review_packet_sha256 r)
     \<and> is_sha256 (rq_input_artifacts_sha256 r) \<and> is_sha256 (rq_request_sha256 r)"

definition request_contract :: "hash_fn \<Rightarrow> phase_request \<Rightarrow> pp_error + phase_request" where
  "request_contract sha r =
     bindE (guardE (rq_sequence r = phase_position (rq_phase r))
       (PpValueError ''phase sequence does not match the closed production order'')) (\<lambda>_.
     bindE (guardE ((rq_previous_phase_sha256 r = None) = (rq_sequence r = 1))
       (PpValueError ''only the first phase may omit the previous phase digest'')) (\<lambda>_.
     bindE (guardE (\<not> (rq_sequence r = 1 \<and> rq_input_artifacts_sha256 r \<noteq> EMPTY_INITIAL_ARTIFACTS_SHA256 sha))
       (PpValueError ''first phase input artifacts must be the canonical empty artifact set'')) (\<lambda>_.
     bindE (guardE (\<not> (rq_sequence r = 1 \<and> rq_candidate_snapshot_sha256 r \<noteq> None))
       (PpValueError ''snapshot request cannot pre-claim its output snapshot digest'')) (\<lambda>_.
     bindE (guardE (\<not> (rq_sequence r > 1 \<and> rq_candidate_snapshot_sha256 r = None))
       (PpValueError ''post-snapshot phases require the candidate snapshot digest'')) (\<lambda>_.
     bindE (guardE ((rq_review_packet_sha256 r \<noteq> None) = (rq_sequence r \<ge> phase_position Broker))
       (PpValueError ''review packet digest must appear exactly after packet construction'')) (\<lambda>_.
     bindE (domain_sha256 sha PHASE_REQUEST_DOMAIN (JObj (request_payload r))) (\<lambda>measured.
     bindE (guardE (measured = rq_request_sha256 r)
       (PpValueError ''request_sha256 does not match canonical phase request bytes'')) (\<lambda>_.
     Inr r))))))))"

definition request_validate :: "hash_fn \<Rightarrow> phase_request \<Rightarrow> pp_error + phase_request" where
  "request_validate sha r =
     bindE (guardE (request_fields_ok r) (PpValueError ''field constraints'')) (\<lambda>_. request_contract sha r)"

text \<open>\<open>PhaseRequest.create\<close> with every field supplied, as all its callers do.\<close>

definition request_create :: "hash_fn \<Rightarrow> request_body \<Rightarrow> pp_error + phase_request" where
  "request_create sha body =
     bindE (domain_sha256 sha PHASE_REQUEST_DOMAIN (JObj (request_payload body))) (\<lambda>digest.
     request_validate sha
       (request_body.extend body (phase_request.fields digest)))"

section \<open>Phase actions\<close>

record action_body =
  ac_workflow_id :: pystr
  ac_phase :: phase_name
  ac_sequence :: int
  ac_request_sha256 :: pystr
  ac_external_kind :: external_kind
  ac_payload_sha256 :: pystr

record phase_action = action_body +
  ac_action_sha256 :: pystr

definition action_payload :: "'a action_body_scheme \<Rightarrow> pydict" where
  "action_payload a =
     [(u ''schema_version'', JStr (u ''1.0'')),
      (u ''workflow_id'', JStr (ac_workflow_id a)),
      (u ''phase'', JStr (u (phase_string (ac_phase a)))),
      (u ''sequence'', JInt (ac_sequence a)),
      (u ''request_sha256'', JStr (ac_request_sha256 a)),
      (u ''external_kind'', JStr (u (kind_string (ac_external_kind a)))),
      (u ''payload_sha256'', JStr (ac_payload_sha256 a))]"

definition action_dump :: "phase_action \<Rightarrow> pydict" where
  "action_dump a = action_payload a @ [(u ''action_sha256'', JStr (ac_action_sha256 a))]"

definition action_validate :: "hash_fn \<Rightarrow> phase_action \<Rightarrow> pp_error + phase_action" where
  "action_validate sha a =
     bindE (guardE (is_sha256 (ac_workflow_id a) \<and> 1 \<le> ac_sequence a \<and> ac_sequence a \<le> 7
         \<and> is_sha256 (ac_request_sha256 a) \<and> is_sha256 (ac_payload_sha256 a) \<and> is_sha256 (ac_action_sha256 a))
       (PpValueError ''field constraints'')) (\<lambda>_.
     bindE (guardE (ac_external_kind a = EXPECTED_EXTERNAL_KIND (ac_phase a))
       (PpValueError ''phase action uses an unapproved external executor'')) (\<lambda>_.
     bindE (guardE (ac_sequence a = phase_position (ac_phase a))
       (PpValueError ''phase action sequence is invalid'')) (\<lambda>_.
     bindE (domain_sha256 sha PHASE_ACTION_DOMAIN (JObj (action_payload a))) (\<lambda>measured.
     bindE (guardE (ac_action_sha256 a = measured)
       (PpValueError ''action_sha256 does not match canonical phase action bytes'')) (\<lambda>_.
     Inr a)))))"

definition action_create ::
    "hash_fn \<Rightarrow> phase_request \<Rightarrow> external_kind \<Rightarrow> pystr \<Rightarrow> pp_error + phase_action" where
  "action_create sha request kind payload_sha256 =
     (let body = \<lparr>ac_workflow_id = rq_workflow_id request, ac_phase = rq_phase request,
        ac_sequence = rq_sequence request, ac_request_sha256 = rq_request_sha256 request,
        ac_external_kind = kind, ac_payload_sha256 = payload_sha256\<rparr> in
      bindE (domain_sha256 sha PHASE_ACTION_DOMAIN (JObj (action_payload body))) (\<lambda>digest.
      action_validate sha (action_body.extend body (phase_action.fields digest))))"

definition action_validate_for :: "hash_fn \<Rightarrow> phase_action \<Rightarrow> phase_request \<Rightarrow> bytes \<Rightarrow> pp_error + unit" where
  "action_validate_for sha a request payload =
     guardE (ac_workflow_id a = rq_workflow_id request
         \<and> ac_phase a = rq_phase request
         \<and> ac_sequence a = rq_sequence request
         \<and> ac_request_sha256 a = rq_request_sha256 request
         \<and> ac_payload_sha256 a = sha payload)
       (PhaseProtocolError ''coordinator action does not match the claimed phase request'')"

section \<open>Artifacts and their completeness\<close>

record phase_artifact =
  pa_name :: pystr
  pa_sha256 :: pystr

definition artifact_ok :: "phase_artifact \<Rightarrow> bool" where
  "artifact_ok a \<longleftrightarrow> is_artifact_name (pa_name a) \<and> is_sha256 (pa_sha256 a)"

definition artifacts_dump :: "phase_artifact list \<Rightarrow> json" where
  "artifacts_dump arts =
     JArr (map (\<lambda>a. JObj [(u ''name'', JStr (pa_name a)), (u ''sha256'', JStr (pa_sha256 a))]) arts)"

definition artifact_set_sha256 :: "hash_fn \<Rightarrow> phase_artifact list \<Rightarrow> pp_error + pystr" where
  "artifact_set_sha256 sha arts = bindE (canonical_json_bytes (artifacts_dump arts)) (\<lambda>b. Inr (sha b))"

text \<open>\<open>_suffixes\<close> and the expected set of the offline and sign phases.\<close>

definition name_suffixes :: "pystr list \<Rightarrow> string \<Rightarrow> pystr list" where
  "name_suffixes names prefix =
     map (drop (length (prefix @ '':''))) (filter (starts_with (u (prefix @ '':''))) names)"

definition gate_runs_ok :: "string list \<Rightarrow> pystr list \<Rightarrow> bool" where
  "gate_runs_ok fixed names =
     (let gates = name_suffixes names ''gate''; red = name_suffixes names ''tdd-red'';
          green = name_suffixes names ''tdd-green'';
          expected = map u fixed @ map (\<lambda>i. u ''gate:'' @ i) gates
            @ map (\<lambda>i. u ''tdd-red:'' @ i) red @ map (\<lambda>i. u ''tdd-green:'' @ i) green
      in \<not> (gates = [] \<or> red = [] \<or> set red \<noteq> set green \<or> \<not> set red \<subseteq> set gates
            \<or> set names \<noteq> set expected))"

fun artifact_completeness :: "phase_name \<Rightarrow> pystr list \<Rightarrow> pp_error + unit" where
  "artifact_completeness Snapshot names =
     guardE (set names = set (map u [''base-snapshot'', ''candidate-snapshot'', ''policy'']))
       (PpValueError ''snapshot phase requires policy plus base and candidate snapshots'')"
| "artifact_completeness RedSnapshot names =
     guardE (\<not> (names = [] \<or> list_ex (\<lambda>n. \<not> starts_with (u ''red-snapshot:'') n) names))
       (PpValueError ''RED phase must contain every named RED snapshot'')"
| "artifact_completeness Offline names =
     guardE (gate_runs_ok [] names)
       (PpValueError ''offline phase requires all gates and paired RED/GREEN runs'')"
| "artifact_completeness ReviewPacket names =
     guardE (set names = set [u ''review-packet''])
       (PpValueError ''review phase requires exactly one bounded packet'')"
| "artifact_completeness Broker names =
     guardE (set names = set (map u [''adversary'', ''reviewer'']))
       (PpValueError ''broker phase requires reviewer and adversary runs'')"
| "artifact_completeness Sign names =
     guardE (gate_runs_ok [''task'', ''policy'', ''reviewer'', ''adversary''] names)
       (PpValueError ''sign phase requires the complete task, policy, gate, TDD, and review set'')"
| "artifact_completeness AttestedJudge names =
     guardE (set names = set [u ''verdict''])
       (PpValueError ''attested judge phase requires exactly one verdict'')"

section \<open>Phase results\<close>

record result_body =
  rs_request :: phase_request
  rs_output_artifacts_sha256 :: pystr
  rs_artifacts :: "phase_artifact list"
  rs_candidate_snapshot_sha256 :: "pystr option"
  rs_review_packet_sha256 :: "pystr option"
  rs_external_execution_sha256 :: "pystr option"
  rs_coordinator_output_sha256 :: pystr

record phase_result = result_body +
  rs_phase_sha256 :: pystr

definition result_payload :: "'a result_body_scheme \<Rightarrow> pydict" where
  "result_payload r =
     [(u ''schema_version'', JStr (u ''1.0'')),
      (u ''request'', JObj (request_dump (rs_request r))),
      (u ''output_artifacts_sha256'', JStr (rs_output_artifacts_sha256 r)),
      (u ''artifacts'', artifacts_dump (rs_artifacts r)),
      (u ''candidate_snapshot_sha256'', optional_str (rs_candidate_snapshot_sha256 r)),
      (u ''review_packet_sha256'', optional_str (rs_review_packet_sha256 r)),
      (u ''external_execution_sha256'', optional_str (rs_external_execution_sha256 r)),
      (u ''coordinator_output_sha256'', JStr (rs_coordinator_output_sha256 r))]"

definition result_dump :: "phase_result \<Rightarrow> pydict" where
  "result_dump r = result_payload r @ [(u ''phase_sha256'', JStr (rs_phase_sha256 r))]"

definition result_fields_ok :: "phase_result \<Rightarrow> bool" where
  "result_fields_ok r \<longleftrightarrow>
     is_sha256 (rs_output_artifacts_sha256 r) \<and> list_all artifact_ok (rs_artifacts r)
     \<and> 1 \<le> length (rs_artifacts r) \<and> length (rs_artifacts r) \<le> 512
     \<and> optional_sha (rs_candidate_snapshot_sha256 r) \<and> optional_sha (rs_review_packet_sha256 r)
     \<and> optional_sha (rs_external_execution_sha256 r) \<and> is_sha256 (rs_coordinator_output_sha256 r)
     \<and> is_sha256 (rs_phase_sha256 r)"

text \<open>\<open>{a.name: a.sha256 for a in artifacts}\<close>, and its \<open>get\<close>.\<close>

definition by_name :: "phase_artifact list \<Rightarrow> string \<Rightarrow> pystr option" where
  "by_name arts k = map_of (rev (map (\<lambda>a. (pa_name a, pa_sha256 a)) arts)) (u k)"

definition result_anchors :: "phase_result \<Rightarrow> pp_error + unit" where
  "result_anchors r =
     bindE (if rq_phase (rs_request r) = Snapshot then
              bindE (guardE (rs_candidate_snapshot_sha256 r \<noteq> None)
                (PpValueError ''snapshot result requires the measured candidate snapshot digest'')) (\<lambda>_.
              guardE (rs_candidate_snapshot_sha256 r = by_name (rs_artifacts r) ''candidate-snapshot'')
                (PpValueError ''candidate snapshot anchor differs from its semantic artifact''))
            else
              guardE (rs_candidate_snapshot_sha256 r = rq_candidate_snapshot_sha256 (rs_request r))
                (PpValueError ''phase result changed the candidate snapshot digest'')) (\<lambda>_.
     if rq_phase (rs_request r) = ReviewPacket then
       bindE (guardE (rs_review_packet_sha256 r \<noteq> None)
         (PpValueError ''review-packet result requires the measured packet digest'')) (\<lambda>_.
       guardE (rs_review_packet_sha256 r = by_name (rs_artifacts r) ''review-packet'')
         (PpValueError ''review packet anchor differs from its semantic artifact''))
     else
       guardE (rs_review_packet_sha256 r = rq_review_packet_sha256 (rs_request r))
         (PpValueError ''phase result changed the review packet digest''))"

definition result_contract :: "hash_fn \<Rightarrow> phase_result \<Rightarrow> pp_error + phase_result" where
  "result_contract sha r =
     (let phase = rq_phase (rs_request r); names = map pa_name (rs_artifacts r) in
      bindE (guardE (\<not> (names \<noteq> sort names \<or> \<not> distinct names))
        (PpValueError ''phase artifacts must be uniquely sorted by semantic name'')) (\<lambda>_.
      bindE (artifact_completeness phase names) (\<lambda>_.
      bindE (artifact_set_sha256 sha (rs_artifacts r)) (\<lambda>manifest.
      bindE (guardE (rs_output_artifacts_sha256 r = manifest)
        (PpValueError ''output artifact digest does not match the canonical artifact set'')) (\<lambda>_.
      bindE (result_anchors r) (\<lambda>_.
      bindE (guardE ((rs_external_execution_sha256 r \<noteq> None) = (phase \<in> set EXTERNAL_PHASES))
        (PpValueError ''external execution evidence is present for the wrong phase'')) (\<lambda>_.
      bindE (domain_sha256 sha PHASE_RESULT_DOMAIN (JObj (result_payload r))) (\<lambda>measured.
      bindE (guardE (rs_phase_sha256 r = measured)
        (PpValueError ''phase_sha256 does not match canonical result bytes'')) (\<lambda>_.
      Inr r)))))))))"

definition result_validate :: "hash_fn \<Rightarrow> phase_result \<Rightarrow> pp_error + phase_result" where
  "result_validate sha r =
     bindE (guardE (result_fields_ok r) (PpValueError ''field constraints'')) (\<lambda>_. result_contract sha r)"

text \<open>\<open>PhaseResult.create\<close>; the request it is given is an already validated instance.\<close>

definition result_create :: "hash_fn \<Rightarrow> result_body \<Rightarrow> pp_error + phase_result" where
  "result_create sha body =
     bindE (domain_sha256 sha PHASE_RESULT_DOMAIN (JObj (result_payload body))) (\<lambda>digest.
     result_validate sha (result_body.extend body (phase_result.fields digest)))"

section \<open>Coordinator outputs\<close>

record output_artifact =
  oa_name :: pystr
  oa_content_base64 :: pystr

definition output_artifact_ok :: "output_artifact \<Rightarrow> bool" where
  "output_artifact_ok a \<longleftrightarrow> is_artifact_name (oa_name a)
     \<and> 4 \<le> length (oa_content_base64 a) \<and> length (oa_content_base64 a) \<le> 8000000"

definition output_artifact_create :: "pystr \<Rightarrow> bytes \<Rightarrow> pp_error + output_artifact" where
  "output_artifact_create name content =
     bindE (guardE (content \<noteq> [] \<and> length content \<le> MAX_EVIDENCE_BYTES)
       (PhaseProtocolError ''coordinator artifact is empty or exceeds its byte limit'')) (\<lambda>_.
     let a = \<lparr>oa_name = name, oa_content_base64 = b64encode content\<rparr> in
     bindE (guardE (output_artifact_ok a) (PpValueError ''field constraints'')) (\<lambda>_. Inr a))"

definition artifact_content :: "output_artifact \<Rightarrow> pp_error + bytes" where
  "artifact_content a =
     (case b64decode (oa_content_base64 a) of
        None \<Rightarrow> Inl (PpValueError ''coordinator artifact is not canonical base64'')
      | Some raw \<Rightarrow>
          bindE (guardE (raw \<noteq> [] \<and> length raw \<le> MAX_EVIDENCE_BYTES \<and> b64encode raw = oa_content_base64 a)
            (PpValueError ''coordinator artifact content is invalid'')) (\<lambda>_. Inr raw))"

text \<open>
  The semantic digest of a review packet: the \<open>packet_sha256\<close> it names, once its bytes are the
  canonical ones and the digest is that of the other fields. Here \<open>json.loads\<close> has no hooks.
\<close>

definition packet_digest :: "hash_fn \<Rightarrow> bytes \<Rightarrow> pp_error + pystr" where
  "packet_digest sha raw =
     (case utf8_decode raw of
        None \<Rightarrow> Inl (PpValueError ''review packet artifact must be canonical JSON'')
      | Some text \<Rightarrow>
          (case json_loads plain_pairs plain_const text of
             Inl (JHook e) \<Rightarrow> Inl e
           | Inl JIntDigits \<Rightarrow> Inl (PpValueError ''Exceeds the limit for integer string conversion'')
           | Inl _ \<Rightarrow> Inl (PpValueError ''review packet artifact must be canonical JSON'')
           | Inr (JObj packet) \<Rightarrow>
               (case map_of packet (u ''packet_sha256'') of
                  Some (JStr digest) \<Rightarrow>
                    bindE (guardE (is_sha256 digest)
                      (PpValueError ''review packet artifact has no semantic digest'')) (\<lambda>_.
                    (case (dumps (JObj (dict_drop (u ''packet_sha256'') packet)), dumps (JObj packet)) of
                       (Some body, Some full) \<Rightarrow>
                         (case (utf8_encode body, utf8_encode (full @ [0x0A])) of
                            (Some body_raw, Some full_raw) \<Rightarrow>
                              bindE (guardE (raw = full_raw \<and> digest = sha body_raw)
                                (PpValueError ''review packet semantic digest is invalid'')) (\<lambda>_.
                              Inr digest)
                          | _ \<Rightarrow> Inl (PpValueError ''surrogates not allowed''))
                     | _ \<Rightarrow> Inl (PpValueError ''Out of range float values are not JSON compliant'')))
                | _ \<Rightarrow> Inl (PpValueError ''review packet artifact has no semantic digest''))
           | Inr _ \<Rightarrow> Inl (PpValueError ''review packet artifact must be a JSON object'')))"

definition semantic_sha256 :: "hash_fn \<Rightarrow> output_artifact \<Rightarrow> pp_error + pystr" where
  "semantic_sha256 sha a =
     bindE (artifact_content a) (\<lambda>raw.
     if oa_name a = u ''base-snapshot'' \<or> oa_name a = u ''candidate-snapshot''
        \<or> starts_with (u ''red-snapshot:'') (oa_name a) then
       (case ascii_decode raw of
          Some digest \<Rightarrow>
            bindE (guardE (is_sha256 digest)
              (PpValueError ''snapshot artifact must contain its exact digest'')) (\<lambda>_. Inr digest)
        | None \<Rightarrow> Inl (PpValueError ''snapshot artifact must contain its exact digest''))
     else if oa_name a = u ''review-packet'' then packet_digest sha raw
     else Inr (sha raw))"

definition phase_artifacts :: "hash_fn \<Rightarrow> output_artifact list \<Rightarrow> pp_error + phase_artifact list" where
  "phase_artifacts sha arts =
     mapE (\<lambda>a. bindE (semantic_sha256 sha a) (\<lambda>d.
       let p = \<lparr>pa_name = oa_name a, pa_sha256 = d\<rparr> in
       bindE (guardE (artifact_ok p) (PpValueError ''field constraints'')) (\<lambda>_. Inr p))) arts"

record output_body =
  co_workflow_id :: pystr
  co_phase :: phase_name
  co_sequence :: int
  co_request_sha256 :: pystr
  co_artifacts :: "output_artifact list"
  co_candidate_snapshot_sha256 :: "pystr option"
  co_review_packet_sha256 :: "pystr option"
  co_output_artifacts_sha256 :: pystr

record coordinator_output = output_body +
  co_output_sha256 :: pystr

definition output_artifacts_dump :: "output_artifact list \<Rightarrow> json" where
  "output_artifacts_dump arts =
     JArr (map (\<lambda>a. JObj [(u ''name'', JStr (oa_name a)),
       (u ''content_base64'', JStr (oa_content_base64 a))]) arts)"

definition output_payload :: "'a output_body_scheme \<Rightarrow> pydict" where
  "output_payload out =
     [(u ''schema_version'', JStr (u ''1.0'')),
      (u ''workflow_id'', JStr (co_workflow_id out)),
      (u ''phase'', JStr (u (phase_string (co_phase out)))),
      (u ''sequence'', JInt (co_sequence out)),
      (u ''request_sha256'', JStr (co_request_sha256 out)),
      (u ''artifacts'', output_artifacts_dump (co_artifacts out)),
      (u ''candidate_snapshot_sha256'', optional_str (co_candidate_snapshot_sha256 out)),
      (u ''review_packet_sha256'', optional_str (co_review_packet_sha256 out)),
      (u ''output_artifacts_sha256'', JStr (co_output_artifacts_sha256 out))]"

definition output_dump :: "coordinator_output \<Rightarrow> pydict" where
  "output_dump out = output_payload out @ [(u ''output_sha256'', JStr (co_output_sha256 out))]"

definition output_fields_ok :: "coordinator_output \<Rightarrow> bool" where
  "output_fields_ok out \<longleftrightarrow>
     is_sha256 (co_workflow_id out) \<and> 1 \<le> co_sequence out \<and> co_sequence out \<le> 7
     \<and> is_sha256 (co_request_sha256 out) \<and> list_all output_artifact_ok (co_artifacts out)
     \<and> 1 \<le> length (co_artifacts out) \<and> length (co_artifacts out) \<le> 512
     \<and> optional_sha (co_candidate_snapshot_sha256 out) \<and> optional_sha (co_review_packet_sha256 out)
     \<and> is_sha256 (co_output_artifacts_sha256 out) \<and> is_sha256 (co_output_sha256 out)"

definition output_contract :: "hash_fn \<Rightarrow> coordinator_output \<Rightarrow> pp_error + coordinator_output" where
  "output_contract sha out =
     (let names = map oa_name (co_artifacts out) in
      bindE (guardE (co_sequence out = phase_position (co_phase out))
        (PpValueError ''coordinator output sequence is invalid'')) (\<lambda>_.
      bindE (guardE (\<not> (names \<noteq> sort names \<or> \<not> distinct names))
        (PpValueError ''coordinator artifacts must be uniquely sorted'')) (\<lambda>_.
      bindE (phase_artifacts sha (co_artifacts out)) (\<lambda>derived.
      bindE (artifact_completeness (co_phase out) names) (\<lambda>_.
      bindE (artifact_set_sha256 sha derived) (\<lambda>manifest.
      bindE (guardE (co_output_artifacts_sha256 out = manifest)
        (PpValueError ''coordinator output artifact digest is invalid'')) (\<lambda>_.
      bindE (guardE (\<not> (co_phase out = Snapshot
            \<and> co_candidate_snapshot_sha256 out \<noteq> by_name derived ''candidate-snapshot''))
        (PpValueError ''coordinator candidate snapshot anchor is invalid'')) (\<lambda>_.
      bindE (guardE (\<not> (co_phase out = ReviewPacket
            \<and> co_review_packet_sha256 out \<noteq> by_name derived ''review-packet''))
        (PpValueError ''coordinator review packet anchor is invalid'')) (\<lambda>_.
      bindE (domain_sha256 sha PHASE_OUTPUT_DOMAIN (JObj (output_payload out))) (\<lambda>measured.
      bindE (guardE (co_output_sha256 out = measured)
        (PpValueError ''coordinator output canonical digest is invalid'')) (\<lambda>_.
      Inr out)))))))))))"

definition output_validate :: "hash_fn \<Rightarrow> coordinator_output \<Rightarrow> pp_error + coordinator_output" where
  "output_validate sha out =
     bindE (guardE (output_fields_ok out) (PpValueError ''field constraints'')) (\<lambda>_. output_contract sha out)"

definition output_create ::
    "hash_fn \<Rightarrow> phase_request \<Rightarrow> output_artifact list \<Rightarrow> pp_error + coordinator_output" where
  "output_create sha request arts =
     bindE (phase_artifacts sha arts) (\<lambda>derived.
     bindE (artifact_set_sha256 sha derived) (\<lambda>manifest.
     let body = \<lparr>co_workflow_id = rq_workflow_id request, co_phase = rq_phase request,
        co_sequence = rq_sequence request, co_request_sha256 = rq_request_sha256 request,
        co_artifacts = arts,
        co_candidate_snapshot_sha256 =
          (if rq_phase request = Snapshot then by_name derived ''candidate-snapshot''
           else rq_candidate_snapshot_sha256 request),
        co_review_packet_sha256 =
          (if rq_phase request = ReviewPacket then by_name derived ''review-packet''
           else rq_review_packet_sha256 request),
        co_output_artifacts_sha256 = manifest\<rparr> in
     bindE (domain_sha256 sha PHASE_OUTPUT_DOMAIN (JObj (output_payload body))) (\<lambda>digest.
     output_validate sha (output_body.extend body (coordinator_output.fields digest)))))"

definition output_validate_for :: "coordinator_output \<Rightarrow> phase_request \<Rightarrow> pp_error + unit" where
  "output_validate_for out request =
     bindE (guardE (\<not> (co_workflow_id out \<noteq> rq_workflow_id request \<or> co_phase out \<noteq> rq_phase request
           \<or> co_sequence out \<noteq> rq_sequence request \<or> co_request_sha256 out \<noteq> rq_request_sha256 request))
       (PhaseProtocolError ''coordinator output does not match the claimed request'')) (\<lambda>_.
     bindE (guardE (\<not> (co_phase out \<noteq> Snapshot
           \<and> co_candidate_snapshot_sha256 out \<noteq> rq_candidate_snapshot_sha256 request))
       (PhaseProtocolError ''coordinator output changed the snapshot anchor'')) (\<lambda>_.
     guardE (\<not> (co_phase out \<noteq> ReviewPacket
           \<and> co_review_packet_sha256 out \<noteq> rq_review_packet_sha256 request))
       (PhaseProtocolError ''coordinator output changed the packet anchor'')))"

section \<open>The chain of results\<close>

definition candidate_mount_allowed :: "phase_name \<Rightarrow> bool" where
  "candidate_mount_allowed phase \<longleftrightarrow> phase = Snapshot"

definition changed :: "string \<Rightarrow> pp_error" where
  "changed label = PhaseProtocolError (label @ '' changed across phase boundary'')"

definition chain_validate_request :: "phase_result list \<Rightarrow> phase_request \<Rightarrow> pp_error + unit" where
  "chain_validate_request results request =
     (let expected = length results + 1;
          order = PhaseProtocolError ''request is not the next phase in the workflow'' in
      bindE (guardE (rq_sequence request = int expected) order) (\<lambda>_.
      bindE (guardE (expected \<le> length PHASES) (PpOther ''IndexError'')) (\<lambda>_.
      bindE (guardE (rq_phase request = PHASES ! (expected - 1)) order) (\<lambda>_.
      if results = [] then
        guardE (rq_previous_phase_sha256 request = None)
          (PhaseProtocolError ''first phase must not reference prior evidence'')
      else
        (let previous = last results; before = rs_request previous in
         bindE (guardE ((case rq_previous_phase_sha256 request of None \<Rightarrow> [] | Some s \<Rightarrow> s)
             = rs_phase_sha256 previous)
           (PhaseProtocolError ''previous phase SHA-256 does not match the committed result'')) (\<lambda>_.
         bindE (guardE (rq_workflow_id request = rq_workflow_id before) (changed ''workflow id'')) (\<lambda>_.
         bindE (guardE (rq_task_sha256 request = rq_task_sha256 before) (changed ''task SHA-256'')) (\<lambda>_.
         bindE (guardE (rq_runtime_manifest_sha256 request = rq_runtime_manifest_sha256 before)
           (changed ''runtime manifest SHA-256'')) (\<lambda>_.
         bindE (guardE (rq_coordinator_key_id request = rq_coordinator_key_id before)
           (changed ''coordinator key id'')) (\<lambda>_.
         bindE (guardE (rq_coordinator_public_key_sha256 request = rq_coordinator_public_key_sha256 before)
           (changed ''coordinator public key SHA-256'')) (\<lambda>_.
         bindE (guardE (rq_candidate_sha256 request = rq_candidate_sha256 before)
           (changed ''candidate SHA-256'')) (\<lambda>_.
         bindE (guardE (rq_candidate_snapshot_sha256 request = rs_candidate_snapshot_sha256 previous)
           (changed ''candidate snapshot SHA-256'')) (\<lambda>_.
         bindE (guardE (rq_review_packet_sha256 request = rs_review_packet_sha256 previous)
           (changed ''review packet SHA-256'')) (\<lambda>_.
         guardE (rq_input_artifacts_sha256 request = rs_output_artifacts_sha256 previous)
           (PhaseProtocolError
              ''phase input artifacts SHA-256 does not match the prior committed output'')))))))))))))))"

definition chain_accept :: "phase_result list \<Rightarrow> phase_result \<Rightarrow> pp_error + phase_result list" where
  "chain_accept results r =
     bindE (chain_validate_request results (rs_request r)) (\<lambda>_. Inr (results @ [r]))"

text \<open>\<open>PhaseChain(results)\<close> accepts the results one after the other.\<close>

fun chain_from :: "phase_result list \<Rightarrow> phase_result list \<Rightarrow> pp_error + phase_result list" where
  "chain_from acc [] = Inr acc"
| "chain_from acc (r # rs) = bindE (chain_accept acc r) (\<lambda>acc'. chain_from acc' rs)"

definition phase_chain :: "phase_result list \<Rightarrow> pp_error + phase_result list" where
  "phase_chain results = chain_from [] results"

end
