(* ===== verification/Phase_Agreement.thy ===== *)
theory Phase_Agreement
  imports Phase_Models Outer_Roundtrip
begin

text \<open>
  The two implementations of the protocol agree: what the coordinator's strict models validate
  and dump is accepted by the launcher's stdlib validator. \<open>as_dict d\<close> is the dictionary the
  launcher reads back from the canonical bytes of \<open>d\<close>.
\<close>

section \<open>Sorted dictionaries\<close>

definition as_dict :: "pydict \<Rightarrow> pydict" where
  "as_dict d = sort_key fst (map (\<lambda>(k, v). (k, jsort v)) d)"

lemma jsort_as_dict: "jsort (JObj d) = JObj (as_dict d)"
  by (simp add: as_dict_def)

lemma sort_key_mset:
  assumes "mset d = mset e" and "distinct (map fst d)"
  shows "sort_key fst d = sort_key fst e"
proof (rule properties_for_sort_key [symmetric])
  show "mset (sort_key fst d) = mset e" using assms(1) by simp
  show "sorted (map fst (sort_key fst d))" by (rule sorted_sort_key)
  fix k assume "k \<in> set (sort_key fst d)"
  have at_most: "filter (\<lambda>x. fst x = fst k) l = [k]" if "distinct (map fst l)" "k \<in> set l" for l :: "('a \<times> 'b) list"
    using that by (induction l) (auto simp: filter_empty_conv image_iff)
  have "distinct (map fst (sort_key fst d))"
    using assms(2) by (metis mset_eq_imp_distinct_iff mset_map mset_sort)
  moreover have "distinct (map fst e)"
    using assms by (metis mset_eq_imp_distinct_iff mset_map)
  moreover have "k \<in> set e" using assms(1) \<open>k \<in> set (sort_key fst d)\<close> by (metis mset_eq_setD set_sort)
  ultimately show "filter (\<lambda>x. fst k = fst x) (sort_key fst d) = filter (\<lambda>x. fst k = fst x) e"
    using at_most \<open>k \<in> set (sort_key fst d)\<close> by (simp add: eq_commute [of "fst k"])
qed

lemma jsort_idem: "jsort (jsort v) = jsort v"
proof (induction v)
  case (JArr xs)
  then show ?case by simp
next
  case (JObj kvs)
  let ?m = "map (\<lambda>(k, v). (k, jsort v)) kvs"
  have "map (\<lambda>(k, v). (k, jsort v)) (sort_key fst ?m) = sort_key fst ?m"
    by (rule map_idI) (use JObj in fastforce)
  then show ?case by (simp add: sort_key_id_if_sorted)
qed simp_all

lemma fld_as_dict: "distinct (map fst d) \<Longrightarrow> fld (as_dict d) k = jsort (fld d k)"
  using sorted_fields(2) [of d "as_dict d" k] jsort_as_dict by blast

lemma keys_as_dict: "set (map fst (as_dict d)) = set (map fst d)"
  unfolding as_dict_def by force

lemma distinct_as_dict: "distinct (map fst d) \<Longrightarrow> distinct (map fst (as_dict d))"
proof -
  have "mset (map fst (as_dict d)) = mset (map fst (map (\<lambda>(k, v). (k, jsort v)) d))"
    unfolding as_dict_def by (simp only: mset_map mset_sort)
  moreover have "map fst (map (\<lambda>(k, v). (k, jsort v)) d) = map fst d" by (simp add: comp_def split_def)
  ultimately show "distinct (map fst d) \<Longrightarrow> distinct (map fst (as_dict d))"
    by (metis mset_eq_imp_distinct_iff)
qed

text \<open>Dropping the digest field of the dictionary read back gives the payload that was digested.\<close>

lemma jsort_drop_as_dict:
  assumes "distinct (map fst d)"
  shows "jsort (JObj (dict_drop k (as_dict d))) = jsort (JObj (dict_drop k d))"
proof -
  let ?f = "\<lambda>(k :: pystr, v). (k, jsort v)"
  have "mset (map ?f (dict_drop k (as_dict d))) = mset (map ?f (dict_drop k (map ?f d)))"
    by (simp add: dict_drop_def as_dict_def)
  also have "map ?f (dict_drop k (map ?f d)) = map ?f (dict_drop k d)"
    by (induction d) (auto simp: dict_drop_def jsort_idem)
  finally have m: "mset (map ?f (dict_drop k (as_dict d))) = mset (map ?f (dict_drop k d))" .
  have "map fst (map ?f e) = map fst e" for e by (simp add: comp_def split_def)
  then have "distinct (map fst (map ?f (dict_drop k (as_dict d))))"
    using distinct_dict_drop [OF distinct_as_dict [OF assms]] by metis
  with m show ?thesis by (simp add: sort_key_mset)
qed

lemma canonical_jsort:
  assumes "jsort v = jsort w" and "jclean v" and "jclean w"
  shows "canonical v = canonical w"
  using assms jclean_jfinite by (simp add: canonical_def dumps_def)

lemma canonical_json_bytes_Inr: "canonical_json_bytes v = Inr b \<longleftrightarrow> canonical v = Inr b"
  by (auto simp: canonical_json_bytes_def canonical_def split: option.splits)

lemma domain_sha256_Inr: "domain_sha256 sha tag v = Inr h \<longleftrightarrow> domain sha tag v = Inr h"
  by (auto simp: domain_sha256_def domain_def result_simps canonical_json_bytes_Inr)

lemma dict_drop_last:
  assumes "distinct (map fst (p @ [(k, v)]))"
  shows "dict_drop k (p @ [(k, v)]) = p"
proof -
  have "filter (\<lambda>x. fst x \<noteq> k) p = p" using assms by (intro filter_True) auto
  then show ?thesis by (simp add: dict_drop_def)
qed

lemma jclean_drop: "jclean (JObj d) \<Longrightarrow> jclean (JObj (dict_drop k d))"
  using distinct_dict_drop [of d k] by (auto simp: list_all_iff dict_drop_def)

lemma jclean_as_dict: "jclean (JObj d) \<Longrightarrow> jclean (JObj (as_dict d))"
  using jsort_clean [of "JObj d"] jsort_as_dict by metis

lemma domain_agrees:
  assumes c: "jclean (JObj (p @ [(u k, v)]))"
  shows "domain sha tag (unsigned_body k (as_dict (p @ [(u k, v)]))) = domain sha tag (JObj p)"
proof -
  let ?d = "p @ [(u k, v)]"
  have d: "distinct (map fst ?d)" using c by (simp only: jclean.simps)
  have "jclean (JObj (dict_drop (u k) (as_dict ?d)))" by (rule jclean_drop [OF jclean_as_dict [OF c]])
  moreover have "jclean (JObj p)" using c by simp
  moreover have "jsort (JObj (dict_drop (u k) (as_dict ?d))) = jsort (JObj p)"
    using jsort_drop_as_dict [OF d] dict_drop_last [OF d] by simp
  ultimately have "canonical (unsigned_body k (as_dict ?d)) = canonical (JObj p)"
    unfolding unsigned_body_def by (intro canonical_jsort)
  then show ?thesis by (simp add: domain_def)
qed

lemma strict_json_dump:
  assumes "jclean (JObj d)" and "canonical (JObj d) = Inr raw" and "length raw \<le> m"
  shows "strict_json label m raw = Inr (as_dict d)"
  by (rule strict_json_jsort [OF jclean_plain [OF assms(1)] assms(2,3) jsort_as_dict])

section \<open>Requests\<close>

lemma clean_phase_string: "clean (u (phase_string p)) \<and> length (phase_string p) \<le> 14"
  by (cases p) (simp_all add: clean_def u_def)

lemma phase_position_bounds: "1 \<le> phase_position p \<and> phase_position p \<le> 7"
  by (cases p) simp_all

lemma PHASE_ORDER_position: "PHASE_ORDER ! nat (phase_position p - 1) = u (phase_string p)"
  by (cases p) (simp_all add: PHASE_ORDER_def)

lemma optional_str_jsort [simp]: "jsort (optional_str x) = optional_str x"
  by (simp add: optional_str_def split: option.splits)

lemma optional_str_JNull [simp]: "optional_str x = JNull \<longleftrightarrow> x = None"
  by (simp add: optional_str_def split: option.splits)

lemma optional_str_sha:
  "optional_sha x \<Longrightarrow> x = None \<or> (\<exists>s. optional_str x = JStr s \<and> is_sha256 s)"
  by (auto simp: optional_str_def optional_sha_def split: option.splits)

lemma optional_clean: "optional_sha x \<Longrightarrow> jclean (optional_str x) \<and> jlen (optional_str x) \<le> 66"
  using is_sha256_clean by (auto simp: optional_str_def optional_sha_def split: option.splits)

definition valid_phase_request :: "hash_fn \<Rightarrow> phase_request \<Rightarrow> bool" where
  "valid_phase_request sha r \<longleftrightarrow> request_validate sha r = Inr r"

lemma valid_phase_request_iff:
  "valid_phase_request sha r \<longleftrightarrow>
     request_fields_ok r \<and> rq_sequence r = phase_position (rq_phase r)
     \<and> (rq_previous_phase_sha256 r = None \<longleftrightarrow> rq_sequence r = 1)
     \<and> (rq_sequence r = 1 \<longrightarrow> rq_input_artifacts_sha256 r = EMPTY_INITIAL_ARTIFACTS_SHA256 sha)
     \<and> (rq_candidate_snapshot_sha256 r = None \<longleftrightarrow> rq_sequence r = 1)
     \<and> (rq_review_packet_sha256 r \<noteq> None \<longleftrightarrow> 5 \<le> rq_sequence r)
     \<and> domain sha PHASE_REQUEST_DOMAIN (JObj (request_payload r)) = Inr (rq_request_sha256 r)"
proof -
  have "1 \<le> rq_sequence r" if "rq_sequence r = phase_position (rq_phase r)"
    using that phase_position_bounds by metis
  then show ?thesis
    unfolding valid_phase_request_def request_validate_def request_contract_def
    by (auto simp: result_simps domain_sha256_Inr)
qed

lemma clean_names:
  "clean (u ''schema_version'')" "clean (u ''workflow_id'')" "clean (u ''phase'')" "clean (u ''sequence'')"
  "clean (u ''previous_phase_sha256'')" "clean (u ''task_sha256'')" "clean (u ''runtime_manifest_sha256'')"
  "clean (u ''coordinator_key_id'')" "clean (u ''coordinator_public_key_sha256'')"
  "clean (u ''candidate_sha256'')" "clean (u ''candidate_snapshot_sha256'')"
  "clean (u ''review_packet_sha256'')" "clean (u ''input_artifacts_sha256'')" "clean (u ''request_sha256'')"
  "clean (u ''external_kind'')" "clean (u ''payload_sha256'')" "clean (u ''action_sha256'')"
  "clean (u ''request'')" "clean (u ''output_artifacts_sha256'')" "clean (u ''artifacts'')"
  "clean (u ''external_execution_sha256'')" "clean (u ''coordinator_output_sha256'')"
  "clean (u ''phase_sha256'')" "clean (u ''output_sha256'')" "clean (u ''name'')" "clean (u ''sha256'')"
  "clean (u ''content_base64'')" "clean (u ''1.0'')"
  by (simp_all add: clean_def u_def)

lemma request_dump_clean:
  assumes "request_fields_ok r"
  shows "jclean (JObj (request_dump r))" and "jlen (JObj (request_dump r)) \<le> 1500"
  using assms clean_phase_string [of "rq_phase r"] optional_clean [of "rq_previous_phase_sha256 r"]
    optional_clean [of "rq_candidate_snapshot_sha256 r"] optional_clean [of "rq_review_packet_sha256 r"]
  by (auto simp: request_dump_def request_payload_def request_fields_ok_def clean_names
      dest!: is_sha256_clean)

lemma distinct_request_dump: "distinct (map fst (request_dump r))"
  by (simp add: request_dump_def request_payload_def)

lemma request_fields:
  "fld (as_dict (request_dump r)) ''schema_version'' = JStr (u ''1.0'')"
  "fld (as_dict (request_dump r)) ''workflow_id'' = JStr (rq_workflow_id r)"
  "fld (as_dict (request_dump r)) ''phase'' = JStr (u (phase_string (rq_phase r)))"
  "fld (as_dict (request_dump r)) ''sequence'' = JInt (rq_sequence r)"
  "fld (as_dict (request_dump r)) ''previous_phase_sha256'' = optional_str (rq_previous_phase_sha256 r)"
  "fld (as_dict (request_dump r)) ''task_sha256'' = JStr (rq_task_sha256 r)"
  "fld (as_dict (request_dump r)) ''runtime_manifest_sha256'' = JStr (rq_runtime_manifest_sha256 r)"
  "fld (as_dict (request_dump r)) ''coordinator_key_id'' = JStr (rq_coordinator_key_id r)"
  "fld (as_dict (request_dump r)) ''coordinator_public_key_sha256'' = JStr (rq_coordinator_public_key_sha256 r)"
  "fld (as_dict (request_dump r)) ''candidate_sha256'' = JStr (rq_candidate_sha256 r)"
  "fld (as_dict (request_dump r)) ''candidate_snapshot_sha256'' = optional_str (rq_candidate_snapshot_sha256 r)"
  "fld (as_dict (request_dump r)) ''review_packet_sha256'' = optional_str (rq_review_packet_sha256 r)"
  "fld (as_dict (request_dump r)) ''input_artifacts_sha256'' = JStr (rq_input_artifacts_sha256 r)"
  "fld (as_dict (request_dump r)) ''request_sha256'' = JStr (rq_request_sha256 r)"
  unfolding fld_as_dict [OF distinct_request_dump]
  by (simp_all add: fld_def request_dump_def request_payload_def)

lemma seq_of_request [simp]: "seq_of (as_dict (request_dump r)) = rq_sequence r"
  by (simp add: seq_of_def request_fields)

lemma phase_of_request [simp]: "phase_of (as_dict (request_dump r)) = u (phase_string (rq_phase r))"
  by (simp add: phase_of_def request_fields)

lemma request_dump_valid:
  assumes "valid_phase_request sha r"
  shows "valid_request sha (as_dict (request_dump r))"
proof -
  have v: "request_fields_ok r" "rq_sequence r = phase_position (rq_phase r)"
    "rq_previous_phase_sha256 r = None \<longleftrightarrow> rq_sequence r = 1"
    "rq_candidate_snapshot_sha256 r = None \<longleftrightarrow> rq_sequence r = 1"
    "rq_review_packet_sha256 r \<noteq> None \<longleftrightarrow> 5 \<le> rq_sequence r"
    "domain sha PHASE_REQUEST_DOMAIN (JObj (request_payload r)) = Inr (rq_request_sha256 r)"
    using assms by (simp_all add: valid_phase_request_iff)
  have dom: "PHASE_REQUEST_DOMAIN = REQUEST_DOMAIN"
    by (simp add: PHASE_REQUEST_DOMAIN_def REQUEST_DOMAIN_def)
  have d: "domain sha REQUEST_DOMAIN (unsigned_body ''request_sha256'' (as_dict (request_dump r)))
      = Inr (rq_request_sha256 r)"
    using domain_agrees request_dump_clean(1) [OF v(1)] v(6) unfolding request_dump_def dom by metis
  have keys: "set (map fst (as_dict (request_dump r))) = set (map u REQUEST_FIELDS)"
    unfolding keys_as_dict by (auto simp: request_dump_def request_payload_def REQUEST_FIELDS_def)
  have ph: "PHASE_ORDER ! nat (rq_sequence r - 1) = u (phase_string (rq_phase r))"
    unfolding v(2) by (rule PHASE_ORDER_position)
  have f: "1 \<le> rq_sequence r" "rq_sequence r \<le> 7"
    using v(1) by (simp_all add: request_fields_ok_def)
  have req: "\<forall>k \<in> set REQUIRED_SHAS. \<exists>s. fld (as_dict (request_dump r)) k = JStr s \<and> is_sha256 s"
    using v(1) by (simp add: REQUIRED_SHAS_def request_fields request_fields_ok_def)
  have opt: "\<forall>k \<in> set OPTIONAL_SHAS. fld (as_dict (request_dump r)) k = JNull
      \<or> (\<exists>s. fld (as_dict (request_dump r)) k = JStr s \<and> is_sha256 s)"
    using v(1) by (simp add: OPTIONAL_SHAS_def request_fields request_fields_ok_def optional_str_sha)
  show ?thesis
    unfolding valid_request_def seq_of_request using keys f ph req opt v(3-5) d
    by (simp only: request_fields optional_str_JNull) simp
qed

lemma request_accepted:
  assumes "valid_phase_request sha r" and "canonical (JObj (request_dump r)) = Inr raw"
  shows "validate_phase_request_bytes sha raw = Inr (as_dict (request_dump r))"
proof -
  have f: "request_fields_ok r" using assms(1) by (simp add: valid_phase_request_iff)
  obtain raw' where "canonical (JObj (request_dump r)) = Inr raw'"
    "length raw' = jlen (JObj (request_dump r)) + 1"
    using request_dump_clean(1) [OF f] by (rule canonical_clean)
  then have "length raw \<le> 128000" using assms(2) request_dump_clean(2) [OF f] by simp
  from strict_json_dump [OF request_dump_clean(1) [OF f] assms(2) this] request_dump_valid [OF assms(1)]
  show ?thesis by (simp add: validate_request_iff)
qed

section \<open>Actions\<close>

definition valid_phase_action :: "hash_fn \<Rightarrow> phase_action \<Rightarrow> bool" where
  "valid_phase_action sha a \<longleftrightarrow> action_validate sha a = Inr a"

lemma kind_string_external: "u (kind_string (EXPECTED_EXTERNAL_KIND p)) = ows_external (u (phase_string p))"
  by (cases p) (simp_all add: ows_external_def)

lemma distinct_action_dump: "distinct (map fst (action_dump a))"
  by (simp add: action_dump_def action_payload_def)

lemma action_fields:
  "fld (as_dict (action_dump a)) ''schema_version'' = JStr (u ''1.0'')"
  "fld (as_dict (action_dump a)) ''workflow_id'' = JStr (ac_workflow_id a)"
  "fld (as_dict (action_dump a)) ''phase'' = JStr (u (phase_string (ac_phase a)))"
  "fld (as_dict (action_dump a)) ''sequence'' = JInt (ac_sequence a)"
  "fld (as_dict (action_dump a)) ''request_sha256'' = JStr (ac_request_sha256 a)"
  "fld (as_dict (action_dump a)) ''external_kind'' = JStr (u (kind_string (ac_external_kind a)))"
  "fld (as_dict (action_dump a)) ''payload_sha256'' = JStr (ac_payload_sha256 a)"
  "fld (as_dict (action_dump a)) ''action_sha256'' = JStr (ac_action_sha256 a)"
  unfolding fld_as_dict [OF distinct_action_dump]
  by (simp_all add: fld_def action_dump_def action_payload_def)

lemma clean_kind_string: "clean (u (kind_string k)) \<and> length (kind_string k) \<le> 14"
  by (cases k) (simp_all add: clean_def u_def)

lemma action_dump_valid:
  assumes "valid_phase_action sha a" and "action_validate_for sha a request payload = Inr ()"
  shows "valid_action sha (as_dict (request_dump request)) payload (as_dict (action_dump a))"
    and "jclean (JObj (action_dump a))"
proof -
  have v: "is_sha256 (ac_workflow_id a)" "1 \<le> ac_sequence a" "ac_sequence a \<le> 7"
    "is_sha256 (ac_request_sha256 a)" "is_sha256 (ac_payload_sha256 a)" "is_sha256 (ac_action_sha256 a)"
    "ac_external_kind a = EXPECTED_EXTERNAL_KIND (ac_phase a)"
    "domain sha PHASE_ACTION_DOMAIN (JObj (action_payload a)) = Inr (ac_action_sha256 a)"
    using assms(1) by (auto simp: valid_phase_action_def action_validate_def result_simps domain_sha256_Inr)
  have w: "ac_workflow_id a = rq_workflow_id request" "ac_phase a = rq_phase request"
    "ac_sequence a = rq_sequence request" "ac_request_sha256 a = rq_request_sha256 request"
    "ac_payload_sha256 a = sha payload"
    using assms(2) by (simp_all add: action_validate_for_def result_simps)
  show c: "jclean (JObj (action_dump a))"
    using v(1-6) is_sha256_clean clean_phase_string [of "ac_phase a"] clean_kind_string [of "ac_external_kind a"]
    by (simp add: action_dump_def action_payload_def clean_names)
  have dom: "PHASE_ACTION_DOMAIN = ACTION_DOMAIN"
    by (simp add: PHASE_ACTION_DOMAIN_def ACTION_DOMAIN_def)
  have d: "domain sha ACTION_DOMAIN (unsigned_body ''action_sha256'' (as_dict (action_dump a)))
      = Inr (ac_action_sha256 a)"
    using domain_agrees c v(8) unfolding action_dump_def dom by metis
  have keys: "set (map fst (as_dict (action_dump a))) = set (map u ACTION_FIELDS)"
    unfolding keys_as_dict by (auto simp: action_dump_def action_payload_def ACTION_FIELDS_def)
  show "valid_action sha (as_dict (request_dump request)) payload (as_dict (action_dump a))"
    unfolding valid_action_def using keys v w d kind_string_external [of "rq_phase request"]
    by (simp only: action_fields request_fields phase_of_request) simp
qed

section \<open>Outputs\<close>

lemma starts_with_iff: "starts_with p s \<longleftrightarrow> (\<exists>t. s = p @ t)"
  by (metis append_eq_conv_conj append_take_drop_id starts_with_def)

lemma suffixes_eq: "name_suffixes names p = suffixes p names"
  by (simp add: name_suffixes_def suffixes_def)

lemma gate_runs_eq: "gate_runs_ok fixed names \<longleftrightarrow> paired_runs (map u fixed) names"
  by (auto simp: gate_runs_ok_def paired_runs_def suffixes_eq Let_def tagged_def)

lemma completeness_agrees:
  "artifact_completeness p names = Inr () \<longleftrightarrow> complete (u (phase_string p)) names"
  by (cases p) (auto simp: complete_def result_simps gate_runs_eq list_ex_iff list_all_iff)

definition semantic_of :: "phase_artifact list \<Rightarrow> semantic" where
  "semantic_of arts = map (\<lambda>a. (pa_name a, pa_sha256 a)) arts"

lemma semantic_json_of: "semantic_json (semantic_of arts) = artifacts_dump arts"
  by (simp add: semantic_json_def semantic_of_def artifacts_dump_def)

lemma fst_semantic_of [simp]: "map fst (semantic_of arts) = map pa_name arts"
  by (simp add: semantic_of_def)

lemma by_name_semantic:
  "distinct (map pa_name arts) \<Longrightarrow> by_name arts k = map_of (semantic_of arts) (u k)"
proof -
  assume d: "distinct (map pa_name arts)"
  then have "map_of (rev (semantic_of arts)) = map_of (semantic_of arts)"
    by (intro map_of_inject_set [THEN iffD2]) (simp_all add: rev_map [symmetric] del: distinct_map)
  then show ?thesis by (simp add: by_name_def semantic_of_def)
qed

text \<open>A review packet as the coordinator builds it: canonical JSON of an object without floats.\<close>

definition plain_packet :: "output_artifact \<Rightarrow> bool" where
  "plain_packet a \<longleftrightarrow>
     (oa_name a = u ''review-packet'' \<longrightarrow>
        (\<exists>p raw. plain (JObj p) \<and> canonical (JObj p) = Inr raw \<and> oa_content_base64 a = b64encode raw))"

lemma packet_agrees:
  assumes p: "plain (JObj p)" "canonical (JObj p) = Inr raw" and m: "length raw \<le> 6000000"
    and d: "packet_digest sha raw = Inr digest"
  shows "packet_semantic sha raw = Inr digest"
proof -
  obtain s where s: "dumps (JObj p) = Some s" "utf8_encode (s @ [0x0A]) = Some raw"
    using p(2) by (auto simp: canonical_Inr)
  have strict: "strict_json ''review packet'' 6000000 raw = Inr (as_dict p)"
    by (rule strict_json_jsort [OF p m jsort_as_dict])
  have dec: "utf8_decode raw = Some (s @ [0x0A])" using s(2) by (rule utf8_decode_encode)
  have loads: "(json_loads plain_pairs plain_const (s @ [0x0A]) :: pp_error json_error + json)
      = Inr (JObj (as_dict p))"
    using plain_hook.json_loads_dumps [OF p(1) s(1), of "[0x0A]"] by (simp add: json_ws_def as_dict_def)
  from d dec loads obtain body body_raw
    where b: "map_of (as_dict p) (u ''packet_sha256'') = Some (JStr digest)" "is_sha256 digest"
      "dumps (JObj (dict_drop (u ''packet_sha256'') (as_dict p))) = Some body"
      "utf8_encode body = Some body_raw" "digest = sha body_raw"
    by (auto simp: packet_digest_def result_simps split: option.splits json.splits)
  then show ?thesis
    using strict by (simp add: packet_semantic_def fld_def sha_field_def unsigned_body_def)
qed

lemma artifact_agrees:
  assumes s: "semantic_sha256 sha a = Inr digest" and ok: "output_artifact_ok a" and pl: "plain_packet a"
  obtains raw where "decode_base64 label 6000000 (JStr (oa_content_base64 a)) = Inr raw"
    and "artifact_semantic sha (oa_name a) raw = Inr digest"
proof -
  from s obtain raw where raw: "artifact_content a = Inr raw" by (auto simp: semantic_sha256_def result_simps)
  then have c: "raw \<noteq> []" "length raw \<le> 6000000" "b64encode raw = oa_content_base64 a"
    by (auto simp: artifact_content_def result_simps MAX_EVIDENCE_BYTES_def split: option.splits)
  have len: "length (b64encode raw) \<le> 6000000 * 2"
    using ok c(3) by (simp add: output_artifact_ok_def)
  have dec: "decode_base64 label 6000000 (JStr (oa_content_base64 a)) = Inr raw"
    unfolding c(3) [symmetric] decode_base64_Inr using c(1,2) len by simp
  have "artifact_semantic sha (oa_name a) raw = Inr digest"
  proof (cases "oa_name a = u ''review-packet''")
    case True
    then obtain p raw' where p: "plain (JObj p)" "canonical (JObj p) = Inr raw'"
      "oa_content_base64 a = b64encode raw'" using pl by (auto simp: plain_packet_def)
    then have "raw' = raw" using c(3) by (simp add: b64encode_inject)
    moreover have "packet_digest sha raw = Inr digest"
      using s raw True by (simp add: semantic_sha256_def starts_with_def u_def)
    ultimately show ?thesis
      using packet_agrees [OF p(1)] p(2) c(2) True by (simp add: artifact_semantic_def starts_with_def u_def)
  next
    case False
    with s raw show ?thesis
      by (auto simp: semantic_sha256_def artifact_semantic_def result_simps sha_field_Inr
          split: if_splits option.splits)
  qed
  with dec that show thesis by blast
qed

text \<open>The launcher's reading of the artifacts of a dumped output.\<close>

lemma artifacts_agree:
  assumes "phase_artifacts sha arts = Inr derived"
    and "list_all output_artifact_ok arts" and "list_all plain_packet arts"
  shows "mapE (read_artifact sha) (map jsort
      (map (\<lambda>a. JObj [(u ''name'', JStr (oa_name a)), (u ''content_base64'', JStr (oa_content_base64 a))]) arts))
      = Inr (semantic_of derived)"
    and "map pa_name derived = map oa_name arts" and "list_all artifact_ok derived"
  using assms
proof (induction arts arbitrary: derived)
  case Nil
  { case 1 with Nil show ?case by (simp add: phase_artifacts_def semantic_of_def) }
  { case 2 with Nil show ?case by (simp add: phase_artifacts_def) }
  { case 3 with Nil show ?case by (simp add: phase_artifacts_def) }
next
  case (Cons a arts)
  have step: "\<exists>d rest. semantic_sha256 sha a = Inr d \<and> artifact_ok \<lparr>pa_name = oa_name a, pa_sha256 = d\<rparr>
      \<and> phase_artifacts sha arts = Inr rest \<and> derived = \<lparr>pa_name = oa_name a, pa_sha256 = d\<rparr> # rest"
    if "phase_artifacts sha (a # arts) = Inr derived" for derived
    using that by (auto simp: phase_artifacts_def Let_def result_simps)
  { case 1
    then obtain d rest where d: "semantic_sha256 sha a = Inr d" "artifact_ok \<lparr>pa_name = oa_name a, pa_sha256 = d\<rparr>"
      "phase_artifacts sha arts = Inr rest" "derived = \<lparr>pa_name = oa_name a, pa_sha256 = d\<rparr> # rest"
      using step by blast
    obtain raw where raw: "decode_base64 ''coordinator artifact'' 6000000 (JStr (oa_content_base64 a)) = Inr raw"
      "artifact_semantic sha (oa_name a) raw = Inr d"
      using artifact_agrees [OF d(1)] 1 by auto
    let ?j = "[(u ''name'', JStr (oa_name a)), (u ''content_base64'', JStr (oa_content_base64 a))]"
    have j: "jsort (JObj ?j) = JObj (as_dict ?j)" by (rule jsort_as_dict)
    have keys: "set (map fst (as_dict ?j)) = set (map u [''content_base64'', ''name''])"
      unfolding keys_as_dict by auto
    have f: "fld (as_dict ?j) ''name'' = JStr (oa_name a)"
      "fld (as_dict ?j) ''content_base64'' = JStr (oa_content_base64 a)"
      by (simp_all add: fld_as_dict) (simp_all add: fld_def)
    have ex: "exact ''coordinator output artifact'' [''content_base64'', ''name''] (JObj (as_dict ?j))
        = Inr (as_dict ?j)"
      using keys by (simp only: exact_Inr)
    have "read_artifact sha (jsort (JObj ?j)) = Inr (oa_name a, d)"
      unfolding read_artifact_def j ex bindE_simps f using raw d(2) by (simp add: artifact_ok_def)
    with Cons.IH(1) [OF d(3)] 1 d(4) show ?case by (simp add: semantic_of_def del: jsort.simps) }
  { case 2 then show ?case using step [of derived] Cons.IH(2) by auto }
  { case 3 then show ?case using step [of derived] Cons.IH(3) by auto }
qed

definition valid_coordinator_output :: "hash_fn \<Rightarrow> coordinator_output \<Rightarrow> bool" where
  "valid_coordinator_output sha out \<longleftrightarrow> output_validate sha out = Inr out"

lemma distinct_output_dump: "distinct (map fst (output_dump out))"
  by (simp add: output_dump_def output_payload_def)

lemma output_fields:
  "fld (as_dict (output_dump out)) ''schema_version'' = JStr (u ''1.0'')"
  "fld (as_dict (output_dump out)) ''workflow_id'' = JStr (co_workflow_id out)"
  "fld (as_dict (output_dump out)) ''phase'' = JStr (u (phase_string (co_phase out)))"
  "fld (as_dict (output_dump out)) ''sequence'' = JInt (co_sequence out)"
  "fld (as_dict (output_dump out)) ''request_sha256'' = JStr (co_request_sha256 out)"
  "fld (as_dict (output_dump out)) ''artifacts'' = jsort (output_artifacts_dump (co_artifacts out))"
  "fld (as_dict (output_dump out)) ''candidate_snapshot_sha256'' = optional_str (co_candidate_snapshot_sha256 out)"
  "fld (as_dict (output_dump out)) ''review_packet_sha256'' = optional_str (co_review_packet_sha256 out)"
  "fld (as_dict (output_dump out)) ''output_artifacts_sha256'' = JStr (co_output_artifacts_sha256 out)"
  "fld (as_dict (output_dump out)) ''output_sha256'' = JStr (co_output_sha256 out)"
  unfolding fld_as_dict [OF distinct_output_dump]
  by (simp_all add: fld_def output_dump_def output_payload_def)

lemma clean_artifact_name: "is_artifact_name s \<Longrightarrow> clean s"
proof -
  assume n: "is_artifact_name s"
  let ?inner = "\<lambda>x. lower x \<or> is_digit x \<or> x = 0x2D"
  have "clean (takeWhile ?inner s)"
    by (auto simp: clean_def list_all_iff lower_def is_digit_def dest!: set_takeWhileD)
  moreover have "clean (dropWhile ?inner s)"
  proof (cases "dropWhile ?inner s")
    case (Cons c t)
    have "c = 0x3A \<and> is_upper_id t"
      using n Cons unfolding is_artifact_name_def by (simp only: Let_def list.case)
    moreover from this have "clean t"
      by (cases t) (auto simp: is_upper_id_def clean_def list_all_iff upper_def is_digit_def)
    ultimately show ?thesis using Cons by (simp add: clean_def)
  qed (simp only: clean_Nil)
  ultimately show "clean s" using takeWhile_dropWhile_id [of ?inner s] clean_append by metis
qed

lemma valid_output_iff:
  "valid_coordinator_output sha out \<longleftrightarrow>
     output_fields_ok out \<and> co_sequence out = phase_position (co_phase out)
     \<and> sort (map oa_name (co_artifacts out)) = map oa_name (co_artifacts out)
     \<and> distinct (map oa_name (co_artifacts out))
     \<and> (\<exists>derived. phase_artifacts sha (co_artifacts out) = Inr derived
          \<and> artifact_completeness (co_phase out) (map oa_name (co_artifacts out)) = Inr ()
          \<and> artifact_set_sha256 sha derived = Inr (co_output_artifacts_sha256 out)
          \<and> (co_phase out = Snapshot \<longrightarrow>
               co_candidate_snapshot_sha256 out = by_name derived ''candidate-snapshot'')
          \<and> (co_phase out = ReviewPacket \<longrightarrow>
               co_review_packet_sha256 out = by_name derived ''review-packet''))
     \<and> domain sha PHASE_OUTPUT_DOMAIN (JObj (output_payload out)) = Inr (co_output_sha256 out)"
  unfolding valid_coordinator_output_def output_validate_def output_contract_def
  by (auto simp: result_simps Let_def domain_sha256_Inr)

lemma artifact_content_base64:
  "semantic_sha256 sha a = Inr d \<Longrightarrow> \<exists>raw. oa_content_base64 a = b64encode raw"
proof -
  assume "semantic_sha256 sha a = Inr d"
  then obtain raw where "artifact_content a = Inr raw" by (auto simp: semantic_sha256_def result_simps)
  then have "oa_content_base64 a = b64encode raw"
    by (auto simp: artifact_content_def result_simps split: option.splits)
  then show ?thesis ..
qed

lemma phase_artifacts_content:
  "phase_artifacts sha arts = Inr derived \<Longrightarrow> a \<in> set arts \<Longrightarrow> \<exists>raw. oa_content_base64 a = b64encode raw"
  by (induction arts arbitrary: derived)
    (auto simp: phase_artifacts_def result_simps dest: artifact_content_base64)

lemma output_dump_clean:
  assumes "output_fields_ok out" and "phase_artifacts sha (co_artifacts out) = Inr derived"
  shows "jclean (JObj (output_dump out))"
proof -
  have "clean (oa_name a) \<and> clean (oa_content_base64 a)" if "a \<in> set (co_artifacts out)" for a
    using assms that phase_artifacts_content [OF assms(2) that] clean_b64encode clean_artifact_name
    by (auto simp: output_fields_ok_def output_artifact_ok_def list_all_iff)
  then have "jclean (output_artifacts_dump (co_artifacts out))"
    by (simp add: output_artifacts_dump_def list_all_iff clean_names)
  then show ?thesis
    using assms(1) clean_phase_string [of "co_phase out"] optional_clean is_sha256_clean
    by (simp add: output_dump_def output_payload_def output_fields_ok_def clean_names)
qed

text \<open>The conditions the coordinator's checks give of an output for its request.\<close>

lemma output_for_request:
  "output_validate_for out request = Inr () \<longleftrightarrow>
     co_workflow_id out = rq_workflow_id request \<and> co_phase out = rq_phase request
     \<and> co_sequence out = rq_sequence request \<and> co_request_sha256 out = rq_request_sha256 request
     \<and> (co_phase out \<noteq> Snapshot \<longrightarrow>
          co_candidate_snapshot_sha256 out = rq_candidate_snapshot_sha256 request)
     \<and> (co_phase out \<noteq> ReviewPacket \<longrightarrow>
          co_review_packet_sha256 out = rq_review_packet_sha256 request)"
  by (auto simp: output_validate_for_def result_simps)

lemma anchor_present:
  assumes "artifact_completeness p (map pa_name derived) = Inr ()" and "distinct (map pa_name derived)"
  shows "p = Snapshot \<Longrightarrow> \<exists>s. by_name derived ''candidate-snapshot'' = Some s"
    and "p = ReviewPacket \<Longrightarrow> \<exists>s. by_name derived ''review-packet'' = Some s"
proof -
  have mem: "\<exists>s. by_name derived k = Some s" if k: "u k \<in> set (map pa_name derived)" for k
  proof -
    have "u k \<in> fst ` set (semantic_of derived)" using k by (force simp: semantic_of_def)
    then show ?thesis
      by (simp add: by_name_semantic [OF assms(2)] map_of_eq_None_iff flip: not_None_eq)
  qed
  show "p = Snapshot \<Longrightarrow> \<exists>s. by_name derived ''candidate-snapshot'' = Some s"
    by (rule mem) (use assms(1) in \<open>auto simp: result_simps\<close>)
  show "p = ReviewPacket \<Longrightarrow> \<exists>s. by_name derived ''review-packet'' = Some s"
    by (rule mem) (use assms(1) in \<open>auto simp: result_simps\<close>)
qed

lemma output_accepted:
  assumes v: "valid_coordinator_output sha out" and f: "output_validate_for out request = Inr ()"
    and pl: "list_all plain_packet (co_artifacts out)"
    and d: "phase_artifacts sha (co_artifacts out) = Inr derived"
    and raw: "canonical (JObj (output_dump out)) = Inr raw" and m: "length raw \<le> 8000000"
  shows "validate_coordinator_output sha (as_dict (request_dump request)) raw
    = Inr (as_dict (output_dump out), semantic_of derived)"
proof -
  let ?o = "as_dict (output_dump out)" and ?r = "as_dict (request_dump request)"
  have ok: "output_fields_ok out" "sorted (map oa_name (co_artifacts out))"
      "distinct (map oa_name (co_artifacts out))"
      "artifact_completeness (co_phase out) (map oa_name (co_artifacts out)) = Inr ()"
      "artifact_set_sha256 sha derived = Inr (co_output_artifacts_sha256 out)"
      "co_phase out = Snapshot \<Longrightarrow> co_candidate_snapshot_sha256 out = by_name derived ''candidate-snapshot''"
      "co_phase out = ReviewPacket \<Longrightarrow> co_review_packet_sha256 out = by_name derived ''review-packet''"
      "domain sha PHASE_OUTPUT_DOMAIN (JObj (output_payload out)) = Inr (co_output_sha256 out)"
    using v d sorted_sort [of "map oa_name (co_artifacts out)"] by (auto simp: valid_output_iff)
  note rel = f [unfolded output_for_request]
  have clean: "jclean (JObj (output_dump out))" using ok(1) d by (rule output_dump_clean)
  have read: "strict_json ''coordinator output'' 8000000 raw = Inr ?o"
    by (rule strict_json_dump [OF clean raw m])
  have ex: "exact ''coordinator output'' OUTPUT_FIELDS (JObj ?o) = Inr ?o"
    unfolding exact_Inr keys_as_dict by (auto simp: output_dump_def output_payload_def OUTPUT_FIELDS_def)
  have fo: "list_all output_artifact_ok (co_artifacts out)" "1 \<le> length (co_artifacts out)"
      "length (co_artifacts out) \<le> 512" "1 \<le> co_sequence out" "co_sequence out \<le> 7"
      "is_sha256 (co_output_sha256 out)"
    using ok(1) by (simp_all add: output_fields_ok_def)
  note arts = artifacts_agree [OF d fo(1) pl]
  have names: "map pa_name derived = map oa_name (co_artifacts out)" by (rule arts(2))
  have al: "jsort (output_artifacts_dump (co_artifacts out)) = JArr (map jsort (map (\<lambda>a.
      JObj [(u ''name'', JStr (oa_name a)), (u ''content_base64'', JStr (oa_content_base64 a))])
      (co_artifacts out)))"
    by (simp add: output_artifacts_dump_def)
  obtain man where man: "canonical (semantic_json (semantic_of derived)) = Inr man"
      "co_output_artifacts_sha256 out = sha man"
    using ok(5) by (auto simp: artifact_set_sha256_def result_simps semantic_json_of canonical_json_bytes_Inr)
  have dom: "domain sha OUTPUT_DOMAIN (unsigned_body ''output_sha256'' ?o) = Inr (co_output_sha256 out)"
    using domain_agrees clean ok(8) unfolding output_dump_def
    by (metis OUTPUT_DOMAIN_def PHASE_OUTPUT_DOMAIN_def)
  have dist: "distinct (map pa_name derived)" using names ok(3) by simp
  note present = anchor_present [OF ok(4) [folded names] dist]
  have cand: "(if u (phase_string (rq_phase request)) = u ''snapshot'' then next_named ''candidate-snapshot'' (semantic_of derived)
      else Inr (optional_str (rq_candidate_snapshot_sha256 request))) = Inr (optional_str (co_candidate_snapshot_sha256 out))"
    using rel ok(6) present(1) dist
    by (cases "co_phase out") (auto simp: next_named_def by_name_semantic optional_str_def)
  have pack: "(if u (phase_string (rq_phase request)) = u ''review-packet'' then next_named ''review-packet'' (semantic_of derived)
      else Inr (optional_str (rq_review_packet_sha256 request))) = Inr (optional_str (co_review_packet_sha256 out))"
    using rel ok(7) present(2) dist
    by (cases "co_phase out") (auto simp: next_named_def by_name_semantic optional_str_def)
  have comp: "validate_completeness (u (phase_string (rq_phase request))) (map pa_name derived) = Inr ()"
    using ok(4) rel names by (simp add: completeness_agrees validate_completeness_def)
  have int: "integer ''coordinator output sequence'' 1 7 (JInt (co_sequence out)) = Inr (co_sequence out)"
    using fo(4,5) by (simp add: integer_def)
  have sh: "sha_field ''coordinator output SHA-256'' (JStr (co_output_sha256 out)) = Inr (co_output_sha256 out)"
    using fo(6) by (simp add: sha_field_def)
  have srt: "sorted (map pa_name derived)" using names ok(2) by simp
  show ?thesis
    unfolding validate_coordinator_output_def read ex bindE_simps output_fields request_fields al
      phase_of_request arts(1) cand pack Let_def
    using fo rel srt dist comp man dom int sh cand pack arts(1)
    by (simp add: fst_semantic_of del: mapE.simps)
qed

end
