(* ===== verification/Coordinator_Envelopes.thy ===== *)
theory Coordinator_Envelopes
  imports Phase_Agreement
begin

text \<open>
  \<open>tools/ai_review/coordinator_phase_protocol.py\<close>: the coordinator's construction of the two
  envelopes, and the theorems that the launcher accepts them.
\<close>

section \<open>The two constructions\<close>

definition from_ows :: "ows_error + 'a \<Rightarrow> pp_error + 'a" where
  "from_ows = mapError (\<lambda>e. PpOther ''OuterWorkflowStateError'')"

definition prepare_transition_bytes ::
    "hash_fn \<Rightarrow> phase_request \<Rightarrow> phase_action \<Rightarrow> bytes \<Rightarrow> pp_error + bytes" where
  "prepare_transition_bytes sha request action payload =
     bindE (action_validate_for sha action request payload) (\<lambda>_.
     from_ows (encode_prepared_transition sha (action_dump action) payload))"

definition next_request_body :: "phase_request \<Rightarrow> coordinator_output \<Rightarrow> phase_result \<Rightarrow> request_body" where
  "next_request_body request out result =
     \<lparr>rq_workflow_id = rq_workflow_id request,
      rq_phase = PHASES ! nat (rq_sequence request),
      rq_sequence = rq_sequence request + 1,
      rq_previous_phase_sha256 = Some (rs_phase_sha256 result),
      rq_task_sha256 = rq_task_sha256 request,
      rq_runtime_manifest_sha256 = rq_runtime_manifest_sha256 request,
      rq_coordinator_key_id = rq_coordinator_key_id request,
      rq_coordinator_public_key_sha256 = rq_coordinator_public_key_sha256 request,
      rq_candidate_sha256 = rq_candidate_sha256 request,
      rq_candidate_snapshot_sha256 = co_candidate_snapshot_sha256 out,
      rq_review_packet_sha256 = co_review_packet_sha256 out,
      rq_input_artifacts_sha256 = rs_output_artifacts_sha256 result\<rparr>"

definition result_body_for ::
    "hash_fn \<Rightarrow> phase_request \<Rightarrow> coordinator_output \<Rightarrow> phase_artifact list \<Rightarrow> bytes option \<Rightarrow> bytes \<Rightarrow> result_body" where
  "result_body_for sha request out artifacts evidence output_raw =
     \<lparr>rs_request = request,
      rs_output_artifacts_sha256 = co_output_artifacts_sha256 out,
      rs_artifacts = artifacts,
      rs_candidate_snapshot_sha256 = co_candidate_snapshot_sha256 out,
      rs_review_packet_sha256 = co_review_packet_sha256 out,
      rs_external_execution_sha256 = map_option sha evidence,
      rs_coordinator_output_sha256 = sha output_raw\<rparr>"

text \<open>
  \<open>finalize_transition_bytes\<close>, with the result and the next request it built beside the
  envelope.
\<close>

definition finalize_transition ::
    "hash_fn \<Rightarrow> phase_request \<Rightarrow> phase_action \<Rightarrow> bytes \<Rightarrow> bytes \<Rightarrow> coordinator_output
      \<Rightarrow> pp_error + (phase_result \<times> phase_request option \<times> bytes)" where
  "finalize_transition sha request action payload evidence out =
     bindE (action_validate_for sha action request payload) (\<lambda>_.
     bindE (output_validate_for out request) (\<lambda>_.
     let expected_external = (rq_phase request \<in> set EXTERNAL_PHASES) in
     bindE (guardE (evidence \<noteq> []) (PhaseProtocolError ''coordinator finalize evidence is empty'')) (\<lambda>_.
     bindE (guardE (\<not> (\<not> expected_external \<and> evidence \<noteq> payload))
       (PhaseProtocolError ''coordinator-only phase evidence differs from its prepared payload'')) (\<lambda>_.
     bindE (canonical_json_bytes (JObj (output_dump out))) (\<lambda>output_raw.
     bindE (phase_artifacts sha (co_artifacts out)) (\<lambda>artifacts.
     bindE (result_create sha (result_body_for sha request out artifacts
              (if expected_external then Some evidence else None) output_raw)) (\<lambda>result.
     bindE (if rq_sequence request < int (length PHASES) then
              bindE (request_create sha (next_request_body request out result)) (\<lambda>r. Inr (Some r))
            else Inr None) (\<lambda>next_request.
     bindE (case next_request of
              None \<Rightarrow> Inr None
            | Some r \<Rightarrow> bindE (canonical_json_bytes (JObj (request_dump r))) (\<lambda>b. Inr (Some b))) (\<lambda>next_raw.
     bindE (from_ows (encode_finalized_transition sha (result_dump result) output_raw next_raw)) (\<lambda>raw.
     Inr (result, next_request, raw)))))))))))"

definition finalize_transition_bytes ::
    "hash_fn \<Rightarrow> phase_request \<Rightarrow> phase_action \<Rightarrow> bytes \<Rightarrow> bytes \<Rightarrow> coordinator_output \<Rightarrow> pp_error + bytes" where
  "finalize_transition_bytes sha request action payload evidence out =
     bindE (finalize_transition sha request action payload evidence out) (\<lambda>(_, _, raw). Inr raw)"

section \<open>Encoding depends on the dictionary only up to the order of its keys\<close>

lemma encode_prepared_as_dict:
  assumes c: "jclean (JObj d)" and h: "\<And>b. is_sha256 (sha b)"
  shows "encode_prepared_transition sha d payload = encode_prepared_transition sha (as_dict d) payload"
proof -
  let ?b = "JStr (b64encode payload)"
  have j: "jsort (JObj (as_dict d)) = jsort (JObj d)" by (metis jsort_as_dict jsort_idem)
  have clean: "clean (u ''action'')" "clean (u ''payload_base64'')" "clean (u ''prepared_sha256'')"
    by (simp_all add: clean_def u_def)
  have body: "canonical (prepared_body (JObj d) ?b) = canonical (prepared_body (JObj (as_dict d)) ?b)"
    by (rule canonical_jsort)
      (use j c jclean_as_dict [OF c] in \<open>simp_all add: prepared_body_def clean clean_names clean_b64encode del: jsort.simps(2) add: jsort.simps(2) [of "_ # _"]\<close>)
  have env: "canonical (JObj [(u ''action'', JObj d), (u ''payload_base64'', ?b),
        (u ''schema_version'', JStr (u ''1.0'')), (u ''prepared_sha256'', JStr digest)])
      = canonical (JObj [(u ''action'', JObj (as_dict d)), (u ''payload_base64'', ?b),
        (u ''schema_version'', JStr (u ''1.0'')), (u ''prepared_sha256'', JStr digest)])"
    if "is_sha256 digest" for digest
    by (rule canonical_jsort)
      (use j c jclean_as_dict [OF c] is_sha256_clean [OF that] in
        \<open>simp_all add: clean clean_names clean_b64encode del: jsort.simps(2) add: jsort.simps(2) [of "_ # _"]\<close>)
  show ?thesis
  proof (cases "canonical (prepared_body (JObj (as_dict d)) ?b)")
    case (Inl e)
    with body show ?thesis by (simp add: encode_prepared_transition_def domain_def)
  next
    case (Inr bd)
    with body env [OF h] show ?thesis by (simp add: encode_prepared_transition_def domain_def)
  qed
qed

lemma encode_finalized_as_dict:
  assumes c: "jclean (JObj d)" and h: "\<And>b. is_sha256 (sha b)"
  shows "encode_finalized_transition sha d out nxt = encode_finalized_transition sha (as_dict d) out nxt"
proof -
  let ?o = "JStr (b64encode out)" and ?n = "case nxt of None \<Rightarrow> JNull | Some r \<Rightarrow> JStr (b64encode r)"
  have j: "jsort (JObj (as_dict d)) = jsort (JObj d)" by (metis jsort_as_dict jsort_idem)
  have n: "jclean ?n" by (simp add: clean_b64encode split: option.splits)
  have clean: "clean (u ''coordinator_output_base64'')" "clean (u ''next_request_base64'')"
    "clean (u ''phase_result'')" "clean (u ''finalized_sha256'')"
    by (simp_all add: clean_def u_def)
  have body: "canonical (finalized_body ?o ?n (JObj d)) = canonical (finalized_body ?o ?n (JObj (as_dict d)))"
    by (rule canonical_jsort)
      (use j c n jclean_as_dict [OF c] in \<open>simp_all add: finalized_body_def clean clean_names clean_b64encode
        del: jsort.simps(2) add: jsort.simps(2) [of "_ # _"]\<close>)
  have env: "canonical (JObj [(u ''coordinator_output_base64'', ?o), (u ''next_request_base64'', ?n),
        (u ''phase_result'', JObj d), (u ''schema_version'', JStr (u ''1.0'')),
        (u ''finalized_sha256'', JStr digest)])
      = canonical (JObj [(u ''coordinator_output_base64'', ?o), (u ''next_request_base64'', ?n),
        (u ''phase_result'', JObj (as_dict d)), (u ''schema_version'', JStr (u ''1.0'')),
        (u ''finalized_sha256'', JStr digest)])"
    if "is_sha256 digest" for digest
    by (rule canonical_jsort)
      (use j c n jclean_as_dict [OF c] is_sha256_clean [OF that] in
        \<open>simp_all add: clean clean_names clean_b64encode del: jsort.simps(2) add: jsort.simps(2) [of "_ # _"]\<close>)
  show ?thesis
  proof (cases "canonical (finalized_body ?o ?n (JObj (as_dict d)))")
    case (Inl e)
    with body show ?thesis by (simp add: encode_finalized_transition_def domain_def Let_def)
  next
    case (Inr bd)
    with body env [OF h] show ?thesis by (simp add: encode_finalized_transition_def domain_def Let_def)
  qed
qed

lemma canon_as_dict: "jclean (JObj d) \<Longrightarrow> canon (JObj (as_dict d))"
  using plain_canon_jsort [OF jclean_plain, of "JObj d"] jsort_as_dict by metis

section \<open>Python equality of a value with itself\<close>

lemma py_eq_members_refl:
  "\<forall>(k, v) \<in> set kvs. map_of kws k = Some v \<and> py_eq v v \<Longrightarrow> py_eq_members kvs kws"
  by (induction kvs) auto

lemma py_eq_list_refl: "(\<And>x. x \<in> set xs \<Longrightarrow> py_eq x x) \<Longrightarrow> py_eq_list xs xs"
  by (induction xs) auto

lemma py_eq_refl: "jclean v \<Longrightarrow> py_eq v v"
proof (induction v)
  case (JArr xs)
  then show ?case by (auto simp: list_all_iff intro: py_eq_list_refl)
next
  case (JObj kvs)
  then have "py_eq_members kvs kvs" by (intro py_eq_members_refl) (fastforce simp: list_all_iff)
  then show ?case by simp
qed simp_all

section \<open>Results and next requests\<close>

lemma distinct_result_dump: "distinct (map fst (result_dump r))"
  by (simp add: result_dump_def result_payload_def)

lemma artifacts_dump_jsort: "jsort (artifacts_dump arts) = artifacts_dump arts"
proof -
  have "jsort (JObj [(u ''name'', JStr a), (u ''sha256'', JStr b)])
      = JObj [(u ''name'', JStr a), (u ''sha256'', JStr b)]" for a b
    by (simp add: u_less_eq)
  then show ?thesis by (simp add: artifacts_dump_def del: jsort.simps(2))
qed

lemma result_fields:
  "fld (as_dict (result_dump r)) ''schema_version'' = JStr (u ''1.0'')"
  "fld (as_dict (result_dump r)) ''request'' = JObj (as_dict (request_dump (rs_request r)))"
  "fld (as_dict (result_dump r)) ''output_artifacts_sha256'' = JStr (rs_output_artifacts_sha256 r)"
  "fld (as_dict (result_dump r)) ''artifacts'' = artifacts_dump (rs_artifacts r)"
  "fld (as_dict (result_dump r)) ''candidate_snapshot_sha256'' = optional_str (rs_candidate_snapshot_sha256 r)"
  "fld (as_dict (result_dump r)) ''review_packet_sha256'' = optional_str (rs_review_packet_sha256 r)"
  "fld (as_dict (result_dump r)) ''external_execution_sha256'' = optional_str (rs_external_execution_sha256 r)"
  "fld (as_dict (result_dump r)) ''coordinator_output_sha256'' = JStr (rs_coordinator_output_sha256 r)"
  "fld (as_dict (result_dump r)) ''phase_sha256'' = JStr (rs_phase_sha256 r)"
  unfolding fld_as_dict [OF distinct_result_dump]
  by (simp_all add: fld_def result_dump_def result_payload_def artifacts_dump_jsort jsort_as_dict
      del: jsort.simps(2))

lemma artifacts_dump_clean: "list_all artifact_ok arts \<Longrightarrow> jclean (artifacts_dump arts)"
  using clean_artifact_name is_sha256_clean
  by (auto simp: artifacts_dump_def list_all_iff artifact_ok_def clean_names)

lemma result_create_Inr:
  assumes "result_create sha body = Inr r"
  shows "result_fields_ok r" and "domain sha PHASE_RESULT_DOMAIN (JObj (result_payload r)) = Inr (rs_phase_sha256 r)"
    and "result_body.truncate r = body"
proof -
  from assms obtain digest where d: "domain sha PHASE_RESULT_DOMAIN (JObj (result_payload body)) = Inr digest"
    and r: "result_validate sha (result_body.extend body (phase_result.fields digest)) = Inr r"
    by (auto simp: result_create_def result_simps domain_sha256_Inr)
  from r have eq: "r = result_body.extend body (phase_result.fields digest)"
    and ok: "result_fields_ok r"
    by (auto simp: result_validate_def result_contract_def result_simps Let_def)
  show "result_fields_ok r" by (rule ok)
  show "domain sha PHASE_RESULT_DOMAIN (JObj (result_payload r)) = Inr (rs_phase_sha256 r)"
    using d by (simp add: eq result_body.defs phase_result.defs result_payload_def)
  show "result_body.truncate r = body" by (simp add: eq result_body.defs phase_result.defs)
qed

lemma result_dump_clean:
  assumes "result_fields_ok r" and "request_fields_ok (rs_request r)"
  shows "jclean (JObj (result_dump r))"
  using assms request_dump_clean(1) [OF assms(2)] artifacts_dump_clean [of "rs_artifacts r"]
    optional_clean is_sha256_clean
  by (simp add: result_dump_def result_payload_def result_fields_ok_def clean_names)

lemma external_digest_option:
  "external_digest sha evidence = optional_str (map_option sha evidence)"
  by (simp add: external_digest_def optional_str_def split: option.splits)

lemma result_accepted:
  assumes c: "result_create sha (result_body_for sha request out artifacts evidence output_raw) = Inr r"
    and q: "request_fields_ok request"
  shows "validate_phase_result sha (as_dict (request_dump request)) (as_dict (output_dump out))
      (semantic_of artifacts) output_raw evidence (JObj (as_dict (result_dump r)))
      = Inr (as_dict (result_dump r))"
    and "jclean (JObj (result_dump r))"
proof -
  note v = result_create_Inr [OF c]
  have b: "rs_request r = request" "rs_output_artifacts_sha256 r = co_output_artifacts_sha256 out"
    "rs_artifacts r = artifacts" "rs_candidate_snapshot_sha256 r = co_candidate_snapshot_sha256 out"
    "rs_review_packet_sha256 r = co_review_packet_sha256 out"
    "rs_external_execution_sha256 r = map_option sha evidence"
    "rs_coordinator_output_sha256 r = sha output_raw"
    using v(3) by (auto simp: result_body_for_def result_body.defs)
  show cl: "jclean (JObj (result_dump r))" using v(1) q unfolding b(1) [symmetric] by (rule result_dump_clean)
  have dom: "domain sha RESULT_DOMAIN (unsigned_body ''phase_sha256'' (as_dict (result_dump r)))
      = Inr (rs_phase_sha256 r)"
    using domain_agrees cl v(2) unfolding result_dump_def by (metis RESULT_DOMAIN_def PHASE_RESULT_DOMAIN_def)
  have keys: "set (map fst (as_dict (result_dump r))) = set (map u RESULT_FIELDS)"
    unfolding keys_as_dict by (auto simp: result_dump_def result_payload_def RESULT_FIELDS_def)
  have art: "list_all artifact_ok artifacts" using v(1) b(3) by (simp add: result_fields_ok_def)
  have "py_eq (JObj (as_dict (request_dump request))) (JObj (as_dict (request_dump request)))"
    "py_eq (artifacts_dump artifacts) (artifacts_dump artifacts)"
    using py_eq_refl jclean_as_dict request_dump_clean(1) [OF q] artifacts_dump_clean [OF art] by blast+
  with keys dom v(1) show "validate_phase_result sha (as_dict (request_dump request)) (as_dict (output_dump out))
      (semantic_of artifacts) output_raw evidence (JObj (as_dict (result_dump r)))
      = Inr (as_dict (result_dump r))"
    unfolding validate_result_iff result_fields output_fields b semantic_json_of external_digest_option
    by (auto simp: result_fields_ok_def b)
qed

lemma request_create_Inr:
  assumes "request_create sha body = Inr r"
  shows "valid_phase_request sha r" and "request_body.truncate r = body"
proof -
  from assms obtain digest
    where r: "request_validate sha (request_body.extend body (phase_request.fields digest)) = Inr r"
    by (auto simp: request_create_def result_simps domain_sha256_Inr)
  from r have eq: "r = request_body.extend body (phase_request.fields digest)"
    by (auto simp: request_validate_def request_contract_def result_simps)
  with r show "valid_phase_request sha r" by (simp add: valid_phase_request_def)
  show "request_body.truncate r = body" by (simp add: eq request_body.defs phase_request.defs)
qed

lemma PHASES_string: "1 \<le> i \<Longrightarrow> i \<le> 6 \<Longrightarrow> u (phase_string (PHASES ! nat i)) = PHASE_ORDER ! nat i" for i :: int
proof -
  assume "1 \<le> i" "i \<le> 6"
  then consider "i = 1" | "i = 2" | "i = 3" | "i = 4" | "i = 5" | "i = 6" by linarith
  then show ?thesis by cases (simp_all add: PHASES_def PHASE_ORDER_def)
qed

lemma next_accepted:
  assumes q: "request_fields_ok request" and s: "rq_sequence request < 7"
    and c: "request_create sha (next_request_body request out r) = Inr next_request"
    and b: "canonical (JObj (request_dump next_request)) = Inr raw"
  shows "check_next_request sha (as_dict (request_dump request)) (as_dict (output_dump out))
      (as_dict (result_dump r)) (Some raw) = Inr ()"
proof -
  note v = request_create_Inr [OF c]
  have n: "rq_workflow_id next_request = rq_workflow_id request"
    "rq_phase next_request = PHASES ! nat (rq_sequence request)"
    "rq_sequence next_request = rq_sequence request + 1"
    "rq_previous_phase_sha256 next_request = Some (rs_phase_sha256 r)"
    "rq_task_sha256 next_request = rq_task_sha256 request"
    "rq_runtime_manifest_sha256 next_request = rq_runtime_manifest_sha256 request"
    "rq_coordinator_key_id next_request = rq_coordinator_key_id request"
    "rq_coordinator_public_key_sha256 next_request = rq_coordinator_public_key_sha256 request"
    "rq_candidate_sha256 next_request = rq_candidate_sha256 request"
    "rq_candidate_snapshot_sha256 next_request = co_candidate_snapshot_sha256 out"
    "rq_review_packet_sha256 next_request = co_review_packet_sha256 out"
    "rq_input_artifacts_sha256 next_request = rs_output_artifacts_sha256 r"
    using v(2) by (auto simp: next_request_body_def request_body.defs)
  have acc: "validate_phase_request_bytes sha raw = Inr (as_dict (request_dump next_request))"
    by (rule request_accepted [OF v(1) b])
  have one: "1 \<le> rq_sequence request" using q by (simp add: request_fields_ok_def)
  then have ph: "u (phase_string (PHASES ! nat (rq_sequence request))) = PHASE_ORDER ! nat (rq_sequence request)"
    using s by (intro PHASES_string) simp_all
  have ch: "chained (as_dict (request_dump request)) (as_dict (output_dump out))
      (as_dict (result_dump r)) (as_dict (request_dump next_request))"
    by (simp add: chained_def CARRIED_def request_fields output_fields result_fields n optional_str_def)
  show ?thesis
    unfolding check_next_Inr seq_of_request using s acc ph ch n(2,3) by (simp add: request_fields)
qed

section \<open>The launcher accepts what the coordinator builds\<close>

text \<open>
  Prepare. For a valid request and a valid action on it, with a payload of 1 to 2,000,000
  bytes, the coordinator's prepare envelope exists and the launcher's independent validator
  reads from it exactly that action and payload.
\<close>

theorem launcher_accepts_prepared_envelope:
  assumes "\<And>b. is_sha256 (sha b)" and "valid_phase_request sha request" and "valid_phase_action sha action"
    and "action_validate_for sha action request payload = Inr ()"
    and "payload \<noteq> []" and "length payload \<le> 2000000"
  shows "\<exists>raw digest. prepare_transition_bytes sha request action payload = Inr raw
     \<and> parse_prepared_transition sha (as_dict (request_dump request)) raw
        = Inr \<lparr>pt_action = as_dict (action_dump action), pt_payload = payload, pt_sha256 = digest\<rparr>"
proof -
  let ?r = "as_dict (request_dump request)" and ?a = "as_dict (action_dump action)"
  note v = action_dump_valid [OF assms(3,4)]
  have r: "valid_request sha ?r" by (rule request_dump_valid [OF assms(2)])
  have d: "distinct (map fst ?a)" by (rule distinct_as_dict [OF distinct_action_dump])
  obtain raw where raw: "encode_prepared_transition sha ?a payload = Inr raw" "length raw \<le> MAX_PREPARED_BYTES"
    using action_size [OF r v(1) d assms(1)] assms(6,1) by (rule encode_prepared_size)
  have "prepare_transition_bytes sha request action payload = Inr raw"
    using raw(1) encode_prepared_as_dict [OF v(2) assms(1)] assms(4)
    by (simp add: prepare_transition_bytes_def from_ows_def)
  moreover from parse_encoded_prepared [OF canon_as_dict [OF v(2)] v(1) assms(5,6) raw assms(1)]
  obtain digest where "parse_prepared_transition sha ?r raw
      = Inr \<lparr>pt_action = ?a, pt_payload = payload, pt_sha256 = digest\<rparr>" .
  ultimately show ?thesis by blast
qed


section \<open>A concrete snapshot phase\<close>

definition demo_phase_request :: phase_request where
  "demo_phase_request =
     \<lparr>rq_workflow_id = zeros, rq_phase = Snapshot, rq_sequence = 1, rq_previous_phase_sha256 = None,
      rq_task_sha256 = zeros, rq_runtime_manifest_sha256 = zeros, rq_coordinator_key_id = zeros,
      rq_coordinator_public_key_sha256 = zeros, rq_candidate_sha256 = zeros,
      rq_candidate_snapshot_sha256 = None, rq_review_packet_sha256 = None,
      rq_input_artifacts_sha256 = zeros, rq_request_sha256 = zeros\<rparr>"

definition demo_phase_action :: phase_action where
  "demo_phase_action =
     \<lparr>ac_workflow_id = zeros, ac_phase = Snapshot, ac_sequence = 1, ac_request_sha256 = zeros,
      ac_external_kind = KNone, ac_payload_sha256 = zeros, ac_action_sha256 = zeros\<rparr>"

definition demo_artifacts :: "output_artifact list" where
  "demo_artifacts =
     [\<lparr>oa_name = u ''base-snapshot'', oa_content_base64 = b64encode (map char_of zeros)\<rparr>,
      \<lparr>oa_name = u ''candidate-snapshot'', oa_content_base64 = b64encode (map char_of zeros)\<rparr>,
      \<lparr>oa_name = u ''policy'', oa_content_base64 = b64encode ''{}''\<rparr>]"

definition demo_derived :: "phase_artifact list" where
  "demo_derived =
     [\<lparr>pa_name = u ''base-snapshot'', pa_sha256 = zeros\<rparr>,
      \<lparr>pa_name = u ''candidate-snapshot'', pa_sha256 = zeros\<rparr>,
      \<lparr>pa_name = u ''policy'', pa_sha256 = zeros\<rparr>]"

definition demo_coordinator_output :: coordinator_output where
  "demo_coordinator_output =
     \<lparr>co_workflow_id = zeros, co_phase = Snapshot, co_sequence = 1, co_request_sha256 = zeros,
      co_artifacts = demo_artifacts, co_candidate_snapshot_sha256 = Some zeros,
      co_review_packet_sha256 = None, co_output_artifacts_sha256 = zeros, co_output_sha256 = zeros\<rparr>"

definition demo_phase_result :: phase_result where
  "demo_phase_result =
     \<lparr>rs_request = demo_phase_request, rs_output_artifacts_sha256 = zeros, rs_artifacts = demo_derived,
      rs_candidate_snapshot_sha256 = Some zeros, rs_review_packet_sha256 = None,
      rs_external_execution_sha256 = None, rs_coordinator_output_sha256 = zeros, rs_phase_sha256 = zeros\<rparr>"

definition demo_next_request :: phase_request where
  "demo_next_request =
     \<lparr>rq_workflow_id = zeros, rq_phase = RedSnapshot, rq_sequence = 2, rq_previous_phase_sha256 = Some zeros,
      rq_task_sha256 = zeros, rq_runtime_manifest_sha256 = zeros, rq_coordinator_key_id = zeros,
      rq_coordinator_public_key_sha256 = zeros, rq_candidate_sha256 = zeros,
      rq_candidate_snapshot_sha256 = Some zeros, rq_review_packet_sha256 = None,
      rq_input_artifacts_sha256 = zeros, rq_request_sha256 = zeros\<rparr>"

lemma zeros_domain_sha256: "jclean v \<Longrightarrow> domain_sha256 (\<lambda>_. zeros) tag v = Inr zeros"
  by (simp add: domain_sha256_Inr zeros_domain)

lemma demo_names:
  "is_artifact_name (u ''base-snapshot'')" "is_artifact_name (u ''candidate-snapshot'')"
  "is_artifact_name (u ''policy'')"
  by (simp_all add: is_artifact_name_def u_def lower_def is_digit_def)

lemma demo_request_valid:
  "valid_phase_request (\<lambda>_. zeros) demo_phase_request"
  "valid_phase_request (\<lambda>_. zeros) demo_next_request"
proof -
  have f: "request_fields_ok demo_phase_request" "request_fields_ok demo_next_request"
    by (simp_all add: request_fields_ok_def demo_phase_request_def demo_next_request_def optional_sha_def)
  have "jclean (JObj (request_payload r))" if "request_fields_ok r" for r :: phase_request
    using request_dump_clean(1) [OF that] by (simp add: request_dump_def)
  with f have "domain (\<lambda>_. zeros) PHASE_REQUEST_DOMAIN (JObj (request_payload demo_phase_request)) = Inr zeros"
    "domain (\<lambda>_. zeros) PHASE_REQUEST_DOMAIN (JObj (request_payload demo_next_request)) = Inr zeros"
    by (simp_all add: zeros_domain)
  with f show "valid_phase_request (\<lambda>_. zeros) demo_phase_request"
    "valid_phase_request (\<lambda>_. zeros) demo_next_request"
    by (simp_all add: valid_phase_request_iff)
      (simp_all add: demo_phase_request_def demo_next_request_def EMPTY_INITIAL_ARTIFACTS_SHA256_def)
qed

lemma demo_action_valid:
  "valid_phase_action (\<lambda>_. zeros) demo_phase_action"
  "action_validate_for (\<lambda>_. zeros) demo_phase_action demo_phase_request ''{}'' = Inr ()"
proof -
  have "jclean (JObj (action_payload demo_phase_action))"
    by (simp add: action_payload_def demo_phase_action_def clean_names) (simp add: clean_def u_def)
  then have "domain_sha256 (\<lambda>_. zeros) PHASE_ACTION_DOMAIN (JObj (action_payload demo_phase_action)) = Inr zeros"
    by (rule zeros_domain_sha256)
  then show "valid_phase_action (\<lambda>_. zeros) demo_phase_action"
    by (simp add: valid_phase_action_def action_validate_def demo_phase_action_def)
  show "action_validate_for (\<lambda>_. zeros) demo_phase_action demo_phase_request ''{}'' = Inr ()"
    by (simp add: action_validate_for_def demo_phase_action_def demo_phase_request_def)
qed

lemma launcher_accepts_prepared_envelope_witness:
  "\<exists>raw digest. prepare_transition_bytes (\<lambda>_. zeros) demo_phase_request demo_phase_action ''{}'' = Inr raw
     \<and> parse_prepared_transition (\<lambda>_. zeros) (as_dict (request_dump demo_phase_request)) raw
        = Inr \<lparr>pt_action = as_dict (action_dump demo_phase_action), pt_payload = ''{}'', pt_sha256 = digest\<rparr>"
  by (rule launcher_accepts_prepared_envelope [OF zeros_sha demo_request_valid(1) demo_action_valid]) simp_all

lemma demo_phase_artifacts: "phase_artifacts (\<lambda>_. zeros) demo_artifacts = Inr demo_derived"
proof -
  have c: "artifact_content \<lparr>oa_name = n, oa_content_base64 = b64encode b\<rparr> = Inr b"
    if "b \<noteq> []" "length b \<le> 64" for n b
    using that by (simp add: artifact_content_def b64decode_encode MAX_EVIDENCE_BYTES_def)
  have z: "length zeros = 64" "zeros \<noteq> []" by (simp_all add: zeros_def)
  have snap: "semantic_sha256 (\<lambda>_. zeros) \<lparr>oa_name = u n, oa_content_base64 = b64encode (map char_of zeros)\<rparr>
      = Inr zeros" if "n = ''base-snapshot'' \<or> n = ''candidate-snapshot''" for n
    using that c [of "map char_of zeros"] z ascii_decode_encode [OF is_sha256_ascii [OF zeros_sha]]
    by (auto simp: semantic_sha256_def)
  have pol: "semantic_sha256 (\<lambda>_. zeros) \<lparr>oa_name = u ''policy'', oa_content_base64 = b64encode ''{}''\<rparr> = Inr zeros"
    using c [of "''{}''"] by (simp add: semantic_sha256_def starts_with_def u_def)
  show ?thesis
    using snap [of "''base-snapshot''"] snap [of "''candidate-snapshot''"] pol
    by (simp add: phase_artifacts_def demo_artifacts_def demo_derived_def artifact_ok_def demo_names)
qed

lemma demo_manifest: "artifact_set_sha256 (\<lambda>_. zeros) demo_derived = Inr zeros"
proof -
  have "jclean (artifacts_dump demo_derived)"
    by (rule artifacts_dump_clean) (simp add: demo_derived_def artifact_ok_def demo_names)
  then obtain b where "canonical (artifacts_dump demo_derived) = Inr b" by (rule canonical_clean)
  then show ?thesis by (simp add: artifact_set_sha256_def canonical_json_bytes_Inr [THEN iffD2])
qed

lemma sort_three: "sort [u ''base-snapshot'', u ''candidate-snapshot'', u ''policy'']
    = [u ''base-snapshot'', u ''candidate-snapshot'', u ''policy'']"
  by (rule sort_key_id_if_sorted) (simp add: u_less_eq)

lemma demo_output_fields: "output_fields_ok demo_coordinator_output"
proof -
  have z: "length zeros = 64" by (simp add: zeros_def)
  have "output_artifact_ok \<lparr>oa_name = n, oa_content_base64 = b64encode b\<rparr>"
    if "is_artifact_name n" "2 \<le> length b" "length b \<le> 64" for n b
  proof -
    have "3 \<le> length (b64encode b)" using length_b64encode_ge [of b] that(2) by linarith
    moreover have "length (b64encode b) \<noteq> 3"
    proof -
      have "length (b64_enc bs) mod 4 = 0" for bs by (induction bs rule: b64_enc.induct) simp_all
      then have "length (b64encode b) mod 4 = 0" by (simp add: b64encode_def)
      then show ?thesis by auto
    qed
    ultimately show ?thesis using that length_b64encode [of b] by (simp add: output_artifact_ok_def)
  qed
  then show ?thesis using z
    by (simp add: output_fields_ok_def demo_coordinator_output_def demo_artifacts_def demo_names optional_sha_def)
qed

lemma demo_coordinator_output_valid:
  "valid_coordinator_output (\<lambda>_. zeros) demo_coordinator_output"
  "output_validate_for demo_coordinator_output demo_phase_request = Inr ()"
proof -
  have cl: "jclean (JObj (output_dump demo_coordinator_output))"
    using demo_output_fields demo_phase_artifacts
    by (intro output_dump_clean) (simp_all add: demo_coordinator_output_def)
  then have "jclean (JObj (output_payload demo_coordinator_output))" by (simp add: output_dump_def)
  then have dom: "domain (\<lambda>_. zeros) PHASE_OUTPUT_DOMAIN (JObj (output_payload demo_coordinator_output)) = Inr zeros"
    by (rule zeros_domain)
  have names: "map oa_name demo_artifacts = [u ''base-snapshot'', u ''candidate-snapshot'', u ''policy'']"
    by (simp add: demo_artifacts_def)
  have comp: "artifact_completeness Snapshot (map oa_name demo_artifacts) = Inr ()"
    unfolding names by (auto simp: result_simps)
  have cand: "by_name demo_derived ''candidate-snapshot'' = Some zeros"
    by (simp add: by_name_def demo_derived_def)
  show "valid_coordinator_output (\<lambda>_. zeros) demo_coordinator_output"
    unfolding valid_output_iff
    using demo_output_fields dom demo_phase_artifacts demo_manifest comp cand names sort_three
    by (simp add: demo_coordinator_output_def)
  show "output_validate_for demo_coordinator_output demo_phase_request = Inr ()"
    by (simp add: output_for_request demo_coordinator_output_def demo_phase_request_def)
qed

lemma demo_result_created:
  "result_create (\<lambda>_. zeros)
     (result_body_for (\<lambda>_. zeros) demo_phase_request demo_coordinator_output demo_derived None raw)
   = Inr demo_phase_result"
proof -
  have f: "result_fields_ok demo_phase_result"
    by (simp add: result_fields_ok_def demo_phase_result_def demo_derived_def artifact_ok_def demo_names
        optional_sha_def)
  have q: "request_fields_ok demo_phase_request" using demo_request_valid(1) by (simp add: valid_phase_request_iff)
  then have "jclean (JObj (result_dump demo_phase_result))"
    using f by (intro result_dump_clean) (simp_all add: demo_phase_result_def)
  then have "jclean (JObj (result_payload demo_phase_result))" by (simp add: result_dump_def)
  then have dom: "domain_sha256 (\<lambda>_. zeros) PHASE_RESULT_DOMAIN (JObj (result_payload demo_phase_result)) = Inr zeros"
    by (rule zeros_domain_sha256)
  let ?b = "result_body_for (\<lambda>_. zeros) demo_phase_request demo_coordinator_output demo_derived None raw"
  have ext: "result_body.extend ?b (phase_result.fields zeros) = demo_phase_result"
    by (simp add: result_body.defs phase_result.defs result_body_for_def demo_phase_result_def
        demo_coordinator_output_def)
  have pay: "result_payload ?b = result_payload demo_phase_result"
    by (simp add: result_payload_def result_body_for_def demo_phase_result_def demo_coordinator_output_def)
  have names: "map pa_name demo_derived = [u ''base-snapshot'', u ''candidate-snapshot'', u ''policy'']"
    by (simp add: demo_derived_def)
  have comp: "artifact_completeness Snapshot (map pa_name demo_derived) = Inr ()"
    unfolding names by (auto simp: result_simps)
  have cand: "by_name demo_derived ''candidate-snapshot'' = Some zeros"
    by (simp add: by_name_def demo_derived_def)
  have anchors: "result_anchors demo_phase_result = Inr ()"
    by (simp add: result_anchors_def demo_phase_result_def demo_phase_request_def cand)
  have "result_contract (\<lambda>_. zeros) demo_phase_result = Inr demo_phase_result"
    unfolding result_contract_def Let_def anchors dom
    using demo_manifest comp names sort_three
    by (simp add: demo_phase_result_def demo_phase_request_def EXTERNAL_PHASES_def)
  then have "result_validate (\<lambda>_. zeros) demo_phase_result = Inr demo_phase_result"
    using f by (simp add: result_validate_def)
  then show ?thesis unfolding result_create_def pay dom bindE_simps ext .
qed

lemma demo_next_created:
  "request_create (\<lambda>_. zeros) (next_request_body demo_phase_request demo_coordinator_output demo_phase_result)
   = Inr demo_next_request"
proof -
  let ?b = "next_request_body demo_phase_request demo_coordinator_output demo_phase_result"
  have ext: "request_body.extend ?b (phase_request.fields zeros) = demo_next_request"
    by (simp add: request_body.defs phase_request.defs next_request_body_def demo_next_request_def
        demo_phase_request_def demo_coordinator_output_def demo_phase_result_def PHASES_def)
  have pay: "request_payload ?b = request_payload demo_next_request"
    unfolding ext [symmetric] by (simp add: request_payload_def request_body.defs phase_request.defs)
  have "request_fields_ok demo_next_request"
    using demo_request_valid(2) by (simp add: valid_phase_request_iff)
  then have "jclean (JObj (request_payload demo_next_request))"
    using request_dump_clean(1) by (simp add: request_dump_def)
  then have dom: "domain_sha256 (\<lambda>_. zeros) PHASE_REQUEST_DOMAIN (JObj (request_payload demo_next_request)) = Inr zeros"
    by (rule zeros_domain_sha256)
  show ?thesis
    unfolding request_create_def pay dom bindE_simps ext using demo_request_valid(2)
    by (simp add: valid_phase_request_def)
qed

lemma demo_finalize:
  obtains output_raw raw where "canonical_json_bytes (JObj (output_dump demo_coordinator_output)) = Inr output_raw"
    and "finalize_transition (\<lambda>_. zeros) demo_phase_request demo_phase_action ''{}'' ''{}'' demo_coordinator_output
      = Inr (demo_phase_result, Some demo_next_request, raw)"
    and "length output_raw \<le> 4000" and "length raw \<le> 10000000"
proof -
  have z: "length zeros = 64" by (simp add: zeros_def)
  have q: "request_fields_ok demo_phase_request" "request_fields_ok demo_next_request"
    using demo_request_valid by (simp_all add: valid_phase_request_iff)
  have clo: "jclean (JObj (output_dump demo_coordinator_output))"
    using demo_output_fields demo_phase_artifacts
    by (intro output_dump_clean) (simp_all add: demo_coordinator_output_def)
  obtain output_raw where o: "canonical (JObj (output_dump demo_coordinator_output)) = Inr output_raw"
    "length output_raw = jlen (JObj (output_dump demo_coordinator_output)) + 1"
    using clo by (rule canonical_clean)
  have lo: "length output_raw \<le> 4000"
    using o(2) z length_b64encode [of "map char_of zeros"] length_b64encode [of "''{}''"]
    by (simp add: output_dump_def output_payload_def demo_coordinator_output_def output_artifacts_dump_def
        demo_artifacts_def optional_str_def)
  obtain next_raw where n: "canonical (JObj (request_dump demo_next_request)) = Inr next_raw"
    "length next_raw = jlen (JObj (request_dump demo_next_request)) + 1"
    using request_dump_clean(1) [OF q(2)] by (rule canonical_clean)
  have ln: "length next_raw \<le> 2000" using n(2) request_dump_clean(2) [OF q(2)] by simp
  have rf: "result_fields_ok demo_phase_result"
    using result_create_Inr(1) [OF demo_result_created] .
  have clr: "jclean (JObj (result_dump demo_phase_result))"
    using rf q(1) by (intro result_dump_clean) (simp_all add: demo_phase_result_def)
  let ?o = "JStr (b64encode output_raw)" and ?n = "JStr (b64encode next_raw)"
  have clean: "clean (u ''coordinator_output_base64'')" "clean (u ''next_request_base64'')"
    "clean (u ''phase_result'')" "clean (u ''finalized_sha256'')"
    by (simp_all add: clean_def u_def)
  have body: "domain (\<lambda>_. zeros) FINALIZED_DOMAIN (finalized_body ?o ?n (JObj (result_dump demo_phase_result))) = Inr zeros"
    by (rule zeros_domain) (use clr in \<open>simp add: finalized_body_def clean clean_names clean_b64encode\<close>)
  let ?env = "JObj [(u ''coordinator_output_base64'', ?o), (u ''next_request_base64'', ?n),
        (u ''phase_result'', JObj (result_dump demo_phase_result)), (u ''schema_version'', JStr (u ''1.0'')),
        (u ''finalized_sha256'', JStr zeros)]"
  have "jclean ?env" using clr by (simp add: clean clean_names clean_b64encode)
  then obtain raw where raw: "canonical ?env = Inr raw" "length raw = jlen ?env + 1" by (rule canonical_clean)
  have "jlen (JObj (result_dump demo_phase_result)) \<le> 5000"
    using z by (simp add: result_dump_def result_payload_def demo_phase_result_def demo_phase_request_def
        request_dump_def request_payload_def artifacts_dump_def demo_derived_def optional_str_def)
  then have lr: "length raw \<le> 10000000"
    using raw(2) lo ln z length_b64encode [of output_raw] length_b64encode [of next_raw] by simp
  have enc: "encode_finalized_transition (\<lambda>_. zeros) (result_dump demo_phase_result) output_raw (Some next_raw)
      = Inr raw"
    using body raw(1) by (simp add: encode_finalized_transition_def)
  have co: "co_artifacts demo_coordinator_output = demo_artifacts" "rq_phase demo_phase_request = Snapshot"
    "rq_sequence demo_phase_request = 1"
    by (simp_all add: demo_coordinator_output_def demo_phase_request_def)
  have fin: "finalize_transition (\<lambda>_. zeros) demo_phase_request demo_phase_action ''{}'' ''{}'' demo_coordinator_output
      = Inr (demo_phase_result, Some demo_next_request, raw)"
    unfolding finalize_transition_def demo_action_valid(2) demo_coordinator_output_valid(2) co
    using o(1) n(1) enc
    by (simp add: EXTERNAL_PHASES_def PHASES_def canonical_json_bytes_Inr [THEN iffD2] demo_phase_artifacts
        demo_result_created demo_next_created from_ows_def)
  show thesis by (rule that [OF _ fin lo lr]) (use o(1) in \<open>simp add: canonical_json_bytes_Inr\<close>)
qed


end
