(* ===== verification/Phase_Ledger.thy ===== *)
theory Phase_Ledger
  imports Coordinator_Envelopes
begin

text \<open>
  The durable side of \<open>phase_protocol.py\<close>: reading the strict models back from JSON, the
  \<open>SqlitePhaseLedger\<close> as a table of rows whose operations are transactions (an exception
  leaves the table as it was), and \<open>run_claimed_phase\<close> over the table, the files it writes and
  the log of the external effects it causes.
\<close>

section \<open>\<open>model_validate_json\<close>\<close>

text \<open>
  Strict models with \<open>extra="forbid"\<close>: no unknown field, no conversion, and a default only for
  the optional fields and the version.
\<close>

definition get_str :: "pydict \<Rightarrow> string \<Rightarrow> pp_error + pystr" where
  "get_str d k = (case fld d k of JStr s \<Rightarrow> Inr s | _ \<Rightarrow> Inl (PpValueError k))"

definition get_opt :: "pydict \<Rightarrow> string \<Rightarrow> pp_error + pystr option" where
  "get_opt d k =
     (case fld d k of JNull \<Rightarrow> Inr None | JStr s \<Rightarrow> Inr (Some s) | _ \<Rightarrow> Inl (PpValueError k))"

definition get_int :: "pydict \<Rightarrow> string \<Rightarrow> pp_error + int" where
  "get_int d k = (case fld d k of JInt i \<Rightarrow> Inr i | _ \<Rightarrow> Inl (PpValueError k))"

definition phase_from :: "pystr \<Rightarrow> pp_error + phase_name" where
  "phase_from s =
     (case find (\<lambda>p. u (phase_string p) = s) PHASES of
        Some p \<Rightarrow> Inr p | None \<Rightarrow> Inl (PpValueError ''phase''))"

definition model_dict :: "string list \<Rightarrow> json \<Rightarrow> pp_error + pydict" where
  "model_dict names v =
     (case v of
        JObj d \<Rightarrow>
          bindE (guardE (set (map fst d) \<subseteq> set (map u names)) (PpValueError ''extra_forbidden'')) (\<lambda>_.
          bindE (guardE (map_of d (u ''schema_version'') = None
              \<or> map_of d (u ''schema_version'') = Some (JStr (u ''1.0'')))
            (PpValueError ''schema_version'')) (\<lambda>_. Inr d))
      | _ \<Rightarrow> Inl (PpValueError ''model_type''))"

definition request_model :: "hash_fn \<Rightarrow> json \<Rightarrow> pp_error + phase_request" where
  "request_model sha v =
     bindE (model_dict REQUEST_FIELDS v) (\<lambda>d.
     bindE (get_str d ''workflow_id'') (\<lambda>workflow_id.
     bindE (bindE (get_str d ''phase'') phase_from) (\<lambda>phase.
     bindE (get_int d ''sequence'') (\<lambda>sequence.
     bindE (get_opt d ''previous_phase_sha256'') (\<lambda>previous.
     bindE (get_str d ''task_sha256'') (\<lambda>task.
     bindE (get_str d ''runtime_manifest_sha256'') (\<lambda>runtime.
     bindE (get_str d ''coordinator_key_id'') (\<lambda>key_id.
     bindE (get_str d ''coordinator_public_key_sha256'') (\<lambda>key.
     bindE (get_str d ''candidate_sha256'') (\<lambda>candidate.
     bindE (get_opt d ''candidate_snapshot_sha256'') (\<lambda>snapshot.
     bindE (get_opt d ''review_packet_sha256'') (\<lambda>packet.
     bindE (get_str d ''input_artifacts_sha256'') (\<lambda>inputs.
     bindE (get_str d ''request_sha256'') (\<lambda>digest.
     request_validate sha
       \<lparr>rq_workflow_id = workflow_id, rq_phase = phase, rq_sequence = sequence,
        rq_previous_phase_sha256 = previous, rq_task_sha256 = task, rq_runtime_manifest_sha256 = runtime,
        rq_coordinator_key_id = key_id, rq_coordinator_public_key_sha256 = key,
        rq_candidate_sha256 = candidate, rq_candidate_snapshot_sha256 = snapshot,
        rq_review_packet_sha256 = packet, rq_input_artifacts_sha256 = inputs,
        rq_request_sha256 = digest\<rparr>))))))))))))))"

definition artifact_model :: "json \<Rightarrow> pp_error + phase_artifact" where
  "artifact_model v =
     (case v of
        JObj d \<Rightarrow>
          bindE (guardE (set (map fst d) \<subseteq> {u ''name'', u ''sha256''}) (PpValueError ''extra_forbidden'')) (\<lambda>_.
          bindE (get_str d ''name'') (\<lambda>name.
          bindE (get_str d ''sha256'') (\<lambda>digest.
          let a = \<lparr>pa_name = name, pa_sha256 = digest\<rparr> in
          bindE (guardE (artifact_ok a) (PpValueError ''field constraints'')) (\<lambda>_. Inr a))))
      | _ \<Rightarrow> Inl (PpValueError ''model_type''))"

definition artifacts_model :: "json \<Rightarrow> pp_error + phase_artifact list" where
  "artifacts_model v = (case v of JArr xs \<Rightarrow> mapE artifact_model xs | _ \<Rightarrow> Inl (PpValueError ''tuple_type''))"

definition result_model :: "hash_fn \<Rightarrow> json \<Rightarrow> pp_error + phase_result" where
  "result_model sha v =
     bindE (model_dict RESULT_FIELDS v) (\<lambda>d.
     bindE (request_model sha (fld d ''request'')) (\<lambda>request.
     bindE (get_str d ''output_artifacts_sha256'') (\<lambda>outputs.
     bindE (artifacts_model (fld d ''artifacts'')) (\<lambda>artifacts.
     bindE (get_opt d ''candidate_snapshot_sha256'') (\<lambda>snapshot.
     bindE (get_opt d ''review_packet_sha256'') (\<lambda>packet.
     bindE (get_opt d ''external_execution_sha256'') (\<lambda>external.
     bindE (get_str d ''coordinator_output_sha256'') (\<lambda>output.
     bindE (get_str d ''phase_sha256'') (\<lambda>digest.
     result_validate sha
       \<lparr>rs_request = request, rs_output_artifacts_sha256 = outputs, rs_artifacts = artifacts,
        rs_candidate_snapshot_sha256 = snapshot, rs_review_packet_sha256 = packet,
        rs_external_execution_sha256 = external, rs_coordinator_output_sha256 = output,
        rs_phase_sha256 = digest\<rparr>)))))))))"

definition output_artifact_model :: "json \<Rightarrow> pp_error + output_artifact" where
  "output_artifact_model v =
     (case v of
        JObj d \<Rightarrow>
          bindE (guardE (set (map fst d) \<subseteq> {u ''name'', u ''content_base64''})
            (PpValueError ''extra_forbidden'')) (\<lambda>_.
          bindE (get_str d ''name'') (\<lambda>name.
          bindE (get_str d ''content_base64'') (\<lambda>content.
          let a = \<lparr>oa_name = name, oa_content_base64 = content\<rparr> in
          bindE (guardE (output_artifact_ok a) (PpValueError ''field constraints'')) (\<lambda>_. Inr a))))
      | _ \<Rightarrow> Inl (PpValueError ''model_type''))"

definition output_model :: "hash_fn \<Rightarrow> json \<Rightarrow> pp_error + coordinator_output" where
  "output_model sha v =
     bindE (model_dict OUTPUT_FIELDS v) (\<lambda>d.
     bindE (get_str d ''workflow_id'') (\<lambda>workflow_id.
     bindE (bindE (get_str d ''phase'') phase_from) (\<lambda>phase.
     bindE (get_int d ''sequence'') (\<lambda>sequence.
     bindE (get_str d ''request_sha256'') (\<lambda>request.
     bindE (case fld d ''artifacts'' of
              JArr xs \<Rightarrow> mapE output_artifact_model xs | _ \<Rightarrow> Inl (PpValueError ''tuple_type'')) (\<lambda>artifacts.
     bindE (get_opt d ''candidate_snapshot_sha256'') (\<lambda>snapshot.
     bindE (get_opt d ''review_packet_sha256'') (\<lambda>packet.
     bindE (get_str d ''output_artifacts_sha256'') (\<lambda>manifest.
     bindE (get_str d ''output_sha256'') (\<lambda>digest.
     output_validate sha
       \<lparr>co_workflow_id = workflow_id, co_phase = phase, co_sequence = sequence,
        co_request_sha256 = request, co_artifacts = artifacts,
        co_candidate_snapshot_sha256 = snapshot, co_review_packet_sha256 = packet,
        co_output_artifacts_sha256 = manifest, co_output_sha256 = digest\<rparr>))))))))))"

definition load_json :: "bytes \<Rightarrow> pp_error + json" where
  "load_json raw =
     (case utf8_decode raw of
        None \<Rightarrow> Inl (PpValueError ''json_invalid'')
      | Some text \<Rightarrow>
          (case json_loads plain_pairs plain_const text of
             Inl (JHook e) \<Rightarrow> Inl e
           | Inl _ \<Rightarrow> Inl (PpValueError ''json_invalid'')
           | Inr v \<Rightarrow> Inr v))"

definition read_request :: "hash_fn \<Rightarrow> bytes \<Rightarrow> pp_error + phase_request" where
  "read_request sha raw = bindE (load_json raw) (request_model sha)"

definition read_result :: "hash_fn \<Rightarrow> bytes \<Rightarrow> pp_error + phase_result" where
  "read_result sha raw = bindE (load_json raw) (result_model sha)"

definition read_output :: "hash_fn \<Rightarrow> bytes \<Rightarrow> pp_error + coordinator_output" where
  "read_output sha raw = bindE (load_json raw) (output_model sha)"

section \<open>The ledger\<close>

datatype row_status = Pending | Complete

record ledger_row =
  row_workflow_id :: pystr
  row_sequence :: int
  row_phase :: phase_name
  row_request_sha256 :: pystr
  row_request_json :: bytes
  row_status :: row_status
  row_result_sha256 :: "pystr option"
  row_result_json :: "bytes option"

type_synonym ledger = "ledger_row list"

definition workflow_rows :: "pystr \<Rightarrow> ledger \<Rightarrow> ledger" where
  "workflow_rows w rows = filter (\<lambda>r. row_workflow_id r = w) rows"

text \<open>\<open>SELECT result_json ... WHERE workflow_id = ? AND status = 'complete' ORDER BY sequence\<close>\<close>

definition completed_results :: "hash_fn \<Rightarrow> ledger \<Rightarrow> pystr \<Rightarrow> pp_error + phase_result list" where
  "completed_results sha rows w =
     mapE (\<lambda>r. case row_result_json r of
         None \<Rightarrow> Inl (PpOther ''TypeError'') | Some raw \<Rightarrow> read_result sha raw)
       (sort_key row_sequence (filter (\<lambda>r. row_workflow_id r = w \<and> row_status r = Complete) rows))"

definition row_for :: "phase_request \<Rightarrow> bytes \<Rightarrow> ledger_row" where
  "row_for request raw =
     \<lparr>row_workflow_id = rq_workflow_id request, row_sequence = rq_sequence request,
      row_phase = rq_phase request, row_request_sha256 = rq_request_sha256 request,
      row_request_json = raw, row_status = Pending, row_result_sha256 = None, row_result_json = None\<rparr>"

text \<open>The primary key and the unique columns of the table.\<close>

definition clashes :: "ledger_row \<Rightarrow> ledger_row \<Rightarrow> bool" where
  "clashes r r' \<longleftrightarrow> row_request_sha256 r = row_request_sha256 r'
     \<or> row_workflow_id r = row_workflow_id r' \<and> row_sequence r = row_sequence r'"

definition insert_row :: "ledger_row \<Rightarrow> ledger \<Rightarrow> pp_error + ledger" where
  "insert_row r rows =
     bindE (guardE (\<not> list_ex (clashes r) rows) (PpOther ''IntegrityError'')) (\<lambda>_. Inr (rows @ [r]))"

definition ledger_claim :: "hash_fn \<Rightarrow> ledger \<Rightarrow> phase_request \<Rightarrow> pp_error + ledger" where
  "ledger_claim sha rows request =
     bindE (guardE (\<not> list_ex (\<lambda>r. row_request_sha256 r = rq_request_sha256 request
           \<or> row_workflow_id r = rq_workflow_id request \<and> row_sequence r = rq_sequence request) rows)
       (PhaseProtocolError ''phase request was already claimed'')) (\<lambda>_.
     bindE (guardE (\<not> list_ex (\<lambda>r. row_workflow_id r = rq_workflow_id request \<and> row_status r = Pending) rows)
       (PhaseProtocolError ''workflow contains an interrupted consumed phase'')) (\<lambda>_.
     bindE (completed_results sha rows (rq_workflow_id request)) (\<lambda>results.
     bindE (phase_chain results) (\<lambda>chain.
     bindE (chain_validate_request chain request) (\<lambda>_.
     bindE (canonical_json_bytes (JObj (request_dump request))) (\<lambda>raw.
     insert_row (row_for request raw) rows))))))"

definition complete_row :: "phase_result \<Rightarrow> bytes \<Rightarrow> ledger_row \<Rightarrow> ledger_row" where
  "complete_row result raw r =
     (if row_workflow_id r = rq_workflow_id (rs_request result)
         \<and> row_sequence r = rq_sequence (rs_request result) \<and> row_status r = Pending
      then r\<lparr>row_status := Complete, row_result_sha256 := Some (rs_phase_sha256 result),
             row_result_json := Some raw\<rparr>
      else r)"

definition ledger_commit :: "hash_fn \<Rightarrow> ledger \<Rightarrow> phase_result \<Rightarrow> pp_error + ledger" where
  "ledger_commit sha rows result =
     (let none = PhaseProtocolError ''phase result has no uniquely pending claim'' in
      (case find (\<lambda>r. row_workflow_id r = rq_workflow_id (rs_request result)
              \<and> row_sequence r = rq_sequence (rs_request result)) rows of
         None \<Rightarrow> Inl none
       | Some row \<Rightarrow>
           bindE (guardE (row_status row = Pending) none) (\<lambda>_.
           bindE (read_request sha (row_request_json row)) (\<lambda>stored.
           bindE (guardE (stored = rs_request result)
             (PhaseProtocolError ''phase result does not match the consumed request'')) (\<lambda>_.
           bindE (canonical_json_bytes (JObj (result_dump result))) (\<lambda>raw.
           bindE (guardE (\<not> list_ex (\<lambda>r. row_result_sha256 r = Some (rs_phase_sha256 result)) rows)
             (PpOther ''IntegrityError'')) (\<lambda>_.
           Inr (map (complete_row result raw) rows))))))))"

end
