(* ===== verification/Consume_Once.thy ===== *)
theory Consume_Once
  imports Prelude
begin

text \<open>
  The contract of a journal that consumes a key before the work it stands for: the interface
  the phase ledger and the nonce ledger share. \<open>used s k\<close> says that \<open>k\<close> is taken in state \<open>s\<close>,
  \<open>step\<close> is any operation of the journal, and \<open>consume\<close> takes a key or fails.
\<close>

locale consume_once =
  fixes used :: "'s \<Rightarrow> 'k \<Rightarrow> bool"
    and step :: "'s \<Rightarrow> 's \<Rightarrow> bool"
    and consume :: "'s \<Rightarrow> 'k \<Rightarrow> 'e + 's"
  assumes consume_fresh: "consume s k = Inr s' \<Longrightarrow> \<not> used s k"
    and consume_uses: "consume s k = Inr s' \<Longrightarrow> used s' k"
    and consume_step: "consume s k = Inr s' \<Longrightarrow> step s s'"
    and step_keeps: "step s s' \<Longrightarrow> used s k \<Longrightarrow> used s' k"
begin

lemma steps_keep: "step\<^sup>*\<^sup>* s s' \<Longrightarrow> used s k \<Longrightarrow> used s' k"
  by (induction rule: rtranclp_induct) (auto intro: step_keeps)

text \<open>Once taken, a key is never taken again, whatever happens in between.\<close>

lemma never_again:
  assumes "consume s0 k = Inr s" and "step\<^sup>*\<^sup>* s s'"
  shows "\<exists>e. consume s' k = Inl e"
proof (cases "consume s' k")
  case (Inr s'')
  from steps_keep [OF assms(2) consume_uses [OF assms(1)]] consume_fresh [OF Inr] show ?thesis by simp
qed simp

text \<open>The keys a sequence of calls manages to take, failed calls leaving the state alone.\<close>

fun consume_all :: "'s \<Rightarrow> 'k list \<Rightarrow> 'k list \<times> 's" where
  "consume_all s [] = ([], s)"
| "consume_all s (k # ks) =
     (case consume s k of
        Inl e \<Rightarrow> consume_all s ks
      | Inr s' \<Rightarrow> (let (won, t) = consume_all s' ks in (k # won, t)))"

lemma consume_all_unused: "used s k \<Longrightarrow> k \<notin> set (fst (consume_all s ks))"
proof (induction s ks rule: consume_all.induct)
  case (2 s k' ks)
  show ?case
  proof (cases "consume s k'")
    case (Inl e)
    with 2 show ?thesis by simp
  next
    case (Inr s')
    then have "used s' k" using 2 step_keeps consume_step by blast
    moreover have "k \<noteq> k'" using 2 consume_fresh [OF Inr] by auto
    ultimately show ?thesis using 2 Inr by (simp add: split_def Let_def)
  qed
qed simp

lemma consume_all_distinct: "distinct (fst (consume_all s ks))"
proof (induction s ks rule: consume_all.induct)
  case (2 s k ks)
  show ?case
  proof (cases "consume s k")
    case (Inr s')
    with 2 consume_all_unused [OF consume_uses [OF Inr], of ks] show ?thesis
      by (simp add: split_def Let_def)
  qed (use 2 in simp)
qed simp

end

end
