(* ===== verification/Phase_Ledger_Facts.thy ===== *)
theory Phase_Ledger_Facts
  imports Phase_Ledger Consume_Once
begin

text \<open>
  The ledger keeps one invariant under every interleaving of claims and commits: each
  workflow's rows are the phases 1, 2, ... in order, all complete except at most the last, and
  their results form a valid chain. What it stores is read back exactly.
\<close>

section \<open>Stored models are read back\<close>

lemma load_json_canonical:
  assumes "jclean (JObj d)" and "canonical (JObj d) = Inr raw"
  shows "load_json raw = Inr (JObj (as_dict d))"
proof -
  obtain s where s: "dumps (JObj d) = Some s" "utf8_encode (s @ [0x0A]) = Some raw"
    using assms(2) by (auto simp: canonical_Inr)
  have dec: "utf8_decode raw = Some (s @ [0x0A])" using s(2) by (rule utf8_decode_encode)
  have "(json_loads plain_pairs plain_const (s @ [0x0A]) :: pp_error json_error + json) = Inr (JObj (as_dict d))"
    using plain_hook.json_loads_dumps [OF jclean_plain [OF assms(1)] s(1), of "[0x0A]"]
    by (simp add: json_ws_def as_dict_def)
  with dec show ?thesis by (simp add: load_json_def)
qed

lemma phase_from_string: "phase_from (u (phase_string p)) = Inr p"
  by (cases p) (simp_all add: phase_from_def PHASES_def)

lemma get_opt_optional: "fld d k = optional_str x \<Longrightarrow> get_opt d k = Inr x"
  by (simp add: get_opt_def optional_str_def split: option.splits)

lemma fld_version: "fld d ''schema_version'' = JStr (u ''1.0'') \<Longrightarrow> map_of d (u ''schema_version'') = Some (JStr (u ''1.0''))"
  by (auto simp: fld_def split: option.splits)

lemma request_model_dump:
  assumes "valid_phase_request sha r"
  shows "request_model sha (JObj (as_dict (request_dump r))) = Inr r"
proof -
  let ?d = "as_dict (request_dump r)"
  have keys: "set (map fst ?d) \<subseteq> set (map u REQUEST_FIELDS)"
    unfolding keys_as_dict by (auto simp: request_dump_def request_payload_def REQUEST_FIELDS_def)
  then have md: "model_dict REQUEST_FIELDS (JObj ?d) = Inr ?d"
    by (simp add: model_dict_def fld_version request_fields del: set_map)
  have opt: "get_opt ?d ''previous_phase_sha256'' = Inr (rq_previous_phase_sha256 r)"
    "get_opt ?d ''candidate_snapshot_sha256'' = Inr (rq_candidate_snapshot_sha256 r)"
    "get_opt ?d ''review_packet_sha256'' = Inr (rq_review_packet_sha256 r)"
    by (simp_all add: get_opt_optional request_fields)
  have eta: "\<lparr>rq_workflow_id = rq_workflow_id r, rq_phase = rq_phase r, rq_sequence = rq_sequence r,
        rq_previous_phase_sha256 = rq_previous_phase_sha256 r, rq_task_sha256 = rq_task_sha256 r,
        rq_runtime_manifest_sha256 = rq_runtime_manifest_sha256 r,
        rq_coordinator_key_id = rq_coordinator_key_id r,
        rq_coordinator_public_key_sha256 = rq_coordinator_public_key_sha256 r,
        rq_candidate_sha256 = rq_candidate_sha256 r,
        rq_candidate_snapshot_sha256 = rq_candidate_snapshot_sha256 r,
        rq_review_packet_sha256 = rq_review_packet_sha256 r,
        rq_input_artifacts_sha256 = rq_input_artifacts_sha256 r,
        rq_request_sha256 = rq_request_sha256 r\<rparr> = r" by simp
  show ?thesis
    unfolding request_model_def md bindE_simps opt get_str_def get_int_def request_fields json.case
      phase_from_string eta
    using assms by (simp add: valid_phase_request_def)
qed

definition valid_phase_result :: "hash_fn \<Rightarrow> phase_result \<Rightarrow> bool" where
  "valid_phase_result sha r \<longleftrightarrow> result_validate sha r = Inr r \<and> valid_phase_request sha (rs_request r)"

lemma artifact_model_dump:
  assumes "artifact_ok a"
  shows "artifact_model (JObj [(u ''name'', JStr (pa_name a)), (u ''sha256'', JStr (pa_sha256 a))]) = Inr a"
  using assms by (cases a) (simp add: artifact_model_def get_str_def fld_def Let_def)

lemma artifacts_model_dump: "list_all artifact_ok arts \<Longrightarrow> artifacts_model (artifacts_dump arts) = Inr arts"
  by (simp add: artifacts_model_def artifacts_dump_def)
    (induction arts, simp_all add: artifact_model_dump)

lemma result_model_dump:
  assumes "valid_phase_result sha r"
  shows "result_model sha (JObj (as_dict (result_dump r))) = Inr r"
proof -
  let ?d = "as_dict (result_dump r)"
  have v: "result_validate sha r = Inr r" "valid_phase_request sha (rs_request r)"
    using assms by (simp_all add: valid_phase_result_def)
  have ok: "list_all artifact_ok (rs_artifacts r)"
    using v(1) by (auto simp: result_validate_def result_simps result_fields_ok_def)
  have keys: "set (map fst ?d) \<subseteq> set (map u RESULT_FIELDS)"
    unfolding keys_as_dict by (auto simp: result_dump_def result_payload_def RESULT_FIELDS_def)
  then have md: "model_dict RESULT_FIELDS (JObj ?d) = Inr ?d"
    by (simp add: model_dict_def fld_version result_fields del: set_map)
  have opt: "get_opt ?d ''candidate_snapshot_sha256'' = Inr (rs_candidate_snapshot_sha256 r)"
    "get_opt ?d ''review_packet_sha256'' = Inr (rs_review_packet_sha256 r)"
    "get_opt ?d ''external_execution_sha256'' = Inr (rs_external_execution_sha256 r)"
    by (simp_all add: get_opt_optional result_fields)
  have eta: "\<lparr>rs_request = rs_request r, rs_output_artifacts_sha256 = rs_output_artifacts_sha256 r,
        rs_artifacts = rs_artifacts r, rs_candidate_snapshot_sha256 = rs_candidate_snapshot_sha256 r,
        rs_review_packet_sha256 = rs_review_packet_sha256 r,
        rs_external_execution_sha256 = rs_external_execution_sha256 r,
        rs_coordinator_output_sha256 = rs_coordinator_output_sha256 r,
        rs_phase_sha256 = rs_phase_sha256 r\<rparr> = r" by simp
  show ?thesis
    unfolding result_model_def md bindE_simps opt get_str_def result_fields json.case
      request_model_dump [OF v(2)] artifacts_model_dump [OF ok] eta
    by (rule v(1))
qed

lemma read_request_dump:
  assumes "valid_phase_request sha r" and "canonical_json_bytes (JObj (request_dump r)) = Inr raw"
  shows "read_request sha raw = Inr r"
proof -
  have "request_fields_ok r" using assms(1) by (simp add: valid_phase_request_iff)
  then show ?thesis
    using load_json_canonical [OF request_dump_clean(1)] assms request_model_dump
    by (simp add: read_request_def canonical_json_bytes_Inr)
qed

lemma read_result_dump:
  assumes "valid_phase_result sha r" and "canonical_json_bytes (JObj (result_dump r)) = Inr raw"
  shows "read_result sha raw = Inr r"
proof -
  have "result_fields_ok r" "request_fields_ok (rs_request r)"
    using assms(1) by (auto simp: valid_phase_result_def result_validate_def result_simps valid_phase_request_iff)
  then show ?thesis
    using load_json_canonical [OF result_dump_clean] assms result_model_dump
    by (simp add: read_result_def canonical_json_bytes_Inr)
qed

text \<open>
  Stored evidence. What the ledger stores of a valid result is read back as exactly that
  result: the canonical bytes exist and \<open>model_validate_json\<close> inverts them.
\<close>

theorem stored_result_roundtrip:
  assumes "valid_phase_result sha r"
  shows "\<exists>raw. canonical_json_bytes (JObj (result_dump r)) = Inr raw \<and> read_result sha raw = Inr r"
proof -
  have "result_fields_ok r" "request_fields_ok (rs_request r)"
    using assms by (auto simp: valid_phase_result_def result_validate_def result_simps valid_phase_request_iff)
  then obtain raw where "canonical (JObj (result_dump r)) = Inr raw"
    using result_dump_clean canonical_clean by metis
  with read_result_dump [OF assms] show ?thesis by (auto simp: canonical_json_bytes_Inr)
qed

lemma demo_result_valid_model: "valid_phase_result (\<lambda>_. zeros) demo_phase_result"
proof -
  have "result_validate (\<lambda>_. zeros) demo_phase_result = Inr demo_phase_result"
    using demo_result_created [of "[]"]
    by (auto simp: result_create_def result_simps result_validate_def result_contract_def Let_def)
  then show ?thesis using demo_request_valid(1) by (simp add: valid_phase_result_def demo_phase_result_def)
qed

lemma stored_result_roundtrip_witness:
  "\<exists>raw. canonical_json_bytes (JObj (result_dump demo_phase_result)) = Inr raw
     \<and> read_result (\<lambda>_. zeros) raw = Inr demo_phase_result"
  by (rule stored_result_roundtrip [OF demo_result_valid_model])

section \<open>The chain of results\<close>

lemma chain_from_Inr: "chain_from acc rs = Inr out \<Longrightarrow> out = acc @ rs"
  by (induction acc rs rule: chain_from.induct) (auto simp: result_simps chain_accept_def)

lemma bindE_id: "bindE m Inr = m"
  by (cases m) simp_all

lemma chain_from_snoc: "chain_from acc (rs @ [r]) = bindE (chain_from acc rs) (\<lambda>out. chain_accept out r)"
  by (induction acc rs rule: chain_from.induct)
    (auto simp: bindE_assoc bindE_id intro!: bindE_cong)

lemma phase_chain_snoc:
  "phase_chain rs = Inr rs \<Longrightarrow> chain_validate_request rs (rs_request r) = Inr () \<Longrightarrow> phase_chain (rs @ [r]) = Inr (rs @ [r])"
  by (simp add: phase_chain_def chain_from_snoc chain_accept_def)

lemma chain_request_position:
  assumes "chain_validate_request rs q = Inr ()"
  shows "rq_sequence q = int (length rs) + 1" and "length rs < 7"
    and "rs \<noteq> [] \<Longrightarrow> rq_workflow_id q = rq_workflow_id (rs_request (last rs))"
  using assms by (auto simp: chain_validate_request_def result_simps Let_def PHASES_def split: if_splits)

lemma phase_chain_sequences:
  "phase_chain rs = Inr rs \<Longrightarrow> map (\<lambda>r. rq_sequence (rs_request r)) rs = map int [1..<Suc (length rs)] \<and> length rs \<le> 7"
proof (induction rs rule: rev_induct)
  case (snoc r rs)
  from snoc.prems obtain out where "chain_from [] rs = Inr out" "chain_accept out r = Inr (rs @ [r])"
    by (auto simp: phase_chain_def chain_from_snoc result_simps)
  then have c: "phase_chain rs = Inr rs" "chain_validate_request rs (rs_request r) = Inr ()"
    using chain_from_Inr [of "[]" rs out] by (auto simp: phase_chain_def chain_accept_def result_simps)
  with snoc.IH chain_request_position [OF c(2)] show ?case by simp
qed simp

section \<open>The journal a ledger represents\<close>

text \<open>
  The abstract ledger: per workflow the committed results, and the request that was consumed
  and has no result yet.
\<close>

type_synonym journal = "pystr \<Rightarrow> phase_result list \<times> phase_request option"

definition journal_ok :: "hash_fn \<Rightarrow> pystr \<Rightarrow> phase_result list \<times> phase_request option \<Rightarrow> bool" where
  "journal_ok sha w e \<longleftrightarrow>
     list_all (\<lambda>r. valid_phase_result sha r \<and> rq_workflow_id (rs_request r) = w) (fst e)
     \<and> phase_chain (fst e) = Inr (fst e)
     \<and> (case snd e of
          None \<Rightarrow> True
        | Some q \<Rightarrow> valid_phase_request sha q \<and> rq_workflow_id q = w
            \<and> chain_validate_request (fst e) q = Inr ())"

definition holds_request :: "hash_fn \<Rightarrow> ledger_row \<Rightarrow> phase_request \<Rightarrow> bool" where
  "holds_request sha r q \<longleftrightarrow>
     row_workflow_id r = rq_workflow_id q \<and> row_sequence r = rq_sequence q \<and> row_phase r = rq_phase q
     \<and> row_request_sha256 r = rq_request_sha256 q \<and> read_request sha (row_request_json r) = Inr q"

definition holds_result :: "hash_fn \<Rightarrow> ledger_row \<Rightarrow> phase_result \<Rightarrow> bool" where
  "holds_result sha r result \<longleftrightarrow>
     holds_request sha r (rs_request result) \<and> row_status r = Complete
     \<and> row_result_sha256 r = Some (rs_phase_sha256 result)
     \<and> (\<exists>raw. row_result_json r = Some raw \<and> read_result sha raw = Inr result)"

definition holds_pending :: "hash_fn \<Rightarrow> ledger_row \<Rightarrow> phase_request \<Rightarrow> bool" where
  "holds_pending sha r q \<longleftrightarrow> holds_request sha r q \<and> row_status r = Pending"

definition rows_as :: "hash_fn \<Rightarrow> ledger \<Rightarrow> phase_result list \<times> phase_request option \<Rightarrow> bool" where
  "rows_as sha rows e \<longleftrightarrow>
     (case snd e of
        None \<Rightarrow> list_all2 (holds_result sha) rows (fst e)
      | Some q \<Rightarrow> \<exists>rs r. rows = rs @ [r] \<and> list_all2 (holds_result sha) rs (fst e) \<and> holds_pending sha r q)"

definition represents :: "hash_fn \<Rightarrow> ledger \<Rightarrow> journal \<Rightarrow> bool" where
  "represents sha rows j \<longleftrightarrow>
     distinct (map row_request_sha256 rows)
     \<and> (\<forall>w. rows_as sha (workflow_rows w rows) (j w) \<and> journal_ok sha w (j w))"

lemma represents_empty: "represents sha [] (\<lambda>_. ([], None))"
  by (simp add: represents_def rows_as_def journal_ok_def workflow_rows_def phase_chain_def)

lemma workflow_rows_append: "workflow_rows w (rows @ [r]) = workflow_rows w rows @ (if row_workflow_id r = w then [r] else [])"
  by (simp add: workflow_rows_def)

lemma holds_result_sequences:
  "list_all2 (holds_result sha) rs results \<Longrightarrow> map row_sequence rs = map (\<lambda>r. rq_sequence (rs_request r)) results"
  by (induction rule: list_all2_induct) (auto simp: holds_result_def holds_request_def)

lemma sorted_map_int: "sorted (map int [a..<b])"
  by (simp add: sorted_map sorted_wrt_upt)

lemma read_completed:
  assumes "list_all2 (holds_result sha) rs results"
  shows "mapE (\<lambda>r. case row_result_json r of None \<Rightarrow> Inl e | Some raw \<Rightarrow> read_result sha raw) rs = Inr results"
  using assms by (induction rule: list_all2_induct) (auto simp: holds_result_def)

lemma completed_results_represented:
  assumes "rows_as sha (workflow_rows w rows) (j w)" and "journal_ok sha w (j w)" and "snd (j w) = None"
  shows "completed_results sha rows w = Inr (fst (j w))"
proof -
  have l: "list_all2 (holds_result sha) (workflow_rows w rows) (fst (j w))"
    using assms(1,3) by (simp add: rows_as_def)
  have "row_status r = Complete" if "r \<in> set (workflow_rows w rows)" for r
    using l that by (auto simp: holds_result_def list_all2_conv_all_nth in_set_conv_nth)
  then have f: "filter (\<lambda>r. row_workflow_id r = w \<and> row_status r = Complete) rows = workflow_rows w rows"
    unfolding workflow_rows_def by (intro filter_cong) auto
  have "map row_sequence (workflow_rows w rows) = map int [1..<Suc (length (fst (j w)))]"
    using holds_result_sequences [OF l] phase_chain_sequences [of "fst (j w)"] assms(2)
    by (simp add: journal_ok_def)
  then have "sorted (map row_sequence (workflow_rows w rows))" using sorted_map_int by metis
  then show ?thesis
    unfolding completed_results_def f using read_completed [OF l] by (simp add: sort_key_id_if_sorted)
qed

text \<open>A successful claim is the abstract one: nothing was pending, and the request is the next.\<close>

lemma ledger_claim_refines:
  assumes r: "represents sha rows j" and v: "valid_phase_request sha q"
    and c: "ledger_claim sha rows q = Inr rows'"
  defines "w \<equiv> rq_workflow_id q"
  shows "snd (j w) = None" and "chain_validate_request (fst (j w)) q = Inr ()"
    and "represents sha rows' (j(w := (fst (j w), Some q)))"
proof -
  have ra: "rows_as sha (workflow_rows w rows) (j w)" and jo: "journal_ok sha w (j w)"
    using r by (simp_all add: represents_def)
  from c obtain results raw
    where fresh: "\<not> list_ex (\<lambda>r. row_request_sha256 r = rq_request_sha256 q
           \<or> row_workflow_id r = rq_workflow_id q \<and> row_sequence r = rq_sequence q) rows"
      and np: "\<not> list_ex (\<lambda>r. row_workflow_id r = rq_workflow_id q \<and> row_status r = Pending) rows"
      and cr: "completed_results sha rows w = Inr results"
      and cv: "bindE (phase_chain results) (\<lambda>chain. chain_validate_request chain q) = Inr ()"
      and raw: "canonical_json_bytes (JObj (request_dump q)) = Inr raw"
      and ins: "insert_row (row_for q raw) rows = Inr rows'"
    unfolding ledger_claim_def w_def by (auto simp: result_simps)
  show none: "snd (j w) = None"
  proof (rule ccontr)
    assume "snd (j w) \<noteq> None"
    then obtain rs r q' where e: "workflow_rows w rows = rs @ [r]" and p: "holds_pending sha r q'"
      using ra by (auto simp: rows_as_def)
    have "r \<in> set (workflow_rows w rows)" unfolding e by simp
    then have "r \<in> set rows" "row_workflow_id r = w" by (simp_all add: workflow_rows_def)
    moreover have "row_status r = Pending" using p by (simp add: holds_pending_def)
    ultimately show False using np by (auto simp: list_ex_iff w_def)
  qed
  have "results = fst (j w)" using completed_results_represented [where j = j and w = w, OF ra jo none] cr by simp
  moreover have "phase_chain (fst (j w)) = Inr (fst (j w))" using jo by (simp add: journal_ok_def)
  ultimately show cv': "chain_validate_request (fst (j w)) q = Inr ()" using cv by simp
  have rows': "rows' = rows @ [row_for q raw]" using ins by (simp add: insert_row_def result_simps)
  have "read_request sha raw = Inr q" by (rule read_request_dump [OF v raw])
  then have hp: "holds_pending sha (row_for q raw) q"
    by (simp add: holds_pending_def holds_request_def row_for_def)
  have "distinct (map row_request_sha256 rows')"
    using r fresh by (auto simp: represents_def rows' row_for_def list_ex_iff)
  moreover have "rows_as sha (workflow_rows x rows') ((j(w := (fst (j w), Some q))) x)
      \<and> journal_ok sha x ((j(w := (fst (j w), Some q))) x)" for x
  proof (cases "x = w")
    case True
    have "workflow_rows w rows' = workflow_rows w rows @ [row_for q raw]"
      by (simp add: rows' workflow_rows_append row_for_def w_def)
    with True ra none hp jo cv' v show ?thesis by (auto simp: rows_as_def journal_ok_def w_def)
  next
    case False
    then have "workflow_rows x rows' = workflow_rows x rows"
      by (simp add: rows' workflow_rows_append row_for_def w_def)
    with False r show ?thesis by (simp add: represents_def)
  qed
  ultimately show "represents sha rows' (j(w := (fst (j w), Some q)))" by (simp add: represents_def)
qed

text \<open>A successful commit is the abstract one: it completes the pending request.\<close>

lemma workflow_rows_map:
  "(\<And>r. row_workflow_id (f r) = row_workflow_id r) \<Longrightarrow> workflow_rows x (map f rows) = map f (workflow_rows x rows)"
  unfolding workflow_rows_def by (induction rows) auto

lemma complete_row_columns [simp]:
  "row_workflow_id (complete_row result raw r) = row_workflow_id r"
  "row_request_sha256 (complete_row result raw r) = row_request_sha256 r"
  by (simp_all add: complete_row_def)

lemma find_in_workflow:
  "find (\<lambda>r. row_workflow_id r = w \<and> row_sequence r = n) rows = find (\<lambda>r. row_sequence r = n) (workflow_rows w rows)"
  unfolding workflow_rows_def by (induction rows) auto

lemma find_SomeD: "find P xs = Some x \<Longrightarrow> P x \<and> x \<in> set xs"
  by (induction xs) (auto split: if_splits)

lemma complete_others:
  assumes "list_all2 (holds_result sha) rs results"
  shows "map (complete_row result raw) rs = rs"
  using assms by (induction rule: list_all2_induct) (auto simp: holds_result_def complete_row_def)

lemma ledger_commit_refines:
  assumes r: "represents sha rows j" and v: "valid_phase_result sha result"
    and c: "ledger_commit sha rows result = Inr rows'"
  defines "w \<equiv> rq_workflow_id (rs_request result)"
  shows "snd (j w) = Some (rs_request result)"
    and "represents sha rows' (j(w := (fst (j w) @ [result], None)))"
proof -
  let ?n = "rq_sequence (rs_request result)"
  have ra: "rows_as sha (workflow_rows w rows) (j w)" and jo: "journal_ok sha w (j w)"
    using r by (simp_all add: represents_def)
  from c obtain row raw
    where f: "find (\<lambda>r. row_workflow_id r = w \<and> row_sequence r = ?n) rows = Some row"
      and st: "row_status row = Pending" and rd: "read_request sha (row_request_json row) = Inr (rs_request result)"
      and raw: "canonical_json_bytes (JObj (result_dump result)) = Inr raw"
      and rows': "rows' = map (complete_row result raw) rows"
    unfolding ledger_commit_def w_def Let_def by (auto simp: result_simps split: option.splits)
  have fw: "row_sequence row = ?n" "row \<in> set (workflow_rows w rows)"
    using find_SomeD [OF f [unfolded find_in_workflow]] by simp_all
  have "snd (j w) \<noteq> None"
  proof
    assume "snd (j w) = None"
    then have "list_all2 (holds_result sha) (workflow_rows w rows) (fst (j w))" using ra by (simp add: rows_as_def)
    with fw(2) st show False
      by (auto simp: holds_result_def list_all2_conv_all_nth in_set_conv_nth)
  qed
  then obtain q rs r where q: "snd (j w) = Some q" "workflow_rows w rows = rs @ [r]"
      "list_all2 (holds_result sha) rs (fst (j w))" "holds_pending sha r q"
    using ra by (auto simp: rows_as_def)
  have "row \<notin> set rs"
    using q(3) st by (auto simp: holds_result_def list_all2_conv_all_nth in_set_conv_nth)
  with fw(2) q(2) have row: "row = r" by simp
  then have qr: "q = rs_request result" using rd q(4) by (simp add: holds_pending_def holds_request_def)
  with q(1) show "snd (j w) = Some (rs_request result)" by simp
  have wid: "row_workflow_id r = w" using q(4) qr by (simp add: holds_pending_def holds_request_def w_def)
  have hr: "holds_result sha (complete_row result raw r) result"
    using q(4) qr row st fw(1) wid read_result_dump [OF v raw]
    by (simp add: holds_result_def holds_pending_def holds_request_def complete_row_def w_def)
  have rw: "workflow_rows w rows' = rs @ [complete_row result raw r]"
    unfolding rows' using q(2) complete_others [OF q(3)] by (simp add: workflow_rows_map)
  have cv: "chain_validate_request (fst (j w)) (rs_request result) = Inr ()"
    using jo q(1) qr by (simp add: journal_ok_def)
  have "distinct (map row_request_sha256 rows')"
    using r by (simp add: represents_def rows' comp_def)
  moreover have "rows_as sha (workflow_rows x rows') ((j(w := (fst (j w) @ [result], None))) x)
      \<and> journal_ok sha x ((j(w := (fst (j w) @ [result], None))) x)" for x
  proof (cases "x = w")
    case True
    have "rows_as sha (workflow_rows w rows') (fst (j w) @ [result], None)"
      using rw q(3) hr by (simp add: rows_as_def list_all2_appendI)
    moreover have "journal_ok sha w (fst (j w) @ [result], None)"
      using jo v cv by (simp add: journal_ok_def phase_chain_snoc w_def)
    ultimately show ?thesis using True by simp
  next
    case False
    have "map (complete_row result raw) (workflow_rows x rows) = workflow_rows x rows"
      by (rule map_idI) (use False in \<open>auto simp: workflow_rows_def complete_row_def w_def\<close>)
    then have "workflow_rows x rows' = workflow_rows x rows"
      unfolding rows' by (simp add: workflow_rows_map)
    with False r show ?thesis by (simp add: represents_def)
  qed
  ultimately show "represents sha rows' (j(w := (fst (j w) @ [result], None)))" by (simp add: represents_def)
qed

section \<open>Reachable ledgers\<close>

text \<open>Any interleaving of successful claims and commits; a failed one rolls back.\<close>

inductive ledger_step :: "hash_fn \<Rightarrow> ledger \<Rightarrow> ledger \<Rightarrow> bool" for sha where
  step_claim: "valid_phase_request sha q \<Longrightarrow> ledger_claim sha rows q = Inr rows' \<Longrightarrow> ledger_step sha rows rows'"
| step_commit: "valid_phase_result sha r \<Longrightarrow> ledger_commit sha rows r = Inr rows' \<Longrightarrow> ledger_step sha rows rows'"

inductive_cases ledger_stepE: "ledger_step sha rows rows'"

lemma ledger_step_represents:
  "ledger_step sha rows rows' \<Longrightarrow> represents sha rows j \<Longrightarrow> \<exists>j'. represents sha rows' j'"
  by (erule ledger_stepE) (blast dest: ledger_claim_refines(3) ledger_commit_refines(2))+

lemma reachable_represents:
  "(ledger_step sha)\<^sup>*\<^sup>* [] rows \<Longrightarrow> \<exists>j. represents sha rows j"
  by (induction rule: rtranclp_induct) (blast intro: represents_empty ledger_step_represents)+

definition claimed :: "ledger \<Rightarrow> phase_request \<Rightarrow> bool" where
  "claimed rows q \<longleftrightarrow> list_ex (\<lambda>r. row_request_sha256 r = rq_request_sha256 q) rows"

lemma ledger_claim_rows:
  "ledger_claim sha rows q = Inr rows' \<Longrightarrow> \<exists>raw. rows' = rows @ [row_for q raw] \<and> \<not> claimed rows q"
  by (auto simp: ledger_claim_def insert_row_def result_simps claimed_def list_ex_iff)

lemma ledger_commit_rows:
  "ledger_commit sha rows r = Inr rows' \<Longrightarrow> \<exists>raw. rows' = map (complete_row r raw) rows"
  by (auto simp: ledger_commit_def Let_def result_simps split: option.splits)

lemma claimed_kept:
  "ledger_claim sha rows q = Inr rows' \<or> ledger_commit sha rows r = Inr rows' \<Longrightarrow> claimed rows k \<Longrightarrow> claimed rows' k"
  by (auto simp: claimed_def list_ex_iff dest!: ledger_claim_rows ledger_commit_rows)

text \<open>The phase ledger is a consume-once journal of requests.\<close>

interpretation ledger_once: consume_once claimed
  "\<lambda>rows rows'. (\<exists>q. ledger_claim sha rows q = Inr rows') \<or> (\<exists>r. ledger_commit sha rows r = Inr rows')"
  "ledger_claim sha" for sha
proof
  fix s k s' assume c: "ledger_claim sha s k = Inr s'"
  then obtain raw where s': "s' = s @ [row_for k raw]" and n: "\<not> claimed s k"
    using ledger_claim_rows by blast
  show "\<not> claimed s k" by (rule n)
  show "claimed s' k" by (simp add: s' claimed_def row_for_def)
  show "(\<exists>q. ledger_claim sha s q = Inr s') \<or> (\<exists>r. ledger_commit sha s r = Inr s')" using c by blast
next
  fix s s' k
  assume "(\<exists>q. ledger_claim sha s q = Inr s') \<or> (\<exists>r. ledger_commit sha s r = Inr s')" and "claimed s k"
  then show "claimed s' k" using claimed_kept by blast
qed

section \<open>Properties of the ledger\<close>

lemma represents_shape:
  assumes "represents sha rows j"
  defines "n w \<equiv> length (workflow_rows w rows)"
  shows "map row_sequence (workflow_rows w rows) = map int [1..<Suc (n w)]" and "n w \<le> 7"
    and "list_all (\<lambda>r. row_status r = Complete) (butlast (workflow_rows w rows))"
    and "phase_chain (fst (j w)) = Inr (fst (j w))"
proof -
  have ra: "rows_as sha (workflow_rows w rows) (j w)" and jo: "journal_ok sha w (j w)"
    using assms(1) by (simp_all add: represents_def)
  note chain = phase_chain_sequences [of "fst (j w)"]
  have pc: "phase_chain (fst (j w)) = Inr (fst (j w))" using jo by (simp add: journal_ok_def)
  then show "phase_chain (fst (j w)) = Inr (fst (j w))" .
  have all: "list_all (\<lambda>r. row_status r = Complete) rs" if "list_all2 (holds_result sha) rs results" for rs results
    using that by (induction rule: list_all2_induct) (auto simp: holds_result_def)
  show "map row_sequence (workflow_rows w rows) = map int [1..<Suc (n w)]"
    "n w \<le> 7" "list_all (\<lambda>r. row_status r = Complete) (butlast (workflow_rows w rows))"
  proof (atomize (full), cases "snd (j w)")
    case None
    then have l: "list_all2 (holds_result sha) (workflow_rows w rows) (fst (j w))" using ra by (simp add: rows_as_def)
    then have "length (workflow_rows w rows) = length (fst (j w))" by (rule list_all2_lengthD)
    with holds_result_sequences [OF l] chain [OF pc] all [OF l]
    show "map row_sequence (workflow_rows w rows) = map int [1..<Suc (n w)] \<and> n w \<le> 7
        \<and> list_all (\<lambda>r. row_status r = Complete) (butlast (workflow_rows w rows))"
      by (auto simp: n_def list_all_iff dest: in_set_butlastD)
  next
    case (Some q)
    then obtain rs r where q: "workflow_rows w rows = rs @ [r]" "list_all2 (holds_result sha) rs (fst (j w))"
      "holds_pending sha r q" using ra by (auto simp: rows_as_def)
    then have "length rs = length (fst (j w))" by (blast dest: list_all2_lengthD)
    moreover have "chain_validate_request (fst (j w)) q = Inr ()" using jo Some by (simp add: journal_ok_def)
    ultimately show "map row_sequence (workflow_rows w rows) = map int [1..<Suc (n w)] \<and> n w \<le> 7
        \<and> list_all (\<lambda>r. row_status r = Complete) (butlast (workflow_rows w rows))"
      using holds_result_sequences [OF q(2)] chain [OF pc] all [OF q(2)] q(1,3)
        chain_request_position(1,2) [of "fst (j w)" q]
      by (simp add: n_def holds_pending_def holds_request_def)
  qed
qed

text \<open>
  C7. The ledger follows the phase order. After any interleaving of claims and commits, the
  rows of each workflow are the phases 1, 2, ... in order and at most seven, and every row but
  the last is complete: at most one phase of a workflow is pending, and it is the last.
\<close>

theorem ledger_follows_phase_order:
  assumes "(ledger_step sha)\<^sup>*\<^sup>* [] rows"
  shows "map row_sequence (workflow_rows w rows) = map int [1..<Suc (length (workflow_rows w rows))]
     \<and> length (workflow_rows w rows) \<le> 7
     \<and> list_all (\<lambda>r. row_status r = Complete) (butlast (workflow_rows w rows))"
proof -
  obtain j where "represents sha rows j" using reachable_represents [OF assms] ..
  from represents_shape [OF this, of w] show ?thesis by simp
qed

text \<open>The first claim of the demonstration workflow.\<close>

lemma demo_claim:
  obtains raw where "canonical_json_bytes (JObj (request_dump demo_phase_request)) = Inr raw"
    and "ledger_claim (\<lambda>_. zeros) [] demo_phase_request = Inr [row_for demo_phase_request raw]"
proof -
  have "request_fields_ok demo_phase_request" using demo_request_valid(1) by (simp add: valid_phase_request_iff)
  then obtain raw where raw: "canonical (JObj (request_dump demo_phase_request)) = Inr raw"
    using request_dump_clean(1) canonical_clean by metis
  have "ledger_claim (\<lambda>_. zeros) [] demo_phase_request = Inr [row_for demo_phase_request raw]"
    using raw by (simp add: ledger_claim_def completed_results_def phase_chain_def insert_row_def
        canonical_json_bytes_Inr [THEN iffD2] chain_validate_request_def PHASES_def)
      (simp add: demo_phase_request_def)
  with raw that show thesis by (simp add: canonical_json_bytes_Inr)
qed

lemma ledger_follows_phase_order_witness:
  "\<exists>rows. rows \<noteq> [] \<and> map row_sequence (workflow_rows zeros rows)
     = map int [1..<Suc (length (workflow_rows zeros rows))]"
proof -
  obtain raw where "ledger_claim (\<lambda>_. zeros) [] demo_phase_request = Inr [row_for demo_phase_request raw]"
    by (rule demo_claim)
  from step_claim [OF demo_request_valid(1) this]
  have "(ledger_step (\<lambda>_. zeros))\<^sup>*\<^sup>* [] [row_for demo_phase_request raw]" by (rule r_into_rtranclp)
  from ledger_follows_phase_order [OF this, of zeros] show ?thesis by blast
qed

text \<open>
  Claiming implements the abstract journal. A successful claim happens only when the
  workflow has no pending request and the request is the next one after its committed results;
  the table then represents the journal in which that request is pending and nothing else
  changed.
\<close>

theorem ledger_claim_implements_journal:
  assumes "represents sha rows j" and "valid_phase_request sha q" and "ledger_claim sha rows q = Inr rows'"
  shows "snd (j (rq_workflow_id q)) = None
     \<and> chain_validate_request (fst (j (rq_workflow_id q))) q = Inr ()
     \<and> represents sha rows' (j(rq_workflow_id q := (fst (j (rq_workflow_id q)), Some q)))"
  using ledger_claim_refines [OF assms] by blast

lemma ledger_claim_implements_journal_witness:
  "\<exists>rows. ledger_claim (\<lambda>_. zeros) [] demo_phase_request = Inr rows
     \<and> represents (\<lambda>_. zeros) rows ((\<lambda>_. ([], None))(zeros := ([], Some demo_phase_request)))"
proof -
  obtain raw where c: "ledger_claim (\<lambda>_. zeros) [] demo_phase_request = Inr [row_for demo_phase_request raw]"
    by (rule demo_claim)
  have "rq_workflow_id demo_phase_request = zeros" by (simp add: demo_phase_request_def)
  with ledger_claim_implements_journal [OF represents_empty demo_request_valid(1) c] c show ?thesis by auto
qed

text \<open>
  C8. Committing implements the abstract journal. A successful commit finds exactly the
  result's request pending, and the table then represents the journal in which the result was
  appended and nothing is pending.
\<close>

theorem ledger_commit_implements_journal:
  assumes "represents sha rows j" and "valid_phase_result sha r" and "ledger_commit sha rows r = Inr rows'"
  defines "w \<equiv> rq_workflow_id (rs_request r)"
  shows "snd (j w) = Some (rs_request r) \<and> represents sha rows' (j(w := (fst (j w) @ [r], None)))"
  using ledger_commit_refines [OF assms(1-3)] by (simp add: w_def)

lemma ledger_commit_implements_journal_witness:
  "\<exists>rows rows'. ledger_commit (\<lambda>_. zeros) rows demo_phase_result = Inr rows'
     \<and> represents (\<lambda>_. zeros) rows' ((\<lambda>_. ([], None))(zeros := ([demo_phase_result], None)))"
proof -
  obtain raw where raw: "canonical_json_bytes (JObj (request_dump demo_phase_request)) = Inr raw"
    and c: "ledger_claim (\<lambda>_. zeros) [] demo_phase_request = Inr [row_for demo_phase_request raw]"
    by (rule demo_claim)
  have w: "rq_workflow_id demo_phase_request = zeros" "rs_request demo_phase_result = demo_phase_request"
    by (simp_all add: demo_phase_request_def demo_phase_result_def)
  have rep: "represents (\<lambda>_. zeros) [row_for demo_phase_request raw]
      ((\<lambda>_. ([], None))(zeros := ([], Some demo_phase_request)))"
    using ledger_claim_refines(3) [OF represents_empty demo_request_valid(1) c] w by simp
  have "result_fields_ok demo_phase_result" "request_fields_ok (rs_request demo_phase_result)"
    using demo_result_valid_model
    by (auto simp: valid_phase_result_def result_validate_def result_simps valid_phase_request_iff)
  then obtain rraw where "canonical (JObj (result_dump demo_phase_result)) = Inr rraw"
    using result_dump_clean canonical_clean by metis
  then have "ledger_commit (\<lambda>_. zeros) [row_for demo_phase_request raw] demo_phase_result
      = Inr [complete_row demo_phase_result rraw (row_for demo_phase_request raw)]"
    using read_request_dump [OF demo_request_valid(1) raw]
    by (simp add: ledger_commit_def row_for_def w canonical_json_bytes_Inr [THEN iffD2])
  with ledger_commit_implements_journal [OF rep demo_result_valid_model this] show ?thesis
    by (auto simp: w)
qed

text \<open>
  No phase is claimed twice. Once a request was claimed, claiming it again fails, after
  any number of further claims and commits of this or other workflows.
\<close>

theorem request_is_claimed_once:
  assumes "ledger_claim sha rows0 q = Inr rows" and "(ledger_step sha)\<^sup>*\<^sup>* rows rows'"
  shows "\<exists>e. ledger_claim sha rows' q = Inl e"
proof (rule ledger_once.never_again [OF assms(1)])
  show "(\<lambda>rows rows'. (\<exists>q. ledger_claim sha rows q = Inr rows')
      \<or> (\<exists>r. ledger_commit sha rows r = Inr rows'))\<^sup>*\<^sup>* rows rows'"
    using assms(2) by (rule rtranclp_mono [THEN predicate2D, rotated]) (auto elim: ledger_stepE)
qed

lemma request_is_claimed_once_witness:
  "\<exists>rows e. ledger_claim (\<lambda>_. zeros) [] demo_phase_request = Inr rows
     \<and> ledger_claim (\<lambda>_. zeros) rows demo_phase_request = Inl e"
proof -
  obtain raw where c: "ledger_claim (\<lambda>_. zeros) [] demo_phase_request = Inr [row_for demo_phase_request raw]"
    by (rule demo_claim)
  from request_is_claimed_once [OF c rtranclp.rtrancl_refl] c show ?thesis by blast
qed

end
