(* ===== verification/Phase_Run.thy ===== *)
theory Phase_Run
  imports Phase_Ledger_Facts
begin

text \<open>
  \<open>execute_phase\<close>, \<open>persist_phase_output\<close> and \<open>run_claimed_phase\<close> over an explicit world: the
  ledger's table, the files below the output directory, and the log of effects. An operation
  returns its value or exception together with the world it left behind, so the state after a
  failure is part of the model.
\<close>

section \<open>The world and its operations\<close>

type_synonym path = "pystr \<times> pystr"

datatype effect =
    Claimed | Prepared bool | RanOffline | RanBroker | Finalized | Wrote path | Committed

record world =
  w_rows :: ledger
  w_files :: "path \<Rightarrow> bytes option"
  w_log :: "effect list"

type_synonym 'a io = "world \<Rightarrow> (pp_error + 'a) \<times> world"

definition bindW :: "'a io \<Rightarrow> ('a \<Rightarrow> 'b io) \<Rightarrow> 'b io" where
  "bindW m f w = (case m w of (Inl e, w') \<Rightarrow> (Inl e, w') | (Inr x, w') \<Rightarrow> f x w')"

definition liftW :: "pp_error + 'a \<Rightarrow> 'a io" where
  "liftW m w = (m, w)"

definition logW :: "effect \<Rightarrow> 'a io \<Rightarrow> 'a io" where
  "logW e m w = m (w\<lparr>w_log := w_log w @ [e]\<rparr>)"

text \<open>
  The callbacks, and what the file system decides: \<open>pe_safe\<close> is \<open>resolve_safe_output\<close>,
  \<open>pe_write_ok\<close> tells whether opening, writing and syncing a new file succeeds.
\<close>

record phase_env =
  pe_prepare :: "phase_request \<Rightarrow> bool \<Rightarrow> pp_error + (phase_action \<times> bytes)"
  pe_finalize :: "phase_action \<Rightarrow> bytes \<Rightarrow> pp_error + bytes"
  pe_offline :: "phase_action \<Rightarrow> bytes \<Rightarrow> pp_error + bytes"
  pe_broker :: "phase_action \<Rightarrow> bytes \<Rightarrow> pp_error + bytes"
  pe_safe :: "path \<Rightarrow> bool"
  pe_write_ok :: "path \<Rightarrow> bool"

definition bounded :: "string \<Rightarrow> nat \<Rightarrow> bytes \<Rightarrow> pp_error + bytes" where
  "bounded label maximum raw =
     (if raw = [] \<or> maximum < length raw
      then Inl (PhaseProtocolError (label @ '' is empty or exceeds its byte limit'')) else Inr raw)"

record phase_execution =
  ex_action :: phase_action
  ex_payload :: bytes
  ex_output :: coordinator_output
  ex_verified :: bytes
  ex_verified_sha256 :: pystr
  ex_evidence :: "bytes option"
  ex_evidence_sha256 :: "pystr option"

definition run_executor :: "phase_env \<Rightarrow> phase_action \<Rightarrow> bytes \<Rightarrow> bytes option io" where
  "run_executor env action payload =
     (case ac_external_kind action of
        KOffline \<Rightarrow> logW RanOffline (liftW
          (bindE (pe_offline env action payload) (\<lambda>raw.
           bindE (bounded ''offline execution evidence'' MAX_EVIDENCE_BYTES raw) (\<lambda>raw. Inr (Some raw)))))
      | KBroker \<Rightarrow> logW RanBroker (liftW
          (bindE (pe_broker env action payload) (\<lambda>raw.
           bindE (bounded ''broker execution evidence'' MAX_EVIDENCE_BYTES raw) (\<lambda>raw. Inr (Some raw)))))
      | KNone \<Rightarrow> liftW (Inr None))"

definition execute_phase :: "hash_fn \<Rightarrow> phase_env \<Rightarrow> phase_request \<Rightarrow> phase_execution io" where
  "execute_phase sha env request =
     (let mount_candidate = candidate_mount_allowed (rq_phase request) in
      bindW (logW (Prepared mount_candidate) (liftW (pe_prepare env request mount_candidate))) (\<lambda>(action, raw).
      bindW (liftW (bounded ''coordinator phase payload'' MAX_COORDINATOR_BYTES raw)) (\<lambda>payload.
      bindW (liftW (action_validate_for sha action request payload)) (\<lambda>_.
      bindW (run_executor env action payload) (\<lambda>external.
      let finalize_input = (case external of None \<Rightarrow> payload | Some raw \<Rightarrow> raw) in
      bindW (logW Finalized (liftW (pe_finalize env action finalize_input))) (\<lambda>out.
      bindW (liftW (bounded ''coordinator verified output'' MAX_EVIDENCE_BYTES out)) (\<lambda>verified.
      bindW (liftW (mapError
          (\<lambda>_. PhaseProtocolError ''coordinator output is not a strict phase envelope'')
          (read_output sha verified))) (\<lambda>coordinator_output.
      bindW (liftW (output_validate_for coordinator_output request)) (\<lambda>_.
      bindW (liftW (canonical_json_bytes (JObj (output_dump coordinator_output)))) (\<lambda>canon_raw.
      bindW (liftW (guardE (canon_raw = verified)
        (PhaseProtocolError ''coordinator output must use the canonical JSON encoding''))) (\<lambda>_.
      liftW (Inr \<lparr>ex_action = action, ex_payload = payload, ex_output = coordinator_output,
        ex_verified = verified, ex_verified_sha256 = sha verified, ex_evidence = external,
        ex_evidence_sha256 = map_option sha external\<rparr>))))))))))))"

text \<open>
  \<open>persist_phase_output\<close>. The file is created with \<open>O_EXCL\<close>; when a later step fails it is
  unlinked again, so an exception leaves no file behind.
\<close>

definition persist_phase_output ::
    "hash_fn \<Rightarrow> phase_env \<Rightarrow> nat \<Rightarrow> path \<Rightarrow> bytes \<Rightarrow> pystr \<Rightarrow> pystr io" where
  "persist_phase_output sha env max_bytes path raw expected w =
     (if \<not> (1024 \<le> max_bytes \<and> max_bytes \<le> MAX_EVIDENCE_BYTES) then
        (Inl (PhaseProtocolError ''phase output byte limit is invalid''), w)
      else if max_bytes < length raw then
        (Inl (PhaseProtocolError ''phase output exceeds its byte limit''), w)
      else if sha raw \<noteq> expected then
        (Inl (PhaseProtocolError ''phase output digest does not match verified evidence''), w)
      else if \<not> pe_safe env path then
        (Inl (PhaseProtocolError ''phase output must be a new exclusive file''), w)
      else if w_files w path \<noteq> None \<or> \<not> pe_write_ok env path then (Inl (PpOther ''OSError''), w)
      else (Inr (sha raw),
            w\<lparr>w_files := (w_files w)(path \<mapsto> raw), w_log := w_log w @ [Wrote path]\<rparr>))"

definition with_name :: "path \<Rightarrow> string \<Rightarrow> path" where
  "with_name path name = (fst path, u name)"

definition claimW :: "hash_fn \<Rightarrow> phase_request \<Rightarrow> unit io" where
  "claimW sha request w =
     (case ledger_claim sha (w_rows w) request of
        Inl e \<Rightarrow> (Inl e, w)
      | Inr rows \<Rightarrow> (Inr (), w\<lparr>w_rows := rows, w_log := w_log w @ [Claimed]\<rparr>))"

definition commitW :: "hash_fn \<Rightarrow> phase_result \<Rightarrow> unit io" where
  "commitW sha result w =
     (case ledger_commit sha (w_rows w) result of
        Inl e \<Rightarrow> (Inl e, w)
      | Inr rows \<Rightarrow> (Inr (), w\<lparr>w_rows := rows, w_log := w_log w @ [Committed]\<rparr>))"

definition persist_evidence :: "hash_fn \<Rightarrow> phase_env \<Rightarrow> path \<Rightarrow> phase_execution \<Rightarrow> phase_result \<Rightarrow> unit io" where
  "persist_evidence sha env output ex result =
     (case ex_evidence ex of
        None \<Rightarrow> liftW (Inr ())
      | Some evidence \<Rightarrow>
          bindW (persist_phase_output sha env MAX_EVIDENCE_BYTES (with_name output ''prepared-payload.json'')
                   (ex_payload ex) (ac_payload_sha256 (ex_action ex))) (\<lambda>_.
          bindW (persist_phase_output sha env MAX_EVIDENCE_BYTES (with_name output ''external-evidence.json'')
                   evidence (case rs_external_execution_sha256 result of None \<Rightarrow> [] | Some s \<Rightarrow> s)) (\<lambda>_.
          liftW (Inr ()))))"

text \<open>The part of \<open>run_claimed_phase\<close> between the claim and the commit.\<close>

definition produce_result :: "hash_fn \<Rightarrow> phase_env \<Rightarrow> path \<Rightarrow> phase_request \<Rightarrow> phase_result io" where
  "produce_result sha env output request =
     bindW (execute_phase sha env request) (\<lambda>ex.
     bindW (liftW (phase_artifacts sha (co_artifacts (ex_output ex)))) (\<lambda>artifacts.
     bindW (liftW (result_create sha (result_body_for sha request (ex_output ex) artifacts
              (ex_evidence ex) (ex_verified ex)))) (\<lambda>result.
     bindW (persist_evidence sha env output ex result) (\<lambda>_.
     bindW (persist_phase_output sha env MAX_EVIDENCE_BYTES (with_name output ''coordinator-output.json'')
              (ex_verified ex) (rs_coordinator_output_sha256 result)) (\<lambda>_.
     bindW (liftW (canonical_json_bytes (artifacts_dump (rs_artifacts result)))) (\<lambda>manifest.
     bindW (persist_phase_output sha env MAX_EVIDENCE_BYTES (with_name output ''artifact-manifest.json'')
              manifest (rs_output_artifacts_sha256 result)) (\<lambda>_.
     bindW (liftW (canonical_json_bytes (JObj (result_dump result)))) (\<lambda>result_raw.
     bindW (persist_phase_output sha env MAX_EVIDENCE_BYTES output result_raw (sha result_raw)) (\<lambda>_.
     liftW (Inr result))))))))))"

definition run_claimed_phase ::
    "hash_fn \<Rightarrow> phase_env \<Rightarrow> path \<Rightarrow> phase_request \<Rightarrow> phase_result io" where
  "run_claimed_phase sha env output request =
     bindW (claimW sha request) (\<lambda>_.
     bindW (produce_result sha env output request) (\<lambda>result.
     bindW (commitW sha result) (\<lambda>_.
     liftW (Inr result))))"

end
