(* ===== verification/Phase_Run_Facts.thy ===== *)
theory Phase_Run_Facts
  imports Phase_Run
begin

text \<open>
  What one call of \<open>run_claimed_phase\<close> does to the world: the claim comes before every other
  effect, the commit after all of them, at most one external execution lies between, and a
  failure after the claim leaves a row that blocks its workflow for good.
\<close>

section \<open>Operations that neither claim nor commit\<close>

definition executions :: "effect list \<Rightarrow> nat" where
  "executions es = length (filter (\<lambda>e. e = RanOffline \<or> e = RanBroker) es)"

text \<open>
  \<open>quiet n m\<close>: from any world \<open>m\<close> leaves the table alone and only appends effects, none of them
  a claim or a commit and at most \<open>n\<close> external executions.
\<close>

definition quiet :: "nat \<Rightarrow> 'a io \<Rightarrow> bool" where
  "quiet n m \<longleftrightarrow> (\<forall>w. w_rows (snd (m w)) = w_rows w
     \<and> (\<exists>es. w_log (snd (m w)) = w_log w @ es \<and> Claimed \<notin> set es \<and> Committed \<notin> set es
          \<and> executions es \<le> n))"

lemma executions_append [simp]: "executions (es @ fs) = executions es + executions fs"
  by (simp add: executions_def)

lemma quiet_liftW: "quiet n (liftW x)"
  by (auto simp: quiet_def liftW_def executions_def)

lemma quiet_mono: "quiet n m \<Longrightarrow> n \<le> k \<Longrightarrow> quiet k m"
  by (fastforce simp: quiet_def)

lemma quiet_bindW:
  assumes m: "quiet a m" and f: "\<And>x. quiet b (f x)" and n: "a + b \<le> n"
  shows "quiet n (bindW m f)"
proof -
  have "w_rows (snd (bindW m f w)) = w_rows w \<and> (\<exists>es. w_log (snd (bindW m f w)) = w_log w @ es
      \<and> Claimed \<notin> set es \<and> Committed \<notin> set es \<and> executions es \<le> n)" for w
  proof -
    obtain r w' where mw: "m w = (r, w')" by (cases "m w")
    with m obtain es where es: "w_rows w' = w_rows w" "w_log w' = w_log w @ es"
        "Claimed \<notin> set es" "Committed \<notin> set es" "executions es \<le> a"
      unfolding quiet_def by (metis snd_conv)
    show ?thesis
    proof (cases r)
      case (Inl e)
      with mw es n show ?thesis by (auto simp: bindW_def)
    next
      case (Inr x)
      obtain fs where "w_rows (snd (f x w')) = w_rows w'" "w_log (snd (f x w')) = w_log w' @ fs"
          "Claimed \<notin> set fs" "Committed \<notin> set fs" "executions fs \<le> b"
        using f [of x] unfolding quiet_def by metis
      with mw es Inr n show ?thesis by (auto simp: bindW_def intro!: exI [of _ "es @ fs"])
    qed
  qed
  then show ?thesis by (simp add: quiet_def)
qed

lemma quiet_logW_lift:
  assumes "e \<noteq> Claimed" and "e \<noteq> Committed"
  shows "quiet 1 (logW e (liftW x))" and "e \<noteq> RanOffline \<Longrightarrow> e \<noteq> RanBroker \<Longrightarrow> quiet 0 (logW e (liftW x))"
  using assms by (auto simp: quiet_def logW_def liftW_def executions_def)

lemma quiet_case_prod: "(\<And>a b. quiet n (f a b)) \<Longrightarrow> quiet n (case p of (a, b) \<Rightarrow> f a b)"
  by (cases p) simp

lemma quiet_executor: "quiet 1 (run_executor env action payload)"
  by (cases "ac_external_kind action")
    (simp_all add: run_executor_def quiet_logW_lift(1) quiet_liftW del: One_nat_def)

lemma quiet_persist: "quiet 0 (persist_phase_output sha env n path raw expected)"
  by (auto simp: quiet_def persist_phase_output_def executions_def)

lemmas quiet_intros = quiet_case_prod quiet_liftW quiet_executor quiet_persist quiet_logW_lift

lemma quiet_bind0: "quiet 0 m \<Longrightarrow> (\<And>x. quiet n (f x)) \<Longrightarrow> quiet n (bindW m f)"
  by (rule quiet_bindW [where a = 0 and b = n]) simp_all

lemma quiet_bind1: "quiet 1 m \<Longrightarrow> (\<And>x. quiet 0 (f x)) \<Longrightarrow> quiet 1 (bindW m f)"
  by (rule quiet_bindW [where a = 1 and b = 0]) simp_all

lemma quiet_execute: "quiet 1 (execute_phase sha env request)"
  unfolding execute_phase_def Let_def
  by (intro quiet_bind0 quiet_bind1 quiet_case_prod quiet_executor quiet_liftW quiet_logW_lift(2)) simp_all

lemma quiet_evidence: "quiet 0 (persist_evidence sha env output ex result)"
  unfolding persist_evidence_def
  by (simp add: quiet_bind0 quiet_liftW quiet_persist split: option.splits)

lemma quiet_produce: "quiet 1 (produce_result sha env output request)"
  unfolding produce_result_def
  by (intro quiet_bind1 quiet_bind0 quiet_execute quiet_evidence quiet_persist quiet_liftW)

section \<open>The three ways a run ends\<close>

lemma bindW_Inr: "bindW m f w = (Inr y, w') \<longleftrightarrow> (\<exists>x w1. m w = (Inr x, w1) \<and> f x w1 = (Inr y, w'))"
  by (auto simp: bindW_def split: prod.splits sum.splits)

lemma bindW_InrE:
  assumes "bindW m f w = (Inr y, w')"
  obtains x w1 where "m w = (Inr x, w1)" and "f x w1 = (Inr y, w')"
  using assms by (auto simp: bindW_Inr)

lemma liftW_Inr: "liftW x w = (Inr y, w') \<longleftrightarrow> x = Inr y \<and> w' = w"
  by (auto simp: liftW_def)

lemma persist_Inr:
  "persist_phase_output sha env n path raw expected w = (Inr d, w') \<longleftrightarrow>
     1024 \<le> n \<and> n \<le> MAX_EVIDENCE_BYTES \<and> length raw \<le> n \<and> sha raw = expected \<and> pe_safe env path
     \<and> w_files w path = None \<and> pe_write_ok env path \<and> d = expected
     \<and> w' = w\<lparr>w_files := (w_files w)(path \<mapsto> raw), w_log := w_log w @ [Wrote path]\<rparr>"
  by (auto simp: persist_phase_output_def)

text \<open>What a produced result is, and what its last step wrote.\<close>

lemma produce_Inr:
  assumes "produce_result sha env output request w = (Inr result, w')"
  obtains ex :: phase_execution and artifacts raw where
    "result_create sha (result_body_for sha request (ex_output ex) artifacts (ex_evidence ex) (ex_verified ex))
       = Inr result"
    "canonical_json_bytes (JObj (result_dump result)) = Inr raw" "w_files w' output = Some raw"
  using assms unfolding produce_result_def
proof (elim bindW_InrE)
  fix ex :: phase_execution and w1 artifacts w2 res w3 u1 w4 d1 w5 manifest w6 d2 w7 raw w8 d3 w9
  assume a: "liftW (result_create sha (result_body_for sha request (ex_output ex) artifacts
        (ex_evidence ex) (ex_verified ex))) w2 = (Inr res, w3)"
    and b: "liftW (canonical_json_bytes (JObj (result_dump res))) w7 = (Inr raw, w8)"
    and c: "persist_phase_output sha env MAX_EVIDENCE_BYTES output raw (sha raw) w8 = (Inr d3, w9)"
    and d: "liftW (Inr res) w9 = (Inr result, w')"
  from d have "res = result" "w' = w9" by (simp_all add: liftW_Inr)
  with a b c show thesis by (intro that [of ex artifacts raw]) (simp_all add: liftW_Inr persist_Inr)
qed

lemma produce_request:
  assumes "produce_result sha env output request w = (Inr result, w')" and "valid_phase_request sha request"
  shows "rs_request result = request" and "valid_phase_result sha result"
proof -
  from assms(1) obtain ex :: phase_execution and artifacts
    where c: "result_create sha (result_body_for sha request (ex_output ex) artifacts (ex_evidence ex) (ex_verified ex))
       = Inr result" by (rule produce_Inr)
  from result_create_Inr(3) [OF c] show r: "rs_request result = request"
    by (auto simp: result_body_for_def result_body.defs)
  have "result_validate sha result = Inr result"
    using c by (auto simp: result_create_def result_validate_def result_contract_def result_simps Let_def)
  with r assms(2) show "valid_phase_result sha result" by (simp add: valid_phase_result_def)
qed

lemma run_cases:
  assumes "run_claimed_phase sha env output request w = (r, w')"
  obtains (refused) e where "ledger_claim sha (w_rows w) request = Inl e" "r = Inl e" "w' = w"
  | (interrupted) e rows es where "ledger_claim sha (w_rows w) request = Inr rows" "r = Inl e" "w_rows w' = rows"
      "w_log w' = w_log w @ [Claimed] @ es" "Claimed \<notin> set es" "Committed \<notin> set es" "executions es \<le> 1"
  | (finished) rows rows' es result w1 where
      "produce_result sha env output request (w\<lparr>w_rows := rows, w_log := w_log w @ [Claimed]\<rparr>) = (Inr result, w1)"
      "ledger_claim sha (w_rows w) request = Inr rows" "r = Inr result"
      "ledger_commit sha rows result = Inr rows'" "w_rows w' = rows'"
      "w_log w' = w_log w @ [Claimed] @ es @ [Committed]" "Claimed \<notin> set es" "Committed \<notin> set es"
      "executions es \<le> 1"
      "w_files w' = w_files w1"
proof (cases "ledger_claim sha (w_rows w) request")
  case (Inl e)
  with assms show thesis by (intro refused) (auto simp: run_claimed_phase_def bindW_def claimW_def)
next
  case (Inr rows)
  let ?w = "w\<lparr>w_rows := rows, w_log := w_log w @ [Claimed]\<rparr>"
  obtain p w1 where p: "produce_result sha env output request ?w = (p, w1)"
    by (cases "produce_result sha env output request ?w")
  obtain es where es: "w_rows w1 = rows" "w_log w1 = w_log w @ [Claimed] @ es"
      "Claimed \<notin> set es" "Committed \<notin> set es" "executions es \<le> 1"
    using quiet_produce [of sha env "output" request, unfolded quiet_def, rule_format, of ?w] p by auto
  show thesis
  proof (cases p)
    case (Inl e)
    with assms p Inr es show thesis
      by (intro interrupted) (auto simp: run_claimed_phase_def bindW_def claimW_def)
  next
    case (Inr result)
    show thesis
    proof (cases "ledger_commit sha rows result")
      case (Inl e)
      with assms p Inr \<open>ledger_claim sha (w_rows w) request = Inr rows\<close> es show thesis
        by (intro interrupted) (auto simp: run_claimed_phase_def bindW_def claimW_def commitW_def)
    next
      case (Inr rows')
      have pr: "produce_result sha env output request ?w = (Inr result, w1)" using p \<open>p = Inr result\<close> by simp
      show thesis
        by (rule finished [OF pr])
          (use Inr assms p \<open>p = Inr result\<close> \<open>ledger_claim sha (w_rows w) request = Inr rows\<close> es in \<open>auto simp: run_claimed_phase_def bindW_def claimW_def commitW_def liftW_def\<close>)
    qed
  qed
qed

section \<open>Properties of a run\<close>

text \<open>
  C9. Consume before execute. Whatever the callbacks and the file system do, the effects of
  one run are: none at all when the claim is refused; otherwise the claim first, then at most
  one external execution, and the commit exactly when the run returns a result, as the last
  effect.
\<close>

theorem run_claims_before_it_executes:
  "case run_claimed_phase sha env output request w of (r, w') \<Rightarrow>
     (\<exists>e. r = Inl e) \<and> w' = w
     \<or> (\<exists>e es. r = Inl e \<and> w_log w' = w_log w @ [Claimed] @ es
          \<and> Claimed \<notin> set es \<and> Committed \<notin> set es \<and> executions es \<le> 1)
     \<or> (\<exists>result es. r = Inr result \<and> w_log w' = w_log w @ [Claimed] @ es @ [Committed]
          \<and> Claimed \<notin> set es \<and> Committed \<notin> set es \<and> executions es \<le> 1)"
proof -
  obtain r w' where run: "run_claimed_phase sha env output request w = (r, w')"
    by (cases "run_claimed_phase sha env output request w")
  show ?thesis unfolding run prod.case using run by (cases rule: run_cases) auto
qed

lemma claim_leaves_pending:
  assumes "ledger_claim sha rows q = Inr rows'"
  shows "list_ex (\<lambda>r. row_workflow_id r = rq_workflow_id q \<and> row_status r = Pending) rows'"
  using ledger_claim_rows [OF assms] by (auto simp: row_for_def)

lemma pending_blocks:
  assumes "list_ex (\<lambda>r. row_workflow_id r = rq_workflow_id q \<and> row_status r = Pending) rows"
  shows "\<exists>e. ledger_claim sha rows q = Inl e"
  using assms by (cases "ledger_claim sha rows q") (auto simp: ledger_claim_def result_simps)


definition failing_env :: phase_env where
  "failing_env =
     \<lparr>pe_prepare = \<lambda>q m. Inl (PpOther ''crash''), pe_finalize = \<lambda>a b. Inl (PpOther ''crash''),
      pe_offline = \<lambda>a b. Inl (PpOther ''crash''), pe_broker = \<lambda>a b. Inl (PpOther ''crash''),
      pe_safe = \<lambda>_. True, pe_write_ok = \<lambda>_. True\<rparr>"

definition empty_world :: world where
  "empty_world = \<lparr>w_rows = [], w_files = \<lambda>_. None, w_log = []\<rparr>"


text \<open>
  A run that returns. The result it returns is valid and answers the request; the ledger
  that represented a journal now represents it with this result appended, and the output file
  holds the canonical bytes of the result.
\<close>

theorem successful_run_commits_its_result:
  assumes "represents sha (w_rows w) j" and "valid_phase_request sha q"
    and "run_claimed_phase sha env output q w = (Inr result, w')"
  shows "rs_request result = q \<and> valid_phase_result sha result
     \<and> represents sha (w_rows w') (j(rq_workflow_id q := (fst (j (rq_workflow_id q)) @ [result], None)))
     \<and> (\<exists>raw. canonical_json_bytes (JObj (result_dump result)) = Inr raw \<and> w_files w' output = Some raw)"
  using assms(3)
proof (cases rule: run_cases)
  case (finished rows rows' es result' w1)
  then have r: "result' = result" by simp
  note p = produce_request [OF finished(1) assms(2), unfolded r]
  note cl = ledger_claim_refines(3) [OF assms(1,2) finished(2)]
  have "represents sha rows' (j(rq_workflow_id q := (fst (j (rq_workflow_id q)) @ [result], None)))"
    using ledger_commit_refines(2) [OF cl p(2) finished(4) [unfolded r]] p(1) by simp
  moreover obtain raw where "canonical_json_bytes (JObj (result_dump result)) = Inr raw"
    "w_files w1 output = Some raw" using produce_Inr [OF finished(1)] r by metis
  ultimately show ?thesis using p finished(5,10) by simp
qed auto

section \<open>A run that returns\<close>

lemma output_artifact_model_dump:
  assumes "output_artifact_ok a"
  shows "output_artifact_model (jsort (JObj [(u ''name'', JStr (oa_name a)),
      (u ''content_base64'', JStr (oa_content_base64 a))])) = Inr a"
proof -
  let ?d = "[(u ''name'', JStr (oa_name a)), (u ''content_base64'', JStr (oa_content_base64 a))]"
  have k: "set (map fst (as_dict ?d)) \<subseteq> {u ''name'', u ''content_base64''}" unfolding keys_as_dict by simp
  have f: "fld (as_dict ?d) ''name'' = JStr (oa_name a)"
    "fld (as_dict ?d) ''content_base64'' = JStr (oa_content_base64 a)"
    by (simp_all add: fld_as_dict) (simp_all add: fld_def)
  show ?thesis
    unfolding jsort_as_dict output_artifact_model_def json.case get_str_def f
    using k assms by (cases a) (simp add: Let_def del: set_map)
qed

lemma read_output_dump:
  assumes v: "valid_coordinator_output sha out" and raw: "canonical_json_bytes (JObj (output_dump out)) = Inr raw"
  shows "read_output sha raw = Inr out"
proof -
  let ?d = "as_dict (output_dump out)"
  obtain derived where ok: "output_fields_ok out" "phase_artifacts sha (co_artifacts out) = Inr derived"
    using v by (auto simp: valid_output_iff)
  have keys: "set (map fst ?d) \<subseteq> set (map u OUTPUT_FIELDS)"
    unfolding keys_as_dict by (auto simp: output_dump_def output_payload_def OUTPUT_FIELDS_def)
  then have md: "model_dict OUTPUT_FIELDS (JObj ?d) = Inr ?d"
    by (simp add: model_dict_def fld_version output_fields del: set_map)
  have opt: "get_opt ?d ''candidate_snapshot_sha256'' = Inr (co_candidate_snapshot_sha256 out)"
    "get_opt ?d ''review_packet_sha256'' = Inr (co_review_packet_sha256 out)"
    by (simp_all add: get_opt_optional output_fields)
  have arts: "jsort (output_artifacts_dump (co_artifacts out)) = JArr (map (\<lambda>a. jsort (JObj
      [(u ''name'', JStr (oa_name a)), (u ''content_base64'', JStr (oa_content_base64 a))])) (co_artifacts out))"
    by (simp add: output_artifacts_dump_def)
  have "mapE output_artifact_model (map (\<lambda>a. jsort (JObj [(u ''name'', JStr (oa_name a)),
      (u ''content_base64'', JStr (oa_content_base64 a))])) xs) = Inr xs" if "list_all output_artifact_ok xs" for xs
    using that by (induction xs) (simp_all add: output_artifact_model_dump del: jsort.simps)
  then have am: "mapE output_artifact_model (map (\<lambda>a. jsort (JObj [(u ''name'', JStr (oa_name a)),
      (u ''content_base64'', JStr (oa_content_base64 a))])) (co_artifacts out)) = Inr (co_artifacts out)"
    using ok(1) by (simp add: output_fields_ok_def)
  have eta: "\<lparr>co_workflow_id = co_workflow_id out, co_phase = co_phase out, co_sequence = co_sequence out,
        co_request_sha256 = co_request_sha256 out, co_artifacts = co_artifacts out,
        co_candidate_snapshot_sha256 = co_candidate_snapshot_sha256 out,
        co_review_packet_sha256 = co_review_packet_sha256 out,
        co_output_artifacts_sha256 = co_output_artifacts_sha256 out,
        co_output_sha256 = co_output_sha256 out\<rparr> = out" by simp
  have "output_model sha (JObj ?d) = Inr out"
    unfolding output_model_def md bindE_simps opt get_str_def get_int_def output_fields json.case
      phase_from_string arts am eta
    using v by (simp add: valid_coordinator_output_def)
  then show ?thesis
    using load_json_canonical [OF output_dump_clean [OF ok]] raw
    by (simp add: read_output_def canonical_json_bytes_Inr)
qed

definition demo_env :: "bytes \<Rightarrow> phase_env" where
  "demo_env verified =
     \<lparr>pe_prepare = \<lambda>q m. Inr (demo_phase_action, ''{}''), pe_finalize = \<lambda>a b. Inr verified,
      pe_offline = \<lambda>a b. Inl (PpOther ''unused''), pe_broker = \<lambda>a b. Inl (PpOther ''unused''),
      pe_safe = \<lambda>_. True, pe_write_ok = \<lambda>_. True\<rparr>"

lemma demo_execution:
  assumes o: "canonical_json_bytes (JObj (output_dump demo_coordinator_output)) = Inr verified"
    and l: "length verified \<le> 6000000"
  shows "\<exists>w'. execute_phase (\<lambda>_. zeros) (demo_env verified) demo_phase_request w
      = (Inr \<lparr>ex_action = demo_phase_action, ex_payload = ''{}'', ex_output = demo_coordinator_output,
              ex_verified = verified, ex_verified_sha256 = zeros, ex_evidence = None, ex_evidence_sha256 = None\<rparr>, w')
      \<and> w_files w' = w_files w \<and> w_rows w' = w_rows w"
proof -
  have ne: "verified \<noteq> []"
    using o by (auto simp: canonical_json_bytes_def utf8_encode_def utf8_char_def split: option.splits if_splits)
  have k: "ac_external_kind demo_phase_action = KNone" by (simp add: demo_phase_action_def)
  have p: "bounded lab MAX_COORDINATOR_BYTES ''{}'' = Inr ''{}''" "bounded lab MAX_EVIDENCE_BYTES verified = Inr verified" for lab
    using ne l by (simp_all add: bounded_def MAX_COORDINATOR_BYTES_def MAX_EVIDENCE_BYTES_def)
  show ?thesis
    unfolding execute_phase_def Let_def
    using demo_action_valid(2) demo_coordinator_output_valid(2) o k p
      read_output_dump [OF demo_coordinator_output_valid(1) o]
    by (simp add: bindW_def logW_def liftW_def demo_env_def run_executor_def)
qed

lemma demo_produced:
  assumes o: "canonical_json_bytes (JObj (output_dump demo_coordinator_output)) = Inr verified"
    and l: "length verified \<le> 4000" and w: "\<forall>p. w_files w p = None"
  shows "\<exists>w'. produce_result (\<lambda>_. zeros) (demo_env verified) ([], u ''out'') demo_phase_request w
      = (Inr demo_phase_result, w') \<and> w_rows w' = w_rows w"
proof -
  obtain w1 where ex: "execute_phase (\<lambda>_. zeros) (demo_env verified) demo_phase_request w
      = (Inr \<lparr>ex_action = demo_phase_action, ex_payload = ''{}'', ex_output = demo_coordinator_output,
              ex_verified = verified, ex_verified_sha256 = zeros, ex_evidence = None, ex_evidence_sha256 = None\<rparr>, w1)"
    and w1: "\<forall>p. w_files w1 p = None" "w_rows w1 = w_rows w"
    using demo_execution [OF o, of w] l w by auto
  have z: "length zeros = 64" by (simp add: zeros_def)
  have rv: "result_fields_ok demo_phase_result" "request_fields_ok (rs_request demo_phase_result)"
    using demo_result_valid_model
    by (auto simp: valid_phase_result_def result_validate_def result_simps valid_phase_request_iff)
  obtain raw where raw: "canonical (JObj (result_dump demo_phase_result)) = Inr raw"
    "length raw = jlen (JObj (result_dump demo_phase_result)) + 1"
    using result_dump_clean [OF rv] by (rule canonical_clean)
  have "jclean (artifacts_dump demo_derived)"
    by (rule artifacts_dump_clean) (simp add: demo_derived_def artifact_ok_def demo_names)
  then obtain man where man: "canonical (artifacts_dump demo_derived) = Inr man"
    "length man = jlen (artifacts_dump demo_derived) + 1" by (rule canonical_clean)
  have lr: "length raw \<le> 6000"
    using raw(2) z by (simp add: result_dump_def result_payload_def demo_phase_result_def demo_phase_request_def
        request_dump_def request_payload_def artifacts_dump_def demo_derived_def optional_str_def)
  have lm: "length man \<le> 1000" using man(2) z by (simp add: artifacts_dump_def demo_derived_def)
  have fields: "rs_artifacts demo_phase_result = demo_derived" "rs_coordinator_output_sha256 demo_phase_result = zeros"
    "rs_output_artifacts_sha256 demo_phase_result = zeros"
    "co_artifacts demo_coordinator_output = demo_artifacts"
    by (simp_all add: demo_phase_result_def demo_coordinator_output_def)
  have big: "MAX_EVIDENCE_BYTES = 6000000" by (simp add: MAX_EVIDENCE_BYTES_def)
  have wn: "with_name ([], u ''out'') ''artifact-manifest.json'' \<noteq> with_name ([], u ''out'') ''coordinator-output.json''"
    by (simp add: with_name_def)
  show ?thesis
    unfolding produce_result_def
    using ex w1 l lr lm raw(1) man(1) wn
    by (simp add: bindW_def liftW_def demo_phase_artifacts demo_result_created persist_evidence_def fields
        persist_phase_output_def big canonical_json_bytes_Inr [THEN iffD2] demo_env_def with_name_def)
qed

lemma successful_run_commits_its_result_witness:
  "\<exists>env w'. run_claimed_phase (\<lambda>_. zeros) env ([], u ''out'') demo_phase_request empty_world
       = (Inr demo_phase_result, w')
     \<and> represents (\<lambda>_. zeros) (w_rows w') ((\<lambda>_. ([], None))(zeros := ([demo_phase_result], None)))"
proof -
  obtain verified where o: "canonical_json_bytes (JObj (output_dump demo_coordinator_output)) = Inr verified"
    and l: "length verified \<le> 4000"
    by (rule demo_finalize)
  obtain raw where q: "canonical_json_bytes (JObj (request_dump demo_phase_request)) = Inr raw"
    and c: "ledger_claim (\<lambda>_. zeros) [] demo_phase_request = Inr [row_for demo_phase_request raw]"
    by (rule demo_claim)
  let ?w = "empty_world\<lparr>w_rows := [row_for demo_phase_request raw], w_log := [Claimed]\<rparr>"
  obtain w1 where p: "produce_result (\<lambda>_. zeros) (demo_env verified) ([], u ''out'') demo_phase_request ?w
      = (Inr demo_phase_result, w1)" "w_rows w1 = [row_for demo_phase_request raw]"
    using demo_produced [OF o l, of ?w] by (auto simp: empty_world_def)
  have w: "rq_workflow_id demo_phase_request = zeros" "rs_request demo_phase_result = demo_phase_request"
    by (simp_all add: demo_phase_request_def demo_phase_result_def)
  have "result_fields_ok demo_phase_result" "request_fields_ok (rs_request demo_phase_result)"
    using demo_result_valid_model
    by (auto simp: valid_phase_result_def result_validate_def result_simps valid_phase_request_iff)
  then obtain rraw where "canonical (JObj (result_dump demo_phase_result)) = Inr rraw"
    using result_dump_clean canonical_clean by metis
  then have "\<exists>rows. ledger_commit (\<lambda>_. zeros) [row_for demo_phase_request raw] demo_phase_result = Inr rows"
    using read_request_dump [OF demo_request_valid(1) q]
    by (simp add: ledger_commit_def row_for_def w canonical_json_bytes_Inr [THEN iffD2])
  then obtain w' where r: "run_claimed_phase (\<lambda>_. zeros) (demo_env verified) ([], u ''out'') demo_phase_request empty_world
      = (Inr demo_phase_result, w')"
    using c p by (auto simp: run_claimed_phase_def bindW_def claimW_def commitW_def liftW_def empty_world_def)
  have "represents (\<lambda>_. zeros) (w_rows empty_world) (\<lambda>_. ([], None))"
    by (simp add: empty_world_def represents_empty)
  from successful_run_commits_its_result [OF this demo_request_valid(1) r] r w show ?thesis by auto
qed

end
