(* ===== verification/Py_Strings.thy ===== *)
theory Py_Strings
  imports Py_Digest
begin

text \<open>
  The string methods of Python the models and the application use, on code point lists:
  \<open>strip\<close>, \<open>splitlines\<close>, \<open>partition\<close>, \<open>join\<close> and the parts of a \<open>PurePosixPath\<close>. The case
  folding of \<open>str.casefold\<close> is a Unicode table outside the sources, so it is an argument of
  the definitions that use it; what they rely on is stated by the locale \<open>casefold_fn\<close>.
\<close>

section \<open>White space\<close>

text \<open>\<open>str.isspace\<close> of one character, and the set a regular expression's \<open>\s\<close> stands for in Rust.\<close>

definition py_space :: "nat \<Rightarrow> bool" where
  "py_space c \<longleftrightarrow> (0x09 \<le> c \<and> c \<le> 0x0D) \<or> (0x1C \<le> c \<and> c \<le> 0x20) \<or> c = 0x85 \<or> c = 0xA0
     \<or> c = 0x1680 \<or> (0x2000 \<le> c \<and> c \<le> 0x200A) \<or> c = 0x2028 \<or> c = 0x2029 \<or> c = 0x202F
     \<or> c = 0x205F \<or> c = 0x3000"

definition rust_space :: "nat \<Rightarrow> bool" where
  "rust_space c \<longleftrightarrow> py_space c \<and> \<not> (0x1C \<le> c \<and> c \<le> 0x1F)"

definition lstrip :: "pystr \<Rightarrow> pystr" where
  "lstrip s = dropWhile py_space s"

definition rstrip :: "pystr \<Rightarrow> pystr" where
  "rstrip s = rev (dropWhile py_space (rev s))"

definition strip :: "pystr \<Rightarrow> pystr" where
  "strip s = rstrip (lstrip s)"

lemma rstrip_Nil_iff: "rstrip s = [] \<longleftrightarrow> list_all py_space s"
  by (simp add: rstrip_def dropWhile_eq_Nil_conv list_all_iff)

lemma strip_Nil_iff: "strip s = [] \<longleftrightarrow> list_all py_space s"
proof -
  have "list_all py_space (lstrip s) \<longleftrightarrow> list_all py_space s"
    unfolding lstrip_def by (induction s) auto
  then show ?thesis by (simp add: strip_def rstrip_Nil_iff)
qed

lemma rstrip_snoc: "rstrip (s @ [c]) = (if py_space c then rstrip s else s @ [c])"
  by (simp add: rstrip_def)

lemma lstrip_append: "lstrip (s @ t) = (if list_all py_space s then lstrip t else lstrip s @ t)"
  unfolding lstrip_def by (induction s) auto

lemma rstrip_no_trailing: "rstrip s = [] \<or> \<not> py_space (last (rstrip s))"
  by (induction s rule: rev_induct) (auto simp: rstrip_snoc, simp add: rstrip_def)

lemma rstrip_id: "s = [] \<or> \<not> py_space (last s) \<Longrightarrow> rstrip s = s"
  by (cases s rule: rev_cases) (auto simp: rstrip_snoc, simp add: rstrip_def)

lemma rstrip_idem: "rstrip (rstrip s) = rstrip s"
  by (rule rstrip_id [OF rstrip_no_trailing])

lemma hd_rstrip: "rstrip s \<noteq> [] \<Longrightarrow> hd (rstrip s) = hd s"
proof (induction s rule: rev_induct)
  case (snoc c s)
  then show ?case by (cases "s = []") (auto simp: rstrip_snoc, simp_all add: rstrip_def split: if_splits)
qed (simp add: rstrip_def)

lemma lstrip_id: "s = [] \<or> \<not> py_space (hd s) \<Longrightarrow> lstrip s = s"
  unfolding lstrip_def by (cases s) auto

lemma lstrip_no_leading: "lstrip s = [] \<or> \<not> py_space (hd (lstrip s))"
  unfolding lstrip_def using hd_dropWhile by blast

lemma strip_idem: "strip (strip s) = strip s"
proof (cases "strip s = []")
  case True
  have "strip [] = []" by (simp add: strip_def lstrip_def rstrip_def)
  with True show ?thesis by simp
next
  case False
  then have "hd (strip s) = hd (lstrip s)" unfolding strip_def by (rule hd_rstrip)
  moreover have "lstrip s \<noteq> []" using False by (auto simp: strip_def rstrip_def)
  ultimately have "lstrip (strip s) = strip s" using lstrip_no_leading [of s] by (intro lstrip_id) simp
  then show ?thesis by (metis rstrip_idem strip_def)
qed

section \<open>Lines\<close>

definition line_break :: "nat \<Rightarrow> bool" where
  "line_break c \<longleftrightarrow> (0x0A \<le> c \<and> c \<le> 0x0D) \<or> (0x1C \<le> c \<and> c \<le> 0x1E) \<or> c = 0x85 \<or> c = 0x2028 \<or> c = 0x2029"

text \<open>\<open>str.splitlines()\<close>: a carriage return and the line feed after it are one break.\<close>

fun splitlines_from :: "pystr \<Rightarrow> pystr \<Rightarrow> pystr list" where
  "splitlines_from cur [] = (if cur = [] then [] else [rev cur])"
| "splitlines_from cur [c] = (if line_break c then [rev cur] else [rev (c # cur)])"
| "splitlines_from cur (c # d # s) =
     (if c = 0x0D \<and> d = 0x0A then rev cur # splitlines_from [] s
      else if line_break c then rev cur # splitlines_from [] (d # s)
      else splitlines_from (c # cur) (d # s))"

definition splitlines :: "pystr \<Rightarrow> pystr list" where
  "splitlines s = splitlines_from [] s"

section \<open>Splitting and joining\<close>

text \<open>\<open>s.partition(sep)\<close> for a one-character separator that occurs in \<open>s\<close>: what is before and after.\<close>

definition partition_at :: "nat \<Rightarrow> pystr \<Rightarrow> pystr \<times> pystr" where
  "partition_at sep s = (takeWhile (\<lambda>c. c \<noteq> sep) s, drop 1 (dropWhile (\<lambda>c. c \<noteq> sep) s))"

fun join_str :: "pystr \<Rightarrow> pystr list \<Rightarrow> pystr" where
  "join_str sep [] = []"
| "join_str sep [x] = x"
| "join_str sep (x # y # zs) = x @ sep @ join_str sep (y # zs)"

fun split_at :: "nat \<Rightarrow> pystr \<Rightarrow> pystr list" where
  "split_at sep [] = [[]]"
| "split_at sep (c # s) =
     (if c = sep then [] # split_at sep s
      else (case split_at sep s of [] \<Rightarrow> [[c]] | w # ws \<Rightarrow> (c # w) # ws))"

text \<open>
  \<open>PurePosixPath(s).parts\<close>: the root of an absolute path (two slashes keep both), then the
  components that are neither empty nor a dot.
\<close>

definition posix_parts :: "pystr \<Rightarrow> pystr list" where
  "posix_parts s =
     (let body = filter (\<lambda>p. p \<noteq> [] \<and> p \<noteq> u ''.'') (split_at 0x2F s) in
      if take 1 s = u ''/'' then
        (if take 2 s = u ''//'' \<and> take 3 s \<noteq> u ''///'' then u ''//'' else u ''/'') # body
      else body)"

section \<open>Case folding\<close>

type_synonym fold_fn = "pystr \<Rightarrow> pystr"

definition ascii_lower :: "nat \<Rightarrow> nat" where
  "ascii_lower c = (if 0x41 \<le> c \<and> c \<le> 0x5A then c + 32 else c)"

locale casefold_fn =
  fixes casefold :: fold_fn
  assumes casefold_ascii: "ascii s \<Longrightarrow> casefold s = map ascii_lower s"
begin

lemma casefold_lower: "ascii s \<Longrightarrow> list_all (\<lambda>c. \<not> (0x41 \<le> c \<and> c \<le> 0x5A)) s \<Longrightarrow> casefold s = s"
  by (simp add: casefold_ascii) (auto simp: list_all_iff ascii_lower_def intro: map_idI)

lemma casefold_idem: "ascii s \<Longrightarrow> casefold (casefold s) = casefold s"
proof -
  assume a: "ascii s"
  then have "ascii (map ascii_lower s)" by (auto simp: ascii_def list_all_iff ascii_lower_def)
  moreover have "ascii_lower (ascii_lower c) = ascii_lower c" for c by (simp add: ascii_lower_def)
  ultimately show ?thesis using a by (simp add: casefold_ascii)
qed

end

text \<open>The folding of ASCII text only: the instance the examples compute with.\<close>

definition ascii_casefold :: fold_fn where
  "ascii_casefold s = map ascii_lower s"

interpretation ascii_fold: casefold_fn ascii_casefold
  by unfold_locales (simp add: ascii_casefold_def)

end
