(* ===== verification/Review_Models.thy ===== *)
theory Review_Models
  imports Py_Strings Outer_State
begin

text \<open>
  \<open>tools/ai_review/models.py\<close>: the strict models of a task, its policy report, the reviews, the
  gates and the verdict, each with the constraints of its fields (\<open>..._fields\<close>) and its
  validators. \<open>casefold\<close> is \<open>str.casefold\<close>.
\<close>

section \<open>Errors and patterns\<close>

text \<open>
  A \<open>ValidationError\<close> carries the first of the messages it collects. The other exceptions are
  not \<open>ValueError\<close>s and pass through the models as they are.
\<close>

datatype model_error = ValidationError string | IndexError | UnicodeEncodeError | OverflowError

definition check :: "bool \<Rightarrow> string \<Rightarrow> model_error + unit" where
  "check b message = guardE b (ValidationError message)"

definition sized :: "nat \<Rightarrow> nat \<Rightarrow> 'a list \<Rightarrow> bool" where
  "sized lo hi xs \<longleftrightarrow> lo \<le> length xs \<and> length xs \<le> hi"

definition in_range :: "int \<Rightarrow> int \<Rightarrow> int \<Rightarrow> bool" where
  "in_range lo hi i \<longleftrightarrow> lo \<le> i \<and> i \<le> hi"

text \<open>A strict \<open>str\<close> field holds no lone surrogate; its length is counted in code points.\<close>

definition text_in :: "nat \<Rightarrow> nat \<Rightarrow> pystr \<Rightarrow> bool" where
  "text_in lo hi s \<longleftrightarrow> sized lo hi s \<and> list_all scalar s"

definition texts :: "pystr list \<Rightarrow> bool" where
  "texts xs \<longleftrightarrow> list_all (list_all scalar) xs"

definition opt_ok :: "('a \<Rightarrow> bool) \<Rightarrow> 'a option \<Rightarrow> bool" where
  "opt_ok p x = (case x of None \<Rightarrow> True | Some y \<Rightarrow> p y)"

definition alnum :: "nat \<Rightarrow> bool" where
  "alnum c \<longleftrightarrow> upper c \<or> lower c \<or> is_digit c"

text \<open>\<open>^[A-Za-z0-9][A-Za-z0-9._-]{0,127}$\<close>\<close>

definition is_actor_id :: "pystr \<Rightarrow> bool" where
  "is_actor_id s = (case s of [] \<Rightarrow> False | c # t \<Rightarrow> alnum c \<and> length t \<le> 127
     \<and> list_all (\<lambda>x. alnum x \<or> x = 0x2E \<or> x = 0x5F \<or> x = 0x2D) t)"

definition not_newline :: "nat \<Rightarrow> bool" where
  "not_newline c \<longleftrightarrow> c \<noteq> 0x0D \<and> c \<noteq> 0x0A"

definition not_angle :: "nat \<Rightarrow> bool" where
  "not_angle c \<longleftrightarrow> c \<noteq> 0x3C \<and> c \<noteq> 0x3E"

text \<open>\<open>^[^<>\s@]+@[^<>\s@]+$\<close>\<close>

definition is_email :: "pystr \<Rightarrow> bool" where
  "is_email s = (let (local, host) = partition_at 0x40 s;
       ok = (\<lambda>t. t \<noteq> [] \<and> list_all (\<lambda>c. not_angle c \<and> \<not> rust_space c \<and> c \<noteq> 0x40) t)
     in ok local \<and> ok host)"

text \<open>\<open>^[+-](?:0[0-9]|1[0-4])[0-5][0-9]$\<close>\<close>

definition is_timezone :: "pystr \<Rightarrow> bool" where
  "is_timezone s = (case s of
       [a, b, c, d, e] \<Rightarrow> (a = 0x2B \<or> a = 0x2D)
         \<and> (b = 0x30 \<and> is_digit c \<or> b = 0x31 \<and> 0x30 \<le> c \<and> c \<le> 0x34)
         \<and> 0x30 \<le> d \<and> d \<le> 0x35 \<and> is_digit e
     | _ \<Rightarrow> False)"

definition is_status :: "pystr \<Rightarrow> bool" where
  "is_status s \<longleftrightarrow> s \<noteq> [] \<and> list_all (\<lambda>c. upper c \<or> c = 0x3F) s"

section \<open>Repository patterns\<close>

definition validate_repo_pattern :: "pystr \<Rightarrow> model_error + pystr" where
  "validate_repo_pattern value =
     bindE (check (\<not> (value = [] \<or> take 1 value = u ''/'' \<or> take 1 value = [0x5C] \<or> 0x5C \<in> set value))
       ''path patterns must be non-empty repository-relative POSIX paths'') (\<lambda>_.
     bindE (check (\<not> list_ex (\<lambda>part. part = u ''..'') (posix_parts value))
       ''path patterns must not contain ..'') (\<lambda>_.
     bindE (check (\<not> list_ex (\<lambda>c. c < 32) value)
       ''path patterns must not contain control characters'') (\<lambda>_.
     Inr value)))"

section \<open>Task specifications\<close>

record requirement =
  req_id :: pystr
  req_text :: pystr

definition requirement_ok :: "requirement \<Rightarrow> bool" where
  "requirement_ok r \<longleftrightarrow> is_upper_id (req_id r) \<and> text_in 1 2000 (req_text r)"

datatype acceptance_kind = KTest | KQuality

record acceptance_test =
  at_id :: pystr
  at_kind :: acceptance_kind
  at_command :: "pystr list"
  at_expected_exit_code :: int
  at_expected_red_exit_codes :: "int list"
  at_expected_red_fingerprint :: "pystr option"
  at_test_paths :: "pystr list"

definition validate_command :: "pystr list \<Rightarrow> model_error + pystr list" where
  "validate_command value =
     bindE (check (\<not> list_ex (\<lambda>argument. argument = [] \<or> 0 \<in> set argument) value)
       ''command arguments must be non-empty and contain no NUL bytes'') (\<lambda>_. Inr value)"

text \<open>
  \<open>any(parts(path)[0].casefold() != "tests" ...)\<close> stops at the first path outside; a path with
  no part, such as a single dot, raises \<open>IndexError\<close>, which no handler turns into a validation error.
\<close>

fun any_outside_tests :: "fold_fn \<Rightarrow> pystr list \<Rightarrow> model_error + bool" where
  "any_outside_tests casefold [] = Inr False"
| "any_outside_tests casefold (p # ps) =
     (case posix_parts p of
        [] \<Rightarrow> Inl IndexError
      | c # _ \<Rightarrow> if casefold c \<noteq> u ''tests'' then Inr True else any_outside_tests casefold ps)"

definition validate_acceptance_paths :: "fold_fn \<Rightarrow> pystr list \<Rightarrow> model_error + pystr list" where
  "validate_acceptance_paths casefold value =
     bindE (mapE validate_repo_pattern value) (\<lambda>paths.
     bindE (check (distinct paths) ''acceptance test paths must be unique'') (\<lambda>_.
     bindE (any_outside_tests casefold paths) (\<lambda>outside.
     bindE (check (\<not> outside) ''acceptance test paths must be below tests/'') (\<lambda>_.
     Inr (sort paths)))))"

definition validate_tdd_contract :: "acceptance_test \<Rightarrow> model_error + acceptance_test" where
  "validate_tdd_contract t =
     bindE (check (distinct (at_expected_red_exit_codes t)) ''expected RED exit codes must be unique'') (\<lambda>_.
     bindE (check (\<not> list_ex (\<lambda>code. code < 0 \<or> code > 255) (at_expected_red_exit_codes t))
       ''expected RED exit codes must be between 0 and 255'') (\<lambda>_.
     bindE (if at_kind t = KTest then
              bindE (check (\<not> (at_expected_red_exit_codes t = [] \<or> at_expected_red_fingerprint t = None))
                ''test acceptance requires RED exit codes and a failure fingerprint'') (\<lambda>_.
              check (at_expected_exit_code t \<notin> set (at_expected_red_exit_codes t))
                ''GREEN exit code must not be an expected RED exit code'')
            else
              check (\<not> (at_expected_red_exit_codes t \<noteq> [] \<or> at_expected_red_fingerprint t \<noteq> None
                  \<or> at_test_paths t \<noteq> []))
                ''quality acceptance must not define RED evidence'') (\<lambda>_.
     Inr t)))"

text \<open>
  All fields are validated before an error is reported, so an exception of a validator that is
  not a \<open>ValueError\<close> wins over the errors of the other fields.
\<close>

definition acceptance_fields_ok :: "acceptance_test \<Rightarrow> bool" where
  "acceptance_fields_ok t \<longleftrightarrow>
     is_upper_id (at_id t) \<and> sized 1 64 (at_command t) \<and> texts (at_command t)
     \<and> in_range 0 255 (at_expected_exit_code t) \<and> sized 0 16 (at_expected_red_exit_codes t)
     \<and> opt_ok is_sha256 (at_expected_red_fingerprint t)"

definition acceptance_paths_field :: "fold_fn \<Rightarrow> acceptance_test \<Rightarrow> model_error + pystr list" where
  "acceptance_paths_field casefold t =
     bindE (check (sized 0 100 (at_test_paths t) \<and> texts (at_test_paths t)) ''field constraints'') (\<lambda>_.
     validate_acceptance_paths casefold (at_test_paths t))"

definition validate_acceptance :: "fold_fn \<Rightarrow> acceptance_test \<Rightarrow> model_error + acceptance_test" where
  "validate_acceptance casefold t =
     (if acceptance_paths_field casefold t = Inl IndexError then Inl IndexError else
     bindE (check (acceptance_fields_ok t) ''field constraints'') (\<lambda>_.
     bindE (validate_command (at_command t)) (\<lambda>command.
     bindE (acceptance_paths_field casefold t) (\<lambda>paths.
     validate_tdd_contract (t\<lparr>at_command := command, at_test_paths := paths\<rparr>)))))"

record review_prompts =
  rp_reviewer_sha256 :: pystr
  rp_adversary_sha256 :: pystr

record candidate_commit =
  cc_message :: pystr
  cc_author_name :: pystr
  cc_author_email :: pystr
  cc_timestamp :: int
  cc_timezone :: pystr

definition candidate_commit_ok :: "candidate_commit \<Rightarrow> bool" where
  "candidate_commit_ok c \<longleftrightarrow>
     text_in 1 128 (cc_message c) \<and> list_all not_newline (cc_message c)
     \<and> text_in 1 128 (cc_author_name c) \<and> list_all (\<lambda>x. not_newline x \<and> not_angle x) (cc_author_name c)
     \<and> text_in 3 254 (cc_author_email c) \<and> is_email (cc_author_email c)
     \<and> in_range 0 4102444800 (cc_timestamp c) \<and> is_timezone (cc_timezone c)"

record diff_limits =
  dl_max_changed_files :: int
  dl_max_added_lines :: int
  dl_max_file_bytes :: int
  dl_max_total_bytes :: int

definition validate_limits :: "diff_limits \<Rightarrow> model_error + diff_limits" where
  "validate_limits l =
     bindE (check (in_range 1 500 (dl_max_changed_files l) \<and> in_range 0 100000 (dl_max_added_lines l)
         \<and> in_range 1 100000000 (dl_max_file_bytes l) \<and> in_range 1 500000000 (dl_max_total_bytes l))
       ''field constraints'') (\<lambda>_.
     bindE (check (\<not> dl_max_total_bytes l < dl_max_file_bytes l)
       ''max_total_bytes must be greater than or equal to max_file_bytes'') (\<lambda>_.
     Inr l))"

datatype task_version = TaskV1 | TaskV2

record task_spec =
  ts_version :: task_version
  ts_task_id :: pystr
  ts_base_sha :: pystr
  ts_trusted_harness_sha256 :: pystr
  ts_objective :: pystr
  ts_requirements :: "requirement list"
  ts_review_prompts :: review_prompts
  ts_candidate_commit :: candidate_commit
  ts_acceptance_tests :: "acceptance_test list"
  ts_allowed_paths :: "pystr list"
  ts_denied_paths :: "pystr list"
  ts_limits :: diff_limits
  ts_out_of_scope :: "pystr list"

definition validate_patterns :: "pystr list \<Rightarrow> model_error + pystr list" where
  "validate_patterns value =
     bindE (mapE validate_repo_pattern value) (\<lambda>patterns.
     bindE (check (distinct patterns) ''path patterns must be unique'') (\<lambda>_. Inr patterns))"

definition validate_out_of_scope :: "pystr list \<Rightarrow> model_error + pystr list" where
  "validate_out_of_scope value =
     bindE (check (\<not> list_ex (\<lambda>item. strip item = []) value) ''out_of_scope entries must not be blank'') (\<lambda>_.
     Inr value)"

definition validate_unique_ids :: "task_spec \<Rightarrow> model_error + task_spec" where
  "validate_unique_ids t =
     bindE (check (distinct (map req_id (ts_requirements t))) ''requirement ids must be unique'') (\<lambda>_.
     bindE (check (distinct (map at_id (ts_acceptance_tests t))) ''acceptance test ids must be unique'') (\<lambda>_.
     bindE (check (ts_version t = TaskV2 \<longrightarrow>
         filter (\<lambda>a. at_kind a = KTest \<and> at_test_paths a = []) (ts_acceptance_tests t) = [])
       ''TaskSpec v2 test acceptance requires exact test_paths'') (\<lambda>_.
     Inr t)))"

definition task_fields_ok :: "task_spec \<Rightarrow> bool" where
  "task_fields_ok t \<longleftrightarrow>
     is_upper_id (ts_task_id t) \<and> is_git_sha (ts_base_sha t)
     \<and> is_sha256 (ts_trusted_harness_sha256 t) \<and> text_in 1 4000 (ts_objective t)
     \<and> sized 1 100 (ts_requirements t) \<and> list_all requirement_ok (ts_requirements t)
     \<and> is_sha256 (rp_reviewer_sha256 (ts_review_prompts t))
     \<and> is_sha256 (rp_adversary_sha256 (ts_review_prompts t))
     \<and> candidate_commit_ok (ts_candidate_commit t) \<and> sized 1 100 (ts_acceptance_tests t)
     \<and> sized 1 100 (ts_allowed_paths t) \<and> texts (ts_allowed_paths t)
     \<and> sized 1 100 (ts_denied_paths t) \<and> texts (ts_denied_paths t)
     \<and> sized 0 100 (ts_out_of_scope t) \<and> texts (ts_out_of_scope t)"

text \<open>The list of tests is read up to the first element past its maximum length.\<close>

definition validate_task :: "fold_fn \<Rightarrow> task_spec \<Rightarrow> model_error + task_spec" where
  "validate_task casefold t =
     (if list_ex (\<lambda>a. validate_acceptance casefold a = Inl IndexError) (take 101 (ts_acceptance_tests t))
      then Inl IndexError else
     bindE (check (task_fields_ok t) ''field constraints'') (\<lambda>_.
     bindE (mapE (validate_acceptance casefold) (ts_acceptance_tests t)) (\<lambda>tests.
     bindE (validate_patterns (ts_allowed_paths t)) (\<lambda>allowed.
     bindE (validate_patterns (ts_denied_paths t)) (\<lambda>denied.
     bindE (validate_limits (ts_limits t)) (\<lambda>limits.
     bindE (validate_out_of_scope (ts_out_of_scope t)) (\<lambda>scope.
     validate_unique_ids (t\<lparr>ts_acceptance_tests := tests, ts_allowed_paths := allowed,
       ts_denied_paths := denied, ts_limits := limits, ts_out_of_scope := scope\<rparr>))))))))"

section \<open>Policy reports\<close>

record diff_file =
  df_path :: pystr
  df_status :: pystr
  df_additions :: "int option"
  df_deletions :: "int option"
  df_binary :: bool
  df_content_sha256 :: "pystr option"

definition diff_file_ok :: "diff_file \<Rightarrow> bool" where
  "diff_file_ok f \<longleftrightarrow> text_in 1 4096 (df_path f) \<and> is_status (df_status f)
     \<and> opt_ok (\<lambda>n. 0 \<le> n) (df_additions f) \<and> opt_ok (\<lambda>n. 0 \<le> n) (df_deletions f)
     \<and> opt_ok is_sha256 (df_content_sha256 f)"

record policy_report =
  pr_task_id :: pystr
  pr_task_sha256 :: pystr
  pr_passed :: bool
  pr_trusted_harness_sha256 :: pystr
  pr_base_sha :: pystr
  pr_head_sha :: pystr
  pr_patch_sha256 :: "pystr option"
  pr_changed_files :: "diff_file list"
  pr_total_added_lines :: int
  pr_violations :: "pystr list"

definition policy_fields_ok :: "policy_report \<Rightarrow> bool" where
  "policy_fields_ok p \<longleftrightarrow> is_upper_id (pr_task_id p) \<and> is_sha256 (pr_task_sha256 p)
     \<and> is_sha256 (pr_trusted_harness_sha256 p) \<and> is_git_sha (pr_base_sha p) \<and> is_git_sha (pr_head_sha p)
     \<and> opt_ok is_sha256 (pr_patch_sha256 p) \<and> list_all diff_file_ok (pr_changed_files p)
     \<and> 0 \<le> pr_total_added_lines p \<and> texts (pr_violations p)"

definition policy_consistency :: "policy_report \<Rightarrow> model_error + policy_report" where
  "policy_consistency p =
     bindE (check (\<not> (pr_passed p \<and> pr_violations p \<noteq> []))
       ''a passing policy report cannot contain violations'') (\<lambda>_.
     bindE (check (\<not> (pr_passed p \<and> pr_patch_sha256 p = None))
       ''a passing policy report requires a patch hash'') (\<lambda>_.
     bindE (check (\<not> (pr_passed p \<and> pr_changed_files p = []))
       ''a passing policy report requires at least one changed file'') (\<lambda>_.
     bindE (check (\<not> (pr_passed p \<and> list_ex (\<lambda>f. df_content_sha256 f = None) (pr_changed_files p)))
       ''a passing policy report requires every changed content hash'') (\<lambda>_.
     bindE (check (\<not> (\<not> pr_passed p \<and> pr_violations p = []))
       ''a failing policy report requires at least one violation'') (\<lambda>_.
     Inr p)))))"

definition validate_policy :: "policy_report \<Rightarrow> model_error + policy_report" where
  "validate_policy p =
     bindE (check (policy_fields_ok p) ''field constraints'') (\<lambda>_. policy_consistency p)"

section \<open>Reviews\<close>

datatype severity = Critical | High | Medium | Low

record finding =
  fi_id :: pystr
  fi_severity :: severity
  fi_requirement_id :: "pystr option"
  fi_path :: "pystr option"
  fi_line :: "int option"
  fi_evidence :: pystr
  fi_proposed_test :: "pystr option"

definition finding_fields_ok :: "finding \<Rightarrow> bool" where
  "finding_fields_ok f \<longleftrightarrow> is_upper_id (fi_id f) \<and> opt_ok (text_in 0 64) (fi_requirement_id f)
     \<and> opt_ok (text_in 0 4096) (fi_path f) \<and> opt_ok (\<lambda>n. 1 \<le> n) (fi_line f)
     \<and> text_in 1 4000 (fi_evidence f) \<and> opt_ok (text_in 0 4000) (fi_proposed_test f)"

definition validate_finding :: "finding \<Rightarrow> model_error + finding" where
  "validate_finding f =
     bindE (check (finding_fields_ok f) ''field constraints'') (\<lambda>_.
     case fi_path f of
       None \<Rightarrow> Inr f
     | Some p \<Rightarrow> bindE (validate_repo_pattern p) (\<lambda>q. Inr (f\<lparr>fi_path := Some q\<rparr>)))"

datatype review_role = Reviewer | Adversary
datatype decision = Accept | ChangesRequired | Blocked

record review_report =
  rv_task_id :: pystr
  rv_task_sha256 :: pystr
  rv_role :: review_role
  rv_reviewer_id :: pystr
  rv_session_id :: pystr
  rv_prompt_sha256 :: pystr
  rv_decision :: decision
  rv_base_sha :: pystr
  rv_head_sha :: pystr
  rv_patch_sha256 :: pystr
  rv_summary :: pystr
  rv_findings :: "finding list"
  rv_unverified :: "pystr list"
  rv_external_calls :: bool

definition review_fields_ok :: "review_report \<Rightarrow> bool" where
  "review_fields_ok r \<longleftrightarrow> is_upper_id (rv_task_id r) \<and> is_sha256 (rv_task_sha256 r)
     \<and> is_actor_id (rv_reviewer_id r) \<and> is_actor_id (rv_session_id r) \<and> is_sha256 (rv_prompt_sha256 r)
     \<and> is_git_sha (rv_base_sha r) \<and> is_git_sha (rv_head_sha r) \<and> is_sha256 (rv_patch_sha256 r)
     \<and> text_in 1 4000 (rv_summary r) \<and> sized 0 200 (rv_findings r)
     \<and> sized 0 100 (rv_unverified r) \<and> texts (rv_unverified r)"

definition severe :: "finding \<Rightarrow> bool" where
  "severe f \<longleftrightarrow> fi_severity f = Critical \<or> fi_severity f = High"

definition review_contract :: "review_report \<Rightarrow> model_error + review_report" where
  "review_contract r =
     bindE (check (\<not> rv_external_calls r) ''external calls are forbidden in the MVP review harness'') (\<lambda>_.
     bindE (check (\<not> (rv_decision r = Accept \<and> list_ex severe (rv_findings r)))
       ''an accepted review cannot contain a critical or high finding'') (\<lambda>_.
     bindE (check (\<not> (rv_decision r \<noteq> Accept \<and> rv_findings r = []))
       ''a non-accepting review requires at least one finding'') (\<lambda>_.
     bindE (check (distinct (map fi_id (rv_findings r))) ''finding ids must be unique within a review'') (\<lambda>_.
     Inr r))))"

definition validate_review :: "review_report \<Rightarrow> model_error + review_report" where
  "validate_review r =
     bindE (check (review_fields_ok r) ''field constraints'') (\<lambda>_.
     bindE (mapE validate_finding (rv_findings r)) (\<lambda>findings.
     review_contract (r\<lparr>rv_findings := findings\<rparr>)))"

section \<open>Gates and the evidence of test-driven development\<close>

record gate_result =
  gr_task_id :: pystr
  gr_task_sha256 :: pystr
  gr_head_sha :: pystr
  gr_patch_sha256 :: pystr
  gr_acceptance_test_id :: pystr
  gr_command :: "pystr list"
  gr_expected_exit_code :: int
  gr_passed :: bool
  gr_exit_code :: int
  gr_evidence_sha256 :: pystr

definition gate_fields_ok :: "gate_result \<Rightarrow> bool" where
  "gate_fields_ok g \<longleftrightarrow> is_upper_id (gr_task_id g) \<and> is_sha256 (gr_task_sha256 g)
     \<and> is_git_sha (gr_head_sha g) \<and> is_sha256 (gr_patch_sha256 g) \<and> is_upper_id (gr_acceptance_test_id g)
     \<and> sized 1 64 (gr_command g) \<and> texts (gr_command g) \<and> in_range 0 255 (gr_expected_exit_code g)
     \<and> in_range 0 255 (gr_exit_code g) \<and> is_sha256 (gr_evidence_sha256 g)"

definition validate_gate :: "gate_result \<Rightarrow> model_error + gate_result" where
  "validate_gate g =
     bindE (check (gate_fields_ok g) ''field constraints'') (\<lambda>_.
     bindE (validate_command (gr_command g)) (\<lambda>_.
     bindE (check (gr_passed g = (gr_exit_code g = gr_expected_exit_code g))
       ''gate result contradicts its process exit code'') (\<lambda>_.
     Inr g)))"

record red_evidence =
  red_exit_code :: int
  red_log_sha256 :: pystr
  red_fingerprint_sha256 :: pystr
  red_test_patch_sha256 :: pystr

definition red_ok :: "red_evidence \<Rightarrow> bool" where
  "red_ok r \<longleftrightarrow> in_range 0 255 (red_exit_code r) \<and> is_sha256 (red_log_sha256 r)
     \<and> is_sha256 (red_fingerprint_sha256 r) \<and> is_sha256 (red_test_patch_sha256 r)"

record green_evidence =
  green_exit_code :: int
  green_log_sha256 :: pystr
  green_test_patch_sha256 :: pystr

definition green_ok :: "green_evidence \<Rightarrow> bool" where
  "green_ok g \<longleftrightarrow> in_range 0 255 (green_exit_code g) \<and> is_sha256 (green_log_sha256 g)
     \<and> is_sha256 (green_test_patch_sha256 g)"

datatype tdd_version = TddV1 | TddV2

record tdd_evidence =
  td_version :: tdd_version
  td_task_id :: pystr
  td_task_sha256 :: pystr
  td_base_sha :: pystr
  td_head_sha :: pystr
  td_patch_sha256 :: pystr
  td_acceptance_test_id :: pystr
  td_command :: "pystr list"
  td_test_paths :: "pystr list"
  td_test_manifest_sha256 :: pystr
  td_test_patch_sha256 :: pystr
  td_red_snapshot_sha256 :: "pystr option"
  td_green_snapshot_sha256 :: "pystr option"
  td_red :: red_evidence
  td_green :: green_evidence

definition tdd_fields_ok :: "tdd_evidence \<Rightarrow> bool" where
  "tdd_fields_ok t \<longleftrightarrow> is_upper_id (td_task_id t) \<and> is_sha256 (td_task_sha256 t)
     \<and> is_git_sha (td_base_sha t) \<and> is_git_sha (td_head_sha t) \<and> is_sha256 (td_patch_sha256 t)
     \<and> is_upper_id (td_acceptance_test_id t) \<and> sized 1 64 (td_command t) \<and> texts (td_command t)
     \<and> sized 1 100 (td_test_paths t) \<and> texts (td_test_paths t) \<and> is_sha256 (td_test_manifest_sha256 t)
     \<and> is_sha256 (td_test_patch_sha256 t) \<and> opt_ok is_sha256 (td_red_snapshot_sha256 t)
     \<and> opt_ok is_sha256 (td_green_snapshot_sha256 t) \<and> red_ok (td_red t) \<and> green_ok (td_green t)"

definition validate_test_paths :: "pystr list \<Rightarrow> model_error + pystr list" where
  "validate_test_paths value =
     bindE (mapE validate_repo_pattern value) (\<lambda>paths.
     bindE (check (distinct paths) ''test paths must be unique'') (\<lambda>_. Inr (sort paths)))"

definition snapshot_bindings :: "tdd_evidence \<Rightarrow> model_error + tdd_evidence" where
  "snapshot_bindings t =
     (if td_version t = TddV1 then
        bindE (check (\<not> (td_red_snapshot_sha256 t \<noteq> None \<or> td_green_snapshot_sha256 t \<noteq> None))
          ''TDD v1 must not claim v2 snapshot bindings'') (\<lambda>_. Inr t)
      else
        bindE (check (\<not> (td_red_snapshot_sha256 t = None \<or> td_green_snapshot_sha256 t = None))
          ''TDD v2 requires RED and GREEN snapshot bindings'') (\<lambda>_.
        bindE (check (td_red_snapshot_sha256 t \<noteq> td_green_snapshot_sha256 t)
          ''TDD v2 requires distinct measured RED and GREEN snapshots'') (\<lambda>_. Inr t)))"

definition validate_tdd :: "tdd_evidence \<Rightarrow> model_error + tdd_evidence" where
  "validate_tdd t =
     bindE (check (tdd_fields_ok t) ''field constraints'') (\<lambda>_.
     bindE (validate_command (td_command t)) (\<lambda>_.
     bindE (validate_test_paths (td_test_paths t)) (\<lambda>paths.
     snapshot_bindings (t\<lparr>td_test_paths := paths\<rparr>))))"

section \<open>Verdicts\<close>

datatype verdict_status = Pass | Fail | HumanReview

record verdict =
  vd_task_id :: pystr
  vd_task_sha256 :: pystr
  vd_trusted_harness_sha256 :: pystr
  vd_base_sha :: pystr
  vd_head_sha :: pystr
  vd_patch_sha256 :: "pystr option"
  vd_status :: verdict_status
  vd_gates :: "gate_result list"
  vd_blocking_findings :: "pystr list"
  vd_reasons :: "pystr list"
  vd_human_approval_required :: bool

definition verdict_fields_ok :: "verdict \<Rightarrow> bool" where
  "verdict_fields_ok v \<longleftrightarrow> is_upper_id (vd_task_id v) \<and> is_sha256 (vd_task_sha256 v)
     \<and> is_sha256 (vd_trusted_harness_sha256 v) \<and> is_git_sha (vd_base_sha v) \<and> is_git_sha (vd_head_sha v)
     \<and> opt_ok is_sha256 (vd_patch_sha256 v) \<and> texts (vd_blocking_findings v) \<and> texts (vd_reasons v)
     \<and> vd_human_approval_required v"

definition verdict_contract :: "verdict \<Rightarrow> model_error + verdict" where
  "verdict_contract v =
     bindE (check (\<not> (vd_status v \<noteq> Fail \<and> vd_gates v = []))
       ''a non-failing verdict requires at least one deterministic gate'') (\<lambda>_.
     bindE (check (\<not> (vd_status v = Pass \<and> (vd_blocking_findings v \<noteq> [] \<or> vd_reasons v \<noteq> [])))
       ''a passing verdict cannot contain blockers or reasons'') (\<lambda>_.
     bindE (check (\<not> (vd_status v = Pass \<and> vd_patch_sha256 v = None))
       ''a passing verdict requires a patch hash'') (\<lambda>_.
     bindE (check (\<not> (vd_status v \<noteq> Fail \<and> list_ex (\<lambda>g. \<not> gr_passed g) (vd_gates v)))
       ''a failed gate requires a failing verdict'') (\<lambda>_.
     bindE (check (\<not> (vd_status v \<noteq> Fail \<and> vd_blocking_findings v \<noteq> []))
       ''blocking findings require a failing verdict'') (\<lambda>_.
     bindE (check (\<not> (vd_status v \<noteq> Pass \<and> vd_reasons v = []))
       ''a non-passing verdict requires reasons'') (\<lambda>_.
     Inr v))))))"

definition validate_verdict :: "verdict \<Rightarrow> model_error + verdict" where
  "validate_verdict v =
     bindE (check (verdict_fields_ok v) ''field constraints'') (\<lambda>_. verdict_contract v)"

section \<open>What validated values satisfy\<close>

lemma check_eq_Inr [result_simps]: "check b m = Inr x \<longleftrightarrow> b"
  by (simp add: check_def result_simps)

lemma check_simps [simp]: "check True m = Inr ()" "check False m = Inl (ValidationError m)"
  by (simp_all add: check_def)

lemma validate_policy_iff:
  "validate_policy p = Inr q \<longleftrightarrow> q = p \<and> policy_fields_ok p
     \<and> (if pr_passed p then pr_violations p = [] \<and> pr_patch_sha256 p \<noteq> None \<and> pr_changed_files p \<noteq> []
           \<and> (\<forall>f \<in> set (pr_changed_files p). df_content_sha256 f \<noteq> None)
         else pr_violations p \<noteq> [])"
  by (auto simp: validate_policy_def policy_consistency_def result_simps list_ex_iff)

lemma validate_gate_iff:
  "validate_gate g = Inr h \<longleftrightarrow> h = g \<and> gate_fields_ok g
     \<and> (\<forall>a \<in> set (gr_command g). a \<noteq> [] \<and> 0 \<notin> set a)
     \<and> (gr_passed g \<longleftrightarrow> gr_exit_code g = gr_expected_exit_code g)"
  by (auto simp: validate_gate_def validate_command_def result_simps list_ex_iff)

lemma validate_repo_pattern_id: "validate_repo_pattern p = Inr q \<Longrightarrow> q = p"
  by (simp add: validate_repo_pattern_def result_simps)

lemma validate_patterns_id: "mapE validate_repo_pattern ps = Inr qs \<Longrightarrow> qs = ps"
  by (induction ps arbitrary: qs) (auto simp: result_simps dest: validate_repo_pattern_id)

lemma validate_finding_id: "validate_finding f = Inr g \<Longrightarrow> g = f \<and> finding_fields_ok f"
  by (cases f) (auto simp: validate_finding_def result_simps split: option.splits dest!: validate_repo_pattern_id)

lemma validate_findings_id: "mapE validate_finding fs = Inr gs \<Longrightarrow> gs = fs \<and> (\<forall>f \<in> set fs. finding_fields_ok f)"
  by (induction fs arbitrary: gs) (auto simp: result_simps dest: validate_finding_id)

lemma validate_review_facts:
  assumes "validate_review r = Inr q"
  shows "q = r" "review_fields_ok r" "\<forall>f \<in> set (rv_findings r). finding_fields_ok f" "\<not> rv_external_calls r"
    "rv_decision r = Accept \<Longrightarrow> f \<in> set (rv_findings r) \<Longrightarrow> \<not> severe f"
    "distinct (map fi_id (rv_findings r))"
proof -
  from assms obtain fs where fields: "review_fields_ok r" and fs: "mapE validate_finding (rv_findings r) = Inr fs"
      and contract: "review_contract (r\<lparr>rv_findings := fs\<rparr>) = Inr q"
    by (auto simp: validate_review_def result_simps)
  from validate_findings_id [OF fs] have "fs = rv_findings r" by simp
  then have r: "r\<lparr>rv_findings := fs\<rparr> = r" by simp
  show "q = r" "\<not> rv_external_calls r" "distinct (map fi_id (rv_findings r))"
    "rv_decision r = Accept \<Longrightarrow> f \<in> set (rv_findings r) \<Longrightarrow> \<not> severe f"
    using contract unfolding r by (auto simp: review_contract_def result_simps list_ex_iff)
  show "review_fields_ok r" by (fact fields)
  show "\<forall>f \<in> set (rv_findings r). finding_fields_ok f" using validate_findings_id [OF fs] by simp
qed

end
