(* ===== verification/Review_Facts.thy ===== *)
theory Review_Facts
  imports Review_Models
begin

text \<open>
  What the validators of \<open>models.py\<close> guarantee of a task: the contract between its tests, paths
  and limits, and that validating a validated task changes nothing.
\<close>

section \<open>Text\<close>

lemma texts_Nil [simp]: "texts []"
  by (simp add: texts_def)

lemma texts_append [simp]: "texts (xs @ ys) \<longleftrightarrow> texts xs \<and> texts ys"
  by (simp add: texts_def)

lemma texts_Cons [simp]: "texts (x # xs) \<longleftrightarrow> list_all scalar x \<and> texts xs"
  by (simp add: texts_def)

lemma texts_concat: "texts (concat xss) \<longleftrightarrow> (\<forall>xs \<in> set xss. texts xs)"
  by (induction xss) auto

lemma texts_iff: "texts xs \<longleftrightarrow> (\<forall>x \<in> set xs. list_all scalar x)"
  by (simp add: texts_def list_all_iff)

lemma scalar_u [simp]: "list_all scalar (u s)"
proof -
  have "scalar (of_char c)" for c :: char
  proof -
    have "(of_char c :: nat) < 256" by simp
    then show ?thesis unfolding scalar_def surrogate_def by linarith
  qed
  then show ?thesis by (simp add: u_def list_all_iff)
qed

lemma scalar_upper_id: "is_upper_id s \<Longrightarrow> list_all scalar s"
  by (auto simp: is_upper_id_def list_all_iff scalar_def surrogate_def upper_def is_digit_def split: list.splits)

section \<open>Patterns and paths\<close>

definition safe_pattern :: "pystr \<Rightarrow> bool" where
  "safe_pattern p \<longleftrightarrow> p \<noteq> [] \<and> hd p \<noteq> 0x2F \<and> 0x5C \<notin> set p \<and> u ''..'' \<notin> set (posix_parts p) \<and> (\<forall>c \<in> set p. 32 \<le> c)"

lemma validate_repo_pattern_iff: "validate_repo_pattern p = Inr q \<longleftrightarrow> q = p \<and> safe_pattern p"
  by (cases p) (auto simp: validate_repo_pattern_def safe_pattern_def result_simps list_ex_iff u_def not_less)

lemma validate_all_patterns_iff: "mapE validate_repo_pattern ps = Inr qs \<longleftrightarrow> qs = ps \<and> (\<forall>p \<in> set ps. safe_pattern p)"
  by (induction ps arbitrary: qs) (auto simp: result_simps validate_repo_pattern_iff)

definition below_tests :: "fold_fn \<Rightarrow> pystr \<Rightarrow> bool" where
  "below_tests casefold p \<longleftrightarrow> posix_parts p \<noteq> [] \<and> casefold (hd (posix_parts p)) = u ''tests''"

lemma any_outside_tests_iff:
  "any_outside_tests casefold ps = Inr False \<longleftrightarrow> (\<forall>p \<in> set ps. below_tests casefold p)"
  by (induction ps) (auto simp: below_tests_def split: list.splits)

lemma validate_acceptance_paths_iff:
  "validate_acceptance_paths casefold ps = Inr qs \<longleftrightarrow>
     qs = sort ps \<and> distinct ps \<and> (\<forall>p \<in> set ps. safe_pattern p \<and> below_tests casefold p)"
  by (auto simp: validate_acceptance_paths_def result_simps validate_all_patterns_iff any_outside_tests_iff
      ex_bool_eq)

lemma validate_command_iff:
  "validate_command c = Inr d \<longleftrightarrow> d = c \<and> (\<forall>a \<in> set c. a \<noteq> [] \<and> 0 \<notin> set a)"
  by (auto simp: validate_command_def result_simps list_ex_iff)

section \<open>Acceptance tests\<close>

definition tdd_contract :: "acceptance_test \<Rightarrow> bool" where
  "tdd_contract t \<longleftrightarrow>
     distinct (at_expected_red_exit_codes t) \<and> (\<forall>c \<in> set (at_expected_red_exit_codes t). 0 \<le> c \<and> c \<le> 255)
     \<and> (if at_kind t = KTest then at_expected_red_exit_codes t \<noteq> [] \<and> at_expected_red_fingerprint t \<noteq> None
           \<and> at_expected_exit_code t \<notin> set (at_expected_red_exit_codes t)
         else at_expected_red_exit_codes t = [] \<and> at_expected_red_fingerprint t = None \<and> at_test_paths t = [])"

lemma validate_tdd_contract_iff: "validate_tdd_contract t = Inr s \<longleftrightarrow> s = t \<and> tdd_contract t"
  by (auto simp: validate_tdd_contract_def tdd_contract_def result_simps list_ex_iff not_less split: if_splits)

lemma acceptance_paths_field_iff:
  "acceptance_paths_field casefold t = Inr ps \<longleftrightarrow>
     ps = sort (at_test_paths t) \<and> sized 0 100 (at_test_paths t) \<and> texts (at_test_paths t)
     \<and> distinct (at_test_paths t) \<and> (\<forall>p \<in> set (at_test_paths t). safe_pattern p \<and> below_tests casefold p)"
  by (auto simp: acceptance_paths_field_def result_simps validate_acceptance_paths_iff)

lemma validate_acceptance_iff:
  "validate_acceptance casefold t = Inr s \<longleftrightarrow>
     s = t\<lparr>at_test_paths := sort (at_test_paths t)\<rparr> \<and> acceptance_fields_ok t
     \<and> (\<forall>a \<in> set (at_command t). a \<noteq> [] \<and> 0 \<notin> set a) \<and> tdd_contract s
     \<and> sized 0 100 (at_test_paths t) \<and> texts (at_test_paths t) \<and> distinct (at_test_paths t)
     \<and> (\<forall>p \<in> set (at_test_paths t). safe_pattern p \<and> below_tests casefold p)"
proof (cases "acceptance_paths_field casefold t")
  case (Inl e)
  with acceptance_paths_field_iff [of casefold t "sort (at_test_paths t)"] show ?thesis
    by (auto simp: validate_acceptance_def result_simps)
next
  case (Inr ps)
  with acceptance_paths_field_iff [of casefold t ps] show ?thesis
    by (auto simp: validate_acceptance_def result_simps validate_command_iff validate_tdd_contract_iff)
qed

lemma validate_acceptance_stable:
  assumes "validate_acceptance casefold t = Inr s"
  shows "validate_acceptance casefold s = Inr s"
  using assms by (simp add: validate_acceptance_iff) (auto simp: acceptance_fields_ok_def sized_def texts_def list_all_iff sorted_sort_id)

section \<open>Tasks\<close>

lemma validate_patterns_iff:
  "validate_patterns ps = Inr qs \<longleftrightarrow> qs = ps \<and> distinct ps \<and> (\<forall>p \<in> set ps. safe_pattern p)"
  by (auto simp: validate_patterns_def result_simps validate_all_patterns_iff)

lemma validate_limits_iff:
  "validate_limits l = Inr m \<longleftrightarrow> m = l \<and> in_range 1 500 (dl_max_changed_files l) \<and> in_range 0 100000 (dl_max_added_lines l)
     \<and> in_range 1 100000000 (dl_max_file_bytes l) \<and> in_range 1 500000000 (dl_max_total_bytes l)
     \<and> dl_max_file_bytes l \<le> dl_max_total_bytes l"
  by (auto simp: validate_limits_def result_simps)

lemma validate_out_of_scope_iff:
  "validate_out_of_scope xs = Inr ys \<longleftrightarrow> ys = xs \<and> (\<forall>x \<in> set xs. strip x \<noteq> [])"
  by (auto simp: validate_out_of_scope_def result_simps list_ex_iff)

definition unique_ids :: "task_spec \<Rightarrow> bool" where
  "unique_ids t \<longleftrightarrow> distinct (map req_id (ts_requirements t)) \<and> distinct (map at_id (ts_acceptance_tests t))
     \<and> (ts_version t = TaskV2 \<longrightarrow> (\<forall>a \<in> set (ts_acceptance_tests t). at_kind a = KTest \<longrightarrow> at_test_paths a \<noteq> []))"

lemma validate_unique_ids_iff: "validate_unique_ids t = Inr s \<longleftrightarrow> s = t \<and> unique_ids t"
  by (auto simp: validate_unique_ids_def unique_ids_def result_simps filter_empty_conv)

lemma validate_tests_stable:
  "mapE (validate_acceptance casefold) ts = Inr ss \<Longrightarrow> mapE (validate_acceptance casefold) ss = Inr ss"
  by (induction ts arbitrary: ss) (auto simp: result_simps validate_acceptance_stable)

lemma no_index_error:
  "mapE (validate_acceptance casefold) ts = Inr ss \<Longrightarrow>
     \<not> list_ex (\<lambda>a. validate_acceptance casefold a = Inl IndexError) (take n ts)"
  by (auto simp: mapE_eq_Inr list_all2_conv_all_nth list_ex_iff in_set_conv_nth)

lemma validate_task_iff:
  "validate_task casefold t = Inr s \<longleftrightarrow>
     (\<exists>tests. mapE (validate_acceptance casefold) (ts_acceptance_tests t) = Inr tests
        \<and> s = t\<lparr>ts_acceptance_tests := tests\<rparr> \<and> unique_ids s)
     \<and> task_fields_ok t \<and> distinct (ts_allowed_paths t) \<and> (\<forall>p \<in> set (ts_allowed_paths t). safe_pattern p)
     \<and> distinct (ts_denied_paths t) \<and> (\<forall>p \<in> set (ts_denied_paths t). safe_pattern p)
     \<and> validate_limits (ts_limits t) = Inr (ts_limits t) \<and> (\<forall>x \<in> set (ts_out_of_scope t). strip x \<noteq> [])"
proof -
  have keep: "t\<lparr>ts_acceptance_tests := tests, ts_allowed_paths := ts_allowed_paths t, ts_denied_paths := ts_denied_paths t,
      ts_limits := ts_limits t, ts_out_of_scope := ts_out_of_scope t\<rparr> = t\<lparr>ts_acceptance_tests := tests\<rparr>" for tests
    by simp
  show ?thesis
  proof (cases "mapE (validate_acceptance casefold) (ts_acceptance_tests t)")
    case (Inl e)
    then show ?thesis by (simp add: validate_task_def result_simps)
  next
    case (Inr tests)
    show ?thesis
    proof (cases "validate_limits (ts_limits t)")
      case (Inr l)
      then have "l = ts_limits t" by (simp add: validate_limits_iff)
      with Inr \<open>mapE _ _ = Inr tests\<close> no_index_error [OF \<open>mapE _ _ = Inr tests\<close>, of 101] show ?thesis
        by (simp add: validate_task_def result_simps validate_patterns_iff validate_out_of_scope_iff
            validate_unique_ids_iff keep) blast
    qed (simp add: validate_task_def result_simps)
  qed
qed

lemma validate_acceptance_facts:
  assumes "validate_acceptance casefold t = Inr s"
  shows "at_id s = at_id t" "tdd_contract s" "sorted (at_test_paths s)" "distinct (at_test_paths s)"
    "p \<in> set (at_test_paths s) \<Longrightarrow> safe_pattern p \<and> below_tests casefold p"
  using assms by (auto simp: validate_acceptance_iff)

text \<open>
  C12. A validated task validates again unchanged, and it keeps the contract its users rely on:
  no test can pass with an exit code that also counts as its expected failure, the paths of the
  tests lie below the tests directory, no path leaves the repository, identifiers are unique, and
  in version 2.0 each test names its paths.
\<close>

theorem validated_task_keeps_its_contract:
  assumes "validate_task casefold raw = Inr t"
  shows "validate_task casefold t = Inr t \<and> unique_ids t
    \<and> (\<forall>a \<in> set (ts_acceptance_tests t). tdd_contract a \<and> distinct (at_test_paths a)
         \<and> (\<forall>p \<in> set (at_test_paths a). safe_pattern p \<and> below_tests casefold p))
    \<and> (\<forall>p \<in> set (ts_allowed_paths t) \<union> set (ts_denied_paths t). safe_pattern p)
    \<and> dl_max_file_bytes (ts_limits t) \<le> dl_max_total_bytes (ts_limits t)"
proof -
  from assms obtain tests where tests: "mapE (validate_acceptance casefold) (ts_acceptance_tests raw) = Inr tests"
      and t: "t = raw\<lparr>ts_acceptance_tests := tests\<rparr>"
    unfolding validate_task_iff by blast
  have stable: "mapE (validate_acceptance casefold) tests = Inr tests" by (rule validate_tests_stable [OF tests])
  have "task_fields_ok t" using assms mapE_length [OF tests]
    unfolding validate_task_iff t by (simp add: task_fields_ok_def sized_def)
  moreover have "unique_ids t" using assms unfolding validate_task_iff t by blast
  ultimately have "validate_task casefold t = Inr t"
    using assms stable unfolding validate_task_iff t by simp
  moreover have "validate_acceptance casefold a = Inr a" if "a \<in> set tests" for a
    using stable that by (simp add: mapE_eq_Inr list_all2_same)
  then have "tdd_contract a \<and> distinct (at_test_paths a) \<and> (\<forall>p \<in> set (at_test_paths a). safe_pattern p \<and> below_tests casefold p)"
    if "a \<in> set tests" for a
    using that validate_acceptance_facts [of casefold a a] by blast
  ultimately show ?thesis
    using assms unfolding validate_task_iff t by (auto simp: validate_limits_iff)
qed

text \<open>
  An acceptance test whose only path is a single dot passes the pattern checks and then stops
  the validation with an \<open>IndexError\<close> instead of a validation error, whatever its other fields.
\<close>

theorem dot_path_raises_index_error:
  "validate_acceptance casefold (t\<lparr>at_test_paths := [u ''.'']\<rparr>) = Inl IndexError"
  by (simp add: validate_acceptance_def acceptance_paths_field_def validate_acceptance_paths_def sized_def texts_def
      validate_repo_pattern_def posix_parts_def u_def check_def scalar_def surrogate_def)

section \<open>An example\<close>

definition hex64 :: "nat \<Rightarrow> pystr" where
  "hex64 d = replicate 64 d"

definition hex40 :: pystr where
  "hex40 = replicate 40 0x61"

definition demo_acceptance :: acceptance_test where
  "demo_acceptance = \<lparr>at_id = u ''AT1'', at_kind = KTest, at_command = [u ''pytest''],
     at_expected_exit_code = 0, at_expected_red_exit_codes = [1],
     at_expected_red_fingerprint = Some (hex64 0x62), at_test_paths = [u ''tests/a.py'']\<rparr>"

definition demo_task :: task_spec where
  "demo_task = \<lparr>ts_version = TaskV2, ts_task_id = u ''T1'', ts_base_sha = hex40,
     ts_trusted_harness_sha256 = hex64 0x63, ts_objective = u ''fix'',
     ts_requirements = [\<lparr>req_id = u ''R1'', req_text = u ''works''\<rparr>],
     ts_review_prompts = \<lparr>rp_reviewer_sha256 = hex64 0x30, rp_adversary_sha256 = hex64 0x31\<rparr>,
     ts_candidate_commit = \<lparr>cc_message = u ''fix'', cc_author_name = u ''A'', cc_author_email = u ''a@b'',
       cc_timestamp = 0, cc_timezone = u ''+0000''\<rparr>,
     ts_acceptance_tests = [demo_acceptance], ts_allowed_paths = [u ''src''], ts_denied_paths = [u ''tools''],
     ts_limits = \<lparr>dl_max_changed_files = 5, dl_max_added_lines = 50, dl_max_file_bytes = 1000,
       dl_max_total_bytes = 2000\<rparr>,
     ts_out_of_scope = []\<rparr>"

lemma hex64_sha256: "is_sha256 (hex64 d) \<longleftrightarrow> lower_hex d"
  by (auto simp: is_sha256_def hex64_def list_all_iff)

lemma hex40_git_sha: "is_git_sha hex40"
  by (auto simp: is_git_sha_def hex40_def list_all_iff lower_hex_def is_digit_def)

lemma demo_id_shapes: "is_actor_id (u ''r'')" "is_actor_id (u ''a'')" "is_status (u ''A'')" "is_upper_id (u ''T1'')" "is_upper_id (u ''R1'')" "is_upper_id (u ''AT1'')"
  by (simp_all add: is_upper_id_def is_actor_id_def is_status_def alnum_def u_def upper_def lower_def is_digit_def)

lemma demo_patterns:
  "validate_repo_pattern (u ''src'') = Inr (u ''src'')" "validate_repo_pattern (u ''tools'') = Inr (u ''tools'')"
  "validate_repo_pattern (u ''tests/a.py'') = Inr (u ''tests/a.py'')"
  "posix_parts (u ''tests/a.py'') = [u ''tests'', u ''a.py'']" "ascii_casefold (u ''tests'') = u ''tests''"
  "0 \<notin> set (u ''pytest'')"
  by (simp_all add: validate_repo_pattern_def u_def posix_parts_def ascii_casefold_def ascii_lower_def)

lemma lower_hex_values [simp]: "lower_hex 0x30" "lower_hex 0x31" "lower_hex 0x32" "lower_hex 0x33" "lower_hex 0x34"
    "lower_hex 0x62" "lower_hex 0x63" "lower_hex 0x64" "lower_hex 0x65" "lower_hex 0x66"
  by (simp_all add: lower_hex_def is_digit_def)

lemma demo_acceptance_valid: "validate_acceptance ascii_casefold demo_acceptance = Inr demo_acceptance"
  by (simp add: validate_acceptance_def acceptance_paths_field_def acceptance_fields_ok_def demo_acceptance_def
      validate_acceptance_paths_def demo_patterns demo_id_shapes sized_def texts_def in_range_def opt_ok_def
      hex64_sha256 validate_command_def validate_tdd_contract_def check_def)

lemma demo_task_valid: "validate_task ascii_casefold demo_task = Inr demo_task"
proof -
  have "is_email (u ''a@b'')" "is_timezone (u ''+0000'')"
    by (simp_all add: is_email_def is_timezone_def partition_at_def u_def not_angle_def rust_space_def py_space_def is_digit_def)
  moreover have "list_all not_newline (u ''fix'')" "list_all (\<lambda>x. not_newline x \<and> not_angle x) (u ''A'')"
    by (simp_all add: u_def not_newline_def not_angle_def)
  ultimately have fields: "task_fields_ok demo_task"
    by (simp add: task_fields_ok_def demo_task_def demo_id_shapes hex64_sha256 hex40_git_sha text_in_def sized_def
        requirement_ok_def candidate_commit_ok_def in_range_def texts_def)
  have unique: "validate_unique_ids demo_task = Inr demo_task"
    by (simp add: validate_unique_ids_def demo_task_def demo_acceptance_def check_def)
  show ?thesis
    using fields unique
    by (simp add: validate_task_def, simp add: demo_task_def demo_acceptance_valid validate_patterns_def demo_patterns
        validate_limits_def in_range_def validate_out_of_scope_def)
qed

theorem validated_task_keeps_its_contract_witness:
  "unique_ids demo_task \<and> tdd_contract demo_acceptance
    \<and> list_all (\<lambda>p. safe_pattern p \<and> below_tests ascii_casefold p) (at_test_paths demo_acceptance)"
  using validated_task_keeps_its_contract [OF demo_task_valid] by (simp add: demo_task_def list_all_iff)

end
