(* ===== verification/Judge.thy ===== *)
theory Judge
  imports Review_Models
begin

text \<open>
  \<open>tools/ai_review/judge.py\<close>: the deterministic verdict over a task, its policy report, the two
  reviews, the acceptance gates and the test-driven evidence. The reasons are collected in the
  order of the code, one definition per block of the function. \<open>approvable\<close> is the abstract
  specification: what a candidate must satisfy to reach a human decision.
\<close>

section \<open>Helpers\<close>

definition say :: "bool \<Rightarrow> pystr \<Rightarrow> pystr list" where
  "say b message = (if b then [message] else [])"

text \<open>\<open>{key(x): x for x in xs}.get(k)\<close>: the last of the elements with the key.\<close>

definition by_key :: "('a \<Rightarrow> 'k) \<Rightarrow> 'a list \<Rightarrow> 'k \<Rightarrow> 'a option" where
  "by_key key xs k = map_of (rev (map (\<lambda>x. (key x, x)) xs)) k"

text \<open>\<open>sorted(set(xs) - set(ys))\<close>, and the keys a \<open>Counter\<close> does not count exactly once.\<close>

definition sorted_missing :: "'a :: linorder list \<Rightarrow> 'a list \<Rightarrow> 'a list" where
  "sorted_missing xs ys = sort (filter (\<lambda>x. x \<notin> set ys) (from_keys xs))"

definition not_once :: "'a :: linorder list \<Rightarrow> 'a list" where
  "not_once xs = sort (filter (\<lambda>x. count_list xs x \<noteq> 1) (from_keys xs))"

definition comma :: "pystr list \<Rightarrow> pystr" where
  "comma xs = join_str (u '', '') xs"

definition role_name :: "review_role \<Rightarrow> pystr" where
  "role_name r = (case r of Reviewer \<Rightarrow> u ''reviewer'' | Adversary \<Rightarrow> u ''adversary'')"

definition decision_name :: "decision \<Rightarrow> pystr" where
  "decision_name d =
     (case d of Accept \<Rightarrow> u ''accept'' | ChangesRequired \<Rightarrow> u ''changes_required'' | Blocked \<Rightarrow> u ''blocked'')"

text \<open>The roles are ordered as their names are.\<close>

instantiation review_role :: linorder
begin

definition less_eq_review_role :: "review_role \<Rightarrow> review_role \<Rightarrow> bool" where
  "less_eq_review_role a b \<longleftrightarrow> role_name a \<le> role_name b"

definition less_review_role :: "review_role \<Rightarrow> review_role \<Rightarrow> bool" where
  "less_review_role a b \<longleftrightarrow> role_name a < role_name b"

instance
  by standard
    (auto simp: less_eq_review_role_def less_review_role_def role_name_def less_le split: review_role.splits)

end

definition REQUIRED_ROLES :: "review_role list" where
  "REQUIRED_ROLES = [Reviewer, Adversary]"

section \<open>The test manifest\<close>

definition manifest_value :: "pystr \<Rightarrow> model_error + bytes" where
  "manifest_value value =
     (case utf8_encode value of
        None \<Rightarrow> Inl UnicodeEncodeError
      | Some encoded \<Rightarrow>
          if length encoded < 2 ^ 32
          then Inr (map char_of (be_bytes 4 (length encoded)) @ encoded)
          else Inl OverflowError)"

text \<open>The bytes fed to the digest, or \<open>None\<close> when a path has no content hash.\<close>

fun manifest_bytes :: "(pystr \<Rightarrow> diff_file option) \<Rightarrow> pystr list \<Rightarrow> model_error + bytes option" where
  "manifest_bytes files [] = Inr (Some [])"
| "manifest_bytes files (path # paths) =
     (case files path of
        None \<Rightarrow> Inr None
      | Some item \<Rightarrow>
          (case df_content_sha256 item of
             None \<Rightarrow> Inr None
           | Some content \<Rightarrow>
               bindE (manifest_value path) (\<lambda>a.
               bindE (manifest_value content) (\<lambda>b.
               bindE (manifest_bytes files paths) (\<lambda>rest.
               Inr (map_option (\<lambda>r. a @ b @ r) rest))))))"

definition MANIFEST_DOMAIN :: bytes where
  "MANIFEST_DOMAIN = ''amazon-explorer-ai-review-test-manifest-v1'' @ [CHR 0x00]"

definition build_test_manifest_sha256 ::
    "hash_fn \<Rightarrow> policy_report \<Rightarrow> pystr list \<Rightarrow> model_error + pystr option" where
  "build_test_manifest_sha256 sha policy test_paths =
     bindE (manifest_bytes (by_key df_path (pr_changed_files policy)) (sort test_paths)) (\<lambda>body.
     Inr (map_option (\<lambda>b. sha (MANIFEST_DOMAIN @ b)) body))"

section \<open>The blocks of the verdict\<close>

definition policy_reasons :: "task_spec \<Rightarrow> policy_report \<Rightarrow> pystr \<Rightarrow> pystr list" where
  "policy_reasons task policy task_sha256 =
     say (pr_task_id policy \<noteq> ts_task_id task) (u ''policy task id does not match the task'')
     @ say (pr_task_sha256 policy \<noteq> task_sha256) (u ''policy raw task SHA-256 does not match the task input'')
     @ say (pr_base_sha policy \<noteq> ts_base_sha task) (u ''policy base SHA does not match the task'')
     @ say (pr_trusted_harness_sha256 policy \<noteq> ts_trusted_harness_sha256 task)
         (u ''policy trusted harness SHA-256 does not match the task'')
     @ (if \<not> pr_passed policy then map (\<lambda>v. u ''policy: '' @ v) (pr_violations policy) else [])
     @ say (pr_patch_sha256 policy = None) (u ''policy did not produce a patch SHA-256'')"

definition tdd_binding_reasons :: "task_spec \<Rightarrow> policy_report \<Rightarrow> tdd_evidence \<Rightarrow> pystr \<Rightarrow> pystr list" where
  "tdd_binding_reasons task policy tdd task_sha256 =
     say (td_base_sha tdd \<noteq> ts_base_sha task) (u ''TDD evidence base SHA does not match the task'')
     @ say (td_task_id tdd \<noteq> ts_task_id task) (u ''TDD evidence task id does not match the task'')
     @ say (td_task_sha256 tdd \<noteq> task_sha256) (u ''TDD evidence raw task SHA-256 does not match the task input'')
     @ say (td_head_sha tdd \<noteq> pr_head_sha policy) (u ''TDD evidence head SHA does not match policy evidence'')
     @ say (Some (td_patch_sha256 tdd) \<noteq> pr_patch_sha256 policy)
         (u ''TDD evidence patch SHA-256 does not match policy evidence'')"

definition tdd_acceptance_reasons :: "task_spec \<Rightarrow> tdd_evidence \<Rightarrow> acceptance_test option \<Rightarrow> pystr list" where
  "tdd_acceptance_reasons task tdd acceptance =
     (case acceptance of
        None \<Rightarrow> [u ''TDD evidence references an unknown acceptance test'']
      | Some a \<Rightarrow>
          (if at_kind a \<noteq> KTest then [u ''TDD evidence must reference an acceptance test of kind test'']
           else if td_command tdd \<noteq> at_command a then [u ''TDD evidence command does not match the task'']
           else say (ts_version task = TaskV2 \<and> td_test_paths tdd \<noteq> at_test_paths a)
                  (u ''TDD evidence test paths do not match the TaskSpec''))
          @ say (red_exit_code (td_red tdd) \<notin> set (at_expected_red_exit_codes a))
              (u ''RED phase exit code does not match the task's expected failure'')
          @ say (Some (red_fingerprint_sha256 (td_red tdd)) \<noteq> at_expected_red_fingerprint a)
              (u ''RED phase failure fingerprint does not match the task'')
          @ say (green_exit_code (td_green tdd) \<noteq> at_expected_exit_code a) (u ''GREEN phase did not pass''))"

definition tdd_snapshot_reasons :: "tdd_evidence \<Rightarrow> pystr list" where
  "tdd_snapshot_reasons tdd =
     say (red_test_patch_sha256 (td_red tdd) \<noteq> td_test_patch_sha256 tdd
          \<or> green_test_patch_sha256 (td_green tdd) \<noteq> td_test_patch_sha256 tdd)
       (u ''test patch changed between RED and GREEN'')
     @ (if td_version tdd = TddV2 then
          if td_red_snapshot_sha256 tdd = None \<or> td_green_snapshot_sha256 tdd = None
          then [u ''TDD v2 requires measured RED and GREEN snapshot SHA-256 values'']
          else say (td_red_snapshot_sha256 tdd = td_green_snapshot_sha256 tdd)
            (u ''TDD v2 RED and GREEN snapshots must be distinct'')
        else [])"

definition tdd_path_reasons :: "policy_report \<Rightarrow> tdd_evidence \<Rightarrow> pystr option \<Rightarrow> pystr list" where
  "tdd_path_reasons policy tdd expected =
     (let missing = sorted_missing (td_test_paths tdd) (map df_path (pr_changed_files policy)) in
      say (missing \<noteq> []) (u ''TDD test paths are absent from the candidate diff: '' @ comma missing))
     @ (case expected of
          None \<Rightarrow> [u ''TDD test manifest cannot be derived from policy evidence'']
        | Some m \<Rightarrow> say (td_test_manifest_sha256 tdd \<noteq> m)
            (u ''TDD test manifest SHA-256 does not match policy evidence''))"

definition gate_set_reasons :: "task_spec \<Rightarrow> gate_result list \<Rightarrow> pystr list" where
  "gate_set_reasons task gates =
     (let ids = map at_id (ts_acceptance_tests task); seen = map gr_acceptance_test_id gates;
          missing = sorted_missing ids seen; unknown = sorted_missing seen ids; duplicate = not_once seen in
      say (missing \<noteq> []) (u ''missing acceptance gates: '' @ comma missing)
      @ say (unknown \<noteq> []) (u ''unknown acceptance gates: '' @ comma unknown)
      @ say (duplicate \<noteq> []) (u ''acceptance gates must appear exactly once: '' @ comma duplicate))"

definition gate_reasons :: "task_spec \<Rightarrow> policy_report \<Rightarrow> pystr \<Rightarrow> gate_result \<Rightarrow> pystr list" where
  "gate_reasons task policy task_sha256 gate =
     (let name = u ''gate '' @ gr_acceptance_test_id gate in
      say (gr_task_id gate \<noteq> ts_task_id task) (name @ u '' task id does not match the task'')
      @ say (gr_task_sha256 gate \<noteq> task_sha256) (name @ u '' raw task SHA-256 does not match the task input'')
      @ say (gr_head_sha gate \<noteq> pr_head_sha policy) (name @ u '' head SHA does not match policy evidence'')
      @ say (Some (gr_patch_sha256 gate) \<noteq> pr_patch_sha256 policy)
          (name @ u '' candidate digest does not match policy evidence'')
      @ (case by_key at_id (ts_acceptance_tests task) (gr_acceptance_test_id gate) of
           None \<Rightarrow> []
         | Some a \<Rightarrow>
             say (gr_command gate \<noteq> at_command a) (name @ u '' command does not match the task'')
             @ say (gr_expected_exit_code gate \<noteq> at_expected_exit_code a)
                 (name @ u '' expected exit code does not match the task'')
             @ say (\<not> gr_passed gate) (u ''gate failed: '' @ gr_acceptance_test_id gate)))"

definition role_reasons :: "review_report list \<Rightarrow> pystr list" where
  "role_reasons reviews =
     (let roles = map rv_role reviews; missing = sorted_missing REQUIRED_ROLES roles;
          duplicate = not_once roles in
      say (missing \<noteq> []) (u ''missing review roles: '' @ comma (map role_name missing))
      @ say (duplicate \<noteq> []) (u ''review roles must appear exactly once: '' @ comma (map role_name duplicate)))"

definition expected_prompt :: "task_spec \<Rightarrow> review_role \<Rightarrow> pystr" where
  "expected_prompt task role =
     (if role = Reviewer then rp_reviewer_sha256 (ts_review_prompts task)
      else rp_adversary_sha256 (ts_review_prompts task))"

definition finding_reasons :: "task_spec \<Rightarrow> review_role \<Rightarrow> finding \<Rightarrow> pystr list" where
  "finding_reasons task role f =
     (case fi_requirement_id f of
        None \<Rightarrow> []
      | Some r \<Rightarrow> say (r \<notin> set (map req_id (ts_requirements task)))
          (role_name role @ u '' finding '' @ fi_id f @ u '' references unknown requirement '' @ r))"

definition review_reasons :: "task_spec \<Rightarrow> policy_report \<Rightarrow> pystr \<Rightarrow> review_report \<Rightarrow> pystr list" where
  "review_reasons task policy task_sha256 review =
     (let name = role_name (rv_role review) in
      say (rv_task_id review \<noteq> ts_task_id task) (name @ u '' task id does not match the task'')
      @ say (rv_task_sha256 review \<noteq> task_sha256) (name @ u '' raw task SHA-256 does not match the task input'')
      @ say (rv_base_sha review \<noteq> ts_base_sha task) (name @ u '' base SHA does not match the task'')
      @ say (rv_head_sha review \<noteq> pr_head_sha policy) (name @ u '' head SHA does not match policy evidence'')
      @ say (Some (rv_patch_sha256 review) \<noteq> pr_patch_sha256 policy)
          (name @ u '' patch SHA-256 does not match policy evidence'')
      @ say (rv_prompt_sha256 review \<noteq> expected_prompt task (rv_role review))
          (name @ u '' prompt SHA-256 does not match the task'')
      @ say (rv_decision review \<noteq> Accept) (name @ u '' decision is '' @ decision_name (rv_decision review))
      @ concat (map (finding_reasons task (rv_role review)) (rv_findings review)))"

definition review_blockers :: "review_report \<Rightarrow> pystr list" where
  "review_blockers review =
     map (\<lambda>f. role_name (rv_role review) @ u '':'' @ fi_id f) (filter severe (rv_findings review))"

definition identity_reasons :: "review_report list \<Rightarrow> pystr list" where
  "identity_reasons reviews =
     (if length reviews = 2 then
        say (length (from_keys (map rv_reviewer_id reviews)) \<noteq> 2)
          (u ''reviewer and adversary must use distinct reviewer ids'')
        @ say (length (from_keys (map rv_session_id reviews)) \<noteq> 2)
          (u ''reviewer and adversary must use distinct session ids'')
      else [])"

section \<open>The verdict\<close>

definition judge_reasons ::
    "hash_fn \<Rightarrow> task_spec \<Rightarrow> policy_report \<Rightarrow> review_report list \<Rightarrow> gate_result list \<Rightarrow> tdd_evidence
     \<Rightarrow> pystr \<Rightarrow> model_error + pystr list" where
  "judge_reasons sha task policy reviews gates tdd task_sha256 =
     bindE (build_test_manifest_sha256 sha policy (td_test_paths tdd)) (\<lambda>expected.
     Inr (from_keys (
       policy_reasons task policy task_sha256
       @ tdd_binding_reasons task policy tdd task_sha256
       @ tdd_acceptance_reasons task tdd (by_key at_id (ts_acceptance_tests task) (td_acceptance_test_id tdd))
       @ tdd_snapshot_reasons tdd
       @ tdd_path_reasons policy tdd expected
       @ gate_set_reasons task gates
       @ concat (map (gate_reasons task policy task_sha256) gates)
       @ role_reasons reviews
       @ concat (map (review_reasons task policy task_sha256) reviews)
       @ identity_reasons reviews)))"

definition judge_blockers :: "review_report list \<Rightarrow> pystr list" where
  "judge_blockers reviews = from_keys (concat (map review_blockers reviews))"

definition open_questions :: "review_report list \<Rightarrow> bool" where
  "open_questions reviews \<longleftrightarrow>
     list_ex (\<lambda>r. rv_unverified r \<noteq> []) reviews
     \<or> list_ex (\<lambda>r. list_ex (\<lambda>f. fi_severity f = Medium) (rv_findings r)) reviews"

definition judge ::
    "hash_fn \<Rightarrow> task_spec \<Rightarrow> policy_report \<Rightarrow> review_report list \<Rightarrow> gate_result list \<Rightarrow> tdd_evidence
     \<Rightarrow> pystr \<Rightarrow> model_error + verdict" where
  "judge sha task policy reviews gates tdd task_sha256 =
     bindE (judge_reasons sha task policy reviews gates tdd task_sha256) (\<lambda>collected.
     let blockers = judge_blockers reviews;
         (status, reasons) =
           (if collected \<noteq> [] \<or> blockers \<noteq> [] then (Fail, collected)
            else if open_questions reviews then
              (HumanReview, [u ''medium findings or unverified items require an explicit human decision''])
            else
              (HumanReview, [u ''review provenance is self-reported until a trusted coordinator attests it'']))
     in validate_verdict \<lparr>
          vd_task_id = ts_task_id task, vd_task_sha256 = task_sha256,
          vd_trusted_harness_sha256 = ts_trusted_harness_sha256 task, vd_base_sha = ts_base_sha task,
          vd_head_sha = pr_head_sha policy, vd_patch_sha256 = pr_patch_sha256 policy, vd_status = status,
          vd_gates = gates, vd_blocking_findings = blockers, vd_reasons = reasons,
          vd_human_approval_required = True\<rparr>)"

end
