(* ===== verification/Judge_Facts.thy ===== *)
theory Judge_Facts
  imports Judge Review_Facts "HOL-Library.Multiset"
begin

text \<open>
  What the verdict means. \<open>approvable\<close> states, without the order or the wording of the reasons,
  what a candidate needs for a human decision; the judge decides exactly that, never passes a
  candidate by itself, and raises no error on validated evidence.
\<close>

section \<open>The abstract specification\<close>

definition policy_approves :: "task_spec \<Rightarrow> policy_report \<Rightarrow> pystr \<Rightarrow> bool" where
  "policy_approves task policy task_sha256 \<longleftrightarrow>
     pr_passed policy \<and> pr_task_id policy = ts_task_id task \<and> pr_task_sha256 policy = task_sha256
     \<and> pr_base_sha policy = ts_base_sha task
     \<and> pr_trusted_harness_sha256 policy = ts_trusted_harness_sha256 task \<and> pr_patch_sha256 policy \<noteq> None"

definition tdd_proves :: "task_spec \<Rightarrow> tdd_evidence \<Rightarrow> acceptance_test \<Rightarrow> bool" where
  "tdd_proves task tdd a \<longleftrightarrow>
     at_id a = td_acceptance_test_id tdd \<and> at_kind a = KTest \<and> at_command a = td_command tdd
     \<and> (ts_version task = TaskV2 \<longrightarrow> at_test_paths a = td_test_paths tdd)
     \<and> red_exit_code (td_red tdd) \<in> set (at_expected_red_exit_codes a)
     \<and> at_expected_red_fingerprint a = Some (red_fingerprint_sha256 (td_red tdd))
     \<and> green_exit_code (td_green tdd) = at_expected_exit_code a"

definition tdd_approves :: "hash_fn \<Rightarrow> task_spec \<Rightarrow> policy_report \<Rightarrow> tdd_evidence \<Rightarrow> pystr \<Rightarrow> bool" where
  "tdd_approves sha task policy tdd task_sha256 \<longleftrightarrow>
     td_base_sha tdd = ts_base_sha task \<and> td_task_id tdd = ts_task_id task \<and> td_task_sha256 tdd = task_sha256
     \<and> td_head_sha tdd = pr_head_sha policy \<and> pr_patch_sha256 policy = Some (td_patch_sha256 tdd)
     \<and> (\<exists>a \<in> set (ts_acceptance_tests task). tdd_proves task tdd a)
     \<and> red_test_patch_sha256 (td_red tdd) = td_test_patch_sha256 tdd
     \<and> green_test_patch_sha256 (td_green tdd) = td_test_patch_sha256 tdd
     \<and> (td_version tdd = TddV2 \<longrightarrow> td_red_snapshot_sha256 tdd \<noteq> None \<and> td_green_snapshot_sha256 tdd \<noteq> None
          \<and> td_red_snapshot_sha256 tdd \<noteq> td_green_snapshot_sha256 tdd)
     \<and> set (td_test_paths tdd) \<subseteq> df_path ` set (pr_changed_files policy)
     \<and> build_test_manifest_sha256 sha policy (td_test_paths tdd) = Inr (Some (td_test_manifest_sha256 tdd))"

definition gate_approves :: "task_spec \<Rightarrow> policy_report \<Rightarrow> pystr \<Rightarrow> gate_result \<Rightarrow> bool" where
  "gate_approves task policy task_sha256 g \<longleftrightarrow>
     gr_task_id g = ts_task_id task \<and> gr_task_sha256 g = task_sha256 \<and> gr_head_sha g = pr_head_sha policy
     \<and> pr_patch_sha256 policy = Some (gr_patch_sha256 g)
     \<and> (\<exists>a \<in> set (ts_acceptance_tests task). at_id a = gr_acceptance_test_id g \<and> at_command a = gr_command g
          \<and> at_expected_exit_code a = gr_expected_exit_code g \<and> gr_exit_code g = at_expected_exit_code a)"

definition review_approves :: "task_spec \<Rightarrow> policy_report \<Rightarrow> pystr \<Rightarrow> review_report \<Rightarrow> bool" where
  "review_approves task policy task_sha256 r \<longleftrightarrow>
     rv_task_id r = ts_task_id task \<and> rv_task_sha256 r = task_sha256 \<and> rv_base_sha r = ts_base_sha task
     \<and> rv_head_sha r = pr_head_sha policy \<and> pr_patch_sha256 policy = Some (rv_patch_sha256 r)
     \<and> rv_prompt_sha256 r = expected_prompt task (rv_role r) \<and> rv_decision r = Accept
     \<and> (\<forall>f \<in> set (rv_findings r). \<not> severe f
          \<and> (\<forall>q. fi_requirement_id f = Some q \<longrightarrow> q \<in> req_id ` set (ts_requirements task)))"

text \<open>One gate for every acceptance test, one review of either role by two parties in two sessions.\<close>

definition approvable ::
    "hash_fn \<Rightarrow> task_spec \<Rightarrow> policy_report \<Rightarrow> review_report list \<Rightarrow> gate_result list \<Rightarrow> tdd_evidence \<Rightarrow> pystr \<Rightarrow> bool" where
  "approvable sha task policy reviews gates tdd task_sha256 \<longleftrightarrow>
     policy_approves task policy task_sha256 \<and> tdd_approves sha task policy tdd task_sha256
     \<and> mset (map gr_acceptance_test_id gates) = mset (map at_id (ts_acceptance_tests task))
     \<and> (\<forall>g \<in> set gates. gate_approves task policy task_sha256 g)
     \<and> mset (map rv_role reviews) = {#Reviewer, Adversary#}
     \<and> (\<forall>r \<in> set reviews. review_approves task policy task_sha256 r)
     \<and> distinct (map rv_reviewer_id reviews) \<and> distinct (map rv_session_id reviews)"

text \<open>The inputs are what the models' validators return.\<close>

definition validated ::
    "fold_fn \<Rightarrow> task_spec \<Rightarrow> policy_report \<Rightarrow> review_report list \<Rightarrow> gate_result list \<Rightarrow> tdd_evidence \<Rightarrow> bool" where
  "validated casefold task policy reviews gates tdd \<longleftrightarrow>
     validate_task casefold task = Inr task \<and> validate_policy policy = Inr policy
     \<and> (\<forall>r \<in> set reviews. validate_review r = Inr r) \<and> (\<forall>g \<in> set gates. validate_gate g = Inr g)
     \<and> validate_tdd tdd = Inr tdd"

section \<open>Empty lists of reasons\<close>

lemma say_Nil [simp]: "say b m = [] \<longleftrightarrow> \<not> b"
  by (simp add: say_def)

lemma set_sorted_missing [simp]: "set (sorted_missing xs ys) = set xs - set ys"
  by (auto simp: sorted_missing_def)

lemma sorted_missing_Nil [simp]: "sorted_missing xs ys = [] \<longleftrightarrow> set xs \<subseteq> set ys"
  by (metis set_sorted_missing set_empty Diff_eq_empty_iff)

lemma set_not_once [simp]: "set (not_once xs) = {x \<in> set xs. count_list xs x \<noteq> 1}"
  by (auto simp: not_once_def)

lemma distinct_count_list: "distinct xs \<longleftrightarrow> (\<forall>x \<in> set xs. count_list xs x = 1)"
proof (induction xs)
  case (Cons y ys)
  have "count_list ys y = 0 \<longleftrightarrow> y \<notin> set ys" by (rule count_list_0_iff)
  then show ?case using Cons by auto
qed simp

lemma not_once_Nil [simp]: "not_once xs = [] \<longleftrightarrow> distinct xs"
  using set_not_once [of xs] unfolding distinct_count_list by (auto simp flip: set_empty)

lemma by_key_distinct:
  "distinct (map key xs) \<Longrightarrow> by_key key xs k = Some x \<longleftrightarrow> x \<in> set xs \<and> key x = k"
  unfolding by_key_def
  by (subst map_of_eq_Some_iff) (auto simp: rev_map comp_def distinct_rev [of "map key xs", unfolded rev_map])

lemma by_key_None: "by_key key xs k = None \<longleftrightarrow> k \<notin> key ` set xs"
  unfolding by_key_def by (auto simp: map_of_eq_None_iff image_iff)

lemma by_key_SomeD: "by_key key xs k = Some x \<Longrightarrow> x \<in> set xs \<and> key x = k"
  unfolding by_key_def by (drule map_of_SomeD) auto

lemma ex_with_key:
  assumes "distinct (map key xs)"
  shows "(\<exists>x \<in> set xs. key x = k \<and> P x) \<longleftrightarrow> (case by_key key xs k of None \<Rightarrow> False | Some x \<Rightarrow> P x)"
proof (cases "by_key key xs k")
  case None
  then have "k \<notin> key ` set xs" by (simp add: by_key_None)
  with None show ?thesis by auto
next
  case (Some x)
  then have "y \<in> set xs \<and> key y = k \<longleftrightarrow> y = x" for y
    using by_key_distinct [OF assms, of k y] by auto
  then have "(\<exists>y \<in> set xs. key y = k \<and> P y) \<longleftrightarrow> P x" by metis
  then show ?thesis by (simp add: Some)
qed

lemma length_from_keys_two: "length xs = 2 \<Longrightarrow> length (from_keys xs) = 2 \<longleftrightarrow> distinct xs"
  by (cases xs rule: list.exhaust; cases "tl xs" rule: list.exhaust) (auto simp: from_keys_def)

lemma same_keys_mset:
  "distinct ys \<Longrightarrow> mset xs = mset ys \<longleftrightarrow> distinct xs \<and> set xs = set ys"
  by (metis mset_eq_setD set_eq_iff_mset_eq_distinct mset_eq_imp_distinct_iff)

lemma REQUIRED_ROLES_set: "set REQUIRED_ROLES = UNIV"
  by (auto simp: REQUIRED_ROLES_def intro: review_role.exhaust)

lemma both_roles: "distinct roles \<and> set REQUIRED_ROLES \<subseteq> set roles \<longleftrightarrow> mset roles = {#Reviewer, Adversary#}"
  using same_keys_mset [of REQUIRED_ROLES roles] REQUIRED_ROLES_set
  by (auto simp: REQUIRED_ROLES_def)

section \<open>The blocks of the verdict against the specification\<close>

lemma policy_reasons_Nil:
  assumes "validate_policy policy = Inr policy"
  shows "policy_reasons task policy s = [] \<longleftrightarrow> policy_approves task policy s"
  using assms by (auto simp: policy_reasons_def policy_approves_def validate_policy_iff)

lemma tdd_acceptance_reasons_Nil:
  assumes "distinct (map at_id (ts_acceptance_tests task))"
  shows "tdd_acceptance_reasons task tdd (by_key at_id (ts_acceptance_tests task) (td_acceptance_test_id tdd)) = []
    \<longleftrightarrow> (\<exists>a \<in> set (ts_acceptance_tests task). tdd_proves task tdd a)"
  unfolding tdd_proves_def ex_with_key [OF assms]
  by (auto simp: tdd_acceptance_reasons_def dest: by_key_SomeD split: option.splits)

lemma gate_reasons_Nil:
  assumes "distinct (map at_id (ts_acceptance_tests task))" and "validate_gate g = Inr g"
    and known: "gr_acceptance_test_id g \<in> at_id ` set (ts_acceptance_tests task)"
  shows "gate_reasons task policy s g = [] \<longleftrightarrow> gate_approves task policy s g"
proof -
  from known obtain a where some: "by_key at_id (ts_acceptance_tests task) (gr_acceptance_test_id g) = Some a"
    by (cases "by_key at_id (ts_acceptance_tests task) (gr_acceptance_test_id g)") (auto simp: by_key_None)
  have passed: "gr_passed g \<longleftrightarrow> gr_exit_code g = gr_expected_exit_code g"
    using assms(2) by (simp add: validate_gate_iff)
  show ?thesis
    unfolding gate_approves_def ex_with_key [OF assms(1)] some
    by (auto simp: gate_reasons_def some passed Let_def)
qed

lemma review_reasons_Nil:
  assumes "validate_review r = Inr r"
  shows "review_reasons task policy s r = [] \<longleftrightarrow> review_approves task policy s r"
  using validate_review_facts(5) [OF assms]
  by (auto simp: review_reasons_def review_approves_def finding_reasons_def Let_def split: option.splits)

lemma review_blockers_reasons:
  assumes "validate_review r = Inr r" and "review_blockers r \<noteq> []"
  shows "review_reasons task policy s r \<noteq> []"
proof -
  from assms(2) obtain f where "f \<in> set (rv_findings r)" "severe f"
    by (auto simp: review_blockers_def filter_empty_conv)
  then have "rv_decision r \<noteq> Accept" using validate_review_facts(5) [OF assms(1)] by blast
  then show ?thesis by (simp add: review_reasons_def Let_def)
qed

lemma gate_set_reasons_Nil:
  assumes "distinct (map at_id (ts_acceptance_tests task))"
  shows "gate_set_reasons task gates = []
    \<longleftrightarrow> mset (map gr_acceptance_test_id gates) = mset (map at_id (ts_acceptance_tests task))"
  unfolding same_keys_mset [OF assms] by (auto simp: gate_set_reasons_def Let_def)

lemma role_reasons_Nil: "role_reasons reviews = [] \<longleftrightarrow> mset (map rv_role reviews) = {#Reviewer, Adversary#}"
  unfolding both_roles [symmetric] by (auto simp: role_reasons_def Let_def)

lemma identity_reasons_Nil:
  "length reviews = 2 \<Longrightarrow> identity_reasons reviews = []
    \<longleftrightarrow> distinct (map rv_reviewer_id reviews) \<and> distinct (map rv_session_id reviews)"
  by (simp add: identity_reasons_def length_from_keys_two)

lemma judge_reasons_Nil:
  assumes valid: "validated casefold task policy reviews gates tdd"
    and ids: "distinct (map at_id (ts_acceptance_tests task))"
    and reasons: "judge_reasons sha task policy reviews gates tdd s = Inr reasons"
  shows "reasons = [] \<longleftrightarrow> approvable sha task policy reviews gates tdd s"
proof -
  from reasons obtain expected where
      manifest: "build_test_manifest_sha256 sha policy (td_test_paths tdd) = Inr expected"
    by (auto simp: judge_reasons_def result_simps)
  have p: "policy_reasons task policy s = [] \<longleftrightarrow> policy_approves task policy s"
    using valid by (intro policy_reasons_Nil) (simp add: validated_def)
  have t: "tdd_binding_reasons task policy tdd s = [] \<and> tdd_snapshot_reasons tdd = []
      \<and> tdd_path_reasons policy tdd expected = [] \<and> (\<exists>a \<in> set (ts_acceptance_tests task). tdd_proves task tdd a)
    \<longleftrightarrow> tdd_approves sha task policy tdd s"
    unfolding tdd_approves_def manifest
    by (auto simp: tdd_binding_reasons_def tdd_snapshot_reasons_def tdd_path_reasons_def Let_def split: option.splits)
  have g: "gate_set_reasons task gates = [] \<Longrightarrow>
      (\<forall>x \<in> set gates. gate_reasons task policy s x = []) \<longleftrightarrow> (\<forall>x \<in> set gates. gate_approves task policy s x)"
  proof -
    assume "gate_set_reasons task gates = []"
    then have "gr_acceptance_test_id ` set gates = at_id ` set (ts_acceptance_tests task)"
      unfolding gate_set_reasons_Nil [OF ids] by (metis mset_eq_setD set_map)
    then show ?thesis using valid gate_reasons_Nil [OF ids] by (metis imageI validated_def)
  qed
  have r: "review_reasons task policy s x = [] \<longleftrightarrow> review_approves task policy s x" if "x \<in> set reviews" for x
    using valid that by (intro review_reasons_Nil) (simp add: validated_def)
  have i: "role_reasons reviews = [] \<Longrightarrow> length reviews = 2"
    unfolding role_reasons_Nil by (metis length_map size_mset size_add_mset size_empty numeral_2_eq_2)
  show ?thesis
    using reasons p t g r i
    by (auto simp: judge_reasons_def manifest approvable_def tdd_acceptance_reasons_Nil [OF ids]
        gate_set_reasons_Nil [OF ids] role_reasons_Nil identity_reasons_Nil)
qed

section \<open>Every reason is encodable text\<close>

lemma texts_say: "(b \<Longrightarrow> list_all scalar m) \<Longrightarrow> texts (say b m)"
  by (simp add: say_def)

lemma scalar_join: "list_all scalar sep \<Longrightarrow> texts xs \<Longrightarrow> list_all scalar (join_str sep xs)"
  by (induction sep xs rule: join_str.induct) auto

lemma scalar_comma: "texts xs \<Longrightarrow> list_all scalar (comma xs)"
  by (simp add: comma_def scalar_join)

lemma scalar_role_name [simp]: "list_all scalar (role_name r)"
  by (cases r) (simp_all add: role_name_def)

lemma scalar_decision_name [simp]: "list_all scalar (decision_name d)"
  by (cases d) (simp_all add: decision_name_def)

lemma texts_policy_reasons: "validate_policy policy = Inr policy \<Longrightarrow> texts (policy_reasons task policy s)"
  by (auto simp: policy_reasons_def validate_policy_iff policy_fields_ok_def texts_iff say_def)

lemma texts_tdd_reasons:
  assumes "texts (td_test_paths tdd)"
  shows "texts (tdd_binding_reasons task policy tdd s)" "texts (tdd_acceptance_reasons task tdd a)"
    "texts (tdd_snapshot_reasons tdd)" "texts (tdd_path_reasons policy tdd expected)"
proof -
  have "texts (sorted_missing (td_test_paths tdd) ys)" for ys using assms by (auto simp: texts_iff)
  then show "texts (tdd_path_reasons policy tdd expected)"
    by (auto simp: tdd_path_reasons_def Let_def say_def scalar_comma split: option.split)
qed (auto simp: tdd_binding_reasons_def tdd_acceptance_reasons_def tdd_snapshot_reasons_def say_def split: option.split)

lemma texts_gate_set_reasons:
  assumes "\<forall>a \<in> set (ts_acceptance_tests task). is_upper_id (at_id a)" and "\<forall>g \<in> set gates. is_upper_id (gr_acceptance_test_id g)"
  shows "texts (gate_set_reasons task gates)"
proof -
  let ?ids = "map at_id (ts_acceptance_tests task)" and ?seen = "map gr_acceptance_test_id gates"
  have "texts (sorted_missing ?ids ?seen)" "texts (sorted_missing ?seen ?ids)" "texts (not_once ?seen)"
    using assms scalar_upper_id by (auto simp: texts_iff)
  then show ?thesis by (auto simp: gate_set_reasons_def Let_def say_def scalar_comma)
qed

lemma texts_gate_reasons: "is_upper_id (gr_acceptance_test_id g) \<Longrightarrow> texts (gate_reasons task policy s g)"
  using scalar_upper_id by (auto simp: gate_reasons_def Let_def say_def split: option.split)

lemma texts_role_reasons: "texts (role_reasons reviews)"
  by (auto simp: role_reasons_def Let_def say_def texts_iff intro!: scalar_comma)

lemma texts_finding_reasons: "finding_fields_ok f \<Longrightarrow> texts (finding_reasons task role f)"
  using scalar_upper_id
  by (auto simp: finding_reasons_def finding_fields_ok_def say_def opt_ok_def text_in_def split: option.split)

lemma texts_review_reasons:
  assumes "validate_review r = Inr r"
  shows "texts (review_reasons task policy s r)"
proof -
  have "texts (concat (map (finding_reasons task (rv_role r)) (rv_findings r)))"
    using validate_review_facts(3) [OF assms] texts_finding_reasons by (auto simp: texts_concat)
  then show ?thesis by (auto simp: review_reasons_def Let_def say_def)
qed

lemma texts_review_blockers:
  assumes "validate_review r = Inr r"
  shows "texts (review_blockers r)"
  using validate_review_facts(3) [OF assms] scalar_upper_id
  by (auto simp: review_blockers_def texts_iff finding_fields_ok_def)

lemma texts_from_keys [simp]: "texts (from_keys xs) \<longleftrightarrow> texts xs"
  by (simp add: texts_iff)

lemma texts_identity_reasons: "texts (identity_reasons reviews)"
  by (simp add: identity_reasons_def say_def)

section \<open>The manifest is always built\<close>

lemma utf8_char_length: "length (utf8_char c) \<le> 4"
  by (simp add: utf8_char_def)

lemma utf8_encode_length: "utf8_encode s = Some b \<Longrightarrow> length b \<le> 4 * length s"
proof (induction s arbitrary: b)
  case (Cons c s)
  then show ?case using utf8_char_length [of c]
    by (auto simp: utf8_encode_def split: if_splits)
qed (simp add: utf8_encode_def)

lemma manifest_value_total:
  assumes "list_all scalar s" and "length s \<le> 4096"
  obtains b where "manifest_value s = Inr b"
proof -
  from assms(1) obtain e where e: "utf8_encode s = Some e" by (simp add: utf8_encode_def)
  with utf8_encode_length [OF e] assms(2) show ?thesis by (intro that) (auto simp: manifest_value_def)
qed

lemma manifest_bytes_total:
  assumes "\<And>p f. files p = Some f \<Longrightarrow> diff_file_ok f \<and> df_path f = p"
  shows "\<exists>b. manifest_bytes files paths = Inr b"
proof (induction paths)
  case (Cons p ps)
  show ?case
  proof (cases "files p")
    case (Some f)
    have f: "list_all scalar p" "length p \<le> 4096" "opt_ok is_sha256 (df_content_sha256 f)"
      using assms [OF Some] by (auto simp: diff_file_ok_def text_in_def sized_def)
    show ?thesis
    proof (cases "df_content_sha256 f")
      case (Some c)
      then have c: "is_sha256 c" using f by (simp add: opt_ok_def)
      then have "list_all scalar c" "length c \<le> 4096"
        using is_sha256_ascii [OF c] by (auto simp: is_sha256_def ascii_def list_all_iff scalar_def surrogate_def)
      with f obtain a b where "manifest_value p = Inr a" "manifest_value c = Inr b"
        by (meson manifest_value_total)
      then show ?thesis using Cons Some \<open>files p = Some f\<close> by auto
    qed (use Some in simp)
  qed simp
qed simp

lemma build_test_manifest_total:
  assumes "validate_policy policy = Inr policy"
  shows "\<exists>m. build_test_manifest_sha256 sha policy paths = Inr m"
proof -
  have "diff_file_ok f \<and> df_path f = p" if "by_key df_path (pr_changed_files policy) p = Some f" for p f
    using by_key_SomeD [OF that] assms by (auto simp: validate_policy_iff policy_fields_ok_def list_all_iff)
  then obtain b where "manifest_bytes (by_key df_path (pr_changed_files policy)) (sort paths) = Inr b"
    using manifest_bytes_total by blast
  then show ?thesis by (simp add: build_test_manifest_sha256_def)
qed

section \<open>The decision\<close>

lemma validate_task_facts:
  assumes "validate_task casefold task = Inr task"
  shows "task_fields_ok task" "distinct (map at_id (ts_acceptance_tests task))"
    "\<forall>a \<in> set (ts_acceptance_tests task). is_upper_id (at_id a)" "ts_acceptance_tests task \<noteq> []"
proof -
  from assms obtain tests allowed denied limits scope where
      fields: "task_fields_ok task" and tests: "mapE (validate_acceptance casefold) (ts_acceptance_tests task) = Inr tests"
      and unique: "validate_unique_ids (task\<lparr>ts_acceptance_tests := tests, ts_allowed_paths := allowed,
         ts_denied_paths := denied, ts_limits := limits, ts_out_of_scope := scope\<rparr>) = Inr task"
    by (auto simp: validate_task_def result_simps split: if_splits)
  from unique have same: "task\<lparr>ts_acceptance_tests := tests, ts_allowed_paths := allowed,
      ts_denied_paths := denied, ts_limits := limits, ts_out_of_scope := scope\<rparr> = task"
      and "distinct (map at_id tests)"
    by (auto simp: validate_unique_ids_def result_simps)
  from arg_cong [OF same, of ts_acceptance_tests] have "ts_acceptance_tests task = tests" by simp
  with tests have each: "mapE (validate_acceptance casefold) tests = Inr tests" by simp
  then have "\<forall>a \<in> set tests. is_upper_id (at_id a)"
    by (auto simp: mapE_eq_Inr list_all2_same validate_acceptance_def acceptance_fields_ok_def result_simps split: if_splits)
  with \<open>distinct (map at_id tests)\<close> \<open>ts_acceptance_tests task = tests\<close> fields
  show "task_fields_ok task" "distinct (map at_id (ts_acceptance_tests task))"
    "\<forall>a \<in> set (ts_acceptance_tests task). is_upper_id (at_id a)" "ts_acceptance_tests task \<noteq> []"
    by (auto simp: task_fields_ok_def sized_def)
qed

lemma validate_tdd_facts:
  assumes "validate_tdd tdd = Inr tdd'"
  shows "tdd_fields_ok tdd"
  using assms by (auto simp: validate_tdd_def result_simps)

lemma judge_reasons_total:
  assumes valid: "validated casefold task policy reviews gates tdd"
  shows "\<exists>reasons. judge_reasons sha task policy reviews gates tdd s = Inr reasons \<and> texts reasons"
proof -
  have task: "validate_task casefold task = Inr task" and policy: "validate_policy policy = Inr policy"
    and reviews: "\<forall>r \<in> set reviews. validate_review r = Inr r"
    and gates: "\<forall>g \<in> set gates. validate_gate g = Inr g" and tdd: "validate_tdd tdd = Inr tdd"
    using valid by (simp_all add: validated_def)
  obtain m where m: "build_test_manifest_sha256 sha policy (td_test_paths tdd) = Inr m"
    using build_test_manifest_total [OF policy] by blast
  have ids: "\<forall>g \<in> set gates. is_upper_id (gr_acceptance_test_id g)"
    using gates by (auto simp: validate_gate_iff gate_fields_ok_def)
  have paths: "texts (td_test_paths tdd)" using validate_tdd_facts [OF tdd] by (simp add: tdd_fields_ok_def)
  show ?thesis
    using policy reviews ids validate_task_facts(3) [OF task]
    by (auto simp: judge_reasons_def m texts_concat texts_policy_reasons texts_tdd_reasons [OF paths]
        texts_gate_set_reasons texts_gate_reasons texts_role_reasons texts_review_reasons texts_identity_reasons)
qed

text \<open>A finding that blocks comes with a decision that is not an acceptance, hence with a reason.\<close>

lemma blockers_have_reasons:
  assumes valid: "validated casefold task policy reviews gates tdd"
    and reasons: "judge_reasons sha task policy reviews gates tdd s = Inr reasons"
    and blockers: "judge_blockers reviews \<noteq> []"
  shows "reasons \<noteq> []"
proof -
  from blockers obtain r where r: "r \<in> set reviews" "review_blockers r \<noteq> []"
    by (auto simp: judge_blockers_def)
  then have "review_reasons task policy s r \<noteq> []"
    using valid review_blockers_reasons by (auto simp: validated_def)
  with r reasons show ?thesis by (auto simp: judge_reasons_def result_simps)
qed

lemma approvable_gates:
  assumes "validated casefold task policy reviews gates tdd" and "approvable sha task policy reviews gates tdd s"
  shows "gates \<noteq> []" "\<forall>g \<in> set gates. gr_passed g"
proof -
  have "mset (map gr_acceptance_test_id gates) = mset (map at_id (ts_acceptance_tests task))"
    using assms(2) by (simp add: approvable_def)
  moreover have "ts_acceptance_tests task \<noteq> []"
    using assms(1) validate_task_facts(4) by (auto simp: validated_def)
  ultimately show "gates \<noteq> []" by auto
  show "\<forall>g \<in> set gates. gr_passed g"
    using assms by (auto simp: validated_def validate_gate_iff approvable_def gate_approves_def)
qed

lemma judge_result:
  assumes valid: "validated casefold task policy reviews gates tdd" and sha: "is_sha256 s"
  shows "\<exists>v. judge sha task policy reviews gates tdd s = Inr v
    \<and> vd_status v = (if approvable sha task policy reviews gates tdd s then HumanReview else Fail)
    \<and> vd_blocking_findings v = judge_blockers reviews"
proof -
  obtain reasons where reasons: "judge_reasons sha task policy reviews gates tdd s = Inr reasons" "texts reasons"
    using judge_reasons_total [OF valid] by blast
  have task: "validate_task casefold task = Inr task" and policy: "validate_policy policy = Inr policy"
    using valid by (simp_all add: validated_def)
  note nil = judge_reasons_Nil [OF valid validate_task_facts(2) [OF task] reasons(1)]
  have blockers: "texts (judge_blockers reviews)"
    using valid texts_review_blockers by (auto simp: judge_blockers_def texts_concat validated_def)
  have fields: "is_upper_id (ts_task_id task)" "is_sha256 (ts_trusted_harness_sha256 task)"
    "is_git_sha (ts_base_sha task)" "is_git_sha (pr_head_sha policy)" "opt_ok is_sha256 (pr_patch_sha256 policy)"
    using validate_task_facts(1) [OF task] policy
    by (auto simp: task_fields_ok_def validate_policy_iff policy_fields_ok_def)
  show ?thesis
  proof (cases "approvable sha task policy reviews gates tdd s")
    case True
    then have "reasons = []" using nil by simp
    moreover from this have "judge_blockers reviews = []" using blockers_have_reasons [OF valid reasons(1)] by blast
    ultimately show ?thesis
      using True reasons fields sha approvable_gates [OF valid True]
      by (auto simp: judge_def Let_def validate_verdict_def verdict_fields_ok_def verdict_contract_def result_simps
          list_ex_iff check_def guardE_def)
  next
    case False
    then have "reasons \<noteq> []" using nil by simp
    then show ?thesis
      using False reasons fields sha blockers
      by (auto simp: judge_def Let_def validate_verdict_def verdict_fields_ok_def verdict_contract_def)
  qed
qed

lemma judge_status:
  assumes "judge sha task policy reviews gates tdd s = Inr v"
  shows "vd_status v \<noteq> Pass \<and> vd_human_approval_required v \<and> vd_reasons v \<noteq> [] \<and> vd_gates v = gates"
  using assms
  by (auto simp: judge_def Let_def validate_verdict_def verdict_contract_def result_simps split: if_splits)

lemma set_judge_blockers:
  "b \<in> set (judge_blockers reviews) \<longleftrightarrow>
     (\<exists>r \<in> set reviews. \<exists>f \<in> set (rv_findings r). severe f \<and> b = role_name (rv_role r) @ u '':'' @ fi_id f)"
  by (simp add: judge_blockers_def review_blockers_def image_iff) blast

text \<open>
  C11. On validated evidence and a well-formed task digest the judge always returns a verdict; the
  verdict asks for a human decision exactly when the candidate is approvable, fails otherwise, and
  its blocking findings are the critical and high findings of the reviews.
\<close>

theorem judge_decides_approvable:
  assumes "validated casefold task policy reviews gates tdd" and "is_sha256 task_sha256"
  shows "\<exists>v. judge sha task policy reviews gates tdd task_sha256 = Inr v
    \<and> vd_status v = (if approvable sha task policy reviews gates tdd task_sha256 then HumanReview else Fail)
    \<and> (\<forall>b. b \<in> set (vd_blocking_findings v) \<longleftrightarrow>
          (\<exists>r \<in> set reviews. \<exists>f \<in> set (rv_findings r). severe f \<and> b = role_name (rv_role r) @ u '':'' @ fi_id f))"
  using judge_result [OF assms, of sha] set_judge_blockers [of _ reviews] by metis

section \<open>An example\<close>

definition demo_policy :: policy_report where
  "demo_policy = \<lparr>pr_task_id = u ''T1'', pr_task_sha256 = hex64 0x64, pr_passed = True,
     pr_trusted_harness_sha256 = hex64 0x63, pr_base_sha = hex40, pr_head_sha = hex40,
     pr_patch_sha256 = Some (hex64 0x65),
     pr_changed_files = [\<lparr>df_path = u ''tests/a.py'', df_status = u ''A'', df_additions = Some 1,
       df_deletions = Some 0, df_binary = False, df_content_sha256 = Some (hex64 0x66)\<rparr>],
     pr_total_added_lines = 1, pr_violations = []\<rparr>"

definition demo_review :: "review_role \<Rightarrow> string \<Rightarrow> review_report" where
  "demo_review role name = \<lparr>rv_task_id = u ''T1'', rv_task_sha256 = hex64 0x64, rv_role = role,
     rv_reviewer_id = u name, rv_session_id = u name,
     rv_prompt_sha256 = hex64 (if role = Reviewer then 0x30 else 0x31), rv_decision = Accept,
     rv_base_sha = hex40, rv_head_sha = hex40, rv_patch_sha256 = hex64 0x65, rv_summary = u ''fine'',
     rv_findings = [], rv_unverified = [], rv_external_calls = False\<rparr>"

definition demo_gate :: gate_result where
  "demo_gate = \<lparr>gr_task_id = u ''T1'', gr_task_sha256 = hex64 0x64, gr_head_sha = hex40,
     gr_patch_sha256 = hex64 0x65, gr_acceptance_test_id = u ''AT1'', gr_command = [u ''pytest''],
     gr_expected_exit_code = 0, gr_passed = True, gr_exit_code = 0, gr_evidence_sha256 = hex64 0x30\<rparr>"

definition demo_tdd :: tdd_evidence where
  "demo_tdd = \<lparr>td_version = TddV2, td_task_id = u ''T1'', td_task_sha256 = hex64 0x64, td_base_sha = hex40,
     td_head_sha = hex40, td_patch_sha256 = hex64 0x65, td_acceptance_test_id = u ''AT1'',
     td_command = [u ''pytest''], td_test_paths = [u ''tests/a.py''], td_test_manifest_sha256 = hex64 0x30,
     td_test_patch_sha256 = hex64 0x32, td_red_snapshot_sha256 = Some (hex64 0x33),
     td_green_snapshot_sha256 = Some (hex64 0x34),
     td_red = \<lparr>red_exit_code = 1, red_log_sha256 = hex64 0x30, red_fingerprint_sha256 = hex64 0x62,
       red_test_patch_sha256 = hex64 0x32\<rparr>,
     td_green = \<lparr>green_exit_code = 0, green_log_sha256 = hex64 0x30, green_test_patch_sha256 = hex64 0x32\<rparr>\<rparr>"

definition demo_reviews :: "review_report list" where
  "demo_reviews = [demo_review Reviewer ''r'', demo_review Adversary ''a'']"

lemmas demo_defs = demo_task_def demo_policy_def demo_review_def demo_reviews_def demo_gate_def demo_tdd_def

lemma demo_validated:
  "validated ascii_casefold demo_task demo_policy demo_reviews [demo_gate] demo_tdd"
proof -
  have "validate_task ascii_casefold demo_task = Inr demo_task" by (rule demo_task_valid)
  moreover have "validate_policy demo_policy = Inr demo_policy"
    by (simp add: validate_policy_iff policy_fields_ok_def demo_defs demo_id_shapes hex64_sha256 hex40_git_sha opt_ok_def
        diff_file_ok_def text_in_def sized_def texts_def)
  moreover have "validate_review r = Inr r" if "r \<in> set demo_reviews" for r
    using that
    by (auto simp: demo_defs validate_review_def review_fields_ok_def review_contract_def demo_id_shapes hex64_sha256
        hex40_git_sha text_in_def sized_def texts_def)
  moreover have "validate_gate demo_gate = Inr demo_gate"
    by (simp add: validate_gate_iff gate_fields_ok_def demo_defs demo_id_shapes hex64_sha256 hex40_git_sha sized_def
        texts_def in_range_def demo_patterns)
  moreover have "validate_tdd demo_tdd = Inr demo_tdd"
    by (simp add: validate_tdd_def tdd_fields_ok_def demo_defs demo_id_shapes hex64_sha256 hex40_git_sha sized_def
        texts_def opt_ok_def red_ok_def green_ok_def in_range_def validate_command_def demo_patterns
        validate_test_paths_def snapshot_bindings_def check_def, simp add: hex64_def)
  ultimately show ?thesis by (simp add: validated_def)
qed

lemma judge_demo_manifest:
  "build_test_manifest_sha256 (\<lambda>_. hex64 0x30) demo_policy (td_test_paths demo_tdd) = Inr (Some (hex64 0x30))"
proof -
  obtain m where "build_test_manifest_sha256 (\<lambda>_. hex64 0x30) demo_policy (td_test_paths demo_tdd) = Inr m"
    using demo_validated build_test_manifest_total unfolding validated_def by blast
  then show ?thesis
    by (auto simp: build_test_manifest_sha256_def demo_defs by_key_def result_simps)
qed

lemma demo_approvable:
  "approvable (\<lambda>_. hex64 0x30) demo_task demo_policy demo_reviews [demo_gate] demo_tdd (hex64 0x64)"
proof -
  have "hex64 0x33 \<noteq> hex64 0x34" by (simp add: hex64_def)
  then have "tdd_approves (\<lambda>_. hex64 0x30) demo_task demo_policy demo_tdd (hex64 0x64)"
    unfolding tdd_approves_def judge_demo_manifest
    by (simp add: demo_tdd_def demo_task_def demo_policy_def tdd_proves_def demo_acceptance_def)
  moreover have "policy_approves demo_task demo_policy (hex64 0x64)"
    by (simp add: policy_approves_def demo_defs)
  moreover have "gate_approves demo_task demo_policy (hex64 0x64) demo_gate"
    by (simp add: gate_approves_def demo_defs demo_acceptance_def)
  moreover have "\<forall>r \<in> set demo_reviews. review_approves demo_task demo_policy (hex64 0x64) r"
    by (simp add: review_approves_def demo_defs expected_prompt_def)
  ultimately show ?thesis
    by (simp add: approvable_def, simp add: demo_defs demo_acceptance_def)
qed

theorem judge_decides_approvable_witness:
  "\<exists>v. judge (\<lambda>_. hex64 0x30) demo_task demo_policy demo_reviews [demo_gate] demo_tdd (hex64 0x64) = Inr v
    \<and> vd_status v = HumanReview"
  using judge_decides_approvable [OF demo_validated, of "hex64 0x64" "\<lambda>_. hex64 0x30"] demo_approvable
  by (auto simp: hex64_sha256)

section \<open>No automatic approval, and no dependence on order\<close>

text \<open>
  Whatever the inputs, validated or not, a verdict never passes by itself: it always requires a
  human, always gives a reason, and keeps the gates it was given; it leaves the decision open only
  when every gate passed and nothing blocks.
\<close>

theorem judge_never_passes:
  assumes "judge sha task policy reviews gates tdd task_sha256 = Inr v"
  shows "vd_status v \<noteq> Pass \<and> vd_human_approval_required v \<and> vd_reasons v \<noteq> [] \<and> vd_gates v = gates
    \<and> (vd_status v = HumanReview \<longrightarrow> gates \<noteq> [] \<and> (\<forall>g \<in> set gates. gr_passed g) \<and> vd_blocking_findings v = [])"
  using assms
  by (auto simp: judge_def Let_def validate_verdict_def verdict_contract_def result_simps list_ex_iff split: if_splits)

theorem judge_never_passes_witness:
  "\<exists>v. judge (\<lambda>_. hex64 0x30) demo_task demo_policy demo_reviews [demo_gate] demo_tdd (hex64 0x64) = Inr v
    \<and> vd_status v \<noteq> Pass \<and> vd_human_approval_required v"
proof -
  obtain v where "judge (\<lambda>_. hex64 0x30) demo_task demo_policy demo_reviews [demo_gate] demo_tdd (hex64 0x64) = Inr v"
    using judge_result [OF demo_validated, of "hex64 0x64" "\<lambda>_. hex64 0x30"] by (auto simp: hex64_sha256)
  with judge_never_passes [OF this] show ?thesis by blast
qed

lemma approvable_order:
  assumes "mset reviews = mset reviews'" and "mset gates = mset gates'"
  shows "approvable sha task policy reviews gates tdd s \<longleftrightarrow> approvable sha task policy reviews' gates' tdd s"
proof -
  have sets: "set reviews = set reviews'" "set gates = set gates'"
    using assms by (auto dest: mset_eq_setD)
  have maps: "mset (map f reviews) = mset (map f reviews')" for f :: "review_report \<Rightarrow> 'b"
    using assms(1) by simp
  have "mset (map gr_acceptance_test_id gates) = mset (map gr_acceptance_test_id gates')"
    using assms(2) by simp
  moreover have "distinct (map f reviews) \<longleftrightarrow> distinct (map f reviews')" for f :: "review_report \<Rightarrow> pystr"
    by (rule mset_eq_imp_distinct_iff [OF maps])
  ultimately show ?thesis
    unfolding approvable_def sets maps by simp
qed

text \<open>The status and the set of blocking findings do not depend on the order of the reviews and of the gates.\<close>

theorem judge_ignores_order:
  assumes "validated casefold task policy reviews gates tdd" and "is_sha256 task_sha256"
    and "mset reviews = mset reviews'" and "mset gates = mset gates'"
  shows "\<exists>v v'. judge sha task policy reviews gates tdd task_sha256 = Inr v
    \<and> judge sha task policy reviews' gates' tdd task_sha256 = Inr v'
    \<and> vd_status v = vd_status v' \<and> set (vd_blocking_findings v) = set (vd_blocking_findings v')"
proof -
  have sets: "set reviews = set reviews'" "set gates = set gates'"
    using assms(3,4) by (auto dest: mset_eq_setD)
  with assms(1) have "validated casefold task policy reviews' gates' tdd" by (simp add: validated_def)
  moreover have "set (judge_blockers reviews) = set (judge_blockers reviews')"
    by (simp add: set_eq_iff set_judge_blockers sets)
  ultimately show ?thesis
    using judge_result [OF assms(1,2), of sha] judge_result [OF _ assms(2), of casefold task policy reviews' gates' tdd sha]
      approvable_order [OF assms(3,4), of sha task policy tdd task_sha256] by metis
qed

theorem judge_ignores_order_witness:
  "\<exists>v. judge (\<lambda>_. hex64 0x30) demo_task demo_policy (rev demo_reviews) [demo_gate] demo_tdd (hex64 0x64) = Inr v"
  using judge_ignores_order [OF demo_validated, of "hex64 0x64" "rev demo_reviews" "[demo_gate]" "\<lambda>_. hex64 0x30"]
  by (auto simp: hex64_sha256)

section \<open>What the manifest binds\<close>

lemma be_bytes_4: "be_bytes 4 n = [n div 16777216 mod 256, n div 65536 mod 256, n div 256 mod 256, n mod 256]"
  by (simp add: be_bytes_def upt_rec)

lemma digit_step:
  fixes m n :: nat
  assumes "m div (k * 256) = n div (k * 256)" and "m div k mod 256 = n div k mod 256"
  shows "m div k = n div k"
  using assms by (metis div_mult2_eq div_mult_mod_eq)

lemma be_bytes_4_inject:
  assumes "be_bytes 4 m = be_bytes 4 n" and "m < 2 ^ 32" and "n < 2 ^ 32"
  shows "m = n"
proof -
  have "m div 16777216 < 256" "n div 16777216 < 256"
    using assms(2,3) by (simp_all add: less_mult_imp_div_less)
  then have "m div (65536 * 256) = n div (65536 * 256)" using assms(1) by (simp add: be_bytes_4)
  then have "m div (256 * 256) = n div (256 * 256)"
    using digit_step [of m 65536 n] assms(1) by (simp add: be_bytes_4)
  then have "m div (1 * 256) = n div (1 * 256)"
    using digit_step [of m 256 n] assms(1) by (simp add: be_bytes_4)
  then show ?thesis using digit_step [of m 1 n] assms(1) by (simp add: be_bytes_4)
qed

lemma manifest_value_prefix:
  assumes "manifest_value s = Inr a" and "manifest_value t = Inr b" and "a @ x = b @ y"
  shows "s = t \<and> x = y"
proof -
  from assms obtain e f where e: "utf8_encode s = Some e" "length e < 2 ^ 32" "a = map char_of (be_bytes 4 (length e)) @ e"
      and f: "utf8_encode t = Some f" "length f < 2 ^ 32" "b = map char_of (be_bytes 4 (length f)) @ f"
    by (auto simp: manifest_value_def split: option.splits if_splits)
  have range: "\<forall>v \<in> set (be_bytes 4 n). v < 256" for n by (simp add: be_bytes_4)
  have "length (be_bytes 4 n) = 4" for n by (simp add: be_bytes_def)
  then have head: "map char_of (be_bytes 4 (length e)) = (map char_of (be_bytes 4 (length f)) :: bytes)"
      and tail: "e @ x = f @ y"
    using assms(3) unfolding e f by (simp_all add: append_eq_append_conv)
  from arg_cong [OF head, of "map of_char"] have "be_bytes 4 (length e) = be_bytes 4 (length f)"
    using of_char_char_of_map [OF range] by metis
  then have "length e = length f" using e(2) f(2) by (rule be_bytes_4_inject)
  with tail have "e = f" "x = y" by simp_all
  with e f show ?thesis using utf8_encode_inject by blast
qed

lemma manifest_bytes_Cons:
  assumes "manifest_bytes files (p # ps) = Inr (Some b)"
  obtains f c x y z where "files p = Some f" "df_content_sha256 f = Some c" "manifest_value p = Inr x"
    "manifest_value c = Inr y" "manifest_bytes files ps = Inr (Some z)" "b = x @ y @ z"
  using assms by (auto simp: result_simps split: option.splits)

lemma manifest_value_nonempty: "manifest_value s = Inr a \<Longrightarrow> a \<noteq> []"
  by (auto simp: manifest_value_def be_bytes_4 split: option.splits if_splits)

lemma manifest_bytes_inject:
  assumes "manifest_bytes files ps = Inr (Some b)" and "manifest_bytes files' ps' = Inr (Some b)"
  shows "ps = ps' \<and> (\<forall>p \<in> set ps. \<exists>f f' c. files p = Some f \<and> files' p = Some f'
    \<and> df_content_sha256 f = Some c \<and> df_content_sha256 f' = Some c)"
  using assms
proof (induction ps arbitrary: ps' b)
  case Nil
  then show ?case
  proof (cases ps')
    case (Cons p qs)
    then show ?thesis using Nil manifest_value_nonempty by (auto elim!: manifest_bytes_Cons simp del: manifest_bytes.simps(2))
  qed simp
next
  case (Cons p ps)
  from Cons.prems(1) obtain f c x y z where one: "files p = Some f" "df_content_sha256 f = Some c"
      "manifest_value p = Inr x" "manifest_value c = Inr y" "manifest_bytes files ps = Inr (Some z)" "b = x @ y @ z"
    by (rule manifest_bytes_Cons)
  show ?case
  proof (cases ps')
    case Nil
    then show ?thesis using Cons.prems(2) one manifest_value_nonempty by auto
  next
    case (Cons p' qs)
    from Cons.prems(2) [unfolded Cons] obtain f' c' x' y' z' where two: "files' p' = Some f'"
        "df_content_sha256 f' = Some c'" "manifest_value p' = Inr x'" "manifest_value c' = Inr y'"
        "manifest_bytes files' qs = Inr (Some z')" "b = x' @ y' @ z'"
      by (rule manifest_bytes_Cons)
    have path: "p = p' \<and> y @ z = y' @ z'"
      using one two by (intro manifest_value_prefix) auto
    have content: "c = c' \<and> z = z'"
      using one two path by (intro manifest_value_prefix) auto
    show ?thesis using Cons.IH [OF one(5), of qs] two path content one Cons by auto
  qed
qed

text \<open>
  The bytes the test manifest digests determine the test paths and the content hash of each of
  them: two policy reports that give the same bytes agree on every declared test file, so a changed,
  added or dropped test file always changes what is hashed.
\<close>

theorem test_manifest_binds_contents:
  assumes "manifest_bytes (by_key df_path (pr_changed_files policy)) (sort paths) = Inr (Some b)"
    and "manifest_bytes (by_key df_path (pr_changed_files policy')) (sort paths') = Inr (Some b)"
  shows "mset paths = mset paths' \<and> (\<forall>p \<in> set paths. \<exists>f \<in> set (pr_changed_files policy). \<exists>f' \<in> set (pr_changed_files policy').
    df_path f = p \<and> df_path f' = p \<and> df_content_sha256 f = df_content_sha256 f' \<and> df_content_sha256 f \<noteq> None)"
proof -
  note same = manifest_bytes_inject [OF assms]
  have "mset (sort paths) = mset (sort paths')" using same by simp
  moreover have "\<exists>f \<in> set (pr_changed_files policy). \<exists>f' \<in> set (pr_changed_files policy').
      df_path f = p \<and> df_path f' = p \<and> df_content_sha256 f = df_content_sha256 f' \<and> df_content_sha256 f \<noteq> None"
    if "p \<in> set paths" for p
  proof -
    from that same obtain f f' c where "by_key df_path (pr_changed_files policy) p = Some f"
        "by_key df_path (pr_changed_files policy') p = Some f'" "df_content_sha256 f = Some c" "df_content_sha256 f' = Some c"
      by auto
    then show ?thesis by (metis by_key_SomeD option.distinct(1))
  qed
  ultimately show ?thesis by simp
qed

theorem test_manifest_binds_contents_witness:
  "\<exists>b. manifest_bytes (by_key df_path (pr_changed_files demo_policy)) (sort [u ''tests/a.py'']) = Inr (Some b)
    \<and> (\<forall>p \<in> set [u ''tests/a.py'']. \<exists>f \<in> set (pr_changed_files demo_policy). df_path f = p \<and> df_content_sha256 f \<noteq> None)"
proof -
  from judge_demo_manifest obtain b where
      "manifest_bytes (by_key df_path (pr_changed_files demo_policy)) (sort [u ''tests/a.py'']) = Inr (Some b)"
    by (auto simp: build_test_manifest_sha256_def result_simps demo_tdd_def)
  with test_manifest_binds_contents [OF this this] show ?thesis by blast
qed

end
