(* ===== verification/Canonical_Document.thy ===== *)
theory Canonical_Document
  imports Json_Size
begin

text \<open>
  The approved configuration documents of the review tools: a flat dictionary of text, integers
  and booleans, written once as canonical JSON with a final line feed, and accepted from outside
  only when the bytes are the same. The locale states what such a document needs; the pricing and
  egress policies are its interpretations.
\<close>

definition document_bytes :: "pydict \<Rightarrow> bytes option" where
  "document_bytes d = Option.bind (dumps (JObj d)) (\<lambda>s. utf8_encode (s @ [0x0A]))"

definition str_at :: "pydict \<Rightarrow> string \<Rightarrow> pystr" where
  "str_at d k = (case map_of d (u k) of Some (JStr s) \<Rightarrow> s | _ \<Rightarrow> [])"

definition int_at :: "pydict \<Rightarrow> string \<Rightarrow> int" where
  "int_at d k = (case map_of d (u k) of Some (JInt i) \<Rightarrow> i | _ \<Rightarrow> 0)"

fun flat_value :: "json \<Rightarrow> bool" where
  "flat_value (JStr s) = clean s"
| "flat_value (JInt i) = (\<bar>i\<bar> < 10 ^ 18)"
| "flat_value (JBool b) = True"
| "flat_value _ = False"

definition flat :: "pydict \<Rightarrow> bool" where
  "flat d \<longleftrightarrow> list_all (\<lambda>(k, v). clean k \<and> flat_value v) d"

lemma length_dec_nat: "n < 10 ^ Suc k \<Longrightarrow> length (dec_nat n) \<le> Suc k"
proof (induction k arbitrary: n)
  case 0
  then show ?case by (subst dec_nat.simps) simp
next
  case (Suc k)
  then have "n div 10 < 10 ^ Suc k" by (simp add: less_mult_imp_div_less)
  then have "length (dec_nat (n div 10)) \<le> Suc k" by (rule Suc.IH)
  then show ?case by (subst dec_nat.simps) simp
qed

lemma digits_ascii: "list_all is_digit s \<Longrightarrow> ascii s"
  by (auto simp: ascii_def list_all_iff is_digit_def)

lemma dec_int_ascii: "ascii (dec_int i)"
  using dec_nat_digits digits_ascii by (auto simp: dec_int_def ascii_def)

lemma flat_value_print: "flat_value v \<Longrightarrow> ascii (jprint v) \<and> jfinite v \<and> jsort v = v"
proof (cases v)
  case (JInt i)
  assume "flat_value v"
  then have "nat \<bar>i\<bar> < 10 ^ Suc 17" using JInt by simp
  then have "length (dec_nat (nat \<bar>i\<bar>)) \<le> 4300" using length_dec_nat by fastforce
  then show ?thesis using JInt dec_int_ascii by simp
qed (auto simp: json_string_clean ascii_def u_def dest!: clean_ascii)

locale exact_document =
  fixes document :: pydict
  assumes document_flat: "flat document"
begin

lemma printable: "\<exists>s. dumps (JObj document) = Some s \<and> ascii s"
proof -
  have item: "ascii (json_string k @ 0x3A # jprint v) \<and> jfinite v \<and> jsort v = v" if "(k, v) \<in> set document" for k v
  proof -
    from that document_flat have "clean k" "flat_value v" by (auto simp: flat_def list_all_iff)
    then show ?thesis using flat_value_print [of v] clean_ascii [of k]
      by (simp add: json_string_clean ascii_def)
  qed
  have same: "map (\<lambda>(k, v). (k, jsort v)) document = document"
    using item by (intro map_idI) auto
  have "list_all ascii (map (\<lambda>(k, v). json_string k @ 0x3A # jprint v) (sort_key fst document))"
    using item by (auto simp: list_all_iff)
  then have "ascii (jprint (jsort (JObj document)))"
    using ascii_join_with [where sep = "0x2C"] by (simp add: same ascii_def)
  moreover have "jfinite (JObj document)" using item by (auto simp: list_all_iff)
  ultimately show ?thesis by (simp add: dumps_def)
qed

lemma bytes_exist: "\<exists>b. document_bytes document = Some b \<and> b \<noteq> []"
proof -
  obtain s where s: "dumps (JObj document) = Some s" "ascii s" using printable by blast
  then have "ascii (s @ [0x0A])" by (simp add: ascii_def)
  from utf8_encode_ascii [OF this] show ?thesis by (simp add: document_bytes_def s)
qed

end

end
