(* ===== verification/Pricing.thy ===== *)
theory Pricing
  imports Canonical_Document Py_Digest
begin

text \<open>
  \<open>tools/ai_review/pricing_policy.py\<close> and \<open>egress_policy.py\<close>: the pinned price list with its
  conservative reservation of cost in micro-dollars, and the pinned egress allowlist. Money and
  tokens are Python's unbounded integers; an argument whose type the code checks is a \<open>json\<close> value.
\<close>

section \<open>Constants\<close>

definition MULTIPLIER_SCALE :: int where
  "MULTIPLIER_SCALE = 1000000"

definition TOKENS_PER_RATE_UNIT :: int where
  "TOKENS_PER_RATE_UNIT = 1000000"

definition MAX_REVIEW_ATTEMPTS_PER_PACKET :: int where
  "MAX_REVIEW_ATTEMPTS_PER_PACKET = 4"

definition MAX_REVIEW_INPUT_TOKENS :: int where
  "MAX_REVIEW_INPUT_TOKENS = 260000"

definition MAX_REVIEW_OUTPUT_TOKENS :: int where
  "MAX_REVIEW_OUTPUT_TOKENS = 12000"

definition DEFAULT_PACKET_RESERVED_TOKENS :: int where
  "DEFAULT_PACKET_RESERVED_TOKENS = 544000"

definition ABSOLUTE_PACKET_RESERVED_TOKENS :: int where
  "ABSOLUTE_PACKET_RESERVED_TOKENS = 1088000"

definition EXPECTED_OPENAI_PRICING_POLICY :: pydict where
  "EXPECTED_OPENAI_PRICING_POLICY = [
     (u ''cache_write_input_microusd_per_million_tokens'', JInt 6250000),
     (u ''cached_input_microusd_per_million_tokens'', JInt 500000),
     (u ''currency'', JStr (u ''USD'')),
     (u ''input_microusd_per_million_tokens'', JInt 5000000),
     (u ''long_context_input_multiplier_ppm'', JInt 2000000),
     (u ''long_context_output_multiplier_ppm'', JInt 1500000),
     (u ''long_context_threshold_input_tokens'', JInt 272000),
     (u ''model'', JStr (u ''gpt-5.6-sol'')),
     (u ''output_microusd_per_million_tokens'', JInt 30000000),
     (u ''price_version'', JStr (u ''2026-08-15'')),
     (u ''schema_version'', JStr (u ''1.0'')),
     (u ''service_tier'', JStr (u ''default''))]"

section \<open>The pricing policy\<close>

datatype pricing_error = PricingPolicyError string | PricingEncoding

record pricing_policy =
  pp_schema_version :: pystr
  pp_price_version :: pystr
  pp_currency :: pystr
  pp_model :: pystr
  pp_service_tier :: pystr
  pp_input_rate :: int
  pp_cached_input_rate :: int
  pp_cache_write_input_rate :: int
  pp_output_rate :: int
  pp_long_context_threshold :: int
  pp_long_context_input_multiplier :: int
  pp_long_context_output_multiplier :: int
  pp_sha256 :: pystr

definition canonical_openai_pricing_policy_bytes :: "bytes option" where
  "canonical_openai_pricing_policy_bytes = document_bytes EXPECTED_OPENAI_PRICING_POLICY"

definition validate_openai_pricing_policy :: "hash_fn \<Rightarrow> bytes \<Rightarrow> pricing_error + pricing_policy" where
  "validate_openai_pricing_policy sha raw =
     (case canonical_openai_pricing_policy_bytes of
        None \<Rightarrow> Inl PricingEncoding
      | Some expected \<Rightarrow>
          bindE (guardE (raw = expected)
            (PricingPolicyError ''OpenAI pricing policy is not the approved canonical contract'')) (\<lambda>_.
          let payload = EXPECTED_OPENAI_PRICING_POLICY in
          Inr \<lparr>
            pp_schema_version = str_at payload ''schema_version'',
            pp_price_version = str_at payload ''price_version'',
            pp_currency = str_at payload ''currency'',
            pp_model = str_at payload ''model'',
            pp_service_tier = str_at payload ''service_tier'',
            pp_input_rate = int_at payload ''input_microusd_per_million_tokens'',
            pp_cached_input_rate = int_at payload ''cached_input_microusd_per_million_tokens'',
            pp_cache_write_input_rate = int_at payload ''cache_write_input_microusd_per_million_tokens'',
            pp_output_rate = int_at payload ''output_microusd_per_million_tokens'',
            pp_long_context_threshold = int_at payload ''long_context_threshold_input_tokens'',
            pp_long_context_input_multiplier = int_at payload ''long_context_input_multiplier_ppm'',
            pp_long_context_output_multiplier = int_at payload ''long_context_output_multiplier_ppm'',
            pp_sha256 = sha raw\<rparr>))"

section \<open>Reservations\<close>

text \<open>Python's \<open>//\<close> rounds down, as \<open>div\<close> on \<open>int\<close> does.\<close>

definition ceil_ratio :: "int \<Rightarrow> int \<Rightarrow> int" where
  "ceil_ratio numerator denominator = (numerator + denominator - 1) div denominator"

text \<open>A \<open>bool\<close> is an \<open>int\<close> in Python, so the code refuses it first.\<close>

definition token_count :: "int \<Rightarrow> string \<Rightarrow> json \<Rightarrow> pricing_error + int" where
  "token_count maximum label value =
     (case value of
        JInt i \<Rightarrow>
          if 0 \<le> i \<and> i \<le> maximum then Inr i
          else Inl (PricingPolicyError (''review '' @ label @ '' token reservation is invalid''))
      | _ \<Rightarrow> Inl (PricingPolicyError (''review '' @ label @ '' token reservation is invalid'')))"

definition reserve_request_cost_microusd :: "pricing_policy \<Rightarrow> json \<Rightarrow> json \<Rightarrow> pricing_error + int" where
  "reserve_request_cost_microusd policy input_tokens output_tokens =
     bindE (token_count MAX_REVIEW_INPUT_TOKENS ''input'' input_tokens) (\<lambda>input.
     bindE (token_count MAX_REVIEW_OUTPUT_TOKENS ''output'' output_tokens) (\<lambda>out.
     let input_rate = max (max (pp_input_rate policy) (pp_cached_input_rate policy)) (pp_cache_write_input_rate policy);
         output_rate = pp_output_rate policy;
         (input_rate, output_rate) =
           (if input > pp_long_context_threshold policy then
              (ceil_ratio (input_rate * pp_long_context_input_multiplier policy) MULTIPLIER_SCALE,
               ceil_ratio (output_rate * pp_long_context_output_multiplier policy) MULTIPLIER_SCALE)
            else (input_rate, output_rate))
     in Inr (ceil_ratio (input * input_rate) TOKENS_PER_RATE_UNIT
             + ceil_ratio (out * output_rate) TOKENS_PER_RATE_UNIT)))"

text \<open>The loop over \<open>range(attempts)\<close>; the state is the remaining input and the total so far.\<close>

fun reserve_attempts :: "pricing_policy \<Rightarrow> nat \<Rightarrow> int \<Rightarrow> int \<Rightarrow> pricing_error + int \<times> int" where
  "reserve_attempts policy 0 remaining spent = Inr (remaining, spent)"
| "reserve_attempts policy (Suc n) remaining spent =
     (let request_input = min MAX_REVIEW_INPUT_TOKENS remaining in
      bindE (reserve_request_cost_microusd policy (JInt request_input) (JInt MAX_REVIEW_OUTPUT_TOKENS)) (\<lambda>cost.
      reserve_attempts policy n (remaining - request_input) (spent + cost)))"

definition maximum_packet_cost_microusd :: "pricing_policy \<Rightarrow> json \<Rightarrow> int \<Rightarrow> pricing_error + int" where
  "maximum_packet_cost_microusd policy reserved_tokens attempts =
     (case reserved_tokens of
        JInt reserved \<Rightarrow>
          bindE (guardE (attempts * MAX_REVIEW_OUTPUT_TOKENS \<le> reserved
              \<and> \<not> reserved > attempts * (MAX_REVIEW_INPUT_TOKENS + MAX_REVIEW_OUTPUT_TOKENS))
            (PricingPolicyError ''packet token reservation cannot fund the approved attempts'')) (\<lambda>_.
          bindE (reserve_attempts policy (nat attempts) (reserved - attempts * MAX_REVIEW_OUTPUT_TOKENS) 0) (\<lambda>(remaining, spent).
          bindE (guardE (remaining = 0)
            (PricingPolicyError ''packet input reservation exceeds per-request limits'')) (\<lambda>_.
          Inr spent)))
      | _ \<Rightarrow> Inl (PricingPolicyError ''packet token reservation cannot fund the approved attempts''))"

definition APPROVED_OPENAI_PRICING_POLICY :: "hash_fn \<Rightarrow> pricing_error + pricing_policy" where
  "APPROVED_OPENAI_PRICING_POLICY sha =
     (case canonical_openai_pricing_policy_bytes of
        None \<Rightarrow> Inl PricingEncoding
      | Some raw \<Rightarrow> validate_openai_pricing_policy sha raw)"

definition DEFAULT_PACKET_COST_LIMIT_MICROUSD :: "hash_fn \<Rightarrow> pricing_error + int" where
  "DEFAULT_PACKET_COST_LIMIT_MICROUSD sha =
     bindE (APPROVED_OPENAI_PRICING_POLICY sha) (\<lambda>policy.
     maximum_packet_cost_microusd policy (JInt DEFAULT_PACKET_RESERVED_TOKENS) MAX_REVIEW_ATTEMPTS_PER_PACKET)"

definition ABSOLUTE_PACKET_COST_LIMIT_MICROUSD :: "hash_fn \<Rightarrow> pricing_error + int" where
  "ABSOLUTE_PACKET_COST_LIMIT_MICROUSD sha =
     bindE (APPROVED_OPENAI_PRICING_POLICY sha) (\<lambda>policy.
     maximum_packet_cost_microusd policy (JInt ABSOLUTE_PACKET_RESERVED_TOKENS) MAX_REVIEW_ATTEMPTS_PER_PACKET)"

section \<open>The egress policy\<close>

definition EXPECTED_BROKER_EGRESS_POLICY :: pydict where
  "EXPECTED_BROKER_EGRESS_POLICY = [
     (u ''allowed_protocol'', JStr (u ''tcp-tls'')),
     (u ''broker_host_mounts'', JBool False),
     (u ''broker_internal_network'', JBool True),
     (u ''gateway_external_network'', JBool True),
     (u ''gateway_has_api_credential'', JBool False),
     (u ''gateway_network_alias'', JStr (u ''ai-review-egress-gateway'')),
     (u ''gateway_port'', JInt 8443),
     (u ''max_broker_connections'', JInt 1),
     (u ''schema_version'', JStr (u ''1.0'')),
     (u ''target_host'', JStr (u ''api.openai.com'')),
     (u ''target_port'', JInt 443),
     (u ''tls_server_name'', JStr (u ''api.openai.com''))]"

datatype egress_error = EgressPolicyError | EgressEncoding

definition canonical_broker_egress_policy_bytes :: "bytes option" where
  "canonical_broker_egress_policy_bytes = document_bytes EXPECTED_BROKER_EGRESS_POLICY"

definition validate_broker_egress_policy :: "hash_fn \<Rightarrow> bytes \<Rightarrow> egress_error + pystr" where
  "validate_broker_egress_policy sha raw =
     (case canonical_broker_egress_policy_bytes of
        None \<Rightarrow> Inl EgressEncoding
      | Some expected \<Rightarrow> bindE (guardE (raw = expected) EgressPolicyError) (\<lambda>_. Inr (sha raw)))"

end
