(* ===== verification/Pricing_Facts.thy ===== *)
theory Pricing_Facts
  imports Pricing
begin

text \<open>
  What the pinned policies promise: no other bytes are accepted, a reservation is never below the
  bill of the request it reserves, the packet limit is defined exactly on the fundable
  reservations, and how far the requests of a packet can exceed it by rounding.
\<close>

section \<open>The documents\<close>

interpretation pricing_document: exact_document EXPECTED_OPENAI_PRICING_POLICY
  by unfold_locales (simp add: flat_def EXPECTED_OPENAI_PRICING_POLICY_def clean_def u_def)

interpretation egress_document: exact_document EXPECTED_BROKER_EGRESS_POLICY
  by unfold_locales (simp add: flat_def EXPECTED_BROKER_EGRESS_POLICY_def clean_def u_def)

definition approved_policy :: "pystr \<Rightarrow> pricing_policy" where
  "approved_policy digest = \<lparr>
     pp_schema_version = u ''1.0'', pp_price_version = u ''2026-08-15'', pp_currency = u ''USD'',
     pp_model = u ''gpt-5.6-sol'', pp_service_tier = u ''default'', pp_input_rate = 5000000,
     pp_cached_input_rate = 500000, pp_cache_write_input_rate = 6250000, pp_output_rate = 30000000,
     pp_long_context_threshold = 272000, pp_long_context_input_multiplier = 2000000,
     pp_long_context_output_multiplier = 1500000, pp_sha256 = digest\<rparr>"

lemma approved_policy_accepted:
  assumes raw: "canonical_openai_pricing_policy_bytes = Some raw"
  shows "validate_openai_pricing_policy sha b =
    (if b = raw then Inr (approved_policy (sha raw))
     else Inl (PricingPolicyError ''OpenAI pricing policy is not the approved canonical contract''))"
  by (simp add: validate_openai_pricing_policy_def raw str_at_def int_at_def EXPECTED_OPENAI_PRICING_POLICY_def
      approved_policy_def Let_def)

lemma approved_policy_loaded:
  "\<exists>raw. canonical_openai_pricing_policy_bytes = Some raw
    \<and> APPROVED_OPENAI_PRICING_POLICY sha = Inr (approved_policy (sha raw))"
proof -
  obtain raw where raw: "canonical_openai_pricing_policy_bytes = Some raw"
    using pricing_document.bytes_exist by (auto simp: canonical_openai_pricing_policy_bytes_def)
  show ?thesis
    by (rule exI [of _ raw]) (simp add: raw APPROVED_OPENAI_PRICING_POLICY_def approved_policy_accepted [OF raw])
qed

text \<open>
  There is one canonical pricing document; the validator accepts it, with the pinned model,
  rates and limits, and refuses every other byte string.
\<close>

theorem pricing_policy_is_exact:
  "\<exists>raw. canonical_openai_pricing_policy_bytes = Some raw
    \<and> APPROVED_OPENAI_PRICING_POLICY sha = Inr (approved_policy (sha raw))
    \<and> validate_openai_pricing_policy sha =
        (\<lambda>b. if b = raw then Inr (approved_policy (sha raw))
             else Inl (PricingPolicyError ''OpenAI pricing policy is not the approved canonical contract''))"
  using approved_policy_loaded [of sha] approved_policy_accepted [of _ sha] by (auto simp: fun_eq_iff)

text \<open>The egress validator accepts the canonical allowlist only, and answers its digest.\<close>

theorem egress_policy_is_exact:
  "\<exists>raw. canonical_broker_egress_policy_bytes = Some raw
    \<and> validate_broker_egress_policy sha = (\<lambda>b. if b = raw then Inr (sha raw) else Inl EgressPolicyError)"
proof -
  obtain raw where raw: "canonical_broker_egress_policy_bytes = Some raw"
    using egress_document.bytes_exist by (auto simp: canonical_broker_egress_policy_bytes_def)
  then show ?thesis by (intro exI [of _ raw]) (simp add: validate_broker_egress_policy_def raw fun_eq_iff)
qed

section \<open>Rounding up\<close>

lemma ceil_ratio_bounds:
  assumes "0 < d"
  shows "n \<le> d * ceil_ratio n d" "d * ceil_ratio n d < n + d"
proof -
  have "d * ((n + d - 1) div d) + (n + d - 1) mod d = n + d - 1" by simp
  moreover have "0 \<le> (n + d - 1) mod d" "(n + d - 1) mod d < d" using assms by simp_all
  ultimately show "n \<le> d * ceil_ratio n d" "d * ceil_ratio n d < n + d"
    unfolding ceil_ratio_def by linarith+
qed

lemma ceil_ratio_nonneg: "0 < d \<Longrightarrow> 0 \<le> n \<Longrightarrow> 0 \<le> ceil_ratio n d"
  by (simp add: ceil_ratio_def pos_imp_zdiv_nonneg_iff)

section \<open>One request\<close>

text \<open>
  The price of a request by the rates of the policy, where every input token is fresh, read from
  the cache or written to it, in units of a millionth of a millionth of a micro-dollar.
\<close>

definition bill :: "pricing_policy \<Rightarrow> int \<Rightarrow> int \<Rightarrow> int \<Rightarrow> int \<Rightarrow> int" where
  "bill p fresh cached written out =
     (let input_price = fresh * pp_input_rate p + cached * pp_cached_input_rate p + written * pp_cache_write_input_rate p;
          output_price = out * pp_output_rate p
      in if fresh + cached + written > pp_long_context_threshold p
         then input_price * pp_long_context_input_multiplier p + output_price * pp_long_context_output_multiplier p
         else (input_price + output_price) * 1000000)"

lemma reserve_request_Inr:
  assumes "0 \<le> i" "i \<le> MAX_REVIEW_INPUT_TOKENS" "0 \<le> out" "out \<le> MAX_REVIEW_OUTPUT_TOKENS"
  shows "reserve_request_cost_microusd p (JInt i) (JInt out) = Inr (
    let r = max (max (pp_input_rate p) (pp_cached_input_rate p)) (pp_cache_write_input_rate p); long = i > pp_long_context_threshold p;
        ri = (if long then ceil_ratio (r * pp_long_context_input_multiplier p) 1000000 else r);
        ro = (if long then ceil_ratio (pp_output_rate p * pp_long_context_output_multiplier p) 1000000 else pp_output_rate p)
    in ceil_ratio (i * ri) 1000000 + ceil_ratio (out * ro) 1000000)"
  using assms
  by (simp add: reserve_request_cost_microusd_def token_count_def Let_def MULTIPLIER_SCALE_def TOKENS_PER_RATE_UNIT_def)

lemma scaled_ceil:
  assumes "0 \<le> i" and "price \<le> i * r" and "0 \<le> m"
  shows "price * m \<le> 1000000 * (1000000 * ceil_ratio (i * ceil_ratio (r * m) 1000000) 1000000)"
proof -
  let ?c = "ceil_ratio (r * m) 1000000"
  have "price * m \<le> i * r * m" using assms by (simp add: mult_right_mono)
  also have "\<dots> \<le> i * (1000000 * ?c)"
    using mult_left_mono [OF ceil_ratio_bounds(1) [of 1000000 "r * m"] assms(1)] by (simp add: mult.assoc)
  also have "\<dots> = 1000000 * (i * ?c)" by simp
  also have "\<dots> \<le> 1000000 * (1000000 * ceil_ratio (i * ?c) 1000000)"
    using ceil_ratio_bounds(1) [of 1000000 "i * ?c"] by simp
  finally show ?thesis .
qed

text \<open>
  C18. A request within the token limits always gets a reservation, and the reservation covers the
  bill of the request however its input splits into fresh, cached and cache-writing tokens, below
  and above the long-context threshold, for every policy with non-negative multipliers.
\<close>

theorem reservation_covers_every_bill:
  assumes "0 \<le> fresh" "0 \<le> cached" "0 \<le> written" "0 \<le> out"
    and "fresh + cached + written \<le> MAX_REVIEW_INPUT_TOKENS" "out \<le> MAX_REVIEW_OUTPUT_TOKENS"
    and "0 \<le> pp_long_context_input_multiplier p" "0 \<le> pp_long_context_output_multiplier p"
  shows "\<exists>cost. reserve_request_cost_microusd p (JInt (fresh + cached + written)) (JInt out) = Inr cost
    \<and> bill p fresh cached written out \<le> 1000000 * (1000000 * cost)"
proof -
  let ?i = "fresh + cached + written"
  define r where "r = max (max (pp_input_rate p) (pp_cached_input_rate p)) (pp_cache_write_input_rate p)"
  define price where "price = fresh * pp_input_rate p + cached * pp_cached_input_rate p + written * pp_cache_write_input_rate p"
  have "fresh * pp_input_rate p \<le> fresh * r" "cached * pp_cached_input_rate p \<le> cached * r"
    "written * pp_cache_write_input_rate p \<le> written * r"
    using assms(1-3) by (auto simp: r_def intro!: mult_left_mono)
  then have price: "price \<le> ?i * r" by (simp add: price_def algebra_simps)
  have short: "x * 1000000 \<le> 1000000 * (1000000 * ceil_ratio y 1000000)" if "x \<le> y" for x y
    using that ceil_ratio_bounds(1) [of 1000000 y] by simp
  show ?thesis
  proof (cases "?i > pp_long_context_threshold p")
    case True
    then show ?thesis
      using assms scaled_ceil [OF _ price assms(7)] scaled_ceil [OF assms(4) order_refl assms(8), of "pp_output_rate p"]
      by (simp add: reserve_request_Inr Let_def bill_def flip: r_def price_def)
  next
    case False
    then show ?thesis
      using assms short [OF price] short [of "out * pp_output_rate p" "out * pp_output_rate p"]
      by (simp add: reserve_request_Inr Let_def bill_def distrib_right flip: r_def price_def)
  qed
qed

theorem reservation_covers_every_bill_witness:
  "\<exists>cost. reserve_request_cost_microusd (approved_policy []) (JInt 260000) (JInt 12000) = Inr cost
    \<and> bill (approved_policy []) 100000 60000 100000 12000 \<le> 1000000 * (1000000 * cost)"
  using reservation_covers_every_bill [of 100000 60000 100000 12000 "approved_policy []"]
  by (simp add: MAX_REVIEW_INPUT_TOKENS_def MAX_REVIEW_OUTPUT_TOKENS_def approved_policy_def)

section \<open>A packet of requests\<close>

lemma reserve_attempts_Inr:
  assumes "0 \<le> rest"
  shows "\<exists>spent'. reserve_attempts p n rest spent = Inr (max 0 (rest - int n * MAX_REVIEW_INPUT_TOKENS), spent')"
  using assms
proof (induction n arbitrary: rest spent)
  case 0
  then show ?case by simp
next
  case (Suc n)
  let ?i = "min MAX_REVIEW_INPUT_TOKENS rest"
  have i: "0 \<le> ?i" "?i \<le> MAX_REVIEW_INPUT_TOKENS" "0 \<le> rest - ?i"
    using Suc.prems by (auto simp: MAX_REVIEW_INPUT_TOKENS_def)
  obtain c where c: "reserve_request_cost_microusd p (JInt ?i) (JInt MAX_REVIEW_OUTPUT_TOKENS) = Inr c"
    using reserve_request_Inr [OF i(1,2), of MAX_REVIEW_OUTPUT_TOKENS p] by (auto simp: MAX_REVIEW_OUTPUT_TOKENS_def)
  have "max 0 (rest - ?i - int n * MAX_REVIEW_INPUT_TOKENS) = max 0 (rest - int (Suc n) * MAX_REVIEW_INPUT_TOKENS)"
    by (auto simp: MAX_REVIEW_INPUT_TOKENS_def algebra_simps)
  then show ?case using Suc.IH [OF i(3), of "spent + c"] by (simp add: c Let_def)
qed

text \<open>
  The packet limit exists exactly for the reservations that give every attempt its full output
  and no attempt more input than a request may have: the loop then spends the whole reservation,
  and its last error is never raised.
\<close>

theorem packet_cost_is_defined_exactly:
  "maximum_packet_cost_microusd p (JInt reserved) attempts =
     (if attempts * 12000 \<le> reserved \<and> reserved \<le> attempts * 272000
      then map_sum id snd (reserve_attempts p (nat attempts) (reserved - attempts * 12000) 0)
      else Inl (PricingPolicyError ''packet token reservation cannot fund the approved attempts''))
   \<and> (attempts * 12000 \<le> reserved \<and> reserved \<le> attempts * 272000
      \<longleftrightarrow> (\<exists>c. maximum_packet_cost_microusd p (JInt reserved) attempts = Inr c))"
proof (cases "attempts * 12000 \<le> reserved \<and> reserved \<le> attempts * 272000")
  case True
  then have "0 \<le> reserved - attempts * 12000" "0 \<le> attempts" by simp_all
  moreover from this have "max 0 (reserved - attempts * 12000 - int (nat attempts) * MAX_REVIEW_INPUT_TOKENS) = 0"
    using True by (simp add: MAX_REVIEW_INPUT_TOKENS_def)
  ultimately obtain c where "reserve_attempts p (nat attempts) (reserved - attempts * 12000) 0 = Inr (0, c)"
    using reserve_attempts_Inr [of "reserved - attempts * 12000" p "nat attempts" 0] by auto
  then show ?thesis
    using True by (simp add: maximum_packet_cost_microusd_def MAX_REVIEW_OUTPUT_TOKENS_def MAX_REVIEW_INPUT_TOKENS_def)
next
  case False
  have refused: "(attempts * MAX_REVIEW_OUTPUT_TOKENS \<le> reserved
      \<and> \<not> reserved > attempts * (MAX_REVIEW_INPUT_TOKENS + MAX_REVIEW_OUTPUT_TOKENS)) = False"
    using False by (simp add: MAX_REVIEW_OUTPUT_TOKENS_def MAX_REVIEW_INPUT_TOKENS_def not_less)
  have "maximum_packet_cost_microusd p (JInt reserved) attempts
      = Inl (PricingPolicyError ''packet token reservation cannot fund the approved attempts'')"
    by (simp only: maximum_packet_cost_microusd_def json.case refused guardE_simps bindE_simps)
  with False show ?thesis by (simp only: if_False) simp
qed

lemma approved_request_cost:
  assumes "0 \<le> i" "i \<le> 260000" "0 \<le> out" "out \<le> 12000"
  shows "\<exists>c. reserve_request_cost_microusd (approved_policy d) (JInt i) (JInt out) = Inr c
    \<and> 25 * i + 120 * out \<le> 4 * c \<and> 4 * c \<le> 25 * i + 120 * out + 3"
proof -
  have "ceil_ratio (out * 30000000) 1000000 = 30 * out" by (simp add: ceil_ratio_def)
  then have "reserve_request_cost_microusd (approved_policy d) (JInt i) (JInt out)
      = Inr (ceil_ratio (i * 6250000) 1000000 + 30 * out)"
    using assms
    by (simp add: reserve_request_cost_microusd_def token_count_def Let_def MULTIPLIER_SCALE_def
        TOKENS_PER_RATE_UNIT_def MAX_REVIEW_INPUT_TOKENS_def MAX_REVIEW_OUTPUT_TOKENS_def approved_policy_def)
  moreover have "25 * i \<le> 4 * ceil_ratio (i * 6250000) 1000000" "4 * ceil_ratio (i * 6250000) 1000000 \<le> 25 * i + 3"
    using ceil_ratio_bounds [of 1000000 "i * 6250000"] by linarith+
  ultimately show ?thesis by auto
qed

lemma reserve_attempts_lower:
  assumes "reserve_attempts (approved_policy d) n rest spent = Inr (rest', spent')" and "0 \<le> rest"
  shows "25 * (rest - rest') + 1440000 * int n \<le> 4 * (spent' - spent)"
  using assms
proof (induction n arbitrary: rest spent)
  case (Suc n)
  let ?i = "min MAX_REVIEW_INPUT_TOKENS rest"
  have i: "0 \<le> ?i" "?i \<le> 260000" "0 \<le> rest - ?i"
    using Suc.prems(2) by (auto simp: MAX_REVIEW_INPUT_TOKENS_def)
  obtain c where c: "reserve_request_cost_microusd (approved_policy d) (JInt ?i) (JInt MAX_REVIEW_OUTPUT_TOKENS) = Inr c"
      "25 * ?i + 120 * 12000 \<le> 4 * c"
    using approved_request_cost [OF i(1,2), of 12000 d] by (auto simp: MAX_REVIEW_OUTPUT_TOKENS_def)
  then have "reserve_attempts (approved_policy d) n (rest - ?i) (spent + c) = Inr (rest', spent')"
    using Suc.prems(1) by (simp add: Let_def)
  from Suc.IH [OF this i(3)] c(2) show ?case by (simp add: algebra_simps)
qed simp

text \<open>A request of a packet: its input and output tokens, each within the limits.\<close>

definition request_ok :: "int \<times> int \<Rightarrow> bool" where
  "request_ok q \<longleftrightarrow> 0 \<le> fst q \<and> fst q \<le> 260000 \<and> 0 \<le> snd q \<and> snd q \<le> 12000"

definition request_cost :: "pystr \<Rightarrow> int \<times> int \<Rightarrow> int" where
  "request_cost d q =
     (case reserve_request_cost_microusd (approved_policy d) (JInt (fst q)) (JInt (snd q)) of Inl e \<Rightarrow> 0 | Inr c \<Rightarrow> c)"

lemma request_costs_upper:
  "\<forall>q \<in> set qs. request_ok q \<Longrightarrow>
     4 * sum_list (map (request_cost d) qs) \<le> 25 * sum_list (map fst qs) + 120 * sum_list (map snd qs) + 3 * int (length qs)
     \<and> sum_list (map snd qs) \<le> 12000 * int (length qs)"
proof (induction qs)
  case (Cons q qs)
  then have "\<exists>c. reserve_request_cost_microusd (approved_policy d) (JInt (fst q)) (JInt (snd q)) = Inr c
      \<and> 4 * c \<le> 25 * fst q + 120 * snd q + 3" and "snd q \<le> 12000"
    using approved_request_cost [of "fst q" "snd q" d] by (auto simp: request_ok_def)
  then have "4 * request_cost d q \<le> 25 * fst q + 120 * snd q + 3" by (auto simp: request_cost_def)
  with \<open>snd q \<le> 12000\<close> show ?case using Cons by (simp add: algebra_simps)
qed simp

lemma packet_bound:
  fixes s a b n r m :: int
  assumes "25 * (r - 48000) + 5760000 \<le> 4 * m" and "n \<le> 4" and "4 * s \<le> 25 * a + 120 * b + 3 * n"
    and "b \<le> 12000 * n" and "a + b \<le> r"
  shows "s \<le> m + 3"
proof -
  have "4 * s \<le> 25 * a + 120 * b + 12" "25 * a + 25 * b \<le> 25 * r" "b \<le> 48000"
    using assms by linarith+
  moreover have "25 * r + 4560000 \<le> 4 * m" using assms(1) by simp
  ultimately show ?thesis by linarith
qed

text \<open>
  Under the approved prices the reservations of at most four requests that share the tokens of a
  packet exceed the packet limit by at most three micro-dollars, whatever their sizes.
\<close>

theorem packet_requests_stay_near_the_limit:
  assumes "maximum_packet_cost_microusd (approved_policy d) (JInt reserved) 4 = Inr limit"
    and "\<forall>q \<in> set qs. request_ok q" and "length qs \<le> 4"
    and "sum_list (map fst qs) + sum_list (map snd qs) \<le> reserved"
  shows "sum_list (map (request_cost d) qs) \<le> limit + 3"
proof -
  from assms(1) have r: "48000 \<le> reserved" "reserved \<le> 1088000"
      and loop: "reserve_attempts (approved_policy d) (nat 4) (reserved - 48000) 0 = Inr (0, limit)"
    by (auto simp: maximum_packet_cost_microusd_def MAX_REVIEW_OUTPUT_TOKENS_def MAX_REVIEW_INPUT_TOKENS_def
        result_simps)
  from reserve_attempts_lower [OF loop] r have "25 * (reserved - 48000) + 5760000 \<le> 4 * limit" by simp
  moreover have "int (length qs) \<le> 4" using assms(3) by simp
  moreover note conjunct1 [OF request_costs_upper [OF assms(2), of d]] conjunct2 [OF request_costs_upper [OF assms(2), of d]]
  ultimately show ?thesis using assms(4)
    by (intro packet_bound [of reserved limit "int (length qs)" _ "sum_list (map fst qs)" "sum_list (map snd qs)"])
qed

lemma approved_full_request:
  "0 \<le> i \<Longrightarrow> i \<le> 260000 \<Longrightarrow> reserve_request_cost_microusd (approved_policy d) (JInt i) (JInt 12000)
     = Inr (ceil_ratio (i * 6250000) 1000000 + 360000)"
  by (simp add: reserve_request_cost_microusd_def token_count_def Let_def MULTIPLIER_SCALE_def ceil_ratio_def
      TOKENS_PER_RATE_UNIT_def MAX_REVIEW_INPUT_TOKENS_def MAX_REVIEW_OUTPUT_TOKENS_def approved_policy_def)

lemma packet_limits:
  "maximum_packet_cost_microusd (approved_policy d) (JInt 544000) 4 = Inr 4540000"
  "maximum_packet_cost_microusd (approved_policy d) (JInt 1088000) 4 = Inr 7940000"
proof -
  have four: "nat 4 = Suc (Suc (Suc (Suc 0)))" by simp
  have "reserve_attempts (approved_policy d) (nat 4) 496000 0 = Inr (0, 4540000)"
    "reserve_attempts (approved_policy d) (nat 4) 1040000 0 = Inr (0, 7940000)"
    unfolding four reserve_attempts.simps Let_def MAX_REVIEW_OUTPUT_TOKENS_def MAX_REVIEW_INPUT_TOKENS_def
    by (simp_all add: approved_full_request ceil_ratio_def)
  then show "maximum_packet_cost_microusd (approved_policy d) (JInt 544000) 4 = Inr 4540000"
    "maximum_packet_cost_microusd (approved_policy d) (JInt 1088000) 4 = Inr 7940000"
    unfolding maximum_packet_cost_microusd_def by (simp_all add: MAX_REVIEW_OUTPUT_TOKENS_def MAX_REVIEW_INPUT_TOKENS_def del: reserve_attempts.simps)
qed

definition uneven_requests :: "(int \<times> int) list" where
  "uneven_requests = [(124001, 12000), (124001, 12000), (124001, 12000), (123997, 12000)]"

lemma uneven_requests_cost: "sum_list (map (request_cost d) uneven_requests) = 4540003"
  by (simp add: uneven_requests_def request_cost_def reserve_request_cost_microusd_def token_count_def
      MULTIPLIER_SCALE_def TOKENS_PER_RATE_UNIT_def approved_policy_def ceil_ratio_def
      MAX_REVIEW_OUTPUT_TOKENS_def MAX_REVIEW_INPUT_TOKENS_def)

theorem packet_requests_stay_near_the_limit_witness:
  "sum_list (map (request_cost []) uneven_requests) \<le> 4540000 + 3"
  using packet_requests_stay_near_the_limit [OF packet_limits(1) [of "[]"], of uneven_requests]
  by (simp add: uneven_requests_def request_ok_def)

text \<open>
  The default and absolute limits are 4.54 and 7.94 dollars; the default limit is not the maximum
  it is meant to be: four approved requests that use exactly the reserved tokens cost three
  micro-dollars more, because the limit rounds up fewer inputs than the requests do.
\<close>

theorem packet_limit_is_not_the_maximum:
  "DEFAULT_PACKET_COST_LIMIT_MICROUSD sha = Inr 4540000
   \<and> ABSOLUTE_PACKET_COST_LIMIT_MICROUSD sha = Inr 7940000
   \<and> (\<exists>qs. length qs = 4 \<and> sum_list (map fst qs) + sum_list (map snd qs) = DEFAULT_PACKET_RESERVED_TOKENS
        \<and> list_all request_ok qs \<and> sum_list (map (request_cost (sha [])) qs) = 4540003)"
proof -
  obtain b where "APPROVED_OPENAI_PRICING_POLICY sha = Inr (approved_policy (sha b))"
    using approved_policy_loaded by blast
  then have "DEFAULT_PACKET_COST_LIMIT_MICROUSD sha = Inr 4540000" "ABSOLUTE_PACKET_COST_LIMIT_MICROUSD sha = Inr 7940000"
    by (simp_all add: DEFAULT_PACKET_COST_LIMIT_MICROUSD_def ABSOLUTE_PACKET_COST_LIMIT_MICROUSD_def
        DEFAULT_PACKET_RESERVED_TOKENS_def ABSOLUTE_PACKET_RESERVED_TOKENS_def MAX_REVIEW_ATTEMPTS_PER_PACKET_def packet_limits)
  then show ?thesis
    using uneven_requests_cost [of "sha []"]
    by (intro conjI exI [of _ uneven_requests]) (simp_all add: uneven_requests_def request_ok_def DEFAULT_PACKET_RESERVED_TOKENS_def)
qed

end
