(* ===== verification/Py_Arith.thy ===== *)
theory Py_Arith
  imports Py_Float
begin

text \<open>
  Arithmetic on Python's \<open>float\<close>: each operation computes the exact result and rounds it once.
  Division of integers and the conversion of an integer raise \<open>OverflowError\<close> when the result is
  out of range; \<open>None\<close> stands for that exception. \<open>max\<close> and \<open>min\<close> keep their first argument
  unless the second is strictly greater, or less.
\<close>

definition fneg :: "pyfloat \<Rightarrow> bool" where
  "fneg x = (case x of Fin q \<Rightarrow> q < 0 | NegZero \<Rightarrow> True | PInf \<Rightarrow> False | NInf \<Rightarrow> True | NaN \<Rightarrow> False)"

definition fminus :: "pyfloat \<Rightarrow> pyfloat" where
  "fminus x = (case x of Fin q \<Rightarrow> (if q = 0 then NegZero else Fin (- q)) | NegZero \<Rightarrow> Fin 0 | PInf \<Rightarrow> NInf | NInf \<Rightarrow> PInf | NaN \<Rightarrow> NaN)"

definition fadd :: "pyfloat \<Rightarrow> pyfloat \<Rightarrow> pyfloat" where
  "fadd x y =
     (if x = NaN \<or> y = NaN \<or> (x = PInf \<and> y = NInf) \<or> (x = NInf \<and> y = PInf) then NaN
      else if x = PInf \<or> y = PInf then PInf
      else if x = NInf \<or> y = NInf then NInf
      else if x = NegZero \<and> y = NegZero then NegZero
      else rnd64 (the (float_rat x) + the (float_rat y)))"

definition fsub :: "pyfloat \<Rightarrow> pyfloat \<Rightarrow> pyfloat" where
  "fsub x y = fadd x (fminus y)"

definition fmul :: "pyfloat \<Rightarrow> pyfloat \<Rightarrow> pyfloat" where
  "fmul x y =
     (if x = NaN \<or> y = NaN then NaN
      else if float_finite x \<and> float_finite y then
        (let q = the (float_rat x) * the (float_rat y) in
         if q = 0 then (if fneg x \<noteq> fneg y then NegZero else Fin 0) else rnd64 q)
      else if float_rat x = Some 0 \<or> float_rat y = Some 0 then NaN
      else if fneg x \<noteq> fneg y then NInf else PInf)"

definition fless :: "pyfloat \<Rightarrow> pyfloat \<Rightarrow> bool" where
  "fless x y =
     (case (float_rat x, float_rat y) of
        (Some a, Some b) \<Rightarrow> a < b
      | (Some a, None) \<Rightarrow> y = PInf
      | (None, Some b) \<Rightarrow> x = NInf
      | (None, None) \<Rightarrow> x = NInf \<and> y = PInf)"

definition fmax :: "pyfloat \<Rightarrow> pyfloat \<Rightarrow> pyfloat" where
  "fmax x y = (if fless x y then y else x)"

definition fmin :: "pyfloat \<Rightarrow> pyfloat \<Rightarrow> pyfloat" where
  "fmin x y = (if fless y x then y else x)"

text \<open>\<open>float(i)\<close>, and \<open>a / b\<close> on integers with a positive divisor.\<close>

definition int_to_float :: "int \<Rightarrow> pyfloat option" where
  "int_to_float i = (case rnd64 (of_int i) of Fin q \<Rightarrow> Some (Fin q) | _ \<Rightarrow> None)"

definition int_div :: "int \<Rightarrow> int \<Rightarrow> pyfloat option" where
  "int_div a b = (case rnd64 (of_int a / of_int b) of PInf \<Rightarrow> None | NInf \<Rightarrow> None | x \<Rightarrow> Some x)"

text \<open>\<open>round(x, n)\<close>: the exact value rounded to \<open>n\<close> decimals, half to even, then to a \<open>float\<close>.\<close>

definition fround :: "nat \<Rightarrow> pyfloat \<Rightarrow> pyfloat" where
  "fround n x =
     (case x of
        Fin q \<Rightarrow>
          (let d = half_even (q * 10 ^ n) in
           if d = 0 then (if q < 0 then NegZero else Fin 0) else rnd64 (of_int d / 10 ^ n))
      | _ \<Rightarrow> x)"

section \<open>Rounding is monotone and exact on representable values\<close>

lemma half_even_mono: "x \<le> y \<Longrightarrow> half_even x \<le> half_even y"
proof -
  assume xy: "x \<le> y"
  have bounds: "\<lfloor>z\<rfloor> \<le> half_even z \<and> half_even z \<le> \<lfloor>z\<rfloor> + 1" for z :: rat
    by (simp add: half_even_def Let_def)
  show ?thesis
  proof (cases "\<lfloor>x\<rfloor> = \<lfloor>y\<rfloor>")
    case True
    then show ?thesis using xy by (auto simp: half_even_def Let_def)
  next
    case False
    then have "\<lfloor>x\<rfloor> + 1 \<le> \<lfloor>y\<rfloor>" using floor_mono [OF xy] by simp
    then show ?thesis using bounds [of x] bounds [of y] by linarith
  qed
qed

lemma half_even_of_int [simp]: "half_even (of_int i) = i"
  by (simp add: half_even_def Let_def)

lemma half_even_bounds: "of_int (half_even x) \<le> x + 1/2" "x - 1/2 \<le> of_int (half_even x)"
proof -
  have "of_int \<lfloor>x\<rfloor> \<le> x" "x < of_int \<lfloor>x\<rfloor> + 1" using floor_correct [of x] by simp_all
  then show "of_int (half_even x) \<le> x + 1/2" "x - 1/2 \<le> of_int (half_even x)"
    by (auto simp: half_even_def Let_def, linarith+)
qed

section \<open>The exponent of a value\<close>

lemma pow2_pos [simp]: "0 < pow2 e"
  by (simp add: pow2_def)

lemma pow2_mono: "a \<le> b \<Longrightarrow> pow2 a \<le> pow2 b"
proof -
  assume ab: "a \<le> b"
  consider "0 \<le> a" | "a < 0" "0 \<le> b" | "b < 0" by linarith
  then show ?thesis
  proof cases
    case 1
    then show ?thesis using ab by (simp add: pow2_def power_increasing)
  next
    case 2
    have "1 / 2 ^ nat (- a) \<le> (1 :: rat)" by simp
    also have "(1 :: rat) \<le> 2 ^ nat b" by simp
    finally show ?thesis using 2 by (simp add: pow2_def)
  next
    case 3
    then have "(2 :: rat) ^ nat (- b) \<le> 2 ^ nat (- a)" using ab by (intro power_increasing) auto
    then show ?thesis using 3 ab by (simp add: pow2_def frac_le)
  qed
qed

lemma pow2_0 [simp]: "pow2 0 = 1"
  by (simp add: pow2_def)

lemma pow2_le_1: "pow2 e \<le> 1 \<Longrightarrow> e \<le> 0"
proof (rule ccontr)
  assume "pow2 e \<le> 1" "\<not> e \<le> 0"
  then have "1 < (2 :: rat) ^ nat e" by (intro one_less_power) auto
  with \<open>pow2 e \<le> 1\<close> \<open>\<not> e \<le> 0\<close> show False by (simp add: pow2_def)
qed

lemma quotient_of_pos: "0 < a \<Longrightarrow> quotient_of a = (n, d) \<Longrightarrow> 0 < n \<and> 0 < d \<and> a = of_int n / of_int d"
  using quotient_of_denom_pos [of a n d] quotient_of_div [of a n d]
  by (metis less_asym not_less_iff_gr_or_eq of_int_0_less_iff zero_less_divide_iff)

lemma pow2_bitlen:
  assumes "0 < n" "0 < d"
  shows "pow2 (bitlen n - bitlen d - 1) \<le> of_int n / of_int d"
proof -
  have n: "2 ^ nat (bitlen n - 1) \<le> n" using bitlen_bounds [OF assms(1)] by simp
  have d: "d < 2 ^ nat (bitlen d)" using bitlen_bounds [OF assms(2)] by simp
  have len: "1 \<le> bitlen n" "1 \<le> bitlen d"
    using bitlen_nonneg [of n] bitlen_nonneg [of d] bitlen_eq_zero_iff [of n] bitlen_eq_zero_iff [of d] assms by linarith+
  let ?a = "nat (bitlen n - 1)" and ?b = "nat (bitlen d)"
  have "pow2 (bitlen n - bitlen d - 1) * 2 ^ ?b \<le> (2 :: rat) ^ ?a"
  proof (cases "bitlen d \<le> bitlen n - 1")
    case True
    then have "nat (bitlen n - bitlen d - 1) + ?b = ?a" using len by linarith
    then show ?thesis using True by (simp add: pow2_def flip: power_add)
  next
    case False
    then have "?b = nat (- (bitlen n - bitlen d - 1)) + ?a" using len by simp
    then have "(2 :: rat) ^ ?b = 2 ^ nat (- (bitlen n - bitlen d - 1)) * 2 ^ ?a" by (simp only: power_add)
    then show ?thesis using False by (simp add: pow2_def)
  qed
  moreover have "(of_int d :: rat) \<le> 2 ^ ?b" using d by (metis less_imp_le of_int_le_iff of_int_numeral of_int_power)
  then have "pow2 (bitlen n - bitlen d - 1) * of_int d \<le> pow2 (bitlen n - bitlen d - 1) * 2 ^ ?b"
    by (intro mult_left_mono) (simp_all add: less_imp_le)
  moreover have "(2 :: rat) ^ ?a \<le> of_int n" using n by (metis of_int_le_iff of_int_numeral of_int_power)
  ultimately have "pow2 (bitlen n - bitlen d - 1) * of_int d \<le> of_int n" by linarith
  then show ?thesis using assms(2) by (simp add: pos_le_divide_eq)
qed

lemma exp2_of_le: "0 < a \<Longrightarrow> pow2 (exp2_of a) \<le> a"
proof -
  assume a: "0 < a"
  obtain n d where q: "quotient_of a = (n, d)" by (cases "quotient_of a")
  then have nd: "0 < n" "0 < d" "a = of_int n / of_int d" using quotient_of_pos [OF a] by blast+
  have "exp2_of a = (if pow2 (bitlen n - bitlen d) \<le> a then bitlen n - bitlen d else bitlen n - bitlen d - 1)"
    by (simp add: exp2_of_def q Let_def)
  then show ?thesis using pow2_bitlen [OF nd(1,2)] nd(3) by simp
qed

text \<open>A value between zero and one rounds to one between zero and one.\<close>

definition unit_float :: "pyfloat \<Rightarrow> bool" where
  "unit_float x = (case x of Fin q \<Rightarrow> 0 \<le> q \<and> q \<le> 1 | NegZero \<Rightarrow> True | _ \<Rightarrow> False)"

lemma rnd64_unit:
  assumes "0 \<le> q" "q \<le> 1"
  shows "\<exists>v. rnd64 q = Fin v \<and> 0 \<le> v \<and> v \<le> 1"
proof (cases "q = 0")
  case True
  then show ?thesis by (simp add: rnd64_def)
next
  case False
  with assms have q: "0 < q" "\<bar>q\<bar> = q" by simp_all
  define p where "p = ulp_exp q"
  have "exp2_of q \<le> 0" using exp2_of_le [OF q(1)] assms(2) by (intro pow2_le_1) linarith
  then have p: "p \<le> 0" by (simp add: p_def ulp_exp_def)
  then have inv: "1 / pow2 p = of_int (2 ^ nat (- p))" by (auto simp: pow2_def)
  have "q / pow2 p \<le> 1 / pow2 p" using assms(2) by (simp add: divide_right_mono less_imp_le)
  then have "half_even (q / pow2 p) \<le> half_even (1 / pow2 p)" by (rule half_even_mono)
  then have "half_even (q / pow2 p) \<le> 2 ^ nat (- p)" by (simp only: inv half_even_of_int)
  then have "of_int (half_even (q / pow2 p)) \<le> (1 :: rat) / pow2 p" unfolding inv by (simp only: of_int_le_iff)
  then have upper: "of_int (half_even (q / pow2 p)) * pow2 p \<le> 1" by (simp add: pos_le_divide_eq)
  have "half_even 0 \<le> half_even (q / pow2 p)" using q by (intro half_even_mono) (simp add: less_imp_le)
  then have "0 \<le> half_even (q / pow2 p)" using half_even_of_int [of 0] by simp
  then have lower: "0 \<le> of_int (half_even (q / pow2 p)) * pow2 p" by (simp add: less_imp_le)
  have "\<not> (2 :: rat) ^ 1024 \<le> of_int (half_even (q / pow2 p)) * pow2 p"
  proof
    assume "(2 :: rat) ^ 1024 \<le> of_int (half_even (q / pow2 p)) * pow2 p"
    moreover have "(1 :: rat) < 2 ^ 1024" by (rule one_less_power) simp_all
    ultimately show False using upper by linarith
  qed
  then show ?thesis using False q assms lower upper by (auto simp: rnd64_def Let_def p_def)
qed

lemma rnd64_unit_float: "0 \<le> q \<Longrightarrow> q \<le> 1 \<Longrightarrow> unit_float (rnd64 q)"
  using rnd64_unit [of q] by (auto simp: unit_float_def)

lemma fround_unit: "unit_float x \<Longrightarrow> unit_float (fround n x)"
proof (cases x)
  case (Fin q)
  assume "unit_float x"
  then have q: "0 \<le> q" "q \<le> 1" by (simp_all add: Fin unit_float_def)
  have "half_even (of_int 0) \<le> half_even (q * 10 ^ n)" using q by (intro half_even_mono) simp
  moreover have "half_even (q * 10 ^ n) \<le> half_even (of_int (10 ^ n))"
    using q by (intro half_even_mono) (simp add: mult_left_le_one_le)
  ultimately have d: "0 \<le> half_even (q * 10 ^ n)" "half_even (q * 10 ^ n) \<le> 10 ^ n"
    by (simp_all only: half_even_of_int)
  then have "(of_int (half_even (q * 10 ^ n)) :: rat) \<le> of_int (10 ^ n)" by (simp only: of_int_le_iff)
  then have "of_int (half_even (q * 10 ^ n)) / 10 ^ n \<le> (1 :: rat)" by simp
  moreover have "0 \<le> (of_int (half_even (q * 10 ^ n)) / 10 ^ n :: rat)" using d by simp
  ultimately have "unit_float (rnd64 (of_int (half_even (q * 10 ^ n)) / 10 ^ n))" by (intro rnd64_unit_float)
  then show ?thesis by (auto simp: fround_def Fin Let_def unit_float_def)
qed (simp_all add: fround_def unit_float_def)

lemma clip_unit: "unit_float (fmax (Fin 0) (fmin (Fin 1) x))"
  by (cases x) (auto simp: fmax_def fmin_def fless_def unit_float_def)

lemma unit_fmax: "unit_float x \<Longrightarrow> unit_float y \<Longrightarrow> unit_float (fmax x y)"
  by (simp add: fmax_def)

lemma int_div_unit: "0 \<le> a \<Longrightarrow> a \<le> b \<Longrightarrow> 0 < b \<Longrightarrow> \<exists>x. int_div a b = Some x \<and> unit_float x"
  using rnd64_unit [of "of_int a / of_int b"] by (auto simp: int_div_def unit_float_def)

lemma rnd64_nonneg: "0 \<le> q \<Longrightarrow> \<not> fless (rnd64 q) (Fin 0)"
proof -
  assume q: "0 \<le> q"
  have "half_even (of_int 0) \<le> half_even (\<bar>q\<bar> / pow2 (ulp_exp \<bar>q\<bar>))"
    by (intro half_even_mono) (simp add: less_imp_le)
  then have "0 \<le> half_even (\<bar>q\<bar> / pow2 (ulp_exp \<bar>q\<bar>))" by (simp only: half_even_of_int)
  then have "0 \<le> of_int (half_even (\<bar>q\<bar> / pow2 (ulp_exp \<bar>q\<bar>))) * pow2 (ulp_exp \<bar>q\<bar>)"
    by (simp add: less_imp_le)
  then show ?thesis using q by (auto simp: rnd64_def Let_def fless_def not_less)
qed

lemma int_to_float_nonneg: "0 \<le> i \<Longrightarrow> int_to_float i = Some x \<Longrightarrow> \<not> fless x (Fin 0)"
  using rnd64_nonneg [of "of_int i"] by (auto simp: int_to_float_def split: pyfloat.splits)

section \<open>Small values\<close>

lemma bitlen_small: "bitlen 1 = 1" "bitlen 2 = 2"
  by (simp_all add: compute_bitlen)

lemma rnd64_one: "rnd64 1 = Fin 1"
proof -
  have "quotient_of 1 = (1, 1)" by (simp add: rat_one_code)
  then have "exp2_of 1 = 0" by (simp add: exp2_of_def bitlen_small)
  moreover have "half_even (1 / pow2 (- 52)) = 2 ^ 52"
    using half_even_of_int [of "2 ^ 52"] by (simp add: pow2_def)
  ultimately show ?thesis by (simp add: rnd64_def ulp_exp_def) (simp add: pow2_def)
qed

lemma rnd64_two: "rnd64 2 = Fin 2"
proof -
  have "quotient_of 2 = (2, 1)" by simp
  then have "exp2_of 2 = 1" by (simp add: exp2_of_def bitlen_small) (simp add: pow2_def)
  moreover have "half_even (2 / pow2 (- 51)) = 2 ^ 52"
    using half_even_of_int [of "2 ^ 52"] by (simp add: pow2_def)
  ultimately show ?thesis by (simp add: rnd64_def ulp_exp_def) (simp add: pow2_def)
qed

end
