(* ===== verification/Py_Unicode.thy ===== *)
theory Py_Unicode
  imports Py_Strings
begin

text \<open>
  The Unicode tables Python's text methods read, gathered in one record the definitions of the
  application take as an argument, with what is documented of them on ASCII text (the locale) and
  a concrete instance: the tables restricted to ASCII.
\<close>

record unicode =
  uc_casefold :: fold_fn
  uc_lower :: fold_fn
  uc_upper :: fold_fn
  uc_nfkc :: fold_fn
  uc_word :: "nat \<Rightarrow> bool"
  uc_digit :: "nat \<Rightarrow> nat option"

definition ascii_upper :: "nat \<Rightarrow> nat" where
  "ascii_upper c = (if 0x61 \<le> c \<and> c \<le> 0x7A then c - 32 else c)"

definition ascii_word :: "nat \<Rightarrow> bool" where
  "ascii_word c \<longleftrightarrow> is_digit c \<or> 0x41 \<le> c \<and> c \<le> 0x5A \<or> 0x61 \<le> c \<and> c \<le> 0x7A \<or> c = 0x5F"

locale unicode_tables =
  fixes U :: unicode
  assumes fold_ascii: "ascii s \<Longrightarrow> uc_casefold U s = map ascii_lower s"
    and lower_ascii: "ascii s \<Longrightarrow> uc_lower U s = map ascii_lower s"
    and upper_ascii: "ascii s \<Longrightarrow> uc_upper U s = map ascii_upper s"
    and nfkc_ascii: "ascii s \<Longrightarrow> uc_nfkc U s = s"
    and word_ascii: "c < 128 \<Longrightarrow> uc_word U c \<longleftrightarrow> ascii_word c"
    and digit_ascii: "c < 128 \<Longrightarrow> uc_digit U c = (if is_digit c then Some (c - 0x30) else None)"

sublocale unicode_tables \<subseteq> casefold_fn "uc_casefold U"
  by unfold_locales (rule fold_ascii)

definition ascii_unicode :: unicode where
  "ascii_unicode = \<lparr>
     uc_casefold = ascii_casefold, uc_lower = map ascii_lower, uc_upper = map ascii_upper, uc_nfkc = (\<lambda>s. s),
     uc_word = ascii_word, uc_digit = (\<lambda>c. if is_digit c then Some (c - 0x30) else None)\<rparr>"

interpretation ascii_tables: unicode_tables ascii_unicode
  by unfold_locales (simp_all add: ascii_unicode_def ascii_casefold_def)

section \<open>More string methods\<close>

definition contains :: "pystr \<Rightarrow> pystr \<Rightarrow> bool" where
  "contains needle s \<longleftrightarrow> list_ex (\<lambda>i. take (length needle) (drop i s) = needle) [0..<Suc (length s)]"

definition rstrip_char :: "nat \<Rightarrow> pystr \<Rightarrow> pystr" where
  "rstrip_char c s = rev (dropWhile (\<lambda>x. x = c) (rev s))"

text \<open>\<open>s.rpartition(sep)\<close>: what is before and after the last separator, if there is one.\<close>

definition rpartition_at :: "nat \<Rightarrow> pystr \<Rightarrow> pystr option \<times> pystr" where
  "rpartition_at sep s =
     (let after = rev (takeWhile (\<lambda>c. c \<noteq> sep) (rev s)) in
      (if sep \<in> set s then Some (take (length s - length after - 1) s) else None, after))"

lemma contains_iff: "contains needle s \<longleftrightarrow> (\<exists>a b. s = a @ needle @ b)"
proof
  assume "contains needle s"
  then obtain i where i: "take (length needle) (drop i s) = needle" by (auto simp: contains_def list_ex_iff)
  have "s = take i s @ take (length needle) (drop i s) @ drop (length needle) (drop i s)"
    by (metis append_take_drop_id)
  then show "\<exists>a b. s = a @ needle @ b" unfolding i by blast
next
  assume "\<exists>a b. s = a @ needle @ b"
  then obtain a b where "s = a @ needle @ b" by blast
  then show "contains needle s"
    unfolding contains_def list_ex_iff by (intro bexI [of _ "length a"]) auto
qed

lemma contains_refl [simp]: "contains s s"
  unfolding contains_iff by (rule exI [of _ "[]"]) simp

end
