(* ===== verification/State_Error.thy ===== *)
theory State_Error
  imports Prelude
begin

text \<open>
  Computations that thread a log of effects and may raise: the value or the exception comes with
  the log left behind. \<open>emits\<close> bounds what a computation adds to the log, whatever its result.
\<close>

type_synonym ('ev, 'e, 'a) effectful = "'ev list \<Rightarrow> ('e + 'a) \<times> 'ev list"

definition bindS :: "('ev, 'e, 'a) effectful \<Rightarrow> ('a \<Rightarrow> ('ev, 'e, 'b) effectful) \<Rightarrow> ('ev, 'e, 'b) effectful" where
  "bindS m f l = (case m l of (Inl e, l') \<Rightarrow> (Inl e, l') | (Inr x, l') \<Rightarrow> f x l')"

definition liftS :: "'e + 'a \<Rightarrow> ('ev, 'e, 'a) effectful" where
  "liftS r l = (r, l)"

text \<open>Record an effect, then go on.\<close>

definition emit :: "'ev \<Rightarrow> ('ev, 'e, 'a) effectful \<Rightarrow> ('ev, 'e, 'a) effectful" where
  "emit e m l = m (l @ [e])"

lemma bindS_Inr: "bindS m f l = (Inr y, l') \<longleftrightarrow> (\<exists>x l1. m l = (Inr x, l1) \<and> f x l1 = (Inr y, l'))"
  by (auto simp: bindS_def split: prod.splits sum.splits)

lemma liftS_Inr: "liftS r l = (Inr y, l') \<longleftrightarrow> r = Inr y \<and> l' = l"
  by (auto simp: liftS_def)

lemma bindS_liftS [simp]: "bindS (liftS (Inr x)) f = f x" "bindS (liftS (Inl e)) f = liftS (Inl e)"
  by (auto simp: bindS_def liftS_def)

text \<open>
  \<open>emits Q w n m\<close>: from every log, \<open>m\<close> only appends effects, each of them satisfies \<open>Q\<close>, and their
  weights sum to at most \<open>n\<close>.
\<close>

definition emits :: "('ev \<Rightarrow> bool) \<Rightarrow> ('ev \<Rightarrow> nat) \<Rightarrow> nat \<Rightarrow> ('ev, 'e, 'a) effectful \<Rightarrow> bool" where
  "emits Q w n m \<longleftrightarrow> (\<forall>l. \<exists>es. snd (m l) = l @ es \<and> (\<forall>e \<in> set es. Q e) \<and> sum_list (map w es) \<le> n)"

named_theorems emits_intros \<open>introduction rules for emits\<close>

lemma emits_liftS [emits_intros]: "emits Q w n (liftS r)"
  by (simp add: emits_def liftS_def)

lemma emits_emit:
  assumes "Q e" and "emits Q w n m" and "w e + n \<le> k"
  shows "emits Q w k (emit e m)"
  unfolding emits_def
proof
  fix l
  obtain es where "snd (m (l @ [e])) = (l @ [e]) @ es" "\<forall>e \<in> set es. Q e" "sum_list (map w es) \<le> n"
    using assms(2) unfolding emits_def by blast
  with assms(1,3) show "\<exists>es. snd (emit e m l) = l @ es \<and> (\<forall>e \<in> set es. Q e) \<and> sum_list (map w es) \<le> k"
    by (intro exI [of _ "e # es"]) (auto simp: emit_def)
qed

lemma emits_bindS:
  assumes m: "emits Q w a m" and f: "\<And>x l l'. m l = (Inr x, l') \<Longrightarrow> emits Q w b (f x)" and n: "a + b \<le> n"
  shows "emits Q w n (bindS m f)"
  unfolding emits_def
proof
  fix l
  obtain r l' where ml: "m l = (r, l')" by (cases "m l")
  with m obtain es where es: "l' = l @ es" "\<forall>e \<in> set es. Q e" "sum_list (map w es) \<le> a"
    unfolding emits_def by (metis snd_conv)
  show "\<exists>es. snd (bindS m f l) = l @ es \<and> (\<forall>e \<in> set es. Q e) \<and> sum_list (map w es) \<le> n"
  proof (cases r)
    case (Inl e)
    with ml es n show ?thesis by (auto simp: bindS_def)
  next
    case (Inr x)
    with f ml have "emits Q w b (f x)" by blast
    then obtain fs where "snd (f x l') = l' @ fs" "\<forall>e \<in> set fs. Q e" "sum_list (map w fs) \<le> b"
      unfolding emits_def by blast
    with ml es Inr n show ?thesis by (intro exI [of _ "es @ fs"]) (auto simp: bindS_def)
  qed
qed

lemma emits_mono: "emits Q w a m \<Longrightarrow> (\<And>e. Q e \<Longrightarrow> R e) \<Longrightarrow> a \<le> b \<Longrightarrow> emits R w b m"
  unfolding emits_def by (meson order.trans)

end
