(* ===== verification/App_Base.thy ===== *)
theory App_Base
  imports Py_Arith Py_Unicode State_Error
begin

text \<open>
  \<open>src/exceptions.py\<close>, \<open>src/schemas.py\<close> and \<open>src/config.py\<close>: the exceptions of the application,
  the records its stages hand to each other, and the settings with their validation. A path is the
  list of its parts.
\<close>

section \<open>Exceptions\<close>

text \<open>
  The application's own exceptions with their message or payload, and the exceptions of Python and
  of the libraries that its code raises or lets pass.
\<close>

datatype app_error =
    BonsaiRequestError pystr
  | BonsaiResponseError pystr
  | OutscraperRequestError pystr
  | OutscraperResponseError pystr
  | OutscraperSecurityError pystr
  | OutscraperTaskFailedError pystr pydict
  | OutscraperTaskTimeoutError int pystr pydict
  | PyValueError pystr
  | PyRuntimeError pystr
  | PyAssertionError pystr
  | PyOverflowError
  | PyZeroDivisionError
  | PyUnicodeError
  | PyOSError
  | LibraryError pystr

text \<open>\<open>bool(value)\<close> of a decoded JSON value.\<close>

definition truthy :: "json \<Rightarrow> bool" where
  "truthy v =
     (case v of
        JNull \<Rightarrow> False | JBool b \<Rightarrow> b | JInt i \<Rightarrow> i \<noteq> 0 | JFloat x \<Rightarrow> float_rat x \<noteq> Some 0
      | JStr s \<Rightarrow> s \<noteq> [] | JArr xs \<Rightarrow> xs \<noteq> [] | JObj d \<Rightarrow> d \<noteq> [])"

section \<open>Schemas\<close>

record product_attributes =
  pa_estimated_product_name_ja :: pystr
  pa_estimated_product_name_en :: "pystr option"
  pa_category_ja :: "pystr option"
  pa_category_en :: "pystr option"
  pa_color_ja :: "pystr option"
  pa_color_en :: "pystr option"
  pa_features_ja :: "pystr list"
  pa_features_en :: "pystr list"
  pa_negative_conditions_ja :: "pystr list"
  pa_negative_conditions_en :: "pystr list"
  pa_search_queries_ja :: "pystr list"
  pa_search_queries_en :: "pystr list"
  pa_required_terms_ja :: "pystr list"
  pa_required_terms_en :: "pystr list"
  pa_preferred_terms_ja :: "pystr list"
  pa_preferred_terms_en :: "pystr list"
  pa_related_terms_ja :: "pystr list"
  pa_related_terms_en :: "pystr list"
  pa_price_preference :: "pystr option"
  pa_min_price_jpy :: "int option"
  pa_max_price_jpy :: "int option"
  pa_target_price_jpy :: "int option"
  pa_expected_price_min_jpy :: "int option"
  pa_expected_price_max_jpy :: "int option"

record amazon_product =
  ap_source :: pystr
  ap_asin :: "pystr option"
  ap_title :: pystr
  ap_brand_or_store :: "pystr option"
  ap_price_jpy :: "int option"
  ap_list_price_jpy :: "int option"
  ap_currency :: "pystr option"
  ap_rating :: "pyfloat option"
  ap_review_count :: "int option"
  ap_categories :: "pystr list"
  ap_image_url :: "pystr option"
  ap_image_urls :: "pystr list"
  ap_product_url :: "pystr option"
  ap_short_url :: "pystr option"
  ap_is_prime :: bool
  ap_availability :: "pystr option"
  ap_shipping :: "pystr option"
  ap_source_query :: "pystr option"
  ap_position :: "int option"
  ap_description :: "pystr option"

record product_score =
  ps_asin :: "pystr option"
  ps_title :: pystr
  ps_price_jpy :: "int option"
  ps_rating :: "pyfloat option"
  ps_review_count :: "int option"
  ps_image_url :: "pystr option"
  ps_product_url :: "pystr option"
  ps_title_similarity :: pyfloat
  ps_attribute_similarity :: pyfloat
  ps_price_score :: pyfloat
  ps_negative_penalty :: pyfloat
  ps_total_score :: pyfloat
  ps_matched_terms :: "pystr list"
  ps_missing_terms :: "pystr list"
  ps_negative_matches :: "pystr list"

section \<open>Settings\<close>

type_synonym path_parts = "pystr list"

record settings =
  st_bonsai_base_url :: pystr
  st_bonsai_model :: pystr
  st_bonsai_timeout_seconds :: int
  st_bonsai_temperature :: pyfloat
  st_bonsai_max_tokens :: int
  st_bonsai_prompt_path :: path_parts
  st_outscraper_api_key :: pystr
  st_outscraper_endpoint :: pystr
  st_outscraper_domain :: pystr
  st_outscraper_language :: pystr
  st_outscraper_postal_code :: pystr
  st_outscraper_limit :: int
  st_usd_to_jpy_rate :: int
  st_poll_interval_seconds :: int
  st_max_polls :: int
  st_request_timeout_seconds :: int
  st_max_attempts :: int
  st_retry_backoff_seconds :: pyfloat
  st_title_score_weight :: pyfloat
  st_attribute_score_weight :: pyfloat
  st_price_score_weight :: pyfloat
  st_required_term_weight :: int
  st_color_term_weight :: int
  st_feature_term_weight :: int
  st_preferred_term_weight :: int
  st_related_term_weight :: int
  st_app_env :: pystr
  st_log_level :: pystr
  st_display_limit :: int
  st_show_debug_info :: bool
  st_cache_dir :: path_parts
  st_enable_cache :: bool
  st_llm_cache_ttl_seconds :: int
  st_outscraper_cache_ttl_seconds :: int

definition dec :: "string \<Rightarrow> string \<Rightarrow> pyfloat" where
  "dec i f = float_of_decimal False (u i) (u f) 0"

definition default_settings :: "path_parts \<Rightarrow> settings" where
  "default_settings base = \<lparr>
     st_bonsai_base_url = u ''http://127.0.0.1:8080/v1'', st_bonsai_model = u ''Bonsai-8B.gguf'',
     st_bonsai_timeout_seconds = 60, st_bonsai_temperature = dec ''0'' ''1'', st_bonsai_max_tokens = 1000,
     st_bonsai_prompt_path = base @ [u ''src'', u ''clients'', u ''bonsai_prompt.md''],
     st_outscraper_api_key = [], st_outscraper_endpoint = u ''https://api.outscraper.cloud/amazon-products'',
     st_outscraper_domain = u ''amazon.co.jp'', st_outscraper_language = u ''ja'',
     st_outscraper_postal_code = u ''100-0001'', st_outscraper_limit = 100, st_usd_to_jpy_rate = 160,
     st_poll_interval_seconds = 30, st_max_polls = 50, st_request_timeout_seconds = 30, st_max_attempts = 3,
     st_retry_backoff_seconds = Fin 1, st_title_score_weight = dec ''0'' ''45'',
     st_attribute_score_weight = dec ''0'' ''35'', st_price_score_weight = dec ''0'' ''20'',
     st_required_term_weight = 4, st_color_term_weight = 3, st_feature_term_weight = 2,
     st_preferred_term_weight = 2, st_related_term_weight = 1, st_app_env = u ''local'', st_log_level = u ''INFO'',
     st_display_limit = 10, st_show_debug_info = False, st_cache_dir = base @ [u ''cache''],
     st_enable_cache = True, st_llm_cache_ttl_seconds = 86400, st_outscraper_cache_ttl_seconds = 3600\<rparr>"

definition resolve_project_path :: "path_parts \<Rightarrow> path_parts \<Rightarrow> path_parts" where
  "resolve_project_path base path =
     (case path of
        [] \<Rightarrow> base
      | p # _ \<Rightarrow> if p = u ''/'' \<or> p = u ''//'' then path else base @ path)"

definition fle :: "pyfloat \<Rightarrow> pyfloat \<Rightarrow> bool" where
  "fle x y \<longleftrightarrow> fless x y \<or> (x \<noteq> NaN \<and> y \<noteq> NaN \<and> \<not> fless y x)"

definition settings_fields_ok :: "settings \<Rightarrow> bool" where
  "settings_fields_ok s \<longleftrightarrow>
     0 < st_bonsai_timeout_seconds s \<and> fle (Fin 0) (st_bonsai_temperature s) \<and> fle (st_bonsai_temperature s) (Fin 2)
     \<and> 0 < st_bonsai_max_tokens s \<and> 0 < st_outscraper_limit s \<and> 0 < st_usd_to_jpy_rate s
     \<and> 0 < st_poll_interval_seconds s \<and> 0 < st_max_polls s \<and> 0 < st_request_timeout_seconds s
     \<and> 0 < st_max_attempts s \<and> fle (Fin 0) (st_retry_backoff_seconds s)
     \<and> (\<forall>w \<in> {st_title_score_weight s, st_attribute_score_weight s, st_price_score_weight s}.
          fle (Fin 0) w \<and> fle w (Fin 1))
     \<and> 0 \<le> st_required_term_weight s \<and> 0 \<le> st_color_term_weight s \<and> 0 \<le> st_feature_term_weight s
     \<and> 0 \<le> st_preferred_term_weight s \<and> 0 \<le> st_related_term_weight s \<and> 0 < st_display_limit s
     \<and> 0 < st_llm_cache_ttl_seconds s \<and> 0 < st_outscraper_cache_ttl_seconds s"

definition fabs :: "pyfloat \<Rightarrow> pyfloat" where
  "fabs x = (if fneg x then fminus x else x)"

text \<open>A validation error of a field or of the weights is one \<open>ValidationError\<close>, a \<open>ValueError\<close>.\<close>

definition validate_weights :: "settings \<Rightarrow> app_error + settings" where
  "validate_weights s =
     (let spread = fadd (fadd (st_title_score_weight s) (st_attribute_score_weight s)) (st_price_score_weight s) in
      bindE (guardE (\<not> fless (float_of_decimal False (u ''1'') [] (- 9)) (fabs (fsub spread (Fin 1))))
        (PyValueError (u ''title, attribute, and price score weights must add up to 1.0''))) (\<lambda>_.
      bindE (guardE (st_required_term_weight s + st_color_term_weight s + st_feature_term_weight s
          + st_preferred_term_weight s + st_related_term_weight s \<noteq> 0)
        (PyValueError (u ''at least one condition term weight must be greater than 0''))) (\<lambda>_.
      Inr s)))"

definition validate_settings :: "path_parts \<Rightarrow> settings \<Rightarrow> app_error + settings" where
  "validate_settings base s =
     bindE (guardE (settings_fields_ok s) (PyValueError (u ''field constraints''))) (\<lambda>_.
     validate_weights (s\<lparr>st_bonsai_prompt_path := resolve_project_path base (st_bonsai_prompt_path s),
       st_cache_dir := resolve_project_path base (st_cache_dir s)\<rparr>))"

end
