(* ===== verification/Py_Url.thy ===== *)
theory Py_Url
  imports Py_Unicode
begin

text \<open>
  \<open>urllib.parse.urlparse\<close> as far as the client reads its result: scheme, network location, user
  information, host name and port. \<open>None\<close> stands for the \<open>ValueError\<close> of an invalid location or
  port. Whether the text between brackets is an IP address is an argument.
\<close>

definition c0_space :: "nat \<Rightarrow> bool" where
  "c0_space c \<longleftrightarrow> c \<le> 0x20"

definition ascii_alpha :: "nat \<Rightarrow> bool" where
  "ascii_alpha c \<longleftrightarrow> 0x41 \<le> c \<and> c \<le> 0x5A \<or> 0x61 \<le> c \<and> c \<le> 0x7A"

definition scheme_char :: "nat \<Rightarrow> bool" where
  "scheme_char c \<longleftrightarrow> ascii_alpha c \<or> is_digit c \<or> c = 0x2B \<or> c = 0x2D \<or> c = 0x2E"

definition clean_url :: "pystr \<Rightarrow> pystr" where
  "clean_url s = filter (\<lambda>c. c \<noteq> 0x09 \<and> c \<noteq> 0x0D \<and> c \<noteq> 0x0A) (dropWhile c0_space s)"

definition split_scheme :: "pystr \<Rightarrow> pystr \<times> pystr" where
  "split_scheme s =
     (let pre = takeWhile (\<lambda>c. c \<noteq> 0x3A) s in
      if 0x3A \<in> set s \<and> pre \<noteq> [] \<and> ascii_alpha (hd pre) \<and> list_all scheme_char pre
      then (map ascii_lower pre, drop (Suc (length pre)) s) else ([], s))"

definition netloc_of :: "pystr \<Rightarrow> pystr" where
  "netloc_of rest =
     (if take 2 rest = u ''//''
      then takeWhile (\<lambda>c. c \<noteq> 0x2F \<and> c \<noteq> 0x3F \<and> c \<noteq> 0x23) (drop 2 rest) else [])"

text \<open>Characters that compatibility normalisation turns into a delimiter are refused.\<close>

definition checknetloc :: "unicode \<Rightarrow> pystr \<Rightarrow> bool" where
  "checknetloc U netloc =
     (netloc = [] \<or> ascii netloc \<or>
      (let n = filter (\<lambda>c. c \<noteq> 0x40 \<and> c \<noteq> 0x3A \<and> c \<noteq> 0x23 \<and> c \<noteq> 0x3F) netloc; m = uc_nfkc U n in
       n = m \<or> list_all (\<lambda>c. c \<noteq> 0x2F \<and> c \<noteq> 0x3F \<and> c \<noteq> 0x23 \<and> c \<noteq> 0x40 \<and> c \<noteq> 0x3A) m))"

definition brackets_ok :: "(pystr \<Rightarrow> bool) \<Rightarrow> pystr \<Rightarrow> bool" where
  "brackets_ok ip_ok netloc =
     ((0x5B \<in> set netloc \<longleftrightarrow> 0x5D \<in> set netloc)
      \<and> (0x5B \<in> set netloc \<longrightarrow> ip_ok (fst (partition_at 0x5D (snd (partition_at 0x5B netloc))))))"

definition urlsplit :: "unicode \<Rightarrow> (pystr \<Rightarrow> bool) \<Rightarrow> pystr \<Rightarrow> (pystr \<times> pystr) option" where
  "urlsplit U ip_ok url =
     (let (scheme, rest) = split_scheme (clean_url url); netloc = netloc_of rest in
      if brackets_ok ip_ok netloc \<and> checknetloc U netloc then Some (scheme, netloc) else None)"

definition url_userinfo :: "pystr \<Rightarrow> pystr option" where
  "url_userinfo netloc = fst (rpartition_at 0x40 netloc)"

definition hostinfo :: "pystr \<Rightarrow> pystr \<times> pystr" where
  "hostinfo netloc =
     (let h = snd (rpartition_at 0x40 netloc) in
      if 0x5B \<in> set h then
        (let (name, rest) = partition_at 0x5D (snd (partition_at 0x5B h)) in (name, snd (partition_at 0x3A rest)))
      else partition_at 0x3A h)"

text \<open>The zone of a scoped IPv6 address keeps its case.\<close>

definition url_hostname :: "unicode \<Rightarrow> pystr \<Rightarrow> pystr option" where
  "url_hostname U netloc =
     (let h = fst (hostinfo netloc); (name, zone) = partition_at 0x25 h in
      if h = [] then None
      else Some (uc_lower U name @ (if 0x25 \<in> set h then 0x25 # zone else [])))"

datatype url_port = NoPort | Port nat | BadPort

definition url_port_of :: "pystr \<Rightarrow> url_port" where
  "url_port_of netloc =
     (let p = snd (hostinfo netloc) in
      if p = [] then NoPort
      else if list_all is_digit p \<and> digits_val p \<le> 65535 then Port (digits_val p) else BadPort)"

lemma url_userinfo_None: "url_userinfo netloc = None \<longleftrightarrow> 0x40 \<notin> set netloc"
  by (simp add: url_userinfo_def rpartition_at_def Let_def)

end
