(* ===== verification/App_Outscraper.thy ===== *)
theory App_Outscraper
  imports App_Base Py_Url
begin

text \<open>
  \<open>src/clients/outscraper_client.py\<close>: the client that creates a search task with the API key, polls
  its result location and returns the finished response. The network is a function from the log of
  effects so far and the request to its outcome, so every schedule of answers is covered. A JSON
  object of the service is a \<open>pydict\<close>; the text \<open>str\<close> gives of a list or an object is an argument,
  as the bracketed host check of \<open>urllib\<close> is.
\<close>

section \<open>Statuses\<close>

datatype poll_state = TaskPending | TaskFailed | TaskSuccess | TaskUnknown

definition PROCESSING_STATUSES :: "pystr list" where
  "PROCESSING_STATUSES = [u ''pending'', u ''in progress'', u ''in_progress'', u ''processing'']"

definition FAILED_STATUSES :: "pystr list" where
  "FAILED_STATUSES = [u ''failed'', u ''failure'', u ''error'', u ''cancelled'', u ''canceled'']"

definition SUCCESS_STATUSES :: "pystr list" where
  "SUCCESS_STATUSES = [u ''success'', u ''succeeded'', u ''complete'', u ''completed'', u ''done'',
     u ''finished'', u ''ok'']"

definition TRANSIENT_HTTP_STATUSES :: "int list" where
  "TRANSIENT_HTTP_STATUSES = [429]"

record client_env =
  ce_unicode :: unicode
  ce_ip_ok :: "pystr \<Rightarrow> bool"
  ce_container_str :: "json \<Rightarrow> pystr"

definition json_str :: "client_env \<Rightarrow> json \<Rightarrow> pystr" where
  "json_str E v =
     (case v of
        JNull \<Rightarrow> u ''None'' | JBool b \<Rightarrow> (if b then u ''True'' else u ''False'') | JInt i \<Rightarrow> dec_int i
      | JFloat x \<Rightarrow> float_repr x | JStr s \<Rightarrow> s | _ \<Rightarrow> ce_container_str E v)"

definition normalized_status :: "client_env \<Rightarrow> pydict \<Rightarrow> pystr" where
  "normalized_status E data =
     uc_casefold (ce_unicode E)
       (strip (case map_of data (u ''status'') of None \<Rightarrow> [] | Some v \<Rightarrow> json_str E v))"

definition task_state :: "client_env \<Rightarrow> pydict \<Rightarrow> poll_state" where
  "task_state E data =
     (let status = normalized_status E data in
      if status \<in> set PROCESSING_STATUSES then TaskPending
      else if status \<in> set FAILED_STATUSES then TaskFailed
      else if status \<in> set SUCCESS_STATUSES \<or> map_of data (u ''data'') \<noteq> None then TaskSuccess
      else TaskUnknown)"

definition processing_check :: "client_env \<Rightarrow> pydict \<Rightarrow> bool" where
  "processing_check E data \<longleftrightarrow> task_state E data = TaskPending"

definition task_failure :: "client_env \<Rightarrow> pydict \<Rightarrow> app_error + unit" where
  "task_failure E data =
     guardE (task_state E data \<noteq> TaskFailed) (OutscraperTaskFailedError (normalized_status E data) data)"

definition validated_completed_result :: "pydict \<Rightarrow> app_error + pydict" where
  "validated_completed_result data =
     (case map_of data (u ''data'') of
        None \<Rightarrow> Inl (OutscraperResponseError (u ''Completed Outscraper response does not include data''))
      | Some (JArr _) \<Rightarrow> Inr data
      | Some _ \<Rightarrow> Inl (OutscraperResponseError (u ''Outscraper response data must be a list'')))"

section \<open>Origins\<close>

definition security :: "pystr \<Rightarrow> string \<Rightarrow> app_error" where
  "security label message = OutscraperSecurityError (label @ u message)"

text \<open>\<open>port or 443\<close>: a missing port and the port 0 both give 443.\<close>

definition validated_https_origin :: "client_env \<Rightarrow> pystr \<Rightarrow> pystr \<Rightarrow> app_error + pystr \<times> nat" where
  "validated_https_origin E label url =
     (case urlsplit (ce_unicode E) (ce_ip_ok E) url of
        None \<Rightarrow> Inl (security label '' is not a valid URL'')
      | Some (scheme, netloc) \<Rightarrow>
          bindE (guardE (url_port_of netloc \<noteq> BadPort) (security label '' is not a valid URL'')) (\<lambda>_.
          bindE (guardE (uc_casefold (ce_unicode E) scheme = u ''https'') (security label '' must use HTTPS'')) (\<lambda>_.
          case url_hostname (ce_unicode E) netloc of
            None \<Rightarrow> Inl (security label '' must include a host'')
          | Some host \<Rightarrow>
              bindE (guardE (host \<noteq> []) (security label '' must include a host'')) (\<lambda>_.
              bindE (guardE (url_userinfo netloc = None) (security label '' must not include user information'')) (\<lambda>_.
              Inr (uc_casefold (ce_unicode E) (rstrip_char 0x2E host),
                case url_port_of netloc of Port p \<Rightarrow> (if p = 0 then 443 else p) | _ \<Rightarrow> 443))))))"

definition validate_results_location :: "client_env \<Rightarrow> pystr \<Rightarrow> pystr \<Rightarrow> app_error + pystr" where
  "validate_results_location E results_location endpoint =
     bindE (validated_https_origin E (u ''Outscraper endpoint'') endpoint) (\<lambda>endpoint_origin.
     bindE (validated_https_origin E (u ''Outscraper results_location'') results_location) (\<lambda>results_origin.
     bindE (guardE (results_origin = endpoint_origin)
       (OutscraperSecurityError (u ''Outscraper results_location must use the same host and port as the endpoint''))) (\<lambda>_.
     Inr results_location)))"

section \<open>Requests\<close>

datatype param = PStr pystr | PInt int

record http_request =
  rq_url :: pystr
  rq_params :: "(pystr \<times> param) list"
  rq_api_key :: pystr
  rq_timeout :: int

datatype event = Sent http_request | Slept pyfloat

text \<open>
  \<open>ConnectionFailed\<close> is a \<open>Timeout\<close> or \<open>ConnectionError\<close>; any other exception of the library is
  not caught. A response has a status and a body, \<open>None\<close> when it is not JSON.
\<close>

datatype http_outcome = ConnectionFailed | LibraryRaised pystr | Response int "json option"

type_synonym network = "event list \<Rightarrow> http_request \<Rightarrow> http_outcome"
type_synonym 'a client = "(event, app_error, 'a) effectful"

text \<open>\<open>time.sleep\<close> takes fewer than 2^63 nanoseconds.\<close>

definition sleep :: "pyfloat \<Rightarrow> unit client" where
  "sleep delay =
     (if delay = NaN then liftS (Inl (PyValueError (u ''Invalid value NaN (not a number)'')))
      else if \<not> fless delay (Fin (2 ^ 63 / 10 ^ 9)) then liftS (Inl PyOverflowError)
      else emit (Slept delay) (liftS (Inr ())))"

definition sleep_before_retry :: "nat \<Rightarrow> pyfloat \<Rightarrow> unit client" where
  "sleep_before_retry attempt backoff_seconds =
     (case int_to_float (2 ^ (attempt - 1)) of
        None \<Rightarrow> liftS (Inl PyOverflowError)
      | Some factor \<Rightarrow>
          (let delay = fmul backoff_seconds factor in
           if fless (Fin 0) delay then sleep delay else liftS (Inr ())))"

definition is_transient :: "int \<Rightarrow> bool" where
  "is_transient status \<longleftrightarrow> status \<in> set TRANSIENT_HTTP_STATUSES \<or> 500 \<le> status \<and> status < 600"

definition read_body :: "json option \<Rightarrow> app_error + pydict" where
  "read_body body =
     (case body of
        None \<Rightarrow> Inl (OutscraperResponseError (u ''Outscraper returned invalid JSON''))
      | Some (JObj d) \<Rightarrow> Inr d
      | Some _ \<Rightarrow> Inl (OutscraperResponseError (u ''Outscraper response must be a JSON object'')))"

text \<open>\<open>raise_for_status\<close> raises on the statuses from 400 to 599.\<close>

definition http_failure :: "nat \<Rightarrow> int \<Rightarrow> app_error" where
  "http_failure max_attempts status =
     OutscraperRequestError
       (if is_transient status
        then u ''Outscraper returned HTTP '' @ dec_int status @ u '' after '' @ dec_nat max_attempts @ u '' attempts''
        else u ''Outscraper returned non-retryable HTTP '' @ dec_int status)"

text \<open>
  The loop over the attempts; \<open>n\<close> attempts are left, so the number of the current one is
  \<open>max_attempts - n + 1\<close>.
\<close>

fun attempt_loop :: "network \<Rightarrow> http_request \<Rightarrow> nat \<Rightarrow> pyfloat \<Rightarrow> nat \<Rightarrow> pydict client" where
  "attempt_loop net rq max_attempts backoff 0 =
     liftS (Inl (PyAssertionError (u ''retry loop exited unexpectedly'')))"
| "attempt_loop net rq max_attempts backoff (Suc n) = (\<lambda>log.
     let attempt = max_attempts - n;
         retry = bindS (sleep_before_retry attempt backoff) (\<lambda>_. attempt_loop net rq max_attempts backoff n)
     in emit (Sent rq)
       (case net log rq of
          LibraryRaised message \<Rightarrow> liftS (Inl (LibraryError message))
        | ConnectionFailed \<Rightarrow>
            if attempt = max_attempts
            then liftS (Inl (OutscraperRequestError
              (u ''Outscraper request failed after '' @ dec_nat max_attempts @ u '' attempts'')))
            else retry
        | Response status body \<Rightarrow>
            if 300 \<le> status \<and> status < 400
            then liftS (Inl (OutscraperSecurityError (u ''Outscraper redirects are not allowed for API-key requests'')))
            else if is_transient status \<and> attempt < max_attempts then retry
            else if 400 \<le> status \<and> status < 600 then liftS (Inl (http_failure max_attempts status))
            else liftS (read_body body)) log)"

definition request_json :: "network \<Rightarrow> http_request \<Rightarrow> int \<Rightarrow> pyfloat \<Rightarrow> pydict client" where
  "request_json net rq max_attempts backoff_seconds =
     (if max_attempts < 1 then liftS (Inl (PyValueError (u ''max_attempts must be at least 1'')))
      else if rq_timeout rq \<le> 0 then liftS (Inl (PyValueError (u ''timeout must be greater than 0'')))
      else if fless backoff_seconds (Fin 0) then liftS (Inl (PyValueError (u ''backoff_seconds must not be negative'')))
      else attempt_loop net rq (nat max_attempts) backoff_seconds (nat max_attempts))"

record fetch_config =
  fc_api_key :: pystr
  fc_endpoint :: pystr
  fc_domain :: pystr
  fc_language :: pystr
  fc_postal_code :: pystr
  fc_limit :: int
  fc_request_timeout :: int
  fc_poll_interval :: int
  fc_max_polls :: int
  fc_max_attempts :: int
  fc_backoff_seconds :: pyfloat

definition build_amazon_products_params ::
    "pystr \<Rightarrow> pystr \<Rightarrow> pystr \<Rightarrow> pystr \<Rightarrow> int \<Rightarrow> bool \<Rightarrow> (pystr \<times> param) list" where
  "build_amazon_products_params query domain language postal_code limit async_request =
     [(u ''query'', PStr query), (u ''domain'', PStr domain), (u ''language'', PStr language),
      (u ''limit'', PInt limit), (u ''async'', PStr (if async_request then u ''true'' else u ''false''))]
     @ (if postal_code \<noteq> [] then [(u ''postal_code'', PStr postal_code)] else [])"

definition fetch_request_result :: "client_env \<Rightarrow> network \<Rightarrow> fetch_config \<Rightarrow> pystr \<Rightarrow> pydict client" where
  "fetch_request_result E net cfg results_location =
     bindS (liftS (validate_results_location E results_location (fc_endpoint cfg))) (\<lambda>safe_results_location.
     request_json net \<lparr>rq_url = safe_results_location, rq_params = [], rq_api_key = fc_api_key cfg,
         rq_timeout = fc_request_timeout cfg\<rparr>
       (fc_max_attempts cfg) (fc_backoff_seconds cfg))"

definition task_amazon_products_request :: "client_env \<Rightarrow> network \<Rightarrow> fetch_config \<Rightarrow> pystr \<Rightarrow> pydict client" where
  "task_amazon_products_request E net cfg query =
     bindS (liftS (validated_https_origin E (u ''Outscraper endpoint'') (fc_endpoint cfg))) (\<lambda>_.
     request_json net \<lparr>rq_url = fc_endpoint cfg,
         rq_params = build_amazon_products_params query (fc_domain cfg) (fc_language cfg) (fc_postal_code cfg)
           (fc_limit cfg) True,
         rq_api_key = fc_api_key cfg, rq_timeout = fc_request_timeout cfg\<rparr>
       (fc_max_attempts cfg) (fc_backoff_seconds cfg))"

section \<open>Polling\<close>

text \<open>\<open>n\<close> polls are left; the sleep between polls is skipped after the last one.\<close>

fun poll_loop :: "client_env \<Rightarrow> network \<Rightarrow> fetch_config \<Rightarrow> pystr \<Rightarrow> nat \<Rightarrow> pydict \<Rightarrow> pydict client" where
  "poll_loop E net cfg location 0 last_result =
     liftS (Inl (OutscraperTaskTimeoutError (fc_max_polls cfg) location last_result))"
| "poll_loop E net cfg location (Suc n) last_result =
     bindS (fetch_request_result E net cfg location) (\<lambda>result.
     case task_state E result of
       TaskFailed \<Rightarrow> liftS (Inl (OutscraperTaskFailedError (normalized_status E result) result))
     | TaskSuccess \<Rightarrow> liftS (validated_completed_result result)
     | TaskUnknown \<Rightarrow> liftS (Inl (OutscraperResponseError
         (u ''Outscraper polling response has an unknown task status and no data'')))
     | TaskPending \<Rightarrow>
         if n = 0 then poll_loop E net cfg location n result
         else bindS (case int_to_float (fc_poll_interval cfg) of None \<Rightarrow> liftS (Inl PyOverflowError) | Some d \<Rightarrow> sleep d)
           (\<lambda>_. poll_loop E net cfg location n result))"

definition fetch_amazon_products :: "client_env \<Rightarrow> network \<Rightarrow> fetch_config \<Rightarrow> pystr \<Rightarrow> pydict client" where
  "fetch_amazon_products E net cfg query =
     (if fc_max_polls cfg < 1 then liftS (Inl (PyValueError (u ''max_polls must be at least 1'')))
      else if fc_poll_interval cfg < 0 then liftS (Inl (PyValueError (u ''poll_interval must not be negative'')))
      else
        bindS (task_amazon_products_request E net cfg query) (\<lambda>search_task.
        bindS (liftS (task_failure E search_task)) (\<lambda>_.
        let location = (case map_of search_task (u ''results_location'') of None \<Rightarrow> JNull | Some v \<Rightarrow> v) in
        if \<not> truthy location then
          (case task_state E search_task of
             TaskSuccess \<Rightarrow> liftS (validated_completed_result search_task)
           | TaskPending \<Rightarrow> liftS (Inl (OutscraperResponseError
               (u ''Pending Outscraper response does not include results_location'')))
           | _ \<Rightarrow> liftS (Inl (OutscraperResponseError
               (u ''Outscraper response has neither a result nor results_location''))))
        else
          (case location of
             JStr results_location \<Rightarrow>
               bindS (liftS (validate_results_location E results_location (fc_endpoint cfg))) (\<lambda>safe_results_location.
               poll_loop E net cfg safe_results_location (nat (fc_max_polls cfg)) search_task)
           | _ \<Rightarrow> liftS (Inl (OutscraperResponseError (u ''Outscraper results_location must be a string'')))))))"

text \<open>\<open>call_outscraper\<close> without the write of the answer: the settings it passes on.\<close>

definition call_outscraper :: "client_env \<Rightarrow> network \<Rightarrow> settings \<Rightarrow> pystr \<Rightarrow> pydict client" where
  "call_outscraper E net s query =
     (if st_outscraper_api_key s = []
      then liftS (Inl (PyRuntimeError (u ''OUTSCRAPER_API_KEY is not set. Set it in .env or shell environment.'')))
      else fetch_amazon_products E net
        \<lparr>fc_api_key = st_outscraper_api_key s, fc_endpoint = st_outscraper_endpoint s,
         fc_domain = st_outscraper_domain s, fc_language = st_outscraper_language s,
         fc_postal_code = st_outscraper_postal_code s, fc_limit = st_outscraper_limit s,
         fc_request_timeout = st_request_timeout_seconds s, fc_poll_interval = st_poll_interval_seconds s,
         fc_max_polls = st_max_polls s, fc_max_attempts = st_max_attempts s,
         fc_backoff_seconds = st_retry_backoff_seconds s\<rparr> query)"

end
