(* ===== verification/App_Outscraper_Facts.thy ===== *)
theory App_Outscraper_Facts
  imports App_Outscraper
begin

text \<open>
  What the client guarantees whatever the network answers: where the API key goes, how many
  requests it sends, what a returned response holds, what is retried and with which delays.
\<close>

section \<open>Where the key goes\<close>

text \<open>A request carries the configured key to a URL of the endpoint's origin.\<close>

fun to_endpoint_origin :: "client_env \<Rightarrow> fetch_config \<Rightarrow> event \<Rightarrow> bool" where
  "to_endpoint_origin E cfg (Sent rq) \<longleftrightarrow>
     rq_api_key rq = fc_api_key cfg
     \<and> (\<exists>origin l m. validated_https_origin E l (rq_url rq) = Inr origin
          \<and> validated_https_origin E m (fc_endpoint cfg) = Inr origin)"
| "to_endpoint_origin E cfg (Slept d) \<longleftrightarrow> \<not> fless d (Fin 0)"

fun sends :: "event \<Rightarrow> nat" where
  "sends (Sent rq) = 1"
| "sends (Slept d) = 0"

lemma emits_sleep:
  assumes "\<And>d. \<not> fless d (Fin 0) \<Longrightarrow> Q (Slept d)" and "\<not> fless d (Fin 0)"
  shows "emits Q sends 0 (sleep d)"
  unfolding sleep_def using assms by (auto intro!: emits_liftS emits_emit [where n = 0])

lemma emits_sleep_before_retry:
  assumes "\<And>d. \<not> fless d (Fin 0) \<Longrightarrow> Q (Slept d)"
  shows "emits Q sends 0 (sleep_before_retry k b)"
proof -
  have "\<not> fless d (Fin 0)" if "fless (Fin 0) d" for d
    using that by (cases d) (auto simp: fless_def)
  then show ?thesis
    by (auto simp: sleep_before_retry_def Let_def split: option.split intro!: emits_liftS emits_sleep assms(1))
qed

lemma emits_attempt_loop:
  assumes "\<And>d. \<not> fless d (Fin 0) \<Longrightarrow> Q (Slept d)" and "Q (Sent rq)"
  shows "emits Q sends n (attempt_loop net rq m b n)"
proof (induction n)
  case 0
  then show ?case by (simp add: emits_liftS)
next
  case (Suc n)
  have retry: "emits Q sends n (bindS (sleep_before_retry (m - n) b) (\<lambda>_. attempt_loop net rq m b n))"
    by (rule emits_bindS [where a = 0 and b = n]) (auto intro: emits_sleep_before_retry assms(1) Suc)
  have "emits Q sends (Suc n) (emit (Sent rq)
      (case r of
         LibraryRaised message \<Rightarrow> liftS (Inl (LibraryError message))
       | ConnectionFailed \<Rightarrow> if m - n = m then liftS (Inl e)
           else bindS (sleep_before_retry (m - n) b) (\<lambda>_. attempt_loop net rq m b n)
       | Response status body \<Rightarrow>
           if 300 \<le> status \<and> status < 400 then liftS (Inl e')
           else if is_transient status \<and> m - n < m
           then bindS (sleep_before_retry (m - n) b) (\<lambda>_. attempt_loop net rq m b n)
           else if 400 \<le> status \<and> status < 600 then liftS (Inl (http_failure m status))
           else liftS (read_body body)))" for r e e'
    by (rule emits_emit [where Q = Q and e = "Sent rq" and n = n, OF assms(2)])
      (auto split: http_outcome.split intro: retry emits_liftS)
  then show ?case unfolding emits_def attempt_loop.simps Let_def by blast
qed

lemma emits_request_json:
  assumes "\<And>d. \<not> fless d (Fin 0) \<Longrightarrow> Q (Slept d)" and "Q (Sent rq)"
  shows "emits Q sends (nat m) (request_json net rq m b)"
  by (simp add: request_json_def emits_liftS emits_attempt_loop [where Q = Q, OF assms])

lemma validate_results_location_Inr:
  "validate_results_location E loc endpoint = Inr x \<longleftrightarrow> x = loc
    \<and> (\<exists>origin. validated_https_origin E (u ''Outscraper endpoint'') endpoint = Inr origin
         \<and> validated_https_origin E (u ''Outscraper results_location'') loc = Inr origin)"
  by (auto simp: validate_results_location_def result_simps)

lemma emits_fetch_request_result:
  "emits (to_endpoint_origin E cfg) sends (nat (fc_max_attempts cfg)) (fetch_request_result E net cfg loc)"
  unfolding fetch_request_result_def
proof (rule emits_bindS [where a = 0 and b = "nat (fc_max_attempts cfg)"])
  fix x l l'
  assume "liftS (validate_results_location E loc (fc_endpoint cfg)) l = (Inr x, l')"
  then have "x = loc \<and> (\<exists>origin. validated_https_origin E (u ''Outscraper endpoint'') (fc_endpoint cfg) = Inr origin
      \<and> validated_https_origin E (u ''Outscraper results_location'') loc = Inr origin)"
    by (simp add: liftS_Inr validate_results_location_Inr)
  then show "emits (to_endpoint_origin E cfg) sends (nat (fc_max_attempts cfg))
      (request_json net \<lparr>rq_url = x, rq_params = [], rq_api_key = fc_api_key cfg, rq_timeout = fc_request_timeout cfg\<rparr>
        (fc_max_attempts cfg) (fc_backoff_seconds cfg))"
    by (intro emits_request_json) auto
qed (simp_all add: emits_liftS)

lemma emits_task_request:
  "emits (to_endpoint_origin E cfg) sends (nat (fc_max_attempts cfg)) (task_amazon_products_request E net cfg query)"
  unfolding task_amazon_products_request_def
proof (rule emits_bindS [where a = 0 and b = "nat (fc_max_attempts cfg)"])
  fix x l l'
  assume "liftS (validated_https_origin E (u ''Outscraper endpoint'') (fc_endpoint cfg)) l = (Inr x, l')"
  then have "validated_https_origin E (u ''Outscraper endpoint'') (fc_endpoint cfg) = Inr x" by (simp add: liftS_Inr)
  then show "emits (to_endpoint_origin E cfg) sends (nat (fc_max_attempts cfg))
      (request_json net \<lparr>rq_url = fc_endpoint cfg,
         rq_params = build_amazon_products_params query (fc_domain cfg) (fc_language cfg) (fc_postal_code cfg) (fc_limit cfg) True,
         rq_api_key = fc_api_key cfg, rq_timeout = fc_request_timeout cfg\<rparr>
        (fc_max_attempts cfg) (fc_backoff_seconds cfg))"
    by (intro emits_request_json) (simp_all, cases x, blast)
qed (simp_all add: emits_liftS)

lemma emits_poll_loop:
  assumes "0 \<le> fc_poll_interval cfg"
  shows "emits (to_endpoint_origin E cfg) sends (n * nat (fc_max_attempts cfg)) (poll_loop E net cfg loc n result)"
proof (induction n arbitrary: result)
  case 0
  then show ?case by (simp add: emits_liftS)
next
  case (Suc n)
  have pause: "emits (to_endpoint_origin E cfg) sends 0
      (case int_to_float (fc_poll_interval cfg) of None \<Rightarrow> liftS (Inl PyOverflowError) | Some d \<Rightarrow> sleep d)"
    using int_to_float_nonneg [OF assms] by (auto split: option.split intro!: emits_liftS emits_sleep)
  show ?case
    unfolding poll_loop.simps
    by (rule emits_bindS [OF emits_fetch_request_result, where b = "n * nat (fc_max_attempts cfg)"])
      (auto split: poll_state.split intro!: emits_liftS Suc emits_bindS [OF pause Suc])
qed


section \<open>What a finished search returns\<close>

lemma validated_completed_Inr:
  "validated_completed_result d = Inr e \<longleftrightarrow> e = d \<and> (\<exists>xs. map_of d (u ''data'') = Some (JArr xs))"
  by (auto simp: validated_completed_result_def split: option.splits json.splits)

lemma poll_loop_Inr:
  "poll_loop E net cfg loc n result hist = (Inr data, hist') \<Longrightarrow>
     task_state E data = TaskSuccess \<and> (\<exists>xs. map_of data (u ''data'') = Some (JArr xs))"
proof (induction n arbitrary: result hist)
  case 0
  then show ?case by (simp add: liftS_Inr)
next
  case (Suc n)
  then show ?case
    by (auto simp: bindS_Inr liftS_Inr validated_completed_Inr split: poll_state.splits if_splits)
      (metis poll_state.exhaust)+
qed

text \<open>
  A search that returns, returns an object whose status is not a failure and not pending, with
  the list of results; an empty list is a valid answer.
\<close>

theorem finished_search_has_results:
  assumes "fetch_amazon_products E net cfg query hist = (Inr data, hist')"
  shows "task_state E data = TaskSuccess \<and> (\<exists>xs. map_of data (u ''data'') = Some (JArr xs))"
  using assms poll_loop_Inr [of E net cfg]
  by (fastforce simp: fetch_amazon_products_def bindS_Inr liftS_Inr validated_completed_Inr Let_def
      split: if_splits poll_state.splits json.splits)

section \<open>Retries\<close>

text \<open>
  An answer that is not transient is final: one request is sent, a redirect is refused without
  being followed, a client error is reported, and any other answer is read as a JSON object.
\<close>

theorem permanent_answers_are_not_retried:
  assumes "net hist rq = Response status body" and "\<not> is_transient status"
    and "1 \<le> max_attempts" and "0 < rq_timeout rq" and "\<not> fless backoff (Fin 0)"
  shows "request_json net rq max_attempts backoff hist =
    (if 300 \<le> status \<and> status < 400
     then Inl (OutscraperSecurityError (u ''Outscraper redirects are not allowed for API-key requests''))
     else if 400 \<le> status \<and> status < 600
     then Inl (OutscraperRequestError (u ''Outscraper returned non-retryable HTTP '' @ dec_int status))
     else read_body body, hist @ [Sent rq])"
proof -
  obtain n where n: "nat max_attempts = Suc n" using assms(3) by (cases "nat max_attempts") auto
  show ?thesis
    using assms by (simp add: request_json_def n Let_def emit_def liftS_def http_failure_def)
qed

text \<open>What a request leaves in the log when all its attempts fail: the delays double.\<close>

definition retry_delay :: "pyfloat \<Rightarrow> nat \<Rightarrow> pyfloat" where
  "retry_delay backoff k = fmul backoff (the (int_to_float (2 ^ k)))"

definition retry_log :: "http_request \<Rightarrow> pyfloat \<Rightarrow> nat \<Rightarrow> nat \<Rightarrow> event list" where
  "retry_log rq backoff start pauses =
     concat (map (\<lambda>k. [Sent rq, Slept (retry_delay backoff k)]) [start..<start + pauses]) @ [Sent rq]"

lemma retry_log_Suc:
  "retry_log rq b s (Suc k) = [Sent rq, Slept (retry_delay b s)] @ retry_log rq b (Suc s) k"
proof -
  have "[s..<s + Suc k] = s # [Suc s..<Suc s + k]" by (simp add: upt_conv_Cons del: upt_Suc)
  then show ?thesis by (simp add: retry_log_def)
qed

definition delay_ok :: "pyfloat \<Rightarrow> nat \<Rightarrow> bool" where
  "delay_ok backoff k \<longleftrightarrow> int_to_float (2 ^ k) \<noteq> None \<and> fless (Fin 0) (retry_delay backoff k)
     \<and> fless (retry_delay backoff k) (Fin (2 ^ 63 / 10 ^ 9))"

fun transient_outcome :: "http_outcome \<Rightarrow> bool" where
  "transient_outcome ConnectionFailed = True"
| "transient_outcome (LibraryRaised m) = False"
| "transient_outcome (Response status body) = is_transient status"

lemma sleep_before_retry_ok:
  "delay_ok b (k - 1) \<Longrightarrow> sleep_before_retry k b hist = (Inr (), hist @ [Slept (retry_delay b (k - 1))])"
  by (cases "retry_delay b (k - 1)")
    (auto simp: sleep_before_retry_def delay_ok_def retry_delay_def sleep_def emit_def liftS_def fless_def)

lemma transient_not_redirect: "is_transient s \<Longrightarrow> \<not> (300 \<le> s \<and> s < 400) \<and> 400 \<le> s \<and> s < 600"
  by (auto simp: is_transient_def TRANSIENT_HTTP_STATUSES_def)

lemma attempt_loop_exhausted:
  assumes "\<And>hist. transient_outcome (net hist rq)" and "n < m"
    and "\<forall>k. m - Suc n \<le> k \<and> k < m - 1 \<longrightarrow> delay_ok b k"
  shows "\<exists>message. attempt_loop net rq m b (Suc n) hist
    = (Inl (OutscraperRequestError message), hist @ retry_log rq b (m - Suc n) n)"
  using assms(2,3)
proof (induction n arbitrary: hist)
  case 0
  then show ?case
    using assms(1) [of hist] transient_not_redirect
    by (cases "net hist rq") (auto simp: Let_def emit_def liftS_def http_failure_def retry_log_def)
next
  case (Suc n)
  then have "delay_ok b (m - Suc n - 1)" by auto
  from sleep_before_retry_ok [OF this] have sleep: "sleep_before_retry (m - Suc n) b l
      = (Inr (), l @ [Slept (retry_delay b (m - Suc n - 1))])" for l .
  have again: "\<exists>message. attempt_loop net rq m b (Suc n) l
      = (Inl (OutscraperRequestError message), l @ retry_log rq b (m - Suc n) n)" for l
    by (rule Suc.IH) (use Suc.prems in auto)
  have first: "m - Suc (Suc n) = m - Suc n - 1" "m - Suc n \<noteq> m" "m - Suc n < m" "Suc (m - Suc n - 1) = m - Suc n"
    using Suc.prems(1) by auto
  have hist: "retry_log rq b (m - Suc n - 1) (Suc n)
      = [Sent rq, Slept (retry_delay b (m - Suc n - 1))] @ retry_log rq b (m - Suc n) n"
    using retry_log_Suc [of rq b "m - Suc n - 1" n] first(4) by simp
  have step: "attempt_loop net rq m b (Suc (Suc n)) hist
      = bindS (sleep_before_retry (m - Suc n) b) (\<lambda>_. attempt_loop net rq m b (Suc n)) (hist @ [Sent rq])"
    using assms(1) [of hist] transient_not_redirect first
    by (subst attempt_loop.simps) (cases "net hist rq", auto simp: Let_def emit_def)
  obtain message where "attempt_loop net rq m b (Suc n) ((hist @ [Sent rq]) @ [Slept (retry_delay b (m - Suc n - 1))])
      = (Inl (OutscraperRequestError message),
         ((hist @ [Sent rq]) @ [Slept (retry_delay b (m - Suc n - 1))]) @ retry_log rq b (m - Suc n) n)"
    using again by blast
  then show ?case
    by (simp only: step bindS_def sleep prod.case sum.case first(1) hist append_assoc append_Cons append_Nil) blast
qed

text \<open>
  C14. When every attempt ends in a connection failure or a transient status, exactly
  \<open>max_attempts\<close> requests are sent, the delay doubles from one to the next, nothing is slept after
  the last one, and the call ends in the client's own request error.
\<close>

theorem exhausted_retries_back_off:
  assumes "\<And>l. transient_outcome (net l rq)"
    and "1 \<le> max_attempts" and "0 < rq_timeout rq" and "\<not> fless backoff (Fin 0)"
    and "\<forall>k < nat max_attempts - 1. delay_ok backoff k"
  shows "\<exists>message. request_json net rq max_attempts backoff hist
    = (Inl (OutscraperRequestError message), hist @ retry_log rq backoff 0 (nat max_attempts - 1))"
proof -
  obtain n where n: "nat max_attempts = Suc n" using assms(2) by (cases "nat max_attempts") auto
  have "\<exists>message. attempt_loop net rq (Suc n) backoff (Suc n) hist
      = (Inl (OutscraperRequestError message), hist @ retry_log rq backoff (Suc n - Suc n) n)"
    by (rule attempt_loop_exhausted [where net = net and rq = rq, OF assms(1)]) (use assms(5) n in auto)
  then show ?thesis using assms by (simp add: request_json_def n del: attempt_loop.simps)
qed

section \<open>Examples\<close>

definition ascii_client :: client_env where
  "ascii_client = \<lparr>ce_unicode = ascii_unicode, ce_ip_ok = (\<lambda>_. False), ce_container_str = (\<lambda>_. u ''[...]'')\<rparr>"

definition demo_rq :: http_request where
  "demo_rq = \<lparr>rq_url = u ''https://a.b/x'', rq_params = [], rq_api_key = u ''k'', rq_timeout = 30\<rparr>"

theorem permanent_answers_are_not_retried_witness:
  "request_json (\<lambda>_ _. Response 302 None) demo_rq 3 (Fin 1) [] =
    (Inl (OutscraperSecurityError (u ''Outscraper redirects are not allowed for API-key requests'')), [Sent demo_rq])"
  using permanent_answers_are_not_retried [of "\<lambda>_ _. Response 302 None" "[]" demo_rq 302 None 3 "Fin 1"]
  by (simp add: is_transient_def TRANSIENT_HTTP_STATUSES_def demo_rq_def fless_def)

theorem exhausted_retries_back_off_witness:
  "\<exists>message. request_json (\<lambda>_ _. Response 503 None) demo_rq 3 (Fin 1) []
    = (Inl (OutscraperRequestError message), retry_log demo_rq (Fin 1) 0 2)"
proof -
  have "delay_ok (Fin 1) 0" "delay_ok (Fin 1) 1"
    by (simp_all add: delay_ok_def retry_delay_def int_to_float_def rnd64_one rnd64_two fmul_def float_finite_def fless_def)
  then have "\<forall>k < nat 3 - 1. delay_ok (Fin 1) k" by (auto simp: less_Suc_eq numeral_eq_Suc)
  then show ?thesis
    using exhausted_retries_back_off [of "\<lambda>_ _. Response 503 None" demo_rq 3 "Fin 1" "[]"]
    by (simp add: is_transient_def TRANSIENT_HTTP_STATUSES_def demo_rq_def fless_def del: attempt_loop.simps)
qed

lemma demo_urls:
  "urlsplit ascii_unicode ip (u ''https://a.b:0/r'') = Some (u ''https'', u ''a.b:0'')"
  "urlsplit ascii_unicode ip (u ''https://a.b/x'') = Some (u ''https'', u ''a.b'')"
  by (simp_all add: urlsplit_def clean_url_def c0_space_def split_scheme_def ascii_alpha_def scheme_char_def netloc_of_def
      brackets_ok_def checknetloc_def ascii_def ascii_lower_def u_def)

lemma demo_hosts:
  "url_hostname ascii_unicode (u ''a.b:0'') = Some (u ''a.b'')" "url_hostname ascii_unicode (u ''a.b'') = Some (u ''a.b'')"
  "url_port_of (u ''a.b:0'') = Port 0" "url_port_of (u ''a.b'') = NoPort"
  "url_userinfo (u ''a.b:0'') = None" "url_userinfo (u ''a.b'') = None"
  "rstrip_char 0x2E (u ''a.b'') = u ''a.b''" "uc_casefold ascii_unicode (u ''a.b'') = u ''a.b''"
  "uc_casefold ascii_unicode (u ''https'') = u ''https''"
  by (simp_all add: url_hostname_def hostinfo_def rpartition_at_def partition_at_def url_port_of_def url_userinfo_def
      rstrip_char_def ascii_unicode_def ascii_casefold_def ascii_lower_def u_def is_digit_def digits_val.simps)

text \<open>
  The port 0 counts as the port 443: a result location with an explicit port 0 has the origin of
  an endpoint without a port, and is accepted.
\<close>

theorem port_zero_counts_as_443:
  "validate_results_location ascii_client (u ''https://a.b:0/r'') (u ''https://a.b/x'') = Inr (u ''https://a.b:0/r'')
   \<and> validated_https_origin ascii_client l (u ''https://a.b:0/r'') = Inr (u ''a.b'', 443)"
  by (simp add: validate_results_location_def validated_https_origin_def ascii_client_def demo_urls demo_hosts)

definition demo_fetch :: fetch_config where
  "demo_fetch = \<lparr>fc_api_key = u ''k'', fc_endpoint = u ''https://a.b/x'', fc_domain = [], fc_language = [],
     fc_postal_code = [], fc_limit = 5, fc_request_timeout = 30, fc_poll_interval = 30, fc_max_polls = 2,
     fc_max_attempts = 1, fc_backoff_seconds = Fin 1\<rparr>"

definition demo_answer :: pydict where
  "demo_answer = [(u ''status'', JStr (u ''Success'')), (u ''data'', JArr [])]"

lemma demo_fetch_result:
  "fst (fetch_amazon_products ascii_client (\<lambda>_ _. Response 200 (Some (JObj demo_answer))) demo_fetch q []) = Inr demo_answer"
proof -
  have status: "normalized_status ascii_client demo_answer = u ''success''"
    by (simp add: normalized_status_def demo_answer_def json_str_def ascii_client_def ascii_unicode_def ascii_casefold_def
        strip_def lstrip_def rstrip_def py_space_def ascii_lower_def u_def)
  then have state: "task_state ascii_client demo_answer = TaskSuccess"
    by (simp add: task_state_def PROCESSING_STATUSES_def FAILED_STATUSES_def SUCCESS_STATUSES_def)
  have origin: "validated_https_origin ascii_client l (u ''https://a.b/x'') = Inr (u ''a.b'', 443)" for l
    by (simp add: validated_https_origin_def ascii_client_def demo_urls demo_hosts)
  have "task_amazon_products_request ascii_client (\<lambda>_ _. Response 200 (Some (JObj demo_answer))) demo_fetch q []
      = (Inr demo_answer, [Sent \<lparr>rq_url = u ''https://a.b/x'',
           rq_params = build_amazon_products_params q [] [] [] 5 True, rq_api_key = u ''k'', rq_timeout = 30\<rparr>])"
    by (simp add: task_amazon_products_request_def demo_fetch_def origin request_json_def fless_def emit_def liftS_def
        is_transient_def TRANSIENT_HTTP_STATUSES_def read_body_def bindS_def)
  moreover have "map_of demo_answer (u ''results_location'') = None" "map_of demo_answer (u ''data'') = Some (JArr [])"
    by (simp_all add: demo_answer_def)
  moreover have "fc_max_polls demo_fetch = 2" "fc_poll_interval demo_fetch = 30" by (simp_all add: demo_fetch_def)
  ultimately show ?thesis
    by (simp add: fetch_amazon_products_def bindS_def liftS_def task_failure_def state truthy_def validated_completed_result_def)
qed

theorem finished_search_has_results_witness:
  "task_state ascii_client demo_answer = TaskSuccess \<and> (\<exists>xs. map_of demo_answer (u ''data'') = Some (JArr xs))"
proof -
  obtain hist where "fetch_amazon_products ascii_client (\<lambda>_ _. Response 200 (Some (JObj demo_answer))) demo_fetch [] []
      = (Inr demo_answer, hist)"
    using demo_fetch_result [of "[]"] by (metis prod.collapse)
  then show ?thesis by (rule finished_search_has_results)
qed

end
