(* ===== verification/App_Text.thy ===== *)
theory App_Text
  imports App_Base
begin

text \<open>
  \<open>src/services/text_processing.py\<close>: cleaning of term lists, the split of a text into words, and
  the test whether a term occurs in a text. The Sudachi analyser is a function from a text to its
  morphemes, the Unicode tables are those of the environment.
\<close>

record morpheme =
  mo_normalized_form :: pystr
  mo_surface :: pystr
  mo_part_of_speech :: pystr

record text_env =
  te_unicode :: unicode
  te_tokenize :: "pystr \<Rightarrow> morpheme list"

text \<open>The four parts of speech: noun, verb, adjective, adjectival noun.\<close>

definition CONTENT_PARTS_OF_SPEECH :: "pystr list" where
  "CONTENT_PARTS_OF_SPEECH =
     [[0x540D, 0x8A5E], [0x52D5, 0x8A5E], [0x5F62, 0x5BB9, 0x8A5E], [0x5F62, 0x72B6, 0x8A5E]]"

definition japanese_char :: "nat \<Rightarrow> bool" where
  "japanese_char c \<longleftrightarrow> 0x3040 \<le> c \<and> c \<le> 0x30FF \<or> 0x4E00 \<le> c \<and> c \<le> 0x9FFF"

definition english_char :: "nat \<Rightarrow> bool" where
  "english_char c \<longleftrightarrow> 0x61 \<le> c \<and> c \<le> 0x7A \<or> is_digit c"

text \<open>\<open>findall\<close> of the pattern \<open>[a-z0-9]+\<close>: the maximal runs, \<open>cur\<close> the reversed run so far.\<close>

fun english_runs :: "pystr \<Rightarrow> pystr \<Rightarrow> pystr list" where
  "english_runs cur [] = (if cur = [] then [] else [rev cur])"
| "english_runs cur (c # s) =
     (if english_char c then english_runs (c # cur) s
      else if cur = [] then english_runs [] s else rev cur # english_runs [] s)"

definition normalize_text :: "text_env \<Rightarrow> pystr \<Rightarrow> pystr" where
  "normalize_text E text = uc_casefold (te_unicode E) text"

definition normalized_morpheme_text :: "text_env \<Rightarrow> morpheme \<Rightarrow> pystr" where
  "normalized_morpheme_text E m =
     strip (normalize_text E (if mo_normalized_form m = u ''*'' then mo_surface m else mo_normalized_form m))"

definition is_content_japanese_token :: "pystr \<Rightarrow> morpheme \<Rightarrow> bool" where
  "is_content_japanese_token token m \<longleftrightarrow>
     token \<noteq> [] \<and> mo_part_of_speech m \<in> set CONTENT_PARTS_OF_SPEECH \<and> list_ex japanese_char token"

definition split_japanese_words :: "text_env \<Rightarrow> pystr \<Rightarrow> pystr list" where
  "split_japanese_words E text =
     map fst (filter (\<lambda>(token, m). is_content_japanese_token token m)
       (map (\<lambda>m. (normalized_morpheme_text E m, m)) (te_tokenize E text)))"

text \<open>The loop of \<open>clean_dupe_empty\<close>; \<open>seen\<close> holds the folded forms of the values kept so far.\<close>

fun clean_dupe_from :: "fold_fn \<Rightarrow> pystr set \<Rightarrow> pystr option list \<Rightarrow> pystr list" where
  "clean_dupe_from key seen [] = []"
| "clean_dupe_from key seen (v # vs) =
     (case v of
        None \<Rightarrow> clean_dupe_from key seen vs
      | Some s \<Rightarrow>
          (let n = strip s in
           if s = [] \<or> n = [] \<or> key n \<in> seen then clean_dupe_from key seen vs
           else n # clean_dupe_from key (insert (key n) seen) vs))"

definition clean_dupe_empty :: "text_env \<Rightarrow> pystr option list \<Rightarrow> pystr list" where
  "clean_dupe_empty E values = clean_dupe_from (uc_casefold (te_unicode E)) {} values"

definition split_words :: "text_env \<Rightarrow> bool \<Rightarrow> pystr \<Rightarrow> pystr list" where
  "split_words E dedupe text =
     (let normalized = normalize_text E text;
          tokens = english_runs [] normalized @ split_japanese_words E normalized in
      if dedupe then clean_dupe_empty E (map Some tokens) else filter (\<lambda>t. t \<noteq> []) tokens)"

definition term_matches_text :: "text_env \<Rightarrow> pystr \<Rightarrow> pystr \<Rightarrow> bool" where
  "term_matches_text E term text =
     (let normalized_term = strip (normalize_text E term); normalized_text = normalize_text E text in
      if normalized_term = [] then False
      else if contains normalized_term normalized_text then True
      else
        (let term_words = split_words E True normalized_term in
         if term_words = [] then False
         else list_all (\<lambda>w. w \<in> set (split_words E True normalized_text)) term_words))"

definition build_tfidf_text :: "text_env \<Rightarrow> bool \<Rightarrow> pystr option list \<Rightarrow> pystr" where
  "build_tfidf_text E dedupe values =
     (let cleaned =
        (if dedupe then clean_dupe_empty E values
         else concat (map (\<lambda>v. case v of None \<Rightarrow> [] | Some s \<Rightarrow> if strip s = [] then [] else [strip s]) values)) in
      join_str (u '' '') (split_words E dedupe (join_str (u '' '') cleaned)))"

section \<open>Cleaned lists\<close>

lemma clean_dupe_props:
  "x \<in> set (clean_dupe_from key seen vs) \<Longrightarrow>
     strip x = x \<and> x \<noteq> [] \<and> key x \<notin> seen \<and> (\<exists>s. Some s \<in> set vs \<and> strip s = x)"
proof (induction vs arbitrary: seen)
  case (Cons v vs)
  then show ?case by (fastforce simp: Let_def strip_idem split: option.splits if_splits)
qed simp

lemma clean_dupe_distinct: "distinct (map key (clean_dupe_from key seen vs))"
proof (induction vs arbitrary: seen)
  case (Cons v vs)
  then show ?case using clean_dupe_props [of _ key] by (auto simp: Let_def split: option.splits) blast
qed simp

lemma clean_dupe_keys:
  "key ` set (clean_dupe_from key seen vs) \<union> seen
    = {key (strip s) | s. Some s \<in> set vs \<and> strip s \<noteq> []} \<union> seen"
proof (induction vs arbitrary: seen)
  case (Cons v vs)
  show ?case
  proof (cases v)
    case None
    then show ?thesis using Cons.IH by auto
  next
    case (Some s)
    have "strip [] = []" by (simp add: strip_Nil_iff)
    then show ?thesis using Some Cons.IH [of seen] Cons.IH [of "insert (key (strip s)) seen"]
      by (auto simp: Let_def)
  qed
qed simp

lemma clean_dupe_id:
  "distinct (map key xs) \<Longrightarrow> key ` set xs \<inter> seen = {} \<Longrightarrow> \<forall>x \<in> set xs. strip x = x \<and> x \<noteq> [] \<Longrightarrow>
     clean_dupe_from key seen (map Some xs) = xs"
  by (induction xs arbitrary: seen) (auto simp: Let_def)

text \<open>
  Cleaning a list of terms keeps stripped, non-empty terms only, no two with the same folded
  form, one for every folded form of a non-blank term of the list; it keeps a clean list as it is.
\<close>

theorem clean_dupe_empty_cleans:
  "list_all (\<lambda>x. strip x = x \<and> x \<noteq> [] \<and> Some x \<in> map_option strip ` set values) (clean_dupe_empty E values)
   \<and> distinct (map (uc_casefold (te_unicode E)) (clean_dupe_empty E values))
   \<and> uc_casefold (te_unicode E) ` set (clean_dupe_empty E values)
       = {uc_casefold (te_unicode E) (strip s) | s. Some s \<in> set values \<and> strip s \<noteq> []}
   \<and> clean_dupe_empty E (map Some (clean_dupe_empty E values)) = clean_dupe_empty E values"
  (is "?kept \<and> ?distinct \<and> ?keys \<and> ?stable")
proof (intro conjI)
  have "strip x = x \<and> x \<noteq> [] \<and> Some x \<in> map_option strip ` set values" if "x \<in> set (clean_dupe_empty E values)" for x
  proof -
    from clean_dupe_props [OF that [unfolded clean_dupe_empty_def]] obtain s
      where "strip x = x" "x \<noteq> []" "Some s \<in> set values" "strip s = x" by blast
    then show ?thesis by (auto intro: image_eqI [of _ _ "Some s"])
  qed
  then show ?kept by (simp add: list_all_iff)
  show ?distinct by (simp add: clean_dupe_empty_def clean_dupe_distinct)
  show ?keys using clean_dupe_keys [of "uc_casefold (te_unicode E)" "{}" "values"] by (simp add: clean_dupe_empty_def)
  show ?stable
    unfolding clean_dupe_empty_def
    by (rule clean_dupe_id) (use clean_dupe_distinct clean_dupe_props in auto)
qed

end
