(* ===== verification/App_Scoring.thy ===== *)
theory App_Scoring
  imports App_Text
begin

text \<open>
  \<open>src/services/product_scoring.py\<close>: the terms a product is judged by, the match, price and
  similarity scores, and the ranking. The similarities of \<open>TfidfVectorizer\<close> and
  \<open>cosine_similarity\<close> are an argument (\<open>None\<close> is the \<open>ValueError\<close> of the fit), as is \<open>math.log10\<close>.
  The language argument is \<open>en\<close>, \<open>ja\<close> or anything else.
\<close>

datatype lang = En | Ja | AnyLang

record score_env =
  se_text :: text_env
  se_similarity :: "pystr \<Rightarrow> pystr list \<Rightarrow> pyfloat list option"
  se_log10 :: "pyfloat \<Rightarrow> pyfloat"

section \<open>Terms\<close>

definition build_title_query_terms :: "text_env \<Rightarrow> product_attributes \<Rightarrow> lang \<Rightarrow> pystr list" where
  "build_title_query_terms E a language =
     clean_dupe_empty E (case language of
       En \<Rightarrow> [pa_estimated_product_name_en a, pa_category_en a]
     | Ja \<Rightarrow> [Some (pa_estimated_product_name_ja a), pa_category_ja a]
     | AnyLang \<Rightarrow> [pa_estimated_product_name_en a, Some (pa_estimated_product_name_ja a), pa_category_en a, pa_category_ja a])"

definition build_attribute_terms :: "text_env \<Rightarrow> product_attributes \<Rightarrow> lang \<Rightarrow> pystr list" where
  "build_attribute_terms E a language =
     clean_dupe_empty E (case language of
       En \<Rightarrow> [pa_color_en a, pa_category_en a] @ map Some (pa_features_en a)
     | Ja \<Rightarrow> [pa_color_ja a, pa_category_ja a] @ map Some (pa_features_ja a)
     | AnyLang \<Rightarrow> [pa_color_en a, pa_color_ja a, pa_category_en a, pa_category_ja a]
         @ map Some (pa_features_en a) @ map Some (pa_features_ja a))"

text \<open>\<open>[term] * weight\<close> is empty for a weight that is not positive.\<close>

definition repeat_terms :: "text_env \<Rightarrow> pystr list \<Rightarrow> int \<Rightarrow> pystr list" where
  "repeat_terms E terms weight = concat (map (\<lambda>t. replicate (nat weight) t) (clean_dupe_empty E (map Some terms)))"

definition build_weighted_ranking_terms :: "text_env \<Rightarrow> settings \<Rightarrow> product_attributes \<Rightarrow> lang \<Rightarrow> pystr list" where
  "build_weighted_ranking_terms E s a language =
     (let (required, preferred, related) =
        (case language of
           En \<Rightarrow> (pa_required_terms_en a, pa_preferred_terms_en a, pa_related_terms_en a)
         | Ja \<Rightarrow> (pa_required_terms_ja a, pa_preferred_terms_ja a, pa_related_terms_ja a)
         | AnyLang \<Rightarrow> (pa_required_terms_en a @ pa_required_terms_ja a, pa_preferred_terms_en a @ pa_preferred_terms_ja a,
             pa_related_terms_en a @ pa_related_terms_ja a))
      in repeat_terms E required (st_required_term_weight s) @ repeat_terms E preferred (st_preferred_term_weight s)
         @ repeat_terms E related (st_related_term_weight s))"

definition build_negative_terms :: "text_env \<Rightarrow> product_attributes \<Rightarrow> pystr list" where
  "build_negative_terms E a =
     clean_dupe_empty E (map Some (pa_negative_conditions_en a) @ map Some (pa_negative_conditions_ja a))"

definition weighted_groups :: "settings \<Rightarrow> product_attributes \<Rightarrow> lang \<Rightarrow> (pystr option list \<times> int) list" where
  "weighted_groups s a language =
     (case language of
        En \<Rightarrow> [(map Some (pa_required_terms_en a), st_required_term_weight s), ([pa_color_en a], st_color_term_weight s),
           (map Some (pa_features_en a), st_feature_term_weight s),
           (map Some (pa_preferred_terms_en a), st_preferred_term_weight s),
           (map Some (pa_related_terms_en a), st_related_term_weight s)]
      | Ja \<Rightarrow> [(map Some (pa_required_terms_ja a), st_required_term_weight s), ([pa_color_ja a], st_color_term_weight s),
           (map Some (pa_features_ja a), st_feature_term_weight s),
           (map Some (pa_preferred_terms_ja a), st_preferred_term_weight s),
           (map Some (pa_related_terms_ja a), st_related_term_weight s)]
      | AnyLang \<Rightarrow> [(map Some (pa_required_terms_en a @ pa_required_terms_ja a), st_required_term_weight s),
           ([pa_color_en a, pa_color_ja a], st_color_term_weight s),
           (map Some (pa_features_en a @ pa_features_ja a), st_feature_term_weight s),
           (map Some (pa_preferred_terms_en a @ pa_preferred_terms_ja a), st_preferred_term_weight s),
           (map Some (pa_related_terms_en a @ pa_related_terms_ja a), st_related_term_weight s)])"

text \<open>The first occurrence of a folded term keeps its weight.\<close>

fun first_weights :: "fold_fn \<Rightarrow> pystr set \<Rightarrow> (pystr \<times> int) list \<Rightarrow> (pystr \<times> int) list" where
  "first_weights key seen [] = []"
| "first_weights key seen ((t, w) # ts) =
     (if key t \<in> seen then first_weights key seen ts
      else (t, w) # first_weights key (insert (key t) seen) ts)"

definition weighted_condition_terms :: "text_env \<Rightarrow> settings \<Rightarrow> product_attributes \<Rightarrow> lang \<Rightarrow> (pystr \<times> int) list" where
  "weighted_condition_terms E s a language =
     first_weights (uc_casefold (te_unicode E)) {}
       (concat (map (\<lambda>(terms, w). map (\<lambda>t. (t, w)) (clean_dupe_empty E terms)) (weighted_groups s a language)))"

section \<open>Condition matches\<close>

text \<open>The loop: matched weight, matched terms, missing terms, and the folded forms seen of either.\<close>

fun match_loop :: "text_env \<Rightarrow> pystr \<Rightarrow> pystr set \<Rightarrow> pystr set \<Rightarrow> (pystr \<times> int) list \<Rightarrow> int \<times> pystr list \<times> pystr list" where
  "match_loop E text seen_matched seen_missing [] = (0, [], [])"
| "match_loop E text seen_matched seen_missing ((t, w) # ts) =
     (let n = uc_casefold (te_unicode E) t in
      if term_matches_text E t text then
        (let (weight, matched, missing) = match_loop E text (insert n seen_matched) seen_missing ts in
         (w + weight, (if n \<in> seen_matched then [] else [t]) @ matched, missing))
      else
        (let (weight, matched, missing) = match_loop E text seen_matched (insert n seen_missing) ts in
         (weight, matched, (if n \<in> seen_missing then [] else [t]) @ missing)))"

definition calculate_weighted_condition_match_score ::
    "text_env \<Rightarrow> settings \<Rightarrow> product_attributes \<Rightarrow> pystr \<Rightarrow> lang \<Rightarrow> app_error + pyfloat \<times> pystr list \<times> pystr list" where
  "calculate_weighted_condition_match_score E s a product_text language =
     (let terms = weighted_condition_terms E s a language in
      if terms = [] then Inr (Fin 0, [], [])
      else
        (let total_weight = sum_list (map snd terms);
             (matched_weight, matched, missing) = match_loop E product_text {} {} terms in
         if total_weight = 0 then Inl PyZeroDivisionError
         else (case int_div matched_weight total_weight of
                 None \<Rightarrow> Inl PyOverflowError | Some x \<Rightarrow> Inr (x, matched, missing))))"

section \<open>Texts and similarities\<close>

definition product_text_parts :: "amazon_product \<Rightarrow> pystr list" where
  "product_text_parts p =
     [ap_title p, (case ap_brand_or_store p of None \<Rightarrow> [] | Some b \<Rightarrow> b), join_str (u '' '') (ap_categories p),
      (case ap_description p of None \<Rightarrow> [] | Some d \<Rightarrow> d)]"

definition combined_product_text :: "amazon_product \<Rightarrow> pystr" where
  "combined_product_text p = join_str (u '' '') (filter (\<lambda>v. v \<noteq> []) (product_text_parts p))"

definition build_title_query_text :: "text_env \<Rightarrow> settings \<Rightarrow> product_attributes \<Rightarrow> lang \<Rightarrow> pystr" where
  "build_title_query_text E s a language =
     build_tfidf_text E False
       (map Some (build_title_query_terms E a language @ build_weighted_ranking_terms E s a language))"

definition build_attribute_query_text :: "text_env \<Rightarrow> settings \<Rightarrow> product_attributes \<Rightarrow> lang \<Rightarrow> pystr" where
  "build_attribute_query_text E s a language =
     build_tfidf_text E False
       (map Some (build_attribute_terms E a language @ build_weighted_ranking_terms E s a language))"

definition build_product_tfidf_text :: "text_env \<Rightarrow> amazon_product \<Rightarrow> pystr" where
  "build_product_tfidf_text E p = build_tfidf_text E True [Some (combined_product_text p)]"

definition build_product_title_tfidf_text :: "text_env \<Rightarrow> amazon_product \<Rightarrow> pystr" where
  "build_product_title_tfidf_text E p = build_tfidf_text E True [Some (ap_title p)]"

definition calculate_tfidf_similarities :: "score_env \<Rightarrow> pystr \<Rightarrow> pystr list \<Rightarrow> pyfloat list" where
  "calculate_tfidf_similarities SE query_text documents =
     (let zeros = map (\<lambda>_. Fin 0) documents in
      if query_text = [] \<or> documents = [] then zeros
      else if \<not> list_ex (\<lambda>d. strip d \<noteq> []) (query_text # documents) then zeros
      else (case se_similarity SE query_text documents of None \<Rightarrow> zeros | Some scores \<Rightarrow> scores))"

definition calculate_term_match_score ::
    "text_env \<Rightarrow> pystr list \<Rightarrow> pystr \<Rightarrow> app_error + pyfloat \<times> pystr list \<times> pystr list" where
  "calculate_term_match_score E terms text =
     (if terms = [] then Inr (Fin 0, [], [])
      else
        (let matched = filter (\<lambda>t. term_matches_text E t text) terms in
         case int_div (int (length matched)) (int (length terms)) of
           None \<Rightarrow> Inl PyOverflowError
         | Some x \<Rightarrow> Inr (x, matched, filter (\<lambda>t. t \<notin> set matched) terms)))"

text \<open>Indexing the first element of an empty list raises \<open>IndexError\<close>.\<close>

definition head_of :: "'a list \<Rightarrow> app_error + 'a" where
  "head_of xs = (case xs of [] \<Rightarrow> Inl (LibraryError (u ''IndexError'')) | x # _ \<Rightarrow> Inr x)"

definition calculate_title_similarity ::
    "score_env \<Rightarrow> settings \<Rightarrow> product_attributes \<Rightarrow> amazon_product \<Rightarrow> lang \<Rightarrow> app_error + pyfloat" where
  "calculate_title_similarity SE s a p language =
     head_of (calculate_tfidf_similarities SE (build_title_query_text (se_text SE) s a language)
       [build_product_title_tfidf_text (se_text SE) p])"

definition calculate_attribute_similarity ::
    "score_env \<Rightarrow> settings \<Rightarrow> product_attributes \<Rightarrow> amazon_product \<Rightarrow> lang \<Rightarrow> app_error + pyfloat \<times> pystr list \<times> pystr list" where
  "calculate_attribute_similarity SE s a p language =
     bindE (calculate_weighted_condition_match_score (se_text SE) s a (combined_product_text p) language)
       (\<lambda>(condition_score, matched, missing).
     bindE (head_of (calculate_tfidf_similarities SE (build_attribute_query_text (se_text SE) s a language)
         [build_product_tfidf_text (se_text SE) p])) (\<lambda>score.
     Inr (fmax score condition_score, matched, missing)))"

definition select_attribute_language :: "text_env \<Rightarrow> settings \<Rightarrow> product_attributes \<Rightarrow> pyfloat \<Rightarrow> pyfloat \<Rightarrow> lang" where
  "select_attribute_language E s a english_score japanese_score =
     (if fless japanese_score english_score then En
      else if fless english_score japanese_score then Ja
      else if weighted_condition_terms E s a Ja \<noteq> [] \<and> weighted_condition_terms E s a En = [] then Ja
      else En)"

section \<open>Prices\<close>

definition positive_price :: "int option \<Rightarrow> int option" where
  "positive_price v = (case v of None \<Rightarrow> None | Some i \<Rightarrow> if i \<le> 0 then None else Some i)"

definition int_ratio :: "int \<Rightarrow> int \<Rightarrow> app_error + pyfloat" where
  "int_ratio a b = (if b = 0 then Inl PyZeroDivisionError else case int_div a b of None \<Rightarrow> Inl PyOverflowError | Some x \<Rightarrow> Inr x)"

definition FLOAT_HALF :: pyfloat where
  "FLOAT_HALF = Fin (1 / 2)"

definition preference_price_score :: "score_env \<Rightarrow> product_attributes \<Rightarrow> int \<Rightarrow> app_error + pyfloat" where
  "preference_price_score SE a price =
     (let preference = uc_casefold (te_unicode (se_text SE))
            (case pa_price_preference a of None \<Rightarrow> u ''none'' | Some s \<Rightarrow> if s = [] then u ''none'' else s) in
      if preference = u ''cheap'' then
        (case positive_price (pa_expected_price_max_jpy a) of
           Some reference \<Rightarrow> bindE (int_ratio reference price) (\<lambda>x. Inr (fmin (Fin 1) x))
         | None \<Rightarrow> Inr FLOAT_HALF)
      else if preference = u ''premium'' then
        (case positive_price (pa_expected_price_min_jpy a) of
           Some reference \<Rightarrow> bindE (int_ratio price reference) (\<lambda>x.
             Inr (fmin (Fin 1) (fadd FLOAT_HALF (fmul FLOAT_HALF (se_log10 SE (fadd (fmax (Fin 0) x) (Fin 1)))))))
         | None \<Rightarrow> Inr FLOAT_HALF)
      else Inr FLOAT_HALF)"

definition calculate_price_score :: "score_env \<Rightarrow> product_attributes \<Rightarrow> amazon_product \<Rightarrow> app_error + pyfloat" where
  "calculate_price_score SE a p =
     (case positive_price (ap_price_jpy p) of
        None \<Rightarrow> Inr (Fin 0)
      | Some price \<Rightarrow>
          (case (positive_price (pa_target_price_jpy a), positive_price (pa_min_price_jpy a), positive_price (pa_max_price_jpy a)) of
             (Some target, _, _) \<Rightarrow> int_ratio (min price target) (max price target)
           | (None, Some lo0, Some hi0) \<Rightarrow>
               (let lo = min lo0 hi0; hi = max lo0 hi0 in
                if lo \<le> price \<and> price \<le> hi then Inr (Fin 1)
                else if price < lo then int_ratio price lo
                else int_ratio hi price)
           | (None, Some lo, None) \<Rightarrow> bindE (int_ratio price lo) (\<lambda>x. Inr (fmin (Fin 1) x))
           | (None, None, Some hi) \<Rightarrow> bindE (int_ratio hi price) (\<lambda>x. Inr (fmin (Fin 1) x))
           | (None, None, None) \<Rightarrow> preference_price_score SE a price))"

section \<open>Scores\<close>

definition calculate_negative_penalty ::
    "text_env \<Rightarrow> product_attributes \<Rightarrow> amazon_product \<Rightarrow> app_error + pyfloat \<times> pystr list" where
  "calculate_negative_penalty E a p =
     (let hits = filter (\<lambda>t. term_matches_text E t (combined_product_text p)) (build_negative_terms E a) in
      if hits = [] then Inr (Fin 0, [])
      else (case int_to_float (int (length hits)) of
              None \<Rightarrow> Inl PyOverflowError
            | Some n \<Rightarrow> Inr (fmin FLOAT_HALF (fmul (dec ''0'' ''2'') n), hits)))"

text \<open>
  \<open>score_product\<close> with its optional arguments; the weights are those of the settings, as its
  default arguments take them.
\<close>

definition given_title_similarity ::
    "score_env \<Rightarrow> settings \<Rightarrow> product_attributes \<Rightarrow> amazon_product \<Rightarrow> pyfloat option \<Rightarrow> app_error + pyfloat" where
  "given_title_similarity SE s a p title_similarity =
     (case title_similarity of
        Some x \<Rightarrow> Inr x
      | None \<Rightarrow> bindE (calculate_title_similarity SE s a p En) (\<lambda>en.
          bindE (calculate_title_similarity SE s a p Ja) (\<lambda>ja. Inr (fmax en ja))))"

definition given_attribute_similarity ::
    "score_env \<Rightarrow> settings \<Rightarrow> product_attributes \<Rightarrow> amazon_product \<Rightarrow> pyfloat option \<Rightarrow> lang
       \<Rightarrow> app_error + pyfloat \<times> pystr list \<times> pystr list" where
  "given_attribute_similarity SE s a p attribute_similarity attribute_language =
     (case attribute_similarity of
        None \<Rightarrow> bindE (calculate_attribute_similarity SE s a p En) (\<lambda>en.
          bindE (calculate_attribute_similarity SE s a p Ja) (\<lambda>ja.
          Inr (if select_attribute_language (se_text SE) s a (fst en) (fst ja) = En then en else ja)))
      | Some x \<Rightarrow>
          bindE (calculate_weighted_condition_match_score (se_text SE) s a (combined_product_text p) attribute_language)
            (\<lambda>(_, matched, missing). Inr (x, matched, missing)))"

definition total_score_of :: "settings \<Rightarrow> pyfloat \<Rightarrow> pyfloat \<Rightarrow> pyfloat \<Rightarrow> pyfloat \<Rightarrow> pyfloat" where
  "total_score_of s title attribute price penalty =
     fsub (fadd (fadd (fmul title (st_title_score_weight s)) (fmul attribute (st_attribute_score_weight s)))
       (fmul price (st_price_score_weight s))) penalty"

definition score_product ::
    "score_env \<Rightarrow> settings \<Rightarrow> product_attributes \<Rightarrow> amazon_product \<Rightarrow> pyfloat option \<Rightarrow> pyfloat option \<Rightarrow> lang
       \<Rightarrow> app_error + product_score" where
  "score_product SE s a p title_similarity attribute_similarity attribute_language =
     bindE (given_title_similarity SE s a p title_similarity) (\<lambda>title.
     bindE (given_attribute_similarity SE s a p attribute_similarity attribute_language) (\<lambda>(attribute, matched, missing).
     bindE (calculate_price_score SE a p) (\<lambda>price.
     bindE (calculate_negative_penalty (se_text SE) a p) (\<lambda>(penalty, hits).
     Inr \<lparr>ps_asin = ap_asin p, ps_title = ap_title p, ps_price_jpy = ap_price_jpy p, ps_rating = ap_rating p,
       ps_review_count = ap_review_count p, ps_image_url = ap_image_url p, ps_product_url = ap_product_url p,
       ps_title_similarity = fround 4 title, ps_attribute_similarity = fround 4 attribute,
       ps_price_score = fround 4 price, ps_negative_penalty = fround 4 penalty,
       ps_total_score = fround 4 (fmax (Fin 0) (fmin (Fin 1) (total_score_of s title attribute price penalty))),
       ps_matched_terms = matched, ps_missing_terms = missing, ps_negative_matches = hits\<rparr>))))"

text \<open>The body of the loop of \<open>score_products\<close>, for a product and its four similarities.\<close>

definition score_candidate ::
    "score_env \<Rightarrow> settings \<Rightarrow> product_attributes \<Rightarrow> amazon_product \<times> pyfloat \<times> pyfloat \<times> pyfloat \<times> pyfloat
       \<Rightarrow> app_error + product_score" where
  "score_candidate SE s a = (\<lambda>(p, title_en, title_ja, attribute_en0, attribute_ja0).
     bindE (calculate_weighted_condition_match_score (se_text SE) s a (combined_product_text p) En) (\<lambda>(condition_en, _).
     bindE (calculate_weighted_condition_match_score (se_text SE) s a (combined_product_text p) Ja) (\<lambda>(condition_ja, _).
     let attribute_en = fmax attribute_en0 condition_en; attribute_ja = fmax attribute_ja0 condition_ja in
     score_product SE s a p (Some (fmax title_en title_ja)) (Some (fmax attribute_en attribute_ja))
       (select_attribute_language (se_text SE) s a attribute_en attribute_ja))))"

text \<open>
  \<open>zip(..., strict=True)\<close> raises \<open>ValueError\<close> at the end of the shortest list, after the bodies of
  the complete tuples have run.
\<close>

fun zip_strict :: "('a \<times> 'b \<times> 'c \<times> 'd \<times> 'e \<Rightarrow> app_error + 'f) \<Rightarrow> 'a list \<Rightarrow> 'b list \<Rightarrow> 'c list \<Rightarrow> 'd list \<Rightarrow> 'e list
    \<Rightarrow> app_error + 'f list" where
  "zip_strict f [] [] [] [] [] = Inr []"
| "zip_strict f (a # as) (b # bs) (c # cs) (d # ds) (e # es) =
     bindE (f (a, b, c, d, e)) (\<lambda>y. bindE (zip_strict f as bs cs ds es) (\<lambda>ys. Inr (y # ys)))"
| "zip_strict f _ _ _ _ _ = Inl (PyValueError (u ''zip() arguments differ in length''))"

text \<open>The key of the sort; a total score is never an infinity or NaN.\<close>

definition rank_key :: "product_score \<Rightarrow> rat" where
  "rank_key r = (case float_rat (ps_total_score r) of Some q \<Rightarrow> q | None \<Rightarrow> 0)"

definition score_products ::
    "score_env \<Rightarrow> settings \<Rightarrow> product_attributes \<Rightarrow> amazon_product list \<Rightarrow> app_error + product_score list" where
  "score_products SE s a products =
     (let E = se_text SE;
          title_texts = map (build_product_title_tfidf_text E) products;
          attribute_texts = map (build_product_tfidf_text E) products;
          title_en = calculate_tfidf_similarities SE (build_title_query_text E s a En) title_texts;
          title_ja = calculate_tfidf_similarities SE (build_title_query_text E s a Ja) title_texts;
          attribute_en = calculate_tfidf_similarities SE (build_attribute_query_text E s a En) attribute_texts;
          attribute_ja = calculate_tfidf_similarities SE (build_attribute_query_text E s a Ja) attribute_texts in
      bindE (zip_strict (score_candidate SE s a) products title_en title_ja attribute_en attribute_ja) (\<lambda>scored.
      Inr (sort_key (\<lambda>r. - rank_key r) scored)))"

end
