(* ===== verification/Py_Round.thy ===== *)
theory Py_Round
  imports Py_Arith
begin

text \<open>
  Rounding to a \<open>float\<close> against powers of two: a value on one side of a power of two stays on that
  side, values of at most 53 bits are exact, and overflow starts at \<open>2 ^ 1024\<close>.
\<close>

lemma rnd64_not_NaN [simp]: "rnd64 q \<noteq> NaN"
  by (simp add: rnd64_def Let_def)

lemma pow2_divide:
  assumes "p \<le> e"
  shows "pow2 e / pow2 p = 2 ^ nat (e - p)"
proof -
  consider "0 \<le> p" | "p < 0" "0 \<le> e" | "e < 0" using assms by linarith
  then show ?thesis
  proof cases
    case 1
    then have "nat e = nat (e - p) + nat p" using assms by simp
    with 1 assms show ?thesis by (simp add: pow2_def power_add)
  next
    case 2
    then have "nat (e - p) = nat e + nat (- p)" by simp
    with 2 show ?thesis by (simp add: pow2_def power_add)
  next
    case 3
    then have "nat (- p) = nat (e - p) + nat (- e)" using assms by simp
    with 3 assms show ?thesis by (simp add: pow2_def power_add)
  qed
qed

lemma pow2_le_iff: "pow2 a \<le> pow2 b \<Longrightarrow> a \<le> b"
proof (rule ccontr)
  assume le: "pow2 a \<le> pow2 b" and "\<not> a \<le> b"
  then have "pow2 a / pow2 b = 2 ^ nat (a - b)" "(1 :: rat) < 2 ^ nat (a - b)"
    by (simp add: pow2_divide) (rule one_less_power, use \<open>\<not> a \<le> b\<close> in auto)
  moreover have "pow2 a / pow2 b \<le> 1" using le by (simp add: pos_divide_le_eq)
  ultimately show False by linarith
qed

text \<open>A value below a power of two stays below it when it is rounded.\<close>

lemma rounded_below:
  assumes "0 < q" "q \<le> pow2 e" "- 1074 \<le> e"
  shows "of_int (half_even (q / pow2 (ulp_exp q))) * pow2 (ulp_exp q) \<le> pow2 e"
proof -
  define p where "p = ulp_exp q"
  have "exp2_of q \<le> e" using exp2_of_le [OF assms(1)] assms(2) by (intro pow2_le_iff) linarith
  then have "p \<le> e" using assms(3) by (simp add: p_def ulp_exp_def)
  then have whole: "pow2 e / pow2 p = of_int (2 ^ nat (e - p))" by (simp add: pow2_divide)
  have "q / pow2 p \<le> pow2 e / pow2 p" using assms(2) by (simp add: divide_right_mono less_imp_le)
  then have "half_even (q / pow2 p) \<le> half_even (of_int (2 ^ nat (e - p)))" unfolding whole by (rule half_even_mono)
  then have "half_even (q / pow2 p) \<le> 2 ^ nat (e - p)" by (simp only: half_even_of_int)
  then have "(of_int (half_even (q / pow2 p)) :: rat) \<le> of_int (2 ^ nat (e - p))" by (simp only: of_int_le_iff)
  then have "of_int (half_even (q / pow2 p)) \<le> pow2 e / pow2 p" by (simp only: whole)
  then show ?thesis by (simp add: pos_le_divide_eq p_def)
qed

text \<open>A value above a power of two that is not a fraction stays above it when it is rounded.\<close>

lemma rounded_above:
  assumes "pow2 e \<le> q" "0 \<le> e"
  shows "pow2 e \<le> of_int (half_even (q / pow2 (ulp_exp q))) * pow2 (ulp_exp q)"
proof -
  have q: "0 < q" using assms(1) pow2_pos by (rule less_le_trans [rotated])
  define p where "p = ulp_exp q"
  have "pow2 e \<le> of_int (half_even (q / pow2 p)) * pow2 p"
  proof (cases "p \<le> e")
    case True
    have whole: "pow2 e / pow2 p = of_int (2 ^ nat (e - p))" using pow2_divide [OF True] by simp
    have "pow2 e / pow2 p \<le> q / pow2 p" using assms by (simp add: divide_right_mono less_imp_le)
    then have "half_even (of_int (2 ^ nat (e - p))) \<le> half_even (q / pow2 p)" unfolding whole by (rule half_even_mono)
    then have "2 ^ nat (e - p) \<le> half_even (q / pow2 p)" by (simp only: half_even_of_int)
    then have "(of_int (2 ^ nat (e - p)) :: rat) \<le> of_int (half_even (q / pow2 p))" by (simp only: of_int_le_iff)
    then have "pow2 e / pow2 p \<le> of_int (half_even (q / pow2 p))" by (simp only: whole)
    then show ?thesis by (simp add: pos_divide_le_eq)
  next
    case False
    then have "pow2 p \<le> pow2 (exp2_of q)" using assms(2) by (intro pow2_mono) (simp add: p_def ulp_exp_def)
    then have "pow2 p \<le> q" using exp2_of_le [OF q] by linarith
    then have "of_int 1 \<le> q / pow2 p" by (simp add: pos_le_divide_eq)
    then have "half_even (of_int 1) \<le> half_even (q / pow2 p)" by (rule half_even_mono)
    then have "1 \<le> half_even (q / pow2 p)" by (simp only: half_even_of_int)
    then have "pow2 p \<le> of_int (half_even (q / pow2 p)) * pow2 p" by simp
    moreover have "pow2 e \<le> pow2 p" using False by (intro pow2_mono) simp
    ultimately show ?thesis by linarith
  qed
  then show ?thesis by (simp only: p_def)
qed

lemma rnd64_overflow:
  assumes "2 ^ 1024 \<le> q"
  shows "rnd64 q = PInf"
proof -
  have q: "0 < q" using assms by (rule less_le_trans [rotated]) simp
  then show ?thesis using rounded_above [of 1024 q] assms by (simp add: rnd64_def Let_def pow2_def)
qed

lemma rnd64_small: "0 \<le> q \<Longrightarrow> q \<le> 2 ^ 1023 \<Longrightarrow> rnd64 q \<noteq> PInf"
proof
  assume q: "0 \<le> q" "q \<le> 2 ^ 1023" and inf: "rnd64 q = PInf"
  then have pos: "0 < q" by (cases "q = 0") (simp_all add: rnd64_def)
  have "of_int (half_even (q / pow2 (ulp_exp q))) * pow2 (ulp_exp q) \<le> 2 ^ 1023"
    using rounded_below [OF pos, of 1023] q(2) by (simp add: pow2_def)
  moreover have "(2 :: rat) ^ 1024 \<le> of_int (half_even (q / pow2 (ulp_exp q))) * pow2 (ulp_exp q)"
    using inf pos by (auto simp: rnd64_def Let_def split: if_splits)
  ultimately have "(2 :: rat) ^ 1024 \<le> 2 ^ 1023" by linarith
  then show False by simp
qed

text \<open>Integers below \<open>2 ^ 53\<close> are exact.\<close>

lemma rnd64_exact:
  assumes "0 < n" "n < 2 ^ 53"
  shows "rnd64 (of_int n) = Fin (of_int n)"
proof -
  define p where "p = ulp_exp (of_int n)"
  have small: "(of_int n :: rat) < 2 ^ 53" using assms(2) by (metis of_int_less_iff of_int_numeral of_int_power)
  have "pow2 (exp2_of (of_int n)) \<le> of_int n" using assms(1) by (intro exp2_of_le) simp
  then have "\<not> pow2 53 \<le> pow2 (exp2_of (of_int n))" using small by (simp add: pow2_def)
  then have "exp2_of (of_int n) \<le> 52" using pow2_mono [of 53 "exp2_of (of_int n)"] by linarith
  then have "p \<le> 0" by (simp add: p_def ulp_exp_def)
  then have "1 / pow2 p = of_int (2 ^ nat (- p))" using pow2_divide [of p 0] by simp
  then have "of_int n / pow2 p = of_int (n * 2 ^ nat (- p))" by (metis of_int_mult times_divide_eq_right mult.right_neutral)
  then have exact: "half_even (of_int n / pow2 p) = n * 2 ^ nat (- p)" "of_int (half_even (of_int n / pow2 p)) * pow2 p = (of_int n :: rat)"
    by (metis half_even_of_int, metis half_even_of_int pow2_pos less_irrefl nonzero_eq_divide_eq)
  have "\<not> (2 :: rat) ^ 1024 \<le> of_int n"
  proof
    assume "(2 :: rat) ^ 1024 \<le> of_int n"
    with small have "(2 :: rat) ^ 1024 < 2 ^ 53" by linarith
    then show False by simp
  qed
  moreover define m where "m = half_even (of_int n / pow2 p)"
  ultimately have "of_int m * pow2 p = (of_int n :: rat)" "m \<noteq> 0" "\<not> (2 :: rat) ^ 1024 \<le> of_int m * pow2 p"
    using exact assms(1) by (simp_all only: m_def) simp_all
  then show ?thesis
    using assms(1) by (simp add: rnd64_def Let_def m_def [symmetric] p_def [symmetric])
qed

end
