(* ===== verification/App_Scoring_Facts.thy ===== *)
theory App_Scoring_Facts
  imports App_Scoring Py_Round "HOL-Library.Multiset"
begin

text \<open>What the scoring of \<open>product_scoring.py\<close> guarantees: the condition score, the price score, the
  bounds of a total score, and the ranking.\<close>

section \<open>Condition terms\<close>

lemma first_weights_props:
  "distinct (map key (map fst (first_weights key seen ts)))
   \<and> key ` fst ` set (first_weights key seen ts) \<inter> seen = {} \<and> set (first_weights key seen ts) \<subseteq> set ts"
proof (induction key seen ts rule: first_weights.induct)
  case (2 key seen t w ts)
  then show ?case by (cases "key t \<in> seen") auto
qed simp

lemma condition_keys_distinct:
  "distinct (map (uc_casefold (te_unicode E)) (map fst (weighted_condition_terms E s a language)))"
  unfolding weighted_condition_terms_def using first_weights_props by blast

lemma condition_weight_of_group:
  assumes "(t, w) \<in> set (weighted_condition_terms E s a language)"
  shows "w \<in> {st_required_term_weight s, st_color_term_weight s, st_feature_term_weight s, st_preferred_term_weight s, st_related_term_weight s}"
proof -
  have "(t, w) \<in> set (concat (map (\<lambda>(terms, w). map (\<lambda>t. (t, w)) (clean_dupe_empty E terms)) (weighted_groups s a language)))"
    using assms first_weights_props unfolding weighted_condition_terms_def by blast
  then have "w \<in> snd ` set (weighted_groups s a language)" by force
  then show ?thesis by (auto simp: weighted_groups_def split: lang.splits)
qed

lemma match_loop_partition:
  assumes "distinct (map (uc_casefold (te_unicode E)) (map fst ts))"
    and "uc_casefold (te_unicode E) ` fst ` set ts \<inter> (seen_matched \<union> seen_missing) = {}"
  shows "match_loop E text seen_matched seen_missing ts =
    (sum_list (map snd (filter (\<lambda>(t, _). term_matches_text E t text) ts)),
     filter (\<lambda>t. term_matches_text E t text) (map fst ts),
     filter (\<lambda>t. \<not> term_matches_text E t text) (map fst ts))"
  using assms by (induction E "text" seen_matched seen_missing ts rule: match_loop.induct) (auto simp: Let_def image_image)

lemma sum_filter_le:
  "(\<And>p. p \<in> set ts \<Longrightarrow> (0 :: int) \<le> snd p) \<Longrightarrow>
    0 \<le> sum_list (map snd (filter Q ts)) \<and> sum_list (map snd (filter Q ts)) \<le> sum_list (map snd ts)"
proof (induction ts)
  case (Cons p ts)
  have "0 \<le> snd p" and "0 \<le> sum_list (map snd (filter Q ts)) \<and> sum_list (map snd (filter Q ts)) \<le> sum_list (map snd ts)"
    using Cons.prems by (simp, intro Cons.IH) simp
  then show ?case by simp
qed simp

lemma sum_zero_iff: "(\<And>p. p \<in> set ts \<Longrightarrow> (0 :: int) \<le> snd p) \<Longrightarrow> sum_list (map snd ts) = 0 \<longleftrightarrow> list_all (\<lambda>p. snd p = 0) ts"
  by (subst sum_list_nonneg_eq_0_iff) (auto simp: list_all_iff)

text \<open>What the score is: the share of the weight of the terms that occur in the text.\<close>

definition condition_share :: "text_env \<Rightarrow> (pystr \<times> int) list \<Rightarrow> pystr \<Rightarrow> pyfloat" where
  "condition_share E ts text =
     rnd64 (of_int (sum_list (map snd (filter (\<lambda>(t, _). term_matches_text E t text) ts))) / of_int (sum_list (map snd ts)))"

lemma condition_score_eq:
  assumes "\<And>t w. (t, w) \<in> set (weighted_condition_terms E s a language) \<Longrightarrow> 0 \<le> w"
  shows "let ts = weighted_condition_terms E s a language in
      calculate_weighted_condition_match_score E s a txt language =
        (if ts = [] then Inr (Fin 0, [], [])
         else if list_all (\<lambda>p. snd p = 0) ts then Inl PyZeroDivisionError
         else Inr (condition_share E ts txt, filter (\<lambda>t. term_matches_text E t txt) (map fst ts),
                filter (\<lambda>t. \<not> term_matches_text E t txt) (map fst ts)))
      \<and> (ts = [] \<or> list_all (\<lambda>p. snd p = 0) ts \<or> unit_float (condition_share E ts txt))"
proof -
  define ts where "ts = weighted_condition_terms E s a language"
  have nonneg: "0 \<le> snd p" if "p \<in> set ts" for p
    using assms [of "fst p" "snd p"] that by (simp add: ts_def)
  have loop: "match_loop E txt {} {} ts =
      (sum_list (map snd (filter (\<lambda>(t, _). term_matches_text E t txt) ts)),
       filter (\<lambda>t. term_matches_text E t txt) (map fst ts), filter (\<lambda>t. \<not> term_matches_text E t txt) (map fst ts))"
    by (rule match_loop_partition) (use condition_keys_distinct in \<open>auto simp: ts_def\<close>)
  have zero: "sum_list (map snd ts) = 0 \<longleftrightarrow> list_all (\<lambda>p. snd p = 0) ts" by (rule sum_zero_iff) (rule nonneg)
  define m where "m = sum_list (map snd (filter (\<lambda>(t, _). term_matches_text E t txt) ts))"
  have m: "0 \<le> m \<and> m \<le> sum_list (map snd ts)" unfolding m_def by (rule sum_filter_le) (rule nonneg)
  have share: "int_div m (sum_list (map snd ts)) = Some (condition_share E ts txt) \<and> unit_float (condition_share E ts txt)"
    if "sum_list (map snd ts) \<noteq> 0"
  proof -
    from m that obtain x where "int_div m (sum_list (map snd ts)) = Some x" "unit_float x"
      using int_div_unit [of m "sum_list (map snd ts)"] by auto
    then show ?thesis by (auto simp: int_div_def condition_share_def m_def split: pyfloat.splits)
  qed
  show ?thesis
    unfolding calculate_weighted_condition_match_score_def ts_def [symmetric] loop m_def [symmetric] Let_def prod.case
    using share zero by auto
qed

text \<open>
  With weights the settings allow, the condition score of a text is the weight of the terms that
  occur in it over the weight of all of them, between zero and one, and the matched and the missing
  terms are the terms that do and do not occur; \<open>ZeroDivisionError\<close> comes exactly from conditions
  that all have weight zero.
\<close>

theorem condition_score_is_the_matched_share:
  assumes "settings_fields_ok s"
  shows "let ts = weighted_condition_terms E s a language in
      calculate_weighted_condition_match_score E s a txt language =
        (if ts = [] then Inr (Fin 0, [], [])
         else if list_all (\<lambda>p. snd p = 0) ts then Inl PyZeroDivisionError
         else Inr (condition_share E ts txt, filter (\<lambda>t. term_matches_text E t txt) (map fst ts),
                filter (\<lambda>t. \<not> term_matches_text E t txt) (map fst ts)))
      \<and> (ts = [] \<or> list_all (\<lambda>p. snd p = 0) ts \<or> unit_float (condition_share E ts txt))"
  by (rule condition_score_eq, drule condition_weight_of_group) (use assms in \<open>auto simp: settings_fields_ok_def\<close>)

section \<open>Prices\<close>

lemma fle_0_iff: "fle (Fin 0) x \<longleftrightarrow> x \<noteq> NaN \<and> \<not> fless x (Fin 0)"
  by (cases x) (auto simp: fle_def fless_def)

lemma nonneg_rnd64: "0 \<le> q \<Longrightarrow> fle (Fin 0) (rnd64 q)"
  by (simp add: fle_0_iff rnd64_nonneg)

lemma unit_nonneg: "unit_float x \<Longrightarrow> fle (Fin 0) x"
  by (cases x) (auto simp: unit_float_def fle_def fless_def)

lemma unit_fmin: "fle (Fin 0) x \<Longrightarrow> unit_float (fmin (Fin 1) x)"
  by (cases x) (auto simp: fmin_def fle_def fless_def unit_float_def)

lemma nonneg_cases: "fle (Fin 0) x \<Longrightarrow> (\<exists>q. x = Fin q \<and> 0 \<le> q) \<or> x = NegZero \<or> x = PInf"
  by (cases x) (auto simp: fle_def fless_def)

lemma nonneg_fadd: "fle (Fin 0) x \<Longrightarrow> fle (Fin 0) y \<Longrightarrow> fle (Fin 0) (fadd x y)"
  by (auto simp: fadd_def intro!: nonneg_rnd64 dest!: nonneg_cases) (auto simp: fle_def fless_def)

lemma nonneg_half: "fle (Fin 0) x \<Longrightarrow> fle (Fin 0) (fmul FLOAT_HALF x)"
  by (auto simp: fmul_def FLOAT_HALF_def float_finite_def Let_def fneg_def intro!: nonneg_rnd64 dest!: nonneg_cases)
    (auto simp: fle_def fless_def)

lemma rnd64_half: "0 \<le> q \<Longrightarrow> q \<le> 1 / 2 \<Longrightarrow> \<not> fless FLOAT_HALF (rnd64 q)"
  using rounded_below [of q "- 1"] rnd64_unit_float [of q]
  by (cases "q = 0") (auto simp: rnd64_def Let_def fless_def FLOAT_HALF_def pow2_def unit_float_def)

lemma fround_half: "unit_float x \<Longrightarrow> \<not> fless FLOAT_HALF x \<Longrightarrow> \<not> fless FLOAT_HALF (fround 4 x)"
proof (cases x)
  case (Fin q)
  assume "unit_float x" "\<not> fless FLOAT_HALF x"
  then have q: "0 \<le> q" "q \<le> 1 / 2" by (simp_all add: Fin unit_float_def fless_def FLOAT_HALF_def)
  have "half_even (of_int 0) \<le> half_even (q * 10 ^ 4)" using q by (intro half_even_mono) simp
  moreover have "half_even (q * 10 ^ 4) \<le> half_even (of_int 5000)" using q by (intro half_even_mono) simp
  ultimately have d: "0 \<le> half_even (q * 10 ^ 4)" "half_even (q * 10 ^ 4) \<le> 5000" by (simp_all only: half_even_of_int)
  then have "(of_int (half_even (q * 10 ^ 4)) :: rat) \<le> of_int 5000" by (simp only: of_int_le_iff)
  then have "\<not> fless FLOAT_HALF (rnd64 (of_int (half_even (q * 10 ^ 4)) / 10 ^ 4))" using d by (intro rnd64_half) simp_all
  moreover have "\<not> fless FLOAT_HALF NegZero" "\<not> fless FLOAT_HALF (Fin 0)" by (simp_all add: fless_def FLOAT_HALF_def)
  ultimately show ?thesis by (simp add: fround_def Fin Let_def)
qed (auto simp: fround_def unit_float_def)

lemma rnd64_ge_1: "1 \<le> q \<Longrightarrow> fle (Fin 1) (rnd64 q)"
  using rounded_above [of 0 q] by (auto simp: rnd64_def Let_def fle_def fless_def)

lemma int_ratio_result:
  assumes "0 < a" "0 < b"
  shows "int_ratio a b = Inl PyOverflowError \<or> (\<exists>x. int_ratio a b = Inr x \<and> fle (Fin 0) x)"
proof -
  have "fle (Fin 0) (rnd64 (of_int a / of_int b))" using assms by (intro nonneg_rnd64) simp
  then show ?thesis using assms by (auto simp: int_ratio_def int_div_def split: pyfloat.splits)
qed

lemma int_ratio_unit: "0 < a \<Longrightarrow> a \<le> b \<Longrightarrow> \<exists>x. int_ratio a b = Inr x \<and> unit_float x"
  using int_div_unit [of a b] by (auto simp: int_ratio_def)

lemma positive_price_pos: "positive_price v = Some i \<Longrightarrow> 0 < i"
  by (auto simp: positive_price_def split: option.splits if_splits)

definition log10_law :: "score_env \<Rightarrow> bool" where
  "log10_law SE \<longleftrightarrow> (\<forall>x. fle (Fin 1) x \<longrightarrow> fle (Fin 0) (se_log10 SE x))"

definition price_result_ok :: "app_error + pyfloat \<Rightarrow> bool" where
  "price_result_ok r = (case r of Inl e \<Rightarrow> e = PyOverflowError | Inr x \<Rightarrow> unit_float x)"

lemma price_result_simps [simp]:
  "price_result_ok (Inr x) \<longleftrightarrow> unit_float x" "price_result_ok (Inl e) \<longleftrightarrow> e = PyOverflowError"
  by (simp_all add: price_result_ok_def)

lemma capped_ratio_ok: "0 < a \<Longrightarrow> 0 < b \<Longrightarrow> price_result_ok (bindE (int_ratio a b) (\<lambda>x. Inr (fmin (Fin 1) x)))"
  using int_ratio_result [of a b] by (auto simp: unit_fmin)

lemma ratio_ok: "0 < a \<Longrightarrow> a \<le> b \<Longrightarrow> price_result_ok (int_ratio a b)"
  using int_ratio_unit [of a b] by auto

lemma half_unit [simp]: "unit_float FLOAT_HALF"
  by (simp add: FLOAT_HALF_def unit_float_def)

lemma one_above: "fle (Fin 0) x \<Longrightarrow> fle (Fin 1) (fadd (fmax (Fin 0) x) (Fin 1))"
  by (auto simp: fadd_def fmax_def fless_def intro!: rnd64_ge_1 dest!: nonneg_cases) (auto simp: fle_def fless_def)

lemma preference_score_ok:
  assumes "log10_law SE" "0 < price"
  shows "price_result_ok (preference_price_score SE a price)"
proof -
  have premium: "price_result_ok (bindE (int_ratio price b) (\<lambda>x.
      Inr (fmin (Fin 1) (fadd FLOAT_HALF (fmul FLOAT_HALF (se_log10 SE (fadd (fmax (Fin 0) x) (Fin 1))))))))"
    if "0 < b" for b
  proof -
    have capped: "unit_float (fmin (Fin 1) (fadd FLOAT_HALF (fmul FLOAT_HALF (se_log10 SE (fadd (fmax (Fin 0) x) (Fin 1))))))"
      if "fle (Fin 0) x" for x
      using assms(1) one_above [OF that]
      by (intro unit_fmin nonneg_fadd nonneg_half unit_nonneg [OF half_unit]) (simp add: log10_law_def)
    show ?thesis using int_ratio_result [OF assms(2) that] by (auto intro: capped)
  qed
  show ?thesis
    using assms(2) premium capped_ratio_ok
    by (auto simp: preference_price_score_def Let_def split: option.splits dest!: positive_price_pos)
qed

lemma price_score_ok:
  assumes "log10_law SE"
  shows "price_result_ok (calculate_price_score SE a p)"
proof (cases "positive_price (ap_price_jpy p)")
  case None
  then show ?thesis by (simp add: calculate_price_score_def unit_float_def)
next
  case (Some price)
  note pos = positive_price_pos [OF Some]
  show ?thesis
    using preference_score_ok [OF assms pos] pos unfolding calculate_price_score_def Some
    by (auto simp: Let_def unit_float_def ratio_ok capped_ratio_ok split: option.splits dest!: positive_price_pos)
qed

text \<open>
  The price score is between zero and one or the comparison of the two prices overflows; no
  other exception is possible. Giving the bounds of the range in the wrong order changes
  nothing, and a price on a bound of the range scores one when no target price is set.
\<close>

theorem price_score_is_bounded:
  assumes "log10_law SE" "0 < lo" "0 < hi"
  shows "price_result_ok (calculate_price_score SE a p)
    \<and> calculate_price_score SE (a\<lparr>pa_min_price_jpy := Some lo, pa_max_price_jpy := Some hi\<rparr>) p
      = calculate_price_score SE (a\<lparr>pa_min_price_jpy := Some hi, pa_max_price_jpy := Some lo\<rparr>) p
    \<and> calculate_price_score SE (a\<lparr>pa_target_price_jpy := None, pa_min_price_jpy := Some lo, pa_max_price_jpy := Some hi\<rparr>)
        (p\<lparr>ap_price_jpy := Some lo\<rparr>) = Inr (Fin 1)"
proof (intro conjI)
  show "price_result_ok (calculate_price_score SE a p)" by (rule price_score_ok) (rule assms(1))
qed (use assms in \<open>simp_all add: calculate_price_score_def Let_def min.commute max.commute positive_price_def split: option.splits\<close>)

text \<open>A concrete environment: ASCII folding, no Japanese tokens, similarity zero, logarithm zero.\<close>

definition demo_text_env :: text_env where
  "demo_text_env = \<lparr>te_unicode = ascii_unicode, te_tokenize = \<lambda>_. []\<rparr>"

definition demo_score_env :: score_env where
  "demo_score_env = \<lparr>se_text = demo_text_env, se_similarity = \<lambda>_ documents. Some (map (\<lambda>_. Fin 0) documents),
     se_log10 = \<lambda>_. Fin 0\<rparr>"

definition demo_attributes :: product_attributes where
  "demo_attributes = \<lparr>
     pa_estimated_product_name_ja = u ''desk'', pa_estimated_product_name_en = Some (u ''desk''), pa_category_ja = None,
     pa_category_en = None, pa_color_ja = None, pa_color_en = None, pa_features_ja = [], pa_features_en = [],
     pa_negative_conditions_ja = [], pa_negative_conditions_en = [], pa_search_queries_ja = [],
     pa_search_queries_en = [], pa_required_terms_ja = [], pa_required_terms_en = [], pa_preferred_terms_ja = [],
     pa_preferred_terms_en = [], pa_related_terms_ja = [], pa_related_terms_en = [u ''oak''],
     pa_price_preference = None, pa_min_price_jpy = None, pa_max_price_jpy = None, pa_target_price_jpy = None,
     pa_expected_price_min_jpy = None, pa_expected_price_max_jpy = None\<rparr>"

definition demo_product :: amazon_product where
  "demo_product = \<lparr>
     ap_source = u ''amazon'', ap_asin = None, ap_title = u ''oak'', ap_brand_or_store = None, ap_price_jpy = Some 1,
     ap_list_price_jpy = None, ap_currency = None, ap_rating = None, ap_review_count = None, ap_categories = [],
     ap_image_url = None, ap_image_urls = [], ap_product_url = None, ap_short_url = None, ap_is_prime = False,
     ap_availability = None, ap_shipping = None, ap_source_query = None, ap_position = None, ap_description = None\<rparr>"

lemma fle_refl_zero [simp]: "fle (Fin 0) (Fin 0)"
  by (simp add: fle_def fless_def)

lemma demo_log10: "log10_law demo_score_env"
  by (simp add: log10_law_def demo_score_env_def)

theorem price_score_is_bounded_witness:
  "price_result_ok (calculate_price_score demo_score_env demo_attributes demo_product)
    \<and> calculate_price_score demo_score_env (demo_attributes\<lparr>pa_min_price_jpy := Some 3, pa_max_price_jpy := Some 2\<rparr>) demo_product
      = calculate_price_score demo_score_env (demo_attributes\<lparr>pa_min_price_jpy := Some 2, pa_max_price_jpy := Some 3\<rparr>) demo_product
    \<and> calculate_price_score demo_score_env (demo_attributes\<lparr>pa_target_price_jpy := None, pa_min_price_jpy := Some 3, pa_max_price_jpy := Some 2\<rparr>)
        (demo_product\<lparr>ap_price_jpy := Some 3\<rparr>) = Inr (Fin 1)"
  by (rule price_score_is_bounded [OF demo_log10]) simp_all

text \<open>
  A price that the program accepts as an upper bound of the request can overflow the division of
  the price score: the exception is Python's \<open>OverflowError\<close>.
\<close>

theorem huge_price_bound_overflows:
  "calculate_price_score SE (a\<lparr>pa_target_price_jpy := None, pa_min_price_jpy := None, pa_max_price_jpy := Some (10 ^ 400)\<rparr>)
     (p\<lparr>ap_price_jpy := Some 1\<rparr>) = Inl PyOverflowError"
proof -
  have "(2 :: rat) ^ 1024 \<le> 10 ^ 400" by simp
  then have "int_ratio (10 ^ 400) 1 = Inl PyOverflowError"
    using rnd64_overflow [of "10 ^ 400"] by (simp add: int_ratio_def int_div_def)
  then show ?thesis by (simp add: calculate_price_score_def positive_price_def)
qed

section \<open>Weights of zero\<close>

definition zero_weight_settings :: settings where
  "zero_weight_settings = (default_settings [])\<lparr>st_title_score_weight := Fin 1, st_attribute_score_weight := Fin 0,
     st_price_score_weight := Fin 0, st_related_term_weight := 0\<rparr>"

lemma tolerance_not_negative: "\<not> fless (float_of_decimal False (u ''1'') [] (- 9)) (Fin 0)"
  using rnd64_nonneg [of "of_nat (digits_val (u ''1'')) / 1000000000"]
  by (simp add: float_of_decimal_def Let_def pow10_def) (simp add: fless_def)

lemma weight_sum_of_one: "fabs (fsub (fadd (fadd (Fin 1) (Fin 0)) (Fin 0)) (Fin 1)) = Fin 0"
  by (simp add: fadd_def fsub_def fminus_def rnd64_one fabs_def fneg_def) (simp add: rnd64_def)

lemma dec_unit: "of_nat (digits_val (u i @ u f)) * pow10 (0 - int (length (u f))) \<le> 1 \<Longrightarrow> unit_float (dec i f)"
  by (auto simp: dec_def float_of_decimal_def Let_def pow10_def intro!: rnd64_unit_float)
    (simp_all add: unit_float_def)

lemma dec_units: "unit_float (dec ''0'' ''1'')" "unit_float (dec ''0'' ''45'')" "unit_float (dec ''0'' ''35'')" "unit_float (dec ''0'' ''20'')"
  by (rule dec_unit, simp add: u_def digits_val.simps pow10_def)+

lemma unit_fle: "unit_float x \<Longrightarrow> fle (Fin 0) x \<and> fle x (Fin 1) \<and> fle x (Fin 2)"
  by (cases x) (auto simp: unit_float_def fle_def fless_def)

lemma default_fields_ok: "settings_fields_ok (default_settings base)"
  using dec_units [THEN unit_fle] by (simp add: settings_fields_ok_def default_settings_def) (simp add: fle_def fless_def)

lemma zero_weight_fields_ok: "settings_fields_ok zero_weight_settings"
  using dec_units [THEN unit_fle] by (simp add: settings_fields_ok_def zero_weight_settings_def default_settings_def) (simp add: fle_def fless_def)

lemma demo_terms: "weighted_condition_terms demo_text_env (default_settings []) demo_attributes language =
    (case language of Ja \<Rightarrow> [] | _ \<Rightarrow> [(u ''oak'', 1)])"
  by (cases language)
    (simp_all add: weighted_condition_terms_def weighted_groups_def demo_attributes_def default_settings_def
      clean_dupe_empty_def Let_def u_def strip_def lstrip_def rstrip_def py_space_def)

theorem condition_score_is_the_matched_share_witness:
  "calculate_weighted_condition_match_score demo_text_env (default_settings []) demo_attributes (u ''Oak desk'') En
     = Inr (Fin 1, [u ''oak''], [])"
proof -
  have "term_matches_text demo_text_env (u ''oak'') (u ''Oak desk'')"
    by (simp add: term_matches_text_def normalize_text_def demo_text_env_def ascii_unicode_def ascii_casefold_def u_def
        ascii_lower_def strip_def lstrip_def rstrip_def py_space_def contains_def Let_def)
  then show ?thesis
    using condition_score_is_the_matched_share [OF default_fields_ok, of demo_text_env "[]" demo_attributes En "u ''Oak desk''"]
    by (simp add: demo_terms condition_share_def rnd64_one Let_def)
qed

text \<open>
  The settings accept a weight of zero for a group of terms as long as one weight is positive,
  yet conditions that only have terms of that group make the scoring raise \<open>ZeroDivisionError\<close>.
\<close>

theorem zero_weight_conditions_raise:
  "validate_weights zero_weight_settings = Inr zero_weight_settings \<and> settings_fields_ok zero_weight_settings
   \<and> calculate_weighted_condition_match_score E zero_weight_settings demo_attributes txt En = Inl PyZeroDivisionError"
proof (intro conjI)
  show "validate_weights zero_weight_settings = Inr zero_weight_settings"
    using tolerance_not_negative weight_sum_of_one
    by (simp add: validate_weights_def zero_weight_settings_def default_settings_def Let_def)
  show "settings_fields_ok zero_weight_settings" by (rule zero_weight_fields_ok)
  have "weighted_condition_terms E zero_weight_settings demo_attributes En = [(u ''oak'', 0)]"
    by (simp add: weighted_condition_terms_def weighted_groups_def demo_attributes_def zero_weight_settings_def
        default_settings_def clean_dupe_empty_def Let_def u_def strip_def lstrip_def rstrip_def py_space_def)
  then show "calculate_weighted_condition_match_score E zero_weight_settings demo_attributes txt En = Inl PyZeroDivisionError"
    by (simp add: calculate_weighted_condition_match_score_def Let_def)
qed

section \<open>Total scores\<close>

lemma nonneg_fmul: "fle (Fin 0) x \<Longrightarrow> fle (Fin 0) y \<Longrightarrow> float_finite x \<Longrightarrow> float_finite y \<Longrightarrow> fle (Fin 0) (fmul x y) \<or> fmul x y = NegZero"
  by (auto simp: fmul_def float_finite_def Let_def fneg_def intro!: nonneg_rnd64 dest!: nonneg_cases)

lemma fmin_half: "fle (Fin 0) x \<or> x = NegZero \<Longrightarrow> unit_float (fmin FLOAT_HALF x) \<and> \<not> fless FLOAT_HALF (fmin FLOAT_HALF x)"
  by (cases x) (auto simp: fmin_def fle_def fless_def unit_float_def FLOAT_HALF_def)

lemma int_to_float_finite: "int_to_float i = Some x \<Longrightarrow> float_finite x \<and> x \<noteq> NaN"
  by (cases "rnd64 (of_int i)") (auto simp: int_to_float_def float_finite_def)

lemma penalty_step: "unit_float (dec ''0'' ''2'')"
proof -
  have "unit_float (rnd64 (2 / 10))" by (rule rnd64_unit_float) simp_all
  then show ?thesis by (simp add: dec_def float_of_decimal_def Let_def pow10_def digits_val.simps u_def)
qed

lemma penalty_bounds:
  assumes "calculate_negative_penalty E a p = Inr (x, hits)"
  shows "unit_float x \<and> \<not> fless FLOAT_HALF x
    \<and> hits = filter (\<lambda>t. term_matches_text E t (combined_product_text p)) (build_negative_terms E a)"
proof (cases "hits = []")
  case True
  with assms show ?thesis
    by (auto simp: calculate_negative_penalty_def Let_def unit_float_def fless_def FLOAT_HALF_def split: if_splits option.splits)
next
  case False
  with assms obtain n where n: "int_to_float (int (length hits)) = Some n" "x = fmin FLOAT_HALF (fmul (dec ''0'' ''2'') n)"
    and hits: "hits = filter (\<lambda>t. term_matches_text E t (combined_product_text p)) (build_negative_terms E a)"
    by (auto simp: calculate_negative_penalty_def Let_def split: if_splits option.splits)
  have "fle (Fin 0) n" "float_finite n"
    using int_to_float_nonneg [OF _ n(1)] int_to_float_finite [OF n(1)] by (simp_all add: fle_0_iff)
  moreover have "fle (Fin 0) (dec ''0'' ''2'')" "float_finite (dec ''0'' ''2'')"
    using penalty_step unit_nonneg [OF penalty_step]
    by (simp, cases "dec ''0'' ''2''") (auto simp: unit_float_def float_finite_def)
  ultimately show ?thesis using fmin_half nonneg_fmul hits n(2) by blast
qed

lemma score_product_parts:
  assumes "score_product SE s a p ts as lang = Inr r"
  obtains title attribute price penalty where
    "given_title_similarity SE s a p ts = Inr title"
    "given_attribute_similarity SE s a p as lang = Inr (attribute, ps_matched_terms r, ps_missing_terms r)"
    "calculate_price_score SE a p = Inr price" "ps_price_score r = fround 4 price"
    "calculate_negative_penalty (se_text SE) a p = Inr (penalty, ps_negative_matches r)"
    "ps_negative_penalty r = fround 4 penalty"
    "ps_total_score r = fround 4 (fmax (Fin 0) (fmin (Fin 1) (total_score_of s title attribute price penalty)))"
    "ps_asin r = ap_asin p" "ps_title r = ap_title p" "ps_price_jpy r = ap_price_jpy p" "ps_product_url r = ap_product_url p"
  using assms unfolding score_product_def by (auto simp: result_simps)

text \<open>
  C17. Every number of a product's score lies between zero and one, whatever the similarities given
  to it; the score keeps the identity of its product, its negative matches are the negative terms
  that occur in the product's text, and they cost at most one half.
\<close>

theorem scores_are_bounded:
  assumes "log10_law SE" "score_product SE s a p ts as lang = Inr r"
  shows "unit_float (ps_total_score r) \<and> unit_float (ps_price_score r) \<and> unit_float (ps_negative_penalty r)
    \<and> \<not> fless FLOAT_HALF (ps_negative_penalty r)
    \<and> ps_negative_matches r = filter (\<lambda>t. term_matches_text (se_text SE) t (combined_product_text p)) (build_negative_terms (se_text SE) a)
    \<and> ps_asin r = ap_asin p \<and> ps_title r = ap_title p \<and> ps_price_jpy r = ap_price_jpy p"
proof -
  from assms(2) obtain title attribute price penalty where
    parts: "calculate_price_score SE a p = Inr price" "ps_price_score r = fround 4 price"
    "calculate_negative_penalty (se_text SE) a p = Inr (penalty, ps_negative_matches r)"
    "ps_negative_penalty r = fround 4 penalty"
    "ps_total_score r = fround 4 (fmax (Fin 0) (fmin (Fin 1) (total_score_of s title attribute price penalty)))"
    "ps_asin r = ap_asin p" "ps_title r = ap_title p" "ps_price_jpy r = ap_price_jpy p"
    by (rule score_product_parts)
  have "unit_float price" using price_score_ok [OF assms(1), of a p] parts(1) by simp
  then show ?thesis using penalty_bounds [OF parts(3)] parts by (simp add: fround_unit clip_unit fround_half)
qed

lemma demo_score: "\<exists>r. score_product demo_score_env (default_settings []) demo_attributes demo_product (Some (Fin 1)) (Some (Fin 1)) Ja = Inr r"
proof -
  have "calculate_price_score demo_score_env demo_attributes demo_product = Inr FLOAT_HALF"
    by (simp add: calculate_price_score_def positive_price_def demo_product_def demo_attributes_def preference_price_score_def
        demo_score_env_def demo_text_env_def ascii_unicode_def ascii_casefold_def u_def Let_def ascii_lower_def)
  moreover have "calculate_negative_penalty demo_text_env demo_attributes demo_product = Inr (Fin 0, [])"
    by (simp add: calculate_negative_penalty_def build_negative_terms_def demo_attributes_def clean_dupe_empty_def Let_def)
  moreover have "given_attribute_similarity demo_score_env (default_settings []) demo_attributes demo_product (Some (Fin 1)) Ja
      = Inr (Fin 1, [], [])"
    by (simp add: given_attribute_similarity_def calculate_weighted_condition_match_score_def demo_score_env_def demo_terms Let_def)
  ultimately show ?thesis
    by (simp add: score_product_def given_title_similarity_def) (simp add: demo_score_env_def)
qed

theorem scores_are_bounded_witness:
  "\<exists>r. score_product demo_score_env (default_settings []) demo_attributes demo_product (Some (Fin 1)) (Some (Fin 1)) Ja = Inr r
    \<and> unit_float (ps_total_score r) \<and> ps_title r = u ''oak''"
proof -
  obtain r where r: "score_product demo_score_env (default_settings []) demo_attributes demo_product (Some (Fin 1)) (Some (Fin 1)) Ja = Inr r"
    using demo_score by blast
  from scores_are_bounded [OF demo_log10 r] r show ?thesis by (auto simp: demo_product_def)
qed

section \<open>Ranking\<close>

lemma zip_strict_Inr:
  "zip_strict f xs bs cs ds es = Inr ys \<Longrightarrow> list_all2 (\<lambda>x y. \<exists>t. f (x, t) = Inr y) xs ys"
  by (induction f xs bs cs ds es arbitrary: ys rule: zip_strict.induct) (auto simp: result_simps)

lemma zip_strict_same:
  "length bs = length xs \<Longrightarrow> length cs = length xs \<Longrightarrow> length ds = length xs \<Longrightarrow> length es = length xs \<Longrightarrow>
    (\<And>x t. x \<in> set xs \<Longrightarrow> \<exists>y. f (x, t) = Inr y) \<Longrightarrow> \<exists>ys. zip_strict f xs bs cs ds es = Inr ys"
proof (induction xs arbitrary: bs cs ds es)
  case (Cons x xs)
  then obtain b bs' c cs' d ds' e es' where [simp]: "bs = b # bs'" "cs = c # cs'" "ds = d # ds'" "es = e # es'"
    by (metis length_Suc_conv length_Cons)
  obtain y where "f (x, b, c, d, e) = Inr y" using Cons.prems(5) by force
  moreover obtain ys where "zip_strict f xs bs' cs' ds' es' = Inr ys" using Cons.IH [of bs' cs' ds' es'] Cons.prems by auto
  ultimately show ?case by simp
qed simp

lemma candidate_score:
  "score_candidate SE s a (p, t) = Inr r \<Longrightarrow> \<exists>ts as lang. score_product SE s a p ts as lang = Inr r"
  by (cases t) (auto simp: score_candidate_def Let_def result_simps)

lemma total_in_unit: "score_product SE s a p ts as lang = Inr r \<Longrightarrow> unit_float (ps_total_score r)"
  by (erule score_product_parts) (simp add: fround_unit clip_unit)

text \<open>The total scores of two results, compared as the sort compares them.\<close>

definition at_least :: "product_score \<Rightarrow> product_score \<Rightarrow> bool" where
  "at_least r q \<longleftrightarrow> \<not> fless (ps_total_score r) (ps_total_score q)"

lemma at_least_rank: "unit_float (ps_total_score r) \<Longrightarrow> unit_float (ps_total_score q) \<Longrightarrow> at_least r q \<longleftrightarrow> rank_key q \<le> rank_key r"
  by (cases "ps_total_score r"; cases "ps_total_score q") (auto simp: at_least_def rank_key_def fless_def unit_float_def)

text \<open>
  C16. The ranking holds exactly one score for every product, the best total first; products with
  the same total keep the order in which they were found.
\<close>

theorem ranking_is_sorted_and_stable:
  assumes "score_products SE s a products = Inr ranked"
  shows "\<exists>scored. list_all2 (\<lambda>p r. \<exists>ts as lang. score_product SE s a p ts as lang = Inr r) products scored
    \<and> mset ranked = mset scored \<and> sorted_wrt at_least ranked
    \<and> (\<forall>k. filter (\<lambda>r. rank_key r = k) ranked = filter (\<lambda>r. rank_key r = k) scored)"
proof -
  obtain bs cs ds es scored where z: "zip_strict (score_candidate SE s a) products bs cs ds es = Inr scored"
    and ranked: "ranked = sort_key (\<lambda>r. - rank_key r) scored"
    using assms unfolding score_products_def by (auto simp: result_simps Let_def)
  have each: "list_all2 (\<lambda>p r. \<exists>ts as lang. score_product SE s a p ts as lang = Inr r) products scored"
    using zip_strict_Inr [OF z] by (rule list_all2_mono) (auto dest: candidate_score)
  then have unit: "unit_float (ps_total_score r)" if "r \<in> set scored" for r
    using that total_in_unit by (auto simp: list_all2_conv_all_nth in_set_conv_nth)
  have "sorted_wrt (\<lambda>r q. - rank_key r \<le> - rank_key q) ranked"
    using sorted_sort_key [of "\<lambda>r. - rank_key r" scored] by (simp add: ranked sorted_wrt_map)
  then have "sorted_wrt at_least ranked"
    by (rule sorted_wrt_mono_rel [rotated]) (use unit ranked at_least_rank in auto)
  moreover have "filter (\<lambda>r. rank_key r = k) ranked = filter (\<lambda>r. rank_key r = k) scored" for k
    using sort_key_stable [of "\<lambda>r. - rank_key r" "- k" scored] by (simp add: ranked)
  ultimately show ?thesis using each by (auto simp: ranked intro!: exI [of _ scored])
qed

text \<open>
  The language whose conditions are shown is one with the higher score; at a tie it is not one
  without conditions when the other has some.
\<close>

theorem selected_language_has_conditions:
  "(let selected = select_attribute_language E s a en ja in
     selected = En \<and> \<not> fless en ja \<and> (fless ja en \<or> weighted_condition_terms E s a En \<noteq> [] \<or> weighted_condition_terms E s a Ja = [])
     \<or> selected = Ja \<and> \<not> fless ja en \<and> (fless en ja \<or> weighted_condition_terms E s a Ja \<noteq> []))"
proof -
  have "\<not> (fless x y \<and> fless y x)" for x y by (cases x; cases y) (auto simp: fless_def)
  then show ?thesis by (auto simp: select_attribute_language_def Let_def)
qed

section \<open>Scoring succeeds\<close>

definition PRICE_LIMIT :: int where
  "PRICE_LIMIT = 2 ^ 1023"

lemma int_ratio_small: "0 < i \<Longrightarrow> i \<le> PRICE_LIMIT \<Longrightarrow> 0 < j \<Longrightarrow> \<exists>x. int_ratio i j = Inr x"
proof -
  assume ij: "0 < i" "i \<le> PRICE_LIMIT" "0 < j"
  have "of_int i / of_int j \<le> (of_int i :: rat)" using ij by (simp add: divide_le_eq_1 pos_divide_le_eq mult_le_cancel_left1)
  also have "\<dots> \<le> 2 ^ 1023" using ij(2) unfolding PRICE_LIMIT_def by (metis of_int_le_iff of_int_numeral of_int_power)
  finally have "rnd64 (of_int i / of_int j) \<noteq> PInf" using ij by (intro rnd64_small) simp_all
  moreover have "fle (Fin 0) (rnd64 (of_int i / of_int j))" using ij by (intro nonneg_rnd64) simp
  then have "rnd64 (of_int i / of_int j) \<noteq> NInf" by (auto simp: fle_def fless_def)
  ultimately show ?thesis using ij by (auto simp: int_ratio_def int_div_def split: pyfloat.splits)
qed

definition price_small :: "int option \<Rightarrow> bool" where
  "price_small v = (case v of None \<Rightarrow> True | Some i \<Rightarrow> i \<le> PRICE_LIMIT)"

definition prices_small :: "product_attributes \<Rightarrow> bool" where
  "prices_small a \<longleftrightarrow> list_all price_small [pa_target_price_jpy a, pa_min_price_jpy a, pa_max_price_jpy a, pa_expected_price_max_jpy a]"

definition similarity_law :: "score_env \<Rightarrow> bool" where
  "similarity_law SE \<longleftrightarrow> (\<forall>q ds. case se_similarity SE q ds of None \<Rightarrow> True | Some scores \<Rightarrow> length scores = length ds)"

lemma positive_small: "positive_price v = Some i \<Longrightarrow> price_small v \<Longrightarrow> 0 < i \<and> i \<le> PRICE_LIMIT"
  by (auto simp: positive_price_def price_small_def split: option.splits if_splits)

lemma bind_ok: "\<exists>x. m = Inr x \<Longrightarrow> \<exists>y. bindE m (\<lambda>x. Inr (f x)) = Inr y"
  by auto

lemma price_score_succeeds:
  assumes "prices_small a" "price_small (ap_price_jpy p)"
  shows "\<exists>x. calculate_price_score SE a p = Inr x"
proof (cases "positive_price (ap_price_jpy p)")
  case None
  then show ?thesis by (simp add: calculate_price_score_def)
next
  case (Some price)
  note small = positive_small [OF Some assms(2)]
  have limits: "0 < i \<and> i \<le> PRICE_LIMIT"
    if "positive_price v = Some i" "v \<in> {pa_target_price_jpy a, pa_min_price_jpy a, pa_max_price_jpy a, pa_expected_price_max_jpy a}" for v i
    by (rule positive_small [OF that(1)]) (use that(2) assms(1) in \<open>auto simp: prices_small_def\<close>)
  have "\<exists>x. preference_price_score SE a price = Inr x"
    using small by (auto simp: preference_price_score_def Let_def split: option.splits
        intro!: bind_ok int_ratio_small dest: limits positive_price_pos)
  then show ?thesis
    unfolding calculate_price_score_def Some using small
    by (auto simp: Let_def min_def max_def split: option.splits intro!: bind_ok int_ratio_small dest: limits)
qed

lemma similarities_length: "similarity_law SE \<Longrightarrow> length (calculate_tfidf_similarities SE q ds) = length ds"
  by (auto simp: calculate_tfidf_similarities_def similarity_law_def Let_def split: option.splits)

lemma condition_score_succeeds:
  assumes "\<forall>w \<in> {st_required_term_weight s, st_color_term_weight s, st_feature_term_weight s, st_preferred_term_weight s, st_related_term_weight s}. 0 < w"
  shows "\<exists>x m1 m2. calculate_weighted_condition_match_score E s a txt language = Inr (x, m1, m2)"
proof -
  let ?ts = "weighted_condition_terms E s a language"
  have pos: "0 < w" if "(t, w) \<in> set ?ts" for t w
    using condition_weight_of_group [OF that] assms by blast
  have "?ts = [] \<or> \<not> list_all (\<lambda>p. snd p = 0) ?ts"
    by (cases ?ts) (use pos [of "fst (hd ?ts)" "snd (hd ?ts)"] in auto)
  then show ?thesis
    using condition_score_eq [of E s a language "txt"] pos by (auto simp: Let_def less_imp_le)
qed

lemma penalty_succeeds:
  assumes "int (length (build_negative_terms E a)) \<le> PRICE_LIMIT"
  shows "\<exists>x hits. calculate_negative_penalty E a p = Inr (x, hits)"
proof -
  let ?n = "int (length (filter (\<lambda>t. term_matches_text E t (combined_product_text p)) (build_negative_terms E a)))"
  have "?n \<le> PRICE_LIMIT" by (rule order.trans [OF _ assms]) simp
  then have "of_int ?n \<le> (2 :: rat) ^ 1023" unfolding PRICE_LIMIT_def by (metis of_int_le_iff of_int_numeral of_int_power)
  then have "rnd64 (of_int ?n) \<noteq> PInf" by (intro rnd64_small) simp_all
  moreover have "fle (Fin 0) (rnd64 (of_int ?n))" by (intro nonneg_rnd64) simp
  moreover have "rnd64 (of_int ?n) \<noteq> NegZero" by (auto simp: rnd64_def Let_def split: if_splits)
  ultimately have "\<exists>x. int_to_float ?n = Some x"
    by (cases "rnd64 (of_int ?n)") (auto simp: int_to_float_def fle_def fless_def)
  then show ?thesis by (auto simp: calculate_negative_penalty_def Let_def)
qed

definition weights_positive :: "settings \<Rightarrow> bool" where
  "weights_positive s \<longleftrightarrow> list_all (\<lambda>w. 0 < w)
     [st_required_term_weight s, st_color_term_weight s, st_feature_term_weight s, st_preferred_term_weight s, st_related_term_weight s]"

lemma candidate_succeeds:
  assumes "weights_positive s" "prices_small a" "price_small (ap_price_jpy p)"
    and "int (length (build_negative_terms (se_text SE) a)) \<le> PRICE_LIMIT"
  shows "\<exists>r. score_candidate SE s a (p, t) = Inr r"
proof -
  have condition: "\<exists>x m1 m2. calculate_weighted_condition_match_score (se_text SE) s a txt language = Inr (x, m1, m2)" for "txt" language
    by (rule condition_score_succeeds) (use assms(1) in \<open>simp add: weights_positive_def\<close>)
  have "\<exists>r. score_product SE s a p (Some x) (Some y) language = Inr r" for x y language
    using condition [of "combined_product_text p" language] price_score_succeeds [OF assms(2,3), of SE] penalty_succeeds [OF assms(4), of p]
    by (auto simp: score_product_def given_title_similarity_def given_attribute_similarity_def)
  then show ?thesis
    using condition [of "combined_product_text p" En] condition [of "combined_product_text p" Ja]
    by (cases t) (auto simp: score_candidate_def Let_def)
qed

lemma scoring_succeeds:
  assumes "similarity_law SE" "weights_positive s" "prices_small a" "\<And>p. p \<in> set products \<Longrightarrow> price_small (ap_price_jpy p)"
    and "int (length (build_negative_terms (se_text SE) a)) \<le> PRICE_LIMIT"
  shows "\<exists>ranked. score_products SE s a products = Inr ranked \<and> length ranked = length products"
proof -
  have "\<exists>ys. zip_strict (score_candidate SE s a) products
      (calculate_tfidf_similarities SE q1 (map f products)) (calculate_tfidf_similarities SE q2 (map f products))
      (calculate_tfidf_similarities SE q3 (map g products)) (calculate_tfidf_similarities SE q4 (map g products)) = Inr ys"
    for q1 q2 q3 q4 f g
    by (rule zip_strict_same) (use candidate_succeeds assms in \<open>simp_all add: similarities_length\<close>)
  then obtain ys where ys: "zip_strict (score_candidate SE s a) products
      (calculate_tfidf_similarities SE (build_title_query_text (se_text SE) s a En) (map (build_product_title_tfidf_text (se_text SE)) products))
      (calculate_tfidf_similarities SE (build_title_query_text (se_text SE) s a Ja) (map (build_product_title_tfidf_text (se_text SE)) products))
      (calculate_tfidf_similarities SE (build_attribute_query_text (se_text SE) s a En) (map (build_product_tfidf_text (se_text SE)) products))
      (calculate_tfidf_similarities SE (build_attribute_query_text (se_text SE) s a Ja) (map (build_product_tfidf_text (se_text SE)) products)) = Inr ys"
    by blast
  moreover have "length ys = length products" using zip_strict_Inr [OF ys] by (simp add: list_all2_lengthD)
  ultimately show ?thesis by (simp add: score_products_def Let_def)
qed

lemma demo_similarity: "similarity_law demo_score_env"
  by (simp add: similarity_law_def demo_score_env_def)

lemma demo_small: "prices_small demo_attributes" "price_small (ap_price_jpy demo_product)"
    "int (length (build_negative_terms E demo_attributes)) \<le> PRICE_LIMIT"
  by (simp_all add: prices_small_def price_small_def demo_attributes_def demo_product_def PRICE_LIMIT_def
      build_negative_terms_def clean_dupe_empty_def)

lemma default_weights_positive: "weights_positive (default_settings base)"
  by (simp add: weights_positive_def default_settings_def)



theorem ranking_is_sorted_and_stable_witness:
  "\<exists>ranked. score_products demo_score_env (default_settings []) demo_attributes [demo_product] = Inr ranked \<and> sorted_wrt at_least ranked"
proof -
  obtain ranked where "score_products demo_score_env (default_settings []) demo_attributes [demo_product] = Inr ranked"
    using scoring_succeeds [OF demo_similarity default_weights_positive demo_small(1) _ demo_small(3), of "[demo_product]" "[]"]
      demo_small(2) by auto
  with ranking_is_sorted_and_stable [OF this] show ?thesis by blast
qed

end
