(* ===== verification/App_Schema.thy ===== *)
theory App_Schema
  imports App_Base
begin

text \<open>
  Reading and writing the records of \<open>src/schemas.py\<close>: \<open>model_validate\<close> on a decoded JSON value and
  \<open>model_dump\<close>. Pydantic's coercion of other values to a number or a boolean is an argument; the
  locale states what is documented of it on values that already have the type. A string must be
  encodable, unknown keys are ignored.
\<close>

section \<open>Fields\<close>

record pydantic_env =
  pe_int :: "json \<Rightarrow> int option"
  pe_float :: "json \<Rightarrow> pyfloat option"
  pe_bool :: "json \<Rightarrow> bool option"

locale pydantic =
  fixes P :: pydantic_env
  assumes int_int: "pe_int P (JInt i) = Some i"
    and float_float: "pe_float P (JFloat x) = Some x"
    and bool_bool: "pe_bool P (JBool b) = Some b"

definition strict_pydantic :: pydantic_env where
  "strict_pydantic = \<lparr>
     pe_int = (\<lambda>v. case v of JInt i \<Rightarrow> Some i | _ \<Rightarrow> None),
     pe_float = (\<lambda>v. case v of JFloat x \<Rightarrow> Some x | _ \<Rightarrow> None),
     pe_bool = (\<lambda>v. case v of JBool b \<Rightarrow> Some b | _ \<Rightarrow> None)\<rparr>"

interpretation strict_model: pydantic strict_pydantic
  by unfold_locales (simp_all add: strict_pydantic_def)

definition encodable :: "pystr \<Rightarrow> bool" where
  "encodable s \<longleftrightarrow> list_all (\<lambda>c. \<not> surrogate c) s"

datatype field_type = VStr | VStrOr | VOptStr | VStrList | VOptInt | VOptFloat | VFloat | VBool

definition is_text :: "json \<Rightarrow> bool" where
  "is_text v = (case v of JStr s \<Rightarrow> encodable s | _ \<Rightarrow> False)"

text \<open>Whether a value, or a missing key, is accepted for a field.\<close>

fun field_ok :: "pydantic_env \<Rightarrow> field_type \<Rightarrow> json option \<Rightarrow> bool" where
  "field_ok P VStr v = (case v of None \<Rightarrow> False | Some w \<Rightarrow> is_text w)"
| "field_ok P VStrOr v = (case v of None \<Rightarrow> True | Some w \<Rightarrow> is_text w)"
| "field_ok P VOptStr v = (case v of None \<Rightarrow> True | Some w \<Rightarrow> w = JNull \<or> is_text w)"
| "field_ok P VStrList v = (case v of None \<Rightarrow> True | Some (JArr xs) \<Rightarrow> list_all is_text xs | _ \<Rightarrow> False)"
| "field_ok P VOptInt v = (case v of None \<Rightarrow> True | Some w \<Rightarrow> w = JNull \<or> pe_int P w \<noteq> None)"
| "field_ok P VOptFloat v = (case v of None \<Rightarrow> True | Some w \<Rightarrow> w = JNull \<or> pe_float P w \<noteq> None)"
| "field_ok P VFloat v = (case v of None \<Rightarrow> False | Some w \<Rightarrow> pe_float P w \<noteq> None)"
| "field_ok P VBool v = (case v of None \<Rightarrow> True | Some w \<Rightarrow> pe_bool P w \<noteq> None)"

text \<open>The value an accepted field takes.\<close>

definition text_of :: "json \<Rightarrow> pystr" where
  "text_of v = (case v of JStr s \<Rightarrow> s | _ \<Rightarrow> [])"

definition get_str :: "pydict \<Rightarrow> string \<Rightarrow> pystr" where
  "get_str d k = (case map_of d (u k) of Some v \<Rightarrow> text_of v | None \<Rightarrow> [])"

definition get_source :: "pydict \<Rightarrow> string \<Rightarrow> pystr" where
  "get_source d k = (case map_of d (u k) of Some v \<Rightarrow> text_of v | None \<Rightarrow> u ''amazon'')"

definition get_opt_str :: "pydict \<Rightarrow> string \<Rightarrow> pystr option" where
  "get_opt_str d k = (case map_of d (u k) of Some (JStr s) \<Rightarrow> Some s | _ \<Rightarrow> None)"

definition get_str_list :: "pydict \<Rightarrow> string \<Rightarrow> pystr list" where
  "get_str_list d k = (case map_of d (u k) of Some (JArr xs) \<Rightarrow> map text_of xs | _ \<Rightarrow> [])"

definition get_opt_int :: "pydantic_env \<Rightarrow> pydict \<Rightarrow> string \<Rightarrow> int option" where
  "get_opt_int P d k = (case map_of d (u k) of None \<Rightarrow> None | Some JNull \<Rightarrow> None | Some v \<Rightarrow> pe_int P v)"

definition get_opt_float :: "pydantic_env \<Rightarrow> pydict \<Rightarrow> string \<Rightarrow> pyfloat option" where
  "get_opt_float P d k = (case map_of d (u k) of None \<Rightarrow> None | Some JNull \<Rightarrow> None | Some v \<Rightarrow> pe_float P v)"

definition get_float :: "pydantic_env \<Rightarrow> pydict \<Rightarrow> string \<Rightarrow> pyfloat" where
  "get_float P d k = (case map_of d (u k) of None \<Rightarrow> NaN | Some v \<Rightarrow> the (pe_float P v))"

definition get_bool :: "pydantic_env \<Rightarrow> pydict \<Rightarrow> string \<Rightarrow> bool" where
  "get_bool P d k = (case map_of d (u k) of None \<Rightarrow> False | Some v \<Rightarrow> the (pe_bool P v))"

definition opt_json :: "('a \<Rightarrow> json) \<Rightarrow> 'a option \<Rightarrow> json" where
  "opt_json f v = (case v of None \<Rightarrow> JNull | Some x \<Rightarrow> f x)"

text \<open>A model accepts an object all of whose fields are accepted.\<close>

definition validate_model :: "pydantic_env \<Rightarrow> (string \<times> field_type) list \<Rightarrow> (pydict \<Rightarrow> 'm) \<Rightarrow> json \<Rightarrow> 'm option" where
  "validate_model P schema build v =
     (case v of
        JObj d \<Rightarrow> (if list_all (\<lambda>(k, t). field_ok P t (map_of d (u k))) schema then Some (build d) else None)
      | _ \<Rightarrow> None)"

section \<open>The models\<close>

definition attributes_schema :: "(string \<times> field_type) list" where
  "attributes_schema = [
     (''estimated_product_name_ja'', VStr), (''estimated_product_name_en'', VOptStr), (''category_ja'', VOptStr),
     (''category_en'', VOptStr), (''color_ja'', VOptStr), (''color_en'', VOptStr),
     (''features_ja'', VStrList), (''features_en'', VStrList), (''negative_conditions_ja'', VStrList),
     (''negative_conditions_en'', VStrList), (''search_queries_ja'', VStrList), (''search_queries_en'', VStrList),
     (''required_terms_ja'', VStrList), (''required_terms_en'', VStrList), (''preferred_terms_ja'', VStrList),
     (''preferred_terms_en'', VStrList), (''related_terms_ja'', VStrList), (''related_terms_en'', VStrList),
     (''price_preference'', VOptStr), (''min_price_jpy'', VOptInt), (''max_price_jpy'', VOptInt),
     (''target_price_jpy'', VOptInt), (''expected_price_min_jpy'', VOptInt), (''expected_price_max_jpy'', VOptInt)]"

definition attributes_of :: "pydantic_env \<Rightarrow> pydict \<Rightarrow> product_attributes" where
  "attributes_of P d = \<lparr>
     pa_estimated_product_name_ja = get_str d ''estimated_product_name_ja'', pa_estimated_product_name_en = get_opt_str d ''estimated_product_name_en'',
     pa_category_ja = get_opt_str d ''category_ja'', pa_category_en = get_opt_str d ''category_en'',
     pa_color_ja = get_opt_str d ''color_ja'', pa_color_en = get_opt_str d ''color_en'',
     pa_features_ja = get_str_list d ''features_ja'', pa_features_en = get_str_list d ''features_en'',
     pa_negative_conditions_ja = get_str_list d ''negative_conditions_ja'', pa_negative_conditions_en = get_str_list d ''negative_conditions_en'',
     pa_search_queries_ja = get_str_list d ''search_queries_ja'', pa_search_queries_en = get_str_list d ''search_queries_en'',
     pa_required_terms_ja = get_str_list d ''required_terms_ja'', pa_required_terms_en = get_str_list d ''required_terms_en'',
     pa_preferred_terms_ja = get_str_list d ''preferred_terms_ja'', pa_preferred_terms_en = get_str_list d ''preferred_terms_en'',
     pa_related_terms_ja = get_str_list d ''related_terms_ja'', pa_related_terms_en = get_str_list d ''related_terms_en'',
     pa_price_preference = get_opt_str d ''price_preference'', pa_min_price_jpy = get_opt_int P d ''min_price_jpy'',
     pa_max_price_jpy = get_opt_int P d ''max_price_jpy'', pa_target_price_jpy = get_opt_int P d ''target_price_jpy'',
     pa_expected_price_min_jpy = get_opt_int P d ''expected_price_min_jpy'', pa_expected_price_max_jpy = get_opt_int P d ''expected_price_max_jpy''\<rparr>"

definition validate_attributes :: "pydantic_env \<Rightarrow> json \<Rightarrow> product_attributes option" where
  "validate_attributes P v = validate_model P attributes_schema (attributes_of P) v"

definition attributes_dump :: "product_attributes \<Rightarrow> pydict" where
  "attributes_dump x = [
     (u ''estimated_product_name_ja'', JStr (pa_estimated_product_name_ja x)), (u ''estimated_product_name_en'', opt_json JStr (pa_estimated_product_name_en x)),
     (u ''category_ja'', opt_json JStr (pa_category_ja x)), (u ''category_en'', opt_json JStr (pa_category_en x)),
     (u ''color_ja'', opt_json JStr (pa_color_ja x)), (u ''color_en'', opt_json JStr (pa_color_en x)),
     (u ''features_ja'', JArr (map JStr (pa_features_ja x))), (u ''features_en'', JArr (map JStr (pa_features_en x))),
     (u ''negative_conditions_ja'', JArr (map JStr (pa_negative_conditions_ja x))), (u ''negative_conditions_en'', JArr (map JStr (pa_negative_conditions_en x))),
     (u ''search_queries_ja'', JArr (map JStr (pa_search_queries_ja x))), (u ''search_queries_en'', JArr (map JStr (pa_search_queries_en x))),
     (u ''required_terms_ja'', JArr (map JStr (pa_required_terms_ja x))), (u ''required_terms_en'', JArr (map JStr (pa_required_terms_en x))),
     (u ''preferred_terms_ja'', JArr (map JStr (pa_preferred_terms_ja x))), (u ''preferred_terms_en'', JArr (map JStr (pa_preferred_terms_en x))),
     (u ''related_terms_ja'', JArr (map JStr (pa_related_terms_ja x))), (u ''related_terms_en'', JArr (map JStr (pa_related_terms_en x))),
     (u ''price_preference'', opt_json JStr (pa_price_preference x)), (u ''min_price_jpy'', opt_json JInt (pa_min_price_jpy x)),
     (u ''max_price_jpy'', opt_json JInt (pa_max_price_jpy x)), (u ''target_price_jpy'', opt_json JInt (pa_target_price_jpy x)),
     (u ''expected_price_min_jpy'', opt_json JInt (pa_expected_price_min_jpy x)), (u ''expected_price_max_jpy'', opt_json JInt (pa_expected_price_max_jpy x))]"

definition product_schema :: "(string \<times> field_type) list" where
  "product_schema = [
     (''source'', VStrOr), (''asin'', VOptStr), (''title'', VStr),
     (''brand_or_store'', VOptStr), (''price_jpy'', VOptInt), (''list_price_jpy'', VOptInt),
     (''currency'', VOptStr), (''rating'', VOptFloat), (''review_count'', VOptInt),
     (''categories'', VStrList), (''image_url'', VOptStr), (''image_urls'', VStrList),
     (''product_url'', VOptStr), (''short_url'', VOptStr), (''is_prime'', VBool),
     (''availability'', VOptStr), (''shipping'', VOptStr), (''source_query'', VOptStr),
     (''position'', VOptInt), (''description'', VOptStr)]"

definition product_of :: "pydantic_env \<Rightarrow> pydict \<Rightarrow> amazon_product" where
  "product_of P d = \<lparr>
     ap_source = get_source d ''source'', ap_asin = get_opt_str d ''asin'',
     ap_title = get_str d ''title'', ap_brand_or_store = get_opt_str d ''brand_or_store'',
     ap_price_jpy = get_opt_int P d ''price_jpy'', ap_list_price_jpy = get_opt_int P d ''list_price_jpy'',
     ap_currency = get_opt_str d ''currency'', ap_rating = get_opt_float P d ''rating'',
     ap_review_count = get_opt_int P d ''review_count'', ap_categories = get_str_list d ''categories'',
     ap_image_url = get_opt_str d ''image_url'', ap_image_urls = get_str_list d ''image_urls'',
     ap_product_url = get_opt_str d ''product_url'', ap_short_url = get_opt_str d ''short_url'',
     ap_is_prime = get_bool P d ''is_prime'', ap_availability = get_opt_str d ''availability'',
     ap_shipping = get_opt_str d ''shipping'', ap_source_query = get_opt_str d ''source_query'',
     ap_position = get_opt_int P d ''position'', ap_description = get_opt_str d ''description''\<rparr>"

definition validate_product :: "pydantic_env \<Rightarrow> json \<Rightarrow> amazon_product option" where
  "validate_product P v = validate_model P product_schema (product_of P) v"

definition product_dump :: "amazon_product \<Rightarrow> pydict" where
  "product_dump x = [
     (u ''source'', JStr (ap_source x)), (u ''asin'', opt_json JStr (ap_asin x)),
     (u ''title'', JStr (ap_title x)), (u ''brand_or_store'', opt_json JStr (ap_brand_or_store x)),
     (u ''price_jpy'', opt_json JInt (ap_price_jpy x)), (u ''list_price_jpy'', opt_json JInt (ap_list_price_jpy x)),
     (u ''currency'', opt_json JStr (ap_currency x)), (u ''rating'', opt_json JFloat (ap_rating x)),
     (u ''review_count'', opt_json JInt (ap_review_count x)), (u ''categories'', JArr (map JStr (ap_categories x))),
     (u ''image_url'', opt_json JStr (ap_image_url x)), (u ''image_urls'', JArr (map JStr (ap_image_urls x))),
     (u ''product_url'', opt_json JStr (ap_product_url x)), (u ''short_url'', opt_json JStr (ap_short_url x)),
     (u ''is_prime'', JBool (ap_is_prime x)), (u ''availability'', opt_json JStr (ap_availability x)),
     (u ''shipping'', opt_json JStr (ap_shipping x)), (u ''source_query'', opt_json JStr (ap_source_query x)),
     (u ''position'', opt_json JInt (ap_position x)), (u ''description'', opt_json JStr (ap_description x))]"

definition score_schema :: "(string \<times> field_type) list" where
  "score_schema = [
     (''asin'', VOptStr), (''title'', VStr), (''price_jpy'', VOptInt),
     (''rating'', VOptFloat), (''review_count'', VOptInt), (''image_url'', VOptStr),
     (''product_url'', VOptStr), (''title_similarity'', VFloat), (''attribute_similarity'', VFloat),
     (''price_score'', VFloat), (''negative_penalty'', VFloat), (''total_score'', VFloat),
     (''matched_terms'', VStrList), (''missing_terms'', VStrList), (''negative_matches'', VStrList)]"

definition score_of :: "pydantic_env \<Rightarrow> pydict \<Rightarrow> product_score" where
  "score_of P d = \<lparr>
     ps_asin = get_opt_str d ''asin'', ps_title = get_str d ''title'',
     ps_price_jpy = get_opt_int P d ''price_jpy'', ps_rating = get_opt_float P d ''rating'',
     ps_review_count = get_opt_int P d ''review_count'', ps_image_url = get_opt_str d ''image_url'',
     ps_product_url = get_opt_str d ''product_url'', ps_title_similarity = get_float P d ''title_similarity'',
     ps_attribute_similarity = get_float P d ''attribute_similarity'', ps_price_score = get_float P d ''price_score'',
     ps_negative_penalty = get_float P d ''negative_penalty'', ps_total_score = get_float P d ''total_score'',
     ps_matched_terms = get_str_list d ''matched_terms'', ps_missing_terms = get_str_list d ''missing_terms'',
     ps_negative_matches = get_str_list d ''negative_matches''\<rparr>"

definition validate_score :: "pydantic_env \<Rightarrow> json \<Rightarrow> product_score option" where
  "validate_score P v = validate_model P score_schema (score_of P) v"

definition score_dump :: "product_score \<Rightarrow> pydict" where
  "score_dump x = [
     (u ''asin'', opt_json JStr (ps_asin x)), (u ''title'', JStr (ps_title x)),
     (u ''price_jpy'', opt_json JInt (ps_price_jpy x)), (u ''rating'', opt_json JFloat (ps_rating x)),
     (u ''review_count'', opt_json JInt (ps_review_count x)), (u ''image_url'', opt_json JStr (ps_image_url x)),
     (u ''product_url'', opt_json JStr (ps_product_url x)), (u ''title_similarity'', JFloat (ps_title_similarity x)),
     (u ''attribute_similarity'', JFloat (ps_attribute_similarity x)), (u ''price_score'', JFloat (ps_price_score x)),
     (u ''negative_penalty'', JFloat (ps_negative_penalty x)), (u ''total_score'', JFloat (ps_total_score x)),
     (u ''matched_terms'', JArr (map JStr (ps_matched_terms x))), (u ''missing_terms'', JArr (map JStr (ps_missing_terms x))),
     (u ''negative_matches'', JArr (map JStr (ps_negative_matches x)))]"

section \<open>What is dumped reads back\<close>

definition attributes_encodable :: "product_attributes \<Rightarrow> bool" where
  "attributes_encodable x \<longleftrightarrow> list_all encodable
     (pa_estimated_product_name_ja x # pa_features_ja x @ pa_features_en x @ pa_negative_conditions_ja x
      @ pa_negative_conditions_en x @ pa_search_queries_ja x @ pa_search_queries_en x @ pa_required_terms_ja x
      @ pa_required_terms_en x @ pa_preferred_terms_ja x @ pa_preferred_terms_en x @ pa_related_terms_ja x
      @ pa_related_terms_en x)
     \<and> list_all (\<lambda>v. case v of None \<Rightarrow> True | Some s \<Rightarrow> encodable s)
     [pa_estimated_product_name_en x, pa_category_ja x, pa_category_en x, pa_color_ja x, pa_color_en x, pa_price_preference x]"

definition product_encodable :: "amazon_product \<Rightarrow> bool" where
  "product_encodable x \<longleftrightarrow> list_all encodable (ap_source x # ap_title x # ap_categories x @ ap_image_urls x)
     \<and> list_all (\<lambda>v. case v of None \<Rightarrow> True | Some s \<Rightarrow> encodable s)
     [ap_asin x, ap_brand_or_store x, ap_currency x, ap_image_url x, ap_product_url x, ap_short_url x, ap_availability x,
      ap_shipping x, ap_source_query x, ap_description x]"

definition score_encodable :: "product_score \<Rightarrow> bool" where
  "score_encodable x \<longleftrightarrow> list_all encodable (ps_title x # ps_matched_terms x @ ps_missing_terms x @ ps_negative_matches x)
     \<and> list_all (\<lambda>v. case v of None \<Rightarrow> True | Some s \<Rightarrow> encodable s) [ps_asin x, ps_image_url x, ps_product_url x]"

lemma opt_json_text: "(case v of None \<Rightarrow> True | Some s \<Rightarrow> encodable s) \<Longrightarrow> opt_json JStr v = JNull \<or> is_text (opt_json JStr v)"
  by (auto simp: opt_json_def is_text_def split: option.splits)

lemma opt_json_back [simp]:
  "(case opt_json JStr v of JStr s \<Rightarrow> Some s | _ \<Rightarrow> None) = v"
  by (cases v) (simp_all add: opt_json_def)

lemma text_list_back [simp]: "map (text_of \<circ> JStr) xs = xs" "list_all is_text (map JStr xs) = list_all encodable xs"
    "is_text (JStr s) = encodable s"
  by (induction xs) (simp_all add: text_of_def is_text_def)

context pydantic
begin

lemma opt_int_back: "(case opt_json JInt v of JNull \<Rightarrow> None | w \<Rightarrow> pe_int P w) = v"
  "opt_json JInt v = JNull \<or> (\<exists>y. pe_int P (opt_json JInt v) = Some y)"
  by (cases v; simp add: opt_json_def int_int)+

lemma opt_float_back: "(case opt_json JFloat v of JNull \<Rightarrow> None | w \<Rightarrow> pe_float P w) = v"
  "opt_json JFloat v = JNull \<or> (\<exists>y. pe_float P (opt_json JFloat v) = Some y)"
  by (cases v; simp add: opt_json_def float_float)+

lemmas reads = get_str_def get_source_def get_opt_str_def get_str_list_def get_opt_int_def get_opt_float_def get_float_def
  get_bool_def text_of_def opt_int_back opt_float_back float_float bool_bool

lemmas writes = opt_json_text opt_int_back opt_float_back float_float bool_bool

lemma score_back:
  assumes "score_encodable x"
  shows "validate_score P (JObj (score_dump x)) = Some x"
proof -
  have "list_all (\<lambda>(k, t). field_ok P t (map_of (score_dump x) (u k))) score_schema"
    using assms by (simp add: score_schema_def score_dump_def score_encodable_def writes)
  moreover have "score_of P (score_dump x) = x"
    by (simp add: score_of_def score_dump_def reads)
  ultimately show ?thesis by (simp add: validate_score_def validate_model_def)
qed

lemma product_back:
  assumes "product_encodable x"
  shows "validate_product P (JObj (product_dump x)) = Some x"
proof -
  have "list_all (\<lambda>(k, t). field_ok P t (map_of (product_dump x) (u k))) product_schema"
    using assms by (simp add: product_schema_def product_dump_def product_encodable_def writes)
  moreover have "product_of P (product_dump x) = x"
    by (simp add: product_of_def product_dump_def reads)
  ultimately show ?thesis by (simp add: validate_product_def validate_model_def)
qed

lemma attributes_back:
  assumes "attributes_encodable x"
  shows "validate_attributes P (JObj (attributes_dump x)) = Some x"
proof -
  have "list_all (\<lambda>(k, t). field_ok P t (map_of (attributes_dump x) (u k))) attributes_schema"
    using assms by (simp add: attributes_schema_def attributes_dump_def attributes_encodable_def writes)
  moreover have "attributes_of P (attributes_dump x) = x"
    by (simp add: attributes_of_def attributes_dump_def reads)
  ultimately show ?thesis by (simp add: validate_attributes_def validate_model_def)
qed

end

end
