(* ===== verification/App_Attributes.thy ===== *)
theory App_Attributes
  imports App_Schema App_Text
begin

text \<open>
  \<open>src/services/user_attribute_extraction.py\<close> and \<open>outscraper_search_select.py\<close>: the text the language
  model returns becomes validated attributes with prices, categories and search queries in order.
  The Unicode tables and pydantic's coercions are arguments. The recursion limit of Python's JSON
  scanner is not modelled.
\<close>

definition LIST_FIELDS :: "string list" where
  "LIST_FIELDS = [''features_ja'', ''features_en'', ''negative_conditions_ja'', ''negative_conditions_en'',
     ''search_queries_ja'', ''search_queries_en'', ''required_terms_ja'', ''required_terms_en'',
     ''preferred_terms_ja'', ''preferred_terms_en'', ''related_terms_ja'', ''related_terms_en'']"

definition PRICE_FIELDS :: "string list" where
  "PRICE_FIELDS = [''min_price_jpy'', ''max_price_jpy'', ''target_price_jpy'', ''expected_price_min_jpy'',
     ''expected_price_max_jpy'']"

definition BONSAI_RESPONSE_ERROR :: pystr where
  "BONSAI_RESPONSE_ERROR = u ''Bonsai response is not valid product JSON.''"

section \<open>Prices in text\<close>

text \<open>
  \<open>PRICE_STRING_PATTERN.fullmatch\<close>, piece by piece: no two neighbouring pieces can take the same
  character, so the match is unique. A digit is any decimal digit of Unicode.
\<close>

definition skip_space :: "pystr \<Rightarrow> pystr" where
  "skip_space s = dropWhile py_space s"

definition is_jpy :: "pystr \<Rightarrow> bool" where
  "is_jpy s \<longleftrightarrow> map ascii_lower s = u ''jpy''"

definition skip_prefix :: "pystr \<Rightarrow> pystr" where
  "skip_prefix s =
     (let s1 = skip_space s; s2 = (if is_jpy (take 3 s1) then skip_space (drop 3 s1) else s1) in
      skip_space (if take 1 s2 \<in> {[0xA5], [0xFFE5]} then drop 1 s2 else s2))"

definition skip_suffix :: "pystr \<Rightarrow> pystr" where
  "skip_suffix s =
     (let s1 = skip_space s in
      skip_space (if take 1 s1 = [0x5186] then drop 1 s1 else if is_jpy (take 3 s1) then drop 3 s1 else s1))"

definition digits_of :: "unicode \<Rightarrow> pystr \<Rightarrow> pystr" where
  "digits_of U s = concat (map (\<lambda>c. case uc_digit U c of None \<Rightarrow> [] | Some d \<Rightarrow> [0x30 + d]) s)"

text \<open>
  The number at the start of a text, \<open>\d[\d,]*(?:\.\d+)?\<close>: its whole digits, its decimals, and what
  is left.
\<close>

definition scan_amount :: "unicode \<Rightarrow> pystr \<Rightarrow> (pystr \<times> pystr \<times> pystr) option" where
  "scan_amount U s =
     (let digit = (\<lambda>c. uc_digit U c \<noteq> None); digit_comma = (\<lambda>c. digit c \<or> c = 0x2C);
          whole = takeWhile digit_comma s; rest = dropWhile digit_comma s;
          decimals = takeWhile digit (drop 1 rest) in
      if take 1 s = [] \<or> \<not> digit (hd s) then None
      else if take 1 rest = [0x2E] \<and> decimals \<noteq> []
      then Some (digits_of U whole, digits_of U decimals, dropWhile digit (drop 1 rest))
      else Some (digits_of U whole, [], rest))"

definition price_text :: "unicode \<Rightarrow> pystr \<Rightarrow> pyfloat option" where
  "price_text U s =
     (let s1 = skip_prefix s; neg = (take 1 s1 = [0x2D]);
          s2 = (if take 1 s1 \<in> {[0x2B], [0x2D]} then drop 1 s1 else s1) in
      case scan_amount U s2 of
        None \<Rightarrow> None
      | Some (whole, decimals, rest) \<Rightarrow>
          (if skip_suffix rest = [] then Some (float_of_decimal neg whole decimals 0) else None))"

text \<open>\<open>int(x)\<close> when \<open>x\<close> is finite, integral and positive.\<close>

definition positive_integral :: "pyfloat \<Rightarrow> int option" where
  "positive_integral x =
     (case float_rat x of None \<Rightarrow> None | Some q \<Rightarrow> if q = of_int \<lfloor>q\<rfloor> \<and> 0 < q then Some \<lfloor>q\<rfloor> else None)"

definition normalize_price_value :: "unicode \<Rightarrow> json \<Rightarrow> int option" where
  "normalize_price_value U v =
     (case v of
        JInt i \<Rightarrow> (if 0 < i then Some i else None)
      | JFloat x \<Rightarrow> positive_integral x
      | JStr s \<Rightarrow> (case price_text U s of None \<Rightarrow> None | Some x \<Rightarrow> positive_integral x)
      | _ \<Rightarrow> None)"

section \<open>The object\<close>

definition normalize_list_field :: "string \<Rightarrow> pydict \<Rightarrow> pydict" where
  "normalize_list_field field d =
     (case map_of d (u field) of
        None \<Rightarrow> dict_set (u field) (JArr []) d
      | Some JNull \<Rightarrow> dict_set (u field) (JArr []) d
      | Some (JStr s) \<Rightarrow> dict_set (u field) (JArr [JStr s]) d
      | Some _ \<Rightarrow> d)"

definition normalize_price_field :: "unicode \<Rightarrow> string \<Rightarrow> pydict \<Rightarrow> pydict" where
  "normalize_price_field U field d =
     (case map_of d (u field) of
        None \<Rightarrow> d
      | Some v \<Rightarrow> dict_set (u field) (opt_json JInt (normalize_price_value U v)) d)"

definition normalize_bonsai_json :: "unicode \<Rightarrow> json \<Rightarrow> app_error + json" where
  "normalize_bonsai_json U data =
     (case data of
        JObj d \<Rightarrow> Inr (JObj (foldl (\<lambda>d field. normalize_price_field U field d)
          (foldl (\<lambda>d field. normalize_list_field field d) d LIST_FIELDS) PRICE_FIELDS))
      | _ \<Rightarrow> Inl (PyValueError BONSAI_RESPONSE_ERROR))"

definition swap_range :: "int option \<Rightarrow> int option \<Rightarrow> int option \<times> int option" where
  "swap_range minimum maximum =
     (case (minimum, maximum) of
        (Some lo, Some hi) \<Rightarrow> (if hi < lo then (Some hi, Some lo) else (Some lo, Some hi))
      | _ \<Rightarrow> (minimum, maximum))"

definition normalize_price_ranges :: "product_attributes \<Rightarrow> product_attributes" where
  "normalize_price_ranges a =
     (let (lo, hi) = swap_range (pa_min_price_jpy a) (pa_max_price_jpy a);
          (elo, ehi) = swap_range (pa_expected_price_min_jpy a) (pa_expected_price_max_jpy a) in
      a\<lparr>pa_min_price_jpy := lo, pa_max_price_jpy := hi, pa_expected_price_min_jpy := elo, pa_expected_price_max_jpy := ehi\<rparr>)"

definition fence :: pystr where
  "fence = [0x60, 0x60, 0x60]"

definition extract_json_text :: "pystr \<Rightarrow> pystr" where
  "extract_json_text raw_text =
     (let normalized0 = strip raw_text;
          normalized =
            (if take 3 normalized0 = fence then
               (let ls = splitlines normalized0;
                    ls1 = (if ls \<noteq> [] \<and> take 3 (hd ls) = fence then tl ls else ls);
                    ls2 = (if ls1 \<noteq> [] \<and> strip (last ls1) = fence then butlast ls1 else ls1) in
                strip (join_str [0x0A] ls2))
             else normalized0);
          start = length (takeWhile (\<lambda>c. c \<noteq> 0x7B) normalized);
          stop = length normalized - length (takeWhile (\<lambda>c. c \<noteq> 0x7D) (rev normalized)) in
      if 0x7B \<notin> set normalized \<or> 0x7D \<notin> set normalized \<or> stop \<le> start then normalized
      else drop start (take stop normalized))"

section \<open>Categories and queries\<close>

definition given :: "pystr option list \<Rightarrow> pystr list" where
  "given parts = concat (map (\<lambda>v. case v of None \<Rightarrow> [] | Some s \<Rightarrow> if s = [] then [] else [s]) parts)"

definition japanese_category_evidence :: "pystr \<Rightarrow> pystr option list \<Rightarrow> bool" where
  "japanese_category_evidence category parts \<longleftrightarrow>
     strip category \<noteq> [] \<and> contains (strip category) (join_str (u '' '') (given parts))"

text \<open>\<open>split()\<close>: the maximal runs without white space, \<open>cur\<close> the reversed run so far.\<close>

fun split_space :: "pystr \<Rightarrow> pystr \<Rightarrow> pystr list" where
  "split_space cur [] = (if cur = [] then [] else [rev cur])"
| "split_space cur (c # s) =
     (if \<not> py_space c then split_space (c # cur) s
      else if cur = [] then split_space [] s else rev cur # split_space [] s)"

definition english_words :: "unicode \<Rightarrow> pystr \<Rightarrow> pystr list" where
  "english_words U s =
     filter (\<lambda>w. 2 < length w) (split_space [] (map (\<lambda>c. if c = 0x2D then 0x20 else c) (uc_lower U s)))"

definition english_category_evidence :: "unicode \<Rightarrow> pystr \<Rightarrow> pystr option list \<Rightarrow> bool" where
  "english_category_evidence U category parts \<longleftrightarrow>
     english_words U category \<noteq> []
     \<and> set (english_words U category) \<subseteq> set (english_words U (join_str (u '' '') (given parts)))"

definition present :: "pystr option \<Rightarrow> bool" where
  "present v \<longleftrightarrow> v \<noteq> None \<and> v \<noteq> Some []"

definition categories_check :: "unicode \<Rightarrow> product_attributes \<Rightarrow> product_attributes" where
  "categories_check U a0 =
     (let japanese = Some (pa_estimated_product_name_ja a0) # map Some (pa_features_ja a0);
          english = pa_estimated_product_name_en a0 # map Some (pa_features_en a0);
          a = (if present (pa_category_ja a0) \<and> \<not> japanese_category_evidence (the (pa_category_ja a0)) japanese
               then a0\<lparr>pa_category_ja := None\<rparr> else a0) in
      if present (pa_category_en a) \<and> \<not> english_category_evidence U (the (pa_category_en a)) english
      then a\<lparr>pa_category_en := None\<rparr> else a)"

text \<open>This module's \<open>clean_dupe_empty\<close> compares the lower case, not the folded form.\<close>

definition clean_dupe_lower :: "unicode \<Rightarrow> pystr option list \<Rightarrow> pystr list" where
  "clean_dupe_lower U values = clean_dupe_from (uc_lower U) {} values"

definition check_contains_japanese :: "pystr \<Rightarrow> bool" where
  "check_contains_japanese s \<longleftrightarrow> list_ex japanese_char s"

definition japanese_query_part :: "pystr option \<Rightarrow> pystr option" where
  "japanese_query_part v = (case v of None \<Rightarrow> None | Some s \<Rightarrow> if s \<noteq> [] \<and> check_contains_japanese s then Some s else None)"

definition improve_search_queries :: "unicode \<Rightarrow> product_attributes \<Rightarrow> product_attributes" where
  "improve_search_queries U a0 =
     (let japanese_parts = clean_dupe_lower U
            ([japanese_query_part (Some (pa_estimated_product_name_ja a0)), japanese_query_part (pa_color_ja a0)]
             @ map (\<lambda>f. japanese_query_part (Some f)) (pa_features_ja a0) @ [japanese_query_part (pa_category_ja a0)]);
          a = (if japanese_parts \<noteq> [] then a0\<lparr>pa_search_queries_ja := [join_str (u '' '') japanese_parts]\<rparr> else a0);
          english_parts = clean_dupe_lower U
            ([pa_estimated_product_name_en a, pa_color_en a] @ map Some (pa_features_en a) @ [pa_category_en a]) in
      if english_parts \<noteq> [] then a\<lparr>pa_search_queries_en := [uc_lower U (join_str (u '' '') english_parts)]\<rparr> else a)"

section \<open>Parsing\<close>

definition loads :: "pystr \<Rightarrow> json option" where
  "loads s = (case json_loads (plain_pairs :: pydict \<Rightarrow> unit + json) plain_const s of Inl _ \<Rightarrow> None | Inr v \<Rightarrow> Some v)"

definition read_attributes :: "unicode \<Rightarrow> pydantic_env \<Rightarrow> pystr \<Rightarrow> app_error + product_attributes" where
  "read_attributes U P raw_text =
     (case loads (extract_json_text raw_text) of
        None \<Rightarrow> Inl (PyValueError BONSAI_RESPONSE_ERROR)
      | Some data \<Rightarrow>
          bindE (normalize_bonsai_json U data) (\<lambda>v.
          case validate_attributes P v of
            None \<Rightarrow> Inl (PyValueError BONSAI_RESPONSE_ERROR)
          | Some a \<Rightarrow> Inr a))"

definition parse_attributes :: "unicode \<Rightarrow> pydantic_env \<Rightarrow> pystr \<Rightarrow> pystr \<Rightarrow> app_error + product_attributes" where
  "parse_attributes U P raw_text fallback_query =
     bindE (read_attributes U P raw_text) (\<lambda>a0.
     let a1 = normalize_price_ranges a0;
         a2 = (if pa_search_queries_ja a1 = [] then a1\<lparr>pa_search_queries_ja := [fallback_query]\<rparr> else a1);
         a3 = (if pa_search_queries_en a2 = [] \<and> present (pa_estimated_product_name_en a2)
               then a2\<lparr>pa_search_queries_en := [the (pa_estimated_product_name_en a2)]\<rparr> else a2) in
     Inr (improve_search_queries U (categories_check U a3)))"

definition extract_product_attributes :: "unicode \<Rightarrow> pydantic_env \<Rightarrow> pystr \<Rightarrow> pystr \<Rightarrow> app_error + product_attributes" where
  "extract_product_attributes U P raw_text user_input = parse_attributes U P raw_text user_input"

section \<open>The query for the search\<close>

definition validate_search_query :: "pystr \<Rightarrow> app_error + pystr" where
  "validate_search_query query =
     (if query = [] then Inl (PyValueError (u ''Search query must not be empty.''))
      else if take 7 query = u ''http://'' \<or> take 8 query = u ''https://''
      then Inl (PyValueError (u ''Pass a search query instead of an Amazon URL.''))
      else Inr query)"

definition select_outscraper_query :: "product_attributes \<Rightarrow> app_error + pystr" where
  "select_outscraper_query a =
     (if pa_search_queries_ja a \<noteq> [] then validate_search_query (hd (pa_search_queries_ja a))
      else if pa_search_queries_en a \<noteq> [] then validate_search_query (hd (pa_search_queries_en a))
      else validate_search_query (pa_estimated_product_name_ja a))"

end
