(* ===== verification/App_Attributes_Facts.thy ===== *)
theory App_Attributes_Facts
  imports App_Attributes Py_Round
begin

text \<open>What the extraction of attributes guarantees to the rest of the pipeline.\<close>

section \<open>Prices of the object\<close>

lemma normalize_price_value_pos: "normalize_price_value U v = Some i \<Longrightarrow> 0 < i"
  by (cases v) (auto simp: normalize_price_value_def positive_integral_def split: if_splits option.splits)

lemma map_of_price_field:
  "map_of (normalize_price_field U field d) k =
     (if k = u field then map_option (\<lambda>v. opt_json JInt (normalize_price_value U v)) (map_of d k) else map_of d k)"
  by (auto simp: normalize_price_field_def split: option.splits)

text \<open>A price key of the normalised object is missing, null or a positive integer.\<close>

definition price_entry_ok :: "json option \<Rightarrow> bool" where
  "price_entry_ok e \<longleftrightarrow> e = None \<or> e = Some JNull \<or> (\<exists>i. e = Some (JInt i) \<and> 0 < i)"

lemma normalized_price_entry:
  assumes "field \<in> set PRICE_FIELDS"
  shows "price_entry_ok (map_of (foldl (\<lambda>d f. normalize_price_field U f d) d PRICE_FIELDS) (u field))"
proof -
  have "price_entry_ok (map_option (\<lambda>v. opt_json JInt (normalize_price_value U v)) e)" for e
    using normalize_price_value_pos
    by (cases e; cases "normalize_price_value U (the e)") (auto simp: price_entry_ok_def opt_json_def)
  then show ?thesis using assms by (auto simp: PRICE_FIELDS_def map_of_price_field)
qed

definition price_positive :: "int option \<Rightarrow> bool" where
  "price_positive v = (case v of None \<Rightarrow> True | Some i \<Rightarrow> 0 < i)"

lemma get_price:
  "pydantic P \<Longrightarrow> price_entry_ok (map_of d (u k)) \<Longrightarrow> price_positive (get_opt_int P d k)"
  by (auto simp: price_entry_ok_def get_opt_int_def price_positive_def pydantic.int_int)

definition prices_positive :: "product_attributes \<Rightarrow> bool" where
  "prices_positive a \<longleftrightarrow> list_all price_positive [pa_min_price_jpy a, pa_max_price_jpy a, pa_target_price_jpy a,
     pa_expected_price_min_jpy a, pa_expected_price_max_jpy a]"

lemma read_attributes_prices:
  assumes "pydantic P" "read_attributes U P raw = Inr a"
  shows "prices_positive a"
proof -
  obtain d0 where a: "a = attributes_of P (foldl (\<lambda>d f. normalize_price_field U f d) d0 PRICE_FIELDS)"
    using assms(2)
    by (auto simp: read_attributes_def normalize_bonsai_json_def validate_attributes_def validate_model_def result_simps
        split: option.splits json.splits if_splits)
  have "field \<in> set PRICE_FIELDS \<Longrightarrow>
      price_positive (get_opt_int P (foldl (\<lambda>d f. normalize_price_field U f d) d0 PRICE_FIELDS) field)" for field
    by (rule get_price [OF assms(1) normalized_price_entry])
  then show ?thesis by (simp add: prices_positive_def a attributes_of_def) (simp add: PRICE_FIELDS_def)
qed

section \<open>Ranges, categories, queries\<close>

definition range_ordered :: "int option \<Rightarrow> int option \<Rightarrow> bool" where
  "range_ordered lo hi = (case (lo, hi) of (Some x, Some y) \<Rightarrow> x \<le> y | _ \<Rightarrow> True)"

lemma swap_range_ordered:
  "range_ordered (fst (swap_range lo hi)) (snd (swap_range lo hi))"
  by (auto simp: range_ordered_def swap_range_def split: option.splits)

lemma swap_range_positive:
  "price_positive lo \<Longrightarrow> price_positive hi \<Longrightarrow>
     price_positive (fst (swap_range lo hi)) \<and> price_positive (snd (swap_range lo hi))"
  by (auto simp: price_positive_def swap_range_def split: option.splits)

text \<open>A category that is kept is supported by the name and the features.\<close>

definition categories_supported :: "unicode \<Rightarrow> product_attributes \<Rightarrow> bool" where
  "categories_supported U a \<longleftrightarrow>
     (\<not> present (pa_category_ja a) \<or> japanese_category_evidence (the (pa_category_ja a))
        (Some (pa_estimated_product_name_ja a) # map Some (pa_features_ja a)))
     \<and> (\<not> present (pa_category_en a) \<or> english_category_evidence U (the (pa_category_en a))
        (pa_estimated_product_name_en a # map Some (pa_features_en a)))"

lemma categories_check_supported: "categories_supported U (categories_check U a)"
  by (auto simp: categories_supported_def categories_check_def Let_def present_def)

definition usable_attributes :: "unicode \<Rightarrow> product_attributes \<Rightarrow> bool" where
  "usable_attributes U a \<longleftrightarrow>
     pa_search_queries_ja a \<noteq> [] \<and> prices_positive a
     \<and> range_ordered (pa_min_price_jpy a) (pa_max_price_jpy a)
     \<and> range_ordered (pa_expected_price_min_jpy a) (pa_expected_price_max_jpy a) \<and> categories_supported U a"

lemma improve_keeps:
  "pa_search_queries_ja a \<noteq> [] \<Longrightarrow> pa_search_queries_ja (improve_search_queries U a) \<noteq> []"
  "prices_positive (improve_search_queries U a) = prices_positive a"
  "categories_supported U (improve_search_queries U a) = categories_supported U a"
  by (simp_all add: improve_search_queries_def Let_def prices_positive_def categories_supported_def)

lemma read_attributes_error: "read_attributes U P raw = Inl e \<Longrightarrow> e = PyValueError BONSAI_RESPONSE_ERROR"
  by (auto simp: read_attributes_def normalize_bonsai_json_def bindE_eq_Inl split: option.splits json.splits)

lemma ranges_usable:
  "prices_positive a \<Longrightarrow> prices_positive (normalize_price_ranges a)
     \<and> range_ordered (pa_min_price_jpy (normalize_price_ranges a)) (pa_max_price_jpy (normalize_price_ranges a))
     \<and> range_ordered (pa_expected_price_min_jpy (normalize_price_ranges a)) (pa_expected_price_max_jpy (normalize_price_ranges a))"
  using swap_range_ordered [of "pa_min_price_jpy a" "pa_max_price_jpy a"]
    swap_range_ordered [of "pa_expected_price_min_jpy a" "pa_expected_price_max_jpy a"]
    swap_range_positive [of "pa_min_price_jpy a" "pa_max_price_jpy a"]
    swap_range_positive [of "pa_expected_price_min_jpy a" "pa_expected_price_max_jpy a"]
  by (auto simp: normalize_price_ranges_def prices_positive_def Let_def split: prod.splits)

lemma categories_check_keeps [simp]:
  "pa_search_queries_ja (categories_check U a) = pa_search_queries_ja a"
  "prices_positive (categories_check U a) = prices_positive a"
  "pa_min_price_jpy (categories_check U a) = pa_min_price_jpy a"
  "pa_max_price_jpy (categories_check U a) = pa_max_price_jpy a"
  "pa_expected_price_min_jpy (categories_check U a) = pa_expected_price_min_jpy a"
  "pa_expected_price_max_jpy (categories_check U a) = pa_expected_price_max_jpy a"
  by (simp_all add: categories_check_def Let_def prices_positive_def)

lemma improve_keeps_prices [simp]:
  "pa_min_price_jpy (improve_search_queries U a) = pa_min_price_jpy a"
  "pa_max_price_jpy (improve_search_queries U a) = pa_max_price_jpy a"
  "pa_expected_price_min_jpy (improve_search_queries U a) = pa_expected_price_min_jpy a"
  "pa_expected_price_max_jpy (improve_search_queries U a) = pa_expected_price_max_jpy a"
  by (simp_all add: improve_search_queries_def Let_def)

lemma usable_improved:
  "prices_positive a \<Longrightarrow> range_ordered (pa_min_price_jpy a) (pa_max_price_jpy a) \<Longrightarrow>
     range_ordered (pa_expected_price_min_jpy a) (pa_expected_price_max_jpy a) \<Longrightarrow> pa_search_queries_ja a \<noteq> [] \<Longrightarrow>
     usable_attributes U (improve_search_queries U (categories_check U a))"
  by (simp add: usable_attributes_def improve_keeps categories_check_supported)

lemma parsed_usable:
  assumes "pydantic P" "parse_attributes U P raw fallback = Inr a"
  shows "usable_attributes U a"
proof -
  obtain a0 where read: "read_attributes U P raw = Inr a0"
    and a: "a = (let a1 = normalize_price_ranges a0;
         a2 = (if pa_search_queries_ja a1 = [] then a1\<lparr>pa_search_queries_ja := [fallback]\<rparr> else a1);
         a3 = (if pa_search_queries_en a2 = [] \<and> present (pa_estimated_product_name_en a2)
               then a2\<lparr>pa_search_queries_en := [the (pa_estimated_product_name_en a2)]\<rparr> else a2) in
       improve_search_queries U (categories_check U a3))"
    using assms(2) by (auto simp: parse_attributes_def result_simps Let_def)
  note ranges = ranges_usable [OF read_attributes_prices [OF assms(1) read]]
  show ?thesis unfolding a Let_def
    by (rule usable_improved) (use ranges in \<open>simp_all add: prices_positive_def\<close>)
qed

text \<open>
  Whatever the language model returns, the extraction either answers attributes with a search
  query, positive prices, price ranges in order and only categories the name and the features
  support, or raises \<open>ValueError\<close> with its fixed message.
\<close>

theorem extracted_attributes_are_usable:
  assumes "pydantic P"
  shows "case extract_product_attributes U P raw user_input of
      Inl e \<Rightarrow> e = PyValueError BONSAI_RESPONSE_ERROR
    | Inr a \<Rightarrow> usable_attributes U a"
proof (cases "extract_product_attributes U P raw user_input")
  case (Inl e)
  then have "read_attributes U P raw = Inl e"
    by (auto simp: extract_product_attributes_def parse_attributes_def bindE_eq_Inl Let_def)
  with Inl show ?thesis using read_attributes_error by simp
next
  case (Inr a)
  then show ?thesis using parsed_usable [OF assms, of U raw user_input a] by (simp add: extract_product_attributes_def)
qed

section \<open>Prices in text\<close>

definition price_prefixes :: "pystr list" where
  "price_prefixes = [[], u '' '', [0xA5], [0xFFE5], u ''JPY'', u ''jpy '']"

definition price_suffixes :: "pystr list" where
  "price_suffixes = [[], [0x5186], u ''JPY'', u '' jpy '']"

lemma digits_of_ascii:
  assumes "unicode_tables U" "list_all (\<lambda>c. is_digit c \<or> c = 0x2C) s"
  shows "digits_of U s = filter is_digit s"
  using assms(2)
  by (induction s) (auto simp: digits_of_def unicode_tables.digit_ascii [OF assms(1)] is_digit_def)

text \<open>A number with thousands separators, followed by what ends a price.\<close>

lemma scan_amount_whole:
  assumes U: "unicode_tables U" and body: "list_all (\<lambda>c. is_digit c \<or> c = 0x2C) s" "s \<noteq> []" "is_digit (hd s)"
    and rest: "r = [] \<or> uc_digit U (hd r) = None \<and> hd r \<notin> {0x2C, 0x2E}"
  shows "scan_amount U (s @ r) = Some (filter is_digit s, [], r)"
proof -
  let ?p = "\<lambda>c. uc_digit U c \<noteq> None \<or> c = 0x2C"
  have all: "\<forall>c \<in> set s. ?p c"
    using body(1) unicode_tables.digit_ascii [OF U] by (auto simp: list_all_iff is_digit_def)
  have stop: "r = [] \<or> \<not> ?p (hd r)" using rest by auto
  have "takeWhile ?p (s @ r) = s \<and> dropWhile ?p (s @ r) = r"
    using all stop by (cases r) (auto simp: takeWhile_append dropWhile_append)
  moreover have "uc_digit U (hd s) \<noteq> None"
    using body(3) unicode_tables.digit_ascii [OF U, of "hd s"] by (auto simp: is_digit_def)
  moreover have "take 1 r \<noteq> [0x2E]" using rest by (cases r) auto
  ultimately show ?thesis
    using body(2) digits_of_ascii [OF U body(1)] by (cases s) (auto simp: scan_amount_def Let_def)
qed

lemma digit_plain: "is_digit c \<Longrightarrow> \<not> py_space c \<and> c \<noteq> 0xA5 \<and> c \<noteq> 0xFFE5 \<and> c \<noteq> 0x2B \<and> c \<noteq> 0x2D \<and> \<not> is_jpy (c # x)"
  by (auto simp: is_digit_def py_space_def is_jpy_def ascii_lower_def u_def)

lemma skip_space_simps [simp]:
  "skip_space [] = []"
  "skip_space (c # s) = (if py_space c then skip_space s else c # s)"
  by (simp_all add: skip_space_def)

lemma price_chars [simp]:
  "py_space 0x20" "\<not> py_space 0xA5" "\<not> py_space 0xFFE5" "\<not> py_space 0x4A" "\<not> py_space 0x6A" "\<not> py_space 0x5186"
  by (simp_all add: py_space_def)

lemma is_jpy_simps [simp]:
  "is_jpy [0x4A, 0x50, 0x59]" "is_jpy [0x6A, 0x70, 0x79]" "\<not> is_jpy (0xA5 # x)" "\<not> is_jpy (0xFFE5 # x)" "\<not> is_jpy []"
  by (simp_all add: is_jpy_def ascii_lower_def u_def)

lemma price_words: "u '' '' = [0x20]" "u ''JPY'' = [0x4A, 0x50, 0x59]" "u ''jpy '' = [0x6A, 0x70, 0x79, 0x20]"
    "u '' jpy '' = [0x20, 0x6A, 0x70, 0x79, 0x20]"
  by (simp_all add: u_def)

lemma skip_prefix_price:
  assumes "pre \<in> set price_prefixes" "is_digit c"
  shows "skip_prefix (pre @ c # t) = c # t"
proof -
  note digit = digit_plain [OF assms(2)]
  from assms(1) consider "pre = []" | "pre = [0x20]" | "pre = [0xA5]" | "pre = [0xFFE5]" | "pre = [0x4A, 0x50, 0x59]"
    | "pre = [0x6A, 0x70, 0x79, 0x20]" by (auto simp: price_prefixes_def price_words)
  then show ?thesis by cases (use digit in \<open>simp_all add: skip_prefix_def Let_def\<close>)
qed

lemma skip_suffix_price: "suf \<in> set price_suffixes \<Longrightarrow> skip_suffix suf = []"
  by (auto simp: price_suffixes_def price_words skip_suffix_def Let_def)

lemma suffix_stops:
  assumes "unicode_tables U" "uc_digit U 0x5186 = None" "suf \<in> set price_suffixes"
  shows "suf = [] \<or> uc_digit U (hd suf) = None \<and> hd suf \<notin> {0x2C, 0x2E}"
  using assms(3) assms(2) unicode_tables.digit_ascii [OF assms(1)]
  by (auto simp: price_suffixes_def u_def is_digit_def)

lemma digits_positive_integral:
  "0 < n \<Longrightarrow> n < 2 ^ 53 \<Longrightarrow> positive_integral (float_of_decimal False (dec_nat n) [] 0) = Some (int n)"
proof -
  assume n: "0 < n" "n < 2 ^ 53"
  have "int n < 2 ^ 53" using n(2) by (metis of_nat_less_iff of_nat_numeral of_nat_power)
  then have "rnd64 (of_int (int n)) = Fin (of_int (int n))" using n(1) by (intro rnd64_exact) simp_all
  then show ?thesis using n by (simp add: float_of_decimal_def Let_def pow10_def positive_integral_def)
qed

text \<open>
  A price of up to 53 bits written with thousands separators, a yen sign or \<open>JPY\<close> before it or
  behind it is read as that price, and so is the bare integer.
\<close>

theorem written_price_reads_back:
  assumes "unicode_tables U" "uc_digit U 0x5186 = None"
    and "0 < n" "n < 2 ^ 53" "pre \<in> set price_prefixes" "suf \<in> set price_suffixes"
    and "list_all (\<lambda>c. is_digit c \<or> c = 0x2C) body" "is_digit c" "filter is_digit (c # body) = dec_nat n"
  shows "normalize_price_value U (JStr (pre @ (c # body) @ suf)) = Some (int n)
    \<and> normalize_price_value U (JInt (int n)) = Some (int n)"
proof -
  have "scan_amount U ((c # body) @ suf) = Some (filter is_digit (c # body), [], suf)"
    by (rule scan_amount_whole [OF assms(1)]) (use assms suffix_stops [OF assms(1,2,6)] in auto)
  moreover have "skip_prefix (pre @ (c # body) @ suf) = (c # body) @ suf"
    using skip_prefix_price [OF assms(5,8)] by simp
  ultimately have "price_text U (pre @ (c # body) @ suf) = Some (float_of_decimal False (dec_nat n) [] 0)"
    using digit_plain [OF assms(8)] skip_suffix_price [OF assms(6)] assms(9)
    by (simp add: price_text_def Let_def del: filter.simps)
  then show ?thesis using digits_positive_integral assms(3,4) by (simp add: normalize_price_value_def)
qed

theorem written_price_reads_back_witness:
  "normalize_price_value ascii_unicode (JStr [0xA5, 0x31, 0x2C, 0x32, 0x33, 0x34, 0x5186]) = Some 1234"
proof -
  have "filter is_digit [0x31, 0x2C, 0x32, 0x33, 0x34] = dec_nat 1234"
    by (simp add: is_digit_def dec_nat.simps)
  then show ?thesis
    using written_price_reads_back [of ascii_unicode 1234 "[0xA5]" "[0x5186]" "[0x2C, 0x32, 0x33, 0x34]" "0x31"]
      ascii_tables.unicode_tables_axioms
    by (simp add: ascii_unicode_def price_prefixes_def price_suffixes_def is_digit_def)
qed

section \<open>Examples\<close>

definition blank_answer :: json where
  "blank_answer = JObj [(u ''estimated_product_name_ja'', JStr (u ''desk'')), (u ''search_queries_ja'', JArr [JStr []])]"

lemma blank_answer_text: "loads (extract_json_text (jprint blank_answer)) = Some blank_answer"
proof -
  have "extract_json_text (jprint blank_answer) = jprint blank_answer"
    by (simp add: extract_json_text_def Let_def blank_answer_def u_def json_string_def json_escape_def strip_def lstrip_def
        rstrip_def py_space_def fence_def)
  moreover have "json_loads (plain_pairs :: pydict \<Rightarrow> unit + json) plain_const (jprint blank_answer) = Inr blank_answer"
    using plain_hook.json_loads_print [of blank_answer "[]"] by (simp add: blank_answer_def u_def)
  ultimately show ?thesis by (simp add: loads_def)
qed

text \<open>
  A search query that is present but blank is not replaced by the user's own text, and the
  selection of the query then raises: the fallback of \<open>parse_attributes\<close> looks at the list only.
\<close>

lemma blank_answer_read:
  "\<exists>a0. read_attributes U strict_pydantic (jprint blank_answer) = Inr a0 \<and> pa_search_queries_ja a0 = [[]]
      \<and> pa_estimated_product_name_ja a0 = u ''desk'' \<and> pa_color_ja a0 = None \<and> pa_features_ja a0 = [] \<and> pa_category_ja a0 = None"
proof -
  have desk: "encodable (u ''desk'')" by (simp add: encodable_def u_def surrogate_def)
  show ?thesis
    unfolding read_attributes_def blank_answer_text
    using desk
    by (simp add: blank_answer_def normalize_bonsai_json_def LIST_FIELDS_def PRICE_FIELDS_def normalize_list_field_def
        normalize_price_field_def validate_attributes_def validate_model_def attributes_schema_def attributes_of_def
        get_str_def get_opt_str_def get_str_list_def text_of_def) (simp add: encodable_def)
qed

lemma improve_without_japanese:
  assumes "clean_dupe_lower U ([japanese_query_part (Some (pa_estimated_product_name_ja a)), japanese_query_part (pa_color_ja a)]
      @ map (\<lambda>f. japanese_query_part (Some f)) (pa_features_ja a) @ [japanese_query_part (pa_category_ja a)]) = []"
  shows "pa_search_queries_ja (improve_search_queries U a) = pa_search_queries_ja a"
  using assms by (simp add: improve_search_queries_def Let_def)

lemma blank_query_is_refused:
  "\<exists>a. extract_product_attributes U strict_pydantic (jprint blank_answer) user_input = Inr a
     \<and> pa_search_queries_ja a = [[]]
     \<and> select_outscraper_query a = Inl (PyValueError (u ''Search query must not be empty.''))"
proof -
  obtain a0 where a0: "read_attributes U strict_pydantic (jprint blank_answer) = Inr a0" "pa_search_queries_ja a0 = [[]]"
    "pa_estimated_product_name_ja a0 = u ''desk''" "pa_color_ja a0 = None" "pa_features_ja a0 = []" "pa_category_ja a0 = None"
    using blank_answer_read by blast
  have no_parts: "clean_dupe_lower U [japanese_query_part (Some (u ''desk'')), japanese_query_part None, japanese_query_part None] = []"
    by (simp add: clean_dupe_lower_def japanese_query_part_def check_contains_japanese_def japanese_char_def u_def)
  define a1 where "a1 = normalize_price_ranges a0"
  have a1: "pa_search_queries_ja a1 = [[]]" "pa_estimated_product_name_ja a1 = u ''desk''" "pa_color_ja a1 = None"
    "pa_features_ja a1 = []" "pa_category_ja a1 = None"
    using a0 by (simp_all add: a1_def normalize_price_ranges_def split: prod.splits)
  define a3 where "a3 = (if pa_search_queries_en a1 = [] \<and> present (pa_estimated_product_name_en a1)
               then a1\<lparr>pa_search_queries_en := [the (pa_estimated_product_name_en a1)]\<rparr> else a1)"
  define a4 where "a4 = categories_check U a3"
  have a4: "pa_search_queries_ja a4 = [[]]" "pa_estimated_product_name_ja a4 = u ''desk''" "pa_color_ja a4 = None"
    "pa_features_ja a4 = []" "pa_category_ja a4 = None"
    using a1 by (simp_all add: a4_def a3_def categories_check_def Let_def)
  then have "pa_search_queries_ja (improve_search_queries U a4) = [[]]"
    using no_parts by (subst improve_without_japanese) simp_all
  moreover have "extract_product_attributes U strict_pydantic (jprint blank_answer) user_input = Inr (improve_search_queries U a4)"
    using a1(1) by (simp add: extract_product_attributes_def parse_attributes_def a0(1) Let_def a4_def a3_def a1_def)
  ultimately show ?thesis by (simp add: select_outscraper_query_def validate_search_query_def)
qed

theorem extracted_attributes_are_usable_witness:
  "case extract_product_attributes ascii_unicode strict_pydantic (jprint blank_answer) [] of
      Inl e \<Rightarrow> e = PyValueError BONSAI_RESPONSE_ERROR
    | Inr a \<Rightarrow> usable_attributes ascii_unicode a"
  by (rule extracted_attributes_are_usable) (rule strict_model.pydantic_axioms)

end
