(* ===== verification/App_Products.thy ===== *)
theory App_Products
  imports App_Schema App_Attributes
begin

text \<open>
  \<open>src/services/amazon_product_normalization.py\<close>: the items of a search response become products with
  prices in yen, one for every key. A missing key of an item reads as \<open>None\<close>.
\<close>

definition TARGET_CURRENCY :: pystr where
  "TARGET_CURRENCY = u ''JPY''"

definition USD_CURRENCY :: pystr where
  "USD_CURRENCY = u ''USD''"

definition item_get :: "pydict \<Rightarrow> string \<Rightarrow> json" where
  "item_get item k = (case map_of item (u k) of None \<Rightarrow> JNull | Some v \<Rightarrow> v)"

definition py_or :: "json \<Rightarrow> json \<Rightarrow> json" where
  "py_or v w = (if truthy v then v else w)"

definition objects_of :: "json list \<Rightarrow> pydict list" where
  "objects_of xs = concat (map (\<lambda>v. case v of JObj d \<Rightarrow> [d] | _ \<Rightarrow> []) xs)"

definition iter_product_items :: "pydict \<Rightarrow> pydict list" where
  "iter_product_items response =
     (case item_get response ''data'' of
        JArr groups \<Rightarrow> concat (map (\<lambda>g. case g of JObj d \<Rightarrow> [d] | JArr xs \<Rightarrow> objects_of xs | _ \<Rightarrow> []) groups)
      | _ \<Rightarrow> [])"

section \<open>Values\<close>

definition as_non_empty_string :: "json \<Rightarrow> pystr option" where
  "as_non_empty_string v = (case v of JStr s \<Rightarrow> if strip s = [] then None else Some (strip s) | _ \<Rightarrow> None)"

definition clean_dupe_strings :: "pystr option list \<Rightarrow> pystr list" where
  "clean_dupe_strings values = from_keys (given values)"

definition collect_image_urls :: "pydict \<Rightarrow> pystr list" where
  "collect_image_urls item =
     clean_dupe_strings
       ((case item_get item ''high_res_images'' of JArr xs \<Rightarrow> map as_non_empty_string xs | _ \<Rightarrow> [])
        @ map (\<lambda>k. as_non_empty_string (item_get item k))
            [''image_1'', ''image_2'', ''image_3'', ''image_4'', ''image_5'', ''image_6'', ''image_7'', ''image_8'',
             ''image_9'', ''image_10''])"

text \<open>\<open>NUMBER_PATTERN\<close> at the start of a text, and \<open>search\<close>, which takes the leftmost match.\<close>

definition number_at :: "unicode \<Rightarrow> pystr \<Rightarrow> pyfloat option" where
  "number_at U s =
     (let neg = (take 1 s = [0x2D]); s1 = (if take 1 s \<in> {[0x2B], [0x2D]} then drop 1 s else s);
          decimals = takeWhile (\<lambda>c. uc_digit U c \<noteq> None) (drop 1 s1) in
      case scan_amount U s1 of
        Some (whole, ds, _) \<Rightarrow> Some (float_of_decimal neg whole ds 0)
      | None \<Rightarrow>
          (if take 1 s1 = [0x2E] \<and> decimals \<noteq> [] then Some (float_of_decimal neg [] (digits_of U decimals) 0) else None))"

fun search_number :: "unicode \<Rightarrow> pystr \<Rightarrow> pyfloat option" where
  "search_number U [] = None"
| "search_number U (c # s) = (case number_at U (c # s) of Some x \<Rightarrow> Some x | None \<Rightarrow> search_number U s)"

definition finite_or_none :: "pyfloat \<Rightarrow> pyfloat option" where
  "finite_or_none x = (if float_finite x then Some x else None)"

definition as_number :: "unicode \<Rightarrow> json \<Rightarrow> app_error + pyfloat option" where
  "as_number U v =
     (case v of
        JInt i \<Rightarrow> (case int_to_float i of None \<Rightarrow> Inl PyOverflowError | Some x \<Rightarrow> Inr (finite_or_none x))
      | JFloat x \<Rightarrow> Inr (finite_or_none x)
      | JStr s \<Rightarrow> Inr (case search_number U s of None \<Rightarrow> None | Some x \<Rightarrow> finite_or_none x)
      | _ \<Rightarrow> Inr None)"

text \<open>\<open>int(x)\<close>.\<close>

definition float_to_int :: "pyfloat \<Rightarrow> app_error + int" where
  "float_to_int x =
     (case float_rat x of
        Some q \<Rightarrow> Inr (trunc_rat q)
      | None \<Rightarrow> Inl (if x = NaN then PyValueError (u ''cannot convert float NaN to integer'') else PyOverflowError))"

definition as_int :: "unicode \<Rightarrow> json \<Rightarrow> app_error + int option" where
  "as_int U v =
     bindE (as_number U v) (\<lambda>n. case n of None \<Rightarrow> Inr None | Some x \<Rightarrow> bindE (float_to_int x) (\<lambda>i. Inr (Some i)))"

definition as_float :: "unicode \<Rightarrow> json \<Rightarrow> app_error + pyfloat option" where
  "as_float U v = as_number U v"

definition as_bool :: "unicode \<Rightarrow> json \<Rightarrow> bool" where
  "as_bool U v =
     (case v of
        JBool b \<Rightarrow> b
      | JInt i \<Rightarrow> i = 1
      | JFloat x \<Rightarrow> float_rat x = Some 1
      | JStr s \<Rightarrow> uc_casefold U (strip s) \<in> {u ''1'', u ''true'', u ''yes'', u ''y''}
      | _ \<Rightarrow> False)"

definition as_string_list :: "json \<Rightarrow> pystr list" where
  "as_string_list v = (case v of JArr xs \<Rightarrow> given (map as_non_empty_string xs) | _ \<Rightarrow> [])"

section \<open>Currency and price\<close>

definition text_currency :: "unicode \<Rightarrow> json \<Rightarrow> pystr option" where
  "text_currency U v =
     (case v of
        JStr s \<Rightarrow>
          (let n = uc_upper U s in
           if contains USD_CURRENCY n \<or> contains (u ''$'') n then Some USD_CURRENCY
           else if contains TARGET_CURRENCY n \<or> 0xFFE5 \<in> set n \<or> 0xA5 \<in> set n \<or> 0x5186 \<in> set n then Some TARGET_CURRENCY
           else None)
      | _ \<Rightarrow> None)"

definition detect_currency :: "unicode \<Rightarrow> pydict \<Rightarrow> pystr option" where
  "detect_currency U item =
     (case as_non_empty_string (item_get item ''currency'') of
        Some c \<Rightarrow> Some (uc_upper U c)
      | None \<Rightarrow>
          (case given (map (\<lambda>k. text_currency U (item_get item k)) [''price'', ''old_price'', ''strike_price'', ''delivery_price'']) of
             [] \<Rightarrow> None | c # _ \<Rightarrow> Some c))"

definition convert_price_to_jpy :: "unicode \<Rightarrow> settings \<Rightarrow> json \<Rightarrow> pystr option \<Rightarrow> app_error + int option" where
  "convert_price_to_jpy U s v currency =
     bindE (as_float U v) (\<lambda>price.
     case price of
       None \<Rightarrow> Inr None
     | Some x \<Rightarrow>
         (if fless x (Fin 0) then Inr None
          else if currency = Some USD_CURRENCY then
            (case int_to_float (st_usd_to_jpy_rate s) of
               None \<Rightarrow> Inl PyOverflowError
             | Some rate \<Rightarrow> bindE (float_to_int (fmul x rate)) (\<lambda>i. Inr (Some i)))
          else bindE (float_to_int x) (\<lambda>i. Inr (Some i))))"

section \<open>Products\<close>

definition product_fields ::
    "unicode \<Rightarrow> pydict \<Rightarrow> pystr \<Rightarrow> pystr option \<Rightarrow> int option \<Rightarrow> int option \<Rightarrow> pyfloat option \<Rightarrow> int option \<Rightarrow> int option \<Rightarrow> amazon_product" where
  "product_fields U item title currency price list_price rating reviews position =
     (let images = collect_image_urls item in
      \<lparr>ap_source = u ''amazon'', ap_asin = as_non_empty_string (item_get item ''asin''), ap_title = title,
       ap_brand_or_store = as_non_empty_string (item_get item ''store_title''), ap_price_jpy = price,
       ap_list_price_jpy = list_price, ap_currency = currency, ap_rating = rating, ap_review_count = reviews,
       ap_categories = as_string_list (item_get item ''categories''),
       ap_image_url = (case images of [] \<Rightarrow> None | i # _ \<Rightarrow> Some i), ap_image_urls = images,
       ap_product_url = as_non_empty_string (item_get item ''url''),
       ap_short_url = as_non_empty_string (item_get item ''short_url''),
       ap_is_prime = as_bool U (item_get item ''prime''),
       ap_availability = as_non_empty_string (item_get item ''availability''),
       ap_shipping = as_non_empty_string (item_get item ''shipping''),
       ap_source_query = as_non_empty_string (item_get item ''query''), ap_position = position,
       ap_description = as_non_empty_string (item_get item ''description'')\<rparr>)"

definition normalize_product :: "unicode \<Rightarrow> settings \<Rightarrow> pydict \<Rightarrow> app_error + amazon_product option" where
  "normalize_product U s item =
     (case as_non_empty_string (item_get item ''name'') of
        None \<Rightarrow> Inr None
      | Some title \<Rightarrow>
          (let currency = detect_currency U item in
           if currency \<notin> {None, Some [], Some TARGET_CURRENCY, Some USD_CURRENCY} then Inr None
           else
             bindE (convert_price_to_jpy U s (py_or (item_get item ''price_parsed'') (item_get item ''price'')) currency) (\<lambda>price.
             bindE (convert_price_to_jpy U s (py_or (item_get item ''old_price_parsed'') (py_or (item_get item ''strike_price_parsed'')
               (py_or (item_get item ''old_price'') (item_get item ''strike_price'')))) currency) (\<lambda>list_price.
             bindE (as_float U (item_get item ''rating'')) (\<lambda>rating.
             bindE (as_int U (item_get item ''reviews'')) (\<lambda>reviews.
             bindE (as_int U (item_get item ''position'')) (\<lambda>position.
             let p = product_fields U item title currency price list_price rating reviews position in
             bindE (guardE (product_encodable p) (PyValueError (u ''ValidationError''))) (\<lambda>_. Inr (Some p)))))))))"

definition first_text :: "pystr option list \<Rightarrow> pystr \<Rightarrow> pystr" where
  "first_text vs d = (case given vs of [] \<Rightarrow> d | s # _ \<Rightarrow> s)"

definition dedupe_key :: "amazon_product \<Rightarrow> pystr" where
  "dedupe_key p = first_text [ap_asin p, ap_short_url p, ap_product_url p] (ap_title p)"

fun normalize_items :: "unicode \<Rightarrow> settings \<Rightarrow> pystr set \<Rightarrow> pydict list \<Rightarrow> app_error + amazon_product list" where
  "normalize_items U s seen [] = Inr []"
| "normalize_items U s seen (item # items) =
     bindE (normalize_product U s item) (\<lambda>r.
     case r of
       None \<Rightarrow> normalize_items U s seen items
     | Some p \<Rightarrow>
         (if dedupe_key p \<in> seen then normalize_items U s seen items
          else bindE (normalize_items U s (insert (dedupe_key p) seen) items) (\<lambda>ps. Inr (p # ps))))"

definition normalize_amazon_products_response :: "unicode \<Rightarrow> settings \<Rightarrow> pydict \<Rightarrow> app_error + amazon_product list" where
  "normalize_amazon_products_response U s response = normalize_items U s {} (iter_product_items response)"

end
