(* ===== verification/App_Products_Facts.thy ===== *)
theory App_Products_Facts
  imports App_Products Py_Round "HOL-Library.Sublist"
begin

text \<open>What the normalisation of a response guarantees to the scoring.\<close>

section \<open>Values\<close>

lemma as_non_empty_string_Some: "as_non_empty_string v = Some s \<Longrightarrow> s \<noteq> [] \<and> strip s = s"
  by (auto simp: as_non_empty_string_def strip_idem split: json.splits if_splits)

lemma trunc_nonneg: "0 \<le> q \<Longrightarrow> 0 \<le> trunc_rat q"
  by (simp add: trunc_rat_def)

lemma float_to_int_nonneg: "\<not> fless x (Fin 0) \<Longrightarrow> float_to_int x = Inr i \<Longrightarrow> 0 \<le> i"
  by (cases x) (auto simp: float_to_int_def fless_def trunc_rat_def)

lemma fmul_nonneg: "\<not> fless x (Fin 0) \<Longrightarrow> \<not> fless y (Fin 0) \<Longrightarrow> \<not> fless (fmul x y) (Fin 0)"
proof -
  assume "\<not> fless x (Fin 0)" "\<not> fless y (Fin 0)"
  then show ?thesis
    by (cases x; cases y) (auto simp: fmul_def float_finite_def Let_def fneg_def rnd64_nonneg fless_def [of PInf]
        fless_def [of NaN] fless_def [of NegZero] fless_def [of "Fin _"] fless_def [of NInf])
qed

lemma price_nonneg:
  assumes "0 < st_usd_to_jpy_rate s" "convert_price_to_jpy U s v c = Inr (Some i)"
  shows "0 \<le> i"
proof -
  from assms(2) obtain r where "as_float U v = Inr r"
    and r: "(case r of None \<Rightarrow> Inr None
     | Some x \<Rightarrow>
         (if fless x (Fin 0) then Inr None
          else if c = Some USD_CURRENCY then
            (case int_to_float (st_usd_to_jpy_rate s) of
               None \<Rightarrow> Inl PyOverflowError
             | Some rate \<Rightarrow> bindE (float_to_int (fmul x rate)) (\<lambda>i. Inr (Some i)))
          else bindE (float_to_int x) (\<lambda>i. Inr (Some i)))) = Inr (Some i)"
    unfolding convert_price_to_jpy_def bindE_eq_Inr [of "as_float U v"] by blast
  then obtain x where x: "\<not> fless x (Fin 0)"
    and i: "(if c = Some USD_CURRENCY then
            (case int_to_float (st_usd_to_jpy_rate s) of
               None \<Rightarrow> Inl PyOverflowError
             | Some rate \<Rightarrow> bindE (float_to_int (fmul x rate)) (\<lambda>i. Inr (Some i)))
          else bindE (float_to_int x) (\<lambda>i. Inr (Some i))) = Inr (Some i)"
    by (cases r) (simp_all split: if_split_asm)
  show ?thesis
  proof (cases "c = Some USD_CURRENCY")
    case True
    with i obtain rate where rate: "int_to_float (st_usd_to_jpy_rate s) = Some rate" "float_to_int (fmul x rate) = Inr i"
      by (auto simp: result_simps split: option.splits)
    have "\<not> fless rate (Fin 0)" by (rule int_to_float_nonneg [OF _ rate(1)]) (use assms(1) in simp)
    with x have "\<not> fless (fmul x rate) (Fin 0)" by (rule fmul_nonneg)
    from float_to_int_nonneg [OF this rate(2)] show ?thesis .
  next
    case False
    with i have "float_to_int x = Inr i" by (auto simp: result_simps)
    from float_to_int_nonneg [OF x this] show ?thesis .
  qed
qed

section \<open>One product\<close>

definition product_ok :: "amazon_product \<Rightarrow> bool" where
  "product_ok p \<longleftrightarrow>
     ap_title p \<noteq> [] \<and> strip (ap_title p) = ap_title p
     \<and> ap_currency p \<in> {None, Some [], Some TARGET_CURRENCY, Some USD_CURRENCY}
     \<and> (\<forall>i. ap_price_jpy p = Some i \<longrightarrow> 0 \<le> i) \<and> (\<forall>i. ap_list_price_jpy p = Some i \<longrightarrow> 0 \<le> i)
     \<and> distinct (ap_image_urls p) \<and> ap_image_url p = (case ap_image_urls p of [] \<Rightarrow> None | i # _ \<Rightarrow> Some i)
     \<and> product_encodable p"

lemma normalize_product_ok:
  assumes "0 < st_usd_to_jpy_rate s" "normalize_product U s item = Inr (Some p)"
  shows "product_ok p"
proof -
  from assms(2) obtain title price list_price rating reviews position where
    title: "as_non_empty_string (item_get item ''name'') = Some title"
    and currency: "detect_currency U item \<in> {None, Some [], Some TARGET_CURRENCY, Some USD_CURRENCY}"
    and price: "convert_price_to_jpy U s (py_or (item_get item ''price_parsed'') (item_get item ''price'')) (detect_currency U item) = Inr price"
    and list_price: "convert_price_to_jpy U s (py_or (item_get item ''old_price_parsed'') (py_or (item_get item ''strike_price_parsed'')
               (py_or (item_get item ''old_price'') (item_get item ''strike_price'')))) (detect_currency U item) = Inr list_price"
    and p: "p = product_fields U item title (detect_currency U item) price list_price rating reviews position" "product_encodable p"
    by (auto simp: normalize_product_def Let_def result_simps split: option.splits if_splits)
  have parts: "ap_title p = title" "ap_currency p = detect_currency U item" "ap_price_jpy p = price" "ap_list_price_jpy p = list_price"
      "ap_image_urls p = collect_image_urls item"
      "ap_image_url p = (case collect_image_urls item of [] \<Rightarrow> None | i # _ \<Rightarrow> Some i)"
    by (simp_all add: p(1) product_fields_def Let_def)
  have "distinct (collect_image_urls item)" by (simp add: collect_image_urls_def clean_dupe_strings_def distinct_from_keys)
  moreover have "0 \<le> i" if "price = Some i" for i by (rule price_nonneg [OF assms(1) price [unfolded that]])
  moreover have "0 \<le> i" if "list_price = Some i" for i by (rule price_nonneg [OF assms(1) list_price [unfolded that]])
  ultimately show ?thesis
    using as_non_empty_string_Some [OF title] currency p(2) unfolding product_ok_def parts by blast
qed

section \<open>The response\<close>

text \<open>All the products of a response before duplicates are dropped.\<close>

definition all_products :: "unicode \<Rightarrow> settings \<Rightarrow> pydict list \<Rightarrow> app_error + amazon_product list" where
  "all_products U s items = bindE (mapE (normalize_product U s) items) (\<lambda>rs. Inr (concat (map (\<lambda>r. case r of None \<Rightarrow> [] | Some p \<Rightarrow> [p]) rs)))"

text \<open>The first product of every key, the keys seen before excluded.\<close>

fun keep_first :: "pystr set \<Rightarrow> amazon_product list \<Rightarrow> amazon_product list" where
  "keep_first seen [] = []"
| "keep_first seen (p # ps) =
     (if dedupe_key p \<in> seen then keep_first seen ps else p # keep_first (insert (dedupe_key p) seen) ps)"

lemma normalize_items_spec:
  "normalize_items U s seen items = bindE (all_products U s items) (\<lambda>ps. Inr (keep_first seen ps))"
proof (induction items arbitrary: seen)
  case Nil
  then show ?case by (simp add: all_products_def)
next
  case (Cons item items)
  show ?case
  proof (cases "normalize_product U s item")
    case (Inl e)
    then show ?thesis by (simp add: all_products_def)
  next
    case (Inr r)
    then show ?thesis
      using Cons.IH
      by (cases "mapE (normalize_product U s) items"; cases r) (auto simp: all_products_def)
  qed
qed

lemma keep_first_props:
  "distinct (map dedupe_key (keep_first seen ps)) \<and> dedupe_key ` set (keep_first seen ps) = dedupe_key ` set ps - seen
   \<and> subseq (keep_first seen ps) ps
   \<and> (\<forall>p \<in> set (keep_first seen ps). find (\<lambda>q. dedupe_key q = dedupe_key p) ps = Some p)"
proof (induction ps arbitrary: seen)
  case (Cons p ps)
  show ?case
  proof (cases "dedupe_key p \<in> seen")
    case True
    have "dedupe_key p \<notin> dedupe_key ` set (keep_first seen ps)" using Cons.IH [of seen] True by blast
    then show ?thesis using True Cons.IH [of seen] by (auto simp: image_iff)
  next
    case False
    have "dedupe_key p \<notin> dedupe_key ` set (keep_first (insert (dedupe_key p) seen) ps)"
      using Cons.IH [of "insert (dedupe_key p) seen"] by blast
    then show ?thesis using False Cons.IH [of "insert (dedupe_key p) seen"] by (auto simp: image_iff)
  qed
qed simp

text \<open>
  The products of a response are those of its items with the first of every key, in order, no
  two with the same key; each has a stripped, non-empty title, prices that are not negative, a
  currency the shop supports and distinct images.
\<close>

theorem response_normalises_to_distinct_products:
  assumes "0 < st_usd_to_jpy_rate s" "normalize_amazon_products_response U s response = Inr ps"
  shows "\<exists>all. all_products U s (iter_product_items response) = Inr all \<and> subseq ps all
    \<and> distinct (map dedupe_key ps) \<and> dedupe_key ` set ps = dedupe_key ` set all
    \<and> list_all (\<lambda>p. product_ok p \<and> find (\<lambda>q. dedupe_key q = dedupe_key p) all = Some p) ps"
proof -
  from assms(2) obtain all where all: "all_products U s (iter_product_items response) = Inr all" and ps: "ps = keep_first {} all"
    by (auto simp: normalize_amazon_products_response_def normalize_items_spec result_simps)
  note first = keep_first_props [of "{}" all, folded ps]
  have "product_ok p" if "p \<in> set all" for p
  proof -
    from all obtain rs where "mapE (normalize_product U s) (iter_product_items response) = Inr rs"
      and "all = concat (map (\<lambda>r. case r of None \<Rightarrow> [] | Some p \<Rightarrow> [p]) rs)"
      by (auto simp: all_products_def result_simps)
    with that obtain item where "normalize_product U s item = Inr (Some p)"
      by (auto simp: mapE_eq_Inr list_all2_conv_all_nth in_set_conv_nth split: option.splits)
    then show ?thesis by (rule normalize_product_ok [OF assms(1)])
  qed
  moreover have "set ps \<subseteq> set all" using first by (auto elim!: list_emb_set)
  ultimately show ?thesis using all first by (auto simp: list_all_iff)
qed

text \<open>
  A price in dollars near the end of the range of a \<open>float\<close>, or an integer beyond it, makes the
  normalisation of the whole response raise \<open>OverflowError\<close>.
\<close>

lemma dollar_price_overflows:
  assumes "st_usd_to_jpy_rate s = 160"
  shows "convert_price_to_jpy U s (JFloat (Fin (2 ^ 1023))) (Some USD_CURRENCY) = Inl PyOverflowError"
proof -
  have "int_to_float 160 = Some (Fin 160)" using rnd64_exact [of 160] by (simp add: int_to_float_def)
  moreover have "rnd64 (2 ^ 1023 * 160) = PInf" by (rule rnd64_overflow) simp
  then have "fmul (Fin (2 ^ 1023)) (Fin 160) = PInf" by (simp add: fmul_def float_finite_def)
  ultimately show ?thesis
    by (simp add: convert_price_to_jpy_def as_float_def as_number_def finite_or_none_def float_finite_def assms fless_def
        float_to_int_def)
qed

lemma huge_count_overflows: "as_int U (JInt (10 ^ 400)) = Inl PyOverflowError"
proof -
  have "rnd64 (10 ^ 400) = PInf" by (rule rnd64_overflow) simp
  then show ?thesis by (simp add: as_int_def as_number_def int_to_float_def)
qed

section \<open>Examples\<close>

definition demo_item :: pydict where
  "demo_item = [(u ''name'', JStr (u ''desk''))]"

definition demo_response :: pydict where
  "demo_response = [(u ''data'', JArr [JObj demo_item])]"

lemma null_values [simp]:
  "as_non_empty_string JNull = None" "text_currency U JNull = None" "as_number U JNull = Inr None"
  by (simp_all add: as_non_empty_string_def text_currency_def as_number_def)

lemma demo_response_normalises:
  "\<exists>ps. normalize_amazon_products_response ascii_unicode (default_settings []) demo_response = Inr ps"
proof -
  have title: "as_non_empty_string (JStr (u ''desk'')) = Some (u ''desk'')"
    by (simp add: as_non_empty_string_def u_def strip_def lstrip_def rstrip_def py_space_def)
  have "\<exists>r. normalize_product ascii_unicode (default_settings []) demo_item = Inr r"
  proof -
    have "detect_currency ascii_unicode demo_item = None"
      by (simp add: detect_currency_def item_get_def demo_item_def given_def)
    moreover have "product_encodable (product_fields ascii_unicode demo_item (u ''desk'') None None None None None None)"
      by (simp add: product_encodable_def product_fields_def Let_def collect_image_urls_def clean_dupe_strings_def
          item_get_def demo_item_def given_def as_string_list_def encodable_def from_keys_def)
        (simp add: u_def surrogate_def)
    ultimately show ?thesis
      using title by (simp add: normalize_product_def item_get_def demo_item_def py_or_def truthy_def Let_def
          convert_price_to_jpy_def as_float_def as_int_def)
  qed
  then show ?thesis
    by (auto simp: normalize_amazon_products_response_def iter_product_items_def item_get_def demo_response_def objects_of_def
        split: option.splits)
qed

theorem response_normalises_to_distinct_products_witness:
  "\<exists>ps. normalize_amazon_products_response ascii_unicode (default_settings []) demo_response = Inr ps
     \<and> distinct (map dedupe_key ps) \<and> list_all product_ok ps"
proof -
  obtain ps where ps: "normalize_amazon_products_response ascii_unicode (default_settings []) demo_response = Inr ps"
    using demo_response_normalises by blast
  have "0 < st_usd_to_jpy_rate (default_settings [])" by (simp add: default_settings_def)
  from response_normalises_to_distinct_products [OF this ps] ps show ?thesis by (auto simp: list_all_iff)
qed

end
