(* ===== verification/App_Cache.thy ===== *)
theory App_Cache
  imports App_Products App_Outscraper App_Scoring
begin

text \<open>
  \<open>src/utilities/json_editor.py\<close>, \<open>src/utilities/build_hash.py\<close> and
  \<open>src/repositories/cache_repository.py\<close>: the files of the cache. A file holds a JSON value or
  something that does not read as one; a JSON value that was written reads back as itself. Every
  step of a write may fail, as the environment decides. A path is the list of its parts.
\<close>

section \<open>The world of the application\<close>

datatype file_content = JsonFile json | NotJson | NotUtf8 | HugeInteger

record disk_file =
  df_content :: file_content
  df_mtime :: pyfloat

record world =
  w_files :: "(path_parts \<times> disk_file) list"
  w_net :: "event list"
  w_bonsai :: "pydict list"

datatype write_step = MakeDirs | CreateTemp | DumpJson | FlushSync | CloseTemp | ReplaceFile | Unlink

record app_env =
  ae_pydantic :: pydantic_env
  ae_sha :: hash_fn
  ae_client :: client_env
  ae_net :: network
  ae_bonsai :: "pydict list \<Rightarrow> pydict \<Rightarrow> http_outcome"
  ae_prompt :: "app_error + pystr"
  ae_score :: score_env
  ae_root :: path_parts
  ae_now :: "world \<Rightarrow> pyfloat"
  ae_fails :: "world \<Rightarrow> write_step \<Rightarrow> bool"
  ae_temp :: "world \<Rightarrow> path_parts \<Rightarrow> path_parts"

definition ae_unicode :: "app_env \<Rightarrow> unicode" where
  "ae_unicode E = te_unicode (se_text (ae_score E))"

type_synonym 'a app = "world \<Rightarrow> (app_error + 'a) \<times> world"

definition bindA :: "'a app \<Rightarrow> ('a \<Rightarrow> 'b app) \<Rightarrow> 'b app" where
  "bindA m f w = (case m w of (Inl e, w') \<Rightarrow> (Inl e, w') | (Inr x, w') \<Rightarrow> f x w')"

definition liftA :: "app_error + 'a \<Rightarrow> 'a app" where
  "liftA r w = (r, w)"

text \<open>A computation that only looks at the world.\<close>

definition lookA :: "(world \<Rightarrow> app_error + 'a) \<Rightarrow> 'a app" where
  "lookA f w = (f w, w)"

lemma bindA_Inr [result_simps]: "bindA m f w = (Inr y, w') \<longleftrightarrow> (\<exists>x w1. m w = (Inr x, w1) \<and> f x w1 = (Inr y, w'))"
  by (auto simp: bindA_def split: prod.splits sum.splits)

lemma liftA_eq [result_simps]: "liftA r w = (x, w') \<longleftrightarrow> r = x \<and> w' = w"
  by (auto simp: liftA_def)

lemma lookA_eq [result_simps]: "lookA f w = (x, w') \<longleftrightarrow> f w = x \<and> w' = w"
  by (auto simp: lookA_def)

lemma bindA_simps [simp]:
  "m w = (Inr x, w1) \<Longrightarrow> bindA m f w = f x w1"
  "m w = (Inl e, w1) \<Longrightarrow> bindA m f w = (Inl e, w1)"
  "bindA (liftA (Inr x)) f w = f x w"
  "bindA (liftA (Inl e)) f w = (Inl e, w)"
  by (simp_all add: bindA_def liftA_def)

section \<open>Writing and reading JSON\<close>

definition text_error :: "pystr \<Rightarrow> app_error option" where
  "text_error s = (if encodable s then None else Some PyUnicodeError)"

definition first_error :: "app_error option list \<Rightarrow> app_error option" where
  "first_error es = (case filter (\<lambda>e. e \<noteq> None) es of [] \<Rightarrow> None | e # _ \<Rightarrow> e)"

text \<open>The exception \<open>json.dump\<close> to a UTF-8 file ends with, in the order of the output.\<close>

fun dump_error :: "json \<Rightarrow> app_error option" where
  "dump_error (JInt i) =
     (if length (dec_nat (nat \<bar>i\<bar>)) \<le> 4300 then None
      else Some (PyValueError (u ''Exceeds the limit (4300 digits) for integer string conversion'')))"
| "dump_error (JStr s) = text_error s"
| "dump_error (JArr xs) = first_error (map dump_error xs)"
| "dump_error (JObj kvs) = first_error (concat (map (\<lambda>(k, v). [text_error k, dump_error v]) kvs))"
| "dump_error _ = None"

text \<open>
  \<open>write_json\<close>: the temporary file is removed by the \<open>finally\<close> clause only once \<open>temporary_path\<close>
  has been set, which happens after the data was flushed.
\<close>

definition file_at :: "world \<Rightarrow> path_parts \<Rightarrow> disk_file option" where
  "file_at w path = map_of (w_files w) path"

definition set_file :: "path_parts \<Rightarrow> disk_file option \<Rightarrow> world \<Rightarrow> world" where
  "set_file path f w =
     w\<lparr>w_files := (case f of None \<Rightarrow> dict_drop path (w_files w) | Some x \<Rightarrow> dict_set path x (w_files w))\<rparr>"

definition remove_temp :: "app_env \<Rightarrow> path_parts \<Rightarrow> app_error \<Rightarrow> unit app" where
  "remove_temp E temp e w = (if ae_fails E w Unlink then (Inl PyOSError, w) else (Inl e, set_file temp None w))"

definition write_json :: "app_env \<Rightarrow> path_parts \<Rightarrow> json \<Rightarrow> unit app" where
  "write_json E path data w =
     (let temp = ae_temp E w path; now = ae_now E w;
          partial = set_file temp (Some \<lparr>df_content = NotJson, df_mtime = now\<rparr>) w;
          complete = set_file temp (Some \<lparr>df_content = JsonFile data, df_mtime = now\<rparr>) w in
      if ae_fails E w MakeDirs \<or> ae_fails E w CreateTemp then (Inl PyOSError, w)
      else
        (case dump_error data of
           Some e \<Rightarrow> (Inl e, partial)
         | None \<Rightarrow>
             if ae_fails E w DumpJson \<or> ae_fails E w FlushSync then (Inl PyOSError, partial)
             else if ae_fails E w CloseTemp \<or> ae_fails E w ReplaceFile then remove_temp E temp PyOSError complete
             else (Inr (), set_file path (Some \<lparr>df_content = JsonFile data, df_mtime = now\<rparr>) (set_file temp None complete))))"

definition JSON_DECODE_ERROR :: app_error where
  "JSON_DECODE_ERROR = LibraryError (u ''JSONDecodeError'')"

definition read_json :: "path_parts \<Rightarrow> world \<Rightarrow> app_error + json" where
  "read_json path w =
     (case file_at w path of
        None \<Rightarrow> Inl PyOSError
      | Some f \<Rightarrow>
          (case df_content f of
             JsonFile v \<Rightarrow> Inr v
           | NotJson \<Rightarrow> Inl JSON_DECODE_ERROR
           | NotUtf8 \<Rightarrow> Inl PyUnicodeError
           | HugeInteger \<Rightarrow> Inl (PyValueError (u ''Exceeds the limit (4300 digits) for integer string conversion''))))"

section \<open>Cache keys\<close>

text \<open>\<open>json.dumps\<close> with \<open>allow_nan\<close> left on.\<close>

fun print_any :: "json \<Rightarrow> pystr" where
  "print_any (JFloat x) = (case x of PInf \<Rightarrow> u ''Infinity'' | NInf \<Rightarrow> u ''-Infinity'' | NaN \<Rightarrow> u ''NaN'' | _ \<Rightarrow> float_repr x)"
| "print_any (JArr xs) = [0x5B] @ join_with 0x2C (map print_any xs) @ [0x5D]"
| "print_any (JObj kvs) = [0x7B] @ join_with 0x2C (map (\<lambda>(k, v). json_string k @ 0x3A # print_any v) kvs) @ [0x7D]"
| "print_any v = jprint v"

fun ints_short :: "json \<Rightarrow> bool" where
  "ints_short (JInt i) = (length (dec_nat (nat \<bar>i\<bar>)) \<le> 4300)"
| "ints_short (JArr xs) = list_all ints_short xs"
| "ints_short (JObj kvs) = list_all (\<lambda>(k, v). ints_short v) kvs"
| "ints_short _ = True"

definition key_text :: "pydict \<Rightarrow> app_error + pystr" where
  "key_text payload =
     (if ints_short (JObj payload) then Inr (print_any (jsort (JObj payload)))
      else Inl (PyValueError (u ''Exceeds the limit (4300 digits) for integer string conversion'')))"

definition build_cache_key :: "hash_fn \<Rightarrow> pydict \<Rightarrow> app_error + pystr" where
  "build_cache_key sha payload =
     bindE (key_text payload) (\<lambda>raw.
     case utf8_encode raw of None \<Rightarrow> Inl PyUnicodeError | Some b \<Rightarrow> Inr (take 24 (sha b)))"

definition build_query_hash :: "hash_fn \<Rightarrow> pystr \<Rightarrow> app_error + pystr" where
  "build_query_hash sha query = build_cache_key sha [(u ''query'', JStr query)]"

section \<open>The repository\<close>

definition PRODUCT_ATTRIBUTES_CACHE :: pystr where
  "PRODUCT_ATTRIBUTES_CACHE = u ''product_attributes''"

definition OUTSCRAPER_RAW_CACHE :: pystr where
  "OUTSCRAPER_RAW_CACHE = u ''outscraper/raw''"

definition OUTSCRAPER_NORMALIZED_CACHE :: pystr where
  "OUTSCRAPER_NORMALIZED_CACHE = u ''outscraper/normalized''"

definition OUTSCRAPER_SCORED_CACHE :: pystr where
  "OUTSCRAPER_SCORED_CACHE = u ''outscraper/scored''"

definition path_for :: "path_parts \<Rightarrow> pystr \<Rightarrow> pystr \<Rightarrow> app_error + path_parts" where
  "path_for base namespace cache_key =
     (let parts = posix_parts namespace in
      if take 1 parts \<in> {[u ''/''], [u ''//'']} \<or> u ''..'' \<in> set parts
      then Inl (PyValueError (u ''Cache namespace must stay below the cache directory.''))
      else if cache_key = [] \<or> \<not> list_all lower_hex cache_key
      then Inl (PyValueError (u ''Cache key must be a lowercase hexadecimal string.''))
      else Inr (base @ parts @ [cache_key @ u ''.json'']))"

definition fresh_path :: "app_env \<Rightarrow> pystr \<Rightarrow> pystr \<Rightarrow> int option \<Rightarrow> world \<Rightarrow> app_error + path_parts option" where
  "fresh_path E namespace cache_key max_age w =
     bindE (path_for (ae_root E) namespace cache_key) (\<lambda>path.
     case file_at w path of
       None \<Rightarrow> Inr None
     | Some f \<Rightarrow>
         (case max_age of
            None \<Rightarrow> Inr (Some path)
          | Some age \<Rightarrow> Inr (if fless (Fin (of_int age)) (fsub (ae_now E w) (df_mtime f)) then None else Some path)))"

definition load :: "app_env \<Rightarrow> pystr \<Rightarrow> pystr \<Rightarrow> int option \<Rightarrow> world \<Rightarrow> app_error + json option" where
  "load E namespace cache_key max_age w =
     bindE (fresh_path E namespace cache_key max_age w) (\<lambda>r.
     case r of
       None \<Rightarrow> Inr None
     | Some path \<Rightarrow>
         (case read_json path w of
            Inr v \<Rightarrow> Inr (if v = JNull then None else Some v)
          | Inl e \<Rightarrow> (if e \<in> {PyOSError, PyUnicodeError, JSON_DECODE_ERROR} then Inr None else Inl e)))"

definition save :: "app_env \<Rightarrow> pystr \<Rightarrow> pystr \<Rightarrow> json \<Rightarrow> path_parts app" where
  "save E namespace cache_key data =
     bindA (liftA (path_for (ae_root E) namespace cache_key)) (\<lambda>path.
     bindA (write_json E path data) (\<lambda>_. liftA (Inr path)))"

end
