(* ===== verification/App_Cache_Facts.thy ===== *)
theory App_Cache_Facts
  imports App_Cache App_Scoring_Facts App_Outscraper_Facts App_Products_Facts
begin

text \<open>What the cache promises: a write is atomic, a path stays below the cache directory, and what was
  written reads back.\<close>

section \<open>Atomic writes\<close>

text \<open>Same calls to the outside, and the files at all other paths are the same.\<close>

definition only_file_changed :: "world \<Rightarrow> world \<Rightarrow> path_parts \<Rightarrow> bool" where
  "only_file_changed w w' path \<longleftrightarrow>
     w_net w' = w_net w \<and> w_bonsai w' = w_bonsai w \<and> (file_at w')(path := None) = (file_at w)(path := None)"

definition wrote :: "app_env \<Rightarrow> path_parts \<Rightarrow> json \<Rightarrow> world \<Rightarrow> world \<Rightarrow> bool" where
  "wrote E path data w w' \<longleftrightarrow>
     w_net w' = w_net w \<and> w_bonsai w' = w_bonsai w
     \<and> file_at w' = (file_at w)(path \<mapsto> \<lparr>df_content = JsonFile data, df_mtime = ae_now E w\<rparr>)"

lemma file_at_set_file [simp]: "file_at (set_file p f w) = (file_at w)(p := f)"
  by (cases f) (auto simp: file_at_def set_file_def map_of_dict_drop fun_eq_iff)

lemma set_file_sel [simp]: "w_net (set_file p f w) = w_net w" "w_bonsai (set_file p f w) = w_bonsai w"
  by (simp_all add: set_file_def)

lemma write_json_wrote:
  assumes "file_at w (ae_temp E w path) = None" "write_json E path data w = (Inr x, w')"
  shows "wrote E path data w w'"
  using assms
  by (auto simp: write_json_def remove_temp_def Let_def wrote_def fun_upd_idem split: option.splits if_splits)

lemma write_json_failed:
  assumes "write_json E path data w = (Inl e, w')"
  shows "only_file_changed w w' (ae_temp E w path)"
  using assms
  by (auto simp: write_json_def remove_temp_def Let_def only_file_changed_def split: option.splits if_splits)

text \<open>
  C20. Whichever step of a write fails, the file at the path is the old one or the complete new one:
  a successful write changes that file and nothing else, a failed write leaves every file but the
  temporary one as it was.
\<close>

theorem write_json_is_atomic:
  assumes "file_at w (ae_temp E w path) = None"
  shows "case write_json E path data w of
      (Inr _, w') \<Rightarrow> wrote E path data w w'
    | (Inl _, w') \<Rightarrow> only_file_changed w w' (ae_temp E w path)"
  using write_json_wrote [OF assms, of data] write_json_failed [of E path data w]
  by (cases "write_json E path data w"; cases "fst (write_json E path data w)") auto

text \<open>A write that fails before the flush leaves its temporary file behind.\<close>

lemma failed_dump_leaves_the_temporary_file:
  assumes "\<not> ae_fails E w MakeDirs" "\<not> ae_fails E w CreateTemp" "dump_error data = Some e"
  shows "fst (write_json E path data w) = Inl e \<and> file_at (snd (write_json E path data w)) (ae_temp E w path) \<noteq> None"
  using assms by (simp add: write_json_def Let_def)

text \<open>An environment in which every write succeeds, to the last name and a long run of dots.\<close>

definition unused_path :: "world \<Rightarrow> path_parts \<Rightarrow> path_parts" where
  "unused_path w path = concat (map fst (w_files w)) @ path @ [u ''tmp'']"

lemma path_in_concat: "p \<in> fst ` set xs \<Longrightarrow> length p \<le> length (concat (map fst xs))"
  by (induction xs) (auto simp: image_iff intro: trans_le_add2)

lemma unused_path: "file_at w (unused_path w path) = None"
proof -
  have "length p \<le> length (concat (map fst (w_files w)))" if "p \<in> fst ` set (w_files w)" for p
    using that by (rule path_in_concat)
  then have "unused_path w path \<notin> fst ` set (w_files w)" by (fastforce simp: unused_path_def)
  then show ?thesis by (simp add: file_at_def map_of_eq_None_iff)
qed

definition demo_app_env :: app_env where
  "demo_app_env = \<lparr>
     ae_pydantic = strict_pydantic, ae_sha = sum_digest, ae_client = ascii_client,
     ae_net = (\<lambda>_ _. Response 200 (Some (JObj demo_response))),
     ae_bonsai = (\<lambda>_ _. ConnectionFailed), ae_prompt = Inr (u ''prompt''), ae_score = demo_score_env,
     ae_root = [u ''cache''], ae_now = (\<lambda>_. Fin 0), ae_fails = (\<lambda>_ _. False), ae_temp = unused_path\<rparr>"

definition empty_world :: world where
  "empty_world = \<lparr>w_files = [], w_net = [], w_bonsai = []\<rparr>"

theorem write_json_is_atomic_witness:
  "\<exists>w'. write_json demo_app_env [u ''a.json''] JNull empty_world = (Inr (), w') \<and> wrote demo_app_env [u ''a.json''] JNull empty_world w'"
proof -
  obtain w' where "write_json demo_app_env [u ''a.json''] JNull empty_world = (Inr (), w')"
    by (simp add: write_json_def demo_app_env_def Let_def)
  moreover have "file_at empty_world (ae_temp demo_app_env empty_world [u ''a.json'']) = None"
    by (simp add: file_at_def empty_world_def)
  ultimately show ?thesis using write_json_is_atomic [of empty_world demo_app_env "[u ''a.json'']" JNull] by auto
qed

section \<open>Paths\<close>

lemma split_at_no_sep: "p \<in> set (split_at sep s) \<Longrightarrow> sep \<notin> set p"
  by (induction sep s arbitrary: p rule: split_at.induct) (auto split: list.splits if_splits)

definition plain_component :: "pystr \<Rightarrow> bool" where
  "plain_component p \<longleftrightarrow> p \<noteq> [] \<and> p \<noteq> u ''.'' \<and> p \<noteq> u ''..'' \<and> 0x2F \<notin> set p"

lemma relative_parts_plain:
  assumes "take 1 (posix_parts s) \<notin> {[u ''/''], [u ''//'']}" "u ''..'' \<notin> set (posix_parts s)" "p \<in> set (posix_parts s)"
  shows "plain_component p"
proof -
  have "posix_parts s = filter (\<lambda>p. p \<noteq> [] \<and> p \<noteq> u ''.'') (split_at 0x2F s)"
    using assms(1) by (auto simp: posix_parts_def Let_def split: if_splits)
  with assms split_at_no_sep show ?thesis by (auto simp: plain_component_def)
qed

lemma key_file_plain: "list_all lower_hex key \<Longrightarrow> plain_component (key @ u ''.json'')"
proof -
  assume "list_all lower_hex key"
  then have "0x2F \<notin> set key" by (auto simp: list_all_iff lower_hex_def is_digit_def)
  then show ?thesis by (auto simp: plain_component_def u_def)
qed

text \<open>
  A path of the cache is the cache directory followed by plain components: no namespace and no
  key leads outside of it.
\<close>

theorem cache_path_stays_below_the_root:
  assumes "path_for base namespace key = Inr path"
  shows "\<exists>rel. path = base @ rel \<and> rel \<noteq> [] \<and> list_all plain_component rel"
proof -
  from assms have parts: "take 1 (posix_parts namespace) \<notin> {[u ''/''], [u ''//'']}" "u ''..'' \<notin> set (posix_parts namespace)"
    and key: "list_all lower_hex key" and path: "path = base @ posix_parts namespace @ [key @ u ''.json'']"
    by (auto simp: path_for_def Let_def split: if_splits)
  have "list_all plain_component (posix_parts namespace)"
    using relative_parts_plain [OF parts] by (simp add: list_all_iff)
  then show ?thesis using key_file_plain [OF key] by (intro exI [of _ "posix_parts namespace @ [key @ u ''.json'']"]) (simp add: path)
qed

lemma namespace_parts:
  "posix_parts PRODUCT_ATTRIBUTES_CACHE = [u ''product_attributes'']"
  "posix_parts OUTSCRAPER_RAW_CACHE = [u ''outscraper'', u ''raw'']"
  "posix_parts OUTSCRAPER_NORMALIZED_CACHE = [u ''outscraper'', u ''normalized'']"
  "posix_parts OUTSCRAPER_SCORED_CACHE = [u ''outscraper'', u ''scored'']"
  by (simp_all add: PRODUCT_ATTRIBUTES_CACHE_def OUTSCRAPER_RAW_CACHE_def OUTSCRAPER_NORMALIZED_CACHE_def
      OUTSCRAPER_SCORED_CACHE_def posix_parts_def u_def)

theorem cache_path_stays_below_the_root_witness:
  "\<exists>rel. [u ''cache'', u ''outscraper'', u ''raw'', u ''ab.json''] = [u ''cache''] @ rel \<and> rel \<noteq> [] \<and> list_all plain_component rel"
proof -
  have "path_for [u ''cache''] OUTSCRAPER_RAW_CACHE (u ''ab'') = Inr [u ''cache'', u ''outscraper'', u ''raw'', u ''ab.json'']"
    by (simp add: path_for_def namespace_parts) (simp add: u_def lower_hex_def)
  then show ?thesis by (rule cache_path_stays_below_the_root)
qed

section \<open>What was written reads back\<close>

lemma first_error_None: "first_error es = None \<longleftrightarrow> list_all (\<lambda>e. e = None) es"
  by (induction es) (auto simp: first_error_def)

lemma text_error_None: "text_error s = None \<longleftrightarrow> encodable s"
  by (simp add: text_error_def)

lemma dump_error_text:
  "dump_error (opt_json JStr v) = None \<longleftrightarrow> (case v of None \<Rightarrow> True | Some s \<Rightarrow> encodable s)"
  "list_all (\<lambda>e. e = None) (map (dump_error \<circ> JStr) xs) = list_all encodable xs"
  by (auto simp: opt_json_def text_error_None split: option.splits) (induction xs, auto simp: text_error_None)+

lemmas dump_none = first_error_None text_error_None dump_error_text

lemma dumped_product_encodable: "dump_error (JObj (product_dump p)) = None \<Longrightarrow> product_encodable p"
  by (simp add: product_dump_def product_encodable_def dump_none list_all_append)

lemma dumped_score_encodable: "dump_error (JObj (score_dump r)) = None \<Longrightarrow> score_encodable r"
  by (simp add: score_dump_def score_encodable_def dump_none list_all_append)

lemma dumped_attributes_encodable: "dump_error (JObj (attributes_dump a)) = None \<Longrightarrow> attributes_encodable a"
  by (simp add: attributes_dump_def attributes_encodable_def dump_none list_all_append)

lemma dumped_list: "dump_error (JArr (map f xs)) = None \<Longrightarrow> x \<in> set xs \<Longrightarrow> dump_error (f x) = None"
  by (auto simp: first_error_None list_all_iff)

lemma written_dumps: "write_json E path data w = (Inr (), w') \<Longrightarrow> dump_error data = None"
  by (auto simp: write_json_def remove_temp_def Let_def split: option.splits if_splits)

end
