(* ===== verification/App_Bonsai.thy ===== *)
theory App_Bonsai
  imports App_Cache
begin

text \<open>
  \<open>src/clients/bonsai_client.py\<close>: the request to the language model and its answer. The final
  response after redirects is the environment's; a \<open>RequestException\<close> is \<open>ConnectionFailed\<close>.
\<close>

definition build_bonsai_payload :: "app_env \<Rightarrow> settings \<Rightarrow> pystr \<Rightarrow> app_error + pydict" where
  "build_bonsai_payload E s user_input =
     bindE (ae_prompt E) (\<lambda>prompt.
     Inr [(u ''model'', JStr (st_bonsai_model s)),
          (u ''messages'', JArr [
             JObj [(u ''role'', JStr (u ''system'')), (u ''content'', JStr prompt)],
             JObj [(u ''role'', JStr (u ''user'')), (u ''content'', JStr user_input)]]),
          (u ''temperature'', JFloat (st_bonsai_temperature s)),
          (u ''max_tokens'', JInt (st_bonsai_max_tokens s))])"

definition bonsai_invalid :: "string \<Rightarrow> app_error" where
  "bonsai_invalid message = BonsaiResponseError (u message)"

definition extract_bonsai_content :: "json \<Rightarrow> app_error + pystr" where
  "extract_bonsai_content data =
     (case data of
        JObj d \<Rightarrow>
          (case item_get d ''choices'' of
             JArr (JObj choice # _) \<Rightarrow>
               (case item_get choice ''message'' of
                  JObj message \<Rightarrow>
                    (case item_get message ''content'' of
                       JStr content \<Rightarrow>
                         (if strip content = []
                          then Inl (bonsai_invalid ''Bonsai response content must be a non-empty string'')
                          else Inr content)
                     | _ \<Rightarrow> Inl (bonsai_invalid ''Bonsai response content must be a non-empty string''))
                | _ \<Rightarrow> Inl (bonsai_invalid ''Bonsai response does not include a valid message''))
           | _ \<Rightarrow> Inl (bonsai_invalid ''Bonsai response does not include a valid choices list''))
      | _ \<Rightarrow> Inl (bonsai_invalid ''Bonsai response must be a JSON object''))"

definition call_bonsai :: "app_env \<Rightarrow> settings \<Rightarrow> pystr \<Rightarrow> pystr app" where
  "call_bonsai E s user_input =
     bindA (liftA (build_bonsai_payload E s user_input)) (\<lambda>payload w.
     let w' = w\<lparr>w_bonsai := w_bonsai w @ [payload]\<rparr> in
     case ae_bonsai E (w_bonsai w) payload of
       ConnectionFailed \<Rightarrow> (Inl (BonsaiRequestError (u ''Bonsai request failed'')), w')
     | LibraryRaised m \<Rightarrow> (Inl (LibraryError m), w')
     | Response status body \<Rightarrow>
         (if 400 \<le> status \<and> status < 600 then (Inl (BonsaiRequestError (u ''Bonsai request failed'')), w')
          else (case body of
                  None \<Rightarrow> (Inl (BonsaiResponseError (u ''Bonsai returned invalid JSON'')), w')
                | Some data \<Rightarrow> (extract_bonsai_content data, w'))))"

text \<open>\<open>response.ok\<close> is false exactly for the statuses that \<open>raise_for_status\<close> refuses.\<close>

definition is_bonsai_running :: "http_outcome \<Rightarrow> app_error + bool" where
  "is_bonsai_running answer =
     (case answer of
        ConnectionFailed \<Rightarrow> Inr False
      | LibraryRaised m \<Rightarrow> Inl (LibraryError m)
      | Response status _ \<Rightarrow> Inr (\<not> (400 \<le> status \<and> status < 600)))"

end
