(* ===== verification/App_Pipeline.thy ===== *)
theory App_Pipeline
  imports App_Bonsai
begin

text \<open>
  \<open>src/main/run.py\<close> with the file-writing parts of the services: the four steps of a product search
  and their caches. The messages printed are left out.
\<close>

section \<open>Cache keys of the steps\<close>

definition VERSION :: pystr where
  "VERSION = u ''2''"

definition attributes_key_payload :: "settings \<Rightarrow> pystr \<Rightarrow> pystr \<Rightarrow> pystr \<Rightarrow> pydict" where
  "attributes_key_payload s cache_scope user_input prompt_digest =
     [(u ''type'', JStr (u ''product_attributes'')), (u ''version'', JStr VERSION), (u ''cache_scope'', JStr cache_scope),
      (u ''user_input'', JStr user_input), (u ''bonsai_base_url'', JStr (st_bonsai_base_url s)),
      (u ''bonsai_model'', JStr (st_bonsai_model s)), (u ''prompt_sha256'', JStr prompt_digest),
      (u ''temperature'', JFloat (st_bonsai_temperature s)), (u ''max_tokens'', JInt (st_bonsai_max_tokens s))]"

definition build_attributes_cache_key :: "app_env \<Rightarrow> settings \<Rightarrow> pystr \<Rightarrow> pystr \<Rightarrow> app_error + pystr" where
  "build_attributes_cache_key E s user_input cache_scope =
     bindE (ae_prompt E) (\<lambda>prompt.
     case utf8_encode prompt of
       None \<Rightarrow> Inl PyUnicodeError
     | Some b \<Rightarrow> build_cache_key (ae_sha E) (attributes_key_payload s cache_scope user_input (ae_sha E b)))"

definition outscraper_key_payload :: "settings \<Rightarrow> pystr \<Rightarrow> pystr \<Rightarrow> pydict" where
  "outscraper_key_payload s cache_scope query =
     [(u ''type'', JStr (u ''outscraper_raw'')), (u ''cache_scope'', JStr cache_scope), (u ''query'', JStr query),
      (u ''endpoint'', JStr (st_outscraper_endpoint s)), (u ''domain'', JStr (st_outscraper_domain s)),
      (u ''language'', JStr (st_outscraper_language s)), (u ''postal_code'', JStr (st_outscraper_postal_code s)),
      (u ''limit'', JInt (st_outscraper_limit s))]"

definition build_outscraper_cache_key :: "app_env \<Rightarrow> settings \<Rightarrow> pystr \<Rightarrow> pystr \<Rightarrow> app_error + pystr" where
  "build_outscraper_cache_key E s query cache_scope =
     build_cache_key (ae_sha E) (outscraper_key_payload s cache_scope query)"

definition build_normalized_cache_key :: "app_env \<Rightarrow> settings \<Rightarrow> json \<Rightarrow> pystr \<Rightarrow> app_error + pystr" where
  "build_normalized_cache_key E s raw_response cache_scope =
     build_cache_key (ae_sha E)
       [(u ''type'', JStr (u ''normalized_products'')), (u ''version'', JStr VERSION), (u ''cache_scope'', JStr cache_scope),
        (u ''usd_to_jpy_rate'', JInt (st_usd_to_jpy_rate s)), (u ''raw_response'', raw_response)]"

definition build_scored_cache_key :: "app_env \<Rightarrow> settings \<Rightarrow> product_attributes \<Rightarrow> pystr \<Rightarrow> app_error + pystr" where
  "build_scored_cache_key E s a normalized_cache_key =
     build_cache_key (ae_sha E)
       [(u ''type'', JStr (u ''scored_products'')), (u ''version'', JStr VERSION), (u ''attributes'', JObj (attributes_dump a)),
        (u ''normalized_cache_key'', JStr normalized_cache_key),
        (u ''title_score_weight'', JFloat (st_title_score_weight s)),
        (u ''attribute_score_weight'', JFloat (st_attribute_score_weight s)),
        (u ''price_score_weight'', JFloat (st_price_score_weight s)),
        (u ''required_term_weight'', JInt (st_required_term_weight s)),
        (u ''color_term_weight'', JInt (st_color_term_weight s)),
        (u ''feature_term_weight'', JInt (st_feature_term_weight s)),
        (u ''preferred_term_weight'', JInt (st_preferred_term_weight s)),
        (u ''related_term_weight'', JInt (st_related_term_weight s))]"

section \<open>Steps that write\<close>

definition write_product_attributes :: "app_env \<Rightarrow> product_attributes \<Rightarrow> pystr \<Rightarrow> path_parts app" where
  "write_product_attributes E a cache_key = save E PRODUCT_ATTRIBUTES_CACHE cache_key (JObj (attributes_dump a))"

text \<open>The path a service writes its result to: the namespace below the cache directory.\<close>

definition service_path :: "app_env \<Rightarrow> string list \<Rightarrow> pystr \<Rightarrow> path_parts" where
  "service_path E namespace cache_key = ae_root E @ map u namespace @ [cache_key @ u ''.json'']"

definition call_outscraper_to :: "app_env \<Rightarrow> settings \<Rightarrow> pystr \<Rightarrow> pystr \<Rightarrow> path_parts app" where
  "call_outscraper_to E s query cache_key =
     bindA (\<lambda>w. case call_outscraper (ae_client E) (ae_net E) s query (w_net w) of (r, hist) \<Rightarrow> (r, w\<lparr>w_net := hist\<rparr>)) (\<lambda>data.
     let path = service_path E [''outscraper'', ''raw''] cache_key in
     bindA (write_json E path (JObj data)) (\<lambda>_. liftA (Inr path)))"

definition not_an_object :: app_error where
  "not_an_object = LibraryError (u ''AttributeError'')"

definition normalize :: "app_env \<Rightarrow> settings \<Rightarrow> path_parts \<Rightarrow> pystr \<Rightarrow> amazon_product list app" where
  "normalize E s path query_hash =
     bindA (lookA (read_json path)) (\<lambda>response.
     bindA (liftA (case response of
         JObj d \<Rightarrow> normalize_amazon_products_response (ae_unicode E) s d | _ \<Rightarrow> Inl not_an_object)) (\<lambda>products.
     bindA (write_json E (service_path E [''outscraper'', ''normalized''] query_hash)
       (JArr (map (\<lambda>p. JObj (product_dump p)) products))) (\<lambda>_.
     liftA (Inr products))))"

definition scoring :: "app_env \<Rightarrow> settings \<Rightarrow> product_attributes \<Rightarrow> amazon_product list \<Rightarrow> pystr \<Rightarrow> product_score list app" where
  "scoring E s a products query_hash =
     bindA (liftA (score_products (ae_score E) s a products)) (\<lambda>scored.
     bindA (write_json E (service_path E [''outscraper'', ''scored''] query_hash)
       (JArr (map (\<lambda>r. JObj (score_dump r)) scored))) (\<lambda>_.
     liftA (Inr scored)))"

text \<open>\<open>None\<close> when a value is not a list or one of its items does not validate.\<close>

definition validated_model_list :: "(json \<Rightarrow> 'm option) \<Rightarrow> json option \<Rightarrow> 'm list option" where
  "validated_model_list validate raw_items =
     (case raw_items of
        Some (JArr items) \<Rightarrow> those (map validate items)
      | _ \<Rightarrow> None)"

section \<open>The search\<close>

definition EMPTY_INPUT_MESSAGE :: pystr where
  "EMPTY_INPUT_MESSAGE = [0x691C, 0x7D22, 0x6761, 0x4EF6, 0x3092, 0x5165, 0x529B, 0x3057, 0x3066, 0x304F, 0x3060, 0x3055, 0x3044, 0x3002]"

definition MAX_SCOPE :: nat where
  "MAX_SCOPE = 128"

definition cached :: "bool \<Rightarrow> (world \<Rightarrow> app_error + 'a option) \<Rightarrow> 'a option app" where
  "cached enabled f = (if enabled then lookA f else liftA (Inr None))"

definition attributes_step :: "app_env \<Rightarrow> settings \<Rightarrow> bool \<Rightarrow> pystr \<Rightarrow> pystr \<Rightarrow> product_attributes app" where
  "attributes_step E s enabled normalized_input scope =
     bindA (liftA (build_attributes_cache_key E s normalized_input scope)) (\<lambda>key.
     bindA (cached enabled (load E PRODUCT_ATTRIBUTES_CACHE key (Some (st_llm_cache_ttl_seconds s)))) (\<lambda>cached_attributes.
     case Option.bind cached_attributes (validate_attributes (ae_pydantic E)) of
       Some a \<Rightarrow> liftA (Inr a)
     | None \<Rightarrow>
         bindA (call_bonsai E s normalized_input) (\<lambda>raw_attributes.
         bindA (liftA (extract_product_attributes (ae_unicode E) (ae_pydantic E) raw_attributes normalized_input)) (\<lambda>a.
         bindA (write_product_attributes E a key) (\<lambda>_. liftA (Inr a))))))"

text \<open>The path of the raw response together with the response.\<close>

definition response_step :: "app_env \<Rightarrow> settings \<Rightarrow> bool \<Rightarrow> pystr \<Rightarrow> pystr \<Rightarrow> (path_parts \<times> pydict) app" where
  "response_step E s enabled query scope =
     bindA (liftA (build_outscraper_cache_key E s query scope)) (\<lambda>key.
     bindA (cached enabled (fresh_path E OUTSCRAPER_RAW_CACHE key (Some (st_outscraper_cache_ttl_seconds s)))) (\<lambda>raw_path.
     bindA (cached (raw_path \<noteq> None) (load E OUTSCRAPER_RAW_CACHE key (Some (st_outscraper_cache_ttl_seconds s)))) (\<lambda>response.
     case (raw_path, response) of
       (Some path, Some (JObj d)) \<Rightarrow> liftA (Inr (path, d))
     | _ \<Rightarrow>
         bindA (call_outscraper_to E s query key) (\<lambda>path.
         bindA (lookA (read_json path)) (\<lambda>loaded.
         case loaded of
           JObj d \<Rightarrow> liftA (Inr (path, d))
         | _ \<Rightarrow> liftA (Inl (PyValueError (u ''Outscraper cache must contain a JSON object.''))))))))"

definition products_step ::
    "app_env \<Rightarrow> settings \<Rightarrow> bool \<Rightarrow> path_parts \<Rightarrow> pystr \<Rightarrow> amazon_product list app" where
  "products_step E s enabled raw_path key =
     bindA (cached enabled (load E OUTSCRAPER_NORMALIZED_CACHE key None)) (\<lambda>cached_normalized.
     case validated_model_list (validate_product (ae_pydantic E)) cached_normalized of
       Some products \<Rightarrow> liftA (Inr products)
     | None \<Rightarrow> normalize E s raw_path key)"

definition scores_step ::
    "app_env \<Rightarrow> settings \<Rightarrow> bool \<Rightarrow> product_attributes \<Rightarrow> amazon_product list \<Rightarrow> pystr \<Rightarrow> product_score list app" where
  "scores_step E s enabled a products key =
     bindA (cached enabled (load E OUTSCRAPER_SCORED_CACHE key None)) (\<lambda>cached_scored.
     case validated_model_list (validate_score (ae_pydantic E)) cached_scored of
       Some scored \<Rightarrow> liftA (Inr scored)
     | None \<Rightarrow> scoring E s a products key)"

definition run_product_search :: "app_env \<Rightarrow> settings \<Rightarrow> pystr \<Rightarrow> bool \<Rightarrow> pystr \<Rightarrow> product_score list app" where
  "run_product_search E s user_input use_cache cache_scope =
     (let normalized_input = strip user_input; scope = strip cache_scope; enabled = st_enable_cache s \<and> use_cache in
      if normalized_input = [] then liftA (Inl (PyValueError EMPTY_INPUT_MESSAGE))
      else if scope = [] \<or> MAX_SCOPE < length scope
      then liftA (Inl (PyValueError (u ''Cache scope must contain between 1 and 128 characters.'')))
      else
        bindA (attributes_step E s enabled normalized_input scope) (\<lambda>a.
        bindA (liftA (select_outscraper_query a)) (\<lambda>query.
        bindA (response_step E s enabled query scope) (\<lambda>(raw_path, raw_response).
        bindA (liftA (build_normalized_cache_key E s (JObj raw_response) scope)) (\<lambda>normalized_key.
        bindA (products_step E s enabled raw_path normalized_key) (\<lambda>products.
        bindA (liftA (build_scored_cache_key E s a normalized_key)) (\<lambda>scored_key.
        scores_step E s enabled a products scored_key)))))))"

text \<open>What the command line prints of a result: the best \<open>limit\<close> products.\<close>

definition positive_int :: "int option \<Rightarrow> app_error + int" where
  "positive_int parsed =
     (case parsed of
        None \<Rightarrow> Inl (PyValueError (u ''invalid literal for int()''))
      | Some i \<Rightarrow> if i < 1 then Inl (LibraryError (u ''ArgumentTypeError'')) else Inr i)"

end
