(* ===== verification/App_Pipeline_Facts.thy ===== *)
theory App_Pipeline_Facts
  imports App_Pipeline App_Cache_Facts Canonical_Document
begin

text \<open>The search as a whole: its checks come first, its caches are separate and are used.\<close>

section \<open>Paths of the caches\<close>

lemma path_for_service:
  "path_for (ae_root E) PRODUCT_ATTRIBUTES_CACHE key = Inr path \<Longrightarrow> path = service_path E [''product_attributes''] key"
  "path_for (ae_root E) OUTSCRAPER_RAW_CACHE key = Inr path \<Longrightarrow> path = service_path E [''outscraper'', ''raw''] key"
  "path_for (ae_root E) OUTSCRAPER_NORMALIZED_CACHE key = Inr path \<Longrightarrow> path = service_path E [''outscraper'', ''normalized''] key"
  "path_for (ae_root E) OUTSCRAPER_SCORED_CACHE key = Inr path \<Longrightarrow> path = service_path E [''outscraper'', ''scored''] key"
  by (simp_all add: path_for_def namespace_parts service_path_def Let_def split: if_splits)

lemma service_paths_differ:
  "service_path E ns k = service_path E ns' k' \<Longrightarrow> ns = ns'"
  using map_injective [of u ns ns'] by (auto simp: service_path_def inj_def)

section \<open>A world in which a value is cached\<close>

text \<open>The file at a path holds the value, and reading it again gives the value.\<close>

definition stored :: "world \<Rightarrow> path_parts \<Rightarrow> json \<Rightarrow> bool" where
  "stored w path v \<longleftrightarrow> read_json path w = Inr v \<and> v \<noteq> JNull"

text \<open>No file is too old at the time of the world.\<close>

definition all_fresh :: "app_env \<Rightarrow> settings \<Rightarrow> world \<Rightarrow> bool" where
  "all_fresh E s w \<longleftrightarrow> (\<forall>f \<in> snd ` set (w_files w).
     \<not> fless (Fin (of_int (st_llm_cache_ttl_seconds s))) (fsub (ae_now E w) (df_mtime f))
     \<and> \<not> fless (Fin (of_int (st_outscraper_cache_ttl_seconds s))) (fsub (ae_now E w) (df_mtime f)))"

lemma file_at_fresh: "all_fresh E s w \<Longrightarrow> file_at w p = Some f \<Longrightarrow>
     \<not> fless (Fin (of_int (st_llm_cache_ttl_seconds s))) (fsub (ae_now E w) (df_mtime f))
     \<and> \<not> fless (Fin (of_int (st_outscraper_cache_ttl_seconds s))) (fsub (ae_now E w) (df_mtime f))"
  unfolding all_fresh_def file_at_def by (force dest: map_of_SomeD)

lemma stored_file: "stored w path v \<Longrightarrow> \<exists>f. file_at w path = Some f"
  by (auto simp: stored_def read_json_def split: option.splits)

lemma fresh_stored:
  assumes "all_fresh E s w" "path_for (ae_root E) ns key = Inr path" "stored w path v"
    and "age \<in> {None, Some (st_llm_cache_ttl_seconds s), Some (st_outscraper_cache_ttl_seconds s)}"
  shows "fresh_path E ns key age w = Inr (Some path) \<and> load E ns key age w = Inr (Some v)"
proof -
  obtain f where f: "file_at w path = Some f" using stored_file [OF assms(3)] by blast
  have "fresh_path E ns key age w = Inr (Some path)"
    using assms(4) file_at_fresh [OF assms(1) f] by (auto simp: fresh_path_def assms(2) f)
  then show ?thesis using assms(3) by (simp add: load_def stored_def)
qed

lemma load_stored:
  "load E ns key age w = Inr (Some v) \<Longrightarrow> \<exists>path. path_for (ae_root E) ns key = Inr path \<and> stored w path v"
  by (auto simp: load_def fresh_path_def stored_def result_simps split: option.splits sum.splits if_splits)

text \<open>What a later step keeps: the file at every path but those of the given namespace.\<close>

definition keeps :: "app_env \<Rightarrow> string list \<Rightarrow> world \<Rightarrow> world \<Rightarrow> bool" where
  "keeps E ns w w' \<longleftrightarrow> (\<forall>p. (\<forall>key. p \<noteq> service_path E ns key) \<longrightarrow> file_at w' p = file_at w p)"

lemma keeps_stored:
  "keeps E ns w w' \<Longrightarrow> ns \<noteq> ns' \<Longrightarrow> stored w (service_path E ns' key) v \<Longrightarrow> stored w' (service_path E ns' key) v"
proof -
  assume "keeps E ns w w'" "ns \<noteq> ns'" and st: "stored w (service_path E ns' key) v"
  then have "file_at w' (service_path E ns' key) = file_at w (service_path E ns' key)"
    using service_paths_differ [of E ns' key ns] unfolding keeps_def by blast
  with st show ?thesis by (simp add: stored_def read_json_def)
qed

lemma keeps_refl [simp]: "keeps E ns w w"
  by (simp add: keeps_def)

definition unused_temps :: "app_env \<Rightarrow> bool" where
  "unused_temps E \<longleftrightarrow> (\<forall>w p. file_at w (ae_temp E w p) = None)"

lemma written:
  assumes "unused_temps E" "write_json E (service_path E ns key) v w = (Inr x, w')" "v \<noteq> JNull"
  shows "stored w' (service_path E ns key) v \<and> keeps E ns w w' \<and> w_net w' = w_net w \<and> w_bonsai w' = w_bonsai w"
proof -
  have "wrote E (service_path E ns key) v w w'"
    using assms(1,2) by (intro write_json_wrote) (auto simp: unused_temps_def)
  then show ?thesis using assms(3) by (auto simp: wrote_def stored_def keeps_def read_json_def)
qed

section \<open>The steps leave their results in the cache\<close>

lemma cached_eq [result_simps]: "cached enabled f w = (x, w') \<longleftrightarrow> (if enabled then f w else Inr None) = x \<and> w' = w"
  by (simp add: cached_def lookA_eq liftA_eq)

lemma call_bonsai_files: "call_bonsai E s inp w = (r, w') \<Longrightarrow> w_files w' = w_files w \<and> w_net w' = w_net w"
  by (auto simp: call_bonsai_def bindA_def liftA_def Let_def split: prod.splits sum.splits http_outcome.splits if_splits option.splits)

lemma same_files_stored: "w_files w' = w_files w \<Longrightarrow> stored w p v \<Longrightarrow> stored w' p v"
  by (simp add: stored_def read_json_def file_at_def)

lemma same_files_keeps: "w_files w1 = w_files w \<Longrightarrow> keeps E ns w1 w' \<Longrightarrow> keeps E ns w w'"
  by (simp add: keeps_def file_at_def)

lemma attributes_step_stores:
  assumes "pydantic (ae_pydantic E)" "unused_temps E" "attributes_step E s True inp scope w = (Inr a, w')"
  shows "\<exists>key v path. build_attributes_cache_key E s inp scope = Inr key
    \<and> path_for (ae_root E) PRODUCT_ATTRIBUTES_CACHE key = Inr path \<and> stored w' path v
    \<and> validate_attributes (ae_pydantic E) v = Some a"
proof -
  from assms(3) obtain key c where key: "build_attributes_cache_key E s inp scope = Inr key"
    and c: "load E PRODUCT_ATTRIBUTES_CACHE key (Some (st_llm_cache_ttl_seconds s)) w = Inr c"
    and rest: "(case Option.bind c (validate_attributes (ae_pydantic E)) of
       Some a \<Rightarrow> liftA (Inr a)
     | None \<Rightarrow>
         bindA (call_bonsai E s inp) (\<lambda>raw_attributes.
         bindA (liftA (extract_product_attributes (ae_unicode E) (ae_pydantic E) raw_attributes inp)) (\<lambda>a.
         bindA (write_product_attributes E a key) (\<lambda>_. liftA (Inr a))))) w = (Inr a, w')"
    unfolding attributes_step_def by (auto simp: result_simps)
  show ?thesis
  proof (cases "Option.bind c (validate_attributes (ae_pydantic E))")
    case (Some a')
    with rest have a: "a' = a" "w' = w" by (simp_all add: liftA_eq)
    from Some a obtain v where v: "c = Some v" "validate_attributes (ae_pydantic E) v = Some a"
      by (cases c) auto
    from load_stored [OF c [unfolded v(1)]] key v(2) a show ?thesis by blast
  next
    case None
    with rest obtain w1 path w2 where
      "path_for (ae_root E) PRODUCT_ATTRIBUTES_CACHE key = Inr path"
      "write_json E path (JObj (attributes_dump a)) w1 = (Inr (), w2)" "w' = w2"
      by (auto simp: result_simps write_product_attributes_def save_def)
    moreover from this have "path = service_path E [''product_attributes''] key" by (simp add: path_for_service)
    moreover have "validate_attributes (ae_pydantic E) (JObj (attributes_dump a)) = Some a"
      by (rule pydantic.attributes_back [OF assms(1) dumped_attributes_encodable [OF written_dumps]]) fact
    ultimately show ?thesis using key written [OF assms(2)] by blast
  qed
qed

lemma response_step_stores:
  assumes "unused_temps E" "response_step E s True query scope w = (Inr (path, d), w')"
  shows "\<exists>key. build_outscraper_cache_key E s query scope = Inr key
    \<and> path_for (ae_root E) OUTSCRAPER_RAW_CACHE key = Inr path \<and> stored w' path (JObj d)
    \<and> keeps E [''outscraper'', ''raw''] w w' \<and> w_bonsai w' = w_bonsai w"
proof -
  from assms(2) obtain key raw_path response where key: "build_outscraper_cache_key E s query scope = Inr key"
    and raw_path: "fresh_path E OUTSCRAPER_RAW_CACHE key (Some (st_outscraper_cache_ttl_seconds s)) w = Inr raw_path"
    and response: "(if raw_path \<noteq> None then load E OUTSCRAPER_RAW_CACHE key (Some (st_outscraper_cache_ttl_seconds s)) w else Inr None) = Inr response"
    and rest: "(case (raw_path, response) of
       (Some path, Some (JObj d)) \<Rightarrow> liftA (Inr (path, d))
     | _ \<Rightarrow>
         bindA (call_outscraper_to E s query key) (\<lambda>path.
         bindA (lookA (read_json path)) (\<lambda>loaded.
         case loaded of
           JObj d \<Rightarrow> liftA (Inr (path, d))
         | _ \<Rightarrow> liftA (Inl (PyValueError (u ''Outscraper cache must contain a JSON object.'')))))) w = (Inr (path, d), w')"
    using assms(2) unfolding response_step_def bindA_Inr liftA_eq cached_eq by auto
  obtain q where q: "path_for (ae_root E) OUTSCRAPER_RAW_CACHE key = Inr q"
    using raw_path by (auto simp: fresh_path_def result_simps)
  show ?thesis
  proof (cases "\<exists>p d'. raw_path = Some p \<and> response = Some (JObj d')")
    case True
    then obtain p d' where pd: "raw_path = Some p" "response = Some (JObj d')" by blast
    with rest have eq: "p = path" "d' = d" "w' = w" by (simp_all add: liftA_eq)
    have "p = q" using raw_path q pd(1) by (auto simp: fresh_path_def split: option.splits if_splits)
    have "load E OUTSCRAPER_RAW_CACHE key (Some (st_outscraper_cache_ttl_seconds s)) w = Inr (Some (JObj d))"
      using response pd eq by simp
    from load_stored [OF this] q \<open>p = q\<close> key eq show ?thesis by auto
  next
    case False
    have "(bindA (call_outscraper_to E s query key) (\<lambda>path.
         bindA (lookA (read_json path)) (\<lambda>loaded.
         case loaded of
           JObj d \<Rightarrow> liftA (Inr (path, d))
         | _ \<Rightarrow> liftA (Inl (PyValueError (u ''Outscraper cache must contain a JSON object.'')))))) w = (Inr (path, d), w')"
      using rest False by (auto split: option.splits json.splits)
    then obtain w1 where call: "call_outscraper_to E s query key w = (Inr path, w1)"
      and read: "read_json path w1 = Inr (JObj d)" "w' = w1"
      by (auto simp: result_simps split: json.splits) (metis json.exhaust)
    from call obtain data hist where path: "path = service_path E [''outscraper'', ''raw''] key"
      and done_write: "write_json E path (JObj data) (w\<lparr>w_net := hist\<rparr>) = (Inr (), w1)"
      by (auto simp: call_outscraper_to_def result_simps Let_def split: prod.splits)
    have files: "w_files (w\<lparr>w_net := hist\<rparr>) = w_files w" by simp
    have "path = q" using path path_for_service(2) [OF q] by simp
    moreover note written [OF assms(1) done_write [unfolded path]]
    ultimately show ?thesis
      using key q read path same_files_keeps [OF files] by (auto simp: stored_def)
  qed
qed

lemma validated_dumps:
  "(\<And>x. x \<in> set xs \<Longrightarrow> validate (f x) = Some x) \<Longrightarrow> validated_model_list validate (Some (JArr (map f xs))) = Some xs"
proof -
  assume "\<And>x. x \<in> set xs \<Longrightarrow> validate (f x) = Some x"
  then have "those (map validate (map f xs)) = Some xs" by (induction xs) auto
  then show ?thesis by (simp add: validated_model_list_def)
qed

lemma validated_from_cache:
  "validated_model_list validate c = Some xs \<Longrightarrow> \<exists>v. c = Some v"
  by (auto simp: validated_model_list_def split: option.splits)

lemma products_step_stores:
  assumes "pydantic (ae_pydantic E)" "unused_temps E" "products_step E s True raw_path key w = (Inr products, w')"
  shows "\<exists>v path. path_for (ae_root E) OUTSCRAPER_NORMALIZED_CACHE key = Inr path \<and> stored w' path v
    \<and> validated_model_list (validate_product (ae_pydantic E)) (Some v) = Some products
    \<and> keeps E [''outscraper'', ''normalized''] w w'"
proof -
  from assms(3) obtain c where c: "load E OUTSCRAPER_NORMALIZED_CACHE key None w = Inr c"
    and rest: "(case validated_model_list (validate_product (ae_pydantic E)) c of
       Some products \<Rightarrow> liftA (Inr products) | None \<Rightarrow> normalize E s raw_path key) w = (Inr products, w')"
    unfolding products_step_def by (auto simp: result_simps)
  show ?thesis
  proof (cases "validated_model_list (validate_product (ae_pydantic E)) c")
    case (Some ps)
    with rest have "ps = products" "w' = w" by (simp_all add: liftA_eq)
    with Some validated_from_cache [OF Some] load_stored c show ?thesis by fastforce
  next
    case None
    obtain path where path: "path_for (ae_root E) OUTSCRAPER_NORMALIZED_CACHE key = Inr path"
      using c by (auto simp: load_def fresh_path_def result_simps)
    from None rest have done_write: "write_json E (service_path E [''outscraper'', ''normalized''] key)
        (JArr (map (\<lambda>p. JObj (product_dump p)) products)) w = (Inr (), w')"
      by (auto simp: normalize_def result_simps)
    have "validated_model_list (validate_product (ae_pydantic E)) (Some (JArr (map (\<lambda>p. JObj (product_dump p)) products))) = Some products"
      by (rule validated_dumps, rule pydantic.product_back [OF assms(1) dumped_product_encodable])
        (rule dumped_list [OF written_dumps [OF done_write]])
    then show ?thesis using written [OF assms(2) done_write] path path_for_service(3) [OF path] by auto
  qed
qed

lemma scores_step_stores:
  assumes "pydantic (ae_pydantic E)" "unused_temps E" "scores_step E s True a products key w = (Inr scored, w')"
  shows "\<exists>v path. path_for (ae_root E) OUTSCRAPER_SCORED_CACHE key = Inr path \<and> stored w' path v
    \<and> validated_model_list (validate_score (ae_pydantic E)) (Some v) = Some scored
    \<and> keeps E [''outscraper'', ''scored''] w w'"
proof -
  from assms(3) obtain c where c: "load E OUTSCRAPER_SCORED_CACHE key None w = Inr c"
    and rest: "(case validated_model_list (validate_score (ae_pydantic E)) c of
       Some scored \<Rightarrow> liftA (Inr scored) | None \<Rightarrow> scoring E s a products key) w = (Inr scored, w')"
    unfolding scores_step_def by (auto simp: result_simps)
  show ?thesis
  proof (cases "validated_model_list (validate_score (ae_pydantic E)) c")
    case (Some rs)
    with rest have "rs = scored" "w' = w" by (simp_all add: liftA_eq)
    with Some validated_from_cache [OF Some] load_stored c show ?thesis by fastforce
  next
    case None
    obtain path where path: "path_for (ae_root E) OUTSCRAPER_SCORED_CACHE key = Inr path"
      using c by (auto simp: load_def fresh_path_def result_simps)
    from None rest have done_write: "write_json E (service_path E [''outscraper'', ''scored''] key)
        (JArr (map (\<lambda>r. JObj (score_dump r)) scored)) w = (Inr (), w')"
      by (auto simp: scoring_def result_simps)
    have "validated_model_list (validate_score (ae_pydantic E)) (Some (JArr (map (\<lambda>r. JObj (score_dump r)) scored))) = Some scored"
      by (rule validated_dumps, rule pydantic.score_back [OF assms(1) dumped_score_encodable])
        (rule dumped_list [OF written_dumps [OF done_write]])
    then show ?thesis using written [OF assms(2) done_write] path path_for_service(4) [OF path] by auto
  qed
qed

section \<open>A repeated search\<close>

lemma attributes_step_cached:
  assumes "all_fresh E s w" "build_attributes_cache_key E s inp scope = Inr key"
    and "path_for (ae_root E) PRODUCT_ATTRIBUTES_CACHE key = Inr path" "stored w path v"
    and "validate_attributes (ae_pydantic E) v = Some a"
  shows "attributes_step E s True inp scope w = (Inr a, w)"
  using fresh_stored [OF assms(1,3,4), of "Some (st_llm_cache_ttl_seconds s)"] assms(2,5)
  by (simp add: attributes_step_def cached_def lookA_def bindA_def liftA_def)

lemma response_step_cached:
  assumes "all_fresh E s w" "build_outscraper_cache_key E s query scope = Inr key"
    and "path_for (ae_root E) OUTSCRAPER_RAW_CACHE key = Inr path" "stored w path (JObj d)"
  shows "response_step E s True query scope w = (Inr (path, d), w)"
  using fresh_stored [OF assms(1,3,4), of "Some (st_outscraper_cache_ttl_seconds s)"] assms(2)
  by (simp add: response_step_def cached_def lookA_def bindA_def liftA_def)

lemma products_step_cached:
  assumes "all_fresh E s w" "path_for (ae_root E) OUTSCRAPER_NORMALIZED_CACHE key = Inr path" "stored w path v"
    and "validated_model_list (validate_product (ae_pydantic E)) (Some v) = Some products"
  shows "products_step E s True raw_path key w = (Inr products, w)"
  using fresh_stored [OF assms(1-3), of None] assms(4)
  by (simp add: products_step_def cached_def lookA_def bindA_def liftA_def)

lemma scores_step_cached:
  assumes "all_fresh E s w" "path_for (ae_root E) OUTSCRAPER_SCORED_CACHE key = Inr path" "stored w path v"
    and "validated_model_list (validate_score (ae_pydantic E)) (Some v) = Some scored"
  shows "scores_step E s True a products key w = (Inr scored, w)"
  using fresh_stored [OF assms(1-3), of None] assms(4)
  by (simp add: scores_step_def cached_def lookA_def bindA_def liftA_def)

text \<open>What a finished search has left behind.\<close>

lemma search_stores:
  assumes "pydantic (ae_pydantic E)" "unused_temps E" "st_enable_cache s"
    and "run_product_search E s inp True scope w = (Inr results, w')"
  shows "\<exists>a query path d nkey products skey.
    strip inp \<noteq> [] \<and> strip scope \<noteq> [] \<and> length (strip scope) \<le> MAX_SCOPE
    \<and> (\<forall>w2. w_files w2 = w_files w' \<longrightarrow> all_fresh E s w2 \<longrightarrow>
        attributes_step E s True (strip inp) (strip scope) w2 = (Inr a, w2)
        \<and> response_step E s True query (strip scope) w2 = (Inr (path, d), w2)
        \<and> products_step E s True path nkey w2 = (Inr products, w2)
        \<and> scores_step E s True a products skey w2 = (Inr results, w2))
    \<and> select_outscraper_query a = Inr query
    \<and> build_normalized_cache_key E s (JObj d) (strip scope) = Inr nkey
    \<and> build_scored_cache_key E s a nkey = Inr skey"
proof -
  from assms(3,4) obtain a w1 query path d w2 nkey products w3 skey where
    input: "strip inp \<noteq> []" "strip scope \<noteq> []" "length (strip scope) \<le> MAX_SCOPE"
    and a: "attributes_step E s True (strip inp) (strip scope) w = (Inr a, w1)"
    and query: "select_outscraper_query a = Inr query"
    and d: "response_step E s True query (strip scope) w1 = (Inr (path, d), w2)"
    and nkey: "build_normalized_cache_key E s (JObj d) (strip scope) = Inr nkey"
    and products: "products_step E s True path nkey w2 = (Inr products, w3)"
    and skey: "build_scored_cache_key E s a nkey = Inr skey"
    and results: "scores_step E s True a products skey w3 = (Inr results, w')"
    by (auto simp: run_product_search_def Let_def result_simps split: if_splits)
  from attributes_step_stores [OF assms(1,2) a] obtain k1 v1 p1 where
    s1: "build_attributes_cache_key E s (strip inp) (strip scope) = Inr k1"
    "path_for (ae_root E) PRODUCT_ATTRIBUTES_CACHE k1 = Inr p1" "stored w1 p1 v1"
    "validate_attributes (ae_pydantic E) v1 = Some a" by blast
  from response_step_stores [OF assms(2) d] obtain k2 where
    s2: "build_outscraper_cache_key E s query (strip scope) = Inr k2"
    "path_for (ae_root E) OUTSCRAPER_RAW_CACHE k2 = Inr path" "stored w2 path (JObj d)"
    and keep2: "keeps E [''outscraper'', ''raw''] w1 w2" by blast
  from products_step_stores [OF assms(1,2) products] obtain v3 p3 where
    s3: "path_for (ae_root E) OUTSCRAPER_NORMALIZED_CACHE nkey = Inr p3" "stored w3 p3 v3"
    "validated_model_list (validate_product (ae_pydantic E)) (Some v3) = Some products"
    and keep3: "keeps E [''outscraper'', ''normalized''] w2 w3" by blast
  from scores_step_stores [OF assms(1,2) results] obtain v4 p4 where
    s4: "path_for (ae_root E) OUTSCRAPER_SCORED_CACHE skey = Inr p4" "stored w' p4 v4"
    "validated_model_list (validate_score (ae_pydantic E)) (Some v4) = Some results"
    and keep4: "keeps E [''outscraper'', ''scored''] w3 w'" by blast
  note paths = path_for_service(1) [OF s1(2)] path_for_service(2) [OF s2(2)] path_for_service(3) [OF s3(1)]
  have stores: "stored w' p1 v1" "stored w' path (JObj d)" "stored w' p3 v3"
    using s1(3) s2(3) s3(2) unfolding paths
    by (auto intro!: keeps_stored [OF keep4] intro: keeps_stored [OF keep3] keeps_stored [OF keep2])
  have "attributes_step E s True (strip inp) (strip scope) w2 = (Inr a, w2)
        \<and> response_step E s True query (strip scope) w2 = (Inr (path, d), w2)
        \<and> products_step E s True path nkey w2 = (Inr products, w2)
        \<and> scores_step E s True a products skey w2 = (Inr results, w2)"
    if "w_files w2 = w_files w'" "all_fresh E s w2" for w2
    using stores [THEN same_files_stored [OF that(1)]] s4(2) [THEN same_files_stored [OF that(1)]]
      attributes_step_cached [OF that(2) s1(1,2) _ s1(4)] response_step_cached [OF that(2) s2(1,2)]
      products_step_cached [OF that(2) s3(1) _ s3(3)] scores_step_cached [OF that(2) s4(1) _ s4(3)] by blast
  then show ?thesis using input query nkey skey by blast
qed


section \<open>Separate keys\<close>

lemma plain_prints: "plain v \<Longrightarrow> print_any v = jprint v"
proof (induction v)
  case (JArr xs)
  then have "map print_any xs = map jprint xs" by (auto simp: list_all_iff)
  then show ?case by (simp only: print_any.simps jprint.simps)
next
  case (JObj kvs)
  then have "map (\<lambda>(k, v). json_string k @ 0x3A # print_any v) kvs = map (\<lambda>(k, v). json_string k @ 0x3A # jprint v) kvs"
    by (fastforce simp: list_all_iff)
  then show ?case by (simp only: print_any.simps jprint.simps)
qed simp_all

lemma outscraper_payload_plain:
  "ints_short (JObj (outscraper_key_payload s scope query)) \<Longrightarrow> plain (JObj (outscraper_key_payload s scope query))"
  by (simp add: outscraper_key_payload_def)

lemma key_text_plain:
  assumes "key_text d = Inr t" "plain (JObj d)"
  shows "dumps (JObj d) = Some t"
  using assms plain_prints [OF canon_plain [OF plain_canon_jsort [OF assms(2)]]]
  by (auto simp: key_text_def dumps_plain split: if_splits)

text \<open>The settings a response depends on.\<close>

definition response_settings :: "settings \<Rightarrow> pystr \<times> pystr \<times> pystr \<times> pystr \<times> int" where
  "response_settings s = (st_outscraper_endpoint s, st_outscraper_domain s, st_outscraper_language s,
     st_outscraper_postal_code s, st_outscraper_limit s)"

text \<open>
  The text that is hashed into the key of a cached response determines the scope, the query and
  every setting the response depends on: two scopes, two queries or two endpoints never share one.
\<close>

theorem response_keys_are_separate:
  assumes "key_text (outscraper_key_payload s scope query) = Inr t"
    and "key_text (outscraper_key_payload s' scope' query') = Inr t"
  shows "scope = scope' \<and> query = query' \<and> response_settings s = response_settings s'"
proof -
  let ?v = "outscraper_key_payload s scope query" and ?w = "outscraper_key_payload s' scope' query'"
  have plain: "plain (JObj ?v)" "plain (JObj ?w)"
    using assms outscraper_payload_plain by (auto simp: key_text_def split: if_splits)
  have "jsort (JObj ?v) = jsort (JObj ?w)"
    by (rule dumps_inject [OF plain]) (use key_text_plain [OF assms(1) plain(1)] key_text_plain [OF assms(2) plain(2)] in simp)
  then have same: "set (map (\<lambda>(k, v). (k, jsort v)) ?v) = set (map (\<lambda>(k, v). (k, jsort v)) ?w)"
    by (simp only: jsort.simps json.inject) (metis set_sort)
  have entry: "(u k, jsort x) \<in> set (map (\<lambda>(k, v). (k, jsort v)) ?w)" if "(u k, x) \<in> set ?v" for k x
    unfolding same [symmetric] using that by force
  have "(u ''cache_scope'', JStr scope) \<in> set ?v" "(u ''query'', JStr query) \<in> set ?v"
    "(u ''endpoint'', JStr (st_outscraper_endpoint s)) \<in> set ?v" "(u ''domain'', JStr (st_outscraper_domain s)) \<in> set ?v"
    "(u ''language'', JStr (st_outscraper_language s)) \<in> set ?v" "(u ''postal_code'', JStr (st_outscraper_postal_code s)) \<in> set ?v"
    "(u ''limit'', JInt (st_outscraper_limit s)) \<in> set ?v"
    by (simp_all add: outscraper_key_payload_def)
  from this [THEN entry] show ?thesis by (simp add: outscraper_key_payload_def response_settings_def)
qed

section \<open>Examples\<close>

text \<open>Values whose text is ASCII: clean strings, short integers, and zero as the only \<open>float\<close>.\<close>

fun ascii_json :: "json \<Rightarrow> bool" where
  "ascii_json (JInt i) = (\<bar>i\<bar> < 10 ^ 18)"
| "ascii_json (JFloat x) = (x = Fin 0)"
| "ascii_json (JStr s) = clean s"
| "ascii_json (JArr xs) = list_all ascii_json xs"
| "ascii_json (JObj kvs) = list_all (\<lambda>(k, v). clean k \<and> ascii_json v) kvs"
| "ascii_json _ = True"

lemma ascii_words [simp]: "ascii (u ''null'')" "ascii (u ''true'')" "ascii (u ''false'')" "ascii (u ''0.0'')"
  by (simp_all add: ascii_def u_def)

lemma ascii_append [simp]: "ascii (s @ t) \<longleftrightarrow> ascii s \<and> ascii t" "ascii (c # t) \<longleftrightarrow> c < 128 \<and> ascii t" "ascii []"
  by (simp_all add: ascii_def)

lemma ascii_json_string: "clean s \<Longrightarrow> ascii (json_string s)"
  using clean_ascii [of s] by (simp add: json_string_clean)

lemma ascii_json_print: "ascii_json v \<Longrightarrow> ascii (print_any v)"
proof (induction v)
  case (JArr xs)
  then have "list_all ascii (map print_any xs)" by (auto simp: list_all_iff)
  then show ?case using ascii_join_with [where sep = "0x2C"] by simp
next
  case (JObj kvs)
  have "ascii (json_string k @ 0x3A # print_any v)" if "(k, v) \<in> set kvs" for k v
  proof -
    from JObj.prems that have "clean k" "ascii_json v" by (auto simp: list_all_iff)
    moreover from this JObj.IH [OF that] have "ascii (print_any v)" by simp
    ultimately show ?thesis using ascii_json_string by simp
  qed
  then have "list_all ascii (map (\<lambda>(k, v). json_string k @ 0x3A # print_any v) kvs)" by (auto simp: list_all_iff)
  then show ?case using ascii_join_with [where sep = "0x2C"] by simp
qed (simp_all add: float_repr_def dec_int_ascii ascii_json_string)

lemma ascii_json_sort: "ascii_json v \<Longrightarrow> ascii_json (jsort v)"
  by (induction v) (fastforce simp: list_all_iff)+

lemma ascii_json_ints: "ascii_json v \<Longrightarrow> ints_short v"
proof (induction v)
  case (JInt i)
  then have "nat \<bar>i\<bar> < 10 ^ Suc 17" by simp
  then have "length (dec_nat (nat \<bar>i\<bar>)) \<le> 4300" using length_dec_nat by fastforce
  then show ?case by simp
qed (fastforce simp: list_all_iff)+

lemma hex_clean: "list_all lower_hex s \<Longrightarrow> clean s"
  by (auto simp: clean_def list_all_iff lower_hex_def is_digit_def)

lemma ascii_json_key:
  assumes "ascii_json (JObj d)"
  shows "\<exists>key. build_cache_key sum_digest d = Inr key \<and> key \<noteq> [] \<and> list_all lower_hex key \<and> clean key"
proof -
  have "utf8_encode (print_any (jsort (JObj d))) = Some (map char_of (print_any (jsort (JObj d))))"
    by (rule utf8_encode_ascii [OF ascii_json_print [OF ascii_json_sort [OF assms]]])
  then have key: "build_cache_key sum_digest d = Inr (take 24 (sum_digest (map char_of (print_any (jsort (JObj d))))))"
    using ascii_json_ints [OF assms] by (simp add: build_cache_key_def key_text_def)
  have "list_all lower_hex (take 24 (sum_digest b)) \<and> take 24 (sum_digest b) \<noteq> []" for b
    using sum_digest_shape [of b] by (auto simp: is_sha256_def list_all_iff dest: in_set_takeD)
  then show ?thesis unfolding key using hex_clean by blast
qed

lemma path_for_key:
  assumes "key \<noteq> []" "list_all lower_hex key"
  shows "path_for base PRODUCT_ATTRIBUTES_CACHE key = Inr (base @ [u ''product_attributes'', key @ u ''.json''])"
    "path_for base OUTSCRAPER_RAW_CACHE key = Inr (base @ [u ''outscraper'', u ''raw'', key @ u ''.json''])"
    "path_for base OUTSCRAPER_NORMALIZED_CACHE key = Inr (base @ [u ''outscraper'', u ''normalized'', key @ u ''.json''])"
    "path_for base OUTSCRAPER_SCORED_CACHE key = Inr (base @ [u ''outscraper'', u ''scored'', key @ u ''.json''])"
  using assms by (simp_all add: path_for_def namespace_parts Let_def)

definition plain_settings :: settings where
  "plain_settings = (default_settings [])\<lparr>st_bonsai_temperature := Fin 0, st_title_score_weight := Fin 0,
     st_attribute_score_weight := Fin 0, st_price_score_weight := Fin 0\<rparr>"

definition demo_file :: "json \<Rightarrow> disk_file" where
  "demo_file v = \<lparr>df_content = JsonFile v, df_mtime = Fin 0\<rparr>"

lemma demo_fresh: "all_fresh demo_app_env plain_settings \<lparr>w_files = [(p1, demo_file v1), (p2, demo_file v2), (p3, demo_file v3), (p4, demo_file v4)],
    w_net = [], w_bonsai = []\<rparr>"
  by (simp add: all_fresh_def demo_file_def demo_app_env_def plain_settings_def default_settings_def fsub_def fadd_def fminus_def
      rnd64_def fless_def)

definition clean_char :: "char \<Rightarrow> bool" where
  "clean_char c = (let n = (of_char c :: nat) in 0x20 \<le> n \<and> n < 0x7F \<and> n \<noteq> 0x22 \<and> n \<noteq> 0x5C)"

lemma clean_u: "clean (u s) \<longleftrightarrow> list_all clean_char s"
  by (simp add: clean_def u_def list_all_iff clean_char_def Let_def)

lemma demo_keys:
  obtains k1 k2 k3 k4 where
    "build_attributes_cache_key demo_app_env plain_settings (u ''oak'') (u ''me'') = Inr k1"
    "build_outscraper_cache_key demo_app_env plain_settings (u ''desk'') (u ''me'') = Inr k2"
    "build_normalized_cache_key demo_app_env plain_settings (JObj demo_response) (u ''me'') = Inr k3"
    "build_scored_cache_key demo_app_env plain_settings demo_attributes k3 = Inr k4"
    "list_all (\<lambda>k. k \<noteq> [] \<and> list_all lower_hex k) [k1, k2, k3, k4]"
proof -
  have sha: "clean (sum_digest b)" for b using sum_digest_shape [of b] hex_clean by (simp add: is_sha256_def)
  have prompt: "utf8_encode (u ''prompt'') = Some (map char_of (u ''prompt''))"
    by (rule utf8_encode_ascii) (simp add: ascii_def u_def)
  have "ascii_json (JObj (attributes_key_payload plain_settings (u ''me'') (u ''oak'') (sum_digest b)))" for b
    using sha by (simp add: attributes_key_payload_def plain_settings_def default_settings_def VERSION_def clean_u clean_char_def)
  from ascii_json_key [OF this] obtain k1 where k1:
    "build_attributes_cache_key demo_app_env plain_settings (u ''oak'') (u ''me'') = Inr k1" "k1 \<noteq> []" "list_all lower_hex k1"
    by (auto simp: build_attributes_cache_key_def demo_app_env_def prompt)
  have "ascii_json (JObj (outscraper_key_payload plain_settings (u ''me'') (u ''desk'')))"
    by (simp add: outscraper_key_payload_def plain_settings_def default_settings_def clean_u clean_char_def)
  from ascii_json_key [OF this] obtain k2 where k2:
    "build_outscraper_cache_key demo_app_env plain_settings (u ''desk'') (u ''me'') = Inr k2" "k2 \<noteq> []" "list_all lower_hex k2"
    by (auto simp: build_outscraper_cache_key_def demo_app_env_def)
  have "ascii_json (JObj [(u ''type'', JStr (u ''normalized_products'')), (u ''version'', JStr VERSION), (u ''cache_scope'', JStr (u ''me'')),
        (u ''usd_to_jpy_rate'', JInt (st_usd_to_jpy_rate plain_settings)), (u ''raw_response'', JObj demo_response)])"
    by (simp add: VERSION_def plain_settings_def default_settings_def demo_response_def demo_item_def clean_u clean_char_def)
  from ascii_json_key [OF this] obtain k3 where k3:
    "build_normalized_cache_key demo_app_env plain_settings (JObj demo_response) (u ''me'') = Inr k3" "k3 \<noteq> []" "list_all lower_hex k3"
    "clean k3"
    by (auto simp: build_normalized_cache_key_def demo_app_env_def)
  have "ascii_json (JObj [(u ''type'', JStr (u ''scored_products'')), (u ''version'', JStr VERSION), (u ''attributes'', JObj (attributes_dump demo_attributes)),
        (u ''normalized_cache_key'', JStr k3),
        (u ''title_score_weight'', JFloat (st_title_score_weight plain_settings)),
        (u ''attribute_score_weight'', JFloat (st_attribute_score_weight plain_settings)),
        (u ''price_score_weight'', JFloat (st_price_score_weight plain_settings)),
        (u ''required_term_weight'', JInt (st_required_term_weight plain_settings)),
        (u ''color_term_weight'', JInt (st_color_term_weight plain_settings)),
        (u ''feature_term_weight'', JInt (st_feature_term_weight plain_settings)),
        (u ''preferred_term_weight'', JInt (st_preferred_term_weight plain_settings)),
        (u ''related_term_weight'', JInt (st_related_term_weight plain_settings))])"
    using k3(4) by (simp add: VERSION_def plain_settings_def default_settings_def attributes_dump_def demo_attributes_def opt_json_def clean_u clean_char_def)
  from ascii_json_key [OF this] obtain k4 where k4:
    "build_scored_cache_key demo_app_env plain_settings demo_attributes k3 = Inr k4" "k4 \<noteq> []" "list_all lower_hex k4"
    by (auto simp: build_scored_cache_key_def demo_app_env_def)
  show thesis using that k1 k2 k3 k4 by simp
qed

lemma demo_attributes_encodable: "attributes_encodable demo_attributes"
  by (simp add: attributes_encodable_def demo_attributes_def encodable_def u_def surrogate_def)

lemma demo_query: "select_outscraper_query demo_attributes = Inr (u ''desk'')"
  by (simp add: select_outscraper_query_def demo_attributes_def validate_search_query_def u_def)

lemma demo_texts: "strip (u ''oak'') = u ''oak''" "strip (u ''me'') = u ''me''" "u ''oak'' \<noteq> []" "u ''me'' \<noteq> []" "length (u ''me'') \<le> MAX_SCOPE"
  by (simp_all add: u_def strip_def lstrip_def rstrip_def py_space_def MAX_SCOPE_def)

lemma demo_cached_search:
  "\<exists>w. run_product_search demo_app_env plain_settings (u ''oak'') True (u ''me'') w = (Inr [], w)
    \<and> all_fresh demo_app_env plain_settings w"
proof -
  obtain k1 k2 k3 k4 where keys:
    "build_attributes_cache_key demo_app_env plain_settings (u ''oak'') (u ''me'') = Inr k1"
    "build_outscraper_cache_key demo_app_env plain_settings (u ''desk'') (u ''me'') = Inr k2"
    "build_normalized_cache_key demo_app_env plain_settings (JObj demo_response) (u ''me'') = Inr k3"
    "build_scored_cache_key demo_app_env plain_settings demo_attributes k3 = Inr k4"
    and "list_all (\<lambda>k. k \<noteq> [] \<and> list_all lower_hex k) [k1, k2, k3, k4]" by (rule demo_keys)
  then have valid: "k1 \<noteq> []" "list_all lower_hex k1" "k2 \<noteq> []" "list_all lower_hex k2" "k3 \<noteq> []" "list_all lower_hex k3"
    "k4 \<noteq> []" "list_all lower_hex k4" by simp_all
  let ?a = "JObj (attributes_dump demo_attributes)"
  let ?base = "ae_root demo_app_env"
  define p1 where "p1 = ?base @ [u ''product_attributes'', k1 @ u ''.json'']"
  define p2 where "p2 = ?base @ [u ''outscraper'', u ''raw'', k2 @ u ''.json'']"
  define p3 where "p3 = ?base @ [u ''outscraper'', u ''normalized'', k3 @ u ''.json'']"
  define p4 where "p4 = ?base @ [u ''outscraper'', u ''scored'', k4 @ u ''.json'']"
  define w where "w = \<lparr>w_files = [(p1, demo_file ?a), (p2, demo_file (JObj demo_response)), (p3, demo_file (JArr [])), (p4, demo_file (JArr []))],
    w_net = [], w_bonsai = []\<rparr>"
  note paths = path_for_key(1) [OF valid(1,2), of ?base, folded p1_def] path_for_key(2) [OF valid(3,4), of ?base, folded p2_def]
    path_for_key(3) [OF valid(5,6), of ?base, folded p3_def] path_for_key(4) [OF valid(7,8), of ?base, folded p4_def]
  have "stored w p1 ?a" "stored w p2 (JObj demo_response)" "stored w p3 (JArr [])" "stored w p4 (JArr [])"
    by (simp_all add: stored_def read_json_def file_at_def w_def demo_file_def p1_def p2_def p3_def p4_def)
  moreover have fresh: "all_fresh demo_app_env plain_settings w" unfolding w_def by (rule demo_fresh)
  moreover have "validate_attributes (ae_pydantic demo_app_env) ?a = Some demo_attributes"
    using strict_model.attributes_back [OF demo_attributes_encodable] by (simp add: demo_app_env_def)
  ultimately have steps:
      "attributes_step demo_app_env plain_settings True (u ''oak'') (u ''me'') w = (Inr demo_attributes, w)"
      "response_step demo_app_env plain_settings True (u ''desk'') (u ''me'') w = (Inr (p2, demo_response), w)"
      "products_step demo_app_env plain_settings True p2 k3 w = (Inr [], w)"
      "scores_step demo_app_env plain_settings True demo_attributes [] k4 w = (Inr [], w)"
    using attributes_step_cached [OF fresh keys(1) paths(1)] response_step_cached [OF fresh keys(2) paths(2)]
      products_step_cached [OF fresh paths(3)] scores_step_cached [OF fresh paths(4)]
    by (simp_all add: validated_model_list_def)
  have "st_enable_cache plain_settings" by (simp add: plain_settings_def default_settings_def)
  then have "run_product_search demo_app_env plain_settings (u ''oak'') True (u ''me'') w = (Inr [], w)"
    using steps keys demo_query demo_texts by (simp add: run_product_search_def Let_def)
  with fresh show ?thesis by blast
qed


theorem response_keys_are_separate_witness:
  "\<exists>t. key_text (outscraper_key_payload (default_settings []) (u ''me'') (u ''desk'')) = Inr t \<and> u ''me'' = u ''me''
    \<and> response_settings (default_settings []) = response_settings (default_settings [])"
proof -
  have "ints_short (JObj (outscraper_key_payload (default_settings []) (u ''me'') (u ''desk'')))"
    by (rule ascii_json_ints) (simp add: outscraper_key_payload_def default_settings_def clean_u clean_char_def)
  then obtain t where "key_text (outscraper_key_payload (default_settings []) (u ''me'') (u ''desk'')) = Inr t"
    by (simp add: key_text_def)
  with response_keys_are_separate [OF this this] show ?thesis by blast
qed

section \<open>What a search without caches does\<close>

text \<open>
  A blank request, a blank scope and a scope of more than 128 characters are refused before
  anything else: the search ends in \<open>ValueError\<close> and the world is as it was.
\<close>

theorem search_checks_its_input_first:
  "run_product_search E s user_input use_cache cache_scope w =
    (if strip user_input = [] then (Inl (PyValueError EMPTY_INPUT_MESSAGE), w)
     else if strip cache_scope = [] \<or> 128 < length (strip cache_scope)
     then (Inl (PyValueError (u ''Cache scope must contain between 1 and 128 characters.'')), w)
     else run_product_search E s (strip user_input) use_cache (strip cache_scope) w)"
  by (simp add: run_product_search_def Let_def liftA_def MAX_SCOPE_def strip_idem)

end
