(* ===== verification/Path_Rules.thy ===== *)
theory Path_Rules
  imports Py_Unicode Review_Models
begin

text \<open>
  \<open>tools/ai_review/sensitive_paths.py\<close> and the path rules of \<open>policy.py\<close>: which paths never cross
  a review boundary, when an environment template is empty, and the small globs a task allows and
  denies paths with. A regular expression is a sequence of character classes with a number of
  repetitions; that is all the patterns of the two modules need.
\<close>

section \<open>Patterns\<close>

text \<open>A class of characters, how often at least, and how often at most if there is a bound.\<close>

type_synonym re_item = "(nat \<Rightarrow> bool) \<times> nat \<times> nat option"

text \<open>Whether some prefix of the text is matched: the search takes any split, as backtracking does.\<close>

fun re_prefix :: "re_item list \<Rightarrow> pystr \<Rightarrow> bool" where
  "re_prefix [] s = True"
| "re_prefix ((p, lo, hi) # items) s =
     (let run = length (takeWhile p s); most = (case hi of None \<Rightarrow> run | Some h \<Rightarrow> min h run) in
      list_ex (\<lambda>n. re_prefix items (drop n s)) [lo..<Suc most])"

definition lit :: "string \<Rightarrow> re_item list" where
  "lit t = map (\<lambda>c. (\<lambda>x. x = of_char c, 1, Some 1)) t"

text \<open>
  \<open>pattern.search(text)\<close> for a pattern that begins with a condition on the characters before and
  after its start.
\<close>

fun re_search :: "(nat option \<Rightarrow> nat option \<Rightarrow> bool) \<Rightarrow> re_item list \<Rightarrow> nat option \<Rightarrow> pystr \<Rightarrow> bool" where
  "re_search start items prev [] = (start prev None \<and> re_prefix items [])"
| "re_search start items prev (c # s) =
     (start prev (Some c) \<and> re_prefix items (c # s) \<or> re_search start items (Some c) s)"

definition upper_alnum :: "nat \<Rightarrow> bool" where
  "upper_alnum c \<longleftrightarrow> upper c \<or> is_digit c"

definition not_after :: "(nat \<Rightarrow> bool) \<Rightarrow> nat option \<Rightarrow> nat option \<Rightarrow> bool" where
  "not_after p prev next_char \<longleftrightarrow> (case prev of None \<Rightarrow> True | Some c \<Rightarrow> \<not> p c)"

text \<open>\<open>\b\<close>: exactly one of the two neighbours is a word character.\<close>

definition word_boundary :: "unicode \<Rightarrow> nat option \<Rightarrow> nat option \<Rightarrow> bool" where
  "word_boundary U prev next_char \<longleftrightarrow>
     (case prev of None \<Rightarrow> False | Some c \<Rightarrow> uc_word U c) \<noteq> (case next_char of None \<Rightarrow> False | Some c \<Rightarrow> uc_word U c)"

text \<open>
  \<open>[a-z]\<close> under \<open>IGNORECASE\<close>: besides the ASCII letters it takes the dotted capital and the dotless
  small i, the long s and the Kelvin sign.
\<close>

definition any_case_letter :: "nat \<Rightarrow> bool" where
  "any_case_letter c \<longleftrightarrow> upper c \<or> lower c \<or> c = 0x130 \<or> c = 0x131 \<or> c = 0x17F \<or> c = 0x212A"

definition scheme_rest :: "nat \<Rightarrow> bool" where
  "scheme_rest c \<longleftrightarrow> any_case_letter c \<or> is_digit c \<or> c = 0x2B \<or> c = 0x2E \<or> c = 0x2D"

definition one :: "(nat \<Rightarrow> bool) \<Rightarrow> re_item" where
  "one p = (p, 1, Some 1)"

text \<open>An optional group is two patterns, one with it and one without.\<close>

definition HIGH_CONFIDENCE_SECRET_PATTERNS ::
    "unicode \<Rightarrow> ((nat option \<Rightarrow> nat option \<Rightarrow> bool) \<times> re_item list) list" where
  "HIGH_CONFIDENCE_SECRET_PATTERNS U =
     [(\<lambda>_ _. True, lit ''-----BEGIN '' @ [(\<lambda>c. upper_alnum c \<or> c = 0x20, 0, None)] @ lit ''PRIVATE KEY-----''),
      (not_after upper_alnum, lit ''AKIA'' @ [(upper_alnum, 16, Some 16)]),
      (not_after alnum,
         lit ''gh'' @ [one (\<lambda>c. c = 0x70 \<or> c = 0x6F \<or> c = 0x75 \<or> c = 0x73 \<or> c = 0x72)] @ lit ''_''
         @ [(alnum, 20, None)]),
      (not_after alnum,
         lit ''sk-proj-'' @ [(\<lambda>c. alnum c \<or> c = 0x5F \<or> c = 0x2D, 20, None)]),
      (not_after alnum,
         lit ''sk-'' @ [(\<lambda>c. alnum c \<or> c = 0x5F \<or> c = 0x2D, 20, None)]),
      (word_boundary U,
         [one any_case_letter, (scheme_rest, 1, Some 31)] @ lit ''://''
         @ [(\<lambda>c. \<not> py_space c \<and> c \<noteq> 0x2F \<and> c \<noteq> 0x3A \<and> c \<noteq> 0x40, 1, None)] @ lit '':''
         @ [(\<lambda>c. \<not> py_space c \<and> c \<noteq> 0x2F \<and> c \<noteq> 0x40, 3, None)] @ lit ''@''
         @ [(\<lambda>c. \<not> py_space c \<and> c \<noteq> 0x2F, 1, None)])]"

section \<open>Sensitive paths\<close>

definition CREDENTIAL_BASENAMES :: "pystr list" where
  "CREDENTIAL_BASENAMES = map u
     [''.envrc'', ''.authinfo'', ''.authinfo.gpg'', ''.git-credentials'', ''.gitconfig'', ''.netrc'',
      ''.npmrc'', ''.pypirc'', ''.yarnrc'', ''.yarnrc.yml'', ''_netrc'',
      ''application_default_credentials.json'', ''auth.json'', ''credentials'', ''credentials.json'',
      ''credentials.toml'', ''id_dsa'', ''id_ecdsa'', ''id_ed25519'', ''id_rsa'',
      ''service-account.json'', ''service_account.json'', ''secrets.json'', ''secrets.toml'', ''tokens.json'']"

definition CREDENTIAL_DIRECTORIES :: "pystr list" where
  "CREDENTIAL_DIRECTORIES = map u [''.aws'', ''.azure'', ''.gnupg'', ''.kube'', ''.ssh'']"

definition CREDENTIAL_SUFFIXES :: "pystr list list" where
  "CREDENTIAL_SUFFIXES = map (map u)
     [[''.config'', ''gcloud''], [''.config'', ''gh''], [''.config'', ''glab-cli''], [''.config'', ''hub''],
      [''.config'', ''openai''], [''.config'', ''pypoetry'', ''auth.toml''],
      [''.config'', ''rclone'', ''rclone.conf''], [''.docker'', ''config.json'']]"

definition path_parts_of :: "fold_fn \<Rightarrow> pystr \<Rightarrow> pystr list" where
  "path_parts_of casefold path = map casefold (posix_parts path)"

definition contains_sequence :: "pystr list \<Rightarrow> pystr list \<Rightarrow> bool" where
  "contains_sequence parts sequence \<longleftrightarrow>
     length sequence \<le> length parts
     \<and> list_ex (\<lambda>i. take (length sequence) (drop i parts) = sequence) [0..<length parts - length sequence + 1]"

definition sensitive_path_reason :: "fold_fn \<Rightarrow> pystr \<Rightarrow> string option" where
  "sensitive_path_reason casefold path =
     (let parts = path_parts_of casefold path in
      if list_ex (\<lambda>p. p = u ''.env'' \<or> take 5 p = u ''.env.'' \<or> p = u ''.envrc'') parts
        then Some ''sensitive environment path''
      else if contains_sequence parts (map u [''.streamlit'', ''secrets.toml''])
        then Some ''sensitive Streamlit secrets path''
      else if list_ex (\<lambda>p. p \<in> set CREDENTIAL_DIRECTORIES) parts then Some ''credential path''
      else if parts \<noteq> [] \<and> last parts \<in> set CREDENTIAL_BASENAMES then Some ''credential path''
      else if list_ex (contains_sequence parts) CREDENTIAL_SUFFIXES then Some ''credential path''
      else if u ''cache'' \<in> set parts \<or> u ''.cache'' \<in> set parts then Some ''sensitive cache path''
      else if u ''.git'' \<in> set parts then Some ''Git metadata''
      else None)"

section \<open>Empty environment templates\<close>

datatype template_error = TemplateError string

definition env_key :: "pystr \<Rightarrow> bool" where
  "env_key s = (case s of [] \<Rightarrow> False | c # t \<Rightarrow> (upper c \<or> lower c \<or> c = 0x5F) \<and> list_all (\<lambda>x. alnum x \<or> x = 0x5F) t)"

text \<open>One line: the guards that let a comment pass come before those that refuse.\<close>

definition template_line_check :: "pystr \<Rightarrow> template_error + unit" where
  "template_line_check line =
     (let c0 = strip line; commented = (take 1 c0 = u ''#''); c1 = (if commented then lstrip (drop 1 c0) else c0) in
      if c0 = [] then Inr ()
      else if commented \<and> (c1 = [] \<or> 0x3D \<notin> set c1) then Inr ()
      else if 0x3D \<notin> set c1 then Inl (TemplateError ''.env.example contains executable or non-assignment content'')
      else
        (let (k0, v) = partition_at 0x3D c1; k1 = strip k0;
             key = (if take 7 k1 = u ''export '' then strip (drop 7 k1) else k1) in
         if \<not> env_key key
         then (if commented then Inr () else Inl (TemplateError ''.env.example contains an invalid variable name''))
         else guardE (strip v \<in> {[], [0x27, 0x27], [0x22, 0x22]})
           (TemplateError ''.env.example must not contain configured values'')))"

definition validate_empty_env_example :: "unicode \<Rightarrow> bytes \<Rightarrow> template_error + unit" where
  "validate_empty_env_example U raw =
     (let refused = TemplateError ''.env.example is not an empty-value UTF-8 template'' in
      bindE (guardE (length raw \<le> 64 * 1024 \<and> CHR 0x00 \<notin> set raw) refused) (\<lambda>_.
      case utf8_decode raw of
        None \<Rightarrow> Inl refused
      | Some s \<Rightarrow>
          bindE (guardE (\<not> list_ex (\<lambda>(start, items). re_search start items None s) (HIGH_CONFIDENCE_SECRET_PATTERNS U))
            (TemplateError ''.env.example contains credential-like content'')) (\<lambda>_.
          let lines = splitlines s in
          bindE (guardE (length lines \<le> 1000 \<and> list_all (\<lambda>l. length l \<le> 4096) lines) refused) (\<lambda>_.
          allE template_line_check lines))))"

section \<open>Paths and globs of a task\<close>

definition safe_repo_path :: "pystr \<Rightarrow> bool" where
  "safe_repo_path path \<longleftrightarrow>
     path \<noteq> [] \<and> take 1 path \<noteq> u ''/'' \<and> 0x5C \<notin> set path
     \<and> \<not> list_ex (\<lambda>part. part = [] \<or> part = u ''..'') (posix_parts path)
     \<and> list_all (\<lambda>c. 32 \<le> c) path"

text \<open>
  The pieces of the expression a glob is compiled to: \<open>(?:.*/)?\<close>, \<open>.*\<close>, \<open>[^/]*\<close>, \<open>[^/]\<close> and an
  escaped character. A dot does not take a line feed.
\<close>

datatype glob_piece = AnyDirs | AnyText | AnyName | AnyChar | Chr nat

fun glob_regex :: "pystr \<Rightarrow> glob_piece list" where
  "glob_regex [] = []"
| "glob_regex (c # s) =
     (if c = 0x2A \<and> take 2 s = [0x2A, 0x2F] then AnyDirs # glob_regex (drop 2 s)
      else if c = 0x2A \<and> take 1 s = [0x2A] then AnyText # glob_regex (drop 1 s)
      else if c = 0x2A then AnyName # glob_regex s
      else if c = 0x3F then AnyChar # glob_regex s
      else Chr c # glob_regex s)"

text \<open>\<open>fullmatch\<close>. After the text of \<open>(?:.*/)?\<close> the rest starts behind a slash.\<close>

fun glob_fullmatch :: "glob_piece list \<Rightarrow> pystr \<Rightarrow> bool" where
  "glob_fullmatch [] s = (s = [])"
| "glob_fullmatch (Chr c # ps) s = (case s of [] \<Rightarrow> False | x # t \<Rightarrow> x = c \<and> glob_fullmatch ps t)"
| "glob_fullmatch (AnyChar # ps) s = (case s of [] \<Rightarrow> False | x # t \<Rightarrow> x \<noteq> 0x2F \<and> glob_fullmatch ps t)"
| "glob_fullmatch (AnyName # ps) s =
     list_ex (\<lambda>n. glob_fullmatch ps (drop n s)) [0..<Suc (length (takeWhile (\<lambda>x. x \<noteq> 0x2F) s))]"
| "glob_fullmatch (AnyText # ps) s =
     list_ex (\<lambda>n. glob_fullmatch ps (drop n s)) [0..<Suc (length (takeWhile (\<lambda>x. x \<noteq> 0x0A) s))]"
| "glob_fullmatch (AnyDirs # ps) s =
     (glob_fullmatch ps s \<or>
      list_ex (\<lambda>n. s ! n = 0x2F \<and> glob_fullmatch ps (drop (Suc n) s))
        (filter (\<lambda>n. n < length s) [0..<Suc (length (takeWhile (\<lambda>x. x \<noteq> 0x0A) s))]))"

definition glob_matches :: "fold_fn \<Rightarrow> pystr \<Rightarrow> pystr list \<Rightarrow> bool \<Rightarrow> bool" where
  "glob_matches casefold path patterns case_sensitive =
     (let candidate = (if case_sensitive then path else casefold path) in
      list_ex (\<lambda>p. glob_fullmatch (glob_regex (if case_sensitive then p else casefold p)) candidate) patterns)"

definition PROTECTED_PATTERNS :: "pystr list" where
  "PROTECTED_PATTERNS = map u [''.streamlit/secrets.toml'', ''**/.streamlit/secrets.toml'', ''.git/**'', ''cache/**'']"

definition is_protected_path :: "fold_fn \<Rightarrow> pystr \<Rightarrow> bool" where
  "is_protected_path casefold path \<longleftrightarrow>
     sensitive_path_reason casefold path \<noteq> None \<or> glob_matches casefold path PROTECTED_PATTERNS False"

end
