(* ===== verification/Path_Rules_Facts.thy ===== *)
theory Path_Rules_Facts
  imports Path_Rules
begin

text \<open>
  What the path rules mean: the matcher of a glob accepts the language of its expression, a glob
  without a double star keeps the depth of a path, and sensitive directories protect what is below
  them.
\<close>

section \<open>The language of a glob\<close>

text \<open>The texts one piece stands for, and the texts of a sequence of pieces.\<close>

fun piece_lang :: "glob_piece \<Rightarrow> pystr set" where
  "piece_lang AnyDirs = insert [] {a @ [0x2F] | a. 0x0A \<notin> set a}"
| "piece_lang AnyText = {a. 0x0A \<notin> set a}"
| "piece_lang AnyName = {a. 0x2F \<notin> set a}"
| "piece_lang AnyChar = {[x] | x. x \<noteq> 0x2F}"
| "piece_lang (Chr c) = {[c]}"

fun glob_lang :: "glob_piece list \<Rightarrow> pystr set" where
  "glob_lang [] = {[]}"
| "glob_lang (p # ps) = {a @ b | a b. a \<in> piece_lang p \<and> b \<in> glob_lang ps}"

lemma drop_upto_run:
  "(\<exists>n < Suc (length (takeWhile P s)). Q (drop n s)) \<longleftrightarrow> (\<exists>a b. s = a @ b \<and> list_all P a \<and> Q b)"
proof
  assume "\<exists>n < Suc (length (takeWhile P s)). Q (drop n s)"
  then obtain n where n: "n \<le> length (takeWhile P s)" "Q (drop n s)" by (auto simp: less_Suc_eq_le)
  then have "take n s = take n (takeWhile P s)"
    by (metis append_eq_conv_conj take_all_iff take_append takeWhile_dropWhile_id diff_is_0_eq' append_Nil2 take0)
  then have "list_all P (take n s)" by (metis in_set_takeD list_all_iff set_takeWhileD)
  with n show "\<exists>a b. s = a @ b \<and> list_all P a \<and> Q b" by (metis append_take_drop_id)
next
  assume "\<exists>a b. s = a @ b \<and> list_all P a \<and> Q b"
  then obtain a b where "s = a @ b" "list_all P a" "Q b" by blast
  then show "\<exists>n < Suc (length (takeWhile P s)). Q (drop n s)"
    by (intro exI [of _ "length a"]) (auto simp: list_all_iff)
qed

lemma drop_upto_run_nth:
  "(\<exists>n < Suc (length (takeWhile P s)). n < length s \<and> s ! n = c \<and> Q (drop (Suc n) s))
     \<longleftrightarrow> (\<exists>a b. s = a @ c # b \<and> list_all P a \<and> Q b)"
proof -
  have "(\<exists>n < Suc (length (takeWhile P s)). n < length s \<and> s ! n = c \<and> Q (drop (Suc n) s))
      \<longleftrightarrow> (\<exists>n < Suc (length (takeWhile P s)). (\<lambda>t. \<exists>b. t = c # b \<and> Q b) (drop n s))"
    by (intro ex_cong1 conj_cong refl, metis Cons_nth_drop_Suc drop_eq_Nil list.inject list.distinct(1) not_less)
  also have "\<dots> \<longleftrightarrow> (\<exists>a t. s = a @ t \<and> list_all P a \<and> (\<exists>b. t = c # b \<and> Q b))" by (rule drop_upto_run)
  finally show ?thesis by blast
qed

lemma all_but: "list_all (\<lambda>x. x \<noteq> c) a \<longleftrightarrow> c \<notin> set a"
  by (induction a) auto

lemma upt_ex: "list_ex P [0..<n] \<longleftrightarrow> (\<exists>i < n. P i)"
  by (auto simp: list_ex_iff)

lemma conc_AnyDirs:
  "{a @ b | a b. (a = [] \<or> (\<exists>c. a = c @ [x] \<and> P c)) \<and> b \<in> L} = L \<union> {c @ x # b | c b. P c \<and> b \<in> L}"
proof (intro equalityI subsetI)
  fix s assume "s \<in> L \<union> {c @ x # b | c b. P c \<and> b \<in> L}"
  then consider "s \<in> L" | c b where "s = (c @ [x]) @ b" "P c" "b \<in> L" by auto
  then show "s \<in> {a @ b | a b. (a = [] \<or> (\<exists>c. a = c @ [x] \<and> P c)) \<and> b \<in> L}" by cases blast+
qed auto

lemma AnyDirs_lang:
  "s \<in> glob_lang (AnyDirs # ps)
     \<longleftrightarrow> s \<in> glob_lang ps \<or> (\<exists>a b. s = a @ 0x2F # b \<and> 0x0A \<notin> set a \<and> b \<in> glob_lang ps)"
  using conc_AnyDirs [where x = "0x2F" and P = "\<lambda>c. 0x0A \<notin> set c" and L = "glob_lang ps"] by (simp add: set_eq_iff)

lemma AnyChar_lang: "x # s \<in> glob_lang (AnyChar # ps) \<longleftrightarrow> x \<noteq> 0x2F \<and> s \<in> glob_lang ps"
  by (auto intro: exI [of _ "[x]"])

lemma glob_fullmatch_iff: "glob_fullmatch ps s \<longleftrightarrow> s \<in> glob_lang ps"
proof (induction ps s rule: glob_fullmatch.induct)
  case (3 ps s)
  then show ?case
    by (cases s) (simp_all only: AnyChar_lang glob_fullmatch.simps list.case, auto)
next
  case (4 ps s)
  then have "glob_fullmatch (AnyName # ps) s \<longleftrightarrow> (\<exists>n < Suc (length (takeWhile (\<lambda>x. x \<noteq> 0x2F) s)). drop n s \<in> glob_lang ps)"
    by (auto simp: upt_ex simp del: upt_Suc)
  then show ?case unfolding drop_upto_run [where Q = "\<lambda>t. t \<in> glob_lang ps"] by (auto simp: all_but)
next
  case (5 ps s)
  then have "glob_fullmatch (AnyText # ps) s \<longleftrightarrow> (\<exists>n < Suc (length (takeWhile (\<lambda>x. x \<noteq> 0x0A) s)). drop n s \<in> glob_lang ps)"
    by (auto simp: upt_ex simp del: upt_Suc)
  then show ?case unfolding drop_upto_run [where Q = "\<lambda>t. t \<in> glob_lang ps"] by (auto simp: all_but)
next
  case (6 ps s)
  have "glob_fullmatch (AnyDirs # ps) s \<longleftrightarrow> s \<in> glob_lang ps \<or>
      (\<exists>n < Suc (length (takeWhile (\<lambda>x. x \<noteq> 0x0A) s)). n < length s \<and> s ! n = 0x2F \<and> drop (Suc n) s \<in> glob_lang ps)"
    using 6 by (auto simp: list_ex_iff simp del: upt_Suc)
  then show ?case unfolding drop_upto_run_nth [where Q = "\<lambda>t. t \<in> glob_lang ps"] AnyDirs_lang by (simp only: all_but)
qed (auto split: list.splits)

text \<open>
  A task's globs accept exactly the languages of the expressions they are compiled to, on the
  path itself or on its folding: no match is lost by the way a path is cut up, and none is added.
\<close>

theorem glob_rules_mean_their_languages:
  "glob_matches casefold path patterns True = list_ex (\<lambda>p. path \<in> glob_lang (glob_regex p)) patterns
   \<and> glob_matches casefold path patterns False
       = list_ex (\<lambda>p. casefold path \<in> glob_lang (glob_regex (casefold p))) patterns"
  by (simp add: glob_matches_def glob_fullmatch_iff)

section \<open>Single stars and depth\<close>

definition depth :: "pystr \<Rightarrow> nat" where
  "depth s = count_list s 0x2F"

definition within_name :: "glob_piece \<Rightarrow> bool" where
  "within_name p \<longleftrightarrow> p \<noteq> AnyDirs \<and> p \<noteq> AnyText"

definition piece_depth :: "glob_piece \<Rightarrow> nat" where
  "piece_depth p = (if p = Chr 0x2F then 1 else 0)"

lemma piece_depth: "within_name p \<Longrightarrow> a \<in> piece_lang p \<Longrightarrow> depth a = piece_depth p"
  by (cases p) (auto simp: within_name_def depth_def piece_depth_def count_list_0_iff)

lemma lang_depth:
  "list_all within_name ps \<Longrightarrow> s \<in> glob_lang ps \<Longrightarrow> depth s = sum_list (map piece_depth ps)"
  by (induction ps arbitrary: s) (auto simp: depth_def piece_depth [unfolded depth_def])

lemma regex_single: "\<not> contains [0x2A, 0x2A] s \<Longrightarrow>
    list_all within_name (glob_regex s) \<and> sum_list (map piece_depth (glob_regex s)) = depth s"
proof (induction s rule: glob_regex.induct)
  case (2 c s)
  have tail: "\<not> contains [0x2A, 0x2A] s"
    using 2(6) unfolding contains_iff by (metis append_Cons)
  moreover have "\<not> (c = 0x2A \<and> take 1 s = [0x2A])"
  proof
    assume "c = 0x2A \<and> take 1 s = [0x2A]"
    then have "c # s = [] @ [0x2A, 0x2A] @ drop 1 s" by (cases s) auto
    with 2(6) show False unfolding contains_iff by blast
  qed
  moreover from this have "\<not> (c = 0x2A \<and> take 2 s = [0x2A, 0x2F])" by (cases s) auto
  ultimately show ?case using 2(3,4,5) by (auto simp: within_name_def piece_depth_def depth_def)
qed (simp add: depth_def)

lemma single_star_keeps_depth:
  "\<not> contains [0x2A, 0x2A] p \<Longrightarrow> glob_fullmatch (glob_regex p) path \<Longrightarrow> depth path = depth p"
  unfolding glob_fullmatch_iff using lang_depth regex_single by metis

end
