(* ===== verification/Git_Inspect.thy ===== *)
theory Git_Inspect
  imports Path_Rules State_Error
begin

text \<open>
  The part of \<open>policy.py\<close> that runs Git and reads what it prints: commits and trees checked against
  their object names, the raw diff, the index, the tree of HEAD and the line statistics. Git and
  the file system are functions of everything observed so far, so they may change at any moment;
  every observation is recorded.
\<close>

section \<open>Observations\<close>

datatype observation =
    GitRun "pystr list" | Lstat pystr | IsLink pystr | Exists pystr | IsMount pystr
  | Resolve pystr | ResolveLax pystr | Walk pystr

text \<open>
  The exceptions: the module's own, and those of Python that no handler turns into it.
\<close>

datatype git_error =
    GitInspectionError pystr | GitUnicodeError | GitValueError | GitOverflowError | GitOsError
  | GitModelError model_error

text \<open>
  A finished process with its status, its output and its error text decoded with replacement
  characters, or the name of the exception that starting it or waiting for it raised.
\<close>

datatype process = Finished int bytes pystr | NotRun string

datatype file_kind = SymbolicLink | RegularFile | Directory | OtherFile

record file_stat =
  fs_kind :: file_kind
  fs_nlink :: nat
  fs_mode :: nat
  fs_uid :: nat
  fs_size :: nat

datatype lstat_answer = StatOk file_stat | NoSuchFile | StatFailed

text \<open>A directory as \<open>os.walk\<close> sees it: its directories with what is below them, and its other names.\<close>

datatype dir_tree = DirTree "(pystr \<times> dir_tree) list" "pystr list"

record git_env =
  ge_git :: "observation list \<Rightarrow> pystr list \<Rightarrow> process"
  ge_lstat :: "observation list \<Rightarrow> pystr \<Rightarrow> lstat_answer"
  ge_is_link :: "observation list \<Rightarrow> pystr \<Rightarrow> bool option"
  ge_exists :: "observation list \<Rightarrow> pystr \<Rightarrow> bool option"
  ge_mount :: "observation list \<Rightarrow> pystr \<Rightarrow> bool"
  ge_resolve :: "observation list \<Rightarrow> pystr \<Rightarrow> pystr option"
  ge_resolve_lax :: "observation list \<Rightarrow> pystr \<Rightarrow> pystr option"
  ge_walk :: "observation list \<Rightarrow> pystr \<Rightarrow> dir_tree"
  ge_uid :: nat
  ge_sha1 :: hash_fn
  ge_sha256 :: hash_fn
  ge_unicode :: unicode
  ge_repr :: fold_fn

type_synonym 'a inspect = "(observation, git_error, 'a) effectful"

definition observe :: "observation \<Rightarrow> (observation list \<Rightarrow> git_error + 'a) \<Rightarrow> 'a inspect" where
  "observe ob answer l = (answer l, l @ [ob])"

definition refuse :: "pystr \<Rightarrow> git_error" where
  "refuse message = GitInspectionError message"

definition require :: "bool \<Rightarrow> string \<Rightarrow> git_error + unit" where
  "require b message = guardE b (refuse (u message))"

definition GIT_GLOBAL_ARGUMENTS :: "pystr list" where
  "GIT_GLOBAL_ARGUMENTS = map u
     [''--no-pager'', ''--no-replace-objects'', ''-c'', ''color.ui=false'', ''-c'',
      ''core.attributesFile=/dev/null'', ''-c'', ''core.fsmonitor=false'', ''-c'', ''core.fileMode=true'',
      ''-c'', ''diff.external='', ''-c'', ''diff.ignoreSubmodules=none'', ''-c'', ''diff.renameLimit=0'']"

definition git_result :: "pystr list \<Rightarrow> process \<Rightarrow> git_error + bytes" where
  "git_result args p =
     (case p of
        NotRun name \<Rightarrow> Inl (refuse (u ''isolated Git command failed: '' @ u name))
      | Finished status out err \<Rightarrow>
          if status \<noteq> 0
          then Inl (refuse (if strip err = [] then u ''git '' @ join_str (u '' '') args @ u '' failed'' else strip err))
          else Inr out)"

definition git :: "git_env \<Rightarrow> pystr list \<Rightarrow> bytes inspect" where
  "git E args =
     observe (GitRun (GIT_GLOBAL_ARGUMENTS @ args))
       (\<lambda>l. git_result args (ge_git E l (GIT_GLOBAL_ARGUMENTS @ args)))"

section \<open>Text and bytes\<close>

definition decode_utf8 :: "bytes \<Rightarrow> git_error \<Rightarrow> git_error + pystr" where
  "decode_utf8 raw e = (case utf8_decode raw of None \<Rightarrow> Inl e | Some s \<Rightarrow> Inr s)"

definition decode_ascii :: "bytes \<Rightarrow> git_error \<Rightarrow> git_error + pystr" where
  "decode_ascii raw e = (case ascii_decode raw of None \<Rightarrow> Inl e | Some s \<Rightarrow> Inr s)"

text \<open>\<open>s.split(sep, 1)\<close> when the separator, which is not empty, occurs: what is before and after it.\<close>

fun split_once :: "'a list \<Rightarrow> 'a list \<Rightarrow> ('a list \<times> 'a list) option" where
  "split_once sep [] = None"
| "split_once sep (c # s) =
     (if take (length sep) (c # s) = sep then Some ([], drop (length sep) (c # s))
      else map_option (\<lambda>(a, b). (c # a, b)) (split_once sep s))"

definition split_twice :: "'a list \<Rightarrow> 'a list \<Rightarrow> ('a list \<times> 'a list \<times> 'a list) option" where
  "split_twice sep s =
     (case split_once sep s of
        None \<Rightarrow> None
      | Some (a, r) \<Rightarrow> (case split_once sep r of None \<Rightarrow> None | Some (b, c) \<Rightarrow> Some (a, b, c)))"

text \<open>\<open>bytes.splitlines()\<close> knows the line feed, the carriage return, and both together.\<close>

fun byte_lines :: "bytes \<Rightarrow> bytes \<Rightarrow> bytes list" where
  "byte_lines cur [] = (if cur = [] then [] else [rev cur])"
| "byte_lines cur [c] = (if c = CHR 0x0A \<or> c = CHR 0x0D then [rev cur] else [rev (c # cur)])"
| "byte_lines cur (c # d # s) =
     (if c = CHR 0x0D \<and> d = CHR 0x0A then rev cur # byte_lines [] s
      else if c = CHR 0x0A \<or> c = CHR 0x0D then rev cur # byte_lines [] (d # s)
      else byte_lines (c # cur) (d # s))"

text \<open>\<open>s.split()\<close>, \<open>cur\<close> the reversed word so far.\<close>

fun split_white :: "pystr \<Rightarrow> pystr \<Rightarrow> pystr list" where
  "split_white cur [] = (if cur = [] then [] else [rev cur])"
| "split_white cur (c # s) =
     (if \<not> py_space c then split_white (c # cur) s
      else if cur = [] then split_white [] s else rev cur # split_white [] s)"

text \<open>
  \<open>int(s)\<close>: white space around, a sign, decimal digits of any script, single underscores between
  digits, and at most 4300 digits.
\<close>

definition digit_groups :: "unicode \<Rightarrow> pystr \<Rightarrow> nat list option" where
  "digit_groups U s =
     (let groups = split_at 0x5F s in
      if list_all (\<lambda>g. g \<noteq> [] \<and> list_all (\<lambda>c. uc_digit U c \<noteq> None) g) groups
      then Some (map (\<lambda>c. the (uc_digit U c)) (concat groups)) else None)"

definition py_int :: "unicode \<Rightarrow> pystr \<Rightarrow> int option" where
  "py_int U s =
     (let t = strip s; signed_text = (take 1 t = [0x2B] \<or> take 1 t = [0x2D]);
          body = (if signed_text then drop 1 t else t) in
      case digit_groups U body of
        None \<Rightarrow> None
      | Some ds \<Rightarrow>
          if length ds > 4300 then None
          else
            (let v = int (foldl (\<lambda>n d. 10 * n + d) 0 ds) in
             Some (if take 1 t = [0x2D] then - v else v)))"

definition nul_fields :: "pystr \<Rightarrow> pystr list" where
  "nul_fields s = filter (\<lambda>f. f \<noteq> []) (split_at 0 s)"

section \<open>Commits and objects\<close>

text \<open>A letter or digit, then letters, digits, and the ten marks of the class.\<close>

definition REF_PATTERN :: "pystr \<Rightarrow> bool" where
  "REF_PATTERN s =
     (case s of
        [] \<Rightarrow> False
      | c # t \<Rightarrow> alnum c \<and> list_all (\<lambda>x. alnum x \<or> x \<in> set (u ''{}._/@^~+-'')) t)"

definition resolve_commit :: "git_env \<Rightarrow> pystr \<Rightarrow> pystr inspect" where
  "resolve_commit E reference =
     bindS (liftS (require (REF_PATTERN reference \<and> \<not> contains (u ''..'') reference) ''invalid Git reference'')) (\<lambda>_.
     bindS (git E [u ''rev-parse'', u ''--verify'', reference @ u ''^{commit}'']) (\<lambda>raw.
     bindS (liftS (decode_ascii raw GitUnicodeError)) (\<lambda>s.
     bindS (liftS (require (is_git_sha (strip s)) ''Git did not return a full commit SHA'')) (\<lambda>_.
     liftS (Inr (strip s))))))"

definition object_header :: "string \<Rightarrow> bytes \<Rightarrow> bytes" where
  "object_header object_type content = object_type @ '' '' @ map char_of (dec_nat (length content)) @ [CHR 0x00]"

definition verified_object_content :: "git_env \<Rightarrow> string \<Rightarrow> pystr \<Rightarrow> bytes inspect" where
  "verified_object_content E object_type object_id =
     bindS (liftS (require (is_git_sha object_id) ''Git object id must be a full SHA-1'')) (\<lambda>_.
     bindS (git E [u ''cat-file'', u object_type, object_id]) (\<lambda>content.
     bindS (liftS (guardE (ge_sha1 E (object_header object_type content @ content) = object_id)
       (refuse (u ''Git '' @ u object_type @ u '' content does not match its object id'')))) (\<lambda>_.
     liftS (Inr content))))"

definition commit_tree_id :: "bytes \<Rightarrow> git_error + pystr" where
  "commit_tree_id commit_content =
     (let head_part = (case split_once [CHR 0x0A, CHR 0x0A] commit_content of None \<Rightarrow> commit_content | Some (a, b) \<Rightarrow> a);
          tree_headers = map (drop 5) (filter (\<lambda>line. take 5 line = ''tree '') (byte_lines [] head_part)) in
      case tree_headers of
        [h] \<Rightarrow>
          bindE (decode_ascii h (refuse (u ''Git commit tree id must be ASCII''))) (\<lambda>tree_id.
          bindE (require (is_git_sha tree_id) ''Git commit tree id must be a full SHA-1'') (\<lambda>_.
          Inr tree_id))
      | _ \<Rightarrow> Inl (refuse (u ''Git commit must contain exactly one tree header'')))"

section \<open>The graph of trees\<close>

definition MAX_WORKTREE_ENTRIES :: nat where
  "MAX_WORKTREE_ENTRIES = 20000"

definition hex_of :: "bytes \<Rightarrow> pystr" where
  "hex_of b = concat (map (\<lambda>c. hex_byte (of_char c)) b)"

text \<open>One entry: mode, space, name, NUL, twenty bytes of object name, and what is left.\<close>

definition tree_entry :: "bytes \<Rightarrow> git_error + (bytes \<times> bytes \<times> bytes)" where
  "tree_entry content =
     (let mode = takeWhile (\<lambda>c. c \<noteq> CHR '' '') content; r1 = drop (Suc (length mode)) content;
          name = takeWhile (\<lambda>c. c \<noteq> CHR 0x00) r1; r2 = drop (Suc (length name)) r1 in
      if mode = [] \<or> length mode = length content \<or> name = [] \<or> length name = length r1 \<or> length r2 < 20
      then Inl (refuse (u ''Git tree contains a malformed entry''))
      else if CHR ''/'' \<in> set name \<or> name = ''.'' \<or> name = ''..''
      then Inl (refuse (u ''Git tree contains an unsafe entry name''))
      else Inr (mode, take 20 r2, drop 20 r2))"

lemma tree_entry_shorter: "tree_entry content = Inr (mode, oid, rest) \<Longrightarrow> length rest < length content"
  by (auto simp: tree_entry_def Let_def split: if_splits)

text \<open>
  All entries of a tree: the object names of its subtrees in order, and the number of entries
  seen so far in all trees.
\<close>

function scan_tree :: "bytes \<Rightarrow> nat \<Rightarrow> git_error + (pystr list \<times> nat)" where
  "scan_tree content entry_count =
     (if content = [] then Inr ([], entry_count)
      else
        bindE (tree_entry content) (\<lambda>(mode, object_id, rest).
        bindE (guardE (entry_count + 1 \<le> MAX_WORKTREE_ENTRIES)
          (refuse (u ''candidate Git trees have more than 20000 entries''))) (\<lambda>_.
        bindE (scan_tree rest (entry_count + 1)) (\<lambda>(children, total_count).
        Inr (if mode = ''40000'' \<or> mode = ''040000'' then hex_of object_id # children else children, total_count)))))"
  by pat_completeness auto

termination
  by (relation "measure (\<lambda>(b, n). length b)") (auto dest: tree_entry_shorter)

declare scan_tree.simps [simp del]

lemma scan_tree_Nil [simp]: "scan_tree [] n = Inr ([], n)"
  by (simp add: scan_tree.simps)

lemma scan_tree_count:
  "scan_tree content n = Inr (children, m) \<Longrightarrow> n + length children \<le> m \<and> (m \<le> MAX_WORKTREE_ENTRIES \<or> m = n)"
proof (induction content n arbitrary: children m rule: scan_tree.induct)
  case (1 content n)
  show ?case
  proof (cases "content = []")
    case False
    with "1.prems" obtain mode oid rest ch where "tree_entry content = Inr (mode, oid, rest)"
        and n: "n + 1 \<le> MAX_WORKTREE_ENTRIES" and "scan_tree rest (n + 1) = Inr (ch, m)"
        and "length children \<le> Suc (length ch)"
      by (subst (asm) scan_tree.simps) (auto simp: result_simps split: if_splits)
    with "1.IH" [OF False, of "(mode, oid, rest)" mode "(oid, rest)" oid rest "()" ch m] show ?thesis by auto
  qed (use "1.prems" in simp)
qed

text \<open>The loop over the trees not yet seen; the last one found is the next one read.\<close>

function (sequential) verify_trees ::
    "git_env \<Rightarrow> pystr list \<Rightarrow> pystr set \<Rightarrow> nat \<Rightarrow> observation list \<Rightarrow> (git_error + unit) \<times> observation list" where
  "verify_trees E [] seen entry_count l = (Inr (), l)"
| "verify_trees E (t # pending) seen entry_count l =
     (if t \<in> seen then verify_trees E pending seen entry_count l
      else
        (case verified_object_content E ''tree'' t l of
           (Inl e, l') \<Rightarrow> (Inl e, l')
         | (Inr content, l') \<Rightarrow>
             (case scan_tree content entry_count of
                Inl e \<Rightarrow> (Inl e, l')
              | Inr (children, total_count) \<Rightarrow> verify_trees E (rev children @ pending) (insert t seen) total_count l')))"
  by pat_completeness auto

termination
  by (relation "measure (\<lambda>(E, pending, seen, n, l). length pending + (MAX_WORKTREE_ENTRIES - n))")
    (auto dest!: scan_tree_count)

definition verify_tree_graph :: "git_env \<Rightarrow> pystr \<Rightarrow> unit inspect" where
  "verify_tree_graph E root_tree_id = verify_trees E [root_tree_id] {} 0"

definition verify_commit_and_tree_graph :: "git_env \<Rightarrow> pystr \<Rightarrow> unit inspect" where
  "verify_commit_and_tree_graph E commit_id =
     bindS (verified_object_content E ''commit'' commit_id) (\<lambda>content.
     bindS (liftS (commit_tree_id content)) (verify_tree_graph E))"

end
