(* ===== verification/Change_Policy.thy ===== *)
theory Change_Policy
  imports Git_Inspect
begin

text \<open>
  The inspection of a candidate change by \<open>policy.py\<close>: what Git says changed, the state of the
  index and the worktree, the metadata of the commit, and \<open>inspect_git_diff\<close>, which turns them
  into a policy report.
\<close>

section \<open>What Git prints\<close>

record file_metadata =
  gm_status :: pystr
  gm_old_mode :: pystr
  gm_new_mode :: pystr
  gm_old_blob :: pystr
  gm_new_blob :: pystr

type_synonym metadata = "(pystr \<times> file_metadata) list"

definition DIFF_ARGUMENTS :: "pystr list" where
  "DIFF_ARGUMENTS = map u [''diff'', ''--no-ext-diff'', ''--no-textconv'', ''--no-renames'', ''--ignore-submodules=none'']"

definition diff_raw_arguments :: "pystr \<Rightarrow> pystr \<Rightarrow> pystr list" where
  "diff_raw_arguments base_sha head_sha =
     DIFF_ARGUMENTS @ map u [''--abbrev=40'', ''--raw'', ''-z''] @ [base_sha, head_sha, u ''--'']"

definition NOT_UTF8_PATHS :: git_error where
  "NOT_UTF8_PATHS = refuse (u ''Git paths must be valid UTF-8'')"

definition raw_header :: "pystr \<Rightarrow> git_error + file_metadata" where
  "raw_header header =
     (case split_white [] header of
        [p0, p1, p2, p3, p4] \<Rightarrow>
          bindE (require (take 1 p0 = u '':'') ''unexpected git raw diff header'') (\<lambda>_.
          Inr \<lparr>gm_status = p4, gm_old_mode = drop 1 p0, gm_new_mode = p1, gm_old_blob = p2, gm_new_blob = p3\<rparr>)
      | _ \<Rightarrow> Inl (refuse (u ''unexpected git raw diff header'')))"

fun read_metadata :: "pystr list \<Rightarrow> metadata \<Rightarrow> git_error + metadata" where
  "read_metadata (header # path # rest) d =
     bindE (raw_header header) (\<lambda>item. read_metadata rest (dict_set path item d))"
| "read_metadata _ d = Inr d"

definition parse_diff_metadata :: "bytes \<Rightarrow> git_error + metadata" where
  "parse_diff_metadata raw =
     bindE (decode_utf8 raw NOT_UTF8_PATHS) (\<lambda>s.
     bindE (require (even (length (nul_fields s))) ''unexpected git raw diff output'') (\<lambda>_.
     read_metadata (nul_fields s) []))"

definition diff_metadata :: "git_env \<Rightarrow> pystr \<Rightarrow> pystr \<Rightarrow> metadata inspect" where
  "diff_metadata E base_sha head_sha =
     bindS (git E (diff_raw_arguments base_sha head_sha)) (\<lambda>raw. liftS (parse_diff_metadata raw))"

text \<open>The paths of every blob of the base, in the order of the listing.\<close>

definition base_blob_paths :: "git_env \<Rightarrow> pystr \<Rightarrow> (pystr \<times> pystr) list inspect" where
  "base_blob_paths E base_sha =
     bindS (git E (map u [''ls-tree'', ''-r'', ''-z''] @ [base_sha, u ''--''])) (\<lambda>raw.
     bindS (liftS (decode_utf8 raw NOT_UTF8_PATHS)) (\<lambda>s.
     liftS (mapE (\<lambda>f.
       case split_once [0x09] f of
         None \<Rightarrow> Inl (refuse (u ''unexpected git ls-tree output''))
       | Some (header, path) \<Rightarrow>
           (case split_twice [0x20] header of
              None \<Rightarrow> Inl (refuse (u ''unexpected git ls-tree output''))
            | Some (mode, object_type, object_id) \<Rightarrow> Inr (object_id, path))) (nul_fields s))))"

text \<open>One detected operation: \<open>R\<close> or \<open>C\<close>, the old and the new path.\<close>

definition detected_renames_and_copies :: "metadata \<Rightarrow> (pystr \<times> pystr) list \<Rightarrow> (pystr \<times> pystr \<times> pystr) list" where
  "detected_renames_and_copies d base_blobs =
     (let deleted_by_blob = map_of (rev (map (\<lambda>(p, i). (gm_old_blob i, p)) (filter (\<lambda>(p, i). gm_status i = u ''D'') d))) in
      concat (map (\<lambda>(new_path, i).
        if gm_status i \<noteq> u ''A'' then []
        else
          (case deleted_by_blob (gm_new_blob i) of
             Some old_path \<Rightarrow> [(u ''R'', old_path, new_path)]
           | None \<Rightarrow>
               (let source_paths = filter (\<lambda>p. p \<noteq> new_path) (map snd (filter (\<lambda>(b, p). b = gm_new_blob i) base_blobs)) in
                if source_paths = [] then [] else [(u ''C'', hd (sort source_paths), new_path)]))) d))"

type_synonym line_stats = "(pystr \<times> int option \<times> int option) list"

definition stat_count :: "unicode \<Rightarrow> pystr \<Rightarrow> git_error + int option" where
  "stat_count U s =
     (if s = u ''-'' then Inr None
      else (case py_int U s of None \<Rightarrow> Inl GitValueError | Some i \<Rightarrow> Inr (Some i)))"

fun read_stats :: "unicode \<Rightarrow> pystr list \<Rightarrow> line_stats \<Rightarrow> git_error + line_stats" where
  "read_stats U [] d = Inr d"
| "read_stats U (f # fs) d =
     (case split_twice [0x09] f of
        None \<Rightarrow> Inl (refuse (u ''unexpected git numstat output''))
      | Some (added, deleted, path) \<Rightarrow>
          bindE (stat_count U added) (\<lambda>a. bindE (stat_count U deleted) (\<lambda>b.
          read_stats U fs (dict_set path (a, b) d))))"

definition numstat :: "git_env \<Rightarrow> pystr \<Rightarrow> pystr \<Rightarrow> pystr list \<Rightarrow> line_stats inspect" where
  "numstat E base_sha head_sha paths =
     (if paths = [] then liftS (Inr [])
      else
        bindS (git E (DIFF_ARGUMENTS @ map u [''--numstat'', ''-z''] @ [base_sha, head_sha, u ''--''] @ paths)) (\<lambda>raw.
        bindS (liftS (decode_utf8 raw NOT_UTF8_PATHS)) (\<lambda>s.
        liftS (read_stats (ge_unicode E) (nul_fields s) []))))"

section \<open>The digest of a change\<close>

text \<open>\<open>len(encoded).to_bytes(4, "big")\<close> and the bytes.\<close>

definition framed :: "bytes \<Rightarrow> git_error + bytes" where
  "framed b =
     bindE (guardE (length b < 2 ^ 32) GitOverflowError) (\<lambda>_. Inr (map char_of (be_bytes 4 (length b)) @ b))"

definition framed_text :: "pystr \<Rightarrow> git_error + bytes" where
  "framed_text s = (case utf8_encode s of None \<Rightarrow> Inl GitUnicodeError | Some b \<Rightarrow> framed b)"

definition framed_ascii :: "pystr \<Rightarrow> git_error + bytes" where
  "framed_ascii s = (if ascii s then framed (map char_of s) else Inl GitUnicodeError)"

definition metadata_fields :: "pystr \<times> file_metadata \<Rightarrow> pystr list" where
  "metadata_fields e =
     (let i = snd e in [fst e, gm_status i, gm_old_mode i, gm_new_mode i, gm_old_blob i, gm_new_blob i])"

definition DIFF_DOMAIN :: bytes where
  "DIFF_DOMAIN = ''amazon-explorer-ai-review-diff-v1'' @ [CHR 0x00]"

definition canonical_diff_bytes :: "pystr \<Rightarrow> pystr \<Rightarrow> metadata \<Rightarrow> git_error + bytes" where
  "canonical_diff_bytes base_sha head_sha d =
     bindE (mapE framed_ascii [base_sha, head_sha]) (\<lambda>anchors.
     bindE (mapE framed_text (concat (map metadata_fields (sort_key fst d)))) (\<lambda>values.
     Inr (DIFF_DOMAIN @ concat anchors @ concat values)))"

definition canonical_diff_hash :: "git_env \<Rightarrow> pystr \<Rightarrow> pystr \<Rightarrow> metadata \<Rightarrow> git_error + pystr" where
  "canonical_diff_hash E base_sha head_sha d =
     bindE (canonical_diff_bytes base_sha head_sha d) (\<lambda>b. Inr (ge_sha256 E b))"

section \<open>The index, the tree of HEAD and the worktree\<close>

definition reject_replace_refs :: "git_env \<Rightarrow> unit inspect" where
  "reject_replace_refs E =
     bindS (git E (map u [''for-each-ref'', ''--format=%(refname)'', ''refs/replace''])) (\<lambda>refs.
     liftS (require (list_all (\<lambda>c. c \<in> set [CHR 0x09, CHR 0x0A, CHR 0x0B, CHR 0x0C, CHR 0x0D, CHR 0x20]) refs)
       ''repository contains a replace ref''))"

type_synonym tree_entries = "(pystr \<times> pystr \<times> pystr) list"

text \<open>
  The loops of \<open>_parse_index\<close> and \<open>_parse_head_tree\<close>: header, tab, path; a header of three words
  whose first and one other are kept; \<open>supported\<close> checks the words.
\<close>

fun read_entries ::
    "string \<Rightarrow> string \<Rightarrow> (pystr \<Rightarrow> pystr \<Rightarrow> bool) \<Rightarrow> (pystr \<Rightarrow> pystr \<Rightarrow> pystr) \<Rightarrow> pystr list \<Rightarrow> tree_entries \<Rightarrow> git_error + tree_entries" where
  "read_entries malformed unsupported supported object_word [] d = Inr d"
| "read_entries malformed unsupported supported object_word (f # fs) d =
     (case split_once [0x09] f of
        None \<Rightarrow> Inl (refuse (u malformed))
      | Some (header, path) \<Rightarrow>
          (case split_twice [0x20] header of
             None \<Rightarrow> Inl (refuse (u malformed))
           | Some (mode, w1, w2) \<Rightarrow>
               bindE (require (supported w1 w2 \<and> path \<notin> fst ` set d \<and> safe_repo_path path) unsupported) (\<lambda>_.
               read_entries malformed unsupported supported object_word fs (d @ [(path, mode, object_word w1 w2)]))))"

definition MAX_TRACKED_FILES :: nat where
  "MAX_TRACKED_FILES = 2000"

definition parse_index :: "git_env \<Rightarrow> tree_entries inspect" where
  "parse_index E =
     bindS (git E (map u [''ls-files'', ''--stage'', ''-z''])) (\<lambda>raw.
     bindS (liftS (decode_utf8 raw (refuse (u ''Git index paths must be valid UTF-8'')))) (\<lambda>s.
     bindS (liftS (require (length (nul_fields s) \<le> MAX_TRACKED_FILES)
       ''candidate has more than 2000 tracked files'')) (\<lambda>_.
     liftS (read_entries ''unexpected Git index output'' ''candidate index contains an unsupported entry''
       (\<lambda>object_id stage. stage = u ''0'') (\<lambda>object_id stage. object_id) (nul_fields s) []))))"

definition parse_head_tree :: "git_env \<Rightarrow> tree_entries inspect" where
  "parse_head_tree E =
     bindS (git E (map u [''ls-tree'', ''-r'', ''-z'', ''HEAD'', ''--''])) (\<lambda>raw.
     bindS (liftS (decode_utf8 raw (refuse (u ''Git tree paths must be valid UTF-8'')))) (\<lambda>s.
     liftS (read_entries ''unexpected Git tree output'' ''candidate HEAD contains an unsupported entry''
       (\<lambda>object_type object_id. object_type = u ''blob'' \<or> object_type = u ''commit'')
       (\<lambda>object_type object_id. object_id) (nul_fields s) [])))"

text \<open>\<open>{parent.as_posix() for parent in PurePosixPath(path).parents if parent.as_posix() != "."}\<close>\<close>

definition parent_paths :: "pystr \<Rightarrow> pystr list" where
  "parent_paths path =
     (let parts = posix_parts path in map (\<lambda>n. join_str (u ''/'') (take n parts)) [1..<length parts])"

text \<open>
  The names \<open>os.walk\<close> reports: those of a directory, then those below its directories. At the
  top the Git directory is left out.
\<close>

definition below :: "pystr \<Rightarrow> pystr \<Rightarrow> pystr" where
  "below prefix name = (if prefix = [] then name else prefix @ u ''/'' @ name)"

fun walk_names :: "pystr \<Rightarrow> dir_tree \<Rightarrow> pystr list" where
  "walk_names prefix (DirTree directories filenames) =
     map (below prefix) (map fst directories @ filenames)
     @ concat (map (\<lambda>d. walk_names (below prefix (fst d)) (snd d)) directories)"

fun without_git :: "dir_tree \<Rightarrow> dir_tree" where
  "without_git (DirTree directories filenames) =
     DirTree (filter (\<lambda>d. fst d \<noteq> u ''.git'') directories) filenames"

definition look :: "git_env \<Rightarrow> pystr \<Rightarrow> lstat_answer inspect" where
  "look E path = observe (Lstat path) (\<lambda>l. Inr (ge_lstat E l path))"

text \<open>\<open>path.lstat()\<close> where nothing handles its exception.\<close>

definition lstat_of :: "git_env \<Rightarrow> pystr \<Rightarrow> file_stat inspect" where
  "lstat_of E path =
     bindS (look E path) (\<lambda>answer. liftS (case answer of StatOk st \<Rightarrow> Inr st | _ \<Rightarrow> Inl GitOsError))"

fun walk_untracked ::
    "git_env \<Rightarrow> pystr \<Rightarrow> pystr set \<Rightarrow> pystr set \<Rightarrow> nat \<Rightarrow> pystr list \<Rightarrow> unit inspect" where
  "walk_untracked E repo tracked_paths tracked_directories entry_count [] = liftS (Inr ())"
| "walk_untracked E repo tracked_paths tracked_directories entry_count (relative # names) =
     bindS (liftS (require (entry_count + 1 \<le> MAX_WORKTREE_ENTRIES) ''candidate worktree has more than 20000 entries'')) (\<lambda>_.
     bindS (lstat_of E (below repo relative)) (\<lambda>st.
     bindS (liftS (guardE (fs_kind st \<noteq> SymbolicLink)
       (refuse (u ''candidate worktree must not contain symlinks: '' @ relative)))) (\<lambda>_.
     bindS (liftS (guardE (relative \<in> tracked_paths \<or> relative \<in> tracked_directories)
       (refuse (u ''candidate worktree must not contain untracked or ignored paths: '' @ relative)))) (\<lambda>_.
     walk_untracked E repo tracked_paths tracked_directories (entry_count + 1) names))))"

definition reject_untracked_paths :: "git_env \<Rightarrow> pystr \<Rightarrow> pystr set \<Rightarrow> unit inspect" where
  "reject_untracked_paths E repo tracked_paths =
     bindS (observe (Walk repo) (\<lambda>l. Inr (ge_walk E l repo))) (\<lambda>tree.
     walk_untracked E repo tracked_paths (\<Union>p \<in> tracked_paths. set (parent_paths p)) 0 (walk_names [] (without_git tree)))"

section \<open>The Git directory\<close>

definition MAX_GIT_METADATA_ENTRIES :: nat where
  "MAX_GIT_METADATA_ENTRIES = 50000"

definition exists_or_link :: "git_env \<Rightarrow> pystr \<Rightarrow> bool inspect" where
  "exists_or_link E path =
     bindS (observe (Exists path) (\<lambda>l. case ge_exists E l path of None \<Rightarrow> Inl GitOsError | Some b \<Rightarrow> Inr b)) (\<lambda>there.
     if there then liftS (Inr True)
     else observe (IsLink path) (\<lambda>l. case ge_is_link E l path of None \<Rightarrow> Inl GitOsError | Some b \<Rightarrow> Inr b))"

definition FORBIDDEN_METADATA :: "pystr list" where
  "FORBIDDEN_METADATA =
     map u [''commondir'', ''info/attributes'', ''objects/info/alternates'', ''objects/info/http-alternates'', ''worktrees'']"

fun reject_forbidden :: "git_env \<Rightarrow> pystr \<Rightarrow> pystr list \<Rightarrow> unit inspect" where
  "reject_forbidden E git_directory [] = liftS (Inr ())"
| "reject_forbidden E git_directory (name # names) =
     bindS (exists_or_link E (below git_directory name)) (\<lambda>there.
     bindS (liftS (require (\<not> there) ''candidate Git metadata contains unsupported shared or external metadata'')) (\<lambda>_.
     reject_forbidden E git_directory names))"

text \<open>One entry below the Git directory; the bits \<open>0o022\<close> are 18.\<close>

definition metadata_entry_check :: "git_env \<Rightarrow> pystr \<Rightarrow> pystr \<Rightarrow> unit inspect" where
  "metadata_entry_check E git_directory relative =
     (let path = below git_directory relative;
          say = (\<lambda>message. refuse (u ''candidate Git metadata '' @ u message @ u '': '' @ relative)) in
      bindS (lstat_of E path) (\<lambda>st.
      bindS (liftS (guardE (fs_kind st \<noteq> SymbolicLink) (say ''must not contain symlinks''))) (\<lambda>_.
      bindS (observe (IsMount path) (\<lambda>l. Inr (ge_mount E l path))) (\<lambda>mounted.
      bindS (liftS (guardE (\<not> mounted) (say ''must not contain nested mount points''))) (\<lambda>_.
      bindS (liftS (guardE (fs_kind st = Directory \<or> fs_kind st = RegularFile)
        (say ''contains an unsupported filesystem entry''))) (\<lambda>_.
      bindS (liftS (guardE (fs_kind st = RegularFile \<longrightarrow> fs_nlink st = 1)
        (say ''files must not be hardlinks''))) (\<lambda>_.
      bindS (liftS (guardE (fs_uid st = ge_uid E) (say ''must be owned by the coordinator user''))) (\<lambda>_.
      liftS (guardE (and (fs_mode st) 18 = 0) (say ''must not be group- or world-writable''))))))))))"

fun walk_metadata :: "git_env \<Rightarrow> pystr \<Rightarrow> nat \<Rightarrow> pystr list \<Rightarrow> unit inspect" where
  "walk_metadata E git_directory entry_count [] = liftS (Inr ())"
| "walk_metadata E git_directory entry_count (relative # names) =
     bindS (liftS (require (entry_count + 1 \<le> MAX_GIT_METADATA_ENTRIES)
       ''candidate Git metadata has more than 50000 entries'')) (\<lambda>_.
     bindS (metadata_entry_check E git_directory relative) (\<lambda>_.
     walk_metadata E git_directory (entry_count + 1) names))"

definition same_directory :: "git_env \<Rightarrow> pystr \<Rightarrow> string \<Rightarrow> string \<Rightarrow> unit inspect" where
  "same_directory E expected argument label =
     bindS (git E (map u [''rev-parse'', ''--path-format=absolute'', argument])) (\<lambda>raw.
     bindS (liftS (decode_utf8 raw (refuse (u label @ u '' must be a valid local path'')))) (\<lambda>s.
     bindS (observe (Resolve (strip s)) (\<lambda>l.
       case ge_resolve E l (strip s) of
         None \<Rightarrow> Inl (refuse (u label @ u '' must be a valid local path''))
       | Some p \<Rightarrow> Inr p)) (\<lambda>reported.
     liftS (guardE (reported = expected)
       (refuse (u label @ u '' must equal the standalone .git directory''))))))"

definition reject_git_layout :: "git_env \<Rightarrow> pystr \<Rightarrow> unit inspect" where
  "reject_git_layout E repo =
     (let git_directory = below repo (u ''.git'');
          standalone = ''candidate must use a standalone .git directory'' in
      bindS (look E git_directory) (\<lambda>answer.
      bindS (liftS (case answer of
          StatOk st \<Rightarrow> require (fs_kind st = Directory) standalone
        | NoSuchFile \<Rightarrow> Inl (refuse (u standalone))
        | StatFailed \<Rightarrow> Inl GitOsError)) (\<lambda>_.
      bindS (observe (IsLink git_directory) (\<lambda>l. case ge_is_link E l git_directory of None \<Rightarrow> Inl GitOsError | Some b \<Rightarrow> Inr b)) (\<lambda>link.
      bindS (liftS (require (\<not> link) standalone)) (\<lambda>_.
      bindS (reject_forbidden E git_directory FORBIDDEN_METADATA) (\<lambda>_.
      bindS (observe (Walk git_directory) (\<lambda>l. Inr (ge_walk E l git_directory))) (\<lambda>tree.
      bindS (walk_metadata E git_directory 0 (walk_names [] tree)) (\<lambda>_.
      bindS (observe (Resolve git_directory) (\<lambda>l. case ge_resolve E l git_directory of None \<Rightarrow> Inl GitOsError | Some p \<Rightarrow> Inr p)) (\<lambda>expected.
      bindS (same_directory E expected ''--git-dir'' ''Git directory'') (\<lambda>_.
      bindS (same_directory E expected ''--git-common-dir'' ''Git common directory'') (\<lambda>_.
      bindS (git E (map u [''rev-parse'', ''--show-object-format''])) (\<lambda>raw.
      bindS (liftS (decode_ascii raw GitUnicodeError)) (\<lambda>s.
      liftS (require (strip s = u ''sha1'') ''candidate repository must use the SHA-1 Git object format''))))))))))))))"

section \<open>The worktree is the tree of HEAD\<close>

definition ALLOWED_FILE_MODES :: "pystr list" where
  "ALLOWED_FILE_MODES = [u ''100644'', u ''100755'']"

definition MAX_TRACKED_FILE_BYTES :: nat where
  "MAX_TRACKED_FILE_BYTES = 100000000"

definition MAX_TRACKED_TOTAL_BYTES :: nat where
  "MAX_TRACKED_TOTAL_BYTES = 500000000"

definition path_name :: "pystr \<Rightarrow> pystr" where
  "path_name path = (if posix_parts path = [] then [] else last (posix_parts path))"

definition normal_index_entry :: "pystr \<Rightarrow> bool" where
  "normal_index_entry entry \<longleftrightarrow> 3 \<le> length entry \<and> take 2 entry = u ''H ''"

text \<open>The checks of one tracked file that need no Git call; the bits \<open>0o111\<close> are 73.\<close>

definition tracked_file_check :: "git_env \<Rightarrow> pystr \<Rightarrow> pystr \<Rightarrow> pystr \<Rightarrow> file_stat inspect" where
  "tracked_file_check E repo path mode =
     (let say = (\<lambda>message. refuse (u ''candidate tracked '' @ u message @ u '': '' @ path)) in
      bindS (liftS (guardE (\<not> (is_protected_path (uc_casefold (ge_unicode E)) path
            \<and> uc_casefold (ge_unicode E) (path_name path) \<noteq> u ''.env.example''))
        (refuse (u ''candidate HEAD contains a protected tracked path: '' @ path)))) (\<lambda>_.
      bindS (liftS (guardE (mode \<in> set ALLOWED_FILE_MODES) (say ''file mode is unsupported''))) (\<lambda>_.
      bindS (look E (below repo path)) (\<lambda>answer.
      bindS (liftS (case answer of
          StatOk st \<Rightarrow> Inr st | NoSuchFile \<Rightarrow> Inl (say ''file is missing'') | StatFailed \<Rightarrow> Inl GitOsError)) (\<lambda>st.
      bindS (liftS (guardE (fs_kind st = RegularFile) (say ''path is not a regular file''))) (\<lambda>_.
      bindS (liftS (guardE (fs_nlink st = 1) (say ''file must not be a hardlink''))) (\<lambda>_.
      bindS (liftS (guardE ((mode = u ''100755'') = (and (fs_mode st) 73 \<noteq> 0)) (say ''file mode differs from HEAD''))) (\<lambda>_.
      bindS (liftS (guardE (fs_size st \<le> MAX_TRACKED_FILE_BYTES) (say ''file exceeds 100000000 bytes''))) (\<lambda>_.
      liftS (Inr st))))))))))"

definition worktree_content_check :: "git_env \<Rightarrow> pystr \<Rightarrow> pystr \<Rightarrow> unit inspect" where
  "worktree_content_check E path object_id =
     bindS (git E (map u [''hash-object'', ''--no-filters'', ''--''] @ [path])) (\<lambda>raw.
     bindS (liftS (decode_ascii raw (refuse (u ''Git returned an invalid worktree blob id'')))) (\<lambda>s.
     bindS (liftS (guardE (strip s = object_id) (refuse (u ''candidate worktree content differs from HEAD: '' @ path)))) (\<lambda>_.
     if path = u ''.env.example'' then
       bindS (verified_object_content E ''blob'' object_id) (\<lambda>content.
       liftS (mapError (\<lambda>_. refuse (u ''tracked .env.example is not a safe empty template''))
         (validate_empty_env_example (ge_unicode E) content)))
     else liftS (Inr ()))))"

fun check_tracked_files :: "git_env \<Rightarrow> pystr \<Rightarrow> nat \<Rightarrow> tree_entries \<Rightarrow> unit inspect" where
  "check_tracked_files E repo total_bytes [] = liftS (Inr ())"
| "check_tracked_files E repo total_bytes ((path, mode, object_id) # entries) =
     bindS (tracked_file_check E repo path mode) (\<lambda>st.
     bindS (liftS (require (total_bytes + fs_size st \<le> MAX_TRACKED_TOTAL_BYTES)
       ''candidate tracked files exceed 500000000 total bytes'')) (\<lambda>_.
     bindS (worktree_content_check E path object_id) (\<lambda>_.
     check_tracked_files E repo (total_bytes + fs_size st) entries)))"

definition reject_dirty_worktree :: "git_env \<Rightarrow> pystr \<Rightarrow> unit inspect" where
  "reject_dirty_worktree E repo =
     bindS (reject_git_layout E repo) (\<lambda>_.
     bindS (git E (map u [''ls-files'', ''-v'', ''-z''])) (\<lambda>raw.
     bindS (liftS (decode_utf8 raw (refuse (u ''Git index paths must be valid UTF-8'')))) (\<lambda>s.
     bindS (liftS (require (list_all normal_index_entry (nul_fields s))
       ''candidate index flags or state can hide worktree changes; require normal tracked entries'')) (\<lambda>_.
     bindS (parse_index E) (\<lambda>entries.
     bindS (parse_head_tree E) (\<lambda>head_entries.
     bindS (liftS (require (set entries = set head_entries) ''candidate index must match HEAD exactly'')) (\<lambda>_.
     bindS (reject_untracked_paths E repo (set (map fst entries))) (\<lambda>_.
     check_tracked_files E repo 0 entries))))))))"

section \<open>The metadata of the commit\<close>

definition rsplit_space_angle :: "pystr \<Rightarrow> (pystr \<times> pystr) option" where
  "rsplit_space_angle s =
     map_option (\<lambda>(a, b). (rev b, rev a)) (split_once (rev (u '' <'')) (rev s))"

text \<open>\<open>-?[0-9]+\<close> and the conversion, which takes at most 4300 digits.\<close>

definition timestamp_of :: "pystr \<Rightarrow> int option" where
  "timestamp_of s =
     (let body = (if take 1 s = u ''-'' then drop 1 s else s) in
      if body = [] \<or> \<not> list_all is_digit body then None
      else Some (let v = int (digits_val body) in if take 1 s = u ''-'' then - v else v))"

definition too_many_digits :: "pystr \<Rightarrow> bool" where
  "too_many_digits s \<longleftrightarrow> 4300 < length (filter is_digit s)"

definition parse_identity :: "pystr \<Rightarrow> string \<Rightarrow> git_error + (pystr \<times> pystr) \<times> (int \<times> pystr)" where
  "parse_identity value_text label =
     (let malformed = refuse (u ''candidate commit has malformed '' @ u label @ u '' metadata'') in
      case rpartition_at 0x20 value_text of
        (None, _) \<Rightarrow> Inl malformed
      | (Some rest, timezone) \<Rightarrow>
          (case rpartition_at 0x20 rest of
             (None, _) \<Rightarrow> Inl malformed
           | (Some identity, stamp) \<Rightarrow>
               if identity = [] \<or> last identity \<noteq> 0x3E \<or> \<not> contains (u '' <'') identity then Inl malformed
               else
                 (case (timestamp_of stamp, rsplit_space_angle (butlast identity)) of
                    (Some t, Some (name, email)) \<Rightarrow>
                      if \<not> is_timezone timezone
                      then Inl (refuse (u ''candidate commit has malformed '' @ u label @ u '' timestamp''))
                      else if too_many_digits stamp then Inl GitValueError
                      else Inr ((name, email), (t, timezone))
                  | _ \<Rightarrow> Inl (refuse (u ''candidate commit has malformed '' @ u label @ u '' timestamp'')))))"

type_synonym commit_headers = "(pystr \<times> pystr) list"

definition header_line :: "pystr \<Rightarrow> git_error + (pystr \<times> pystr)" where
  "header_line h =
     bindE (require (take 1 h \<noteq> u '' '') ''candidate commit contains a multiline metadata header'') (\<lambda>_.
     bindE (require (0x20 \<in> set h) ''candidate commit contains malformed metadata'') (\<lambda>_.
     Inr (partition_at 0x20 h)))"

definition header_values :: "commit_headers \<Rightarrow> string \<Rightarrow> pystr list" where
  "header_values hs key = map snd (filter (\<lambda>(k, v). k = u key) hs)"

definition say_if :: "bool \<Rightarrow> pystr \<Rightarrow> pystr list" where
  "say_if b message = (if b then [message] else [])"

definition commit_violations ::
    "candidate_commit \<Rightarrow> pystr \<Rightarrow> (pystr \<times> pystr) \<times> (int \<times> pystr) \<Rightarrow> (pystr \<times> pystr) \<times> (int \<times> pystr) \<Rightarrow> pystr list" where
  "commit_violations expected message author committer =
     (let who = (cc_author_name expected, cc_author_email expected); stamp = (cc_timestamp expected, cc_timezone expected) in
      say_if (message \<noteq> cc_message expected @ [0x0A]) (u ''candidate commit message does not match the task contract'')
      @ say_if (fst author \<noteq> who) (u ''candidate commit author does not match the task contract'')
      @ say_if (fst committer \<noteq> who) (u ''candidate commit committer does not match the task contract'')
      @ say_if (snd author \<noteq> stamp) (u ''candidate commit author timestamp does not match the task contract'')
      @ say_if (snd committer \<noteq> stamp) (u ''candidate commit committer timestamp does not match the task contract''))"

definition parse_commit :: "bytes \<Rightarrow> git_error + (commit_headers \<times> pystr)" where
  "parse_commit raw =
     (let invalid = refuse (u ''candidate commit metadata must be valid UTF-8'') in
      case split_once [CHR 0x0A, CHR 0x0A] raw of
        None \<Rightarrow> Inl invalid
      | Some (header_bytes, message_bytes) \<Rightarrow>
          bindE (decode_utf8 header_bytes invalid) (\<lambda>headers.
          bindE (decode_utf8 message_bytes invalid) (\<lambda>message.
          bindE (mapE header_line (splitlines headers)) (\<lambda>parsed.
          Inr (parsed, message)))))"

definition inspect_commit_content :: "candidate_commit \<Rightarrow> pystr \<Rightarrow> bytes \<Rightarrow> git_error + pystr list" where
  "inspect_commit_content expected base_sha raw =
     bindE (parse_commit raw) (\<lambda>(parsed, message).
     bindE (require (header_values parsed ''parent'' = [base_sha])
       ''candidate must be a single squash commit whose only parent is the task base'') (\<lambda>_.
     bindE (require (set (map fst parsed) = set (map u [''tree'', ''parent'', ''author'', ''committer'']))
       ''candidate commit contains unsupported metadata headers'') (\<lambda>_.
     bindE (require (distinct (map fst parsed)) ''candidate commit contains duplicate metadata headers'') (\<lambda>_.
     bindE (parse_identity (hd (header_values parsed ''author'')) ''author'') (\<lambda>author.
     bindE (parse_identity (hd (header_values parsed ''committer'')) ''committer'') (\<lambda>committer.
     Inr (commit_violations expected message author committer)))))))"

definition inspect_candidate_commit :: "git_env \<Rightarrow> task_spec \<Rightarrow> pystr \<Rightarrow> pystr \<Rightarrow> pystr list inspect" where
  "inspect_candidate_commit E task base_sha head_sha =
     bindS (verified_object_content E ''commit'' head_sha) (\<lambda>raw.
     liftS (inspect_commit_content (ts_candidate_commit task) base_sha raw))"

end
