(* ===== verification/Git_Facts.thy ===== *)
theory Git_Facts
  imports Change_Policy
begin

text \<open>
  What the inspection of Git objects guarantees: an accepted root was followed to every tree below
  it, and the digest of a change determines the change.
\<close>

section \<open>The graph of trees\<close>

text \<open>The subtrees of a tree's content, and the trees below a root when \<open>C\<close> gives their contents.\<close>

definition subtrees :: "bytes \<Rightarrow> pystr set" where
  "subtrees content = (case scan_tree content 0 of Inl e \<Rightarrow> {} | Inr (children, n) \<Rightarrow> set children)"

inductive tree_below :: "(pystr \<Rightarrow> bytes) \<Rightarrow> pystr \<Rightarrow> pystr \<Rightarrow> bool" for C start where
  root_below: "tree_below C start start"
| subtree_below: "tree_below C start t \<Longrightarrow> s \<in> subtrees (C t) \<Longrightarrow> tree_below C start s"

text \<open>The content a tree name stands for, with well-formed entries.\<close>

definition good_tree :: "git_env \<Rightarrow> pystr \<Rightarrow> bytes \<Rightarrow> bool" where
  "good_tree E t content \<longleftrightarrow>
     ge_sha1 E (object_header ''tree'' content @ content) = t
     \<and> (case scan_tree content 0 of Inl e \<Rightarrow> False | Inr (children, n) \<Rightarrow> n \<le> MAX_WORKTREE_ENTRIES)"

lemma verified_object_read:
  "verified_object_content E t oid l = (Inr content, l') \<Longrightarrow> ge_sha1 E (object_header t content @ content) = oid"
  by (auto simp: verified_object_content_def require_def bindS_Inr liftS_Inr result_simps)

lemma scan_tree_from:
  "scan_tree content n = Inr (children, m) \<Longrightarrow> n = k + j \<Longrightarrow> \<exists>m'. scan_tree content k = Inr (children, m') \<and> m = m' + j"
proof (induction content n arbitrary: children m k rule: scan_tree.induct)
  case (1 content n)
  show ?case
  proof (cases "content = []")
    case False
    with "1.prems" obtain mode oid rest ch where e: "tree_entry content = Inr (mode, oid, rest)"
        and n: "n + 1 \<le> MAX_WORKTREE_ENTRIES" and r: "scan_tree rest (n + 1) = Inr (ch, m)"
        and ch: "children = (if mode = ''40000'' \<or> mode = ''040000'' then hex_of oid # ch else ch)"
      by (subst (asm) scan_tree.simps) (auto simp: result_simps)
    from "1.IH" [OF False e refl refl, of "()" ch m "k + 1"] n r "1.prems"(2) obtain m' where
      "scan_tree rest (k + 1) = Inr (ch, m')" "m = m' + j" by auto
    with False e n ch "1.prems"(2) show ?thesis by (subst scan_tree.simps) simp
  qed (use "1.prems" in simp)
qed

lemma scan_tree_good:
  assumes "scan_tree content n = Inr (children, m)" and "n \<le> MAX_WORKTREE_ENTRIES"
    and "ge_sha1 E (object_header ''tree'' content @ content) = t"
  shows "good_tree E t content" and "subtrees content = set children"
  using scan_tree_from [OF assms(1), of 0 n] scan_tree_count [OF assms(1)] assms(2,3)
  by (auto simp: good_tree_def subtrees_def)

lemma verify_trees_closed:
  assumes "verify_trees E pending seen n l = (Inr (), l')" and "n \<le> MAX_WORKTREE_ENTRIES"
    and "finite seen" and "card seen + length pending \<le> 1 + n"
  shows "\<exists>C S. seen \<union> set pending \<subseteq> S \<and> finite S \<and> card S \<le> 1 + MAX_WORKTREE_ENTRIES
    \<and> (\<forall>t \<in> S - seen. good_tree E t (C t) \<and> subtrees (C t) \<subseteq> S)"
  using assms
proof (induction E pending seen n l rule: verify_trees.induct)
  case (1 E seen n l)
  then show ?case by (intro exI [of _ "\<lambda>_. []"] exI [of _ seen]) auto
next
  case (2 E t pending seen n l)
  show ?case
  proof (cases "t \<in> seen")
    case True
    with 2 have "\<exists>C S. seen \<union> set pending \<subseteq> S \<and> finite S \<and> card S \<le> 1 + MAX_WORKTREE_ENTRIES
      \<and> (\<forall>t \<in> S - seen. good_tree E t (C t) \<and> subtrees (C t) \<subseteq> S)" by simp
    with True show ?thesis by (metis Un_insert_right insert_absorb list.simps(15) sup.absorb_iff2 Un_insert_left)
  next
    case False
    with "2.prems"(1) obtain content l1 children m where v: "verified_object_content E ''tree'' t l = (Inr content, l1)"
        and s: "scan_tree content n = Inr (children, m)"
        and r: "verify_trees E (rev children @ pending) (insert t seen) m l1 = (Inr (), l')"
      by (auto split: prod.splits sum.splits)
    note good = scan_tree_good [OF s "2.prems"(2) verified_object_read [OF v]]
    from scan_tree_count [OF s] "2.prems" False have "m \<le> MAX_WORKTREE_ENTRIES" "finite (insert t seen)"
        "card (insert t seen) + length (rev children @ pending) \<le> 1 + m" by auto
    from "2.IH"(2) [OF False v [symmetric] refl s refl r this] obtain C S where
      CS: "insert t seen \<union> set (rev children @ pending) \<subseteq> S" "finite S" "card S \<le> 1 + MAX_WORKTREE_ENTRIES"
        "\<forall>x \<in> S - insert t seen. good_tree E x (C x) \<and> subtrees (C x) \<subseteq> S" by blast
    with good show ?thesis
      by (intro exI [of _ "C(t := content)"] exI [of _ S]) auto
  qed
qed

text \<open>
  When the graph of trees below a root is accepted, there are contents for which every tree
  reachable from the root has the content its name stands for, in well-formed entries with safe
  names, and there are at most one more of these trees than the limit on entries.
\<close>

theorem accepted_root_has_verified_trees:
  assumes "verify_tree_graph E start l = (Inr (), l')"
  shows "\<exists>C. Collect (tree_below C start) \<subseteq> {t. good_tree E t (C t)}
    \<and> finite (Collect (tree_below C start)) \<and> card (Collect (tree_below C start)) \<le> 1 + MAX_WORKTREE_ENTRIES"
proof -
  from verify_trees_closed [OF assms [unfolded verify_tree_graph_def]] obtain C S where
    S: "start \<in> S" "finite S" "card S \<le> 1 + MAX_WORKTREE_ENTRIES"
      "\<forall>t \<in> S. good_tree E t (C t) \<and> subtrees (C t) \<subseteq> S" by auto
  have "t \<in> S" if "tree_below C start t" for t
    using that by induction (use S in auto)
  then have "Collect (tree_below C start) \<subseteq> S" by blast
  with S show ?thesis by (intro exI [of _ C]) (auto intro: finite_subset card_mono [THEN order.trans])
qed

text \<open>A root with one subtree, which is empty.\<close>

definition git_name :: "nat \<Rightarrow> pystr" where
  "git_name c = replicate 40 c"

definition two_trees :: git_env where
  "two_trees =
     \<lparr>ge_git = (\<lambda>l args. Finished 0
        (if last args = git_name 0x61 then ''40000 d'' @ CHR 0x00 # replicate 20 (CHR 0xBB) else []) []),
      ge_lstat = (\<lambda>l p. NoSuchFile), ge_is_link = (\<lambda>l p. Some False), ge_exists = (\<lambda>l p. Some False), ge_mount = (\<lambda>l p. False),
      ge_resolve = (\<lambda>l p. Some p), ge_resolve_lax = (\<lambda>l p. Some p), ge_walk = (\<lambda>l p. DirTree [] []), ge_uid = 0,
      ge_sha1 = (\<lambda>b. if CHR ''d'' \<in> set b then git_name 0x61 else git_name 0x62), ge_sha256 = (\<lambda>b. []),
      ge_unicode = ascii_unicode, ge_repr = (\<lambda>s. s)\<rparr>"

lemma two_trees_accepted: "fst (verify_tree_graph two_trees (git_name 0x61) []) = Inr ()"
  by code_simp

theorem accepted_root_has_verified_trees_witness:
  "\<exists>C. Collect (tree_below C (git_name 0x61)) \<subseteq> {t. good_tree two_trees t (C t)}
    \<and> finite (Collect (tree_below C (git_name 0x61))) \<and> card (Collect (tree_below C (git_name 0x61))) \<le> 1 + MAX_WORKTREE_ENTRIES"
  by (rule accepted_root_has_verified_trees [where l = "[]" and l' = "snd (verify_tree_graph two_trees (git_name 0x61) [])"])
    (metis two_trees_accepted prod.collapse)

section \<open>The digest of a change\<close>

lemma frame_length_bytes:
  "be_bytes 4 n = [n div 16777216 mod 256, n div 65536 mod 256, n div 256 mod 256, n mod 256]"
proof -
  have "[0..<4] = [0, 1, 2, 3 :: nat]" by (simp add: upt_rec)
  then show ?thesis by (simp add: be_bytes_def)
qed

lemma div_mod_inject: "(m :: nat) div k = n div k \<Longrightarrow> m mod k = n mod k \<Longrightarrow> m = n"
  by (metis div_mult_mod_eq)

lemma be_bytes_inject:
  assumes "m < 2 ^ 32" "n < 2 ^ 32" and "map char_of (be_bytes 4 m) = (map char_of (be_bytes 4 n) :: bytes)"
  shows "m = n"
proof -
  have "map of_char (map char_of (be_bytes 4 k) :: bytes) = be_bytes 4 k" for k
    by (rule of_char_char_of_map) (auto simp: be_bytes_def)
  then have "be_bytes 4 m = be_bytes 4 n" using assms(3) by metis
  then have d: "m div 16777216 mod 256 = n div 16777216 mod 256" "m div 65536 mod 256 = n div 65536 mod 256"
      "m div 256 mod 256 = n div 256 mod 256" "m mod 256 = n mod 256"
    by (simp_all add: frame_length_bytes)
  have "k div 16777216 < 256" if "k < 2 ^ 32" for k :: nat using that by simp
  then have "m div 16777216 = n div 16777216" using d(1) assms(1,2) by (metis mod_less)
  moreover have split: "k div 16777216 = k div 65536 div 256" "k div 65536 = k div 256 div 256" for k :: nat
    by (simp_all only: div_mult2_eq [symmetric]) simp_all
  ultimately have "m div 65536 = n div 65536" using d(2) div_mod_inject by metis
  then have "m div 256 = n div 256" using d(3) split(2) div_mod_inject by metis
  then show ?thesis using d(4) div_mod_inject by blast
qed

text \<open>A framed value can be read off the front of what follows it.\<close>

lemma framed_prefix:
  assumes "framed a = Inr x" "framed b = Inr y" "x @ r = y @ s"
  shows "a = b \<and> r = s"
proof -
  have x: "x = map char_of (be_bytes 4 (length a)) @ a" "length a < 2 ^ 32"
    and y: "y = map char_of (be_bytes 4 (length b)) @ b" "length b < 2 ^ 32"
    using assms(1,2) by (auto simp: framed_def result_simps)
  have len: "length (map char_of (be_bytes 4 n) :: bytes) = 4" for n by (simp add: be_bytes_def)
  from assms(3) x y have eq: "map char_of (be_bytes 4 (length a)) @ (a @ r) = map char_of (be_bytes 4 (length b)) @ (b @ s)"
    by simp
  then have "length a = length b" using be_bytes_inject x(2) y(2) len by (metis append_eq_append_conv)
  with eq show ?thesis by simp
qed

lemma framed_text_prefix:
  assumes "framed_text a = Inr x" "framed_text b = Inr y" "x @ r = y @ s"
  shows "a = b \<and> r = s"
  using assms framed_prefix [of _ x _ y r s] utf8_encode_inject
  by (auto simp: framed_text_def split: option.splits)

lemma framed_ascii_text: "framed_ascii a = Inr x \<Longrightarrow> framed_text a = Inr x"
  by (auto simp: framed_ascii_def framed_text_def utf8_encode_ascii split: if_splits)

lemma framed_text_Nil: "framed_text a = Inr x \<Longrightarrow> x \<noteq> []"
  by (auto simp: framed_text_def framed_def be_bytes_def result_simps split: option.splits)

lemma framed_texts_inject:
  "mapE framed_text as = Inr xs \<Longrightarrow> mapE framed_text bs = Inr ys \<Longrightarrow> concat xs = concat ys \<Longrightarrow> as = bs"
proof (induction as arbitrary: bs xs ys)
  case Nil
  then show ?case by (cases bs) (auto simp: result_simps dest: framed_text_Nil)
next
  case (Cons a as)
  then obtain x xs' where x: "framed_text a = Inr x" "mapE framed_text as = Inr xs'" "xs = x # xs'"
    by (auto simp: result_simps)
  with Cons.prems obtain b bs' y ys' where y: "bs = b # bs'" "framed_text b = Inr y" "mapE framed_text bs' = Inr ys'" "ys = y # ys'"
    by (cases bs) (auto simp: result_simps dest: framed_text_Nil)
  from framed_text_prefix [OF x(1) y(2), of "concat xs'" "concat ys'"] Cons.prems(3) x y
  have "a = b" "concat xs' = concat ys'" by auto
  with Cons.IH [OF x(2) y(3)] y(1) show ?case by simp
qed

lemma metadata_fields_inject:
  "concat (map metadata_fields d) = concat (map metadata_fields d') \<Longrightarrow> d = d'"
proof (induction d arbitrary: d')
  case Nil
  then show ?case by (cases d') (auto simp: metadata_fields_def Let_def)
next
  case (Cons e d)
  then obtain e' d'' where d': "d' = e' # d''" by (cases d') (auto simp: metadata_fields_def Let_def)
  have "length (metadata_fields e) = length (metadata_fields e')" by (simp add: metadata_fields_def Let_def)
  with Cons.prems d' have "metadata_fields e = metadata_fields e'" "concat (map metadata_fields d) = concat (map metadata_fields d'')"
    by simp_all
  then have "d = d''" "e = e'" using Cons.IH by (blast, auto simp: metadata_fields_def Let_def prod_eq_iff)
  with d' show ?case by simp
qed

text \<open>
  The bytes the digest of a change is computed from determine the change: the two commits and,
  for every path, its status, modes and blobs. No two different changes share them, whatever their
  paths contain.
\<close>

theorem diff_bytes_determine_the_change:
  assumes "canonical_diff_bytes base_sha head_sha d = Inr b" and "canonical_diff_bytes base_sha' head_sha' d' = Inr b"
  shows "base_sha = base_sha' \<and> head_sha = head_sha' \<and> sort_key fst d = sort_key fst d'"
proof -
  have text_of: "\<exists>xs. mapE framed_text ([p, q] @ concat (map metadata_fields (sort_key fst e))) = Inr xs \<and> b = DIFF_DOMAIN @ concat xs"
    if "canonical_diff_bytes p q e = Inr b" for p q e
    using that by (auto simp: canonical_diff_bytes_def result_simps dest!: framed_ascii_text)
  from text_of [OF assms(1)] text_of [OF assms(2)]
  have "[base_sha, head_sha] @ concat (map metadata_fields (sort_key fst d))
      = [base_sha', head_sha'] @ concat (map metadata_fields (sort_key fst d'))"
    using framed_texts_inject by (metis append_same_eq append_eq_append_conv same_append_eq)
  then show ?thesis using metadata_fields_inject by auto
qed

definition example_item :: file_metadata where
  "example_item = \<lparr>gm_status = u ''A'', gm_old_mode = u ''000000'', gm_new_mode = u ''100644'', gm_old_blob = [], gm_new_blob = u ''b''\<rparr>"

definition example_change :: "pystr \<Rightarrow> metadata" where
  "example_change path = [(path, example_item)]"

lemma framed_text_ascii:
  "ascii s \<Longrightarrow> length s < 2 ^ 32 \<Longrightarrow> framed_text s = Inr (map char_of (be_bytes 4 (length s)) @ map char_of s)"
  by (simp add: framed_text_def framed_def utf8_encode_ascii)

lemma example_diff_bytes: "\<exists>b. canonical_diff_bytes (u ''x'') (u ''y'') (example_change (u ''a'')) = Inr b"
proof -
  have "ascii s \<and> length s < 2 ^ 32" if "s \<in> set [u ''a'', u ''A'', u ''000000'', u ''100644'', [], u ''b'', u ''x'', u ''y'']" for s
    using that by (auto simp: ascii_def u_def)
  then show ?thesis
    by (simp add: canonical_diff_bytes_def example_change_def example_item_def metadata_fields_def framed_text_ascii
        framed_ascii_def framed_def del: One_nat_def)
qed

theorem diff_bytes_determine_the_change_witness:
  "canonical_diff_bytes (u ''x'') (u ''y'') (example_change (u ''a''))
     \<noteq> canonical_diff_bytes (u ''x'') (u ''y'') (example_change (u ''b''))"
proof
  assume eq: "canonical_diff_bytes (u ''x'') (u ''y'') (example_change (u ''a''))
     = canonical_diff_bytes (u ''x'') (u ''y'') (example_change (u ''b''))"
  obtain b where "canonical_diff_bytes (u ''x'') (u ''y'') (example_change (u ''a'')) = Inr b"
    using example_diff_bytes by blast
  from diff_bytes_determine_the_change [OF this this [unfolded eq]] show False
    by (auto simp: example_change_def)
qed

end
