(* ===== verification/Policy_Inspect.thy ===== *)
theory Policy_Inspect
  imports Change_Policy
begin

text \<open>
  \<open>inspect_git_diff\<close> of \<open>policy.py\<close>, in the order of the code: the repository and its commits, the
  rules on every changed path, renames and copies, the state of the worktree, the contents, the
  line counts, the digest of the change, and the second look at the repository at the end.
\<close>

section \<open>Rules on a changed path\<close>

definition ALLOWED_STATUSES :: "pystr list" where
  "ALLOWED_STATUSES = [u ''A'', u ''M'']"

definition path_violations :: "git_env \<Rightarrow> task_spec \<Rightarrow> pystr \<Rightarrow> file_metadata \<Rightarrow> pystr list" where
  "path_violations E task path item =
     (let fold = uc_casefold (ge_unicode E) in
      say_if (\<not> safe_repo_path path) (u ''unsafe repository path: '' @ ge_repr E path)
      @ say_if (is_protected_path fold path) (u ''protected path changed: '' @ path)
      @ say_if (glob_matches fold path (ts_denied_paths task) False) (u ''denied path changed: '' @ path)
      @ say_if (\<not> glob_matches fold path (ts_allowed_paths task) True) (u ''path is outside allowed_paths: '' @ path)
      @ say_if (gm_status item \<notin> set ALLOWED_STATUSES) (u ''unsupported Git status '' @ gm_status item @ u '': '' @ path)
      @ say_if (gm_new_mode item \<notin> set ALLOWED_FILE_MODES)
          (u ''unsupported Git file mode '' @ gm_new_mode item @ u '': '' @ path)
      @ say_if (gm_status item = u ''M'' \<and> gm_old_mode item \<noteq> gm_new_mode item)
          (u ''file mode changes are not supported: '' @ path))"

definition exceeds :: "string \<Rightarrow> int \<Rightarrow> int \<Rightarrow> pystr" where
  "exceeds what n limit = u what @ u '' '' @ dec_int n @ u '' exceeds '' @ dec_int limit"

text \<open>The violations found before any content is read: of the commit, of the number of files, of each path.\<close>

definition count_violations :: "task_spec \<Rightarrow> pystr list \<Rightarrow> pystr list" where
  "count_violations task paths =
     (let n = int (length paths); limit = dl_max_changed_files (ts_limits task) in
      say_if (paths = []) (u ''candidate has no committed changes'')
      @ say_if (n > limit) (exceeds ''changed file count'' n limit))"

definition metadata_violations :: "git_env \<Rightarrow> task_spec \<Rightarrow> metadata \<Rightarrow> pystr list" where
  "metadata_violations E task d =
     count_violations task (map fst d) @ concat (map (\<lambda>(path, item). path_violations E task path item) (sort_key fst d))"

definition operation_message :: "pystr \<times> pystr \<times> pystr \<Rightarrow> pystr" where
  "operation_message op =
     (case op of (status, old_path, new_path) \<Rightarrow>
        u ''Git '' @ (if take 1 status = u ''R'' then u ''rename'' else u ''copy'') @ u '' is not supported: ''
        @ old_path @ u '' -> '' @ new_path)"

definition operation_violations :: "git_env \<Rightarrow> pystr \<Rightarrow> metadata \<Rightarrow> pystr list inspect" where
  "operation_violations E base_sha d =
     bindS (base_blob_paths E base_sha) (\<lambda>base_blobs.
     liftS (Inr (map operation_message
       (sort_key (\<lambda>(a, b, c). [a, b, c]) (remdups (detected_renames_and_copies d base_blobs))))))"

section \<open>Contents\<close>

record content_scan =
  cs_violations :: "pystr list"
  cs_blocked :: bool
  cs_text :: "pystr list"
  cs_binary :: "pystr list"
  cs_hashes :: "(pystr \<times> pystr) list"
  cs_total :: int

definition blob_size :: "git_env \<Rightarrow> pystr \<Rightarrow> int inspect" where
  "blob_size E object_id =
     bindS (git E [u ''cat-file'', u ''-s'', object_id]) (\<lambda>raw.
     let invalid = refuse (u ''Git returned an invalid blob size'') in
     bindS (liftS (decode_ascii raw invalid)) (\<lambda>s.
     liftS (case py_int (ge_unicode E) (strip s) of None \<Rightarrow> Inl invalid | Some i \<Rightarrow> Inr i)))"

definition blob_content :: "git_env \<Rightarrow> pystr \<Rightarrow> int \<Rightarrow> bytes inspect" where
  "blob_content E object_id expected_size =
     bindS (verified_object_content E ''blob'' object_id) (\<lambda>content.
     bindS (liftS (require (int (length content) = expected_size) ''Git blob size changed during inspection'')) (\<lambda>_.
     liftS (Inr content)))"

definition stop_with :: "content_scan \<Rightarrow> int \<Rightarrow> pystr \<Rightarrow> content_scan \<times> bool" where
  "stop_with cs total_bytes message =
     (cs\<lparr>cs_violations := cs_violations cs @ [message], cs_blocked := True, cs_total := total_bytes\<rparr>, True)"

definition total_message :: "task_spec \<Rightarrow> int \<Rightarrow> pystr" where
  "total_message task n = exceeds ''total inspected blob size'' n (dl_max_total_bytes (ts_limits task))"

definition size_message :: "task_spec \<Rightarrow> string \<Rightarrow> int \<Rightarrow> pystr \<Rightarrow> pystr" where
  "size_message task what n path =
     exceeds what n (dl_max_file_bytes (ts_limits task)) @ u '': '' @ path"

text \<open>The old blob of a modified file; the flag tells that the loop was left.\<close>

definition scan_old_blob ::
    "git_env \<Rightarrow> task_spec \<Rightarrow> pystr \<Rightarrow> file_metadata \<Rightarrow> content_scan \<Rightarrow> (content_scan \<times> bool) inspect" where
  "scan_old_blob E task path item cs =
     (if gm_status item \<noteq> u ''M'' then liftS (Inr (cs, False))
      else
        bindS (blob_size E (gm_old_blob item)) (\<lambda>old_size.
        let total_bytes = cs_total cs + old_size in
        if old_size > dl_max_file_bytes (ts_limits task)
        then liftS (Inr (stop_with cs (cs_total cs) (size_message task ''base file size'' old_size path)))
        else if total_bytes > dl_max_total_bytes (ts_limits task)
        then liftS (Inr (stop_with cs total_bytes (total_message task total_bytes)))
        else
          bindS (blob_content E (gm_old_blob item) old_size) (\<lambda>_.
          liftS (Inr (cs\<lparr>cs_total := total_bytes\<rparr>, False)))))"

definition add_content :: "git_env \<Rightarrow> pystr \<Rightarrow> bytes \<Rightarrow> content_scan \<Rightarrow> content_scan" where
  "add_content E path content cs =
     (if utf8_decode content = None \<or> CHR 0x00 \<in> set content
      then cs\<lparr>cs_violations := cs_violations cs @ [u ''binary diff is not supported: '' @ path],
              cs_blocked := True, cs_binary := cs_binary cs @ [path]\<rparr>
      else cs\<lparr>cs_text := cs_text cs @ [path], cs_hashes := dict_set path (ge_sha256 E content) (cs_hashes cs)\<rparr>)"

definition scan_new_blob ::
    "git_env \<Rightarrow> task_spec \<Rightarrow> pystr \<Rightarrow> file_metadata \<Rightarrow> content_scan \<Rightarrow> (content_scan \<times> bool) inspect" where
  "scan_new_blob E task path item cs =
     bindS (blob_size E (gm_new_blob item)) (\<lambda>size.
     let total_bytes = cs_total cs + size in
     if size > dl_max_file_bytes (ts_limits task)
     then liftS (Inr (stop_with cs total_bytes (size_message task ''file size'' size path)))
     else if total_bytes > dl_max_total_bytes (ts_limits task)
     then liftS (Inr (stop_with cs total_bytes (total_message task total_bytes)))
     else
       bindS (blob_content E (gm_new_blob item) size) (\<lambda>content.
       liftS (Inr (add_content E path content (cs\<lparr>cs_total := total_bytes\<rparr>), False))))"

fun scan_contents :: "git_env \<Rightarrow> task_spec \<Rightarrow> metadata \<Rightarrow> content_scan \<Rightarrow> content_scan inspect" where
  "scan_contents E task [] cs = liftS (Inr cs)"
| "scan_contents E task ((path, item) # items) cs =
     bindS (scan_old_blob E task path item cs) (\<lambda>(cs1, stopped).
     if stopped then liftS (Inr cs1)
     else
       bindS (scan_new_blob E task path item cs1) (\<lambda>(cs2, stopped).
       if stopped then liftS (Inr cs2) else scan_contents E task items cs2))"

section \<open>The report\<close>

definition diff_file_of :: "line_stats \<Rightarrow> content_scan \<Rightarrow> pystr \<times> file_metadata \<Rightarrow> diff_file" where
  "diff_file_of stats cs e =
     (let (additions, deletions) = (case map_of stats (fst e) of None \<Rightarrow> (None, None) | Some s \<Rightarrow> s) in
      \<lparr>df_path = fst e, df_status = gm_status (snd e), df_additions = additions, df_deletions = deletions,
       df_binary = (fst e \<in> set (cs_binary cs)), df_content_sha256 = map_of (cs_hashes cs) (fst e)\<rparr>)"

text \<open>Each entry is validated when it is made.\<close>

definition diff_files :: "line_stats \<Rightarrow> content_scan \<Rightarrow> metadata \<Rightarrow> git_error + diff_file list" where
  "diff_files stats cs items =
     mapE (\<lambda>e. let f = diff_file_of stats cs e in
       bindE (guardE (diff_file_ok f) (GitModelError (ValidationError ''field constraints''))) (\<lambda>_. Inr f)) items"

definition missing_stats :: "content_scan \<Rightarrow> diff_file list \<Rightarrow> pystr list" where
  "missing_stats cs files =
     map (\<lambda>f. u ''Git did not return text statistics for: '' @ df_path f)
       (filter (\<lambda>f. df_path f \<in> set (cs_text cs) \<and> (df_additions f = None \<or> df_deletions f = None)) files)"

definition total_added :: "diff_file list \<Rightarrow> int" where
  "total_added files = sum_list (map (\<lambda>f. case df_additions f of None \<Rightarrow> 0 | Some n \<Rightarrow> n) files)"

text \<open>The digest when nothing is blocked, and what it adds to the violations.\<close>

definition patch_digest ::
    "git_env \<Rightarrow> pystr \<Rightarrow> pystr \<Rightarrow> metadata \<Rightarrow> pystr option \<Rightarrow> bool \<Rightarrow> git_error + (pystr option \<times> pystr list)" where
  "patch_digest E base_sha head_sha d expected blocked =
     (if \<not> blocked then
        bindE (canonical_diff_hash E base_sha head_sha d) (\<lambda>digest.
        Inr (Some digest, say_if (expected \<noteq> None \<and> expected \<noteq> Some digest)
          (u ''patch SHA-256 does not match the expected value'')))
      else Inr (None, say_if (expected \<noteq> None)
        (u ''patch SHA-256 was not computed because restricted content changed'')))"

definition head_unchanged :: "git_env \<Rightarrow> pystr \<Rightarrow> unit inspect" where
  "head_unchanged E head_sha =
     bindS (resolve_commit E (u ''HEAD'')) (\<lambda>now_sha.
     liftS (require (now_sha = head_sha) ''candidate HEAD changed during policy inspection''))"

definition second_look :: "git_env \<Rightarrow> pystr \<Rightarrow> pystr \<Rightarrow> pystr \<Rightarrow> unit inspect" where
  "second_look E repo base_sha head_sha =
     bindS (head_unchanged E head_sha) (\<lambda>_.
     bindS (reject_replace_refs E) (\<lambda>_.
     bindS (reject_dirty_worktree E repo) (\<lambda>_.
     bindS (head_unchanged E head_sha) (\<lambda>_.
     bindS (verify_commit_and_tree_graph E base_sha) (\<lambda>_.
     verify_commit_and_tree_graph E head_sha)))))"

text \<open>The first part: the repository is its own root, and both commits are what they should be.\<close>

definition open_repository :: "git_env \<Rightarrow> pystr \<Rightarrow> task_spec \<Rightarrow> pystr \<Rightarrow> (pystr \<times> pystr \<times> pystr) inspect" where
  "open_repository E repo0 task head_reference =
     bindS (observe (Resolve repo0) (\<lambda>l. case ge_resolve E l repo0 of None \<Rightarrow> Inl GitOsError | Some p \<Rightarrow> Inr p)) (\<lambda>repo.
     bindS (reject_git_layout E repo) (\<lambda>_.
     bindS (reject_replace_refs E) (\<lambda>_.
     bindS (git E (map u [''rev-parse'', ''--show-toplevel''])) (\<lambda>raw.
     bindS (liftS (decode_utf8 raw (refuse (u ''repository root must be valid UTF-8'')))) (\<lambda>s.
     bindS (observe (ResolveLax (strip s)) (\<lambda>l. case ge_resolve_lax E l (strip s) of None \<Rightarrow> Inl GitOsError | Some p \<Rightarrow> Inr p)) (\<lambda>top_level.
     bindS (liftS (require (top_level = repo) ''repository path must be the Git worktree root'')) (\<lambda>_.
     bindS (resolve_commit E (ts_base_sha task)) (\<lambda>base_sha.
     bindS (resolve_commit E head_reference) (\<lambda>head_sha.
     bindS (resolve_commit E (u ''HEAD'')) (\<lambda>current_head_sha.
     bindS (liftS (require (head_sha = current_head_sha)
       ''policy must inspect the candidate repository's current HEAD'')) (\<lambda>_.
     bindS (verify_commit_and_tree_graph E base_sha) (\<lambda>_.
     bindS (verify_commit_and_tree_graph E head_sha) (\<lambda>_.
     liftS (Inr (repo, base_sha, head_sha)))))))))))))))"

text \<open>Renames, copies and a dirty worktree are looked for only while nothing is blocked.\<close>

definition checked_operations :: "git_env \<Rightarrow> pystr \<Rightarrow> pystr \<Rightarrow> metadata \<Rightarrow> pystr list \<Rightarrow> (pystr list \<times> bool) inspect" where
  "checked_operations E repo base_sha d violations =
     (if violations \<noteq> [] then liftS (Inr (violations, True))
      else
        bindS (operation_violations E base_sha d) (\<lambda>ops.
        if ops \<noteq> [] then liftS (Inr (ops, True))
        else bindS (reject_dirty_worktree E repo) (\<lambda>_. liftS (Inr ([], False)))))"

definition build_report ::
    "git_env \<Rightarrow> task_spec \<Rightarrow> pystr \<Rightarrow> pystr \<Rightarrow> pystr \<Rightarrow> pystr option \<Rightarrow> diff_file list \<Rightarrow> pystr list \<Rightarrow> git_error + policy_report" where
  "build_report E task task_sha256 base_sha head_sha patch_sha256 files violations =
     mapError GitModelError (validate_policy
       \<lparr>pr_task_id = ts_task_id task, pr_task_sha256 = task_sha256, pr_passed = (violations = []),
        pr_trusted_harness_sha256 = ts_trusted_harness_sha256 task, pr_base_sha = base_sha, pr_head_sha = head_sha,
        pr_patch_sha256 = patch_sha256, pr_changed_files = files, pr_total_added_lines = total_added files,
        pr_violations = violations\<rparr>)"

definition inspect_git_diff ::
    "git_env \<Rightarrow> pystr \<Rightarrow> task_spec \<Rightarrow> pystr \<Rightarrow> pystr \<Rightarrow> pystr option \<Rightarrow> policy_report inspect" where
  "inspect_git_diff E repo0 task task_sha256 head_reference expected_patch_sha256 =
     bindS (open_repository E repo0 task head_reference) (\<lambda>(repo, base_sha, head_sha).
     bindS (inspect_candidate_commit E task base_sha head_sha) (\<lambda>commit_errors.
     bindS (diff_metadata E base_sha head_sha) (\<lambda>d.
     bindS (checked_operations E repo base_sha d (commit_errors @ metadata_violations E task d)) (\<lambda>(violations, blocked).
     let start = \<lparr>cs_violations = violations, cs_blocked = blocked, cs_text = [], cs_binary = [], cs_hashes = [], cs_total = 0\<rparr> in
     bindS (if blocked then liftS (Inr start) else scan_contents E task (sort_key fst d) start) (\<lambda>cs.
     bindS (if cs_blocked cs then liftS (Inr []) else numstat E base_sha head_sha (cs_text cs)) (\<lambda>stats.
     bindS (liftS (diff_files stats cs (sort_key fst d))) (\<lambda>files.
     let missing = missing_stats cs files; added = total_added files; limit = dl_max_added_lines (ts_limits task) in
     bindS (liftS (patch_digest E base_sha head_sha d expected_patch_sha256 (cs_blocked cs \<or> missing \<noteq> []))) (\<lambda>(patch_sha256, digest_errors).
     bindS (if blocked then liftS (Inr ()) else second_look E repo base_sha head_sha) (\<lambda>_.
     liftS (build_report E task task_sha256 base_sha head_sha patch_sha256 files
       (cs_violations cs @ missing @ say_if (added > limit) (exceeds ''added line count'' added limit) @ digest_errors)))))))))))"

end
