(* ===== verification/Policy_Example.thy ===== *)
theory Policy_Example
  imports Policy_Inspect "HOL-Library.Code_Target_Nat"
begin

text \<open>
  A small repository on which the inspection passes: one commit that adds one file. The statements
  about passing reports are applied to it.
\<close>

definition object_of :: "string \<Rightarrow> pystr" where
  "object_of kind = replicate 40 (if kind = ''commit'' then 0x61 else if kind = ''tree'' then 0x62 else 0x63)"

definition as_bytes :: "pystr \<Rightarrow> bytes" where
  "as_bytes s = map char_of s"

definition sample_commit :: bytes where
  "sample_commit =
     ''tree '' @ as_bytes (object_of ''tree'') @ [CHR 0x0A] @ ''parent '' @ as_bytes (object_of ''commit'') @ [CHR 0x0A]
     @ ''author N <e@x> 5 +0000'' @ [CHR 0x0A] @ ''committer N <e@x> 5 +0000'' @ [CHR 0x0A, CHR 0x0A, CHR ''m'', CHR 0x0A]"

text \<open>What Git prints, by the arguments after the global ones.\<close>

definition sample_output :: "pystr list \<Rightarrow> bytes" where
  "sample_output a =
     (let blob = as_bytes (object_of ''blob'') in
      if hd a = u ''rev-parse'' then
        (if a ! 1 = u ''--show-toplevel'' then ''/r''
         else if a ! 1 = u ''--verify'' then as_bytes (object_of ''commit'')
         else if a ! 1 = u ''--show-object-format'' then ''sha1'' else ''/r/.git'')
      else if hd a = u ''cat-file'' then
        (if a ! 1 = u ''commit'' then sample_commit else if a ! 1 = u ''tree'' then []
         else if a ! 1 = u ''-s'' then ''1'' else ''x'')
      else if hd a = u ''diff'' then
        (if u ''--raw'' \<in> set a then '':000000 100644 0 '' @ blob @ '' A'' @ [CHR 0x00, CHR ''f'', CHR 0x00]
         else [CHR ''1'', CHR 0x09, CHR ''0'', CHR 0x09, CHR ''f'', CHR 0x00])
      else if hd a = u ''ls-tree'' then
        (if u ''HEAD'' \<in> set a then ''100644 blob '' @ blob @ [CHR 0x09, CHR ''f'', CHR 0x00] else [])
      else if hd a = u ''ls-files'' then
        (if a ! 1 = u ''-v'' then ''H f'' @ [CHR 0x00] else ''100644 '' @ blob @ '' 0'' @ [CHR 0x09, CHR ''f'', CHR 0x00])
      else if hd a = u ''hash-object'' then blob else [])"

definition sample_stat :: "pystr \<Rightarrow> file_stat" where
  "sample_stat path =
     \<lparr>fs_kind = (if path = u ''/r/.git'' then Directory else RegularFile), fs_nlink = 1, fs_mode = 0, fs_uid = 0, fs_size = 1\<rparr>"

definition sample_env :: git_env where
  "sample_env =
     \<lparr>ge_git = (\<lambda>l args. Finished 0 (sample_output (drop 16 args)) []),
      ge_lstat = (\<lambda>l p. StatOk (sample_stat p)), ge_is_link = (\<lambda>l p. Some False), ge_exists = (\<lambda>l p. Some False),
      ge_mount = (\<lambda>l p. False), ge_resolve = (\<lambda>l p. Some p), ge_resolve_lax = (\<lambda>l p. Some p),
      ge_walk = (\<lambda>l p. DirTree [] (if p = u ''/r'' then [u ''f''] else [])), ge_uid = 0,
      ge_sha1 = (\<lambda>b. object_of (takeWhile (\<lambda>c. c \<noteq> CHR '' '') b)), ge_sha256 = (\<lambda>b. replicate 64 0x64),
      ge_unicode = ascii_unicode, ge_repr = (\<lambda>s. s)\<rparr>"

definition sample_task :: task_spec where
  "sample_task =
     \<lparr>ts_version = TaskV1, ts_task_id = u ''T'', ts_base_sha = object_of ''commit'',
      ts_trusted_harness_sha256 = replicate 64 0x64, ts_objective = u ''o'', ts_requirements = [],
      ts_review_prompts = \<lparr>rp_reviewer_sha256 = [], rp_adversary_sha256 = []\<rparr>,
      ts_candidate_commit = \<lparr>cc_message = u ''m'', cc_author_name = u ''N'', cc_author_email = u ''e@x'',
        cc_timestamp = 5, cc_timezone = u ''+0000''\<rparr>,
      ts_acceptance_tests = [], ts_allowed_paths = [u ''?''], ts_denied_paths = [u ''x/**''],
      ts_limits = \<lparr>dl_max_changed_files = 1, dl_max_added_lines = 1, dl_max_file_bytes = 1, dl_max_total_bytes = 1\<rparr>,
      ts_out_of_scope = []\<rparr>"

text \<open>The steps of the run, each from the log the one before it leaves.\<close>

definition sample_metadata :: metadata where
  "sample_metadata =
     [(u ''f'', \<lparr>gm_status = u ''A'', gm_old_mode = u ''000000'', gm_new_mode = u ''100644'', gm_old_blob = u ''0'',
        gm_new_blob = object_of ''blob''\<rparr>)]"

lemma sample_open:
  "fst (open_repository sample_env (u ''/r'') sample_task (u ''HEAD'') l)
     = Inr (u ''/r'', object_of ''commit'', object_of ''commit'')"
  by code_simp

lemma sample_commit_inspected:
  "fst (inspect_candidate_commit sample_env sample_task (object_of ''commit'') (object_of ''commit'') l) = Inr []"
  by code_simp

lemma sample_diff: "fst (diff_metadata sample_env (object_of ''commit'') (object_of ''commit'') l) = Inr sample_metadata"
  by code_simp

lemma sample_rules: "metadata_violations sample_env sample_task sample_metadata = []"
  by code_simp

lemma sample_operations:
  "fst (checked_operations sample_env (u ''/r'') (object_of ''commit'') sample_metadata [] l) = Inr ([], False)"
  by code_simp

lemma sample_second_look:
  "fst (second_look sample_env (u ''/r'') (object_of ''commit'') (object_of ''commit'') l) = Inr ()"
  by code_simp

definition empty_scan :: content_scan where
  "empty_scan = \<lparr>cs_violations = [], cs_blocked = False, cs_text = [], cs_binary = [], cs_hashes = [], cs_total = 0\<rparr>"

definition sample_scan :: content_scan where
  "sample_scan = \<lparr>cs_violations = [], cs_blocked = False, cs_text = [u ''f''], cs_binary = [],
     cs_hashes = [(u ''f'', replicate 64 0x64)], cs_total = 1\<rparr>"

lemma sample_contents:
  "fst (scan_contents sample_env sample_task (sort_key fst sample_metadata) empty_scan l) = Inr sample_scan"
  by code_simp

definition sample_stats :: line_stats where
  "sample_stats = [(u ''f'', Some 1, Some 0)]"

lemma sample_numstat:
  "fst (numstat sample_env (object_of ''commit'') (object_of ''commit'') (cs_text sample_scan) l) = Inr sample_stats"
  by code_simp

definition sample_files :: "diff_file list" where
  "sample_files = [\<lparr>df_path = u ''f'', df_status = u ''A'', df_additions = Some 1, df_deletions = Some 0, df_binary = False,
     df_content_sha256 = Some (replicate 64 0x64)\<rparr>]"

lemma sample_diff_files: "diff_files sample_stats sample_scan (sort_key fst sample_metadata) = Inr sample_files"
  by code_simp

lemma sample_digest:
  "patch_digest sample_env (object_of ''commit'') (object_of ''commit'') sample_metadata None False
     = Inr (Some (replicate 64 0x64), [])"
  by code_simp

definition sample_report :: policy_report where
  "sample_report =
     \<lparr>pr_task_id = u ''T'', pr_task_sha256 = replicate 64 0x64, pr_passed = True,
      pr_trusted_harness_sha256 = replicate 64 0x64, pr_base_sha = object_of ''commit'', pr_head_sha = object_of ''commit'',
      pr_patch_sha256 = Some (replicate 64 0x64), pr_changed_files = sample_files, pr_total_added_lines = 1,
      pr_violations = []\<rparr>"

lemma sample_build:
  "build_report sample_env sample_task (replicate 64 0x64) (object_of ''commit'') (object_of ''commit'')
     (Some (replicate 64 0x64)) sample_files [] = Inr sample_report"
  by code_simp

lemma sample_no_more:
  "missing_stats sample_scan sample_files = []" "total_added sample_files = 1" "cs_violations sample_scan = []"
  "cs_blocked sample_scan = False" "dl_max_added_lines (ts_limits sample_task) = 1"
  by code_simp+

lemma bindS_fst: "fst (m l) = Inr x \<Longrightarrow> bindS m f l = f x (snd (m l))"
  by (cases "m l") (simp add: bindS_def)

lemma sample_passes:
  "fst (inspect_git_diff sample_env (u ''/r'') sample_task (replicate 64 0x64) (u ''HEAD'') None l) = Inr sample_report"
  by (simp add: inspect_git_diff_def bindS_fst [OF sample_open] bindS_fst [OF sample_commit_inspected]
      bindS_fst [OF sample_diff] sample_rules bindS_fst [OF sample_operations]
      bindS_fst [OF sample_contents] bindS_fst [OF sample_numstat] bindS_fst [OF sample_second_look] sample_diff_files
      sample_digest sample_build sample_no_more say_if_def Let_def liftS_def bindS_fst [where m = "\<lambda>l. (Inr x, l)" for x]
      flip: empty_scan_def)

lemma sample_run:
  "inspect_git_diff sample_env (u ''/r'') sample_task (replicate 64 0x64) (u ''HEAD'') None []
     = (Inr sample_report, snd (inspect_git_diff sample_env (u ''/r'') sample_task (replicate 64 0x64) (u ''HEAD'') None []))"
  by (rule prod_eqI) (simp_all add: sample_passes)

lemma sample_report_passes: "pr_passed sample_report"
  by (simp add: sample_report_def)

end
