(* ===== verification/Policy_Facts.thy ===== *)
theory Policy_Facts
  imports Policy_Example
begin

text \<open>
  What a policy report of \<open>inspect_git_diff\<close> guarantees, whatever Git and the file system answer:
  the paths of a passing change follow the rules, its contents were read and checked against
  their object names, its commit is the one of the task, and no content is read before the rules
  on the paths have been applied.
\<close>

lemmas run_simps = bindS_Inr liftS_Inr result_simps require_def

section \<open>A run that returns a report\<close>

text \<open>The values a run computes on its way, in order.\<close>

lemma inspect_run:
  assumes "inspect_git_diff E repo0 task tsha head_ref expected l = (Inr report, l')"
  obtains repo base_sha head_sha l1 commit_errors l2 d l3 violations blocked l4 cs l5 stats l6 files patch digest_errors l7
  where "open_repository E repo0 task head_ref l = (Inr (repo, base_sha, head_sha), l1)"
    and "inspect_candidate_commit E task base_sha head_sha l1 = (Inr commit_errors, l2)"
    and "diff_metadata E base_sha head_sha l2 = (Inr d, l3)"
    and "checked_operations E repo base_sha d (commit_errors @ metadata_violations E task d) l3 = (Inr (violations, blocked), l4)"
    and "(if blocked then liftS (Inr \<lparr>cs_violations = violations, cs_blocked = blocked, cs_text = [], cs_binary = [], cs_hashes = [], cs_total = 0\<rparr>)
          else scan_contents E task (sort_key fst d)
            \<lparr>cs_violations = violations, cs_blocked = blocked, cs_text = [], cs_binary = [], cs_hashes = [], cs_total = 0\<rparr>) l4
        = (Inr cs, l5)"
    and "(if cs_blocked cs then liftS (Inr []) else numstat E base_sha head_sha (cs_text cs)) l5 = (Inr stats, l6)"
    and "diff_files stats cs (sort_key fst d) = Inr files"
    and "patch_digest E base_sha head_sha d expected (cs_blocked cs \<or> missing_stats cs files \<noteq> []) = Inr (patch, digest_errors)"
    and "(if blocked then liftS (Inr ()) else second_look E repo base_sha head_sha) l6 = (Inr (), l7)"
    and "build_report E task tsha base_sha head_sha patch files
          (cs_violations cs @ missing_stats cs files
           @ say_if (total_added files > dl_max_added_lines (ts_limits task))
               (exceeds ''added line count'' (total_added files) (dl_max_added_lines (ts_limits task)))
           @ digest_errors) = Inr report"
proof -
  from assms obtain repo base_sha head_sha l1 commit_errors l2 d l3 violations blocked l4 cs l5 stats l6 files patch digest_errors l7
    where "open_repository E repo0 task head_ref l = (Inr (repo, base_sha, head_sha), l1)"
      "inspect_candidate_commit E task base_sha head_sha l1 = (Inr commit_errors, l2)"
      "diff_metadata E base_sha head_sha l2 = (Inr d, l3)"
      "checked_operations E repo base_sha d (commit_errors @ metadata_violations E task d) l3 = (Inr (violations, blocked), l4)"
      and tail: "(if blocked then liftS (Inr \<lparr>cs_violations = violations, cs_blocked = blocked, cs_text = [], cs_binary = [], cs_hashes = [], cs_total = 0\<rparr>)
          else scan_contents E task (sort_key fst d)
            \<lparr>cs_violations = violations, cs_blocked = blocked, cs_text = [], cs_binary = [], cs_hashes = [], cs_total = 0\<rparr>) l4
        = (Inr cs, l5)"
      "(if cs_blocked cs then liftS (Inr []) else numstat E base_sha head_sha (cs_text cs)) l5 = (Inr stats, l6)"
      "diff_files stats cs (sort_key fst d) = Inr files"
      "patch_digest E base_sha head_sha d expected (cs_blocked cs \<or> missing_stats cs files \<noteq> []) = Inr (patch, digest_errors)"
      "(if blocked then liftS (Inr ()) else second_look E repo base_sha head_sha) l6 = (Inr (), l7)"
      "build_report E task tsha base_sha head_sha patch files
          (cs_violations cs @ missing_stats cs files
           @ say_if (total_added files > dl_max_added_lines (ts_limits task))
               (exceeds ''added line count'' (total_added files) (dl_max_added_lines (ts_limits task)))
           @ digest_errors) = Inr report"
    unfolding inspect_git_diff_def Let_def by (auto simp: bindS_Inr liftS_Inr simp del: if_split)
  then show thesis by (rule that)
qed

lemma say_if_Nil [simp]: "say_if b m = [] \<longleftrightarrow> \<not> b"
  by (simp add: say_if_def)

lemma checked_operations_blocked:
  assumes "checked_operations E repo base_sha d vs l = (Inr (violations, blocked), l')"
  shows "blocked = (violations \<noteq> [])" and "violations = [] \<Longrightarrow> vs = []"
  using assms by (auto simp: checked_operations_def run_simps split: if_splits)

lemma build_report_Inr:
  assumes "build_report E task tsha base_sha head_sha patch files violations = Inr report"
  shows "report = \<lparr>pr_task_id = ts_task_id task, pr_task_sha256 = tsha, pr_passed = (violations = []),
      pr_trusted_harness_sha256 = ts_trusted_harness_sha256 task, pr_base_sha = base_sha, pr_head_sha = head_sha,
      pr_patch_sha256 = patch, pr_changed_files = files, pr_total_added_lines = total_added files,
      pr_violations = violations\<rparr>"
  using assms by (auto simp: build_report_def validate_policy_def policy_consistency_def check_def result_simps)

lemma diff_files_Inr: "diff_files stats cs items = Inr files \<Longrightarrow> files = map (diff_file_of stats cs) items"
  by (induction items arbitrary: files) (auto simp: diff_files_def Let_def result_simps)

text \<open>The keys of the metadata are those of a dictionary.\<close>

lemma read_metadata_distinct:
  "read_metadata fs d = Inr d' \<Longrightarrow> distinct (map fst d) \<Longrightarrow> distinct (map fst d')"
  by (induction fs d rule: read_metadata.induct) (auto simp: result_simps distinct_dict_set)

lemma distinct_sort_key: "distinct (map f xs) \<Longrightarrow> distinct (map f (sort_key g xs))"
  by (metis distinct_map inj_on_subset set_sort distinct_sort subset_refl)

lemma diff_metadata_distinct:
  "diff_metadata E b h l = (Inr d, l') \<Longrightarrow> distinct (map fst d)"
  by (auto simp: diff_metadata_def parse_diff_metadata_def run_simps intro: read_metadata_distinct)

section \<open>Contents that were read\<close>

text \<open>The content a blob name stands for, readable as text and within the limit of a file.\<close>

definition good_content :: "git_env \<Rightarrow> task_spec \<Rightarrow> file_metadata \<Rightarrow> bytes \<Rightarrow> bool" where
  "good_content E task item content \<longleftrightarrow>
     ge_sha1 E (object_header ''blob'' content @ content) = gm_new_blob item
     \<and> utf8_decode content \<noteq> None \<and> CHR 0x00 \<notin> set content
     \<and> int (length content) \<le> dl_max_file_bytes (ts_limits task)"

lemma verified_content:
  "verified_object_content E t oid l = (Inr content, l') \<Longrightarrow> ge_sha1 E (object_header t content @ content) = oid"
  by (auto simp: verified_object_content_def run_simps)

lemma blob_content_Inr:
  assumes "blob_content E oid n l = (Inr content, l')"
  shows "ge_sha1 E (object_header ''blob'' content @ content) = oid" and "int (length content) = n"
  using assms verified_content by (auto simp: blob_content_def run_simps)

lemma scan_old_clean:
  assumes "scan_old_blob E task path item cs l = (Inr (cs1, stopped), l')" and "cs_violations cs1 = []"
  shows "\<not> stopped" and "cs1 = cs\<lparr>cs_total := cs_total cs1\<rparr>" and "cs_total cs \<le> cs_total cs1"
  using assms blob_content_Inr(2)
  by (fastforce simp: scan_old_blob_def run_simps stop_with_def Let_def split: if_splits)+

lemma scan_new_clean:
  assumes "scan_new_blob E task path item cs l = (Inr (cs2, stopped), l')" and "cs_violations cs2 = []"
  obtains content where "\<not> stopped" and "good_content E task item content"
    and "cs2 = cs\<lparr>cs_text := cs_text cs @ [path], cs_hashes := dict_set path (ge_sha256 E content) (cs_hashes cs),
            cs_total := cs_total cs + int (length content)\<rparr>"
    and "cs_total cs + int (length content) \<le> dl_max_total_bytes (ts_limits task)"
proof -
  from assms obtain size content l2 where "blob_content E (gm_new_blob item) size l2 = (Inr content, l')"
      and size: "\<not> size > dl_max_file_bytes (ts_limits task)" "\<not> cs_total cs + size > dl_max_total_bytes (ts_limits task)"
      and cs2: "cs2 = add_content E path content (cs\<lparr>cs_total := cs_total cs + size\<rparr>)" and "\<not> stopped"
    by (auto simp: scan_new_blob_def run_simps stop_with_def Let_def split: if_splits)
  with blob_content_Inr have "ge_sha1 E (object_header ''blob'' content @ content) = gm_new_blob item"
      "int (length content) = size" by auto
  with size cs2 assms(2) \<open>\<not> stopped\<close> show thesis
    by (intro that [of content]) (auto simp: good_content_def add_content_def split: if_splits)
qed

text \<open>A scan without a violation read every new blob.\<close>

lemma scan_contents_clean:
  assumes "scan_contents E task items cs l = (Inr cs', l')" and "cs_violations cs' = []"
    and "distinct (map fst items)"
  shows "cs_violations cs = [] \<and> cs_blocked cs' = cs_blocked cs \<and> cs_binary cs' = cs_binary cs
    \<and> cs_text cs' = cs_text cs @ map fst items
    \<and> (\<forall>p. p \<notin> fst ` set items \<longrightarrow> map_of (cs_hashes cs') p = map_of (cs_hashes cs) p)
    \<and> (\<exists>contents. list_all2 (\<lambda>e c. good_content E task (snd e) c
           \<and> map_of (cs_hashes cs') (fst e) = Some (ge_sha256 E c)) items contents
         \<and> cs_total cs + int (sum_list (map length contents)) \<le> cs_total cs'
         \<and> (items \<noteq> [] \<longrightarrow> cs_total cs' \<le> dl_max_total_bytes (ts_limits task)))"
  using assms
proof (induction E task items cs arbitrary: l rule: scan_contents.induct)
  case (1 E task cs)
  then show ?case by (auto simp: liftS_Inr)
next
  case (2 E task path item items cs)
  from "2.prems"(1) obtain cs1 st1 l1 where old: "scan_old_blob E task path item cs l = (Inr (cs1, st1), l1)"
      and r1: "(if st1 then liftS (Inr cs1) else bindS (scan_new_blob E task path item cs1)
        (\<lambda>(cs2, stopped). if stopped then liftS (Inr cs2) else scan_contents E task items cs2)) l1 = (Inr cs', l')"
    by (auto simp: bindS_Inr)
  have "\<not> st1" using r1 scan_old_clean(1) [OF old] "2.prems"(2) by (auto simp: liftS_Inr)
  with r1 obtain cs2 st2 l2 where new: "scan_new_blob E task path item cs1 l1 = (Inr (cs2, st2), l2)"
      and r2: "(if st2 then liftS (Inr cs2) else scan_contents E task items cs2) l2 = (Inr cs', l')"
    by (auto simp: bindS_Inr)
  have "\<not> st2" using r2 scan_new_clean [OF new] "2.prems"(2) by (auto simp: liftS_Inr)
  with r2 have rest: "scan_contents E task items cs2 l2 = (Inr cs', l')" by simp
  note IH = "2.IH" [OF \<open>\<not> st1\<close> \<open>\<not> st2\<close> rest "2.prems"(2)]
  from IH "2.prems"(3) have IH: "cs_violations cs2 = []" "cs_blocked cs' = cs_blocked cs2" "cs_binary cs' = cs_binary cs2"
      "cs_text cs' = cs_text cs2 @ map fst items"
      "\<And>p. p \<notin> fst ` set items \<Longrightarrow> map_of (cs_hashes cs') p = map_of (cs_hashes cs2) p"
      "\<exists>contents. list_all2 (\<lambda>e c. good_content E task (snd e) c
           \<and> map_of (cs_hashes cs') (fst e) = Some (ge_sha256 E c)) items contents
         \<and> cs_total cs2 + int (sum_list (map length contents)) \<le> cs_total cs'
         \<and> (items \<noteq> [] \<longrightarrow> cs_total cs' \<le> dl_max_total_bytes (ts_limits task))"
    by auto
  obtain content where c: "good_content E task item content"
      "cs2 = cs1\<lparr>cs_text := cs_text cs1 @ [path], cs_hashes := dict_set path (ge_sha256 E content) (cs_hashes cs1),
          cs_total := cs_total cs1 + int (length content)\<rparr>"
      "cs_total cs1 + int (length content) \<le> dl_max_total_bytes (ts_limits task)"
    using scan_new_clean [OF new IH(1)] by blast
  have "cs_violations cs1 = []" using c(2) IH(1) by simp
  note old' = scan_old_clean [OF old this]
  have cs: "cs_violations cs1 = cs_violations cs" "cs_blocked cs1 = cs_blocked cs" "cs_binary cs1 = cs_binary cs"
      "cs_text cs1 = cs_text cs" "cs_hashes cs1 = cs_hashes cs"
    by (subst old'(2), simp)+
  have p: "path \<notin> fst ` set items" using "2.prems"(3) by simp
  from IH(6) obtain contents where k: "list_all2 (\<lambda>e c. good_content E task (snd e) c
           \<and> map_of (cs_hashes cs') (fst e) = Some (ge_sha256 E c)) items contents"
      "cs_total cs2 + int (sum_list (map length contents)) \<le> cs_total cs'"
      "items \<noteq> [] \<longrightarrow> cs_total cs' \<le> dl_max_total_bytes (ts_limits task)" by blast
  have "map_of (cs_hashes cs') path = Some (ge_sha256 E content)" using IH(5) [OF p] c(2) by simp
  moreover have "items = [] \<longrightarrow> cs' = cs2" using rest by (auto simp: liftS_Inr)
  ultimately have "list_all2 (\<lambda>e c. good_content E task (snd e) c
           \<and> map_of (cs_hashes cs') (fst e) = Some (ge_sha256 E c)) ((path, item) # items) (content # contents)
         \<and> cs_total cs + int (sum_list (map length (content # contents))) \<le> cs_total cs'
         \<and> cs_total cs' \<le> dl_max_total_bytes (ts_limits task)"
    using k c old'(3) by (cases "items = []") auto
  then have "\<exists>contents. list_all2 (\<lambda>e c. good_content E task (snd e) c
           \<and> map_of (cs_hashes cs') (fst e) = Some (ge_sha256 E c)) ((path, item) # items) contents
         \<and> cs_total cs + int (sum_list (map length contents)) \<le> cs_total cs'
         \<and> ((path, item) # items \<noteq> [] \<longrightarrow> cs_total cs' \<le> dl_max_total_bytes (ts_limits task))" by blast
  moreover have "cs_violations cs = []" using \<open>cs_violations cs1 = []\<close> cs by simp
  moreover have "\<forall>p. p \<notin> fst ` set ((path, item) # items) \<longrightarrow> map_of (cs_hashes cs') p = map_of (cs_hashes cs) p"
    using IH(5) c(2) cs by simp
  moreover have "cs_blocked cs' = cs_blocked cs" "cs_binary cs' = cs_binary cs" "cs_text cs' = cs_text cs @ map fst ((path, item) # items)"
    using IH(2-4) c(2) cs by simp_all
  ultimately show ?case by blast
qed

section \<open>What a passing report guarantees\<close>

lemma passing_run:
  assumes "inspect_git_diff E repo0 task tsha head_ref expected l = (Inr report, l')" and "pr_passed report"
  obtains repo base_sha head_sha l1 l2 d l3 l4 cs l5 stats l6 l7 digest
  where "open_repository E repo0 task head_ref l = (Inr (repo, base_sha, head_sha), l1)"
    and "inspect_candidate_commit E task base_sha head_sha l1 = (Inr [], l2)"
    and "diff_metadata E base_sha head_sha l2 = (Inr d, l3)" and "metadata_violations E task d = []"
    and "checked_operations E repo base_sha d [] l3 = (Inr ([], False), l4)"
    and "scan_contents E task (sort_key fst d) empty_scan l4 = (Inr cs, l5)" and "cs_violations cs = []"
    and "numstat E base_sha head_sha (cs_text cs) l5 = (Inr stats, l6)"
    and "second_look E repo base_sha head_sha l6 = (Inr (), l7)"
    and "pr_changed_files report = map (diff_file_of stats cs) (sort_key fst d)"
    and "missing_stats cs (pr_changed_files report) = []"
    and "total_added (pr_changed_files report) \<le> dl_max_added_lines (ts_limits task)"
    and "pr_base_sha report = base_sha" and "pr_head_sha report = head_sha" and "pr_task_id report = ts_task_id task"
    and "canonical_diff_hash E base_sha head_sha d = Inr digest" and "pr_patch_sha256 report = Some digest"
    and "expected = None \<or> expected = Some digest"
proof -
  obtain repo base_sha head_sha l1 commit_errors l2 d l3 violations blocked l4 cs l5 stats l6 files patch digest_errors l7
    where r: "open_repository E repo0 task head_ref l = (Inr (repo, base_sha, head_sha), l1)"
      "inspect_candidate_commit E task base_sha head_sha l1 = (Inr commit_errors, l2)"
      "diff_metadata E base_sha head_sha l2 = (Inr d, l3)"
      and ops: "checked_operations E repo base_sha d (commit_errors @ metadata_violations E task d) l3 = (Inr (violations, blocked), l4)"
      and scan: "(if blocked then liftS (Inr \<lparr>cs_violations = violations, cs_blocked = blocked, cs_text = [], cs_binary = [], cs_hashes = [], cs_total = 0\<rparr>)
          else scan_contents E task (sort_key fst d)
            \<lparr>cs_violations = violations, cs_blocked = blocked, cs_text = [], cs_binary = [], cs_hashes = [], cs_total = 0\<rparr>) l4
        = (Inr cs, l5)"
      and stats: "(if cs_blocked cs then liftS (Inr []) else numstat E base_sha head_sha (cs_text cs)) l5 = (Inr stats, l6)"
      and files: "diff_files stats cs (sort_key fst d) = Inr files"
      and digest: "patch_digest E base_sha head_sha d expected (cs_blocked cs \<or> missing_stats cs files \<noteq> []) = Inr (patch, digest_errors)"
      and look: "(if blocked then liftS (Inr ()) else second_look E repo base_sha head_sha) l6 = (Inr (), l7)"
      and report: "build_report E task tsha base_sha head_sha patch files
          (cs_violations cs @ missing_stats cs files
           @ say_if (total_added files > dl_max_added_lines (ts_limits task))
               (exceeds ''added line count'' (total_added files) (dl_max_added_lines (ts_limits task)))
           @ digest_errors) = Inr report"
    using assms(1) by (rule inspect_run)
  note rep = build_report_Inr [OF report]
  from rep assms(2) have none: "cs_violations cs = []" "missing_stats cs files = []"
      "total_added files \<le> dl_max_added_lines (ts_limits task)" "digest_errors = []" by auto
  have "\<not> blocked"
    using checked_operations_blocked(1) [OF ops] scan none(1) by (auto simp: liftS_Inr)
  then have v: "violations = []" "commit_errors = []" "metadata_violations E task d = []"
    using checked_operations_blocked [OF ops] by auto
  with scan \<open>\<not> blocked\<close> have scan': "scan_contents E task (sort_key fst d) empty_scan l4 = (Inr cs, l5)"
    by (simp add: empty_scan_def)
  have d: "distinct (map fst (sort_key fst d))" by (rule distinct_sort_key [OF diff_metadata_distinct [OF r(3)]])
  from scan_contents_clean [OF scan' none(1) d] have "\<not> cs_blocked cs" by (simp add: empty_scan_def)
  with digest none stats obtain dg where "canonical_diff_hash E base_sha head_sha d = Inr dg" "patch = Some dg"
      "expected = None \<or> expected = Some dg" "numstat E base_sha head_sha (cs_text cs) l5 = (Inr stats, l6)"
    by (auto simp: patch_digest_def result_simps)
  then show thesis
    using r ops v \<open>\<not> blocked\<close> scan' none look rep diff_files_Inr [OF files]
    by (intro that [of repo base_sha head_sha l1 l2 d l3 l4 cs l5 stats l6 l7 dg]) simp_all
qed

lemma map_sort_key: "map f (sort_key f xs) = sort (map f xs)"
  by (rule sym, rule properties_for_sort) (auto simp: sorted_sort_key)

lemma sort_key_Nil: "sort_key f xs = [] \<longleftrightarrow> xs = []"
  by (metis length_0_conv length_sort)

lemma header_value:
  "distinct (map fst hs) \<Longrightarrow> u k \<in> fst ` set hs \<Longrightarrow> header_values hs k = [hd (header_values hs k)]"
proof (induction hs)
  case (Cons h hs)
  have "u k \<notin> fst ` set hs \<Longrightarrow> header_values hs k = []" for hs :: commit_headers
    by (force simp: header_values_def filter_empty_conv)
  with Cons show ?case by (cases "fst h = u k") (auto simp: header_values_def split: prod.splits)
qed simp

text \<open>The rules on a changed path, as a task states them.\<close>

definition change_allowed :: "git_env \<Rightarrow> task_spec \<Rightarrow> pystr \<Rightarrow> file_metadata \<Rightarrow> bool" where
  "change_allowed E task path item \<longleftrightarrow>
     (let fold = uc_casefold (ge_unicode E) in
      safe_repo_path path \<and> sensitive_path_reason fold path = None
      \<and> \<not> glob_matches fold path (ts_denied_paths task) False \<and> glob_matches fold path (ts_allowed_paths task) True
      \<and> (gm_status item = u ''A'' \<or> gm_status item = u ''M'' \<and> gm_old_mode item = gm_new_mode item)
      \<and> (gm_new_mode item = u ''100644'' \<or> gm_new_mode item = u ''100755''))"

lemma path_violations_Nil: "path_violations E task path item = [] \<Longrightarrow> change_allowed E task path item"
  by (auto simp: path_violations_def change_allowed_def Let_def is_protected_path_def ALLOWED_STATUSES_def
      ALLOWED_FILE_MODES_def)

lemma metadata_violations_Nil:
  assumes "metadata_violations E task d = []"
  shows "d \<noteq> []" and "int (length d) \<le> dl_max_changed_files (ts_limits task)"
    and "list_all (\<lambda>(path, item). change_allowed E task path item) d"
  using assms by (auto simp: metadata_violations_def count_violations_def Let_def list_all_iff intro!: path_violations_Nil)



text \<open>The report on one file, against the content that was read for it.\<close>

definition reported_content :: "git_env \<Rightarrow> task_spec \<Rightarrow> diff_file \<Rightarrow> bytes \<Rightarrow> bool" where
  "reported_content E task f content \<longleftrightarrow>
     \<not> df_binary f \<and> df_content_sha256 f = Some (ge_sha256 E content)
     \<and> df_additions f \<noteq> None \<and> df_deletions f \<noteq> None
     \<and> utf8_decode content \<noteq> None \<and> CHR 0x00 \<notin> set content
     \<and> int (length content) \<le> dl_max_file_bytes (ts_limits task)"

text \<open>
  C22. Every file of a passing report was read: its content has the object name Git gave for it,
  is text without NUL, is within the limits of the task together with the others, and the
  report carries its digest and its line counts.
\<close>

theorem passing_change_has_read_contents:
  assumes "inspect_git_diff E repo0 task tsha head_ref expected l = (Inr report, l')" and "pr_passed report"
  shows "\<exists>d contents. canonical_diff_hash E (pr_base_sha report) (pr_head_sha report) d = Inr (the (pr_patch_sha256 report))
    \<and> list_all2 (reported_content E task) (pr_changed_files report) contents
    \<and> map (\<lambda>c. ge_sha1 E (object_header ''blob'' c @ c)) contents = map (\<lambda>e. gm_new_blob (snd e)) (sort_key fst d)
    \<and> int (sum_list (map length contents)) \<le> dl_max_total_bytes (ts_limits task)"
proof (rule passing_run [OF assms], goal_cases)
  case (1 repo base_sha head_sha l1 l2 d l3 l4 cs l5 stats l6 l7 digest)
  have dist: "distinct (map fst (sort_key fst d))"
    by (rule distinct_sort_key [OF diff_metadata_distinct [OF 1(3)]])
  from scan_contents_clean [OF 1(6,7) dist] obtain contents where text_binary: "cs_text cs = map fst (sort_key fst d)" "cs_binary cs = []"
      and good: "list_all2 (\<lambda>e c. good_content E task (snd e) c
           \<and> map_of (cs_hashes cs) (fst e) = Some (ge_sha256 E c)) (sort_key fst d) contents"
      and total: "int (sum_list (map length contents)) \<le> cs_total cs" "cs_total cs \<le> dl_max_total_bytes (ts_limits task)"
    using metadata_violations_Nil(1) [OF 1(4)] sort_key_Nil [of fst d] by (auto simp: empty_scan_def)
  have "df_additions f \<noteq> None \<and> df_deletions f \<noteq> None" if "f \<in> set (pr_changed_files report)" for f
    using that 1(10,11) text_binary(1)
    by (auto simp: missing_stats_def filter_empty_conv diff_file_of_def split: prod.splits)
  then have counted: "df_additions (diff_file_of stats cs e) \<noteq> None \<and> df_deletions (diff_file_of stats cs e) \<noteq> None"
    if "e \<in> set (sort_key fst d)" for e using that unfolding 1(10) by simp
  have "list_all2 (reported_content E task) (pr_changed_files report) contents"
    unfolding 1(10) list_all2_map1
    by (rule list.rel_mono_strong [OF good], drule counted) (use text_binary(2) in
      \<open>auto simp: reported_content_def good_content_def diff_file_of_def split: prod.splits\<close>)
  moreover have "map (\<lambda>c. ge_sha1 E (object_header ''blob'' c @ c)) contents = map (\<lambda>e. gm_new_blob (snd e)) (sort_key fst d)"
    using good by (induction rule: list_all2_induct) (auto simp: good_content_def)
  ultimately show ?case using total 1 by (intro exI [of _ d] exI [of _ contents]) simp
qed

theorem passing_change_has_read_contents_witness:
  "\<exists>d contents. canonical_diff_hash sample_env (pr_base_sha sample_report) (pr_head_sha sample_report) d
        = Inr (the (pr_patch_sha256 sample_report))
    \<and> list_all2 (reported_content sample_env sample_task) (pr_changed_files sample_report) contents
    \<and> map (\<lambda>c. ge_sha1 sample_env (object_header ''blob'' c @ c)) contents
        = map (\<lambda>e. gm_new_blob (snd e)) (sort_key fst d)
    \<and> int (sum_list (map length contents)) \<le> dl_max_total_bytes (ts_limits sample_task)"
  by (rule passing_change_has_read_contents [OF sample_run sample_report_passes])

text \<open>
  The commit of a passing report is the one the task contracts: its verified content has the
  task's base as its only parent, the message of the task and a line feed, and the task's name,
  address, time and zone both as author and as committer.
\<close>

theorem passing_commit_is_the_contracted_one:
  assumes "inspect_git_diff E repo0 task tsha head_ref expected l = (Inr report, l')" and "pr_passed report"
  shows "\<exists>content parsed author committer. ge_sha1 E (object_header ''commit'' content @ content) = pr_head_sha report
    \<and> parse_commit content = Inr (parsed, cc_message (ts_candidate_commit task) @ [0x0A])
    \<and> header_values parsed ''parent'' = [pr_base_sha report]
    \<and> header_values parsed ''author'' = [author] \<and> header_values parsed ''committer'' = [committer]
    \<and> parse_identity author ''author'' = parse_identity committer ''committer''
    \<and> parse_identity author ''author'' = Inr
        ((cc_author_name (ts_candidate_commit task), cc_author_email (ts_candidate_commit task)),
         (cc_timestamp (ts_candidate_commit task), cc_timezone (ts_candidate_commit task)))"
proof (rule passing_run [OF assms], goal_cases)
  case (1 repo base_sha head_sha l1 l2 d l3 l4 cs l5 stats l6 l7 digest)
  from 1(2) obtain content where sha: "ge_sha1 E (object_header ''commit'' content @ content) = head_sha"
      and ins: "inspect_commit_content (ts_candidate_commit task) base_sha content = Inr []"
    by (auto simp: inspect_candidate_commit_def run_simps dest: verified_content)
  from ins obtain parsed message author committer where p: "parse_commit content = Inr (parsed, message)"
      "header_values parsed ''parent'' = [base_sha]" "distinct (map fst parsed)"
      and keys: "set (map fst parsed) = set (map u [''tree'', ''parent'', ''author'', ''committer''])"
      and who: "parse_identity (hd (header_values parsed ''author'')) ''author'' = Inr author"
        "parse_identity (hd (header_values parsed ''committer'')) ''committer'' = Inr committer"
      and clean: "commit_violations (ts_candidate_commit task) message author committer = []"
    by (auto simp: inspect_commit_content_def run_simps)
  have "u ''author'' \<in> fst ` set parsed" "u ''committer'' \<in> fst ` set parsed" using keys by auto
  note header_value [OF p(3) this(1)] header_value [OF p(3) this(2)]
  moreover have "message = cc_message (ts_candidate_commit task) @ [0x0A]" "author = committer"
      "author = ((cc_author_name (ts_candidate_commit task), cc_author_email (ts_candidate_commit task)),
         (cc_timestamp (ts_candidate_commit task), cc_timezone (ts_candidate_commit task)))"
    using clean by (auto simp: commit_violations_def Let_def prod_eq_iff)
  ultimately show ?case using 1(13,14) sha p who
    by (intro exI [of _ content] exI [of _ parsed] exI [of _ "hd (header_values parsed ''author'')"]
        exI [of _ "hd (header_values parsed ''committer'')"]) simp
qed

theorem passing_commit_is_the_contracted_one_witness:
  "\<exists>content parsed author committer.
    ge_sha1 sample_env (object_header ''commit'' content @ content) = pr_head_sha sample_report
    \<and> parse_commit content = Inr (parsed, cc_message (ts_candidate_commit sample_task) @ [0x0A])
    \<and> header_values parsed ''parent'' = [pr_base_sha sample_report]
    \<and> header_values parsed ''author'' = [author] \<and> header_values parsed ''committer'' = [committer]
    \<and> parse_identity author ''author'' = parse_identity committer ''committer''
    \<and> parse_identity author ''author'' = Inr
        ((cc_author_name (ts_candidate_commit sample_task), cc_author_email (ts_candidate_commit sample_task)),
         (cc_timestamp (ts_candidate_commit sample_task), cc_timezone (ts_candidate_commit sample_task)))"
  by (rule passing_commit_is_the_contracted_one [OF sample_run sample_report_passes])

section \<open>The order of the inspection\<close>

text \<open>The calls that make Git read the content of a file of the change or of the worktree.\<close>

fun reads_content :: "observation \<Rightarrow> bool" where
  "reads_content (GitRun args) =
     (let a = drop (length GIT_GLOBAL_ARGUMENTS) args in
      take 2 a = [u ''cat-file'', u ''blob''] \<or> take 1 a = [u ''hash-object''] \<or> take 6 a = DIFF_ARGUMENTS @ [u ''--numstat''])"
| "reads_content ob = False"

text \<open>A computation whose observations read no content.\<close>

definition quiet :: "'a inspect \<Rightarrow> bool" where
  "quiet m \<longleftrightarrow> emits (\<lambda>ob. \<not> reads_content ob) (\<lambda>_. 0) 0 m"

named_theorems quiet_intros \<open>introduction rules for quiet\<close>

lemma quiet_lift [quiet_intros]: "quiet (liftS r)"
  by (simp add: quiet_def emits_liftS)

lemma quiet_bind [quiet_intros]: "quiet m \<Longrightarrow> (\<And>x. quiet (f x)) \<Longrightarrow> quiet (bindS m f)"
  unfolding quiet_def by (rule emits_bindS [where a = 0 and b = 0]) auto

lemma quiet_observe: "\<not> reads_content ob \<Longrightarrow> quiet (observe ob f)"
  by (auto simp: quiet_def emits_def observe_def)

lemma quiet_looks [quiet_intros]:
  "quiet (observe (Lstat p) f)" "quiet (observe (IsLink p) g)" "quiet (observe (Exists p) g)" "quiet (observe (IsMount p) g)"
  "quiet (observe (Resolve p) h)" "quiet (observe (ResolveLax p) h)" "quiet (observe (Walk p) k)"
  by (simp_all add: quiet_observe)

lemma quiet_git:
  "take 2 a \<noteq> [u ''cat-file'', u ''blob''] \<Longrightarrow> take 1 a \<noteq> [u ''hash-object''] \<Longrightarrow> take 6 a \<noteq> DIFF_ARGUMENTS @ [u ''--numstat'']
     \<Longrightarrow> quiet (git E a)"
  unfolding git_def by (rule quiet_observe) (simp add: Let_def)

lemma quietD:
  assumes "quiet m"
  obtains es where "snd (m l) = l @ es" and "\<not> list_ex reads_content es"
  using assms unfolding quiet_def emits_def by (metis list_ex_iff)

lemma quietI: "(\<And>l. \<exists>es. snd (m l) = l @ es \<and> \<not> list_ex reads_content es) \<Longrightarrow> quiet m"
  by (simp add: quiet_def emits_def list_ex_iff)

lemma quiet_if [quiet_intros]: "quiet m \<Longrightarrow> quiet m' \<Longrightarrow> quiet (if b then m else m')"
  by simp

section \<open>The quiet part of the inspection\<close>

lemma quiet_resolve_commit [quiet_intros]: "quiet (resolve_commit E r)"
  unfolding resolve_commit_def by (intro quiet_intros quiet_git) (auto simp: DIFF_ARGUMENTS_def)

lemma quiet_replace_refs [quiet_intros]: "quiet (reject_replace_refs E)"
  unfolding reject_replace_refs_def by (intro quiet_intros quiet_git) (auto simp: DIFF_ARGUMENTS_def)

lemma quiet_object: "t \<noteq> ''blob'' \<Longrightarrow> quiet (verified_object_content E t oid)"
  unfolding verified_object_content_def by (intro quiet_intros quiet_git) (auto simp: DIFF_ARGUMENTS_def)

lemma quiet_trees: "\<exists>es. snd (verify_trees E pending seen n l) = l @ es \<and> \<not> list_ex reads_content es"
proof (induction E pending seen n l rule: verify_trees.induct)
  case (2 E t pending seen n l)
  obtain es where es: "snd (verified_object_content E ''tree'' t l) = l @ es" "\<not> list_ex reads_content es"
    using quietD [OF quiet_object [of "''tree''" E t], of l] by auto
  show ?case
  proof (cases "t \<in> seen")
    case False
    show ?thesis
    proof (cases "verified_object_content E ''tree'' t l")
      case (Pair r l1)
      with es have l1: "l1 = l @ es" by simp
      show ?thesis
      proof (cases "\<exists>content children m. r = Inr content \<and> scan_tree content n = Inr (children, m)")
        case True
        then obtain content children m where r: "r = Inr content" "scan_tree content n = Inr (children, m)" by blast
        from "2.IH"(2) [OF False Pair [symmetric] r(1) r(2) refl] obtain fs where
          "snd (verify_trees E (rev children @ pending) (insert t seen) m l1) = l1 @ fs" "\<not> list_ex reads_content fs" by blast
        with False Pair r l1 es(2) show ?thesis by (intro exI [of _ "es @ fs"]) simp
      next
        case none: False
        with False Pair es l1 show ?thesis by (intro exI [of _ es]) (auto split: sum.splits)
      qed
    qed
  qed (use 2 in simp)
qed simp

lemma quiet_graph [quiet_intros]: "quiet (verify_commit_and_tree_graph E c)"
  unfolding verify_commit_and_tree_graph_def verify_tree_graph_def
  by (intro quiet_intros quiet_object quietI quiet_trees) simp

lemma quiet_lstat [quiet_intros]: "quiet (lstat_of E p)"
  unfolding lstat_of_def look_def by (intro quiet_intros)

lemma quiet_forbidden [quiet_intros]: "quiet (reject_forbidden E g names)"
  by (induction names) (auto simp: exists_or_link_def intro!: quiet_intros)

lemma quiet_walk_metadata [quiet_intros]: "quiet (walk_metadata E g n names)"
  by (induction names arbitrary: n) (auto simp: metadata_entry_check_def Let_def intro!: quiet_intros)

lemma quiet_same_directory [quiet_intros]: "quiet (same_directory E p a label)"
  unfolding same_directory_def by (intro quiet_intros quiet_git) (auto simp: DIFF_ARGUMENTS_def)

lemma quiet_layout [quiet_intros]: "quiet (reject_git_layout E repo)"
  unfolding reject_git_layout_def look_def Let_def by (intro quiet_intros quiet_git) (auto simp: DIFF_ARGUMENTS_def)

lemma quiet_open [quiet_intros]: "quiet (open_repository E repo0 task r)"
  unfolding open_repository_def by (intro quiet_intros quiet_git) (auto simp: DIFF_ARGUMENTS_def)

lemma quiet_commit [quiet_intros]: "quiet (inspect_candidate_commit E task b h)"
  unfolding inspect_candidate_commit_def by (intro quiet_intros quiet_object) simp

lemma quiet_diff [quiet_intros]: "quiet (diff_metadata E b h)"
  unfolding diff_metadata_def by (intro quiet_intros quiet_git) (auto simp: diff_raw_arguments_def DIFF_ARGUMENTS_def)

section \<open>Rules first\<close>

text \<open>All the changed paths follow the rules of the task.\<close>

definition rules_hold :: "git_env \<Rightarrow> task_spec \<Rightarrow> metadata \<Rightarrow> bool" where
  "rules_hold E task d \<longleftrightarrow>
     (let fold = uc_casefold (ge_unicode E) in
      list_all (\<lambda>(path, item). safe_repo_path path \<and> sensitive_path_reason fold path = None
        \<and> \<not> glob_matches fold path (ts_denied_paths task) False
        \<and> glob_matches fold path (ts_allowed_paths task) True) d)"

lemma rules_hold_Nil: "metadata_violations E task d = [] \<Longrightarrow> rules_hold E task d"
  by (auto simp: metadata_violations_def rules_hold_def path_violations_def list_all_iff Let_def say_if_def
      is_protected_path_def split: if_splits)

lemma snd_bindS_lift: "snd (bindS (liftS r) f l) = (case r of Inl e \<Rightarrow> l | Inr x \<Rightarrow> snd (f x l))"
  by (cases r) (simp_all add: bindS_def liftS_def)

text \<open>Either a run reads no content, or it does so only after \<open>Q\<close> held for its log.\<close>

definition reads_after :: "(observation list \<Rightarrow> bool) \<Rightarrow> 'a inspect \<Rightarrow> bool" where
  "reads_after Q m \<longleftrightarrow> (\<forall>l. \<exists>es. \<not> list_ex reads_content es \<and> (snd (m l) = l @ es \<or> Q (l @ es)))"

lemma reads_after_bind:
  assumes "quiet m" and "\<And>x. reads_after Q (f x)"
  shows "reads_after Q (bindS m f)"
  unfolding reads_after_def
proof
  fix l
  obtain es where es: "snd (m l) = l @ es" "\<not> list_ex reads_content es" using quietD [OF assms(1)] by blast
  show "\<exists>es. \<not> list_ex reads_content es \<and> (snd (bindS m f l) = l @ es \<or> Q (l @ es))"
  proof (cases "m l")
    case (Pair r l1)
    show ?thesis
    proof (cases r)
      case (Inl e)
      with Pair es show ?thesis by (auto simp: bindS_def)
    next
      case (Inr x)
      obtain fs where "\<not> list_ex reads_content fs" "snd (f x l1) = l1 @ fs \<or> Q (l1 @ fs)"
        using assms(2) unfolding reads_after_def by blast
      with Pair es Inr show ?thesis by (intro exI [of _ "es @ fs"]) (auto simp: bindS_def)
    qed
  qed
qed

lemma reads_after_diff:
  assumes "\<And>d l. metadata_violations E task d \<noteq> [] \<Longrightarrow> snd (f d l) = l"
  shows "reads_after (\<lambda>l3. \<exists>base_sha head_sha l2 d. diff_metadata E base_sha head_sha l2 = (Inr d, l3) \<and> rules_hold E task d)
    (bindS (diff_metadata E b h) f)"
  unfolding reads_after_def
proof
  fix l
  obtain es where es: "snd (diff_metadata E b h l) = l @ es" "\<not> list_ex reads_content es" using quietD [OF quiet_diff] by blast
  obtain r where r: "diff_metadata E b h l = (r, l @ es)" using es(1) by (metis prod.collapse)
  show "\<exists>es. \<not> list_ex reads_content es \<and> (snd (bindS (diff_metadata E b h) f l) = l @ es \<or>
      (\<exists>base_sha head_sha l2 d. diff_metadata E base_sha head_sha l2 = (Inr d, l @ es) \<and> rules_hold E task d))"
  proof (cases "\<exists>d. r = Inr d \<and> metadata_violations E task d = []")
    case True
    with r es(2) rules_hold_Nil show ?thesis by blast
  next
    case False
    then have "snd (bindS (diff_metadata E b h) f l) = l @ es" using r assms by (cases r) (auto simp: bindS_def)
    with es(2) show ?thesis by blast
  qed
qed

text \<open>The rest of the run after the raw diff, when a rule is violated: nothing is observed any more.\<close>

lemma blocked_run_stops:
  assumes "vs \<noteq> []"
  shows "snd (bindS (checked_operations E repo base_sha d vs) (\<lambda>(violations, blocked).
     let start = \<lparr>cs_violations = violations, cs_blocked = blocked, cs_text = [], cs_binary = [], cs_hashes = [], cs_total = 0\<rparr> in
     bindS (if blocked then liftS (Inr start) else scan_contents E task (sort_key fst d) start) (\<lambda>cs.
     bindS (if cs_blocked cs then liftS (Inr []) else numstat E base_sha head_sha (cs_text cs)) (\<lambda>stats.
     bindS (liftS (diff_files stats cs (sort_key fst d))) (\<lambda>files.
     let missing = missing_stats cs files; added = total_added files; limit = dl_max_added_lines (ts_limits task) in
     bindS (liftS (patch_digest E base_sha head_sha d expected (cs_blocked cs \<or> missing \<noteq> []))) (\<lambda>(patch_sha256, digest_errors).
     bindS (if blocked then liftS (Inr ()) else second_look E repo base_sha head_sha) (\<lambda>_.
     liftS (build_report E task tsha base_sha head_sha patch_sha256 files
       (cs_violations cs @ missing @ say_if (added > limit) (exceeds ''added line count'' added limit) @ digest_errors)))))))) l) = l"
  using assms
  by (auto simp: checked_operations_def Let_def snd_bindS_lift liftS_def split: sum.splits prod.splits)

text \<open>
  Metadata first. Whatever Git and the file system answer and however the inspection ends, it
  makes Git read the content of no file before the raw diff has been read and every changed path
  found safe, not sensitive, not denied and allowed: its log holds no such call, or it holds none
  up to a point at which the rules were found to hold.
\<close>

theorem contents_are_read_after_the_rules:
  "\<exists>es. \<not> list_ex reads_content es
    \<and> (snd (inspect_git_diff E repo0 task tsha head_ref expected l) = l @ es
       \<or> (\<exists>base_sha head_sha l2 d. diff_metadata E base_sha head_sha l2 = (Inr d, l @ es) \<and> rules_hold E task d))"
proof -
  have "reads_after (\<lambda>l3. \<exists>base_sha head_sha l2 d. diff_metadata E base_sha head_sha l2 = (Inr d, l3) \<and> rules_hold E task d)
      (inspect_git_diff E repo0 task tsha head_ref expected)"
    unfolding inspect_git_diff_def
  proof (rule reads_after_bind [OF quiet_open], goal_cases)
    case (1 x)
    show ?case
      by (cases x rule: prod_cases3, hypsubst, unfold prod.case,
          rule reads_after_bind [OF quiet_commit], rule reads_after_diff, rule blocked_run_stops) simp
  qed
  then show ?thesis unfolding reads_after_def by blast
qed

end
