(* ===== verification/Nonce_Ledger.thy ===== *)
theory Nonce_Ledger
  imports Git_Inspect Consume_Once
begin

text \<open>
  \<open>tools/ai_review/nonce_ledger.py\<close> and the two ledgers of \<open>attestation.py\<close>: the checks of the
  ledger file and of its database, and the reservation of nonces in memory and in SQLite. What
  the operating system and SQLite answer is a function of everything that happened so far; the
  rows of the table are those of the transactions that were committed.
\<close>

section \<open>The file and its directory\<close>

datatype ledger_error =
    NonceLedgerContractError string | LedgerAttestationError string

record file_identity =
  fi_device :: nat
  fi_inode :: nat
  fi_uid :: nat
  fi_gid :: nat

record ledger_stat =
  ls_kind :: file_kind
  ls_nlink :: nat
  ls_mode :: nat
  ls_identity :: file_identity

datatype sql_value = SqlNull | SqlInt int | SqlText pystr | SqlOther

type_synonym sql_row = "sql_value list"

datatype sql_step = StepConnect | StepBegin | StepQueries | StepInsert | StepCommit | StepRollback

datatype ledger_event =
    LookedAtFile | LookedAtDirectory | Connected bool | Ran sql_step | Committed "(pystr \<times> int) list"

record ledger_env =
  le_name :: pystr
  le_lstat :: "ledger_event list \<Rightarrow> ledger_stat option"
  le_entries :: "ledger_event list \<Rightarrow> pystr list option"
  le_fails :: "ledger_event list \<Rightarrow> sql_step \<Rightarrow> bool"
  le_answer :: "ledger_event list \<Rightarrow> string \<Rightarrow> sql_row list"
  le_time :: "ledger_event list \<Rightarrow> int"
  le_uid :: nat
  le_gid :: nat

type_synonym 'a ledger_io = "(ledger_event, ledger_error, 'a) effectful"

definition contract :: "bool \<Rightarrow> string \<Rightarrow> ledger_error + unit" where
  "contract b message = guardE b (NonceLedgerContractError message)"

text \<open>The mode \<open>0o600\<close> is 384.\<close>

definition check_stat :: "ledger_env \<Rightarrow> file_identity option \<Rightarrow> ledger_stat option \<Rightarrow> ledger_error + file_identity" where
  "check_stat E expected_identity metadata =
     (case metadata of
        None \<Rightarrow> Inl (NonceLedgerContractError ''nonce ledger file is unavailable'')
      | Some st \<Rightarrow>
          bindE (contract (ls_kind st \<noteq> SymbolicLink) ''nonce ledger file must not be a symlink'') (\<lambda>_.
          bindE (contract (ls_kind st = RegularFile) ''nonce ledger must be a regular file'') (\<lambda>_.
          bindE (contract (ls_nlink st = 1) ''nonce ledger file must not be a hardlink'') (\<lambda>_.
          bindE (contract (ls_mode st = 384) ''nonce ledger file must have mode 0600'') (\<lambda>_.
          bindE (contract (fi_uid (ls_identity st) = le_uid E \<and> fi_gid (ls_identity st) = le_gid E)
            ''nonce ledger file has an invalid owner'') (\<lambda>_.
          bindE (contract (case expected_identity of None \<Rightarrow> True | Some i \<Rightarrow> ls_identity st = i)
            ''nonce ledger file identity changed'') (\<lambda>_.
          Inr (ls_identity st))))))))"

definition validate_nonce_ledger_file_metadata :: "ledger_env \<Rightarrow> file_identity option \<Rightarrow> file_identity ledger_io" where
  "validate_nonce_ledger_file_metadata E expected_identity l =
     (check_stat E expected_identity (le_lstat E l), l @ [LookedAtFile])"

definition SIDECAR_SUFFIXES :: "pystr list" where
  "SIDECAR_SUFFIXES = map u [''-journal'', ''-wal'', ''-shm'']"

definition check_entries :: "ledger_env \<Rightarrow> pystr list option \<Rightarrow> ledger_error + unit" where
  "check_entries E entries =
     (case entries of
        None \<Rightarrow> Inl (NonceLedgerContractError ''nonce ledger directory is unavailable'')
      | Some names \<Rightarrow>
          let unexpected = filter (\<lambda>n. n \<noteq> le_name E) names in
          if unexpected = [] then Inr ()
          else if list_ex (\<lambda>n. n \<in> set (map (\<lambda>s. le_name E @ s) SIDECAR_SUFFIXES)) unexpected
          then Inl (NonceLedgerContractError ''nonce ledger directory contains a forbidden SQLite sidecar'')
          else Inl (NonceLedgerContractError ''nonce ledger directory must contain only the ledger database''))"

definition validate_nonce_ledger_directory :: "ledger_env \<Rightarrow> unit ledger_io" where
  "validate_nonce_ledger_directory E l = (check_entries E (le_entries E l), l @ [LookedAtDirectory])"

section \<open>The database\<close>

definition NONCE_LEDGER_SCHEMA_SQL :: string where
  "NONCE_LEDGER_SCHEMA_SQL =
     ''CREATE TABLE used_nonces (nonce TEXT NOT NULL PRIMARY KEY CHECK(typeof(nonce) = ''
     @ CHR 0x27 # ''text'' @ CHR 0x27 # '' AND length(nonce) BETWEEN 32 AND 128 AND nonce NOT GLOB ''
     @ CHR 0x27 # ''*[^0-9a-f]*'' @ CHR 0x27 # ''), reserved_at INTEGER NOT NULL CHECK(typeof(reserved_at) = ''
     @ CHR 0x27 # ''integer'' @ CHR 0x27 # '' AND reserved_at >= 0)) WITHOUT ROWID''"

definition sqlt :: "string \<Rightarrow> sql_value" where
  "sqlt s = SqlText (u s)"

text \<open>The queries with exactly one answer row, then those whose whole answer is compared.\<close>

definition scalar_contract :: "(string \<times> sql_value) list" where
  "scalar_contract =
     [(''PRAGMA application_id'', SqlInt 1095062094), (''PRAGMA user_version'', SqlInt 1),
      (''PRAGMA journal_mode'', sqlt ''delete''), (''PRAGMA locking_mode'', sqlt ''normal''),
      (''PRAGMA auto_vacuum'', SqlInt 0), (''PRAGMA encoding'', sqlt ''UTF-8''),
      (''PRAGMA read_uncommitted'', SqlInt 0), (''PRAGMA writable_schema'', SqlInt 0)]"

definition table_contract :: "(string \<times> sql_row list) list" where
  "table_contract =
     [(''SELECT type, name, tbl_name, sql FROM sqlite_schema ORDER BY type, name'',
         [[sqlt ''table'', sqlt ''used_nonces'', sqlt ''used_nonces'', sqlt NONCE_LEDGER_SCHEMA_SQL]]),
      (''PRAGMA table_info(used_nonces)'',
         [[SqlInt 0, sqlt ''nonce'', sqlt ''TEXT'', SqlInt 1, SqlNull, SqlInt 1],
          [SqlInt 1, sqlt ''reserved_at'', sqlt ''INTEGER'', SqlInt 1, SqlNull, SqlInt 0]]),
      (''PRAGMA table_xinfo(used_nonces)'',
         [[SqlInt 0, sqlt ''nonce'', sqlt ''TEXT'', SqlInt 1, SqlNull, SqlInt 1, SqlInt 0],
          [SqlInt 1, sqlt ''reserved_at'', sqlt ''INTEGER'', SqlInt 1, SqlNull, SqlInt 0, SqlInt 0]]),
      (''PRAGMA index_list(used_nonces)'',
         [[SqlInt 0, sqlt ''sqlite_autoindex_used_nonces_1'', SqlInt 1, sqlt ''pk'', SqlInt 0]]),
      (''PRAGMA index_info(sqlite_autoindex_used_nonces_1)'', [[SqlInt 0, SqlInt 0, sqlt ''nonce'']]),
      (''PRAGMA index_xinfo(sqlite_autoindex_used_nonces_1)'',
         [[SqlInt 0, SqlInt 0, sqlt ''nonce'', SqlInt 0, sqlt ''BINARY'', SqlInt 1],
          [SqlInt 1, SqlInt 1, sqlt ''reserved_at'', SqlInt 0, sqlt ''BINARY'', SqlInt 0]]),
      (''PRAGMA foreign_key_list(used_nonces)'', []), (''PRAGMA foreign_key_check'', [])]"

definition nonce_ok :: "pystr \<Rightarrow> bool" where
  "nonce_ok s \<longleftrightarrow> 32 \<le> length s \<and> length s \<le> 128 \<and> list_all lower_hex s"

definition rows_of :: "ledger_event list \<Rightarrow> (pystr \<times> int) list" where
  "rows_of l = concat (map (\<lambda>e. case e of Committed rows \<Rightarrow> rows | _ \<Rightarrow> []) l)"

definition CONTRACT_ERROR :: ledger_error where
  "CONTRACT_ERROR = NonceLedgerContractError ''nonce ledger database does not match the required contract''"

text \<open>
  \<open>validate_nonce_ledger_connection\<close>: the answers against the constants, then the rows: none that
  breaks a constraint, and no nonce twice.
\<close>

definition connection_ok :: "(string \<Rightarrow> sql_row list) \<Rightarrow> (pystr \<times> int) list \<Rightarrow> bool" where
  "connection_ok answer rows \<longleftrightarrow>
     (case answer ''PRAGMA database_list'' of
        [row] \<Rightarrow> take 2 row = [SqlInt 0, sqlt ''main'']
      | _ \<Rightarrow> False)
     \<and> list_all (\<lambda>(query, expected). take 1 (answer query) = [[expected]]) scalar_contract
     \<and> list_all (\<lambda>(query, expected). answer query = expected) table_contract
     \<and> take 1 (answer ''PRAGMA integrity_check(1)'') = [[sqlt ''ok'']]
     \<and> list_all (\<lambda>(n, t). nonce_ok n \<and> 0 \<le> t) rows \<and> distinct (map fst rows)"

text \<open>A step of SQLite: it may fail, and it is recorded either way.\<close>

definition sql :: "ledger_env \<Rightarrow> sql_step \<Rightarrow> ledger_error \<Rightarrow> unit ledger_io" where
  "sql E step e l = (if le_fails E l step then Inl e else Inr (), l @ [Ran step])"

definition validate_nonce_ledger_connection :: "ledger_env \<Rightarrow> unit ledger_io" where
  "validate_nonce_ledger_connection E =
     bindS (sql E StepQueries CONTRACT_ERROR) (\<lambda>_ l.
       (guardE (connection_ok (le_answer E l) (rows_of l)) CONTRACT_ERROR, l))"

definition connect :: "ledger_env \<Rightarrow> bool \<Rightarrow> unit ledger_io" where
  "connect E readonly l =
     (if le_fails E l StepConnect then Inl CONTRACT_ERROR else Inr (), l @ [Connected readonly])"

text \<open>An error of the first computation is kept until the second one, which runs in any case, is over.\<close>

definition raise_after :: "(ledger_event, ledger_error, 'a) effectful \<Rightarrow> unit ledger_io \<Rightarrow> 'a ledger_io" where
  "raise_after m last_checks l =
     (case m l of (r, l1) \<Rightarrow> bindS last_checks (\<lambda>_. liftS r) l1)"

definition validate_existing_nonce_ledger :: "ledger_env \<Rightarrow> file_identity ledger_io" where
  "validate_existing_nonce_ledger E =
     bindS (validate_nonce_ledger_file_metadata E None) (\<lambda>identity.
     bindS (validate_nonce_ledger_directory E) (\<lambda>_.
     bindS (connect E True) (\<lambda>_.
     let again = validate_nonce_ledger_file_metadata E (Some identity) in
     raise_after
       (bindS again (\<lambda>_. bindS (validate_nonce_ledger_connection E) (\<lambda>_. bindS again (\<lambda>_. liftS (Inr identity)))))
       (bindS again (\<lambda>_. validate_nonce_ledger_directory E)))))"

definition connect_existing_nonce_ledger_rw :: "ledger_env \<Rightarrow> file_identity \<Rightarrow> unit ledger_io" where
  "connect_existing_nonce_ledger_rw E identity =
     bindS (validate_nonce_ledger_file_metadata E (Some identity)) (\<lambda>_.
     bindS (connect E False) (\<lambda>_.
     bindS (validate_nonce_ledger_file_metadata E (Some identity)) (\<lambda>_. liftS (Inr ()))))"

section \<open>Reservations\<close>

text \<open>The ledger in memory.\<close>

definition memory_reserve_many :: "pystr set \<Rightarrow> pystr list \<Rightarrow> bool \<times> pystr set" where
  "memory_reserve_many taken incoming =
     (if \<not> distinct incoming then (False, taken)
      else if list_ex (\<lambda>n. n \<in> taken) incoming then (False, taken)
      else (True, taken \<union> set incoming))"

text \<open>\<open>AttestationError(str(exc))\<close> of a contract error.\<close>

definition as_attestation :: "ledger_error \<Rightarrow> ledger_error" where
  "as_attestation e =
     (case e of NonceLedgerContractError m \<Rightarrow> LedgerAttestationError m | LedgerAttestationError m \<Rightarrow> LedgerAttestationError m)"

definition mapErrorS :: "('e \<Rightarrow> 'f) \<Rightarrow> ('ev, 'e, 'a) effectful \<Rightarrow> ('ev, 'f, 'a) effectful" where
  "mapErrorS h m l = (case m l of (r, l') \<Rightarrow> (mapError h r, l'))"

datatype reservation = Reserved | Refused | ReservationError string

text \<open>
  The transaction with its handlers. A statement that breaks a constraint is rolled back and
  refused, an error of SQLite is rolled back and reported; a failing roll back is reported only
  where the code does so.
\<close>

definition rolled_back :: "ledger_env \<Rightarrow> reservation \<Rightarrow> string option \<Rightarrow> ledger_event list \<Rightarrow> reservation \<times> ledger_event list" where
  "rolled_back E outcome rollback_failure l =
     (if le_fails E l StepRollback
      then (case rollback_failure of None \<Rightarrow> outcome | Some m \<Rightarrow> ReservationError m, l @ [Ran StepRollback])
      else (outcome, l @ [Ran StepRollback]))"

definition transaction :: "ledger_env \<Rightarrow> pystr list \<Rightarrow> ledger_event list \<Rightarrow> reservation \<times> ledger_event list" where
  "transaction E incoming l =
     (let failed = ReservationError ''nonce ledger reservation failed''; l1 = l @ [Ran StepBegin] in
      if le_fails E l StepBegin then (failed, l1)
      else
        (case validate_nonce_ledger_connection E l1 of
           (Inl e, l2) \<Rightarrow> rolled_back E (case as_attestation e of LedgerAttestationError m \<Rightarrow> ReservationError m | _ \<Rightarrow> failed) None l2
         | (Inr _, l2) \<Rightarrow>
             (let reserved_at = le_time E l2; l3 = l2 @ [Ran StepInsert] in
              if le_fails E l2 StepInsert then rolled_back E failed None l3
              else if list_ex (\<lambda>n. n \<in> fst ` set (rows_of l2)) incoming \<or> incoming \<noteq> [] \<and> reserved_at < 0
              then rolled_back E Refused (Some ''nonce ledger rollback failed'') l3
              else if le_fails E l3 StepCommit then rolled_back E failed None (l3 @ [Ran StepCommit])
              else (Reserved, l3 @ [Committed (map (\<lambda>n. (n, reserved_at)) incoming)]))))"

definition validate_closed_file :: "ledger_env \<Rightarrow> file_identity \<Rightarrow> unit ledger_io" where
  "validate_closed_file E identity =
     mapErrorS as_attestation
       (bindS (validate_nonce_ledger_file_metadata E (Some identity)) (\<lambda>_. validate_nonce_ledger_directory E))"

definition sqlite_reserve_many :: "ledger_env \<Rightarrow> file_identity \<Rightarrow> pystr list \<Rightarrow> bool ledger_io" where
  "sqlite_reserve_many E identity incoming =
     (if \<not> list_all nonce_ok incoming then liftS (Inr False)
      else if \<not> distinct incoming then liftS (Inr False)
      else
        bindS (mapErrorS as_attestation (connect_existing_nonce_ledger_rw E identity)) (\<lambda>_ l.
          case transaction E incoming l of
            (outcome, l1) \<Rightarrow>
              bindS (validate_closed_file E identity) (\<lambda>_.
                liftS (case outcome of
                  Reserved \<Rightarrow> Inr True | Refused \<Rightarrow> Inr False
                | ReservationError m \<Rightarrow> Inl (LedgerAttestationError m))) l1))"

end
