(* ===== verification/Attestation.thy ===== *)
theory Attestation
  imports Nonce_Ledger
begin

text \<open>
  \<open>tools/ai_review/attestation.py\<close>: the canonical JSON of the harness, the attestation models, and
  the verification of a set of signed attestations as one batch. The Ed25519 functions and the
  keys are arguments; the nonce ledger is an argument too, a state and its \<open>reserve_many\<close>.
\<close>

section \<open>Canonical JSON\<close>

datatype att_error =
    AttestationError pystr | AttTypeError string | AttValueError string | AttUnicodeError | AttModelError string

definition CANONICAL_INTEGER_LIMIT :: int where
  "CANONICAL_INTEGER_LIMIT = 9007199254740991"

text \<open>\<open>key.encode("utf-16be")\<close>; a lone surrogate raises.\<close>

definition utf16_char :: "nat \<Rightarrow> nat list" where
  "utf16_char c =
     (if c < 0x10000 then [c div 256, c mod 256]
      else
        (let v = c - 0x10000; hi = 0xD800 + v div 0x400; lo = 0xDC00 + v mod 0x400 in
         [hi div 256, hi mod 256, lo div 256, lo mod 256]))"

definition utf16_encode :: "pystr \<Rightarrow> nat list" where
  "utf16_encode s = concat (map utf16_char s)"

lemma member_size: "e \<in> set kvs \<Longrightarrow> size (snd e) < size (JObj kvs)"
  by (induction kvs) (auto simp: size_prod_simp split: prod.splits)

function canonical_value :: "json \<Rightarrow> att_error + json" where
  "canonical_value JNull = Inr JNull"
| "canonical_value (JBool b) = Inr (JBool b)"
| "canonical_value (JStr s) = Inr (JStr s)"
| "canonical_value (JInt i) =
     bindE (guardE (\<bar>i\<bar> \<le> CANONICAL_INTEGER_LIMIT)
       (AttTypeError ''canonical JSON integers must fit the interoperable integer range'')) (\<lambda>_. Inr (JInt i))"
| "canonical_value (JFloat x) = Inl (AttTypeError ''canonical JSON forbids floating-point values'')"
| "canonical_value (JArr xs) = bindE (mapE canonical_value xs) (\<lambda>ys. Inr (JArr ys))"
| "canonical_value (JObj kvs) =
     bindE (guardE (list_all (\<lambda>e. list_all scalar (fst e)) kvs) AttUnicodeError) (\<lambda>_.
     bindE (mapE (\<lambda>e. bindE (canonical_value (snd e)) (\<lambda>v. Inr (fst e, v))) (sort_key (\<lambda>e. utf16_encode (fst e)) kvs)) (\<lambda>d.
     Inr (JObj d)))"
  by pat_completeness auto

termination
  by (relation "measure size") (auto simp: less_Suc_eq_le size_list_estimation' dest: member_size)

definition canonical_json_bytes :: "json \<Rightarrow> att_error + bytes" where
  "canonical_json_bytes v =
     bindE (canonical_value v) (\<lambda>normalized.
     case utf8_encode (jprint normalized) of
       None \<Rightarrow> Inl (AttTypeError ''canonical JSON strings must contain valid Unicode'')
     | Some b \<Rightarrow> Inr b)"

definition canonical_sha256 :: "hash_fn \<Rightarrow> json \<Rightarrow> att_error + pystr" where
  "canonical_sha256 sha v = bindE (canonical_json_bytes v) (\<lambda>b. Inr (sha b))"

definition SIGNATURE_DOMAIN :: bytes where
  "SIGNATURE_DOMAIN = ''amazon-explorer-attestation-signature-v1'' @ [CHR 0x00]"

definition KEY_ID_DOMAIN :: bytes where
  "KEY_ID_DOMAIN = ''amazon-explorer-attestation-key-id-v1'' @ [CHR 0x00]"

definition ARGV_DOMAIN :: bytes where
  "ARGV_DOMAIN = ''amazon-explorer-attestation-argv-v1'' @ [CHR 0x00]"

definition argv_sha256 :: "hash_fn \<Rightarrow> pystr list \<Rightarrow> att_error + pystr" where
  "argv_sha256 sha argv =
     bindE (guardE (argv \<noteq> [] \<and> length argv \<le> 320)
       (AttValueError ''attested argv must contain between 1 and 320 arguments'')) (\<lambda>_.
     bindE (guardE (\<not> list_ex (\<lambda>a. a = [] \<or> 0 \<in> set a) argv)
       (AttValueError ''attested argv arguments must be non-empty and contain no NUL bytes'')) (\<lambda>_.
     bindE (canonical_json_bytes (JArr (map JStr argv))) (\<lambda>b.
     Inr (sha (ARGV_DOMAIN @ b)))))"

section \<open>Models\<close>

datatype artifact_type = ArtTask | ArtPolicy | ArtGate | ArtTddRed | ArtTddGreen | ArtReview

fun artifact_text :: "artifact_type \<Rightarrow> string" where
  "artifact_text ArtTask = ''task''" | "artifact_text ArtPolicy = ''policy''" | "artifact_text ArtGate = ''gate''"
| "artifact_text ArtTddRed = ''tdd-red''" | "artifact_text ArtTddGreen = ''tdd-green''" | "artifact_text ArtReview = ''review''"

record att_binding =
  ab_artifact_type :: artifact_type
  ab_artifact_sha256 :: pystr
  ab_task_id :: pystr
  ab_task_sha256 :: pystr
  ab_base_sha :: pystr
  ab_head_sha :: pystr
  ab_candidate_sha256 :: pystr
  ab_snapshot_sha256 :: pystr
  ab_runtime_manifest_sha256 :: pystr
  ab_runner_image_digest :: pystr
  ab_runner_sha256 :: pystr
  ab_argv_sha256 :: pystr
  ab_log_sha256 :: pystr
  ab_role :: pystr
  ab_session_id :: pystr
  ab_request_sha256 :: pystr
  ab_response_sha256 :: pystr

record att_statement = att_binding +
  st_nonce :: pystr
  st_issued_at :: int

record signed_attestation =
  sa_key_id :: pystr
  sa_statement :: att_statement
  sa_signature :: pystr

text \<open>\<open>^[A-Za-z][A-Za-z0-9_.:-]{0,127}$\<close>\<close>

definition is_role :: "pystr \<Rightarrow> bool" where
  "is_role s = (case s of [] \<Rightarrow> False | c # t \<Rightarrow> (upper c \<or> lower c) \<and> length t \<le> 127
     \<and> list_all (\<lambda>x. alnum x \<or> x \<in> set (u ''_.:-'')) t)"

definition binding_ok :: "'a att_binding_scheme \<Rightarrow> bool" where
  "binding_ok b \<longleftrightarrow>
     is_sha256 (ab_artifact_sha256 b) \<and> is_upper_id (ab_task_id b) \<and> is_sha256 (ab_task_sha256 b)
     \<and> is_git_sha (ab_base_sha b) \<and> is_git_sha (ab_head_sha b) \<and> is_sha256 (ab_candidate_sha256 b)
     \<and> is_sha256 (ab_snapshot_sha256 b) \<and> is_sha256 (ab_runtime_manifest_sha256 b)
     \<and> take 7 (ab_runner_image_digest b) = u ''sha256:'' \<and> is_sha256 (drop 7 (ab_runner_image_digest b))
     \<and> is_sha256 (ab_runner_sha256 b) \<and> is_sha256 (ab_argv_sha256 b) \<and> is_sha256 (ab_log_sha256 b)
     \<and> is_role (ab_role b) \<and> is_actor_id (ab_session_id b)
     \<and> is_sha256 (ab_request_sha256 b) \<and> is_sha256 (ab_response_sha256 b)"

definition statement_ok :: "att_statement \<Rightarrow> bool" where
  "statement_ok s \<longleftrightarrow> binding_ok s \<and> nonce_ok (st_nonce s) \<and> in_range 0 4102444800 (st_issued_at s)"

definition signature_text_ok :: "pystr \<Rightarrow> bool" where
  "signature_text_ok s \<longleftrightarrow> length s = 86 \<and> list_all (\<lambda>x. alnum x \<or> x = 0x5F \<or> x = 0x2D) s"

definition envelope_ok :: "signed_attestation \<Rightarrow> bool" where
  "envelope_ok e \<longleftrightarrow> is_sha256 (sa_key_id e) \<and> statement_ok (sa_statement e) \<and> signature_text_ok (sa_signature e)"

text \<open>\<open>model_dump()\<close> of a binding: every field with its value, in the order of the class.\<close>

definition binding_pairs :: "'a att_binding_scheme \<Rightarrow> (string \<times> pystr) list" where
  "binding_pairs b =
     [(''schema_version'', u ''1.0''), (''artifact_type'', u (artifact_text (ab_artifact_type b))),
      (''artifact_sha256'', ab_artifact_sha256 b), (''task_id'', ab_task_id b), (''task_sha256'', ab_task_sha256 b),
      (''base_sha'', ab_base_sha b), (''head_sha'', ab_head_sha b), (''candidate_sha256'', ab_candidate_sha256 b),
      (''snapshot_sha256'', ab_snapshot_sha256 b), (''runtime_manifest_sha256'', ab_runtime_manifest_sha256 b),
      (''runner_image_digest'', ab_runner_image_digest b), (''runner_sha256'', ab_runner_sha256 b),
      (''argv_sha256'', ab_argv_sha256 b), (''log_sha256'', ab_log_sha256 b), (''role'', ab_role b),
      (''session_id'', ab_session_id b), (''request_sha256'', ab_request_sha256 b), (''response_sha256'', ab_response_sha256 b)]"

definition statement_json :: "att_statement \<Rightarrow> json" where
  "statement_json s =
     JObj (map (\<lambda>(k, v). (u k, JStr v)) (binding_pairs s) @ [(u ''nonce'', JStr (st_nonce s)), (u ''issued_at'', JInt (st_issued_at s))])"

definition envelope_json :: "signed_attestation \<Rightarrow> json" where
  "envelope_json e =
     JObj [(u ''schema_version'', JStr (u ''1.0'')), (u ''algorithm'', JStr (u ''Ed25519'')), (u ''key_id'', JStr (sa_key_id e)),
       (u ''statement'', statement_json (sa_statement e)), (u ''signature'', JStr (sa_signature e))]"

section \<open>Signatures\<close>

text \<open>The keys and functions of the cryptography package.\<close>

record ('pk, 'sk) key_env =
  ke_sha256 :: hash_fn
  ke_ed25519 :: "'pk \<Rightarrow> bool"
  ke_raw :: "'pk \<Rightarrow> bytes"
  ke_verify :: "'pk \<Rightarrow> bytes \<Rightarrow> bytes \<Rightarrow> bool"
  ke_public :: "'sk \<Rightarrow> 'pk"
  ke_sign :: "'sk \<Rightarrow> bytes \<Rightarrow> bytes"

definition public_key_id :: "('pk, 'sk) key_env \<Rightarrow> 'pk \<Rightarrow> pystr" where
  "public_key_id K pk = ke_sha256 K (KEY_ID_DOMAIN @ ke_raw K pk)"

definition signed_bytes :: "att_statement \<Rightarrow> att_error + bytes" where
  "signed_bytes s = bindE (canonical_json_bytes (statement_json s)) (\<lambda>b. Inr (SIGNATURE_DOMAIN @ b))"

definition url_char :: "nat \<Rightarrow> nat" where
  "url_char c = (if c = 0x2B then 0x2D else if c = 0x2F then 0x5F else c)"

definition std_char :: "nat \<Rightarrow> nat" where
  "std_char c = (if c = 0x2D then 0x2B else if c = 0x5F then 0x2F else c)"

text \<open>The envelope is validated when it is made.\<close>

definition sign_attestation :: "('pk, 'sk) key_env \<Rightarrow> att_statement \<Rightarrow> 'sk \<Rightarrow> att_error + signed_attestation" where
  "sign_attestation K s sk =
     bindE (signed_bytes s) (\<lambda>b.
     let encoded = rstrip_char 0x3D (map url_char (b64encode (ke_sign K sk b)));
         envelope = \<lparr>sa_key_id = public_key_id K (ke_public K sk), sa_statement = s, sa_signature = encoded\<rparr> in
     bindE (guardE (is_sha256 (sa_key_id envelope) \<and> signature_text_ok encoded) (AttModelError ''field constraints'')) (\<lambda>_.
     Inr envelope))"

definition attestation_error :: "string \<Rightarrow> att_error" where
  "attestation_error m = AttestationError (u m)"

definition decode_signature :: "pystr \<Rightarrow> att_error + bytes" where
  "decode_signature encoded =
     (case b64decode (map std_char (encoded @ u ''=='')) of
        None \<Rightarrow> Inl (attestation_error ''attestation signature encoding is invalid'')
      | Some b \<Rightarrow>
          bindE (guardE (length b = 64) (attestation_error ''attestation signature length is invalid'')) (\<lambda>_. Inr b))"

definition verify_one_signature :: "('pk, 'sk) key_env \<Rightarrow> (pystr \<Rightarrow> 'pk option) \<Rightarrow> signed_attestation \<Rightarrow> att_error + unit" where
  "verify_one_signature K trusted e =
     (case trusted (sa_key_id e) of
        None \<Rightarrow> Inl (attestation_error ''attestation does not reference a trusted key'')
      | Some pk \<Rightarrow>
          bindE (guardE (ke_ed25519 K pk) (attestation_error ''trusted key registry contains a non-Ed25519 key'')) (\<lambda>_.
          bindE (guardE (public_key_id K pk = sa_key_id e)
            (attestation_error ''trusted key id does not match its Ed25519 public key'')) (\<lambda>_.
          bindE (decode_signature (sa_signature e)) (\<lambda>signature.
          bindE (signed_bytes (sa_statement e)) (\<lambda>b.
          guardE (ke_verify K pk signature b) (attestation_error ''attestation signature verification failed''))))))"

section \<open>Verification of a set\<close>

definition verify_binding :: "att_statement \<Rightarrow> att_binding \<Rightarrow> att_error + unit" where
  "verify_binding statement expected =
     allE (\<lambda>((name, actual), (_, wanted)).
       guardE (actual = wanted) (attestation_error (''attestation binding mismatch: '' @ name)))
       (zip (binding_pairs statement) (binding_pairs expected))"

definition comma_list :: "pystr list \<Rightarrow> pystr" where
  "comma_list xs = join_str (u '', '') xs"

definition role_of :: "signed_attestation \<Rightarrow> pystr" where
  "role_of e = ab_role (sa_statement e)"

definition repeated_roles :: "pystr list \<Rightarrow> pystr list" where
  "repeated_roles roles = sort (filter (\<lambda>r. count_list roles r \<noteq> 1) (from_keys roles))"

definition role_mismatch :: "pystr list \<Rightarrow> pystr list \<Rightarrow> pystr" where
  "role_mismatch roles expected =
     (let missing = sort (filter (\<lambda>r. r \<notin> set roles) (from_keys expected));
          unexpected = sort (filter (\<lambda>r. r \<notin> set expected) (from_keys roles)) in
      join_str (u ''; '')
        ((if missing = [] then [] else [u ''missing '' @ comma_list missing])
         @ (if unexpected = [] then [] else [u ''unexpected '' @ comma_list unexpected])))"

definition verify_one ::
    "('pk, 'sk) key_env \<Rightarrow> (pystr \<Rightarrow> 'pk option) \<Rightarrow> (pystr \<times> att_binding) list \<Rightarrow> int \<Rightarrow> int \<Rightarrow> int \<Rightarrow> signed_attestation \<Rightarrow> att_error + unit" where
  "verify_one K trusted expectations now max_age max_skew e =
     (let s = sa_statement e in
      bindE (verify_one_signature K trusted e) (\<lambda>_.
      bindE (case map_of expectations (ab_role s) of
          None \<Rightarrow> Inl (AttValueError ''KeyError'') | Some expected \<Rightarrow> verify_binding s expected) (\<lambda>_.
      bindE (guardE (st_issued_at s \<le> now + max_skew)
        (AttestationError (u ''attestation issued in the future: '' @ ab_role s))) (\<lambda>_.
      guardE (now - st_issued_at s \<le> max_age) (AttestationError (u ''attestation expired: '' @ ab_role s))))))"

record verified_set =
  vs_statements :: "att_statement list"
  vs_roles :: "pystr list"
  vs_envelope_sha256s :: "pystr list"

text \<open>The part before the nonces are taken: the envelopes in the order of their roles.\<close>

definition checked_envelopes ::
    "('pk, 'sk) key_env \<Rightarrow> (pystr \<Rightarrow> 'pk option) \<Rightarrow> (pystr \<times> att_binding) list \<Rightarrow> int \<Rightarrow> int \<Rightarrow> int \<Rightarrow> signed_attestation list
       \<Rightarrow> att_error + signed_attestation list" where
  "checked_envelopes K trusted expectations now max_age max_skew envelopes =
     (let roles = map role_of envelopes; expected_roles = map fst expectations;
          review_sessions = map (\<lambda>e. ab_session_id (sa_statement e))
            (filter (\<lambda>e. role_of e = u ''reviewer'' \<or> role_of e = u ''adversary'') envelopes);
          ordered = sort_key role_of envelopes in
      bindE (guardE (envelopes \<noteq> []) (attestation_error ''at least one attestation is required'')) (\<lambda>_.
      bindE (guardE (0 \<le> max_age \<and> 0 \<le> max_skew) (AttValueError ''attestation time bounds must be non-negative'')) (\<lambda>_.
      bindE (guardE (repeated_roles roles = [])
        (AttestationError (u ''attestation roles must appear exactly once: '' @ comma_list (repeated_roles roles)))) (\<lambda>_.
      bindE (guardE (set roles = set expected_roles)
        (AttestationError (u ''attestation roles do not match expectations: '' @ role_mismatch roles expected_roles))) (\<lambda>_.
      bindE (guardE (\<not> (u ''reviewer'' \<in> set roles \<and> u ''adversary'' \<in> set roles \<and> card (set review_sessions) \<noteq> 2))
        (attestation_error ''reviewer and adversary attestations require distinct sessions'')) (\<lambda>_.
      bindE (allE (verify_one K trusted expectations now max_age max_skew) ordered) (\<lambda>_.
      bindE (guardE (distinct (map (\<lambda>e. st_nonce (sa_statement e)) ordered))
        (attestation_error ''attestation nonce is duplicated within the bundle'')) (\<lambda>_.
      Inr ordered))))))))"

definition verify_attestation_set ::
    "('pk, 'sk) key_env \<Rightarrow> (pystr \<Rightarrow> 'pk option) \<Rightarrow> (pystr \<times> att_binding) list \<Rightarrow> ('s \<Rightarrow> pystr list \<Rightarrow> (att_error + bool) \<times> 's)
       \<Rightarrow> int \<Rightarrow> int \<Rightarrow> int \<Rightarrow> signed_attestation list \<Rightarrow> 's \<Rightarrow> (att_error + verified_set) \<times> 's" where
  "verify_attestation_set K trusted expectations reserve now max_age max_skew envelopes st =
     (case checked_envelopes K trusted expectations now max_age max_skew envelopes of
        Inl e \<Rightarrow> (Inl e, st)
      | Inr ordered \<Rightarrow>
          (case reserve st (map (\<lambda>e. st_nonce (sa_statement e)) ordered) of
             (Inl e, st') \<Rightarrow> (Inl e, st')
           | (Inr reserved, st') \<Rightarrow>
               (bindE (guardE reserved (attestation_error ''attestation replay detected'')) (\<lambda>_.
                bindE (mapE (\<lambda>e. canonical_sha256 (ke_sha256 K) (envelope_json e)) ordered) (\<lambda>digests.
                Inr \<lparr>vs_statements = map sa_statement ordered, vs_roles = map role_of ordered,
                     vs_envelope_sha256s = digests\<rparr>)), st')))"

end
