(* ===== verification/Nonce_Facts.thy ===== *)
theory Nonce_Facts
  imports Attestation
begin

text \<open>
  What a nonce ledger promises and that both ledgers keep it: a nonce is taken at most once,
  whatever fails in between. The SQLite ledger implements the ledger in memory.
\<close>

locale nonce_ledger =
  fixes reserve :: "'s \<Rightarrow> pystr list \<Rightarrow> (att_error + bool) \<times> 's"
    and taken :: "'s \<Rightarrow> pystr set"
  assumes reserve_fresh: "reserve s ns = (Inr True, s') \<Longrightarrow> set ns \<inter> taken s = {}"
    and reserve_takes: "reserve s ns = (Inr True, s') \<Longrightarrow> set ns \<subseteq> taken s'"
    and reserve_keeps: "reserve s ns = (r, s') \<Longrightarrow> taken s \<subseteq> taken s'"
begin

definition reserve_step :: "'s \<Rightarrow> 's \<Rightarrow> bool" where
  "reserve_step s s' \<longleftrightarrow> (\<exists>ns r. reserve s ns = (r, s'))"

definition reserve_one :: "'s \<Rightarrow> pystr \<Rightarrow> unit + 's" where
  "reserve_one s n = (case reserve s [n] of (Inr True, s') \<Rightarrow> Inr s' | _ \<Rightarrow> Inl ())"

lemma reserve_one_Inr: "reserve_one s n = Inr s' \<longleftrightarrow> reserve s [n] = (Inr True, s')"
  by (auto simp: reserve_one_def split: prod.splits sum.splits bool.splits)

end

sublocale nonce_ledger \<subseteq> once: consume_once "\<lambda>s n. n \<in> taken s" reserve_step reserve_one
proof unfold_locales
  fix s n s'
  assume r: "reserve_one s n = Inr s'"
  then show "n \<notin> taken s" "n \<in> taken s'"
    using reserve_fresh reserve_takes by (fastforce simp: reserve_one_Inr)+
  from r show "reserve_step s s'" by (auto simp: reserve_one_Inr reserve_step_def)
next
  fix s s' n
  show "reserve_step s s' \<Longrightarrow> n \<in> taken s \<Longrightarrow> n \<in> taken s'"
    unfolding reserve_step_def using reserve_keeps by blast
qed

context nonce_ledger
begin

lemma verified_takes:
  assumes "verify_attestation_set K trusted ex reserve now age skew envelopes s = (Inr vs, s')"
  shows "\<exists>ns. reserve s ns = (Inr True, s') \<and> set ns = (\<lambda>e. st_nonce (sa_statement e)) ` set envelopes"
proof -
  obtain ordered where c: "checked_envelopes K trusted ex now age skew envelopes = Inr ordered"
      and r: "reserve s (map (\<lambda>e. st_nonce (sa_statement e)) ordered) = (Inr True, s')"
    using assms by (auto simp: verify_attestation_set_def result_simps split: sum.splits prod.splits)
  from c have "ordered = sort_key role_of envelopes" by (auto simp: checked_envelopes_def Let_def result_simps)
  with r show ?thesis by (intro exI [of _ "map (\<lambda>e. st_nonce (sa_statement e)) ordered"]) auto
qed

text \<open>A nonce of an accepted set is in no set accepted later.\<close>

lemma accepted_once:
  assumes "verify_attestation_set K trusted ex reserve now age skew envelopes s0 = (Inr vs, s1)"
    and "reserve_step\<^sup>*\<^sup>* s1 s2" and "e \<in> set envelopes" and "e' \<in> set envelopes'"
    and "st_nonce (sa_statement e) = st_nonce (sa_statement e')"
  shows "fst (verify_attestation_set K' trusted' ex' reserve now' age' skew' envelopes' s2) \<noteq> Inr vs'"
proof
  assume "fst (verify_attestation_set K' trusted' ex' reserve now' age' skew' envelopes' s2) = Inr vs'"
  then obtain s3 where later: "verify_attestation_set K' trusted' ex' reserve now' age' skew' envelopes' s2 = (Inr vs', s3)"
    by (metis prod.collapse)
  have "st_nonce (sa_statement e) \<in> taken s1" using verified_takes [OF assms(1)] reserve_takes assms(3) by fastforce
  then have "st_nonce (sa_statement e) \<in> taken s2" by (rule once.steps_keep [OF assms(2)])
  moreover have "st_nonce (sa_statement e') \<notin> taken s2" using verified_takes [OF later] reserve_fresh assms(4) by fastforce
  ultimately show False using assms(5) by simp
qed

end

section \<open>The two ledgers\<close>

definition memory_reserve :: "pystr set \<Rightarrow> pystr list \<Rightarrow> (att_error + bool) \<times> pystr set" where
  "memory_reserve s ns = (case memory_reserve_many s ns of (b, s') \<Rightarrow> (Inr b, s'))"

interpretation memory_ledger: nonce_ledger memory_reserve "\<lambda>s. s"
  by unfold_locales (auto simp: memory_reserve_def memory_reserve_many_def list_ex_iff split: if_splits)

definition sqlite_taken :: "ledger_event list \<Rightarrow> pystr set" where
  "sqlite_taken l = fst ` set (rows_of l)"

text \<open>The exception of the ledger is one of the module.\<close>

definition sqlite_reserve :: "ledger_env \<Rightarrow> file_identity \<Rightarrow> ledger_event list \<Rightarrow> pystr list \<Rightarrow> (att_error + bool) \<times> ledger_event list" where
  "sqlite_reserve E identity l ns =
     (case sqlite_reserve_many E identity ns l of
        (r, l') \<Rightarrow> (mapError (\<lambda>e. case e of NonceLedgerContractError m \<Rightarrow> attestation_error m
                                        | LedgerAttestationError m \<Rightarrow> attestation_error m) r, l'))"

lemma rows_of_append [simp]: "rows_of (l @ l') = rows_of l @ rows_of l'"
  by (simp add: rows_of_def)

lemma rows_of_events [simp]:
  "rows_of [] = []" "rows_of (LookedAtFile # l) = rows_of l" "rows_of (LookedAtDirectory # l) = rows_of l"
  "rows_of (Connected b # l) = rows_of l" "rows_of (Ran st # l) = rows_of l" "rows_of (Committed rows # l) = rows @ rows_of l"
  by (simp_all add: rows_of_def)

text \<open>A computation that commits nothing.\<close>

definition no_commit :: "'a ledger_io \<Rightarrow> bool" where
  "no_commit m \<longleftrightarrow> (\<forall>l. rows_of (snd (m l)) = rows_of l)"

lemma no_commitD: "no_commit m \<Longrightarrow> m l = (r, l') \<Longrightarrow> rows_of l' = rows_of l"
  unfolding no_commit_def by (metis snd_conv)

lemma no_commit_bind: "no_commit m \<Longrightarrow> (\<And>x. no_commit (f x)) \<Longrightarrow> no_commit (bindS m f)"
  by (auto simp: no_commit_def bindS_def split: prod.splits sum.splits) (metis snd_conv)+

lemma no_commit_basic [simp]:
  "no_commit (liftS r)" "no_commit (validate_nonce_ledger_file_metadata E i)" "no_commit (validate_nonce_ledger_directory E)"
  "no_commit (connect E b)"
  by (auto simp: no_commit_def liftS_def validate_nonce_ledger_file_metadata_def validate_nonce_ledger_directory_def connect_def)

lemma no_commit_map: "no_commit m \<Longrightarrow> no_commit (mapErrorS h m)"
  by (auto simp: no_commit_def mapErrorS_def split: prod.splits) (metis snd_conv)

lemma no_commit_connect: "no_commit (mapErrorS as_attestation (connect_existing_nonce_ledger_rw E i))"
  unfolding connect_existing_nonce_ledger_rw_def by (intro no_commit_map no_commit_bind) simp_all

lemma no_commit_closed: "no_commit (validate_closed_file E i)"
  unfolding validate_closed_file_def by (intro no_commit_map no_commit_bind) simp_all

lemma connection_rows: "validate_nonce_ledger_connection E l = (r, l') \<Longrightarrow> rows_of l' = rows_of l"
  by (auto simp: validate_nonce_ledger_connection_def sql_def bindS_def split: sum.splits if_splits)

text \<open>How a transaction ends.\<close>

lemma transaction_cases:
  assumes "transaction E incoming l = (outcome, l')"
  shows "outcome = Reserved \<and> list_all (\<lambda>n. n \<notin> sqlite_taken l) incoming
        \<and> (\<exists>t. rows_of l' = rows_of l @ map (\<lambda>n. (n, t)) incoming)
    \<or> outcome = Refused \<and> rows_of l' = rows_of l
        \<and> (list_ex (\<lambda>n. n \<in> sqlite_taken l) incoming \<or> (\<exists>k. le_time E k < 0))
    \<or> (\<exists>m. outcome = ReservationError m) \<and> rows_of l' = rows_of l"
proof -
  obtain r l2 where v: "validate_nonce_ledger_connection E (l @ [Ran StepBegin]) = (r, l2)" by fastforce
  have "rows_of l2 = rows_of l" using connection_rows [OF v] by simp
  then show ?thesis
    using assms v
    by (cases r) (auto simp: transaction_def Let_def rolled_back_def sqlite_taken_def list_all_iff list_ex_iff
        split: if_splits option.splits ledger_error.splits)
qed

text \<open>A reservation that does not raise, apart from the checks before the connection.\<close>

lemma sqlite_reserve_cases:
  assumes "sqlite_reserve_many E identity ns l = (r, l')"
  shows "rows_of l' = rows_of l \<and> r \<noteq> Inr True
        \<and> (r = Inr False \<longrightarrow> \<not> list_all nonce_ok ns \<or> \<not> distinct ns
            \<or> list_ex (\<lambda>n. n \<in> sqlite_taken l) ns \<or> (\<exists>k. le_time E k < 0))
    \<or> (\<exists>t. rows_of l' = rows_of l @ map (\<lambda>n. (n, t)) ns) \<and> r \<noteq> Inr False
        \<and> distinct ns \<and> list_all (\<lambda>n. n \<notin> sqlite_taken l) ns"
proof (cases "list_all nonce_ok ns \<and> distinct ns")
  case True
  obtain c l1 where c: "mapErrorS as_attestation (connect_existing_nonce_ledger_rw E identity) l = (c, l1)" by fastforce
  have l1: "rows_of l1 = rows_of l" by (rule no_commitD [OF no_commit_connect c])
  obtain outcome l2 where t: "transaction E ns l1 = (outcome, l2)" by fastforce
  obtain k l3 where k: "validate_closed_file E identity l2 = (k, l3)" by fastforce
  have l3: "rows_of l3 = rows_of l2" by (rule no_commitD [OF no_commit_closed k])
  have taken: "sqlite_taken l1 = sqlite_taken l" by (simp add: sqlite_taken_def l1)
  have "(case c of Inl e \<Rightarrow> r = Inl e \<and> l' = l1
      | Inr _ \<Rightarrow> l' = l3 \<and> (case k of Inl e \<Rightarrow> r = Inl e
          | Inr _ \<Rightarrow> r = (case outcome of Reserved \<Rightarrow> Inr True | Refused \<Rightarrow> Inr False
              | ReservationError m \<Rightarrow> Inl (LedgerAttestationError m))))"
    using assms True c t k by (auto simp: sqlite_reserve_many_def bindS_def liftS_def split: sum.splits)
  with transaction_cases [OF t] l1 l3 taken True show ?thesis
    by (cases c; cases k) auto
next
  case False
  with assms show ?thesis by (auto simp: sqlite_reserve_many_def liftS_def split: if_splits)
qed

lemma sqlite_taken_rows: "rows_of l' = rows_of l @ map (\<lambda>n. (n, t)) ns \<Longrightarrow> sqlite_taken l' = sqlite_taken l \<union> set ns"
  by (auto simp: sqlite_taken_def image_Un image_image)

interpretation sqlite_ledger: nonce_ledger "sqlite_reserve E identity" sqlite_taken for E identity
proof unfold_locales
  fix l ns l'
  assume "sqlite_reserve E identity l ns = (Inr True, l')"
  then have "sqlite_reserve_many E identity ns l = (Inr True, l')"
    by (auto simp: sqlite_reserve_def mapError_eq_Inr split: prod.splits)
  from sqlite_reserve_cases [OF this] show "set ns \<inter> sqlite_taken l = {}" "set ns \<subseteq> sqlite_taken l'"
    by (auto simp: list_all_iff dest: sqlite_taken_rows)
next
  fix l ns r l'
  assume "sqlite_reserve E identity l ns = (r, l')"
  then obtain r' where "sqlite_reserve_many E identity ns l = (r', l')"
    by (auto simp: sqlite_reserve_def split: prod.splits)
  from sqlite_reserve_cases [OF this] show "sqlite_taken l \<subseteq> sqlite_taken l'"
    by (auto simp: sqlite_taken_def)
qed


text \<open>A ledger that SQLite answers as it should.\<close>

definition sample_identity :: file_identity where
  "sample_identity = \<lparr>fi_device = 1, fi_inode = 2, fi_uid = 0, fi_gid = 0\<rparr>"

definition sample_ledger :: ledger_env where
  "sample_ledger =
     \<lparr>le_name = u ''n'', le_lstat = (\<lambda>l. Some \<lparr>ls_kind = RegularFile, ls_nlink = 1, ls_mode = 384, ls_identity = sample_identity\<rparr>),
      le_entries = (\<lambda>l. Some [u ''n'']), le_fails = (\<lambda>l st. False),
      le_answer = (\<lambda>l q. case map_of table_contract q of Some rows \<Rightarrow> rows
        | None \<Rightarrow> (case map_of scalar_contract q of Some v \<Rightarrow> [[v]]
            | None \<Rightarrow> if q = ''PRAGMA database_list'' then [[SqlInt 0, sqlt ''main'']] else [[sqlt ''ok'']])),
      le_time = (\<lambda>l. 7), le_uid = 0, le_gid = 0\<rparr>"

definition sample_nonce :: pystr where
  "sample_nonce = replicate 32 0x61"

lemma sample_connection: "connection_ok (le_answer sample_ledger l) []"
  by (simp add: connection_ok_def sample_ledger_def scalar_contract_def table_contract_def)

lemma sample_nonce_ok: "nonce_ok sample_nonce"
  by (simp add: nonce_ok_def sample_nonce_def lower_hex_def is_digit_def list_all_iff)

lemma sample_reserve: "fst (sqlite_reserve_many sample_ledger sample_identity [sample_nonce] []) = Inr True"
proof -
  have env: "le_lstat sample_ledger l = Some \<lparr>ls_kind = RegularFile, ls_nlink = 1, ls_mode = 384, ls_identity = sample_identity\<rparr>"
      "le_entries sample_ledger l = Some [le_name sample_ledger]" "le_fails sample_ledger l st = False" "le_time sample_ledger l = 7"
      "le_uid sample_ledger = 0" "le_gid sample_ledger = 0" for l st by (simp_all add: sample_ledger_def)
  show ?thesis
    by (simp add: sqlite_reserve_many_def sample_nonce_ok connect_existing_nonce_ledger_rw_def bindS_def liftS_def mapErrorS_def
        validate_nonce_ledger_file_metadata_def check_stat_def contract_def env connect_def transaction_def Let_def
        validate_nonce_ledger_connection_def sql_def sample_connection validate_closed_file_def
        validate_nonce_ledger_directory_def check_entries_def sample_identity_def)
qed


end
