(* ===== verification/Canonical_Values.thy ===== *)
theory Canonical_Values
  imports Attestation Canonical_Document
begin

text \<open>
  The values that have canonical JSON: integers of the interoperable range, text that UTF-8 can
  carry, and no floating-point values, at every depth.
\<close>

fun representable :: "json \<Rightarrow> bool" where
  "representable (JInt i) = (\<bar>i\<bar> \<le> CANONICAL_INTEGER_LIMIT)"
| "representable (JFloat x) = False"
| "representable (JStr s) = list_all scalar s"
| "representable (JArr xs) = list_all representable xs"
| "representable (JObj kvs) = list_all (\<lambda>(k, v). list_all scalar k \<and> representable v) kvs"
| "representable _ = True"

lemma mapE_all_Inr: "(\<exists>ys. mapE f xs = Inr ys) \<longleftrightarrow> (\<forall>x \<in> set xs. \<exists>y. f x = Inr y)"
  by (induction xs) (auto simp: result_simps)

lemma ascii_scalars: "ascii s \<Longrightarrow> list_all scalar s"
  by (auto simp: ascii_def list_all_iff scalar_def surrogate_def)

lemma json_escape_scalars: "list_all scalar (json_escape c) \<longleftrightarrow> scalar c"
proof -
  have "d < 16 \<Longrightarrow> scalar (hex_digit d)" for d by (auto simp: hex_digit_def scalar_def surrogate_def)
  then show ?thesis by (auto simp: json_escape_def scalar_def surrogate_def)
qed

lemma json_string_scalars: "list_all scalar (json_string s) \<longleftrightarrow> list_all scalar s"
proof -
  have "list_all scalar (concat (map json_escape s)) \<longleftrightarrow> list_all scalar s"
    by (induction s) (simp_all add: json_escape_scalars)
  then show ?thesis by (simp add: json_string_def scalar_def surrogate_def)
qed

lemma join_with_scalars: "scalar sep \<Longrightarrow> list_all scalar (join_with sep xs) \<longleftrightarrow> list_all (list_all scalar) xs"
  by (induction sep xs rule: join_with.induct) auto

lemma mark_scalars [simp]: "c < 0x80 \<Longrightarrow> scalar c"
  by (simp add: scalar_def surrogate_def)

text \<open>No floats and no integers of more than 16 digits after the first step.\<close>

lemma canonical_value_scalars:
  "canonical_value v = Inr w \<Longrightarrow> list_all scalar (jprint w) \<longleftrightarrow> representable v"
proof (induction v arbitrary: w rule: canonical_value.induct)
  case (4 i)
  then show ?case by (auto simp: result_simps ascii_scalars dec_int_ascii)
next
  case (6 xs)
  then obtain ys where ys: "mapE canonical_value xs = Inr ys" "w = JArr ys" by (auto simp: result_simps)
  then have "list_all2 (\<lambda>x y. canonical_value x = Inr y) xs ys" by (simp add: mapE_eq_Inr)
  then have "list_all2 (\<lambda>x y. list_all scalar (jprint y) = representable x) xs ys"
    by (rule list.rel_mono_strong) (use 6(1) in blast)
  then have "list_all (\<lambda>y. list_all scalar (jprint y)) ys \<longleftrightarrow> list_all representable xs"
    by (induction rule: list_all2_induct) auto
  then show ?case using ys by (simp add: join_with_scalars list.pred_map comp_def)
next
  case (7 kvs)
  let ?s = "sort_key (\<lambda>e. utf16_encode (fst e)) kvs"
  from 7(2) have keys: "list_all (\<lambda>e. list_all scalar (fst e)) kvs" by (auto simp: result_simps)
  from 7(2) obtain d where d: "mapE (\<lambda>e. bindE (canonical_value (snd e)) (\<lambda>v. Inr (fst e, v))) ?s = Inr d" "w = JObj d"
    by (auto simp: result_simps)
  then have "list_all2 (\<lambda>e f. \<exists>y. canonical_value (snd e) = Inr y \<and> (fst e, y) = f) ?s d"
    by (auto simp: mapE_eq_Inr result_simps)
  then have "list_all2 (\<lambda>e f. fst f = fst e \<and> list_all scalar (jprint (snd f)) = representable (snd e)) ?s d"
    by (rule list.rel_mono_strong) (use 7(1) keys in \<open>fastforce simp: result_simps\<close>)
  then have "list_all (\<lambda>(k, v). list_all scalar k \<and> list_all scalar (jprint v)) d
      \<longleftrightarrow> list_all (\<lambda>(k, v). list_all scalar k \<and> representable v) ?s"
    by (induction rule: list_all2_induct) auto
  also have "\<dots> \<longleftrightarrow> representable (JObj kvs)" by (simp add: list_all_iff)
  finally have "list_all (\<lambda>(k, v). list_all scalar k \<and> list_all scalar (jprint v)) d \<longleftrightarrow> representable (JObj kvs)" .
  then show ?case using d
    by (simp add: join_with_scalars list.pred_map comp_def case_prod_unfold json_string_scalars)
qed (auto simp: json_string_scalars u_def)

lemma representable_canonical: "representable v \<Longrightarrow> \<exists>w. canonical_value v = Inr w"
proof (induction v rule: canonical_value.induct)
  case (6 xs)
  then have "\<exists>ys. mapE canonical_value xs = Inr ys" by (auto simp: mapE_all_Inr list_all_iff)
  then show ?case by auto
next
  case (7 kvs)
  then have keys: "list_all (\<lambda>e. list_all scalar (fst e)) kvs" by (auto simp: list_all_iff)
  have "\<exists>ys. mapE (\<lambda>e. bindE (canonical_value (snd e)) (\<lambda>v. Inr (fst e, v))) (sort_key (\<lambda>e. utf16_encode (fst e)) kvs) = Inr ys"
    using 7 keys by (fastforce simp: mapE_all_Inr list_all_iff result_simps)
  with keys show ?case by auto
qed (auto simp: result_simps)

lemma canonical_json_total: "representable v \<Longrightarrow> \<exists>b. canonical_json_bytes v = Inr b"
proof -
  assume r: "representable v"
  then obtain w where w: "canonical_value v = Inr w" using representable_canonical by blast
  then have "utf8_encode (jprint w) \<noteq> None" using canonical_value_scalars [OF w] r by (simp add: utf8_encode_def)
  with w show ?thesis by (auto simp: canonical_json_bytes_def)
qed

text \<open>
  Canonical JSON fails on exactly the values that have none: floating-point values, integers
  outside the interoperable range, and text or keys UTF-8 cannot carry.
\<close>

theorem canonical_json_exists_iff: "(\<exists>b. canonical_json_bytes v = Inr b) \<longleftrightarrow> representable v"
proof
  assume "\<exists>b. canonical_json_bytes v = Inr b"
  then obtain w where w: "canonical_value v = Inr w" "\<exists>c. utf8_encode (jprint w) = Some c"
    by (auto simp: canonical_json_bytes_def result_simps split: option.splits)
  then show "representable v" using canonical_value_scalars [OF w(1)] by (auto simp: utf8_encode_def split: if_splits)
qed (rule canonical_json_total)

end
