(* ===== verification/Attestation_Example.thy ===== *)
theory Attestation_Example
  imports Nonce_Facts Canonical_Values "HOL-Library.Code_Target_Nat"
begin

text \<open>
  One gate attestation with toy keys, evaluated: it is signed, decoded, bound and accepted. The
  signature function answers 64 bytes of zero and accepts them for any message.
\<close>

definition sample_hex :: pystr where
  "sample_hex = replicate 64 0x61"

definition sample_statement :: att_statement where
  "sample_statement =
     \<lparr>ab_artifact_type = ArtGate, ab_artifact_sha256 = sample_hex, ab_task_id = u ''TASK-1'', ab_task_sha256 = sample_hex,
      ab_base_sha = replicate 40 0x61, ab_head_sha = replicate 40 0x62, ab_candidate_sha256 = sample_hex,
      ab_snapshot_sha256 = sample_hex, ab_runtime_manifest_sha256 = sample_hex,
      ab_runner_image_digest = u ''sha256:'' @ sample_hex, ab_runner_sha256 = sample_hex, ab_argv_sha256 = sample_hex,
      ab_log_sha256 = sample_hex, ab_role = u ''gate'', ab_session_id = u ''session-1'', ab_request_sha256 = sample_hex,
      ab_response_sha256 = sample_hex, st_nonce = sample_nonce, st_issued_at = 1000\<rparr>"

definition sample_keys :: "(unit, unit) key_env" where
  "sample_keys =
     \<lparr>ke_sha256 = (\<lambda>b. sample_hex), ke_ed25519 = (\<lambda>pk. True), ke_raw = (\<lambda>pk. ''key''),
      ke_verify = (\<lambda>pk sig b. sig = replicate 64 (CHR 0x00)), ke_public = (\<lambda>sk. ()), ke_sign = (\<lambda>sk b. replicate 64 (CHR 0x00))\<rparr>"

definition sample_trust :: "pystr \<Rightarrow> unit option" where
  "sample_trust k = (if k = sample_hex then Some () else None)"

definition sample_envelope :: signed_attestation where
  "sample_envelope = \<lparr>sa_key_id = sample_hex, sa_statement = sample_statement, sa_signature = replicate 86 0x41\<rparr>"

definition sample_expectations :: "(pystr \<times> att_binding) list" where
  "sample_expectations = [(u ''gate'', att_binding.truncate sample_statement)]"

lemma sample_statement_values: "representable (statement_json sample_statement)"
  by code_simp

lemma sample_statement_signed: "\<exists>b. signed_bytes sample_statement = Inr b"
  using canonical_json_total [OF sample_statement_values] by (auto simp: signed_bytes_def)

lemma sample_decoded: "decode_signature (replicate 86 0x41) = Inr (replicate 64 (CHR 0x00))"
  by code_simp

lemma sample_encoded: "rstrip_char 0x3D (map url_char (b64encode (replicate 64 (CHR 0x00)))) = replicate 86 0x41"
  by code_simp

lemma sample_forms: "signature_text_ok (replicate 86 0x41)" "is_sha256 sample_hex"
  by code_simp+

lemmas sample_parts = sample_keys_def sample_trust_def public_key_id_def

lemma sample_projections [simp]:
  "sa_key_id sample_envelope = sample_hex" "sa_statement sample_envelope = sample_statement"
  "sa_signature sample_envelope = replicate 86 0x41" "role_of sample_envelope = u ''gate''"
  "ab_role sample_statement = u ''gate''" "st_nonce sample_statement = sample_nonce" "st_issued_at sample_statement = 1000"
  by (simp_all add: sample_envelope_def role_of_def sample_statement_def)

lemma sample_envelope_made: "sign_attestation sample_keys sample_statement () = Inr sample_envelope"
  using sample_statement_signed
  by (auto simp: sign_attestation_def Let_def sample_parts sample_encoded sample_forms sample_envelope_def)

lemma sample_verifies: "verify_one_signature sample_keys sample_trust sample_envelope = Inr ()"
  using sample_statement_signed by (auto simp: verify_one_signature_def sample_parts sample_decoded)

lemma sample_bound: "verify_binding sample_statement (att_binding.truncate sample_statement) = Inr ()"
  by (simp add: verify_binding_def binding_pairs_def att_binding.defs sample_statement_def)

lemma sample_envelope_accepted:
  "checked_envelopes sample_keys sample_trust sample_expectations 1010 300 30 [sample_envelope] = Inr [sample_envelope]"
  by (simp add: checked_envelopes_def Let_def repeated_roles_def from_keys_def sample_expectations_def verify_one_def
      sample_verifies sample_bound u_def)

lemma sample_envelope_values: "representable (envelope_json sample_envelope)"
  using sample_statement_values sample_forms by (simp add: envelope_json_def) code_simp

lemma sample_envelope_digest: "canonical_sha256 (ke_sha256 sample_keys) (envelope_json sample_envelope) = Inr sample_hex"
  using canonical_json_total [OF sample_envelope_values] by (auto simp: canonical_sha256_def sample_keys_def)

definition sample_verified :: verified_set where
  "sample_verified = \<lparr>vs_statements = [sample_statement], vs_roles = [u ''gate''], vs_envelope_sha256s = [sample_hex]\<rparr>"

text \<open>The set is accepted with any ledger that takes the nonce.\<close>

lemma sample_set_accepted:
  "reserve st [sample_nonce] = (Inr True, st') \<Longrightarrow>
   verify_attestation_set sample_keys sample_trust sample_expectations reserve 1010 300 30 [sample_envelope] st
     = (Inr sample_verified, st')"
  by (simp add: verify_attestation_set_def sample_envelope_accepted sample_envelope_digest sample_verified_def)

end
