(* ===== verification/Attestation_Facts.thy ===== *)
theory Attestation_Facts
  imports Attestation_Example Canonical_Document "HOL-Library.Multiset"
begin

text \<open>
  What an accepted set of attestations guarantees: every statement is signed by a trusted key,
  bound to its expectation, fresh, and counted once for ever. The bytes a signature covers
  determine the statement.
\<close>

section \<open>The bytes under a signature\<close>

lemma utf16_ascii_le: "ascii a \<Longrightarrow> ascii b \<Longrightarrow> utf16_encode a \<le> utf16_encode b \<longleftrightarrow> a \<le> b"
proof (induction a arbitrary: b)
  case (Cons c a)
  show ?case
  proof (cases b)
    case (Cons d b')
    have "utf16_char c = [0, c]" "utf16_char d = [0, d]"
      using Cons.prems Cons by (auto simp: ascii_def utf16_char_def)
    with Cons.IH [of b'] Cons.prems Cons show ?thesis by (auto simp: utf16_encode_def ascii_def)
  qed (use Cons in \<open>auto simp: utf16_encode_def utf16_char_def ascii_def\<close>)
qed (simp add: utf16_encode_def)

lemma insort_key_cong:
  "(\<And>x y. x \<in> insert a (set xs) \<Longrightarrow> y \<in> insert a (set xs) \<Longrightarrow> f x \<le> f y \<longleftrightarrow> g x \<le> g y)
     \<Longrightarrow> insort_key f a xs = insort_key g a xs"
  by (induction xs) auto

lemma sort_key_cong_le:
  "(\<And>x y. x \<in> set xs \<Longrightarrow> y \<in> set xs \<Longrightarrow> f x \<le> f y \<longleftrightarrow> g x \<le> g y) \<Longrightarrow> sort_key f xs = sort_key g xs"
proof (induction xs)
  case (Cons a xs)
  then have "sort_key f xs = sort_key g xs" by simp
  with Cons.prems show ?case by (auto simp: intro!: insort_key_cong)
qed simp

text \<open>A flat object of texts and integers with plain keys is canonical when its keys are sorted.\<close>

fun leaf :: "json \<Rightarrow> bool" where
  "leaf (JStr s) = True" | "leaf (JInt i) = True" | "leaf _ = False"

lemma canonical_leaf: "leaf v \<Longrightarrow> canonical_value v = Inr w \<Longrightarrow> w = v \<and> plain v \<and> jsort v = v"
proof (cases v)
  case (JInt i)
  assume "canonical_value v = Inr w"
  with JInt have "\<bar>i\<bar> \<le> 9007199254740991" "w = v" by (auto simp: result_simps CANONICAL_INTEGER_LIMIT_def)
  moreover from this have "length (dec_nat (nat \<bar>i\<bar>)) \<le> 16"
    using length_dec_nat [of "nat \<bar>i\<bar>" 15] by simp
  ultimately show ?thesis using JInt by simp
qed auto

lemma canonical_flat:
  assumes "canonical_value (JObj kvs) = Inr n" and "list_all (\<lambda>e. ascii (fst e) \<and> leaf (snd e)) kvs" and "distinct (map fst kvs)"
  shows "n = jsort (JObj kvs)" and "plain (JObj kvs)"
proof -
  let ?s = "sort_key (\<lambda>e. utf16_encode (fst e)) kvs"
  have s: "?s = sort_key fst kvs"
    by (rule sort_key_cong_le) (use assms(2) in \<open>auto simp: list_all_iff intro!: utf16_ascii_le\<close>)
  let ?f = "\<lambda>e. bindE (canonical_value (snd e)) (\<lambda>v. Inr (fst e, v))"
  from assms(1) obtain d where d: "mapE ?f ?s = Inr d" "n = JObj d"
    by (auto simp: result_simps)
  have leaf_of: "leaf (snd e)" if "e \<in> set kvs" for e using that assms(2) by (auto simp: list_all_iff)
  have same: "y = e" if "e \<in> set ?s" and "?f e = Inr y" for e y
  proof -
    from that(2) obtain w where w: "canonical_value (snd e) = Inr w" "y = (fst e, w)" by (auto simp: result_simps)
    have "leaf (snd e)" using that(1) leaf_of by simp
    from canonical_leaf [OF this w(1)] w(2) show ?thesis by simp
  qed
  from mapE_same [OF d(1) same] have ds: "d = ?s" "\<forall>e \<in> set kvs. ?f e = Inr e" by simp_all
  have each: "plain (snd e)" "jsort (snd e) = snd e" if e: "e \<in> set kvs" for e
  proof -
    from ds(2) e obtain w where "canonical_value (snd e) = Inr w" by (auto simp: result_simps)
    from canonical_leaf [OF leaf_of [OF e] this] show "plain (snd e)" "jsort (snd e) = snd e" by auto
  qed
  have "map (\<lambda>(k, v). (k, jsort v)) kvs = kvs" by (rule map_idI) (use each(2) in force)
  with d(2) ds(1) s show "n = jsort (JObj kvs)" by simp
  show "plain (JObj kvs)" using each(1) assms(3) by (auto simp: list_all_iff)
qed

definition statement_members :: "att_statement \<Rightarrow> pydict" where
  "statement_members s =
     map (\<lambda>(k, v). (u k, JStr v)) (binding_pairs s) @ [(u ''nonce'', JStr (st_nonce s)), (u ''issued_at'', JInt (st_issued_at s))]"

lemma ascii_u: "list_all (\<lambda>c. (of_char c :: nat) < 128) k \<Longrightarrow> ascii (u k)"
  by (auto simp: ascii_def u_def list_all_iff)

lemma statement_members_flat:
  "list_all (\<lambda>e. ascii (fst e) \<and> leaf (snd e)) (statement_members s)" "distinct (map fst (statement_members s))"
  by (simp_all add: statement_members_def binding_pairs_def ascii_u)

lemma statement_members_inject:
  assumes "map_of (statement_members s) = map_of (statement_members t)"
  shows "s = t"
proof -
  have eq: "map_of (statement_members s) (u k) = map_of (statement_members t) (u k)" for k using assms by simp
  note eqs = eq [unfolded statement_members_def binding_pairs_def, simplified]
  have art: "artifact_text a = artifact_text b \<Longrightarrow> a = b" for a b by (cases a; cases b) simp_all
  show ?thesis
    using eq [of "''artifact_type''"] eq [of "''artifact_sha256''"] eq [of "''task_id''"] eq [of "''task_sha256''"]
      eq [of "''base_sha''"] eq [of "''head_sha''"] eq [of "''candidate_sha256''"] eq [of "''snapshot_sha256''"]
      eq [of "''runtime_manifest_sha256''"] eq [of "''runner_image_digest''"] eq [of "''runner_sha256''"]
      eq [of "''argv_sha256''"] eq [of "''log_sha256''"] eq [of "''role''"] eq [of "''session_id''"]
      eq [of "''request_sha256''"] eq [of "''response_sha256''"] eq [of "''nonce''"] eq [of "''issued_at''"]
    by (cases s; cases t) (auto simp: statement_members_def binding_pairs_def dest: art)
qed

lemma map_of_set_eq: "distinct (map fst xs) \<Longrightarrow> distinct (map fst ys) \<Longrightarrow> set xs = set ys \<Longrightarrow> map_of xs = map_of ys"
  by (metis map_of_inject_set)

text \<open>
  The bytes a signature covers determine the statement: every field, the nonce and the time. A
  signature made for one statement cannot stand for another.
\<close>

theorem signed_bytes_determine_the_statement:
  assumes "signed_bytes s = Inr b" and "signed_bytes t = Inr b"
  shows "s = t"
proof -
  have read: "\<exists>c. utf8_encode (jprint (jsort (JObj (statement_members x)))) = Some c \<and> b = SIGNATURE_DOMAIN @ c
      \<and> plain (JObj (statement_members x))" if b: "signed_bytes x = Inr b" for x
  proof -
    from b obtain n c where n: "canonical_value (JObj (statement_members x)) = Inr n" "utf8_encode (jprint n) = Some c"
        "b = SIGNATURE_DOMAIN @ c"
      by (auto simp: signed_bytes_def canonical_json_bytes_def statement_json_def statement_members_def result_simps
          simp del: canonical_value.simps split: option.splits)
    from canonical_flat [OF n(1) statement_members_flat] n show ?thesis by blast
  qed
  from read [OF assms(1)] read [OF assms(2)] have "jprint (jsort (JObj (statement_members s))) = jprint (jsort (JObj (statement_members t)))"
      and plain: "plain (JObj (statement_members s))" "plain (JObj (statement_members t))"
    using utf8_encode_inject by auto
  then have "dumps (JObj (statement_members s)) = dumps (JObj (statement_members t))" by (simp add: dumps_plain)
  then have "jsort (JObj (statement_members s)) = jsort (JObj (statement_members t))" by (rule dumps_inject [OF plain])
  moreover have "map (\<lambda>(k, v). (k, jsort v)) (statement_members x) = statement_members x" for x
    by (simp add: statement_members_def binding_pairs_def)
  ultimately have "sort_key fst (statement_members s) = sort_key fst (statement_members t)" by simp
  then have "set (statement_members s) = set (statement_members t)" by (metis set_sort)
  then show ?thesis by (intro statement_members_inject map_of_set_eq statement_members_flat)
qed

text \<open>The statement of another run has other bytes.\<close>

theorem signed_bytes_determine_the_statement_witness:
  "\<exists>b. signed_bytes sample_statement = Inr b \<and> signed_bytes (sample_statement\<lparr>st_issued_at := 1001\<rparr>) \<noteq> Inr b"
proof -
  obtain b where b: "signed_bytes sample_statement = Inr b" using sample_statement_signed by blast
  have "sample_statement \<noteq> sample_statement\<lparr>st_issued_at := 1001\<rparr>" by (simp add: sample_statement_def)
  with signed_bytes_determine_the_statement [OF b] b show ?thesis by blast
qed

section \<open>What an accepted set says\<close>

lemma verify_binding_truncate: "verify_binding s e = Inr () \<longleftrightarrow> att_binding.truncate s = e"
proof -
  have art: "artifact_text a = artifact_text b \<longleftrightarrow> a = b" for a b by (cases a; cases b) simp_all
  show ?thesis
    by (cases s; cases e) (simp add: verify_binding_def binding_pairs_def result_simps art att_binding.defs)
qed

text \<open>One statement, signed by a trusted key for what was expected of its role, in its time.\<close>

definition attested ::
    "('pk, 'sk) key_env \<Rightarrow> (pystr \<Rightarrow> 'pk option) \<Rightarrow> (pystr \<times> att_binding) list \<Rightarrow> int \<Rightarrow> int \<Rightarrow> int \<Rightarrow> signed_attestation \<Rightarrow> bool" where
  "attested K trusted expectations now age skew e \<longleftrightarrow>
     (let s = sa_statement e in
      (\<exists>pk sig b. trusted (sa_key_id e) = Some pk \<and> public_key_id K pk = sa_key_id e
         \<and> decode_signature (sa_signature e) = Inr sig \<and> length sig = 64
         \<and> signed_bytes s = Inr b \<and> ke_verify K pk sig b)
      \<and> map_of expectations (ab_role s) = Some (att_binding.truncate s)
      \<and> now - age \<le> st_issued_at s \<and> st_issued_at s \<le> now + skew)"

lemma verify_one_attested: "verify_one K trusted ex now age skew e = Inr () \<Longrightarrow> attested K trusted ex now age skew e"
  by (auto simp: verify_one_def Let_def result_simps verify_one_signature_def attested_def verify_binding_truncate
      decode_signature_def split: option.splits)

lemma verified_set_shape:
  assumes "verify_attestation_set K trusted ex reserve now age skew envelopes st = (Inr vs, st')"
  shows "checked_envelopes K trusted ex now age skew envelopes = Inr (sort_key role_of envelopes)"
    and "vs_statements vs = map sa_statement (sort_key role_of envelopes)"
    and "vs_roles vs = map role_of (sort_key role_of envelopes)"
proof -
  obtain ordered where c: "checked_envelopes K trusted ex now age skew envelopes = Inr ordered"
      and r: "vs_statements vs = map sa_statement ordered" "vs_roles vs = map role_of ordered"
    using assms by (auto simp: verify_attestation_set_def result_simps split: sum.splits prod.splits)
  from c have "ordered = sort_key role_of envelopes" by (auto simp: checked_envelopes_def Let_def result_simps)
  with c r show "checked_envelopes K trusted ex now age skew envelopes = Inr (sort_key role_of envelopes)"
    "vs_statements vs = map sa_statement (sort_key role_of envelopes)"
    "vs_roles vs = map role_of (sort_key role_of envelopes)" by simp_all
qed

lemma no_repeated_roles: "repeated_roles roles = [] \<longleftrightarrow> distinct roles"
proof -
  have "repeated_roles roles = [] \<longleftrightarrow> (\<forall>r \<in> set roles. count_list roles r = 1)"
    by (simp add: repeated_roles_def set_empty [symmetric] filter_empty_conv Ball_def del: set_empty)
  also have "\<dots> \<longleftrightarrow> distinct roles"
    by (simp add: distinct_count_atmost_1 Ball_def count_mset)
  finally show ?thesis .
qed

text \<open>
  C24. A set of attestations that is accepted holds every envelope's statement once, in the order of
  the roles. The roles are different and are the expected ones; every statement is signed by a
  trusted key, is bound to what was expected of its role, and lies in its time window; and no two
  statements share a nonce.
\<close>

theorem verified_set_is_bound:
  assumes "verify_attestation_set K trusted ex reserve now age skew envelopes st = (Inr vs, st')"
  shows "mset (vs_statements vs) = image_mset sa_statement (mset envelopes)
    \<and> vs_roles vs = map ab_role (vs_statements vs) \<and> sorted (vs_roles vs) \<and> distinct (vs_roles vs)
    \<and> set (vs_roles vs) = fst ` set ex
    \<and> list_all (attested K trusted ex now age skew) envelopes
    \<and> distinct (map st_nonce (vs_statements vs))"
proof -
  note shape = verified_set_shape [OF assms]
  let ?o = "sort_key role_of envelopes"
  have c: "distinct (map role_of envelopes)" "set (map role_of envelopes) = fst ` set ex"
      "list_all (\<lambda>e. verify_one K trusted ex now age skew e = Inr ()) ?o"
      "distinct (map (\<lambda>e. st_nonce (sa_statement e)) ?o)"
    using shape(1) by (simp_all add: checked_envelopes_def Let_def result_simps no_repeated_roles list_all_iff split: if_splits)
  have "distinct (map role_of ?o)" using c(1) by (simp add: distinct_map)
  moreover have "list_all (attested K trusted ex now age skew) envelopes"
    using c(3) by (auto simp: list_all_iff intro: verify_one_attested)
  moreover have "map (st_nonce \<circ> sa_statement) ?o = map (\<lambda>e. st_nonce (sa_statement e)) ?o" by simp
  moreover have "map role_of ?o = map (ab_role \<circ> sa_statement) ?o" by (simp add: role_of_def)
  moreover have "set (map role_of ?o) = fst ` set ex" using c(2) by simp
  moreover have "sorted (map role_of ?o)" by (rule sorted_sort_key)
  moreover have "mset (map sa_statement ?o) = image_mset sa_statement (mset envelopes)" by simp
  ultimately show ?thesis using c(4) unfolding shape map_map by metis
qed

theorem verified_set_is_bound_witness:
  "list_all (attested sample_keys sample_trust sample_expectations 1010 300 30) [sample_envelope]
   \<and> distinct (vs_roles sample_verified)"
  using verified_set_is_bound [OF sample_set_accepted [where reserve = memory_reserve and st = "{}" and st' = "{sample_nonce}"]]
  by (simp add: memory_reserve_def memory_reserve_many_def)

text \<open>
  C25. A nonce is accepted once. After a set of attestations has been accepted with the SQLite ledger,
  no set that holds one of its nonces is accepted, whatever the keys, the expectations and the time,
  and whatever reservations were tried, refused, failed or rolled back in between.
\<close>

theorem nonce_is_accepted_once:
  assumes "verify_attestation_set K trusted ex (sqlite_reserve E identity) now age skew envelopes l0 = (Inr vs, l1)"
    and "(\<lambda>l l'. \<exists>ns r. sqlite_reserve E identity l ns = (r, l'))\<^sup>*\<^sup>* l1 l2"
    and "e \<in> set envelopes" and "e' \<in> set envelopes'" and "st_nonce (sa_statement e) = st_nonce (sa_statement e')"
  shows "fst (verify_attestation_set K' trusted' ex' (sqlite_reserve E identity) now' age' skew' envelopes' l2) \<noteq> Inr vs'"
proof -
  have "(sqlite_ledger.reserve_step E identity)\<^sup>*\<^sup>* l1 l2"
    using assms(2) by (simp add: sqlite_ledger.reserve_step_def [abs_def])
  from sqlite_ledger.accepted_once [OF assms(1) this assms(3-5)] show ?thesis .
qed

theorem nonce_is_accepted_once_witness:
  "\<exists>l. fst (verify_attestation_set sample_keys sample_trust sample_expectations (sqlite_reserve sample_ledger sample_identity)
     1010 300 30 [sample_envelope] l) \<noteq> Inr sample_verified"
proof -
  obtain l where "sqlite_reserve_many sample_ledger sample_identity [sample_nonce] [] = (Inr True, l)"
    using sample_reserve by (metis prod.collapse)
  then have "sqlite_reserve sample_ledger sample_identity [] [sample_nonce] = (Inr True, l)"
    by (simp add: sqlite_reserve_def)
  note first = sample_set_accepted [where reserve = "sqlite_reserve sample_ledger sample_identity", OF this]
  show ?thesis
    by (rule exI [of _ l], rule nonce_is_accepted_once [OF first rtranclp.rtrancl_refl, of sample_envelope sample_envelope]) simp_all
qed

section \<open>Signing and verifying\<close>

text \<open>The text of a signature reads back.\<close>

lemma b64_enc_url:
  "\<forall>x \<in> set bs. x < 256 \<Longrightarrow> map std_char (map url_char (b64_enc bs)) = b64_enc bs"
proof -
  have c: "std_char (url_char (b64_char v)) = b64_char v" if "v < 64" for v
    using that by (auto simp: std_char_def url_char_def b64_char_def)
  show "\<forall>x \<in> set bs. x < 256 \<Longrightarrow> ?thesis"
    by (induction bs rule: b64_enc.induct) (auto simp: c, simp_all add: std_char_def url_char_def)
qed

lemma b64_enc_pad:
  "length bs mod 3 = 1 \<Longrightarrow> \<forall>x \<in> set bs. x < 256 \<Longrightarrow> \<exists>t. b64_enc bs = t @ [0x3D, 0x3D] \<and> t \<noteq> [] \<and> last t \<noteq> 0x3D"
proof (induction bs rule: b64_enc.induct)
  case (2 a)
  then show ?case by (intro exI [of _ "[b64_char (a div 4), b64_char (a mod 4 * 16)]"]) simp
next
  case (4 a b c r)
  then obtain t where "b64_enc r = t @ [0x3D, 0x3D]" "t \<noteq> []" "last t \<noteq> 0x3D" by (auto simp: mod_Suc split: if_splits)
  then show ?case by (intro exI [of _ "take 4 (b64_enc (a # b # c # r)) @ t"]) simp
qed simp_all

lemma rstrip_char_app: "rstrip_char c (t @ [c, c]) = rstrip_char c t"
  by (simp add: rstrip_char_def)

lemma rstrip_char_same: "t \<noteq> [] \<Longrightarrow> last t \<noteq> c \<Longrightarrow> rstrip_char c t = t"
  by (cases t rule: rev_cases) (simp_all add: rstrip_char_def)

lemma signature_reads_back:
  assumes "length b = 64"
  shows "decode_signature (rstrip_char 0x3D (map url_char (b64encode b))) = Inr b"
proof -
  let ?bs = "map of_char b :: nat list"
  have bs: "\<forall>x \<in> set ?bs. x < 256" by auto
  have "length ?bs mod 3 = 1" using assms by simp
  from b64_enc_pad [OF this bs] obtain t where t: "b64_enc ?bs = t @ [0x3D, 0x3D]" "t \<noteq> []" "last t \<noteq> 0x3D" by blast
  have url: "url_char c = 0x3D \<longleftrightarrow> c = 0x3D" for c by (auto simp: url_char_def)
  have "rstrip_char 0x3D (map url_char (b64encode b)) = map url_char t"
    using t by (simp add: b64encode_def rstrip_char_app rstrip_char_same last_map url)
      (simp add: url_char_def rstrip_char_app rstrip_char_same last_map url)
  moreover have "map std_char (map url_char t @ u ''=='') = b64encode b"
    using b64_enc_url [OF bs] t by (simp add: b64encode_def u_def std_char_def url_char_def)
  ultimately show ?thesis by (simp add: decode_signature_def b64decode_encode assms)
qed

text \<open>
  C26. What is signed verifies: an envelope made with a private key is accepted by every registry that
  lists its public key, when the signature scheme verifies its own signatures of 64 bytes.
\<close>

theorem signed_attestation_verifies:
  assumes "sign_attestation K s sk = Inr e"
    and "trusted (public_key_id K (ke_public K sk)) = Some (ke_public K sk)" and "ke_ed25519 K (ke_public K sk)"
    and ed25519: "\<And>b. length (ke_sign K sk b) = 64" "\<And>b. ke_verify K (ke_public K sk) (ke_sign K sk b) b"
  shows "verify_one_signature K trusted e = Inr () \<and> sa_statement e = s"
proof -
  obtain b where b: "signed_bytes s = Inr b" "sa_statement e = s" "sa_key_id e = public_key_id K (ke_public K sk)"
      "sa_signature e = rstrip_char 0x3D (map url_char (b64encode (ke_sign K sk b)))"
    using assms(1) by (auto simp: sign_attestation_def Let_def result_simps)
  then show ?thesis
    by (simp add: verify_one_signature_def assms(2,3) signature_reads_back [OF ed25519(1)] ed25519(2))
qed

theorem signed_attestation_verifies_witness:
  "verify_one_signature sample_keys sample_trust sample_envelope = Inr ()"
proof -
  have "public_key_id sample_keys (ke_public sample_keys ()) = sample_hex" "sample_trust sample_hex = Some ()"
    "ke_ed25519 sample_keys pk" "length (ke_sign sample_keys () b) = 64" "ke_verify sample_keys pk (ke_sign sample_keys () b) b" for pk b
    by (simp_all add: public_key_id_def sample_keys_def sample_trust_def)
  with signed_attestation_verifies [OF sample_envelope_made, of sample_trust] show ?thesis by simp
qed

section \<open>Several spellings of one signature\<close>

text \<open>
  The decoder does not look at the last four bits of the text, so an accepted signature has other
  spellings that decode to the same bytes: another envelope, with another digest.
\<close>

lemma signature_has_two_spellings:
  "decode_signature (replicate 85 0x41 @ [0x41]) = decode_signature (replicate 85 0x41 @ [0x42])
   \<and> signature_text_ok (replicate 85 0x41 @ [0x42])"
  by code_simp

end
