(* ===== verification/Strict_Json.thy ===== *)
theory Strict_Json
  imports Json_Size Outer_State
begin

text \<open>
  The reader of canonical documents that the modules of the review tool share in one shape: the
  bytes are bounded, are JSON without duplicate fields and constants, and are exactly the bytes the
  module would write for the value. The exceptions of the module are arguments. A field reader
  that accepts a value accepts only the value of what it returns, so a document that was read is
  the document of what was read.
\<close>

section \<open>Writing and reading a line\<close>

definition encode_line :: "'e \<Rightarrow> json \<Rightarrow> 'e + bytes" where
  "encode_line e v =
     (case dumps v of
        None \<Rightarrow> Inl e
      | Some s \<Rightarrow> (case utf8_encode (s @ [0x0A]) of None \<Rightarrow> Inl e | Some b \<Rightarrow> Inr b))"

definition distinct_pairs :: "'e \<Rightarrow> pydict \<Rightarrow> 'e + json" where
  "distinct_pairs e kvs = (if distinct (map fst kvs) then Inr (JObj kvs) else Inl e)"

text \<open>
  \<open>err\<close> makes the exception of the module; the \<open>ValueError\<close> of an integer literal of too many
  digits is caught by no handler and is \<open>too_long\<close>.
\<close>

definition read_line :: "(string \<Rightarrow> 'e) \<Rightarrow> 'e \<Rightarrow> 'e \<Rightarrow> string \<Rightarrow> nat \<Rightarrow> bytes \<Rightarrow> 'e + json" where
  "read_line err too_long bad label maximum raw =
     (if raw = [] \<or> maximum < length raw then Inl (err (label @ '' is empty or exceeds its byte limit''))
      else
        (case utf8_decode raw of
           None \<Rightarrow> Inl (err (label @ '' is invalid JSON''))
         | Some text \<Rightarrow>
             (case json_loads (distinct_pairs (err (label @ '' contains a duplicate field'')))
                     (\<lambda>_. Inl (err (label @ '' contains a non-finite number''))) text of
                Inl (JHook e) \<Rightarrow> Inl e
              | Inl JIntDigits \<Rightarrow> Inl too_long
              | Inl _ \<Rightarrow> Inl (err (label @ '' is invalid JSON''))
              | Inr v \<Rightarrow>
                  bindE (encode_line bad v) (\<lambda>b.
                  bindE (guardE (b = raw) (err (label @ '' is not canonically encoded''))) (\<lambda>_. Inr v)))))"

definition exact_dict :: "'e \<Rightarrow> string list \<Rightarrow> json \<Rightarrow> 'e + pydict" where
  "exact_dict e names v =
     (case v of JObj d \<Rightarrow> if set (map fst d) = set (map u names) then Inr d else Inl e | _ \<Rightarrow> Inl e)"

section \<open>What was read is what was written\<close>

lemma encode_line_Inr: "encode_line e v = Inr b \<longleftrightarrow> (\<exists>s. dumps v = Some s \<and> utf8_encode (s @ [0x0A]) = Some b)"
  by (auto simp: encode_line_def split: option.splits)

lemma encode_line_inject:
  assumes "encode_line e v = Inr b" and "encode_line e' w = Inr b" and "plain v" and "plain w"
  shows "jsort v = jsort w"
proof -
  obtain s t where st: "dumps v = Some s" "utf8_encode (s @ [0x0A]) = Some b"
      "dumps w = Some t" "utf8_encode (t @ [0x0A]) = Some b"
    using assms by (auto simp: encode_line_Inr)
  then have "s @ [0x0A] = t @ [0x0A]" by (metis utf8_encode_inject)
  with st show ?thesis using dumps_inject [OF assms(3,4)] by simp
qed

interpretation distinct_pairs: dict_hook "distinct_pairs e" for e
  by unfold_locales (simp add: distinct_pairs_def)

lemma encode_line_jsort: "jsort v = jsort w \<Longrightarrow> jfinite v = jfinite w \<Longrightarrow> encode_line e v = encode_line e w"
  by (simp add: encode_line_def dumps_def)

lemma read_line_written:
  fixes err :: "string \<Rightarrow> 'e"
  assumes "plain v" and "encode_line e v = Inr raw" and "length raw \<le> m"
  shows "read_line err too_long bad label m raw = Inr (jsort v)"
proof -
  obtain s where s: "dumps v = Some s" "utf8_encode (s @ [0x0A]) = Some raw" using assms(2) by (auto simp: encode_line_Inr)
  have "raw \<noteq> []" using utf8_encode_longer [OF s(2)] by auto
  moreover have "utf8_decode raw = Some (s @ [0x0A])" by (rule utf8_decode_encode [OF s(2)])
  moreover have "json_loads (distinct_pairs e') c (s @ [0x0A]) = Inr (jsort v)" for e' :: 'e and c
    by (rule distinct_pairs.json_loads_dumps [OF assms(1) s(1)]) (simp add: json_ws_def)
  moreover have "encode_line bad (jsort v) = Inr raw"
  proof -
    have c: "canon (jsort v)" by (rule plain_canon_jsort [OF assms(1)])
    have "dumps (jsort v) = dumps v" using assms(1) by (simp add: dumps_canon [OF c] dumps_plain)
    with s show ?thesis by (simp add: encode_line_Inr)
  qed
  ultimately show ?thesis using assms(3) by (simp add: read_line_def)
qed

lemma read_line_Inr:
  assumes "read_line err too_long bad label m raw = Inr v"
  shows "raw \<noteq> []" and "length raw \<le> m" and "encode_line bad v = Inr raw"
  using assms by (auto simp: read_line_def result_simps split: if_splits option.splits sum.splits json_error.splits)

section \<open>The keys of what was read\<close>

text \<open>No object holds a key twice, at any depth.\<close>

fun keyed :: "json \<Rightarrow> bool" where
  "keyed (JArr xs) = list_all keyed xs"
| "keyed (JObj kvs) = (distinct (map fst kvs) \<and> list_all (\<lambda>(k, v). keyed v) kvs)"
| "keyed _ = True"

lemma scan_number_keyed: "scan_number s = Inr (v, r) \<Longrightarrow> keyed v"
  by (auto simp: scan_number_def Let_def split: if_splits prod.splits)

lemma parsers_keyed:
  assumes hook: "\<And>kvs v. list_all (\<lambda>(k, v). keyed v) kvs \<Longrightarrow> hook kvs = Inr v \<Longrightarrow> keyed v"
    and const: "\<And>c v. const c = Inr v \<Longrightarrow> keyed v"
  shows "p_value hook const n s = Inr (v, r) \<Longrightarrow> keyed v"
    and "p_elems hook const n s = Inr (vs, r) \<Longrightarrow> list_all keyed vs"
    and "p_members hook const n s = Inr (kvs, r) \<Longrightarrow> list_all (\<lambda>(k, v). keyed v) kvs"
proof (induction n arbitrary: s v vs kvs r)
  case 0
  { case 1 then show ?case by simp }
  { case 2 then show ?case by simp }
  { case 3 then show ?case by simp }
next
  case (Suc n)
  { case 1
    then show ?case
      by (auto simp: p_value.simps(2) result_simps Let_def split: list.splits if_splits
          dest: Suc.IH(2,3) hook hook [of "[]", simplified] const scan_number_keyed)
  }
  { case 2
    then show ?case
      by (auto simp: p_elems.simps(2) result_simps Let_def split: if_splits dest: Suc.IH(1,2))
  }
  { case 3
    then show ?case
      by (auto simp: p_members.simps(2) result_simps Let_def split: if_splits dest: Suc.IH(1,3))
  }
qed

lemma read_line_keyed:
  assumes "read_line err too_long bad label m raw = Inr v"
  shows "keyed v"
proof -
  let ?h = "distinct_pairs (err (label @ '' contains a duplicate field''))"
    and ?c = "\<lambda>_ :: string. Inl (err (label @ '' contains a non-finite number''))"
  obtain s where "json_loads ?h ?c s = Inr v"
    using assms by (auto simp: read_line_def result_simps split: if_splits option.splits sum.splits json_error.splits)
  then obtain n t r where "p_value ?h ?c n t = Inr (v, r)"
    by (auto simp: json_loads_def result_simps split: if_splits)
  then show ?thesis
    by (rule parsers_keyed(1) [rotated 2]) (auto simp: distinct_pairs_def split: if_splits)
qed

lemma jfinite_jsort: "jfinite (jsort v) = jfinite v"
  by (induction v) (auto simp: list_all_iff)

lemma encode_line_cong: "jsort v = jsort w \<Longrightarrow> encode_line e v = encode_line e w"
  using jfinite_jsort by (metis encode_line_jsort)

section \<open>Fields\<close>

lemma sort_key_fst_unique:
  assumes "distinct (map fst a)" and "distinct (map fst b)" and "set a = set b"
  shows "sort_key fst a = sort_key fst b"
proof -
  have "mset a = mset b" using assms by (metis distinct_map set_eq_iff_mset_eq_distinct)
  then have "mset a = mset (sort_key fst b)" by simp
  moreover have "inj_on fst (set a)" using assms(1) by (simp add: distinct_map)
  ultimately show ?thesis by (intro sort_key_inj_key_eq) simp_all
qed

text \<open>
  An object with exactly the expected keys is, up to the order of its keys, any object with those
  keys and the same values.
\<close>

lemma jsort_object:
  assumes "distinct (map fst d)" and "distinct (map fst pairs)" and "set (map fst d) = set (map fst pairs)"
    and "\<And>k w. (k, w) \<in> set pairs \<Longrightarrow> (\<exists>v. map_of d k = Some v \<and> jsort v = jsort w)"
  shows "jsort (JObj d) = jsort (JObj pairs)"
proof -
  let ?j = "map (\<lambda>(k, v). (k, jsort v))"
  have fst_j: "map fst (?j xs) = map fst xs" for xs :: pydict by (simp add: comp_def split_def)
  have "set (?j d) = set (?j pairs)"
  proof (rule set_eqI, rule iffI)
    fix p assume "p \<in> set (?j pairs)"
    then obtain k w where kw: "(k, w) \<in> set pairs" "p = (k, jsort w)" by auto
    with assms(4) obtain v where "map_of d k = Some v" "jsort v = jsort w" by blast
    then show "p \<in> set (?j d)" using kw by (force dest: map_of_SomeD)
  next
    fix p assume "p \<in> set (?j d)"
    then obtain k v where kv: "(k, v) \<in> set d" "p = (k, jsort v)" by auto
    then have "k \<in> set (map fst pairs)" using assms(3) by force
    then obtain w where w: "(k, w) \<in> set pairs" by auto
    with assms(4) obtain v' where "map_of d k = Some v'" "jsort v' = jsort w" by blast
    moreover have "map_of d k = Some v" using assms(1) kv(1) by simp
    ultimately show "p \<in> set (?j pairs)" using w kv by force
  qed
  then have "sort_key fst (?j d) = sort_key fst (?j pairs)"
    using assms(1,2) by (intro sort_key_fst_unique) (simp_all only: fst_j)
  then show ?thesis by simp
qed

lemma exact_dict_Inr: "exact_dict e names v = Inr d \<longleftrightarrow> v = JObj d \<and> set (map fst d) = set (map u names)"
  by (auto simp: exact_dict_def split: json.splits if_splits)

text \<open>The same for the fields of a checked dictionary, with the values a reader made of them.\<close>

definition made_of :: "pydict \<Rightarrow> (string \<times> json) list \<Rightarrow> bool" where
  "made_of d entries \<longleftrightarrow> list_all (\<lambda>(k, w). jsort (fld d k) = jsort w) entries"

lemma made_of_simps [simp]:
  "made_of d []" "made_of d ((k, w) # entries) \<longleftrightarrow> jsort (fld d k) = jsort w \<and> made_of d entries"
  by (simp_all add: made_of_def)

lemma jsort_fields:
  assumes "keyed (JObj d)" and "set (map fst d) = set (map u names)" and "made_of d entries"
    and "distinct (map fst entries)" and "set (map fst entries) = set names"
  shows "jsort (JObj d) = jsort (JObj (map (\<lambda>(k, w). (u k, w)) entries))"
proof (rule jsort_object)
  show "distinct (map fst d)" using assms(1) by simp
  have keys: "map fst (map (\<lambda>(k, w). (u k, w)) entries) = map u (map fst entries)" by (induction entries) auto
  show "distinct (map fst (map (\<lambda>(k, w). (u k, w)) entries))"
    unfolding keys distinct_map [of u] using assms(4) by (simp add: inj_on_def)
  show "set (map fst d) = set (map fst (map (\<lambda>(k, w). (u k, w)) entries))"
    unfolding keys assms(2) by (simp only: set_map [of u] assms(5))
  fix k w assume "(k, w) \<in> set (map (\<lambda>(k, w). (u k, w)) entries)"
  then obtain k' where k': "k = u k'" "(k', w) \<in> set entries" by auto
  then have "k \<in> set (map fst d)" using assms(2,5) by force
  then obtain v where "map_of d k = Some v" by (metis map_of_eq_None_iff not_None_eq set_map)
  with k' assms(3) show "\<exists>v. map_of d k = Some v \<and> jsort v = jsort w"
    by (force simp: made_of_def list_all_iff fld_def)
qed

lemma fld_keyed: "keyed (JObj d) \<Longrightarrow> keyed (fld d k)"
  by (auto simp: fld_def list_all_iff split: option.splits dest!: map_of_SomeD)

end
