(* ===== verification/Offline_Runner.thy ===== *)
theory Offline_Runner
  imports Path_Rules State_Error
begin

text \<open>
  \<open>tools/ai_review/offline_runner.py\<close>: a command of the candidate is run in a container, and the
  evidence of the run is validated afterwards from its raw streams. The digest, the Unicode tables,
  the verification of a snapshot, the protected files and the container runtime are arguments. A
  path is the list of its components; the process loop reads the events of its pipes from a list.
\<close>

type_synonym posix_path = "pystr list"

section \<open>Errors and records\<close>

datatype runner_error =
    OfflineRunnerError pystr | ContainerUnavailableError pystr | RunnerUnicodeError | RunnerValueError
  | RunnerFailure pystr

definition runner_error :: "string \<Rightarrow> runner_error" where
  "runner_error m = OfflineRunnerError (u m)"

definition demand :: "bool \<Rightarrow> string \<Rightarrow> runner_error + unit" where
  "demand b m = guardE b (runner_error m)"

record container_backend =
  cb_name :: pystr
  cb_executable :: posix_path
  cb_rootless :: bool
  cb_user_namespace :: bool
  cb_seccomp_enabled :: bool
  cb_seccomp_profile :: pystr
  cb_sha256 :: pystr
  cb_security_evidence_sha256 :: pystr

record run_request =
  rr_phase :: pystr
  rr_acceptance_test_id :: pystr
  rr_session_id :: pystr
  rr_source_commit_sha :: pystr
  rr_source_commit_tree_sha :: pystr
  rr_source_snapshot_sha256 :: pystr
  rr_task_sha256 :: pystr
  rr_candidate_sha256 :: pystr
  rr_candidate_snapshot_sha256 :: pystr
  rr_execution_snapshot_sha256 :: pystr
  rr_test_patch_sha256 :: "pystr option"
  rr_test_manifest_sha256 :: "pystr option"
  rr_command :: "pystr list"
  rr_runner_image_digest :: pystr

record offline_run_evidence =
  ev_request :: run_request
  ev_request_sha256 :: pystr
  ev_runtime_name :: pystr
  ev_runtime_sha256 :: pystr
  ev_runtime_security_sha256 :: pystr
  ev_runtime_rootless :: bool
  ev_runtime_user_namespace :: bool
  ev_runtime_seccomp_profile :: pystr
  ev_runner_image_digest :: pystr
  ev_snapshot_sha256 :: pystr
  ev_argv :: "pystr list"
  ev_argv_sha256 :: pystr
  ev_container_id :: pystr
  ev_exit_code :: int
  ev_stdout :: bytes
  ev_stderr :: bytes
  ev_stdout_sha256 :: pystr
  ev_stderr_sha256 :: pystr
  ev_log :: bytes
  ev_log_sha256 :: pystr
  ev_log_truncated :: bool
  ev_stdout_bytes :: int
  ev_stderr_bytes :: int
  ev_started_unix_ns :: int
  ev_duration_ms :: int
  ev_cleanup_succeeded :: bool
  ev_failure_fingerprint_sha256 :: pystr
  ev_response_sha256 :: pystr

text \<open>\<open>snapshot.py\<close>: what the verification of a snapshot returns.\<close>

record snapshot_evidence =
  sn_root :: posix_path
  sn_tree :: posix_path
  sn_manifest_path :: posix_path
  sn_manifest_sha256 :: pystr
  sn_snapshot_sha256 :: pystr
  sn_commit_sha :: pystr
  sn_commit_tree_sha :: pystr
  sn_candidate_uid :: int
  sn_excluded_paths :: "pystr list"

record bounded_result =
  br_exit_code :: int
  br_stdout :: bytes
  br_stderr :: bytes
  br_stdout_sha256 :: pystr
  br_stderr_sha256 :: pystr
  br_duration_ms :: int

section \<open>Digests of a run\<close>

definition offline_json :: "json \<Rightarrow> runner_error + bytes" where
  "offline_json v =
     (case dumps v of
        None \<Rightarrow> Inl RunnerValueError
      | Some s \<Rightarrow> (case utf8_encode (s @ [0x0A]) of None \<Rightarrow> Inl RunnerUnicodeError | Some b \<Rightarrow> Inr b))"

definition jstr_or_null :: "pystr option \<Rightarrow> json" where
  "jstr_or_null v = (case v of None \<Rightarrow> JNull | Some s \<Rightarrow> JStr s)"

definition run_request_json :: "run_request \<Rightarrow> json" where
  "run_request_json r =
     JObj [(u ''acceptance_test_id'', JStr (rr_acceptance_test_id r)), (u ''candidate_sha256'', JStr (rr_candidate_sha256 r)),
       (u ''candidate_snapshot_sha256'', JStr (rr_candidate_snapshot_sha256 r)), (u ''command'', JArr (map JStr (rr_command r))),
       (u ''execution_snapshot_sha256'', JStr (rr_execution_snapshot_sha256 r)), (u ''phase'', JStr (rr_phase r)),
       (u ''runner_image_digest'', JStr (rr_runner_image_digest r)), (u ''session_id'', JStr (rr_session_id r)),
       (u ''source_commit_sha'', JStr (rr_source_commit_sha r)), (u ''source_commit_tree_sha'', JStr (rr_source_commit_tree_sha r)),
       (u ''source_snapshot_sha256'', JStr (rr_source_snapshot_sha256 r)), (u ''task_sha256'', JStr (rr_task_sha256 r)),
       (u ''test_patch_sha256'', jstr_or_null (rr_test_patch_sha256 r)),
       (u ''test_manifest_sha256'', jstr_or_null (rr_test_manifest_sha256 r))]"

definition request_digest :: "hash_fn \<Rightarrow> run_request \<Rightarrow> runner_error + pystr" where
  "request_digest sha r = bindE (offline_json (run_request_json r)) (\<lambda>b. Inr (sha b))"

definition stream_binding :: "hash_fn \<Rightarrow> bytes \<Rightarrow> bytes \<Rightarrow> pydict" where
  "stream_binding sha out err =
     [(u ''stderr_bytes'', JInt (int (length err))), (u ''stderr_sha256'', JStr (sha err)),
      (u ''stdout_bytes'', JInt (int (length out))), (u ''stdout_sha256'', JStr (sha out))]"

definition offline_log_sha256 :: "hash_fn \<Rightarrow> bytes \<Rightarrow> bytes \<Rightarrow> runner_error + pystr" where
  "offline_log_sha256 sha out err = bindE (offline_json (JObj (stream_binding sha out err))) (\<lambda>b. Inr (sha b))"

definition FAILURE_FINGERPRINT_DOMAIN :: bytes where
  "FAILURE_FINGERPRINT_DOMAIN = ''amazon-explorer-offline-failure-v1'' @ [CHR 0x00]"

definition EXECUTION_RESPONSE_DOMAIN :: bytes where
  "EXECUTION_RESPONSE_DOMAIN = ''amazon-explorer-offline-response-v1'' @ [CHR 0x00]"

definition failure_fingerprint_sha256 :: "hash_fn \<Rightarrow> int \<Rightarrow> bytes \<Rightarrow> bytes \<Rightarrow> runner_error + pystr" where
  "failure_fingerprint_sha256 sha exit_code out err =
     bindE (offline_json (JObj ((u ''exit_code'', JInt exit_code) # stream_binding sha out err))) (\<lambda>b.
     Inr (sha (FAILURE_FINGERPRINT_DOMAIN @ b)))"

text \<open>\<open>[0-9a-f]{12,64}\<close>\<close>

definition is_container_id :: "pystr \<Rightarrow> bool" where
  "is_container_id s \<longleftrightarrow> 12 \<le> length s \<and> length s \<le> 64 \<and> list_all lower_hex s"

definition execution_response_sha256 ::
    "hash_fn \<Rightarrow> int \<Rightarrow> bytes \<Rightarrow> bytes \<Rightarrow> pystr \<Rightarrow> bool \<Rightarrow> bool \<Rightarrow> runner_error + pystr" where
  "execution_response_sha256 sha exit_code out err container_id cleaned truncated =
     bindE (demand (is_container_id container_id) ''container ID is invalid'') (\<lambda>_.
     bindE (offline_json (JObj ([(u ''cleanup_succeeded'', JBool cleaned), (u ''container_id'', JStr container_id),
        (u ''exit_code'', JInt exit_code), (u ''log_truncated'', JBool truncated)] @ stream_binding sha out err))) (\<lambda>b.
     Inr (sha (EXECUTION_RESPONSE_DOMAIN @ b))))"

definition argv_digest :: "hash_fn \<Rightarrow> pystr list \<Rightarrow> runner_error + pystr" where
  "argv_digest sha argv = bindE (offline_json (JArr (map JStr argv))) (\<lambda>b. Inr (sha b))"

section \<open>Paths\<close>

text \<open>\<open>str(path)\<close> of the components.\<close>

definition path_text :: "posix_path \<Rightarrow> pystr" where
  "path_text p =
     (case p of
        [] \<Rightarrow> u ''.''
      | r # ps \<Rightarrow> if r = u ''/'' \<or> r = u ''//'' then r @ join_str (u ''/'') ps else join_str (u ''/'') p)"

definition is_absolute :: "posix_path \<Rightarrow> bool" where
  "is_absolute p = (case p of [] \<Rightarrow> False | r # _ \<Rightarrow> r = u ''/'' \<or> r = u ''//'')"

definition parent_of :: "posix_path \<Rightarrow> posix_path" where
  "parent_of p = (if is_absolute p \<and> length p = 1 then p else butlast p)"

definition name_of :: "posix_path \<Rightarrow> pystr" where
  "name_of p = (if p = [] \<or> is_absolute p \<and> length p = 1 then [] else last p)"

section \<open>Container runtimes\<close>

datatype run_event =
    ProbedRuntime | MadeControlDirectory | Started "pystr list" | CleanedContainer | RemovedControlDirectory

text \<open>
  The events of the two pipes before the deadline: a chunk, or the end of a stream. When the events
  end while a stream is open, the deadline has passed.
\<close>

datatype pipe_event = Chunk bool bytes | EndOf bool

text \<open>
  What the runner asks of the rest: snapshots, protected files (path, mode, digest, or the message
  of the failure), the file system, the runtime, and the process. Answers may depend on what was
  done before.
\<close>

record runner_env =
  ru_sha :: hash_fn
  ru_casefold :: fold_fn
  ru_verify_snapshot :: "run_event list \<Rightarrow> posix_path \<Rightarrow> pystr + snapshot_evidence"
  ru_executable :: "run_event list \<Rightarrow> posix_path \<Rightarrow> pystr + (posix_path \<times> nat \<times> pystr)"
  ru_resolve :: "posix_path \<Rightarrow> pystr + posix_path"
  ru_exists :: "run_event list \<Rightarrow> posix_path \<Rightarrow> bool"
  ru_is_symlink :: "run_event list \<Rightarrow> posix_path \<Rightarrow> bool"
  ru_guarded_parent :: "run_event list \<Rightarrow> posix_path \<Rightarrow> pystr + posix_path"
  ru_which :: "pystr \<Rightarrow> posix_path option"
  ru_info :: "run_event list \<Rightarrow> pystr \<Rightarrow> pystr option + (int \<times> bytes)"
  ru_control_name :: "run_event list \<Rightarrow> pystr + pystr"
  ru_pipes :: "run_event list \<Rightarrow> (pipe_event list \<times> int option \<times> int) option"
  ru_cidfile :: "run_event list \<Rightarrow> posix_path \<Rightarrow> pystr + (bytes \<times> nat)"
  ru_cleanup :: "run_event list \<Rightarrow> bool"
  ru_unlink :: "run_event list \<Rightarrow> bool"
  ru_time_ns :: "run_event list \<Rightarrow> int"

type_synonym 'a run_io = "(run_event, runner_error, 'a) effectful"

definition verified_snapshot :: "runner_env \<Rightarrow> posix_path \<Rightarrow> snapshot_evidence run_io" where
  "verified_snapshot E path l = (mapError RunnerFailure (ru_verify_snapshot E l path), l)"

definition SUPPORTED_BACKENDS :: "pystr list" where
  "SUPPORTED_BACKENDS = [u ''podman'', u ''docker'']"

definition unconfined :: "runner_env \<Rightarrow> pystr \<Rightarrow> bool" where
  "unconfined E profile \<longleftrightarrow> contains (u ''unconfined'') (ru_casefold E profile)"

definition security_evidence_sha256 :: "hash_fn \<Rightarrow> pystr \<Rightarrow> bool \<Rightarrow> bool \<Rightarrow> pystr \<Rightarrow> runner_error + pystr" where
  "security_evidence_sha256 sha name rootless user_namespace profile =
     bindE (offline_json (JObj [(u ''name'', JStr name), (u ''rootless'', JBool rootless),
       (u ''seccomp_profile'', JStr profile), (u ''user_namespace'', JBool user_namespace)])) (\<lambda>b. Inr (sha b))"

definition validate_backend :: "runner_env \<Rightarrow> container_backend \<Rightarrow> container_backend run_io" where
  "validate_backend E b l =
     (bindE (demand (cb_name b \<in> set SUPPORTED_BACKENDS) ''container backend must be Podman or Docker'') (\<lambda>_.
      bindE (demand (cb_rootless b \<or> cb_user_namespace b) ''rootful container backend requires a user namespace'') (\<lambda>_.
      bindE (demand (cb_seccomp_enabled b \<and> cb_seccomp_profile b \<noteq> [] \<and> \<not> unconfined E (cb_seccomp_profile b))
        ''container backend requires an active seccomp profile'') (\<lambda>_.
      bindE (mapError OfflineRunnerError (ru_executable E l (cb_executable b))) (\<lambda>(path, mode, digest).
      bindE (demand (mode AND 73 \<noteq> 0) ''container backend executable is not executable'') (\<lambda>_.
      bindE (demand (cb_sha256 b = [] \<or> cb_sha256 b = digest) ''container backend executable changed after detection'') (\<lambda>_.
      bindE (security_evidence_sha256 (ru_sha E) (cb_name b) (cb_rootless b) (cb_user_namespace b) (cb_seccomp_profile b)) (\<lambda>security.
      bindE (demand (cb_security_evidence_sha256 b = [] \<or> cb_security_evidence_sha256 b = security)
        ''container backend security evidence changed after detection'') (\<lambda>_.
      Inr (b\<lparr>cb_executable := path, cb_seccomp_enabled := True, cb_sha256 := digest, cb_security_evidence_sha256 := security\<rparr>))))))))), l)"

text \<open>\<open>payload[key]\<close> of a decoded value; both failures are caught together.\<close>

definition subscript :: "json \<Rightarrow> string \<Rightarrow> json option" where
  "subscript v k = (case v of JObj d \<Rightarrow> map_of d (u k) | _ \<Rightarrow> None)"

definition podman_security :: "runner_env \<Rightarrow> json \<Rightarrow> runner_error + (bool \<times> bool \<times> pystr)" where
  "podman_security E payload =
     (case Option.bind (Option.bind (subscript payload ''host'') (\<lambda>h. subscript h ''security'')) (\<lambda>s.
             Option.bind (subscript s ''rootless'') (\<lambda>rootless.
             Option.bind (subscript s ''seccompEnabled'') (\<lambda>enabled.
             Option.bind (subscript s ''seccompProfilePath'') (\<lambda>profile. Some (rootless, enabled, profile))))) of
        None \<Rightarrow> Inl (runner_error ''Podman did not report rootless and seccomp state'')
      | Some (JBool rootless, JBool True, JStr profile) \<Rightarrow>
          bindE (demand (profile \<noteq> [] \<and> \<not> unconfined E profile) ''Podman did not attest an active seccomp profile'') (\<lambda>_.
          Inr (rootless, True, profile))
      | Some _ \<Rightarrow> Inl (runner_error ''Podman did not attest an active seccomp profile''))"

fun json_texts :: "json list \<Rightarrow> pystr list option" where
  "json_texts [] = Some []"
| "json_texts (JStr s # vs) = map_option (\<lambda>ss. s # ss) (json_texts vs)"
| "json_texts (_ # vs) = None"

definition docker_security :: "runner_env \<Rightarrow> json \<Rightarrow> runner_error + (bool \<times> bool \<times> pystr)" where
  "docker_security E payload =
     (case (case payload of JArr vs \<Rightarrow> json_texts vs | _ \<Rightarrow> None) of
        None \<Rightarrow> Inl (runner_error ''Docker did not report its security options'')
      | Some items \<Rightarrow>
          (let normalized = map (ru_casefold E) items;
               rootless = list_ex (contains (u ''rootless'')) normalized;
               user_namespace = rootless \<or> list_ex (contains (u ''userns'')) normalized in
           bindE (demand (list_ex (\<lambda>i. starts_with (u ''name=seccomp,'') i \<and> contains (u ''profile=builtin'') i) normalized)
             ''Docker did not attest its builtin seccomp profile'') (\<lambda>_.
           Inr (rootless, user_namespace, u ''builtin''))))"

text \<open>
  The runtime answers a code and its output, or the probe fails with an error of the operating
  system or with one of the process loop. The \<open>ValueError\<close> of an integer
  of too many digits is not caught.
\<close>

definition probe_backend :: "runner_env \<Rightarrow> pystr \<Rightarrow> (bool \<times> bool \<times> pystr) run_io" where
  "probe_backend E name l =
     (let failed = runner_error ''container backend info probe failed'' in
      (case ru_info E l name of
         Inl None \<Rightarrow> Inl failed
       | Inl (Some m) \<Rightarrow> Inl (OfflineRunnerError m)
       | Inr (code, out) \<Rightarrow>
           (case utf8_decode out of
              None \<Rightarrow> Inl failed
            | Some text \<Rightarrow>
                bindE (guardE (code = 0 \<and> length out \<le> 64000) failed) (\<lambda>_.
                case json_loads plain_pairs (plain_const :: string \<Rightarrow> runner_error + json) text of
                  Inl JIntDigits \<Rightarrow> Inl RunnerValueError
                | Inl _ \<Rightarrow> Inl failed
                | Inr payload \<Rightarrow> if name = u ''podman'' then podman_security E payload else docker_security E payload)),
      l @ [ProbedRuntime]))"

definition catch_runner :: "'a run_io \<Rightarrow> ('a \<Rightarrow> 'b run_io) \<Rightarrow> (pystr \<Rightarrow> 'b run_io) \<Rightarrow> 'b run_io" where
  "catch_runner m f h l =
     (case m l of
        (Inr x, l') \<Rightarrow> f x l'
      | (Inl (OfflineRunnerError e), l') \<Rightarrow> h e l'
      | (Inl (ContainerUnavailableError e), l') \<Rightarrow> h e l'
      | (Inl e, l') \<Rightarrow> (Inl e, l'))"

fun detect_from :: "runner_env \<Rightarrow> pystr list \<Rightarrow> pystr list \<Rightarrow> container_backend run_io" where
  "detect_from E failures [] =
     liftS (Inl (ContainerUnavailableError
       (u ''Podman or Docker with user-namespace isolation is required; refusing host execution''
        @ (if failures = [] then [] else u '' ('' @ join_str (u ''; '') failures @ u '')''))))"
| "detect_from E failures (name # names) =
     (case ru_which E name of
        None \<Rightarrow> detect_from E failures names
      | Some path \<Rightarrow>
          (case ru_resolve E path of
             Inl e \<Rightarrow> detect_from E (failures @ [name @ u '': '' @ e]) names
           | Inr resolved \<Rightarrow>
               catch_runner
                 (bindS (probe_backend E name) (\<lambda>(rootless, user_namespace, profile).
                  validate_backend E
                    \<lparr>cb_name = name, cb_executable = resolved, cb_rootless = rootless, cb_user_namespace = user_namespace,
                     cb_seccomp_enabled = True, cb_seccomp_profile = profile, cb_sha256 = [], cb_security_evidence_sha256 = []\<rparr>))
                 (\<lambda>b. liftS (Inr b))
                 (\<lambda>e. detect_from E (failures @ [name @ u '': '' @ e]) names)))"

definition detect_container_backend :: "runner_env \<Rightarrow> container_backend run_io" where
  "detect_container_backend E = detect_from E [] SUPPORTED_BACKENDS"

section \<open>The arguments of the container\<close>

text \<open>\<open>^[A-Za-z0-9][A-Za-z0-9._/:+-]*@(sha256:[0-9a-f]{64})$\<close>: the digest, when it matches.\<close>

definition is_digest :: "pystr \<Rightarrow> bool" where
  "is_digest s \<longleftrightarrow> take 7 s = u ''sha256:'' \<and> is_sha256 (drop 7 s)"

definition image_digest :: "pystr \<Rightarrow> pystr option" where
  "image_digest s =
     (let name = takeWhile (\<lambda>c. c \<noteq> 0x40) s; digest = drop (Suc (length name)) s in
      case name of
        [] \<Rightarrow> None
      | c # t \<Rightarrow>
          if alnum c \<and> list_all (\<lambda>x. alnum x \<or> x \<in> set (u ''._/:+-'')) t \<and> length name < length s \<and> is_digest digest
          then Some digest else None)"

definition validate_image :: "pystr \<Rightarrow> pystr \<Rightarrow> runner_error + unit" where
  "validate_image img approved =
     (case image_digest img of
        None \<Rightarrow> Inl (runner_error ''runner image must be pinned by a sha256 digest'')
      | Some digest \<Rightarrow>
          bindE (demand (is_digest approved) ''approved runner image digest is invalid'') (\<lambda>_.
          demand (digest = approved) ''runner image digest does not match the runtime manifest''))"

definition validate_offline_command :: "pystr list \<Rightarrow> runner_error + pystr list" where
  "validate_offline_command command =
     bindE (demand (command \<noteq> [] \<and> length command \<le> 256) ''offline command must contain between 1 and 256 arguments'') (\<lambda>_.
     bindE (demand (\<not> list_ex (\<lambda>a. a = [] \<or> 0 \<in> set a) command)
       ''offline command arguments must be non-empty strings without NUL'') (\<lambda>_. Inr command))"

definition user_namespace_argv :: "container_backend \<Rightarrow> pystr list" where
  "user_namespace_argv b =
     (if cb_name b = u ''podman'' \<and> cb_rootless b then [u ''--userns=keep-id:uid=65534,gid=65534'']
      else if cb_name b = u ''podman'' then [u ''--userns=auto''] else [])"

definition MOUNT_PREFIX :: pystr where
  "MOUNT_PREFIX = u ''type=bind,src=''"

definition MOUNT_SUFFIX :: pystr where
  "MOUNT_SUFFIX = u '',dst=/workspace,readonly,bind-propagation=rprivate''"

definition control_arguments :: "(pystr \<times> posix_path) option \<Rightarrow> pystr list" where
  "control_arguments control =
     (case control of
        None \<Rightarrow> []
      | Some (name, cidfile) \<Rightarrow> [u ''--name='' @ name, u ''--cidfile='' @ path_text cidfile])"

definition ISOLATION_ARGUMENTS :: "pystr list" where
  "ISOLATION_ARGUMENTS =
     [u ''--network=none'', u ''--read-only'', u ''--cap-drop=ALL'', u ''--security-opt=no-new-privileges'', u ''--ipc=none'']"

definition LIMIT_ARGUMENTS :: "pystr list" where
  "LIMIT_ARGUMENTS =
     [u ''--user=65534:65534'', u ''--workdir=/workspace'', u ''--pids-limit=256'', u ''--memory=2g'', u ''--cpus=2'',
      u ''--tmpfs=/tmp:rw,noexec,nosuid,nodev,size=64m,mode=1777'', u ''--tmpfs=/run:rw,noexec,nosuid,nodev,size=16m,mode=0755'',
      u ''--env=PYTHONDONTWRITEBYTECODE=1'', u ''--env=PYTHONNOUSERSITE=1'']"

definition compose_offline_container_argv ::
    "container_backend \<Rightarrow> posix_path \<Rightarrow> pystr \<Rightarrow> pystr list \<Rightarrow> (pystr \<times> posix_path) option \<Rightarrow> pystr list" where
  "compose_offline_container_argv b tree img command control =
     [path_text (cb_executable b), u ''run'', u ''--pull=never''] @ control_arguments control @ ISOLATION_ARGUMENTS
     @ user_namespace_argv b @ LIMIT_ARGUMENTS @ [u ''--mount'', MOUNT_PREFIX @ path_text tree @ MOUNT_SUFFIX, img] @ command"

text \<open>\<open>^ai-review-[0-9a-f]{24}$\<close> and \<open>^\.run-[a-z0-9_]{8}$\<close>\<close>

definition is_container_name :: "pystr \<Rightarrow> bool" where
  "is_container_name s \<longleftrightarrow> take 10 s = u ''ai-review-'' \<and> length s = 34 \<and> list_all lower_hex (drop 10 s)"

definition is_control_directory :: "pystr \<Rightarrow> bool" where
  "is_control_directory s \<longleftrightarrow>
     take 5 s = u ''.run-'' \<and> length s = 13 \<and> list_all (\<lambda>c. lower c \<or> is_digit c \<or> c = 0x5F) (drop 5 s)"

definition MOUNT_FORBIDDEN :: "nat set" where
  "MOUNT_FORBIDDEN = {0x2C, 0x0A, 0x0D, 0}"

text \<open>The name and the file of the container id come together.\<close>

definition build_offline_container_argv ::
    "runner_env \<Rightarrow> container_backend \<Rightarrow> snapshot_evidence \<Rightarrow> pystr \<Rightarrow> pystr \<Rightarrow> pystr list \<Rightarrow> (pystr \<times> posix_path) option
       \<Rightarrow> pystr list run_io" where
  "build_offline_container_argv E backend snapshot img approved command control =
     bindS (validate_backend E backend) (\<lambda>trusted.
     bindS (verified_snapshot E (sn_root snapshot)) (\<lambda>verified.
     bindS (liftS (demand (sn_snapshot_sha256 verified = sn_snapshot_sha256 snapshot)
       ''snapshot evidence changed before container execution'')) (\<lambda>_.
     bindS (liftS (validate_image img approved)) (\<lambda>_.
     bindS (liftS (validate_offline_command command)) (\<lambda>container_command.
     bindS (case control of
         None \<Rightarrow> liftS (Inr ())
       | Some (name, cidfile) \<Rightarrow>
           bindS (liftS (demand (is_container_name name) ''container name is invalid'')) (\<lambda>_ l.
             (bindE (mapError OfflineRunnerError (ru_guarded_parent E l (parent_of cidfile))) (\<lambda>parent.
              demand (\<not> ru_exists E l cidfile \<and> \<not> ru_is_symlink E l cidfile \<and> parent = parent_of cidfile)
                ''cidfile must be a new file in the trusted control directory''), l))) (\<lambda>_.
     bindS (liftS (demand (set (path_text (sn_tree verified)) \<inter> MOUNT_FORBIDDEN = {})
       ''snapshot path cannot be represented safely as a bind mount'')) (\<lambda>_.
     liftS (Inr (compose_offline_container_argv trusted (sn_tree verified) img container_command control)))))))))"

section \<open>The process loop\<close>

fun read_pipes :: "nat \<Rightarrow> bool set \<Rightarrow> bytes \<times> bytes \<Rightarrow> pipe_event list \<Rightarrow> runner_error + bytes \<times> bytes" where
  "read_pipes limit active buffers events =
     (if active = {} then Inr buffers
      else
        (case events of
           [] \<Rightarrow> Inl (runner_error ''isolated candidate execution timed out'')
         | EndOf s # es \<Rightarrow> read_pipes limit (active - {s}) buffers es
         | Chunk s b # es \<Rightarrow>
             (case buffers of
                (out, err) \<Rightarrow>
                  if limit < length out + length err + length b
                  then Inl (runner_error ''isolated candidate output exceeded the byte limit'')
                  else read_pipes limit active (if s then (out, err @ b) else (out @ b, err)) es)))"

text \<open>
  \<open>process.wait\<close> gives the exit code or runs into its own time limit, which nothing catches; the
  digests were updated chunk by chunk.
\<close>

definition run_bounded :: "runner_env \<Rightarrow> nat \<Rightarrow> run_event list \<Rightarrow> runner_error + bounded_result" where
  "run_bounded E limit l =
     (case ru_pipes E l of
        None \<Rightarrow> Inl (runner_error ''failed to start isolated container runtime'')
      | Some (events, exit_code, duration_ns) \<Rightarrow>
          bindE (read_pipes limit {False, True} ([], []) events) (\<lambda>(out, err).
          case exit_code of
            None \<Rightarrow> Inl (RunnerFailure (u ''TimeoutExpired''))
          | Some code \<Rightarrow>
              Inr \<lparr>br_exit_code = code, br_stdout = out, br_stderr = err, br_stdout_sha256 = ru_sha E out,
                   br_stderr_sha256 = ru_sha E err, br_duration_ms = max 0 (duration_ns div 1000000)\<rparr>))"

definition read_container_id :: "runner_env \<Rightarrow> posix_path \<Rightarrow> run_event list \<Rightarrow> runner_error + pystr" where
  "read_container_id E cidfile l =
     bindE (mapError OfflineRunnerError (ru_cidfile E l cidfile)) (\<lambda>(raw, size).
     (case ascii_decode raw of
        None \<Rightarrow> Inl (runner_error ''container ID is invalid'')
      | Some s \<Rightarrow>
          bindE (demand (is_container_id (strip s) \<and> size \<le> 128) ''container ID is invalid'') (\<lambda>_. Inr (strip s))))"

section \<open>Execution\<close>

record offline_args =
  oa_snapshot_root :: posix_path
  oa_image :: pystr
  oa_approved_image_digest :: pystr
  oa_command :: "pystr list"
  oa_phase :: pystr
  oa_acceptance_test_id :: pystr
  oa_session_id :: pystr
  oa_task_sha256 :: pystr
  oa_candidate_sha256 :: pystr
  oa_source_snapshot_sha256 :: pystr
  oa_test_patch_sha256 :: "pystr option"
  oa_test_manifest_sha256 :: "pystr option"
  oa_candidate_snapshot_sha256 :: "pystr option"
  oa_timeout_seconds :: int
  oa_max_log_bytes :: int

definition PHASE_NAMES :: "pystr list" where
  "PHASE_NAMES = [u ''gate'', u ''red'', u ''green'']"

definition optional_sha :: "pystr option \<Rightarrow> bool" where
  "optional_sha v = (case v of None \<Rightarrow> False | Some s \<Rightarrow> is_sha256 s)"

definition check_arguments :: "offline_args \<Rightarrow> runner_error + unit" where
  "check_arguments a =
     bindE (demand (1 \<le> oa_timeout_seconds a \<and> oa_timeout_seconds a \<le> 3600)
       ''offline runner timeout must be between 1 and 3600 seconds'') (\<lambda>_.
     bindE (demand (1024 \<le> oa_max_log_bytes a \<and> oa_max_log_bytes a \<le> 10000000)
       ''offline runner log limit must be between 1024 and 10000000 bytes'') (\<lambda>_.
     bindE (demand (oa_phase a \<in> set PHASE_NAMES) ''offline runner phase must be gate, red, or green'') (\<lambda>_.
     bindE (demand (is_upper_id (oa_acceptance_test_id a)) ''offline runner acceptance test id is invalid'') (\<lambda>_.
     bindE (demand (is_container_name (oa_session_id a)) ''offline runner session id must be preallocated'') (\<lambda>_.
     bindE (demand (is_sha256 (oa_task_sha256 a)) ''task SHA-256 must be lowercase hexadecimal'') (\<lambda>_.
     bindE (demand (is_sha256 (oa_candidate_sha256 a)) ''candidate digest must be lowercase hexadecimal'') (\<lambda>_.
     bindE (demand (is_sha256 (oa_source_snapshot_sha256 a)) ''source snapshot SHA-256 must be lowercase hexadecimal'') (\<lambda>_.
     if oa_phase a = u ''gate''
     then demand (oa_test_patch_sha256 a = None \<and> oa_test_manifest_sha256 a = None)
            ''gate runs must not claim TDD patch or manifest evidence''
     else demand (optional_sha (oa_test_patch_sha256 a) \<and> optional_sha (oa_test_manifest_sha256 a))
            ''TDD runs require test patch and manifest SHA-256 values''))))))))"

text \<open>The digest of the candidate's snapshot the run is bound to.\<close>

definition bound_candidate :: "offline_args \<Rightarrow> snapshot_evidence \<Rightarrow> runner_error + pystr" where
  "bound_candidate a snapshot =
     (let measured = sn_snapshot_sha256 snapshot; source = oa_source_snapshot_sha256 a; red = (oa_phase a = u ''red'');
          phase = (if oa_phase a = u ''gate'' then ''GATE'' else ''GREEN'') in
      bindE (case oa_candidate_snapshot_sha256 a of
          None \<Rightarrow> bindE (demand (\<not> red) ''RED runs require the verified candidate snapshot digest'') (\<lambda>_. Inr measured)
        | Some c \<Rightarrow> bindE (demand (is_sha256 c) ''candidate snapshot SHA-256 must be lowercase hexadecimal'') (\<lambda>_. Inr c)) (\<lambda>bound.
      bindE (demand (red \<or> bound = measured) (phase @ '' must execute the candidate snapshot itself'')) (\<lambda>_.
      bindE (demand (red \<or> source = measured) (phase @ '' source must be the candidate snapshot'')) (\<lambda>_.
      bindE (demand (\<not> (red \<and> source = bound)) ''RED source and candidate snapshots must be distinct'') (\<lambda>_.
      bindE (demand (\<not> (red \<and> measured \<in> {source, bound})) ''RED execution must use the measured overlay snapshot'') (\<lambda>_.
      Inr bound))))))"

definition request_of :: "offline_args \<Rightarrow> snapshot_evidence \<Rightarrow> pystr \<Rightarrow> pystr list \<Rightarrow> run_request" where
  "request_of a snapshot bound command =
     \<lparr>rr_phase = oa_phase a, rr_acceptance_test_id = oa_acceptance_test_id a, rr_session_id = oa_session_id a,
      rr_source_commit_sha = sn_commit_sha snapshot, rr_source_commit_tree_sha = sn_commit_tree_sha snapshot,
      rr_source_snapshot_sha256 = oa_source_snapshot_sha256 a, rr_task_sha256 = oa_task_sha256 a,
      rr_candidate_sha256 = oa_candidate_sha256 a, rr_candidate_snapshot_sha256 = bound,
      rr_execution_snapshot_sha256 = sn_snapshot_sha256 snapshot, rr_test_patch_sha256 = oa_test_patch_sha256 a,
      rr_test_manifest_sha256 = oa_test_manifest_sha256 a, rr_command = command,
      rr_runner_image_digest = oa_approved_image_digest a\<rparr>"

definition make_control_directory :: "runner_env \<Rightarrow> snapshot_evidence \<Rightarrow> posix_path run_io" where
  "make_control_directory E snapshot l =
     (case ru_control_name E l of
        Inl e \<Rightarrow> (Inl (RunnerFailure e), l)
      | Inr name \<Rightarrow> (Inr (parent_of (sn_root snapshot) @ [name]), l @ [MadeControlDirectory]))"

text \<open>A failure removes the control directory before it is raised again.\<close>

definition or_remove_directory :: "'a run_io \<Rightarrow> 'a run_io" where
  "or_remove_directory m l =
     (case m l of (Inl e, l') \<Rightarrow> (Inl e, l' @ [RemovedControlDirectory]) | (Inr x, l') \<Rightarrow> (Inr x, l'))"

text \<open>The run with its \<open>finally\<close>: the container is removed whatever happened, then the directory.\<close>

definition run_container :: "runner_env \<Rightarrow> nat \<Rightarrow> pystr list \<Rightarrow> posix_path \<Rightarrow> (bounded_result \<times> pystr) run_io" where
  "run_container E limit argv cidfile l =
     (let l1 = l @ [Started argv];
          outcome = bindE (run_bounded E limit l1) (\<lambda>r. bindE (read_container_id E cidfile l1) (\<lambda>cid. Inr (r, cid)));
          cleaned = ru_cleanup E l1; l2 = l1 @ [CleanedContainer];
          removed = ru_unlink E l2; l3 = l2 @ [RemovedControlDirectory] in
      (bindE (demand (cleaned \<and> removed) ''container cleanup could not be attested'') (\<lambda>_. outcome), l3))"

definition presentation :: "bytes \<Rightarrow> bytes \<Rightarrow> bytes" where
  "presentation out err =
     ''[stdout]'' @ [CHR 0x0A] @ out @ [CHR 0x0A] @ ''[stderr]'' @ [CHR 0x0A] @ err"

definition evidence_of ::
    "hash_fn \<Rightarrow> run_request \<Rightarrow> container_backend \<Rightarrow> pystr list \<Rightarrow> int \<Rightarrow> bounded_result \<Rightarrow> pystr \<Rightarrow> runner_error + offline_run_evidence" where
  "evidence_of sha request backend argv started result container_id =
     (let out = br_stdout result; err = br_stderr result; code = br_exit_code result in
      bindE (offline_log_sha256 sha out err) (\<lambda>log_sha256.
      bindE (failure_fingerprint_sha256 sha code out err) (\<lambda>failure.
      bindE (execution_response_sha256 sha code out err container_id True False) (\<lambda>response.
      bindE (request_digest sha request) (\<lambda>request_sha256.
      bindE (argv_digest sha argv) (\<lambda>argv_sha256.
      Inr \<lparr>ev_request = request, ev_request_sha256 = request_sha256, ev_runtime_name = cb_name backend,
           ev_runtime_sha256 = cb_sha256 backend, ev_runtime_security_sha256 = cb_security_evidence_sha256 backend,
           ev_runtime_rootless = cb_rootless backend, ev_runtime_user_namespace = cb_user_namespace backend,
           ev_runtime_seccomp_profile = cb_seccomp_profile backend, ev_runner_image_digest = rr_runner_image_digest request,
           ev_snapshot_sha256 = rr_execution_snapshot_sha256 request, ev_argv = argv, ev_argv_sha256 = argv_sha256,
           ev_container_id = container_id, ev_exit_code = code, ev_stdout = out, ev_stderr = err,
           ev_stdout_sha256 = br_stdout_sha256 result, ev_stderr_sha256 = br_stderr_sha256 result, ev_log = presentation out err,
           ev_log_sha256 = log_sha256, ev_log_truncated = False, ev_stdout_bytes = int (length out),
           ev_stderr_bytes = int (length err), ev_started_unix_ns = started, ev_duration_ms = br_duration_ms result,
           ev_cleanup_succeeded = True, ev_failure_fingerprint_sha256 = failure, ev_response_sha256 = response\<rparr>))))))"

text \<open>After the run: the security state of the runtime is probed again, then the evidence is made.\<close>

definition attest_result ::
    "runner_env \<Rightarrow> container_backend \<Rightarrow> run_request \<Rightarrow> pystr list \<Rightarrow> int \<Rightarrow> bounded_result \<times> pystr \<Rightarrow> offline_run_evidence run_io" where
  "attest_result E backend request argv started outcome =
     (let (result, container_id) = outcome in
      bindS (probe_backend E (cb_name backend)) (\<lambda>(rootless, user_namespace, profile).
      bindS (liftS (security_evidence_sha256 (ru_sha E) (cb_name backend) rootless user_namespace profile)) (\<lambda>post.
      bindS (liftS (demand (post = cb_security_evidence_sha256 backend)
        ''container backend security state changed during execution'')) (\<lambda>_.
      bindS (liftS (demand (br_stdout_sha256 result = ru_sha E (br_stdout result) \<and> br_stderr_sha256 result = ru_sha E (br_stderr result))
        ''stream runner returned inconsistent output digests'')) (\<lambda>_.
      liftS (evidence_of (ru_sha E) request backend argv started result container_id))))))"

definition controlled_run ::
    "runner_env \<Rightarrow> offline_args \<Rightarrow> container_backend \<Rightarrow> snapshot_evidence \<Rightarrow> run_request \<Rightarrow> posix_path \<Rightarrow> offline_run_evidence run_io" where
  "controlled_run E a backend snapshot request control_root =
     (let cidfile = control_root @ [u ''container.cid''] in
      bindS (or_remove_directory (build_offline_container_argv E backend snapshot (oa_image a) (oa_approved_image_digest a)
        (rr_command request) (Some (oa_session_id a, cidfile)))) (\<lambda>argv.
      bindS (\<lambda>l. (Inr (ru_time_ns E l), l)) (\<lambda>started.
      bindS (run_container E (nat (oa_max_log_bytes a)) argv cidfile) (attest_result E backend request argv started))))"

definition execute_offline :: "runner_env \<Rightarrow> offline_args \<Rightarrow> offline_run_evidence run_io" where
  "execute_offline E a =
     bindS (liftS (check_arguments a)) (\<lambda>_.
     bindS (detect_container_backend E) (\<lambda>backend.
     bindS (verified_snapshot E (oa_snapshot_root a)) (\<lambda>snapshot.
     bindS (liftS (bound_candidate a snapshot)) (\<lambda>bound.
     bindS (liftS (validate_offline_command (oa_command a))) (\<lambda>command.
     bindS (make_control_directory E snapshot) (\<lambda>control_root.
     controlled_run E a backend snapshot (request_of a snapshot bound command) control_root))))))"

section \<open>Validation of a completed run\<close>

definition is_commit_sha :: "pystr \<Rightarrow> bool" where
  "is_commit_sha s \<longleftrightarrow> is_git_sha s \<or> is_sha256 s"

definition validate_run_request :: "run_request \<Rightarrow> runner_error + unit" where
  "validate_run_request r =
     (let source = rr_source_snapshot_sha256 r; candidate = rr_candidate_snapshot_sha256 r;
          execution = rr_execution_snapshot_sha256 r; phase = rr_phase r in
      bindE (demand (phase \<in> set PHASE_NAMES) ''offline request phase is invalid'') (\<lambda>_.
      bindE (demand (is_upper_id (rr_acceptance_test_id r)) ''offline request acceptance test id is invalid'') (\<lambda>_.
      bindE (demand (is_container_name (rr_session_id r)) ''offline request session id is invalid'') (\<lambda>_.
      bindE (demand (is_commit_sha (rr_source_commit_sha r) \<and> is_commit_sha (rr_source_commit_tree_sha r))
        ''offline request source commit binding is invalid'') (\<lambda>_.
      bindE (demand (list_all is_sha256 [source, rr_task_sha256 r, rr_candidate_sha256 r, candidate, execution])
        ''offline request contains an invalid SHA-256'') (\<lambda>_.
      bindE (validate_offline_command (rr_command r)) (\<lambda>_.
      bindE (demand (is_digest (rr_runner_image_digest r)) ''offline request runner image digest is invalid'') (\<lambda>_.
      bindE (if phase = u ''gate''
             then demand (rr_test_patch_sha256 r = None \<and> rr_test_manifest_sha256 r = None) ''gate request must not claim TDD evidence''
             else demand (optional_sha (rr_test_patch_sha256 r) \<and> optional_sha (rr_test_manifest_sha256 r))
                    ''TDD request requires patch and manifest SHA-256'') (\<lambda>_.
      bindE (demand (\<not> (phase \<in> {u ''gate'', u ''green''} \<and> \<not> (source = candidate \<and> candidate = execution)))
        ((if phase = u ''gate'' then ''GATE'' else ''GREEN'') @ '' request must execute its candidate snapshot'')) (\<lambda>_.
      demand (\<not> (phase = u ''red'' \<and> (source = candidate \<or> execution \<in> {source, candidate})))
        ''RED request must bind distinct base, candidate, and overlay''))))))))))"

definition with_prefix :: "pystr \<Rightarrow> pystr list \<Rightarrow> pystr list" where
  "with_prefix p argv = map (drop (length p)) (filter (starts_with p) argv)"

definition control_values_from_argv ::
    "runner_env \<Rightarrow> run_event list \<Rightarrow> pystr list \<Rightarrow> pystr \<Rightarrow> posix_path option \<Rightarrow> runner_error + posix_path" where
  "control_values_from_argv E l argv session_id expected_parent =
     (let cid_values = with_prefix (u ''--cidfile='') argv; cidfile = posix_parts (hd cid_values) in
      bindE (demand (with_prefix (u ''--name='') argv = [session_id] \<and> length cid_values = 1)
        ''offline argv control name or cidfile is invalid'') (\<lambda>_.
      bindE (demand (is_absolute cidfile \<and> name_of cidfile = u ''container.cid'') ''offline argv cidfile path is invalid'') (\<lambda>_.
      bindE (demand (is_control_directory (name_of (parent_of cidfile))) ''offline argv control directory name is invalid'') (\<lambda>_.
      bindE (demand (case expected_parent of None \<Rightarrow> True | Some p \<Rightarrow> parent_of (parent_of cidfile) = p)
        ''offline argv cidfile is outside the snapshot control root'') (\<lambda>_.
      bindE (demand (\<not> ru_exists E l cidfile \<and> \<not> ru_is_symlink E l cidfile \<and> \<not> ru_exists E l (parent_of cidfile))
        ''offline argv control path survived attested cleanup'') (\<lambda>_.
      Inr cidfile))))))"

fun mount_values :: "pystr list \<Rightarrow> pystr option list" where
  "mount_values [] = []"
| "mount_values (a # argv) =
     (if a = u ''--mount'' then (case argv of [] \<Rightarrow> None | v # _ \<Rightarrow> Some v) # mount_values argv else mount_values argv)"

definition ends_with :: "pystr \<Rightarrow> pystr \<Rightarrow> bool" where
  "ends_with p s \<longleftrightarrow> length p \<le> length s \<and> drop (length s - length p) s = p"

text \<open>The source is the part between the fixed prefix and the fixed suffix.\<close>

definition snapshot_mount_source_from_argv :: "pystr list \<Rightarrow> runner_error + posix_path" where
  "snapshot_mount_source_from_argv argv =
     (case mount_values argv of
        [Some value] \<Rightarrow>
          (let source = drop (length MOUNT_PREFIX) (take (length value - length MOUNT_SUFFIX) value) in
           bindE (demand (starts_with MOUNT_PREFIX value \<and> ends_with MOUNT_SUFFIX value)
             ''offline snapshot mount is not canonical'') (\<lambda>_.
           bindE (demand (source \<noteq> [] \<and> set source \<inter> MOUNT_FORBIDDEN = {} \<and> is_absolute (posix_parts source))
             ''offline snapshot mount source is invalid'') (\<lambda>_.
           Inr (posix_parts source))))
      | _ \<Rightarrow> Inl (runner_error ''offline argv must contain exactly one snapshot mount''))"

definition request_checks :: "hash_fn \<Rightarrow> offline_run_evidence \<Rightarrow> snapshot_evidence \<Rightarrow> pystr \<Rightarrow> runner_error + unit" where
  "request_checks sha ev snapshot approved =
     (let r = ev_request ev in
      bindE (request_digest sha r) (\<lambda>measured.
      demand (ev_request_sha256 ev = measured \<and> rr_execution_snapshot_sha256 r = sn_snapshot_sha256 snapshot
        \<and> rr_source_commit_sha r = sn_commit_sha snapshot \<and> rr_source_commit_tree_sha r = sn_commit_tree_sha snapshot
        \<and> rr_runner_image_digest r = approved \<and> ev_runner_image_digest ev = approved
        \<and> ev_snapshot_sha256 ev = sn_snapshot_sha256 snapshot)
        ''offline request or snapshot binding does not match raw evidence''))"

definition reported_backend :: "offline_run_evidence \<Rightarrow> container_backend" where
  "reported_backend ev =
     \<lparr>cb_name = ev_runtime_name ev, cb_executable = posix_parts (hd (ev_argv ev)), cb_rootless = ev_runtime_rootless ev,
      cb_user_namespace = ev_runtime_user_namespace ev, cb_seccomp_enabled = True,
      cb_seccomp_profile = ev_runtime_seccomp_profile ev, cb_sha256 = ev_runtime_sha256 ev,
      cb_security_evidence_sha256 = ev_runtime_security_sha256 ev\<rparr>"

text \<open>The claims a coordinator can recompute without seeing the runtime of the host.\<close>

definition outer_backend :: "runner_env \<Rightarrow> container_backend \<Rightarrow> runner_error + container_backend" where
  "outer_backend E b =
     bindE (demand (is_absolute (cb_executable b) \<and> is_sha256 (cb_sha256 b)) ''offline outer runtime binding is invalid'') (\<lambda>_.
     bindE (security_evidence_sha256 (ru_sha E) (cb_name b) (cb_rootless b) (cb_user_namespace b) (cb_seccomp_profile b)) (\<lambda>expected.
     bindE (demand (expected = cb_security_evidence_sha256 b) ''offline outer runtime security evidence is invalid'') (\<lambda>_.
     bindE (demand ((cb_rootless b \<or> cb_user_namespace b) \<and> cb_seccomp_profile b \<noteq> [] \<and> \<not> unconfined E (cb_seccomp_profile b))
       ''offline outer runtime isolation evidence is invalid'') (\<lambda>_.
     Inr b))))"

text \<open>What the raw streams say, against the digests that were reported.\<close>

definition measured_streams :: "hash_fn \<Rightarrow> offline_run_evidence \<Rightarrow> runner_error + unit" where
  "measured_streams sha ev =
     (let out = ev_stdout ev; err = ev_stderr ev in
      bindE (demand (length out + length err \<le> 10000000) ''offline raw streams are invalid or oversized'') (\<lambda>_.
      bindE (offline_log_sha256 sha out err) (\<lambda>log_sha256.
      bindE (demand (ev_stdout_bytes ev = int (length out) \<and> ev_stderr_bytes ev = int (length err)
          \<and> ev_stdout_sha256 ev = sha out \<and> ev_stderr_sha256 ev = sha err \<and> ev_log_sha256 ev = log_sha256)
        ''offline raw streams do not match their digest evidence'') (\<lambda>_.
      bindE (demand (ev_log ev = presentation out err \<and> \<not> ev_log_truncated ev)
        ''offline bounded log is not the exact measured presentation'') (\<lambda>_.
      bindE (demand (ev_cleanup_succeeded ev) ''offline container cleanup was not attested'') (\<lambda>_.
      bindE (demand (is_container_id (ev_container_id ev)) ''offline container ID is invalid'') (\<lambda>_.
      bindE (demand (0 < ev_started_unix_ns ev \<and> 0 \<le> ev_duration_ms ev \<and> ev_duration_ms ev \<le> 3600000)
        ''offline execution timing evidence is invalid'') (\<lambda>_.
      bindE (failure_fingerprint_sha256 sha (ev_exit_code ev) out err) (\<lambda>failure.
      bindE (demand (ev_failure_fingerprint_sha256 ev = failure) ''offline failure fingerprint does not match raw streams'') (\<lambda>_.
      bindE (execution_response_sha256 sha (ev_exit_code ev) out err (ev_container_id ev) (ev_cleanup_succeeded ev) (ev_log_truncated ev)) (\<lambda>response.
      demand (ev_response_sha256 ev = response) ''offline execution response does not match raw evidence'')))))))))))"

text \<open>The mount source the caller trusts, resolved.\<close>

definition trusted_mount_check :: "runner_env \<Rightarrow> posix_path \<Rightarrow> posix_path option \<Rightarrow> runner_error + unit" where
  "trusted_mount_check E source expected_source =
     (case expected_source of
        None \<Rightarrow> Inr ()
      | Some p \<Rightarrow>
          (case ru_resolve E p of
             Inl _ \<Rightarrow> Inl (runner_error ''offline snapshot mount source is unavailable'')
           | Inr trusted \<Rightarrow> demand (source = trusted) ''offline snapshot mount source changed outside the plan''))"

definition validate_offline_run_evidence ::
    "runner_env \<Rightarrow> offline_run_evidence \<Rightarrow> snapshot_evidence \<Rightarrow> pystr \<Rightarrow> pystr \<Rightarrow> posix_path option \<Rightarrow> offline_run_evidence run_io" where
  "validate_offline_run_evidence E ev execution_snapshot img approved expected_source =
     bindS (liftS (validate_run_request (ev_request ev))) (\<lambda>_.
     bindS (verified_snapshot E (sn_root execution_snapshot)) (\<lambda>verified.
     bindS (liftS (demand (verified = execution_snapshot) ''offline execution snapshot evidence changed'')) (\<lambda>_.
     bindS (liftS (request_checks (ru_sha E) ev verified approved)) (\<lambda>_.
     bindS (liftS (validate_image img approved)) (\<lambda>_.
     bindS (liftS (demand (ev_argv ev \<noteq> []) ''offline argv evidence is invalid'')) (\<lambda>_.
     bindS (liftS (demand (\<not> list_ex (\<lambda>a. a = [] \<or> 0 \<in> set a) (ev_argv ev)) ''offline argv contains an invalid argument'')) (\<lambda>_.
     bindS (liftS (demand (ev_runtime_name ev \<in> set SUPPORTED_BACKENDS) ''offline runtime name is invalid'')) (\<lambda>_.
     bindS (liftS (snapshot_mount_source_from_argv (ev_argv ev))) (\<lambda>source.
     bindS (liftS (trusted_mount_check E source expected_source)) (\<lambda>_.
     let same_namespace = (source = sn_tree verified) in
     bindS (if same_namespace \<or> expected_source \<noteq> None then validate_backend E (reported_backend ev)
            else liftS (outer_backend E (reported_backend ev))) (\<lambda>backend.
     bindS (\<lambda>l. (control_values_from_argv E l (ev_argv ev) (rr_session_id (ev_request ev))
              (if same_namespace then Some (parent_of (sn_root verified)) else None), l)) (\<lambda>cidfile.
     let expected_argv = compose_offline_container_argv backend source img (rr_command (ev_request ev))
           (Some (rr_session_id (ev_request ev), cidfile)) in
     bindS (liftS (demand (ev_argv ev = expected_argv) ''offline argv does not match the canonical isolated runner'')) (\<lambda>_.
     bindS (liftS (argv_digest (ru_sha E) expected_argv)) (\<lambda>digest.
     bindS (liftS (demand (ev_argv_sha256 ev = digest) ''offline argv SHA-256 does not match its exact arguments'')) (\<lambda>_.
     bindS (liftS (measured_streams (ru_sha E) ev)) (\<lambda>_.
     liftS (Inr ev)))))))))))))))))"

end
