(* ===== verification/Offline_Protocol.thy ===== *)
theory Offline_Protocol
  imports Strict_Json Offline_Runner
begin

text \<open>
  \<open>tools/ai_review/offline_phase_protocol.py\<close>: the plan of an offline batch, the evidence of its
  runs, and the validation of the evidence against the plan. What was read from canonical bytes is
  a record; \<open>as_dict\<close> is the value that is written.
\<close>

section \<open>Readers\<close>

datatype offline_error =
    OfflinePhaseProtocolError string | OppValueError | OppUnicodeError | OppRunner runner_error | OppStopIteration

definition offline_canonical :: "json \<Rightarrow> offline_error + bytes" where
  "offline_canonical v = encode_line (OfflinePhaseProtocolError ''offline phase value is not canonical JSON'') v"

definition offline_domain_sha256 :: "hash_fn \<Rightarrow> bytes \<Rightarrow> json \<Rightarrow> offline_error + pystr" where
  "offline_domain_sha256 sha tag v = bindE (offline_canonical v) (\<lambda>b. Inr (sha (tag @ b)))"

definition offline_strict :: "string \<Rightarrow> nat \<Rightarrow> bytes \<Rightarrow> offline_error + json" where
  "offline_strict label maximum raw =
     read_line OfflinePhaseProtocolError OppValueError
       (OfflinePhaseProtocolError ''offline phase value is not canonical JSON'') label maximum raw"

definition offline_exact :: "string \<Rightarrow> string list \<Rightarrow> json \<Rightarrow> offline_error + pydict" where
  "offline_exact label names v = exact_dict (OfflinePhaseProtocolError (label @ '' has missing or unknown fields'')) names v"

definition read_string :: "string \<Rightarrow> nat \<Rightarrow> json \<Rightarrow> offline_error + pystr" where
  "read_string label maximum v =
     (let invalid = OfflinePhaseProtocolError (label @ '' is invalid'') in
      case v of
        JStr s \<Rightarrow>
          (if s = [] then Inl invalid
           else
             (case utf8_encode s of
                None \<Rightarrow> Inl OppUnicodeError
              | Some b \<Rightarrow> if maximum < length b \<or> 0 \<in> set s then Inl invalid else Inr s))
      | _ \<Rightarrow> Inl invalid)"

definition read_sha :: "string \<Rightarrow> json \<Rightarrow> offline_error + pystr" where
  "read_sha label v =
     bindE (read_string label 64 v) (\<lambda>s.
     bindE (guardE (is_sha256 s) (OfflinePhaseProtocolError (label @ '' is not a lowercase SHA-256''))) (\<lambda>_. Inr s))"

definition read_optional_sha :: "string \<Rightarrow> json \<Rightarrow> offline_error + pystr option" where
  "read_optional_sha label v = (if v = JNull then Inr None else bindE (read_sha label v) (\<lambda>s. Inr (Some s)))"

definition read_int :: "string \<Rightarrow> int \<Rightarrow> int \<Rightarrow> json \<Rightarrow> offline_error + int" where
  "read_int label minimum maximum v =
     (case v of
        JInt i \<Rightarrow> if minimum \<le> i \<and> i \<le> maximum then Inr i
                 else Inl (OfflinePhaseProtocolError (label @ '' is outside its strict integer range''))
      | _ \<Rightarrow> Inl (OfflinePhaseProtocolError (label @ '' is outside its strict integer range'')))"

definition read_bool :: "string \<Rightarrow> json \<Rightarrow> offline_error + bool" where
  "read_bool label v =
     (case v of JBool b \<Rightarrow> Inr b | _ \<Rightarrow> Inl (OfflinePhaseProtocolError (label @ '' must be a boolean'')))"

definition read_strings :: "string \<Rightarrow> nat \<Rightarrow> json \<Rightarrow> offline_error + pystr list" where
  "read_strings label maximum v =
     (let bad = OfflinePhaseProtocolError (label @ '' has an invalid item count'') in
      case v of
        JArr items \<Rightarrow>
          bindE (guardE (1 \<le> length items \<and> length items \<le> maximum) bad) (\<lambda>_. mapE (read_string label 4096) items)
      | _ \<Rightarrow> Inl bad)"

definition snapshot_ref :: "json \<Rightarrow> offline_error + pystr" where
  "snapshot_ref v =
     bindE (read_string ''offline snapshot reference'' 4096 v) (\<lambda>s.
     bindE (guardE (\<not> is_absolute (posix_parts s) \<and> u ''..'' \<notin> set (posix_parts s))
       (OfflinePhaseProtocolError ''offline snapshot reference must be a safe relative path'')) (\<lambda>_. Inr s))"

definition opp :: "bool \<Rightarrow> string \<Rightarrow> offline_error + unit" where
  "opp b m = guardE b (OfflinePhaseProtocolError m)"

section \<open>The plan\<close>

record prepared_run =
  pn_ordinal :: int
  pn_phase :: pystr
  pn_acceptance_test_id :: pystr
  pn_snapshot_ref :: pystr
  pn_execution_snapshot_sha256 :: pystr
  pn_source_snapshot_sha256 :: pystr
  pn_candidate_snapshot_sha256 :: pystr
  pn_test_patch_sha256 :: "pystr option"
  pn_test_manifest_sha256 :: "pystr option"
  pn_command :: "pystr list"
  pn_session_id :: pystr

definition prepared_run_dict :: "prepared_run \<Rightarrow> json" where
  "prepared_run_dict r =
     JObj [(u ''acceptance_test_id'', JStr (pn_acceptance_test_id r)),
       (u ''candidate_snapshot_sha256'', JStr (pn_candidate_snapshot_sha256 r)), (u ''command'', JArr (map JStr (pn_command r))),
       (u ''execution_snapshot_sha256'', JStr (pn_execution_snapshot_sha256 r)), (u ''ordinal'', JInt (pn_ordinal r)),
       (u ''phase'', JStr (pn_phase r)), (u ''session_id'', JStr (pn_session_id r)), (u ''snapshot_ref'', JStr (pn_snapshot_ref r)),
       (u ''source_snapshot_sha256'', JStr (pn_source_snapshot_sha256 r)),
       (u ''test_manifest_sha256'', jstr_or_null (pn_test_manifest_sha256 r)),
       (u ''test_patch_sha256'', jstr_or_null (pn_test_patch_sha256 r))]"

record prepared_batch =
  pb_schema_version :: pystr
  pb_workflow_id :: pystr
  pb_request_sha256 :: pystr
  pb_task_sha256 :: pystr
  pb_candidate_sha256 :: pystr
  pb_candidate_snapshot_sha256 :: pystr
  pb_image :: pystr
  pb_approved_image_digest :: pystr
  pb_timeout_seconds :: int
  pb_max_log_bytes :: int
  pb_runs :: "prepared_run list"
  pb_batch_sha256 :: pystr

definition batch_pairs :: "prepared_batch \<Rightarrow> pydict" where
  "batch_pairs b =
     [(u ''approved_image_digest'', JStr (pb_approved_image_digest b)), (u ''candidate_sha256'', JStr (pb_candidate_sha256 b)),
      (u ''candidate_snapshot_sha256'', JStr (pb_candidate_snapshot_sha256 b)), (u ''image'', JStr (pb_image b)),
      (u ''max_log_bytes'', JInt (pb_max_log_bytes b)), (u ''request_sha256'', JStr (pb_request_sha256 b)),
      (u ''runs'', JArr (map prepared_run_dict (pb_runs b))), (u ''schema_version'', JStr (pb_schema_version b)),
      (u ''task_sha256'', JStr (pb_task_sha256 b)), (u ''timeout_seconds'', JInt (pb_timeout_seconds b)),
      (u ''workflow_id'', JStr (pb_workflow_id b))]"

definition batch_body :: "prepared_batch \<Rightarrow> json" where
  "batch_body b = JObj (batch_pairs b)"

definition batch_dict :: "prepared_batch \<Rightarrow> json" where
  "batch_dict b = JObj (batch_pairs b @ [(u ''batch_sha256'', JStr (pb_batch_sha256 b))])"

definition batch_bytes :: "prepared_batch \<Rightarrow> offline_error + bytes" where
  "batch_bytes b = offline_canonical (batch_dict b)"

definition PREPARED_BATCH_DOMAIN :: bytes where
  "PREPARED_BATCH_DOMAIN = ''amazon-explorer-prepared-offline-batch-v1'' @ [CHR 0x00]"

definition OUTER_EVIDENCE_DOMAIN :: bytes where
  "OUTER_EVIDENCE_DOMAIN = ''amazon-explorer-outer-offline-evidence-v1'' @ [CHR 0x00]"

definition MAX_RUNS :: nat where
  "MAX_RUNS = 300"

definition prepared_run_fields :: "string list" where
  "prepared_run_fields = [''acceptance_test_id'', ''candidate_snapshot_sha256'', ''command'', ''execution_snapshot_sha256'',
     ''ordinal'', ''phase'', ''session_id'', ''snapshot_ref'', ''source_snapshot_sha256'', ''test_manifest_sha256'',
     ''test_patch_sha256'']"

definition prepared_run_from_dict :: "json \<Rightarrow> offline_error + prepared_run" where
  "prepared_run_from_dict v =
     bindE (offline_exact ''prepared offline run'' prepared_run_fields v) (\<lambda>d.
     bindE (read_string ''offline run phase'' 5 (fld d ''phase'')) (\<lambda>phase.
     bindE (opp (phase \<in> set PHASE_NAMES) ''prepared offline run phase is invalid'') (\<lambda>_.
     bindE (read_string ''acceptance test id'' 64 (fld d ''acceptance_test_id'')) (\<lambda>acceptance_id.
     bindE (opp (is_upper_id acceptance_id) ''prepared acceptance test id is invalid'') (\<lambda>_.
     bindE (read_string ''offline session id'' 34 (fld d ''session_id'')) (\<lambda>session_id.
     bindE (opp (is_container_name session_id) ''prepared offline session id is invalid'') (\<lambda>_.
     bindE (read_optional_sha ''test patch SHA-256'' (fld d ''test_patch_sha256'')) (\<lambda>patch.
     bindE (read_optional_sha ''test manifest SHA-256'' (fld d ''test_manifest_sha256'')) (\<lambda>manifest.
     bindE (opp (if phase = u ''gate'' then patch = None \<and> manifest = None else patch \<noteq> None \<and> manifest \<noteq> None)
       ''prepared offline TDD binding is invalid'') (\<lambda>_.
     bindE (read_int ''offline ordinal'' 0 299 (fld d ''ordinal'')) (\<lambda>ordinal.
     bindE (snapshot_ref (fld d ''snapshot_ref'')) (\<lambda>ref.
     bindE (read_sha ''execution snapshot SHA-256'' (fld d ''execution_snapshot_sha256'')) (\<lambda>execution.
     bindE (read_sha ''source snapshot SHA-256'' (fld d ''source_snapshot_sha256'')) (\<lambda>source.
     bindE (read_sha ''candidate snapshot SHA-256'' (fld d ''candidate_snapshot_sha256'')) (\<lambda>candidate.
     bindE (read_strings ''offline command'' 256 (fld d ''command'')) (\<lambda>command.
     Inr \<lparr>pn_ordinal = ordinal, pn_phase = phase, pn_acceptance_test_id = acceptance_id, pn_snapshot_ref = ref,
          pn_execution_snapshot_sha256 = execution, pn_source_snapshot_sha256 = source, pn_candidate_snapshot_sha256 = candidate,
          pn_test_patch_sha256 = patch, pn_test_manifest_sha256 = manifest, pn_command = command,
          pn_session_id = session_id\<rparr>))))))))))))))))"

definition prepared_batch_fields :: "string list" where
  "prepared_batch_fields = [''approved_image_digest'', ''batch_sha256'', ''candidate_sha256'', ''candidate_snapshot_sha256'',
     ''image'', ''max_log_bytes'', ''request_sha256'', ''runs'', ''schema_version'', ''task_sha256'', ''timeout_seconds'',
     ''workflow_id'']"

definition phase_rank :: "pystr \<Rightarrow> nat" where
  "phase_rank p = (if p = u ''gate'' then 0 else if p = u ''red'' then 1 else 2)"

definition ids_of :: "string \<Rightarrow> prepared_run list \<Rightarrow> pystr set" where
  "ids_of p runs = set (map pn_acceptance_test_id (filter (\<lambda>r. pn_phase r = u p) runs))"

definition run_order :: "prepared_run list \<Rightarrow> offline_error + unit" where
  "run_order runs =
     bindE (opp (map pn_ordinal runs = map int [0..<length runs]) ''prepared offline run order is invalid'') (\<lambda>_.
     bindE (opp (distinct (map (\<lambda>r. (pn_phase r, pn_acceptance_test_id r)) runs)) ''prepared offline run keys must be unique'') (\<lambda>_.
     bindE (opp (sorted (map (\<lambda>r. phase_rank (pn_phase r)) runs)) ''prepared offline batch must order gate, RED, then GREEN'') (\<lambda>_.
     let gates = ids_of ''gate'' runs; red = ids_of ''red'' runs; green = ids_of ''green'' runs in
     opp (gates \<noteq> {} \<and> red \<noteq> {} \<and> red = green \<and> red \<subseteq> gates)
       ''prepared offline batch requires all gates and paired RED/GREEN runs'')))"

text \<open>The list of runs, bounded before any is read.\<close>

definition read_runs :: "string \<Rightarrow> (json \<Rightarrow> offline_error + 'r) \<Rightarrow> json \<Rightarrow> offline_error + 'r list" where
  "read_runs message reader v =
     (case v of
        JArr items \<Rightarrow> bindE (opp (1 \<le> length items \<and> length items \<le> MAX_RUNS) message) (\<lambda>_. mapE reader items)
      | _ \<Rightarrow> Inl (OfflinePhaseProtocolError message))"

definition parse_prepared_offline_batch :: "hash_fn \<Rightarrow> bytes \<Rightarrow> offline_error + prepared_batch" where
  "parse_prepared_offline_batch sha raw =
     bindE (offline_strict ''prepared offline batch'' 2000000 raw) (\<lambda>v.
     bindE (offline_exact ''prepared offline batch'' prepared_batch_fields v) (\<lambda>d.
     bindE (opp (fld d ''schema_version'' = JStr (u ''1.0'')) ''prepared offline schema version is invalid'') (\<lambda>_.
     bindE (read_string ''offline image'' 4096 (fld d ''image'')) (\<lambda>img.
     bindE (read_string ''offline image digest'' 71 (fld d ''approved_image_digest'')) (\<lambda>approved.
     bindE (opp (image_digest img = Some approved) ''prepared offline image is not manifest-pinned'') (\<lambda>_.
     bindE (read_runs ''prepared offline batch has an invalid run count'' prepared_run_from_dict (fld d ''runs'')) (\<lambda>runs.
     bindE (run_order runs) (\<lambda>_.
     bindE (read_sha ''workflow id'' (fld d ''workflow_id'')) (\<lambda>workflow_id.
     bindE (read_sha ''phase request SHA-256'' (fld d ''request_sha256'')) (\<lambda>request_sha256.
     bindE (read_sha ''task SHA-256'' (fld d ''task_sha256'')) (\<lambda>task_sha256.
     bindE (read_sha ''candidate SHA-256'' (fld d ''candidate_sha256'')) (\<lambda>candidate_sha256.
     bindE (read_sha ''candidate snapshot SHA-256'' (fld d ''candidate_snapshot_sha256'')) (\<lambda>cand_snapshot.
     bindE (read_int ''offline timeout'' 1 3600 (fld d ''timeout_seconds'')) (\<lambda>timeout.
     bindE (read_int ''offline log limit'' 1024 1000000 (fld d ''max_log_bytes'')) (\<lambda>max_log.
     bindE (read_sha ''prepared batch SHA-256'' (fld d ''batch_sha256'')) (\<lambda>batch_sha256.
     let batch = \<lparr>pb_schema_version = u ''1.0'', pb_workflow_id = workflow_id, pb_request_sha256 = request_sha256,
           pb_task_sha256 = task_sha256, pb_candidate_sha256 = candidate_sha256,
           pb_candidate_snapshot_sha256 = cand_snapshot, pb_image = img, pb_approved_image_digest = approved,
           pb_timeout_seconds = timeout, pb_max_log_bytes = max_log, pb_runs = runs, pb_batch_sha256 = batch_sha256\<rparr> in
     bindE (offline_domain_sha256 sha PREPARED_BATCH_DOMAIN (batch_body batch)) (\<lambda>measured.
     bindE (opp (measured = batch_sha256) ''prepared offline batch digest is invalid'') (\<lambda>_.
     bindE (opp (list_all (\<lambda>r. pn_candidate_snapshot_sha256 r = cand_snapshot) runs)
       ''prepared offline candidate snapshot binding changed'') (\<lambda>_.
     Inr batch)))))))))))))))))))"

definition canonical_prepared_offline_batch_bytes :: "hash_fn \<Rightarrow> prepared_batch \<Rightarrow> offline_error + bytes" where
  "canonical_prepared_offline_batch_bytes sha b =
     bindE (batch_bytes b) (\<lambda>raw.
     bindE (parse_prepared_offline_batch sha raw) (\<lambda>parsed.
     bindE (opp (parsed = b) ''prepared offline batch object is invalid'') (\<lambda>_. Inr raw)))"

section \<open>Preparing the plan\<close>

definition ascii_bytes :: "pystr \<Rightarrow> offline_error + bytes" where
  "ascii_bytes s = (if ascii s then Inr (map char_of s) else Inl OppUnicodeError)"

definition SESSION_DOMAIN :: bytes where
  "SESSION_DOMAIN = ''amazon-explorer-offline-session-v1'' @ [CHR 0x00]"

definition session_id_of :: "hash_fn \<Rightarrow> pystr \<Rightarrow> pystr \<Rightarrow> pystr \<Rightarrow> pystr \<Rightarrow> offline_error + pystr" where
  "session_id_of sha workflow_id request_sha256 phase acceptance_id =
     bindE (mapE ascii_bytes [workflow_id, request_sha256, phase, acceptance_id]) (\<lambda>parts.
     Inr (u ''ai-review-'' @ take 24 (sha (SESSION_DOMAIN @ concat parts))))"

record red_snapshot =
  rs_phase :: pystr
  rs_source_snapshot_sha256 :: pystr
  rs_candidate_snapshot_sha256 :: pystr
  rs_test_patch_sha256 :: pystr
  rs_test_manifest_sha256 :: pystr
  rs_test_paths :: "pystr list"
  rs_snapshot :: snapshot_evidence

text \<open>\<open>target.is_relative_to(root)\<close> for resolved paths.\<close>

definition below_root :: "posix_path \<Rightarrow> posix_path \<Rightarrow> bool" where
  "below_root r t \<longleftrightarrow> take (length r) t = r"

definition resolve_snapshot :: "runner_env \<Rightarrow> posix_path \<Rightarrow> pystr \<Rightarrow> offline_error + snapshot_evidence" where
  "resolve_snapshot E artifact_root reference =
     (let unavailable = OfflinePhaseProtocolError ''offline snapshot reference is unavailable'' in
      bindE (mapError (\<lambda>_. unavailable) (ru_resolve E artifact_root)) (\<lambda>protected.
      bindE (mapError (\<lambda>_. unavailable) (ru_resolve E (protected @ posix_parts reference))) (\<lambda>target.
      bindE (opp (below_root protected target) ''offline snapshot reference escaped the artifact root'') (\<lambda>_.
      mapError (\<lambda>_. OfflinePhaseProtocolError ''offline snapshot reference is not verified'') (ru_verify_snapshot E [] target)))))"

definition relative_snapshot :: "runner_env \<Rightarrow> posix_path \<Rightarrow> snapshot_evidence \<Rightarrow> offline_error + pystr" where
  "relative_snapshot E artifact_root snapshot =
     (let outside = OfflinePhaseProtocolError ''offline snapshot is outside the artifact input'' in
      bindE (mapError (\<lambda>_. outside) (ru_resolve E artifact_root)) (\<lambda>r.
      bindE (mapError (\<lambda>_. outside) (ru_resolve E (sn_root snapshot))) (\<lambda>t.
      bindE (guardE (below_root r t) outside) (\<lambda>_.
      snapshot_ref (JStr (path_text (drop (length r) t)))))))"

definition verify_root :: "runner_env \<Rightarrow> snapshot_evidence \<Rightarrow> offline_error + snapshot_evidence" where
  "verify_root E snapshot = mapError (\<lambda>e. OppRunner (RunnerFailure e)) (ru_verify_snapshot E [] (sn_root snapshot))"

text \<open>\<open>next(item for item in acceptances if item.id == i)\<close>\<close>

definition acceptance_at :: "acceptance_test list \<Rightarrow> pystr \<Rightarrow> offline_error + acceptance_test" where
  "acceptance_at acceptances i =
     (case List.find (\<lambda>a. at_id a = i) acceptances of None \<Rightarrow> Inl OppStopIteration | Some a \<Rightarrow> Inr a)"

definition check_red ::
    "runner_env \<Rightarrow> posix_path \<Rightarrow> acceptance_test list \<Rightarrow> snapshot_evidence \<Rightarrow> pystr \<times> red_snapshot
       \<Rightarrow> offline_error + (pystr \<times> (red_snapshot \<times> pystr))" where
  "check_red E artifact_root acceptances candidate entry =
     (let (acceptance_id, red) = entry in
      bindE (relative_snapshot E artifact_root (rs_snapshot red)) (\<lambda>reference.
      bindE (resolve_snapshot E artifact_root reference) (\<lambda>measured.
      bindE (opp (measured = rs_snapshot red \<and> rs_candidate_snapshot_sha256 red = sn_snapshot_sha256 candidate)
        ''RED snapshot binding changed before offline prepare'') (\<lambda>_.
      bindE (acceptance_at acceptances acceptance_id) (\<lambda>acceptance.
      bindE (opp (rs_phase red = u ''red'' \<and> rs_test_paths red = at_test_paths acceptance) ''RED snapshot test-path binding changed'') (\<lambda>_.
      bindE (relative_snapshot E artifact_root measured) (\<lambda>measured_ref.
      Inr (acceptance_id, (red, measured_ref)))))))))"

definition run_definitions :: "acceptance_test list \<Rightarrow> (string \<times> acceptance_test) list" where
  "run_definitions acceptances =
     (let tests = filter (\<lambda>a. at_kind a = KTest) acceptances in
      map (\<lambda>a. (''gate'', a)) acceptances @ map (\<lambda>a. (''red'', a)) tests @ map (\<lambda>a. (''green'', a)) tests)"

definition plan_run ::
    "hash_fn \<Rightarrow> pystr \<Rightarrow> pystr \<Rightarrow> snapshot_evidence \<Rightarrow> pystr \<Rightarrow> (pystr \<times> (red_snapshot \<times> pystr)) list
       \<Rightarrow> nat \<times> (string \<times> acceptance_test) \<Rightarrow> offline_error + prepared_run" where
  "plan_run sha workflow_id request_sha256 candidate candidate_ref red_values item =
     (let (ordinal, phase, acceptance) = item; command = at_command acceptance; red = map_of red_values (at_id acceptance);
          measured = sn_snapshot_sha256 candidate in
      bindE (opp (command \<noteq> [] \<and> [] \<notin> set command) ''TaskSpec acceptance command is invalid'') (\<lambda>_.
      bindE (if phase = ''gate'' then Inr (candidate_ref, measured, measured, None, None)
             else
               (case red of
                  None \<Rightarrow> Inl OppValueError
                | Some (r, reference) \<Rightarrow>
                    if phase = ''red''
                    then Inr (reference, sn_snapshot_sha256 (rs_snapshot r), rs_source_snapshot_sha256 r,
                           Some (rs_test_patch_sha256 r), Some (rs_test_manifest_sha256 r))
                    else Inr (candidate_ref, measured, measured, Some (rs_test_patch_sha256 r), Some (rs_test_manifest_sha256 r))))
        (\<lambda>(reference, execution, source, patch, manifest).
      bindE (session_id_of sha workflow_id request_sha256 (u phase) (at_id acceptance)) (\<lambda>session_id.
      Inr \<lparr>pn_ordinal = int ordinal, pn_phase = u phase, pn_acceptance_test_id = at_id acceptance, pn_snapshot_ref = reference,
           pn_execution_snapshot_sha256 = execution, pn_source_snapshot_sha256 = source, pn_candidate_snapshot_sha256 = measured,
           pn_test_patch_sha256 = patch, pn_test_manifest_sha256 = manifest, pn_command = command, pn_session_id = session_id\<rparr>))))"

record offline_inputs =
  oi_workflow_id :: pystr
  oi_request_sha256 :: pystr
  oi_task_sha256 :: pystr
  oi_candidate_sha256 :: pystr
  oi_candidate_snapshot :: snapshot_evidence
  oi_red_snapshots :: "(pystr \<times> red_snapshot) list"
  oi_artifact_root :: posix_path
  oi_image :: pystr
  oi_approved_image_digest :: pystr
  oi_timeout_seconds :: int
  oi_max_log_bytes :: int

definition prepare_offline_batch :: "runner_env \<Rightarrow> task_spec \<Rightarrow> offline_inputs \<Rightarrow> offline_error + prepared_batch" where
  "prepare_offline_batch E task i =
     (let acceptances = ts_acceptance_tests task; ids = map at_id acceptances; sha = ru_sha E in
      bindE (verify_root E (oi_candidate_snapshot i)) (\<lambda>candidate.
      bindE (opp (candidate = oi_candidate_snapshot i) ''candidate snapshot changed before offline prepare'') (\<lambda>_.
      bindE (relative_snapshot E (oi_artifact_root i) candidate) (\<lambda>candidate_ref.
      bindE (opp (acceptances \<noteq> [] \<and> length acceptances \<le> 100) ''TaskSpec has no bounded acceptance test set'') (\<lambda>_.
      bindE (opp (list_all is_upper_id ids \<and> distinct ids) ''TaskSpec acceptance ids are invalid'') (\<lambda>_.
      bindE (opp (set (map fst (oi_red_snapshots i)) = set (map at_id (filter (\<lambda>a. at_kind a = KTest) acceptances)))
        ''RED snapshots do not exactly cover test acceptances'') (\<lambda>_.
      bindE (mapE (check_red E (oi_artifact_root i) acceptances candidate) (oi_red_snapshots i)) (\<lambda>red_values.
      bindE (mapE (plan_run sha (oi_workflow_id i) (oi_request_sha256 i) candidate candidate_ref red_values)
               (enumerate 0 (run_definitions acceptances))) (\<lambda>runs.
      let batch = \<lparr>pb_schema_version = u ''1.0'', pb_workflow_id = oi_workflow_id i, pb_request_sha256 = oi_request_sha256 i,
            pb_task_sha256 = oi_task_sha256 i, pb_candidate_sha256 = oi_candidate_sha256 i,
            pb_candidate_snapshot_sha256 = sn_snapshot_sha256 candidate, pb_image = oi_image i,
            pb_approved_image_digest = oi_approved_image_digest i, pb_timeout_seconds = oi_timeout_seconds i,
            pb_max_log_bytes = oi_max_log_bytes i, pb_runs = runs, pb_batch_sha256 = []\<rparr> in
      bindE (offline_domain_sha256 sha PREPARED_BATCH_DOMAIN (batch_body batch)) (\<lambda>digest.
      bindE (batch_bytes (batch\<lparr>pb_batch_sha256 := digest\<rparr>)) (\<lambda>raw.
      parse_prepared_offline_batch sha raw)))))))))))"

section \<open>The evidence of a run\<close>

definition offline_evidence_dict :: "offline_run_evidence \<Rightarrow> json" where
  "offline_evidence_dict ev =
     JObj [(u ''argv'', JArr (map JStr (ev_argv ev))), (u ''argv_sha256'', JStr (ev_argv_sha256 ev)),
       (u ''cleanup_succeeded'', JBool (ev_cleanup_succeeded ev)), (u ''container_id'', JStr (ev_container_id ev)),
       (u ''duration_ms'', JInt (ev_duration_ms ev)), (u ''exit_code'', JInt (ev_exit_code ev)),
       (u ''failure_fingerprint_sha256'', JStr (ev_failure_fingerprint_sha256 ev)),
       (u ''log_base64'', JStr (b64encode (ev_log ev))), (u ''log_sha256'', JStr (ev_log_sha256 ev)),
       (u ''log_truncated'', JBool (ev_log_truncated ev)), (u ''request'', run_request_json (ev_request ev)),
       (u ''request_sha256'', JStr (ev_request_sha256 ev)), (u ''response_sha256'', JStr (ev_response_sha256 ev)),
       (u ''runner_image_digest'', JStr (ev_runner_image_digest ev)), (u ''runtime_name'', JStr (ev_runtime_name ev)),
       (u ''runtime_rootless'', JBool (ev_runtime_rootless ev)),
       (u ''runtime_seccomp_profile'', JStr (ev_runtime_seccomp_profile ev)),
       (u ''runtime_security_sha256'', JStr (ev_runtime_security_sha256 ev)), (u ''runtime_sha256'', JStr (ev_runtime_sha256 ev)),
       (u ''runtime_user_namespace'', JBool (ev_runtime_user_namespace ev)), (u ''snapshot_sha256'', JStr (ev_snapshot_sha256 ev)),
       (u ''started_unix_ns'', JInt (ev_started_unix_ns ev)), (u ''stderr_base64'', JStr (b64encode (ev_stderr ev))),
       (u ''stderr_bytes'', JInt (ev_stderr_bytes ev)), (u ''stderr_sha256'', JStr (ev_stderr_sha256 ev)),
       (u ''stdout_base64'', JStr (b64encode (ev_stdout ev))), (u ''stdout_bytes'', JInt (ev_stdout_bytes ev)),
       (u ''stdout_sha256'', JStr (ev_stdout_sha256 ev))]"

definition decoded_bytes :: "string \<Rightarrow> nat \<Rightarrow> json \<Rightarrow> offline_error + bytes" where
  "decoded_bytes label maximum v =
     (let invalid = OfflinePhaseProtocolError (label @ '' is invalid'') in
      case v of
        JStr s \<Rightarrow>
          (if \<not> ascii s \<or> max 4 (maximum * 2) < length s then Inl invalid
           else
             (case b64decode s of
                None \<Rightarrow> Inl (OfflinePhaseProtocolError (label @ '' is not canonical base64''))
              | Some raw \<Rightarrow>
                  if maximum < length raw \<or> b64encode raw \<noteq> s
                  then Inl (OfflinePhaseProtocolError (label @ '' is invalid or oversized'')) else Inr raw))
      | _ \<Rightarrow> Inl invalid)"

definition run_request_fields :: "string list" where
  "run_request_fields = [''acceptance_test_id'', ''candidate_sha256'', ''candidate_snapshot_sha256'', ''command'',
     ''execution_snapshot_sha256'', ''phase'', ''runner_image_digest'', ''session_id'', ''source_commit_sha'',
     ''source_commit_tree_sha'', ''source_snapshot_sha256'', ''task_sha256'', ''test_manifest_sha256'', ''test_patch_sha256'']"

definition request_from_dict :: "json \<Rightarrow> offline_error + run_request" where
  "request_from_dict v =
     bindE (offline_exact ''offline run request'' run_request_fields v) (\<lambda>d.
     bindE (read_string ''offline request phase'' 5 (fld d ''phase'')) (\<lambda>phase.
     bindE (read_string ''acceptance test id'' 64 (fld d ''acceptance_test_id'')) (\<lambda>acceptance_id.
     bindE (read_string ''offline session id'' 34 (fld d ''session_id'')) (\<lambda>session_id.
     bindE (read_string ''source commit SHA'' 64 (fld d ''source_commit_sha'')) (\<lambda>commit.
     bindE (read_string ''source tree SHA'' 64 (fld d ''source_commit_tree_sha'')) (\<lambda>tree.
     bindE (read_sha ''source snapshot SHA-256'' (fld d ''source_snapshot_sha256'')) (\<lambda>source.
     bindE (read_sha ''task SHA-256'' (fld d ''task_sha256'')) (\<lambda>task.
     bindE (read_sha ''candidate SHA-256'' (fld d ''candidate_sha256'')) (\<lambda>candidate.
     bindE (read_sha ''candidate snapshot SHA-256'' (fld d ''candidate_snapshot_sha256'')) (\<lambda>cand_snapshot.
     bindE (read_sha ''execution snapshot SHA-256'' (fld d ''execution_snapshot_sha256'')) (\<lambda>execution.
     bindE (read_optional_sha ''test patch SHA-256'' (fld d ''test_patch_sha256'')) (\<lambda>patch.
     bindE (read_optional_sha ''test manifest SHA-256'' (fld d ''test_manifest_sha256'')) (\<lambda>manifest.
     bindE (read_strings ''offline command'' 256 (fld d ''command'')) (\<lambda>command.
     bindE (read_string ''offline runner image digest'' 71 (fld d ''runner_image_digest'')) (\<lambda>digest.
     Inr \<lparr>rr_phase = phase, rr_acceptance_test_id = acceptance_id, rr_session_id = session_id, rr_source_commit_sha = commit,
          rr_source_commit_tree_sha = tree, rr_source_snapshot_sha256 = source, rr_task_sha256 = task,
          rr_candidate_sha256 = candidate, rr_candidate_snapshot_sha256 = cand_snapshot,
          rr_execution_snapshot_sha256 = execution, rr_test_patch_sha256 = patch, rr_test_manifest_sha256 = manifest,
          rr_command = command, rr_runner_image_digest = digest\<rparr>)))))))))))))))"

definition evidence_fields :: "string list" where
  "evidence_fields = [''argv'', ''argv_sha256'', ''cleanup_succeeded'', ''container_id'', ''duration_ms'', ''exit_code'',
     ''failure_fingerprint_sha256'', ''log_base64'', ''log_sha256'', ''log_truncated'', ''request'', ''request_sha256'',
     ''response_sha256'', ''runner_image_digest'', ''runtime_name'', ''runtime_rootless'', ''runtime_seccomp_profile'',
     ''runtime_security_sha256'', ''runtime_sha256'', ''runtime_user_namespace'', ''snapshot_sha256'', ''started_unix_ns'',
     ''stderr_base64'', ''stderr_bytes'', ''stderr_sha256'', ''stdout_base64'', ''stdout_bytes'', ''stdout_sha256'']"

definition offline_evidence_from_dict :: "json \<Rightarrow> offline_error + offline_run_evidence" where
  "offline_evidence_from_dict v =
     bindE (offline_exact ''offline execution evidence'' evidence_fields v) (\<lambda>d.
     bindE (decoded_bytes ''offline stdout'' 1000000 (fld d ''stdout_base64'')) (\<lambda>stdout.
     bindE (decoded_bytes ''offline stderr'' 1000000 (fld d ''stderr_base64'')) (\<lambda>stderr.
     bindE (decoded_bytes ''offline log'' 2000032 (fld d ''log_base64'')) (\<lambda>out_log.
     bindE (request_from_dict (fld d ''request'')) (\<lambda>request.
     bindE (read_sha ''offline request SHA-256'' (fld d ''request_sha256'')) (\<lambda>request_sha256.
     bindE (read_string ''offline runtime name'' 16 (fld d ''runtime_name'')) (\<lambda>runtime_name.
     bindE (read_sha ''offline runtime SHA-256'' (fld d ''runtime_sha256'')) (\<lambda>runtime_sha256.
     bindE (read_sha ''runtime security SHA-256'' (fld d ''runtime_security_sha256'')) (\<lambda>security.
     bindE (read_bool ''runtime rootless'' (fld d ''runtime_rootless'')) (\<lambda>rootless.
     bindE (read_bool ''runtime user namespace'' (fld d ''runtime_user_namespace'')) (\<lambda>user_namespace.
     bindE (read_string ''runtime seccomp profile'' 4096 (fld d ''runtime_seccomp_profile'')) (\<lambda>profile.
     bindE (read_string ''runner image digest'' 71 (fld d ''runner_image_digest'')) (\<lambda>img.
     bindE (read_sha ''snapshot SHA-256'' (fld d ''snapshot_sha256'')) (\<lambda>snapshot.
     bindE (read_strings ''offline argv'' 320 (fld d ''argv'')) (\<lambda>argv.
     bindE (read_sha ''offline argv SHA-256'' (fld d ''argv_sha256'')) (\<lambda>argv_sha256.
     bindE (read_string ''container id'' 64 (fld d ''container_id'')) (\<lambda>container_id.
     bindE (read_int ''offline exit code'' (- 255) 255 (fld d ''exit_code'')) (\<lambda>exit_code.
     bindE (read_sha ''stdout SHA-256'' (fld d ''stdout_sha256'')) (\<lambda>stdout_sha256.
     bindE (read_sha ''stderr SHA-256'' (fld d ''stderr_sha256'')) (\<lambda>stderr_sha256.
     bindE (read_sha ''log SHA-256'' (fld d ''log_sha256'')) (\<lambda>log_sha256.
     bindE (read_bool ''log truncation'' (fld d ''log_truncated'')) (\<lambda>truncated.
     bindE (read_int ''stdout bytes'' 0 1000000 (fld d ''stdout_bytes'')) (\<lambda>stdout_bytes.
     bindE (read_int ''stderr bytes'' 0 1000000 (fld d ''stderr_bytes'')) (\<lambda>stderr_bytes.
     bindE (read_int ''offline start time'' 1 9223372036854775807 (fld d ''started_unix_ns'')) (\<lambda>started.
     bindE (read_int ''offline duration'' 0 3600000 (fld d ''duration_ms'')) (\<lambda>duration.
     bindE (read_bool ''cleanup evidence'' (fld d ''cleanup_succeeded'')) (\<lambda>cleanup.
     bindE (read_sha ''failure fingerprint SHA-256'' (fld d ''failure_fingerprint_sha256'')) (\<lambda>failure.
     bindE (read_sha ''response SHA-256'' (fld d ''response_sha256'')) (\<lambda>response.
     Inr \<lparr>ev_request = request, ev_request_sha256 = request_sha256, ev_runtime_name = runtime_name,
          ev_runtime_sha256 = runtime_sha256, ev_runtime_security_sha256 = security, ev_runtime_rootless = rootless,
          ev_runtime_user_namespace = user_namespace, ev_runtime_seccomp_profile = profile, ev_runner_image_digest = img,
          ev_snapshot_sha256 = snapshot, ev_argv = argv, ev_argv_sha256 = argv_sha256, ev_container_id = container_id,
          ev_exit_code = exit_code, ev_stdout = stdout, ev_stderr = stderr, ev_stdout_sha256 = stdout_sha256,
          ev_stderr_sha256 = stderr_sha256, ev_log = out_log, ev_log_sha256 = log_sha256, ev_log_truncated = truncated,
          ev_stdout_bytes = stdout_bytes, ev_stderr_bytes = stderr_bytes, ev_started_unix_ns = started,
          ev_duration_ms = duration, ev_cleanup_succeeded = cleanup, ev_failure_fingerprint_sha256 = failure,
          ev_response_sha256 = response\<rparr>)))))))))))))))))))))))))))))"

definition canonical_offline_run_evidence_bytes :: "offline_run_evidence \<Rightarrow> offline_error + bytes" where
  "canonical_offline_run_evidence_bytes ev =
     bindE (offline_canonical (offline_evidence_dict ev)) (\<lambda>raw.
     bindE (offline_strict ''offline run'' 2100000 raw) (\<lambda>v.
     bindE (offline_evidence_from_dict v) (\<lambda>parsed.
     bindE (opp (parsed = ev) ''offline run evidence object is invalid'') (\<lambda>_. Inr raw))))"

section \<open>The evidence of a batch\<close>

record outer_batch =
  ob_schema_version :: pystr
  ob_prepared_batch_sha256 :: pystr
  ob_runs :: "offline_run_evidence list"
  ob_evidence_sha256 :: pystr

definition outer_pairs :: "outer_batch \<Rightarrow> pydict" where
  "outer_pairs b =
     [(u ''prepared_batch_sha256'', JStr (ob_prepared_batch_sha256 b)),
      (u ''runs'', JArr (map offline_evidence_dict (ob_runs b))), (u ''schema_version'', JStr (ob_schema_version b))]"

definition outer_bytes :: "outer_batch \<Rightarrow> offline_error + bytes" where
  "outer_bytes b = offline_canonical (JObj (outer_pairs b @ [(u ''evidence_sha256'', JStr (ob_evidence_sha256 b))]))"

definition outer_fields :: "string list" where
  "outer_fields = [''evidence_sha256'', ''prepared_batch_sha256'', ''runs'', ''schema_version'']"

definition parse_outer_offline_evidence :: "hash_fn \<Rightarrow> bytes \<Rightarrow> offline_error + outer_batch" where
  "parse_outer_offline_evidence sha raw =
     bindE (offline_strict ''outer offline evidence'' 6000000 raw) (\<lambda>v.
     bindE (offline_exact ''outer offline evidence'' outer_fields v) (\<lambda>d.
     bindE (opp (fld d ''schema_version'' = JStr (u ''1.0'')) ''outer offline evidence schema version is invalid'') (\<lambda>_.
     bindE (read_runs ''outer offline evidence run count is invalid'' offline_evidence_from_dict (fld d ''runs'')) (\<lambda>runs.
     bindE (read_sha ''prepared batch SHA-256'' (fld d ''prepared_batch_sha256'')) (\<lambda>prepared.
     bindE (read_sha ''outer evidence SHA-256'' (fld d ''evidence_sha256'')) (\<lambda>digest.
     let batch = \<lparr>ob_schema_version = u ''1.0'', ob_prepared_batch_sha256 = prepared, ob_runs = runs, ob_evidence_sha256 = digest\<rparr> in
     bindE (offline_domain_sha256 sha OUTER_EVIDENCE_DOMAIN (JObj (outer_pairs batch))) (\<lambda>measured.
     bindE (opp (measured = digest) ''outer offline evidence digest is invalid'') (\<lambda>_.
     Inr batch))))))))"

definition create_outer_offline_evidence :: "hash_fn \<Rightarrow> prepared_batch \<Rightarrow> offline_run_evidence list \<Rightarrow> offline_error + outer_batch" where
  "create_outer_offline_evidence sha prepared runs =
     (let batch = \<lparr>ob_schema_version = u ''1.0'', ob_prepared_batch_sha256 = pb_batch_sha256 prepared, ob_runs = runs,
           ob_evidence_sha256 = []\<rparr> in
      bindE (offline_domain_sha256 sha OUTER_EVIDENCE_DOMAIN (JObj (outer_pairs batch))) (\<lambda>digest.
      bindE (outer_bytes (batch\<lparr>ob_evidence_sha256 := digest\<rparr>)) (\<lambda>raw.
      parse_outer_offline_evidence sha raw)))"

definition canonical_outer_offline_evidence_bytes :: "hash_fn \<Rightarrow> outer_batch \<Rightarrow> offline_error + bytes" where
  "canonical_outer_offline_evidence_bytes sha b =
     bindE (outer_bytes b) (\<lambda>raw.
     bindE (parse_outer_offline_evidence sha raw) (\<lambda>parsed.
     bindE (opp (parsed = b) ''outer offline evidence object is invalid'') (\<lambda>_. Inr raw)))"

section \<open>Finalising a batch\<close>

definition run_matches_plan :: "offline_run_evidence \<Rightarrow> prepared_run \<Rightarrow> bool" where
  "run_matches_plan ev run \<longleftrightarrow>
     (let r = ev_request ev in
      rr_phase r = pn_phase run \<and> rr_acceptance_test_id r = pn_acceptance_test_id run \<and> rr_session_id r = pn_session_id run
      \<and> rr_source_snapshot_sha256 r = pn_source_snapshot_sha256 run
      \<and> rr_candidate_snapshot_sha256 r = pn_candidate_snapshot_sha256 run
      \<and> rr_execution_snapshot_sha256 r = pn_execution_snapshot_sha256 run
      \<and> rr_test_patch_sha256 r = pn_test_patch_sha256 run \<and> rr_test_manifest_sha256 r = pn_test_manifest_sha256 run
      \<and> rr_command r = pn_command run)"

definition finalize_run ::
    "runner_env \<Rightarrow> prepared_batch \<Rightarrow> posix_path \<Rightarrow> prepared_run \<times> offline_run_evidence \<Rightarrow> offline_error + offline_run_evidence" where
  "finalize_run E prepared artifact_root item =
     (let (run, ev) = item in
      bindE (opp (run_matches_plan ev run) ''offline raw evidence differs from its prepared run'') (\<lambda>_.
      bindE (resolve_snapshot E artifact_root (pn_snapshot_ref run)) (\<lambda>snapshot.
      bindE (opp (sn_snapshot_sha256 snapshot = pn_execution_snapshot_sha256 run) ''prepared execution snapshot digest changed'') (\<lambda>_.
      bindE (mapError (\<lambda>e. case e of OfflineRunnerError _ \<Rightarrow> OfflinePhaseProtocolError ''offline evidence failed coordinator validation''
                                 | ContainerUnavailableError _ \<Rightarrow> OfflinePhaseProtocolError ''offline evidence failed coordinator validation''
                                 | other \<Rightarrow> OppRunner other)
               (fst (validate_offline_run_evidence E ev snapshot (pb_image prepared) (pb_approved_image_digest prepared) None []))) (\<lambda>measured.
      bindE (opp (rr_task_sha256 (ev_request measured) = pb_task_sha256 prepared
          \<and> rr_candidate_sha256 (ev_request measured) = pb_candidate_sha256 prepared)
        ''offline evidence changed task or candidate binding'') (\<lambda>_.
      Inr measured))))))"

definition finalize_offline_batch ::
    "runner_env \<Rightarrow> bytes \<Rightarrow> bytes \<Rightarrow> posix_path \<Rightarrow> offline_error + offline_run_evidence list" where
  "finalize_offline_batch E prepared_raw outer_raw artifact_root =
     bindE (parse_prepared_offline_batch (ru_sha E) prepared_raw) (\<lambda>prepared.
     bindE (parse_outer_offline_evidence (ru_sha E) outer_raw) (\<lambda>outer.
     bindE (opp (ob_prepared_batch_sha256 outer = pb_batch_sha256 prepared) ''outer evidence belongs to another prepared batch'') (\<lambda>_.
     bindE (opp (length (ob_runs outer) = length (pb_runs prepared)) ''outer evidence does not exactly cover the prepared batch'') (\<lambda>_.
     mapE (finalize_run E prepared artifact_root) (zip (pb_runs prepared) (ob_runs outer))))))"

end
