(* ===== verification/Offline_Run_Facts.thy ===== *)
theory Offline_Run_Facts
  imports Offline_Protocol
begin

text \<open>
  Runs of the candidate: what validated evidence says, that a finalised batch is the plan with
  evidence for every run, that a container is removed whatever happens, and which limits the hand-off
  really has.
\<close>

section \<open>Validated evidence\<close>

lemma demand_Inr [result_simps]: "demand b m = Inr x \<longleftrightarrow> b"
  by (simp add: demand_def result_simps)

lemmas effect_simps = bindS_Inr liftS_Inr

text \<open>
  The digests of the evidence are those of its raw streams, its log shows them, and its arguments
  are the isolated ones for an isolating runtime.
\<close>

definition measured_run :: "runner_env \<Rightarrow> pystr \<Rightarrow> offline_run_evidence \<Rightarrow> bool" where
  "measured_run E img ev \<longleftrightarrow>
     (let sha = ru_sha E; out = ev_stdout ev; err = ev_stderr ev; r = ev_request ev in
      ev_stdout_sha256 ev = sha out \<and> ev_stderr_sha256 ev = sha err \<and> ev_log ev = presentation out err
      \<and> offline_log_sha256 sha out err = Inr (ev_log_sha256 ev)
      \<and> failure_fingerprint_sha256 sha (ev_exit_code ev) out err = Inr (ev_failure_fingerprint_sha256 ev)
      \<and> request_digest sha r = Inr (ev_request_sha256 ev) \<and> argv_digest sha (ev_argv ev) = Inr (ev_argv_sha256 ev)
      \<and> ev_cleanup_succeeded ev
      \<and> (\<exists>b source cidfile. (cb_rootless b \<or> cb_user_namespace b) \<and> \<not> unconfined E (cb_seccomp_profile b)
           \<and> ev_argv ev = compose_offline_container_argv b source img (rr_command r) (Some (rr_session_id r, cidfile))))"

lemma validate_backend_isolates:
  "validate_backend E b l = (Inr b', l') \<Longrightarrow>
     (cb_rootless b' \<or> cb_user_namespace b') \<and> \<not> unconfined E (cb_seccomp_profile b') \<and> l' = l"
  by (auto simp: validate_backend_def result_simps)

lemma outer_backend_isolates:
  "outer_backend E b = Inr b' \<Longrightarrow> (cb_rootless b' \<or> cb_user_namespace b') \<and> \<not> unconfined E (cb_seccomp_profile b')"
  by (auto simp: outer_backend_def result_simps)

lemma validated_parts:
  assumes "validate_offline_run_evidence E ev snapshot img approved expected l = (Inr ev', l')"
  obtains source b cidfile where "ev' = ev" "request_checks (ru_sha E) ev snapshot approved = Inr ()" "validate_image img approved = Inr ()"
    "snapshot_mount_source_from_argv (ev_argv ev) = Inr source"
    "(if source = sn_tree snapshot \<or> expected \<noteq> None then validate_backend E (reported_backend ev)
      else liftS (outer_backend E (reported_backend ev))) l = (Inr b, l)"
    "control_values_from_argv E l (ev_argv ev) (rr_session_id (ev_request ev))
       (if source = sn_tree snapshot then Some (parent_of (sn_root snapshot)) else None) = Inr cidfile"
    "ev_argv ev = compose_offline_container_argv b source img (rr_command (ev_request ev)) (Some (rr_session_id (ev_request ev), cidfile))"
    "argv_digest (ru_sha E) (ev_argv ev) = Inr (ev_argv_sha256 ev)" "measured_streams (ru_sha E) ev = Inr ()"
proof -
  from assms obtain source b cidfile lb where v: "ev' = ev" "request_checks (ru_sha E) ev snapshot approved = Inr ()"
      "validate_image img approved = Inr ()" "snapshot_mount_source_from_argv (ev_argv ev) = Inr source"
      "(if source = sn_tree snapshot \<or> expected \<noteq> None then validate_backend E (reported_backend ev)
        else liftS (outer_backend E (reported_backend ev))) l = (Inr b, lb)"
      "control_values_from_argv E lb (ev_argv ev) (rr_session_id (ev_request ev))
         (if source = sn_tree snapshot then Some (parent_of (sn_root snapshot)) else None) = Inr cidfile"
      "ev_argv ev = compose_offline_container_argv b source img (rr_command (ev_request ev)) (Some (rr_session_id (ev_request ev), cidfile))"
      "argv_digest (ru_sha E) (ev_argv ev) = Inr (ev_argv_sha256 ev)" "measured_streams (ru_sha E) ev = Inr ()"
    unfolding validate_offline_run_evidence_def Let_def verified_snapshot_def
    by (clarsimp simp: effect_simps result_simps simp del: split_paired_Ex)
  moreover have "lb = l"
    using v(5) by (auto simp: effect_simps split: if_splits dest: validate_backend_isolates)
  ultimately show thesis using that by blast
qed

lemma validated_run:
  assumes "validate_offline_run_evidence E ev snapshot img approved expected l = (Inr ev', l')"
  shows "ev' = ev" and "measured_run E img ev"
    and "rr_execution_snapshot_sha256 (ev_request ev) = sn_snapshot_sha256 snapshot"
    and "rr_source_commit_sha (ev_request ev) = sn_commit_sha snapshot" and "image_digest img = Some approved"
proof -
  from assms obtain source b cidfile where v: "ev' = ev" "request_checks (ru_sha E) ev snapshot approved = Inr ()"
      "validate_image img approved = Inr ()"
      "(if source = sn_tree snapshot \<or> expected \<noteq> None then validate_backend E (reported_backend ev)
        else liftS (outer_backend E (reported_backend ev))) l = (Inr b, l)"
      "ev_argv ev = compose_offline_container_argv b source img (rr_command (ev_request ev)) (Some (rr_session_id (ev_request ev), cidfile))"
      "argv_digest (ru_sha E) (ev_argv ev) = Inr (ev_argv_sha256 ev)" "measured_streams (ru_sha E) ev = Inr ()"
    by (rule validated_parts)
  then have b: "(cb_rootless b \<or> cb_user_namespace b) \<and> \<not> unconfined E (cb_seccomp_profile b)"
    by (auto simp: effect_simps split: if_splits dest: validate_backend_isolates outer_backend_isolates)
  show "ev' = ev" by fact
  show "measured_run E img ev"
    using v b unfolding measured_run_def
    by (auto simp: measured_streams_def request_checks_def result_simps Let_def)
  show "rr_execution_snapshot_sha256 (ev_request ev) = sn_snapshot_sha256 snapshot"
    "rr_source_commit_sha (ev_request ev) = sn_commit_sha snapshot"
    using v by (auto simp: request_checks_def result_simps Let_def)
  show "image_digest img = Some approved"
    using v by (auto simp: validate_image_def result_simps split: option.splits)
qed

lemma finalize_run_Inr:
  assumes "finalize_run E plan artifact_root (run, ev) = Inr ev'"
  shows "ev' = ev \<and> run_matches_plan ev run \<and> measured_run E (pb_image plan) ev
     \<and> rr_task_sha256 (ev_request ev) = pb_task_sha256 plan \<and> rr_candidate_sha256 (ev_request ev) = pb_candidate_sha256 plan"
proof -
  from assms obtain snapshot l where
      "validate_offline_run_evidence E ev snapshot (pb_image plan) (pb_approved_image_digest plan) None [] = (Inr ev', l)"
      "run_matches_plan ev run" "rr_task_sha256 (ev_request ev') = pb_task_sha256 plan"
      "rr_candidate_sha256 (ev_request ev') = pb_candidate_sha256 plan"
    by (auto simp: finalize_run_def opp_def result_simps) (metis prod.collapse)
  with validated_run(1,2) show ?thesis by blast
qed

text \<open>
  C27. A finalised batch is the plan carried out. When finalising succeeds, the two documents belong
  together; the result is the evidence of every planned run in the order of the plan; each run has
  the bindings and the command of its plan, the task and the candidate of the batch, and digests
  that are those of its raw streams; and its arguments are the isolated container for that command
  under the pinned image.
\<close>

theorem finalized_batch_is_the_plan:
  "case finalize_offline_batch E prepared_raw outer_raw artifact_root of
     Inl _ \<Rightarrow> True
   | Inr runs \<Rightarrow> \<exists>plan outer. parse_prepared_offline_batch (ru_sha E) prepared_raw = Inr plan
       \<and> parse_outer_offline_evidence (ru_sha E) outer_raw = Inr outer
       \<and> ob_prepared_batch_sha256 outer = pb_batch_sha256 plan \<and> runs = ob_runs outer
       \<and> image_digest (pb_image plan) = Some (pb_approved_image_digest plan)
       \<and> list_all2 (\<lambda>run ev. run_matches_plan ev run \<and> measured_run E (pb_image plan) ev
            \<and> rr_task_sha256 (ev_request ev) = pb_task_sha256 plan
            \<and> rr_candidate_sha256 (ev_request ev) = pb_candidate_sha256 plan) (pb_runs plan) runs"
proof (cases "finalize_offline_batch E prepared_raw outer_raw artifact_root")
  case (Inr runs)
  then obtain plan outer where p: "parse_prepared_offline_batch (ru_sha E) prepared_raw = Inr plan"
      "parse_outer_offline_evidence (ru_sha E) outer_raw = Inr outer"
      "ob_prepared_batch_sha256 outer = pb_batch_sha256 plan" "length (ob_runs outer) = length (pb_runs plan)"
      "mapE (finalize_run E plan artifact_root) (zip (pb_runs plan) (ob_runs outer)) = Inr runs"
    by (auto simp: finalize_offline_batch_def opp_def result_simps)
  from p(5) have "list_all2 (\<lambda>x ev'. finalize_run E plan artifact_root x = Inr ev') (zip (pb_runs plan) (ob_runs outer)) runs"
    by (simp add: mapE_eq_Inr)
  then have all: "list_all2 (\<lambda>x ev'. ev' = snd x \<and> run_matches_plan (snd x) (fst x) \<and> measured_run E (pb_image plan) (snd x)
      \<and> rr_task_sha256 (ev_request (snd x)) = pb_task_sha256 plan
      \<and> rr_candidate_sha256 (ev_request (snd x)) = pb_candidate_sha256 plan) (zip (pb_runs plan) (ob_runs outer)) runs"
    by (rule list.rel_mono_strong) (use finalize_run_Inr in \<open>metis prod.collapse\<close>)
  then have "runs = map snd (zip (pb_runs plan) (ob_runs outer))"
    by (induction rule: list_all2_induct) auto
  then have runs: "runs = ob_runs outer" using p(4) by simp
  have "image_digest (pb_image plan) = Some (pb_approved_image_digest plan)"
    using p(1) by (auto simp: parse_prepared_offline_batch_def opp_def result_simps Let_def)
  with p runs all Inr show ?thesis
    by (auto intro!: exI [of _ plan] exI [of _ outer] simp: list_all2_conv_all_nth)
qed simp

section \<open>Containers and directories are removed\<close>

definition deeds :: "run_event list \<Rightarrow> run_event list" where
  "deeds l = filter (\<lambda>e. e \<noteq> ProbedRuntime) l"

lemma deeds_simps [simp]:
  "deeds [] = []" "deeds (l @ l') = deeds l @ deeds l'" "deeds [ProbedRuntime] = []"
  "e \<noteq> ProbedRuntime \<Longrightarrow> deeds [e] = [e]"
  by (simp_all add: deeds_def)

text \<open>A computation that at most asks the runtime about itself.\<close>

definition only_probes :: "'a run_io \<Rightarrow> bool" where
  "only_probes m \<longleftrightarrow> (\<forall>l. deeds (snd (m l)) = deeds l)"

lemma only_probesD: "only_probes m \<Longrightarrow> m l = (r, l') \<Longrightarrow> deeds l' = deeds l"
  unfolding only_probes_def by (metis snd_conv)

lemma only_probes_bind: "only_probes m \<Longrightarrow> (\<And>x. only_probes (f x)) \<Longrightarrow> only_probes (bindS m f)"
  by (auto simp: only_probes_def bindS_def split: prod.splits sum.splits) (metis snd_conv)+

lemma only_probes_catch:
  "only_probes m \<Longrightarrow> (\<And>x. only_probes (f x)) \<Longrightarrow> (\<And>e. only_probes (h e)) \<Longrightarrow> only_probes (catch_runner m f h)"
  by (auto simp: only_probes_def catch_runner_def split: prod.splits sum.splits runner_error.splits) (metis snd_conv)+

lemma only_probes_basic [simp]:
  "only_probes (liftS r)" "only_probes (verified_snapshot E p)" "only_probes (validate_backend E b)"
  "only_probes (probe_backend E name)" "only_probes (\<lambda>l. (g l, l))"
  by (simp_all add: only_probes_def liftS_def verified_snapshot_def validate_backend_def probe_backend_def Let_def)

lemma only_probes_detect: "only_probes (detect_container_backend E)"
proof -
  have "only_probes (detect_from E failures names)" for failures names
    by (induction names arbitrary: failures)
      (auto intro!: only_probes_catch only_probes_bind split: option.split sum.split prod.split)
  then show ?thesis by (simp add: detect_container_backend_def)
qed

lemma only_probes_build: "only_probes (build_offline_container_argv E b s img approved command control)"
  unfolding build_offline_container_argv_def
  by (intro only_probes_bind) (auto intro!: only_probes_bind split: option.split prod.split)

text \<open>Whatever happens, the deeds of a computation and its result satisfy \<open>P\<close>.\<close>

definition ends :: "(run_event list \<Rightarrow> runner_error + 'a \<Rightarrow> bool) \<Rightarrow> 'a run_io \<Rightarrow> bool" where
  "ends P m \<longleftrightarrow> (\<forall>l r l'. m l = (r, l') \<longrightarrow> (\<exists>es. deeds l' = deeds l @ es \<and> P es r))"

lemma endsD: "ends P m \<Longrightarrow> m l = (r, l') \<Longrightarrow> \<exists>es. deeds l' = deeds l @ es \<and> P es r"
  by (simp add: ends_def)

lemma ends_after:
  assumes "only_probes m" and "\<And>x. ends P (f x)" and "\<And>e. P [] (Inl e)"
  shows "ends P (bindS m f)"
  unfolding ends_def
proof (intro allI impI)
  fix l r l'
  assume run: "bindS m f l = (r, l')"
  obtain x l1 where m: "m l = (x, l1)" by fastforce
  have d: "deeds l1 = deeds l" by (rule only_probesD [OF assms(1) m])
  show "\<exists>es. deeds l' = deeds l @ es \<and> P es r"
  proof (cases x)
    case (Inl e)
    with run m assms(3) d show ?thesis by (auto simp: bindS_def)
  next
    case (Inr y)
    with run m have "f y l1 = (r, l')" by (simp add: bindS_def)
    with endsD [OF assms(2)] d show ?thesis by fastforce
  qed
qed

definition tidy :: "run_event list \<Rightarrow> runner_error + offline_run_evidence \<Rightarrow> bool" where
  "tidy es r \<longleftrightarrow>
     (case r of
        Inl _ \<Rightarrow> es = [] \<or> es = [MadeControlDirectory, RemovedControlDirectory]
          \<or> (\<exists>argv. es = [MadeControlDirectory, Started argv, CleanedContainer, RemovedControlDirectory])
      | Inr ev \<Rightarrow> es = [MadeControlDirectory, Started (ev_argv ev), CleanedContainer, RemovedControlDirectory])"

lemma attest_result_probes: "only_probes (attest_result E backend request argv started outcome)"
  unfolding attest_result_def Let_def by (auto intro!: only_probes_bind split: prod.split)

lemma attest_result_argv: "attest_result E backend request argv started outcome l = (Inr ev, l') \<Longrightarrow> ev_argv ev = argv"
  by (auto simp: attest_result_def evidence_of_def effect_simps result_simps Let_def split: prod.splits)

lemma run_container_deeds:
  "run_container E n argv cidfile l = (r, l') \<Longrightarrow>
     deeds l' = deeds l @ [Started argv, CleanedContainer, RemovedControlDirectory]"
  by (auto simp: run_container_def Let_def) (simp add: deeds_def)

lemma controlled_run_tidy:
  assumes "controlled_run E a backend snapshot request control_root l = (r, l')"
  shows "\<exists>es. deeds l' = deeds l @ es \<and> tidy (MadeControlDirectory # es) r"
proof -
  define build where "build = build_offline_container_argv E backend snapshot (oa_image a) (oa_approved_image_digest a)
     (rr_command request) (Some (oa_session_id a, control_root @ [u ''container.cid'']))"
  obtain x l1 where b: "build l = (x, l1)" by fastforce
  have d1: "deeds l1 = deeds l"
    using only_probesD [OF only_probes_build b [unfolded build_def]] .
  show ?thesis
  proof (cases x)
    case (Inl e)
    with assms b have "r = Inl e" "l' = l1 @ [RemovedControlDirectory]"
      by (auto simp: controlled_run_def Let_def bindS_def or_remove_directory_def build_def)
    with d1 show ?thesis by (simp add: tidy_def)
  next
    case (Inr argv)
    obtain y l2 where c: "run_container E (nat (oa_max_log_bytes a)) argv (control_root @ [u ''container.cid'']) l1 = (y, l2)" by fastforce
    have d2: "deeds l2 = deeds l @ [Started argv, CleanedContainer, RemovedControlDirectory]"
      using run_container_deeds [OF c] d1 by simp
    show ?thesis
    proof (cases y)
      case (Inl e)
      with assms b Inr c have "r = Inl e" "l' = l2"
        by (auto simp: controlled_run_def Let_def bindS_def or_remove_directory_def build_def)
      with d2 show ?thesis by (simp add: tidy_def)
    next
      case (Inr outcome)
      with assms b \<open>x = Inr argv\<close> c have last: "attest_result E backend request argv (ru_time_ns E l1) outcome l2 = (r, l')"
        by (auto simp: controlled_run_def Let_def bindS_def or_remove_directory_def build_def)
      have "deeds l' = deeds l2" by (rule only_probesD [OF attest_result_probes last])
      with d2 last attest_result_argv show ?thesis by (cases r) (auto simp: tidy_def)
    qed
  qed
qed

lemma execution_tidy: "ends tidy (execute_offline E a)"
proof -
  have failed: "tidy [] (Inl e)" for e by (simp add: tidy_def)
  have core: "ends tidy (bindS (make_control_directory E snapshot) (controlled_run E a backend snapshot request))"
    for snapshot backend request
    unfolding ends_def
  proof (intro allI impI)
    fix l r l'
    assume run: "bindS (make_control_directory E snapshot) (controlled_run E a backend snapshot request) l = (r, l')"
    show "\<exists>es. deeds l' = deeds l @ es \<and> tidy es r"
    proof (cases "ru_control_name E l")
      case (Inl e)
      with run failed show ?thesis by (auto simp: bindS_def make_control_directory_def)
    next
      case (Inr name)
      with run obtain d where "controlled_run E a backend snapshot request d (l @ [MadeControlDirectory]) = (r, l')"
        by (auto simp: bindS_def make_control_directory_def)
      from controlled_run_tidy [OF this] show ?thesis by auto
    qed
  qed
  show ?thesis
    unfolding execute_offline_def
    by ((rule core | rule ends_after | rule only_probes_detect | rule only_probes_basic | rule failed)+)
qed


section \<open>Arguments that look like the runner's own\<close>

lemma length_mount_values: "length (mount_values argv) = length (filter (\<lambda>a. a = u ''--mount'') argv)"
  by (induction argv) auto

lemma composed_arguments:
  obtains options where
    "compose_offline_container_argv b source img command (Some (name, cidfile)) = options @ command"
    and "u ''--name='' @ name \<in> set options" and "u ''--cidfile='' @ path_text cidfile \<in> set options" and "u ''--mount'' \<in> set options"
proof
  show "compose_offline_container_argv b source img command (Some (name, cidfile)) =
      ([path_text (cb_executable b), u ''run'', u ''--pull=never''] @ control_arguments (Some (name, cidfile)) @ ISOLATION_ARGUMENTS
       @ user_namespace_argv b @ LIMIT_ARGUMENTS @ [u ''--mount'', MOUNT_PREFIX @ path_text source @ MOUNT_SUFFIX, img]) @ command"
    by (simp only: compose_offline_container_argv_def append_assoc append.simps)
qed (simp_all add: control_arguments_def)

lemma found_before:
  assumes "length (filter P (options @ command)) = 1" and "y \<in> set options" and "P y"
  shows "filter P command = []"
proof -
  from assms(2,3) have "filter P options \<noteq> []" by (auto simp: filter_empty_conv)
  with assms(1) show ?thesis by (cases "filter P options") auto
qed

lemma length_with_prefix: "length (with_prefix p argv) = length (filter (starts_with p) argv)"
  by (simp add: with_prefix_def)

lemma starts_with_append: "starts_with p (p @ s)"
  by (simp add: starts_with_def)

text \<open>
  Which commands can be attested. A run is accepted only when its command holds no argument that
  looks like one of the runner's own: the validation looks for \<open>--mount\<close>, \<open>--name=\<close> and
  \<open>--cidfile=\<close> in all arguments, the command of the acceptance test included, although the
  command is executed with them.
\<close>

theorem attested_commands_hold_no_runner_option:
  "case fst (validate_offline_run_evidence E ev snapshot img approved expected l) of
     Inl _ \<Rightarrow> True
   | Inr ev' \<Rightarrow> u ''--mount'' \<notin> set (rr_command (ev_request ev'))
       \<and> filter (starts_with (u ''--name='')) (rr_command (ev_request ev')) = []
       \<and> filter (starts_with (u ''--cidfile='')) (rr_command (ev_request ev')) = []"
proof (cases "fst (validate_offline_run_evidence E ev snapshot img approved expected l)")
  case (Inr ev')
  then have v: "validate_offline_run_evidence E ev snapshot img approved expected l
      = (Inr ev', snd (validate_offline_run_evidence E ev snapshot img approved expected l))" by (simp add: prod_eq_iff)
  obtain source b cidfile p where m: "snapshot_mount_source_from_argv (ev_argv ev) = Inr source"
      "control_values_from_argv E l (ev_argv ev) (rr_session_id (ev_request ev)) p = Inr cidfile"
      "ev_argv ev = compose_offline_container_argv b source img (rr_command (ev_request ev)) (Some (rr_session_id (ev_request ev), cidfile))"
    by (rule validated_parts [OF v])
  obtain options where argv: "ev_argv ev = options @ rr_command (ev_request ev)"
      and o: "u ''--name='' @ rr_session_id (ev_request ev) \<in> set options" "u ''--cidfile='' @ path_text cidfile \<in> set options"
        "u ''--mount'' \<in> set options"
    by (rule composed_arguments [of b source img "rr_command (ev_request ev)" "rr_session_id (ev_request ev)" cidfile])
      (simp only: m(3))
  have "length (mount_values (ev_argv ev)) = 1"
    using m(1) by (auto simp: snapshot_mount_source_from_argv_def split: list.splits option.splits)
  then have mount: "length (filter (\<lambda>a. a = u ''--mount'') (ev_argv ev)) = 1" by (simp add: length_mount_values)
  have "with_prefix (u ''--name='') (ev_argv ev) = [rr_session_id (ev_request ev)]" "length (with_prefix (u ''--cidfile='') (ev_argv ev)) = 1"
    using m(2) by (auto simp: control_values_from_argv_def result_simps Let_def demand_def)
  then have names: "length (filter (starts_with (u ''--name='')) (ev_argv ev)) = 1"
      and cids: "length (filter (starts_with (u ''--cidfile='')) (ev_argv ev)) = 1"
    using length_with_prefix [of "u ''--name=''" "ev_argv ev"] length_with_prefix [of "u ''--cidfile=''" "ev_argv ev"] by simp_all
  have "filter (starts_with (u ''--name='')) (rr_command (ev_request ev)) = []"
    by (rule found_before [OF names [unfolded argv] o(1) starts_with_append])
  moreover have "filter (starts_with (u ''--cidfile='')) (rr_command (ev_request ev)) = []"
    by (rule found_before [OF cids [unfolded argv] o(2) starts_with_append])
  moreover have "filter (\<lambda>a. a = u ''--mount'') (rr_command (ev_request ev)) = []"
    by (rule found_before [OF mount [unfolded argv] o(3)]) simp
  ultimately show ?thesis using Inr validated_run(1) [OF v] by (auto simp: filter_empty_conv)
qed simp

end
