(* ===== verification/Offline_Accepted.thy ===== *)
theory Offline_Accepted
  imports Offline_Run_Facts
begin

text \<open>
  What the runner makes, the validation accepts: on a host whose snapshots and runtime do not change,
  the evidence of an executed run is validated exactly when the command of the run holds no argument
  that looks like an option of the runner.
\<close>

section \<open>Texts of paths\<close>

definition plain_path :: "posix_path \<Rightarrow> bool" where
  "plain_path p \<longleftrightarrow>
     p \<noteq> [] \<and> hd p = u ''/'' \<and> tl p \<noteq> [] \<and> list_all (\<lambda>c. c \<noteq> [] \<and> c \<noteq> u ''.'' \<and> 0x2F \<notin> set c \<and> 0 \<notin> set c) (tl p)"

lemma split_at_append: "sep \<notin> set c \<Longrightarrow> split_at sep (c @ sep # s) = c # split_at sep s"
  by (induction c) (auto split: list.splits)

lemma split_at_none: "sep \<notin> set c \<Longrightarrow> split_at sep c = [c]"
  by (induction c) auto

lemma split_at_join: "ps \<noteq> [] \<Longrightarrow> list_all (\<lambda>c. 0x2F \<notin> set c) ps \<Longrightarrow> split_at 0x2F (join_str (u ''/'') ps) = ps"
  by (induction "u ''/''" ps rule: join_str.induct) (auto simp: split_at_none u_def split_at_append)

lemma plain_path_text:
  assumes "plain_path p"
  shows "posix_parts (path_text p) = p" and "is_absolute p" and "0 \<notin> set (path_text p)" and "take 1 (path_text p) = u ''/''"
proof -
  obtain ps where p: "p = u ''/'' # ps" "ps \<noteq> []"
      "list_all (\<lambda>c. c \<noteq> [] \<and> c \<noteq> u ''.'' \<and> 0x2F \<notin> set c \<and> 0 \<notin> set c) ps"
    using assms by (cases p) (auto simp: plain_path_def)
  have shown: "path_text p = 0x2F # join_str (u ''/'') ps" using p(1) by (simp add: path_text_def u_def)
  have "split_at 0x2F (join_str (u ''/'') ps) = ps"
    by (rule split_at_join) (use p in \<open>auto simp: list_all_iff\<close>)
  then have "filter (\<lambda>c. c \<noteq> [] \<and> c \<noteq> u ''.'') (split_at 0x2F (path_text p)) = ps"
    using p(3) by (simp add: shown filter_id_conv list_all_iff)
  moreover have "take 2 (path_text p) \<noteq> u ''//''"
  proof -
    obtain c cs where ps: "ps = c # cs" using p(2) by (cases ps) auto
    then obtain x xs where c: "c = x # xs" "x \<noteq> 0x2F" using p(3) by (cases c) auto
    obtain t where "join_str (u ''/'') ps = x # t" unfolding ps c(1) by (cases cs) auto
    with shown c(2) show ?thesis by (simp add: u_def numeral_2_eq_2)
  qed
  ultimately show "posix_parts (path_text p) = p" using shown by (simp add: posix_parts_def Let_def p(1) u_def)
  show "is_absolute p" by (simp add: is_absolute_def p(1))
  have "0 \<notin> set (join_str (u ''/'') ps)"
    using p(3) by (induction "u ''/''" ps rule: join_str.induct) (auto simp: u_def)
  then show "0 \<notin> set (path_text p)" "take 1 (path_text p) = u ''/''" by (simp_all add: shown u_def)
qed

lemma plain_path_control:
  assumes "plain_path p" and "is_control_directory name"
  defines "d \<equiv> parent_of p @ [name]"
  shows "plain_path (d @ [u ''container.cid''])" and "parent_of (d @ [u ''container.cid'']) = d"
    and "name_of (d @ [u ''container.cid'']) = u ''container.cid''" and "name_of d = name" and "parent_of d = parent_of p"
proof -
  obtain ps where p: "p = u ''/'' # ps" "ps \<noteq> []"
      "list_all (\<lambda>c. c \<noteq> [] \<and> c \<noteq> u ''.'' \<and> 0x2F \<notin> set c \<and> 0 \<notin> set c) ps"
    using assms(1) by (cases p) (auto simp: plain_path_def)
  have parent: "parent_of p = u ''/'' # butlast ps" using p by (simp add: parent_of_def)
  have len: "5 \<le> length name" using assms(2) by (simp add: is_control_directory_def)
  have "list_all (\<lambda>c. c \<noteq> 0x2F \<and> c \<noteq> 0) (take 5 name @ drop 5 name)"
    using assms(2) by (auto simp: is_control_directory_def list_all_iff u_def lower_def is_digit_def simp del: append_take_drop_id)
  then have chars: "0x2F \<notin> set name" "0 \<notin> set name" by (auto simp: list_all_iff)
  have "name \<noteq> []" "name \<noteq> u ''.''" using len by (auto simp: u_def)
  moreover have "list_all (\<lambda>c. c \<noteq> [] \<and> c \<noteq> u ''.'' \<and> 0x2F \<notin> set c \<and> 0 \<notin> set c) (butlast ps)"
    using p(3) by (auto simp: list_all_iff dest: in_set_butlastD)
  ultimately show "plain_path (d @ [u ''container.cid''])" using chars by (simp add: plain_path_def d_def parent u_def)
  show "parent_of (d @ [u ''container.cid'']) = d" "name_of (d @ [u ''container.cid'']) = u ''container.cid''"
    "name_of d = name" "parent_of d = parent_of p"
    by (simp_all add: d_def parent) (simp_all add: parent_of_def name_of_def is_absolute_def butlast_append)
qed

section \<open>A host that does not change\<close>

definition steady_host :: "runner_env \<Rightarrow> bool" where
  "steady_host E \<longleftrightarrow>
     (\<forall>l l' p. ru_verify_snapshot E l p = ru_verify_snapshot E l' p)
     \<and> (\<forall>l p s. ru_verify_snapshot E l p = Inr s \<longrightarrow>
        plain_path (sn_root s) \<and> plain_path (sn_tree s) \<and> is_commit_sha (sn_commit_sha s) \<and> is_commit_sha (sn_commit_tree_sha s)
        \<and> is_sha256 (sn_snapshot_sha256 s) \<and> (\<forall>l'. ru_verify_snapshot E l' (sn_root s) = Inr s))
     \<and> (\<forall>l p q mode digest. ru_executable E l p = Inr (q, mode, digest) \<longrightarrow>
          plain_path q \<and> (\<forall>l'. ru_executable E l' q = Inr (q, mode, digest)))
     \<and> (\<forall>l name. ru_control_name E l = Inr name \<longrightarrow> is_control_directory name)
     \<and> (\<forall>l d c. RemovedControlDirectory \<in> set l \<and> is_control_directory (name_of d) \<longrightarrow>
          \<not> ru_exists E l d \<and> \<not> ru_exists E l (d @ [c]) \<and> \<not> ru_is_symlink E l (d @ [c]))
     \<and> (\<forall>l. 0 < ru_time_ns E l)
     \<and> (\<forall>l events code duration. ru_pipes E l = Some (events, code, duration) \<longrightarrow> duration \<le> 3600000 * 1000000)"

text \<open>No argument of the command looks like an option of the runner.\<close>

definition no_runner_option :: "pystr list \<Rightarrow> bool" where
  "no_runner_option command \<longleftrightarrow>
     u ''--mount'' \<notin> set command \<and> filter (starts_with (u ''--name='')) command = []
     \<and> filter (starts_with (u ''--cidfile='')) command = []"

lemma steady_snapshot:
  assumes "steady_host E" and "ru_verify_snapshot E l p = Inr s"
  shows "plain_path (sn_root s)" and "plain_path (sn_tree s)" and "is_commit_sha (sn_commit_sha s)"
    and "is_commit_sha (sn_commit_tree_sha s)" and "is_sha256 (sn_snapshot_sha256 s)" and "ru_verify_snapshot E l' (sn_root s) = Inr s"
  using assms unfolding steady_host_def by blast+

lemma steady_executable:
  assumes "steady_host E" and "ru_executable E l p = Inr (q, mode, digest)"
  shows "plain_path q" and "ru_executable E l' q = Inr (q, mode, digest)"
  using assms unfolding steady_host_def by blast+

section \<open>What an execution leaves behind\<close>

lemma read_pipes_bound:
  "read_pipes limit active (out, err) events = Inr (out', err') \<Longrightarrow> length out + length err \<le> limit \<Longrightarrow> length out' + length err' \<le> limit"
proof (induction limit active "(out, err)" events arbitrary: out err rule: read_pipes.induct)
  case (1 limit active events)
  show ?case
  proof (cases "active = {}")
    case True
    with 1 show ?thesis by simp
  next
    case False
    show ?thesis
    proof (cases events)
      case (Cons e es)
      show ?thesis
      proof (cases e)
        case (Chunk s b)
        with 1 False Cons show ?thesis by (cases s) (auto split: if_splits)
      next
        case (EndOf s)
        with 1 False Cons show ?thesis by simp
      qed
    qed (use 1 False in simp)
  qed
qed

lemma run_bounded_Inr:
  assumes "run_bounded E limit l = Inr r"
  shows "length (br_stdout r) + length (br_stderr r) \<le> limit"
    and "steady_host E \<Longrightarrow> 0 \<le> br_duration_ms r \<and> br_duration_ms r \<le> 3600000"
proof -
  from assms obtain events exit_code duration out err where p: "ru_pipes E l = Some (events, exit_code, duration)"
      "read_pipes limit {False, True} ([], []) events = Inr (out, err)" "br_stdout r = out" "br_stderr r = err"
      "br_duration_ms r = max 0 (duration div 1000000)"
    by (auto simp: run_bounded_def result_simps split: option.splits)
  show "length (br_stdout r) + length (br_stderr r) \<le> limit" using read_pipes_bound [OF p(2)] p(3,4) by simp
  assume "steady_host E"
  with p(1) have "duration \<le> 3600000 * 1000000" unfolding steady_host_def by blast
  then have "duration div 1000000 \<le> (3600000 * 1000000) div 1000000" by (intro zdiv_mono1) simp_all
  then show "0 \<le> br_duration_ms r \<and> br_duration_ms r \<le> 3600000" by (simp add: p(5))
qed

text \<open>The runtime that was detected, and the one whose arguments were built, are the same.\<close>

lemma validate_backend_Inr:
  assumes "validate_backend E b l = (Inr b', l')"
  obtains path mode digest where "l' = l" "cb_name b \<in> set SUPPORTED_BACKENDS" "ru_executable E l (cb_executable b) = Inr (path, mode, digest)"
    "security_evidence_sha256 (ru_sha E) (cb_name b) (cb_rootless b) (cb_user_namespace b) (cb_seccomp_profile b) = Inr (cb_security_evidence_sha256 b')"
    "cb_executable b' = path" "cb_sha256 b' = digest" "mode AND 73 \<noteq> 0" "cb_name b' = cb_name b" "cb_rootless b' = cb_rootless b"
    "cb_user_namespace b' = cb_user_namespace b" "cb_seccomp_profile b' = cb_seccomp_profile b" "cb_seccomp_enabled b'"
    "cb_rootless b \<or> cb_user_namespace b" "cb_seccomp_profile b \<noteq> []" "\<not> unconfined E (cb_seccomp_profile b)"
    "cb_sha256 b = [] \<or> cb_sha256 b = digest" "cb_security_evidence_sha256 b = [] \<or> cb_security_evidence_sha256 b = cb_security_evidence_sha256 b'"
  using assms that by (auto simp: validate_backend_def result_simps)

lemma revalidated_backend:
  assumes "steady_host E" and "validate_backend E b l = (Inr b1, l1)" and "cb_name c = cb_name b1" and "cb_executable c = cb_executable b1"
    and "cb_rootless c = cb_rootless b1" and "cb_user_namespace c = cb_user_namespace b1" and "cb_seccomp_profile c = cb_seccomp_profile b1"
    and "cb_sha256 c = cb_sha256 b1" and "cb_security_evidence_sha256 c = cb_security_evidence_sha256 b1" and "cb_seccomp_enabled c"
  shows "validate_backend E c l2 = (Inr b1, l2)"
proof -
  from assms(2) obtain path mode digest where v: "ru_executable E l (cb_executable b) = Inr (path, mode, digest)"
      "cb_name b \<in> set SUPPORTED_BACKENDS"
      "security_evidence_sha256 (ru_sha E) (cb_name b) (cb_rootless b) (cb_user_namespace b) (cb_seccomp_profile b) = Inr (cb_security_evidence_sha256 b1)"
      "cb_executable b1 = path" "cb_sha256 b1 = digest" "mode AND 73 \<noteq> 0" "cb_name b1 = cb_name b" "cb_rootless b1 = cb_rootless b"
      "cb_user_namespace b1 = cb_user_namespace b" "cb_seccomp_profile b1 = cb_seccomp_profile b" "cb_seccomp_enabled b1"
      "cb_rootless b \<or> cb_user_namespace b" "cb_seccomp_profile b \<noteq> []" "\<not> unconfined E (cb_seccomp_profile b)"
    by (rule validate_backend_Inr)
  have "ru_executable E l2 path = Inr (path, mode, digest)" by (rule steady_executable(2) [OF assms(1) v(1)])
  with v assms(3-10) show ?thesis by (auto simp: validate_backend_def demand_def)
qed

text \<open>The parts of an execution that returned evidence.\<close>

lemma detected_backend:
  assumes "detect_container_backend E l = (Inr b, l')"
  obtains b0 k where "validate_backend E b0 k = (Inr b, k)"
proof -
  have "detect_from E failures names l = (Inr b, l') \<Longrightarrow> \<exists>b0 k. validate_backend E b0 k = (Inr b, k)" for failures names l
  proof (induction names arbitrary: failures l)
    case (Cons name names)
    then show ?case
      by (auto simp: catch_runner_def bindS_Inr liftS_Inr split: option.splits sum.splits prod.splits runner_error.splits)
        (metis validate_backend_Inr)+
  qed (simp add: liftS_def)
  with assms that show thesis unfolding detect_container_backend_def by metis
qed

lemma build_Inr:
  assumes "build_offline_container_argv E backend s img approved command (Some (name, cidfile)) l = (Inr argv, l')"
  obtains trusted v k where "validate_backend E backend l = (Inr trusted, k)" "ru_verify_snapshot E k (sn_root s) = Inr v"
    "validate_image img approved = Inr ()" "is_container_name name" "set (path_text (sn_tree v)) \<inter> MOUNT_FORBIDDEN = {}"
    "argv = compose_offline_container_argv trusted (sn_tree v) img command (Some (name, cidfile))"
  using assms that
  by (auto simp: build_offline_container_argv_def bindS_Inr liftS_Inr result_simps verified_snapshot_def validate_offline_command_def)

lemma controlled_Inr:
  assumes "controlled_run E a backend s request control_root l = (Inr ev, l')"
  obtains argv k k' r where "build_offline_container_argv E backend s (oa_image a) (oa_approved_image_digest a) (rr_command request)
       (Some (oa_session_id a, control_root @ [u ''container.cid''])) l = (Inr argv, k)"
    "run_bounded E (nat (oa_max_log_bytes a)) k' = Inr r"
    "evidence_of (ru_sha E) request backend argv (ru_time_ns E k) r (ev_container_id ev) = Inr ev"
  using assms that
  by (auto simp: controlled_run_def Let_def bindS_Inr or_remove_directory_def run_container_def attest_result_def liftS_Inr result_simps
      evidence_of_def split: prod.splits sum.splits)

lemma control_directory_Inr:
  "make_control_directory E s l = (Inr d, l') \<longleftrightarrow>
     (\<exists>name. ru_control_name E l = Inr name \<and> d = parent_of (sn_root s) @ [name] \<and> l' = l @ [MadeControlDirectory])"
  by (auto simp: make_control_directory_def split: sum.splits)

lemma executed_parts:
  assumes "execute_offline E a l = (Inr ev, l')"
  obtains l1 s bound backend name l2 where
    "check_arguments a = Inr ()" "detect_container_backend E l = (Inr backend, l1)" "ru_verify_snapshot E l1 (oa_snapshot_root a) = Inr s"
    "bound_candidate a s = Inr bound" "validate_offline_command (oa_command a) = Inr (oa_command a)"
    "ru_control_name E l1 = Inr name"
    "controlled_run E a backend s (request_of a s bound (oa_command a)) (parent_of (sn_root s) @ [name]) l2 = (Inr ev, l')"
  using assms that
  by (auto simp: execute_offline_def bindS_Inr liftS_Inr result_simps verified_snapshot_def control_directory_Inr validate_offline_command_def)

text \<open>The evidence is the one of the request, with the arguments for the runtime that was detected.\<close>

lemma executed_evidence:
  assumes run: "execute_offline E a l = (Inr ev, l')" and steady: "steady_host E"
  obtains l1 s bound b k name k' r started where
    "check_arguments a = Inr ()" "ru_verify_snapshot E l1 (oa_snapshot_root a) = Inr s" "bound_candidate a s = Inr bound"
    "validate_offline_command (oa_command a) = Inr (oa_command a)" "is_control_directory name" "0 < started"
    "validate_backend E b k = (Inr b, k)" "validate_image (oa_image a) (oa_approved_image_digest a) = Inr ()"
    "is_container_name (oa_session_id a)" "set (path_text (sn_tree s)) \<inter> MOUNT_FORBIDDEN = {}"
    "run_bounded E (nat (oa_max_log_bytes a)) k' = Inr r"
    "evidence_of (ru_sha E) (request_of a s bound (oa_command a)) b
       (compose_offline_container_argv b (sn_tree s) (oa_image a) (oa_command a)
          (Some (oa_session_id a, (parent_of (sn_root s) @ [name]) @ [u ''container.cid'']))) started r (ev_container_id ev) = Inr ev"
proof -
  from run obtain l1 s bound backend name l2 where e: "check_arguments a = Inr ()" "detect_container_backend E l = (Inr backend, l1)"
      "ru_verify_snapshot E l1 (oa_snapshot_root a) = Inr s" "bound_candidate a s = Inr bound"
      "validate_offline_command (oa_command a) = Inr (oa_command a)" "ru_control_name E l1 = Inr name"
      "controlled_run E a backend s (request_of a s bound (oa_command a)) (parent_of (sn_root s) @ [name]) l2 = (Inr ev, l')"
    by (rule executed_parts)
  from e(7) obtain argv k k' r where c: "build_offline_container_argv E backend s (oa_image a) (oa_approved_image_digest a)
        (rr_command (request_of a s bound (oa_command a)))
        (Some (oa_session_id a, (parent_of (sn_root s) @ [name]) @ [u ''container.cid''])) l2 = (Inr argv, k)"
      "run_bounded E (nat (oa_max_log_bytes a)) k' = Inr r"
      "evidence_of (ru_sha E) (request_of a s bound (oa_command a)) backend argv (ru_time_ns E k) r (ev_container_id ev) = Inr ev"
    by (rule controlled_Inr)
  from c(1) obtain trusted v k1 where b: "validate_backend E backend l2 = (Inr trusted, k1)" "ru_verify_snapshot E k1 (sn_root s) = Inr v"
      "validate_image (oa_image a) (oa_approved_image_digest a) = Inr ()" "is_container_name (oa_session_id a)"
      "set (path_text (sn_tree v)) \<inter> MOUNT_FORBIDDEN = {}"
      "argv = compose_offline_container_argv trusted (sn_tree v) (oa_image a) (rr_command (request_of a s bound (oa_command a)))
         (Some (oa_session_id a, (parent_of (sn_root s) @ [name]) @ [u ''container.cid'']))"
    by (rule build_Inr)
  obtain b0 k0 where "validate_backend E b0 k0 = (Inr backend, k0)" by (rule detected_backend [OF e(2)])
  then have again: "validate_backend E backend k2 = (Inr backend, k2)" for k2
    by (rule revalidated_backend [OF steady])
      (use \<open>validate_backend E b0 k0 = (Inr backend, k0)\<close> in \<open>auto elim: validate_backend_Inr\<close>)
  with b(1) have "trusted = backend" by simp
  moreover have "v = s" using b(2) steady_snapshot(6) [OF steady e(3), of k1] by simp
  moreover have "is_control_directory name" "0 < ru_time_ns E k" using steady e(6) unfolding steady_host_def by blast+
  moreover have "rr_command (request_of a s bound (oa_command a)) = oa_command a" by (simp add: request_of_def)
  ultimately show thesis
    by (intro that [OF e(1,3,4,5) _ _ again b(3,4) _ c(2)]) (use b(5,6) c(3) in simp_all)
qed

section \<open>The checks of the validation\<close>

lemma request_of_valid:
  assumes "check_arguments a = Inr ()" and "bound_candidate a s = Inr bound" and "is_commit_sha (sn_commit_sha s)"
    and "is_commit_sha (sn_commit_tree_sha s)" and "is_sha256 (sn_snapshot_sha256 s)"
    and "validate_offline_command (oa_command a) = Inr (oa_command a)" and "validate_image (oa_image a) (oa_approved_image_digest a) = Inr ()"
  shows "validate_run_request (request_of a s bound (oa_command a)) = Inr ()"
proof -
  have "is_digest (oa_approved_image_digest a)"
    using assms(7) by (auto simp: validate_image_def result_simps split: option.splits)
  moreover have "is_sha256 bound" using assms(2,5) by (auto simp: bound_candidate_def result_simps Let_def split: option.splits)
  ultimately show ?thesis
    using assms by (auto simp: validate_run_request_def request_of_def check_arguments_def bound_candidate_def result_simps Let_def
        demand_def split: option.splits if_splits)
qed

lemma digest_text:
  assumes "is_digest d"
  shows "0 \<notin> set d"
proof -
  have "0 \<notin> set (take 7 d @ drop 7 d)"
    using assms by (auto simp: is_digest_def is_sha256_def list_all_iff u_def lower_hex_def is_digit_def simp del: append_take_drop_id)
  then show ?thesis unfolding append_take_drop_id .
qed

lemma image_text:
  assumes "validate_image img approved = Inr ()"
  shows "img \<noteq> []" and "0 \<notin> set img" and "hd img \<noteq> 0x2D"
proof -
  from assms have i: "image_digest img \<noteq> None" by (auto simp: validate_image_def split: option.splits)
  define name where "name = takeWhile (\<lambda>c. c \<noteq> 0x40) img"
  define rest where "rest = dropWhile (\<lambda>c. c \<noteq> 0x40) img"
  have parts: "img = name @ rest" by (simp add: name_def rest_def)
  from i obtain c t where n: "name = c # t" "alnum c" "list_all (\<lambda>x. alnum x \<or> x \<in> set (u ''._/:+-'')) t" "length name < length img"
      "is_digest (drop (Suc (length name)) img)"
    unfolding image_digest_def Let_def name_def [symmetric] by (auto split: list.splits if_splits)
  then obtain x d where r: "rest = x # d" using parts by (cases rest) auto
  have "x = 0x40" using r by (auto simp: rest_def dropWhile_eq_Cons_conv)
  moreover have "0 \<notin> set d" using digest_text [OF n(5)] by (simp add: parts r)
  moreover have "0 \<notin> set name"
    unfolding n(1) using n(2,3) by (auto simp: alnum_def upper_def lower_def is_digit_def list_all_iff u_def)
  ultimately show "0 \<notin> set img" by (simp add: parts r)
  show "img \<noteq> []" using n(4) by auto
  show "hd img \<noteq> 0x2D" using n(1,2) by (auto simp: parts alnum_def upper_def lower_def is_digit_def)
qed

lemma starts_with_hd: "starts_with p s \<Longrightarrow> p \<noteq> [] \<Longrightarrow> s \<noteq> [] \<and> hd s = hd p"
  by (cases p; cases s) (auto simp: starts_with_def)

text \<open>The options of the runner, in front of the image and the command.\<close>

definition runner_options :: "container_backend \<Rightarrow> pystr \<Rightarrow> posix_path \<Rightarrow> pystr list" where
  "runner_options b name cidfile =
     [path_text (cb_executable b), u ''run'', u ''--pull=never'', u ''--name='' @ name, u ''--cidfile='' @ path_text cidfile]
     @ ISOLATION_ARGUMENTS @ user_namespace_argv b @ LIMIT_ARGUMENTS"

lemma composed_options:
  "compose_offline_container_argv b tree img command (Some (name, cidfile)) =
     runner_options b name cidfile @ [u ''--mount'', MOUNT_PREFIX @ path_text tree @ MOUNT_SUFFIX, img] @ command"
  by (simp add: compose_offline_container_argv_def runner_options_def control_arguments_def)

lemma runner_options_found:
  assumes "take 1 (path_text (cb_executable b)) = u ''/''"
  shows "u ''--mount'' \<notin> set (runner_options b name cidfile)"
    and "filter (starts_with (u ''--name='')) (runner_options b name cidfile) = [u ''--name='' @ name]"
    and "filter (starts_with (u ''--cidfile='')) (runner_options b name cidfile) = [u ''--cidfile='' @ path_text cidfile]"
proof -
  obtain t where "path_text (cb_executable b) = 0x2F # t"
    using assms by (cases "path_text (cb_executable b)") (auto simp: u_def)
  then show "u ''--mount'' \<notin> set (runner_options b name cidfile)"
    "filter (starts_with (u ''--name='')) (runner_options b name cidfile) = [u ''--name='' @ name]"
    "filter (starts_with (u ''--cidfile='')) (runner_options b name cidfile) = [u ''--cidfile='' @ path_text cidfile]"
    by (simp_all add: runner_options_def ISOLATION_ARGUMENTS_def LIMIT_ARGUMENTS_def user_namespace_argv_def starts_with_def u_def)
qed

lemma mount_values_none: "u ''--mount'' \<notin> set argv \<Longrightarrow> mount_values argv = []"
  by (induction argv) auto

lemma mount_values_append: "u ''--mount'' \<notin> set xs \<Longrightarrow> mount_values (xs @ ys) = mount_values ys"
  by (induction xs) auto

text \<open>The arguments that were composed are taken apart again.\<close>

lemma composed_arguments_read:
  assumes "take 1 (path_text (cb_executable b)) = u ''/''" and "img \<noteq> []" and "hd img \<noteq> 0x2D" and "no_runner_option command"
    and argv_def: "argv = compose_offline_container_argv b tree img command (Some (name, cidfile))"
  shows "mount_values argv = [Some (MOUNT_PREFIX @ path_text tree @ MOUNT_SUFFIX)]"
    and "with_prefix (u ''--name='') argv = [name]" and "with_prefix (u ''--cidfile='') argv = [path_text cidfile]"
proof -
  have img: "img \<noteq> u ''--mount''" "\<not> starts_with (u ''--name='') img" "\<not> starts_with (u ''--cidfile='') img"
    using assms(2,3) by (auto simp: u_def dest: starts_with_hd)
  have others: "\<not> starts_with (u ''--name='') (u ''--mount'')" "\<not> starts_with (u ''--cidfile='') (u ''--mount'')"
      "\<not> starts_with (u ''--name='') (MOUNT_PREFIX @ t)" "\<not> starts_with (u ''--cidfile='') (MOUNT_PREFIX @ t)" for t
    by (simp_all add: MOUNT_PREFIX_def u_def starts_with_def)
  have "mount_values (img # command) = []"
    using img(1) assms(4) by (intro mount_values_none) (auto simp: no_runner_option_def)
  moreover have "MOUNT_PREFIX @ t \<noteq> u ''--mount''" for t by (simp add: MOUNT_PREFIX_def u_def)
  ultimately show "mount_values argv = [Some (MOUNT_PREFIX @ path_text tree @ MOUNT_SUFFIX)]"
    unfolding argv_def composed_options by (simp add: mount_values_append [OF runner_options_found(1) [OF assms(1)]])
  have "filter (starts_with (u ''--name='')) argv = [u ''--name='' @ name]"
    "filter (starts_with (u ''--cidfile='')) argv = [u ''--cidfile='' @ path_text cidfile]"
    unfolding argv_def composed_options using others img(2,3) assms(4)
    by (simp_all add: runner_options_found [OF assms(1)] no_runner_option_def)
  then show "with_prefix (u ''--name='') argv = [name]" "with_prefix (u ''--cidfile='') argv = [path_text cidfile]"
    by (simp_all add: with_prefix_def)
qed

lemma ends_with_append: "ends_with s (a @ s)"
  by (simp add: ends_with_def)

lemma mount_source_read:
  assumes "mount_values argv = [Some (MOUNT_PREFIX @ path_text tree @ MOUNT_SUFFIX)]" and "plain_path tree"
    and "set (path_text tree) \<inter> MOUNT_FORBIDDEN = {}"
  shows "snapshot_mount_source_from_argv argv = Inr tree"
proof -
  have "take (length (MOUNT_PREFIX @ path_text tree @ MOUNT_SUFFIX) - length MOUNT_SUFFIX) (MOUNT_PREFIX @ path_text tree @ MOUNT_SUFFIX)
      = MOUNT_PREFIX @ path_text tree" by simp
  moreover have "path_text tree \<noteq> []" using plain_path_text(4) [OF assms(2)] by (auto simp: u_def)
  ultimately show ?thesis
    using assms plain_path_text(1,2) [OF assms(2)] ends_with_append [of MOUNT_SUFFIX "MOUNT_PREFIX @ path_text tree"]
    by (simp add: snapshot_mount_source_from_argv_def starts_with_append demand_def Let_def)
qed

lemma composed_arguments_text:
  assumes "plain_path (cb_executable b)" and "plain_path cidfile" and "set (path_text tree) \<inter> MOUNT_FORBIDDEN = {}"
    and "validate_image img approved = Inr ()" and "is_container_name name" and "validate_offline_command command = Inr command"
  shows "\<not> list_ex (\<lambda>x. x = [] \<or> 0 \<in> set x) (compose_offline_container_argv b tree img command (Some (name, cidfile)))"
proof -
  have name: "0 \<notin> set (take 10 name @ drop 10 name)"
    using assms(5) by (auto simp: is_container_name_def list_all_iff u_def lower_hex_def is_digit_def simp del: append_take_drop_id)
  have "0 \<notin> set (path_text tree)" using assms(3) by (auto simp: MOUNT_FORBIDDEN_def)
  moreover have "take 1 (path_text (cb_executable b)) = u ''/''" by (rule plain_path_text(4) [OF assms(1)])
  then have "path_text (cb_executable b) \<noteq> []" by (auto simp: u_def)
  moreover have "\<not> list_ex (\<lambda>x. x = [] \<or> 0 \<in> set x) command"
    using assms(6) by (auto simp: validate_offline_command_def result_simps)
  ultimately show ?thesis
    using name image_text(1,2) [OF assms(4)] plain_path_text(3) [OF assms(1)] plain_path_text(3) [OF assms(2)]
    by (simp add: composed_options runner_options_def ISOLATION_ARGUMENTS_def LIMIT_ARGUMENTS_def user_namespace_argv_def
        MOUNT_PREFIX_def MOUNT_SUFFIX_def u_def)
qed

text \<open>The streams are measured as they were when the evidence was made.\<close>

lemma evidence_measured:
  assumes "evidence_of sha request b argv started r cid = Inr ev" and "br_stdout_sha256 r = sha (br_stdout r)"
    and "br_stderr_sha256 r = sha (br_stderr r)" and "length (br_stdout r) + length (br_stderr r) \<le> 10000000" and "0 < started"
    and "0 \<le> br_duration_ms r" and "br_duration_ms r \<le> 3600000"
  shows "measured_streams sha ev = Inr ()" and "argv_digest sha (ev_argv ev) = Inr (ev_argv_sha256 ev)"
    and "request_digest sha (ev_request ev) = Inr (ev_request_sha256 ev)" and "ev_argv ev = argv" and "ev_request ev = request"
    and "ev_runtime_name ev = cb_name b" and "ev_runtime_sha256 ev = cb_sha256 b" and "ev_runtime_rootless ev = cb_rootless b"
    and "ev_runtime_user_namespace ev = cb_user_namespace b" and "ev_runtime_seccomp_profile ev = cb_seccomp_profile b"
    and "ev_runtime_security_sha256 ev = cb_security_evidence_sha256 b" and "ev_runner_image_digest ev = rr_runner_image_digest request"
    and "ev_snapshot_sha256 ev = rr_execution_snapshot_sha256 request"
proof -
  from assms(1) obtain log_sha256 failure response request_sha256 argv_sha256 where
      d: "offline_log_sha256 sha (br_stdout r) (br_stderr r) = Inr log_sha256"
      "failure_fingerprint_sha256 sha (br_exit_code r) (br_stdout r) (br_stderr r) = Inr failure"
      "execution_response_sha256 sha (br_exit_code r) (br_stdout r) (br_stderr r) cid True False = Inr response"
      "request_digest sha request = Inr request_sha256" "argv_digest sha argv = Inr argv_sha256"
    and ev: "ev = \<lparr>ev_request = request, ev_request_sha256 = request_sha256, ev_runtime_name = cb_name b,
           ev_runtime_sha256 = cb_sha256 b, ev_runtime_security_sha256 = cb_security_evidence_sha256 b,
           ev_runtime_rootless = cb_rootless b, ev_runtime_user_namespace = cb_user_namespace b,
           ev_runtime_seccomp_profile = cb_seccomp_profile b, ev_runner_image_digest = rr_runner_image_digest request,
           ev_snapshot_sha256 = rr_execution_snapshot_sha256 request, ev_argv = argv, ev_argv_sha256 = argv_sha256,
           ev_container_id = cid, ev_exit_code = br_exit_code r, ev_stdout = br_stdout r, ev_stderr = br_stderr r,
           ev_stdout_sha256 = br_stdout_sha256 r, ev_stderr_sha256 = br_stderr_sha256 r, ev_log = presentation (br_stdout r) (br_stderr r),
           ev_log_sha256 = log_sha256, ev_log_truncated = False, ev_stdout_bytes = int (length (br_stdout r)),
           ev_stderr_bytes = int (length (br_stderr r)), ev_started_unix_ns = started, ev_duration_ms = br_duration_ms r,
           ev_cleanup_succeeded = True, ev_failure_fingerprint_sha256 = failure, ev_response_sha256 = response\<rparr>"
    by (auto simp: evidence_of_def result_simps Let_def)
  have "is_container_id cid" using d(3) by (auto simp: execution_response_sha256_def result_simps)
  with d assms(2-7) show "measured_streams sha ev = Inr ()" by (simp add: measured_streams_def ev Let_def demand_def)
  show "argv_digest sha (ev_argv ev) = Inr (ev_argv_sha256 ev)" "request_digest sha (ev_request ev) = Inr (ev_request_sha256 ev)"
    "ev_argv ev = argv" "ev_request ev = request" "ev_runtime_name ev = cb_name b" "ev_runtime_sha256 ev = cb_sha256 b"
    "ev_runtime_rootless ev = cb_rootless b" "ev_runtime_user_namespace ev = cb_user_namespace b"
    "ev_runtime_seccomp_profile ev = cb_seccomp_profile b" "ev_runtime_security_sha256 ev = cb_security_evidence_sha256 b"
    "ev_runner_image_digest ev = rr_runner_image_digest request" "ev_snapshot_sha256 ev = rr_execution_snapshot_sha256 request"
    using d by (simp_all add: ev)
qed

section \<open>Executed evidence is validated\<close>

lemma validated_intro:
  assumes "validate_run_request (ev_request ev) = Inr ()" and "ru_verify_snapshot E l (sn_root s) = Inr s"
    and "request_checks (ru_sha E) ev s approved = Inr ()" and "validate_image img approved = Inr ()" and "ev_argv ev \<noteq> []"
    and "\<not> list_ex (\<lambda>x. x = [] \<or> 0 \<in> set x) (ev_argv ev)" and "ev_runtime_name ev \<in> set SUPPORTED_BACKENDS"
    and "snapshot_mount_source_from_argv (ev_argv ev) = Inr (sn_tree s)" and "validate_backend E (reported_backend ev) l = (Inr b, l)"
    and "control_values_from_argv E l (ev_argv ev) (rr_session_id (ev_request ev)) (Some (parent_of (sn_root s))) = Inr cidfile"
    and "ev_argv ev = compose_offline_container_argv b (sn_tree s) img (rr_command (ev_request ev)) (Some (rr_session_id (ev_request ev), cidfile))"
    and "argv_digest (ru_sha E) (ev_argv ev) = Inr (ev_argv_sha256 ev)" and "measured_streams (ru_sha E) ev = Inr ()"
  shows "validate_offline_run_evidence E ev s img approved None l = (Inr ev, l)"
  unfolding validate_offline_run_evidence_def Let_def trusted_mount_check_def option.case
  by (simp only: assms(1-10,12,13) assms(11) [symmetric] bindS_liftS demand_def guardE_simps simp_thms if_True
    bindS_def verified_snapshot_def mapError_simps prod.case sum.case liftS_def)

lemma executed_run_is_validated:
  assumes steady: "steady_host E" and run: "execute_offline E a l = (Inr ev, l')" and removed: "RemovedControlDirectory \<in> set k2"
    and s: "ru_verify_snapshot E k0 (oa_snapshot_root a) = Inr s"
    and command: "no_runner_option (oa_command a)"
  shows "validate_offline_run_evidence E ev s (oa_image a) (oa_approved_image_digest a) None k2 = (Inr ev, k2)"
proof -
  from run steady obtain l1 s' bound b k name k' r started where
    e: "check_arguments a = Inr ()" "ru_verify_snapshot E l1 (oa_snapshot_root a) = Inr s'" "bound_candidate a s' = Inr bound"
    "validate_offline_command (oa_command a) = Inr (oa_command a)" "is_control_directory name" "0 < started"
    "validate_backend E b k = (Inr b, k)" "validate_image (oa_image a) (oa_approved_image_digest a) = Inr ()"
    "is_container_name (oa_session_id a)" "set (path_text (sn_tree s')) \<inter> MOUNT_FORBIDDEN = {}"
    "run_bounded E (nat (oa_max_log_bytes a)) k' = Inr r"
    "evidence_of (ru_sha E) (request_of a s' bound (oa_command a)) b
       (compose_offline_container_argv b (sn_tree s') (oa_image a) (oa_command a)
          (Some (oa_session_id a, (parent_of (sn_root s') @ [name]) @ [u ''container.cid'']))) started r (ev_container_id ev) = Inr ev"
    by (rule executed_evidence)
  have s': "s' = s" using steady s e(2) unfolding steady_host_def by (metis sum.inject(2))
  note snap = steady_snapshot [OF steady s]
  define d where "d = parent_of (sn_root s) @ [name]"
  define cid where "cid = d @ [u ''container.cid'']"
  note control = plain_path_control [OF snap(1) e(5), folded d_def, folded cid_def]
  define request where "request = request_of a s bound (oa_command a)"
  have request: "rr_session_id request = oa_session_id a" "rr_command request = oa_command a"
      "rr_execution_snapshot_sha256 request = sn_snapshot_sha256 s" "rr_source_commit_sha request = sn_commit_sha s"
      "rr_source_commit_tree_sha request = sn_commit_tree_sha s" "rr_runner_image_digest request = oa_approved_image_digest a"
    by (simp_all add: request_def request_of_def)
  define argv where "argv = compose_offline_container_argv b (sn_tree s) (oa_image a) (oa_command a) (Some (oa_session_id a, cid))"
  have evidence: "evidence_of (ru_sha E) request b argv started r (ev_container_id ev) = Inr ev"
    using e(12) by (simp only: s' request_def argv_def d_def cid_def append_assoc)
  have limits: "length (br_stdout r) + length (br_stderr r) \<le> 10000000"
    using run_bounded_Inr(1) [OF e(11)] e(1) by (auto simp: check_arguments_def result_simps)
  have digests: "br_stdout_sha256 r = ru_sha E (br_stdout r)" "br_stderr_sha256 r = ru_sha E (br_stderr r)"
    using e(11) by (auto simp: run_bounded_def result_simps split: option.splits)
  note duration = run_bounded_Inr(2) [OF e(11) steady]
  note m = evidence_measured [OF evidence digests limits e(6) conjunct1 [OF duration] conjunct2 [OF duration]]
  from e(7) obtain path mode digest where b: "cb_name b \<in> set SUPPORTED_BACKENDS" "ru_executable E k (cb_executable b) = Inr (path, mode, digest)"
      "cb_executable b = path" "cb_seccomp_enabled b"
    by (rule validate_backend_Inr)
  have exec: "plain_path (cb_executable b)" using steady_executable(1) [OF steady b(2)] b(3) by simp
  note texts = plain_path_text [OF exec]
  note image = image_text [OF e(8)]
  note read = composed_arguments_read [OF texts(4) image(1,3) command argv_def]
  have forbidden: "set (path_text (sn_tree s)) \<inter> MOUNT_FORBIDDEN = {}" using e(10) by (simp only: s')
  have gone: "\<not> ru_exists E k2 d" "\<not> ru_exists E k2 cid" "\<not> ru_is_symlink E k2 cid"
    using steady removed e(5) control(4) unfolding steady_host_def cid_def by blast+
  show ?thesis
  proof (rule validated_intro [where b = b and cidfile = cid])
    show "validate_run_request (ev_request ev) = Inr ()"
      unfolding m(5) request_def by (rule request_of_valid) (use e snap s' in auto)
    show "ru_verify_snapshot E k2 (sn_root s) = Inr s" by (rule snap(6))
    show "request_checks (ru_sha E) ev s (oa_approved_image_digest a) = Inr ()"
      using m(3) by (simp add: request_checks_def demand_def Let_def m(5,12,13) request)
    show "validate_image (oa_image a) (oa_approved_image_digest a) = Inr ()" by fact
    show "ev_argv ev \<noteq> []" by (simp add: m(4) argv_def compose_offline_container_argv_def)
    show "\<not> list_ex (\<lambda>x. x = [] \<or> 0 \<in> set x) (ev_argv ev)"
      unfolding m(4) argv_def by (rule composed_arguments_text [OF exec control(1) forbidden e(8,9,4)])
    show "ev_runtime_name ev \<in> set SUPPORTED_BACKENDS" using b(1) by (simp only: m(6))
    show "snapshot_mount_source_from_argv (ev_argv ev) = Inr (sn_tree s)"
      unfolding m(4) by (rule mount_source_read [OF read(1) snap(2) forbidden])
    have "hd (ev_argv ev) = path_text (cb_executable b)" by (simp add: m(4) argv_def compose_offline_container_argv_def)
    then show "validate_backend E (reported_backend ev) k2 = (Inr b, k2)"
      by (intro revalidated_backend [OF steady e(7)]) (simp_all add: reported_backend_def m(6-11) texts(1))
    show "control_values_from_argv E k2 (ev_argv ev) (rr_session_id (ev_request ev)) (Some (parent_of (sn_root s))) = Inr cid"
      using plain_path_text(1,2) [OF control(1)] control(2-5) gone e(5)
      by (simp add: control_values_from_argv_def demand_def Let_def m(4,5) request read)
    show "ev_argv ev = compose_offline_container_argv b (sn_tree s) (oa_image a) (rr_command (ev_request ev))
        (Some (rr_session_id (ev_request ev), cid))" by (simp only: m(4,5) request argv_def)
    show "argv_digest (ru_sha E) (ev_argv ev) = Inr (ev_argv_sha256 ev)" by (rule m(2))
    show "measured_streams (ru_sha E) ev = Inr ()" by (rule m(1))
  qed
qed

lemma executed_removes: "execute_offline E a l = (Inr ev, l') \<Longrightarrow> RemovedControlDirectory \<in> set l'"
proof -
  assume "execute_offline E a l = (Inr ev, l')"
  from endsD [OF execution_tidy this] have "RemovedControlDirectory \<in> set (deeds l')" by (auto simp: tidy_def)
  then show ?thesis by (simp add: deeds_def)
qed

lemma evidence_request: "evidence_of sha request b argv started r cid = Inr ev \<Longrightarrow> ev_request ev = request"
  by (auto simp: evidence_of_def result_simps Let_def)

text \<open>
  C29. What the runner makes, the coordinator accepts, but for one thing. On a host whose snapshots and
  runtime do not change, the evidence of an executed run is validated against the verified snapshot
  exactly when the command holds no argument that looks like an option of the runner itself
  (\<open>--mount\<close>, \<open>--name=...\<close>, \<open>--cidfile=...\<close>): such a command is executed, and its evidence is refused.
\<close>

theorem executed_runs_are_attested:
  assumes "steady_host E" and "execute_offline E a l = (Inr ev, l')"
  shows "\<exists>s. ru_verify_snapshot E [] (oa_snapshot_root a) = Inr s
    \<and> (fst (validate_offline_run_evidence E ev s (oa_image a) (oa_approved_image_digest a) None l') = Inr ev
        \<longleftrightarrow> no_runner_option (oa_command a))"
proof -
  from assms(2) obtain l1 s bound backend name l2 where "ru_verify_snapshot E l1 (oa_snapshot_root a) = Inr s"
      "controlled_run E a backend s (request_of a s bound (oa_command a)) (parent_of (sn_root s) @ [name]) l2 = (Inr ev, l')"
    by (rule executed_parts)
  moreover from this(2) have "ev_request ev = request_of a s bound (oa_command a)"
    by (rule controlled_Inr) (rule evidence_request)
  then have "rr_command (ev_request ev) = oa_command a" by (simp add: request_of_def)
  moreover have "ru_verify_snapshot E [] (oa_snapshot_root a) = ru_verify_snapshot E l1 (oa_snapshot_root a)"
    by (rule conjunct1 [OF assms(1) [unfolded steady_host_def], THEN spec, THEN spec, THEN spec])
  ultimately show ?thesis
    using executed_run_is_validated [OF assms executed_removes [OF assms(2)], of l1 s]
      attested_commands_hold_no_runner_option [of E ev s "oa_image a" "oa_approved_image_digest a" None l']
    by (intro exI [of _ s]) (auto simp: no_runner_option_def)
qed

section \<open>An honest run\<close>

definition demo_sha :: hash_fn where
  "demo_sha b = replicate 64 0x61"

definition demo_snapshot :: snapshot_evidence where
  "demo_snapshot =
     \<lparr>sn_root = [u ''/'', u ''s'', u ''snap''], sn_tree = [u ''/'', u ''s'', u ''snap'', u ''tree''],
      sn_manifest_path = [u ''/'', u ''s'', u ''snap'', u ''manifest.json''], sn_manifest_sha256 = replicate 64 0x62,
      sn_snapshot_sha256 = replicate 64 0x63, sn_commit_sha = replicate 40 0x64, sn_commit_tree_sha = replicate 40 0x65,
      sn_candidate_uid = 1000, sn_excluded_paths = []\<rparr>"

text \<open>What Podman reports, as the text of the value.\<close>

definition demo_payload :: json where
  "demo_payload = JObj [(u ''host'', JObj [(u ''security'', JObj [(u ''rootless'', JBool True), (u ''seccompEnabled'', JBool True),
     (u ''seccompProfilePath'', JStr (u ''p''))])])]"

definition demo_info :: bytes where
  "demo_info = map char_of (jprint demo_payload)"

definition demo_env :: runner_env where
  "demo_env =
     \<lparr>ru_sha = demo_sha, ru_casefold = (\<lambda>s. s), ru_verify_snapshot = (\<lambda>_ _. Inr demo_snapshot),
      ru_executable = (\<lambda>_ _. Inr ([u ''/'', u ''podman''], 493, replicate 64 0x66)), ru_resolve = Inr,
      ru_exists = (\<lambda>_ _. False), ru_is_symlink = (\<lambda>_ _. False), ru_guarded_parent = (\<lambda>_. Inr),
      ru_which = (\<lambda>_. Some [u ''/'', u ''podman'']),
      ru_info = (\<lambda>_ _. Inr (0, demo_info)),
      ru_control_name = (\<lambda>_. Inr (u ''.run-abcdefgh'')), ru_pipes = (\<lambda>_. Some ([Chunk False ''ok'', EndOf False, EndOf True], Some 0, 5000000)),
      ru_cidfile = (\<lambda>_ _. Inr (''0123456789ab'', 12)), ru_cleanup = (\<lambda>_. True), ru_unlink = (\<lambda>_. True), ru_time_ns = (\<lambda>_. 1)\<rparr>"

definition demo_args :: offline_args where
  "demo_args =
     \<lparr>oa_snapshot_root = [u ''/'', u ''s'', u ''snap''], oa_image = u ''img@sha256:'' @ replicate 64 0x61,
      oa_approved_image_digest = u ''sha256:'' @ replicate 64 0x61, oa_command = [u ''pytest''], oa_phase = u ''gate'',
      oa_acceptance_test_id = u ''A1'', oa_session_id = u ''ai-review-'' @ replicate 24 0x61, oa_task_sha256 = replicate 64 0x61,
      oa_candidate_sha256 = replicate 64 0x61, oa_source_snapshot_sha256 = replicate 64 0x63, oa_test_patch_sha256 = None,
      oa_test_manifest_sha256 = None, oa_candidate_snapshot_sha256 = None, oa_timeout_seconds = 60, oa_max_log_bytes = 1024\<rparr>"

lemma demo_steady: "steady_host demo_env"
  by (simp add: steady_host_def demo_env_def demo_snapshot_def plain_path_def is_commit_sha_def is_git_sha_def is_sha256_def
      lower_hex_def is_digit_def u_def is_control_directory_def lower_def numeral_eq_Suc)

lemma demo_info_read:
  "utf8_decode demo_info = Some (jprint demo_payload)" "length demo_info \<le> 64000"
  "json_loads plain_pairs c (jprint demo_payload) = Inr demo_payload"
proof -
  have clean: "jclean demo_payload" by (simp add: demo_payload_def clean_def u_def)
  then have "ascii (jprint demo_payload)" "length (jprint demo_payload) = jlen demo_payload" using jprint_clean by blast+
  then show "utf8_decode demo_info = Some (jprint demo_payload)" "length demo_info \<le> 64000"
    using utf8_decode_encode [OF utf8_encode_ascii] by (simp_all add: demo_info_def) (simp add: demo_payload_def)
  have "canon demo_payload" by (simp add: demo_payload_def u_def)
  then have "json_loads plain_pairs c (jprint demo_payload @ []) = Inr demo_payload" by (rule plain_hook.json_loads_print) simp
  then show "json_loads plain_pairs c (jprint demo_payload) = Inr demo_payload" by simp
qed

lemma demo_security: "podman_security demo_env demo_payload = Inr (True, True, u ''p'')"
  by (simp add: demo_env_def podman_security_def demo_payload_def subscript_def demand_def unconfined_def contains_def u_def)

lemma demo_fields [simp]:
  "ru_sha demo_env = demo_sha" "ru_casefold demo_env s = s" "ru_verify_snapshot demo_env l p = Inr demo_snapshot"
  "ru_executable demo_env l p = Inr ([u ''/'', u ''podman''], 493, replicate 64 0x66)" "ru_resolve demo_env p = Inr p"
  "ru_exists demo_env l p = False" "ru_is_symlink demo_env l p = False" "ru_guarded_parent demo_env l p = Inr p"
  "ru_which demo_env s = Some [u ''/'', u ''podman'']" "ru_info demo_env l s = Inr (0, demo_info)"
  "ru_control_name demo_env l = Inr (u ''.run-abcdefgh'')"
  "ru_pipes demo_env l = Some ([Chunk False ''ok'', EndOf False, EndOf True], Some 0, 5000000)"
  "ru_cidfile demo_env l p = Inr (''0123456789ab'', 12)" "ru_cleanup demo_env l" "ru_unlink demo_env l" "ru_time_ns demo_env l = 1"
  by (simp_all add: demo_env_def)

lemma demo_probe: "probe_backend demo_env (u ''podman'') l = (Inr (True, True, u ''p''), l @ [ProbedRuntime])"
  by (simp add: probe_backend_def Let_def demo_info_read demo_security)

lemma digest_json:
  assumes "jclean v"
  shows "bindE (offline_json v) (\<lambda>b. Inr (demo_sha (t @ b))) = Inr (replicate 64 0x61)"
    and "bindE (offline_json v) (\<lambda>b. Inr (demo_sha b)) = Inr (replicate 64 0x61)"
proof -
  obtain s where s: "dumps v = Some s" "ascii s" "length s = jlen v" by (rule dumps_clean [OF assms])
  then have "ascii (s @ [0x0A])" by (simp add: ascii_def)
  then show "bindE (offline_json v) (\<lambda>b. Inr (demo_sha (t @ b))) = Inr (replicate 64 0x61)"
    "bindE (offline_json v) (\<lambda>b. Inr (demo_sha b)) = Inr (replicate 64 0x61)"
    using s by (simp_all add: offline_json_def utf8_encode_ascii demo_sha_def)
qed

definition demo_backend :: container_backend where
  "demo_backend =
     \<lparr>cb_name = u ''podman'', cb_executable = [u ''/'', u ''podman''], cb_rootless = True, cb_user_namespace = True,
      cb_seccomp_enabled = True, cb_seccomp_profile = u ''p'', cb_sha256 = replicate 64 0x66,
      cb_security_evidence_sha256 = replicate 64 0x61\<rparr>"

lemma demo_security_digest: "security_evidence_sha256 demo_sha (u ''podman'') True True (u ''p'') = Inr (replicate 64 0x61)"
  unfolding security_evidence_sha256_def by (rule digest_json(2)) (simp add: clean_def u_def)

lemma demo_confined: "\<not> unconfined demo_env (u ''p'')" "u ''p'' \<noteq> []"
  by (simp_all add: unconfined_def contains_def u_def)

lemma demo_validate:
  "cb_name b = u ''podman'' \<Longrightarrow> cb_rootless b \<Longrightarrow> cb_user_namespace b \<Longrightarrow> cb_seccomp_enabled b \<Longrightarrow> cb_seccomp_profile b = u ''p''
     \<Longrightarrow> cb_sha256 b = [] \<or> cb_sha256 b = replicate 64 0x66
     \<Longrightarrow> cb_security_evidence_sha256 b = [] \<or> cb_security_evidence_sha256 b = replicate 64 0x61
     \<Longrightarrow> validate_backend demo_env b l = (Inr demo_backend, l)"
  by (cases b) (simp add: validate_backend_def demo_security_digest demand_def SUPPORTED_BACKENDS_def demo_backend_def demo_confined)

lemma demo_detect: "detect_container_backend demo_env l = (Inr demo_backend, l @ [ProbedRuntime])"
  by (simp add: detect_container_backend_def SUPPORTED_BACKENDS_def catch_runner_def bindS_def demo_probe demo_validate liftS_def)

lemma demo_build:
  "build_offline_container_argv demo_env demo_backend demo_snapshot (oa_image demo_args) (oa_approved_image_digest demo_args)
     (oa_command demo_args) (Some (oa_session_id demo_args, [u ''/'', u ''s'', u ''.run-abcdefgh'', u ''container.cid''])) l
   = (Inr (compose_offline_container_argv demo_backend [u ''/'', u ''s'', u ''snap'', u ''tree''] (oa_image demo_args) (oa_command demo_args)
       (Some (oa_session_id demo_args, [u ''/'', u ''s'', u ''.run-abcdefgh'', u ''container.cid'']))), l)"
proof -
  have "validate_backend demo_env demo_backend l = (Inr demo_backend, l)" by (rule demo_validate) (simp_all add: demo_backend_def)
  moreover have "validate_image (oa_image demo_args) (oa_approved_image_digest demo_args) = Inr ()"
    by (simp add: validate_image_def image_digest_def demo_args_def is_digest_def is_sha256_def u_def alnum_def upper_def lower_def
        is_digit_def lower_hex_def demand_def Let_def list_all_iff)
  moreover have "validate_offline_command (oa_command demo_args) = Inr (oa_command demo_args)"
    by (simp add: validate_offline_command_def demo_args_def demand_def u_def)
  moreover have "is_container_name (oa_session_id demo_args)"
    by (simp add: is_container_name_def demo_args_def u_def lower_hex_def is_digit_def list_all_iff)
  moreover have "set (path_text (sn_tree demo_snapshot)) \<inter> MOUNT_FORBIDDEN = {}"
    by (simp add: demo_snapshot_def path_text_def u_def MOUNT_FORBIDDEN_def)
  ultimately show ?thesis
    by (simp add: build_offline_container_argv_def bindS_def liftS_def verified_snapshot_def demand_def parent_of_def is_absolute_def)
      (simp add: demo_snapshot_def)
qed

definition demo_argv :: "pystr list" where
  "demo_argv = compose_offline_container_argv demo_backend [u ''/'', u ''s'', u ''snap'', u ''tree''] (oa_image demo_args) (oa_command demo_args)
     (Some (oa_session_id demo_args, [u ''/'', u ''s'', u ''.run-abcdefgh'', u ''container.cid'']))"

lemma demo_argv_clean: "list_all clean demo_argv"
  by (simp add: demo_argv_def compose_offline_container_argv_def control_arguments_def ISOLATION_ARGUMENTS_def LIMIT_ARGUMENTS_def
      user_namespace_argv_def MOUNT_PREFIX_def MOUNT_SUFFIX_def demo_backend_def demo_args_def path_text_def clean_def list_all_iff u_def)

definition demo_request :: run_request where
  "demo_request = request_of demo_args demo_snapshot (replicate 64 0x63) (oa_command demo_args)"

definition demo_result :: bounded_result where
  "demo_result =
     \<lparr>br_exit_code = 0, br_stdout = ''ok'', br_stderr = [], br_stdout_sha256 = replicate 64 0x61, br_stderr_sha256 = replicate 64 0x61,
      br_duration_ms = 5\<rparr>"

lemma demo_digests:
  "request_digest demo_sha demo_request = Inr (replicate 64 0x61)"
  "argv_digest demo_sha demo_argv = Inr (replicate 64 0x61)"
  "offline_log_sha256 demo_sha ''ok'' [] = Inr (replicate 64 0x61)"
  "failure_fingerprint_sha256 demo_sha 0 ''ok'' [] = Inr (replicate 64 0x61)"
  "execution_response_sha256 demo_sha 0 ''ok'' [] (u ''0123456789ab'') True False = Inr (replicate 64 0x61)"
proof -
  have "jclean (run_request_json demo_request)"
    by (simp add: run_request_json_def demo_request_def request_of_def demo_args_def demo_snapshot_def jstr_or_null_def clean_def list_all_iff u_def)
  then show "request_digest demo_sha demo_request = Inr (replicate 64 0x61)" unfolding request_digest_def by (rule digest_json(2))
  have "jclean (JArr (map JStr demo_argv))" using demo_argv_clean by (simp add: list_all_iff)
  then show "argv_digest demo_sha demo_argv = Inr (replicate 64 0x61)" unfolding argv_digest_def by (rule digest_json(2))
  have streams: "jclean (JObj (stream_binding demo_sha ''ok'' []))"
    by (simp add: stream_binding_def demo_sha_def clean_def list_all_iff u_def)
  show "offline_log_sha256 demo_sha ''ok'' [] = Inr (replicate 64 0x61)"
    unfolding offline_log_sha256_def by (rule digest_json(2)) (rule streams)
  show "failure_fingerprint_sha256 demo_sha 0 ''ok'' [] = Inr (replicate 64 0x61)"
    unfolding failure_fingerprint_sha256_def
    by (rule digest_json(1)) (simp add: stream_binding_def demo_sha_def clean_def list_all_iff u_def)
  have "is_container_id (u ''0123456789ab'')" by (simp add: is_container_id_def u_def lower_hex_def is_digit_def)
  then show "execution_response_sha256 demo_sha 0 ''ok'' [] (u ''0123456789ab'') True False = Inr (replicate 64 0x61)"
    unfolding execution_response_sha256_def demand_def
    by (simp only: guardE_simps bindE_simps)
      (rule digest_json(1), simp add: stream_binding_def demo_sha_def clean_def list_all_iff u_def)
qed

lemma demo_container:
  "run_container demo_env 1024 argv cidfile l
     = (Inr (demo_result, u ''0123456789ab''), l @ [Started argv, CleanedContainer, RemovedControlDirectory])"
proof -
  have "ascii_decode ''0123456789ab'' = Some (u ''0123456789ab'')" "strip (u ''0123456789ab'') = u ''0123456789ab''"
    "is_container_id (u ''0123456789ab'')" by code_simp+
  then show ?thesis
    by (simp add: run_container_def run_bounded_def read_container_id_def demo_result_def demo_sha_def demand_def Let_def)
qed

lemma demo_executed: "\<exists>ev l'. execute_offline demo_env demo_args [] = (Inr ev, l')"
proof -
  have "check_arguments demo_args = Inr ()"
    by (simp add: check_arguments_def demo_args_def PHASE_NAMES_def is_upper_id_def is_container_name_def is_sha256_def lower_hex_def
        is_digit_def demand_def upper_def list_all_iff u_def)
  moreover have "bound_candidate demo_args demo_snapshot = Inr (replicate 64 0x63)"
    by (simp add: bound_candidate_def demo_args_def demo_snapshot_def demand_def u_def)
  moreover have "validate_offline_command (oa_command demo_args) = Inr (oa_command demo_args)"
    by (simp add: validate_offline_command_def demo_args_def demand_def u_def)
  moreover have "make_control_directory demo_env demo_snapshot l = (Inr [u ''/'', u ''s'', u ''.run-abcdefgh''], l @ [MadeControlDirectory])" for l
    by (simp add: make_control_directory_def demo_snapshot_def parent_of_def)
  moreover have "rr_command demo_request = oa_command demo_args" "oa_max_log_bytes demo_args = 1024"
    by (simp_all add: demo_request_def request_of_def demo_args_def)
  moreover have "\<exists>ev l'. attest_result demo_env demo_backend demo_request demo_argv 1 (demo_result, u ''0123456789ab'') l = (Inr ev, l')" for l
    using demo_digests
    by (simp add: attest_result_def evidence_of_def bindS_def liftS_def demo_probe demo_security_digest demo_backend_def demo_result_def demo_sha_def
        demand_def Let_def)
  ultimately show ?thesis
    using demo_build
    by (simp add: execute_offline_def controlled_run_def bindS_def liftS_def demo_detect verified_snapshot_def or_remove_directory_def
        demo_container demo_argv_def [symmetric] demo_request_def [symmetric] Let_def)
qed

theorem executed_runs_are_attested_witness:
  "\<exists>ev l' s. execute_offline demo_env demo_args [] = (Inr ev, l')
     \<and> fst (validate_offline_run_evidence demo_env ev s (oa_image demo_args) (oa_approved_image_digest demo_args) None l') = Inr ev"
proof -
  obtain ev l' where run: "execute_offline demo_env demo_args [] = (Inr ev, l')" using demo_executed by blast
  moreover have "no_runner_option (oa_command demo_args)"
    by (simp add: no_runner_option_def demo_args_def starts_with_def u_def)
  ultimately show ?thesis using executed_runs_are_attested [OF demo_steady run] by blast
qed

end
