(* ===== verification/Offline_Facts.thy ===== *)
theory Offline_Facts
  imports Offline_Protocol
begin

text \<open>
  The documents of the offline phase: a plan or an evidence batch that is accepted is exactly the
  document of what was read, and a document determines what is read from it.
\<close>

section \<open>Readers accept only what they return\<close>

lemma read_string_Inr: "read_string label m v = Inr s \<Longrightarrow> v = JStr s \<and> s \<noteq> [] \<and> 0 \<notin> set s"
  by (auto simp: read_string_def Let_def split: json.splits if_splits option.splits)

lemma read_sha_Inr: "read_sha label v = Inr s \<Longrightarrow> v = JStr s \<and> is_sha256 s"
  by (auto simp: read_sha_def result_simps dest: read_string_Inr)

lemma read_optional_sha_Inr: "read_optional_sha label v = Inr s \<Longrightarrow> v = jstr_or_null s"
  by (auto simp: read_optional_sha_def jstr_or_null_def result_simps split: if_splits dest: read_sha_Inr)

lemma read_int_Inr: "read_int label lo hi v = Inr i \<Longrightarrow> v = JInt i \<and> lo \<le> i \<and> i \<le> hi"
  by (auto simp: read_int_def split: json.splits if_splits)

lemma read_bool_Inr: "read_bool label v = Inr b \<Longrightarrow> v = JBool b"
  by (auto simp: read_bool_def split: json.splits)

lemma mapE_read_string: "mapE (read_string label m) items = Inr xs \<Longrightarrow> items = map JStr xs"
  by (induction items arbitrary: xs) (auto simp: result_simps dest: read_string_Inr)

lemma read_strings_Inr: "read_strings label m v = Inr xs \<Longrightarrow> v = JArr (map JStr xs) \<and> xs \<noteq> [] \<and> length xs \<le> m"
  by (auto simp: read_strings_def Let_def result_simps split: json.splits dest: mapE_read_string mapE_length)

lemma snapshot_ref_Inr: "snapshot_ref v = Inr s \<Longrightarrow> v = JStr s"
  by (auto simp: snapshot_ref_def result_simps dest: read_string_Inr)

lemma decoded_bytes_Inr: "decoded_bytes label m v = Inr b \<Longrightarrow> v = JStr (b64encode b) \<and> length b \<le> m"
  by (auto simp: decoded_bytes_def Let_def split: json.splits if_splits option.splits)

lemmas readers_Inr = read_string_Inr read_sha_Inr read_optional_sha_Inr read_int_Inr read_bool_Inr read_strings_Inr
  snapshot_ref_Inr decoded_bytes_Inr

lemma offline_exact_Inr: "offline_exact label names v = Inr d \<longleftrightarrow> v = JObj d \<and> set (map fst d) = set (map u names)"
  by (simp add: offline_exact_def exact_dict_Inr)

lemma opp_Inr [result_simps]: "opp b m = Inr x \<longleftrightarrow> b"
  by (simp add: opp_def result_simps)

lemma mapE_jsort:
  "mapE f items = Inr rs \<Longrightarrow> (\<And>v r. v \<in> set items \<Longrightarrow> f v = Inr r \<Longrightarrow> jsort v = jsort (g r))
     \<Longrightarrow> map jsort items = map (\<lambda>r. jsort (g r)) rs"
proof (induction items arbitrary: rs)
  case (Cons v items)
  from Cons.prems(1) obtain r rs' where r: "f v = Inr r" "mapE f items = Inr rs'" "rs = r # rs'" by (auto simp: result_simps)
  have "jsort v = jsort (g r)" by (rule Cons.prems(2) [OF _ r(1)]) simp
  moreover have "map jsort items = map (\<lambda>r. jsort (g r)) rs'"
    by (rule Cons.IH [OF r(2)]) (rule Cons.prems(2), simp_all)
  ultimately show ?case using r(3) by simp
qed simp

lemma read_runs_exact:
  assumes "read_runs m f v = Inr rs" and "keyed v" and "\<And>v r. f v = Inr r \<Longrightarrow> keyed v \<Longrightarrow> jsort v = jsort (g r)"
  shows "jsort v = jsort (JArr (map g rs))" and "v \<noteq> JNull"
proof -
  from assms(1) obtain items where i: "v = JArr items" "mapE f items = Inr rs"
    by (auto simp: read_runs_def result_simps split: json.splits)
  have "map jsort items = map (\<lambda>r. jsort (g r)) rs"
    by (rule mapE_jsort [OF i(2)]) (rule assms(3), use i(1) assms(2) in \<open>auto simp: list_all_iff\<close>)
  with i show "jsort v = jsort (JArr (map g rs))" "v \<noteq> JNull" by (simp_all add: comp_def)
qed

section \<open>Plans\<close>

lemma prepared_run_exact:
  assumes "prepared_run_from_dict v = Inr r" and "keyed v"
  shows "jsort v = jsort (prepared_run_dict r)"
proof -
  from assms(1) obtain d where d: "v = JObj d" "set (map fst d) = set (map u prepared_run_fields)"
      "made_of d [(''acceptance_test_id'', JStr (pn_acceptance_test_id r)),
       (''candidate_snapshot_sha256'', JStr (pn_candidate_snapshot_sha256 r)), (''command'', JArr (map JStr (pn_command r))),
       (''execution_snapshot_sha256'', JStr (pn_execution_snapshot_sha256 r)), (''ordinal'', JInt (pn_ordinal r)),
       (''phase'', JStr (pn_phase r)), (''session_id'', JStr (pn_session_id r)), (''snapshot_ref'', JStr (pn_snapshot_ref r)),
       (''source_snapshot_sha256'', JStr (pn_source_snapshot_sha256 r)),
       (''test_manifest_sha256'', jstr_or_null (pn_test_manifest_sha256 r)),
       (''test_patch_sha256'', jstr_or_null (pn_test_patch_sha256 r))]"
    by (auto simp: prepared_run_from_dict_def result_simps offline_exact_Inr simp del: jsort.simps dest!: readers_Inr)
  have "jsort (JObj d) = jsort (prepared_run_dict r)"
    using jsort_fields [OF _ d(2,3)] assms(2) d(1) by (simp add: prepared_run_fields_def prepared_run_dict_def del: jsort.simps)
  with d(1) show ?thesis by simp
qed

lemma parse_prepared_exact:
  assumes "parse_prepared_offline_batch sha raw = Inr b"
  shows "batch_bytes b = Inr raw"
proof -
  from assms obtain v d where v: "offline_strict ''prepared offline batch'' 2000000 raw = Inr v" "v = JObj d"
      "set (map fst d) = set (map u prepared_batch_fields)"
      "read_runs ''prepared offline batch has an invalid run count'' prepared_run_from_dict (fld d ''runs'') = Inr (pb_runs b)"
      "fld d ''schema_version'' = JStr (pb_schema_version b)" "fld d ''image'' = JStr (pb_image b)"
      "fld d ''approved_image_digest'' = JStr (pb_approved_image_digest b)" "fld d ''workflow_id'' = JStr (pb_workflow_id b)"
      "fld d ''request_sha256'' = JStr (pb_request_sha256 b)" "fld d ''task_sha256'' = JStr (pb_task_sha256 b)"
      "fld d ''candidate_sha256'' = JStr (pb_candidate_sha256 b)"
      "fld d ''candidate_snapshot_sha256'' = JStr (pb_candidate_snapshot_sha256 b)"
      "fld d ''timeout_seconds'' = JInt (pb_timeout_seconds b)" "fld d ''max_log_bytes'' = JInt (pb_max_log_bytes b)"
      "fld d ''batch_sha256'' = JStr (pb_batch_sha256 b)"
    by (auto simp: parse_prepared_offline_batch_def result_simps offline_exact_Inr Let_def dest!: readers_Inr)
  have k: "keyed v" using read_line_keyed v(1) by (auto simp: offline_strict_def)
  then have kr: "keyed (fld d ''runs'')" using fld_keyed v(2) by blast
  have runs: "jsort (fld d ''runs'') = jsort (JArr (map prepared_run_dict (pb_runs b)))"
    by (rule read_runs_exact(1) [OF v(4) kr]) (rule prepared_run_exact)
  have "jsort (JObj d) = jsort (batch_dict b)"
    using jsort_fields [OF _ v(3), of "[(''approved_image_digest'', JStr (pb_approved_image_digest b)),
        (''candidate_sha256'', JStr (pb_candidate_sha256 b)), (''candidate_snapshot_sha256'', JStr (pb_candidate_snapshot_sha256 b)),
        (''image'', JStr (pb_image b)), (''max_log_bytes'', JInt (pb_max_log_bytes b)),
        (''request_sha256'', JStr (pb_request_sha256 b)), (''runs'', JArr (map prepared_run_dict (pb_runs b))),
        (''schema_version'', JStr (pb_schema_version b)), (''task_sha256'', JStr (pb_task_sha256 b)),
        (''timeout_seconds'', JInt (pb_timeout_seconds b)), (''workflow_id'', JStr (pb_workflow_id b)),
        (''batch_sha256'', JStr (pb_batch_sha256 b))]"] k v runs
    by (simp add: prepared_batch_fields_def batch_dict_def batch_pairs_def insert_commute del: jsort.simps)
  then have "offline_canonical (batch_dict b) = offline_canonical v"
    unfolding offline_canonical_def v(2) by (intro encode_line_cong) simp
  also have "\<dots> = Inr raw" using read_line_Inr(3) v(1) by (auto simp: offline_strict_def offline_canonical_def)
  finally show ?thesis by (simp add: batch_bytes_def)
qed

section \<open>Evidence\<close>

lemma request_exact:
  assumes "request_from_dict v = Inr r" and "keyed v"
  shows "jsort v = jsort (run_request_json r)"
proof -
  from assms(1) obtain d where d: "v = JObj d" "set (map fst d) = set (map u run_request_fields)"
      "made_of d [(''acceptance_test_id'', JStr (rr_acceptance_test_id r)), (''candidate_sha256'', JStr (rr_candidate_sha256 r)),
       (''candidate_snapshot_sha256'', JStr (rr_candidate_snapshot_sha256 r)), (''command'', JArr (map JStr (rr_command r))),
       (''execution_snapshot_sha256'', JStr (rr_execution_snapshot_sha256 r)), (''phase'', JStr (rr_phase r)),
       (''runner_image_digest'', JStr (rr_runner_image_digest r)), (''session_id'', JStr (rr_session_id r)),
       (''source_commit_sha'', JStr (rr_source_commit_sha r)), (''source_commit_tree_sha'', JStr (rr_source_commit_tree_sha r)),
       (''source_snapshot_sha256'', JStr (rr_source_snapshot_sha256 r)), (''task_sha256'', JStr (rr_task_sha256 r)),
       (''test_patch_sha256'', jstr_or_null (rr_test_patch_sha256 r)),
       (''test_manifest_sha256'', jstr_or_null (rr_test_manifest_sha256 r))]"
    by (auto simp: request_from_dict_def result_simps offline_exact_Inr simp del: jsort.simps dest!: readers_Inr)
  have "jsort (JObj d) = jsort (run_request_json r)"
    using jsort_fields [OF _ d(2,3)] assms(2) d(1)
    by (simp add: run_request_fields_def run_request_json_def insert_commute del: jsort.simps)
  with d(1) show ?thesis by simp
qed

lemma evidence_exact:
  assumes "offline_evidence_from_dict v = Inr ev" and "keyed v"
  shows "jsort v = jsort (offline_evidence_dict ev)"
proof -
  from assms(1) obtain d where d: "v = JObj d" "set (map fst d) = set (map u evidence_fields)"
      "request_from_dict (fld d ''request'') = Inr (ev_request ev)"
    and f: "fld d ''argv'' = JArr (map JStr (ev_argv ev))" "fld d ''argv_sha256'' = JStr (ev_argv_sha256 ev)"
       "fld d ''cleanup_succeeded'' = JBool (ev_cleanup_succeeded ev)" "fld d ''container_id'' = JStr (ev_container_id ev)"
       "fld d ''duration_ms'' = JInt (ev_duration_ms ev)" "fld d ''exit_code'' = JInt (ev_exit_code ev)"
       "fld d ''failure_fingerprint_sha256'' = JStr (ev_failure_fingerprint_sha256 ev)"
       "fld d ''log_base64'' = JStr (b64encode (ev_log ev))" "fld d ''log_sha256'' = JStr (ev_log_sha256 ev)"
       "fld d ''log_truncated'' = JBool (ev_log_truncated ev)"
       "fld d ''request_sha256'' = JStr (ev_request_sha256 ev)" "fld d ''response_sha256'' = JStr (ev_response_sha256 ev)"
       "fld d ''runner_image_digest'' = JStr (ev_runner_image_digest ev)" "fld d ''runtime_name'' = JStr (ev_runtime_name ev)"
       "fld d ''runtime_rootless'' = JBool (ev_runtime_rootless ev)"
       "fld d ''runtime_seccomp_profile'' = JStr (ev_runtime_seccomp_profile ev)"
       "fld d ''runtime_security_sha256'' = JStr (ev_runtime_security_sha256 ev)" "fld d ''runtime_sha256'' = JStr (ev_runtime_sha256 ev)"
       "fld d ''runtime_user_namespace'' = JBool (ev_runtime_user_namespace ev)" "fld d ''snapshot_sha256'' = JStr (ev_snapshot_sha256 ev)"
       "fld d ''started_unix_ns'' = JInt (ev_started_unix_ns ev)" "fld d ''stderr_base64'' = JStr (b64encode (ev_stderr ev))"
       "fld d ''stderr_bytes'' = JInt (ev_stderr_bytes ev)" "fld d ''stderr_sha256'' = JStr (ev_stderr_sha256 ev)"
       "fld d ''stdout_base64'' = JStr (b64encode (ev_stdout ev))" "fld d ''stdout_bytes'' = JInt (ev_stdout_bytes ev)"
       "fld d ''stdout_sha256'' = JStr (ev_stdout_sha256 ev)"
    by (auto simp: offline_evidence_from_dict_def result_simps offline_exact_Inr dest!: readers_Inr)
  have req: "jsort (fld d ''request'') = jsort (run_request_json (ev_request ev))"
    using request_exact [OF d(3)] fld_keyed assms(2) d(1) by blast
  define es where "es = [(''argv'', JArr (map JStr (ev_argv ev))), (''argv_sha256'', JStr (ev_argv_sha256 ev)),
       (''cleanup_succeeded'', JBool (ev_cleanup_succeeded ev)), (''container_id'', JStr (ev_container_id ev)),
       (''duration_ms'', JInt (ev_duration_ms ev)), (''exit_code'', JInt (ev_exit_code ev)),
       (''failure_fingerprint_sha256'', JStr (ev_failure_fingerprint_sha256 ev)),
       (''log_base64'', JStr (b64encode (ev_log ev))), (''log_sha256'', JStr (ev_log_sha256 ev)),
       (''log_truncated'', JBool (ev_log_truncated ev)), (''request'', run_request_json (ev_request ev)),
       (''request_sha256'', JStr (ev_request_sha256 ev)), (''response_sha256'', JStr (ev_response_sha256 ev)),
       (''runner_image_digest'', JStr (ev_runner_image_digest ev)), (''runtime_name'', JStr (ev_runtime_name ev)),
       (''runtime_rootless'', JBool (ev_runtime_rootless ev)),
       (''runtime_seccomp_profile'', JStr (ev_runtime_seccomp_profile ev)),
       (''runtime_security_sha256'', JStr (ev_runtime_security_sha256 ev)), (''runtime_sha256'', JStr (ev_runtime_sha256 ev)),
       (''runtime_user_namespace'', JBool (ev_runtime_user_namespace ev)), (''snapshot_sha256'', JStr (ev_snapshot_sha256 ev)),
       (''started_unix_ns'', JInt (ev_started_unix_ns ev)), (''stderr_base64'', JStr (b64encode (ev_stderr ev))),
       (''stderr_bytes'', JInt (ev_stderr_bytes ev)), (''stderr_sha256'', JStr (ev_stderr_sha256 ev)),
       (''stdout_base64'', JStr (b64encode (ev_stdout ev))), (''stdout_bytes'', JInt (ev_stdout_bytes ev)),
       (''stdout_sha256'', JStr (ev_stdout_sha256 ev))]"
  have keys: "map fst es = evidence_fields" by (simp add: es_def evidence_fields_def)
  have "made_of d es" unfolding es_def by (simp only: made_of_simps f req simp_thms)
  then have "jsort (JObj d) = jsort (JObj (map (\<lambda>(k, w). (u k, w)) es))"
    using assms(2) d(1,2) by (intro jsort_fields) (simp_all add: keys, simp add: evidence_fields_def)
  then show ?thesis by (simp only: d(1) es_def offline_evidence_dict_def list.map prod.case)
qed

lemma parse_outer_exact:
  assumes "parse_outer_offline_evidence sha raw = Inr b"
  shows "outer_bytes b = Inr raw"
proof -
  from assms obtain v d where v: "offline_strict ''outer offline evidence'' 6000000 raw = Inr v" "v = JObj d"
      "set (map fst d) = set (map u outer_fields)"
      "read_runs ''outer offline evidence run count is invalid'' offline_evidence_from_dict (fld d ''runs'') = Inr (ob_runs b)"
      "fld d ''schema_version'' = JStr (ob_schema_version b)" "fld d ''evidence_sha256'' = JStr (ob_evidence_sha256 b)"
      "fld d ''prepared_batch_sha256'' = JStr (ob_prepared_batch_sha256 b)"
    by (auto simp: parse_outer_offline_evidence_def result_simps offline_exact_Inr Let_def dest!: readers_Inr)
  have k: "keyed v" using read_line_keyed v(1) by (auto simp: offline_strict_def)
  then have kr: "keyed (fld d ''runs'')" using fld_keyed v(2) by blast
  have runs: "jsort (fld d ''runs'') = jsort (JArr (map offline_evidence_dict (ob_runs b)))"
    by (rule read_runs_exact(1) [OF v(4) kr]) (rule evidence_exact)
  have "jsort (JObj d) = jsort (JObj (outer_pairs b @ [(u ''evidence_sha256'', JStr (ob_evidence_sha256 b))]))"
    using jsort_fields [OF _ v(3), of "[(''prepared_batch_sha256'', JStr (ob_prepared_batch_sha256 b)),
        (''runs'', JArr (map offline_evidence_dict (ob_runs b))), (''schema_version'', JStr (ob_schema_version b)),
        (''evidence_sha256'', JStr (ob_evidence_sha256 b))]"] k v runs
    by (simp add: outer_fields_def outer_pairs_def insert_commute del: jsort.simps)
  then have "outer_bytes b = offline_canonical v"
    unfolding outer_bytes_def offline_canonical_def v(2) by (intro encode_line_cong) simp
  also have "\<dots> = Inr raw" using read_line_Inr(3) v(1) by (auto simp: offline_strict_def offline_canonical_def)
  finally show ?thesis .
qed

section \<open>Documents and what they hold\<close>

text \<open>
  A reader that accepts only what its writer writes. Writing and checking, as the modules do it,
  then accepts exactly the objects that can be read.
\<close>

locale exact_reader =
  fixes read_doc :: "bytes \<Rightarrow> 'e + 'a" and write_doc :: "'a \<Rightarrow> 'e + bytes"
  assumes read_exact: "read_doc raw = Inr x \<Longrightarrow> write_doc x = Inr raw"
begin

lemma checked_write: "bindE (write_doc x) (\<lambda>raw. bindE (read_doc raw) (\<lambda>y. bindE (guardE (y = x) e) (\<lambda>_. Inr raw))) = Inr r
    \<longleftrightarrow> read_doc r = Inr x"
  using read_exact by (auto simp: result_simps)

lemma one_document: "read_doc r = Inr x \<Longrightarrow> read_doc r' = Inr x \<Longrightarrow> r = r'"
  by (metis read_exact sum.inject(2))

end

interpretation prepared_doc: exact_reader "parse_prepared_offline_batch sha" batch_bytes for sha
  by unfold_locales (rule parse_prepared_exact)

interpretation outer_doc: exact_reader "parse_outer_offline_evidence sha" outer_bytes for sha
  by unfold_locales (rule parse_outer_exact)

text \<open>
  Plans have one document. The bytes that are parsed as a plan are exactly the bytes the module
  writes for that plan, and the plans it agrees to write are exactly those that parse.
\<close>

theorem prepared_batch_has_one_document:
  "parse_prepared_offline_batch sha raw = Inr batch \<longleftrightarrow> canonical_prepared_offline_batch_bytes sha batch = Inr raw"
  unfolding canonical_prepared_offline_batch_bytes_def opp_def by (rule prepared_doc.checked_write [symmetric])

text \<open>
  Evidence has one document: the bytes parsed as the evidence of a batch, with the raw streams of
  every run, are exactly the bytes the module writes for it, and no other evidence can be written.
\<close>

theorem outer_evidence_has_one_document:
  "parse_outer_offline_evidence sha raw = Inr batch \<longleftrightarrow> canonical_outer_offline_evidence_bytes sha batch = Inr raw"
  unfolding canonical_outer_offline_evidence_bytes_def opp_def by (rule outer_doc.checked_write [symmetric])

end
