(* ===== verification/Offline_Documents.thy ===== *)
theory Offline_Documents
  imports Offline_Facts
begin

text \<open>
  How large the output of a run may be: the evidence of a run is a document of at most 2,100,000
  bytes that holds the two streams and their presentation, each in base64.
\<close>

section \<open>The size of an object\<close>

definition string_size :: "json \<Rightarrow> nat" where
  "string_size v = (case v of JStr s \<Rightarrow> length s | _ \<Rightarrow> 0)"

lemma string_size_jsort: "string_size (jsort v) = string_size v"
  by (cases v) (simp_all add: string_size_def)

lemma string_size_print: "string_size v \<le> length (jprint v)"
  by (cases v) (simp_all add: string_size_def le_trans [OF le_add1 length_json_string])

lemma object_size: "sum_list (map (string_size \<circ> snd) d) \<le> length (jprint (jsort (JObj d)))"
proof -
  let ?m = "map (\<lambda>(k, v). (k, jsort v)) d" and ?p = "\<lambda>(k, v). json_string k @ 0x3A # jprint v"
  have same: "map (string_size \<circ> snd) d = map (string_size \<circ> snd) ?m" by (auto simp: string_size_jsort)
  have "sum_list (map (string_size \<circ> snd) d) = sum_list (map (string_size \<circ> snd) (sort_key fst ?m))"
    unfolding same by (simp only: mset_map mset_sort sum_mset_sum_list [symmetric])
  also have "\<dots> \<le> sum_list (map (length \<circ> ?p) (sort_key fst ?m))"
  proof (rule sum_list_mono)
    fix p
    show "(string_size \<circ> snd) p \<le> (length \<circ> ?p) p"
      by (cases p) (simp add: le_trans [OF string_size_print] trans_le_add2)
  qed
  also have "\<dots> \<le> length (jprint (jsort (JObj d)))" by (simp add: length_join_with)
  finally show ?thesis .
qed

lemma encode_line_size:
  assumes "encode_line e (JObj d) = Inr raw"
  shows "sum_list (map (string_size \<circ> snd) d) \<le> length raw"
proof -
  from assms obtain s where "s = jprint (jsort (JObj d))" "utf8_encode (s @ [0x0A]) = Some raw"
    by (auto simp: encode_line_Inr dumps_def split: if_splits)
  with utf8_encode_longer object_size [of d] show ?thesis by fastforce
qed

text \<open>
  C30. The output a run may have. When the evidence of a run can be written, its two streams and its
  log are together at most three quarters of the 2,100,000 bytes of the document; a run whose log is
  the presentation of its streams, as every run that is executed, and whose streams have 787,500
  bytes or more, has evidence the module refuses to write, although its limit for a stream is one
  million bytes.
\<close>

theorem run_evidence_is_bounded:
  "case canonical_offline_run_evidence_bytes ev of
     Inl _ \<Rightarrow> True
   | Inr raw \<Rightarrow> length raw \<le> 2100000
       \<and> 4 * (length (ev_stdout ev) + length (ev_stderr ev) + length (ev_log ev)) \<le> 3 * length raw
       \<and> (if ev_log ev = presentation (ev_stdout ev) (ev_stderr ev) then length (ev_stdout ev) + length (ev_stderr ev) < 787500 else True)"
proof (cases "canonical_offline_run_evidence_bytes ev")
  case (Inr raw)
  then obtain v where c: "offline_canonical (offline_evidence_dict ev) = Inr raw"
      and "offline_strict ''offline run'' 2100000 raw = Inr v"
    by (auto simp: canonical_offline_run_evidence_bytes_def result_simps)
  then have "length raw \<le> 2100000" unfolding offline_strict_def by (blast dest: read_line_Inr(2))
  moreover have "length (b64encode (ev_stdout ev)) + length (b64encode (ev_stderr ev)) + length (b64encode (ev_log ev)) \<le> length raw"
    using encode_line_size [OF c [unfolded offline_canonical_def offline_evidence_dict_def]] by (simp add: string_size_def)
  then have "4 * (length (ev_stdout ev) + length (ev_stderr ev) + length (ev_log ev)) \<le> 3 * length raw"
    using length_b64encode_ge [of "ev_stdout ev"] length_b64encode_ge [of "ev_stderr ev"] length_b64encode_ge [of "ev_log ev"]
    by (simp add: algebra_simps)
  moreover have "length (presentation out err) = length out + length err + 19" for out err
    by (simp add: presentation_def)
  ultimately show ?thesis using Inr by (auto simp: not_less)
qed simp

end
