(* ===== verification/Broker_Entry.thy ===== *)
theory Broker_Entry
  imports Strict_Json State_Error Py_Unicode
begin

text \<open>
  \<open>tools/ai_review/broker_entry.py\<close>: the process in the broker's container. It reads one request,
  checks that it is canonical and has the approved form, sends it to the one API over the fixed
  gateway, and writes the answer as one canonical line. The network is an argument.
\<close>

section \<open>Canonical JSON without a line end\<close>

definition canonical_bytes :: "'e \<Rightarrow> json \<Rightarrow> 'e + bytes" where
  "canonical_bytes e v =
     (case dumps v of
        None \<Rightarrow> Inl e
      | Some s \<Rightarrow> (case utf8_encode s of None \<Rightarrow> Inl e | Some b \<Rightarrow> Inr b))"

text \<open>
  \<open>json.loads\<close> with the hook that refuses duplicate keys. The \<open>ValueError\<close> of an integer of too
  many digits is not a \<open>JSONDecodeError\<close>.
\<close>

definition loads_distinct :: "'e \<Rightarrow> 'e \<Rightarrow> 'e \<Rightarrow> pystr \<Rightarrow> 'e + json" where
  "loads_distinct duplicate bad too_long s =
     (case json_loads (distinct_pairs duplicate) plain_const s of
        Inl (JHook e) \<Rightarrow> Inl e
      | Inl JIntDigits \<Rightarrow> Inl too_long
      | Inl _ \<Rightarrow> Inl bad
      | Inr v \<Rightarrow> Inr v)"

definition has_keys :: "pydict \<Rightarrow> string list \<Rightarrow> bool" where
  "has_keys d names \<longleftrightarrow> set (map fst d) = set (map u names)"

section \<open>Requests\<close>

datatype broker_error = BrokerError pystr | BrokerTypeError | BrokerValueError

definition broker_err :: "string \<Rightarrow> broker_error" where
  "broker_err m = BrokerError (u m)"

definition brk :: "bool \<Rightarrow> string \<Rightarrow> broker_error + unit" where
  "brk b m = guardE b (broker_err m)"

definition FIXED_MODEL :: string where
  "FIXED_MODEL = ''gpt-5.6-sol''"

definition MAX_OUTPUT_TOKENS :: int where
  "MAX_OUTPUT_TOKENS = 12000"

definition MAX_REQUEST_BYTES :: nat where
  "MAX_REQUEST_BYTES = 2000000"

definition MAX_RESPONSE_BYTES :: nat where
  "MAX_RESPONSE_BYTES = 4000000"

definition REQUEST_KEYS :: "string list" where
  "REQUEST_KEYS = [''model'', ''input'', ''reasoning'', ''text'', ''tools'', ''store'', ''service_tier'', ''max_output_tokens'']"

text \<open>The membership test hashes the value, which a list or an object does not allow.\<close>

definition effort_allowed :: "json \<Rightarrow> broker_error + bool" where
  "effort_allowed v =
     (case v of
        JArr _ \<Rightarrow> Inl BrokerTypeError
      | JObj _ \<Rightarrow> Inl BrokerTypeError
      | JStr s \<Rightarrow> Inr (s = u ''high'' \<or> s = u ''xhigh'')
      | _ \<Rightarrow> Inr False)"

definition check_reasoning :: "json \<Rightarrow> broker_error + unit" where
  "check_reasoning v =
     (let bad = broker_err ''request reasoning configuration is not approved'' in
      case v of
        JObj d \<Rightarrow>
          bindE (guardE (has_keys d [''effort'', ''summary'']) bad) (\<lambda>_.
          bindE (effort_allowed (fld d ''effort'')) (\<lambda>allowed.
          guardE (allowed \<and> fld d ''summary'' = JStr (u ''none'')) bad))
      | _ \<Rightarrow> Inl bad)"

definition is_object :: "json \<Rightarrow> bool" where
  "is_object v = (case v of JObj _ \<Rightarrow> True | _ \<Rightarrow> False)"

definition output_format_ok :: "json \<Rightarrow> bool" where
  "output_format_ok v =
     (case v of
        JObj d \<Rightarrow> has_keys d [''type'', ''name'', ''strict'', ''schema''] \<and> fld d ''type'' = JStr (u ''json_schema'')
          \<and> fld d ''name'' = JStr (u ''review_report'') \<and> fld d ''strict'' = JBool True \<and> is_object (fld d ''schema'')
      | _ \<Rightarrow> False)"

definition check_text :: "json \<Rightarrow> broker_error + unit" where
  "check_text v =
     (case v of
        JObj d \<Rightarrow>
          bindE (brk (has_keys d [''verbosity'', ''format'']) ''request text configuration is invalid'') (\<lambda>_.
          bindE (brk (fld d ''verbosity'' = JStr (u ''low'')) ''request verbosity must be low'') (\<lambda>_.
          brk (output_format_ok (fld d ''format'')) ''request output schema contract is invalid''))
      | _ \<Rightarrow> Inl (broker_err ''request text configuration is invalid''))"

text \<open>A list of exactly one object.\<close>

definition one_object :: "json \<Rightarrow> pydict option" where
  "one_object v = (case v of JArr [JObj d] \<Rightarrow> Some d | _ \<Rightarrow> None)"

definition check_part :: "pydict \<Rightarrow> broker_error + unit" where
  "check_part d =
     brk (has_keys d [''type'', ''text''] \<and> fld d ''type'' = JStr (u ''input_text'')
         \<and> (case fld d ''text'' of JStr s \<Rightarrow> s \<noteq> [] \<and> 0 \<notin> set s | _ \<Rightarrow> False))
       ''request content must be non-empty text only''"

definition check_input :: "json \<Rightarrow> broker_error + unit" where
  "check_input v =
     (case one_object v of
        None \<Rightarrow> Inl (broker_err ''request must contain exactly one text-only user input'')
      | Some message \<Rightarrow>
          bindE (brk (has_keys message [''role'', ''content''] \<and> fld message ''role'' = JStr (u ''user''))
            ''request input role is invalid'') (\<lambda>_.
          case one_object (fld message ''content'') of
            None \<Rightarrow> Inl (broker_err ''request must contain exactly one text input part'')
          | Some part \<Rightarrow> check_part part))"

definition validate_broker_request :: "json \<Rightarrow> broker_error + json" where
  "validate_broker_request payload =
     (case payload of
        JObj d \<Rightarrow>
          bindE (brk (has_keys d REQUEST_KEYS) ''request contains missing or unknown fields'') (\<lambda>_.
          bindE (brk (fld d ''model'' = JStr (u FIXED_MODEL)) ''request model is not approved'') (\<lambda>_.
          bindE (brk (fld d ''tools'' = JArr []) ''request tools must be empty'') (\<lambda>_.
          bindE (brk (fld d ''store'' = JBool False) ''request store must be false'') (\<lambda>_.
          bindE (brk (fld d ''service_tier'' = JStr (u ''default'')) ''request service tier must use standard pricing'') (\<lambda>_.
          bindE (brk (case fld d ''max_output_tokens'' of JInt i \<Rightarrow> 1 \<le> i \<and> i \<le> MAX_OUTPUT_TOKENS | _ \<Rightarrow> False)
            ''request output token budget exceeds the approved limit'') (\<lambda>_.
          bindE (check_reasoning (fld d ''reasoning'')) (\<lambda>_.
          bindE (check_text (fld d ''text'')) (\<lambda>_.
          bindE (check_input (fld d ''input'')) (\<lambda>_.
          Inr payload)))))))))
      | _ \<Rightarrow> Inl (broker_err ''request contains missing or unknown fields''))"

definition canonical_request_bytes :: "json \<Rightarrow> broker_error + bytes" where
  "canonical_request_bytes payload =
     bindE (validate_broker_request payload) (\<lambda>validated.
     bindE (canonical_bytes (broker_err ''request contains a non-canonical JSON value'') validated) (\<lambda>raw.
     bindE (brk (length raw \<le> MAX_REQUEST_BYTES) ''request exceeds the byte limit'') (\<lambda>_. Inr raw)))"

definition ends_in :: "bytes \<Rightarrow> bytes \<Rightarrow> bool" where
  "ends_in raw s \<longleftrightarrow> length s \<le> length raw \<and> drop (length raw - length s) raw = s"

definition LF :: char where
  "LF = CHR 0x0A"

definition parse_canonical_request :: "bytes \<Rightarrow> broker_error + bytes" where
  "parse_canonical_request framed =
     bindE (brk (\<not> (ends_in framed [LF] \<and> (ends_in framed [LF, LF] \<or> ends_in framed [CHR 0x0D, LF])))
       ''request framing must contain exactly one LF byte'') (\<lambda>_.
     let raw = (if ends_in framed [LF] then butlast framed else framed) in
     bindE (brk (raw \<noteq> [] \<and> length raw \<le> MAX_REQUEST_BYTES) ''request is empty or exceeds the byte limit'') (\<lambda>_.
     case utf8_decode raw of
       None \<Rightarrow> Inl (broker_err ''request is not valid UTF-8 JSON'')
     | Some s \<Rightarrow>
         bindE (loads_distinct (broker_err ''JSON contains a duplicate key'') (broker_err ''request is not valid UTF-8 JSON'')
           BrokerValueError s) (\<lambda>payload.
         bindE (canonical_request_bytes payload) (\<lambda>canonical.
         bindE (brk (canonical = raw) ''request bytes are not in canonical form'') (\<lambda>_. Inr canonical)))))"

section \<open>The environment\<close>

definition FORBIDDEN_ENV_NAMES :: "pystr list" where
  "FORBIDDEN_ENV_NAMES = map u
     [''all_proxy'', ''aws_ca_bundle'', ''curl_ca_bundle'', ''dyld_insert_libraries'', ''http_proxy'', ''https_proxy'', ''ld_audit'',
      ''ld_library_path'', ''ld_preload'', ''netrc'', ''no_proxy'', ''openai_base_url'', ''pythonhome'', ''pythoninspect'',
      ''pythonpath'', ''pythonstartup'', ''requests_ca_bundle'', ''ssl_cert_dir'', ''ssl_cert_file'', ''sslkeylogfile'']"

definition visible_ascii :: "pystr \<Rightarrow> bool" where
  "visible_ascii s \<longleftrightarrow> list_all (\<lambda>c. 33 \<le> c \<and> c \<le> 126) s"

definition validated_environment :: "fold_fn \<Rightarrow> (pystr \<times> pystr) list \<Rightarrow> broker_error + pystr" where
  "validated_environment casefold environment =
     (let key = (case map_of environment (u ''OPENAI_API_KEY'') of None \<Rightarrow> [] | Some k \<Rightarrow> k) in
      bindE (brk (\<not> list_ex (\<lambda>(name, _). casefold name \<in> set FORBIDDEN_ENV_NAMES) environment)
        ''broker environment contains a forbidden override'') (\<lambda>_.
      bindE (brk (map_of environment (u ''AI_REVIEW_EXECUTE'') = Some (u ''1'') \<and> map_of environment (u ''AI_REVIEW_EXTERNAL_AI'') = Some (u ''1''))
        ''external AI requires two explicit execution opt-ins'') (\<lambda>_.
      bindE (brk (key \<noteq> [] \<and> length key \<le> 512 \<and> visible_ascii key) ''OPENAI_API_KEY is missing or invalid'') (\<lambda>_. Inr key))))"

section \<open>The exchange\<close>

definition parse_response :: "bytes \<Rightarrow> broker_error + pydict" where
  "parse_response raw =
     bindE (brk (raw \<noteq> [] \<and> length raw \<le> MAX_RESPONSE_BYTES) ''Responses API body is empty or exceeds the byte limit'') (\<lambda>_.
     case utf8_decode raw of
       None \<Rightarrow> Inl (broker_err ''Responses API returned invalid JSON'')
     | Some s \<Rightarrow>
         bindE (loads_distinct (broker_err ''JSON contains a duplicate key'') (broker_err ''Responses API returned invalid JSON'')
           BrokerValueError s) (\<lambda>payload.
         case payload of JObj d \<Rightarrow> Inr d | _ \<Rightarrow> Inl (broker_err ''Responses API returned a non-object JSON body'')))"

definition canonical_response_bytes :: "pydict \<Rightarrow> broker_error + bytes" where
  "canonical_response_bytes response =
     canonical_bytes (broker_err ''request contains a non-canonical JSON value'') (JObj response)"

record broker_result =
  bs_schema_version :: pystr
  bs_request_sha256 :: pystr
  bs_response_sha256 :: pystr
  bs_request_id :: pystr
  bs_response :: pydict

text \<open>
  The answer of the API: its status, the headers with their default of no text, and the whole body,
  of which one byte more than the limit is read. The transport may fail before there is a
  connection, while the request is sent, or while the body is read.
\<close>

record http_answer =
  ha_status :: int
  ha_content_type :: pystr
  ha_request_id :: pystr
  ha_body :: bytes

datatype transport = NoConnection | SendFailed | ReadFailed http_answer | Answered http_answer

text \<open>What the process does to the outside, in order.\<close>

datatype broker_event = Posted pystr bytes | Closed

record broker_env =
  be_sha :: hash_fn
  be_casefold :: fold_fn
  be_environment :: "(pystr \<times> pystr) list"
  be_network :: "pystr \<Rightarrow> bytes \<Rightarrow> transport"

definition TRANSPORT_FAILED :: broker_error where
  "TRANSPORT_FAILED = broker_err ''Responses API transport failed''"

definition check_status :: "int \<Rightarrow> broker_error + unit" where
  "check_status status =
     bindE (brk (\<not> (300 \<le> status \<and> status < 400)) ''Responses API redirects are forbidden'') (\<lambda>_.
     guardE (status = 200) (BrokerError (u ''Responses API returned HTTP status '' @ dec_int status)))"

definition read_answer :: "broker_env \<Rightarrow> bytes \<Rightarrow> bool \<Rightarrow> http_answer \<Rightarrow> broker_error + broker_result" where
  "read_answer E canonical_request body_read a =
     bindE (check_status (ha_status a)) (\<lambda>_.
     bindE (brk (starts_with (u ''application/json'') (be_casefold E (ha_content_type a)))
       ''Responses API returned an unexpected content type'') (\<lambda>_.
     bindE (guardE body_read TRANSPORT_FAILED) (\<lambda>_.
     bindE (parse_response (take (MAX_RESPONSE_BYTES + 1) (ha_body a))) (\<lambda>response.
     bindE (brk (1 \<le> length (ha_request_id a) \<and> length (ha_request_id a) \<le> 256 \<and> visible_ascii (ha_request_id a))
       ''Responses API request id is missing or invalid'') (\<lambda>_.
     bindE (canonical_response_bytes response) (\<lambda>canonical.
     Inr \<lparr>bs_schema_version = u ''1.0'', bs_request_sha256 = be_sha E canonical_request, bs_response_sha256 = be_sha E canonical,
          bs_request_id = ha_request_id a, bs_response = response\<rparr>))))))"

text \<open>Whatever happens after there is a connection, it is closed.\<close>

definition submit_request :: "broker_env \<Rightarrow> bytes \<Rightarrow> (broker_event, broker_error, broker_result) effectful" where
  "submit_request E raw =
     bindS (liftS (parse_canonical_request raw)) (\<lambda>canonical.
     bindS (liftS (validated_environment (be_casefold E) (be_environment E))) (\<lambda>key.
     case be_network E key canonical of
       NoConnection \<Rightarrow> liftS (Inl TRANSPORT_FAILED)
     | SendFailed \<Rightarrow> emit (Posted key canonical) (emit Closed (liftS (Inl TRANSPORT_FAILED)))
     | ReadFailed a \<Rightarrow> emit (Posted key canonical) (emit Closed (liftS (read_answer E canonical False a)))
     | Answered a \<Rightarrow> emit (Posted key canonical) (emit Closed (liftS (read_answer E canonical True a)))))"

definition canonical_result_bytes :: "broker_result \<Rightarrow> broker_error + bytes" where
  "canonical_result_bytes r =
     bindE (canonical_bytes (broker_err ''request contains a non-canonical JSON value'')
       (JObj [(u ''schema_version'', JStr (bs_schema_version r)), (u ''request_sha256'', JStr (bs_request_sha256 r)),
         (u ''response_sha256'', JStr (bs_response_sha256 r)), (u ''request_id'', JStr (bs_request_id r)),
         (u ''response'', JObj (bs_response r))])) (\<lambda>raw. Inr (raw @ [LF]))"

text \<open>The exit code and what is printed; an exception that is not caught ends the process with code 1.\<close>

datatype process_exit = Exit nat bytes | Uncaught

definition main :: "broker_env \<Rightarrow> bytes \<Rightarrow> broker_event list \<Rightarrow> process_exit \<times> broker_event list" where
  "main E stdin l =
     (case bindS (submit_request E (take (MAX_REQUEST_BYTES + 1) stdin)) (\<lambda>r. liftS (canonical_result_bytes r)) l of
        (Inr out, l') \<Rightarrow> (Exit 0 out, l')
      | (Inl (BrokerError _), l') \<Rightarrow> (Exit 2 [], l')
      | (Inl _, l') \<Rightarrow> (Uncaught, l'))"

end
