(* ===== verification/Codex_Usage.thy ===== *)
theory Codex_Usage
  imports Strict_Json Py_Strings
begin

text \<open>
  The token usage of a model call (\<open>parse_codex_usage_jsonl\<close> and the constants of
  \<open>tools/ai_review/codex_adapter.py\<close>): the events of a log, one JSON object per line, are added up
  and must stay in the budget of a review.
\<close>

section \<open>Constants and values\<close>

definition ROLE_EFFORT :: "(pystr \<times> pystr) list" where
  "ROLE_EFFORT = [(u ''reviewer'', u ''high''), (u ''adversary'', u ''xhigh'')]"

definition MAX_ROLE_ATTEMPTS :: int where
  "MAX_ROLE_ATTEMPTS = 2"

definition TOKEN_WARNING_THRESHOLD :: int where
  "TOKEN_WARNING_THRESHOLD = 250000"

definition REVIEW_REQUEST_TOKEN_BUDGET :: int where
  "REVIEW_REQUEST_TOKEN_BUDGET = 272000"

definition OUTPUT_TOKEN_BUDGET :: int where
  "OUTPUT_TOKEN_BUDGET = 12000"

definition MAX_INPUT_TOKENS :: int where
  "MAX_INPUT_TOKENS = REVIEW_REQUEST_TOKEN_BUDGET - OUTPUT_TOKEN_BUDGET"

definition MAX_USAGE_JSONL_BYTES :: nat where
  "MAX_USAGE_JSONL_BYTES = 5000000"

definition MAX_USAGE_JSONL_LINES :: nat where
  "MAX_USAGE_JSONL_LINES = 10000"

text \<open>Every exception of the parser is a \<open>ValueError\<close>; the last two are those of the library.\<close>

datatype usage_error = UsageError pystr | UsageUnicodeError | UsageDigitsError

definition usage_err :: "string \<Rightarrow> usage_error" where
  "usage_err m = UsageError (u m)"

record codex_usage =
  cu_input_tokens :: int
  cu_cached_input_tokens :: int
  cu_output_tokens :: int
  cu_reasoning_output_tokens :: int
  cu_warning_250k :: bool
  cu_hard_limit_exceeded :: bool
  cu_event_count :: nat
  cu_usage_jsonl_sha256 :: pystr

definition total_tokens :: "codex_usage \<Rightarrow> int" where
  "total_tokens c = cu_input_tokens c + cu_output_tokens c"

section \<open>One event\<close>

definition has_key :: "pydict \<Rightarrow> string \<Rightarrow> bool" where
  "has_key d k \<longleftrightarrow> u k \<in> set (map fst d)"

text \<open>\<open>d.get(k, default)\<close>.\<close>

definition fld_or :: "pydict \<Rightarrow> string \<Rightarrow> json \<Rightarrow> json" where
  "fld_or d k v0 = (case map_of d (u k) of Some v \<Rightarrow> v | None \<Rightarrow> v0)"

definition usage_int :: "string \<Rightarrow> json \<Rightarrow> usage_error + int" where
  "usage_int key v =
     (let e = UsageError (u ''usage JSONL field '' @ u key @ u '' must be a non-negative integer'') in
      case v of JInt i \<Rightarrow> if i < 0 then Inl e else Inr i | _ \<Rightarrow> Inl e)"

definition nested_usage :: "pydict \<Rightarrow> usage_error + pydict option" where
  "nested_usage event =
     (let direct = fld event ''usage'';
          nested = (case fld event ''response'' of JObj r \<Rightarrow> fld r ''usage'' | _ \<Rightarrow> JNull) in
      if direct \<noteq> JNull \<and> nested \<noteq> JNull then Inl (usage_err ''usage JSONL event has multiple usage objects'')
      else
        (case (if direct \<noteq> JNull then direct else nested) of
           JNull \<Rightarrow> Inr None
         | JObj d \<Rightarrow> Inr (Some d)
         | _ \<Rightarrow> Inl (usage_err ''usage JSONL usage value must be an object'')))"

record token_counts =
  tc_input :: int
  tc_cached :: int
  tc_output :: int
  tc_reasoning :: int

definition no_tokens :: token_counts where
  "no_tokens = \<lparr>tc_input = 0, tc_cached = 0, tc_output = 0, tc_reasoning = 0\<rparr>"

definition add_tokens :: "token_counts \<Rightarrow> token_counts \<Rightarrow> token_counts" where
  "add_tokens a b = \<lparr>tc_input = tc_input a + tc_input b, tc_cached = tc_cached a + tc_cached b,
     tc_output = tc_output a + tc_output b, tc_reasoning = tc_reasoning a + tc_reasoning b\<rparr>"

definition normalized_usage :: "pydict \<Rightarrow> usage_error + token_counts" where
  "normalized_usage d =
     bindE (guardE (has_key d ''input_tokens'' \<and> has_key d ''output_tokens'')
       (usage_err ''usage JSONL usage objects require input_tokens and output_tokens'')) (\<lambda>_.
     case (fld_or d ''input_tokens_details'' (JObj []), fld_or d ''output_tokens_details'' (JObj [])) of
       (JObj input_details, JObj output_details) \<Rightarrow>
         (let cached = fld_or d ''cached_input_tokens'' (fld_or input_details ''cached_tokens'' (JInt 0));
              reasoning = fld_or d ''reasoning_output_tokens'' (fld_or output_details ''reasoning_tokens'' (JInt 0)) in
          bindE (usage_int ''input_tokens'' (fld d ''input_tokens'')) (\<lambda>i.
          bindE (usage_int ''cached_input_tokens'' cached) (\<lambda>c.
          bindE (usage_int ''output_tokens'' (fld d ''output_tokens'')) (\<lambda>out.
          bindE (usage_int ''reasoning_output_tokens'' reasoning) (\<lambda>r.
          bindE (guardE (c \<le> i) (usage_err ''usage JSONL cached input tokens exceed input tokens'')) (\<lambda>_.
          bindE (guardE (r \<le> out) (usage_err ''usage JSONL reasoning tokens exceed output tokens'')) (\<lambda>_.
          bindE (if has_key d ''total_tokens'' then
                   bindE (usage_int ''total_tokens'' (fld d ''total_tokens'')) (\<lambda>t.
                   guardE (t = i + out) (usage_err ''usage JSONL total tokens are inconsistent''))
                 else Inr ()) (\<lambda>_.
          Inr \<lparr>tc_input = i, tc_cached = c, tc_output = out, tc_reasoning = r\<rparr>))))))))
     | _ \<Rightarrow> Inl (usage_err ''usage JSONL token detail fields must be objects''))"

text \<open>A line of the log: the tokens of its event, or nothing when the event has no usage.\<close>

definition load_event :: "pystr \<Rightarrow> usage_error + json" where
  "load_event line =
     (case json_loads (distinct_pairs (usage_err ''usage JSONL contains a duplicate JSON key'')) plain_const line of
        Inl (JHook e) \<Rightarrow> Inl e
      | Inl JIntDigits \<Rightarrow> Inl UsageDigitsError
      | Inl _ \<Rightarrow> Inl (usage_err ''usage JSONL contains invalid JSON'')
      | Inr v \<Rightarrow> Inr v)"

definition usage_line :: "pystr \<Rightarrow> usage_error + token_counts option" where
  "usage_line line =
     bindE (load_event line) (\<lambda>v.
     case v of
       JObj event \<Rightarrow>
         bindE (nested_usage event) (\<lambda>usage.
         case usage of None \<Rightarrow> Inr None | Some d \<Rightarrow> bindE (normalized_usage d) (\<lambda>t. Inr (Some t)))
     | _ \<Rightarrow> Inl (usage_err ''usage JSONL events must be objects''))"

section \<open>The log\<close>

fun add_lines :: "token_counts \<times> nat \<Rightarrow> pystr list \<Rightarrow> usage_error + token_counts \<times> nat" where
  "add_lines acc [] = Inr acc"
| "add_lines (totals, n) (line # lines) =
     bindE (usage_line line) (\<lambda>t.
     add_lines (case t of None \<Rightarrow> (totals, n) | Some c \<Rightarrow> (add_tokens totals c, n + 1)) lines)"

definition parse_codex_usage_jsonl :: "hash_fn \<Rightarrow> pystr \<Rightarrow> usage_error + codex_usage" where
  "parse_codex_usage_jsonl sha text0 =
     (case utf8_encode text0 of
        None \<Rightarrow> Inl UsageUnicodeError
      | Some raw \<Rightarrow>
          bindE (guardE (length raw \<le> MAX_USAGE_JSONL_BYTES) (usage_err ''usage JSONL exceeds the byte limit'')) (\<lambda>_.
          let lines = filter (\<lambda>line. strip line \<noteq> []) (splitlines text0) in
          bindE (guardE (lines \<noteq> [] \<and> length lines \<le> MAX_USAGE_JSONL_LINES)
            (usage_err ''usage JSONL must contain a bounded non-empty event stream'')) (\<lambda>_.
          bindE (add_lines (no_tokens, 0) lines) (\<lambda>(totals, n).
          bindE (guardE (n \<noteq> 0) (usage_err ''usage JSONL contains no usage event'')) (\<lambda>_.
          bindE (guardE (tc_output totals \<le> OUTPUT_TOKEN_BUDGET) (usage_err ''usage JSONL output exceeds the review budget'')) (\<lambda>_.
          bindE (guardE (tc_input totals + OUTPUT_TOKEN_BUDGET \<le> REVIEW_REQUEST_TOKEN_BUDGET)
            (usage_err ''usage JSONL input plus reserved output exceeds the review budget'')) (\<lambda>_.
          bindE (guardE (tc_input totals + tc_output totals \<le> REVIEW_REQUEST_TOKEN_BUDGET)
            (usage_err ''usage JSONL actual token total exceeds the review budget'')) (\<lambda>_.
          Inr \<lparr>cu_input_tokens = tc_input totals, cu_cached_input_tokens = tc_cached totals, cu_output_tokens = tc_output totals,
               cu_reasoning_output_tokens = tc_reasoning totals, cu_warning_250k = (TOKEN_WARNING_THRESHOLD \<le> tc_input totals),
               cu_hard_limit_exceeded = False, cu_event_count = n, cu_usage_jsonl_sha256 = sha raw\<rparr>))))))))"

section \<open>What is accepted is within the budget\<close>

text \<open>The counts of a log that can occur.\<close>

definition counts_ok :: "token_counts \<Rightarrow> bool" where
  "counts_ok t \<longleftrightarrow> 0 \<le> tc_cached t \<and> tc_cached t \<le> tc_input t \<and> 0 \<le> tc_reasoning t \<and> tc_reasoning t \<le> tc_output t"

lemma usage_int_Inr: "usage_int k v = Inr i \<longleftrightarrow> v = JInt i \<and> 0 \<le> i"
  by (auto simp: usage_int_def Let_def split: json.splits)

lemma normalized_usage_ok: "normalized_usage d = Inr t \<Longrightarrow> counts_ok t"
  by (auto simp: normalized_usage_def Let_def result_simps usage_int_Inr counts_ok_def split: json.splits)

lemma usage_line_ok:
  assumes "usage_line s = Inr (Some t)"
  shows "counts_ok t"
proof -
  from assms obtain v where "load_event s = Inr v" "(case v of
       JObj event \<Rightarrow>
         bindE (nested_usage event) (\<lambda>usage.
         case usage of None \<Rightarrow> Inr None | Some d \<Rightarrow> bindE (normalized_usage d) (\<lambda>t. Inr (Some t)))
     | _ \<Rightarrow> Inl (usage_err ''usage JSONL events must be objects'')) = Inr (Some t)"
    unfolding usage_line_def by (auto simp: result_simps)
  then obtain event usage where e: "v = JObj event" "nested_usage event = Inr usage"
      "(case usage of None \<Rightarrow> Inr None | Some d \<Rightarrow> bindE (normalized_usage d) (\<lambda>t. Inr (Some t))) = Inr (Some t)"
    by (cases v) (auto simp: result_simps)
  then show ?thesis by (cases usage) (auto simp: result_simps dest: normalized_usage_ok)
qed

lemma add_tokens_ok: "counts_ok a \<Longrightarrow> counts_ok b \<Longrightarrow> counts_ok (add_tokens a b)"
  by (auto simp: counts_ok_def add_tokens_def)

lemma add_lines_ok: "add_lines (t, n) lines = Inr (t', n') \<Longrightarrow> counts_ok t \<Longrightarrow> counts_ok t'"
proof (induction lines arbitrary: t n)
  case (Cons line lines)
  from Cons.prems(1) obtain y where y: "usage_line line = Inr y"
      "add_lines (case y of None \<Rightarrow> (t, n) | Some c \<Rightarrow> (add_tokens t c, n + 1)) lines = Inr (t', n')"
    by (auto simp: result_simps)
  with Cons.IH [of t n] Cons.IH [of "add_tokens t c" "n + 1" for c] Cons.prems(2) add_tokens_ok usage_line_ok show ?case
    by (cases y) auto
qed simp

end
