(* ===== verification/Broker_Result.thy ===== *)
theory Broker_Result
  imports Broker_Entry Codex_Usage Judge
begin

text \<open>
  \<open>tools/ai_review/broker_result.py\<close>: reading what the broker's container wrote. The canonical
  envelope is bound to the request, the one completed assistant message is the review, the usage is
  within the budget, and what the model says of its own identity is replaced. The fields of the
  review as pydantic reads them from JSON are an argument; their constraints and validators are
  those of \<open>Review_Models\<close>.
\<close>

definition MAX_BROKER_RESULT_BYTES :: nat where
  "MAX_BROKER_RESULT_BYTES = MAX_RESPONSE_BYTES + 100000"

definition BROKER_SESSION_DOMAIN :: bytes where
  "BROKER_SESSION_DOMAIN = ''amazon-explorer-broker-session-v1'' @ [CHR 0x00]"

datatype result_error =
    BrokerResultError pystr
  | ResultBrokerError broker_error
  | ResultModelError model_error
  | ResultTypeError
  | ResultValueError

definition result_err :: "string \<Rightarrow> result_error" where
  "result_err m = BrokerResultError (u m)"

definition rsl :: "bool \<Rightarrow> string \<Rightarrow> result_error + unit" where
  "rsl b m = guardE b (result_err m)"

record inference_evidence =
  ie_packet_sha256 :: pystr
  ie_request_sha256 :: pystr
  ie_response_sha256 :: pystr
  ie_usage_jsonl_sha256 :: pystr
  ie_model :: pystr
  ie_reasoning_effort :: pystr
  ie_role :: pystr
  ie_attempt :: int
  ie_usage :: codex_usage

record parsed_review =
  pr_review :: review_report
  pr_inference :: inference_evidence
  pr_request_id :: pystr
  pr_response_id :: pystr
  pr_canonical_response_text :: pystr

definition sha256_value :: "json \<Rightarrow> bool" where
  "sha256_value v = (case v of JStr s \<Rightarrow> is_sha256 s | _ \<Rightarrow> False)"

text \<open>\<open>hmac.compare_digest\<close> of two texts raises \<open>TypeError\<close> unless both are ASCII.\<close>

definition compare_digest :: "pystr \<Rightarrow> pystr \<Rightarrow> result_error + bool" where
  "compare_digest a b = (if ascii a \<and> ascii b then Inr (a = b) else Inl ResultTypeError)"

definition validated_identifier :: "string \<Rightarrow> json \<Rightarrow> result_error + pystr" where
  "validated_identifier label v =
     (let e = BrokerResultError (u ''broker '' @ u label @ u '' is missing or invalid'') in
      case v of
        JStr s \<Rightarrow> bindE (guardE (1 \<le> length s \<and> length s \<le> 256 \<and> visible_ascii s) e) (\<lambda>_. Inr s)
      | _ \<Rightarrow> Inl e)"

section \<open>The text of the review\<close>

fun assistant_messages :: "json list \<Rightarrow> result_error + pydict list" where
  "assistant_messages [] = Inr []"
| "assistant_messages (item # items) =
     (case item of
        JObj d \<Rightarrow>
          (if fld d ''type'' = JStr (u ''reasoning'') then assistant_messages items
           else
             bindE (rsl (fld d ''type'' = JStr (u ''message'')) ''Responses result contains a tool or unsupported output'') (\<lambda>_.
             bindE (assistant_messages items) (\<lambda>ms. Inr (d # ms))))
      | _ \<Rightarrow> Inl (result_err ''Responses output item is invalid''))"

definition extract_review_text :: "pydict \<Rightarrow> result_error + pystr" where
  "extract_review_text response =
     bindE (rsl (fld response ''status'' = JStr (u ''completed'')) ''Responses result must be completed'') (\<lambda>_.
     bindE (rsl (fld response ''model'' = JStr (u FIXED_MODEL)) ''Responses result model does not match the approved model'') (\<lambda>_.
     bindE (rsl (fld response ''service_tier'' = JStr (u ''default''))
       ''Responses result service tier does not match standard pricing'') (\<lambda>_.
     bindE (rsl (fld response ''object'' = JStr (u ''response'')) ''Responses result object type is invalid'') (\<lambda>_.
     case fld response ''output'' of
       JArr (item # items) \<Rightarrow>
         bindE (assistant_messages (item # items)) (\<lambda>messages.
         case messages of
           [message] \<Rightarrow>
             bindE (rsl (fld message ''role'' = JStr (u ''assistant'') \<and> fld message ''status'' = JStr (u ''completed''))
               ''Responses assistant message is incomplete'') (\<lambda>_.
             case one_object (fld message ''content'') of
               None \<Rightarrow> Inl (result_err ''Responses assistant message must contain one output_text item'')
             | Some part \<Rightarrow>
                 (case (fld part ''type'' = JStr (u ''output_text''), fld part ''text'') of
                    (True, JStr s) \<Rightarrow>
                      bindE (rsl (s \<noteq> [] \<and> 0 \<notin> set s) ''Responses output_text is empty or invalid'') (\<lambda>_. Inr s)
                  | _ \<Rightarrow> Inl (result_err ''Responses assistant message must contain output_text'')))
         | _ \<Rightarrow> Inl (result_err ''Responses result must contain exactly one assistant message''))
     | _ \<Rightarrow> Inl (result_err ''Responses result has no assistant message'')))))"

section \<open>The review\<close>

record result_env =
  re_sha :: hash_fn
  re_fields :: "json \<Rightarrow> review_report option"

definition duplicate_result_key :: result_error where
  "duplicate_result_key = result_err ''broker result contains a duplicate JSON key''"

definition parse_review :: "result_env \<Rightarrow> pystr \<Rightarrow> pystr \<Rightarrow> result_error + review_report" where
  "parse_review E s role =
     bindE (loads_distinct duplicate_result_key (result_err ''Responses output_text is not valid review JSON'') ResultValueError s) (\<lambda>payload.
     let invalid = result_err ''Responses output_text does not satisfy ReviewReport'' in
     bindE (case re_fields E payload of
              None \<Rightarrow> Inl invalid
            | Some r \<Rightarrow>
                (case validate_review r of
                   Inl (ValidationError _) \<Rightarrow> Inl invalid
                 | Inl e \<Rightarrow> Inl (ResultModelError e)
                 | Inr q \<Rightarrow> Inr q)) (\<lambda>review.
     bindE (rsl (role_name (rv_role review) = role) ''model-selected review role does not match the coordinator role'') (\<lambda>_.
     Inr review)))"

text \<open>The identifiers and the role are ASCII, so each of their characters is one byte.\<close>

definition length_framed :: "pystr \<Rightarrow> bytes" where
  "length_framed s = map char_of (be_bytes 4 (length s)) @ map char_of s"

definition coordinator_session_id :: "hash_fn \<Rightarrow> pystr \<Rightarrow> pystr \<Rightarrow> pystr \<Rightarrow> pystr" where
  "coordinator_session_id sha request_id response_id role =
     sha (BROKER_SESSION_DOMAIN @ concat (map length_framed [request_id, response_id, role]))"

section \<open>The envelope\<close>

definition RESULT_KEYS :: "string list" where
  "RESULT_KEYS = [''schema_version'', ''request_sha256'', ''response_sha256'', ''request_id'', ''response'']"

text \<open>The first part of \<open>parse_broker_review\<close>: the request id, the response and its canonical bytes.\<close>

definition read_envelope :: "hash_fn \<Rightarrow> bytes \<Rightarrow> pystr \<Rightarrow> result_error + pystr \<times> pydict \<times> bytes" where
  "read_envelope sha raw expected_request_sha256 =
     (case utf8_decode (butlast raw) of
        None \<Rightarrow> Inl (result_err ''broker result is not valid UTF-8 JSON'')
      | Some s \<Rightarrow>
          bindE (loads_distinct duplicate_result_key (result_err ''broker result is not valid UTF-8 JSON'') ResultValueError s) (\<lambda>v.
          case v of
            JObj payload \<Rightarrow>
              bindE (rsl (has_keys payload RESULT_KEYS) ''broker result contains missing or unknown fields'') (\<lambda>_.
              bindE (rsl (fld payload ''schema_version'' = JStr (u ''1.0'')) ''broker result schema version is unsupported'') (\<lambda>_.
              bindE (canonical_bytes (result_err ''broker result is not canonical JSON'') v) (\<lambda>canonical.
              bindE (rsl (canonical @ [LF] = raw) ''broker result is not canonical JSON'') (\<lambda>_.
              bindE (rsl (fld payload ''request_sha256'' = JStr expected_request_sha256)
                ''broker request SHA-256 does not match the approved request'') (\<lambda>_.
              case fld payload ''response'' of
                JObj response \<Rightarrow>
                  bindE (mapError ResultBrokerError (canonical_response_bytes response)) (\<lambda>canonical_response.
                  bindE (case fld payload ''response_sha256'' of
                           JStr d \<Rightarrow> compare_digest d (sha canonical_response)
                         | _ \<Rightarrow> Inr False) (\<lambda>same.
                  bindE (rsl same ''broker response SHA-256 does not match its content'') (\<lambda>_.
                  bindE (validated_identifier ''request id'' (fld payload ''request_id'')) (\<lambda>request_id.
                  Inr (request_id, response, canonical_response)))))
              | _ \<Rightarrow> Inl (result_err ''broker response must be a JSON object''))))))
          | _ \<Rightarrow> Inl (result_err ''broker result contains missing or unknown fields'')))"

definition parse_broker_review ::
    "result_env \<Rightarrow> bytes \<Rightarrow> pystr \<Rightarrow> pystr \<Rightarrow> pystr \<Rightarrow> int \<Rightarrow> result_error + parsed_review" where
  "parse_broker_review E raw expected_request_sha256 expected_packet_sha256 role attempt =
     (case map_of ROLE_EFFORT role of
        None \<Rightarrow> Inl (result_err ''broker review role is not approved'')
      | Some effort \<Rightarrow>
          bindE (rsl (raw \<noteq> [] \<and> length raw \<le> MAX_BROKER_RESULT_BYTES \<and> ends_in raw [LF])
            ''broker result is empty, oversized, or not newline terminated'') (\<lambda>_.
          bindE (rsl (is_sha256 expected_request_sha256 \<and> is_sha256 expected_packet_sha256)
            ''expected request or packet SHA-256 is invalid'') (\<lambda>_.
          bindE (rsl (1 \<le> attempt \<and> attempt \<le> MAX_ROLE_ATTEMPTS) ''broker attempt is outside the approved retry limit'') (\<lambda>_.
          bindE (read_envelope (re_sha E) raw expected_request_sha256) (\<lambda>(request_id, response, canonical_response).
          bindE (validated_identifier ''response id'' (fld response ''id'')) (\<lambda>response_id.
          bindE (extract_review_text response) (\<lambda>review_text.
          bindE (parse_review E review_text role) (\<lambda>model_review.
          let review = model_review\<lparr>rv_reviewer_id := u ''openai-'' @ u FIXED_MODEL @ [0x2D] @ role,
                rv_session_id := coordinator_session_id (re_sha E) request_id response_id role\<rparr> in
          bindE (case utf8_decode raw of
                   None \<Rightarrow> Inl (result_err ''broker response usage is outside approved bounds'')
                 | Some s \<Rightarrow>
                     mapError (\<lambda>_. result_err ''broker response usage is outside approved bounds'')
                       (parse_codex_usage_jsonl (re_sha E) s)) (\<lambda>usage.
          bindE (case utf8_decode canonical_response of None \<Rightarrow> Inl ResultValueError | Some s \<Rightarrow> Inr s) (\<lambda>response_text.
          Inr \<lparr>pr_review = review,
               pr_inference = \<lparr>ie_packet_sha256 = expected_packet_sha256, ie_request_sha256 = expected_request_sha256,
                 ie_response_sha256 = re_sha E canonical_response, ie_usage_jsonl_sha256 = cu_usage_jsonl_sha256 usage,
                 ie_model = u FIXED_MODEL, ie_reasoning_effort = effort, ie_role = role, ie_attempt = attempt, ie_usage = usage\<rparr>,
               pr_request_id = request_id, pr_response_id = response_id,
               pr_canonical_response_text = response_text\<rparr>))))))))))"

end
