(* ===== verification/Broker_Facts.thy ===== *)
theory Broker_Facts
  imports Broker_Entry
begin

text \<open>
  What the broker's process does: the request it sends is a canonical document of the approved form,
  sent once and only with both opt-ins, and every request a module of the harness can write as a
  canonical line is one the process reads back.
\<close>

section \<open>Approved requests\<close>

text \<open>The specification of a request, one condition per line of the code, without its order of refusals.\<close>

definition reasoning_ok :: "json \<Rightarrow> bool" where
  "reasoning_ok v =
     (case v of
        JObj d \<Rightarrow> has_keys d [''effort'', ''summary''] \<and> fld d ''effort'' \<in> {JStr (u ''high''), JStr (u ''xhigh'')}
          \<and> fld d ''summary'' = JStr (u ''none'')
      | _ \<Rightarrow> False)"

definition text_ok :: "json \<Rightarrow> bool" where
  "text_ok v =
     (case v of
        JObj d \<Rightarrow> has_keys d [''verbosity'', ''format''] \<and> fld d ''verbosity'' = JStr (u ''low'') \<and> output_format_ok (fld d ''format'')
      | _ \<Rightarrow> False)"

definition part_ok :: "pydict \<Rightarrow> bool" where
  "part_ok d \<longleftrightarrow> has_keys d [''type'', ''text''] \<and> fld d ''type'' = JStr (u ''input_text'')
     \<and> (case fld d ''text'' of JStr s \<Rightarrow> s \<noteq> [] \<and> 0 \<notin> set s | _ \<Rightarrow> False)"

definition input_ok :: "json \<Rightarrow> bool" where
  "input_ok v =
     (case one_object v of
        None \<Rightarrow> False
      | Some m \<Rightarrow> has_keys m [''role'', ''content''] \<and> fld m ''role'' = JStr (u ''user'')
          \<and> (case one_object (fld m ''content'') of None \<Rightarrow> False | Some p \<Rightarrow> part_ok p))"

definition tokens_ok :: "json \<Rightarrow> bool" where
  "tokens_ok v = (case v of JInt i \<Rightarrow> 1 \<le> i \<and> i \<le> MAX_OUTPUT_TOKENS | _ \<Rightarrow> False)"

definition approved_request :: "pydict \<Rightarrow> bool" where
  "approved_request d \<longleftrightarrow> has_keys d REQUEST_KEYS \<and> fld d ''model'' = JStr (u FIXED_MODEL) \<and> fld d ''tools'' = JArr []
     \<and> fld d ''store'' = JBool False \<and> fld d ''service_tier'' = JStr (u ''default'') \<and> tokens_ok (fld d ''max_output_tokens'')
     \<and> reasoning_ok (fld d ''reasoning'') \<and> text_ok (fld d ''text'') \<and> input_ok (fld d ''input'')"

lemma brk_Inr [result_simps]: "brk b m = Inr x \<longleftrightarrow> b"
  by (simp add: brk_def guardE_eq_Inr)

lemma check_reasoning_Inr: "check_reasoning v = Inr x \<longleftrightarrow> reasoning_ok v"
  by (auto simp: check_reasoning_def reasoning_ok_def Let_def result_simps effort_allowed_def split: json.splits)

lemma check_text_Inr: "check_text v = Inr x \<longleftrightarrow> text_ok v"
  by (auto simp: check_text_def text_ok_def result_simps split: json.splits)

lemma check_part_Inr: "check_part d = Inr x \<longleftrightarrow> part_ok d"
  by (simp add: check_part_def part_ok_def brk_Inr)

lemma check_input_Inr: "check_input v = Inr x \<longleftrightarrow> input_ok v"
  by (auto simp: check_input_def input_ok_def result_simps check_part_Inr split: option.splits)

lemma validate_Inr: "validate_broker_request v = Inr w \<longleftrightarrow> w = v \<and> (case v of JObj d \<Rightarrow> approved_request d | _ \<Rightarrow> False)"
proof (cases v)
  case (JObj d)
  have "validate_broker_request (JObj d) = Inr w \<longleftrightarrow> w = JObj d \<and> approved_request d"
    unfolding validate_broker_request_def approved_request_def json.case
    by (simp only: result_simps check_reasoning_Inr check_text_Inr check_input_Inr tokens_ok_def sum.inject) blast
  with JObj show ?thesis by simp
qed (simp_all add: validate_broker_request_def)

section \<open>A request with its keys sorted\<close>

definition sort_dict :: "pydict \<Rightarrow> pydict" where
  "sort_dict d = sort_key fst (map (\<lambda>(k, v). (k, jsort v)) d)"

lemma jsort_dict: "jsort (JObj d) = JObj (sort_dict d)"
  by (simp add: sort_dict_def)

lemma keys_sort_dict: "map fst (map (\<lambda>(k, v). (k, jsort v)) d) = map fst d"
  by (simp add: comp_def split_def)

lemma has_keys_sort: "has_keys (sort_dict d) names = has_keys d names"
proof -
  have "set (map fst (sort_dict d)) = set (map fst d)"
    unfolding sort_dict_def set_map set_sort using arg_cong [OF keys_sort_dict, of set d] by (simp only: set_map)
  then show ?thesis by (simp add: has_keys_def)
qed

lemma fld_sort:
  assumes "distinct (map fst d)"
  shows "fld (sort_dict d) k = jsort (fld d k)"
proof -
  let ?m = "map (\<lambda>(k, v). (k, jsort v)) d"
  have m: "distinct (map fst ?m)" using assms unfolding keys_sort_dict .
  have "mset (map fst (sort_key fst ?m)) = mset (map fst ?m)" by (simp only: mset_map mset_sort)
  then have "distinct (map fst (sort_key fst ?m)) \<longleftrightarrow> distinct (map fst ?m)" by (rule mset_eq_imp_distinct_iff)
  with m have "distinct (map fst (sort_key fst ?m))" by (simp only: simp_thms)
  moreover note m
  ultimately have "map_of (sort_key fst ?m) = map_of ?m" by (simp only: map_of_inject_set set_sort)
  moreover have "map_of ?m x = map_option jsort (map_of d x)" for x by (induction d) auto
  ultimately show ?thesis by (simp add: fld_def sort_dict_def split: option.splits)
qed

lemma one_object_sort: "one_object (jsort v) = map_option sort_dict (one_object v)"
  by (auto simp: one_object_def sort_dict_def split: json.splits list.splits)

text \<open>The form of a request does not depend on the order of its keys.\<close>

lemma plain_dict: "plain (JObj d) \<Longrightarrow> distinct (map fst d)"
  by simp

lemma plain_fld: "plain (JObj d) \<Longrightarrow> plain (fld d k)"
  by (auto simp: fld_def list_all_iff split: option.splits dest!: map_of_SomeD)

lemma one_object_plain: "plain v \<Longrightarrow> one_object v = Some d \<Longrightarrow> plain (JObj d)"
  by (auto simp: one_object_def split: json.splits list.splits)

lemma jsort_eq_simps [simp]:
  "jsort v = JStr s \<longleftrightarrow> v = JStr s" "jsort v = JBool b \<longleftrightarrow> v = JBool b" "jsort v = JInt i \<longleftrightarrow> v = JInt i"
  "jsort v = JArr [] \<longleftrightarrow> v = JArr []"
  by (cases v; simp)+

lemma is_object_sort [simp]: "is_object (jsort v) = is_object v"
  by (cases v) (simp_all add: is_object_def)

lemma tokens_ok_sort [simp]: "tokens_ok (jsort v) = tokens_ok v"
  by (cases v) (simp_all add: tokens_ok_def)

lemma reasoning_ok_sort: "plain v \<Longrightarrow> reasoning_ok (jsort v) = reasoning_ok v"
  by (cases v) (simp_all add: reasoning_ok_def jsort_dict has_keys_sort fld_sort plain_dict del: jsort.simps(2))

lemma output_format_ok_sort: "plain v \<Longrightarrow> output_format_ok (jsort v) = output_format_ok v"
  by (cases v) (simp_all add: output_format_ok_def jsort_dict has_keys_sort fld_sort plain_dict del: jsort.simps(2))

lemma text_ok_sort: "plain v \<Longrightarrow> text_ok (jsort v) = text_ok v"
  by (cases v)
    (use plain_fld in \<open>simp_all add: text_ok_def jsort_dict has_keys_sort fld_sort plain_dict output_format_ok_sort del: jsort.simps(2) plain.simps(4)\<close>)

lemma part_ok_sort: "plain (JObj d) \<Longrightarrow> part_ok (sort_dict d) = part_ok d"
  by (cases "fld d ''text''") (simp_all add: part_ok_def has_keys_sort fld_sort plain_dict)

lemma input_ok_sort:
  assumes "plain v"
  shows "input_ok (jsort v) = input_ok v"
proof (cases "one_object v")
  case (Some m)
  have m: "plain (JObj m)" by (rule one_object_plain [OF assms Some])
  note c = plain_fld [OF m, of "''content''"]
  show ?thesis
  proof (cases "one_object (fld m ''content'')")
    case (Some p)
    with part_ok_sort [OF one_object_plain [OF c Some]] \<open>one_object v = Some m\<close> show ?thesis
      by (simp add: input_ok_def one_object_sort has_keys_sort fld_sort [OF plain_dict [OF m]])
  qed (use Some in \<open>simp add: input_ok_def one_object_sort has_keys_sort fld_sort [OF plain_dict [OF m]]\<close>)
qed (simp add: input_ok_def one_object_sort)

lemma approved_sort: "plain (JObj d) \<Longrightarrow> approved_request (sort_dict d) = approved_request d"
  by (simp add: approved_request_def has_keys_sort fld_sort plain_dict reasoning_ok_sort text_ok_sort input_ok_sort plain_fld
      del: plain.simps(4))

section \<open>Lines\<close>

lemma canonical_bytes_Inr: "canonical_bytes e v = Inr b \<longleftrightarrow> (\<exists>s. dumps v = Some s \<and> utf8_encode s = Some b)"
  by (auto simp: canonical_bytes_def split: option.splits)

lemma utf8_encode_split:
  "utf8_encode (s @ t) = Some b \<longleftrightarrow> (\<exists>x y. utf8_encode s = Some x \<and> utf8_encode t = Some y \<and> b = x @ y)"
  by (auto simp: utf8_encode_def)

lemma object_bytes_end:
  assumes "canonical_bytes e (JObj d) = Inr b"
  shows "\<exists>x. b = x @ [CHR 0x7D]"
proof -
  obtain s where s: "utf8_encode s = Some b" "s = jprint (jsort (JObj d))"
    using assms by (auto simp: canonical_bytes_Inr dumps_def split: if_splits)
  obtain t where t: "s = t @ [0x7D]" using s(2) by (cases "jsort (JObj d)") auto
  have "of_char (CHR 0x7D) = (0x7D :: nat)" by simp
  then have "char_of (0x7D :: nat) = CHR 0x7D" using char_of_char [of "CHR 0x7D", where 'a = nat] by (simp only:)
  then have "utf8_encode [0x7D] = Some [CHR 0x7D]" by (simp add: utf8_encode_def scalar_def surrogate_def utf8_char_def)
  with s(1) show ?thesis unfolding t utf8_encode_split by auto
qed

lemma ends_in_snoc: "ends_in (x @ [c]) [d] \<longleftrightarrow> c = d"
  by (simp add: ends_in_def)

lemma ends_in_snoc2: "ends_in ((x @ [a]) @ [c]) [d, e] \<longleftrightarrow> a = d \<and> c = e"
  by (simp add: ends_in_def)

lemma ends_in_butlast: "ends_in raw [LF] \<Longrightarrow> raw = butlast raw @ [LF]"
  by (cases raw rule: rev_cases) (auto simp: ends_in_def)

lemma canonical_bytes_sorted: "plain v \<Longrightarrow> canonical_bytes e (jsort v) = canonical_bytes e v"
  by (simp add: canonical_bytes_def dumps_canon plain_canon_jsort dumps_plain)

lemma loads_distinct_written:
  assumes "plain v" and "canonical_bytes e v = Inr b"
  shows "\<exists>s. utf8_decode b = Some s \<and> loads_distinct e1 e2 e3 s = Inr (jsort v)"
proof -
  obtain s where s: "dumps v = Some s" "utf8_encode s = Some b" using assms(2) by (auto simp: canonical_bytes_Inr)
  have "json_loads (distinct_pairs e1) plain_const (s @ []) = Inr (jsort v)"
    by (rule distinct_pairs.json_loads_dumps [OF assms(1) s(1)]) simp
  then show ?thesis using utf8_decode_encode [OF s(2)] by (simp add: loads_distinct_def)
qed

lemma canonical_request_Inr:
  "canonical_request_bytes v = Inr raw \<longleftrightarrow>
     (\<exists>d. v = JObj d \<and> approved_request d) \<and> canonical_bytes (broker_err ''request contains a non-canonical JSON value'') v = Inr raw
     \<and> length raw \<le> MAX_REQUEST_BYTES"
  by (cases v) (auto simp: canonical_request_bytes_def result_simps validate_Inr)

lemma parse_written:
  assumes "raw = x @ [CHR 0x7D]" and "length raw \<le> MAX_REQUEST_BYTES" and "utf8_decode raw = Some s"
    and "loads_distinct (broker_err ''JSON contains a duplicate key'') (broker_err ''request is not valid UTF-8 JSON'') BrokerValueError s = Inr v"
    and "canonical_request_bytes v = Inr raw"
  shows "parse_canonical_request (raw @ [LF]) = Inr raw" and "parse_canonical_request raw = Inr raw"
proof -
  have "\<not> ends_in raw [LF]" "ends_in (raw @ [LF]) [LF]" "\<not> ends_in (raw @ [LF]) [LF, LF]" "\<not> ends_in (raw @ [LF]) [CHR 0x0D, LF]"
    unfolding assms(1) ends_in_snoc ends_in_snoc2 by (simp_all add: LF_def)
  moreover have "raw \<noteq> []" unfolding assms(1) by simp
  ultimately show "parse_canonical_request (raw @ [LF]) = Inr raw" "parse_canonical_request raw = Inr raw"
    unfolding parse_canonical_request_def using assms(2-5) by (simp_all add: brk_def)
qed

text \<open>
  Round trip of requests: the canonical bytes of every request of the approved form, with or
  without the line end, are read back by the broker's process as themselves.
\<close>

theorem canonical_requests_are_read_back:
  "case canonical_request_bytes v of
     Inl _ \<Rightarrow> True
   | Inr raw \<Rightarrow>
       if plain v then parse_canonical_request (raw @ [LF]) = Inr raw \<and> parse_canonical_request raw = Inr raw else True"
proof (cases "canonical_request_bytes v")
  case (Inr raw)
  then obtain d where d: "v = JObj d" "approved_request d" and b: "canonical_bytes (broker_err ''request contains a non-canonical JSON value'') v = Inr raw"
    and len: "length raw \<le> MAX_REQUEST_BYTES"
    by (auto simp: canonical_request_Inr)
  show ?thesis
  proof (cases "plain v")
    case True
    from object_bytes_end [OF b [unfolded d(1)]] obtain x where x: "raw = x @ [CHR 0x7D]" by blast
    have sorted: "jsort v = JObj (sort_dict d)" "approved_request (sort_dict d)"
      using d True approved_sort [of d] by (simp_all only: jsort_dict)
    have c: "canonical_request_bytes (jsort v) = Inr raw"
      unfolding canonical_request_Inr canonical_bytes_sorted [OF True] using sorted b len by blast
    obtain s where s: "utf8_decode raw = Some s
        \<and> loads_distinct (broker_err ''JSON contains a duplicate key'') (broker_err ''request is not valid UTF-8 JSON'') BrokerValueError s = Inr (jsort v)"
      by (rule exE [OF loads_distinct_written [OF True b]])
    from parse_written [OF x len conjunct1 [OF s] conjunct2 [OF s] c] Inr True show ?thesis by (simp only: sum.case if_True simp_thms)
  qed (use Inr in simp)
qed simp

lemma parse_canonical_Inr:
  assumes "parse_canonical_request framed = Inr body"
  shows "framed \<in> {body, body @ [LF]}" and "length body \<le> MAX_REQUEST_BYTES"
    and "\<exists>d. canonical_bytes BrokerTypeError (JObj d) = Inr body \<and> approved_request d"
proof -
  define raw where "raw = (if ends_in framed [LF] then butlast framed else framed)"
  from assms obtain v where c: "canonical_request_bytes v = Inr raw" "body = raw"
    unfolding parse_canonical_request_def raw_def [symmetric] Let_def
    by (auto simp: result_simps split: option.splits)
  then show "framed \<in> {body, body @ [LF]}" using ends_in_butlast [of framed] by (auto simp: raw_def)
  from c show "length body \<le> MAX_REQUEST_BYTES" "\<exists>d. canonical_bytes BrokerTypeError (JObj d) = Inr body \<and> approved_request d"
    by (auto simp: canonical_request_Inr canonical_bytes_Inr)
qed

lemma validated_environment_Inr:
  assumes "validated_environment casefold environment = Inr key"
  shows "map_of environment (u ''AI_REVIEW_EXECUTE'') = Some (u ''1'')"
    and "map_of environment (u ''AI_REVIEW_EXTERNAL_AI'') = Some (u ''1'')"
    and "map_of environment (u ''OPENAI_API_KEY'') = Some key"
    and "set (map (casefold \<circ> fst) environment) \<inter> set FORBIDDEN_ENV_NAMES = {}"
  using assms by (auto simp: validated_environment_def Let_def result_simps list_ex_iff split: option.splits)

lemma submit_request_log:
  obtains r where "submit_request E raw l = (r, l)"
  | r key body where "submit_request E raw l = (r, l @ [Posted key body, Closed])"
      "parse_canonical_request raw = Inr body" "validated_environment (be_casefold E) (be_environment E) = Inr key"
proof (cases "parse_canonical_request raw")
  case (Inr body)
  show thesis
  proof (cases "validated_environment (be_casefold E) (be_environment E)")
    case key: (Inr key)
    show thesis
      by (cases "be_network E key body")
        (use that Inr key in \<open>auto simp: submit_request_def emit_def liftS_def bindS_def\<close>)
  qed (use that Inr in \<open>auto simp: submit_request_def liftS_def bindS_def\<close>)
qed (use that in \<open>auto simp: submit_request_def liftS_def bindS_def\<close>)

lemma main_log: "snd (main E stdin l) = snd (submit_request E (take (MAX_REQUEST_BYTES + 1) stdin) l)"
  by (auto simp: main_def bindS_def liftS_def split: prod.splits sum.splits broker_error.splits)

text \<open>
  C31. Whatever its standard input, its environment and the answer of the network, the process sends
  nothing or exactly one request, and then the connection is closed. What it sends is what it read
  (without the line end), is the canonical text of a request of the approved form of at most two
  million bytes, and goes out under the key of an environment with both opt-ins and without any of
  the names that redirect a connection.
\<close>

theorem only_an_approved_request_is_sent:
  "case main E stdin [] of (_, l) \<Rightarrow>
     l = [] \<or> (\<exists>key body d. l = [Posted key body, Closed]
       \<and> take 2000001 stdin \<in> {body, body @ [LF]} \<and> length body \<le> 2000000
       \<and> canonical_bytes BrokerTypeError (JObj d) = Inr body \<and> approved_request d
       \<and> map_of (be_environment E) (u ''AI_REVIEW_EXECUTE'') = Some (u ''1'')
       \<and> map_of (be_environment E) (u ''AI_REVIEW_EXTERNAL_AI'') = Some (u ''1'')
       \<and> map_of (be_environment E) (u ''OPENAI_API_KEY'') = Some key
       \<and> set (map (be_casefold E \<circ> fst) (be_environment E)) \<inter> set FORBIDDEN_ENV_NAMES = {})"
proof (cases "main E stdin []")
  case (Pair x l)
  then have l: "l = snd (submit_request E (take (MAX_REQUEST_BYTES + 1) stdin) [])" using main_log [of E stdin "[]"] by simp
  have max: "MAX_REQUEST_BYTES + 1 = 2000001" "MAX_REQUEST_BYTES = 2000000" by (simp_all add: MAX_REQUEST_BYTES_def)
  show ?thesis
  proof (cases rule: submit_request_log [of E "take (MAX_REQUEST_BYTES + 1) stdin" "[]"])
    case (1 r)
    with l Pair show ?thesis by simp
  next
    case (2 r key body)
    note p = parse_canonical_Inr [OF 2(2)] and e = validated_environment_Inr [OF 2(3)]
    note p1 = p(1) [unfolded max(1)] and p2 = p(2) [unfolded max(2)]
    from p(3) obtain d where d: "canonical_bytes BrokerTypeError (JObj d) = Inr body \<and> approved_request d" by blast
    have "l = [Posted key body, Closed]" using 2(1) l by simp
    with p1 p2 e d show ?thesis unfolding Pair prod.case by (intro disjI2 exI [of _ key] exI [of _ body] exI [of _ d]) (simp only: simp_thms)
  qed
qed

end
