(* ===== verification/Json_Prefix.thy ===== *)
theory Json_Prefix
  imports Strict_Json Py_Strings
begin

text \<open>
  A JSON value that begins with a brace, once read, is read in the same way whatever follows it. So
  a text that is one object has no proper prefix that is JSON, and a log whose lines are cut at a
  character inside an object cannot be read.
\<close>

section \<open>Text that follows does not matter\<close>

lemma takeWhile_stays:
  assumes "dropWhile P s \<noteq> []"
  shows "takeWhile P (s @ x) = takeWhile P s" and "dropWhile P (s @ x) = dropWhile P s @ x"
proof -
  from assms obtain y where "y \<in> set s" "\<not> P y" using dropWhile_eq_Nil_conv by blast
  then show "takeWhile P (s @ x) = takeWhile P s" "dropWhile P (s @ x) = dropWhile P s @ x"
    by (simp_all add: takeWhile_append1 dropWhile_append1)
qed

lemma skip_ws_stays: "skip_ws s \<noteq> [] \<Longrightarrow> skip_ws (s @ x) = skip_ws s @ x"
  unfolding skip_ws_def by (rule takeWhile_stays(2))

lemma hex4_stays: "hex4 s = Some (c, r) \<Longrightarrow> hex4 (s @ x) = Some (c, r @ x)"
  by (induction s rule: hex4.induct) (auto split: option.splits)

lemma unicode_escape_stays:
  assumes "unicode_escape s = Some (c, r)" and "r \<noteq> []" and "r \<noteq> [0x5C]"
  shows "unicode_escape (s @ x) = Some (c, r @ x)"
proof -
  obtain c0 r0 where h: "hex4 s = Some (c0, r0)" using assms(1) by (auto simp: unicode_escape_def split: option.splits)
  note h' = hex4_stays [OF h, of x]
  show ?thesis
  proof (cases "0xD800 \<le> c0 \<and> c0 \<le> 0xDBFF \<and> take 2 r0 = [0x5C, 0x75]")
    case True
    then have "2 \<le> length r0" by (cases r0 rule: remdups_adj.cases) auto
    then have t: "take 2 (r0 @ x) = [0x5C, 0x75]" "drop 2 (r0 @ x) = drop 2 r0 @ x" using True by simp_all
    show ?thesis using assms(1) h h' True t hex4_stays [of "drop 2 r0" _ _ x]
      by (auto simp: unicode_escape_def split: option.splits if_splits)
  next
    case False
    then have r: "r0 = r" "c0 = c" using assms(1) h by (auto simp: unicode_escape_def split: if_splits)
    have "(0xD800 \<le> c \<and> c \<le> 0xDBFF \<and> take 2 (r @ x) = [0x5C, 0x75]) = False"
      using False assms(2,3) unfolding r by (cases r rule: remdups_adj.cases) auto
    with h' r show ?thesis by (simp only: unicode_escape_def option.case prod.case if_False)
  qed
qed

lemma scan_string_stays: "scan_string s = Some (t, r) \<Longrightarrow> scan_string (s @ x) = Some (t, r @ x)"
proof (induction s arbitrary: t r rule: length_induct)
  case (1 s)
  note IH = "1.IH" [rule_format]
  show ?case
  proof (cases s)
    case Nil
    with "1.prems" show ?thesis by simp
  next
    case (Cons c s')
    consider "c = 0x22" | "c \<noteq> 0x22" "c \<noteq> 0x5C" | "c = 0x5C" by blast
    then show ?thesis
    proof cases
      case 1
      with "1.prems" Cons show ?thesis by (simp add: scan_string.simps(2))
    next
      case 2
      with "1.prems" Cons IH [of s'] show ?thesis by (auto simp: scan_string.simps(2) split: if_splits)
    next
      case 3
      with "1.prems" Cons obtain d r1 where d: "s' = d # r1" by (cases s') (auto simp: scan_string.simps(2))
      show ?thesis
      proof (cases "d = 0x75")
        case True
        with "1.prems" Cons 3 d obtain y r2 t' where e: "unicode_escape r1 = Some (y, r2)" "scan_string r2 = Some (t', r)" "t = y # t'"
          by (auto simp: scan_string.simps(2) split: option.splits)
        have "length r2 < length s" using unicode_escape_shorter [OF e(1)] Cons d by simp
        from IH [OF this e(2)] have s2: "scan_string (r2 @ x) = Some (t', r @ x)" .
        have "r2 \<noteq> []" "r2 \<noteq> [0x5C]" using e(2) by (auto simp: scan_string.simps(2))
        from unicode_escape_stays [OF e(1) this, of x] show ?thesis
          using Cons 3 d True s2 e(3) by (simp add: scan_string.simps(2))
      next
        case False
        with "1.prems" Cons 3 d IH [of r1] show ?thesis by (auto simp: scan_string.simps(2) split: option.splits)
      qed
    qed
  qed
qed

text \<open>The characters after which a number is over.\<close>

definition stop :: "nat \<Rightarrow> bool" where
  "stop c \<longleftrightarrow> json_ws c \<or> c = 0x2C \<or> c = 0x5D \<or> c = 0x7D"

lemma stop_not: "stop c \<Longrightarrow> \<not> is_digit c \<and> c \<noteq> 0x2E \<and> c \<noteq> 0x65 \<and> c \<noteq> 0x45 \<and> c \<noteq> 0x2D \<and> c \<noteq> 0x2B"
  by (auto simp: stop_def json_ws_def is_digit_def)

definition stopped :: "pystr \<Rightarrow> bool" where
  "stopped r \<longleftrightarrow> (case r of [] \<Rightarrow> False | c # _ \<Rightarrow> stop c)"

lemma scan_exp_stays: "scan_exp s = (e, r) \<Longrightarrow> stopped r \<Longrightarrow> scan_exp (s @ x) = (e, r @ x)"
proof -
  assume e: "scan_exp s = (e, r)" and r: "stopped r"
  then have ne: "r \<noteq> []" "stop (hd r)" by (auto simp: stopped_def split: list.splits)
  obtain c s' where s: "s = c # s'" using e ne by (cases s) (auto simp: scan_exp_def)
  show ?thesis
  proof (cases "c = 0x65 \<or> c = 0x45")
    case False
    with e s show ?thesis by (auto simp: scan_exp_def)
  next
    case True
    define r1 where "r1 = (case s' of d # t \<Rightarrow> if d = 0x2D then t else if d = 0x2B then t else s' | [] \<Rightarrow> s')"
    have ds: "takeWhile is_digit r1 \<noteq> []"
    proof
      assume "takeWhile is_digit r1 = []"
      then have "r = s" using e True s by (auto simp: scan_exp_def r1_def Let_def split: list.splits if_splits)
      with ne s True show False using stop_not by auto
    qed
    then have "dropWhile is_digit r1 = r" using e True s by (auto simp: scan_exp_def r1_def Let_def split: list.splits if_splits)
    with ne have d: "dropWhile is_digit r1 \<noteq> []" by simp
    have "s' \<noteq> []" using ds by (auto simp: r1_def)
    then obtain d t where s': "s' = d # t" by (cases s') auto
    show ?thesis using e True s s' ds takeWhile_stays [OF d, of x]
      by (auto simp: scan_exp_def r1_def Let_def split: if_splits)
  qed
qed

lemma scan_frac_stays:
  assumes "scan_frac s = (f, r)" and "r \<noteq> []" and "hd r \<noteq> 0x2E"
  shows "scan_frac (s @ x) = (f, r @ x)"
proof -
  obtain c s' where s: "s = c # s'" using assms by (cases s) (auto simp: scan_frac_def)
  show ?thesis
  proof (cases "c = 0x2E \<and> takeWhile is_digit s' \<noteq> []")
    case True
    with assms s have "dropWhile is_digit s' = r" "takeWhile is_digit s' = f" by (auto simp: scan_frac_def)
    then show ?thesis using True s assms(2) takeWhile_stays [of is_digit s' x] by (auto simp: scan_frac_def)
  next
    case False
    with assms s have "c \<noteq> 0x2E" "r = s" "f = []" by (auto simp: scan_frac_def split: if_splits)
    then show ?thesis using s by (simp add: scan_frac_def)
  qed
qed

lemma scan_exp_rest: "scan_exp s = (e, r) \<Longrightarrow> stopped r \<Longrightarrow> s \<noteq> [] \<and> hd s \<noteq> 0x2E"
  by (cases s) (auto simp: scan_exp_def stopped_def Let_def dest: stop_not split: if_splits list.splits)

lemma scan_number_stays:
  assumes n: "(scan_number s :: 'e json_error + _) = Inr (v, r)" and r: "stopped r"
  shows "(scan_number (s @ x) :: 'f json_error + _) = Inr (v, r @ x)"
proof -
  define neg where "neg = (take 1 s = [0x2D])"
  define s1 where "s1 = (if neg then drop 1 s else s)"
  define ds where "ds = (if take 1 s1 = [0x30] then [0x30] else takeWhile is_digit s1)"
  define r0 where "r0 = drop (length ds) s1"
  obtain fp r1 where f: "scan_frac r0 = (fp, r1)" by (cases "scan_frac r0")
  obtain e r2 where e: "scan_exp r1 = (e, r2)" by (cases "scan_exp r1")
  define whole where "whole \<longleftrightarrow> fp = [] \<and> e = None"
  have ds_ne: "ds \<noteq> []" and r2: "r2 = r"
    and int: "whole \<Longrightarrow> \<not> 4300 < length ds \<and> v = JInt (if neg then - int (digits_val ds) else int (digits_val ds))"
    and float: "\<not> whole \<Longrightarrow> v = JFloat (float_of_decimal neg ds fp (case e of None \<Rightarrow> 0 | Some x \<Rightarrow> x))"
    using n unfolding scan_number_def Let_def neg_def [symmetric] s1_def [symmetric] ds_def [symmetric] r0_def [symmetric]
      f e prod.case whole_def [symmetric]
    by (auto split: if_splits)
  have rest1: "r1 \<noteq> []" "hd r1 \<noteq> 0x2E" using scan_exp_rest [OF e] r r2 by auto
  have e': "scan_exp (r1 @ x) = (e, r @ x)" using scan_exp_stays [OF e] r r2 by auto
  have f': "scan_frac (r0 @ x) = (fp, r1 @ x)" by (rule scan_frac_stays [OF f rest1])
  have r0: "r0 \<noteq> []" using f rest1 by (cases r0) (auto simp: scan_frac_def)
  have s1_ne: "s1 \<noteq> []" using r0 by (auto simp: r0_def)
  have s_ne: "s \<noteq> []" using s1_ne by (auto simp: s1_def split: if_splits)
  have neg': "(take 1 (s @ x) = [0x2D]) = neg" using s_ne by (cases s) (auto simp: neg_def)
  have s1': "(if neg then drop 1 (s @ x) else s @ x) = s1 @ x" using s_ne by (cases s) (auto simp: s1_def)
  have t: "take 1 (s1 @ x) = take 1 s1" using s1_ne by (cases s1) auto
  have ds': "(if take 1 (s1 @ x) = [0x30] then [0x30] else takeWhile is_digit (s1 @ x)) = ds"
  proof (cases "take 1 s1 = [0x30]")
    case False
    then have "ds = takeWhile is_digit s1" by (simp add: ds_def)
    then have "dropWhile is_digit s1 \<noteq> []" using r0 by (simp add: r0_def flip: dropWhile_eq_drop)
    from takeWhile_stays(1) [OF this, of x] show ?thesis using False by (simp only: t ds_def if_False)
  next
    case True
    then show ?thesis unfolding t ds_def by simp
  qed
  have r0': "drop (length ds) (s1 @ x) = r0 @ x" using r0 by (simp add: r0_def)
  show ?thesis
    unfolding scan_number_def Let_def neg' s1' ds' r0' f' prod.case e' whole_def [symmetric] using ds_ne int float
    by (cases whole) (simp_all only: if_True if_False simp_thms)
qed

section \<open>Values\<close>

lemma literal_at_stays: "literal_at w s \<Longrightarrow> literal_at w (s @ x) \<and> drop (length w) (s @ x) = drop (length w) s @ x"
proof -
  assume l: "literal_at w s"
  then have "length (take (length w) s) = length w" by (simp add: literal_at_def u_def)
  then have "length w \<le> length s" by simp
  with l show ?thesis by (simp add: literal_at_def)
qed

lemma scan_number_begins:
  assumes "scan_number (c # s) = Inr (v, r)"
  shows "is_digit c \<or> c = 0x2D \<and> (\<exists>d t. s = d # t \<and> is_digit d)"
  using assms by (cases s) (auto simp: scan_number_def Let_def is_digit_def split: if_splits)

text \<open>The values that begin with none of a quote, a brace and a bracket.\<close>

definition p_scalar :: "(string \<Rightarrow> 'e + json) \<Rightarrow> pystr \<Rightarrow> 'e json_error + (json \<times> pystr)" where
  "p_scalar const s =
     (if literal_at ''null'' s then Inr (JNull, drop 4 s)
          else if literal_at ''true'' s then Inr (JBool True, drop 4 s)
          else if literal_at ''false'' s then Inr (JBool False, drop 5 s)
          else if literal_at ''NaN'' s then
            mapError JHook (bindE (const ''NaN'') (\<lambda>v. Inr (v, drop 3 s)))
          else if literal_at ''Infinity'' s then
            mapError JHook (bindE (const ''Infinity'') (\<lambda>v. Inr (v, drop 8 s)))
          else if literal_at ''-Infinity'' s then
            mapError JHook (bindE (const ''-Infinity'') (\<lambda>v. Inr (v, drop 9 s)))
          else scan_number s)"

lemma p_value_scalar:
  assumes "c \<noteq> 0x22" and "c \<noteq> 0x7B" and "c \<noteq> 0x5B"
  shows "p_value hook const (Suc n) (c # s) = p_scalar const (c # s)"
  using assms by (simp add: p_value.simps(2) p_scalar_def)

definition LITERALS :: "string list" where
  "LITERALS = [''null'', ''true'', ''false'', ''NaN'', ''Infinity'', ''-Infinity'']"

definition literal_value :: "(string \<Rightarrow> 'e + json) \<Rightarrow> string \<Rightarrow> 'e + json" where
  "literal_value const w =
     (if w = ''null'' then Inr JNull else if w = ''true'' then Inr (JBool True) else if w = ''false'' then Inr (JBool False)
      else const w)"

lemma literal_first: "literal_at w s \<Longrightarrow> w \<noteq> [] \<Longrightarrow> s \<noteq> [] \<and> hd s = of_char (hd w)"
  by (cases w; cases s) (auto simp: literal_at_def u_def)

lemma p_scalar_literal:
  assumes "w \<in> set LITERALS" and "literal_at w s"
  shows "p_scalar const s = mapError JHook (bindE (literal_value const w) (\<lambda>v. Inr (v, drop (length w) s)))"
proof -
  have ne: "w \<noteq> []" using assms(1) by (auto simp: LITERALS_def)
  have other: "\<not> literal_at w' s" if "w' \<noteq> []" "hd w' \<noteq> hd w" for w'
  proof
    assume "literal_at w' s"
    from literal_first [OF this that(1)] literal_first [OF assms(2) ne] have "of_char (hd w') = (of_char (hd w) :: nat)" by simp
    with that(2) show False by (simp only: of_char_eq_iff)
  qed
  have "w = ''null'' \<or> w = ''true'' \<or> w = ''false'' \<or> w = ''NaN'' \<or> w = ''Infinity'' \<or> w = ''-Infinity''"
    using assms(1) by (auto simp: LITERALS_def)
  then show ?thesis
    unfolding p_scalar_def literal_value_def using assms(2) other
    by (elim disjE; hypsubst) (simp_all add: eval_nat_numeral)
qed

lemma p_scalar_number: "\<not> list_ex (\<lambda>w. literal_at w s) LITERALS \<Longrightarrow> p_scalar const s = scan_number s"
  by (simp add: LITERALS_def p_scalar_def)

lemma number_no_literal:
  assumes "scan_number (c # s) = Inr (v, r)"
  shows "\<not> list_ex (\<lambda>w. literal_at w (c # s @ x)) LITERALS"
proof
  assume "list_ex (\<lambda>w. literal_at w (c # s @ x)) LITERALS"
  then obtain w where w: "w \<in> set LITERALS" "literal_at w (c # s @ x)" by (auto simp: list_ex_iff)
  have c: "c = of_char (hd w)" using literal_first [OF w(2)] w(1) by (auto simp: LITERALS_def)
  from scan_number_begins [OF assms] show False
  proof
    assume "is_digit c"
    with c w(1) show False by (auto simp: LITERALS_def is_digit_def)
  next
    assume d: "c = 0x2D \<and> (\<exists>d t. s = d # t \<and> is_digit d)"
    with c w(1) have "w = ''-Infinity''" by (auto simp: LITERALS_def)
    with w(2) d show False by (auto simp: literal_at_Cons is_digit_def)
  qed
qed

lemma p_scalar_stays:
  fixes const :: "string \<Rightarrow> 'e + json" and const' :: "string \<Rightarrow> 'f + json"
  assumes const: "\<And>c v. const c = Inr v \<Longrightarrow> const' c = Inr v" and p: "p_scalar const (c # s) = Inr (v, r)" and r: "stopped r"
  shows "p_scalar const' (c # s @ x) = Inr (v, r @ x)"
proof (cases "list_ex (\<lambda>w. literal_at w (c # s)) LITERALS")
  case True
  then obtain w where w: "w \<in> set LITERALS" "literal_at w (c # s)" by (auto simp: list_ex_iff)
  from p have "literal_value const w = Inr v" "r = drop (length w) (c # s)"
    unfolding p_scalar_literal [OF w] by (auto simp: result_simps)
  moreover have "literal_value const w = Inr v \<Longrightarrow> literal_value const' w = Inr v"
    by (auto simp: literal_value_def const split: if_splits)
  moreover have "literal_at w (c # s @ x)" "drop (length w) (c # s @ x) = drop (length w) (c # s) @ x"
    using literal_at_stays [OF w(2), of x] by simp_all
  ultimately show ?thesis using p_scalar_literal [OF w(1), of "c # s @ x" const'] by simp
next
  case False
  then have n: "(scan_number (c # s) :: 'e json_error + _) = Inr (v, r)" using p by (simp add: p_scalar_number)
  from p_scalar_number [OF number_no_literal [OF n], of const' x] scan_number_stays [OF n r, of x] show ?thesis by simp
qed

definition value_over :: "pystr \<Rightarrow> pystr \<Rightarrow> bool" where
  "value_over s r \<longleftrightarrow> take 1 s = [0x7B] \<or> stopped r"

lemma after_value:
  assumes "skip_ws r = c # t" and "stop c"
  shows "stopped r" and "skip_ws (r @ x) = (c # t) @ x"
proof -
  show "stopped r" using assms by (cases r) (auto simp: stopped_def skip_ws_def stop_def split: if_splits)
  show "skip_ws (r @ x) = (c # t) @ x" using skip_ws_stays [of r x] assms(1) by simp
qed

lemma stops [simp]: "stop 0x2C" "stop 0x5D" "stop 0x7D"
  by (simp_all add: stop_def)

lemma take1_Cons: "take (Suc 0) s = [c] \<longleftrightarrow> (\<exists>t. s = c # t)"
  by (cases s) auto

lemma parsed_not_Nil:
  "p_value hook const n s = Inr (v, r) \<Longrightarrow> s \<noteq> []"
  "p_elems hook const n s = Inr (vs, r) \<Longrightarrow> s \<noteq> []"
  "p_members hook const n s = Inr (kvs, r) \<Longrightarrow> s \<noteq> []"
  by (auto dest: parsers_shorter)

text \<open>A reader that got to the end of a value gets there with more fuel and with more text behind it.\<close>

lemma parsers_stay:
  fixes hook :: "pydict \<Rightarrow> 'e + json" and hook' :: "pydict \<Rightarrow> 'f + json"
  assumes hooks: "\<And>kvs v. hook kvs = Inr v \<Longrightarrow> hook' kvs = Inr v" "\<And>c v. const c = Inr v \<Longrightarrow> const' c = Inr v"
  shows "p_value hook const n s = Inr (v, r) \<Longrightarrow> value_over s r \<Longrightarrow> n \<le> m \<Longrightarrow> p_value hook' const' m (s @ x) = Inr (v, r @ x)"
    and "p_elems hook const n s = Inr (vs, r) \<Longrightarrow> n \<le> m \<Longrightarrow> p_elems hook' const' m (s @ x) = Inr (vs, r @ x)"
    and "p_members hook const n s = Inr (kvs, r) \<Longrightarrow> n \<le> m \<Longrightarrow> p_members hook' const' m (s @ x) = Inr (kvs, r @ x)"
proof (induction n arbitrary: s v vs kvs r m)
  case 0
  { case 1 then show ?case by simp }
  { case 2 then show ?case by simp }
  { case 3 then show ?case by simp }
next
  case (Suc n)
  note V = Suc.IH(1) and E = Suc.IH(2) and M = Suc.IH(3)
  { case 1
    then obtain m' where m: "m = Suc m'" "n \<le> m'" by (cases m) auto
    obtain c s' where s: "s = c # s'" using 1(1) by (cases s) (auto simp: p_value.simps(2))
    consider "c = 0x22" | "c = 0x7B" | "c = 0x5B" | "c \<noteq> 0x22" "c \<noteq> 0x7B" "c \<noteq> 0x5B" by blast
    then show ?case
    proof cases
      case a: 1
      then obtain t where "scan_string s' = Some (t, r)" "v = JStr t"
        using 1(1) s by (auto simp: p_value.simps(2) result_simps opt_decode_Inr)
      with scan_string_stays [of s' t r x] a s m show ?thesis by (simp add: p_value.simps(2) opt_decode_def)
    next
      case a: 2
      then obtain kvs0 where k: "(if take 1 (skip_ws s') = [0x7D] then Inr ([], drop 1 (skip_ws s')) else p_members hook const n (skip_ws s')) = Inr (kvs0, r)"
          "hook kvs0 = Inr v"
        using 1(1) s by (auto simp: p_value.simps(2) result_simps Let_def)
      have ne: "skip_ws s' \<noteq> []" using k(1) by (auto split: if_splits dest: parsed_not_Nil)
      then have t: "take 1 (skip_ws s' @ x) = take 1 (skip_ws s')" "drop 1 (skip_ws s' @ x) = drop 1 (skip_ws s') @ x"
        by (cases "skip_ws s'"; simp)+
      have "(if take 1 (skip_ws (s' @ x)) = [0x7D] then Inr ([], drop 1 (skip_ws (s' @ x))) else p_members hook' const' m' (skip_ws (s' @ x))) = Inr (kvs0, r @ x)"
        unfolding skip_ws_stays [OF ne] t using k(1) M [of "skip_ws s'" kvs0 r m'] m(2) by (simp only: split: if_splits) auto
      then show ?thesis using a s m hooks(1) [OF k(2)] by (simp add: p_value.simps(2) Let_def)
    next
      case a: 3
      then obtain vs0 where k: "(if take 1 (skip_ws s') = [0x5D] then Inr ([], drop 1 (skip_ws s')) else p_elems hook const n (skip_ws s')) = Inr (vs0, r)"
          "v = JArr vs0"
        using 1(1) s by (auto simp: p_value.simps(2) result_simps Let_def)
      have ne: "skip_ws s' \<noteq> []" using k(1) by (auto split: if_splits dest: parsed_not_Nil)
      then have t: "take 1 (skip_ws s' @ x) = take 1 (skip_ws s')" "drop 1 (skip_ws s' @ x) = drop 1 (skip_ws s') @ x"
        by (cases "skip_ws s'"; simp)+
      have "(if take 1 (skip_ws (s' @ x)) = [0x5D] then Inr ([], drop 1 (skip_ws (s' @ x))) else p_elems hook' const' m' (skip_ws (s' @ x))) = Inr (vs0, r @ x)"
        unfolding skip_ws_stays [OF ne] t using k(1) E [of "skip_ws s'" vs0 r m'] m(2) by (simp only: split: if_splits) auto
      then show ?thesis using a s m k(2) by (simp add: p_value.simps(2) Let_def)
    next
      case a: 4
      then have st: "stopped r" using 1(2) s by (simp add: value_over_def)
      have "p_scalar const (c # s') = Inr (v, r)" using 1(1) s by (simp add: p_value_scalar [OF a])
      from p_scalar_stays [where const = const and const' = const', OF hooks(2) this st] show ?thesis
        using s m(1) by (simp add: p_value_scalar [OF a])
    qed
  }
  { case 2
    then obtain m' where m: "m = Suc m'" "n \<le> m'" by (cases m) auto
    from 2(1) obtain w r1 where w: "p_value hook const n s = Inr (w, r1)"
      by (auto simp: p_elems.simps(2) result_simps)
    with 2(1) consider (last) t where "skip_ws r1 = 0x5D # t" "vs = [w]" "r = t"
      | (more) t ws where "skip_ws r1 = 0x2C # t" "p_elems hook const n (skip_ws t) = Inr (ws, r)" "vs = w # ws"
      by (auto simp: p_elems.simps(2) result_simps Let_def expect_Inr take1_Cons split: if_splits)
    then show ?case
    proof cases
      case last
      note a = after_value [OF last(1) stops(2)]
      have "p_value hook' const' m' (s @ x) = Inr (w, r1 @ x)" by (rule V [OF w _ m(2)]) (simp add: value_over_def a)
      then show ?thesis using last(2,3) by (simp add: m(1) p_elems.simps(2) a(2))
    next
      case more
      note a = after_value [OF more(1) stops(1)]
      have "p_value hook' const' m' (s @ x) = Inr (w, r1 @ x)" by (rule V [OF w _ m(2)]) (simp add: value_over_def a)
      moreover have "p_elems hook' const' m' (skip_ws (t @ x)) = Inr (ws, r @ x)"
        using E [OF more(2) m(2)] skip_ws_stays [OF parsed_not_Nil(2) [OF more(2)]] by simp
      ultimately show ?thesis using more(3) by (simp add: m(1) p_elems.simps(2) a(2) expect_def)
    qed
  }
  { case 3
    then obtain m' where m: "m = Suc m'" "n \<le> m'" by (cases m) auto
    from 3(1) obtain s1 k s2 s3 w r1 where
      p: "s = 0x22 # s1" "scan_string s1 = Some (k, s2)" "skip_ws s2 = 0x3A # s3" "p_value hook const n (skip_ws s3) = Inr (w, r1)"
      by (auto simp: p_members.simps(2) result_simps expect_Inr opt_decode_Inr)
    have q: "scan_string (s1 @ x) = Some (k, s2 @ x)" "skip_ws (s2 @ x) = 0x3A # s3 @ x" "skip_ws (s3 @ x) = skip_ws s3 @ x"
      using scan_string_stays [OF p(2)] skip_ws_stays [of s2 x] p(3) skip_ws_stays [OF parsed_not_Nil(1) [OF p(4)]] by simp_all
    from 3(1) p consider (last) t where "skip_ws r1 = 0x7D # t" "kvs = [(k, w)]" "r = t"
      | (more) t ws where "skip_ws r1 = 0x2C # t" "p_members hook const n (skip_ws t) = Inr (ws, r)" "kvs = (k, w) # ws"
      by (auto simp: p_members.simps(2) result_simps Let_def expect_Inr opt_decode_Inr take1_Cons split: if_splits)
    then show ?case
    proof cases
      case last
      note a = after_value [OF last(1) stops(3)]
      have "p_value hook' const' m' (skip_ws s3 @ x) = Inr (w, r1 @ x)" by (rule V [OF p(4) _ m(2)]) (simp add: value_over_def a)
      then show ?thesis using last(2,3) by (simp add: m(1) p(1) q p_members.simps(2) a(2) expect_def opt_decode_def)
    next
      case more
      note a = after_value [OF more(1) stops(1)]
      have "p_value hook' const' m' (skip_ws s3 @ x) = Inr (w, r1 @ x)" by (rule V [OF p(4) _ m(2)]) (simp add: value_over_def a)
      moreover have "p_members hook' const' m' (skip_ws (t @ x)) = Inr (ws, r @ x)"
        using M [OF more(2) m(2)] skip_ws_stays [OF parsed_not_Nil(3) [OF more(2)]] by simp
      ultimately show ?thesis using more(3) by (simp add: m(1) p(1) q p_members.simps(2) a(2) expect_def opt_decode_def)
    qed
  }
qed

section \<open>No prefix of an object is JSON\<close>

lemma json_loads_object_prefix:
  fixes hook :: "pydict \<Rightarrow> 'e + json" and hook' :: "pydict \<Rightarrow> 'f + json"
  assumes hooks: "\<And>kvs v. hook kvs = Inr v \<Longrightarrow> hook' kvs = Inr v" "\<And>c v. const c = Inr v \<Longrightarrow> const' c = Inr v"
    and p: "json_loads hook const (0x7B # p) = Inr v" and c: "\<not> json_ws c"
  shows "json_loads hook' const' (0x7B # p @ c # t) = Inl JDecode"
proof -
  have ws: "skip_ws (0x7B # y) = 0x7B # y" for y by (simp add: skip_ws_def json_ws_def)
  from p obtain r where r: "p_value hook const (2 * length (0x7B # p) + 1) (0x7B # p) = Inr (v, r)" "skip_ws r = []"
    unfolding json_loads_def ws by (auto simp: result_simps split: if_splits)
  have "p_value hook' const' (2 * length (0x7B # p @ c # t) + 1) ((0x7B # p) @ c # t) = Inr (v, r @ c # t)"
    by (rule parsers_stay(1) [OF hooks r(1)]) (simp_all add: value_over_def)
  moreover have "skip_ws (r @ c # t) \<noteq> []"
  proof -
    have "\<forall>y \<in> set r. json_ws y" using r(2) by (auto simp: skip_ws_def dropWhile_eq_Nil_conv)
    then show ?thesis using c by (simp add: skip_ws_def dropWhile_append)
  qed
  ultimately show ?thesis unfolding json_loads_def ws by simp
qed

section \<open>Printed JSON has no control characters\<close>

definition visible :: "pystr \<Rightarrow> bool" where
  "visible s \<longleftrightarrow> list_all (\<lambda>c. 0x20 \<le> c) s"

lemma visible_simps [simp]: "visible []" "visible (c # s) \<longleftrightarrow> 0x20 \<le> c \<and> visible s" "visible (s @ t) \<longleftrightarrow> visible s \<and> visible t"
  by (simp_all add: visible_def)

lemma visible_sub: "visible s \<Longrightarrow> visible (take n s) \<and> visible (drop n s)"
  by (auto simp: visible_def list_all_iff dest: in_set_takeD in_set_dropD)

lemma visible_digits: "visible (dec_nat n)"
  using dec_nat_digits [of n] by (auto simp: visible_def list_all_iff is_digit_def)

lemma visible_replicate: "0x20 \<le> c \<Longrightarrow> visible (replicate n c)"
  by (simp add: visible_def list_all_iff)

lemma visible_dec_int: "visible (dec_int i)"
  by (simp add: dec_int_def visible_digits)

lemma visible_repr_pos: "visible (repr_pos a)"
proof -
  obtain ds k where dk: "shortest_digits a = (ds, k)" by (cases "shortest_digits a")
  then have ds: "visible ds" by (auto simp: shortest_digits_def Let_def visible_dec_int split: prod.splits)
  have "visible (exp_part e)" for e by (simp add: exp_part_def Let_def visible_digits)
  with ds visible_sub [OF ds] show ?thesis by (simp add: repr_pos_def dk visible_replicate u_def)
qed

lemma visible_float: "visible (float_repr x)"
  by (cases x) (simp_all add: float_repr_def visible_repr_pos u_def)

lemma visible_string: "visible (json_string s)"
proof -
  have "hex_digit d \<ge> 0x20" for d by (simp add: hex_digit_def)
  then have "visible (json_escape c)" for c by (simp add: json_escape_def)
  then show ?thesis by (induction s) (simp_all add: json_string_def)
qed

lemma visible_join: "0x20 \<le> sep \<Longrightarrow> list_all visible xs \<Longrightarrow> visible (join_with sep xs)"
  by (induction sep xs rule: join_with.induct) simp_all

lemma visible_jprint: "visible (jprint v)"
proof (induction v)
  case (JArr xs)
  then show ?case by (simp add: list_all_iff visible_join)
next
  case (JObj kvs)
  then have "visible (json_string k @ 0x3A # jprint w)" if "(k, w) \<in> set kvs" for k w
    using that visible_string by fastforce
  then have "list_all visible (map (\<lambda>(k, w). json_string k @ 0x3A # jprint w) kvs)" by (auto simp: list_all_iff)
  then show ?case by (simp add: visible_join)
qed (simp_all add: u_def visible_dec_int visible_float visible_string)

section \<open>A line that breaks inside an object\<close>

lemma splitlines_from_break:
  assumes "line_break c" and "c \<noteq> 0x0D" and "\<not> list_ex line_break p"
  shows "splitlines_from cur (p @ c # t) = (rev cur @ p) # splitlines_from [] t"
  using assms
proof (induction p arbitrary: cur)
  case Nil
  then show ?case by (cases t) auto
next
  case (Cons d p)
  then have d: "\<not> line_break d" "d \<noteq> 0x0D" by (auto simp: line_break_def)
  obtain e s where e: "p @ c # t = e # s" by (cases p) auto
  with d Cons.IH [of "d # cur"] Cons.prems show ?case by simp
qed

text \<open>
  The first break of a printed object that is followed by a line feed is one of the three that a
  JSON text may hold, or the line feed.
\<close>

lemma printed_line_break:
  assumes "visible z" and "list_ex line_break z"
  obtains p c t where "z = p @ c # t" "line_break c" "c \<noteq> 0x0D" "\<not> json_ws c" "\<not> list_ex line_break p"
proof -
  let ?p = "takeWhile (\<lambda>c. \<not> line_break c) z"
  obtain c t where ct: "dropWhile (\<lambda>c. \<not> line_break c) z = c # t"
    using assms(2) by (cases "dropWhile (\<lambda>c. \<not> line_break c) z") (auto simp: list_ex_iff)
  then have b: "line_break c" by (metis hd_dropWhile list.distinct(1) list.sel(1))
  have z: "z = ?p @ c # t" using ct by (metis takeWhile_dropWhile_id)
  then have "visible (?p @ c # t)" using assms(1) by simp
  then have "0x20 \<le> c" by simp
  moreover have "c \<noteq> 0x20" using b by (auto simp: line_break_def)
  ultimately have "c \<noteq> 0x0D" "\<not> json_ws c" by (auto simp: json_ws_def)
  moreover have "\<not> list_ex line_break ?p" by (auto simp: list_ex_iff dest: set_takeWhileD)
  ultimately show thesis using that [OF z b] by blast
qed

end
