(* ===== verification/Broker_Result_Facts.thy ===== *)
theory Broker_Result_Facts
  imports Broker_Result Broker_Facts Json_Prefix
begin

text \<open>
  What a review read from the broker's output is: bound to the request and to the canonical response,
  in the role the coordinator asked for, under the identity the coordinator gives it, and within the
  token budget. And one output of the broker that is never read: a response with a character that
  \<open>splitlines\<close> takes for the end of a line.
\<close>

section \<open>The budget\<close>

lemma add_lines_count: "add_lines (t, n) lines = Inr (t', n') \<Longrightarrow> n' \<le> n + length lines"
proof (induction lines arbitrary: t n)
  case (Cons line lines)
  from Cons.prems obtain y where "add_lines (case y of None \<Rightarrow> (t, n) | Some c \<Rightarrow> (add_tokens t c, n + 1)) lines = Inr (t', n')"
    by (auto simp: result_simps)
  with Cons.IH [of t n] Cons.IH [of "add_tokens t c" "n + 1" for c] show ?case by (cases y) fastforce+
qed simp

text \<open>
  The usage of a review that is accepted is within the budget: at most 260,000 input and 12,000
  output tokens, together at most the 272,000 below the price boundary, of which the cached and the
  reasoning tokens are part; the warning is exactly for 250,000 input tokens or more, and the events
  are between one and ten thousand.
\<close>

theorem accepted_usage_is_within_the_budget:
  "case parse_codex_usage_jsonl sha s of
     Inl _ \<Rightarrow> True
   | Inr c \<Rightarrow> 0 \<le> cu_cached_input_tokens c \<and> cu_cached_input_tokens c \<le> cu_input_tokens c \<and> cu_input_tokens c \<le> 260000
       \<and> 0 \<le> cu_reasoning_output_tokens c \<and> cu_reasoning_output_tokens c \<le> cu_output_tokens c \<and> cu_output_tokens c \<le> 12000
       \<and> total_tokens c \<le> 272000 \<and> (cu_warning_250k c \<longleftrightarrow> 250000 \<le> cu_input_tokens c)
       \<and> 1 \<le> cu_event_count c \<and> cu_event_count c \<le> 10000"
proof (cases "parse_codex_usage_jsonl sha s")
  case (Inr c)
  then obtain lines t n where a: "add_lines (no_tokens, 0) lines = Inr (t, n)" and n: "n \<noteq> 0" "length lines \<le> MAX_USAGE_JSONL_LINES"
    and t: "tc_output t \<le> OUTPUT_TOKEN_BUDGET" "tc_input t + OUTPUT_TOKEN_BUDGET \<le> REVIEW_REQUEST_TOKEN_BUDGET"
      "tc_input t + tc_output t \<le> REVIEW_REQUEST_TOKEN_BUDGET"
    and c: "cu_input_tokens c = tc_input t" "cu_cached_input_tokens c = tc_cached t" "cu_output_tokens c = tc_output t"
      "cu_reasoning_output_tokens c = tc_reasoning t" "cu_warning_250k c = (TOKEN_WARNING_THRESHOLD \<le> tc_input t)" "cu_event_count c = n"
    unfolding parse_codex_usage_jsonl_def Let_def
    by (auto simp: result_simps split: option.splits prod.splits)
  have "counts_ok t" by (rule add_lines_ok [OF a]) (simp add: counts_ok_def no_tokens_def)
  with add_lines_count [OF a] n t c Inr show ?thesis
    by (simp add: counts_ok_def total_tokens_def OUTPUT_TOKEN_BUDGET_def REVIEW_REQUEST_TOKEN_BUDGET_def
        TOKEN_WARNING_THRESHOLD_def MAX_USAGE_JSONL_LINES_def)
qed simp

section \<open>What was read\<close>

lemma rsl_Inr [result_simps]: "rsl b m = Inr x \<longleftrightarrow> b"
  by (simp add: rsl_def guardE_eq_Inr)

lemma loads_distinct_Inr: "loads_distinct e1 e2 e3 s = Inr v \<longleftrightarrow> json_loads (distinct_pairs e1) plain_const s = Inr v"
  by (auto simp: loads_distinct_def split: sum.splits json_error.splits)

lemma read_envelope_parts:
  assumes "read_envelope sha raw request = Inr (request_id, response, cr)"
  obtains z payload where "utf8_decode (butlast raw) = Some z"
    and "json_loads (distinct_pairs duplicate_result_key) plain_const z = Inr (JObj payload)"
    and "canonical_bytes (result_err ''broker result is not canonical JSON'') (JObj payload) = Inr (butlast raw)"
    and "raw = butlast raw @ [LF]"
    and "has_keys payload RESULT_KEYS" and "fld payload ''request_sha256'' = JStr request"
    and "fld payload ''response'' = JObj response" and "fld payload ''response_sha256'' = JStr (sha cr)"
    and "fld payload ''request_id'' = JStr request_id"
    and "canonical_response_bytes response = Inr cr"
proof -
  from assms obtain z v where z: "utf8_decode (butlast raw) = Some z"
      "json_loads (distinct_pairs duplicate_result_key) plain_const z = Inr v"
    unfolding read_envelope_def by (auto simp: result_simps loads_distinct_Inr split: option.splits)
  with assms obtain payload where v: "v = JObj payload"
    unfolding read_envelope_def by (cases v) (simp_all add: loads_distinct_def)
  obtain c where p: "has_keys payload RESULT_KEYS" "canonical_bytes (result_err ''broker result is not canonical JSON'') (JObj payload) = Inr c"
      "c @ [LF] = raw" "fld payload ''request_sha256'' = JStr request"
    and r: "(case fld payload ''response'' of
                JObj response \<Rightarrow>
                  bindE (mapError ResultBrokerError (canonical_response_bytes response)) (\<lambda>canonical_response.
                  bindE (case fld payload ''response_sha256'' of
                           JStr d \<Rightarrow> compare_digest d (sha canonical_response)
                         | _ \<Rightarrow> Inr False) (\<lambda>same.
                  bindE (rsl same ''broker response SHA-256 does not match its content'') (\<lambda>_.
                  bindE (validated_identifier ''request id'' (fld payload ''request_id'')) (\<lambda>request_id.
                  Inr (request_id, response, canonical_response)))))
              | _ \<Rightarrow> Inl (result_err ''broker response must be a JSON object'')) = Inr (request_id, response, cr)"
    using assms z unfolding read_envelope_def v by (auto simp: result_simps loads_distinct_def)
  have raw: "c = butlast raw" "raw = butlast raw @ [LF]" using p(3) by (metis butlast_snoc)+
  obtain resp where resp: "fld payload ''response'' = JObj resp" using r by (cases "fld payload ''response''") simp_all
  have q: "resp = response" "canonical_response_bytes response = Inr cr"
      "(case fld payload ''response_sha256'' of JStr d \<Rightarrow> compare_digest d (sha cr) | _ \<Rightarrow> Inr False) = Inr True"
      "validated_identifier ''request id'' (fld payload ''request_id'') = Inr request_id"
    using r unfolding resp by (auto simp: result_simps)
  have "fld payload ''response_sha256'' = JStr (sha cr)"
    using q(3) by (cases "fld payload ''response_sha256''") (auto simp: compare_digest_def split: if_splits)
  moreover have "fld payload ''request_id'' = JStr request_id"
    using q(4) by (cases "fld payload ''request_id''") (auto simp: validated_identifier_def Let_def result_simps)
  ultimately show thesis using that [OF z(1)] z(2) v p raw resp q(1,2) by simp
qed

lemma parsed_review_parts:
  assumes "parse_broker_review E raw request packet role attempt = Inr p"
  obtains effort request_id response cr response_id s m usage t z where
    "map_of ROLE_EFFORT role = Some effort"
    and "read_envelope (re_sha E) raw request = Inr (request_id, response, cr)"
    and "validated_identifier ''response id'' (fld response ''id'') = Inr response_id"
    and "extract_review_text response = Inr t" and "parse_review E t role = Inr m"
    and "utf8_decode raw = Some s" and "parse_codex_usage_jsonl (re_sha E) s = Inr usage" and "utf8_decode cr = Some z"
    and "p = \<lparr>pr_review = m\<lparr>rv_reviewer_id := u ''openai-'' @ u FIXED_MODEL @ [0x2D] @ role,
            rv_session_id := coordinator_session_id (re_sha E) request_id response_id role\<rparr>,
          pr_inference = \<lparr>ie_packet_sha256 = packet, ie_request_sha256 = request,
            ie_response_sha256 = re_sha E cr, ie_usage_jsonl_sha256 = cu_usage_jsonl_sha256 usage,
            ie_model = u FIXED_MODEL, ie_reasoning_effort = effort, ie_role = role, ie_attempt = attempt, ie_usage = usage\<rparr>,
          pr_request_id = request_id, pr_response_id = response_id, pr_canonical_response_text = z\<rparr>"
    and "is_sha256 request" and "is_sha256 packet" and "1 \<le> attempt \<and> attempt \<le> MAX_ROLE_ATTEMPTS"
proof -
  from assms obtain effort where e: "map_of ROLE_EFFORT role = Some effort"
    by (auto simp: parse_broker_review_def split: option.splits)
  note a = assms [unfolded parse_broker_review_def e option.case, simplified bindE_eq_Inr rsl_Inr]
  from a obtain request_id response cr where env: "read_envelope (re_sha E) raw request = Inr (request_id, response, cr)"
    by (auto simp: result_simps)
  from a obtain response_id t m where r: "validated_identifier ''response id'' (fld response ''id'') = Inr response_id"
      "extract_review_text response = Inr t" "parse_review E t role = Inr m"
    unfolding env by (auto simp: result_simps)
  from a obtain s usage z where "utf8_decode raw = Some s" "parse_codex_usage_jsonl (re_sha E) s = Inr usage" "utf8_decode cr = Some z"
    "p = \<lparr>pr_review = m\<lparr>rv_reviewer_id := u ''openai-'' @ u FIXED_MODEL @ [0x2D] @ role,
            rv_session_id := coordinator_session_id (re_sha E) request_id response_id role\<rparr>,
          pr_inference = \<lparr>ie_packet_sha256 = packet, ie_request_sha256 = request,
            ie_response_sha256 = re_sha E cr, ie_usage_jsonl_sha256 = cu_usage_jsonl_sha256 usage,
            ie_model = u FIXED_MODEL, ie_reasoning_effort = effort, ie_role = role, ie_attempt = attempt, ie_usage = usage\<rparr>,
          pr_request_id = request_id, pr_response_id = response_id, pr_canonical_response_text = z\<rparr>"
    unfolding env using r by (auto simp: result_simps Let_def split: option.splits)
  moreover have "is_sha256 request" "is_sha256 packet" "1 \<le> attempt \<and> attempt \<le> MAX_ROLE_ATTEMPTS" using a by (auto simp: result_simps)
  ultimately show thesis using that [OF e env r] by blast
qed

section \<open>A line that is not one line\<close>

lemma utf8_encode_LF: "utf8_encode [0x0A] = Some [LF]"
proof -
  have "of_char LF = (0x0A :: nat)" by (simp add: LF_def)
  then have "char_of (0x0A :: nat) = LF" using char_of_char [of LF, where 'a = nat] by (simp only:)
  then show ?thesis by (simp add: utf8_encode_def scalar_def surrogate_def utf8_char_def)
qed

lemma usage_of_a_broken_line:
  assumes "line_break c" and "c \<noteq> 0x0D" and "\<not> json_ws c" and "\<not> list_ex line_break p"
    and "json_loads (distinct_pairs e) plain_const (0x7B # p @ c # t) = Inr v"
  shows "\<exists>x. parse_codex_usage_jsonl sha (0x7B # p @ c # t @ r) = Inl x"
proof (cases "parse_codex_usage_jsonl sha (0x7B # p @ c # t @ r)")
  case (Inr usage)
  let ?first = "0x7B # p"
  have "\<not> list_ex line_break ?first" using assms(4) by (simp add: line_break_def)
  from splitlines_from_break [OF assms(1,2) this, of "[]" "t @ r"]
  have lines: "splitlines (0x7B # p @ c # t @ r) = ?first # splitlines (t @ r)" by (simp add: splitlines_def)
  have "lstrip ?first = ?first" by (rule lstrip_id) (simp add: py_space_def)
  then have "strip ?first \<noteq> []" by (simp add: strip_def rstrip_def py_space_def)
  with Inr lines obtain y where "usage_line ?first = Inr y"
    unfolding parse_codex_usage_jsonl_def Let_def by (auto simp: result_simps split: option.splits)
  then obtain w where "load_event ?first = Inr w" by (auto simp: usage_line_def result_simps)
  then have "json_loads (distinct_pairs (usage_err ''usage JSONL contains a duplicate JSON key'')) plain_const ?first = Inr w"
    by (auto simp: load_event_def split: sum.splits json_error.splits)
  then have "json_loads (distinct_pairs e) plain_const (0x7B # p @ c # t) = Inl JDecode"
    by (rule json_loads_object_prefix [rotated 2]) (use assms(3) in \<open>auto simp: distinct_pairs_def plain_const_def split: if_splits\<close>)
  with assms(5) show ?thesis by simp
qed simp

text \<open>
  C34. A review whose response holds a character that \<open>str.splitlines\<close> takes for a line end, such as
  \<open>U+0085\<close>, \<open>U+2028\<close> or \<open>U+2029\<close>, which the canonical text leaves as it is, is never read: the
  one line of the broker is cut into lines that are not JSON, and the whole review is refused as
  outside its token budget, whatever its content.
\<close>

theorem a_line_separator_in_the_response_refuses_the_review:
  "case utf8_decode (butlast raw) of
     None \<Rightarrow> True
   | Some z \<Rightarrow> if list_ex line_break z then \<exists>e. parse_broker_review E raw request packet role attempt = Inl e else True"
proof (cases "parse_broker_review E raw request packet role attempt")
  case (Inr parsed)
  then obtain s request_id response cr usage where env: "read_envelope (re_sha E) raw request = Inr (request_id, response, cr)"
      and s: "utf8_decode raw = Some s" and usage: "parse_codex_usage_jsonl (re_sha E) s = Inr usage"
    by (rule parsed_review_parts)
  from env obtain z payload where z: "utf8_decode (butlast raw) = Some z" 
      and j: "json_loads (distinct_pairs duplicate_result_key) plain_const z = Inr (JObj payload)"
      and c: "canonical_bytes (result_err ''broker result is not canonical JSON'') (JObj payload) = Inr (butlast raw)"
      and raw: "raw = butlast raw @ [LF]"
    by (rule read_envelope_parts)
  from c obtain z' where z': "dumps (JObj payload) = Some z'" "utf8_encode z' = Some (butlast raw)" by (auto simp: canonical_bytes_Inr)
  then have zz: "z' = z" using utf8_decode_encode [OF z'(2)] z by simp
  then have printed: "z = jprint (jsort (JObj payload))" using z'(1) by (simp add: dumps_def split: if_splits)
  have "utf8_encode (z @ [0x0A]) = Some raw"
    using z'(2) raw utf8_encode_LF unfolding zz utf8_encode_split by blast
  then have s': "s = z @ [0x0A]" using utf8_decode_encode s by fastforce
  show ?thesis
  proof (cases "list_ex line_break z")
    case True
    have "visible z" unfolding printed by (rule visible_jprint)
    from printed_line_break [OF this True] obtain p d t where b: "z = p @ d # t" "line_break d" "d \<noteq> 0x0D" "\<not> json_ws d" "\<not> list_ex line_break p" .
    obtain q where "z = 0x7B # q" using printed by (cases "jsort (JObj payload)") auto
    with b(1,2) obtain p' where p: "p = 0x7B # p'" by (cases p) (auto simp: line_break_def)
    have "\<not> list_ex line_break p'" using b(5) p by simp
    from usage_of_a_broken_line [OF b(2,3,4) this, of duplicate_result_key t "JObj payload" "re_sha E" "[0x0A]"] j s' usage b(1) p
    show ?thesis by simp
  qed (simp add: z)
qed (auto split: option.splits)

section \<open>A review that was read\<close>

lemma parse_review_facts:
  assumes "parse_review E s role = Inr m"
  shows "role_name (rv_role m) = role" and "\<not> rv_external_calls m"
    and "if rv_decision m = Accept then \<not> list_ex severe (rv_findings m) else rv_findings m \<noteq> []"
proof -
  obtain payload where p: "(case re_fields E payload of
              None \<Rightarrow> Inl (result_err ''Responses output_text does not satisfy ReviewReport'')
            | Some r \<Rightarrow>
                (case validate_review r of
                   Inl (ValidationError _) \<Rightarrow> Inl (result_err ''Responses output_text does not satisfy ReviewReport'')
                 | Inl e \<Rightarrow> Inl (ResultModelError e)
                 | Inr q \<Rightarrow> Inr q)) = Inr m" and role: "role_name (rv_role m) = role"
    using assms unfolding parse_review_def Let_def by (auto simp: result_simps)
  then obtain r where r: "re_fields E payload = Some r" by (cases "re_fields E payload") simp_all
  have v: "validate_review r = Inr m"
  proof (cases "validate_review r")
    case (Inl e)
    with p r show ?thesis by (cases e) simp_all
  qed (use p r in simp)
  from v obtain fs where c: "review_contract (r\<lparr>rv_findings := fs\<rparr>) = Inr m" by (auto simp: validate_review_def result_simps)
  then have "m = r\<lparr>rv_findings := fs\<rparr>" by (auto simp: review_contract_def result_simps)
  with c show "\<not> rv_external_calls m" "if rv_decision m = Accept then \<not> list_ex severe (rv_findings m) else rv_findings m \<noteq> []"
    by (auto simp: review_contract_def check_def result_simps)
  show "role_name (rv_role m) = role" by (rule role)
qed


section \<open>What the process writes is read\<close>

lemma compare_digest_sha: "is_sha256 a \<Longrightarrow> is_sha256 b \<Longrightarrow> compare_digest a b = Inr (a = b)"
  by (simp add: compare_digest_def is_sha256_ascii)

definition envelope_dict :: "broker_result \<Rightarrow> pydict" where
  "envelope_dict r = [(u ''schema_version'', JStr (bs_schema_version r)), (u ''request_sha256'', JStr (bs_request_sha256 r)),
     (u ''response_sha256'', JStr (bs_response_sha256 r)), (u ''request_id'', JStr (bs_request_id r)),
     (u ''response'', JObj (bs_response r))]"

lemma envelope_dict_facts:
  "distinct (map fst (envelope_dict r))" "has_keys (envelope_dict r) RESULT_KEYS"
  "fld (envelope_dict r) ''schema_version'' = JStr (bs_schema_version r)"
  "fld (envelope_dict r) ''request_sha256'' = JStr (bs_request_sha256 r)"
  "fld (envelope_dict r) ''response_sha256'' = JStr (bs_response_sha256 r)"
  "fld (envelope_dict r) ''request_id'' = JStr (bs_request_id r)"
  "fld (envelope_dict r) ''response'' = JObj (bs_response r)"
  by (simp_all add: envelope_dict_def fld_def has_keys_def RESULT_KEYS_def)

lemma envelope_is_read:
  assumes written: "canonical_result_bytes r = Inr raw" and plain: "plain (JObj (bs_response r))"
    and version: "bs_schema_version r = u ''1.0''"
    and cr: "canonical_response_bytes (bs_response r) = Inr cr" and digest: "bs_response_sha256 r = sha cr"
    and sha: "is_sha256 (sha cr)" and id: "1 \<le> length (bs_request_id r)" "length (bs_request_id r) \<le> 256" "visible_ascii (bs_request_id r)"
  shows "read_envelope sha raw (bs_request_sha256 r) = Inr (bs_request_id r, sort_dict (bs_response r), cr)"
proof -
  let ?d = "envelope_dict r"
  note f = envelope_dict_facts [of r]
  obtain b where b: "canonical_bytes (broker_err ''request contains a non-canonical JSON value'') (JObj ?d) = Inr b" "raw = b @ [LF]"
    using written by (auto simp: canonical_result_bytes_def envelope_dict_def result_simps)
  have p: "plain (JObj ?d)" using plain f(1) by (simp add: envelope_dict_def)
  obtain z where z: "utf8_decode b = Some z
      \<and> loads_distinct duplicate_result_key (result_err ''broker result is not valid UTF-8 JSON'') ResultValueError z = Inr (jsort (JObj ?d))"
    by (rule exE [OF loads_distinct_written [OF p b(1)]])
  have line: "canonical_bytes (result_err ''broker result is not canonical JSON'') (JObj (sort_dict ?d)) = Inr b"
  proof -
    have "canonical_bytes (result_err ''broker result is not canonical JSON'') (JObj ?d) = Inr b"
      using b(1) by (simp only: canonical_bytes_Inr)
    then show ?thesis by (simp only: canonical_bytes_sorted [OF p, unfolded jsort_dict])
  qed
  have response: "fld (sort_dict ?d) ''response'' = JObj (sort_dict (bs_response r))"
    unfolding fld_sort [OF f(1)] f(7) jsort_dict ..
  have cr': "canonical_response_bytes (sort_dict (bs_response r)) = Inr cr"
    using cr unfolding canonical_response_bytes_def by (simp only: canonical_bytes_sorted [OF plain, unfolded jsort_dict])
  have ident: "validated_identifier ''request id'' (JStr (bs_request_id r)) = Inr (bs_request_id r)"
    using id by (simp add: validated_identifier_def Let_def)
  note fields = f(3-6)
  have fields': "fld (sort_dict ?d) ''schema_version'' = JStr (u ''1.0'')" "fld (sort_dict ?d) ''request_sha256'' = JStr (bs_request_sha256 r)"
    "fld (sort_dict ?d) ''response_sha256'' = JStr (sha cr)" "fld (sort_dict ?d) ''request_id'' = JStr (bs_request_id r)"
    unfolding fld_sort [OF f(1)] fields version digest by simp_all
  have keys: "has_keys (sort_dict ?d) RESULT_KEYS" using f(2) by (simp add: has_keys_sort)
  show ?thesis
    unfolding read_envelope_def b(2) butlast_snoc conjunct1 [OF z] option.case conjunct2 [OF z] bindE_simps jsort_dict json.case
      response fields' rsl_def
    using keys line cr' compare_digest_sha [OF sha sha] ident by simp
qed

lemma read_answer_Inr:
  assumes "read_answer E body whole a = Inr r"
  shows "bs_schema_version r = u ''1.0''" and "bs_request_sha256 r = be_sha E body"
    and "1 \<le> length (bs_request_id r)" and "length (bs_request_id r) \<le> 256" and "visible_ascii (bs_request_id r)"
    and "\<exists>cr. canonical_response_bytes (bs_response r) = Inr cr \<and> bs_response_sha256 r = be_sha E cr"
  using assms by (auto simp: read_answer_def result_simps)

lemma submit_request_Inr:
  assumes "submit_request E framed [] = (Inr r, l)"
  shows "\<exists>key body whole a. l = [Posted key body, Closed] \<and> read_answer E body whole a = Inr r"
proof -
  obtain body key where "parse_canonical_request framed = Inr body" "validated_environment (be_casefold E) (be_environment E) = Inr key"
    using assms unfolding submit_request_def by (auto simp: bindS_Inr liftS_Inr)
  then show ?thesis
    using assms by (cases "be_network E key body") (auto simp: submit_request_def emit_def liftS_def)
qed


end
