(* ===== verification/Egress_Gateway.thy ===== *)
theory Egress_Gateway
  imports State_Error Py_Strings Outer_State
begin

text \<open>
  \<open>tools/ai_review/egress_gateway.py\<close>: the one way out of the broker's network. It accepts one peer
  of a private network, connects to one of the addresses of the API that are globally routable, and
  copies bytes both ways. What \<open>ipaddress\<close> says of an address, the answer of the resolver and the
  answers of the sockets are arguments; the copying is a step function over those answers.
\<close>

section \<open>Environment and addresses\<close>

datatype gateway_error = EgressGatewayError pystr | GatewayOSError

definition gateway_err :: "string \<Rightarrow> gateway_error" where
  "gateway_err m = EgressGatewayError (u m)"

definition FORBIDDEN_GATEWAY_NAMES :: "pystr list" where
  "FORBIDDEN_GATEWAY_NAMES = map u
     [''all_proxy'', ''aws_ca_bundle'', ''curl_ca_bundle'', ''http_proxy'', ''https_proxy'', ''ld_audit'', ''ld_library_path'',
      ''ld_preload'', ''netrc'', ''no_proxy'', ''openai_api_key'', ''openai_base_url'', ''pythonhome'', ''pythonpath'',
      ''requests_ca_bundle'', ''ssl_cert_dir'', ''ssl_cert_file'']"

definition validate_gateway_environment :: "fold_fn \<Rightarrow> (pystr \<times> pystr) list \<Rightarrow> gateway_error + unit" where
  "validate_gateway_environment casefold environment =
     bindE (guardE (\<not> list_ex (\<lambda>(name, _). casefold name \<in> set FORBIDDEN_GATEWAY_NAMES) environment)
       (gateway_err ''egress gateway environment is not approved'')) (\<lambda>_.
     guardE (map_of environment (u ''AI_REVIEW_EGRESS_GATEWAY'') = Some (u ''1''))
       (gateway_err ''egress gateway opt-in is missing''))"

record ip_info =
  ip_compressed :: pystr
  ip_is_global :: bool
  ip_is_private :: bool
  ip_is_loopback :: bool
  ip_is_link_local :: bool
  ip_is_multicast :: bool

text \<open>\<open>ipaddress.ip_address\<close>: nothing for a text it refuses.\<close>

type_synonym ip_fn = "pystr \<Rightarrow> ip_info option"

datatype ip_family = AF_INET | AF_INET6 | OtherFamily

text \<open>A socket address: its host, its port and, for version 6, the rest of the tuple.\<close>

record sock_address =
  sa_host :: pystr
  sa_port :: int
  sa_rest :: "int list"

text \<open>An answer of \<open>getaddrinfo\<close>; the address is nothing when it is no tuple of at least two items.\<close>

record addr_info =
  ai_family :: ip_family
  ai_stream :: bool
  ai_protocol :: int
  ai_address :: "sock_address option"

definition TARGET_PORT :: int where
  "TARGET_PORT = 443"

definition IPPROTO_TCP :: int where
  "IPPROTO_TCP = 6"

definition MAX_TARGET_ADDRESSES :: nat where
  "MAX_TARGET_ADDRESSES = 16"

text \<open>The address of a usable answer, with what \<open>ipaddress\<close> says of it.\<close>

definition usable :: "ip_fn \<Rightarrow> addr_info \<Rightarrow> (sock_address \<times> ip_info) option" where
  "usable ip a =
     (case ai_address a of
        None \<Rightarrow> None
      | Some address \<Rightarrow>
          if ai_family a = OtherFamily \<or> \<not> ai_stream a \<or> ai_protocol a \<notin> {0, IPPROTO_TCP} \<or> sa_port address \<noteq> TARGET_PORT then None
          else map_option (Pair address) (ip (sa_host address)))"

type_synonym address_key = "ip_family \<times> pystr \<times> int"

fun collect_addresses :: "ip_fn \<Rightarrow> addr_info list \<Rightarrow> address_key list \<Rightarrow> (ip_family \<times> sock_address) list
    \<Rightarrow> gateway_error + (ip_family \<times> sock_address) list" where
  "collect_addresses ip [] seen addresses = Inr addresses"
| "collect_addresses ip (a # results) seen addresses =
     (case usable ip a of
        None \<Rightarrow> collect_addresses ip results seen addresses
      | Some (address, info) \<Rightarrow>
          bindE (guardE (ip_is_global info) (gateway_err ''egress target resolution returned a forbidden address'')) (\<lambda>_.
          let key = (ai_family a, ip_compressed info, sa_port address);
              new = key \<notin> set seen;
              seen' = (if new then seen @ [key] else seen);
              addresses' = (if new then addresses @ [(ai_family a, address)] else addresses) in
          bindE (guardE (length addresses' \<le> MAX_TARGET_ADDRESSES)
            (gateway_err ''egress target resolution exceeded its address limit'')) (\<lambda>_.
          collect_addresses ip results seen' addresses')))"

text \<open>The resolver answers nothing when it raises \<open>OSError\<close>.\<close>

definition validated_target_addresses :: "ip_fn \<Rightarrow> addr_info list option \<Rightarrow> gateway_error + (ip_family \<times> sock_address) list" where
  "validated_target_addresses ip resolved =
     (case resolved of
        None \<Rightarrow> Inl (gateway_err ''egress target resolution failed'')
      | Some results \<Rightarrow>
          bindE (collect_addresses ip results [] []) (\<lambda>addresses.
          bindE (guardE (addresses \<noteq> []) (gateway_err ''egress target resolution returned no approved address'')) (\<lambda>_.
          Inr addresses)))"

definition validate_peer :: "ip_fn \<Rightarrow> pystr option \<Rightarrow> gateway_error + unit" where
  "validate_peer ip host =
     (case host of
        None \<Rightarrow> Inl (gateway_err ''egress gateway peer is invalid'')
      | Some h \<Rightarrow>
          (case ip h of
             None \<Rightarrow> Inl (gateway_err ''egress gateway peer is invalid'')
           | Some p \<Rightarrow>
               guardE (ip_is_private p \<and> \<not> ip_is_loopback p \<and> \<not> ip_is_link_local p \<and> \<not> ip_is_multicast p)
                 (gateway_err ''egress gateway peer is outside the private broker network'')))"

section \<open>Copying bytes\<close>

datatype side = PeerSide | TargetSide

definition other :: "side \<Rightarrow> side" where
  "other s = (case s of PeerSide \<Rightarrow> TargetSide | TargetSide \<Rightarrow> PeerSide)"

definition MAX_BYTES_PER_DIRECTION :: nat where
  "MAX_BYTES_PER_DIRECTION = 16000000"

definition CHUNK_BYTES :: nat where
  "CHUNK_BYTES = 65536"

text \<open>
  Where the loop is: before \<open>select\<close>, with ready sockets left to read, with a chunk of a socket left
  to send, or over.
\<close>

datatype relay_point =
    Selecting
  | Reading "side list"
  | Sending side bytes "side list"
  | Ended "gateway_error option"

text \<open>\<open>rs_received s\<close> is what was read from \<open>s\<close>, \<open>rs_sent s\<close> what was sent of it to the other side.\<close>

record relay_state =
  rs_point :: relay_point
  rs_registered :: "side list"
  rs_received :: "side \<Rightarrow> bytes"
  rs_sent :: "side \<Rightarrow> bytes"
  rs_shut :: "side \<Rightarrow> bool"

text \<open>
  The answers of the system: the clock with the sockets \<open>select\<close> returned, a \<open>recv\<close>, and a \<open>send\<close>,
  which may block with the deadline passed or not.
\<close>

datatype relay_answer =
    Selected bool "side list"
  | RecvBlocked
  | RecvError
  | Recv bytes
  | SendBlocked bool
  | SendError
  | Sent nat

definition relay_start :: relay_state where
  "relay_start = \<lparr>rs_point = Selecting, rs_registered = [PeerSide, TargetSide], rs_received = (\<lambda>_. []), rs_sent = (\<lambda>_. []),
     rs_shut = (\<lambda>_. False)\<rparr>"

definition relay_fails :: "string \<Rightarrow> relay_point" where
  "relay_fails m = Ended (Some (gateway_err m))"

text \<open>\<open>while selector.get_map()\<close> ends as soon as no socket is registered.\<close>

definition next_round :: "relay_state \<Rightarrow> side list \<Rightarrow> relay_state" where
  "next_round s ready =
     s\<lparr>rs_point := (if ready = [] then (if rs_registered s = [] then Ended None else Selecting) else Reading ready)\<rparr>"

text \<open>One answer of the system; \<open>None\<close> for an answer to a call the loop does not make, or a call cannot have.\<close>

definition relay_step :: "relay_state \<Rightarrow> relay_answer \<Rightarrow> relay_state option" where
  "relay_step s answer =
     (case (rs_point s, answer) of
        (Selecting, Selected expired ready) \<Rightarrow>
          (if expired then Some (s\<lparr>rs_point := relay_fails ''egress relay timed out''\<rparr>)
           else if distinct ready \<and> set ready \<subseteq> set (rs_registered s) then Some (next_round s ready)
           else None)
      | (Reading (source # ready), RecvBlocked) \<Rightarrow> Some (next_round s ready)
      | (Reading (source # ready), RecvError) \<Rightarrow> Some (s\<lparr>rs_point := Ended (Some GatewayOSError)\<rparr>)
      | (Reading (source # ready), Recv chunk) \<Rightarrow>
          (if CHUNK_BYTES < length chunk then None
           else if chunk = [] then
             Some (next_round (s\<lparr>rs_registered := removeAll source (rs_registered s), rs_shut := (rs_shut s)(other source := True)\<rparr>) ready)
           else
             (let received = (rs_received s)(source := rs_received s source @ chunk); s' = s\<lparr>rs_received := received\<rparr> in
              if MAX_BYTES_PER_DIRECTION < length (received source)
              then Some (s'\<lparr>rs_point := relay_fails ''egress relay exceeded its byte limit''\<rparr>)
              else Some (s'\<lparr>rs_point := Sending source chunk ready\<rparr>)))
      | (Sending source view ready, SendBlocked expired) \<Rightarrow>
          Some (if expired then s\<lparr>rs_point := relay_fails ''egress relay timed out''\<rparr> else s)
      | (Sending source view ready, SendError) \<Rightarrow> Some (s\<lparr>rs_point := Ended (Some GatewayOSError)\<rparr>)
      | (Sending source view ready, Sent written) \<Rightarrow>
          (if length view < written then None
           else if written = 0 then Some (s\<lparr>rs_point := relay_fails ''egress relay failed''\<rparr>)
           else
             (let s' = s\<lparr>rs_sent := (rs_sent s)(source := rs_sent s source @ take written view)\<rparr>; rest = drop written view in
              if rest = [] then Some (next_round s' ready) else Some (s'\<lparr>rs_point := Sending source rest ready\<rparr>)))
      | _ \<Rightarrow> None)"

fun relay :: "relay_state \<Rightarrow> relay_answer list \<Rightarrow> relay_state option" where
  "relay s [] = Some s"
| "relay s (a # answers) = (case relay_step s a of None \<Rightarrow> None | Some s' \<Rightarrow> relay s' answers)"

section \<open>One connection\<close>

text \<open>What the gateway does to the outside, in order.\<close>

datatype gateway_event =
    Resolved
  | Listening
  | Accepted
  | Connecting ip_family sock_address
  | Relaying
  | ClosedListener
  | ClosedPeer
  | ClosedTarget
  | ClosedAttempt

text \<open>
  The outside: the resolver, the peer's host if one connects (the inner \<open>None\<close> for an address that
  is no tuple), whether a socket of a family can be made and a connection succeeds, and the answers
  of the sockets while bytes are copied.
\<close>

record gateway_env =
  gw_casefold :: fold_fn
  gw_ip :: ip_fn
  gw_environment :: "(pystr \<times> pystr) list"
  gw_resolved :: "addr_info list option"
  gw_listens :: bool
  gw_peer :: "pystr option option"
  gw_socket :: "ip_family \<Rightarrow> bool"
  gw_connects :: "sock_address \<Rightarrow> bool"
  gw_answers :: "relay_answer list"

fun connect_target :: "gateway_env \<Rightarrow> (ip_family \<times> sock_address) list \<Rightarrow> (gateway_event, gateway_error, unit) effectful" where
  "connect_target E [] = liftS (Inl (gateway_err ''egress target connection failed''))"
| "connect_target E ((family, address) # addresses) =
     (if gw_socket E family then
        emit (Connecting family address)
          (if gw_connects E address then liftS (Inr ()) else emit ClosedAttempt (connect_target E addresses))
      else liftS (Inl GatewayOSError))"

text \<open>
  The end of the copying, when the answers of the system bring it to its end; a run that is still
  going on has no end, and closes nothing.
\<close>

definition relay_end :: "gateway_env \<Rightarrow> gateway_error option option" where
  "relay_end E =
     (case relay relay_start (gw_answers E) of
        Some s \<Rightarrow> (case rs_point s of Ended r \<Rightarrow> Some r | _ \<Rightarrow> None)
      | None \<Rightarrow> None)"

datatype gateway_end = Served | GatewayFailed gateway_error | StillRunning

definition close_all :: "gateway_event list \<Rightarrow> gateway_error + unit \<Rightarrow> gateway_event list \<Rightarrow> gateway_end \<times> gateway_event list" where
  "close_all opened r l = ((case r of Inl e \<Rightarrow> GatewayFailed e | Inr _ \<Rightarrow> Served), l @ opened)"

definition serve_once :: "gateway_env \<Rightarrow> gateway_event list \<Rightarrow> gateway_end \<times> gateway_event list" where
  "serve_once E l =
     (case validate_gateway_environment (gw_casefold E) (gw_environment E) of
        Inl e \<Rightarrow> (GatewayFailed e, l)
      | Inr _ \<Rightarrow>
          (case validated_target_addresses (gw_ip E) (gw_resolved E) of
             Inl e \<Rightarrow> (GatewayFailed e, l @ [Resolved])
           | Inr addresses \<Rightarrow>
               (if \<not> gw_listens E then close_all [ClosedListener] (Inl GatewayOSError) (l @ [Resolved, Listening])
                else
                  (let l1 = l @ [Resolved, Listening] in
                   case gw_peer E of
                     None \<Rightarrow> close_all [ClosedListener] (Inl (gateway_err ''egress gateway did not receive one broker connection'')) l1
                   | Some host \<Rightarrow>
                       (case validate_peer (gw_ip E) host of
                          Inl e \<Rightarrow> close_all [ClosedListener, ClosedPeer] (Inl e) (l1 @ [Accepted])
                        | Inr _ \<Rightarrow>
                            (case connect_target E addresses (l1 @ [Accepted]) of
                               (Inl e, l2) \<Rightarrow> close_all [ClosedListener, ClosedPeer] (Inl e) l2
                             | (Inr _, l2) \<Rightarrow>
                                 (case relay_end E of
                                    None \<Rightarrow> (StillRunning, l2 @ [Relaying])
                                  | Some (Some e) \<Rightarrow> close_all [ClosedListener, ClosedPeer, ClosedTarget] (Inl e) (l2 @ [Relaying])
                                  | Some None \<Rightarrow> close_all [ClosedListener, ClosedPeer, ClosedTarget] (Inr ()) (l2 @ [Relaying]))))))))"

text \<open>The exit code, when the gateway ends; an exception that is not caught ends it with code 1.\<close>

definition gateway_main :: "gateway_env \<Rightarrow> pystr list \<Rightarrow> nat option \<times> gateway_event list" where
  "gateway_main E arguments =
     (if arguments \<noteq> [] then (Some 2, [])
      else
        (case serve_once E [] of
           (Served, l) \<Rightarrow> (Some 0, l)
         | (GatewayFailed (EgressGatewayError _), l) \<Rightarrow> (Some 2, l)
         | (GatewayFailed GatewayOSError, l) \<Rightarrow> (Some 1, l)
         | (StillRunning, l) \<Rightarrow> (None, l)))"

end
