(* ===== verification/Egress_Facts.thy ===== *)
theory Egress_Facts
  imports Egress_Gateway "HOL-Library.Sublist"
begin

text \<open>
  What leaves the network of the broker: connections to global addresses on port 443 only, after one
  private peer was accepted, with every socket closed at the end; and the bytes of that peer and of
  the target, each the other's, in order, none invented and none left out when the copying ends well.
\<close>

section \<open>Copying\<close>

text \<open>The states the copying can be in.\<close>

inductive relay_reaches :: "relay_state \<Rightarrow> bool" where
  start: "relay_reaches relay_start"
| step: "relay_reaches s \<Longrightarrow> relay_step s a = Some s' \<Longrightarrow> relay_reaches s'"

lemma relay_reachable: "relay_reaches s \<Longrightarrow> relay s answers = Some s' \<Longrightarrow> relay_reaches s'"
proof (induction answers arbitrary: s)
  case (Cons a answers)
  then show ?case by (auto split: option.splits intro: relay_reaches.step)
qed simp

text \<open>What is still to be sent of what was read from a side.\<close>

definition unsent :: "relay_point \<Rightarrow> side \<Rightarrow> bytes" where
  "unsent p s = (case p of Sending source view _ \<Rightarrow> if source = s then view else [] | _ \<Rightarrow> [])"

definition failed :: "relay_point \<Rightarrow> bool" where
  "failed p = (case p of Ended (Some _) \<Rightarrow> True | _ \<Rightarrow> False)"

definition copied :: "relay_state \<Rightarrow> side \<Rightarrow> bool" where
  "copied r s \<longleftrightarrow> (s \<in> set (rs_registered r) \<longleftrightarrow> \<not> rs_shut r (other s))
     \<and> length (rs_sent r s) \<le> MAX_BYTES_PER_DIRECTION
     \<and> (if failed (rs_point r) then prefix (rs_sent r s) (rs_received r s)
        else rs_received r s = rs_sent r s @ unsent (rs_point r) s \<and> length (rs_received r s) \<le> MAX_BYTES_PER_DIRECTION)"

definition relay_ok :: "relay_state \<Rightarrow> bool" where
  "relay_ok r \<longleftrightarrow> (\<forall>s. copied r s) \<and> (rs_point r = Ended None \<longrightarrow> rs_registered r = [])"

lemma other_simps [simp]: "other PeerSide = TargetSide" "other TargetSide = PeerSide" "other (other s) = s" "other s \<noteq> s"
  by (simp_all add: other_def split: side.splits)

lemma side_cases [simp]: "s = PeerSide \<or> s = TargetSide"
  by (cases s) simp_all

lemma ok_copied: "relay_ok r \<Longrightarrow> copied r s"
  by (simp add: relay_ok_def)

text \<open>A state in which nothing is left to send.\<close>

definition settled :: "relay_state \<Rightarrow> bool" where
  "settled r \<longleftrightarrow> (\<forall>s. (s \<in> set (rs_registered r) \<longleftrightarrow> \<not> rs_shut r (other s)) \<and> rs_received r s = rs_sent r s
     \<and> length (rs_sent r s) \<le> MAX_BYTES_PER_DIRECTION)"

lemma settled_next: "settled r \<Longrightarrow> relay_ok (next_round r ready)"
  by (auto simp: settled_def relay_ok_def copied_def next_round_def failed_def unsent_def)

lemma settled_fails: "settled r \<Longrightarrow> relay_ok (r\<lparr>rs_point := Ended (Some e)\<rparr>)"
  by (auto simp: settled_def relay_ok_def copied_def failed_def)

lemma ok_settled: "relay_ok r \<Longrightarrow> rs_point r = Selecting \<or> (\<exists>xs. rs_point r = Reading xs) \<Longrightarrow> settled r"
  unfolding relay_ok_def by (auto simp: settled_def copied_def failed_def unsent_def)

lemma relay_start_ok: "relay_ok relay_start"
  by (simp add: relay_ok_def copied_def relay_start_def failed_def unsent_def)

lemma read_ok:
  assumes s: "settled r" and step: "relay_step r a = Some r'" and p: "rs_point r = Reading (source # ready)"
  shows "relay_ok r'"
proof -
  note S = s [unfolded settled_def, rule_format]
  consider "a = RecvBlocked" | "a = RecvError" | chunk where "a = Recv chunk"
    using step p by (cases a) (simp_all add: relay_step_def)
  then show ?thesis
  proof cases
    case 1
    with step p settled_next [OF s] show ?thesis by (auto simp: relay_step_def)
  next
    case 2
    with step p settled_fails [OF s] show ?thesis by (auto simp: relay_step_def)
  next
    case 3
    show ?thesis
    proof (cases "chunk = []")
      case True
      have "settled (r\<lparr>rs_registered := removeAll source (rs_registered r), rs_shut := (rs_shut r)(other source := True)\<rparr>)"
        using S unfolding settled_def by (auto simp: fun_upd_def) (metis other_simps(3))+
      with settled_next step p 3 True show ?thesis by (auto simp: relay_step_def split: if_splits)
    next
      case False
      let ?received = "(rs_received r)(source := rs_received r source @ chunk)"
      have r': "r' = (if MAX_BYTES_PER_DIRECTION < length (?received source)
                then r\<lparr>rs_received := ?received, rs_point := relay_fails ''egress relay exceeded its byte limit''\<rparr>
                else r\<lparr>rs_received := ?received, rs_point := Sending source chunk ready\<rparr>)"
        using step p 3 False by (auto simp: relay_step_def Let_def split: if_splits)
      show ?thesis
      proof (cases "MAX_BYTES_PER_DIRECTION < length (?received source)")
        case True
        with S show ?thesis
          unfolding r' relay_ok_def by (auto simp: copied_def relay_fails_def failed_def)
      next
        case False
        with S show ?thesis
          unfolding r' relay_ok_def by (auto simp: copied_def failed_def unsent_def)
      qed
    qed
  qed
qed

lemma send_ok:
  assumes ok: "relay_ok r" and step: "relay_step r a = Some r'" and p: "rs_point r = Sending source view ready"
  shows "relay_ok r'"
proof -
  have S: "(s \<in> set (rs_registered r) \<longleftrightarrow> \<not> rs_shut r (other s))"
    "length (rs_sent r s) \<le> MAX_BYTES_PER_DIRECTION" "rs_received r s = rs_sent r s @ (if source = s then view else [])"
    "length (rs_received r s) \<le> MAX_BYTES_PER_DIRECTION" for s
    using ok_copied [OF ok, of s] by (auto simp: copied_def p failed_def unsent_def)
  have fails: "relay_ok (r\<lparr>rs_point := Ended (Some e)\<rparr>)" for e
    unfolding relay_ok_def using S by (auto simp: copied_def failed_def)
  consider x where "a = SendBlocked x" | "a = SendError" | n where "a = Sent n"
    using step p by (cases a) (simp_all add: relay_step_def)
  then show ?thesis
  proof cases
    case 1
    with step p ok fails show ?thesis by (auto simp: relay_step_def relay_fails_def split: if_splits)
  next
    case 2
    with step p fails show ?thesis by (auto simp: relay_step_def)
  next
    case 3
    let ?r = "r\<lparr>rs_sent := (rs_sent r)(source := rs_sent r source @ take n view)\<rparr>"
    show ?thesis
    proof (cases "n = 0")
      case True
      with step p 3 fails show ?thesis by (auto simp: relay_step_def relay_fails_def split: if_splits)
    next
      case False
      have bound: "length (rs_sent r source @ take n view) \<le> MAX_BYTES_PER_DIRECTION"
        using S(3,4) [of source] by (simp add: min_def)
      have r': "r' = (if drop n view = [] then next_round ?r ready else ?r\<lparr>rs_point := Sending source (drop n view) ready\<rparr>)"
        using step p 3 False by (auto simp: relay_step_def Let_def split: if_splits)
      show ?thesis
      proof (cases "drop n view = []")
        case True
        then have "settled ?r" using S bound by (auto simp: settled_def)
        with settled_next show ?thesis unfolding r' if_P [OF True] by blast
      next
        case False
        have "copied (?r\<lparr>rs_point := Sending source (drop n view) ready\<rparr>) s" for s
          using S [of s] bound by (auto simp: copied_def failed_def unsent_def)
        then have "\<forall>s. copied (?r\<lparr>rs_point := Sending source (drop n view) ready\<rparr>) s" ..
        then show ?thesis unfolding r' if_not_P [OF False] relay_ok_def by (intro conjI) simp_all
      qed
    qed
  qed
qed

lemma relay_step_ok:
  assumes "relay_ok r" and "relay_step r a = Some r'"
  shows "relay_ok r'"
proof (cases "rs_point r")
  case Selecting
  with ok_settled [OF assms(1)] have s: "settled r" by simp
  with Selecting assms(2) show ?thesis
    by (cases a) (auto simp: relay_step_def relay_fails_def split: if_splits intro: settled_next settled_fails)
next
  case (Reading xs)
  with ok_settled [OF assms(1)] have s: "settled r" by simp
  from Reading assms(2) obtain source ready where "rs_point r = Reading (source # ready)"
    by (cases xs; cases a) (auto simp: relay_step_def)
  with read_ok [OF s assms(2)] show ?thesis by blast
next
  case (Sending source view ready)
  with send_ok [OF assms] show ?thesis by blast
next
  case (Ended e)
  with assms(2) show ?thesis by (simp add: relay_step_def)
qed

lemma reached_ok: "relay_reaches r \<Longrightarrow> relay_ok r"
  by (induction rule: relay_reaches.induct) (auto intro: relay_start_ok relay_step_ok)

text \<open>
  C35. Whatever the sockets answer, in every state of the copying the bytes sent to one side are the
  first of the bytes read from the other, in order, and at most sixteen million; when the copying
  ends without an error, both sides have ended, everything that was read has been sent, and both
  have been told.
\<close>

theorem bytes_are_copied_in_order:
  "case relay relay_start answers of
     None \<Rightarrow> True
   | Some r \<Rightarrow>
       prefix (rs_sent r PeerSide) (rs_received r PeerSide) \<and> prefix (rs_sent r TargetSide) (rs_received r TargetSide)
       \<and> length (rs_sent r PeerSide) \<le> 16000000 \<and> length (rs_sent r TargetSide) \<le> 16000000
       \<and> (case rs_point r of
            Ended None \<Rightarrow> rs_sent r PeerSide = rs_received r PeerSide \<and> rs_sent r TargetSide = rs_received r TargetSide
              \<and> rs_shut r PeerSide \<and> rs_shut r TargetSide
          | _ \<Rightarrow> True)"
proof (cases "relay relay_start answers")
  case (Some r)
  then have ok: "relay_ok r" using relay_reachable [OF relay_reaches.start] reached_ok by blast
  have p: "prefix (rs_sent r s) (rs_received r s)" "length (rs_sent r s) \<le> 16000000" for s
    using ok_copied [OF ok, of s] by (auto simp: copied_def MAX_BYTES_PER_DIRECTION_def split: if_splits)
  have e: "rs_sent r s = rs_received r s \<and> rs_shut r s" if "rs_point r = Ended None" for s
  proof -
    have "copied r s" "copied r (other s)" "rs_registered r = []" using ok that unfolding relay_ok_def by auto
    with that show ?thesis by (auto simp: copied_def failed_def unsent_def)
  qed
  from p e Some show ?thesis by (auto split: relay_point.split option.split)
qed simp

section \<open>One connection\<close>

fun connecting :: "gateway_event \<Rightarrow> bool" where
  "connecting (Connecting _ _) = True"
| "connecting _ = False"

definition allowed_target :: "ip_fn \<Rightarrow> ip_family \<times> sock_address \<Rightarrow> bool" where
  "allowed_target ip t \<longleftrightarrow> sa_port (snd t) = 443 \<and> (case ip (sa_host (snd t)) of Some i \<Rightarrow> ip_is_global i | None \<Rightarrow> False)"

lemma usable_Some: "usable ip a = Some (address, info) \<Longrightarrow> sa_port address = 443 \<and> ip (sa_host address) = Some info"
  by (auto simp: usable_def TARGET_PORT_def split: option.splits if_splits)

lemma allowed_targetI: "usable ip a = Some (address, info) \<Longrightarrow> ip_is_global info \<Longrightarrow> allowed_target ip (f, address)"
  using usable_Some [of ip a address info] by (simp add: allowed_target_def)

lemma collected_allowed:
  assumes "collect_addresses ip results seen addresses = Inr found" and "list_all (allowed_target ip) addresses"
    and "length addresses \<le> MAX_TARGET_ADDRESSES"
  shows "list_all (allowed_target ip) found \<and> length found \<le> MAX_TARGET_ADDRESSES"
  using assms
proof (induction results arbitrary: seen addresses)
  case (Cons a results)
  show ?case
  proof (cases "usable ip a")
    case None
    with Cons show ?thesis by simp
  next
    case (Some p)
    then obtain address info where p: "usable ip a = Some (address, info)" by (cases p) auto
    let ?new = "(ai_family a, ip_compressed info, sa_port address) \<notin> set seen"
    let ?addresses = "if ?new then addresses @ [(ai_family a, address)] else addresses"
    from p Cons.prems(1) have g: "ip_is_global info" "length ?addresses \<le> MAX_TARGET_ADDRESSES"
      and rest: "\<exists>seen'. collect_addresses ip results seen' ?addresses = Inr found"
      by (auto simp: Let_def result_simps)
    have "list_all (allowed_target ip) ?addresses"
      using Cons.prems(2) allowed_targetI [OF p g(1)] by simp
    with Cons.IH rest g(2) show ?thesis by blast
  qed
qed simp

lemma connect_target_log:
  assumes "list_all (allowed_target ip) addresses" and "connect_target E addresses l = (r, l')"
  obtains es where "l' = l @ es" and "list_all (\<lambda>e. case e of Connecting f a \<Rightarrow> allowed_target ip (f, a) | ClosedAttempt \<Rightarrow> True | _ \<Rightarrow> False) es"
    and "length (filter connecting es) = count_list es ClosedAttempt + (if r = Inr () then 1 else 0)"
  using assms
proof (induction addresses arbitrary: l thesis)
  case Nil
  from Nil.prems(1) [of "[]"] Nil.prems(3) show ?case by (auto simp: liftS_def)
next
  case (Cons t addresses)
  obtain f a where t: "t = (f, a)" by (cases t)
  consider "\<not> gw_socket E f" | "gw_socket E f" "gw_connects E a" | "gw_socket E f" "\<not> gw_connects E a" by blast
  then show ?case
  proof cases
    case 1
    with Cons.prems(1) [of "[]"] Cons.prems(3) t show ?thesis by (auto simp: liftS_def)
  next
    case 2
    with Cons.prems(1) [of "[Connecting f a]"] Cons.prems(2,3) t show ?thesis by (auto simp: liftS_def emit_def)
  next
    case 3
    with Cons.prems(3) t have "connect_target E addresses (l @ [Connecting f a, ClosedAttempt]) = (r, l')" by (auto simp: emit_def)
    from Cons.IH [OF _ _ this] Cons.prems(2) obtain es where es: "l' = l @ [Connecting f a, ClosedAttempt] @ es"
        "list_all (\<lambda>e. case e of Connecting f a \<Rightarrow> allowed_target ip (f, a) | ClosedAttempt \<Rightarrow> True | _ \<Rightarrow> False) es"
        "length (filter connecting es) = count_list es ClosedAttempt + (if r = Inr () then 1 else 0)" by auto
    with Cons.prems(1) [of "[Connecting f a, ClosedAttempt] @ es"] Cons.prems(2) t show ?thesis by auto
  qed
qed

lemma connect_target_any: "connect_target E addresses l = (r, l') \<Longrightarrow> \<exists>es. l' = l @ es"
proof (induction addresses arbitrary: l)
  case (Cons t addresses)
  obtain f a where t: "t = (f, a)" by (cases t)
  from Cons.prems Cons.IH [of "l @ [Connecting f a, ClosedAttempt]"] t show ?case
    by (auto simp: liftS_def emit_def split: if_splits)
qed (simp add: liftS_def)

text \<open>What a run of the gateway may have done: where it connected to, and what is still open.\<close>

definition targets_allowed :: "ip_fn \<Rightarrow> gateway_event list \<Rightarrow> bool" where
  "targets_allowed ip l \<longleftrightarrow> list_all (\<lambda>e. case e of Connecting f a \<Rightarrow> allowed_target ip (f, a) | _ \<Rightarrow> True) l"

definition all_closed :: "gateway_event list \<Rightarrow> bool" where
  "all_closed l \<longleftrightarrow> count_list l Listening = count_list l ClosedListener \<and> count_list l Accepted = count_list l ClosedPeer
     \<and> length (filter connecting l) = count_list l ClosedAttempt + count_list l ClosedTarget"

text \<open>\<open>is_private_peer\<close>: the one peer whose bytes are copied.\<close>

definition is_private_peer :: "gateway_env \<Rightarrow> bool" where
  "is_private_peer E \<longleftrightarrow>
     (case gw_peer E of
        Some (Some host) \<Rightarrow> (case gw_ip E host of Some p \<Rightarrow> ip_is_private p \<and> \<not> ip_is_loopback p | None \<Rightarrow> False)
      | _ \<Rightarrow> False)"

lemma attempts_allowed:
  "list_all (\<lambda>e. case e of Connecting f a \<Rightarrow> allowed_target ip (f, a) | ClosedAttempt \<Rightarrow> True | _ \<Rightarrow> False) es \<Longrightarrow>
     targets_allowed ip es \<and> count_list es Listening = 0 \<and> count_list es ClosedListener = 0 \<and> count_list es Accepted = 0
     \<and> count_list es ClosedPeer = 0 \<and> count_list es ClosedTarget = 0 \<and> Relaying \<notin> set es"
  by (induction es) (auto simp: targets_allowed_def split: gateway_event.splits)

lemma targets_allowed_append: "targets_allowed ip (a @ b) \<longleftrightarrow> targets_allowed ip a \<and> targets_allowed ip b"
  by (simp add: targets_allowed_def)

lemma serve_once_shape:
  obtains (early) e where "serve_once E [] = (GatewayFailed e, [])"
  | (resolved) e where "serve_once E [] = (GatewayFailed e, [Resolved])"
  | (listening) e where "serve_once E [] = (GatewayFailed e, [Resolved, Listening, ClosedListener])"
  | (refused) e where "serve_once E [] = (GatewayFailed e, [Resolved, Listening, Accepted, ClosedListener, ClosedPeer])"
  | (unreached) e addresses es where "validate_peer (gw_ip E) (the (gw_peer E)) = Inr ()" "gw_peer E \<noteq> None"
      "validated_target_addresses (gw_ip E) (gw_resolved E) = Inr addresses"
      "connect_target E addresses [Resolved, Listening, Accepted] = (Inl e, [Resolved, Listening, Accepted] @ es)"
      "serve_once E [] = (GatewayFailed e, [Resolved, Listening, Accepted] @ es @ [ClosedListener, ClosedPeer])"
  | (connected) addresses es more where "validate_peer (gw_ip E) (the (gw_peer E)) = Inr ()" "gw_peer E \<noteq> None"
      "validated_target_addresses (gw_ip E) (gw_resolved E) = Inr addresses"
      "connect_target E addresses [Resolved, Listening, Accepted] = (Inr (), [Resolved, Listening, Accepted] @ es)"
      "serve_once E [] = (case relay_end E of None \<Rightarrow> StillRunning | Some None \<Rightarrow> Served | Some (Some e) \<Rightarrow> GatewayFailed e,
         [Resolved, Listening, Accepted] @ es @ [Relaying] @ more)"
      "more = (case relay_end E of None \<Rightarrow> [] | Some _ \<Rightarrow> [ClosedListener, ClosedPeer, ClosedTarget])"
proof (cases "validate_gateway_environment (gw_casefold E) (gw_environment E)")
  case (Inl e)
  then show thesis using early by (simp add: serve_once_def)
next
  case env: (Inr x)
  show thesis
  proof (cases "validated_target_addresses (gw_ip E) (gw_resolved E)")
    case (Inl e)
    then show thesis using env resolved by (simp add: serve_once_def)
  next
    case addresses: (Inr addresses)
    show thesis
    proof (cases "gw_listens E")
      case False
      then show thesis using env addresses listening by (simp add: serve_once_def close_all_def)
    next
      case listens: True
      show thesis
      proof (cases "gw_peer E")
        case None
        then show thesis using env addresses listens listening by (simp add: serve_once_def close_all_def)
      next
        case peer: (Some host)
        show thesis
        proof (cases "validate_peer (gw_ip E) host")
          case (Inl e)
          then show thesis using env addresses listens peer refused by (simp add: serve_once_def close_all_def)
        next
          case valid: (Inr y)
          obtain r l where c: "connect_target E addresses [Resolved, Listening, Accepted] = (r, l)"
            by (cases "connect_target E addresses [Resolved, Listening, Accepted]")
          from connect_target_any [OF this] obtain es where es: "l = [Resolved, Listening, Accepted] @ es" by blast
          show thesis
          proof (cases r)
            case (Inl e)
            show thesis
              by (rule unreached [of addresses e es])
                (use valid peer addresses c es env listens Inl in \<open>simp_all add: serve_once_def close_all_def\<close>)
          next
            case (Inr z)
            show thesis
              by (rule connected [of addresses es "case relay_end E of None \<Rightarrow> [] | Some _ \<Rightarrow> [ClosedListener, ClosedPeer, ClosedTarget]"])
                (use valid peer addresses c es env listens Inr in
                  \<open>simp_all add: serve_once_def close_all_def split: option.split\<close>)
          qed
        qed
      qed
    qed
  qed
qed

lemma validated_targets:
  assumes "validated_target_addresses ip resolved = Inr addresses"
  shows "list_all (allowed_target ip) addresses" and "addresses \<noteq> []" and "length addresses \<le> 16"
proof -
  from assms obtain results where "collect_addresses ip results [] [] = Inr addresses" and ne: "addresses \<noteq> []"
    by (auto simp: validated_target_addresses_def result_simps split: option.splits)
  from collected_allowed [OF this(1)] show "list_all (allowed_target ip) addresses" "length addresses \<le> 16"
    by (simp_all add: MAX_TARGET_ADDRESSES_def)
  show "addresses \<noteq> []" by (rule ne)
qed

text \<open>
  C36. Whatever the resolver, the peer and the sockets answer, the gateway connects only to addresses
  that \<open>ipaddress\<close> calls global, on port 443; it copies bytes only for one peer of a private network
  that is not the loopback; and a run that ends has closed the listener, the peer and every
  connection it opened.
\<close>

theorem gateway_connects_to_global_addresses_only:
  "case gateway_main E arguments of (code, l) \<Rightarrow>
     targets_allowed (gw_ip E) l
     \<and> (if Relaying \<in> set l \<or> list_ex connecting l then count_list l Accepted = 1 \<and> is_private_peer E else True)
     \<and> (case code of None \<Rightarrow> True | Some _ \<Rightarrow> all_closed l)"
proof (cases "arguments = []")
  case True
  note m = gateway_main_def [of E arguments, unfolded True, simplified]
  have peer: "is_private_peer E" if "validate_peer (gw_ip E) (the (gw_peer E)) = Inr ()" "gw_peer E \<noteq> None"
    using that by (auto simp: is_private_peer_def validate_peer_def result_simps split: option.splits)
  show ?thesis
  proof (cases rule: serve_once_shape [of E])
    case (unreached e addresses es)
    from connect_target_log [OF validated_targets(1) [OF unreached(3)] unreached(4)]
    have es: "list_all (\<lambda>e. case e of Connecting f a \<Rightarrow> allowed_target (gw_ip E) (f, a) | ClosedAttempt \<Rightarrow> True | _ \<Rightarrow> False) es"
      "length (filter connecting es) = count_list es ClosedAttempt" by auto
    from attempts_allowed [OF es(1)] es(2) peer [OF unreached(1,2)] show ?thesis
      unfolding True m unreached(5) by (cases e) (simp_all add: targets_allowed_append all_closed_def targets_allowed_def)
  next
    case (connected addresses es more)
    from connect_target_log [OF validated_targets(1) [OF connected(3)] connected(4)]
    have es: "list_all (\<lambda>e. case e of Connecting f a \<Rightarrow> allowed_target (gw_ip E) (f, a) | ClosedAttempt \<Rightarrow> True | _ \<Rightarrow> False) es"
      "length (filter connecting es) = count_list es ClosedAttempt + 1" by auto
    from attempts_allowed [OF es(1)] es(2) peer [OF connected(1,2)] show ?thesis
      unfolding True m connected(5,6)
      by (auto simp: targets_allowed_append all_closed_def targets_allowed_def split: option.splits gateway_error.splits)
  qed (auto simp: True m targets_allowed_def all_closed_def split: gateway_error.splits)
qed (simp add: gateway_main_def targets_allowed_def all_closed_def)

end
