(* ===== verification/Review_Packet.thy ===== *)
theory Review_Packet
  imports Review_Models Strict_Json Path_Rules Judge
begin

text \<open>
  \<open>tools/ai_review/review_packet.py\<close>: the text a review is asked about. A packet is built from a
  task, a passing policy report, a diff bound to the snapshot, the context files and the evidence of
  the gates; every part is checked against the others and for credentials. The part that reads the
  snapshots is left out.
\<close>

text \<open>
  First the JSON form of the models of \<open>models.py\<close> (\<open>model_dump(mode="json")\<close>): every field under
  its name, in the order of the class. Two models with the same form are the same model.
\<close>

section \<open>Objects with fixed names\<close>

definition obj :: "(string \<times> json) list \<Rightarrow> json" where
  "obj entries = JObj (map (\<lambda>(k, v). (u k, v)) entries)"

definition jstr :: "string \<Rightarrow> json" where
  "jstr s = JStr (u s)"

definition jstrs :: "pystr list \<Rightarrow> json" where
  "jstrs xs = JArr (map JStr xs)"

definition jopt :: "('a \<Rightarrow> json) \<Rightarrow> 'a option \<Rightarrow> json" where
  "jopt f x = (case x of None \<Rightarrow> JNull | Some y \<Rightarrow> f y)"

section \<open>Tasks\<close>

definition requirement_json :: "requirement \<Rightarrow> json" where
  "requirement_json r = obj [(''id'', JStr (req_id r)), (''text'', JStr (req_text r))]"

definition acceptance_json :: "acceptance_test \<Rightarrow> json" where
  "acceptance_json t = obj
     [(''id'', JStr (at_id t)), (''kind'', jstr (case at_kind t of KTest \<Rightarrow> ''test'' | KQuality \<Rightarrow> ''quality'')),
      (''command'', jstrs (at_command t)), (''expected_exit_code'', JInt (at_expected_exit_code t)),
      (''expected_red_exit_codes'', JArr (map JInt (at_expected_red_exit_codes t))),
      (''expected_red_fingerprint_sha256'', jopt JStr (at_expected_red_fingerprint t)), (''test_paths'', jstrs (at_test_paths t))]"

definition prompts_json :: "review_prompts \<Rightarrow> json" where
  "prompts_json p = obj [(''reviewer_sha256'', JStr (rp_reviewer_sha256 p)), (''adversary_sha256'', JStr (rp_adversary_sha256 p))]"

definition commit_json :: "candidate_commit \<Rightarrow> json" where
  "commit_json c = obj
     [(''message'', JStr (cc_message c)), (''author_name'', JStr (cc_author_name c)), (''author_email'', JStr (cc_author_email c)),
      (''timestamp'', JInt (cc_timestamp c)), (''timezone'', JStr (cc_timezone c))]"

definition limits_json :: "diff_limits \<Rightarrow> json" where
  "limits_json l = obj
     [(''max_changed_files'', JInt (dl_max_changed_files l)), (''max_added_lines'', JInt (dl_max_added_lines l)),
      (''max_file_bytes'', JInt (dl_max_file_bytes l)), (''max_total_bytes'', JInt (dl_max_total_bytes l))]"

definition task_json :: "task_spec \<Rightarrow> json" where
  "task_json t = obj
     [(''schema_version'', jstr (case ts_version t of TaskV1 \<Rightarrow> ''1.0'' | TaskV2 \<Rightarrow> ''2.0'')), (''task_id'', JStr (ts_task_id t)),
      (''base_sha'', JStr (ts_base_sha t)), (''trusted_harness_sha256'', JStr (ts_trusted_harness_sha256 t)),
      (''objective'', JStr (ts_objective t)), (''requirements'', JArr (map requirement_json (ts_requirements t))),
      (''review_prompts'', prompts_json (ts_review_prompts t)), (''candidate_commit'', commit_json (ts_candidate_commit t)),
      (''acceptance_tests'', JArr (map acceptance_json (ts_acceptance_tests t))), (''allowed_paths'', jstrs (ts_allowed_paths t)),
      (''denied_paths'', jstrs (ts_denied_paths t)), (''limits'', limits_json (ts_limits t)), (''network_policy'', jstr ''deny''),
      (''out_of_scope'', jstrs (ts_out_of_scope t))]"

section \<open>Reports and evidence\<close>

definition diff_file_json :: "diff_file \<Rightarrow> json" where
  "diff_file_json f = obj
     [(''path'', JStr (df_path f)), (''status'', JStr (df_status f)), (''additions'', jopt JInt (df_additions f)),
      (''deletions'', jopt JInt (df_deletions f)), (''binary'', JBool (df_binary f)), (''content_sha256'', jopt JStr (df_content_sha256 f))]"

definition policy_json :: "policy_report \<Rightarrow> json" where
  "policy_json p = obj
     [(''schema_version'', jstr ''1.0''), (''task_id'', JStr (pr_task_id p)), (''task_sha256'', JStr (pr_task_sha256 p)),
      (''passed'', JBool (pr_passed p)), (''trusted_harness_sha256'', JStr (pr_trusted_harness_sha256 p)), (''base_sha'', JStr (pr_base_sha p)),
      (''head_sha'', JStr (pr_head_sha p)), (''patch_sha256'', jopt JStr (pr_patch_sha256 p)),
      (''changed_files'', JArr (map diff_file_json (pr_changed_files p))), (''total_added_lines'', JInt (pr_total_added_lines p)),
      (''violations'', jstrs (pr_violations p))]"

definition gate_json :: "gate_result \<Rightarrow> json" where
  "gate_json g = obj
     [(''task_id'', JStr (gr_task_id g)), (''task_sha256'', JStr (gr_task_sha256 g)), (''head_sha'', JStr (gr_head_sha g)),
      (''patch_sha256'', JStr (gr_patch_sha256 g)), (''acceptance_test_id'', JStr (gr_acceptance_test_id g)),
      (''command'', jstrs (gr_command g)), (''expected_exit_code'', JInt (gr_expected_exit_code g)), (''passed'', JBool (gr_passed g)),
      (''exit_code'', JInt (gr_exit_code g)), (''evidence_sha256'', JStr (gr_evidence_sha256 g))]"

definition red_json :: "red_evidence \<Rightarrow> json" where
  "red_json r = obj
     [(''exit_code'', JInt (red_exit_code r)), (''log_sha256'', JStr (red_log_sha256 r)),
      (''failure_fingerprint_sha256'', JStr (red_fingerprint_sha256 r)), (''test_patch_sha256'', JStr (red_test_patch_sha256 r))]"

definition green_json :: "green_evidence \<Rightarrow> json" where
  "green_json g = obj
     [(''exit_code'', JInt (green_exit_code g)), (''log_sha256'', JStr (green_log_sha256 g)),
      (''test_patch_sha256'', JStr (green_test_patch_sha256 g))]"

definition tdd_json :: "tdd_evidence \<Rightarrow> json" where
  "tdd_json t = obj
     [(''schema_version'', jstr (case td_version t of TddV1 \<Rightarrow> ''1.0'' | TddV2 \<Rightarrow> ''2.0'')), (''task_id'', JStr (td_task_id t)),
      (''task_sha256'', JStr (td_task_sha256 t)), (''base_sha'', JStr (td_base_sha t)), (''head_sha'', JStr (td_head_sha t)),
      (''patch_sha256'', JStr (td_patch_sha256 t)), (''acceptance_test_id'', JStr (td_acceptance_test_id t)),
      (''command'', jstrs (td_command t)), (''test_paths'', jstrs (td_test_paths t)),
      (''test_manifest_sha256'', JStr (td_test_manifest_sha256 t)), (''test_patch_sha256'', JStr (td_test_patch_sha256 t)),
      (''red_snapshot_sha256'', jopt JStr (td_red_snapshot_sha256 t)), (''green_snapshot_sha256'', jopt JStr (td_green_snapshot_sha256 t)),
      (''red'', red_json (td_red t)), (''green'', green_json (td_green t))]"

section \<open>The form determines the model\<close>

text \<open>
  Two objects with the same names in the same order are sorted by the same permutation, so they have
  the same text only when they have the same values.
\<close>

lemma map_of_nth_fst: "distinct (map fst xs) \<Longrightarrow> i < length xs \<Longrightarrow> map_of xs (fst (xs ! i)) = Some (snd (xs ! i))"
  by (rule map_of_is_SomeI) simp_all

lemma sort_key_zip_inject:
  assumes "map fst xs = map fst ys" and "distinct (map fst xs)" and "sort_key fst xs = sort_key fst ys"
  shows "xs = ys"
proof -
  have "set xs = set ys" using assms(3) by (metis set_sort)
  then have m: "map_of xs = map_of ys" using assms(1,2) by (metis map_of_inject_set)
  have "xs = map (\<lambda>k. (k, the (map_of xs k))) (map fst xs)" if "distinct (map fst xs)" for xs :: "('a \<times> 'b) list"
    using that by (auto simp: list_eq_iff_nth_eq map_of_nth_fst)
  with m assms(1,2) show ?thesis by metis
qed

text \<open>A list of fields is read one by one.\<close>

lemma jsort_obj_inject:
  assumes "jsort (obj xs) = jsort (obj ys)" and "map fst xs = map fst ys" and "distinct (map fst xs)"
  shows "map (jsort \<circ> snd) xs = map (jsort \<circ> snd) ys"
proof -
  let ?f = "\<lambda>zs. map (\<lambda>(k, v). (u k, jsort v)) zs"
  have keys: "map fst (?f zs) = map u (map fst zs)" for zs :: "(string \<times> json) list" by (simp add: split_def comp_def)
  have sorted: "jsort (obj zs) = JObj (sort_key fst (?f zs))" for zs
    by (simp add: obj_def split_def comp_def)
  have names: "map fst (?f xs) = map fst (?f ys)" unfolding keys by (simp only: assms(2))
  have "inj_on u (set (map fst xs))" by (rule inj_onI) simp
  then have distinct: "distinct (map fst (?f xs))" unfolding keys using assms(3) by (simp only: distinct_map)
  have "sort_key fst (?f xs) = sort_key fst (?f ys)" using assms(1) unfolding sorted by simp
  from sort_key_zip_inject [OF names distinct this] have "?f xs = ?f ys" .
  then have "map snd (?f xs) = map snd (?f ys)" by (rule arg_cong)
  then show ?thesis by (simp add: split_def comp_def)
qed

lemma jstrs_inject [simp]: "jsort (jstrs xs) = jsort (jstrs ys) \<longleftrightarrow> xs = ys"
proof
  assume "jsort (jstrs xs) = jsort (jstrs ys)"
  then have "map (jsort \<circ> JStr) xs = map (jsort \<circ> JStr) ys" by (simp add: jstrs_def)
  then show "xs = ys" by (induction xs arbitrary: ys) (auto simp: map_eq_Cons_conv Cons_eq_map_conv)
qed simp

lemma jints_inject [simp]: "map (jsort \<circ> JInt) xs = map (jsort \<circ> JInt) ys \<longleftrightarrow> xs = ys"
  by (rule inj_map_eq_map) (simp add: inj_def)

lemma jopt_JStr_inject [simp]: "jsort (jopt JStr x) = jsort (jopt JStr y) \<longleftrightarrow> x = y"
  by (auto simp: jopt_def split: option.splits)

lemma jopt_JInt_inject [simp]: "jsort (jopt JInt x) = jsort (jopt JInt y) \<longleftrightarrow> x = y"
  by (auto simp: jopt_def split: option.splits)

lemma jstr_inject [simp]: "jsort (jstr x) = jsort (jstr y) \<longleftrightarrow> x = y"
  by (simp add: jstr_def)

section \<open>Forms of the models\<close>

text \<open>A form that determines the model also determines a list of models from the list of their forms.\<close>

locale json_form =
  fixes form :: "'a \<Rightarrow> json"
  assumes inject: "jsort (form x) = jsort (form y) \<Longrightarrow> x = y"
begin

lemma form_eq [simp]: "jsort (form x) = jsort (form y) \<longleftrightarrow> x = y"
  by (auto dest: inject)

lemma forms_eq [simp]: "map (jsort \<circ> form) xs = map (jsort \<circ> form) ys \<longleftrightarrow> xs = ys"
  by (rule inj_map_eq_map) (simp add: inj_def)

end

lemma requirement_form: "json_form requirement_json"
  unfolding requirement_json_def by unfold_locales (drule jsort_obj_inject, auto intro: requirement.equality)

interpretation requirement_form: json_form requirement_json by (rule requirement_form)

lemma acceptance_form: "json_form acceptance_json"
  unfolding acceptance_json_def by unfold_locales (drule jsort_obj_inject, auto intro: acceptance_test.equality split: acceptance_kind.splits)

interpretation acceptance_form: json_form acceptance_json by (rule acceptance_form)

lemma prompts_form: "json_form prompts_json"
  unfolding prompts_json_def by unfold_locales (drule jsort_obj_inject, auto intro: review_prompts.equality)

interpretation prompts_form: json_form prompts_json by (rule prompts_form)

lemma commit_form: "json_form commit_json"
  unfolding commit_json_def by unfold_locales (drule jsort_obj_inject, auto intro: candidate_commit.equality)

interpretation commit_form: json_form commit_json by (rule commit_form)

lemma limits_form: "json_form limits_json"
  unfolding limits_json_def by unfold_locales (drule jsort_obj_inject, auto intro: diff_limits.equality)

interpretation limits_form: json_form limits_json by (rule limits_form)

lemma diff_file_form: "json_form diff_file_json"
  unfolding diff_file_json_def by unfold_locales (drule jsort_obj_inject, auto intro: diff_file.equality)

interpretation diff_file_form: json_form diff_file_json by (rule diff_file_form)

lemma gate_form: "json_form gate_json"
  unfolding gate_json_def by unfold_locales (drule jsort_obj_inject, auto intro: gate_result.equality)

interpretation gate_form: json_form gate_json by (rule gate_form)

lemma red_form: "json_form red_json"
  unfolding red_json_def by unfold_locales (drule jsort_obj_inject, auto intro: red_evidence.equality)

interpretation red_form: json_form red_json by (rule red_form)

lemma green_form: "json_form green_json"
  unfolding green_json_def by unfold_locales (drule jsort_obj_inject, auto intro: green_evidence.equality)

interpretation green_form: json_form green_json by (rule green_form)

lemma task_form: "json_form task_json"
  unfolding task_json_def by unfold_locales (drule jsort_obj_inject, auto intro: task_spec.equality split: task_version.splits)

interpretation task_form: json_form task_json by (rule task_form)

lemma policy_form: "json_form policy_json"
  unfolding policy_json_def by unfold_locales (drule jsort_obj_inject, auto intro: policy_report.equality)

interpretation policy_form: json_form policy_json by (rule policy_form)

lemma tdd_form: "json_form tdd_json"
  unfolding tdd_json_def by unfold_locales (drule jsort_obj_inject, auto intro: tdd_evidence.equality split: tdd_version.splits)

interpretation tdd_form: json_form tdd_json by (rule tdd_form)

section \<open>Errors and arguments\<close>

text \<open>All of these are \<open>ValueError\<close>s but those of the models that pass through.\<close>

datatype packet_error = PacketError pystr | PacketModelError model_error | PacketUnicodeError | PacketNumberError

definition packet_err :: "string \<Rightarrow> packet_error" where
  "packet_err m = PacketError (u m)"

definition pkt :: "bool \<Rightarrow> string \<Rightarrow> packet_error + unit" where
  "pkt b m = guardE b (packet_err m)"

text \<open>The digest, \<open>str.casefold\<close> and the tables of the word characters.\<close>

record packet_env =
  pk_sha :: hash_fn
  pk_casefold :: fold_fn
  pk_unicode :: unicode

section \<open>Data\<close>

record review_limits =
  pl_max_packet_bytes :: int
  pl_max_diff_bytes :: int
  pl_max_context_files :: int
  pl_max_context_file_bytes :: int
  pl_max_context_total_bytes :: int
  pl_max_task_bytes :: int
  pl_max_policy_bytes :: int
  pl_max_gate_results :: int
  pl_max_gate_bytes :: int
  pl_max_tdd_evidence :: int
  pl_max_tdd_bytes :: int

definition default_packet_limits :: review_limits where
  "default_packet_limits =
     \<lparr>pl_max_packet_bytes = 1000000, pl_max_diff_bytes = 500000, pl_max_context_files = 24, pl_max_context_file_bytes = 100000,
      pl_max_context_total_bytes = 400000, pl_max_task_bytes = 100000, pl_max_policy_bytes = 300000, pl_max_gate_results = 100,
      pl_max_gate_bytes = 200000, pl_max_tdd_evidence = 100, pl_max_tdd_bytes = 300000\<rparr>"

definition limit_values :: "review_limits \<Rightarrow> (string \<times> int) list" where
  "limit_values l =
     [(''max_packet_bytes'', pl_max_packet_bytes l), (''max_diff_bytes'', pl_max_diff_bytes l),
      (''max_context_files'', pl_max_context_files l), (''max_context_file_bytes'', pl_max_context_file_bytes l),
      (''max_context_total_bytes'', pl_max_context_total_bytes l), (''max_task_bytes'', pl_max_task_bytes l),
      (''max_policy_bytes'', pl_max_policy_bytes l), (''max_gate_results'', pl_max_gate_results l),
      (''max_gate_bytes'', pl_max_gate_bytes l), (''max_tdd_evidence'', pl_max_tdd_evidence l), (''max_tdd_bytes'', pl_max_tdd_bytes l)]"

definition validate_packet_limits :: "review_limits \<Rightarrow> packet_error + review_limits" where
  "validate_packet_limits l =
     bindE (allE (\<lambda>(name, v). pkt (1 \<le> v) (name @ '' must be a positive integer'')) (limit_values l)) (\<lambda>_.
     bindE (pkt (pl_max_context_file_bytes l \<le> pl_max_context_total_bytes l)
       ''max_context_total_bytes must cover one maximum-size context file'') (\<lambda>_. Inr l))"

record context_file =
  cf_path :: pystr
  cf_content :: pystr
  cf_content_sha256 :: pystr

record diff_binding =
  db_task_sha256 :: pystr
  db_base_sha :: pystr
  db_head_sha :: pystr
  db_candidate_digest_sha256 :: pystr
  db_trusted_diff_sha256 :: pystr
  db_snapshot_manifest_sha256 :: pystr
  db_coordinator_attestation_sha256 :: pystr

record artifact_digests =
  ad_task_sha256 :: pystr
  ad_policy_sha256 :: pystr
  ad_trusted_diff_sha256 :: pystr
  ad_context_manifest_sha256 :: pystr
  ad_gates_sha256 :: pystr
  ad_tdd_evidence_sha256 :: pystr

record review_packet =
  pa_task_sha256 :: pystr
  pa_task :: task_spec
  pa_policy :: policy_report
  pa_candidate_digest_sha256 :: pystr
  pa_trusted_diff :: pystr
  pa_binding :: diff_binding
  pa_context :: "context_file list"
  pa_gates :: "gate_result list"
  pa_tdd :: "tdd_evidence list"
  pa_artifacts :: artifact_digests
  pa_packet_sha256 :: pystr

definition context_json :: "context_file \<Rightarrow> json" where
  "context_json c = obj [(''path'', JStr (cf_path c)), (''content'', JStr (cf_content c)), (''content_sha256'', JStr (cf_content_sha256 c))]"

definition binding_json :: "diff_binding \<Rightarrow> json" where
  "binding_json b = obj
     [(''task_sha256'', JStr (db_task_sha256 b)), (''base_sha'', JStr (db_base_sha b)), (''head_sha'', JStr (db_head_sha b)),
      (''candidate_digest_sha256'', JStr (db_candidate_digest_sha256 b)), (''trusted_diff_sha256'', JStr (db_trusted_diff_sha256 b)),
      (''snapshot_manifest_sha256'', JStr (db_snapshot_manifest_sha256 b)),
      (''coordinator_attestation_sha256'', JStr (db_coordinator_attestation_sha256 b))]"

definition artifacts_json :: "artifact_digests \<Rightarrow> json" where
  "artifacts_json a = obj
     [(''task_sha256'', JStr (ad_task_sha256 a)), (''policy_sha256'', JStr (ad_policy_sha256 a)),
      (''trusted_diff_sha256'', JStr (ad_trusted_diff_sha256 a)), (''context_manifest_sha256'', JStr (ad_context_manifest_sha256 a)),
      (''gates_sha256'', JStr (ad_gates_sha256 a)), (''tdd_evidence_sha256'', JStr (ad_tdd_evidence_sha256 a))]"

definition packet_body :: "review_packet \<Rightarrow> (string \<times> json) list" where
  "packet_body p =
     [(''schema_version'', jstr ''1.0''), (''task_sha256'', JStr (pa_task_sha256 p)), (''task'', task_json (pa_task p)),
      (''policy'', policy_json (pa_policy p)), (''candidate_digest_sha256'', JStr (pa_candidate_digest_sha256 p)),
      (''trusted_diff'', JStr (pa_trusted_diff p)), (''trusted_diff_binding'', binding_json (pa_binding p)),
      (''context'', JArr (map context_json (pa_context p))), (''gates'', JArr (map gate_json (pa_gates p))),
      (''tdd_evidence'', JArr (map tdd_json (pa_tdd p))), (''artifact_digests'', artifacts_json (pa_artifacts p))]"

definition packet_json :: "review_packet \<Rightarrow> json" where
  "packet_json p = obj (packet_body p @ [(''packet_sha256'', JStr (pa_packet_sha256 p))])"

section \<open>Canonical bytes\<close>

definition packet_canonical :: "json \<Rightarrow> packet_error + bytes" where
  "packet_canonical v =
     (case dumps v of
        None \<Rightarrow> Inl PacketNumberError
      | Some s \<Rightarrow> (case utf8_encode s of None \<Rightarrow> Inl PacketUnicodeError | Some b \<Rightarrow> Inr b))"

definition packet_sha256_of :: "hash_fn \<Rightarrow> json \<Rightarrow> packet_error + pystr" where
  "packet_sha256_of sha v = bindE (packet_canonical v) (\<lambda>b. Inr (sha b))"

definition compute_packet_sha256 :: "hash_fn \<Rightarrow> review_packet \<Rightarrow> packet_error + pystr" where
  "compute_packet_sha256 sha p = packet_sha256_of sha (obj (packet_body p))"

definition canonical_packet_bytes :: "hash_fn \<Rightarrow> review_packet \<Rightarrow> packet_error + bytes" where
  "canonical_packet_bytes sha p =
     bindE (compute_packet_sha256 sha p) (\<lambda>digest.
     bindE (pkt (pa_packet_sha256 p = digest) ''packet SHA-256 does not match its canonical content'') (\<lambda>_.
     bindE (packet_canonical (packet_json p)) (\<lambda>b. Inr (b @ [CHR 0x0A]))))"

section \<open>Paths\<close>

definition PACKET_PROTECTED_PATTERNS :: "pystr list" where
  "PACKET_PROTECTED_PATTERNS = map u
     [''.streamlit/secrets.toml'', ''**/.streamlit/secrets.toml'', ''.git'', ''.git/**'', ''cache'', ''cache/**'']"

definition packet_safe_path :: "pystr \<Rightarrow> bool" where
  "packet_safe_path path \<longleftrightarrow> path \<noteq> [] \<and> take 1 path \<noteq> u ''/'' \<and> 0x5C \<notin> set path
     \<and> \<not> list_ex (\<lambda>part. part = [] \<or> part = u ''.'' \<or> part = u ''..'') (posix_parts path) \<and> \<not> list_ex (\<lambda>c. c < 32) path"

definition packet_protected_path :: "fold_fn \<Rightarrow> pystr \<Rightarrow> pystr list \<Rightarrow> bool" where
  "packet_protected_path casefold path denied \<longleftrightarrow> sensitive_path_reason casefold path \<noteq> None
     \<or> glob_matches casefold path PACKET_PROTECTED_PATTERNS False \<or> glob_matches casefold path denied False"

section \<open>Credentials\<close>

definition lex_quote :: "nat \<Rightarrow> bool" where
  "lex_quote c \<longleftrightarrow> c = 0x27 \<or> c = 0x22"

definition PLACEHOLDER_VALUES :: "pystr list" where
  "PLACEHOLDER_VALUES = map u
     [''changeme'', ''dummy'', ''example'', ''fake'', ''n/a'', ''none'', ''not-set'', ''null'', ''placeholder'', ''redacted'',
      ''replace-me'', ''replace_me'', ''sample'', ''tbd'', ''test'', ''unset'']"

definition PLACEHOLDER_PREFIXES :: "pystr list" where
  "PLACEHOLDER_PREFIXES = map u
     [''dummy-'', ''dummy_'', ''example-'', ''example_'', ''fake-'', ''fake_'', ''placeholder-'', ''placeholder_'', ''redacted-'',
      ''redacted_'', ''replace-'', ''replace_'', ''sample-'', ''sample_'', ''test-'', ''test_'', ''your-'', ''your_'']"

definition RUNTIME_REFERENCE_PREFIXES :: "pystr list" where
  "RUNTIME_REFERENCE_PREFIXES = map u
     [''$'', ''%'', ''config.'', ''env.'', ''getenv('', ''os.'', ''process.env'', ''secrets.'', ''self.'', ''settings.'', ''st.secrets'']"

definition starts_any :: "pystr list \<Rightarrow> pystr \<Rightarrow> bool" where
  "starts_any prefixes s \<longleftrightarrow> list_ex (\<lambda>p. take (length p) s = p) prefixes"

text \<open>Whether the text begins with the one and ends with the other, which may overlap.\<close>

definition wrapped :: "string \<Rightarrow> string \<Rightarrow> pystr \<Rightarrow> bool" where
  "wrapped a b s \<longleftrightarrow> take (length a) s = u a \<and> length b \<le> length s \<and> drop (length s - length b) s = u b"

definition placeholder_or_runtime_reference :: "fold_fn \<Rightarrow> pystr \<Rightarrow> bool" where
  "placeholder_or_runtime_reference casefold raw =
     (let quoted = (2 \<le> length raw \<and> (hd raw = 0x22 \<or> hd raw = 0x27) \<and> last raw = hd raw);
          v = (if quoted then drop 1 (butlast raw) else raw);
          normalized = casefold (strip v) in
      normalized = [] \<or> normalized \<in> set PLACEHOLDER_VALUES \<or> starts_any PLACEHOLDER_PREFIXES normalized
      \<or> wrapped ''<'' ''>'' normalized \<or> wrapped ''${'' ''}'' normalized \<or> wrapped ''${{'' ''}}'' normalized \<or> wrapped ''%'' ''%'' normalized
      \<or> (3 \<le> length normalized \<and> list_all (\<lambda>c. c \<in> set (u ''x*._-'')) normalized)
      \<or> (\<not> quoted \<and> (starts_any RUNTIME_REFERENCE_PREFIXES normalized \<or> 0x28 \<in> set normalized \<or> 0x5B \<in> set normalized)))"

text \<open>A search for a pattern that ends with a condition on the next character.\<close>

fun re_ends :: "(nat option \<Rightarrow> bool) \<Rightarrow> re_item list \<Rightarrow> pystr \<Rightarrow> bool" where
  "re_ends stop [] s = stop (case s of [] \<Rightarrow> None | c # _ \<Rightarrow> Some c)"
| "re_ends stop ((p, lo, hi) # items) s =
     (let run = length (takeWhile p s); most = (case hi of None \<Rightarrow> run | Some h \<Rightarrow> min h run) in
      list_ex (\<lambda>n. re_ends stop items (drop n s)) [lo..<Suc most])"

type_synonym credential_pattern = "(nat option \<Rightarrow> nat option \<Rightarrow> bool) \<times> re_item list \<times> (nat option \<Rightarrow> bool)"

fun pattern_found :: "credential_pattern \<Rightarrow> nat option \<Rightarrow> pystr \<Rightarrow> bool" where
  "pattern_found (start, items, stop) prev [] = (start prev None \<and> re_ends stop items [])"
| "pattern_found (start, items, stop) prev (c # s) =
     (start prev (Some c) \<and> re_ends stop items (c # s) \<or> pattern_found (start, items, stop) (Some c) s)"

definition anywhere :: "nat option \<Rightarrow> bool" where
  "anywhere next_char = True"

definition not_before :: "(nat \<Rightarrow> bool) \<Rightarrow> nat option \<Rightarrow> bool" where
  "not_before p next_char \<longleftrightarrow> (case next_char of None \<Rightarrow> True | Some c \<Rightarrow> \<not> p c)"

definition tok_char :: "nat \<Rightarrow> bool" where
  "tok_char c \<longleftrightarrow> alnum c \<or> c = 0x5F \<or> c = 0x2D"

text \<open>
  A letter under \<open>IGNORECASE\<close>, given in lower case: the dotted capital and the dotless small i, the
  long s and the Kelvin sign count as i, s and k.
\<close>

definition ci :: "nat \<Rightarrow> nat \<Rightarrow> bool" where
  "ci l c \<longleftrightarrow> c = l \<or> lower l \<and> c = l - 32 \<or> l = 0x69 \<and> (c = 0x130 \<or> c = 0x131) \<or> l = 0x73 \<and> c = 0x17F
     \<or> l = 0x6B \<and> c = 0x212A"

definition ci_lit :: "string \<Rightarrow> re_item list" where
  "ci_lit t = map (\<lambda>c. (ci (of_char c), 1, Some 1)) t"

text \<open>An optional or alternative group is one pattern for each choice.\<close>

definition CREDENTIAL_PATTERNS :: "unicode \<Rightarrow> credential_pattern list" where
  "CREDENTIAL_PATTERNS U =
     [(\<lambda>_ _. True, lit ''-----BEGIN '' @ [(\<lambda>c. upper_alnum c \<or> c = 0x20, 0, None)] @ lit ''PRIVATE KEY-----'', anywhere),
      (not_after upper_alnum, lit ''AKIA'' @ [(upper_alnum, 16, Some 16)], not_before upper_alnum),
      (not_after alnum, lit ''gh'' @ [one (\<lambda>c. c \<in> set (u ''pousr''))] @ lit ''_'' @ [(alnum, 20, None)], anywhere),
      (not_after alnum, lit ''github_pat_'' @ [(\<lambda>c. alnum c \<or> c = 0x5F, 20, None)], anywhere),
      (not_after alnum, lit ''glpat-'' @ [(tok_char, 20, None)], anywhere),
      (not_after alnum, lit ''xox'' @ [one (\<lambda>c. c \<in> set (u ''abprs''))] @ lit ''-'' @ [(\<lambda>c. alnum c \<or> c = 0x2D, 20, None)], anywhere),
      (not_after alnum, lit ''sk-proj-'' @ [(tok_char, 20, None)], anywhere),
      (not_after alnum, lit ''sk-'' @ [(tok_char, 20, None)], anywhere),
      (not_after alnum, lit ''sk_live_'' @ [(alnum, 16, None)], anywhere),
      (not_after alnum, lit ''rk_live_'' @ [(alnum, 16, None)], anywhere),
      (not_after alnum, lit ''AIza'' @ [(tok_char, 30, None)], anywhere),
      (not_after alnum, lit ''npm_'' @ [(alnum, 20, None)], anywhere),
      (not_after alnum, lit ''pypi-'' @ [(tok_char, 30, None)], anywhere),
      (not_after tok_char, lit ''eyJ'' @ [(tok_char, 8, None)] @ lit ''.eyJ'' @ [(tok_char, 8, None)] @ lit ''.'' @ [(tok_char, 16, None)],
         not_before tok_char),
      (\<lambda>_ _. True,
         ci_lit ''authorization'' @ [(py_space, 0, None)] @ lit '':'' @ [(py_space, 0, None)] @ ci_lit ''bearer'' @ [(py_space, 1, None)]
         @ [(\<lambda>c. any_case_letter c \<or> is_digit c \<or> c \<in> set (u ''._~+/=-''), 12, None)], anywhere),
      (word_boundary U,
         [one any_case_letter, (scheme_rest, 1, Some 31)] @ lit ''://''
         @ [(\<lambda>c. \<not> py_space c \<and> c \<noteq> 0x2F \<and> c \<noteq> 0x3A \<and> c \<noteq> 0x40, 1, None)] @ lit '':''
         @ [(\<lambda>c. \<not> py_space c \<and> c \<noteq> 0x2F \<and> c \<noteq> 0x40, 3, None)] @ lit ''@''
         @ [(\<lambda>c. \<not> py_space c \<and> c \<noteq> 0x2F, 1, None)], anywhere)]"

text \<open>The words that make a key sensitive, between underscores or the ends of the key.\<close>

definition SENSITIVE_WORDS :: "string list" where
  "SENSITIVE_WORDS =
     [''token'', ''secret'', ''password'', ''passwd'', ''passphrase'', ''credential'', ''credentials'', ''authorization'', ''bearer'',
      ''api_key'', ''access_key'', ''private_key'', ''signing_key'', ''session_key'', ''client_secret'', ''database_url'', ''db_url'',
      ''connection_string'', ''dsn'']"

definition sensitive_key :: "pystr \<Rightarrow> bool" where
  "sensitive_key key \<longleftrightarrow>
     (let stop = (\<lambda>next_char. next_char = None \<or> next_char = Some 0x5F) in
      list_ex (\<lambda>w. pattern_found (\<lambda>prev _. prev = None, ci_lit w, stop) None key
         \<or> pattern_found (\<lambda>_ _. True, lit ''_'' @ ci_lit w, stop) None key) SENSITIVE_WORDS)"

text \<open>
  A quoted value up to its closing quote, with the quotes; a backslash takes the next character,
  which is no line feed.
\<close>

fun quoted_rest :: "nat \<Rightarrow> pystr \<Rightarrow> pystr option" where
  "quoted_rest q [] = None"
| "quoted_rest q (c # s) =
     (if c = q then Some [c]
      else if c = 0x5C then (case s of [] \<Rightarrow> None | d # t \<Rightarrow> if d = 0x0A then None else map_option (\<lambda>r. c # d # r) (quoted_rest q t))
      else map_option (Cons c) (quoted_rest q s))"

definition bare_char :: "nat \<Rightarrow> bool" where
  "bare_char c \<longleftrightarrow> \<not> py_space c \<and> c \<notin> set (u '',;}]'') \<and> \<not> lex_quote c"

definition assigned_value :: "pystr \<Rightarrow> pystr option" where
  "assigned_value s =
     (case s of
        [] \<Rightarrow> None
      | c # t \<Rightarrow>
          if lex_quote c then map_option (Cons c) (quoted_rest c t)
          else if bare_char c then Some (takeWhile bare_char s) else None)"

definition key_char :: "nat \<Rightarrow> bool" where
  "key_char c \<longleftrightarrow> any_case_letter c \<or> is_digit c \<or> c = 0x5F"

definition blank :: "nat \<Rightarrow> bool" where
  "blank c \<longleftrightarrow> c = 0x20 \<or> c = 0x09"

text \<open>
  The assignment pattern at a position: the key, the value and the length of the match. The key, the
  blanks and the value can only be matched in one way, for no character ends one of them that may
  continue it.
\<close>

definition assignment_at :: "nat option \<Rightarrow> pystr \<Rightarrow> (pystr \<times> pystr \<times> nat) option" where
  "assignment_at prev s =
     (let q = (case s of [] \<Rightarrow> [] | c # _ \<Rightarrow> if lex_quote c then [c] else []);
          s1 = drop (length q) s; key = takeWhile key_char s1; s2 = drop (length key) s1;
          s3 = dropWhile blank (drop (length q) s2) in
      if \<not> not_after key_char prev (Some 0) \<or> key = [] \<or> \<not> any_case_letter (hd key) \<or> take (length q) s2 \<noteq> q then None
      else
        (case s3 of
           [] \<Rightarrow> None
         | d # t \<Rightarrow>
             if d \<noteq> 0x3A \<and> d \<noteq> 0x3D then None
             else (let s4 = dropWhile blank t in
               map_option (\<lambda>v. (key, v, length s - length s4 + length v)) (assigned_value s4))))"

text \<open>\<open>finditer\<close>: a match is skipped before the next search.\<close>

fun assignments_from :: "nat option \<Rightarrow> nat \<Rightarrow> pystr \<Rightarrow> (pystr \<times> pystr) list" where
  "assignments_from prev skip [] = []"
| "assignments_from prev skip (c # s) =
     (if 0 < skip then assignments_from (Some c) (skip - 1) s
      else
        (case assignment_at prev (c # s) of
           None \<Rightarrow> assignments_from (Some c) 0 s
         | Some (key, v, n) \<Rightarrow> (key, v) # assignments_from (Some c) (n - 1) s))"

definition reject_credentials :: "packet_env \<Rightarrow> pystr \<Rightarrow> pystr \<Rightarrow> packet_error + unit" where
  "reject_credentials E label s =
     (let found = PacketError (label @ u '' contains credential-like content'') in
      bindE (guardE (0 \<notin> set s) (PacketError (label @ u '' contains a NUL byte''))) (\<lambda>_.
      bindE (guardE (\<not> list_ex (\<lambda>p. pattern_found p None s) (CREDENTIAL_PATTERNS (pk_unicode E))) found) (\<lambda>_.
      allE (\<lambda>(key, v). guardE (\<not> (sensitive_key key \<and> \<not> placeholder_or_runtime_reference (pk_casefold E) v)) found)
        (assignments_from None 0 s))))"

definition ensure_sanitized_text :: "packet_env \<Rightarrow> pystr \<Rightarrow> pystr \<Rightarrow> packet_error + unit" where
  "ensure_sanitized_text E s label = reject_credentials E label s"

definition bounded_serialized :: "json \<Rightarrow> int \<Rightarrow> string \<Rightarrow> packet_error + unit" where
  "bounded_serialized v maximum label =
     bindE (packet_canonical v) (\<lambda>b.
     guardE (int (length b) \<le> maximum)
       (PacketError (u label @ u '' size '' @ dec_int (int (length b)) @ u '' exceeds limit '' @ dec_int maximum)))"

section \<open>Task and policy\<close>

definition validate_base_bindings :: "task_spec \<Rightarrow> pystr \<Rightarrow> policy_report \<Rightarrow> packet_error + pystr" where
  "validate_base_bindings task task_sha256 policy =
     bindE (pkt (is_sha256 task_sha256) ''task SHA-256 must be 64 lowercase hexadecimal characters'') (\<lambda>_.
     bindE (pkt (task_sha256 = pr_task_sha256 policy) ''task SHA-256 does not match policy evidence'') (\<lambda>_.
     bindE (pkt (ts_task_id task = pr_task_id policy) ''task ID does not match policy evidence'') (\<lambda>_.
     bindE (pkt (ts_base_sha task = pr_base_sha policy) ''task base SHA does not match policy evidence'') (\<lambda>_.
     bindE (pkt (ts_trusted_harness_sha256 task = pr_trusted_harness_sha256 policy)
       ''trusted harness SHA does not match policy evidence'') (\<lambda>_.
     bindE (pkt (pr_passed policy) ''review packet requires a passing policy'') (\<lambda>_.
     case pr_patch_sha256 policy of
       None \<Rightarrow> Inl (packet_err ''passing policy has no canonical candidate digest'')
     | Some digest \<Rightarrow> Inr digest))))))"

definition validate_policy_paths :: "fold_fn \<Rightarrow> task_spec \<Rightarrow> policy_report \<Rightarrow> packet_error + unit" where
  "validate_policy_paths casefold task policy =
     allE (\<lambda>f.
       bindE (pkt (packet_safe_path (df_path f)) ''policy contains an unsafe repository-relative path'') (\<lambda>_.
       guardE (\<not> packet_protected_path casefold (df_path f) (ts_denied_paths task))
         (PacketError (u ''policy contains protected path: '' @ df_path f)))) (pr_changed_files policy)"

section \<open>The diff\<close>

text \<open>\<open>shlex.split\<close>: between words, in a word, between quotes, and after a backslash (in a word or between quotes).\<close>

datatype lex_mode = LexSpace | LexWord | LexQuote nat | LexEscape "nat option"

definition lex_space :: "nat \<Rightarrow> bool" where
  "lex_space c \<longleftrightarrow> c = 0x20 \<or> c = 0x09 \<or> c = 0x0D \<or> c = 0x0A"

fun shlex_words :: "lex_mode \<Rightarrow> pystr \<Rightarrow> bool \<Rightarrow> pystr \<Rightarrow> pystr list option" where
  "shlex_words LexSpace tok quoted [] = Some []"
| "shlex_words LexWord tok quoted [] = Some (if tok = [] \<and> \<not> quoted then [] else [rev tok])"
| "shlex_words (LexQuote q) tok quoted [] = None"
| "shlex_words (LexEscape q) tok quoted [] = None"
| "shlex_words LexSpace tok quoted (c # s) =
     (if lex_space c then shlex_words LexSpace [] False s
      else if c = 0x5C then shlex_words (LexEscape None) [] False s
      else if lex_quote c then shlex_words (LexQuote c) [] True s
      else shlex_words LexWord [c] False s)"
| "shlex_words LexWord tok quoted (c # s) =
     (if lex_space c then
        (if tok = [] \<and> \<not> quoted then shlex_words LexSpace [] False s
         else map_option (Cons (rev tok)) (shlex_words LexSpace [] False s))
      else if lex_quote c then shlex_words (LexQuote c) tok True s
      else if c = 0x5C then shlex_words (LexEscape None) tok quoted s
      else shlex_words LexWord (c # tok) quoted s)"
| "shlex_words (LexQuote q) tok quoted (c # s) =
     (if c = q then shlex_words LexWord tok True s
      else if c = 0x5C \<and> q = 0x22 then shlex_words (LexEscape (Some q)) tok True s
      else shlex_words (LexQuote q) (c # tok) True s)"
| "shlex_words (LexEscape q) tok quoted (c # s) =
     (case q of
        None \<Rightarrow> shlex_words LexWord (c # tok) quoted s
      | Some d \<Rightarrow> shlex_words (LexQuote d) (c # (if c \<noteq> 0x5C \<and> c \<noteq> d then 0x5C # tok else tok)) quoted s)"

definition shlex_split :: "pystr \<Rightarrow> pystr list option" where
  "shlex_split s = shlex_words LexSpace [] False s"

definition diff_header :: "fold_fn \<Rightarrow> task_spec \<Rightarrow> pystr \<Rightarrow> packet_error + pystr" where
  "diff_header casefold task line =
     (case shlex_split line of
        None \<Rightarrow> Inl (packet_err ''trusted diff contains an unparseable path header'')
      | Some [a, b, old, new] \<Rightarrow>
          bindE (pkt (a = u ''diff'' \<and> b = u ''--git'') ''trusted diff contains an invalid path header'') (\<lambda>_.
          bindE (pkt (take 2 old = u ''a/'' \<and> take 2 new = u ''b/'') ''trusted diff path headers must use a/ and b/ prefixes'') (\<lambda>_.
          bindE (pkt (drop 2 old = drop 2 new) ''trusted diff rename/copy path headers are not supported'') (\<lambda>_.
          bindE (pkt (packet_safe_path (drop 2 new)) ''trusted diff contains an unsafe repository-relative path'') (\<lambda>_.
          bindE (guardE (\<not> packet_protected_path casefold (drop 2 new) (ts_denied_paths task))
            (PacketError (u ''trusted diff contains protected path: '' @ drop 2 new))) (\<lambda>_.
          Inr (drop 2 new))))))
      | Some _ \<Rightarrow> Inl (packet_err ''trusted diff contains an invalid path header''))"

definition validate_diff_paths :: "fold_fn \<Rightarrow> task_spec \<Rightarrow> policy_report \<Rightarrow> pystr \<Rightarrow> packet_error + unit" where
  "validate_diff_paths casefold task policy trusted_diff =
     bindE (mapE (diff_header casefold task) (filter (\<lambda>l. take 11 l = u ''diff --git '') (splitlines trusted_diff))) (\<lambda>paths.
     bindE (pkt (paths \<noteq> [] \<and> distinct paths) ''trusted diff must contain unique path headers'') (\<lambda>_.
     pkt (set paths = set (map df_path (pr_changed_files policy))) ''trusted diff paths do not match the passing policy''))"

definition validate_trusted_diff_binding :: "diff_binding \<Rightarrow> task_spec \<Rightarrow> pystr \<Rightarrow> policy_report \<Rightarrow> pystr \<Rightarrow> packet_error + unit" where
  "validate_trusted_diff_binding b task task_sha256 policy diff_sha256 =
     pkt (db_task_sha256 b = task_sha256 \<and> db_base_sha b = ts_base_sha task \<and> db_head_sha b = pr_head_sha policy
         \<and> Some (db_candidate_digest_sha256 b) = pr_patch_sha256 policy \<and> db_trusted_diff_sha256 b = diff_sha256)
       ''trusted diff binding does not match the task, candidate, snapshot, and diff bytes''"

section \<open>Gates and test evidence\<close>

definition gate_check :: "task_spec \<Rightarrow> pystr \<Rightarrow> policy_report \<Rightarrow> gate_result \<Rightarrow> packet_error + unit" where
  "gate_check task task_sha256 policy g =
     (case by_key at_id (ts_acceptance_tests task) (gr_acceptance_test_id g) of
        None \<Rightarrow> Inl (packet_err ''gate evidence references an unknown acceptance test'')
      | Some a \<Rightarrow>
          bindE (pkt (gr_passed g) ''every deterministic gate must pass before AI review'') (\<lambda>_.
          bindE (pkt (gr_task_id g = ts_task_id task \<and> gr_task_sha256 g = task_sha256 \<and> gr_head_sha g = pr_head_sha policy
              \<and> Some (gr_patch_sha256 g) = pr_patch_sha256 policy)
            ''gate evidence is not bound to this task and candidate'') (\<lambda>_.
          pkt (gr_command g = at_command a \<and> gr_expected_exit_code g = at_expected_exit_code a)
            ''gate command does not match the TaskSpec acceptance test'')))"

text \<open>The loop over the evidence, and the identities it has seen.\<close>

fun evidence_loop :: "('a \<Rightarrow> pystr) \<Rightarrow> string \<Rightarrow> ('a \<Rightarrow> packet_error + unit) \<Rightarrow> pystr list \<Rightarrow> 'a list \<Rightarrow> packet_error + unit" where
  "evidence_loop key duplicate check_item seen [] = Inr ()"
| "evidence_loop key duplicate check_item seen (x # xs) =
     bindE (pkt (key x \<notin> set seen) duplicate) (\<lambda>_.
     bindE (check_item x) (\<lambda>_. evidence_loop key duplicate check_item (key x # seen) xs))"

definition validate_packet_gates :: "task_spec \<Rightarrow> pystr \<Rightarrow> policy_report \<Rightarrow> gate_result list \<Rightarrow> packet_error + gate_result list" where
  "validate_packet_gates task task_sha256 policy gates =
     bindE (pkt (gates \<noteq> []) ''review packet requires deterministic gate evidence'') (\<lambda>_.
     bindE (evidence_loop gr_acceptance_test_id ''gate evidence IDs must be unique'' (gate_check task task_sha256 policy) [] gates) (\<lambda>_.
     bindE (pkt (set (map gr_acceptance_test_id gates) = set (map at_id (ts_acceptance_tests task)))
       ''gate evidence must cover every TaskSpec acceptance test'') (\<lambda>_.
     Inr (sort_key gr_acceptance_test_id gates))))"

definition test_acceptances :: "task_spec \<Rightarrow> acceptance_test list" where
  "test_acceptances task = filter (\<lambda>a. at_kind a = KTest) (ts_acceptance_tests task)"

definition tdd_check :: "hash_fn \<Rightarrow> task_spec \<Rightarrow> pystr \<Rightarrow> policy_report \<Rightarrow> tdd_evidence \<Rightarrow> packet_error + unit" where
  "tdd_check sha task task_sha256 policy e =
     (case by_key at_id (test_acceptances task) (td_acceptance_test_id e) of
        None \<Rightarrow> Inl (packet_err ''TDD evidence references an unknown test acceptance'')
      | Some a \<Rightarrow>
          bindE (pkt (td_task_id e = ts_task_id task \<and> td_task_sha256 e = task_sha256 \<and> td_base_sha e = ts_base_sha task
              \<and> td_head_sha e = pr_head_sha policy \<and> Some (td_patch_sha256 e) = pr_patch_sha256 policy)
            ''TDD evidence is not bound to this task and candidate'') (\<lambda>_.
          bindE (pkt (td_command e = at_command a) ''TDD command does not match the TaskSpec acceptance test'') (\<lambda>_.
          bindE (pkt (\<not> (ts_version task = TaskV2 \<and> td_test_paths e \<noteq> at_test_paths a))
            ''TDD test paths do not match the TaskSpec acceptance test'') (\<lambda>_.
          bindE (pkt (red_exit_code (td_red e) \<in> set (at_expected_red_exit_codes a))
            ''TDD RED exit code is not allowed by the TaskSpec'') (\<lambda>_.
          bindE (pkt (Some (red_fingerprint_sha256 (td_red e)) = at_expected_red_fingerprint a)
            ''TDD RED fingerprint does not match the TaskSpec'') (\<lambda>_.
          bindE (pkt (green_exit_code (td_green e) = at_expected_exit_code a)
            ''TDD GREEN exit code does not match the TaskSpec'') (\<lambda>_.
          bindE (pkt (td_test_patch_sha256 e = red_test_patch_sha256 (td_red e)
              \<and> red_test_patch_sha256 (td_red e) = green_test_patch_sha256 (td_green e))
            ''TDD RED and GREEN must use the same test patch'') (\<lambda>_.
          (case build_test_manifest_sha256 sha policy (td_test_paths e) of
             Inl x \<Rightarrow> Inl (PacketModelError x)
           | Inr expected \<Rightarrow> pkt (expected = Some (td_test_manifest_sha256 e))
               ''TDD test manifest is not derived from policy content'')))))))))"

definition validate_packet_tdd ::
    "hash_fn \<Rightarrow> task_spec \<Rightarrow> pystr \<Rightarrow> policy_report \<Rightarrow> tdd_evidence list \<Rightarrow> packet_error + tdd_evidence list" where
  "validate_packet_tdd sha task task_sha256 policy evidence =
     bindE (evidence_loop td_acceptance_test_id ''TDD evidence IDs must be unique'' (tdd_check sha task task_sha256 policy) [] evidence) (\<lambda>_.
     bindE (pkt (set (map td_acceptance_test_id evidence) = set (map at_id (test_acceptances task)))
       ''TDD evidence must cover every test acceptance'') (\<lambda>_.
     Inr (sort_key td_acceptance_test_id evidence)))"

section \<open>Context\<close>

definition encode_strict :: "pystr \<Rightarrow> packet_error + bytes" where
  "encode_strict s = (case utf8_encode s of None \<Rightarrow> Inl PacketUnicodeError | Some b \<Rightarrow> Inr b)"

definition over_limit :: "pystr \<Rightarrow> int \<Rightarrow> int \<Rightarrow> packet_error" where
  "over_limit what n maximum = PacketError (what @ dec_int n @ u '' exceeds limit '' @ dec_int maximum)"

definition field_error :: packet_error where
  "field_error = PacketModelError (ValidationError ''field constraints'')"

definition validate_context_file :: "context_file \<Rightarrow> packet_error + context_file" where
  "validate_context_file c =
     bindE (guardE (text_in 1 4096 (cf_path c) \<and> list_all scalar (cf_content c) \<and> is_sha256 (cf_content_sha256 c)) field_error) (\<lambda>_. Inr c)"

text \<open>The files in the order of their paths, with the bytes read before.\<close>

fun context_files ::
    "packet_env \<Rightarrow> task_spec \<Rightarrow> review_limits \<Rightarrow> int \<Rightarrow> (pystr \<times> pystr) list \<Rightarrow> packet_error + context_file list" where
  "context_files E task l total_bytes [] = Inr []"
| "context_files E task l total_bytes ((path, content) # rest) =
     bindE (pkt (packet_safe_path path) ''context path must be a safe repository-relative POSIX path'') (\<lambda>_.
     bindE (guardE (\<not> packet_protected_path (pk_casefold E) path (ts_denied_paths task))
       (PacketError (u ''context contains protected path: '' @ path))) (\<lambda>_.
     bindE (reject_credentials E (u ''context file '' @ path) content) (\<lambda>_.
     bindE (encode_strict content) (\<lambda>b.
     let n = int (length b); seen = total_bytes + n in
     bindE (guardE (n \<le> pl_max_context_file_bytes l)
       (over_limit (u ''context file '' @ path @ u '' size '') n (pl_max_context_file_bytes l))) (\<lambda>_.
     bindE (guardE (seen \<le> pl_max_context_total_bytes l)
       (over_limit (u ''context total size '') seen (pl_max_context_total_bytes l))) (\<lambda>_.
     bindE (validate_context_file \<lparr>cf_path = path, cf_content = content, cf_content_sha256 = pk_sha E b\<rparr>) (\<lambda>c.
     bindE (context_files E task l seen rest) (\<lambda>cs. Inr (c # cs)))))))))"

definition build_context :: "packet_env \<Rightarrow> task_spec \<Rightarrow> (pystr \<times> pystr) list \<Rightarrow> review_limits \<Rightarrow> packet_error + context_file list" where
  "build_context E task context l =
     bindE (guardE (int (length context) \<le> pl_max_context_files l)
       (over_limit (u ''context file count '') (int (length context)) (pl_max_context_files l))) (\<lambda>_.
     context_files E task l 0 (sort_key fst context))"

section \<open>The packet\<close>

definition model_step :: "model_error + 'a \<Rightarrow> packet_error + 'a" where
  "model_step r = (case r of Inl e \<Rightarrow> Inl (PacketModelError e) | Inr x \<Rightarrow> Inr x)"

definition diff_binding_ok :: "diff_binding \<Rightarrow> bool" where
  "diff_binding_ok b \<longleftrightarrow> is_sha256 (db_task_sha256 b) \<and> is_git_sha (db_base_sha b) \<and> is_git_sha (db_head_sha b)
     \<and> is_sha256 (db_candidate_digest_sha256 b) \<and> is_sha256 (db_trusted_diff_sha256 b)
     \<and> is_sha256 (db_snapshot_manifest_sha256 b) \<and> is_sha256 (db_coordinator_attestation_sha256 b)"

definition artifacts_ok :: "artifact_digests \<Rightarrow> bool" where
  "artifacts_ok a \<longleftrightarrow> is_sha256 (ad_task_sha256 a) \<and> is_sha256 (ad_policy_sha256 a) \<and> is_sha256 (ad_trusted_diff_sha256 a)
     \<and> is_sha256 (ad_context_manifest_sha256 a) \<and> is_sha256 (ad_gates_sha256 a) \<and> is_sha256 (ad_tdd_evidence_sha256 a)"

definition validate_integrity :: "hash_fn \<Rightarrow> review_packet \<Rightarrow> packet_error + review_packet" where
  "validate_integrity sha p =
     (let refuse = (\<lambda>b m. guardE b (PacketModelError (ValidationError m))) in
      bindE (compute_packet_sha256 sha p) (\<lambda>digest.
      bindE (refuse (pa_packet_sha256 p = digest) ''packet SHA-256 does not match its canonical content'') (\<lambda>_.
      bindE (refuse (ad_task_sha256 (pa_artifacts p) = pa_task_sha256 p) ''artifact task SHA-256 does not match packet binding'') (\<lambda>_.
      bindE (refuse (db_candidate_digest_sha256 (pa_binding p) = pa_candidate_digest_sha256 p)
        ''trusted diff binding does not match candidate digest'') (\<lambda>_.
      bindE (refuse (ad_trusted_diff_sha256 (pa_artifacts p) = db_trusted_diff_sha256 (pa_binding p))
        ''artifact diff SHA-256 does not match trusted diff binding'') (\<lambda>_. Inr p))))))"

text \<open>The fields in the order of the class; the \<open>IndexError\<close> of a task passes before the errors of the others.\<close>

definition validate_packet :: "hash_fn \<Rightarrow> fold_fn \<Rightarrow> review_packet \<Rightarrow> packet_error + review_packet" where
  "validate_packet sha casefold p =
     (if validate_task casefold (pa_task p) = Inl IndexError then Inl (PacketModelError IndexError) else
     bindE (guardE (is_sha256 (pa_task_sha256 p)) field_error) (\<lambda>_.
     bindE (model_step (validate_task casefold (pa_task p))) (\<lambda>task.
     bindE (model_step (validate_policy (pa_policy p))) (\<lambda>policy.
     bindE (guardE (is_sha256 (pa_candidate_digest_sha256 p) \<and> list_all scalar (pa_trusted_diff p) \<and> diff_binding_ok (pa_binding p)) field_error) (\<lambda>_.
     bindE (mapE validate_context_file (pa_context p)) (\<lambda>context.
     bindE (mapE (\<lambda>g. model_step (validate_gate g)) (pa_gates p)) (\<lambda>gates.
     bindE (mapE (\<lambda>e. model_step (validate_tdd e)) (pa_tdd p)) (\<lambda>tdd.
     bindE (guardE (artifacts_ok (pa_artifacts p) \<and> is_sha256 (pa_packet_sha256 p)) field_error) (\<lambda>_.
     validate_integrity sha (p\<lparr>pa_task := task, pa_policy := policy, pa_context := context, pa_gates := gates, pa_tdd := tdd\<rparr>))))))))))"

text \<open>The canonical text of a part is searched for credentials.\<close>

definition reject_serialized :: "packet_env \<Rightarrow> string \<Rightarrow> json \<Rightarrow> packet_error + unit" where
  "reject_serialized E label v =
     bindE (packet_canonical v) (\<lambda>b.
     case utf8_decode b of
       None \<Rightarrow> Inl PacketUnicodeError
     | Some s \<Rightarrow> reject_credentials E (u label) s)"

definition checked_task_and_policy :: "packet_env \<Rightarrow> review_limits \<Rightarrow> task_spec \<Rightarrow> pystr \<Rightarrow> policy_report \<Rightarrow> packet_error + pystr" where
  "checked_task_and_policy E l task task_sha256 policy =
     bindE (validate_base_bindings task task_sha256 policy) (\<lambda>digest.
     bindE (validate_policy_paths (pk_casefold E) task policy) (\<lambda>_.
     bindE (reject_serialized E ''TaskSpec'' (task_json task)) (\<lambda>_.
     bindE (reject_serialized E ''PolicyReport'' (policy_json policy)) (\<lambda>_.
     bindE (bounded_serialized (task_json task) (pl_max_task_bytes l) ''TaskSpec'') (\<lambda>_.
     bindE (bounded_serialized (policy_json policy) (pl_max_policy_bytes l) ''PolicyReport'') (\<lambda>_.
     Inr digest))))))"

definition checked_diff ::
    "packet_env \<Rightarrow> review_limits \<Rightarrow> task_spec \<Rightarrow> pystr \<Rightarrow> policy_report \<Rightarrow> pystr \<Rightarrow> diff_binding \<Rightarrow> packet_error + pystr" where
  "checked_diff E l task task_sha256 policy diff binding =
     bindE (pkt (diff \<noteq> []) ''trusted diff must be non-empty text'') (\<lambda>_.
     bindE (reject_credentials E (u ''trusted diff'') diff) (\<lambda>_.
     bindE (validate_diff_paths (pk_casefold E) task policy diff) (\<lambda>_.
     bindE (encode_strict diff) (\<lambda>b.
     bindE (guardE (int (length b) \<le> pl_max_diff_bytes l)
       (over_limit (u ''trusted diff size '') (int (length b)) (pl_max_diff_bytes l))) (\<lambda>_.
     bindE (validate_trusted_diff_binding binding task task_sha256 policy (pk_sha E b)) (\<lambda>_.
     Inr (pk_sha E b)))))))"

definition checked_gates ::
    "packet_env \<Rightarrow> review_limits \<Rightarrow> task_spec \<Rightarrow> pystr \<Rightarrow> policy_report \<Rightarrow> gate_result list \<Rightarrow> packet_error + gate_result list" where
  "checked_gates E l task task_sha256 policy gates =
     bindE (validate_packet_gates task task_sha256 policy gates) (\<lambda>gs.
     bindE (pkt (int (length gs) \<le> pl_max_gate_results l) ''gate result count exceeds limit'') (\<lambda>_.
     bindE (bounded_serialized (JArr (map gate_json gs)) (pl_max_gate_bytes l) ''gate evidence'') (\<lambda>_.
     bindE (reject_serialized E ''gate evidence'' (JArr (map gate_json gs))) (\<lambda>_. Inr gs))))"

definition checked_tdd ::
    "packet_env \<Rightarrow> review_limits \<Rightarrow> task_spec \<Rightarrow> pystr \<Rightarrow> policy_report \<Rightarrow> tdd_evidence list \<Rightarrow> packet_error + tdd_evidence list" where
  "checked_tdd E l task task_sha256 policy evidence =
     bindE (validate_packet_tdd (pk_sha E) task task_sha256 policy evidence) (\<lambda>es.
     bindE (pkt (int (length es) \<le> pl_max_tdd_evidence l) ''TDD evidence count exceeds limit'') (\<lambda>_.
     bindE (bounded_serialized (JArr (map tdd_json es)) (pl_max_tdd_bytes l) ''TDD evidence'') (\<lambda>_.
     bindE (reject_serialized E ''TDD evidence'' (JArr (map tdd_json es))) (\<lambda>_. Inr es))))"

definition context_manifest_json :: "context_file list \<Rightarrow> json" where
  "context_manifest_json cs =
     JArr (map (\<lambda>c. obj [(''path'', JStr (cf_path c)), (''content_sha256'', JStr (cf_content_sha256 c))]) cs)"

definition build_artifacts ::
    "hash_fn \<Rightarrow> pystr \<Rightarrow> policy_report \<Rightarrow> pystr \<Rightarrow> context_file list \<Rightarrow> gate_result list \<Rightarrow> tdd_evidence list
     \<Rightarrow> packet_error + artifact_digests" where
  "build_artifacts sha task_sha256 policy diff_sha256 context gates tdd =
     bindE (packet_sha256_of sha (policy_json policy)) (\<lambda>policy_sha.
     bindE (packet_sha256_of sha (context_manifest_json context)) (\<lambda>context_sha.
     bindE (packet_sha256_of sha (JArr (map gate_json gates))) (\<lambda>gates_sha.
     bindE (packet_sha256_of sha (JArr (map tdd_json tdd))) (\<lambda>tdd_sha.
     let a = \<lparr>ad_task_sha256 = task_sha256, ad_policy_sha256 = policy_sha, ad_trusted_diff_sha256 = diff_sha256,
       ad_context_manifest_sha256 = context_sha, ad_gates_sha256 = gates_sha, ad_tdd_evidence_sha256 = tdd_sha\<rparr> in
     bindE (guardE (artifacts_ok a) field_error) (\<lambda>_. Inr a)))))"

definition build_review_packet ::
    "packet_env \<Rightarrow> review_limits \<Rightarrow> task_spec \<Rightarrow> pystr \<Rightarrow> policy_report \<Rightarrow> pystr \<Rightarrow> diff_binding \<Rightarrow> (pystr \<times> pystr) list
     \<Rightarrow> gate_result list \<Rightarrow> tdd_evidence list \<Rightarrow> packet_error + review_packet" where
  "build_review_packet E l task task_sha256 policy diff binding context gates tdd =
     bindE (checked_task_and_policy E l task task_sha256 policy) (\<lambda>digest.
     bindE (checked_diff E l task task_sha256 policy diff binding) (\<lambda>diff_sha256.
     bindE (checked_gates E l task task_sha256 policy gates) (\<lambda>gs.
     bindE (checked_tdd E l task task_sha256 policy tdd) (\<lambda>es.
     bindE (build_context E task context l) (\<lambda>cs.
     bindE (build_artifacts (pk_sha E) task_sha256 policy diff_sha256 cs gs es) (\<lambda>artifacts.
     let p = \<lparr>pa_task_sha256 = task_sha256, pa_task = task, pa_policy = policy, pa_candidate_digest_sha256 = digest,
       pa_trusted_diff = diff, pa_binding = binding, pa_context = cs, pa_gates = gs, pa_tdd = es, pa_artifacts = artifacts,
       pa_packet_sha256 = []\<rparr> in
     bindE (compute_packet_sha256 (pk_sha E) p) (\<lambda>packet_sha.
     bindE (validate_packet (pk_sha E) (pk_casefold E) (p\<lparr>pa_packet_sha256 := packet_sha\<rparr>)) (\<lambda>packet.
     bindE (canonical_packet_bytes (pk_sha E) packet) (\<lambda>b.
     bindE (guardE (int (length b) \<le> pl_max_packet_bytes l)
       (over_limit (u ''packet size '') (int (length b)) (pl_max_packet_bytes l))) (\<lambda>_. Inr packet))))))))))"

end
