(* ===== verification/Review_Packet_Facts.thy ===== *)
theory Review_Packet_Facts
  imports Review_Packet Judge_Facts
begin

text \<open>
  What a review packet promises: the evidence in it is what the judge demands, its files are those
  the policy passed, it does not depend on the order its parts are given in, and its bytes determine
  it.
\<close>

section \<open>Success of the checks\<close>

lemma pkt_eq_Inr [result_simps]: "pkt b m = Inr x \<longleftrightarrow> b"
  by (simp add: pkt_def result_simps)

lemma model_step_eq_Inr [result_simps]: "model_step r = Inr x \<longleftrightarrow> r = Inr x"
  by (simp add: model_step_def split: sum.split)

lemma evidence_loop_Inr:
  "evidence_loop key duplicate f seen xs = Inr y \<longleftrightarrow>
     distinct (map key xs) \<and> set (map key xs) \<inter> set seen = {} \<and> (\<forall>x \<in> set xs. f x = Inr ())"
  by (induction xs arbitrary: seen) (auto simp: result_simps)

lemma base_bindings_Inr:
  "validate_base_bindings task h policy = Inr d \<longleftrightarrow> is_sha256 h \<and> h = pr_task_sha256 policy \<and> ts_task_id task = pr_task_id policy
     \<and> ts_base_sha task = pr_base_sha policy \<and> ts_trusted_harness_sha256 task = pr_trusted_harness_sha256 policy
     \<and> pr_passed policy \<and> pr_patch_sha256 policy = Some d"
  by (auto simp: validate_base_bindings_def result_simps split: option.splits)

text \<open>The parts a packet is built from.\<close>

definition packet_built ::
    "packet_env \<Rightarrow> review_limits \<Rightarrow> task_spec \<Rightarrow> pystr \<Rightarrow> policy_report \<Rightarrow> pystr \<Rightarrow> diff_binding \<Rightarrow> (pystr \<times> pystr) list
     \<Rightarrow> gate_result list \<Rightarrow> tdd_evidence list \<Rightarrow> review_packet \<Rightarrow> context_file list \<Rightarrow> bool" where
  "packet_built E l task h policy diff binding context gates tdd p cs \<longleftrightarrow>
     (\<exists>digest diff_sha gs es artifacts s b.
        checked_task_and_policy E l task h policy = Inr digest
        \<and> checked_diff E l task h policy diff binding = Inr diff_sha
        \<and> checked_gates E l task h policy gates = Inr gs \<and> checked_tdd E l task h policy tdd = Inr es
        \<and> build_context E task context l = Inr cs
        \<and> validate_packet (pk_sha E) (pk_casefold E)
            \<lparr>pa_task_sha256 = h, pa_task = task, pa_policy = policy, pa_candidate_digest_sha256 = digest,
              pa_trusted_diff = diff, pa_binding = binding, pa_context = cs, pa_gates = gs, pa_tdd = es,
              pa_artifacts = artifacts, pa_packet_sha256 = s\<rparr> = Inr p
        \<and> canonical_packet_bytes (pk_sha E) p = Inr b \<and> int (length b) \<le> pl_max_packet_bytes l)"

lemma build_review_packet_Inr:
  assumes "build_review_packet E l task h policy diff binding context gates tdd = Inr p"
  shows "\<exists>cs. packet_built E l task h policy diff binding context gates tdd p cs"
  using assms unfolding build_review_packet_def packet_built_def Let_def
  by (simp only: bindE_eq_Inr guardE_eq_Inr review_packet.simps) blast

lemma validate_context_file_Inr: "validate_context_file c = Inr d \<Longrightarrow> d = c"
  by (simp add: validate_context_file_def result_simps)

lemma validate_integrity_Inr: "validate_integrity sha p = Inr q \<Longrightarrow> q = p"
  by (auto simp: validate_integrity_def Let_def result_simps)

lemma validate_packet_Inr:
  assumes "validate_packet sha casefold p = Inr q"
  shows "\<exists>task tdd. validate_task casefold (pa_task p) = Inr task \<and> validate_policy (pa_policy p) = Inr (pa_policy p)
      \<and> (\<forall>g \<in> set (pa_gates p). validate_gate g = Inr g) \<and> mapE (\<lambda>e. model_step (validate_tdd e)) (pa_tdd p) = Inr tdd
      \<and> q = p\<lparr>pa_task := task, pa_tdd := tdd\<rparr>"
proof -
  from assms obtain task policy cs gs tdd where
      task: "validate_task casefold (pa_task p) = Inr task" and policy: "validate_policy (pa_policy p) = Inr policy"
      and cs: "mapE validate_context_file (pa_context p) = Inr cs"
      and gs: "mapE (\<lambda>g. model_step (validate_gate g)) (pa_gates p) = Inr gs"
      and tdd: "mapE (\<lambda>e. model_step (validate_tdd e)) (pa_tdd p) = Inr tdd"
      and q: "validate_integrity sha (p\<lparr>pa_task := task, pa_policy := policy, pa_context := cs, pa_gates := gs, pa_tdd := tdd\<rparr>) = Inr q"
    unfolding validate_packet_def by (auto simp only: result_simps split: if_splits)
  have "cs = pa_context p" using mapE_same [OF cs] validate_context_file_Inr by blast
  moreover have "gs = pa_gates p \<and> (\<forall>g \<in> set (pa_gates p). model_step (validate_gate g) = Inr g)"
    by (rule mapE_same [OF gs]) (simp add: result_simps validate_gate_iff)
  moreover have "policy = pa_policy p" using policy by (simp add: validate_policy_iff)
  ultimately show ?thesis using task policy tdd validate_integrity_Inr [OF q]
    by (auto simp: result_simps)
qed

section \<open>The judge finds nothing in the evidence of a packet\<close>

lemma raw_task_ids:
  assumes "validate_task casefold task = Inr t"
  shows "distinct (map at_id (ts_acceptance_tests task))"
proof -
  from assms obtain tests where tests: "mapE (validate_acceptance casefold) (ts_acceptance_tests task) = Inr tests"
      and unique: "unique_ids (task\<lparr>ts_acceptance_tests := tests\<rparr>)"
    by (auto simp: validate_task_iff)
  have "map at_id tests = map at_id (ts_acceptance_tests task)"
    by (rule mapE_eq_map [OF tests]) (rule validate_acceptance_facts(1))
  with unique show ?thesis by (simp add: unique_ids_def)
qed

lemma checked_gates_Inr:
  assumes "checked_gates E l task h policy gates = Inr gs"
  shows "gs = sort_key gr_acceptance_test_id gates" "gates \<noteq> []" "distinct (map gr_acceptance_test_id gates)"
    "set (map gr_acceptance_test_id gates) = set (map at_id (ts_acceptance_tests task))"
    "g \<in> set gates \<Longrightarrow> gate_check task h policy g = Inr ()"
  using assms by (auto simp: checked_gates_def validate_packet_gates_def result_simps evidence_loop_Inr)

lemma checked_tdd_Inr:
  assumes "checked_tdd E l task h policy tdd = Inr es"
  shows "es = sort_key td_acceptance_test_id tdd" "distinct (map td_acceptance_test_id tdd)"
    "set (map td_acceptance_test_id tdd) = set (map at_id (test_acceptances task))"
    "e \<in> set tdd \<Longrightarrow> tdd_check (pk_sha E) task h policy e = Inr ()"
  using assms by (auto simp: checked_tdd_def validate_packet_tdd_def result_simps evidence_loop_Inr)

lemma checked_gate_has_no_reasons:
  assumes "gate_check task h policy g = Inr ()"
  shows "gate_reasons task policy h g = []" "gr_passed g"
  using assms by (auto simp: gate_check_def gate_reasons_def Let_def result_simps split: option.splits)

lemma by_key_filter:
  assumes "by_key key (filter P xs) k = Some x" and "distinct (map key xs)"
  shows "by_key key xs k = Some x \<and> P x"
  using by_key_SomeD [OF assms(1)] by_key_distinct [OF assms(2)] by auto

lemma checked_tdd_has_no_reasons:
  assumes check: "tdd_check sha task h policy e = Inr ()" and valid: "validate_tdd e = Inr e'"
    and ids: "distinct (map at_id (ts_acceptance_tests task))"
  shows "tdd_binding_reasons task policy e h = []"
    "tdd_acceptance_reasons task e (by_key at_id (ts_acceptance_tests task) (td_acceptance_test_id e)) = []"
    "tdd_snapshot_reasons e = []"
    "\<exists>m. build_test_manifest_sha256 sha policy (td_test_paths e) = Inr m \<and> tdd_path_reasons policy e m = []"
proof -
  from check obtain a where a: "by_key at_id (test_acceptances task) (td_acceptance_test_id e) = Some a"
    by (auto simp: tdd_check_def split: option.splits)
  from by_key_filter [OF this [unfolded test_acceptances_def] ids]
  have found: "by_key at_id (ts_acceptance_tests task) (td_acceptance_test_id e) = Some a" "at_kind a = KTest" by simp_all
  from check a obtain m where m: "build_test_manifest_sha256 sha policy (td_test_paths e) = Inr m" "m = Some (td_test_manifest_sha256 e)"
    by (auto simp: tdd_check_def result_simps split: sum.splits)
  show "tdd_binding_reasons task policy e h = []"
    using check a by (auto simp: tdd_check_def tdd_binding_reasons_def result_simps)
  show "tdd_acceptance_reasons task e (by_key at_id (ts_acceptance_tests task) (td_acceptance_test_id e)) = []"
    using check a unfolding found by (auto simp: tdd_check_def tdd_acceptance_reasons_def result_simps found)
  show "tdd_snapshot_reasons e = []"
    using check a valid
    by (auto simp: tdd_check_def tdd_snapshot_reasons_def validate_tdd_def snapshot_bindings_def result_simps split: if_splits)
  from m obtain b where "manifest_bytes (by_key df_path (pr_changed_files policy)) (sort (td_test_paths e)) = Inr (Some b)"
    by (auto simp: build_test_manifest_sha256_def result_simps)
  from manifest_bytes_inject [OF this this]
  have "set (td_test_paths e) \<subseteq> df_path ` set (pr_changed_files policy)"
    by (auto dest!: bspec by_key_SomeD)
  then show "\<exists>m. build_test_manifest_sha256 sha policy (td_test_paths e) = Inr m \<and> tdd_path_reasons policy e m = []"
    using m by (auto simp: tdd_path_reasons_def Let_def)
qed

lemma packet_evidence_valid:
  assumes "packet_built E l task h policy diff binding context gates tdd p cs"
  shows "validate_policy policy = Inr policy" "distinct (map at_id (ts_acceptance_tests task))"
    "\<forall>e \<in> set tdd. \<exists>e'. validate_tdd e = Inr e'"
proof -
  from assms obtain digest gs es artifacts s where es: "checked_tdd E l task h policy tdd = Inr es"
      and valid: "validate_packet (pk_sha E) (pk_casefold E)
            \<lparr>pa_task_sha256 = h, pa_task = task, pa_policy = policy, pa_candidate_digest_sha256 = digest,
              pa_trusted_diff = diff, pa_binding = binding, pa_context = cs, pa_gates = gs, pa_tdd = es,
              pa_artifacts = artifacts, pa_packet_sha256 = s\<rparr> = Inr p"
    unfolding packet_built_def by blast
  from validate_packet_Inr [OF valid] raw_task_ids
  show "validate_policy policy = Inr policy" "distinct (map at_id (ts_acceptance_tests task))" by auto
  have "set es = set tdd" by (simp add: checked_tdd_Inr(1) [OF es])
  moreover from validate_packet_Inr [OF valid] obtain vs where "mapE (\<lambda>e. model_step (validate_tdd e)) es = Inr vs" by auto
  then have "\<forall>e \<in> set es. \<exists>e'. model_step (validate_tdd e) = Inr e'"
    unfolding mapE_eq_Inr by (auto simp: list_all2_conv_all_nth in_set_conv_nth)
  ultimately show "\<forall>e \<in> set tdd. \<exists>e'. validate_tdd e = Inr e'" by (simp add: result_simps)
qed

lemma built_packet_has_no_reasons:
  assumes built: "packet_built E l task h policy diff binding context gates tdd p cs" and e: "e \<in> set tdd"
  shows "judge_reasons (pk_sha E) task policy reviews gates e h
    = Inr (from_keys (role_reasons reviews @ concat (map (review_reasons task policy h) reviews) @ identity_reasons reviews))"
proof -
  from built obtain digest gs es where parts: "checked_task_and_policy E l task h policy = Inr digest"
      "checked_gates E l task h policy gates = Inr gs" "checked_tdd E l task h policy tdd = Inr es"
    unfolding packet_built_def by blast
  note valid = packet_evidence_valid [OF built]
  from valid(3) e obtain e' where e': "validate_tdd e = Inr e'" by blast
  note no_tdd = checked_tdd_has_no_reasons [OF checked_tdd_Inr(4) [OF parts(3) e] e' valid(2)]
  from no_tdd(4) obtain m where m: "build_test_manifest_sha256 (pk_sha E) policy (td_test_paths e) = Inr m"
      "tdd_path_reasons policy e m = []" by blast
  have policy: "policy_reasons task policy h = []"
    using parts(1) by (auto simp: checked_task_and_policy_def base_bindings_Inr result_simps policy_reasons_def)
  have set: "gate_set_reasons task gates = []"
    using checked_gates_Inr(3,4) [OF parts(2)] unfolding gate_set_reasons_Nil [OF valid(2)] same_keys_mset [OF valid(2)] by blast
  have gates: "concat (map (gate_reasons task policy h) gates) = []"
    using checked_gates_Inr(5) [OF parts(2)] checked_gate_has_no_reasons by auto
  show ?thesis
    unfolding judge_reasons_def m(1) by (simp only: bindE_simps no_tdd(1-3) m(2) policy set gates append_Nil)
qed

text \<open>
  C37. When a packet is built, the judge has nothing against its evidence: for every item of the test
  evidence the reasons of the verdict are those of the reviews alone, and every gate passed.
\<close>

theorem packet_evidence_passes_the_judge:
  "case build_review_packet E l task h policy diff binding context gates tdd of
     Inl _ \<Rightarrow> True
   | Inr p \<Rightarrow> list_all gr_passed gates \<and> pa_gates p = sort_key gr_acceptance_test_id gates
       \<and> list_all (\<lambda>e. judge_reasons (pk_sha E) task policy reviews gates e h
           = Inr (from_keys (role_reasons reviews @ concat (map (review_reasons task policy h) reviews) @ identity_reasons reviews))) tdd"
proof (cases "build_review_packet E l task h policy diff binding context gates tdd")
  case (Inr p)
  then obtain cs where built: "packet_built E l task h policy diff binding context gates tdd p cs"
    using build_review_packet_Inr by blast
  then obtain digest gs es artifacts s where gs: "checked_gates E l task h policy gates = Inr gs"
      and valid: "validate_packet (pk_sha E) (pk_casefold E)
            \<lparr>pa_task_sha256 = h, pa_task = task, pa_policy = policy, pa_candidate_digest_sha256 = digest,
              pa_trusted_diff = diff, pa_binding = binding, pa_context = cs, pa_gates = gs, pa_tdd = es,
              pa_artifacts = artifacts, pa_packet_sha256 = s\<rparr> = Inr p"
    unfolding packet_built_def by blast
  from checked_gates_Inr(5) [OF gs] checked_gate_has_no_reasons(2) have "list_all gr_passed gates"
    unfolding list_all_iff by blast
  moreover from validate_packet_Inr [OF valid] have "pa_gates p = gs" by auto
  ultimately show ?thesis
    using Inr built_packet_has_no_reasons [OF built] checked_gates_Inr(1) [OF gs] by (simp add: list_all_iff)
qed simp

section \<open>The files of a packet\<close>

lemma diff_header_Inr:
  "diff_header casefold task line = Inr p \<Longrightarrow> packet_safe_path p \<and> \<not> packet_protected_path casefold p (ts_denied_paths task)"
  by (auto simp: diff_header_def result_simps split: option.splits list.splits)

lemma validate_diff_paths_Inr:
  assumes "validate_diff_paths casefold task policy diff = Inr x"
  shows "\<exists>paths. mapE (diff_header casefold task) (filter (\<lambda>l. take 11 l = u ''diff --git '') (splitlines diff)) = Inr paths
    \<and> distinct paths \<and> paths \<noteq> [] \<and> set paths = set (map df_path (pr_changed_files policy))"
  using assms by (auto simp: validate_diff_paths_def result_simps)

definition total_size :: "context_file list \<Rightarrow> nat" where
  "total_size cs = sum_list (map (\<lambda>c. case utf8_encode (cf_content c) of None \<Rightarrow> 0 | Some b \<Rightarrow> length b) cs)"

definition context_file_allowed :: "packet_env \<Rightarrow> task_spec \<Rightarrow> context_file \<Rightarrow> bool" where
  "context_file_allowed E task c \<longleftrightarrow> packet_safe_path (cf_path c) \<and> \<not> packet_protected_path (pk_casefold E) (cf_path c) (ts_denied_paths task)
     \<and> reject_credentials E (u ''context file '' @ cf_path c) (cf_content c) = Inr ()
     \<and> (case utf8_encode (cf_content c) of None \<Rightarrow> False | Some b \<Rightarrow> cf_content_sha256 c = pk_sha E b)"

lemma context_files_Inr:
  "context_files E task l n files = Inr cs \<Longrightarrow> map (\<lambda>c. (cf_path c, cf_content c)) cs = files
     \<and> list_all (context_file_allowed E task) cs \<and> (cs \<noteq> [] \<longrightarrow> n + int (total_size cs) \<le> pl_max_context_total_bytes l)"
proof (induction files arbitrary: n cs)
  case (Cons f fs)
  obtain path content where f: "f = (path, content)" by (cases f)
  from Cons.prems obtain b c rest where b: "utf8_encode content = Some b"
      and c: "c = \<lparr>cf_path = path, cf_content = content, cf_content_sha256 = pk_sha E b\<rparr>"
      and fits: "n + int (length b) \<le> pl_max_context_total_bytes l"
      and rest: "context_files E task l (n + int (length b)) fs = Inr rest" and cs: "cs = c # rest"
      and path: "packet_safe_path path" "\<not> packet_protected_path (pk_casefold E) path (ts_denied_paths task)"
      and clean: "reject_credentials E (u ''context file '' @ path) content = Inr ()"
    by (auto simp: f result_simps Let_def encode_strict_def dest!: validate_context_file_Inr split: option.splits)
  from Cons.IH [OF rest] fits show ?case
    by (auto simp: f cs c b path clean context_file_allowed_def total_size_def)
qed (simp add: total_size_def)


section \<open>The bytes of a packet\<close>

lemma context_form: "json_form context_json"
  unfolding context_json_def by unfold_locales (drule jsort_obj_inject, auto intro: context_file.equality)

interpretation context_form: json_form context_json by (rule context_form)

lemma binding_form: "json_form binding_json"
  unfolding binding_json_def by unfold_locales (drule jsort_obj_inject, auto intro: diff_binding.equality)

interpretation binding_form: json_form binding_json by (rule binding_form)

lemma artifacts_form: "json_form artifacts_json"
  unfolding artifacts_json_def by unfold_locales (drule jsort_obj_inject, auto intro: artifact_digests.equality)

interpretation artifacts_form: json_form artifacts_json by (rule artifacts_form)

lemma packet_form: "json_form packet_json"
  unfolding packet_json_def packet_body_def by unfold_locales (drule jsort_obj_inject, auto intro: review_packet.equality)

interpretation packet_form: json_form packet_json by (rule packet_form)

lemma canonical_packet_bytes_Inr:
  assumes "canonical_packet_bytes sha p = Inr a"
  shows "\<exists>s b. dumps (packet_json p) = Some s \<and> utf8_encode s = Some b \<and> a = b @ [CHR 0x0A]"
  using assms by (auto simp: canonical_packet_bytes_def packet_canonical_def result_simps split: option.splits)

text \<open>
  C39. The canonical bytes of a packet determine it: two packets whose integers Python prints have
  the same bytes only when they are the same, in every part of the task, the report, the evidence
  and the context.
\<close>

theorem packet_bytes_determine_the_packet:
  "if plain (packet_json p) \<and> plain (packet_json q) then
     (case canonical_packet_bytes sha p of
        Inl _ \<Rightarrow> True
      | Inr a \<Rightarrow> (case canonical_packet_bytes sha q of Inl _ \<Rightarrow> True | Inr b \<Rightarrow> (a = b) = (p = q)))
   else True"
proof -
  have "p = q" if plain: "plain (packet_json p)" "plain (packet_json q)"
    and a: "canonical_packet_bytes sha p = Inr a" and b: "canonical_packet_bytes sha q = Inr a" for a
  proof -
    obtain s x where s: "dumps (packet_json p) = Some s" "utf8_encode s = Some x" "a = x @ [CHR 0x0A]"
      using canonical_packet_bytes_Inr [OF a] by blast
    obtain t y where t: "dumps (packet_json q) = Some t" "utf8_encode t = Some y" "a = y @ [CHR 0x0A]"
      using canonical_packet_bytes_Inr [OF b] by blast
    have "s = t" using s t by (metis append1_eq_conv utf8_encode_inject)
    then have "jsort (packet_json p) = jsort (packet_json q)" using s t dumps_inject [OF plain] by simp
    then show ?thesis by (rule packet_form.inject)
  qed
  then show ?thesis by (auto split: sum.split)
qed

section \<open>The order of the evidence\<close>

definition succeeds :: "'e + 'a \<Rightarrow> 'a option" where
  "succeeds r = (case r of Inl _ \<Rightarrow> None | Inr x \<Rightarrow> Some x)"

lemma succeeds_simps [simp]: "succeeds (Inl e) = None" "succeeds (Inr x) = Some x"
  by (simp_all add: succeeds_def)

lemma succeeds_bind:
  assumes "succeeds m = succeeds m'" and "\<And>x. succeeds (f x) = succeeds (f' x)"
  shows "succeeds (bindE m f) = succeeds (bindE m' f')"
  using assms(1) assms(2) by (cases m; cases m') (simp_all add: succeeds_simps)

lemma succeeds_eqI: "(\<And>x. r = Inr x \<longleftrightarrow> r' = Inr x) \<Longrightarrow> succeeds r = succeeds r'"
  by (cases r; cases r') (auto simp: succeeds_def)

lemma sort_key_distinct:
  assumes "mset xs = mset ys" and "distinct (map key xs)"
  shows "sort_key key xs = sort_key key ys"
  using assms by (intro sort_key_inj_key_eq) (auto simp: distinct_map)

lemma distinct_keys_mset: "mset xs = mset ys \<Longrightarrow> distinct (map key xs) \<longleftrightarrow> distinct (map key ys)"
  using mset_eq_imp_distinct_iff [of "map key xs" "map key ys"] by simp

lemma checked_gates_order:
  assumes "mset gates = mset gates'"
  shows "succeeds (checked_gates E l task h policy gates) = succeeds (checked_gates E l task h policy gates')"
proof -
  have "set gates = set gates'" by (rule mset_eq_setD [OF assms])
  moreover from this have "gates = [] \<longleftrightarrow> gates' = []" by (cases gates; cases gates') auto
  ultimately have "validate_packet_gates task h policy gates = Inr gs \<longleftrightarrow> validate_packet_gates task h policy gates' = Inr gs" for gs
    using sort_key_distinct [OF assms] distinct_keys_mset [OF assms]
    by (auto simp: validate_packet_gates_def result_simps evidence_loop_Inr)
  from succeeds_eqI [OF this] show ?thesis unfolding checked_gates_def by (rule succeeds_bind) simp
qed

lemma checked_tdd_order:
  assumes "mset tdd = mset tdd'"
  shows "succeeds (checked_tdd E l task h policy tdd) = succeeds (checked_tdd E l task h policy tdd')"
proof -
  have "set tdd = set tdd'" by (rule mset_eq_setD [OF assms])
  then have "validate_packet_tdd (pk_sha E) task h policy tdd = Inr es \<longleftrightarrow> validate_packet_tdd (pk_sha E) task h policy tdd' = Inr es" for es
    using sort_key_distinct [OF assms] distinct_keys_mset [OF assms]
    by (auto simp: validate_packet_tdd_def result_simps evidence_loop_Inr)
  from succeeds_eqI [OF this] show ?thesis unfolding checked_tdd_def by (rule succeeds_bind) simp
qed

lemma build_context_order:
  "mset context' = mset files \<Longrightarrow> distinct (map fst context') \<Longrightarrow> build_context E task context' l = build_context E task files l"
  by (simp add: build_context_def sort_key_distinct [of context' files] mset_eq_length [of context' files])

text \<open>
  C40. A packet does not depend on the order in which its gates, its test evidence and its context
  files are given: what one order builds every order builds, and where one is refused all are.
\<close>

theorem packet_ignores_the_order_of_its_parts:
  "if mset gates = mset gates' \<and> mset tdd = mset tdd' \<and> mset files = mset files' \<and> distinct (map fst files) then
     succeeds (build_review_packet E l task h policy diff binding files gates tdd)
     = succeeds (build_review_packet E l task h policy diff binding files' gates' tdd')
   else True"
proof -
  have ?thesis if g: "mset gates = mset gates'" and t: "mset tdd = mset tdd'" and f: "mset files = mset files'" "distinct (map fst files)"
  proof -
    have c: "build_context E task files l = build_context E task files' l" using build_context_order [OF f] .
    have "succeeds (build_review_packet E l task h policy diff binding files gates tdd)
      = succeeds (build_review_packet E l task h policy diff binding files' gates' tdd')"
      unfolding build_review_packet_def c
      by (intro succeeds_bind checked_gates_order [OF g] checked_tdd_order [OF t] refl)
    then show ?thesis by simp
  qed
  then show ?thesis by simp
qed

end
